(* ===== verification/Prelude.thy ===== *)
theory Prelude
  imports Main "HOL-Library.Word" "HOL-Library.Char_ord" "HOL-Library.List_Lexorder"
    "HOL-Library.Sublist" "HOL-Library.Multiset"
begin

text \<open>
  What the Go standard library gives the program, and what every component of the
  development shares.

  \<^item> \<open>int64\<close> values are \<open>int\<close>; the sites where the source adds, subtracts or multiplies
    them apply \<open>wrap64\<close>, two's complement reduction to 64 bits.
  \<^item> A Go \<open>[]byte\<close> is a list of \<open>8 word\<close>; a Go \<open>string\<close> is an Isabelle \<open>string\<close>, whose
    characters are bytes, so that \<open>length\<close> is Go's \<open>len\<close>. The order on strings is the
    bytewise order of Go's \<open><\<close> and of SQL's binary collation.
  \<^item> \<open>strings.HasPrefix\<close>, \<open>IndexByte\<close>, \<open>Split\<close> and their kin are the functions below, with
    the lemmas that characterise them.
  \<^item> \<open>encoding/hex\<close> and \<open>binary.BigEndian.PutUint64\<close> with their round trips.
\<close>

type_synonym byte = "8 word"
type_synonym bytes = "8 word list"
type_synonym int64 = int

named_theorems go_strings \<open>definitions of the string library\<close>

section \<open>64-bit integers\<close>

definition wrap64 :: "int \<Rightarrow> int64" where
  "wrap64 x = (x + 2 ^ 63) mod 2 ^ 64 - 2 ^ 63"

definition in_int64 :: "int \<Rightarrow> bool" where
  "in_int64 x \<longleftrightarrow> - (2 ^ 63) \<le> x \<and> x < 2 ^ 63"

definition maxInt64 :: int64 where
  "maxInt64 = 2 ^ 63 - 1"

lemma wrap64_id [simp]: "in_int64 x \<Longrightarrow> wrap64 x = x"
  by (simp add: wrap64_def in_int64_def)

lemma wrap64_in_int64 [simp]: "in_int64 (wrap64 x)"
proof -
  have "0 \<le> (x + 2 ^ 63) mod 2 ^ 64" "(x + 2 ^ 63) mod 2 ^ 64 < (2::int) ^ 64"
    by simp_all
  then show ?thesis
    by (simp add: wrap64_def in_int64_def)
qed

lemma wrap64_mod: "wrap64 x mod 2 ^ 64 = x mod 2 ^ 64"
proof -
  have "((x + 2 ^ 63) mod 2 ^ 64 - 2 ^ 63) mod 2 ^ 64 = (x + 2 ^ 63 - 2 ^ 63) mod (2::int) ^ 64"
    by (rule mod_diff_left_eq)
  then show ?thesis
    by (simp add: wrap64_def)
qed

lemma in_int64_mod_inj:
  assumes "in_int64 x" and "in_int64 y" and "x mod 2 ^ 64 = y mod 2 ^ 64"
  shows "x = y"
proof -
  have "(x + 2 ^ 63) mod 2 ^ 64 = (y + 2 ^ 63) mod (2::int) ^ 64"
    using assms(3) by (rule mod_add_cong) simp
  then have "wrap64 x = wrap64 y"
    by (simp add: wrap64_def)
  with assms(1,2) show ?thesis by simp
qed

section \<open>Strings\<close>

definition HasPrefix :: "'a list \<Rightarrow> 'a list \<Rightarrow> bool" where
  "HasPrefix s p \<longleftrightarrow> prefix p s"

definition HasSuffix :: "'a list \<Rightarrow> 'a list \<Rightarrow> bool" where
  "HasSuffix s p \<longleftrightarrow> suffix p s"

definition TrimSuffix :: "'a list \<Rightarrow> 'a list \<Rightarrow> 'a list" where
  "TrimSuffix s p = (if HasSuffix s p then take (length s - length p) s else s)"

text \<open>\<open>strings.Index\<close>: the least position at which \<open>p\<close> starts, \<open>None\<close> for Go's \<open>-1\<close>.\<close>

fun Index :: "'a list \<Rightarrow> 'a list \<Rightarrow> nat option" where
  "Index s p =
     (if prefix p s then Some 0
      else case s of [] \<Rightarrow> None | _ # s' \<Rightarrow> map_option Suc (Index s' p))"

declare Index.simps [simp del]

definition Contains :: "'a list \<Rightarrow> 'a list \<Rightarrow> bool" where
  "Contains s p \<longleftrightarrow> Index s p \<noteq> None"

fun IndexByte :: "'a list \<Rightarrow> 'a \<Rightarrow> nat option" where
  "IndexByte [] c = None"
| "IndexByte (x # xs) c = (if x = c then Some 0 else map_option Suc (IndexByte xs c))"

text \<open>\<open>strings.Split\<close> on a one-byte separator: never empty, \<open>[[]]\<close> on the empty string.\<close>

fun SplitByte :: "'a \<Rightarrow> 'a list \<Rightarrow> 'a list list" where
  "SplitByte c [] = [[]]"
| "SplitByte c (x # xs) =
     (if x = c then [] # SplitByte c xs
      else case SplitByte c xs of [] \<Rightarrow> [[x]] | p # ps \<Rightarrow> (x # p) # ps)"

definition TrimRightByte :: "'a \<Rightarrow> 'a list \<Rightarrow> 'a list" where
  "TrimRightByte c s = rev (dropWhile (\<lambda>x. x = c) (rev s))"

text \<open>ASCII lower case: what \<open>strings.ToLower\<close> does on the ASCII text the program gives it.\<close>

definition ToLowerChar :: "char \<Rightarrow> char" where
  "ToLowerChar c =
     (let n = of_char c :: nat in if 65 \<le> n \<and> n \<le> 90 then char_of (n + 32) else c)"

definition ToLower :: "string \<Rightarrow> string" where
  "ToLower s = map ToLowerChar s"

definition bytes_of_string :: "string \<Rightarrow> bytes" where
  "bytes_of_string s = map (\<lambda>c. of_char c) s"

lemmas [go_strings] = HasPrefix_def HasSuffix_def TrimSuffix_def Contains_def

lemma HasPrefix_code [code]: "HasPrefix s p \<longleftrightarrow> take (length p) s = p"
  by (metis HasPrefix_def append_eq_conv_conj prefix_def take_is_prefix)

lemma HasSuffix_append [simp]: "HasSuffix (s @ p) p"
  by (simp add: HasSuffix_def suffix_def)

lemma HasPrefix_append [simp]: "HasPrefix (p @ s) p"
  by (simp add: HasPrefix_def)

lemma HasPrefix_drop: "HasPrefix s p \<Longrightarrow> s = p @ drop (length p) s"
  by (auto simp: HasPrefix_def prefix_def)

lemma TrimSuffix_append [simp]: "TrimSuffix (s @ p) p = s"
  by (simp add: TrimSuffix_def)

lemma HasSuffix_TrimSuffix: "HasSuffix s p \<Longrightarrow> s = TrimSuffix s p @ p"
  by (auto simp: HasSuffix_def suffix_def)

lemma Index_Some:
  "Index s p = Some i \<Longrightarrow> \<exists>u v. s = u @ p @ v \<and> length u = i"
proof (induction s arbitrary: i)
  case Nil
  then show ?case by (subst (asm) Index.simps) (auto split: if_splits)
next
  case (Cons x s)
  show ?case
  proof (cases "prefix p (x # s)")
    case True
    with Cons.prems have "i = 0" by (subst (asm) Index.simps) simp
    with True show ?thesis by (auto simp: prefix_def)
  next
    case False
    with Cons.prems obtain j where j: "Index s p = Some j" "i = Suc j"
      by (subst (asm) Index.simps) auto
    from Cons.IH [OF j(1)] obtain u v where "s = u @ p @ v" "length u = j" by blast
    with j(2) show ?thesis by (intro exI [of _ "x # u"] exI [of _ v]) simp
  qed
qed

text \<open>\<open>Index\<close> returns the first occurrence: every other one starts no earlier.\<close>

lemma Index_least:
  "s = u @ p @ v \<Longrightarrow> \<exists>i. Index s p = Some i \<and> i \<le> length u"
proof (induction u arbitrary: s)
  case Nil
  then show ?case by (subst Index.simps) simp
next
  case (Cons x u)
  from Cons.IH [OF refl] obtain j where j: "Index (u @ p @ v) p = Some j" "j \<le> length u"
    by blast
  show ?case
  proof (cases "prefix p s")
    case True
    then show ?thesis by (subst Index.simps) simp
  next
    case False
    with Cons.prems j show ?thesis by (subst Index.simps) simp
  qed
qed

lemma IndexByte_Some:
  "IndexByte s c = Some i \<Longrightarrow> \<exists>u v. s = u @ c # v \<and> length u = i \<and> c \<notin> set u"
proof (induction s arbitrary: i)
  case (Cons x s)
  show ?case
  proof (cases "x = c")
    case True
    with Cons.prems show ?thesis by (intro exI [of _ "[]"] exI [of _ s]) simp
  next
    case False
    with Cons.prems obtain j where j: "IndexByte s c = Some j" "i = Suc j" by auto
    from Cons.IH [OF j(1)] obtain u v where "s = u @ c # v" "length u = j" "c \<notin> set u" by blast
    with False j(2) show ?thesis by (intro exI [of _ "x # u"] exI [of _ v]) simp
  qed
qed simp

lemma IndexByte_None: "IndexByte s c = None \<longleftrightarrow> c \<notin> set s"
  by (induction s) auto

lemma IndexByte_append [simp]: "c \<notin> set u \<Longrightarrow> IndexByte (u @ c # v) c = Some (length u)"
  by (induction u) auto

lemma SplitByte_not_Nil [simp]: "SplitByte c s \<noteq> []"
  by (induction s) (auto split: list.splits)

lemma SplitByte_append_sep: "c \<notin> set u \<Longrightarrow> SplitByte c (u @ c # v) = u # SplitByte c v"
  by (induction u) auto

lemma SplitByte_no_sep: "c \<notin> set u \<Longrightarrow> SplitByte c u = [u]"
  by (induction u) auto

lemma SplitByte_prefix: "c \<notin> set u \<Longrightarrow> \<exists>l ls. SplitByte c (u @ v) = (u @ l) # ls"
proof (induction u)
  case Nil
  then show ?case by (cases "SplitByte c v") simp_all
qed auto

section \<open>Bytes, hexadecimal and big-endian integers\<close>

lemma unat_byte_less [simp]: "unat (b :: byte) < 256"
proof -
  have "uint b < 256" using unsigned_less [of b] by simp
  then have "int (unat b) < int 256" by (simp only: uint_nat of_nat_numeral)
  then show ?thesis by (simp only: of_nat_less_iff)
qed

lemma of_char_byte_inj [simp]: "(of_char c :: byte) = of_char d \<longleftrightarrow> c = d"
proof
  assume eq: "(of_char c :: byte) = of_char d"
  have unat_char: "unat (of_char e :: byte) = of_char e" for e
  proof -
    have "(of_char e :: byte) = of_nat (of_char e)" by (rule of_nat_of_char [symmetric])
    moreover have "(of_char e :: nat) < 256" by simp
    ultimately show ?thesis by (simp add: unat_of_nat)
  qed
  from eq have "(of_char c :: nat) = of_char d" by (metis unat_char)
  then show "c = d" by simp
qed simp

lemma bytes_of_string_inj [simp]: "bytes_of_string s = bytes_of_string t \<longleftrightarrow> s = t"
  unfolding bytes_of_string_def by (rule inj_map_eq_map) (simp add: inj_def)

lemma length_bytes_of_string [simp]: "length (bytes_of_string s) = length s"
  by (simp add: bytes_of_string_def)

definition hexchar :: "nat \<Rightarrow> char" where
  "hexchar n = (if n < 10 then char_of (48 + n) else char_of (87 + n))"

fun EncodeToString :: "bytes \<Rightarrow> string" where
  "EncodeToString [] = []"
| "EncodeToString (b # bs) = hexchar (unat b div 16) # hexchar (unat b mod 16) # EncodeToString bs"

text \<open>\<open>hex.DecodeString\<close> accepts both cases; an odd length or another byte is an error.\<close>

definition fromHexChar :: "char \<Rightarrow> nat option" where
  "fromHexChar c =
     (let n = of_char c :: nat in
      if 48 \<le> n \<and> n \<le> 57 then Some (n - 48)
      else if 97 \<le> n \<and> n \<le> 102 then Some (n - 87)
      else if 65 \<le> n \<and> n \<le> 70 then Some (n - 55)
      else None)"

fun DecodeString :: "string \<Rightarrow> bytes option" where
  "DecodeString [] = Some []"
| "DecodeString [c] = None"
| "DecodeString (c # d # s) =
     (case (fromHexChar c, fromHexChar d) of
        (Some hi, Some lo) \<Rightarrow> map_option ((#) (of_nat (16 * hi + lo))) (DecodeString s)
      | _ \<Rightarrow> None)"

definition lowerHex :: "char \<Rightarrow> bool" where
  "lowerHex c = (let n = of_char c :: nat in (48 \<le> n \<and> n \<le> 57) \<or> (97 \<le> n \<and> n \<le> 102))"

lemma length_EncodeToString [simp]: "length (EncodeToString bs) = 2 * length bs"
  by (induction bs) auto

lemma hexchar_lowerHex: "n < 16 \<Longrightarrow> lowerHex (hexchar n)"
  by (auto simp: lowerHex_def hexchar_def Let_def)

lemma fromHexChar_hexchar: "n < 16 \<Longrightarrow> fromHexChar (hexchar n) = Some n"
  by (auto simp: fromHexChar_def hexchar_def Let_def)

lemma fromHexChar_lowerHex:
  assumes "lowerHex c"
  shows "\<exists>n < 16. fromHexChar c = Some n \<and> hexchar n = c"
proof -
  let ?n = "of_char c :: nat"
  have c: "c = char_of ?n" by simp
  show ?thesis
  proof (cases "?n \<le> 57")
    case True
    with assms have "48 \<le> ?n" by (auto simp: lowerHex_def Let_def)
    with True show ?thesis
      by (intro exI [of _ "?n - 48"]) (auto simp: fromHexChar_def hexchar_def Let_def)
  next
    case False
    with assms have "97 \<le> ?n" "?n \<le> 102" by (auto simp: lowerHex_def Let_def)
    then show ?thesis
      by (intro exI [of _ "?n - 87"]) (auto simp: fromHexChar_def hexchar_def Let_def)
  qed
qed

lemma EncodeToString_lowerHex: "c \<in> set (EncodeToString bs) \<Longrightarrow> lowerHex c"
proof (induction bs)
  case (Cons b bs)
  have "unat b < 256" by (rule unat_byte_less)
  then have "unat b div 16 < 16" by (simp add: less_mult_imp_div_less)
  with Cons show ?case by (auto intro: hexchar_lowerHex)
qed simp

lemma DecodeString_EncodeToString [simp]: "DecodeString (EncodeToString bs) = Some bs"
proof (induction bs)
  case (Cons b bs)
  have "unat b < 256" by (rule unat_byte_less)
  then have "unat b div 16 < 16" by (simp add: less_mult_imp_div_less)
  moreover have "(of_nat (16 * (unat b div 16) + unat b mod 16) :: byte) = b"
    by (simp only: mult_div_mod_eq of_nat_unat ucast_id)
  ultimately show ?case using Cons.IH by (simp add: fromHexChar_hexchar)
qed simp

lemma EncodeToString_DecodeString:
  "list_all lowerHex s \<Longrightarrow> even (length s) \<Longrightarrow>
   \<exists>bs. DecodeString s = Some bs \<and> EncodeToString bs = s"
proof (induction s rule: induct_list012)
  case (3 c d s)
  then obtain bs where bs: "DecodeString s = Some bs" "EncodeToString bs = s" by auto
  from "3.prems" obtain hi lo where h: "hi < 16" "fromHexChar c = Some hi" "hexchar hi = c"
    and l: "lo < 16" "fromHexChar d = Some lo" "hexchar lo = d"
    using fromHexChar_lowerHex [of c] fromHexChar_lowerHex [of d] by auto
  have "16 * hi + lo < 256" using h(1) l(1) by simp
  then have u: "unat (of_nat (16 * hi + lo) :: byte) = 16 * hi + lo"
    by (simp only: unat_of_nat) (simp add: take_bit_eq_mod)
  have "(16 * hi + lo) div 16 = hi" "(16 * hi + lo) mod 16 = lo" using l(1) by simp_all
  then have "EncodeToString (of_nat (16 * hi + lo) # bs) = c # d # s"
    using bs(2) h(3) l(3) by (simp only: EncodeToString.simps u)
  with bs(1) h(2) l(2) show ?case by simp
qed auto

text \<open>\<open>binary.BigEndian.PutUint64(x[:], uint64(v))\<close>: the 8 bytes of \<open>v\<close> modulo \<open>2^64\<close>.\<close>

definition PutUint64 :: "int \<Rightarrow> bytes" where
  "PutUint64 v = map (\<lambda>i. word_of_int (v div 2 ^ (8 * i))) [7, 6, 5, 4, 3, 2, 1, 0 :: nat]"

fun be_value :: "bytes \<Rightarrow> int" where
  "be_value [] = 0"
| "be_value (b # bs) = uint b * 2 ^ (8 * length bs) + be_value bs"

lemma length_PutUint64 [simp]: "length (PutUint64 v) = 8"
  by (simp add: PutUint64_def)

lemma uint_byte_of_int: "uint (word_of_int x :: byte) = x mod 256"
  by (simp add: unsigned_of_int take_bit_eq_mod)

lemma be_value_digits:
  "be_value (map (\<lambda>i. word_of_int (v div 2 ^ (8 * i))) (rev [0..<n])) = v mod 2 ^ (8 * n)"
proof (induction n)
  case (Suc n)
  have "v mod (2 ^ (8 * n) * 2 ^ 8) = 2 ^ (8 * n) * (v div 2 ^ (8 * n) mod 2 ^ 8) + v mod 2 ^ (8 * n)"
    by (rule zmod_zmult2_eq) simp
  moreover have "(2 :: int) ^ (8 * Suc n) = 2 ^ (8 * n) * 2 ^ 8" by (simp add: power_add)
  ultimately show ?case using Suc.IH by (simp add: uint_byte_of_int)
qed simp

lemma be_value_PutUint64: "be_value (PutUint64 v) = v mod 2 ^ 64"
proof -
  have "[7, 6, 5, 4, 3, 2, 1, 0 :: nat] = rev [0..<8]" by (simp add: upt_rec)
  then show ?thesis using be_value_digits [of v 8] by (simp only: PutUint64_def) simp
qed

lemma PutUint64_inj:
  assumes "PutUint64 v = PutUint64 w" and "in_int64 v" and "in_int64 w"
  shows "v = w"
  using assms be_value_PutUint64 [of v] be_value_PutUint64 [of w]
  by (metis in_int64_mod_inj)

lemma PutUint64_nat_inj:
  assumes "PutUint64 (int m) = PutUint64 (int n)" and "m < 2 ^ 64" and "n < 2 ^ 64"
  shows "m = n"
proof -
  have "int m mod 2 ^ 64 = int n mod 2 ^ 64"
    using assms(1) be_value_PutUint64 by metis
  moreover have "int m < 2 ^ 64" "int n < 2 ^ 64" using assms(2,3) by simp_all
  ultimately show ?thesis by (simp add: mod_pos_pos_trivial)
qed

section \<open>Searching lists\<close>

lemma find_none: "find P xs = None \<longleftrightarrow> (\<forall>x \<in> set xs. \<not> P x)"
  by (induction xs) auto

lemma find_some: "find P xs = Some x \<Longrightarrow> x \<in> set xs \<and> P x"
  by (induction xs) (auto split: if_splits)

end
