(* ===== verification/Model.thy ===== *)
theory Model
  imports Prelude
begin

text \<open>
  The package \<open>internal/model\<close>: object ids (\<open>oid.go\<close>), the closed enumerations
  (\<open>enums.go\<close>, \<open>domain.go\<close>), the sentinel errors (\<open>errors.go\<close>), the domain structs
  (\<open>domain.go\<close>, \<open>git.go\<close>, \<open>lock.go\<close>).

  A Go type \<open>type X string\<close> is not closed: any string inhabits it. It is therefore a
  type synonym of \<open>string\<close>, with the declared constants as definitions and \<open>Valid\<close> as the
  predicate the source gives. A pointer that stands for an optional value is an \<open>option\<close>.
  An error value is known by the sentinel it wraps, since callers branch only on
  \<open>errors.Is\<close>; an error without a sentinel is \<open>ErrText\<close> with its leading text.
\<close>

named_theorems model_defs \<open>the constants of the closed enumerations\<close>

section \<open>Errors\<close>

datatype sql_error =
    SqlIO            \<comment> \<open>the driver or the disk failed, or the context ended\<close>
  | SqlNoRows        \<comment> \<open>\<open>sql.ErrNoRows\<close>\<close>
  | SqlUnique        \<comment> \<open>UNIQUE constraint failed\<close>
  | SqlCheck         \<comment> \<open>CHECK constraint failed, or a value that its column refuses\<close>
  | SqlForeignKey    \<comment> \<open>FOREIGN KEY constraint failed\<close>

datatype err =
    ErrNotFound | ErrConflict | ErrChainCAS | ErrLeaseHeld | ErrLeaseLost | ErrBadURL
  | ErrBadOID
  | ErrNoRefs
  | SqlErr sql_error
  | ErrText string

section \<open>Identities and enumerations\<close>

type_synonym RemoteID = int64
type_synonym RefID = int64
type_synonym SyncID = int64
type_synonym Seq = int64
type_synonym RefName = string
type_synonym Duration = int64

type_synonym HashAlgo = string
type_synonym Transport = string
type_synonym RemoteStatus = string
type_synonym TaintReason = string
type_synonym ObservationEventType = string
type_synonym VerifyStatus = string
type_synonym Confidence = string
type_synonym SyncStatus = string
type_synonym SyncTrigger = string

definition SHA1 :: HashAlgo where [model_defs]: "SHA1 = ''sha1''"
definition SHA256 :: HashAlgo where [model_defs]: "SHA256 = ''sha256''"

definition TransportHTTPS :: Transport where [model_defs]: "TransportHTTPS = ''https''"
definition TransportSSH :: Transport where [model_defs]: "TransportSSH = ''ssh''"

definition RemoteActive :: RemoteStatus where [model_defs]: "RemoteActive = ''active''"
definition RemoteDegraded :: RemoteStatus where [model_defs]: "RemoteDegraded = ''degraded''"
definition RemotePaused :: RemoteStatus where [model_defs]: "RemotePaused = ''paused''"

definition TaintTagOIDChanged :: TaintReason where
  [model_defs]: "TaintTagOIDChanged = ''tag_oid_changed''"
definition TaintTagDeletedRecreated :: TaintReason where
  [model_defs]: "TaintTagDeletedRecreated = ''tag_deleted_recreated''"

definition TaintReason_Valid :: "TaintReason \<Rightarrow> bool" where
  "TaintReason_Valid r \<longleftrightarrow> r = TaintTagOIDChanged \<or> r = TaintTagDeletedRecreated"

definition EventTagCreated :: ObservationEventType where
  [model_defs]: "EventTagCreated = ''tag_created''"
definition EventTagOIDChanged :: ObservationEventType where
  [model_defs]: "EventTagOIDChanged = ''tag_oid_changed''"
definition EventTagDeleted :: ObservationEventType where
  [model_defs]: "EventTagDeleted = ''tag_deleted''"
definition EventTagRecreated :: ObservationEventType where
  [model_defs]: "EventTagRecreated = ''tag_recreated''"

definition ObservationEventType_Valid :: "ObservationEventType \<Rightarrow> bool" where
  "ObservationEventType_Valid e \<longleftrightarrow>
     e \<in> set [EventTagCreated, EventTagOIDChanged, EventTagDeleted, EventTagRecreated]"

definition StatusOK :: VerifyStatus where [model_defs]: "StatusOK = ''ok''"
definition StatusTainted :: VerifyStatus where [model_defs]: "StatusTainted = ''tainted''"
definition StatusMismatch :: VerifyStatus where [model_defs]: "StatusMismatch = ''mismatch''"
definition StatusDoesntExist :: VerifyStatus where
  [model_defs]: "StatusDoesntExist = ''doesnt_exist''"
definition StatusNotTracked :: VerifyStatus where
  [model_defs]: "StatusNotTracked = ''not_tracked''"

definition ConfAuthoritative :: Confidence where
  [model_defs]: "ConfAuthoritative = ''authoritative''"
definition ConfStale :: Confidence where [model_defs]: "ConfStale = ''stale''"

definition SyncOk :: SyncStatus where [model_defs]: "SyncOk = ''ok''"
definition SyncPartial :: SyncStatus where [model_defs]: "SyncPartial = ''partial''"
definition SyncFailed :: SyncStatus where [model_defs]: "SyncFailed = ''failed''"

definition TriggerRegister :: SyncTrigger where [model_defs]: "TriggerRegister = ''register''"
definition TriggerScheduled :: SyncTrigger where [model_defs]: "TriggerScheduled = ''scheduled''"
definition TriggerManual :: SyncTrigger where [model_defs]: "TriggerManual = ''manual''"

section \<open>Object ids\<close>

record OID =
  oid_Raw :: bytes
  oid_Algo :: HashAlgo

definition zeroOID :: OID where
  "zeroOID = \<lparr>oid_Raw = [], oid_Algo = ''''\<rparr>"

definition RawLen :: "HashAlgo \<Rightarrow> nat" where
  "RawLen h = (if h = SHA1 then 20 else if h = SHA256 then 32 else 0)"

definition HexLen :: "HashAlgo \<Rightarrow> nat" where
  "HexLen h = RawLen h * 2"

definition HashAlgo_Valid :: "HashAlgo \<Rightarrow> bool" where
  "HashAlgo_Valid h \<longleftrightarrow> h = SHA1 \<or> h = SHA256"

definition Hex :: "OID \<Rightarrow> string" where
  "Hex o1 = EncodeToString (oid_Raw o1)"

definition IsZero :: "OID \<Rightarrow> bool" where
  "IsZero o1 \<longleftrightarrow> length (oid_Raw o1) = 0"

text \<open>\<open>subtle.ConstantTimeCompare\<close>: 0 on different lengths, otherwise the accumulated
  bitwise difference is compared with zero.\<close>

definition ConstantTimeCompare :: "bytes \<Rightarrow> bytes \<Rightarrow> int" where
  "ConstantTimeCompare x y =
     (if length x \<noteq> length y then 0
      else if foldl (\<lambda>v (a, b). or v (xor a b)) (0 :: byte) (zip x y) = 0 then 1 else 0)"

definition subtleConstEq :: "bytes \<Rightarrow> bytes \<Rightarrow> bool" where
  "subtleConstEq a b \<longleftrightarrow> ConstantTimeCompare a b = 1"

definition OID_Equal :: "OID \<Rightarrow> OID \<Rightarrow> bool" where
  "OID_Equal o1 other \<longleftrightarrow> oid_Algo o1 = oid_Algo other \<and> subtleConstEq (oid_Raw o1) (oid_Raw other)"

definition badHexByte :: "char \<Rightarrow> bool" where
  "badHexByte c \<longleftrightarrow> (c < CHR ''0'' \<or> c > CHR ''9'') \<and> (c < CHR ''a'' \<or> c > CHR ''f'')"

definition ParseOID :: "string \<Rightarrow> HashAlgo \<Rightarrow> err + OID" where
  "ParseOID hexStr algo =
     (if \<not> HashAlgo_Valid algo \<or> length hexStr \<noteq> HexLen algo then Inl ErrBadOID
      else if list_ex badHexByte hexStr then Inl ErrBadOID
      else case DecodeString hexStr of
        None \<Rightarrow> Inl ErrBadOID
      | Some raw \<Rightarrow> Inr \<lparr>oid_Raw = raw, oid_Algo = algo\<rparr>)"

definition AlgoForRawLen :: "nat \<Rightarrow> HashAlgo" where
  "AlgoForRawLen n = (if n = 20 then SHA1 else if n = 32 then SHA256 else '''')"

definition OIDFromRaw :: "bytes \<Rightarrow> OID" where
  "OIDFromRaw raw = \<lparr>oid_Raw = raw, oid_Algo = AlgoForRawLen (length raw)\<rparr>"

text \<open>The ids the program works with: a known algorithm and exactly its width.\<close>

definition wf_OID :: "OID \<Rightarrow> bool" where
  "wf_OID o1 \<longleftrightarrow> HashAlgo_Valid (oid_Algo o1) \<and> length (oid_Raw o1) = RawLen (oid_Algo o1)"

lemma xor_eq_0_iff: "xor a b = 0 \<longleftrightarrow> a = (b :: byte)"
proof
  assume "xor a b = 0"
  moreover have "xor (xor a b) b = a" by (simp only: xor.assoc xor_self_eq xor.right_neutral)
  ultimately show "a = b" by simp
qed simp

lemma foldl_or_zero:
  "foldl (\<lambda>v (a, b). or v (xor a b)) (w :: byte) ps = 0 \<longleftrightarrow> w = 0 \<and> (\<forall>(a, b) \<in> set ps. a = b)"
proof (induction ps arbitrary: w)
  case (Cons p ps)
  obtain a b where [simp]: "p = (a, b)" by (cases p)
  have "or w (xor a b) = 0 \<longleftrightarrow> w = 0 \<and> a = b"
    by (simp add: or_eq_0_iff xor_eq_0_iff)
  then show ?case using Cons.IH by auto
qed simp

lemma subtleConstEq_eq [simp]: "subtleConstEq a b \<longleftrightarrow> a = b"
proof -
  have "(\<forall>(x, y) \<in> set (zip a b). x = y) \<longleftrightarrow> a = b" if "length a = length b"
    using that by (induction a b rule: list_induct2) auto
  then show ?thesis
    by (auto simp: subtleConstEq_def ConstantTimeCompare_def foldl_or_zero)
qed

lemma OID_Equal_eq [simp]: "OID_Equal a b \<longleftrightarrow> a = b"
  by (cases a; cases b) (auto simp: OID_Equal_def)

lemma badHexByte_lowerHex: "badHexByte c \<longleftrightarrow> \<not> lowerHex c"
  by (auto simp: badHexByte_def lowerHex_def Let_def less_char_def)

lemma RawLen_simps [simp]: "RawLen SHA1 = 20" "RawLen SHA256 = 32" "HexLen SHA1 = 40" "HexLen SHA256 = 64"
  by (simp_all add: RawLen_def HexLen_def model_defs)

lemma AlgoForRawLen_RawLen: "HashAlgo_Valid h \<Longrightarrow> AlgoForRawLen (RawLen h) = h"
  by (auto simp: HashAlgo_Valid_def AlgoForRawLen_def)

lemma OIDFromRaw_wf [simp]: "wf_OID o1 \<Longrightarrow> OIDFromRaw (oid_Raw o1) = o1"
  by (simp add: OIDFromRaw_def wf_OID_def AlgoForRawLen_RawLen)

lemma wf_OID_not_zero [simp]: "wf_OID o1 \<Longrightarrow> \<not> IsZero o1"
  by (auto simp: wf_OID_def IsZero_def HashAlgo_Valid_def)

lemma wf_OID_Raw_not_Nil [simp]: "wf_OID o1 \<Longrightarrow> oid_Raw o1 \<noteq> []"
  using wf_OID_not_zero [of o1] by (auto simp: IsZero_def)

lemma IsZero_zeroOID [simp]: "IsZero zeroOID"
  by (simp add: IsZero_def zeroOID_def)

lemma ParseOID_Hex:
  assumes "wf_OID o1"
  shows "ParseOID (Hex o1) (oid_Algo o1) = Inr o1"
proof -
  have "\<not> list_ex badHexByte (Hex o1)"
    using EncodeToString_lowerHex by (auto simp: list_ex_iff badHexByte_lowerHex Hex_def)
  with assms show ?thesis
    by (simp add: ParseOID_def wf_OID_def Hex_def HexLen_def)
qed

lemma ParseOID_sound:
  assumes "ParseOID s algo = Inr o1"
  shows "wf_OID o1" and "oid_Algo o1 = algo" and "Hex o1 = s"
proof -
  from assms have v: "HashAlgo_Valid algo" and len: "length s = HexLen algo"
    and hex: "list_all lowerHex s"
    by (auto simp: ParseOID_def list_ex_iff list_all_iff badHexByte_lowerHex split: if_splits)
  from hex len obtain bs where bs: "DecodeString s = Some bs" "EncodeToString bs = s"
    using EncodeToString_DecodeString [of s] by (auto simp: HexLen_def)
  with assms have o1: "o1 = \<lparr>oid_Raw = bs, oid_Algo = algo\<rparr>"
    by (auto simp: ParseOID_def split: if_splits)
  then show "Hex o1 = s" "oid_Algo o1 = algo" using bs(2) by (simp_all add: Hex_def)
  from bs(2) len have "length bs = RawLen algo"
    using length_EncodeToString [of bs] by (simp add: HexLen_def)
  with v o1 show "wf_OID o1" by (simp add: wf_OID_def)
qed

lemma ParseOID_error: "ParseOID s algo = Inl e \<Longrightarrow> e = ErrBadOID"
  by (auto simp: ParseOID_def split: if_splits option.splits)

section \<open>Domain structs\<close>

record Remote =
  rem_ID :: RemoteID
  rem_URL :: string
  rem_NormalizedURL :: string
  rem_Transport :: Transport
  rem_SyncInterval :: Duration
  rem_StalenessBudget :: Duration
  rem_TaintAnyTagDeletion :: bool
  rem_HashAlgo :: "HashAlgo option"
  rem_Status :: RemoteStatus
  rem_LastOkNS :: int64
  rem_LastErr :: string
  rem_ConsecutiveFailures :: int64
  rem_ChainHeadHash :: bytes
  rem_ChainLen :: int64
  rem_RemovedAtNS :: "int64 option"
  rem_CreatedAtNS :: int64
  rem_UpdatedAtNS :: int64

record Ref =
  ref_ID :: RefID
  ref_RemoteID :: RemoteID
  ref_TagName :: string
  ref_CurrentOID :: OID
  ref_CurrentPeeledOID :: OID
  ref_IsAnnotatedTag :: bool
  ref_FirstOID :: OID
  ref_FirstSeenNS :: int64
  ref_LastSeenNS :: int64
  ref_LastChangedNS :: int64
  ref_Deleted :: bool
  ref_Tainted :: bool
  ref_TaintFirstNS :: "int64 option"
  ref_ObservationCount :: int64

record ObservationProof =
  prf_RemoteID :: RemoteID
  prf_Seq :: Seq
  prf_RowHash :: bytes

record Observation =
  obs_ID :: int64
  obs_RemoteID :: RemoteID
  obs_RefID :: RefID
  obs_SyncID :: SyncID
  obs_Seq :: Seq
  obs_EventType :: ObservationEventType
  obs_PrevOID :: OID
  obs_NewOID :: OID
  obs_PrevPeeledOID :: OID
  obs_NewPeeledOID :: OID
  obs_ObservedAtNS :: int64
  obs_PrevHash :: bytes
  obs_RowHash :: bytes
  obs_CanonicalMeta :: string

record TaintEvent =
  te_ID :: int64
  te_RemoteID :: RemoteID
  te_RefID :: RefID
  te_Reason :: TaintReason
  te_ObservationID :: "int64 option"
  te_FromOID :: OID
  te_ToOID :: OID
  te_DetectedAtNS :: int64
  te_AckedAtNS :: "int64 option"
  te_AckedBy :: string
  te_AckNote :: string
  te_Detail :: string

record Sync =
  syn_ID :: SyncID
  syn_RemoteID :: RemoteID
  syn_Trigger :: SyncTrigger
  syn_StartedNS :: int64
  syn_FinishedNS :: int64
  syn_Status :: SyncStatus
  syn_TagsSeen :: int64
  syn_TagsChanged :: int64
  syn_Error :: string
  syn_ChainHeadBefore :: bytes
  syn_ChainHeadAfter :: bytes

record LsRemoteRef =
  lsr_Name :: RefName
  lsr_OID :: OID
  lsr_PeeledOID :: OID
  lsr_IsAnnotatedTag :: bool

record MaterializedAuth =
  ma_GitConfigGlobal :: string
  ma_SSHCommand :: string
  ma_EnvOverlay :: "string list"

record Lease =
  lse_RemoteID :: RemoteID
  lse_Holder :: string
  lse_AcquiredAtNS :: int64
  lse_ExpiresAtNS :: int64
  lse_ChainHeadAtLease :: bytes

section \<open>Properties\<close>

text \<open>\<open>ParseOID\<close> accepts exactly the printed form of the well-formed object ids of the algorithm, and
  returns that id; any other string is rejected with \<open>ErrBadOID\<close>.\<close>

theorem object_ids_are_read_back:
  "(ParseOID s algo = Inr o1 \<longleftrightarrow> wf_OID o1 \<and> oid_Algo o1 = algo \<and> Hex o1 = s) \<and>
   (ParseOID s algo = Inl e \<longrightarrow> e = ErrBadOID)"
  using ParseOID_sound [of s algo o1] ParseOID_Hex [of o1] ParseOID_error [of s algo e] by auto

theorem object_ids_are_read_back_witness:
  "ParseOID (Hex \<lparr>oid_Raw = replicate 20 7, oid_Algo = SHA1\<rparr>) SHA1 = Inr \<lparr>oid_Raw = replicate 20 7, oid_Algo = SHA1\<rparr> \<and>
   ParseOID ''xyz'' SHA1 = Inl ErrBadOID"
proof
  show "ParseOID (Hex \<lparr>oid_Raw = replicate 20 7, oid_Algo = SHA1\<rparr>) SHA1 = Inr \<lparr>oid_Raw = replicate 20 7, oid_Algo = SHA1\<rparr>"
    using object_ids_are_read_back [of "Hex \<lparr>oid_Raw = replicate 20 7, oid_Algo = SHA1\<rparr>" SHA1]
    by (auto simp: wf_OID_def HashAlgo_Valid_def)
  show "ParseOID ''xyz'' SHA1 = Inl ErrBadOID"
    by (simp add: ParseOID_def HexLen_def)
qed

end
