(* ===== verification/Net_Url.thy ===== *)
theory Net_Url
  imports Model
begin

text \<open>
  What \<open>internal/git/url.go\<close> uses of Go's \<open>net/url\<close>: \<open>url.Parse\<close> with \<open>Scheme\<close>,
  \<open>Hostname()\<close>, \<open>Port()\<close>, \<open>User.Username()\<close> and \<open>Path\<close>. Strings are byte strings; a
  multi-byte rune is never one of the ASCII characters the parser looks for, so the loops
  over runes are loops over bytes.

  Two parts are parameters. \<open>ipLit\<close> is the branch of the host parser for a host with a
  bracket, which calls \<open>net/netip\<close>. \<open>uni\<close> is \<open>strings.Map(unicode.ToLower, s)\<close>, which
  \<open>strings.ToLower\<close> calls only on a string that is not ASCII.
\<close>

definition isASCII :: "char \<Rightarrow> bool" where
  "isASCII c \<longleftrightarrow> (of_char c :: nat) < 128"

definition strings_ToLower :: "(string \<Rightarrow> string) \<Rightarrow> string \<Rightarrow> string" where
  "strings_ToLower uni s = (if list_all isASCII s then ToLower s else uni s)"

definition CutByte :: "char \<Rightarrow> string \<Rightarrow> string \<times> string" where
  "CutByte c s = (case IndexByte s c of None \<Rightarrow> (s, []) | Some i \<Rightarrow> (take i s, drop (Suc i) s))"

definition LastIndexByte :: "string \<Rightarrow> char \<Rightarrow> nat option" where
  "LastIndexByte s c = map_option (\<lambda>i. length s - 1 - i) (IndexByte (rev s) c)"

definition isDigit :: "char \<Rightarrow> bool" where
  "isDigit c = (let n = of_char c :: nat in 48 \<le> n \<and> n \<le> 57)"

definition isLetter :: "char \<Rightarrow> bool" where
  "isLetter c = (let n = of_char c :: nat in (65 \<le> n \<and> n \<le> 90) \<or> (97 \<le> n \<and> n \<le> 122))"

section \<open>Escapes\<close>

datatype encoding = encodePath | encodeHost | encodeUserPassword | encodeFragment

text \<open>\<open>shouldEscape\<close> for a host: the ASCII characters a host may hold unescaped.\<close>

definition hostChar :: "char \<Rightarrow> bool" where
  "hostChar c \<longleftrightarrow> isLetter c \<or> isDigit c \<or> c \<in> set ''!$&'' \<or> c = CHR 39 \<or> c \<in> set ''()*+,;=:[]<>-_.~'' \<or> c = CHR 34"

fun unescape :: "encoding \<Rightarrow> string \<Rightarrow> string option" where
  "unescape mode [] = Some []"
| "unescape mode (c # s) =
     (if c = CHR ''%'' then
        (case s of
           a # b # s' \<Rightarrow>
             (case (fromHexChar a, fromHexChar b) of
                (Some hi, Some lo) \<Rightarrow>
                  if mode = encodeHost \<and> hi < 8 \<and> [a, b] \<noteq> ''25'' then None
                  else map_option ((#) (char_of (16 * hi + lo))) (unescape mode s')
              | _ \<Rightarrow> None)
         | _ \<Rightarrow> None)
      else if mode = encodeHost \<and> isASCII c \<and> \<not> hostChar c then None
      else map_option ((#) c) (unescape mode s))"

section \<open>Authority\<close>

definition validOptionalPort :: "string \<Rightarrow> bool" where
  "validOptionalPort port =
     (case port of [] \<Rightarrow> True | c # ds \<Rightarrow> c = CHR '':'' \<and> list_all isDigit ds)"

definition parseHost :: "(string \<Rightarrow> string option) \<Rightarrow> string \<Rightarrow> string option" where
  "parseHost ipLit host =
     (if CHR ''['' \<in> set host then ipLit host
      else case IndexByte host (CHR '':'') of
        Some i \<Rightarrow> if validOptionalPort (drop i host) then unescape encodeHost host else None
      | None \<Rightarrow> unescape encodeHost host)"

definition validUserinfo :: "string \<Rightarrow> bool" where
  "validUserinfo s = list_all (\<lambda>c. isLetter c \<or> isDigit c \<or> c \<in> set ''-._:~!$&()*+,;=%@'' \<or> c = CHR 39) s"

record URL =
  url_Scheme :: string
  url_User :: "string option"
  url_Host :: string
  url_Path :: string

text \<open>Of \<open>Userinfo\<close> only the name is used; a malformed password is still an error.\<close>

definition parseUserinfo :: "string \<Rightarrow> string option" where
  "parseUserinfo userinfo =
     (if \<not> validUserinfo userinfo then None
      else if CHR '':'' \<notin> set userinfo then unescape encodeUserPassword userinfo
      else let (username, password) = CutByte (CHR '':'') userinfo in
        case (unescape encodeUserPassword username, unescape encodeUserPassword password) of
          (Some n, Some _) \<Rightarrow> Some n
        | _ \<Rightarrow> None)"

definition parseAuthority :: "(string \<Rightarrow> string option) \<Rightarrow> string \<Rightarrow> (string option \<times> string) option" where
  "parseAuthority ipLit authority =
     (case LastIndexByte authority (CHR ''@'') of
        None \<Rightarrow> map_option (\<lambda>host. (None, host)) (parseHost ipLit authority)
      | Some i \<Rightarrow>
          (case (parseHost ipLit (drop (Suc i) authority), parseUserinfo (take i authority)) of
             (Some host, Some name) \<Rightarrow> Some (Some name, host)
           | _ \<Rightarrow> None))"

section \<open>Parse\<close>

definition schemeChar :: "nat \<Rightarrow> char \<Rightarrow> bool" where
  "schemeChar i c \<longleftrightarrow> isLetter c \<or> (0 < i \<and> (isDigit c \<or> c \<in> set ''+-.''))"

text \<open>\<open>getScheme\<close>: \<open>None\<close> for the error "missing protocol scheme", an empty scheme if there is none.\<close>

definition getScheme :: "string \<Rightarrow> (string \<times> string) option" where
  "getScheme raw =
     (let scheme = (case raw of
            c # s \<Rightarrow> if schemeChar 0 c then c # takeWhile (schemeChar 1) s else [] | [] \<Rightarrow> []) in
      case drop (length scheme) raw of
        c # rest \<Rightarrow> if c = CHR '':'' then if scheme = [] then None else Some (scheme, rest) else Some ([], raw)
      | [] \<Rightarrow> Some ([], raw))"

text \<open>
  \<open>parse\<close> on a string without control characters. The query is cut off and not looked at, so
  the special case of a single final \<open>?\<close> gives the same result.
\<close>

definition parseNoFragment :: "(string \<Rightarrow> string option) \<Rightarrow> string \<Rightarrow> URL option" where
  "parseNoFragment ipLit raw =
     (if list_ex (\<lambda>c. (of_char c :: nat) < 32 \<or> c = CHR 127) raw then None
      else if raw = ''*'' then Some \<lparr>url_Scheme = [], url_User = None, url_Host = [], url_Path = ''*''\<rparr>
      else case getScheme raw of
        None \<Rightarrow> None
      | Some (scheme, rest) \<Rightarrow>
          let scheme = ToLower scheme; rest = fst (CutByte (CHR ''?'') rest) in
          if \<not> HasPrefix rest ''/'' \<and> scheme \<noteq> [] then
            Some \<lparr>url_Scheme = scheme, url_User = None, url_Host = [], url_Path = []\<rparr>
          else if \<not> HasPrefix rest ''/'' \<and> CHR '':'' \<in> set (fst (CutByte (CHR ''/'') rest)) then None
          else if (scheme \<noteq> [] \<or> \<not> HasPrefix rest ''///'') \<and> HasPrefix rest ''//'' then
            (let authority = takeWhile (\<lambda>c. c \<noteq> CHR ''/'') (drop 2 rest);
                 path = dropWhile (\<lambda>c. c \<noteq> CHR ''/'') (drop 2 rest) in
             case (parseAuthority ipLit authority, unescape encodePath path) of
               (Some (user, host), Some p) \<Rightarrow>
                 Some \<lparr>url_Scheme = scheme, url_User = user, url_Host = host, url_Path = p\<rparr>
             | _ \<Rightarrow> None)
          else map_option (\<lambda>p. \<lparr>url_Scheme = scheme, url_User = None, url_Host = [], url_Path = p\<rparr>)
                 (unescape encodePath rest))"

definition url_Parse :: "(string \<Rightarrow> string option) \<Rightarrow> string \<Rightarrow> URL option" where
  "url_Parse ipLit raw =
     (let (u, frag) = CutByte (CHR ''#'') raw in
      case parseNoFragment ipLit u of
        None \<Rightarrow> None
      | Some url \<Rightarrow> if unescape encodeFragment frag = None then None else Some url)"

text \<open>\<open>Hostname\<close> and \<open>Port\<close>.\<close>

definition splitHostPort :: "string \<Rightarrow> string \<times> string" where
  "splitHostPort hostPort =
     (let (host, port) =
        (case LastIndexByte hostPort (CHR '':'') of
           None \<Rightarrow> (hostPort, [])
         | Some colon \<Rightarrow>
             if validOptionalPort (drop colon hostPort) then (take colon hostPort, drop (Suc colon) hostPort)
             else (hostPort, [])) in
      if HasPrefix host ''['' \<and> HasSuffix host '']'' then (drop 1 (butlast host), port) else (host, port))"

definition Hostname :: "URL \<Rightarrow> string" where
  "Hostname u = fst (splitHostPort (url_Host u))"

definition Port :: "URL \<Rightarrow> string" where
  "Port u = snd (splitHostPort (url_Host u))"

end
