(* ===== verification/Git_Url.thy ===== *)
theory Git_Url
  imports Net_Url
begin

text \<open>
  \<open>internal/git/url.go\<close>: which remote URLs are accepted and the normal form that identifies a
  remote. Every rejection is \<open>ErrBadURL\<close>.
\<close>

definition maxURLLen :: nat where
  "maxURLLen = 2048"

definition isControl :: "char \<Rightarrow> bool" where
  "isControl r \<longleftrightarrow> (of_char r :: nat) \<le> 32 \<or> (of_char r :: nat) = 127"

definition isSCPLike :: "string \<Rightarrow> bool" where
  "isSCPLike raw =
     (if Contains raw ''://'' then False
      else case (IndexByte raw (CHR ''@''), IndexByte raw (CHR '':'')) of
        (Some at, Some colon) \<Rightarrow> 0 < at \<and> at + 1 < colon
      | _ \<Rightarrow> False)"

definition normalizeURLScheme ::
  "(string \<Rightarrow> string option) \<Rightarrow> (string \<Rightarrow> string) \<Rightarrow> string \<Rightarrow> string \<Rightarrow> string \<Rightarrow> err + string" where
  "normalizeURLScheme ipLit uni raw scheme defaultPort =
     (case url_Parse ipLit raw of
        None \<Rightarrow> Inl ErrBadURL
      | Some u \<Rightarrow>
          if url_Scheme u \<noteq> scheme then Inl ErrBadURL
          else
          let host = Hostname u in
          if host = [] then Inl ErrBadURL
          else if HasPrefix host ''-'' then Inl ErrBadURL
          else
          let port = (if Port u = defaultPort then [] else Port u) in
          case (case url_User u of
                  None \<Rightarrow> Inr []
                | Some name \<Rightarrow> if HasPrefix name ''-'' then Inl ErrBadURL else Inr (name @ ''@'')) of
            Inl e \<Rightarrow> Inl e
          | Inr userinfo \<Rightarrow>
              let authority = strings_ToLower uni host;
                  authority = (if port \<noteq> [] then authority @ '':'' @ port else authority);
                  path = TrimRightByte (CHR ''/'') (url_Path u) in
              Inr (scheme @ ''://'' @ userinfo @ authority @ path))"

definition normalizeHTTPS :: "(string \<Rightarrow> string option) \<Rightarrow> (string \<Rightarrow> string) \<Rightarrow> string \<Rightarrow> err + string" where
  "normalizeHTTPS ipLit uni raw = normalizeURLScheme ipLit uni raw ''https'' ''443''"

definition normalizeSSHScheme :: "(string \<Rightarrow> string option) \<Rightarrow> (string \<Rightarrow> string) \<Rightarrow> string \<Rightarrow> err + string" where
  "normalizeSSHScheme ipLit uni raw = normalizeURLScheme ipLit uni raw ''ssh'' ''22''"

text \<open>The caller has checked \<open>isSCPLike\<close>; without an \<open>@\<close> the slice \<open>raw[:at]\<close> would panic.\<close>

definition normalizeSCP :: "(string \<Rightarrow> string) \<Rightarrow> string \<Rightarrow> err + string" where
  "normalizeSCP uni raw =
     (case IndexByte raw (CHR ''@'') of
        None \<Rightarrow> Inl (ErrText ''panic: slice bounds out of range'')
      | Some at \<Rightarrow>
          let user = take at raw in
          if user = [] \<or> HasPrefix user ''-'' then Inl ErrBadURL
          else
          let rest = drop (at + 1) raw in
          case IndexByte rest (CHR '':'') of
            None \<Rightarrow> Inl ErrBadURL
          | Some colon \<Rightarrow>
              if colon = 0 then Inl ErrBadURL
              else
              let host = take colon rest; path = drop (colon + 1) rest in
              if host = [] \<or> HasPrefix host ''-'' then Inl ErrBadURL
              else if HasPrefix path ''-'' then Inl ErrBadURL
              else
              let path = TrimRightByte (CHR ''/'') path;
                  path = (if path \<noteq> [] \<and> \<not> HasPrefix path ''/'' then ''/'' @ path else path) in
              Inr (''ssh://'' @ user @ ''@'' @ strings_ToLower uni host @ path))"

definition ValidateURL ::
  "(string \<Rightarrow> string option) \<Rightarrow> (string \<Rightarrow> string) \<Rightarrow> string \<Rightarrow> err + string \<times> string \<times> Transport" where
  "ValidateURL ipLit uni raw =
     (if raw = [] then Inl ErrBadURL
      else if length raw > maxURLLen then Inl ErrBadURL
      else if list_ex isControl raw then Inl ErrBadURL
      else if HasPrefix raw ''-'' then Inl ErrBadURL
      else if Contains raw ''::'' then Inl ErrBadURL
      else if HasPrefix raw ''https://'' then
        (case normalizeHTTPS ipLit uni raw of Inl e \<Rightarrow> Inl e | Inr norm \<Rightarrow> Inr (raw, norm, TransportHTTPS))
      else if HasPrefix raw ''ssh://'' then
        (case normalizeSSHScheme ipLit uni raw of Inl e \<Rightarrow> Inl e | Inr norm \<Rightarrow> Inr (raw, norm, TransportSSH))
      else if isSCPLike raw then
        (case normalizeSCP uni raw of Inl e \<Rightarrow> Inl e | Inr norm \<Rightarrow> Inr (raw, norm, TransportSSH))
      else Inl ErrBadURL)"

definition NormalizeURL :: "(string \<Rightarrow> string option) \<Rightarrow> (string \<Rightarrow> string) \<Rightarrow> string \<Rightarrow> err + string" where
  "NormalizeURL ipLit uni rawURL =
     (case ValidateURL ipLit uni rawURL of Inl e \<Rightarrow> Inl e | Inr (_, norm, _) \<Rightarrow> Inr norm)"


section \<open>What is accepted\<close>

lemma Contains_iff: "Contains s p \<longleftrightarrow> (\<exists>u v. s = u @ p @ v)"
  unfolding Contains_def using Index_Some Index_least by fastforce

lemma normalizeURLScheme_error: "normalizeURLScheme ipLit uni raw scheme port = Inl e \<Longrightarrow> e = ErrBadURL"
  by (auto simp: normalizeURLScheme_def Let_def split: option.splits if_splits)

lemma isSCPLike_at: "isSCPLike raw \<Longrightarrow> IndexByte raw (CHR ''@'') \<noteq> None"
  by (auto simp: isSCPLike_def split: if_splits option.splits)

lemma normalizeSCP_error: "isSCPLike raw \<Longrightarrow> normalizeSCP uni raw = Inl e \<Longrightarrow> e = ErrBadURL"
  using isSCPLike_at [of raw] by (auto simp: normalizeSCP_def Let_def split: option.splits if_splits)

lemma ValidateURL_error: "ValidateURL ipLit uni raw = Inl e \<Longrightarrow> e = ErrBadURL"
  by (auto simp: ValidateURL_def normalizeHTTPS_def normalizeSSHScheme_def split: if_splits sum.splits
      dest: normalizeURLScheme_error normalizeSCP_error)

lemma normalizeURLScheme_prefix:
  "normalizeURLScheme ipLit uni raw scheme port = Inr norm \<Longrightarrow> HasPrefix norm (scheme @ ''://'')"
  by (auto simp: normalizeURLScheme_def Let_def HasPrefix_def split: option.splits if_splits)

lemma normalizeSCP_prefix: "normalizeSCP uni raw = Inr norm \<Longrightarrow> HasPrefix norm ''ssh://''"
  by (auto simp: normalizeSCP_def Let_def HasPrefix_def split: option.splits if_splits)

lemma ValidateURL_accepts:
  assumes "ValidateURL ipLit uni raw = Inr (verbatim, norm, transport)"
  shows "verbatim = raw" and "0 < length raw" and "length raw \<le> 2048"
    and "list_all (\<lambda>c. 32 < (of_char c :: nat) \<and> (of_char c :: nat) \<noteq> 127) raw"
    and "\<not> prefix ''-'' raw" and "\<nexists>u v. raw = u @ ''::'' @ v"
    and "prefix ''https://'' raw \<and> transport = TransportHTTPS \<and> prefix ''https://'' norm \<or>
         (prefix ''ssh://'' raw \<or> isSCPLike raw) \<and> transport = TransportSSH \<and> prefix ''ssh://'' norm"
proof -
  show "verbatim = raw" "0 < length raw" "length raw \<le> 2048" "\<not> prefix ''-'' raw" "\<nexists>u v. raw = u @ ''::'' @ v"
    using assms unfolding ValidateURL_def
    by (auto simp: maxURLLen_def HasPrefix_def Contains_iff split: if_splits sum.splits)
  have "\<not> list_ex isControl raw" using assms unfolding ValidateURL_def by (auto split: if_splits)
  then show "list_all (\<lambda>c. 32 < (of_char c :: nat) \<and> (of_char c :: nat) \<noteq> 127) raw"
    by (auto simp: list_ex_iff list_all_iff isControl_def not_le)
  show "prefix ''https://'' raw \<and> transport = TransportHTTPS \<and> prefix ''https://'' norm \<or>
         (prefix ''ssh://'' raw \<or> isSCPLike raw) \<and> transport = TransportSSH \<and> prefix ''ssh://'' norm"
    using assms unfolding ValidateURL_def normalizeHTTPS_def normalizeSSHScheme_def
    by (auto split: if_splits sum.splits simp: HasPrefix_def [symmetric]
        dest!: normalizeURLScheme_prefix normalizeSCP_prefix)
qed

section \<open>The normal form\<close>

text \<open>Hosts, users and paths made of unreserved characters are parsed as they stand.\<close>

definition plain :: "char \<Rightarrow> bool" where
  "plain c \<longleftrightarrow> isLetter c \<or> isDigit c \<or> c \<in> set ''-._~''"

lemma plain_ASCII: "plain c \<Longrightarrow> isASCII c"
  by (auto simp: plain_def isLetter_def isDigit_def isASCII_def Let_def)

lemma plain_hostChar: "plain c \<Longrightarrow> hostChar c"
  by (auto simp: plain_def hostChar_def)

lemma colon_hostChar: "hostChar (CHR '':'')"
  by (simp add: hostChar_def)

lemma plain_not:
  assumes "plain c"
  shows "c \<noteq> CHR '':''" "c \<noteq> CHR ''/''" "c \<noteq> CHR ''@''" "c \<noteq> CHR ''%''" "c \<noteq> CHR ''#''" "c \<noteq> CHR ''?''" "c \<noteq> CHR ''[''"
    "\<not> isControl c" "\<not> (of_char c :: nat) < 32" "c \<noteq> CHR 127"
  using assms by (auto simp: plain_def isLetter_def isDigit_def isControl_def Let_def)

lemma plain_notin:
  assumes "list_all plain s"
  shows "CHR '':'' \<notin> set s" "CHR ''/'' \<notin> set s" "CHR ''@'' \<notin> set s" "CHR ''#'' \<notin> set s" "CHR ''?'' \<notin> set s" "CHR ''['' \<notin> set s"
  using assms by (auto simp: list_all_iff dest: plain_not)

definition pathChar :: "char \<Rightarrow> bool" where
  "pathChar c \<longleftrightarrow> plain c \<or> c = CHR ''/''"

lemma pathChar_ok: "pathChar c \<Longrightarrow> \<not> isControl c"
  by (auto simp: pathChar_def plain_not(8)) (simp add: isControl_def)

lemma at_sign_ok: "\<not> isControl (CHR ''@'')" "\<not> isControl (CHR '':'')" "\<not> isControl (CHR ''/'')"
  by (simp_all add: isControl_def)

lemma unescape_id:
  "list_all (\<lambda>c. c \<noteq> CHR ''%'' \<and> (mode = encodeHost \<longrightarrow> hostChar c)) s \<Longrightarrow> unescape mode s = Some s"
  by (induction s) auto

lemma Contains_colons_skip: "CHR '':'' \<notin> set u \<Longrightarrow> Contains (u @ s) ''::'' = Contains s ''::''"
proof (induction u)
  case (Cons c u)
  then show ?case by (simp add: Contains_def Index.simps [of "c # _"])
qed simp

lemma Contains_colons_Cons:
  "Contains (CHR '':'' # s) ''::'' \<longleftrightarrow> prefix '':'' s \<or> Contains s ''::''"
  by (simp add: Contains_def Index.simps [of "CHR '':'' # _"])

lemma CutByte_absent: "c \<notin> set s \<Longrightarrow> CutByte c s = (s, [])"
  by (simp add: CutByte_def IndexByte_None split: option.splits) (metis IndexByte_None option.distinct(1))

lemma LastIndexByte_None: "c \<notin> set s \<Longrightarrow> LastIndexByte s c = None"
  by (simp add: LastIndexByte_def IndexByte_None)

lemma LastIndexByte_append: "c \<notin> set v \<Longrightarrow> LastIndexByte (u @ c # v) c = Some (length u)"
  by (simp add: LastIndexByte_def)

text \<open>An authority \<open>[user@]host[:port]\<close> of plain parts.\<close>

definition userPart :: "string option \<Rightarrow> string" where
  "userPart user = (case user of None \<Rightarrow> [] | Some n \<Rightarrow> n @ ''@'')"

definition portPart :: "string \<Rightarrow> string" where
  "portPart port = (if port = [] then [] else CHR '':'' # port)"

lemma validOptionalPort_portPart: "list_all isDigit port \<Longrightarrow> validOptionalPort (portPart port)"
  by (simp add: validOptionalPort_def portPart_def)

lemma digit_plain: "isDigit c \<Longrightarrow> plain c"
  by (simp add: plain_def)

lemma parseHost_plain:
  assumes "list_all plain h" and "list_all isDigit port"
  shows "parseHost ipLit (h @ portPart port) = Some (h @ portPart port)"
proof -
  have pp: "list_all plain port" using assms(2) by (auto simp: list_all_iff digit_plain)
  have "c \<noteq> CHR ''%'' \<and> hostChar c" if "c \<in> set (h @ portPart port)" for c
    using that assms(1) pp plain_hostChar [of c] plain_not(4) [of c] colon_hostChar
    by (auto simp: list_all_iff portPart_def split: if_splits)
  then have "unescape encodeHost (h @ portPart port) = Some (h @ portPart port)"
    by (intro unescape_id) (simp add: list_all_iff)
  moreover have "CHR ''['' \<notin> set (h @ portPart port)"
    using plain_notin(6) [OF assms(1)] plain_notin(6) [OF pp] by (auto simp: portPart_def)
  moreover have "IndexByte (h @ portPart port) (CHR '':'') = (if port = [] then None else Some (length h))"
    using plain_notin(1) [OF assms(1)] by (simp add: portPart_def IndexByte_None)
  ultimately show ?thesis
    using validOptionalPort_portPart [OF assms(2)] by (cases "port = []") (simp_all add: parseHost_def)
qed

lemma splitHostPort_plain:
  assumes "list_all plain h" and "list_all isDigit port"
  shows "splitHostPort (h @ portPart port) = (h, port)"
proof -
  have pp: "list_all plain port" using assms(2) by (auto simp: list_all_iff digit_plain)
  have "\<not> HasPrefix h ''[''"
    using plain_notin(6) [OF assms(1)] by (auto simp: HasPrefix_def prefix_def)
  then show ?thesis
    using plain_notin(1) [OF assms(1)] plain_notin(1) [OF pp] validOptionalPort_portPart [OF assms(2)]
    by (cases port) (simp_all add: splitHostPort_def portPart_def LastIndexByte_None LastIndexByte_append)
qed

lemma parseUserinfo_plain: "list_all plain n \<Longrightarrow> parseUserinfo n = Some n"
proof -
  assume n: "list_all plain n"
  then have "validUserinfo n" by (auto simp: validUserinfo_def list_all_iff plain_def)
  moreover have "unescape encodeUserPassword n = Some n"
    using n by (intro unescape_id) (auto simp: list_all_iff dest: plain_not)
  ultimately show ?thesis using plain_notin(1) [OF n] by (simp add: parseUserinfo_def)
qed

lemma parseAuthority_plain:
  assumes "case user of None \<Rightarrow> True | Some n \<Rightarrow> list_all plain n"
    and "list_all plain h" and "list_all isDigit port"
  shows "parseAuthority ipLit (userPart user @ h @ portPart port) = Some (user, h @ portPart port)"
proof -
  have pp: "list_all plain port" using assms(3) by (auto simp: list_all_iff digit_plain)
  have at: "CHR ''@'' \<notin> set (h @ portPart port)"
    using plain_notin(3) [OF assms(2)] plain_notin(3) [OF pp] by (auto simp: portPart_def)
  show ?thesis
    using assms(1) at parseHost_plain [OF assms(2,3), of ipLit] parseUserinfo_plain
    by (cases user) (simp_all add: parseAuthority_def userPart_def LastIndexByte_None LastIndexByte_append)
qed


text \<open>A whole URL of plain parts; the path is empty or starts with a slash.\<close>

definition plainURL :: "string \<Rightarrow> string option \<Rightarrow> string \<Rightarrow> string \<Rightarrow> string \<Rightarrow> string" where
  "plainURL scheme user h port path = scheme @ ''://'' @ userPart user @ h @ portPart port @ path"

definition plain_parts :: "string option \<Rightarrow> string \<Rightarrow> string \<Rightarrow> string \<Rightarrow> bool" where
  "plain_parts user h port path \<longleftrightarrow>
     (case user of None \<Rightarrow> True | Some n \<Rightarrow> list_all plain n \<and> n \<noteq> [] \<and> \<not> prefix ''-'' n) \<and>
     list_all plain h \<and> h \<noteq> [] \<and> \<not> prefix ''-'' h \<and> list_all isDigit port \<and>
     list_all pathChar path \<and> (path = [] \<or> prefix ''/'' path)"

lemma takeWhile_slash:
  "CHR ''/'' \<notin> set a \<Longrightarrow> path = [] \<or> prefix ''/'' path \<Longrightarrow>
   takeWhile (\<lambda>c. c \<noteq> CHR ''/'') (a @ path) = a \<and> dropWhile (\<lambda>c. c \<noteq> CHR ''/'') (a @ path) = path"
  by (induction a) (auto simp: prefix_def)

lemma plain_authority_notin:
  assumes "plain_parts user h port path"
  shows "c \<in> set (userPart user @ h @ portPart port @ path) \<Longrightarrow>
    plain c \<or> c = CHR ''@'' \<or> c = CHR '':'' \<or> c = CHR ''/''"
    and "CHR ''/'' \<notin> set (userPart user @ h @ portPart port)"
proof -
  have pp: "list_all plain port" using assms by (auto simp: plain_parts_def list_all_iff digit_plain)
  show "c \<in> set (userPart user @ h @ portPart port @ path) \<Longrightarrow>
    plain c \<or> c = CHR ''@'' \<or> c = CHR '':'' \<or> c = CHR ''/''"
    using assms pp
    by (auto simp: plain_parts_def userPart_def portPart_def pathChar_def list_all_iff split: option.splits if_splits)
  show "CHR ''/'' \<notin> set (userPart user @ h @ portPart port)"
    using assms pp plain_notin(2)
    by (auto simp: plain_parts_def userPart_def portPart_def split: option.splits if_splits)
qed

lemma getScheme_plain:
  assumes "list_all isLetter scheme" and "scheme \<noteq> []"
  shows "getScheme (scheme @ '':'' @ rest) = Some (scheme, rest)"
proof -
  obtain c s where [simp]: "scheme = c # s" using assms(2) by (cases scheme) auto
  have "schemeChar 0 c" and all: "list_all (schemeChar 1) s"
    using assms(1) by (auto simp: schemeChar_def list_all_iff)
  moreover have "\<not> schemeChar 1 (CHR '':'')" by (simp add: schemeChar_def isLetter_def isDigit_def)
  ultimately have "takeWhile (schemeChar 1) (s @ CHR '':'' # rest) = s"
    by (simp add: takeWhile_append list_all_iff)
  with \<open>schemeChar 0 c\<close> show ?thesis by (simp add: getScheme_def)
qed

lemma url_Parse_plain:
  assumes sch: "list_all isLetter scheme" "scheme \<noteq> []" "ToLower scheme = scheme"
    and parts: "plain_parts user h port path"
  shows "url_Parse ipLit (plainURL scheme user h port path) =
     Some \<lparr>url_Scheme = scheme, url_User = user, url_Host = h @ portPart port, url_Path = path\<rparr>"
proof -
  let ?rest = "userPart user @ h @ portPart port @ path"
  let ?raw = "plainURL scheme user h port path"
  have raw: "?raw = scheme @ '':'' @ ''//'' @ ?rest" by (simp add: plainURL_def)
  have chars: "plain c \<or> c = CHR ''@'' \<or> c = CHR '':'' \<or> c = CHR ''/''" if "c \<in> set ?raw" for c
    using that sch(1) plain_authority_notin(1) [OF parts, of c]
    by (auto simp: plainURL_def list_all_iff plain_def)
  have hash: "CHR ''#'' \<notin> set ?raw" and q: "CHR ''?'' \<notin> set ?raw"
    using chars plain_not(5,6) by fastforce+
  have ctl: "\<not> list_ex (\<lambda>c. (of_char c :: nat) < 32 \<or> c = CHR 127) ?raw"
    using chars plain_not(9,10) by (fastforce simp: list_ex_iff)
  have q': "CHR ''?'' \<notin> set (''//'' @ ?rest)" using q by (simp add: plainURL_def)
  have tw: "takeWhile (\<lambda>c. c \<noteq> CHR ''/'') ?rest = userPart user @ h @ portPart port"
    "dropWhile (\<lambda>c. c \<noteq> CHR ''/'') ?rest = path"
    using takeWhile_slash [OF plain_authority_notin(2) [OF parts], of path] parts by (simp_all add: plain_parts_def)
  have auth: "parseAuthority ipLit (userPart user @ h @ portPart port) = Some (user, h @ portPart port)"
    using parts by (intro parseAuthority_plain) (auto simp: plain_parts_def split: option.splits)
  have "unescape encodePath path = Some path"
    using parts by (intro unescape_id) (auto simp: plain_parts_def list_all_iff pathChar_def dest: plain_not)
  moreover have "?raw \<noteq> ''*''" unfolding raw by (cases scheme) (auto simp: sch)
  moreover have "HasPrefix (''//'' @ s) ''/''" "HasPrefix (''//'' @ s) ''//''" for s by (simp_all add: HasPrefix_def)
  ultimately have "parseNoFragment ipLit ?raw =
      Some \<lparr>url_Scheme = scheme, url_User = user, url_Host = h @ portPart port, url_Path = path\<rparr>"
    using ctl sch getScheme_plain [OF sch(1,2), of "''//'' @ ?rest", folded raw] CutByte_absent [OF q'] tw auth
    unfolding parseNoFragment_def by (simp add: Let_def)
  then show ?thesis using CutByte_absent [OF hash] by (simp add: url_Parse_def)
qed

lemma TrimRight_slashes:
  assumes "path = [] \<or> last path \<noteq> CHR ''/''"
  shows "TrimRightByte (CHR ''/'') (path @ replicate k (CHR ''/'')) = path"
proof -
  have "dropWhile (\<lambda>x. x = CHR ''/'') (replicate k (CHR ''/'') @ rev path) = dropWhile (\<lambda>x. x = CHR ''/'') (rev path)"
    by (induction k) auto
  moreover have "dropWhile (\<lambda>x. x = CHR ''/'') (rev path) = rev path"
    using assms by (cases path rule: rev_cases) auto
  ultimately show ?thesis by (simp add: TrimRightByte_def)
qed

lemma strings_ToLower_plain: "list_all plain h \<Longrightarrow> strings_ToLower uni h = ToLower h"
  by (simp add: strings_ToLower_def list_all_iff plain_ASCII)

lemma normalizeURLScheme_plain:
  assumes "list_all isLetter scheme" "scheme \<noteq> []" "ToLower scheme = scheme"
    and parts: "plain_parts user h port (path @ replicate k (CHR ''/''))" and "path = [] \<or> last path \<noteq> CHR ''/''"
  shows "normalizeURLScheme ipLit uni (plainURL scheme user h port (path @ replicate k (CHR ''/''))) scheme dflt =
     Inr (plainURL scheme user (ToLower h) (if port = dflt then [] else port) path)"
proof -
  have h: "list_all plain h" "h \<noteq> []" "\<not> prefix ''-'' h" "list_all isDigit port"
    using parts by (auto simp: plain_parts_def)
  have u: "case user of None \<Rightarrow> True | Some n \<Rightarrow> \<not> prefix ''-'' n"
    using parts by (auto simp: plain_parts_def split: option.splits)
  have host: "Hostname \<lparr>url_Scheme = s, url_User = us, url_Host = h @ portPart port, url_Path = p\<rparr> = h"
    "Port \<lparr>url_Scheme = s, url_User = us, url_Host = h @ portPart port, url_Path = p\<rparr> = port" for s us p
    using h by (simp_all add: Hostname_def Port_def splitHostPort_plain)
  show ?thesis
    unfolding normalizeURLScheme_def url_Parse_plain [OF assms(1-3) parts]
    using h u by (cases user) (simp_all add: host HasPrefix_def Let_def strings_ToLower_plain
        TrimRight_slashes [OF assms(5)] plainURL_def userPart_def, simp_all add: portPart_def)
qed


text \<open>The checks of \<open>ValidateURL\<close> before the normal form.\<close>

lemma plainURL_passes:
  assumes parts: "plain_parts user h port path" and sch: "scheme = ''https'' \<or> scheme = ''ssh''"
  shows "\<not> list_ex isControl (plainURL scheme user h port path)" "\<not> Contains (plainURL scheme user h port path) ''::''"
proof -
  have "\<not> isControl c" if "c \<in> set (userPart user @ h @ portPart port @ path)" for c
    using plain_authority_notin(1) [OF parts that] plain_not(8) [of c] by (auto simp: isControl_def)
  then show "\<not> list_ex isControl (plainURL scheme user h port path)"
    using sch by (auto simp: list_ex_iff plainURL_def isControl_def)
  have pp: "list_all plain port" using parts by (auto simp: plain_parts_def list_all_iff digit_plain)
  have nocolon: "CHR '':'' \<notin> set (userPart user)" "CHR '':'' \<notin> set h" "CHR '':'' \<notin> set port" "CHR '':'' \<notin> set path"
    using parts plain_notin(1) [OF pp] plain_notin(1)
    by (auto simp: plain_parts_def userPart_def list_all_iff pathChar_def split: option.splits dest: plain_not(1))
  have "\<not> Contains (port @ path) ''::''"
    using Contains_colons_skip [of "port @ path" "[]"] nocolon by (simp add: Contains_iff)
  moreover have "\<not> prefix '':'' (port @ path)"
    using nocolon by (cases port; cases path) (auto simp: prefix_def)
  moreover have "\<not> Contains path ''::''"
    using Contains_colons_skip [of path "[]"] nocolon by (simp add: Contains_iff)
  ultimately have "\<not> Contains (portPart port @ path) ''::''"
    by (simp add: portPart_def Contains_colons_Cons)
  then have rest: "\<not> Contains (''//'' @ userPart user @ h @ portPart port @ path) ''::''"
    using Contains_colons_skip [of "''//'' @ userPart user @ h" "portPart port @ path"] nocolon by simp
  have "CHR '':'' \<notin> set scheme" using sch by auto
  then show "\<not> Contains (plainURL scheme user h port path) ''::''"
    using rest Contains_colons_skip [of scheme "'':'' @ ''//'' @ userPart user @ h @ portPart port @ path"]
    by (simp add: plainURL_def Contains_colons_Cons)
qed

lemma NormalizeURL_plain:
  assumes sch: "(scheme, dflt) \<in> {(''https'', ''443''), (''ssh'', ''22'')}"
    and parts: "plain_parts user h port (path @ replicate k (CHR ''/''))" and path: "path = [] \<or> last path \<noteq> CHR ''/''"
    and len: "length (plainURL scheme user h port (path @ replicate k (CHR ''/''))) \<le> 2048"
  shows "NormalizeURL ipLit uni (plainURL scheme user h port (path @ replicate k (CHR ''/''))) =
     Inr (plainURL scheme user (ToLower h) (if port = dflt then [] else port) path)"
proof -
  let ?raw = "plainURL scheme user h port (path @ replicate k (CHR ''/''))"
  have letters: "list_all isLetter scheme" "scheme \<noteq> []" "ToLower scheme = scheme" "scheme = ''https'' \<or> scheme = ''ssh''"
    using sch by (auto simp: isLetter_def ToLower_def ToLowerChar_def Let_def)
  note norm = normalizeURLScheme_plain [OF letters(1-3) parts path]
  have "?raw \<noteq> []" "\<not> HasPrefix ?raw ''-''" using letters(4) by (auto simp: plainURL_def HasPrefix_def)
  moreover have "scheme = ''https'' \<and> dflt = ''443'' \<and> HasPrefix ?raw ''https://'' \<or>
      scheme = ''ssh'' \<and> dflt = ''22'' \<and> HasPrefix ?raw ''ssh://'' \<and> \<not> HasPrefix ?raw ''https://''"
    using sch by (auto simp: plainURL_def HasPrefix_def)
  ultimately show ?thesis
    using plainURL_passes [OF parts letters(4)] len norm [of ipLit uni dflt]
    by (auto simp: NormalizeURL_def ValidateURL_def maxURLLen_def normalizeHTTPS_def normalizeSSHScheme_def)
qed

text \<open>The scp-like form.\<close>

lemma one_colon:
  assumes u: "CHR '':'' \<notin> set u" and v: "CHR '':'' \<notin> set v" and "\<not> prefix ''/'' v"
  shows "\<not> Contains (u @ '':'' @ v) ''://''" and "\<not> Contains (u @ '':'' @ v) ''::''"
proof -
  have pos: "x = u \<and> v = y" if "u @ '':'' @ v = x @ '':'' @ y" for x y
  proof -
    have "count_list (x @ '':'' @ y) (CHR '':'') = 1"
      using u v unfolding that [symmetric] by (simp add: count_list_0_iff)
    then have "CHR '':'' \<notin> set x" using count_list_0_iff [of x "CHR '':''"] by simp
    with u have "length x = length u"
      using that IndexByte_append [of "CHR '':''" x y] IndexByte_append [of "CHR '':''" u v] by simp
    with that show ?thesis by simp
  qed
  show "\<not> Contains (u @ '':'' @ v) ''://''"
  proof
    assume "Contains (u @ '':'' @ v) ''://''"
    then obtain x y where "u @ '':'' @ v = x @ '':'' @ (''//'' @ y)" by (auto simp: Contains_iff)
    with pos assms(3) show False by (fastforce simp: prefix_def)
  qed
  show "\<not> Contains (u @ '':'' @ v) ''::''"
  proof
    assume "Contains (u @ '':'' @ v) ''::''"
    then obtain x y where "u @ '':'' @ v = x @ '':'' @ ('':'' @ y)" by (auto simp: Contains_iff)
    with pos have "v = '':'' @ y" by blast
    with v show False by simp
  qed
qed

lemma scp_normalizes:
  assumes parts: "plain_parts (Some user) h [] (''/'' @ path @ replicate k (CHR ''/''))"
    and path: "path \<noteq> []" "last path \<noteq> CHR ''/''" "\<not> prefix ''-'' path" "\<not> prefix ''/'' path"
    and len: "length (user @ ''@'' @ h @ '':'' @ path @ replicate k (CHR ''/'')) \<le> 2048"
  shows "NormalizeURL ipLit uni (user @ ''@'' @ h @ '':'' @ path @ replicate k (CHR ''/'')) =
     Inr (plainURL ''ssh'' (Some user) (ToLower h) [] (''/'' @ path))"
proof -
  let ?tail = "path @ replicate k (CHR ''/'')"
  let ?raw = "user @ ''@'' @ h @ '':'' @ ?tail"
  have u: "list_all plain user" "user \<noteq> []" "\<not> prefix ''-'' user" and h: "list_all plain h" "h \<noteq> []" "\<not> prefix ''-'' h"
    and p: "list_all pathChar ?tail"
    using parts by (auto simp: plain_parts_def)
  have colon: "CHR '':'' \<notin> set ?tail" using p by (auto simp: list_all_iff pathChar_def dest: plain_not(1))
  have at: "IndexByte ?raw (CHR ''@'') = Some (length user)"
    using plain_notin(3) [OF u(1)] by simp
  have col: "IndexByte (h @ '':'' @ ?tail) (CHR '':'') = Some (length h)"
    using plain_notin(1) [OF h(1)] by simp
  have "CHR '':'' \<notin> set (user @ ''@'' @ h)" using plain_notin(1) [OF u(1)] plain_notin(1) [OF h(1)] by auto
  then have col2: "IndexByte ?raw (CHR '':'') = Some (length (user @ ''@'' @ h))"
    using IndexByte_append [of "CHR '':''" "user @ ''@'' @ h" ?tail] by simp
  have "\<not> prefix ''/'' ?tail" using path(1,4) by (cases path) simp_all
  from one_colon [OF \<open>CHR '':'' \<notin> set (user @ ''@'' @ h)\<close> colon this]
  have scheme: "\<not> Contains ?raw ''://''" and cc: "\<not> Contains ?raw ''::''" by simp_all
  have scp: "isSCPLike ?raw" using at col2 scheme u(2) h(2) by (simp add: isSCPLike_def)
  have norm: "normalizeSCP uni ?raw = Inr (plainURL ''ssh'' (Some user) (ToLower h) [] (''/'' @ path))"
    using u h at col path TrimRight_slashes [of path k] strings_ToLower_plain [OF h(1), of uni]
    by (cases path) (simp_all add: normalizeSCP_def Let_def HasPrefix_def plainURL_def userPart_def portPart_def)
  have ctl: "\<not> list_ex isControl ?raw"
    using u(1) h(1) p by (auto simp: list_ex_iff list_all_iff pathChar_ok plain_not(8) at_sign_ok)
  have "\<not> HasPrefix ?raw ''-''" "?raw \<noteq> []" using u by (cases user; simp add: HasPrefix_def)+
  moreover have "\<not> HasPrefix ?raw ''https://''" "\<not> HasPrefix ?raw ''ssh://''"
    using scheme unfolding HasPrefix_def Contains_iff prefix_def
    by (metis (no_types, lifting) append.assoc append_Cons append_Nil)+
  ultimately show ?thesis
    using ctl cc len scp norm by (simp add: NormalizeURL_def ValidateURL_def maxURLLen_def del: append_assoc)
qed

section \<open>Properties\<close>


text \<open>The normal form forgets the spelling: for URLs of unreserved characters, the case of the
  host, a default port and trailing slashes make no difference, and nothing else is lost.\<close>

theorem normal_form_of_url:
  assumes "(scheme, dflt) \<in> {(''https'', ''443''), (''ssh'', ''22'')}"
    and "plain_parts user h port (path @ replicate k (CHR ''/''))" and "path = [] \<or> last path \<noteq> CHR ''/''"
    and "length (plainURL scheme user h port (path @ replicate k (CHR ''/''))) \<le> 2048"
  shows "NormalizeURL ipLit uni (plainURL scheme user h port (path @ replicate k (CHR ''/''))) =
     Inr (plainURL scheme user (ToLower h) (if port = dflt then [] else port) path)"
  using assms by (rule NormalizeURL_plain)

lemmas plain_eval = plain_parts_def plain_def pathChar_def isLetter_def isDigit_def plainURL_def userPart_def portPart_def
  ToLower_def ToLowerChar_def

theorem normal_form_of_url_witness:
  "NormalizeURL (\<lambda>_. None) id ''https://Git.Example:443/a/b//'' = Inr ''https://git.example/a/b''"
  using normal_form_of_url [of "''https''" "''443''" None "''Git.Example''" "''443''" "''/a/b''" "Suc (Suc 0)" "\<lambda>_. None" id]
  by (simp add: plain_eval char_of_def bit_0)

text \<open>The scp-like form \<open>user@host:path\<close> and the URL \<open>ssh://user@host/path\<close> name the same remote:
  they have one normal form.\<close>

theorem scp_form_is_ssh_url:
  assumes "plain_parts (Some user) h [] (''/'' @ path @ replicate k (CHR ''/''))"
    and "path \<noteq> []" "last path \<noteq> CHR ''/''" "\<not> prefix ''-'' path" "\<not> prefix ''/'' path"
    and "length (user @ ''@'' @ h @ '':'' @ path @ replicate k (CHR ''/'')) \<le> 2000"
  shows "NormalizeURL ipLit uni (user @ ''@'' @ h @ '':'' @ path @ replicate k (CHR ''/'')) =
     NormalizeURL ipLit uni (plainURL ''ssh'' (Some user) h [] (''/'' @ path @ replicate k (CHR ''/'')))"
proof -
  have "NormalizeURL ipLit uni (plainURL ''ssh'' (Some user) h [] ((''/'' @ path) @ replicate k (CHR ''/''))) =
      Inr (plainURL ''ssh'' (Some user) (ToLower h) (if [] = ''22'' then [] else []) (''/'' @ path))"
    by (rule NormalizeURL_plain) (use assms in \<open>auto simp: plainURL_def userPart_def portPart_def\<close>)
  with scp_normalizes [OF assms(1-5), of ipLit uni] assms(6) show ?thesis by simp
qed

theorem scp_form_is_ssh_url_witness:
  "NormalizeURL (\<lambda>_. None) id ''git@Host:o/r.git'' = NormalizeURL (\<lambda>_. None) id ''ssh://git@Host/o/r.git''"
  using scp_form_is_ssh_url [of "''git''" "''Host''" "''o/r.git''" 0 "\<lambda>_. None" id] by (simp add: plain_eval)

end
