(* ===== verification/Effects.thy ===== *)
theory Effects
  imports Model
begin

text \<open>
  The effects of the program, as explicit state passing. A computation takes a world and
  returns either an error or a value, with the world after it. The world holds

  \<^item> \<open>w_db\<close>: the state the computation may change (the database, or the state of one
    transaction);
  \<^item> \<open>w_fault\<close> and \<open>w_stmts\<close>: an arbitrary oracle that says which SQL statements fail for
    reasons outside the program (a full disk, a lost connection, an ended context), and how
    many statements were issued. Theorems quantify over the oracle, so they hold under any
    pattern of failures;
  \<^item> \<open>w_clock\<close> and \<open>w_ticks\<close>: the successive readings of the clock.

  Error handling of the source is written with \<open>bindT\<close> (return the error at once),
  \<open>tryT\<close> (look at the error) and \<open>ignoreT\<close> (\<open>_ = f()\<close>). A small Hoare logic with
  a postcondition for results and one for errors carries the proofs.
\<close>

record 'd world =
  w_db :: 'd
  w_fault :: "nat \<Rightarrow> bool"
  w_stmts :: nat
  w_clock :: "nat \<Rightarrow> int64"
  w_ticks :: nat

type_synonym ('d, 'a) io = "'d world \<Rightarrow> (err + 'a) \<times> 'd world"

text \<open>One SQL statement, seen as a function of the database it runs against.\<close>

type_synonym ('d, 'a) query = "'d \<Rightarrow> sql_error + ('a \<times> 'd)"

named_theorems io_defs \<open>the combinators, for symbolic execution of a short computation\<close>
named_theorems hoare_intros \<open>the rules of the Hoare logic\<close>

section \<open>Combinators\<close>

definition ret :: "'a \<Rightarrow> ('d, 'a) io" where [io_defs]:
  "ret a w = (Inr a, w)"

definition fail :: "err \<Rightarrow> ('d, 'a) io" where [io_defs]:
  "fail e w = (Inl e, w)"

definition bindT :: "('d, 'a) io \<Rightarrow> ('a \<Rightarrow> ('d, 'b) io) \<Rightarrow> ('d, 'b) io" where [io_defs]:
  "bindT m f w = (case m w of (Inl e, w') \<Rightarrow> (Inl e, w') | (Inr a, w') \<Rightarrow> f a w')"

definition tryT :: "('d, 'a) io \<Rightarrow> ('d, err + 'a) io" where [io_defs]:
  "tryT m w = (case m w of (r, w') \<Rightarrow> (Inr r, w'))"

definition ignoreT :: "('d, 'a) io \<Rightarrow> ('d, unit) io" where [io_defs]:
  "ignoreT m w = (case m w of (r, w') \<Rightarrow> (Inr (), w'))"

definition mapErrT :: "(err \<Rightarrow> err) \<Rightarrow> ('d, 'a) io \<Rightarrow> ('d, 'a) io" where [io_defs]:
  "mapErrT g m w = (case m w of (Inl e, w') \<Rightarrow> (Inl (g e), w') | (Inr a, w') \<Rightarrow> (Inr a, w'))"

text \<open>Reading and writing a Go variable of the state: no statement is issued.\<close>

definition getsT :: "('d \<Rightarrow> 'a) \<Rightarrow> ('d, 'a) io" where [io_defs]:
  "getsT f w = (Inr (f (w_db w)), w)"

definition modifyT :: "('d \<Rightarrow> 'd) \<Rightarrow> ('d, unit) io" where [io_defs]:
  "modifyT f w = (Inr (), w\<lparr>w_db := f (w_db w)\<rparr>)"

definition liftE :: "err + 'a \<Rightarrow> ('d, 'a) io" where [io_defs]:
  "liftE r w = (r, w)"

fun forT :: "'x list \<Rightarrow> 'a \<Rightarrow> ('x \<Rightarrow> 'a \<Rightarrow> ('d, 'a) io) \<Rightarrow> ('d, 'a) io" where
  "forT [] a body = ret a"
| "forT (x # xs) a body = bindT (body x a) (\<lambda>a'. forT xs a' body)"

text \<open>\<open>Clock.NowNS\<close>: the next reading of the clock.\<close>

definition NowNS :: "('d, int64) io" where [io_defs]:
  "NowNS w = (Inr (w_clock w (w_ticks w)), w\<lparr>w_ticks := w_ticks w + 1\<rparr>)"

text \<open>
  A statement either fails for an outside reason, or fails a constraint, or takes effect.
  In the first two cases the database is unchanged: a statement is atomic.
\<close>

definition stmt :: "('d, 'a) query \<Rightarrow> ('d, 'a) io" where [io_defs]:
  "stmt q w =
     (let w' = w\<lparr>w_stmts := w_stmts w + 1\<rparr> in
      if w_fault w (w_stmts w) then (Inl (SqlErr SqlIO), w')
      else case q (w_db w) of
             Inl e \<Rightarrow> (Inl (SqlErr e), w')
           | Inr (a, d) \<Rightarrow> (Inr a, w'\<lparr>w_db := d\<rparr>))"

definition with_db :: "'e \<Rightarrow> 'd world \<Rightarrow> 'e world" where [io_defs]:
  "with_db d w = \<lparr>w_db = d, w_fault = w_fault w, w_stmts = w_stmts w,
                  w_clock = w_clock w, w_ticks = w_ticks w\<rparr>"

definition no_faults :: "'d world \<Rightarrow> bool" where
  "no_faults w \<longleftrightarrow> (\<forall>n. \<not> w_fault w n)"

lemma w_db_with_db [simp]: "w_db (with_db d w) = d"
  by (simp add: with_db_def)

lemma with_db_sel [simp]:
  "w_fault (with_db d w) = w_fault w" "w_clock (with_db d w) = w_clock w"
  "w_stmts (with_db d w) = w_stmts w" "w_ticks (with_db d w) = w_ticks w"
  by (simp_all add: with_db_def)

lemma bindT_Inr [simp]: "m w = (Inr a, w') \<Longrightarrow> bindT m f w = f a w'"
  by (simp add: bindT_def)

lemma bindT_Inl [simp]: "m w = (Inl e, w') \<Longrightarrow> bindT m f w = (Inl e, w')"
  by (simp add: bindT_def)

lemma bindT_eq_Inr:
  "bindT m f w = (Inr b, w') \<longleftrightarrow> (\<exists>a w1. m w = (Inr a, w1) \<and> f a w1 = (Inr b, w'))"
  by (auto simp: bindT_def split: prod.splits sum.splits)

lemma bindT_InrE:
  assumes "bindT m f w = (Inr b, w')"
  obtains a w1 where "m w = (Inr a, w1)" and "f a w1 = (Inr b, w')"
  using assms by (auto simp: bindT_eq_Inr)

lemma fail_not_Inr [simp]: "fail e w = (Inr a, w') \<longleftrightarrow> False"
  by (simp add: fail_def)

lemma ret_Inr [simp]: "ret b w = (Inr a, w') \<longleftrightarrow> a = b \<and> w' = w"
  by (auto simp: ret_def)

lemma getsT_Inr [simp]: "getsT f w = (Inr a, w') \<longleftrightarrow> a = f (w_db w) \<and> w' = w"
  by (auto simp: getsT_def)

lemma stmt_Inr:
  "stmt q w = (Inr a, w') \<longleftrightarrow>
     \<not> w_fault w (w_stmts w) \<and>
     (\<exists>d. q (w_db w) = Inr (a, d) \<and> w' = w\<lparr>w_stmts := w_stmts w + 1, w_db := d\<rparr>)"
  by (auto simp: stmt_def Let_def split: if_splits sum.splits)

lemma mapErrT_Inr [simp]: "mapErrT g m w = (Inr a, w') \<longleftrightarrow> m w = (Inr a, w')"
  by (auto simp: mapErrT_def split: prod.splits sum.splits)

lemma NowNS_Inr: "NowNS w = (Inr a, w') \<longleftrightarrow> a = w_clock w (w_ticks w) \<and> w' = w\<lparr>w_ticks := w_ticks w + 1\<rparr>"
  by (auto simp: NowNS_def)

section \<open>Hoare logic\<close>

definition hoare ::
  "('d world \<Rightarrow> bool) \<Rightarrow> ('d, 'a) io \<Rightarrow> ('a \<Rightarrow> 'd world \<Rightarrow> bool) \<Rightarrow> (err \<Rightarrow> 'd world \<Rightarrow> bool) \<Rightarrow> bool"
where
  "hoare P m Q E \<longleftrightarrow>
     (\<forall>w. P w \<longrightarrow> (case m w of (Inr a, w') \<Rightarrow> Q a w' | (Inl e, w') \<Rightarrow> E e w'))"

lemma hoareI:
  assumes "\<And>w a w'. P w \<Longrightarrow> m w = (Inr a, w') \<Longrightarrow> Q a w'"
    and "\<And>w e w'. P w \<Longrightarrow> m w = (Inl e, w') \<Longrightarrow> E e w'"
  shows "hoare P m Q E"
  using assms by (auto simp: hoare_def split: prod.splits sum.splits)

lemma hoare_Inr: "hoare P m Q E \<Longrightarrow> P w \<Longrightarrow> m w = (Inr a, w') \<Longrightarrow> Q a w'"
  by (auto simp: hoare_def)

lemma hoare_Inl: "hoare P m Q E \<Longrightarrow> P w \<Longrightarrow> m w = (Inl e, w') \<Longrightarrow> E e w'"
  by (auto simp: hoare_def)

lemma hoare_weaken:
  assumes "hoare P' m Q' E'"
    and "\<And>w. P w \<Longrightarrow> P' w" and "\<And>a w. Q' a w \<Longrightarrow> Q a w" and "\<And>e w. E' e w \<Longrightarrow> E e w"
  shows "hoare P m Q E"
  using assms by (fastforce simp: hoare_def split: prod.splits sum.splits)

lemma hoare_pre: "hoare P' m Q E \<Longrightarrow> (\<And>w. P w \<Longrightarrow> P' w) \<Longrightarrow> hoare P m Q E"
  by (rule hoare_weaken)

lemma hoare_ret [hoare_intros]: "hoare (Q a) (ret a) Q E"
  by (simp add: hoare_def ret_def)

lemma hoare_fail [hoare_intros]: "hoare (E e) (fail e) Q E"
  by (simp add: hoare_def fail_def)

lemma hoare_bind [hoare_intros]:
  assumes "hoare P m R E" and "\<And>a. hoare (R a) (f a) Q E"
  shows "hoare P (bindT m f) Q E"
  using assms by (fastforce simp: hoare_def bindT_def split: prod.splits sum.splits)

lemma hoare_mapErr [hoare_intros]:
  "hoare P m Q (\<lambda>e. E (g e)) \<Longrightarrow> hoare P (mapErrT g m) Q E"
  by (fastforce simp: hoare_def mapErrT_def split: prod.splits sum.splits)

lemma hoare_try [hoare_intros]:
  assumes "hoare P m (\<lambda>a. Q (Inr a)) (\<lambda>e. Q (Inl e))"
  shows "hoare P (tryT m) Q E"
proof (rule hoareI)
  fix w r w'
  assume "P w" "tryT m w = (Inr r, w')"
  then show "Q r w'"
    using hoare_Inr [OF assms] hoare_Inl [OF assms]
    by (cases r) (auto simp: tryT_def split: prod.splits)
qed (auto simp: tryT_def split: prod.splits)

lemma hoare_ignore [hoare_intros]:
  "hoare P m (\<lambda>a. Q ()) (\<lambda>e. Q ()) \<Longrightarrow> hoare P (ignoreT m) Q E"
  by (fastforce simp: hoare_def ignoreT_def split: prod.splits sum.splits)

lemma hoare_if [hoare_intros]:
  assumes "b \<Longrightarrow> hoare P m Q E" and "\<not> b \<Longrightarrow> hoare P n Q E"
  shows "hoare P (if b then m else n) Q E"
  using assms by simp

lemma hoare_case_option [hoare_intros]:
  assumes "x = None \<Longrightarrow> hoare P m Q E" and "\<And>a. x = Some a \<Longrightarrow> hoare P (f a) Q E"
  shows "hoare P (case x of None \<Rightarrow> m | Some a \<Rightarrow> f a) Q E"
  using assms by (cases x) simp_all

lemma hoare_case_sum [hoare_intros]:
  assumes "\<And>e. x = Inl e \<Longrightarrow> hoare P (m e) Q E" and "\<And>a. x = Inr a \<Longrightarrow> hoare P (f a) Q E"
  shows "hoare P (case x of Inl e \<Rightarrow> m e | Inr a \<Rightarrow> f a) Q E"
  using assms by (cases x) simp_all

lemma hoare_case_prod [hoare_intros]:
  assumes "\<And>a b. x = (a, b) \<Longrightarrow> hoare P (f a b) Q E"
  shows "hoare P (case x of (a, b) \<Rightarrow> f a b) Q E"
  using assms by (cases x) simp_all

text \<open>A loop keeps an invariant that its body keeps, for the state and the accumulator.\<close>

lemma hoare_for:
  assumes "\<And>x a. x \<in> set xs \<Longrightarrow> hoare (I a) (body x a) I E"
  shows "hoare (I a) (forT xs a body) I E"
  using assms
proof (induction xs arbitrary: a)
  case Nil
  show ?case by (simp add: hoare_ret)
next
  case (Cons x xs)
  then show ?case by (auto intro!: hoare_bind)
qed

text \<open>Properties of the database alone.\<close>

definition dbP :: "('d \<Rightarrow> bool) \<Rightarrow> 'd world \<Rightarrow> bool" where
  "dbP P w \<longleftrightarrow> P (w_db w)"

definition keeps :: "('d \<Rightarrow> bool) \<Rightarrow> ('d, 'a) io \<Rightarrow> bool" where
  "keeps I m \<longleftrightarrow> hoare (dbP I) m (\<lambda>_. dbP I) (\<lambda>_. dbP I)"

lemma keeps_snd: "keeps I m \<Longrightarrow> I (w_db w) \<Longrightarrow> I (w_db (snd (m w)))"
  by (cases "m w"; cases "fst (m w)") (auto simp: keeps_def dbP_def dest: hoare_Inr hoare_Inl)

lemma keepsI: "(\<And>w. I (w_db w) \<Longrightarrow> I (w_db (snd (m w)))) \<Longrightarrow> keeps I m"
  by (auto simp: keeps_def hoare_def dbP_def split: prod.splits sum.splits) (metis snd_conv)+

lemma keeps_ret [hoare_intros]: "keeps I (ret a)"
  by (simp add: keeps_def hoare_def ret_def)

lemma keeps_fail [hoare_intros]: "keeps I (fail e)"
  by (simp add: keeps_def hoare_def fail_def)

lemma keeps_NowNS [hoare_intros]: "keeps I NowNS"
  by (simp add: keeps_def hoare_def NowNS_def dbP_def)

lemma keeps_getsT [hoare_intros]: "keeps I (getsT f)"
  by (simp add: keeps_def hoare_def getsT_def dbP_def)

lemma keeps_modifyT: "(\<And>d. I d \<Longrightarrow> I (f d)) \<Longrightarrow> keeps I (modifyT f)"
  by (simp add: keeps_def hoare_def modifyT_def dbP_def)

lemma keeps_liftE [hoare_intros]: "keeps I (liftE r)"
  by (cases r) (simp_all add: keeps_def hoare_def liftE_def dbP_def)

lemma keeps_bind [hoare_intros]: "keeps I m \<Longrightarrow> (\<And>a. keeps I (f a)) \<Longrightarrow> keeps I (bindT m f)"
  unfolding keeps_def by (rule hoare_bind)

lemma keeps_ignore [hoare_intros]: "keeps I m \<Longrightarrow> keeps I (ignoreT m)"
  unfolding keeps_def by (rule hoare_ignore)

lemma keeps_try [hoare_intros]: "keeps I m \<Longrightarrow> keeps I (tryT m)"
  unfolding keeps_def by (rule hoare_try)

lemma keeps_mapErr [hoare_intros]: "keeps I m \<Longrightarrow> keeps I (mapErrT g m)"
  unfolding keeps_def by (rule hoare_mapErr)

lemma keeps_stmt:
  assumes "\<And>d a d'. I d \<Longrightarrow> q d = Inr (a, d') \<Longrightarrow> I d'"
  shows "keeps I (stmt q)"
  using assms
  by (auto simp: keeps_def hoare_def dbP_def stmt_def Let_def split: prod.splits sum.splits)

lemma keeps_if [hoare_intros]: "(b \<Longrightarrow> keeps I m) \<Longrightarrow> (\<not> b \<Longrightarrow> keeps I n) \<Longrightarrow> keeps I (if b then m else n)"
  by simp

lemma keeps_case_option [hoare_intros]:
  "(x = None \<Longrightarrow> keeps I m) \<Longrightarrow> (\<And>a. x = Some a \<Longrightarrow> keeps I (f a)) \<Longrightarrow>
   keeps I (case x of None \<Rightarrow> m | Some a \<Rightarrow> f a)"
  by (cases x) simp_all

lemma keeps_case_sum [hoare_intros]:
  "(\<And>e. x = Inl e \<Longrightarrow> keeps I (m e)) \<Longrightarrow> (\<And>a. x = Inr a \<Longrightarrow> keeps I (f a)) \<Longrightarrow>
   keeps I (case x of Inl e \<Rightarrow> m e | Inr a \<Rightarrow> f a)"
  by (cases x) simp_all

lemma keeps_case_prod [hoare_intros]:
  "(\<And>a b. x = (a, b) \<Longrightarrow> keeps I (f a b)) \<Longrightarrow> keeps I (case x of (a, b) \<Rightarrow> f a b)"
  by (cases x) simp

lemma keeps_for [hoare_intros]:
  assumes "\<And>x a. x \<in> set xs \<Longrightarrow> keeps I (body x a)"
  shows "keeps I (forT xs a body)"
  using assms unfolding keeps_def by (rule hoare_for)

text \<open>
  Inside a transaction an error is followed by a rollback, so only success counts:
  \<open>oks P m Q\<close> says that from a state in \<open>P\<close>, a successful \<open>m\<close> returns an \<open>a\<close> in a state
  with \<open>Q a\<close>.
\<close>

definition oks :: "('d \<Rightarrow> bool) \<Rightarrow> ('d, 'a) io \<Rightarrow> ('a \<Rightarrow> 'd \<Rightarrow> bool) \<Rightarrow> bool" where
  "oks P m Q \<longleftrightarrow> (\<forall>w a w'. P (w_db w) \<longrightarrow> m w = (Inr a, w') \<longrightarrow> Q a (w_db w'))"

named_theorems oks_intros \<open>rules for \<open>oks\<close>\<close>

lemma oksI:
  "(\<And>w a w'. P (w_db w) \<Longrightarrow> m w = (Inr a, w') \<Longrightarrow> Q a (w_db w')) \<Longrightarrow> oks P m Q"
  by (simp add: oks_def)

lemma oksD: "oks P m Q \<Longrightarrow> P (w_db w) \<Longrightarrow> m w = (Inr a, w') \<Longrightarrow> Q a (w_db w')"
  by (auto simp: oks_def)

lemma oks_ret [oks_intros]: "(\<And>d. P d \<Longrightarrow> Q a d) \<Longrightarrow> oks P (ret a) Q"
  by (simp add: oks_def ret_def)

lemma oks_fail [oks_intros]: "oks P (fail e) Q"
  by (simp add: oks_def fail_def)

lemma oks_bind [oks_intros]:
  assumes "oks P m R" and "\<And>a. oks (R a) (f a) Q"
  shows "oks P (bindT m f) Q"
  using assms unfolding oks_def by (metis bindT_eq_Inr)

lemma oks_weaken:
  assumes "oks P' m Q'" and "\<And>d. P d \<Longrightarrow> P' d" and "\<And>a d. Q' a d \<Longrightarrow> Q a d"
  shows "oks P m Q"
  using assms unfolding oks_def by metis

lemma oks_NowNS [oks_intros]: "(\<And>a d. P d \<Longrightarrow> Q a d) \<Longrightarrow> oks P NowNS Q"
  by (simp add: oks_def NowNS_def)

lemma oks_getsT [oks_intros]: "(\<And>d. P d \<Longrightarrow> Q (f d) d) \<Longrightarrow> oks P (getsT f) Q"
  by (simp add: oks_def getsT_def)

lemma oks_modifyT [oks_intros]: "(\<And>d. P d \<Longrightarrow> Q () (f d)) \<Longrightarrow> oks P (modifyT f) Q"
  by (simp add: oks_def modifyT_def)

lemma oks_stmt:
  assumes "\<And>d a d'. P d \<Longrightarrow> q d = Inr (a, d') \<Longrightarrow> Q a d'"
  shows "oks P (stmt q) Q"
  using assms by (auto simp: oks_def stmt_def Let_def split: if_splits sum.splits)

lemma oks_mapErr [oks_intros]: "oks P m Q \<Longrightarrow> oks P (mapErrT g m) Q"
  by (auto simp: oks_def mapErrT_def split: prod.splits sum.splits)

lemma oks_if [oks_intros]: "(b \<Longrightarrow> oks P m Q) \<Longrightarrow> (\<not> b \<Longrightarrow> oks P n Q) \<Longrightarrow> oks P (if b then m else n) Q"
  by simp

lemma oks_case_prod [oks_intros]:
  "(\<And>a b. x = (a, b) \<Longrightarrow> oks P (f a b) Q) \<Longrightarrow> oks P (case x of (a, b) \<Rightarrow> f a b) Q"
  by (cases x) simp

lemma oks_case_option [oks_intros]:
  "(x = None \<Longrightarrow> oks P m Q) \<Longrightarrow> (\<And>a. x = Some a \<Longrightarrow> oks P (f a) Q) \<Longrightarrow>
   oks P (case x of None \<Rightarrow> m | Some a \<Rightarrow> f a) Q"
  by (cases x) simp_all

text \<open>A precondition that does not depend on the state can be moved out.\<close>

lemma oks_pull: "(c \<Longrightarrow> oks P m Q) \<Longrightarrow> oks (\<lambda>d. c \<and> P d) m Q"
  by (auto simp: oks_def)

lemma oks_conj:
  "oks P m Q \<Longrightarrow> oks P m Q' \<Longrightarrow> oks P m (\<lambda>a d. Q a d \<and> Q' a d)"
  by (auto simp: oks_def)

lemma oks_ex: "(\<And>x. oks (P x) m Q) \<Longrightarrow> oks (\<lambda>d. \<exists>x. P x d) m Q"
  by (auto simp: oks_def)

text \<open>A loop whose invariant may depend on the items already done.\<close>

lemma oks_for:
  assumes "\<And>ys x zs a. xs = ys @ x # zs \<Longrightarrow> oks (I ys a) (body x a) (I (ys @ [x]))"
  shows "oks (I [] a) (forT xs a body) (I xs)"
proof -
  have "oks (I ys a) (forT zs a body) (I xs)" if "xs = ys @ zs" for ys zs a
    using that
  proof (induction zs arbitrary: ys a)
    case Nil
    then show ?case by (simp add: oks_ret)
  next
    case (Cons x zs)
    have "oks (I (ys @ [x]) a') (forT zs a' body) (I xs)" for a'
      using Cons by simp
    with assms [OF Cons.prems] show ?case by (auto intro: oks_bind)
  qed
  from this [of "[]" xs a] show ?thesis by simp
qed

end
