(* ===== verification/Seams.thy ===== *)
theory Seams
  imports Effects
begin

text \<open>
  The interfaces of \<open>internal/model\<close>: \<open>Tx\<close> and \<open>Store\<close> (\<open>store.go\<close>), \<open>Lock\<close> (\<open>lock.go\<close>),
  \<open>GitRunner\<close> (\<open>git.go\<close>). A Go interface value is a record of operations; the implementation
  chooses the type of the state they act on. An operation that writes through a pointer
  argument returns the value the pointer then holds.

  \<open>WithTx\<close> runs a closure that assigns captured variables. The closure returns those
  variables as a value of type \<open>'r\<close>.
\<close>

record 't Tx =
  tx_AppendObservation :: "Observation \<Rightarrow> ('t, Seq \<times> Observation) io"
  tx_UpsertRefProjection :: "Ref \<Rightarrow> ('t, Ref) io"
  tx_WriteSync :: "Sync \<Rightarrow> ('t, SyncID \<times> Sync) io"
  tx_AdvanceChainHead :: "RemoteID \<Rightarrow> bytes \<Rightarrow> int64 \<Rightarrow> ('t, unit) io"
  tx_AppendTaintEvent :: "TaintEvent \<Rightarrow> ('t, int64) io"
  tx_CreateRemote :: "Remote \<Rightarrow> ('t, RemoteID) io"
  tx_CountAllRemotes :: "('t, int64) io"
  tx_PruneSyncs :: "RemoteID \<Rightarrow> int64 \<Rightarrow> ('t, unit) io"

record ('d, 't, 'r) Store =
  st_CreateRemote :: "Remote \<Rightarrow> ('d, RemoteID) io"
  st_GetRemote :: "RemoteID \<Rightarrow> ('d, Remote) io"
  st_GetRemoteByURL :: "string \<Rightarrow> ('d, Remote) io"
  st_ListRemotes :: "int64 \<Rightarrow> int64 \<Rightarrow> ('d, Remote list \<times> int64) io"
  st_CountAllRemotes :: "('d, int64) io"
  st_UpdateRemote :: "Remote \<Rightarrow> ('d, unit) io"
  st_SoftDeleteRemote :: "RemoteID \<Rightarrow> int64 \<Rightarrow> ('d, unit) io"
  st_SelectDueRemotes :: "int64 \<Rightarrow> int64 \<Rightarrow> ('d, Remote list) io"
  st_SetRemoteHealth :: "RemoteID \<Rightarrow> RemoteStatus \<Rightarrow> string \<Rightarrow> int64 \<Rightarrow> ('d, unit) io"
  st_GetRef :: "RemoteID \<Rightarrow> string \<Rightarrow> ('d, Ref) io"
  st_ListTags :: "RemoteID \<Rightarrow> ('d, Ref list) io"
  st_SetRefTaint :: "RefID \<Rightarrow> int64 \<Rightarrow> ('d, unit) io"
  st_GetChainHead :: "RemoteID \<Rightarrow> ('d, bytes \<times> int64) io"
  st_ReplayObservations :: "RemoteID \<Rightarrow> Seq \<Rightarrow> int64 \<Rightarrow> ('d, Observation list) io"
  st_LatestObservationForRef :: "RefID \<Rightarrow> ('d, ObservationProof) io"
  st_AppendTaintEvent :: "TaintEvent \<Rightarrow> ('d, int64) io"
  st_ListTaintEvents :: "RemoteID \<Rightarrow> int64 \<Rightarrow> int64 \<Rightarrow> ('d, TaintEvent list \<times> int64) io"
  st_AckTaintEvent :: "int64 \<Rightarrow> string \<Rightarrow> string \<Rightarrow> int64 \<Rightarrow> ('d, unit) io"
  st_ListSyncs :: "RemoteID \<Rightarrow> int64 \<Rightarrow> int64 \<Rightarrow> ('d, Sync list \<times> int64) io"
  st_TryAcquireLease :: "RemoteID \<Rightarrow> string \<Rightarrow> int64 \<Rightarrow> int64 \<Rightarrow> ('d, bool \<times> bytes) io"
  st_ReleaseLeaseCAS :: "RemoteID \<Rightarrow> string \<Rightarrow> bytes \<Rightarrow> bytes \<Rightarrow> int64 \<Rightarrow> ('d, unit) io"
  st_WithTx :: "('t Tx \<Rightarrow> ('t, 'r) io) \<Rightarrow> ('d, 'r) io"

record 'd Lock =
  lk_AcquireRemoteLease :: "RemoteID \<Rightarrow> string \<Rightarrow> Duration \<Rightarrow> ('d, Lease) io"
  lk_Release :: "Lease option \<Rightarrow> bytes \<Rightarrow> int64 \<Rightarrow> ('d, unit) io"

record 'd GitRunner =
  git_LsRemote :: "string \<Rightarrow> MaterializedAuth option \<Rightarrow> ('d, LsRemoteRef list) io"

end
