(* ===== verification/Api_Types.thy ===== *)
theory Api_Types
  imports Git_Url Seams
begin

text \<open>
  The values of the HTTP API: the structs of \<open>internal/api/oapi/server.gen.go\<close> that the handlers
  read and build, and the conversions at the end of \<open>internal/api/handlers.go\<close>. A Go pointer
  with \<open>omitempty\<close> is an \<open>option\<close>. An error body is its text.
\<close>

section \<open>Structs\<close>

record OapiRemote =
  Orem_ChainLen :: int64
  Orem_ConsecutiveFailures :: int64
  Orem_CreatedAtNs :: int64
  Orem_HashAlgo :: "string option"
  Orem_Id :: int64
  Orem_LastErr :: string
  Orem_LastOkNs :: int64
  Orem_NormalizedUrl :: string
  Orem_RemovedAtNs :: "int64 option"
  Orem_StalenessBudgetNs :: int64
  Orem_Status :: string
  Orem_SyncIntervalNs :: int64
  Orem_TaintAnyTagDeletion :: bool
  Orem_Transport :: string
  Orem_UpdatedAtNs :: int64
  Orem_Url :: string

record OapiTag =
  Otag_CurrentOid :: "string option"
  Otag_CurrentPeeledOid :: "string option"
  Otag_Deleted :: bool
  Otag_FirstOid :: "string option"
  Otag_FirstSeenNs :: int64
  Otag_Id :: int64
  Otag_IsAnnotated :: "bool option"
  Otag_LastChangedNs :: "int64 option"
  Otag_LastSeenNs :: int64
  Otag_ObservationCount :: int64
  Otag_RemoteId :: int64
  Otag_TagName :: string
  Otag_TaintFirstNs :: "int64 option"
  Otag_Tainted :: bool

record OapiSyncEntry =
  Osyn_ChainHeadAfter :: "string option"
  Osyn_ChainHeadBefore :: "string option"
  Osyn_Error :: "string option"
  Osyn_FinishedNs :: int64
  Osyn_Id :: int64
  Osyn_RemoteId :: int64
  Osyn_StartedNs :: int64
  Osyn_Status :: string
  Osyn_TagsChanged :: int64
  Osyn_TagsSeen :: int64
  Osyn_Trigger :: string

record OapiTaintEvent =
  Ote_AckNote :: "string option"
  Ote_AckedAtNs :: "int64 option"
  Ote_AckedBy :: "string option"
  Ote_Detail :: "string option"
  Ote_DetectedAtNs :: int64
  Ote_FromOid :: "string option"
  Ote_Id :: int64
  Ote_ObservationId :: "int64 option"
  Ote_Reason :: string
  Ote_RefId :: int64
  Ote_RemoteId :: int64
  Ote_ToOid :: "string option"

text \<open>The list structs: items and the next cursor.\<close>

record 'i OapiList =
  Olist_Items :: "'i list"
  Olist_NextCursor :: "int64 option"

record CreateRemoteRequest =
  Creq_StalenessBudgetNs :: "int64 option"
  Creq_SyncIntervalNs :: "int64 option"
  Creq_TaintAnyTagDeletion :: "bool option"
  Creq_Transport :: string
  Creq_Url :: string

record UpdateRemoteRequest =
  Ureq_StalenessBudgetNs :: "int64 option"
  Ureq_Status :: "string option"
  Ureq_SyncIntervalNs :: "int64 option"
  Ureq_TaintAnyTagDeletion :: "bool option"

record AckRequest =
  Areq_AckNote :: "string option"
  Areq_AckedBy :: string

record ListTagsParams =
  Ltp_Q :: "string option"
  Ltp_Tainted :: "string option"
  Ltp_Limit :: "int64 option"
  Ltp_Cursor :: "int64 option"

record VerifyParams =
  Vp_Remote :: string
  Vp_Tag :: string
  Vp_Commit :: "string option"

record VerifyRecorded =
  Vrec_FirstSeenNs :: int64
  Vrec_LastSeenNs :: int64
  Vrec_PeeledCommitOid :: "string option"
  Vrec_RefOid :: "string option"

text \<open>
  \<open>VerifyResponse\<close>. Of the taint struct the handler fills only the first time; the ledger proof is
  remote id, sequence number and row hash.
\<close>

record VerifyResponse =
  Vr_Confidence :: Confidence
  Vr_LastSyncedNs :: "int64 option"
  Vr_LedgerProof :: "(int64 \<times> int64 \<times> string) option"
  Vr_Recorded :: "VerifyRecorded option"
  Vr_Remote :: "(int64 \<times> string) option"
  Vr_Status :: VerifyStatus
  Vr_SuppliedCommit :: "string option"
  Vr_SyncOutcome :: "string option"
  Vr_Tag :: string
  Vr_Taint :: "int64 option option"

section \<open>Conversions\<close>

definition oidField :: "OID \<Rightarrow> string option" where
  "oidField o1 = (if \<not> IsZero o1 then Some (Hex o1) else None)"

definition textField :: "string \<Rightarrow> string option" where
  "textField s = (if s \<noteq> [] then Some s else None)"

definition remoteToOAPI :: "Remote \<Rightarrow> OapiRemote" where
  "remoteToOAPI r =
     \<lparr>Orem_ChainLen = rem_ChainLen r, Orem_ConsecutiveFailures = rem_ConsecutiveFailures r,
      Orem_CreatedAtNs = rem_CreatedAtNS r, Orem_HashAlgo = rem_HashAlgo r, Orem_Id = rem_ID r,
      Orem_LastErr = rem_LastErr r, Orem_LastOkNs = rem_LastOkNS r,
      Orem_NormalizedUrl = rem_NormalizedURL r, Orem_RemovedAtNs = rem_RemovedAtNS r,
      Orem_StalenessBudgetNs = rem_StalenessBudget r, Orem_Status = rem_Status r,
      Orem_SyncIntervalNs = rem_SyncInterval r, Orem_TaintAnyTagDeletion = rem_TaintAnyTagDeletion r,
      Orem_Transport = rem_Transport r, Orem_UpdatedAtNs = rem_UpdatedAtNS r, Orem_Url = rem_URL r\<rparr>"

definition tagToOAPI :: "Ref \<Rightarrow> OapiTag" where
  "tagToOAPI r =
     \<lparr>Otag_CurrentOid = oidField (ref_CurrentOID r), Otag_CurrentPeeledOid = oidField (ref_CurrentPeeledOID r),
      Otag_Deleted = ref_Deleted r, Otag_FirstOid = oidField (ref_FirstOID r),
      Otag_FirstSeenNs = ref_FirstSeenNS r, Otag_Id = ref_ID r,
      Otag_IsAnnotated = Some (ref_IsAnnotatedTag r), Otag_LastChangedNs = Some (ref_LastChangedNS r),
      Otag_LastSeenNs = ref_LastSeenNS r, Otag_ObservationCount = ref_ObservationCount r,
      Otag_RemoteId = ref_RemoteID r, Otag_TagName = ref_TagName r, Otag_TaintFirstNs = ref_TaintFirstNS r,
      Otag_Tainted = ref_Tainted r\<rparr>"

definition syncToOAPI :: "Sync \<Rightarrow> OapiSyncEntry" where
  "syncToOAPI s =
     \<lparr>Osyn_ChainHeadAfter =
        (if length (syn_ChainHeadAfter s) > 0 then Some (EncodeToString (syn_ChainHeadAfter s)) else None),
      Osyn_ChainHeadBefore =
        (if length (syn_ChainHeadBefore s) > 0 then Some (EncodeToString (syn_ChainHeadBefore s)) else None),
      Osyn_Error = textField (syn_Error s), Osyn_FinishedNs = syn_FinishedNS s, Osyn_Id = syn_ID s,
      Osyn_RemoteId = syn_RemoteID s, Osyn_StartedNs = syn_StartedNS s, Osyn_Status = syn_Status s,
      Osyn_TagsChanged = syn_TagsChanged s, Osyn_TagsSeen = syn_TagsSeen s, Osyn_Trigger = syn_Trigger s\<rparr>"

definition taintEventToOAPI :: "TaintEvent \<Rightarrow> OapiTaintEvent" where
  "taintEventToOAPI e =
     \<lparr>Ote_AckNote = textField (te_AckNote e), Ote_AckedAtNs = te_AckedAtNS e,
      Ote_AckedBy = textField (te_AckedBy e), Ote_Detail = Some (te_Detail e),
      Ote_DetectedAtNs = te_DetectedAtNS e, Ote_FromOid = oidField (te_FromOID e), Ote_Id = te_ID e,
      Ote_ObservationId = te_ObservationID e, Ote_Reason = te_Reason e, Ote_RefId = te_RefID e,
      Ote_RemoteId = te_RemoteID e, Ote_ToOid = oidField (te_ToOID e)\<rparr>"

section \<open>Limits\<close>

definition minSyncInterval :: Duration where "minSyncInterval = 60 * 10 ^ 9"
definition minForcedSyncInterval :: Duration where "minForcedSyncInterval = 30 * 10 ^ 9"

definition maxRemoteParamLen :: nat where "maxRemoteParamLen = 2048"
definition maxTagNameLen :: nat where "maxTagNameLen = 255"
definition maxAckedByLen :: nat where "maxAckedByLen = 256"
definition maxAckNoteLen :: nat where "maxAckNoteLen = 2048"
definition maxGlobLen :: nat where "maxGlobLen = 256"

text \<open>The loops over runes below look only for ASCII characters, so they are loops over bytes.\<close>

definition validTagName :: "string \<Rightarrow> bool" where
  "validTagName s =
     (if s = [] \<or> length s > maxTagNameLen \<or> HasPrefix s ''refs/'' then False
      else \<not> list_ex (\<lambda>r. (of_char r :: nat) \<le> 32 \<or> (of_char r :: nat) = 127) s)"

text \<open>\<open>reOID.MatchString\<close>\<close>

definition reOID :: "string \<Rightarrow> bool" where
  "reOID c \<longleftrightarrow> list_all lowerHex c \<and> (length c = 40 \<or> length c = 64)"

text \<open>\<open>limit\<close> and \<open>cursor\<close> of the list handlers.\<close>

definition pageLimit :: "int64 option \<Rightarrow> int64" where
  "pageLimit p =
     (let limit = (case p of Some l \<Rightarrow> if l > 0 then l else 100 | None \<Rightarrow> 100)
      in if limit > 1000 then 1000 else limit)"

definition pageCursor :: "int64 option \<Rightarrow> int64" where
  "pageCursor p = (case p of Some c \<Rightarrow> c | None \<Rightarrow> 0)"

section \<open>matchGlob\<close>

fun globMiddle :: "string list \<Rightarrow> string \<Rightarrow> string option" where
  "globMiddle [] name = Some name"
| "globMiddle (p # ps) name =
     (case Index name p of
        None \<Rightarrow> None
      | Some idx \<Rightarrow> globMiddle ps (drop (idx + length p) name))"

definition matchGlob :: "string \<Rightarrow> string \<Rightarrow> bool" where
  "matchGlob pattern name =
     (if pattern = ''*'' \<or> pattern = [] then True
      else
      let parts = SplitByte (CHR ''*'') pattern in
      if length parts = 1 then name = pattern
      else if \<not> HasPrefix name (parts ! 0) then False
      else case globMiddle (butlast (tl parts)) (drop (length (parts ! 0)) name) of
             None \<Rightarrow> False
           | Some name' \<Rightarrow> HasSuffix name' (parts ! (length parts - 1)))"

text \<open>
  The reference: \<open>*\<close> stands for any run of bytes, every other byte for itself; an empty pattern
  matches everything.
\<close>

fun glob_spec :: "string \<Rightarrow> string \<Rightarrow> bool" where
  "glob_spec [] name = (name = [])"
| "glob_spec (c # p) name =
     (if c = CHR ''*'' then list_ex (\<lambda>k. glob_spec p (drop k name)) [0 ..< Suc (length name)]
      else case name of [] \<Rightarrow> False | x # xs \<Rightarrow> x = c \<and> glob_spec p xs)"

text \<open>A pattern as its segments: the first is a prefix, the last a suffix, the others in order.\<close>

fun seg_match :: "string list \<Rightarrow> string \<Rightarrow> bool" where
  "seg_match [] name = False"
| "seg_match [p] name = (name = p)"
| "seg_match (p # q # ps) name = (\<exists>x rest. name = p @ x @ rest \<and> seg_match (q # ps) rest)"

lemma glob_spec_star: "glob_spec (CHR ''*'' # p) name \<longleftrightarrow> (\<exists>x rest. name = x @ rest \<and> glob_spec p rest)"
proof
  assume "glob_spec (CHR ''*'' # p) name"
  then have "\<exists>k. glob_spec p (drop k name)" unfolding glob_spec.simps by (simp add: list_ex_iff del: upt_Suc) blast
  then obtain k where "glob_spec p (drop k name)" ..
  then show "\<exists>x rest. name = x @ rest \<and> glob_spec p rest" by (metis append_take_drop_id)
next
  assume "\<exists>x rest. name = x @ rest \<and> glob_spec p rest"
  then obtain x rest where "name = x @ rest" "glob_spec p rest" by blast
  then show "glob_spec (CHR ''*'' # p) name"
    by (auto simp: list_ex_iff intro!: bexI [of _ "length x"])
qed

lemma seg_match_Cons:
  "seg_match ((c # p) # ps) name \<longleftrightarrow> (\<exists>xs. name = c # xs \<and> seg_match (p # ps) xs)"
  by (cases ps) auto

lemma glob_spec_segments: "glob_spec p name \<longleftrightarrow> seg_match (SplitByte (CHR ''*'') p) name"
proof (induction p arbitrary: name)
  case (Cons c p)
  show ?case
  proof (cases "c = CHR ''*''")
    case True
    obtain q qs where "SplitByte (CHR ''*'') p = q # qs" by (cases "SplitByte (CHR ''*'') p") auto
    with True Cons.IH show ?thesis by (simp add: glob_spec_star del: glob_spec.simps)
  next
    case False
    obtain q qs where "SplitByte (CHR ''*'') p = q # qs" by (cases "SplitByte (CHR ''*'') p") auto
    with False Cons.IH show ?thesis by (auto simp: seg_match_Cons split: list.splits)
  qed
qed simp

lemma tail_of_tail: "length r \<le> length v \<Longrightarrow> u @ v = x @ r \<Longrightarrow> \<exists>z. v = z @ r"
  by (auto simp: append_eq_append_conv2)

text \<open>Taking the leftmost occurrence of every middle segment loses no match.\<close>

lemma globMiddle_complete:
  "(\<exists>x rest. name = x @ rest \<and> seg_match (ms @ [l]) rest) \<longleftrightarrow>
   (case globMiddle ms name of None \<Rightarrow> False | Some name' \<Rightarrow> HasSuffix name' l)"
proof (induction ms arbitrary: name)
  case Nil
  show ?case by (auto simp: HasSuffix_def suffix_def)
next
  case (Cons m ms)
  obtain q qs where qs: "ms @ [l] = q # qs" by (cases "ms @ [l]") auto
  have split: "(\<exists>x rest. name = x @ rest \<and> seg_match (m # ms @ [l]) rest) \<longleftrightarrow>
      (\<exists>x y rest. name = x @ m @ y @ rest \<and> seg_match (ms @ [l]) rest)"
    unfolding qs by fastforce
  show ?case
  proof (cases "Index name m")
    case None
    have "name \<noteq> x @ m @ v" for x v using Index_least [of name x m v] None by auto
    then show ?thesis using None split by auto
  next
    case (Some i)
    obtain u v where uv: "name = u @ m @ v" "length u = i" using Index_Some [OF Some] by blast
    have "(\<exists>x y rest. name = x @ m @ y @ rest \<and> seg_match (ms @ [l]) rest) \<longleftrightarrow>
        (\<exists>y rest. v = y @ rest \<and> seg_match (ms @ [l]) rest)"
    proof
      assume "\<exists>x y rest. name = x @ m @ y @ rest \<and> seg_match (ms @ [l]) rest"
      then obtain x y rest where n: "name = x @ m @ y @ rest" and r: "seg_match (ms @ [l]) rest" by blast
      have "length u \<le> length x" using Index_least [of name x m "y @ rest"] n Some uv by auto
      moreover have "length (u @ m @ v) = length (x @ m @ y @ rest)" using n uv by simp
      ultimately have "length rest \<le> length v" by simp
      moreover have "(u @ m) @ v = (x @ m @ y) @ rest" using n uv by simp
      ultimately have "\<exists>z. v = z @ rest" by (rule tail_of_tail)
      with r show "\<exists>y rest. v = y @ rest \<and> seg_match (ms @ [l]) rest" by blast
    next
      assume "\<exists>y rest. v = y @ rest \<and> seg_match (ms @ [l]) rest"
      with uv show "\<exists>x y rest. name = x @ m @ y @ rest \<and> seg_match (ms @ [l]) rest" by blast
    qed
    moreover have "drop (i + length m) name = v" using uv by simp
    ultimately show ?thesis using Cons.IH [of v] Some split by simp
  qed
qed

lemma matchGlob_spec: "matchGlob pattern name \<longleftrightarrow> pattern = [] \<or> glob_spec pattern name"
proof -
  let ?parts = "SplitByte (CHR ''*'') pattern"
  obtain p ps where parts: "?parts = p # ps" by (cases ?parts) auto
  show ?thesis
  proof (cases ps rule: rev_cases)
    case Nil
    have "CHR ''*'' \<notin> set pattern \<and> p = pattern"
      using parts Nil by (induction pattern arbitrary: p) (auto split: if_splits list.splits)
    with parts Nil show ?thesis unfolding glob_spec_segments by (auto simp: matchGlob_def)
  next
    case (snoc ms l)
    have seg: "glob_spec pattern name \<longleftrightarrow> HasPrefix name p \<and>
        (case globMiddle ms (drop (length p) name) of None \<Rightarrow> False | Some n \<Rightarrow> HasSuffix n l)"
    proof -
      obtain q qs where qs: "ms @ [l] = q # qs" by (cases "ms @ [l]") auto
      have "glob_spec pattern name \<longleftrightarrow> (\<exists>x rest. name = p @ x @ rest \<and> seg_match (ms @ [l]) rest)"
        unfolding glob_spec_segments parts snoc qs by simp
      also have "\<dots> \<longleftrightarrow> HasPrefix name p \<and>
          (\<exists>x rest. drop (length p) name = x @ rest \<and> seg_match (ms @ [l]) rest)"
        unfolding HasPrefix_def prefix_def by (metis append_eq_conv_conj)
      finally show ?thesis unfolding globMiddle_complete .
    qed
    have "glob_spec ''*'' name" by (auto simp: glob_spec_star simp del: glob_spec.simps(2))
    with seg show ?thesis
      by (auto simp: matchGlob_def parts snoc nth_append Let_def split: option.splits)
  qed
qed

section \<open>parseID\<close>

fun parseDigits :: "int64 \<Rightarrow> string \<Rightarrow> int64 option" where
  "parseDigits i [] = Some i"
| "parseDigits i (ch # s) =
     (if (of_char ch :: nat) < 48 \<or> (of_char ch :: nat) > 57 then None
      else parseDigits (wrap64 (wrap64 (i * 10) + int (of_char ch - 48))) s)"

definition parseID :: "string \<Rightarrow> err + int64" where
  "parseID s =
     (case parseDigits 0 s of
        None \<Rightarrow> Inl (ErrText ''not a numeric id'')
      | Some i \<Rightarrow> if length s = 0 then Inl (ErrText ''empty'') else Inr i)"

fun dec_value :: "string \<Rightarrow> int" where
  "dec_value [] = 0"
| "dec_value (c # s) = int (of_char c - 48) * 10 ^ length s + dec_value s"


lemma dec_value_bounds: "list_all isDigit s \<Longrightarrow> 0 \<le> dec_value s \<and> dec_value s < 10 ^ length s"
proof (induction s)
  case (Cons c s)
  then have "of_char c - 48 \<le> (9 :: nat)" and *: "0 \<le> dec_value s" "dec_value s < 10 ^ length s"
    by (auto simp: isDigit_def Let_def)
  then have "int (of_char c - 48) * 10 ^ length s \<le> 9 * 10 ^ length s"
    by (intro mult_right_mono) simp_all
  with * have "int (of_char c - 48) * 10 ^ length s + dec_value s < 10 * 10 ^ length s" by linarith
  with * show ?case by simp
qed simp

lemma parseDigits_value:
  "list_all isDigit s \<Longrightarrow> 0 \<le> i \<Longrightarrow> i * 10 ^ length s + dec_value s < 2 ^ 63 \<Longrightarrow>
   parseDigits i s = Some (i * 10 ^ length s + dec_value s)"
proof (induction s arbitrary: i)
  case (Cons c s)
  let ?k = "int (of_char c - 48)"
  have digits: "list_all isDigit s" "48 \<le> (of_char c :: nat)" "(of_char c :: nat) \<le> 57"
    using Cons.prems(1) by (simp_all add: isDigit_def [of c] Let_def)
  have eq: "i * 10 ^ length (c # s) + dec_value (c # s) = (i * 10 + ?k) * 10 ^ length s + dec_value s"
    by (simp add: algebra_simps)
  have "(i * 10 + ?k) * 1 \<le> (i * 10 + ?k) * 10 ^ length s"
    using Cons.prems(2) by (intro mult_left_mono) simp_all
  also have "\<dots> \<le> (i * 10 + ?k) * 10 ^ length s + dec_value s" using dec_value_bounds [OF digits(1)] by simp
  also have "\<dots> < 2 ^ 63" using Cons.prems(3) unfolding eq .
  finally have small: "i * 10 + ?k < 2 ^ 63" by simp
  then have "wrap64 (wrap64 (i * 10) + ?k) = i * 10 + ?k"
    using Cons.prems(2) by (simp add: in_int64_def)
  moreover have "parseDigits (i * 10 + ?k) s = Some ((i * 10 + ?k) * 10 ^ length s + dec_value s)"
    using Cons.prems(2,3) unfolding eq by (intro Cons.IH) (simp_all add: digits)
  ultimately show ?case unfolding eq using digits(2,3) by simp
qed simp

lemma parseDigits_reject: "\<not> list_all isDigit s \<Longrightarrow> parseDigits i s = None"
  by (induction s arbitrary: i) (auto simp: isDigit_def Let_def)

lemma parseID_value:
  "s \<noteq> [] \<Longrightarrow> list_all isDigit s \<Longrightarrow> dec_value s < 2 ^ 63 \<Longrightarrow> parseID s = Inr (dec_value s)"
  using parseDigits_value [of s 0] by (simp add: parseID_def)

lemma parseID_reject: "\<not> list_all isDigit s \<or> s = [] \<Longrightarrow> \<exists>e. parseID s = Inl e"
  using parseDigits_reject [of s 0] by (auto simp: parseID_def)

section \<open>Properties\<close>

text \<open>The hand-written matcher agrees with the definition of a glob by recursion on the pattern, in
  which a star stands for any string: the greedy search for the segments between the stars loses
  no match. The empty pattern matches every name.\<close>

theorem glob_is_correct: "matchGlob pattern name \<longleftrightarrow> pattern = [] \<or> glob_spec pattern name"
  by (rule matchGlob_spec)

text \<open>A decimal string below 2^63 is read as its value; a string that is empty or has another
  character is rejected.\<close>

theorem ids_are_read_back:
  shows "(list_all isDigit s \<and> s \<noteq> [] \<and> dec_value s < 2 ^ 63 \<longrightarrow> parseID s = Inr (dec_value s)) \<and>
    (\<not> list_all isDigit s \<or> s = [] \<longrightarrow> (\<exists>e. parseID s = Inl e))"
  using parseID_value parseID_reject by blast

theorem ids_are_read_back_witness: "parseID ''1207'' = Inr 1207 \<and> (\<exists>e. parseID ''12a'' = Inl e)"
  using ids_are_read_back [of "''1207''"] ids_are_read_back [of "''12a''"] by (simp add: isDigit_def)

end
