(* ===== verification/Api_Handlers.thy ===== *)
theory Api_Handlers
  imports Api_Types
begin

text \<open>
  \<open>internal/api/handlers.go\<close>: the operations of the HTTP API over the \<open>Store\<close> and \<open>Clock\<close> seams. A
  response type has the source's constructors; \<open>return nil, err\<close> is \<open>fail err\<close>. Audit log
  lines are output only and are left out. The principal that the authentication middleware
  put in the context is the argument \<open>prin\<close>.
\<close>

definition AnonymousPrincipal :: string where
  "AnonymousPrincipal = ''anonymous''"

definition principalOf :: "string option \<Rightarrow> string" where
  "principalOf prin =
     (case prin of Some p \<Rightarrow> if p \<noteq> [] then p else AnonymousPrincipal | None \<Rightarrow> AnonymousPrincipal)"

text \<open>The shape shared by the handlers: a lookup whose \<open>ErrNotFound\<close> becomes a response.\<close>

definition foundOr :: "('d, 'a) io \<Rightarrow> 'b \<Rightarrow> ('a \<Rightarrow> ('d, 'b) io) \<Rightarrow> ('d, 'b) io" where
  "foundOr m notFound k =
     bindT (tryT m) (\<lambda>r. case r of
        Inl e \<Rightarrow> if e = ErrNotFound then ret notFound else fail e
      | Inr a \<Rightarrow> k a)"

section \<open>Remotes\<close>

datatype ListRemotesResponse = ListRemotes200JSONResponse "OapiRemote OapiList"

definition ListRemotes_handler ::
  "(string \<Rightarrow> string option) \<Rightarrow> (string \<Rightarrow> string) \<Rightarrow> ('d, 't, 'r) Store \<Rightarrow>
   string option \<Rightarrow> int64 option \<Rightarrow> int64 option \<Rightarrow> ('d, ListRemotesResponse) io" where
  "ListRemotes_handler ipLit uni s url lim cur =
     (if url \<noteq> None \<and> the url \<noteq> [] then
        let normURL = (case NormalizeURL ipLit uni (the url) of Inl _ \<Rightarrow> the url | Inr n \<Rightarrow> n) in
        foundOr (st_GetRemoteByURL s normURL)
          (ListRemotes200JSONResponse \<lparr>Olist_Items = [], Olist_NextCursor = None\<rparr>)
          (\<lambda>r. ret (ListRemotes200JSONResponse \<lparr>Olist_Items = [remoteToOAPI r], Olist_NextCursor = None\<rparr>))
      else
        bindT (st_ListRemotes s (pageLimit lim) (pageCursor cur)) (\<lambda>(remotes, nextCursor).
        ret (ListRemotes200JSONResponse
          \<lparr>Olist_Items = map remoteToOAPI remotes, Olist_NextCursor = Some nextCursor\<rparr>)))"

datatype CreateRemoteResponse =
    CreateRemote201JSONResponse OapiRemote
  | CreateRemote409JSONResponse string
  | CreateRemote422JSONResponse string

text \<open>The defaults and floors of a new remote.\<close>

definition newRemote :: "CreateRemoteRequest \<Rightarrow> string \<Rightarrow> int64 \<Rightarrow> Remote" where
  "newRemote body normURL now =
     (let syncInterval =
            (case Creq_SyncIntervalNs body of Some i \<Rightarrow> if i > 0 then i else 5 * 60 * 10 ^ 9 | None \<Rightarrow> 5 * 60 * 10 ^ 9);
          syncInterval = (if syncInterval < minSyncInterval then minSyncInterval else syncInterval);
          stalenessBudget =
            (case Creq_StalenessBudgetNs body of Some b \<Rightarrow> if b > 0 then b else 3600 * 10 ^ 9 | None \<Rightarrow> 3600 * 10 ^ 9);
          taintAnyDeletion = (case Creq_TaintAnyTagDeletion body of Some b \<Rightarrow> b | None \<Rightarrow> True) in
      \<lparr>rem_ID = 0, rem_URL = Creq_Url body, rem_NormalizedURL = normURL, rem_Transport = Creq_Transport body,
       rem_SyncInterval = syncInterval, rem_StalenessBudget = stalenessBudget,
       rem_TaintAnyTagDeletion = taintAnyDeletion, rem_HashAlgo = None, rem_Status = RemoteActive,
       rem_LastOkNS = 0, rem_LastErr = [], rem_ConsecutiveFailures = 0,
       rem_ChainHeadHash = replicate 32 0, rem_ChainLen = 0, rem_RemovedAtNS = None,
       rem_CreatedAtNS = now, rem_UpdatedAtNS = now\<rparr>)"

definition CreateRemote_handler ::
  "(err \<Rightarrow> string) \<Rightarrow> (string \<Rightarrow> string option) \<Rightarrow> (string \<Rightarrow> string) \<Rightarrow> ('d, 't, 'r) Store \<Rightarrow>
   CreateRemoteRequest option \<Rightarrow> ('d, CreateRemoteResponse) io" where
  "CreateRemote_handler errText ipLit uni s req =
     (case req of
        None \<Rightarrow> ret (CreateRemote422JSONResponse ''url is required'')
      | Some body \<Rightarrow>
          if Creq_Url body = [] then ret (CreateRemote422JSONResponse ''url is required'')
          else if Creq_Transport body = [] then ret (CreateRemote422JSONResponse ''transport is required'')
          else case NormalizeURL ipLit uni (Creq_Url body) of
            Inl e \<Rightarrow> if e = ErrBadURL then ret (CreateRemote422JSONResponse (errText e)) else fail e
          | Inr normURL \<Rightarrow>
              if Creq_Transport body \<notin> {TransportHTTPS, TransportSSH}
              then ret (CreateRemote422JSONResponse ''transport must be https or ssh'')
              else
              bindT NowNS (\<lambda>now.
              let r = newRemote body normURL now in
              bindT (tryT (st_CreateRemote s r)) (\<lambda>res. case res of
                 Inl e \<Rightarrow>
                   if e = ErrConflict then ret (CreateRemote409JSONResponse ''normalized_url already exists'')
                   else fail e
               | Inr i \<Rightarrow> ret (CreateRemote201JSONResponse (remoteToOAPI (r\<lparr>rem_ID := i\<rparr>))))))"

datatype GetRemoteResponse = GetRemote200JSONResponse OapiRemote | GetRemote404JSONResponse string

definition GetRemote_handler :: "('d, 't, 'r) Store \<Rightarrow> int64 \<Rightarrow> ('d, GetRemoteResponse) io" where
  "GetRemote_handler s remoteId =
     foundOr (st_GetRemote s remoteId) (GetRemote404JSONResponse ''remote not found'')
       (\<lambda>r. ret (GetRemote200JSONResponse (remoteToOAPI r)))"

datatype UpdateRemoteResponse = UpdateRemote200JSONResponse OapiRemote | UpdateRemote404JSONResponse string

text \<open>The fields of the body applied to the remote read before.\<close>

definition patchRemote :: "UpdateRemoteRequest \<Rightarrow> Remote \<Rightarrow> Remote" where
  "patchRemote body r =
     (let r = (case Ureq_SyncIntervalNs body of
                 Some i \<Rightarrow> if i > 0 then r\<lparr>rem_SyncInterval := (if i < minSyncInterval then minSyncInterval else i)\<rparr> else r
               | None \<Rightarrow> r);
          r = (case Ureq_StalenessBudgetNs body of
                 Some b \<Rightarrow> if b > 0 then r\<lparr>rem_StalenessBudget := b\<rparr> else r
               | None \<Rightarrow> r);
          r = (case Ureq_TaintAnyTagDeletion body of Some b \<Rightarrow> r\<lparr>rem_TaintAnyTagDeletion := b\<rparr> | None \<Rightarrow> r);
          r = (case Ureq_Status body of Some st \<Rightarrow> r\<lparr>rem_Status := st\<rparr> | None \<Rightarrow> r)
      in r)"

definition UpdateRemote_handler ::
  "('d, 't, 'r) Store \<Rightarrow> int64 \<Rightarrow> UpdateRemoteRequest option \<Rightarrow> ('d, UpdateRemoteResponse) io" where
  "UpdateRemote_handler s remoteId req =
     foundOr (st_GetRemote s remoteId) (UpdateRemote404JSONResponse ''remote not found'') (\<lambda>r.
     case req of
       None \<Rightarrow> ret (UpdateRemote200JSONResponse (remoteToOAPI r))
     | Some body \<Rightarrow>
         bindT NowNS (\<lambda>now.
         let r = (patchRemote body r)\<lparr>rem_UpdatedAtNS := now\<rparr> in
         foundOr (st_UpdateRemote s r) (UpdateRemote404JSONResponse ''remote not found'')
           (\<lambda>_. ret (UpdateRemote200JSONResponse (remoteToOAPI r)))))"

datatype DeleteRemoteResponse = DeleteRemote204Response | DeleteRemote404JSONResponse string

definition DeleteRemote_handler :: "('d, 't, 'r) Store \<Rightarrow> int64 \<Rightarrow> ('d, DeleteRemoteResponse) io" where
  "DeleteRemote_handler s remoteId =
     foundOr (st_GetRemote s remoteId) (DeleteRemote404JSONResponse ''remote not found'') (\<lambda>_.
     bindT NowNS (\<lambda>now.
     bindT (st_SoftDeleteRemote s remoteId now) (\<lambda>_. ret DeleteRemote204Response)))"

section \<open>Sync\<close>

text \<open>The cooldown map \<open>lastForcedNS\<close> of the server is passed and returned.\<close>

definition allowForcedSync :: "RemoteID \<Rightarrow> int64 \<Rightarrow> (RemoteID \<rightharpoonup> int64) \<Rightarrow> bool \<times> (RemoteID \<rightharpoonup> int64)" where
  "allowForcedSync remoteID nowNs lastForcedNS =
     (case lastForcedNS remoteID of
        Some lastNS \<Rightarrow>
          if wrap64 (nowNs - lastNS) < minForcedSyncInterval then (False, lastForcedNS)
          else (True, lastForcedNS(remoteID \<mapsto> nowNs))
      | None \<Rightarrow> (True, lastForcedNS(remoteID \<mapsto> nowNs)))"

datatype TriggerSyncResponse = TriggerSync202Response | TriggerSync404JSONResponse string | TriggerSync429JSONResponse string

text \<open>
  \<open>hasSyncer\<close> says whether the server was built with a sync engine. The result names the remote
  whose sync is started in the background, if one is.
\<close>

definition TriggerSync_handler ::
  "('d, 't, 'r) Store \<Rightarrow> bool \<Rightarrow> int64 \<Rightarrow> (RemoteID \<rightharpoonup> int64) \<Rightarrow>
   ('d, TriggerSyncResponse \<times> (RemoteID \<rightharpoonup> int64) \<times> RemoteID option) io" where
  "TriggerSync_handler s hasSyncer remoteID lastForcedNS =
     foundOr (st_GetRemote s remoteID) (TriggerSync404JSONResponse ''remote not found'', lastForcedNS, None) (\<lambda>_.
     if \<not> hasSyncer then ret (TriggerSync202Response, lastForcedNS, None)
     else
       bindT NowNS (\<lambda>now.
       let (ok, lastForcedNS) = allowForcedSync remoteID now lastForcedNS in
       if \<not> ok then
         ret (TriggerSync429JSONResponse ''forced sync rate-limited; cooldown not elapsed'', lastForcedNS, None)
       else ret (TriggerSync202Response, lastForcedNS, Some remoteID)))"

datatype ListSyncsResponse = ListSyncs200JSONResponse "OapiSyncEntry OapiList" | ListSyncs404JSONResponse string

definition ListSyncs_handler ::
  "('d, 't, 'r) Store \<Rightarrow> int64 \<Rightarrow> int64 option \<Rightarrow> int64 option \<Rightarrow> ('d, ListSyncsResponse) io" where
  "ListSyncs_handler s remoteId lim cur =
     foundOr (st_GetRemote s remoteId) (ListSyncs404JSONResponse ''remote not found'') (\<lambda>_.
     bindT (st_ListSyncs s remoteId (pageLimit lim) (pageCursor cur)) (\<lambda>(syncs, nextCursor).
     ret (ListSyncs200JSONResponse
       \<lparr>Olist_Items = map syncToOAPI syncs,
        Olist_NextCursor = (if nextCursor > 0 then Some nextCursor else None)\<rparr>)))"

section \<open>Tags\<close>

datatype ListTagsResponse =
    ListTags200JSONResponse "OapiTag OapiList" | ListTags404JSONResponse string | ListTags422JSONResponse string

definition tagKept :: "string \<Rightarrow> string \<Rightarrow> Ref \<Rightarrow> bool" where
  "tagKept glob taintedFilter r =
     (if glob \<noteq> [] \<and> \<not> matchGlob glob (ref_TagName r) then False
      else if taintedFilter = ''only'' then ref_Tainted r
      else if taintedFilter = ''never'' then \<not> ref_Tainted r
      else True)"

text \<open>The page is cut after filtering; \<open>items[:0]\<close> filters in place.\<close>

definition tagPage :: "int64 \<Rightarrow> int64 \<Rightarrow> OapiTag list \<Rightarrow> OapiTag OapiList" where
  "tagPage limit cursor items =
     (let filtered = filter (\<lambda>it. Otag_Id it > cursor) items in
      if int (length filtered) > limit
      then \<lparr>Olist_Items = take (nat limit) filtered, Olist_NextCursor = Some (Otag_Id (filtered ! nat (limit - 1)))\<rparr>
      else \<lparr>Olist_Items = filtered, Olist_NextCursor = Some 0\<rparr>)"

definition ListTags_handler ::
  "('d, 't, 'r) Store \<Rightarrow> int64 \<Rightarrow> ListTagsParams \<Rightarrow> ('d, ListTagsResponse) io" where
  "ListTags_handler s remoteId p =
     foundOr (st_GetRemote s remoteId) (ListTags404JSONResponse ''remote not found'') (\<lambda>_.
     if Ltp_Q p \<noteq> None \<and> length (the (Ltp_Q p)) > maxGlobLen
     then ret (ListTags422JSONResponse ''q exceeds 256 bytes'')
     else
     bindT (st_ListTags s remoteId) (\<lambda>refs.
     let glob = (case Ltp_Q p of Some q \<Rightarrow> q | None \<Rightarrow> []);
         taintedFilter = (case Ltp_Tainted p of Some t \<Rightarrow> t | None \<Rightarrow> ''any'');
         items = map tagToOAPI (filter (tagKept glob taintedFilter) refs) in
     ret (ListTags200JSONResponse (tagPage (pageLimit (Ltp_Limit p)) (pageCursor (Ltp_Cursor p)) items))))"

datatype GetTagResponse = GetTag200JSONResponse OapiTag | GetTag404JSONResponse string

definition GetTag_handler :: "('d, 't, 'r) Store \<Rightarrow> int64 \<Rightarrow> string \<Rightarrow> ('d, GetTagResponse) io" where
  "GetTag_handler s remoteId tagName =
     foundOr (st_GetRemote s remoteId) (GetTag404JSONResponse ''remote not found'') (\<lambda>_.
     if \<not> validTagName tagName then ret (GetTag404JSONResponse ''tag not found'')
     else
       foundOr (st_GetRef s remoteId tagName) (GetTag404JSONResponse ''tag not found'')
         (\<lambda>ref. ret (GetTag200JSONResponse (tagToOAPI ref))))"

section \<open>Taint events\<close>

datatype ListTaintEventsResponse =
    ListTaintEvents200JSONResponse "OapiTaintEvent OapiList" | ListTaintEvents404JSONResponse string

definition ListTaintEvents_handler ::
  "('d, 't, 'r) Store \<Rightarrow> int64 \<Rightarrow> int64 option \<Rightarrow> int64 option \<Rightarrow> ('d, ListTaintEventsResponse) io" where
  "ListTaintEvents_handler s remoteId lim cur =
     foundOr (st_GetRemote s remoteId) (ListTaintEvents404JSONResponse ''remote not found'') (\<lambda>_.
     bindT (st_ListTaintEvents s remoteId (pageLimit lim) (pageCursor cur)) (\<lambda>(events, nextCursor).
     ret (ListTaintEvents200JSONResponse
       \<lparr>Olist_Items = map taintEventToOAPI events, Olist_NextCursor = Some nextCursor\<rparr>)))"

datatype AckTaintEventResponse =
    AckTaintEvent204Response | AckTaintEvent404JSONResponse string
  | AckTaintEvent409JSONResponse string | AckTaintEvent422JSONResponse string

definition AckTaintEvent_handler ::
  "string option \<Rightarrow> ('d, 't, 'r) Store \<Rightarrow> int64 \<Rightarrow> int64 \<Rightarrow> AckRequest option \<Rightarrow> ('d, AckTaintEventResponse) io" where
  "AckTaintEvent_handler prin s remoteId eventId req =
     foundOr (st_GetRemote s remoteId) (AckTaintEvent404JSONResponse ''remote not found'') (\<lambda>_.
     let ackedBy = (case req of
           Some body \<Rightarrow> if Areq_AckedBy body \<noteq> [] then Areq_AckedBy body else principalOf prin
         | None \<Rightarrow> principalOf prin);
         note = (case req of
           Some body \<Rightarrow> (case Areq_AckNote body of Some n \<Rightarrow> n | None \<Rightarrow> [])
         | None \<Rightarrow> []) in
     if length ackedBy > maxAckedByLen \<or> length note > maxAckNoteLen
     then ret (AckTaintEvent422JSONResponse ''acked_by must be <=256 and ack_note <=2048 bytes'')
     else
     bindT NowNS (\<lambda>now.
     bindT (tryT (st_AckTaintEvent s eventId ackedBy note now)) (\<lambda>res. case res of
        Inl e \<Rightarrow>
          if e = ErrNotFound then ret (AckTaintEvent404JSONResponse ''taint event not found'')
          else if e = ErrConflict then ret (AckTaintEvent409JSONResponse ''already acknowledged'')
          else fail e
      | Inr _ \<Rightarrow> ret AckTaintEvent204Response)))"

section \<open>Verify\<close>

datatype VerifyResponseObject = Verify200JSONResponse VerifyResponse | Verify422JSONResponse string

definition emptyVerify :: "VerifyStatus \<Rightarrow> Confidence \<Rightarrow> string \<Rightarrow> VerifyResponse" where
  "emptyVerify status confidence tag =
     \<lparr>Vr_Confidence = confidence, Vr_LastSyncedNs = None, Vr_LedgerProof = None, Vr_Recorded = None,
      Vr_Remote = None, Vr_Status = status, Vr_SuppliedCommit = None, Vr_SyncOutcome = None, Vr_Tag = tag,
      Vr_Taint = None\<rparr>"

text \<open>The remote named by a numeric id or by its URL; a store error counts as not found.\<close>

definition resolveRemote ::
  "(string \<Rightarrow> string option) \<Rightarrow> (string \<Rightarrow> string) \<Rightarrow> ('d, 't, 'r) Store \<Rightarrow> string \<Rightarrow> ('d, Remote option) io" where
  "resolveRemote ipLit uni s remoteParam =
     bindT (case parseID remoteParam of
              Inl _ \<Rightarrow> ret None
            | Inr i \<Rightarrow> bindT (tryT (st_GetRemote s i)) (\<lambda>r. ret (case r of Inl _ \<Rightarrow> None | Inr x \<Rightarrow> Some x))) (\<lambda>remote.
     case remote of
       Some r \<Rightarrow> ret (Some r)
     | None \<Rightarrow>
         let normURL = (case NormalizeURL ipLit uni remoteParam of Inl _ \<Rightarrow> [] | Inr n \<Rightarrow> n);
             normURL = (if normURL = [] then remoteParam else normURL) in
         bindT (tryT (st_GetRemoteByURL s normURL)) (\<lambda>r. ret (case r of Inl _ \<Rightarrow> None | Inr x \<Rightarrow> Some x)))"

definition syncOutcome :: "Remote \<Rightarrow> string" where
  "syncOutcome remote =
     (if rem_ConsecutiveFailures remote > 0 then ''failed''
      else if rem_LastOkNS remote > 0 then ''ok'' else ''never'')"

text \<open>The clock is read only when there is an age to compute.\<close>

definition confidenceOf :: "Remote \<Rightarrow> ('d, Confidence) io" where
  "confidenceOf remote =
     (if rem_StalenessBudget remote > 0 \<and> rem_LastOkNS remote > 0 then
        bindT NowNS (\<lambda>now.
        let age = wrap64 (now - rem_LastOkNS remote) in
        ret (if age > rem_StalenessBudget remote \<or> rem_ConsecutiveFailures remote > 0 then ConfStale
             else ConfAuthoritative))
      else ret (if rem_LastOkNS remote = 0 then ConfStale else ConfAuthoritative))"

definition recordedCommit :: "Ref \<Rightarrow> string" where
  "recordedCommit ref =
     (if \<not> IsZero (ref_CurrentPeeledOID ref) then Hex (ref_CurrentPeeledOID ref)
      else if \<not> IsZero (ref_CurrentOID ref) then Hex (ref_CurrentOID ref) else [])"

definition verifyStatus :: "Ref \<Rightarrow> string \<Rightarrow> VerifyStatus" where
  "verifyStatus ref suppliedCommit =
     (if ref_Tainted ref then StatusTainted
      else if suppliedCommit \<noteq> [] \<and> recordedCommit ref \<noteq> [] \<and> recordedCommit ref \<noteq> suppliedCommit
      then StatusMismatch else StatusOK)"

definition verifyTag :: "('d, 't, 'r) Store \<Rightarrow> Remote \<Rightarrow> string \<Rightarrow> string \<Rightarrow> ('d, VerifyResponse) io" where
  "verifyTag s remote tag suppliedCommit =
     bindT (confidenceOf remote) (\<lambda>confidence.
     let base = (emptyVerify StatusDoesntExist confidence tag)
           \<lparr>Vr_Remote := Some (rem_ID remote, rem_NormalizedURL remote),
            Vr_LastSyncedNs := Some (rem_LastOkNS remote), Vr_SyncOutcome := Some (syncOutcome remote)\<rparr> in
     foundOr (st_GetRef s (rem_ID remote) tag) base (\<lambda>ref.
     bindT (tryT (st_LatestObservationForRef s (ref_ID ref))) (\<lambda>proof1.
     ret (base\<lparr>Vr_Status := verifyStatus ref suppliedCommit,
       Vr_Taint := (if ref_Tainted ref then Some (ref_TaintFirstNS ref) else None),
       Vr_Recorded := Some \<lparr>Vrec_FirstSeenNs = ref_FirstSeenNS ref, Vrec_LastSeenNs = ref_LastSeenNS ref,
          Vrec_PeeledCommitOid = oidField (ref_CurrentPeeledOID ref), Vrec_RefOid = oidField (ref_CurrentOID ref)\<rparr>,
       Vr_SuppliedCommit := (if suppliedCommit \<noteq> [] then Some suppliedCommit else None),
       Vr_LedgerProof := (case proof1 of
           Inl _ \<Rightarrow> None
         | Inr pr \<Rightarrow> Some (prf_RemoteID pr, prf_Seq pr, EncodeToString (prf_RowHash pr)))\<rparr>))))"

definition Verify_handler ::
  "(string \<Rightarrow> string option) \<Rightarrow> (string \<Rightarrow> string) \<Rightarrow> ('d, 't, 'r) Store \<Rightarrow> VerifyParams \<Rightarrow> ('d, VerifyResponseObject) io" where
  "Verify_handler ipLit uni s p =
     (if \<not> validTagName (Vp_Tag p) then ret (Verify422JSONResponse ''invalid tag name'')
      else if length (Vp_Remote p) > maxRemoteParamLen then ret (Verify422JSONResponse ''remote exceeds 2048 bytes'')
      else
      case (case Vp_Commit p of
              Some c0 \<Rightarrow> if c0 \<noteq> [] then (let c = ToLower c0 in if \<not> reOID c then None else Some c) else Some []
            | None \<Rightarrow> Some []) of
        None \<Rightarrow> ret (Verify422JSONResponse ''commit must be 40 or 64 hex chars'')
      | Some suppliedCommit \<Rightarrow>
          if Vp_Remote p = [] then ret (Verify422JSONResponse ''remote is required'')
          else
          bindT (resolveRemote ipLit uni s (Vp_Remote p)) (\<lambda>remote. case remote of
             None \<Rightarrow> ret (Verify200JSONResponse (emptyVerify StatusNotTracked ConfAuthoritative (Vp_Tag p)))
           | Some r \<Rightarrow>
               bindT (verifyTag s r (Vp_Tag p) suppliedCommit) (\<lambda>resp. ret (Verify200JSONResponse resp))))"

end
