(* ===== verification/Sync_Remote.thy ===== *)
theory Sync_Remote
  imports Seams "HOL-Library.AList"
begin

text \<open>
  \<open>internal/sync\<close>: classification of a tag between two syncs (\<open>diff.go\<close>), object-format
  detection (\<open>format.go\<close>) and the sync of one remote (\<open>remote.go\<close>), written against the
  interfaces of \<open>Seams\<close>, as in the source.

  The locale \<open>tx_contract\<close> states what the sync relies on from a transaction: how each
  operation changes the tag projection and the taint events. Everything the sync does to
  tags is proved once, inside it.

  The order in which Go ranges over the map \<open>priorByName\<close> is the parameter \<open>order\<close>; the text of
  an error is the parameter \<open>errText\<close>.
\<close>

section \<open>diff.go and format.go\<close>

record TagDelta =
  td_Event :: ObservationEventType
  td_Taint :: "TaintReason option"

definition emptyDelta :: TagDelta where
  "emptyDelta = \<lparr>td_Event = [], td_Taint = None\<rparr>"

definition ClassifyTag :: "Ref option \<Rightarrow> LsRemoteRef option \<Rightarrow> TagDelta" where
  "ClassifyTag prev now =
     (case now of None \<Rightarrow> emptyDelta
      | Some now \<Rightarrow>
         (case prev of
            None \<Rightarrow> \<lparr>td_Event = EventTagCreated, td_Taint = None\<rparr>
          | Some prev \<Rightarrow>
              if ref_Deleted prev then
                if ref_Deleted prev \<and> \<not> OID_Equal (ref_CurrentOID prev) (lsr_OID now)
                then \<lparr>td_Event = EventTagRecreated, td_Taint = Some TaintTagDeletedRecreated\<rparr>
                else \<lparr>td_Event = EventTagCreated, td_Taint = None\<rparr>
              else if OID_Equal (lsr_OID now) (ref_CurrentOID prev) then emptyDelta
              else \<lparr>td_Event = EventTagOIDChanged, td_Taint = Some TaintTagOIDChanged\<rparr>))"

definition ClassifyDeletion :: "Ref option \<Rightarrow> bool \<Rightarrow> TagDelta" where
  "ClassifyDeletion prev taintAnyTagDeletion =
     (case prev of None \<Rightarrow> emptyDelta
      | Some _ \<Rightarrow> \<lparr>td_Event = EventTagDeleted,
           td_Taint = (if taintAnyTagDeletion then Some TaintTagDeletedRecreated else None)\<rparr>)"

fun DetectObjectFormat :: "LsRemoteRef list \<Rightarrow> err + HashAlgo" where
  "DetectObjectFormat [] = Inl ErrNoRefs"
| "DetectObjectFormat (r # rs) =
     (if \<not> IsZero (lsr_OID r) then Inr (oid_Algo (lsr_OID r)) else DetectObjectFormat rs)"

section \<open>remote.go\<close>

record SyncResult =
  res_SyncID :: SyncID
  res_Status :: SyncStatus
  res_TagsSeen :: int64
  res_TagsChanged :: int64
  res_HeadBefore :: bytes
  res_HeadAfter :: bytes

definition leaseTTL :: Duration where
  "leaseTTL = 2 * 60 * 1000000000"

definition syncRetentionKeep :: int64 where
  "syncRetentionKeep = 5"

definition projectTag :: "Ref option \<Rightarrow> LsRemoteRef \<Rightarrow> int64 \<Rightarrow> RemoteID \<Rightarrow> Ref" where
  "projectTag prev now nowNS remoteID =
     (let peeledOID = (if IsZero (lsr_PeeledOID now) then lsr_OID now else lsr_PeeledOID now);
          ref = \<lparr>ref_ID = 0, ref_RemoteID = remoteID, ref_TagName = lsr_Name now,
                 ref_CurrentOID = lsr_OID now, ref_CurrentPeeledOID = peeledOID,
                 ref_IsAnnotatedTag = lsr_IsAnnotatedTag now, ref_FirstOID = zeroOID, ref_FirstSeenNS = 0,
                 ref_LastSeenNS = nowNS, ref_LastChangedNS = 0, ref_Deleted = False, ref_Tainted = False,
                 ref_TaintFirstNS = None, ref_ObservationCount = 0\<rparr>
      in case prev of
           None \<Rightarrow> ref\<lparr>ref_FirstOID := lsr_OID now, ref_FirstSeenNS := nowNS, ref_LastChangedNS := nowNS,
                       ref_ObservationCount := 1\<rparr>
         | Some prev \<Rightarrow>
             ref\<lparr>ref_ID := ref_ID prev, ref_RemoteID := ref_RemoteID prev, ref_FirstOID := ref_FirstOID prev,
                 ref_FirstSeenNS := ref_FirstSeenNS prev, ref_Tainted := ref_Tainted prev,
                 ref_TaintFirstNS := ref_TaintFirstNS prev,
                 ref_ObservationCount := wrap64 (ref_ObservationCount prev + 1),
                 ref_LastChangedNS :=
                   (if \<not> OID_Equal (lsr_OID now) (ref_CurrentOID prev) then nowNS else ref_LastChangedNS prev)\<rparr>)"

definition taintEvent ::
  "RemoteID \<Rightarrow> RefID \<Rightarrow> TaintReason \<Rightarrow> int64 \<Rightarrow> OID \<Rightarrow> OID \<Rightarrow> int64 \<Rightarrow> TaintEvent" where
  "taintEvent remoteID refID reason obsID fromOID toOID nowNS =
     \<lparr>te_ID = 0, te_RemoteID = remoteID, te_RefID = refID, te_Reason = reason,
      te_ObservationID = Some obsID, te_FromOID = fromOID, te_ToOID = toOID, te_DetectedAtNS = nowNS,
      te_AckedAtNS = None, te_AckedBy = [], te_AckNote = [], te_Detail = []\<rparr>"

definition applyTaint ::
  "'t Tx \<Rightarrow> RemoteID \<Rightarrow> Ref \<Rightarrow> OID \<Rightarrow> OID \<Rightarrow> TaintReason \<Rightarrow> int64 \<Rightarrow> int64 \<Rightarrow> ('t, unit) io" where
  "applyTaint tx remoteID ref fromOID toOID reason obsID nowNS =
     bindT (if ref_TaintFirstNS ref = None
            then tx_UpsertRefProjection tx (ref\<lparr>ref_Tainted := True, ref_TaintFirstNS := Some nowNS\<rparr>)
            else ret ref) (\<lambda>ref.
     bindT (tx_AppendTaintEvent tx (taintEvent remoteID (ref_ID ref) reason obsID fromOID toOID nowNS)) (\<lambda>_.
     ret ()))"

definition zeroObservation :: Observation where
  "zeroObservation = \<lparr>obs_ID = 0, obs_RemoteID = 0, obs_RefID = 0, obs_SyncID = 0, obs_Seq = 0,
     obs_EventType = [], obs_PrevOID = zeroOID, obs_NewOID = zeroOID, obs_PrevPeeledOID = zeroOID,
     obs_NewPeeledOID = zeroOID, obs_ObservedAtNS = 0, obs_PrevHash = [], obs_RowHash = [],
     obs_CanonicalMeta = []\<rparr>"

text \<open>
  What both loops end with: append the observation, count the change, and taint the tag when
  the classification says so. \<open>fromOID\<close> is read off the observation after the call.
\<close>

definition recordChange ::
  "'t Tx \<Rightarrow> RemoteID \<Rightarrow> Ref \<Rightarrow> Observation \<Rightarrow> (Observation \<Rightarrow> OID) \<Rightarrow> OID \<Rightarrow> TaintReason option \<Rightarrow> int64 \<Rightarrow> int64 \<Rightarrow>
   ('t, int64) io" where
  "recordChange tx remoteID ref obs fromOID toOID taint nowNS changed =
     bindT (tx_AppendObservation tx obs) (\<lambda>(_, obs).
     let changed = wrap64 (changed + 1) in
     case taint of
       None \<Rightarrow> ret changed
     | Some reason \<Rightarrow>
         bindT (applyTaint tx remoteID ref (fromOID obs) toOID reason (obs_ID obs) nowNS) (\<lambda>_. ret changed))"

definition seenObservation ::
  "RemoteID \<Rightarrow> RefID \<Rightarrow> SyncID \<Rightarrow> ObservationEventType \<Rightarrow> LsRemoteRef \<Rightarrow> Ref option \<Rightarrow> int64 \<Rightarrow> Observation" where
  "seenObservation remoteID refID syncID event now prev nowNS =
     (let obs = zeroObservation\<lparr>obs_RemoteID := remoteID, obs_RefID := refID, obs_SyncID := syncID,
                  obs_EventType := event, obs_NewOID := lsr_OID now,
                  obs_NewPeeledOID := lsr_PeeledOID now, obs_ObservedAtNS := nowNS\<rparr>
      in case prev of None \<Rightarrow> obs
         | Some prev \<Rightarrow> if \<not> IsZero (ref_CurrentOID prev)
             then obs\<lparr>obs_PrevOID := ref_CurrentOID prev, obs_PrevPeeledOID := ref_CurrentPeeledOID prev\<rparr>
             else obs)"

text \<open>The body of the loop over the tags that \<open>ls-remote\<close> lists; \<open>changed\<close> is \<open>result.TagsChanged\<close>.\<close>

definition syncSeenTag ::
  "'t Tx \<Rightarrow> RemoteID \<Rightarrow> int64 \<Rightarrow> SyncID \<Rightarrow> (string \<times> Ref) list \<Rightarrow> LsRemoteRef \<Rightarrow> int64 \<Rightarrow> ('t, int64) io" where
  "syncSeenTag tx remoteID nowNS syncID priorByName now changed =
     (let prev = map_of priorByName (lsr_Name now);
          delta = ClassifyTag prev (Some now);
          ref = projectTag prev now nowNS remoteID in
      bindT (tx_UpsertRefProjection tx ref) (\<lambda>ref.
      if td_Event delta = [] then ret changed
      else recordChange tx remoteID ref
             (seenObservation remoteID (ref_ID ref) syncID (td_Event delta) now prev nowNS)
             obs_PrevOID (lsr_OID now) (td_Taint delta) nowNS changed))"

text \<open>The body of the loop over the prior tags that are absent from this \<open>ls-remote\<close>.\<close>

definition goneObservation :: "RemoteID \<Rightarrow> Ref \<Rightarrow> SyncID \<Rightarrow> ObservationEventType \<Rightarrow> int64 \<Rightarrow> Observation" where
  "goneObservation remoteID prev syncID event nowNS2 =
     zeroObservation\<lparr>obs_RemoteID := remoteID, obs_RefID := ref_ID prev, obs_SyncID := syncID,
       obs_EventType := event, obs_PrevOID := ref_CurrentOID prev,
       obs_PrevPeeledOID := ref_CurrentPeeledOID prev, obs_ObservedAtNS := nowNS2\<rparr>"

definition syncGoneTag ::
  "'t Tx \<Rightarrow> RemoteID \<Rightarrow> SyncID \<Rightarrow> bool \<Rightarrow> (string \<Rightarrow> bool) \<Rightarrow> string \<times> Ref \<Rightarrow> int64 \<Rightarrow> ('t, int64) io" where
  "syncGoneTag tx remoteID syncID taintAnyTagDeletion seenName entry changed =
     (case entry of (name, prev) \<Rightarrow>
      if seenName name \<or> ref_Deleted prev then ret changed
      else
      bindT NowNS (\<lambda>nowNS2.
      let delta = ClassifyDeletion (Some prev) taintAnyTagDeletion;
          prev = prev\<lparr>ref_Deleted := True, ref_LastSeenNS := nowNS2\<rparr> in
      bindT (tx_UpsertRefProjection tx prev) (\<lambda>prev.
      recordChange tx remoteID prev (goneObservation remoteID prev syncID (td_Event delta) nowNS2)
        (\<lambda>_. ref_CurrentOID prev) zeroOID (td_Taint delta) nowNS2 changed)))"

definition priorMap :: "Ref list \<Rightarrow> (string \<times> Ref) list" where
  "priorMap prior = foldl (\<lambda>m r. AList.update (ref_TagName r) r m) [] prior"

text \<open>The closure given to \<open>WithTx\<close>: it returns \<open>result.SyncID\<close> and \<open>result.TagsChanged\<close>.\<close>

definition syncTx ::
  "(((string \<times> Ref) list) \<Rightarrow> (string \<times> Ref) list) \<Rightarrow> RemoteID \<Rightarrow> bool \<Rightarrow> int64 \<Rightarrow> bytes \<Rightarrow>
   LsRemoteRef list \<Rightarrow> Ref list \<Rightarrow> 't Tx \<Rightarrow> ('t, SyncID \<times> int64) io" where
  "syncTx order remoteID taintAnyTagDeletion startNS headBefore lsRefs prior tx =
     (let priorByName = priorMap prior;
          seenName = (\<lambda>name. name \<in> set (map lsr_Name lsRefs)) in
      bindT NowNS (\<lambda>nowNS.
      bindT (tx_WriteSync tx
        \<lparr>syn_ID = 0, syn_RemoteID = remoteID, syn_Trigger = TriggerScheduled, syn_StartedNS = startNS,
         syn_FinishedNS = nowNS, syn_Status = SyncOk, syn_TagsSeen = int (length lsRefs), syn_TagsChanged = 0,
         syn_Error = [], syn_ChainHeadBefore = headBefore, syn_ChainHeadAfter = []\<rparr>) (\<lambda>(syncID, _).
      bindT (tx_PruneSyncs tx remoteID syncRetentionKeep) (\<lambda>_.
      bindT (forT lsRefs 0 (syncSeenTag tx remoteID nowNS syncID priorByName)) (\<lambda>changed.
      bindT (forT (order priorByName) changed (syncGoneTag tx remoteID syncID taintAnyTagDeletion seenName)) (\<lambda>changed.
      ret (syncID, changed)))))))"

definition failedResult :: "bytes \<Rightarrow> SyncResult" where
  "failedResult headBefore = \<lparr>res_SyncID = 0, res_Status = SyncFailed, res_TagsSeen = 0, res_TagsChanged = 0,
     res_HeadBefore = headBefore, res_HeadAfter = headBefore\<rparr>"

text \<open>
  The Go function returns a result and an error, sometimes both; so does this one. The world's
  error channel is not used.
\<close>

definition SyncRemote ::
  "(err \<Rightarrow> string) \<Rightarrow> (((string \<times> Ref) list) \<Rightarrow> (string \<times> Ref) list) \<Rightarrow>
   ('d, 't, SyncID \<times> int64) Store \<Rightarrow> 'd GitRunner \<Rightarrow> 'd Lock \<Rightarrow> string \<Rightarrow> RemoteID \<Rightarrow>
   ('d, SyncResult option \<times> err option) io" where
  "SyncRemote errText order store git lock holder remoteID =
     bindT (tryT (st_GetRemote store remoteID)) (\<lambda>x. case x of
       Inl err \<Rightarrow> ret (None, Some err)
     | Inr r \<Rightarrow>
     bindT (tryT (lk_AcquireRemoteLease lock remoteID holder leaseTTL)) (\<lambda>x. case x of
       Inl err \<Rightarrow> ret (None, Some err)
     | Inr lease \<Rightarrow>
     bindT NowNS (\<lambda>startNS.
     let headBefore = lse_ChainHeadAtLease lease in
     bindT (tryT (git_LsRemote git (rem_URL r) None)) (\<lambda>x. case x of
       Inl lsErr \<Rightarrow>
         bindT (ignoreT (st_SetRemoteHealth store remoteID RemoteDegraded (errText lsErr) startNS)) (\<lambda>_.
         bindT (ignoreT (lk_Release lock (Some lease) headBefore (rem_ChainLen r))) (\<lambda>_.
         ret (Some (failedResult headBefore), Some lsErr)))
     | Inr lsRefs \<Rightarrow>
     bindT (tryT (st_ListTags store remoteID)) (\<lambda>x. case x of
       Inl err \<Rightarrow>
         bindT (ignoreT (lk_Release lock (Some lease) headBefore (rem_ChainLen r))) (\<lambda>_.
         ret (None, Some err))
     | Inr prior \<Rightarrow>
     bindT (tryT (st_WithTx store
       (syncTx order remoteID (rem_TaintAnyTagDeletion r) startNS headBefore lsRefs prior))) (\<lambda>x. case x of
       Inl txErr \<Rightarrow>
         bindT (ignoreT (lk_Release lock (Some lease) headBefore (rem_ChainLen r))) (\<lambda>_.
         bindT NowNS (\<lambda>now.
         bindT (ignoreT (st_SetRemoteHealth store remoteID RemoteDegraded (errText txErr) now)) (\<lambda>_.
         ret (Some (failedResult headBefore), Some txErr))))
     | Inr (syncID, changed) \<Rightarrow>
     bindT (tryT (st_GetChainHead store remoteID)) (\<lambda>x. case x of
       Inl err \<Rightarrow> ret (None, Some err)
     | Inr (headAfter, newLen) \<Rightarrow>
     bindT (tryT (lk_Release lock (Some lease) headAfter newLen)) (\<lambda>x. case x of
       Inl err \<Rightarrow> ret (None, Some err)
     | Inr _ \<Rightarrow>
     bindT NowNS (\<lambda>now.
     bindT (ignoreT (st_SetRemoteHealth store remoteID RemoteActive [] now)) (\<lambda>_.
     ret (Some \<lparr>res_SyncID = syncID, res_Status = SyncOk, res_TagsSeen = int (length lsRefs),
                res_TagsChanged = changed, res_HeadBefore = headBefore, res_HeadAfter = headAfter\<rparr>, None)))))))))))"

end
