(* ===== verification/Sha256.thy ===== *)
theory Sha256
  imports Prelude
begin

text \<open>
  SHA-256 (FIPS 180-4), which the source takes from \<open>crypto/sha256\<close>: padding, message
  schedule, compression. The development proves of it only that a digest has 32 bytes;
  collision resistance is never assumed. Theorems that need it say instead that either the
  property holds or two different inputs with the same digest are at hand.
\<close>

type_synonym word32 = "32 word"

definition rotr :: "nat \<Rightarrow> word32 \<Rightarrow> word32" where
  "rotr n x = or (drop_bit n x) (push_bit (32 - n) x)"

text \<open>The round constants and the initial state of the standard, in decimal.\<close>

definition sha_K :: "word32 list" where
  "sha_K =
    [1116352408, 1899447441, 3049323471, 3921009573, 961987163, 1508970993, 2453635748, 2870763221,
     3624381080, 310598401, 607225278, 1426881987, 1925078388, 2162078206, 2614888103, 3248222580,
     3835390401, 4022224774, 264347078, 604807628, 770255983, 1249150122, 1555081692, 1996064986,
     2554220882, 2821834349, 2952996808, 3210313671, 3336571891, 3584528711, 113926993, 338241895,
     666307205, 773529912, 1294757372, 1396182291, 1695183700, 1986661051, 2177026350, 2456956037,
     2730485921, 2820302411, 3259730800, 3345764771, 3516065817, 3600352804, 4094571909, 275423344,
     430227734, 506948616, 659060556, 883997877, 958139571, 1322822218, 1537002063, 1747873779,
     1955562222, 2024104815, 2227730452, 2361852424, 2428436474, 2756734187, 3204031479, 3329325298]"

definition sha_H0 :: "word32 list" where
  "sha_H0 = [1779033703, 3144134277, 1013904242, 2773480762,
             1359893119, 2600822924, 528734635, 1541459225]"

definition sha_pad :: "bytes \<Rightarrow> bytes" where
  "sha_pad m = m @ [0x80] @ replicate ((119 - length m mod 64) mod 64) 0
                 @ PutUint64 (8 * int (length m))"

definition be_word32 :: "bytes \<Rightarrow> word32" where
  "be_word32 bs = foldl (\<lambda>w b. or (push_bit 8 w) (ucast b)) 0 bs"

definition word32_bytes :: "word32 \<Rightarrow> bytes" where
  "word32_bytes w = map (\<lambda>n. ucast (drop_bit n w)) [24, 16, 8, 0]"

text \<open>The message schedule, kept newest word first; \<open>n\<close> words are still to be added.\<close>

fun sha_schedule :: "nat \<Rightarrow> word32 list \<Rightarrow> word32 list" where
  "sha_schedule 0 ws = rev ws"
| "sha_schedule (Suc n) ws =
     (let w15 = ws ! 14; w2 = ws ! 1;
          s0 = xor (xor (rotr 7 w15) (rotr 18 w15)) (drop_bit 3 w15);
          s1 = xor (xor (rotr 17 w2) (rotr 19 w2)) (drop_bit 10 w2)
      in sha_schedule n ((ws ! 15 + s0 + ws ! 6 + s1) # ws))"

definition sha_round :: "word32 list \<Rightarrow> word32 \<times> word32 \<Rightarrow> word32 list" where
  "sha_round st kw =
     (let (k, w) = kw; a = st ! 0; b = st ! 1; c = st ! 2; d = st ! 3;
          e = st ! 4; f = st ! 5; g = st ! 6; h = st ! 7;
          s1 = xor (xor (rotr 6 e) (rotr 11 e)) (rotr 25 e);
          ch = xor (and e f) (and (not e) g);
          t1 = h + s1 + ch + k + w;
          s0 = xor (xor (rotr 2 a) (rotr 13 a)) (rotr 22 a);
          maj = xor (xor (and a b) (and a c)) (and b c);
          t2 = s0 + maj
      in [t1 + t2, a, b, c, d + t1, e, f, g])"

definition sha_rounds :: "(word32 \<times> word32) list \<Rightarrow> word32 list \<Rightarrow> word32 list" where
  "sha_rounds kws st = foldl sha_round st kws"

fun chunks :: "nat \<Rightarrow> nat \<Rightarrow> 'a list \<Rightarrow> 'a list list" where
  "chunks 0 n xs = []"
| "chunks (Suc k) n xs = take n xs # chunks k n (drop n xs)"

definition sha_block :: "word32 list \<Rightarrow> bytes \<Rightarrow> word32 list" where
  "sha_block st blk =
     map2 (+) st (sha_rounds (zip sha_K (sha_schedule 48 (rev (map be_word32 (chunks 16 4 blk))))) st)"

definition sha256 :: "bytes \<Rightarrow> bytes" where
  "sha256 m = (let p = sha_pad m in
     concat (map word32_bytes (foldl sha_block sha_H0 (chunks (length p div 64) 64 p))))"

lemma length_sha_rounds: "length st = 8 \<Longrightarrow> length (sha_rounds kws st) = 8"
  unfolding sha_rounds_def
  by (induction kws arbitrary: st) (simp_all add: sha_round_def Let_def split: prod.split)

lemma length_sha_block: "length st = 8 \<Longrightarrow> length (sha_block st blk) = 8"
  by (simp add: sha_block_def length_sha_rounds)

lemma length_sha_blocks: "length st = 8 \<Longrightarrow> length (foldl sha_block st blks) = 8"
  by (induction blks arbitrary: st) (simp_all add: length_sha_block)

lemma length_sha256 [simp]: "length (sha256 m) = 32"
proof -
  have "length (concat (map word32_bytes ws)) = 4 * length ws" for ws
    by (induction ws) (simp_all add: word32_bytes_def)
  moreover have "length sha_H0 = 8" by (simp add: sha_H0_def)
  ultimately show ?thesis by (simp add: sha256_def Let_def length_sha_blocks)
qed

end
