(* ===== verification/Chain.thy ===== *)
theory Chain
  imports Model Sha256
begin

text \<open>
  \<open>internal/store/chain.go\<close>: the canonical encoding of an observation and the hash that
  links it to its predecessor. The encoding is shown injective on the rows the program can
  hold, and the chain tamper-evident: the locale \<open>hash_chain\<close> turns any two different
  ledgers with the same head into a concrete collision of the hash function.
\<close>

definition ChainHashLen :: nat where
  "ChainHashLen = 32"

definition writeField :: "bytes \<Rightarrow> bytes \<Rightarrow> bytes" where
  "writeField buf b = (let lp = PutUint64 (int (length b)) in (buf @ lp) @ b)"

definition writeInt :: "bytes \<Rightarrow> int64 \<Rightarrow> bytes" where
  "writeInt buf v = writeField buf (PutUint64 v)"

definition CanonicalRow :: "Observation \<Rightarrow> bytes" where
  "CanonicalRow ob =
     (let buf = [];
          buf = writeInt buf (obs_RemoteID ob);
          buf = writeInt buf (obs_Seq ob);
          buf = writeInt buf (obs_RefID ob);
          buf = writeField buf (bytes_of_string (obs_EventType ob));
          buf = writeField buf (oid_Raw (obs_PrevOID ob));
          buf = writeField buf (oid_Raw (obs_NewOID ob));
          buf = writeField buf (oid_Raw (obs_PrevPeeledOID ob));
          buf = writeField buf (oid_Raw (obs_NewPeeledOID ob));
          buf = writeInt buf (obs_ObservedAtNS ob);
          buf = writeField buf (bytes_of_string (obs_CanonicalMeta ob))
      in buf)"

definition RowHash :: "bytes \<Rightarrow> Observation \<Rightarrow> bytes" where
  "RowHash prevHash ob = sha256 (prevHash @ CanonicalRow ob)"

section \<open>The encoding is injective\<close>

text \<open>What the chain commits to, and the rows whose fields fit Go's types.\<close>

definition obs_key ::
  "Observation \<Rightarrow> int64 \<times> int64 \<times> int64 \<times> string \<times> bytes \<times> bytes \<times> bytes \<times> bytes \<times> int64 \<times> string" where
  "obs_key ob = (obs_RemoteID ob, obs_Seq ob, obs_RefID ob, obs_EventType ob,
     oid_Raw (obs_PrevOID ob), oid_Raw (obs_NewOID ob),
     oid_Raw (obs_PrevPeeledOID ob), oid_Raw (obs_NewPeeledOID ob),
     obs_ObservedAtNS ob, obs_CanonicalMeta ob)"

definition obs_fits :: "Observation \<Rightarrow> bool" where
  "obs_fits ob \<longleftrightarrow>
     in_int64 (obs_RemoteID ob) \<and> in_int64 (obs_Seq ob) \<and> in_int64 (obs_RefID ob) \<and>
     in_int64 (obs_ObservedAtNS ob) \<and>
     length (obs_EventType ob) < 2 ^ 63 \<and> length (obs_CanonicalMeta ob) < 2 ^ 63 \<and>
     length (oid_Raw (obs_PrevOID ob)) < 2 ^ 63 \<and> length (oid_Raw (obs_NewOID ob)) < 2 ^ 63 \<and>
     length (oid_Raw (obs_PrevPeeledOID ob)) < 2 ^ 63 \<and> length (oid_Raw (obs_NewPeeledOID ob)) < 2 ^ 63"

definition field :: "bytes \<Rightarrow> bytes" where
  "field b = PutUint64 (int (length b)) @ b"

lemma writeField_field: "writeField buf b = buf @ field b"
  by (simp add: writeField_def field_def)

lemma CanonicalRow_fields:
  "CanonicalRow ob =
     field (PutUint64 (obs_RemoteID ob)) @ field (PutUint64 (obs_Seq ob)) @
     field (PutUint64 (obs_RefID ob)) @ field (bytes_of_string (obs_EventType ob)) @
     field (oid_Raw (obs_PrevOID ob)) @ field (oid_Raw (obs_NewOID ob)) @
     field (oid_Raw (obs_PrevPeeledOID ob)) @ field (oid_Raw (obs_NewPeeledOID ob)) @
     field (PutUint64 (obs_ObservedAtNS ob)) @ field (bytes_of_string (obs_CanonicalMeta ob)) @ []"
  by (simp add: CanonicalRow_def writeInt_def writeField_field Let_def)

text \<open>A length-prefixed field can be read back, whatever follows it.\<close>

lemma field_append_inj:
  assumes "field a @ s = field b @ t" and "length a < 2 ^ 63" and "length b < 2 ^ 63"
  shows "a = b \<and> s = t"
proof -
  from assms(1) have "PutUint64 (int (length a)) = PutUint64 (int (length b))"
    and rest: "a @ s = b @ t"
    by (simp_all add: field_def append_eq_append_conv)
  then have "length a = length b"
    using PutUint64_nat_inj assms(2,3) by simp
  with rest show ?thesis by simp
qed

lemma field_int_append_inj:
  assumes "field (PutUint64 a) @ s = field (PutUint64 b) @ t" and "in_int64 a" and "in_int64 b"
  shows "a = b \<and> s = t"
  using field_append_inj [OF assms(1)] PutUint64_inj assms(2,3) by simp

lemma CanonicalRow_injective:
  assumes eq: "CanonicalRow a = CanonicalRow b" and "obs_fits a" and "obs_fits b"
  shows "obs_key a = obs_key b"
proof -
  have fits: "length (bytes_of_string s) < 2 ^ 63 \<longleftrightarrow> length s < 2 ^ 63" for s by simp
  note f = assms(2,3) [unfolded obs_fits_def]
  note s1 = field_int_append_inj [OF eq [unfolded CanonicalRow_fields]]
  note s2 = field_int_append_inj [OF conjunct2 [OF s1]]
  note s3 = field_int_append_inj [OF conjunct2 [OF s2]]
  note s4 = field_append_inj [OF conjunct2 [OF s3], unfolded fits]
  note s5 = field_append_inj [OF conjunct2 [OF s4]]
  note s6 = field_append_inj [OF conjunct2 [OF s5]]
  note s7 = field_append_inj [OF conjunct2 [OF s6]]
  note s8 = field_append_inj [OF conjunct2 [OF s7]]
  note s9 = field_int_append_inj [OF conjunct2 [OF s8]]
  note s10 = field_append_inj [OF conjunct2 [OF s9], unfolded fits]
  show ?thesis
    using f s1 s2 s3 s4 s5 s6 s7 s8 s9 s10 by (simp add: obs_key_def)
qed

section \<open>Tamper evidence\<close>

text \<open>Rows are kept newest first; \<open>p\<close> is the genesis value.\<close>

fun chain_head :: "(bytes \<Rightarrow> bytes) \<Rightarrow> ('o \<Rightarrow> bytes) \<Rightarrow> bytes \<Rightarrow> 'o list \<Rightarrow> bytes" where
  "chain_head H enc p [] = p"
| "chain_head H enc p (x # xs) = H (chain_head H enc p xs @ enc x)"

text \<open>
  The auditor's extraction: walk two ledgers with the same head backwards; the first pair of
  hash inputs that differ is a collision.
\<close>

fun find_collision ::
  "(bytes \<Rightarrow> bytes) \<Rightarrow> ('o \<Rightarrow> bytes) \<Rightarrow> bytes \<Rightarrow> 'o list \<Rightarrow> 'o list \<Rightarrow> (bytes \<times> bytes) option" where
  "find_collision H enc p (x # xs) (y # ys) =
     (let a = chain_head H enc p xs @ enc x; b = chain_head H enc p ys @ enc y
      in if a = b then find_collision H enc p xs ys else Some (a, b))"
| "find_collision H enc p _ _ = None"

locale hash_chain =
  fixes H :: "bytes \<Rightarrow> bytes" and enc :: "'o \<Rightarrow> bytes" and key :: "'o \<Rightarrow> 'k" and ok :: "'o \<Rightarrow> bool"
    and hash_len :: nat
  assumes H_length: "length (H m) = hash_len"
    and enc_inj: "ok x \<Longrightarrow> ok y \<Longrightarrow> enc x = enc y \<Longrightarrow> key x = key y"
begin

lemma head_length: "length p = hash_len \<Longrightarrow> length (chain_head H enc p xs) = hash_len"
  by (cases xs) (simp_all add: H_length)

text \<open>Two ledgers of one length with one head hold the same rows, or yield a collision.\<close>

lemma tamper_evident:
  assumes "length p = hash_len" and "length xs = length ys"
    and "chain_head H enc p xs = chain_head H enc p ys"
    and "list_all ok xs" and "list_all ok ys"
  shows "case find_collision H enc p xs ys of
           None \<Rightarrow> map key xs = map key ys
         | Some (a, b) \<Rightarrow> a \<noteq> b \<and> H a = H b"
  using assms(2-5)
proof (induction xs ys rule: list_induct2)
  case (Cons x xs y ys)
  let ?a = "chain_head H enc p xs @ enc x" and ?b = "chain_head H enc p ys @ enc y"
  show ?case
  proof (cases "?a = ?b")
    case True
    then have "chain_head H enc p xs = chain_head H enc p ys" and "enc x = enc y"
      using head_length [OF assms(1)] by (simp_all add: append_eq_append_conv)
    with True Cons.IH Cons.prems enc_inj [of x y] show ?thesis
      by (auto split: option.splits)
  next
    case False
    with Cons.prems(1) show ?thesis by simp
  qed
qed simp

end

interpretation row_chain: hash_chain sha256 CanonicalRow obs_key obs_fits ChainHashLen
proof
  show "length (sha256 m) = ChainHashLen" for m
    by (simp add: ChainHashLen_def)
  show "obs_key x = obs_key y" if "obs_fits x" "obs_fits y" "CanonicalRow x = CanonicalRow y" for x y
    using that by (intro CanonicalRow_injective)
qed

lemma chain_head_RowHash:
  "chain_head sha256 CanonicalRow p (ob # obs) = RowHash (chain_head sha256 CanonicalRow p obs) ob"
  by (simp add: RowHash_def)

lemma length_RowHash [simp]: "length (RowHash p ob) = 32"
  by (simp add: RowHash_def)

section \<open>Framing\<close>

text \<open>The encoding of an observation is unambiguous: two observations whose fields fit Go's
  types and whose encodings are equal agree in every field the ledger commits to.\<close>

theorem encoding_is_unambiguous:
  assumes "obs_fits a" and "obs_fits b" and "CanonicalRow a = CanonicalRow b"
  shows "obs_key a = obs_key b"
  using row_chain.enc_inj [OF assms] .

definition demo_observation :: "int64 \<Rightarrow> Observation" where
  "demo_observation i = \<lparr>obs_ID = i, obs_RemoteID = 1, obs_RefID = 2, obs_SyncID = 3, obs_Seq = 4,
     obs_EventType = EventTagCreated, obs_PrevOID = zeroOID, obs_NewOID = zeroOID, obs_PrevPeeledOID = zeroOID,
     obs_NewPeeledOID = zeroOID, obs_ObservedAtNS = 5, obs_PrevHash = [], obs_RowHash = [], obs_CanonicalMeta = []\<rparr>"

theorem encoding_is_unambiguous_witness:
  "CanonicalRow (demo_observation 7) = CanonicalRow (demo_observation 8) \<and>
   obs_key (demo_observation 7) = obs_key (demo_observation 8)"
proof
  have fits: "obs_fits (demo_observation i)" for i
    by (simp add: obs_fits_def demo_observation_def in_int64_def zeroOID_def EventTagCreated_def)
  show eq: "CanonicalRow (demo_observation 7) = CanonicalRow (demo_observation 8)"
    by (simp add: CanonicalRow_def demo_observation_def)
  show "obs_key (demo_observation 7) = obs_key (demo_observation 8)"
    by (rule encoding_is_unambiguous [OF fits fits eq])
qed

end
