(* ===== verification/Sqlite_Schema.thy ===== *)
theory Sqlite_Schema
  imports Effects Chain
begin

text \<open>
  The tables of \<open>db/migrations-sqlite/0001_init.sql\<close> as the generated row structs of
  \<open>sqlc/models.go\<close> have them. A nullable column (\<open>interface{}\<close>) is an option. A table is the
  list of its rows in insertion order; AUTOINCREMENT is a counter of the largest id ever
  given out. \<open>db_ok\<close> collects what the schema guarantees of every state: distinct primary
  keys below the counters, the UNIQUE keys, the foreign keys.
\<close>

section \<open>Rows\<close>

record RemoteRow =
  Rrem_ID :: int64
  Rrem_Url :: string
  Rrem_NormalizedUrl :: string
  Rrem_Transport :: string
  Rrem_SyncIntervalNs :: int64
  Rrem_StalenessBudgetNs :: int64
  Rrem_TaintAnyTagDeletion :: int64
  Rrem_HashAlgo :: "string option"
  Rrem_Status :: string
  Rrem_LastOkNs :: int64
  Rrem_LastErr :: string
  Rrem_ConsecutiveFailures :: int64
  Rrem_ChainHeadHash :: bytes
  Rrem_ChainLen :: int64
  Rrem_RemovedAtNs :: "int64 option"
  Rrem_CreatedAtNs :: int64
  Rrem_UpdatedAtNs :: int64

record RefRow =
  Rref_ID :: int64
  Rref_RemoteID :: int64
  Rref_TagName :: string
  Rref_CurrentOid :: "bytes option"
  Rref_CurrentPeeledOid :: "bytes option"
  Rref_IsAnnotated :: int64
  Rref_FirstOid :: "bytes option"
  Rref_FirstSeenNs :: int64
  Rref_LastSeenNs :: int64
  Rref_LastChangedNs :: int64
  Rref_Deleted :: int64
  Rref_Tainted :: int64
  Rref_TaintFirstNs :: "int64 option"
  Rref_ObservationCount :: int64

record ObservationRow =
  Robs_ID :: int64
  Robs_RemoteID :: int64
  Robs_RefID :: int64
  Robs_SyncID :: int64
  Robs_Seq :: int64
  Robs_EventType :: string
  Robs_PrevOid :: "bytes option"
  Robs_NewOid :: "bytes option"
  Robs_PrevPeeledOid :: "bytes option"
  Robs_NewPeeledOid :: "bytes option"
  Robs_ObservedAtNs :: int64
  Robs_PrevHash :: bytes
  Robs_RowHash :: bytes
  Robs_CanonicalMeta :: "string option"

record SyncRow =
  Rsyn_ID :: int64
  Rsyn_RemoteID :: int64
  Rsyn_Trigger :: string
  Rsyn_StartedNs :: int64
  Rsyn_FinishedNs :: int64
  Rsyn_Status :: string
  Rsyn_TagsSeen :: int64
  Rsyn_TagsChanged :: int64
  Rsyn_Error :: string
  Rsyn_ChainHeadBefore :: "bytes option"
  Rsyn_ChainHeadAfter :: "bytes option"

record TaintEventRow =
  Rte_ID :: int64
  Rte_RemoteID :: int64
  Rte_RefID :: int64
  Rte_Reason :: string
  Rte_ObservationID :: "int64 option"
  Rte_FromOid :: "bytes option"
  Rte_ToOid :: "bytes option"
  Rte_DetectedAtNs :: int64
  Rte_AckedAtNs :: "int64 option"
  Rte_AckedBy :: "string option"
  Rte_AckNote :: "string option"
  Rte_Detail :: string

record RemoteLeaseRow =
  Rls_RemoteID :: int64
  Rls_Holder :: string
  Rls_AcquiredAtNs :: int64
  Rls_ExpiresAtNs :: int64

record db =
  t_remotes :: "RemoteRow list"
  t_refs :: "RefRow list"
  t_syncs :: "SyncRow list"
  t_observations :: "ObservationRow list"
  t_taint_events :: "TaintEventRow list"
  t_lease :: "RemoteLeaseRow list"
  seq_remotes :: int64
  seq_refs :: int64
  seq_syncs :: int64
  seq_observations :: int64
  seq_taint_events :: int64

definition empty_db :: db where
  "empty_db = \<lparr>t_remotes = [], t_refs = [], t_syncs = [], t_observations = [], t_taint_events = [],
     t_lease = [], seq_remotes = 0, seq_refs = 0, seq_syncs = 0, seq_observations = 0,
     seq_taint_events = 0\<rparr>"

section \<open>Constraints\<close>

definition remote_exists :: "db \<Rightarrow> int64 \<Rightarrow> bool" where
  "remote_exists d i \<longleftrightarrow> list_ex (\<lambda>r. Rrem_ID r = i) (t_remotes d)"

definition ref_exists :: "db \<Rightarrow> int64 \<Rightarrow> bool" where
  "ref_exists d i \<longleftrightarrow> list_ex (\<lambda>r. Rref_ID r = i) (t_refs d)"

definition sync_exists :: "db \<Rightarrow> int64 \<Rightarrow> bool" where
  "sync_exists d i \<longleftrightarrow> list_ex (\<lambda>r. Rsyn_ID r = i) (t_syncs d)"

definition observation_exists :: "db \<Rightarrow> int64 \<Rightarrow> bool" where
  "observation_exists d i \<longleftrightarrow> list_ex (\<lambda>r. Robs_ID r = i) (t_observations d)"

definition remote_check :: "string \<Rightarrow> string option \<Rightarrow> string \<Rightarrow> bool" where
  "remote_check transport algo status \<longleftrightarrow>
     transport \<in> set [''https'', ''ssh''] \<and>
     (case algo of None \<Rightarrow> True | Some a \<Rightarrow> a \<in> set [''sha1'', ''sha256'']) \<and>
     status \<in> set [''active'', ''degraded'', ''paused'']"

definition sync_check :: "string \<Rightarrow> string \<Rightarrow> bool" where
  "sync_check trig status \<longleftrightarrow>
     trig \<in> set [''register'', ''scheduled'', ''manual''] \<and> status \<in> set [''ok'', ''partial'', ''failed'']"

definition event_type_check :: "string \<Rightarrow> bool" where
  "event_type_check e \<longleftrightarrow>
     e \<in> set [''tag_created'', ''tag_oid_changed'', ''tag_deleted'', ''tag_recreated'']"

definition reason_check :: "string \<Rightarrow> bool" where
  "reason_check r \<longleftrightarrow> r \<in> set [''tag_oid_changed'', ''tag_deleted_recreated'']"

text \<open>The constraint of \<open>observations.sync_id\<close>, deferred to the commit.\<close>

definition sync_fk_ok :: "db \<Rightarrow> bool" where
  "sync_fk_ok d \<longleftrightarrow> list_all (\<lambda>ob. sync_exists d (Robs_SyncID ob)) (t_observations d)"

definition ids_ok :: "('r \<Rightarrow> int64) \<Rightarrow> 'r list \<Rightarrow> int64 \<Rightarrow> bool" where
  "ids_ok f rs n \<longleftrightarrow> 0 \<le> n \<and> distinct (map f rs) \<and> (\<forall>r \<in> set rs. 0 < f r \<and> f r \<le> n)"

definition refs_ok :: "db \<Rightarrow> bool" where
  "refs_ok d \<longleftrightarrow>
     ids_ok Rref_ID (t_refs d) (seq_refs d) \<and>
     distinct (map (\<lambda>r. (Rref_RemoteID r, Rref_TagName r)) (t_refs d)) \<and>
     (\<forall>r \<in> set (t_refs d). remote_exists d (Rref_RemoteID r))"

definition remotes_ok :: "db \<Rightarrow> bool" where
  "remotes_ok d \<longleftrightarrow>
     ids_ok Rrem_ID (t_remotes d) (seq_remotes d) \<and> distinct (map Rrem_NormalizedUrl (t_remotes d))"

definition observations_ok :: "db \<Rightarrow> bool" where
  "observations_ok d \<longleftrightarrow>
     ids_ok Robs_ID (t_observations d) (seq_observations d) \<and>
     distinct (map (\<lambda>r. (Robs_RemoteID r, Robs_Seq r)) (t_observations d)) \<and>
     (\<forall>r \<in> set (t_observations d).
        remote_exists d (Robs_RemoteID r) \<and> ref_exists d (Robs_RefID r))"

definition db_ok :: "db \<Rightarrow> bool" where
  "db_ok d \<longleftrightarrow>
     remotes_ok d \<and> refs_ok d \<and> observations_ok d \<and>
     ids_ok Rsyn_ID (t_syncs d) (seq_syncs d) \<and>
     ids_ok Rte_ID (t_taint_events d) (seq_taint_events d) \<and>
     distinct (map Rls_RemoteID (t_lease d))"

lemma db_ok_empty [simp]: "db_ok empty_db"
  by (simp add: db_ok_def remotes_ok_def refs_ok_def observations_ok_def ids_ok_def empty_db_def)

lemma ids_ok_snoc:
  assumes "ids_ok f rs n" and "f r = n + 1"
  shows "ids_ok f (rs @ [r]) (n + 1)"
  using assms by (fastforce simp: ids_ok_def)

lemma ids_ok_mono: "ids_ok f rs n \<Longrightarrow> n \<le> m \<Longrightarrow> ids_ok f rs m"
  by (fastforce simp: ids_ok_def)

lemma ids_ok_filter: "ids_ok f rs n \<Longrightarrow> ids_ok f (filter P rs) n"
  by (auto simp: ids_ok_def distinct_map_filter)

lemma ids_ok_map: "(\<And>r. f (g r) = f r) \<Longrightarrow> ids_ok f (map g rs) n = ids_ok f rs n"
  by (simp add: ids_ok_def comp_def)

end
