(* ===== verification/Sqlite_Queries.thy ===== *)
theory Sqlite_Queries
  imports Sqlite_Schema
begin

text \<open>
  The SQL statements of \<open>internal/store/sqlite/sqlc\<close>, one definition per generated method.
  A \<open>:one\<close> query returns the first row or \<open>SqlNoRows\<close>; an \<open>:execrows\<close> statement returns the
  number of rows it changed. Constraints fail in SQLite's order: CHECK, then UNIQUE, then
  FOREIGN KEY. A negative LIMIT is no limit. An AUTOINCREMENT id is larger than any id the table ever had; the
  id of an insertion attempt that turns into an update by ON CONFLICT is not given out again.
\<close>

named_theorems sqlc_defs \<open>the definitions of the SQL statements\<close>

section \<open>What the statements are built from\<close>

definition select_one :: "('r \<Rightarrow> bool) \<Rightarrow> 'r list \<Rightarrow> sql_error + 'r" where
  "select_one P rs = (case find P rs of None \<Rightarrow> Inl SqlNoRows | Some r \<Rightarrow> Inr r)"

definition update_where :: "('r \<Rightarrow> bool) \<Rightarrow> ('r \<Rightarrow> 'r) \<Rightarrow> 'r list \<Rightarrow> 'r list" where
  "update_where P f rs = map (\<lambda>r. if P r then f r else r) rs"

definition count_where :: "('r \<Rightarrow> bool) \<Rightarrow> 'r list \<Rightarrow> int64" where
  "count_where P rs = int (length (filter P rs))"

definition limit_rows :: "int64 \<Rightarrow> 'r list \<Rightarrow> 'r list" where
  "limit_rows n rs = (if n < 0 then rs else take (nat n) rs)"

definition read_one :: "('r \<Rightarrow> bool) \<Rightarrow> ('d \<Rightarrow> 'r list) \<Rightarrow> ('r \<Rightarrow> 'a) \<Rightarrow> ('d, 'a) query" where
  "read_one P table f d =
     (case select_one P (table d) of Inl e \<Rightarrow> Inl e | Inr r \<Rightarrow> Inr (f r, d))"

lemma update_where_Nil [simp]: "update_where P f [] = []"
  by (simp add: update_where_def)

lemma length_update_where [simp]: "length (update_where P f rs) = length rs"
  by (simp add: update_where_def)

lemma map_update_where:
  "(\<And>r. g (f r) = g r) \<Longrightarrow> map g (update_where P f rs) = map g rs"
  by (simp add: update_where_def)

lemma set_update_where: "set (update_where P f rs) = (\<lambda>r. if P r then f r else r) ` set rs"
  by (simp add: update_where_def)

lemma ids_ok_update_where:
  "(\<And>r. g (f r) = g r) \<Longrightarrow> ids_ok g (update_where P f rs) n = ids_ok g rs n"
  unfolding update_where_def by (rule ids_ok_map) simp

lemma list_ex_update_where:
  "(\<And>r. Q (f r) = Q r) \<Longrightarrow> list_ex Q (update_where P f rs) = list_ex Q rs"
  by (induction rs) (auto simp: update_where_def)

lemma find_update_where_other:
  "(\<And>r. Q (f r) = Q r) \<Longrightarrow>
   find Q (update_where P f rs) = map_option (\<lambda>r. if P r then f r else r) (find Q rs)"
  by (induction rs) (auto simp: update_where_def)

lemma read_one_Inr:
  "read_one P table f d = Inr (a, d') \<longleftrightarrow> d' = d \<and> (\<exists>r. find P (table d) = Some r \<and> a = f r)"
  by (auto simp: read_one_def select_one_def split: option.splits)

lemma read_one_Inl:
  "read_one P table f d = Inl e \<longleftrightarrow> e = SqlNoRows \<and> find P (table d) = None"
  by (auto simp: read_one_def select_one_def split: option.splits)

section \<open>remotes.sql.go\<close>

record CreateRemoteParams =
  Prem_Url :: string
  Prem_NormalizedUrl :: string
  Prem_Transport :: string
  Prem_SyncIntervalNs :: int64
  Prem_StalenessBudgetNs :: int64
  Prem_TaintAnyTagDeletion :: int64
  Prem_HashAlgo :: "string option"
  Prem_Status :: string
  Prem_LastOkNs :: int64
  Prem_LastErr :: string
  Prem_ConsecutiveFailures :: int64
  Prem_ChainHeadHash :: bytes
  Prem_ChainLen :: int64
  Prem_RemovedAtNs :: "int64 option"
  Prem_CreatedAtNs :: int64
  Prem_UpdatedAtNs :: int64

record UpdateRemoteParams =
  Urem_Url :: string
  Urem_NormalizedUrl :: string
  Urem_Transport :: string
  Urem_SyncIntervalNs :: int64
  Urem_StalenessBudgetNs :: int64
  Urem_TaintAnyTagDeletion :: int64
  Urem_HashAlgo :: "string option"
  Urem_Status :: string
  Urem_LastOkNs :: int64
  Urem_LastErr :: string
  Urem_ConsecutiveFailures :: int64
  Urem_ChainHeadHash :: bytes
  Urem_ChainLen :: int64
  Urem_RemovedAtNs :: "int64 option"
  Urem_UpdatedAtNs :: int64
  Urem_ID :: int64

definition sqlc_AdvanceChainHead :: "bytes \<Rightarrow> int64 \<Rightarrow> int64 \<Rightarrow> (db, unit) query" where [sqlc_defs]:
  "sqlc_AdvanceChainHead head n i d =
     Inr ((), d\<lparr>t_remotes := update_where (\<lambda>r. Rrem_ID r = i)
                  (\<lambda>r. r\<lparr>Rrem_ChainHeadHash := head, Rrem_ChainLen := n\<rparr>) (t_remotes d)\<rparr>)"

definition sqlc_AdvanceRemoteChainHead ::
  "bytes \<Rightarrow> int64 \<Rightarrow> int64 \<Rightarrow> bytes \<Rightarrow> int64 \<Rightarrow> (db, int64) query" where [sqlc_defs]:
  "sqlc_AdvanceRemoteChainHead head n i head2 n2 d =
     (let P = (\<lambda>r. Rrem_ID r = i \<and> Rrem_ChainHeadHash r = head2 \<and> Rrem_ChainLen r = n2) in
      Inr (count_where P (t_remotes d),
           d\<lparr>t_remotes := update_where P
               (\<lambda>r. r\<lparr>Rrem_ChainHeadHash := head, Rrem_ChainLen := n\<rparr>) (t_remotes d)\<rparr>))"

definition sqlc_CountAllRemotes :: "(db, int64) query" where [sqlc_defs]:
  "sqlc_CountAllRemotes d = Inr (int (length (t_remotes d)), d)"

definition sqlc_CreateRemote :: "CreateRemoteParams \<Rightarrow> (db, RemoteRow) query" where [sqlc_defs]:
  "sqlc_CreateRemote arg d =
     (if \<not> remote_check (Prem_Transport arg) (Prem_HashAlgo arg) (Prem_Status arg) then Inl SqlCheck
      else if list_ex (\<lambda>r. Rrem_NormalizedUrl r = Prem_NormalizedUrl arg) (t_remotes d) then Inl SqlUnique
      else
        let row = \<lparr>Rrem_ID = seq_remotes d + 1, Rrem_Url = Prem_Url arg,
              Rrem_NormalizedUrl = Prem_NormalizedUrl arg, Rrem_Transport = Prem_Transport arg,
              Rrem_SyncIntervalNs = Prem_SyncIntervalNs arg,
              Rrem_StalenessBudgetNs = Prem_StalenessBudgetNs arg,
              Rrem_TaintAnyTagDeletion = Prem_TaintAnyTagDeletion arg,
              Rrem_HashAlgo = Prem_HashAlgo arg, Rrem_Status = Prem_Status arg,
              Rrem_LastOkNs = Prem_LastOkNs arg, Rrem_LastErr = Prem_LastErr arg,
              Rrem_ConsecutiveFailures = Prem_ConsecutiveFailures arg,
              Rrem_ChainHeadHash = Prem_ChainHeadHash arg, Rrem_ChainLen = Prem_ChainLen arg,
              Rrem_RemovedAtNs = Prem_RemovedAtNs arg, Rrem_CreatedAtNs = Prem_CreatedAtNs arg,
              Rrem_UpdatedAtNs = Prem_UpdatedAtNs arg\<rparr>
        in Inr (row, d\<lparr>t_remotes := t_remotes d @ [row], seq_remotes := seq_remotes d + 1\<rparr>))"

definition sqlc_GetChainHead :: "int64 \<Rightarrow> (db, bytes \<times> int64) query" where [sqlc_defs]:
  "sqlc_GetChainHead i =
     read_one (\<lambda>r. Rrem_ID r = i) t_remotes (\<lambda>r. (Rrem_ChainHeadHash r, Rrem_ChainLen r))"

definition sqlc_GetRemote :: "int64 \<Rightarrow> (db, RemoteRow) query" where [sqlc_defs]:
  "sqlc_GetRemote i = read_one (\<lambda>r. Rrem_ID r = i) t_remotes (\<lambda>r. r)"

definition sqlc_GetRemoteByURL :: "string \<Rightarrow> (db, RemoteRow) query" where [sqlc_defs]:
  "sqlc_GetRemoteByURL url =
     read_one (\<lambda>r. Rrem_NormalizedUrl r = url \<and> Rrem_RemovedAtNs r = None) t_remotes (\<lambda>r. r)"

definition sqlc_GetRemoteChainHead :: "int64 \<Rightarrow> (db, bytes \<times> int64) query" where [sqlc_defs]:
  "sqlc_GetRemoteChainHead i =
     read_one (\<lambda>r. Rrem_ID r = i) t_remotes (\<lambda>r. (Rrem_ChainHeadHash r, Rrem_ChainLen r))"

definition sqlc_ListRemotes :: "int64 \<Rightarrow> int64 \<Rightarrow> (db, RemoteRow list) query" where [sqlc_defs]:
  "sqlc_ListRemotes i lim d =
     Inr (limit_rows lim (sort_key Rrem_ID (filter (\<lambda>r. Rrem_ID r > i) (t_remotes d))), d)"

text \<open>
  The sum is SQL's, so it does not wrap. Rows with equal keys come in table order.
\<close>

definition sqlc_SelectDueRemotes :: "int64 \<Rightarrow> int64 \<Rightarrow> (db, RemoteRow list) query" where [sqlc_defs]:
  "sqlc_SelectDueRemotes now lim d =
     Inr (limit_rows lim (sort_key (\<lambda>r. Rrem_LastOkNs r + Rrem_SyncIntervalNs r)
            (filter (\<lambda>r. Rrem_Status r = ''active'' \<and> Rrem_RemovedAtNs r = None \<and>
                         Rrem_LastOkNs r + Rrem_SyncIntervalNs r < now) (t_remotes d))), d)"

definition sqlc_SetRemoteHealth ::
  "string \<Rightarrow> string \<Rightarrow> int64 \<Rightarrow> int64 \<Rightarrow> int64 \<Rightarrow> (db, unit) query" where [sqlc_defs]:
  "sqlc_SetRemoteHealth status lastErr lastOk updated i d =
     (if remote_exists d i \<and> status \<notin> set [''active'', ''degraded'', ''paused''] then Inl SqlCheck
      else Inr ((), d\<lparr>t_remotes := update_where (\<lambda>r. Rrem_ID r = i)
             (\<lambda>r. r\<lparr>Rrem_Status := status, Rrem_LastErr := lastErr, Rrem_LastOkNs := lastOk,
                    Rrem_UpdatedAtNs := updated\<rparr>) (t_remotes d)\<rparr>))"

definition sqlc_SoftDeleteRemote :: "int64 \<Rightarrow> int64 \<Rightarrow> int64 \<Rightarrow> (db, unit) query" where [sqlc_defs]:
  "sqlc_SoftDeleteRemote removed updated i d =
     Inr ((), d\<lparr>t_remotes := update_where (\<lambda>r. Rrem_ID r = i)
            (\<lambda>r. r\<lparr>Rrem_RemovedAtNs := Some removed, Rrem_UpdatedAtNs := updated\<rparr>) (t_remotes d)\<rparr>)"

definition update_set :: "UpdateRemoteParams \<Rightarrow> RemoteRow \<Rightarrow> RemoteRow" where [sqlc_defs]:
  "update_set arg r =
     r\<lparr>Rrem_Url := Urem_Url arg, Rrem_NormalizedUrl := Urem_NormalizedUrl arg,
       Rrem_Transport := Urem_Transport arg, Rrem_SyncIntervalNs := Urem_SyncIntervalNs arg,
       Rrem_StalenessBudgetNs := Urem_StalenessBudgetNs arg,
       Rrem_TaintAnyTagDeletion := Urem_TaintAnyTagDeletion arg,
       Rrem_HashAlgo := Urem_HashAlgo arg, Rrem_Status := Urem_Status arg,
       Rrem_LastOkNs := Urem_LastOkNs arg, Rrem_LastErr := Urem_LastErr arg,
       Rrem_ConsecutiveFailures := Urem_ConsecutiveFailures arg,
       Rrem_ChainHeadHash := Urem_ChainHeadHash arg, Rrem_ChainLen := Urem_ChainLen arg,
       Rrem_RemovedAtNs := Urem_RemovedAtNs arg, Rrem_UpdatedAtNs := Urem_UpdatedAtNs arg\<rparr>"

definition sqlc_UpdateRemote :: "UpdateRemoteParams \<Rightarrow> (db, RemoteRow) query" where [sqlc_defs]:
  "sqlc_UpdateRemote arg d =
     (case select_one (\<lambda>r. Rrem_ID r = Urem_ID arg) (t_remotes d) of
        Inl e \<Rightarrow> Inl e
      | Inr old \<Rightarrow>
          if \<not> remote_check (Urem_Transport arg) (Urem_HashAlgo arg) (Urem_Status arg) then Inl SqlCheck
          else if list_ex (\<lambda>r. Rrem_NormalizedUrl r = Urem_NormalizedUrl arg \<and> Rrem_ID r \<noteq> Urem_ID arg)
                    (t_remotes d) then Inl SqlUnique
          else Inr (update_set arg old,
                    d\<lparr>t_remotes := update_where (\<lambda>r. Rrem_ID r = Urem_ID arg) (update_set arg) (t_remotes d)\<rparr>))"

section \<open>refs.sql.go\<close>

record UpsertRefParams =
  Pref_RemoteID :: int64
  Pref_TagName :: string
  Pref_CurrentOid :: "bytes option"
  Pref_CurrentPeeledOid :: "bytes option"
  Pref_IsAnnotated :: int64
  Pref_FirstOid :: "bytes option"
  Pref_FirstSeenNs :: int64
  Pref_LastSeenNs :: int64
  Pref_LastChangedNs :: int64
  Pref_Deleted :: int64
  Pref_Tainted :: int64
  Pref_TaintFirstNs :: "int64 option"
  Pref_ObservationCount :: int64

definition sqlc_CountRefs :: "int64 \<Rightarrow> (db, int64) query" where [sqlc_defs]:
  "sqlc_CountRefs i d = Inr (count_where (\<lambda>r. Rref_RemoteID r = i) (t_refs d), d)"

definition sqlc_GetRef :: "int64 \<Rightarrow> string \<Rightarrow> (db, RefRow) query" where [sqlc_defs]:
  "sqlc_GetRef i tag = read_one (\<lambda>r. Rref_RemoteID r = i \<and> Rref_TagName r = tag) t_refs (\<lambda>r. r)"

definition sqlc_ListTags :: "int64 \<Rightarrow> (db, RefRow list) query" where [sqlc_defs]:
  "sqlc_ListTags i d =
     Inr (sort_key Rref_TagName (filter (\<lambda>r. Rref_RemoteID r = i) (t_refs d)), d)"

definition sqlc_SetRefTaint :: "int64 \<Rightarrow> int64 \<Rightarrow> (db, unit) query" where [sqlc_defs]:
  "sqlc_SetRefTaint firstNs i d =
     Inr ((), d\<lparr>t_refs := update_where (\<lambda>r. Rref_ID r = i)
            (\<lambda>r. r\<lparr>Rref_Tainted := 1, Rref_TaintFirstNs := Some firstNs\<rparr>) (t_refs d)\<rparr>)"

definition upsert_set :: "UpsertRefParams \<Rightarrow> RefRow \<Rightarrow> RefRow" where [sqlc_defs]:
  "upsert_set arg r =
     r\<lparr>Rref_CurrentOid := Pref_CurrentOid arg, Rref_CurrentPeeledOid := Pref_CurrentPeeledOid arg,
       Rref_IsAnnotated := Pref_IsAnnotated arg, Rref_LastSeenNs := Pref_LastSeenNs arg,
       Rref_LastChangedNs := Pref_LastChangedNs arg, Rref_Deleted := Pref_Deleted arg,
       Rref_Tainted := Pref_Tainted arg, Rref_TaintFirstNs := Pref_TaintFirstNs arg,
       Rref_ObservationCount := Pref_ObservationCount arg\<rparr>"

definition sqlc_UpsertRef :: "UpsertRefParams \<Rightarrow> (db, RefRow) query" where [sqlc_defs]:
  "sqlc_UpsertRef arg d =
     (let P = (\<lambda>r. Rref_RemoteID r = Pref_RemoteID arg \<and> Rref_TagName r = Pref_TagName arg) in
      case find P (t_refs d) of
        Some old \<Rightarrow>
          Inr (upsert_set arg old,
               d\<lparr>t_refs := update_where P (upsert_set arg) (t_refs d), seq_refs := seq_refs d + 1\<rparr>)
      | None \<Rightarrow>
          if \<not> remote_exists d (Pref_RemoteID arg) then Inl SqlForeignKey
          else
            let row = \<lparr>Rref_ID = seq_refs d + 1, Rref_RemoteID = Pref_RemoteID arg,
                  Rref_TagName = Pref_TagName arg, Rref_CurrentOid = Pref_CurrentOid arg,
                  Rref_CurrentPeeledOid = Pref_CurrentPeeledOid arg,
                  Rref_IsAnnotated = Pref_IsAnnotated arg, Rref_FirstOid = Pref_FirstOid arg,
                  Rref_FirstSeenNs = Pref_FirstSeenNs arg, Rref_LastSeenNs = Pref_LastSeenNs arg,
                  Rref_LastChangedNs = Pref_LastChangedNs arg, Rref_Deleted = Pref_Deleted arg,
                  Rref_Tainted = Pref_Tainted arg, Rref_TaintFirstNs = Pref_TaintFirstNs arg,
                  Rref_ObservationCount = Pref_ObservationCount arg\<rparr>
            in Inr (row, d\<lparr>t_refs := t_refs d @ [row], seq_refs := seq_refs d + 1\<rparr>))"

section \<open>observations.sql.go\<close>

record InsertObservationParams =
  Pobs_RemoteID :: int64
  Pobs_RefID :: int64
  Pobs_SyncID :: int64
  Pobs_Seq :: int64
  Pobs_EventType :: string
  Pobs_PrevOid :: "bytes option"
  Pobs_NewOid :: "bytes option"
  Pobs_PrevPeeledOid :: "bytes option"
  Pobs_NewPeeledOid :: "bytes option"
  Pobs_ObservedAtNs :: int64
  Pobs_PrevHash :: bytes
  Pobs_RowHash :: bytes
  Pobs_CanonicalMeta :: "string option"

definition sqlc_GetRemoteChainHeadObs :: "int64 \<Rightarrow> (db, bytes \<times> int64) query" where [sqlc_defs]:
  "sqlc_GetRemoteChainHeadObs i =
     read_one (\<lambda>r. Rrem_ID r = i) t_remotes (\<lambda>r. (Rrem_ChainHeadHash r, Rrem_ChainLen r))"

text \<open>The foreign key on \<open>sync_id\<close> is deferred: it is not checked here but at the commit.\<close>

definition sqlc_InsertObservation :: "InsertObservationParams \<Rightarrow> (db, int64) query" where [sqlc_defs]:
  "sqlc_InsertObservation arg d =
     (if \<not> event_type_check (Pobs_EventType arg) then Inl SqlCheck
      else if list_ex (\<lambda>r. Robs_RemoteID r = Pobs_RemoteID arg \<and> Robs_Seq r = Pobs_Seq arg)
                (t_observations d) then Inl SqlUnique
      else if \<not> remote_exists d (Pobs_RemoteID arg) \<or> \<not> ref_exists d (Pobs_RefID arg) then Inl SqlForeignKey
      else
        let row = \<lparr>Robs_ID = seq_observations d + 1, Robs_RemoteID = Pobs_RemoteID arg,
              Robs_RefID = Pobs_RefID arg, Robs_SyncID = Pobs_SyncID arg, Robs_Seq = Pobs_Seq arg,
              Robs_EventType = Pobs_EventType arg, Robs_PrevOid = Pobs_PrevOid arg,
              Robs_NewOid = Pobs_NewOid arg, Robs_PrevPeeledOid = Pobs_PrevPeeledOid arg,
              Robs_NewPeeledOid = Pobs_NewPeeledOid arg, Robs_ObservedAtNs = Pobs_ObservedAtNs arg,
              Robs_PrevHash = Pobs_PrevHash arg, Robs_RowHash = Pobs_RowHash arg,
              Robs_CanonicalMeta = Pobs_CanonicalMeta arg\<rparr>
        in Inr (Robs_ID row,
                d\<lparr>t_observations := t_observations d @ [row],
                  seq_observations := seq_observations d + 1\<rparr>))"

definition sqlc_LatestObservationForRef :: "int64 \<Rightarrow> (db, int64 \<times> int64 \<times> bytes) query" where [sqlc_defs]:
  "sqlc_LatestObservationForRef i d =
     (case sort_key (\<lambda>r. - Robs_Seq r) (filter (\<lambda>r. Robs_RefID r = i) (t_observations d)) of
        [] \<Rightarrow> Inl SqlNoRows
      | r # _ \<Rightarrow> Inr ((Robs_RemoteID r, Robs_Seq r, Robs_RowHash r), d))"

definition sqlc_ReplayObservations ::
  "int64 \<Rightarrow> int64 \<Rightarrow> int64 \<Rightarrow> (db, ObservationRow list) query" where [sqlc_defs]:
  "sqlc_ReplayObservations i fromSeq lim d =
     Inr (limit_rows lim (sort_key Robs_Seq
            (filter (\<lambda>r. Robs_RemoteID r = i \<and> Robs_Seq r > fromSeq) (t_observations d))), d)"

section \<open>syncs.sql.go\<close>

record InsertSyncParams =
  Psyn_RemoteID :: int64
  Psyn_Trigger :: string
  Psyn_StartedNs :: int64
  Psyn_FinishedNs :: int64
  Psyn_Status :: string
  Psyn_TagsSeen :: int64
  Psyn_TagsChanged :: int64
  Psyn_Error :: string
  Psyn_ChainHeadBefore :: "bytes option"
  Psyn_ChainHeadAfter :: "bytes option"

definition sqlc_InsertSync :: "InsertSyncParams \<Rightarrow> (db, int64) query" where [sqlc_defs]:
  "sqlc_InsertSync arg d =
     (if \<not> sync_check (Psyn_Trigger arg) (Psyn_Status arg) then Inl SqlCheck
      else if \<not> remote_exists d (Psyn_RemoteID arg) then Inl SqlForeignKey
      else
        let row = \<lparr>Rsyn_ID = seq_syncs d + 1, Rsyn_RemoteID = Psyn_RemoteID arg,
              Rsyn_Trigger = Psyn_Trigger arg, Rsyn_StartedNs = Psyn_StartedNs arg,
              Rsyn_FinishedNs = Psyn_FinishedNs arg, Rsyn_Status = Psyn_Status arg,
              Rsyn_TagsSeen = Psyn_TagsSeen arg, Rsyn_TagsChanged = Psyn_TagsChanged arg,
              Rsyn_Error = Psyn_Error arg, Rsyn_ChainHeadBefore = Psyn_ChainHeadBefore arg,
              Rsyn_ChainHeadAfter = Psyn_ChainHeadAfter arg\<rparr>
        in Inr (Rsyn_ID row, d\<lparr>t_syncs := t_syncs d @ [row], seq_syncs := seq_syncs d + 1\<rparr>))"

definition sqlc_ListSyncs :: "int64 \<Rightarrow> int64 \<Rightarrow> int64 \<Rightarrow> (db, SyncRow list) query" where [sqlc_defs]:
  "sqlc_ListSyncs i before lim d =
     Inr (limit_rows lim (sort_key (\<lambda>r. - Rsyn_ID r)
            (filter (\<lambda>r. Rsyn_RemoteID r = i \<and> Rsyn_ID r < before) (t_syncs d))), d)"

text \<open>The inner SELECT: the newest \<open>lim\<close> ids of the remote.\<close>

definition newest_syncs :: "db \<Rightarrow> int64 \<Rightarrow> int64 \<Rightarrow> int64 list" where [sqlc_defs]:
  "newest_syncs d i lim =
     limit_rows lim (map Rsyn_ID (sort_key (\<lambda>r. - Rsyn_ID r)
       (filter (\<lambda>r. Rsyn_RemoteID r = i) (t_syncs d))))"

definition sqlc_PruneSyncs :: "int64 \<Rightarrow> int64 \<Rightarrow> int64 \<Rightarrow> int64 \<Rightarrow> (db, unit) query" where [sqlc_defs]:
  "sqlc_PruneSyncs i i2 lim i3 d =
     Inr ((), d\<lparr>t_syncs := filter (\<lambda>s. \<not> (Rsyn_RemoteID s = i \<and>
             Rsyn_ID s \<notin> set (newest_syncs d i2 lim) \<and>
             Rsyn_ID s \<notin> set (map Robs_SyncID (filter (\<lambda>ob. Robs_RemoteID ob = i3) (t_observations d)))))
           (t_syncs d)\<rparr>)"

section \<open>taint.sql.go\<close>

record InsertTaintEventParams =
  Pte_RemoteID :: int64
  Pte_RefID :: int64
  Pte_Reason :: string
  Pte_ObservationID :: "int64 option"
  Pte_FromOid :: "bytes option"
  Pte_ToOid :: "bytes option"
  Pte_DetectedAtNs :: int64
  Pte_Detail :: string

definition sqlc_AckTaintEvent :: "int64 \<Rightarrow> string \<Rightarrow> string \<Rightarrow> int64 \<Rightarrow> (db, unit) query" where [sqlc_defs]:
  "sqlc_AckTaintEvent at_ns acker note i d =
     Inr ((), d\<lparr>t_taint_events := update_where (\<lambda>r. Rte_ID r = i \<and> Rte_AckedAtNs r = None)
            (\<lambda>r. r\<lparr>Rte_AckedAtNs := Some at_ns, Rte_AckedBy := Some acker, Rte_AckNote := Some note\<rparr>)
            (t_taint_events d)\<rparr>)"

text \<open>Two NULLs are distinct for a UNIQUE key, so a row with a NULL oid never conflicts.\<close>

definition taint_conflict :: "InsertTaintEventParams \<Rightarrow> TaintEventRow \<Rightarrow> bool" where [sqlc_defs]:
  "taint_conflict arg r \<longleftrightarrow>
     Rte_RemoteID r = Pte_RemoteID arg \<and> Rte_RefID r = Pte_RefID arg \<and> Rte_Reason r = Pte_Reason arg \<and>
     Pte_FromOid arg \<noteq> None \<and> Rte_FromOid r = Pte_FromOid arg \<and>
     Pte_ToOid arg \<noteq> None \<and> Rte_ToOid r = Pte_ToOid arg"

definition sqlc_InsertTaintEvent :: "InsertTaintEventParams \<Rightarrow> (db, int64) query" where [sqlc_defs]:
  "sqlc_InsertTaintEvent arg d =
     (if \<not> reason_check (Pte_Reason arg) then Inl SqlCheck
      else case find (taint_conflict arg) (t_taint_events d) of
        Some old \<Rightarrow> Inr (Rte_ID old, d\<lparr>seq_taint_events := seq_taint_events d + 1\<rparr>)
      | None \<Rightarrow>
          if \<not> remote_exists d (Pte_RemoteID arg) \<or> \<not> ref_exists d (Pte_RefID arg) \<or>
             (case Pte_ObservationID arg of None \<Rightarrow> False | Some ob \<Rightarrow> \<not> observation_exists d ob)
          then Inl SqlForeignKey
          else
            let row = \<lparr>Rte_ID = seq_taint_events d + 1, Rte_RemoteID = Pte_RemoteID arg,
                  Rte_RefID = Pte_RefID arg, Rte_Reason = Pte_Reason arg,
                  Rte_ObservationID = Pte_ObservationID arg, Rte_FromOid = Pte_FromOid arg,
                  Rte_ToOid = Pte_ToOid arg, Rte_DetectedAtNs = Pte_DetectedAtNs arg,
                  Rte_AckedAtNs = None, Rte_AckedBy = None, Rte_AckNote = None,
                  Rte_Detail = Pte_Detail arg\<rparr>
            in Inr (Rte_ID row, d\<lparr>t_taint_events := t_taint_events d @ [row],
                                  seq_taint_events := seq_taint_events d + 1\<rparr>))"

definition sqlc_ListTaintEvents :: "int64 \<Rightarrow> int64 \<Rightarrow> int64 \<Rightarrow> (db, TaintEventRow list) query" where [sqlc_defs]:
  "sqlc_ListTaintEvents i after lim d =
     Inr (limit_rows lim (sort_key Rte_ID
            (filter (\<lambda>r. Rte_RemoteID r = i \<and> Rte_ID r > after) (t_taint_events d))), d)"

section \<open>lease.sql.go\<close>

definition sqlc_DeleteRemoteLease :: "int64 \<Rightarrow> string \<Rightarrow> (db, unit) query" where [sqlc_defs]:
  "sqlc_DeleteRemoteLease i holder d =
     Inr ((), d\<lparr>t_lease := filter (\<lambda>l. \<not> (Rls_RemoteID l = i \<and> Rls_Holder l = holder)) (t_lease d)\<rparr>)"

definition sqlc_GetRemoteLease :: "int64 \<Rightarrow> (db, RemoteLeaseRow) query" where [sqlc_defs]:
  "sqlc_GetRemoteLease i = read_one (\<lambda>l. Rls_RemoteID l = i) t_lease (\<lambda>l. l)"

end
