(* ===== verification/Sqlite_Convert.thy ===== *)
theory Sqlite_Convert
  imports Sqlite_Queries
begin

text \<open>
  \<open>internal/store/sqlite/convert.go\<close> and the helpers of \<open>store.go\<close> and \<open>tx.go\<close>: rows to
  domain values and back. A nullable column holds either nothing or a value of its declared
  type, so \<open>toInt64\<close>, \<open>toString\<close> and \<open>toBytes\<close> reduce to the default on NULL.
\<close>

named_theorems convert_defs \<open>conversions between rows and domain values\<close>

definition toInt64 :: "int64 option \<Rightarrow> int64" where [convert_defs]:
  "toInt64 v = (case v of None \<Rightarrow> 0 | Some x \<Rightarrow> x)"

definition toString :: "string option \<Rightarrow> string" where [convert_defs]:
  "toString v = (case v of None \<Rightarrow> [] | Some s \<Rightarrow> s)"

definition toBytes :: "bytes option \<Rightarrow> bytes" where [convert_defs]:
  "toBytes v = (case v of None \<Rightarrow> [] | Some b \<Rightarrow> b)"

definition nullBytes :: "bytes \<Rightarrow> bytes option" where [convert_defs]:
  "nullBytes b = (if length b = 0 then None else Some b)"

definition boolToInt :: "bool \<Rightarrow> int64" where [convert_defs]:
  "boolToInt b = (if b then 1 else 0)"

definition nullInt64Interface :: "int64 option \<Rightarrow> int64 option" where [convert_defs]:
  "nullInt64Interface p = (case p of None \<Rightarrow> None | Some x \<Rightarrow> Some x)"

definition nullStringInterface :: "string option \<Rightarrow> string option" where [convert_defs]:
  "nullStringInterface s = (case s of None \<Rightarrow> None | Some x \<Rightarrow> Some x)"

definition hashAlgoPtr :: "HashAlgo option \<Rightarrow> string option" where [convert_defs]:
  "hashAlgoPtr a = (case a of None \<Rightarrow> None | Some x \<Rightarrow> Some x)"

text \<open>The driver's message of a UNIQUE failure holds the text the source looks for.\<close>

definition isUniqueConflict :: "err \<Rightarrow> bool" where
  "isUniqueConflict e \<longleftrightarrow> e = SqlErr SqlUnique"

fun bytesEqual :: "bytes \<Rightarrow> bytes \<Rightarrow> bool" where
  "bytesEqual [] [] = True"
| "bytesEqual (a # as) (b # bs) = (if a \<noteq> b then False else bytesEqual as bs)"
| "bytesEqual _ _ = False"

text \<open>The pattern \<open>if raw := toBytes(v); len(raw) > 0\<close> around \<open>OIDFromRaw\<close>.\<close>

definition oidFromCol :: "bytes option \<Rightarrow> OID" where
  "oidFromCol v = (case v of None \<Rightarrow> zeroOID
     | Some _ \<Rightarrow> let raw = toBytes v in if length raw > 0 then OIDFromRaw raw else zeroOID)"

definition remoteFromRow :: "RemoteRow \<Rightarrow> Remote" where [convert_defs]:
  "remoteFromRow r =
     \<lparr>rem_ID = Rrem_ID r, rem_URL = Rrem_Url r, rem_NormalizedURL = Rrem_NormalizedUrl r,
      rem_Transport = Rrem_Transport r, rem_SyncInterval = Rrem_SyncIntervalNs r,
      rem_StalenessBudget = Rrem_StalenessBudgetNs r,
      rem_TaintAnyTagDeletion = (Rrem_TaintAnyTagDeletion r \<noteq> 0),
      rem_HashAlgo = (case Rrem_HashAlgo r of None \<Rightarrow> None | Some _ \<Rightarrow> Some (toString (Rrem_HashAlgo r))),
      rem_Status = Rrem_Status r, rem_LastOkNS = Rrem_LastOkNs r, rem_LastErr = Rrem_LastErr r,
      rem_ConsecutiveFailures = Rrem_ConsecutiveFailures r,
      rem_ChainHeadHash = Rrem_ChainHeadHash r, rem_ChainLen = Rrem_ChainLen r,
      rem_RemovedAtNS =
        (case Rrem_RemovedAtNs r of None \<Rightarrow> None | Some _ \<Rightarrow> Some (toInt64 (Rrem_RemovedAtNs r))),
      rem_CreatedAtNS = Rrem_CreatedAtNs r, rem_UpdatedAtNS = Rrem_UpdatedAtNs r\<rparr>"

definition refFromRow :: "RefRow \<Rightarrow> Ref" where [convert_defs]:
  "refFromRow r =
     \<lparr>ref_ID = Rref_ID r, ref_RemoteID = Rref_RemoteID r, ref_TagName = Rref_TagName r,
      ref_CurrentOID = oidFromCol (Rref_CurrentOid r),
      ref_CurrentPeeledOID = oidFromCol (Rref_CurrentPeeledOid r),
      ref_IsAnnotatedTag = (Rref_IsAnnotated r \<noteq> 0),
      ref_FirstOID = oidFromCol (Rref_FirstOid r),
      ref_FirstSeenNS = Rref_FirstSeenNs r, ref_LastSeenNS = Rref_LastSeenNs r,
      ref_LastChangedNS = Rref_LastChangedNs r, ref_Deleted = (Rref_Deleted r \<noteq> 0),
      ref_Tainted = (Rref_Tainted r \<noteq> 0),
      ref_TaintFirstNS =
        (case Rref_TaintFirstNs r of None \<Rightarrow> None | Some _ \<Rightarrow> Some (toInt64 (Rref_TaintFirstNs r))),
      ref_ObservationCount = Rref_ObservationCount r\<rparr>"

text \<open>Here a non-NULL oid column is wrapped even when it is empty.\<close>

definition taintEventFromRow :: "TaintEventRow \<Rightarrow> TaintEvent" where [convert_defs]:
  "taintEventFromRow r =
     \<lparr>te_ID = Rte_ID r, te_RemoteID = Rte_RemoteID r, te_RefID = Rte_RefID r,
      te_Reason = Rte_Reason r,
      te_ObservationID =
        (case Rte_ObservationID r of None \<Rightarrow> None | Some _ \<Rightarrow> Some (toInt64 (Rte_ObservationID r))),
      te_FromOID = (case Rte_FromOid r of None \<Rightarrow> zeroOID | Some _ \<Rightarrow> OIDFromRaw (toBytes (Rte_FromOid r))),
      te_ToOID = (case Rte_ToOid r of None \<Rightarrow> zeroOID | Some _ \<Rightarrow> OIDFromRaw (toBytes (Rte_ToOid r))),
      te_DetectedAtNS = Rte_DetectedAtNs r,
      te_AckedAtNS =
        (case Rte_AckedAtNs r of None \<Rightarrow> None | Some _ \<Rightarrow> Some (toInt64 (Rte_AckedAtNs r))),
      te_AckedBy = (case Rte_AckedBy r of None \<Rightarrow> [] | Some _ \<Rightarrow> toString (Rte_AckedBy r)),
      te_AckNote = (case Rte_AckNote r of None \<Rightarrow> [] | Some _ \<Rightarrow> toString (Rte_AckNote r)),
      te_Detail = Rte_Detail r\<rparr>"

definition syncFromRow :: "SyncRow \<Rightarrow> Sync" where [convert_defs]:
  "syncFromRow r =
     \<lparr>syn_ID = Rsyn_ID r, syn_RemoteID = Rsyn_RemoteID r, syn_Trigger = Rsyn_Trigger r,
      syn_StartedNS = Rsyn_StartedNs r, syn_FinishedNS = Rsyn_FinishedNs r, syn_Status = Rsyn_Status r,
      syn_TagsSeen = Rsyn_TagsSeen r, syn_TagsChanged = Rsyn_TagsChanged r, syn_Error = Rsyn_Error r,
      syn_ChainHeadBefore =
        (case Rsyn_ChainHeadBefore r of None \<Rightarrow> [] | Some _ \<Rightarrow> toBytes (Rsyn_ChainHeadBefore r)),
      syn_ChainHeadAfter =
        (case Rsyn_ChainHeadAfter r of None \<Rightarrow> [] | Some _ \<Rightarrow> toBytes (Rsyn_ChainHeadAfter r))\<rparr>"

text \<open>The loop body of \<open>ReplayObservations\<close> in \<open>store.go\<close>.\<close>

definition replayOid :: "bytes option \<Rightarrow> OID" where
  "replayOid v = (let b = toBytes v in if length b > 0 then OIDFromRaw b else zeroOID)"

definition observationFromRow :: "ObservationRow \<Rightarrow> Observation" where [convert_defs]:
  "observationFromRow r =
     \<lparr>obs_ID = Robs_ID r, obs_RemoteID = Robs_RemoteID r, obs_RefID = Robs_RefID r,
      obs_SyncID = toInt64 (Some (Robs_SyncID r)), obs_Seq = Robs_Seq r, obs_EventType = Robs_EventType r,
      obs_PrevOID = replayOid (Robs_PrevOid r), obs_NewOID = replayOid (Robs_NewOid r),
      obs_PrevPeeledOID = replayOid (Robs_PrevPeeledOid r),
      obs_NewPeeledOID = replayOid (Robs_NewPeeledOid r),
      obs_ObservedAtNS = Robs_ObservedAtNs r, obs_PrevHash = Robs_PrevHash r,
      obs_RowHash = Robs_RowHash r,
      obs_CanonicalMeta = (case Robs_CanonicalMeta r of None \<Rightarrow> [] | Some _ \<Rightarrow> toString (Robs_CanonicalMeta r))\<rparr>"

section \<open>Round trips\<close>

lemma bytesEqual_eq [simp]: "bytesEqual a b \<longleftrightarrow> a = b"
  by (induction a b rule: bytesEqual.induct) auto

lemma boolToInt_neq_0 [simp]: "boolToInt b \<noteq> 0 \<longleftrightarrow> b"
  by (simp add: boolToInt_def)

lemma null_id [simp]: "nullInt64Interface p = p" "nullStringInterface s = s" "hashAlgoPtr s = s"
  by (simp_all add: nullInt64Interface_def nullStringInterface_def hashAlgoPtr_def split: option.splits)

lemma oidFromCol_nullBytes:
  "oidFromCol (nullBytes (oid_Raw o1)) = (if IsZero o1 then zeroOID else OIDFromRaw (oid_Raw o1))"
  by (simp add: oidFromCol_def nullBytes_def IsZero_def toBytes_def)

lemma replayOid_oidFromCol: "replayOid v = oidFromCol v"
  by (simp add: replayOid_def oidFromCol_def toBytes_def split: option.splits)

text \<open>The ids the store holds come back unchanged: a well-formed id, or the zero id.\<close>

definition oid_storable :: "OID \<Rightarrow> bool" where
  "oid_storable o1 \<longleftrightarrow> wf_OID o1 \<or> o1 = zeroOID"

lemma oidFromCol_roundtrip [simp]:
  "oid_storable o1 \<Longrightarrow> oidFromCol (nullBytes (oid_Raw o1)) = o1"
  by (auto simp: oid_storable_def oidFromCol_nullBytes)

lemma oid_Raw_oidFromCol_nullBytes [simp]: "oid_Raw (oidFromCol (nullBytes b)) = b"
  by (simp add: oidFromCol_def nullBytes_def toBytes_def OIDFromRaw_def zeroOID_def)

lemma case_option_toInt64 [simp]: "(case x of None \<Rightarrow> None | Some _ \<Rightarrow> Some (toInt64 x)) = x"
  by (cases x) (simp_all add: toInt64_def)

lemma case_option_toString [simp]: "(case x of None \<Rightarrow> None | Some _ \<Rightarrow> Some (toString x)) = x"
  by (cases x) (simp_all add: toString_def)

end
