(* ===== verification/Sync_Contract.thy ===== *)
theory Sync_Contract
  imports Sync_Remote Sqlite_Convert
begin

text \<open>
  What a sync does to the tags of a remote, proved once for every implementation of the
  transaction interface. The locale \<open>tx_contract\<close> is the contract: an abstract view of a
  transaction's state (tag projection, taint events, ledger entries), and how each operation
  changes it when it succeeds. The result is a specification of every tag after a sync.
\<close>

section \<open>The abstract view of a transaction\<close>

type_synonym entry = "RemoteID \<times> RefID \<times> ObservationEventType \<times> bytes \<times> bytes"

record view =
  v_refs :: "RemoteID \<Rightarrow> string \<Rightarrow> Ref option"
  v_taints :: "TaintEvent list"
  v_log :: "entry list"

definition obs_entry :: "Observation \<Rightarrow> entry" where
  "obs_entry ob = (obs_RemoteID ob, obs_RefID ob, obs_EventType ob,
     oid_Raw (obs_PrevOID ob), oid_Raw (obs_NewOID ob))"

definition ref_storable :: "Ref \<Rightarrow> bool" where
  "ref_storable r \<longleftrightarrow>
     oid_storable (ref_CurrentOID r) \<and> oid_storable (ref_CurrentPeeledOID r) \<and> oid_storable (ref_FirstOID r)"

text \<open>An upsert keeps the id and the first sighting of a row that exists.\<close>

definition merge_ref :: "Ref option \<Rightarrow> Ref \<Rightarrow> RefID \<Rightarrow> Ref" where
  "merge_ref old ref i = (case old of None \<Rightarrow> ref\<lparr>ref_ID := i\<rparr>
     | Some r \<Rightarrow> ref\<lparr>ref_ID := ref_ID r, ref_FirstOID := ref_FirstOID r, ref_FirstSeenNS := ref_FirstSeenNS r\<rparr>)"

definition put_ref :: "view \<Rightarrow> RemoteID \<Rightarrow> string \<Rightarrow> Ref \<Rightarrow> view" where
  "put_ref v rid tag r = v\<lparr>v_refs := (v_refs v)(rid := (v_refs v rid)(tag := Some r))\<rparr>"

definition upserted :: "view \<Rightarrow> Ref \<Rightarrow> Ref \<Rightarrow> view \<Rightarrow> bool" where
  "upserted v ref ref' v' \<longleftrightarrow>
     (\<exists>i. let r = merge_ref (v_refs v (ref_RemoteID ref) (ref_TagName ref)) ref i in
          ref' = ref\<lparr>ref_ID := ref_ID r\<rparr> \<and> v' = put_ref v (ref_RemoteID ref) (ref_TagName ref) r)"

definition same_taint :: "TaintEvent \<Rightarrow> TaintEvent \<Rightarrow> bool" where
  "same_taint a b \<longleftrightarrow>
     te_RemoteID a = te_RemoteID b \<and> te_RefID a = te_RefID b \<and> te_Reason a = te_Reason b \<and>
     te_FromOID a = te_FromOID b \<and> te_ToOID a = te_ToOID b"

definition taint_added :: "view \<Rightarrow> TaintEvent \<Rightarrow> view \<Rightarrow> bool" where
  "taint_added v e v' \<longleftrightarrow>
     (\<exists>e'. same_taint e e' \<and> (e' \<in> set (v_taints v) \<and> v' = v \<or> v' = v\<lparr>v_taints := v_taints v @ [e']\<rparr>))"

locale tx_contract =
  fixes tx :: "'t Tx" and inv :: "'t \<Rightarrow> bool" and view_of :: "'t \<Rightarrow> view"
  assumes UpsertRefProjection:
      "ref_storable ref \<Longrightarrow>
       oks (\<lambda>t. inv t \<and> view_of t = v) (tx_UpsertRefProjection tx ref)
         (\<lambda>ref' t. inv t \<and> upserted v ref ref' (view_of t))"
    and AppendObservation:
      "oks (\<lambda>t. inv t \<and> view_of t = v) (tx_AppendObservation tx ob)
         (\<lambda>(_, ob') t. inv t \<and> obs_entry ob' = obs_entry ob \<and> obs_PrevOID ob' = obs_PrevOID ob \<and>
            view_of t = v\<lparr>v_log := v_log v @ [obs_entry ob]\<rparr>)"
    and AppendTaintEvent:
      "oid_storable (te_FromOID e) \<Longrightarrow> oid_storable (te_ToOID e) \<Longrightarrow>
       oks (\<lambda>t. inv t \<and> view_of t = v) (tx_AppendTaintEvent tx e)
         (\<lambda>_ t. inv t \<and> taint_added v e (view_of t))"
    and WriteSync:
      "oks (\<lambda>t. inv t \<and> view_of t = v) (tx_WriteSync tx s) (\<lambda>_ t. inv t \<and> view_of t = v)"
    and PruneSyncs:
      "oks (\<lambda>t. inv t \<and> view_of t = v) (tx_PruneSyncs tx i n) (\<lambda>_ t. inv t \<and> view_of t = v)"

section \<open>What one tag becomes\<close>

text \<open>A tag listed by \<open>ls-remote\<close>: the projected row, tainted when the classification says so.\<close>

definition taint_ref :: "Ref \<Rightarrow> int64 \<Rightarrow> Ref" where
  "taint_ref r ns =
     (if ref_TaintFirstNS r = None then r\<lparr>ref_Tainted := True, ref_TaintFirstNS := Some ns\<rparr> else r)"

definition seen_ref :: "Ref option \<Rightarrow> LsRemoteRef \<Rightarrow> int64 \<Rightarrow> RemoteID \<Rightarrow> Ref" where
  "seen_ref prev now ns rid =
     (let ref = projectTag prev now ns rid in
      case td_Taint (ClassifyTag prev (Some now)) of None \<Rightarrow> ref | Some _ \<Rightarrow> taint_ref ref ns)"

definition gone_ref :: "Ref \<Rightarrow> bool \<Rightarrow> int64 \<Rightarrow> Ref" where
  "gone_ref prev taintAny ns =
     (let ref = prev\<lparr>ref_Deleted := True, ref_LastSeenNS := ns\<rparr> in
      if taintAny then taint_ref ref ns else ref)"

definition ref_keyed :: "RemoteID \<Rightarrow> string \<Rightarrow> Ref \<Rightarrow> bool" where
  "ref_keyed rid tag r \<longleftrightarrow> ref_RemoteID r = rid \<and> ref_TagName r = tag"

definition ls_ok :: "LsRemoteRef \<Rightarrow> bool" where
  "ls_ok n \<longleftrightarrow> wf_OID (lsr_OID n) \<and> oid_storable (lsr_PeeledOID n)"

lemma oid_storable_zero [simp]: "oid_storable zeroOID"
  by (simp add: oid_storable_def)

lemma oid_storable_wf [simp]: "wf_OID o1 \<Longrightarrow> oid_storable o1"
  by (simp add: oid_storable_def)

lemma oid_storable_IsZero: "oid_storable o1 \<Longrightarrow> IsZero o1 \<longleftrightarrow> o1 = zeroOID"
  by (auto simp: oid_storable_def)

lemma projectTag_sel [simp]:
  "ref_TagName (projectTag prev now ns rid) = lsr_Name now"
  "ref_CurrentOID (projectTag prev now ns rid) = lsr_OID now"
  "ref_Deleted (projectTag prev now ns rid) = False"
  by (simp_all add: projectTag_def Let_def split: option.splits)

lemma projectTag_None [simp]:
  "ref_RemoteID (projectTag None now ns rid) = rid" "ref_Tainted (projectTag None now ns rid) = False"
  "ref_TaintFirstNS (projectTag None now ns rid) = None" "ref_FirstOID (projectTag None now ns rid) = lsr_OID now"
  by (simp_all add: projectTag_def Let_def)

lemma projectTag_Some [simp]:
  "ref_RemoteID (projectTag (Some p) now ns rid) = ref_RemoteID p" "ref_ID (projectTag (Some p) now ns rid) = ref_ID p"
  "ref_Tainted (projectTag (Some p) now ns rid) = ref_Tainted p"
  "ref_TaintFirstNS (projectTag (Some p) now ns rid) = ref_TaintFirstNS p"
  "ref_FirstOID (projectTag (Some p) now ns rid) = ref_FirstOID p"
  "ref_FirstSeenNS (projectTag (Some p) now ns rid) = ref_FirstSeenNS p"
  by (simp_all add: projectTag_def Let_def)

lemma projectTag_storable:
  "ls_ok now \<Longrightarrow> (\<And>p. prev = Some p \<Longrightarrow> ref_storable p) \<Longrightarrow> ref_storable (projectTag prev now ns rid)"
  by (cases prev) (auto simp: ref_storable_def ls_ok_def projectTag_def Let_def)

lemma taint_ref_sel [simp]:
  "ref_TagName (taint_ref r ns) = ref_TagName r" "ref_RemoteID (taint_ref r ns) = ref_RemoteID r"
  "ref_ID (taint_ref r ns) = ref_ID r" "ref_CurrentOID (taint_ref r ns) = ref_CurrentOID r"
  "ref_FirstOID (taint_ref r ns) = ref_FirstOID r" "ref_FirstSeenNS (taint_ref r ns) = ref_FirstSeenNS r"
  "ref_Deleted (taint_ref r ns) = ref_Deleted r" "ref_TaintFirstNS (taint_ref r ns) \<noteq> None"
  by (simp_all add: taint_ref_def)

lemma ClassifyTag_taint_Some:
  "td_Taint (ClassifyTag prev (Some now)) = Some reason \<Longrightarrow> \<exists>p. prev = Some p"
  by (auto simp: ClassifyTag_def split: option.splits)

lemma ClassifyTag_event_taint:
  "td_Event (ClassifyTag prev (Some now)) = [] \<Longrightarrow> td_Taint (ClassifyTag prev (Some now)) = None"
  by (auto simp: ClassifyTag_def emptyDelta_def model_defs split: option.splits if_splits)

lemma put_ref_same [simp]: "v_refs v rid tag = Some r \<Longrightarrow> put_ref v rid tag r = v"
  by (simp add: put_ref_def fun_upd_idem)

lemma put_ref_put_ref [simp]: "put_ref (put_ref v rid tag r) rid tag r' = put_ref v rid tag r'"
  by (simp add: put_ref_def)

lemma put_ref_sel [simp]:
  "v_refs (put_ref v rid tag r) rid tag = Some r" "v_taints (put_ref v rid tag r) = v_taints v"
  "v_log (put_ref v rid tag r) = v_log v"
  by (simp_all add: put_ref_def)

lemma put_ref_log [simp]: "put_ref (v\<lparr>v_log := l\<rparr>) rid tag r = (put_ref v rid tag r)\<lparr>v_log := l\<rparr>"
  by (simp add: put_ref_def)

text \<open>The upsert of a row that is there already, with its id and first sighting.\<close>

lemma upserted_existing:
  assumes "upserted v ref ref' v'" and "v_refs v (ref_RemoteID ref) (ref_TagName ref) = Some p"
    and "ref_ID ref = ref_ID p" and "ref_FirstOID ref = ref_FirstOID p" and "ref_FirstSeenNS ref = ref_FirstSeenNS p"
  shows "ref' = ref \<and> v' = put_ref v (ref_RemoteID ref) (ref_TagName ref) ref"
proof -
  have "merge_ref (Some p) ref i = ref" for i
    using assms(3-5) by (cases ref) (simp add: merge_ref_def)
  with assms(1,2) show ?thesis by (cases ref) (auto simp: upserted_def Let_def)
qed

context tx_contract
begin

lemma upsert_existing:
  assumes "ref_storable ref" and "v_refs v (ref_RemoteID ref) (ref_TagName ref) = Some p"
    and "ref_ID ref = ref_ID p" and "ref_FirstOID ref = ref_FirstOID p" and "ref_FirstSeenNS ref = ref_FirstSeenNS p"
  shows "oks (\<lambda>t. inv t \<and> view_of t = v) (tx_UpsertRefProjection tx ref)
     (\<lambda>ref' t. ref' = ref \<and> inv t \<and> view_of t = put_ref v (ref_RemoteID ref) (ref_TagName ref) ref)"
  by (rule oks_weaken [OF UpsertRefProjection [OF assms(1)]])
    (auto dest: upserted_existing [OF _ assms(2-5)])

lemma applyTaint_spec:
  assumes "ref_storable ref" and "v_refs v (ref_RemoteID ref) (ref_TagName ref) = Some ref"
    and "oid_storable from_oid" and "oid_storable to_oid"
  shows "oks (\<lambda>t. inv t \<and> view_of t = v) (applyTaint tx rid ref from_oid to_oid reason obsID ns)
     (\<lambda>_ t. inv t \<and> taint_added (put_ref v (ref_RemoteID ref) (ref_TagName ref) (taint_ref ref ns))
        (taintEvent rid (ref_ID ref) reason obsID from_oid to_oid ns) (view_of t))"
proof -
  let ?v = "put_ref v (ref_RemoteID ref) (ref_TagName ref) (taint_ref ref ns)"
  have "oks (\<lambda>t. inv t \<and> view_of t = v)
      (if ref_TaintFirstNS ref = None
       then tx_UpsertRefProjection tx (ref\<lparr>ref_Tainted := True, ref_TaintFirstNS := Some ns\<rparr>) else ret ref)
      (\<lambda>ref' t. ref_ID ref' = ref_ID ref \<and> inv t \<and> view_of t = ?v)"
  proof (rule oks_if)
    assume n: "ref_TaintFirstNS ref = None"
    let ?ref = "ref\<lparr>ref_Tainted := True, ref_TaintFirstNS := Some ns\<rparr>"
    have "oks (\<lambda>t. inv t \<and> view_of t = v) (tx_UpsertRefProjection tx ?ref)
       (\<lambda>ref' t. ref' = ?ref \<and> inv t \<and> view_of t = put_ref v (ref_RemoteID ?ref) (ref_TagName ?ref) ?ref)"
      using assms(1,2) by (intro upsert_existing [where p = ref]) (simp_all add: ref_storable_def)
    then show "oks (\<lambda>t. inv t \<and> view_of t = v) (tx_UpsertRefProjection tx ?ref)
       (\<lambda>ref' t. ref_ID ref' = ref_ID ref \<and> inv t \<and> view_of t = ?v)"
      by (rule oks_weaken) (simp_all add: taint_ref_def n)
  next
    assume "ref_TaintFirstNS ref \<noteq> None"
    with assms(2) show "oks (\<lambda>t. inv t \<and> view_of t = v) (ret ref)
       (\<lambda>ref' t. ref_ID ref' = ref_ID ref \<and> inv t \<and> view_of t = ?v)"
      by (intro oks_ret) (auto simp: taint_ref_def)
  qed
  then show ?thesis
    unfolding applyTaint_def
  proof (rule oks_bind)
    fix ref'
    have "oks (\<lambda>t. inv t \<and> view_of t = ?v)
        (tx_AppendTaintEvent tx (taintEvent rid (ref_ID ref) reason obsID from_oid to_oid ns))
        (\<lambda>_ t. inv t \<and> taint_added ?v (taintEvent rid (ref_ID ref) reason obsID from_oid to_oid ns) (view_of t))"
      using assms(3,4) by (intro AppendTaintEvent) (simp_all add: taintEvent_def)
    then show "oks (\<lambda>t. ref_ID ref' = ref_ID ref \<and> inv t \<and> view_of t = ?v)
        (bindT (tx_AppendTaintEvent tx (taintEvent rid (ref_ID ref') reason obsID from_oid to_oid ns)) (\<lambda>_. ret ()))
        (\<lambda>_ t. inv t \<and> taint_added ?v (taintEvent rid (ref_ID ref) reason obsID from_oid to_oid ns) (view_of t))"
      by (intro oks_pull oks_bind [OF _ oks_ret]) simp_all
  qed
qed

end

section \<open>One iteration of each loop\<close>

definition prev_oid :: "Ref option \<Rightarrow> OID" where
  "prev_oid prev = (case prev of None \<Rightarrow> zeroOID | Some p \<Rightarrow> ref_CurrentOID p)"

definition prior_ok :: "RemoteID \<Rightarrow> string \<Rightarrow> Ref option \<Rightarrow> bool" where
  "prior_ok rid tag prev \<longleftrightarrow> (case prev of None \<Rightarrow> True | Some p \<Rightarrow> ref_storable p \<and> ref_keyed rid tag p)"

text \<open>The effect of \<open>recordChange\<close> on the view.\<close>

definition recorded ::
  "RemoteID \<Rightarrow> Ref \<Rightarrow> entry \<Rightarrow> OID \<Rightarrow> OID \<Rightarrow> TaintReason option \<Rightarrow> int64 \<Rightarrow> view \<Rightarrow> view \<Rightarrow> bool" where
  "recorded rid ref en from_oid to_oid taint ns v v' \<longleftrightarrow>
     (let v2 = v\<lparr>v_log := v_log v @ [en]\<rparr> in
      case taint of
        None \<Rightarrow> v' = v2
      | Some reason \<Rightarrow> (\<exists>obsID. taint_added (put_ref v2 (ref_RemoteID ref) (ref_TagName ref) (taint_ref ref ns))
          (taintEvent rid (ref_ID ref) reason obsID from_oid to_oid ns) v'))"

definition seen_step :: "RemoteID \<Rightarrow> int64 \<Rightarrow> Ref option \<Rightarrow> LsRemoteRef \<Rightarrow> view \<Rightarrow> view \<Rightarrow> bool" where
  "seen_step rid ns prev now v v' \<longleftrightarrow>
     (\<exists>i. (\<forall>p. prev = Some p \<longrightarrow> i = ref_ID p) \<and>
        (let delta = ClassifyTag prev (Some now);
             ref = (projectTag prev now ns rid)\<lparr>ref_ID := i\<rparr>;
             v1 = put_ref v rid (lsr_Name now) ref
         in if td_Event delta = [] then v' = v1
            else recorded rid ref (rid, i, td_Event delta, oid_Raw (prev_oid prev), oid_Raw (lsr_OID now))
                   (prev_oid prev) (lsr_OID now) (td_Taint delta) ns v1 v'))"

definition gone_step :: "RemoteID \<Rightarrow> bool \<Rightarrow> Ref \<Rightarrow> view \<Rightarrow> view \<Rightarrow> bool" where
  "gone_step rid taintAny p v v' \<longleftrightarrow>
     (\<exists>ns. let ref = p\<lparr>ref_Deleted := True, ref_LastSeenNS := ns\<rparr> in
        recorded rid ref (rid, ref_ID p, EventTagDeleted, oid_Raw (ref_CurrentOID p), [])
          (ref_CurrentOID p) zeroOID (td_Taint (ClassifyDeletion (Some p) taintAny)) ns
          (put_ref v rid (ref_TagName p) ref) v')"

lemma prior_okD:
  "prior_ok rid tag (Some p) \<Longrightarrow> ref_storable p" "prior_ok rid tag (Some p) \<Longrightarrow> ref_RemoteID p = rid"
  "prior_ok rid tag (Some p) \<Longrightarrow> ref_TagName p = tag"
  by (simp_all add: prior_ok_def ref_keyed_def)

lemma prev_oid_storable: "prior_ok rid tag prev \<Longrightarrow> oid_storable (prev_oid prev)"
  by (cases prev) (auto simp: prev_oid_def ref_storable_def dest: prior_okD)

lemma projectTag_RemoteID: "prior_ok rid tag prev \<Longrightarrow> ref_RemoteID (projectTag prev now ns rid) = rid"
  by (cases prev) (auto dest: prior_okD)

text \<open>The first upsert of an iteration, for a new and for a known tag.\<close>

lemma upserted_projectTag:
  assumes prior: "prior_ok rid (lsr_Name now) prev" and cur: "v_refs v rid (lsr_Name now) = prev"
    and up: "upserted v (projectTag prev now ns rid) ref' v'"
  obtains i where "\<forall>p. prev = Some p \<longrightarrow> i = ref_ID p"
    and "ref' = (projectTag prev now ns rid)\<lparr>ref_ID := i\<rparr>" and "v' = put_ref v rid (lsr_Name now) ref'"
proof (cases prev)
  case None
  with up cur show thesis by (auto simp: upserted_def merge_ref_def Let_def intro: that)
next
  case (Some p)
  have "v_refs v (ref_RemoteID (projectTag prev now ns rid)) (ref_TagName (projectTag prev now ns rid)) = Some p"
    using Some cur prior by (auto dest: prior_okD)
  from upserted_existing [OF up this] Some
  have "ref' = projectTag prev now ns rid"
    "v' = put_ref v (ref_RemoteID (projectTag prev now ns rid)) (lsr_Name now) (projectTag prev now ns rid)"
    by simp_all
  moreover have "(projectTag prev now ns rid)\<lparr>ref_ID := ref_ID p\<rparr> = projectTag prev now ns rid"
    using Some by (simp add: projectTag_def Let_def)
  ultimately show thesis
    using Some projectTag_RemoteID [OF prior] by (intro that [of "ref_ID p"]) simp_all
qed

context tx_contract
begin

lemma recordChange_spec:
  assumes "ref_storable ref" and "v_refs v (ref_RemoteID ref) (ref_TagName ref) = Some ref"
    and "oid_storable from_oid" and "oid_storable to_oid"
    and fromOf: "\<And>ob'. obs_PrevOID ob' = obs_PrevOID ob \<Longrightarrow> fromOf ob' = from_oid"
  shows "oks (\<lambda>t. inv t \<and> view_of t = v) (recordChange tx rid ref ob fromOf to_oid taint ns ch)
     (\<lambda>_ t. inv t \<and> recorded rid ref (obs_entry ob) from_oid to_oid taint ns v (view_of t))"
  unfolding recordChange_def
proof (rule oks_bind [OF AppendObservation])
  let ?v = "v\<lparr>v_log := v_log v @ [obs_entry ob]\<rparr>"
  fix x :: "Seq \<times> Observation"
  obtain sq ob' where x: "x = (sq, ob')" by (cases x)
  have taint: "oks (\<lambda>t. inv t \<and> view_of t = ?v)
      (bindT (applyTaint tx rid ref from_oid to_oid reason (obs_ID ob') ns) (\<lambda>_. ret (wrap64 (ch + 1))))
      (\<lambda>_ t. inv t \<and> taint_added (put_ref ?v (ref_RemoteID ref) (ref_TagName ref) (taint_ref ref ns))
          (taintEvent rid (ref_ID ref) reason (obs_ID ob') from_oid to_oid ns) (view_of t))" for reason
    using assms(1-4) by (intro oks_bind [OF applyTaint_spec oks_ret]) simp_all
  show "oks (case x of (_, ob') \<Rightarrow> \<lambda>t. inv t \<and> obs_entry ob' = obs_entry ob \<and> obs_PrevOID ob' = obs_PrevOID ob \<and>
        view_of t = ?v)
      (case x of (_, obs) \<Rightarrow> let changed = wrap64 (ch + 1) in
         case taint of None \<Rightarrow> ret changed
         | Some reason \<Rightarrow> bindT (applyTaint tx rid ref (fromOf obs) to_oid reason (obs_ID obs) ns) (\<lambda>_. ret changed))
      (\<lambda>_ t. inv t \<and> recorded rid ref (obs_entry ob) from_oid to_oid taint ns v (view_of t))"
  proof (cases "obs_PrevOID ob' = obs_PrevOID ob")
    case True
    then show ?thesis unfolding x prod.case Let_def fromOf [OF True]
      by (cases taint) (auto simp: recorded_def Let_def intro!: oks_ret oks_weaken [OF taint])
  next
    case False
    then show ?thesis by (simp add: x oks_def)
  qed
qed

lemma syncSeenTag_spec:
  assumes prior: "prior_ok rid (lsr_Name now) prev" and prev: "map_of priorByName (lsr_Name now) = prev"
    and ls: "ls_ok now" and cur: "v_refs v rid (lsr_Name now) = prev"
  shows "oks (\<lambda>t. inv t \<and> view_of t = v) (syncSeenTag tx rid ns syncID priorByName now ch)
     (\<lambda>_ t. inv t \<and> seen_step rid ns prev now v (view_of t))"
  unfolding syncSeenTag_def prev Let_def
proof (rule oks_bind [OF UpsertRefProjection])
  let ?ref = "projectTag prev now ns rid" and ?delta = "ClassifyTag prev (Some now)"
  show storable: "ref_storable ?ref"
    using ls prior by (intro projectTag_storable) (auto simp: prior_ok_def)
  fix ref' :: Ref
  let ?obs = "seenObservation rid (ref_ID ref') syncID (td_Event ?delta) now prev ns"
  let ?m = "if td_Event ?delta = [] then ret ch
      else recordChange tx rid ref' ?obs obs_PrevOID (lsr_OID now) (td_Taint ?delta) ns ch"
  have prevOID: "obs_PrevOID ?obs = prev_oid prev"
    using prior by (auto simp: seenObservation_def prev_oid_def zeroObservation_def Let_def prior_ok_def
        ref_storable_def oid_storable_IsZero split: option.splits)
  then have entry: "obs_entry ?obs = (rid, ref_ID ref', td_Event ?delta, oid_Raw (prev_oid prev), oid_Raw (lsr_OID now))"
    by (auto simp: obs_entry_def) (auto simp: seenObservation_def Let_def split: option.splits)
  have rest: "oks (\<lambda>t. inv t \<and> view_of t = put_ref v rid (lsr_Name now) ref') ?m
      (\<lambda>_ t. inv t \<and> seen_step rid ns prev now v (view_of t))"
    if i: "\<forall>p. prev = Some p \<longrightarrow> i = ref_ID p" and r: "ref' = ?ref\<lparr>ref_ID := i\<rparr>" for i
  proof (rule oks_if)
    assume "td_Event ?delta = []"
    with i r show "oks (\<lambda>t. inv t \<and> view_of t = put_ref v rid (lsr_Name now) ref') (ret ch)
        (\<lambda>_ t. inv t \<and> seen_step rid ns prev now v (view_of t))"
      by (intro oks_ret) (auto simp: seen_step_def Let_def)
  next
    assume e: "td_Event ?delta \<noteq> []"
    have key: "ref_RemoteID ref' = rid" "ref_TagName ref' = lsr_Name now" "ref_storable ref'"
      using projectTag_RemoteID [OF prior] storable by (simp_all add: r ref_storable_def)
    show "oks (\<lambda>t. inv t \<and> view_of t = put_ref v rid (lsr_Name now) ref')
        (recordChange tx rid ref' ?obs obs_PrevOID (lsr_OID now) (td_Taint ?delta) ns ch)
        (\<lambda>_ t. inv t \<and> seen_step rid ns prev now v (view_of t))"
    proof (rule oks_weaken [OF recordChange_spec [where from_oid = "prev_oid prev"]])
      show "inv t \<and> seen_step rid ns prev now v (view_of t)"
        if "inv t \<and> recorded rid ref' (obs_entry ?obs) (prev_oid prev) (lsr_OID now) (td_Taint ?delta) ns
              (put_ref v rid (lsr_Name now) ref') (view_of t)" for t
        using that e i r unfolding entry by (auto simp: seen_step_def Let_def intro!: exI [of _ i])
    qed (use key ls prev_oid_storable [OF prior] prevOID in \<open>simp_all add: ls_ok_def\<close>)
  qed
  show "oks (\<lambda>t. inv t \<and> upserted v ?ref ref' (view_of t)) ?m
      (\<lambda>_ t. inv t \<and> seen_step rid ns prev now v (view_of t))"
  proof (rule oksI)
    fix w a w'
    assume pre: "inv (w_db w) \<and> upserted v ?ref ref' (view_of (w_db w))" and run: "?m w = (Inr a, w')"
    from pre obtain i where "\<forall>p. prev = Some p \<longrightarrow> i = ref_ID p" "ref' = ?ref\<lparr>ref_ID := i\<rparr>"
      "view_of (w_db w) = put_ref v rid (lsr_Name now) ref'"
      using upserted_projectTag [OF prior cur] by blast
    with pre show "inv (w_db w') \<and> seen_step rid ns prev now v (view_of (w_db w'))"
      using oksD [OF rest _ run] by blast
  qed
qed

end

lemma gone_storable:
  "ref_storable p \<Longrightarrow> ref_storable (p\<lparr>ref_Deleted := b, ref_LastSeenNS := ns\<rparr>)"
  by (simp add: ref_storable_def)

context tx_contract
begin

lemma syncGoneTag_spec:
  assumes prior: "prior_ok rid tag (Some p)" and cur: "v_refs v rid tag = Some p"
  shows "oks (\<lambda>t. inv t \<and> view_of t = v) (syncGoneTag tx rid syncID taintAny seen (tag, p) ch)
     (\<lambda>_ t. inv t \<and> (if seen tag \<or> ref_Deleted p then view_of t = v else gone_step rid taintAny p v (view_of t)))"
proof (cases "seen tag \<or> ref_Deleted p")
  case True
  then show ?thesis by (auto simp: syncGoneTag_def intro: oks_ret)
next
  case False
  let ?taint = "td_Taint (ClassifyDeletion (Some p) taintAny)"
  have ev: "td_Event (ClassifyDeletion (Some p) taintAny) = EventTagDeleted"
    by (simp add: ClassifyDeletion_def)
  note p = prior_okD [OF prior]
  have body: "oks (\<lambda>t. inv t \<and> view_of t = v)
      (bindT (tx_UpsertRefProjection tx (p\<lparr>ref_Deleted := True, ref_LastSeenNS := ns\<rparr>)) (\<lambda>prev.
        recordChange tx rid prev (goneObservation rid prev syncID EventTagDeleted ns)
          (\<lambda>_. ref_CurrentOID prev) zeroOID ?taint ns ch))
      (\<lambda>_ t. inv t \<and> gone_step rid taintAny p v (view_of t))" for ns
  proof (rule oks_bind [OF upsert_existing [where p = p and v = v]])
    let ?r = "p\<lparr>ref_Deleted := True, ref_LastSeenNS := ns\<rparr>"
    fix prev :: Ref
    have st: "oid_storable (ref_CurrentOID ?r)" using p(1) by (simp add: ref_storable_def)
    have entry: "obs_entry (goneObservation rid ?r syncID EventTagDeleted ns) =
        (rid, ref_ID p, EventTagDeleted, oid_Raw (ref_CurrentOID p), [])"
      by (simp add: obs_entry_def goneObservation_def zeroObservation_def zeroOID_def)
    have "oks (\<lambda>t. inv t \<and> view_of t = put_ref v rid tag ?r)
        (recordChange tx rid ?r (goneObservation rid ?r syncID EventTagDeleted ns)
          (\<lambda>_. ref_CurrentOID ?r) zeroOID ?taint ns ch)
        (\<lambda>_ t. inv t \<and> recorded rid ?r (obs_entry (goneObservation rid ?r syncID EventTagDeleted ns))
           (ref_CurrentOID ?r) zeroOID ?taint ns (put_ref v rid tag ?r) (view_of t))"
      using gone_storable [OF p(1)] p(2,3) st by (intro recordChange_spec) simp_all
    then have "oks (\<lambda>t. inv t \<and> view_of t = put_ref v rid tag ?r)
        (recordChange tx rid ?r (goneObservation rid ?r syncID EventTagDeleted ns)
          (\<lambda>_. ref_CurrentOID ?r) zeroOID ?taint ns ch)
        (\<lambda>_ t. inv t \<and> gone_step rid taintAny p v (view_of t))"
      by (rule oks_weaken) (use p(3) in \<open>auto simp: gone_step_def entry Let_def intro!: exI [of _ ns]\<close>)
    then show "oks (\<lambda>t. prev = ?r \<and> inv t \<and> view_of t = put_ref v (ref_RemoteID ?r) (ref_TagName ?r) ?r)
        (recordChange tx rid prev (goneObservation rid prev syncID EventTagDeleted ns)
          (\<lambda>_. ref_CurrentOID prev) zeroOID ?taint ns ch)
        (\<lambda>_ t. inv t \<and> gone_step rid taintAny p v (view_of t))"
      using p(2,3) by (intro oks_pull) simp
  qed (use gone_storable [OF p(1)] p cur in simp_all)
  from False have eq: "syncGoneTag tx rid syncID taintAny seen (tag, p) ch =
      bindT NowNS (\<lambda>ns. bindT (tx_UpsertRefProjection tx (p\<lparr>ref_Deleted := True, ref_LastSeenNS := ns\<rparr>)) (\<lambda>prev.
        recordChange tx rid prev (goneObservation rid prev syncID EventTagDeleted ns)
          (\<lambda>_. ref_CurrentOID prev) zeroOID ?taint ns ch))"
    by (simp add: syncGoneTag_def Let_def ev)
  from False show ?thesis unfolding eq
    by (simp add: oks_bind [OF oks_NowNS [where Q = "\<lambda>_ t. inv t \<and> view_of t = v"] body])
qed

end

section \<open>What the steps do to the view\<close>

definition taint_is :: "RemoteID \<Rightarrow> RefID \<Rightarrow> TaintReason \<Rightarrow> OID \<Rightarrow> OID \<Rightarrow> TaintEvent \<Rightarrow> bool" where
  "taint_is rid i reason from_oid to_oid e \<longleftrightarrow>
     te_RemoteID e = rid \<and> te_RefID e = i \<and> te_Reason e = reason \<and> te_FromOID e = from_oid \<and> te_ToOID e = to_oid"

lemma same_taint_taintEvent:
  "same_taint (taintEvent rid i reason obsID from_oid to_oid ns) e \<longleftrightarrow> taint_is rid i reason from_oid to_oid e"
  by (auto simp: same_taint_def taintEvent_def taint_is_def)

text \<open>The facts about one step that the loops accumulate: the row it writes, the taint events.\<close>

definition step_facts ::
  "RemoteID \<Rightarrow> string \<Rightarrow> Ref \<Rightarrow> TaintReason option \<Rightarrow> OID \<Rightarrow> OID \<Rightarrow> view \<Rightarrow> view \<Rightarrow> bool" where
  "step_facts rid tag r taint from_oid to_oid v v' \<longleftrightarrow>
     v_refs v' = (v_refs v)(rid := (v_refs v rid)(tag := Some r)) \<and>
     set (v_taints v) \<subseteq> set (v_taints v') \<and>
     (\<forall>e \<in> set (v_taints v'). e \<in> set (v_taints v) \<or>
        (\<exists>reason. taint = Some reason \<and> taint_is rid (ref_ID r) reason from_oid to_oid e)) \<and>
     (\<forall>reason. taint = Some reason \<longrightarrow>
        (\<exists>e \<in> set (v_taints v'). taint_is rid (ref_ID r) reason from_oid to_oid e))"

lemma recorded_facts:
  assumes "recorded rid ref en from_oid to_oid taint ns (put_ref v rid tag ref) v'"
    and "ref_RemoteID ref = rid" and "ref_TagName ref = tag"
  shows "step_facts rid tag (if taint = None then ref else taint_ref ref ns) taint from_oid to_oid v v' \<and>
    v_log v' = v_log v @ [en]"
  using assms
  by (cases taint)
    (auto simp: recorded_def step_facts_def put_ref_def taint_added_def Let_def same_taint_taintEvent)

lemma seen_step_facts:
  assumes "seen_step rid ns prev now v v'" and prior: "prior_ok rid (lsr_Name now) prev"
  obtains i where "\<forall>p. prev = Some p \<longrightarrow> i = ref_ID p"
    and "step_facts rid (lsr_Name now) ((seen_ref prev now ns rid)\<lparr>ref_ID := i\<rparr>)
      (td_Taint (ClassifyTag prev (Some now))) (prev_oid prev) (lsr_OID now) v v'"
    and "v_log v' = v_log v @ (if td_Event (ClassifyTag prev (Some now)) = [] then []
      else [(rid, i, td_Event (ClassifyTag prev (Some now)), oid_Raw (prev_oid prev), oid_Raw (lsr_OID now))])"
proof -
  let ?d = "ClassifyTag prev (Some now)"
  let ?ref = "\<lambda>i. (projectTag prev now ns rid)\<lparr>ref_ID := i\<rparr>"
  from assms(1) obtain i where i: "\<forall>p. prev = Some p \<longrightarrow> i = ref_ID p"
    and step: "if td_Event ?d = [] then v' = put_ref v rid (lsr_Name now) (?ref i)
      else recorded rid (?ref i) (rid, i, td_Event ?d, oid_Raw (prev_oid prev), oid_Raw (lsr_OID now))
        (prev_oid prev) (lsr_OID now) (td_Taint ?d) ns (put_ref v rid (lsr_Name now) (?ref i)) v'"
    by (auto simp: seen_step_def Let_def)
  have sr: "(seen_ref prev now ns rid)\<lparr>ref_ID := i\<rparr> =
      (if td_Taint ?d = None then ?ref i else taint_ref (?ref i) ns)"
    by (auto simp: seen_ref_def taint_ref_def Let_def split: option.splits)
  show thesis
  proof (cases "td_Event ?d = []")
    case True
    with step ClassifyTag_event_taint [OF True] i show thesis
      by (intro that [of i]) (simp_all add: sr step_facts_def put_ref_def)
  next
    case False
    with step have "recorded rid (?ref i) (rid, i, td_Event ?d, oid_Raw (prev_oid prev), oid_Raw (lsr_OID now))
        (prev_oid prev) (lsr_OID now) (td_Taint ?d) ns (put_ref v rid (lsr_Name now) (?ref i)) v'" by simp
    from recorded_facts [OF this] False i projectTag_RemoteID [OF prior] show thesis
      by (intro that [of i]) (simp_all add: sr)
  qed
qed

lemma gone_step_facts:
  assumes "gone_step rid taintAny p v v'" and prior: "prior_ok rid tag (Some p)"
  obtains ns where "step_facts rid tag (gone_ref p taintAny ns)
      (if taintAny then Some TaintTagDeletedRecreated else None) (ref_CurrentOID p) zeroOID v v'"
    and "v_log v' = v_log v @ [(rid, ref_ID p, EventTagDeleted, oid_Raw (ref_CurrentOID p), [])]"
proof -
  from assms(1) obtain ns where "recorded rid (p\<lparr>ref_Deleted := True, ref_LastSeenNS := ns\<rparr>)
      (rid, ref_ID p, EventTagDeleted, oid_Raw (ref_CurrentOID p), []) (ref_CurrentOID p) zeroOID
      (td_Taint (ClassifyDeletion (Some p) taintAny)) ns
      (put_ref v rid tag (p\<lparr>ref_Deleted := True, ref_LastSeenNS := ns\<rparr>)) v'"
    using prior_okD(3) [OF prior] by (auto simp: gone_step_def Let_def)
  from recorded_facts [OF this] prior_okD [OF prior] show thesis
    by (intro that [of ns]) (auto simp: gone_ref_def ClassifyDeletion_def Let_def split: if_splits)
qed

section \<open>The specification of a sync\<close>

text \<open>\<open>v0\<close> is the view before, so \<open>v_refs v0 rid\<close> is the prior projection of the remote.\<close>

definition seen_done :: "RemoteID \<Rightarrow> int64 \<Rightarrow> view \<Rightarrow> LsRemoteRef \<Rightarrow> view \<Rightarrow> bool" where
  "seen_done rid ns v0 now v \<longleftrightarrow>
     (let prev = v_refs v0 rid (lsr_Name now) in
      \<exists>i. (\<forall>p. prev = Some p \<longrightarrow> i = ref_ID p) \<and>
          v_refs v rid (lsr_Name now) = Some ((seen_ref prev now ns rid)\<lparr>ref_ID := i\<rparr>) \<and>
          (\<forall>reason. td_Taint (ClassifyTag prev (Some now)) = Some reason \<longrightarrow>
             (\<exists>e \<in> set (v_taints v). taint_is rid i reason (prev_oid prev) (lsr_OID now) e)))"

definition gone_done :: "RemoteID \<Rightarrow> bool \<Rightarrow> string \<Rightarrow> Ref \<Rightarrow> view \<Rightarrow> bool" where
  "gone_done rid taintAny tag p v \<longleftrightarrow>
     (if ref_Deleted p then v_refs v rid tag = Some p
      else (\<exists>ns. v_refs v rid tag = Some (gone_ref p taintAny ns)) \<and>
           (taintAny \<longrightarrow> (\<exists>e \<in> set (v_taints v).
              taint_is rid (ref_ID p) TaintTagDeletedRecreated (ref_CurrentOID p) zeroOID e)))"

definition seen_cause :: "RemoteID \<Rightarrow> view \<Rightarrow> LsRemoteRef \<Rightarrow> TaintEvent \<Rightarrow> bool" where
  "seen_cause rid v0 now e \<longleftrightarrow>
     (\<exists>p reason. v_refs v0 rid (lsr_Name now) = Some p \<and>
        td_Taint (ClassifyTag (Some p) (Some now)) = Some reason \<and>
        taint_is rid (ref_ID p) reason (ref_CurrentOID p) (lsr_OID now) e)"

definition gone_cause :: "RemoteID \<Rightarrow> bool \<Rightarrow> Ref \<Rightarrow> TaintEvent \<Rightarrow> bool" where
  "gone_cause rid taintAny p e \<longleftrightarrow>
     taintAny \<and> \<not> ref_Deleted p \<and>
     taint_is rid (ref_ID p) TaintTagDeletedRecreated (ref_CurrentOID p) zeroOID e"

text \<open>
  The state after the tags \<open>seen\<close> and the prior entries \<open>gone\<close> were handled: their rows, no
  other row, their taint events and no others, and no ledger entry when nothing changed.
\<close>

definition synced ::
  "RemoteID \<Rightarrow> int64 \<Rightarrow> bool \<Rightarrow> view \<Rightarrow> LsRemoteRef list \<Rightarrow> (string \<times> Ref) list \<Rightarrow> view \<Rightarrow> bool" where
  "synced rid ns taintAny v0 seen gone v \<longleftrightarrow>
     (\<forall>r tag. r \<noteq> rid \<or> tag \<notin> lsr_Name ` set seen \<and> tag \<notin> fst ` set gone \<longrightarrow> v_refs v r tag = v_refs v0 r tag) \<and>
     (\<forall>now \<in> set seen. seen_done rid ns v0 now v) \<and>
     (\<forall>(tag, p) \<in> set gone. tag \<notin> lsr_Name ` set seen \<longrightarrow> gone_done rid taintAny tag p v) \<and>
     set (v_taints v0) \<subseteq> set (v_taints v) \<and>
     (\<forall>e \<in> set (v_taints v). e \<in> set (v_taints v0) \<or> (\<exists>now \<in> set seen. seen_cause rid v0 now e) \<or>
        (\<exists>(tag, p) \<in> set gone. tag \<notin> lsr_Name ` set seen \<and> gone_cause rid taintAny p e)) \<and>
     ((\<forall>now \<in> set seen. td_Event (ClassifyTag (v_refs v0 rid (lsr_Name now)) (Some now)) = []) \<and>
      (\<forall>(tag, p) \<in> set gone. tag \<in> lsr_Name ` set seen \<or> ref_Deleted p) \<longrightarrow> v_log v = v_log v0)"

lemma synced_refl: "synced rid ns taintAny v [] [] v"
  by (simp add: synced_def)

text \<open>A later step for another tag keeps what was established for a tag.\<close>

lemma step_facts_other:
  assumes "step_facts rid tag r taint f t v v'"
  shows "r' \<noteq> rid \<or> tag' \<noteq> tag \<Longrightarrow> v_refs v' r' tag' = v_refs v r' tag'"
    and "e \<in> set (v_taints v) \<Longrightarrow> e \<in> set (v_taints v')"
  using assms by (auto simp: step_facts_def)

lemma seen_done_mono:
  assumes "step_facts rid tag r taint f t v v'" and "lsr_Name now \<noteq> tag" and "seen_done rid ns v0 now v"
  shows "seen_done rid ns v0 now v'"
  using assms(2,3) step_facts_other [OF assms(1)] unfolding seen_done_def Let_def by metis

lemma gone_done_mono:
  assumes "step_facts rid tag r taint f t v v'" and "tag' \<noteq> tag" and "gone_done rid taintAny tag' p v"
  shows "gone_done rid taintAny tag' p v'"
  using assms(2,3) step_facts_other [OF assms(1)] unfolding gone_done_def by metis

lemma synced_seen:
  assumes sy: "synced rid ns taintAny v0 seen [] v"
    and fresh: "lsr_Name now \<notin> lsr_Name ` set seen"
    and prior: "prior_ok rid (lsr_Name now) (v_refs v0 rid (lsr_Name now))"
    and step: "seen_step rid ns (v_refs v0 rid (lsr_Name now)) now v v'"
  shows "synced rid ns taintAny v0 (seen @ [now]) [] v'"
proof -
  let ?prev = "v_refs v0 rid (lsr_Name now)"
  from seen_step_facts [OF step prior] obtain i where i: "\<forall>p. ?prev = Some p \<longrightarrow> i = ref_ID p"
    and facts: "step_facts rid (lsr_Name now) ((seen_ref ?prev now ns rid)\<lparr>ref_ID := i\<rparr>)
      (td_Taint (ClassifyTag ?prev (Some now))) (prev_oid ?prev) (lsr_OID now) v v'"
    and log: "v_log v' = v_log v @ (if td_Event (ClassifyTag ?prev (Some now)) = [] then []
      else [(rid, i, td_Event (ClassifyTag ?prev (Some now)), oid_Raw (prev_oid ?prev), oid_Raw (lsr_OID now))])" .
  have new: "seen_done rid ns v0 now v'"
    using i facts by (auto simp: seen_done_def step_facts_def Let_def)
  have old: "seen_done rid ns v0 n v'" if "n \<in> set seen" for n
  proof (rule seen_done_mono [OF facts])
    show "lsr_Name n \<noteq> lsr_Name now" using that fresh by (metis image_eqI)
    show "seen_done rid ns v0 n v" using that sy by (simp add: synced_def)
  qed
  have cause: "e \<in> set (v_taints v) \<or> seen_cause rid v0 now e" if "e \<in> set (v_taints v')" for e
  proof -
    from that facts consider "e \<in> set (v_taints v)"
      | reason where "td_Taint (ClassifyTag ?prev (Some now)) = Some reason"
        "taint_is rid i reason (prev_oid ?prev) (lsr_OID now) e"
      by (auto simp: step_facts_def)
    then show ?thesis
    proof cases
      case 2
      from ClassifyTag_taint_Some [OF 2(1)] obtain p where "?prev = Some p" by blast
      with 2 i show ?thesis by (auto simp: seen_cause_def prev_oid_def)
    qed simp
  qed
  show ?thesis
    unfolding synced_def
  proof (intro conjI)
    show "\<forall>r tag. r \<noteq> rid \<or> tag \<notin> lsr_Name ` set (seen @ [now]) \<and> tag \<notin> fst ` set [] \<longrightarrow>
        v_refs v' r tag = v_refs v0 r tag"
      using sy step_facts_other(1) [OF facts] by (auto simp: synced_def)
    show "\<forall>n \<in> set (seen @ [now]). seen_done rid ns v0 n v'" using old new by auto
    show "set (v_taints v0) \<subseteq> set (v_taints v')"
      using sy step_facts_other(2) [OF facts] by (auto simp: synced_def)
    show "\<forall>e \<in> set (v_taints v'). e \<in> set (v_taints v0) \<or> (\<exists>n \<in> set (seen @ [now]). seen_cause rid v0 n e) \<or>
        (\<exists>(tag, p) \<in> set []. tag \<notin> lsr_Name ` set (seen @ [now]) \<and> gone_cause rid taintAny p e)"
      using sy cause by (fastforce simp: synced_def)
    show "(\<forall>n \<in> set (seen @ [now]). td_Event (ClassifyTag (v_refs v0 rid (lsr_Name n)) (Some n)) = []) \<and>
        (\<forall>(tag, p) \<in> set []. tag \<in> lsr_Name ` set (seen @ [now]) \<or> ref_Deleted p) \<longrightarrow> v_log v' = v_log v0"
      using sy log by (auto simp: synced_def)
  qed simp
qed

text \<open>An entry that is skipped: it was seen, or was deleted before.\<close>

lemma synced_skip:
  assumes sy: "synced rid ns taintAny v0 seen gone v"
    and skip: "tag \<in> lsr_Name ` set seen \<or> ref_Deleted p" and cur: "v_refs v0 rid tag = Some p"
    and fresh: "tag \<notin> fst ` set gone"
  shows "synced rid ns taintAny v0 seen (gone @ [(tag, p)]) v"
proof -
  have "gone_done rid taintAny tag p v" if "tag \<notin> lsr_Name ` set seen"
  proof -
    from sy that fresh cur have "v_refs v rid tag = Some p" by (simp add: synced_def)
    with that skip show ?thesis by (simp add: gone_done_def)
  qed
  with sy skip show ?thesis unfolding synced_def by auto
qed

lemma synced_gone:
  assumes sy: "synced rid ns taintAny v0 seen gone v"
    and unseen: "tag \<notin> lsr_Name ` set seen" and alive: "\<not> ref_Deleted p"
    and fresh: "tag \<notin> fst ` set gone" and prior: "prior_ok rid tag (Some p)"
    and step: "gone_step rid taintAny p v v'"
  shows "synced rid ns taintAny v0 seen (gone @ [(tag, p)]) v'"
proof -
  let ?taint = "if taintAny then Some TaintTagDeletedRecreated else None"
  from gone_step_facts [OF step prior] obtain n where
    facts: "step_facts rid tag (gone_ref p taintAny n) ?taint (ref_CurrentOID p) zeroOID v v'" .
  have id: "ref_ID (gone_ref p taintAny n) = ref_ID p"
    by (simp add: gone_ref_def taint_ref_def Let_def)
  have new: "gone_done rid taintAny tag p v'"
    using facts alive by (auto simp: gone_done_def step_facts_def id split: if_splits)
  have cause: "e \<in> set (v_taints v) \<or> gone_cause rid taintAny p e" if "e \<in> set (v_taints v')" for e
    using that facts alive by (auto simp: step_facts_def gone_cause_def id split: if_splits)
  show ?thesis
    unfolding synced_def
  proof (intro conjI)
    show "\<forall>r t. r \<noteq> rid \<or> t \<notin> lsr_Name ` set seen \<and> t \<notin> fst ` set (gone @ [(tag, p)]) \<longrightarrow>
        v_refs v' r t = v_refs v0 r t"
      using sy step_facts_other(1) [OF facts] by (auto simp: synced_def)
    show "\<forall>now \<in> set seen. seen_done rid ns v0 now v'"
    proof
      fix now
      assume now: "now \<in> set seen"
      with sy have "seen_done rid ns v0 now v" by (simp add: synced_def)
      moreover have "lsr_Name now \<noteq> tag" using now unseen by blast
      ultimately show "seen_done rid ns v0 now v'" by (intro seen_done_mono [OF facts])
    qed
    show "\<forall>(t, q) \<in> set (gone @ [(tag, p)]). t \<notin> lsr_Name ` set seen \<longrightarrow> gone_done rid taintAny t q v'"
    proof clarify
      fix t q
      assume tq: "(t, q) \<in> set (gone @ [(tag, p)])" and u: "t \<notin> lsr_Name ` set seen"
      show "gone_done rid taintAny t q v'"
      proof (cases "(t, q) \<in> set gone")
        case True
        with fresh have "t \<noteq> tag" by force
        moreover have "gone_done rid taintAny t q v" using True sy u by (auto simp: synced_def)
        ultimately show ?thesis by (intro gone_done_mono [OF facts])
      next
        case False
        with tq new show ?thesis by simp
      qed
    qed
    show "set (v_taints v0) \<subseteq> set (v_taints v')"
      using sy step_facts_other(2) [OF facts] by (auto simp: synced_def)
    show "\<forall>e \<in> set (v_taints v'). e \<in> set (v_taints v0) \<or> (\<exists>now \<in> set seen. seen_cause rid v0 now e) \<or>
        (\<exists>(t, q) \<in> set (gone @ [(tag, p)]). t \<notin> lsr_Name ` set seen \<and> gone_cause rid taintAny q e)"
    proof
      fix e
      assume "e \<in> set (v_taints v')"
      from cause [OF this] show "e \<in> set (v_taints v0) \<or> (\<exists>now \<in> set seen. seen_cause rid v0 now e) \<or>
        (\<exists>(t, q) \<in> set (gone @ [(tag, p)]). t \<notin> lsr_Name ` set seen \<and> gone_cause rid taintAny q e)"
      proof
        assume "e \<in> set (v_taints v)"
        with sy have "e \<in> set (v_taints v0) \<or> (\<exists>now \<in> set seen. seen_cause rid v0 now e) \<or>
          (\<exists>(t, q) \<in> set gone. t \<notin> lsr_Name ` set seen \<and> gone_cause rid taintAny q e)"
          unfolding synced_def by blast
        then show ?thesis by auto
      qed (use unseen in auto)
    qed
  qed (use alive unseen in auto)
qed

lemma priorMap_distinct: "distinct (map fst (priorMap prior))"
proof -
  have "distinct (map fst (foldl (\<lambda>m r. AList.update (ref_TagName r) r m) m prior))"
    if "distinct (map fst m)" for m
    using that by (induction prior arbitrary: m) (simp_all add: distinct_update)
  then show ?thesis by (simp add: priorMap_def)
qed

context tx_contract
begin

lemma seen_loop:
  assumes dist: "distinct (map lsr_Name lsRefs)" and ls: "\<forall>now \<in> set lsRefs. ls_ok now"
    and prior: "\<And>tag. prior_ok rid tag (v_refs v0 rid tag)" and pm: "map_of priorByName = v_refs v0 rid"
  shows "oks (\<lambda>t. inv t \<and> view_of t = v0) (forT lsRefs 0 (syncSeenTag tx rid ns syncID priorByName))
     (\<lambda>_ t. inv t \<and> synced rid ns taintAny v0 lsRefs [] (view_of t))"
proof -
  have "oks (\<lambda>t. inv t \<and> synced rid ns taintAny v0 [] [] (view_of t))
      (forT lsRefs 0 (syncSeenTag tx rid ns syncID priorByName))
      (\<lambda>_ t. inv t \<and> synced rid ns taintAny v0 lsRefs [] (view_of t))"
  proof (rule oks_for [where I = "\<lambda>ys _ t. inv t \<and> synced rid ns taintAny v0 ys [] (view_of t)"])
    fix ys now zs ch
    assume split: "lsRefs = ys @ now # zs"
    show "oks (\<lambda>t. inv t \<and> synced rid ns taintAny v0 ys [] (view_of t))
        (syncSeenTag tx rid ns syncID priorByName now ch)
        (\<lambda>_ t. inv t \<and> synced rid ns taintAny v0 (ys @ [now]) [] (view_of t))"
    proof (rule oksI)
      fix w a w'
      assume pre: "inv (w_db w) \<and> synced rid ns taintAny v0 ys [] (view_of (w_db w))"
        and run: "syncSeenTag tx rid ns syncID priorByName now ch w = (Inr a, w')"
      from split dist have fresh: "lsr_Name now \<notin> lsr_Name ` set ys" by auto
      with pre have cur: "v_refs (view_of (w_db w)) rid (lsr_Name now) = v_refs v0 rid (lsr_Name now)"
        by (simp add: synced_def)
      have "inv (w_db w') \<and> seen_step rid ns (v_refs v0 rid (lsr_Name now)) now (view_of (w_db w)) (view_of (w_db w'))"
        using pre split ls by (intro oksD [OF syncSeenTag_spec [OF prior _ _ cur] _ run]) (simp_all add: pm)
      with pre show "inv (w_db w') \<and> synced rid ns taintAny v0 (ys @ [now]) [] (view_of (w_db w'))"
        using synced_seen [OF _ fresh prior] by blast
    qed
  qed
  then show ?thesis by (rule oks_weaken) (auto simp: synced_refl)
qed

lemma gone_loop:
  assumes dist: "distinct (map fst entries)" and prior: "\<And>tag. prior_ok rid tag (v_refs v0 rid tag)"
    and entries: "\<forall>(tag, p) \<in> set entries. v_refs v0 rid tag = Some p"
    and seen: "\<And>tag. seenName tag \<longleftrightarrow> tag \<in> lsr_Name ` set lsRefs"
  shows "oks (\<lambda>t. inv t \<and> synced rid ns taintAny v0 lsRefs [] (view_of t))
     (forT entries ch (syncGoneTag tx rid syncID taintAny seenName))
     (\<lambda>_ t. inv t \<and> synced rid ns taintAny v0 lsRefs entries (view_of t))"
proof (rule oks_for [where I = "\<lambda>ys _ t. inv t \<and> synced rid ns taintAny v0 lsRefs ys (view_of t)"])
  fix ys entry zs ch
  assume split: "entries = ys @ entry # zs"
  obtain tag p where e: "entry = (tag, p)" by (cases entry)
  from split dist e have fresh: "tag \<notin> fst ` set ys" by auto
  from split entries e have cur0: "v_refs v0 rid tag = Some p" by auto
  show "oks (\<lambda>t. inv t \<and> synced rid ns taintAny v0 lsRefs ys (view_of t))
      (syncGoneTag tx rid syncID taintAny seenName entry ch)
      (\<lambda>_ t. inv t \<and> synced rid ns taintAny v0 lsRefs (ys @ [entry]) (view_of t))"
  proof (rule oksI)
    fix w :: "'t world" and a w'
    let ?v = "view_of (w_db w)"
    assume pre: "inv (w_db w) \<and> synced rid ns taintAny v0 lsRefs ys ?v"
      and run: "syncGoneTag tx rid syncID taintAny seenName entry ch w = (Inr a, w')"
    show "inv (w_db w') \<and> synced rid ns taintAny v0 lsRefs (ys @ [entry]) (view_of (w_db w'))"
    proof (cases "seenName tag \<or> ref_Deleted p")
      case True
      with run have "w' = w" by (simp add: e syncGoneTag_def)
      with pre True show ?thesis
        using synced_skip [OF _ _ cur0 fresh] by (simp add: e seen)
    next
      case False
      with pre fresh cur0 have cur: "v_refs ?v rid tag = Some p" by (simp add: synced_def seen)
      have "inv (w_db w') \<and> gone_step rid taintAny p ?v (view_of (w_db w'))"
        using oksD [OF syncGoneTag_spec [OF prior [of tag, unfolded cur0] cur] _ run [unfolded e]] pre False by simp
      with pre False show ?thesis
        using synced_gone [OF _ _ _ fresh prior [of tag, unfolded cur0], of ns taintAny v0 lsRefs ?v]
        by (simp add: e seen)
    qed
  qed
qed

text \<open>The whole transaction body: every prior tag and every listed tag is handled.\<close>

lemma syncTx_spec:
  assumes dist: "distinct (map lsr_Name lsRefs)" and ls: "\<forall>now \<in> set lsRefs. ls_ok now"
    and prior: "\<And>tag. prior_ok rid tag (v_refs v0 rid tag)"
    and pm: "map_of (priorMap priors) = v_refs v0 rid"
    and order: "\<And>xs. mset (order xs) = mset xs"
  shows "oks (\<lambda>t. inv t \<and> view_of t = v0) (syncTx order rid taintAny startNS headBefore lsRefs priors tx)
     (\<lambda>_ t. inv t \<and> (\<exists>ns. synced rid ns taintAny v0 lsRefs (order (priorMap priors)) (view_of t)))"
proof -
  let ?pm = "priorMap priors"
  have dist': "distinct (map fst (order ?pm))"
    using priorMap_distinct [of priors] order [of ?pm] by (metis mset_eq_imp_distinct_iff mset_map)
  have "set (order ?pm) = set ?pm" using order [of ?pm] by (metis set_mset_mset)
  then have entries: "\<forall>(tag, p) \<in> set (order ?pm). v_refs v0 rid tag = Some p"
    using priorMap_distinct [of priors] by (auto simp: pm [symmetric])
  show ?thesis
    unfolding syncTx_def Let_def
    apply (rule oks_bind [OF oks_NowNS [where Q = "\<lambda>_ t. inv t \<and> view_of t = v0"]], simp)
    apply (rule oks_bind [OF WriteSync], rule oks_case_prod)
    apply (rule oks_bind [OF PruneSyncs])
    apply (rule oks_bind [OF seen_loop [OF dist ls prior pm]])
    apply (rule oks_bind [OF gone_loop [OF dist' prior entries]])
    apply simp
    apply (rule oks_ret, blast)
    done
qed

end

section \<open>Invariants under arbitrary listings\<close>

text \<open>
  The second contract asks less: an invariant that the operations keep, as long as every row
  written satisfies \<open>ok_ref\<close>. It needs no assumption on what \<open>ls-remote\<close> lists: names may
  repeat and ids may be malformed.
\<close>

locale tx_invariant =
  fixes tx :: "'t Tx" and inv :: "'t \<Rightarrow> bool" and ok_ref :: "Ref \<Rightarrow> bool"
  assumes inv_UpsertRefProjection:
      "ok_ref ref \<Longrightarrow> oks inv (tx_UpsertRefProjection tx ref) (\<lambda>ref' t. ok_ref ref' \<and> inv t)"
    and inv_AppendObservation: "oks inv (tx_AppendObservation tx ob) (\<lambda>_. inv)"
    and inv_AppendTaintEvent: "oks inv (tx_AppendTaintEvent tx e) (\<lambda>_. inv)"
    and inv_WriteSync: "oks inv (tx_WriteSync tx s) (\<lambda>_. inv)"
    and inv_PruneSyncs: "oks inv (tx_PruneSyncs tx i n) (\<lambda>_. inv)"
    and ok_ref_taint: "ok_ref ref \<Longrightarrow> ok_ref (ref\<lparr>ref_Tainted := True, ref_TaintFirstNS := Some ns\<rparr>)"
begin

lemma inv_applyTaint:
  assumes "ok_ref ref"
  shows "oks inv (applyTaint tx rid ref f t reason obsID ns) (\<lambda>_. inv)"
proof -
  have "oks inv (if ref_TaintFirstNS ref = None
       then tx_UpsertRefProjection tx (ref\<lparr>ref_Tainted := True, ref_TaintFirstNS := Some ns\<rparr>) else ret ref)
      (\<lambda>_. inv)"
    by (rule oks_if)
      (auto intro: oks_ret oks_weaken [OF inv_UpsertRefProjection [OF ok_ref_taint [OF assms]]])
  then show ?thesis
    unfolding applyTaint_def by (rule oks_bind) (rule oks_bind [OF inv_AppendTaintEvent oks_ret])
qed

lemma inv_recordChange:
  assumes "ok_ref ref"
  shows "oks inv (recordChange tx rid ref ob f t taint ns ch) (\<lambda>_. inv)"
  unfolding recordChange_def Let_def
  by (rule oks_bind [OF inv_AppendObservation], rule oks_case_prod, rule oks_case_option)
    (auto intro: oks_ret oks_bind [OF inv_applyTaint [OF assms] oks_ret])

lemma inv_syncSeenTag:
  assumes "ok_ref (projectTag (map_of priorByName (lsr_Name now)) now ns rid)"
  shows "oks inv (syncSeenTag tx rid ns syncID priorByName now ch) (\<lambda>_. inv)"
  unfolding syncSeenTag_def Let_def
  by (rule oks_bind [OF inv_UpsertRefProjection [OF assms]], rule oks_pull, rule oks_if)
    (auto intro: oks_ret inv_recordChange)

lemma inv_syncGoneTag:
  assumes "\<And>ns. ok_ref ((snd entry)\<lparr>ref_Deleted := True, ref_LastSeenNS := ns\<rparr>)"
  shows "oks inv (syncGoneTag tx rid syncID taintAny seen entry ch) (\<lambda>_. inv)"
proof (cases entry)
  case (Pair tag p)
  have "oks inv (bindT (tx_UpsertRefProjection tx (p\<lparr>ref_Deleted := True, ref_LastSeenNS := ns\<rparr>)) (\<lambda>prev.
      recordChange tx rid prev (goneObservation rid prev syncID ev ns) (\<lambda>_. ref_CurrentOID prev) zeroOID taint ns ch))
      (\<lambda>_. inv)" for ns ev taint
    using assms [of ns] Pair
    by (intro oks_bind [OF inv_UpsertRefProjection] oks_pull inv_recordChange) simp_all
  then show ?thesis
    unfolding Pair syncGoneTag_def prod.case Let_def
    by (intro oks_if oks_ret oks_bind [OF oks_NowNS [where Q = "\<lambda>_. inv"]]) simp_all
qed

lemma inv_syncTx:
  assumes seen: "\<And>now ns. now \<in> set lsRefs \<Longrightarrow> ok_ref (projectTag (map_of (priorMap priors) (lsr_Name now)) now ns rid)"
    and gone: "\<And>tag p ns. (tag, p) \<in> set (order (priorMap priors)) \<Longrightarrow> ok_ref (p\<lparr>ref_Deleted := True, ref_LastSeenNS := ns\<rparr>)"
  shows "oks inv (syncTx order rid taintAny startNS headBefore lsRefs priors tx) (\<lambda>_. inv)"
proof -
  have loop1: "oks inv (forT lsRefs 0 (syncSeenTag tx rid ns syncID (priorMap priors))) (\<lambda>_. inv)" for ns syncID
    by (rule oks_for [where I = "\<lambda>_ _. inv"]) (simp add: inv_syncSeenTag seen)
  have loop2: "oks inv (forT (order (priorMap priors)) ch (syncGoneTag tx rid syncID taintAny seenName)) (\<lambda>_. inv)"
    for ch syncID seenName
    by (rule oks_for [where I = "\<lambda>_ _. inv"]) (metis in_set_conv_decomp inv_syncGoneTag gone prod.collapse)
  show ?thesis
    unfolding syncTx_def Let_def
    by (rule oks_bind [OF oks_NowNS [where Q = "\<lambda>_. inv"]], simp, rule oks_bind [OF inv_WriteSync],
        rule oks_case_prod, rule oks_bind [OF inv_PruneSyncs], rule oks_bind [OF loop1],
        rule oks_bind [OF loop2], rule oks_ret)
qed

end

end
