(* ===== verification/Sqlite_Tx.thy ===== *)
theory Sqlite_Tx
  imports Sqlite_Convert Seams
begin

text \<open>
  \<open>internal/store/sqlite/tx.go\<close>: the write transaction. Its state is the uncommitted
  database and the id of the sync row written last. \<open>WithTx\<close> hands it to a closure and commits
  or rolls back. The invariant \<open>chain_ok\<close> says that every remote's ledger is an unbroken
  hash chain from genesis to the head stored with the remote; every operation of the
  transaction keeps it, \<open>AdvanceChainHead\<close> and a careless \<open>CreateRemote\<close> apart.
\<close>

record sqliteTx =
  stx_q :: db
  stx_syncID :: SyncID

definition txq :: "(db, 'a) query \<Rightarrow> (sqliteTx, 'a) io" where [io_defs]:
  "txq q = stmt (\<lambda>t. case q (stx_q t) of Inl e \<Rightarrow> Inl e | Inr (a, d) \<Rightarrow> Inr (a, t\<lparr>stx_q := d\<rparr>))"

section \<open>Operations\<close>

definition sqliteTx_AppendObservation :: "Observation \<Rightarrow> (sqliteTx, Seq \<times> Observation) io" where
  "sqliteTx_AppendObservation ob =
     bindT (getsT stx_syncID) (\<lambda>t_syncID.
     if t_syncID = 0 \<and> obs_SyncID ob = 0
     then fail (ErrText ''store: AppendObservation called without a prior WriteSync'')
     else
     let effectiveSyncID = (if obs_SyncID ob \<noteq> 0 then obs_SyncID ob else t_syncID) in
     bindT (txq (sqlc_GetRemoteChainHead (obs_RemoteID ob))) (\<lambda>(prevHash, chainLen).
     if length prevHash \<noteq> ChainHashLen then fail (ErrText ''chain_head malformed'')
     else
     let sq = wrap64 (chainLen + 1);
         ob = ob\<lparr>obs_Seq := sq, obs_PrevHash := prevHash\<rparr>;
         ob = ob\<lparr>obs_RowHash := RowHash prevHash ob\<rparr>;
         canonicalMeta = (if obs_CanonicalMeta ob \<noteq> [] then Some (obs_CanonicalMeta ob) else None) in
     bindT (txq (sqlc_InsertObservation
        \<lparr>Pobs_RemoteID = obs_RemoteID ob, Pobs_RefID = obs_RefID ob, Pobs_SyncID = effectiveSyncID,
         Pobs_Seq = sq, Pobs_EventType = obs_EventType ob,
         Pobs_PrevOid = nullBytes (oid_Raw (obs_PrevOID ob)),
         Pobs_NewOid = nullBytes (oid_Raw (obs_NewOID ob)),
         Pobs_PrevPeeledOid = nullBytes (oid_Raw (obs_PrevPeeledOID ob)),
         Pobs_NewPeeledOid = nullBytes (oid_Raw (obs_NewPeeledOID ob)),
         Pobs_ObservedAtNs = obs_ObservedAtNS ob, Pobs_PrevHash = obs_PrevHash ob,
         Pobs_RowHash = obs_RowHash ob, Pobs_CanonicalMeta = canonicalMeta\<rparr>)) (\<lambda>i.
     let ob = ob\<lparr>obs_ID := i\<rparr>; newLen = wrap64 (chainLen + 1) in
     bindT (txq (sqlc_AdvanceRemoteChainHead (obs_RowHash ob) newLen (obs_RemoteID ob) prevHash chainLen)) (\<lambda>rows.
     if rows \<noteq> 1 then fail ErrChainCAS else ret (sq, ob)))))"

definition upsertParams :: "Ref \<Rightarrow> UpsertRefParams" where
  "upsertParams ref =
     \<lparr>Pref_RemoteID = ref_RemoteID ref, Pref_TagName = ref_TagName ref,
      Pref_CurrentOid = nullBytes (oid_Raw (ref_CurrentOID ref)),
      Pref_CurrentPeeledOid = nullBytes (oid_Raw (ref_CurrentPeeledOID ref)),
      Pref_IsAnnotated = boolToInt (ref_IsAnnotatedTag ref),
      Pref_FirstOid = nullBytes (oid_Raw (ref_FirstOID ref)), Pref_FirstSeenNs = ref_FirstSeenNS ref,
      Pref_LastSeenNs = ref_LastSeenNS ref, Pref_LastChangedNs = ref_LastChangedNS ref,
      Pref_Deleted = boolToInt (ref_Deleted ref), Pref_Tainted = boolToInt (ref_Tainted ref),
      Pref_TaintFirstNs = (case ref_TaintFirstNS ref of None \<Rightarrow> None | Some n \<Rightarrow> Some n),
      Pref_ObservationCount = ref_ObservationCount ref\<rparr>"

definition sqliteTx_UpsertRefProjection :: "Ref \<Rightarrow> (sqliteTx, Ref) io" where
  "sqliteTx_UpsertRefProjection ref =
     bindT (txq (sqlc_UpsertRef (upsertParams ref))) (\<lambda>row.
     ret (ref\<lparr>ref_ID := Rref_ID row, ref_RemoteID := Rref_RemoteID row\<rparr>))"

definition sqliteTx_WriteSync :: "Sync \<Rightarrow> (sqliteTx, SyncID \<times> Sync) io" where
  "sqliteTx_WriteSync s =
     bindT (txq (sqlc_InsertSync
        \<lparr>Psyn_RemoteID = syn_RemoteID s, Psyn_Trigger = syn_Trigger s, Psyn_StartedNs = syn_StartedNS s,
         Psyn_FinishedNs = syn_FinishedNS s, Psyn_Status = syn_Status s, Psyn_TagsSeen = syn_TagsSeen s,
         Psyn_TagsChanged = syn_TagsChanged s, Psyn_Error = syn_Error s,
         Psyn_ChainHeadBefore = nullBytes (syn_ChainHeadBefore s),
         Psyn_ChainHeadAfter = nullBytes (syn_ChainHeadAfter s)\<rparr>)) (\<lambda>i.
     bindT (modifyT (\<lambda>t. t\<lparr>stx_syncID := i\<rparr>)) (\<lambda>_.
     ret (i, s\<lparr>syn_ID := i\<rparr>)))"

definition sqliteTx_PruneSyncs :: "RemoteID \<Rightarrow> int64 \<Rightarrow> (sqliteTx, unit) io" where
  "sqliteTx_PruneSyncs remoteID keep = txq (sqlc_PruneSyncs remoteID remoteID keep remoteID)"

definition sqliteTx_AdvanceChainHead :: "RemoteID \<Rightarrow> bytes \<Rightarrow> int64 \<Rightarrow> (sqliteTx, unit) io" where
  "sqliteTx_AdvanceChainHead remoteID newHead newLen =
     txq (sqlc_AdvanceChainHead newHead newLen remoteID)"

definition createRemoteParams :: "Remote \<Rightarrow> CreateRemoteParams" where
  "createRemoteParams r =
     \<lparr>Prem_Url = rem_URL r, Prem_NormalizedUrl = rem_NormalizedURL r, Prem_Transport = rem_Transport r,
      Prem_SyncIntervalNs = rem_SyncInterval r, Prem_StalenessBudgetNs = rem_StalenessBudget r,
      Prem_TaintAnyTagDeletion = boolToInt (rem_TaintAnyTagDeletion r),
      Prem_HashAlgo = nullStringInterface (hashAlgoPtr (rem_HashAlgo r)), Prem_Status = rem_Status r,
      Prem_LastOkNs = rem_LastOkNS r, Prem_LastErr = rem_LastErr r,
      Prem_ConsecutiveFailures = rem_ConsecutiveFailures r, Prem_ChainHeadHash = rem_ChainHeadHash r,
      Prem_ChainLen = rem_ChainLen r, Prem_RemovedAtNs = nullInt64Interface (rem_RemovedAtNS r),
      Prem_CreatedAtNs = rem_CreatedAtNS r, Prem_UpdatedAtNs = rem_UpdatedAtNS r\<rparr>"

definition uniqueToConflict :: "err \<Rightarrow> err" where
  "uniqueToConflict e = (if isUniqueConflict e then ErrConflict else e)"

definition sqliteTx_CreateRemote :: "Remote \<Rightarrow> (sqliteTx, RemoteID) io" where
  "sqliteTx_CreateRemote r =
     bindT (mapErrT uniqueToConflict (txq (sqlc_CreateRemote (createRemoteParams r)))) (\<lambda>row.
     ret (Rrem_ID row))"

definition sqliteTx_CountAllRemotes :: "(sqliteTx, int64) io" where
  "sqliteTx_CountAllRemotes = txq sqlc_CountAllRemotes"

definition taintParams :: "TaintEvent \<Rightarrow> InsertTaintEventParams" where
  "taintParams e =
     \<lparr>Pte_RemoteID = te_RemoteID e, Pte_RefID = te_RefID e, Pte_Reason = te_Reason e,
      Pte_ObservationID = (case te_ObservationID e of None \<Rightarrow> None | Some i \<Rightarrow> Some i),
      Pte_FromOid = nullBytes (oid_Raw (te_FromOID e)), Pte_ToOid = nullBytes (oid_Raw (te_ToOID e)),
      Pte_DetectedAtNs = te_DetectedAtNS e, Pte_Detail = te_Detail e\<rparr>"

definition sqliteTx_AppendTaintEvent :: "TaintEvent \<Rightarrow> (sqliteTx, int64) io" where
  "sqliteTx_AppendTaintEvent e = txq (sqlc_InsertTaintEvent (taintParams e))"

definition sqliteTx_Tx :: "sqliteTx Tx" where
  "sqliteTx_Tx =
     \<lparr>tx_AppendObservation = sqliteTx_AppendObservation,
      tx_UpsertRefProjection = sqliteTx_UpsertRefProjection,
      tx_WriteSync = sqliteTx_WriteSync, tx_AdvanceChainHead = sqliteTx_AdvanceChainHead,
      tx_AppendTaintEvent = sqliteTx_AppendTaintEvent, tx_CreateRemote = sqliteTx_CreateRemote,
      tx_CountAllRemotes = sqliteTx_CountAllRemotes, tx_PruneSyncs = sqliteTx_PruneSyncs\<rparr>"

text \<open>
  \<open>BeginTx\<close> and \<open>Commit\<close> count as statements that may fail; the commit also checks the
  deferred foreign key. A rollback restores the database of the beginning, whether or not its
  own call reports an error, since an unfinished SQLite transaction is never visible.
\<close>

definition sqliteStore_WithTx :: "(sqliteTx Tx \<Rightarrow> (sqliteTx, 'r) io) \<Rightarrow> (db, 'r) io" where
  "sqliteStore_WithTx fn w =
     (case stmt (\<lambda>d. Inr ((), d)) w of
        (Inl e, w1) \<Rightarrow> (Inl e, w1)
      | (Inr _, w1) \<Rightarrow>
          (case fn sqliteTx_Tx (with_db \<lparr>stx_q = w_db w1, stx_syncID = 0\<rparr> w1) of
             (Inl fnErr, w2) \<Rightarrow> (Inl fnErr, with_db (w_db w1) w2)
           | (Inr r, w2) \<Rightarrow>
               (let d' = stx_q (w_db w2) in
                case stmt (\<lambda>_. if sync_fk_ok d' then Inr ((), d') else Inl SqlForeignKey)
                       (with_db (w_db w1) w2) of
                  (Inl e, w3) \<Rightarrow> (Inl e, w3)
                | (Inr _, w3) \<Rightarrow> (Inr r, w3))))"

end
