(* ===== verification/Sqlite_Ledger.thy ===== *)
theory Sqlite_Ledger
  imports Sqlite_Tx
begin

text \<open>
  What the SQLite transaction guarantees: \<open>WithTx\<close> is atomic; the ledger of every remote is an
  unbroken hash chain (\<open>chain_ok\<close>) and the schema's constraints hold (\<open>db_ok\<close>), before and
  after every committed transaction.
\<close>

section \<open>Transactions are atomic\<close>

lemma WithTx_Inl:
  "sqliteStore_WithTx fn w = (Inl e, w') \<Longrightarrow> w_db w' = w_db w"
  by (auto simp: sqliteStore_WithTx_def stmt_def Let_def split: prod.splits sum.splits if_splits)

lemma WithTx_Inr:
  assumes "sqliteStore_WithTx fn w = (Inr r, w')"
  obtains w1 w2 where "w_db w1 = \<lparr>stx_q = w_db w, stx_syncID = 0\<rparr>"
    and "fn sqliteTx_Tx w1 = (Inr r, w2)" and "w_db w' = stx_q (w_db w2)" and "sync_fk_ok (w_db w')"
    and "w_fault w1 = w_fault w"
proof -
  let ?w1 = "with_db \<lparr>stx_q = w_db w, stx_syncID = 0\<rparr> (w\<lparr>w_stmts := w_stmts w + 1\<rparr>)"
  from assms obtain w2 where "fn sqliteTx_Tx ?w1 = (Inr r, w2)" "w_db w' = stx_q (w_db w2)"
    "sync_fk_ok (w_db w')"
    by (auto simp: sqliteStore_WithTx_def stmt_def Let_def split: prod.splits sum.splits if_splits)
  then show thesis by (intro that [of ?w1 w2]) simp_all
qed

text \<open>What a successful body establishes, the committed database has.\<close>

lemma WithTx_oks:
  assumes "\<And>t. oks (\<lambda>t. P (stx_q t) \<and> stx_syncID t = 0) (fn sqliteTx_Tx) (\<lambda>r t. Q r (stx_q t))"
  shows "oks P (sqliteStore_WithTx fn) (\<lambda>r d. Q r d \<and> sync_fk_ok d)"
proof (rule oksI)
  fix w r w'
  assume "P (w_db w)" and run: "sqliteStore_WithTx fn w = (Inr r, w')"
  from run obtain w1 w2 where "w_db w1 = \<lparr>stx_q = w_db w, stx_syncID = 0\<rparr>"
    "fn sqliteTx_Tx w1 = (Inr r, w2)" "w_db w' = stx_q (w_db w2)" "sync_fk_ok (w_db w')"
    by (rule WithTx_Inr)
  with \<open>P (w_db w)\<close> show "Q r (w_db w') \<and> sync_fk_ok (w_db w')"
    using oksD [OF assms, of w1 r w2] by simp
qed

text \<open>An invariant that a successful body keeps is kept whatever happens.\<close>

lemma WithTx_keeps:
  assumes "oks (\<lambda>t. I (stx_q t)) (fn sqliteTx_Tx) (\<lambda>_ t. I (stx_q t))"
  shows "keeps I (sqliteStore_WithTx fn)"
proof (rule keepsI)
  fix w :: "db world"
  assume I: "I (w_db w)"
  show "I (w_db (snd (sqliteStore_WithTx fn w)))"
  proof (cases "sqliteStore_WithTx fn w")
    case (Pair r w')
    show ?thesis
    proof (cases r)
      case (Inl e)
      with Pair I show ?thesis using WithTx_Inl [of fn w e w'] by simp
    next
      case (Inr a)
      with Pair obtain w1 w2 where "w_db w1 = \<lparr>stx_q = w_db w, stx_syncID = 0\<rparr>"
        "fn sqliteTx_Tx w1 = (Inr a, w2)" "w_db w' = stx_q (w_db w2)"
        using WithTx_Inr by metis
      with Pair I show ?thesis using oksD [OF assms, of w1 a w2] by simp
    qed
  qed
qed

lemma oks_txq:
  assumes "\<And>t a d'. P t \<Longrightarrow> q (stx_q t) = Inr (a, d') \<Longrightarrow> Q a (t\<lparr>stx_q := d'\<rparr>)"
  shows "oks P (txq q) Q"
  unfolding txq_def
proof (rule oks_stmt)
  fix t a t'
  assume "P t" and "(case q (stx_q t) of Inl e \<Rightarrow> Inl e | Inr (a, d) \<Rightarrow> Inr (a, t\<lparr>stx_q := d\<rparr>)) = Inr (a, t')"
  then show "Q a t'" using assms by (auto split: sum.splits)
qed

section \<open>The hash chain\<close>

definition genesis :: bytes where
  "genesis = replicate ChainHashLen 0"

definition chain_rows :: "db \<Rightarrow> RemoteID \<Rightarrow> ObservationRow list" where
  "chain_rows d i = filter (\<lambda>r. Robs_RemoteID r = i) (t_observations d)"

text \<open>
  Walk a ledger from a head and a length: each row carries the next sequence number and the
  hash it extends, and its own hash is right. The result is the head and length it ends with.
\<close>

fun walk :: "bytes \<Rightarrow> int64 \<Rightarrow> ObservationRow list \<Rightarrow> (bytes \<times> int64) option" where
  "walk h n [] = Some (h, n)"
| "walk h n (r # rs) =
     (if Robs_Seq r = wrap64 (n + 1) \<and> Robs_PrevHash r = h \<and>
         Robs_RowHash r = RowHash h (observationFromRow r)
      then walk (Robs_RowHash r) (wrap64 (n + 1)) rs else None)"

definition remote_heads :: "db \<Rightarrow> (int64 \<times> bytes \<times> int64) list" where
  "remote_heads d = map (\<lambda>r. (Rrem_ID r, Rrem_ChainHeadHash r, Rrem_ChainLen r)) (t_remotes d)"

definition chain_ok :: "db \<Rightarrow> bool" where
  "chain_ok d \<longleftrightarrow>
     list_all (\<lambda>(i, h, n). walk genesis 0 (chain_rows d i) = Some (h, n)) (remote_heads d)"

lemma walk_append:
  "walk h n (xs @ ys) = (case walk h n xs of None \<Rightarrow> None | Some (h', n') \<Rightarrow> walk h' n' ys)"
  by (induction xs arbitrary: h n) auto

lemma chain_okI:
  "(\<And>i h n. (i, h, n) \<in> set (remote_heads d) \<Longrightarrow> walk genesis 0 (chain_rows d i) = Some (h, n)) \<Longrightarrow> chain_ok d"
  by (auto simp: chain_ok_def list_all_iff)

lemma chain_okD:
  "chain_ok d \<Longrightarrow> (i, h, n) \<in> set (remote_heads d) \<Longrightarrow> walk genesis 0 (chain_rows d i) = Some (h, n)"
  by (auto simp: chain_ok_def list_all_iff)

lemma chain_ok_cong:
  "remote_heads d' = remote_heads d \<Longrightarrow> t_observations d' = t_observations d \<Longrightarrow> chain_ok d' = chain_ok d"
  by (simp add: chain_ok_def chain_rows_def)

text \<open>Only the fields the chain commits to enter the canonical row.\<close>

lemma CanonicalRow_key: "obs_key a = obs_key b \<Longrightarrow> CanonicalRow a = CanonicalRow b"
  by (simp add: CanonicalRow_def obs_key_def)

lemma RowHash_key: "obs_key a = obs_key b \<Longrightarrow> RowHash p a = RowHash p b"
  using CanonicalRow_key by (metis RowHash_def)

text \<open>Appending one right row and moving the head of its remote keeps every chain.\<close>

lemma chain_ok_append:
  assumes ok: "chain_ok d"
    and head: "(i, h, n) \<in> set (remote_heads d)"
    and row: "Robs_RemoteID row = i" "Robs_Seq row = wrap64 (n + 1)" "Robs_PrevHash row = h"
      "Robs_RowHash row = RowHash h (observationFromRow row)"
    and d': "t_observations d' = t_observations d @ [row]"
    and heads': "remote_heads d' =
      map (\<lambda>(j, h', n'). if j = i then (j, Robs_RowHash row, wrap64 (n + 1)) else (j, h', n')) (remote_heads d)"
  shows "chain_ok d'"
proof (rule chain_okI)
  fix j h' n'
  assume "(j, h', n') \<in> set (remote_heads d')"
  then consider "j = i" "h' = Robs_RowHash row" "n' = wrap64 (n + 1)"
    | "j \<noteq> i" "(j, h', n') \<in> set (remote_heads d)"
    by (auto simp: heads' split: if_splits)
  then show "walk genesis 0 (chain_rows d' j) = Some (h', n')"
  proof cases
    case 1
    with chain_okD [OF ok head] row d' show ?thesis by (simp add: chain_rows_def walk_append)
  next
    case 2
    with chain_okD [OF ok 2(2)] row d' show ?thesis by (simp add: chain_rows_def)
  qed
qed

section \<open>AppendObservation\<close>

lemma txq_Inr:
  "txq q w = (Inr a, w') \<longleftrightarrow>
     \<not> w_fault w (w_stmts w) \<and>
     (\<exists>d. q (stx_q (w_db w)) = Inr (a, d) \<and>
          w' = w\<lparr>w_stmts := w_stmts w + 1, w_db := (w_db w)\<lparr>stx_q := d\<rparr>\<rparr>)"
  by (auto simp: txq_def stmt_def Let_def split: if_splits sum.splits)

text \<open>The row that stands for an observation in the table.\<close>

definition observation_row :: "Observation \<Rightarrow> SyncID \<Rightarrow> ObservationRow" where
  "observation_row ob sid =
     \<lparr>Robs_ID = obs_ID ob, Robs_RemoteID = obs_RemoteID ob, Robs_RefID = obs_RefID ob,
      Robs_SyncID = sid, Robs_Seq = obs_Seq ob, Robs_EventType = obs_EventType ob,
      Robs_PrevOid = nullBytes (oid_Raw (obs_PrevOID ob)), Robs_NewOid = nullBytes (oid_Raw (obs_NewOID ob)),
      Robs_PrevPeeledOid = nullBytes (oid_Raw (obs_PrevPeeledOID ob)),
      Robs_NewPeeledOid = nullBytes (oid_Raw (obs_NewPeeledOID ob)),
      Robs_ObservedAtNs = obs_ObservedAtNS ob, Robs_PrevHash = obs_PrevHash ob, Robs_RowHash = obs_RowHash ob,
      Robs_CanonicalMeta = (if obs_CanonicalMeta ob \<noteq> [] then Some (obs_CanonicalMeta ob) else None)\<rparr>"

lemma observation_row_key: "obs_key (observationFromRow (observation_row ob sid)) = obs_key ob"
  by (simp add: obs_key_def observationFromRow_def observation_row_def replayOid_oidFromCol toString_def)

text \<open>The observation as it is stored: numbered, linked to the head and hashed.\<close>

definition chained_obs :: "Observation \<Rightarrow> bytes \<Rightarrow> int64 \<Rightarrow> int64 \<Rightarrow> Observation" where
  "chained_obs ob h n i =
     (let ob = ob\<lparr>obs_Seq := wrap64 (n + 1), obs_PrevHash := h\<rparr>
      in ob\<lparr>obs_RowHash := RowHash h ob, obs_ID := i\<rparr>)"

lemma chained_obs_sel [simp]:
  "obs_RemoteID (chained_obs ob h n i) = obs_RemoteID ob" "obs_RefID (chained_obs ob h n i) = obs_RefID ob"
  "obs_EventType (chained_obs ob h n i) = obs_EventType ob" "obs_Seq (chained_obs ob h n i) = wrap64 (n + 1)"
  "obs_PrevHash (chained_obs ob h n i) = h" "obs_ID (chained_obs ob h n i) = i"
  "obs_PrevOID (chained_obs ob h n i) = obs_PrevOID ob" "obs_NewOID (chained_obs ob h n i) = obs_NewOID ob"
  by (simp_all add: chained_obs_def Let_def)

lemma observation_row_sel [simp]:
  "Robs_RemoteID (observation_row ob sid) = obs_RemoteID ob" "Robs_RefID (observation_row ob sid) = obs_RefID ob"
  "Robs_Seq (observation_row ob sid) = obs_Seq ob" "Robs_PrevHash (observation_row ob sid) = obs_PrevHash ob"
  "Robs_RowHash (observation_row ob sid) = obs_RowHash ob" "Robs_ID (observation_row ob sid) = obs_ID ob"
  "Robs_SyncID (observation_row ob sid) = sid" "Robs_EventType (observation_row ob sid) = obs_EventType ob"
  by (simp_all add: observation_row_def)

definition effective_sync :: "Observation \<Rightarrow> SyncID \<Rightarrow> SyncID" where
  "effective_sync ob sid = (if obs_SyncID ob \<noteq> 0 then obs_SyncID ob else sid)"

definition append_db :: "db \<Rightarrow> Observation \<Rightarrow> SyncID \<Rightarrow> bytes \<Rightarrow> int64 \<Rightarrow> db" where
  "append_db d ob sid h n =
     d\<lparr>t_observations := t_observations d @ [observation_row ob sid],
       seq_observations := seq_observations d + 1,
       t_remotes := update_where
         (\<lambda>r. Rrem_ID r = obs_RemoteID ob \<and> Rrem_ChainHeadHash r = h \<and> Rrem_ChainLen r = n)
         (\<lambda>r. r\<lparr>Rrem_ChainHeadHash := obs_RowHash ob, Rrem_ChainLen := wrap64 (n + 1)\<rparr>) (t_remotes d)\<rparr>"

lemma find_remote_heads:
  "find (\<lambda>r. Rrem_ID r = i) (t_remotes d) = Some r \<Longrightarrow>
   (i, Rrem_ChainHeadHash r, Rrem_ChainLen r) \<in> set (remote_heads d)"
  by (auto simp: remote_heads_def find_Some_iff intro!: image_eqI [where x = r])

definition observation_params :: "Observation \<Rightarrow> SyncID \<Rightarrow> InsertObservationParams" where
  "observation_params ob sid =
     \<lparr>Pobs_RemoteID = obs_RemoteID ob, Pobs_RefID = obs_RefID ob, Pobs_SyncID = sid,
      Pobs_Seq = obs_Seq ob, Pobs_EventType = obs_EventType ob,
      Pobs_PrevOid = nullBytes (oid_Raw (obs_PrevOID ob)), Pobs_NewOid = nullBytes (oid_Raw (obs_NewOID ob)),
      Pobs_PrevPeeledOid = nullBytes (oid_Raw (obs_PrevPeeledOID ob)),
      Pobs_NewPeeledOid = nullBytes (oid_Raw (obs_NewPeeledOID ob)),
      Pobs_ObservedAtNs = obs_ObservedAtNS ob, Pobs_PrevHash = obs_PrevHash ob, Pobs_RowHash = obs_RowHash ob,
      Pobs_CanonicalMeta = (if obs_CanonicalMeta ob \<noteq> [] then Some (obs_CanonicalMeta ob) else None)\<rparr>"

lemma InsertObservation_Inr:
  "sqlc_InsertObservation (observation_params ob sid) d = Inr (i, d') \<longleftrightarrow>
     i = seq_observations d + 1 \<and> event_type_check (obs_EventType ob) \<and>
     remote_exists d (obs_RemoteID ob) \<and> ref_exists d (obs_RefID ob) \<and>
     (\<forall>r \<in> set (t_observations d). \<not> (Robs_RemoteID r = obs_RemoteID ob \<and> Robs_Seq r = obs_Seq ob)) \<and>
     d' = d\<lparr>t_observations := t_observations d @ [observation_row (ob\<lparr>obs_ID := i\<rparr>) sid], seq_observations := i\<rparr>"
  by (auto simp: sqlc_InsertObservation_def observation_params_def observation_row_def Let_def list_ex_iff)

text \<open>The operation as its three statements on the numbered observation.\<close>

lemma AppendObservation_steps:
  "sqliteTx_AppendObservation ob =
     bindT (getsT stx_syncID) (\<lambda>sid.
     if effective_sync ob sid = 0
     then fail (ErrText ''store: AppendObservation called without a prior WriteSync'')
     else
     bindT (txq (sqlc_GetRemoteChainHead (obs_RemoteID ob))) (\<lambda>(h, n).
     if length h \<noteq> ChainHashLen then fail (ErrText ''chain_head malformed'')
     else
     bindT (txq (sqlc_InsertObservation
       (observation_params (chained_obs ob h n (obs_ID ob)) (effective_sync ob sid)))) (\<lambda>i.
     bindT (txq (sqlc_AdvanceRemoteChainHead (obs_RowHash (chained_obs ob h n i)) (wrap64 (n + 1))
              (obs_RemoteID ob) h n)) (\<lambda>rows.
     if rows \<noteq> 1 then fail ErrChainCAS else ret (wrap64 (n + 1), chained_obs ob h n i)))))"
proof -
  have cond: "effective_sync ob sid = 0 \<longleftrightarrow> sid = 0 \<and> obs_SyncID ob = 0" for sid
    by (simp add: effective_sync_def)
  show ?thesis
    unfolding cond
    unfolding sqliteTx_AppendObservation_def observation_params_def chained_obs_def effective_sync_def Let_def
    by (simp add: case_prod_unfold split del: if_split cong: if_cong)
qed

lemma AppendObservation_Inr:
  assumes run: "sqliteTx_AppendObservation ob w = (Inr (sq, ob'), w')"
    and d: "d = stx_q (w_db w)" and sid: "sid = effective_sync ob (stx_syncID (w_db w))"
  obtains h n where "(obs_RemoteID ob, h, n) \<in> set (remote_heads d)"
    and "length h = ChainHashLen" and "sq = wrap64 (n + 1)"
    and "ob' = chained_obs ob h n (seq_observations d + 1)"
    and "event_type_check (obs_EventType ob)" and "remote_exists d (obs_RemoteID ob)"
    and "ref_exists d (obs_RefID ob)"
    and "\<forall>r \<in> set (t_observations d). \<not> (Robs_RemoteID r = obs_RemoteID ob \<and> Robs_Seq r = sq)"
    and "sid \<noteq> 0"
    and "w_db w' = (w_db w)\<lparr>stx_q := append_db d ob' sid h n\<rparr>"
proof -
  from run [unfolded AppendObservation_steps]
  obtain h n w1 where nz: "sid \<noteq> 0"
    and s1: "txq (sqlc_GetRemoteChainHead (obs_RemoteID ob)) w = (Inr (h, n), w1)"
    and len: "length h = ChainHashLen"
    and r1: "bindT (txq (sqlc_InsertObservation (observation_params (chained_obs ob h n (obs_ID ob)) sid)))
       (\<lambda>i. bindT (txq (sqlc_AdvanceRemoteChainHead (obs_RowHash (chained_obs ob h n i)) (wrap64 (n + 1))
              (obs_RemoteID ob) h n)) (\<lambda>rows.
     if rows \<noteq> 1 then fail ErrChainCAS else ret (wrap64 (n + 1), chained_obs ob h n i))) w1 = (Inr (sq, ob'), w')"
    unfolding sid by (elim bindT_InrE) (simp split: if_splits prod.splits, elim bindT_InrE, force split: if_splits)
  from r1 obtain i w2 where
    s2: "txq (sqlc_InsertObservation (observation_params (chained_obs ob h n (obs_ID ob)) sid)) w1 = (Inr i, w2)"
    and s3: "txq (sqlc_AdvanceRemoteChainHead (obs_RowHash (chained_obs ob h n i)) (wrap64 (n + 1))
              (obs_RemoteID ob) h n) w2 = (Inr 1, w')"
    and res: "sq = wrap64 (n + 1)" "ob' = chained_obs ob h n i"
    by (elim bindT_InrE) (auto split: if_splits)
  from s1 d have d1: "w_db w1 = w_db w" and head: "(obs_RemoteID ob, h, n) \<in> set (remote_heads d)"
    by (auto simp: txq_Inr sqlc_GetRemoteChainHead_def read_one_Inr dest: find_remote_heads)
  from s2 d1 d obtain d2 where ins: "sqlc_InsertObservation
      (observation_params (chained_obs ob h n (obs_ID ob)) sid) d = Inr (i, d2)"
    and d2: "w_db w2 = (w_db w)\<lparr>stx_q := d2\<rparr>"
    by (auto simp: txq_Inr)
  from s3 d2 have d3: "w_db w' = (w_db w)\<lparr>stx_q := append_db d ob' sid h n\<rparr>"
    using ins [unfolded InsertObservation_Inr]
    by (auto simp: txq_Inr sqlc_AdvanceRemoteChainHead_def append_db_def res chained_obs_def Let_def)
  from ins [unfolded InsertObservation_Inr] head len nz res d3 show thesis
    by (intro that [of h n]) (simp_all add: chained_obs_def Let_def)
qed

lemma remote_heads_append_db:
  assumes ok: "chain_ok d" and head: "(obs_RemoteID ob, h, n) \<in> set (remote_heads d)"
  shows "remote_heads (append_db d ob sid h n) =
     map (\<lambda>(j, h', n'). if j = obs_RemoteID ob then (j, obs_RowHash ob, wrap64 (n + 1)) else (j, h', n'))
       (remote_heads d)"
proof -
  have "Rrem_ChainHeadHash r = h \<and> Rrem_ChainLen r = n"
    if "r \<in> set (t_remotes d)" "Rrem_ID r = obs_RemoteID ob" for r
  proof -
    from that have "(obs_RemoteID ob, Rrem_ChainHeadHash r, Rrem_ChainLen r) \<in> set (remote_heads d)"
      by (auto simp: remote_heads_def intro!: image_eqI [where x = r])
    from chain_okD [OF ok this] chain_okD [OF ok head] show ?thesis by simp
  qed
  then show ?thesis by (auto simp: append_db_def remote_heads_def update_where_def)
qed

lemma chain_ok_append_db:
  assumes "chain_ok d" and "(obs_RemoteID ob, h, n) \<in> set (remote_heads d)"
  shows "chain_ok (append_db d (chained_obs ob h n i) sid h n)"
proof (rule chain_ok_append [OF assms])
  let ?ob = "chained_obs ob h n i"
  have key: "obs_key (observationFromRow (observation_row ?ob sid)) = obs_key (ob\<lparr>obs_Seq := wrap64 (n + 1)\<rparr>)"
    unfolding observation_row_key by (simp add: obs_key_def chained_obs_def Let_def)
  show "Robs_RowHash (observation_row ?ob sid) =
        RowHash h (observationFromRow (observation_row ?ob sid))"
    unfolding RowHash_key [OF key] by (simp add: chained_obs_def observation_row_def Let_def RowHash_def CanonicalRow_def)
  show "remote_heads (append_db d ?ob sid h n) =
    map (\<lambda>(j, h', n'). if j = obs_RemoteID ob
           then (j, Robs_RowHash (observation_row ?ob sid), wrap64 (n + 1)) else (j, h', n')) (remote_heads d)"
    using remote_heads_append_db [of d ?ob h n sid] assms
    by (simp add: case_prod_unfold)
qed (simp_all add: append_db_def)

section \<open>The schema's constraints are kept\<close>

lemmas db_ok_defs = db_ok_def remotes_ok_def refs_ok_def observations_ok_def

lemma exists_cong [simp]:
  "remote_exists (d\<lparr>t_remotes := update_where P f (t_remotes d)\<rparr>) i \<longleftrightarrow> remote_exists d i"
  if "\<And>r. Rrem_ID (f r) = Rrem_ID r"
  using that by (simp add: remote_exists_def list_ex_update_where)

lemma remote_exists_simps [simp]:
  "remote_exists (t_refs_update f d) i = remote_exists d i"
  "remote_exists (t_syncs_update f' d) i = remote_exists d i"
  "remote_exists (t_observations_update f'' d) i = remote_exists d i"
  "remote_exists (t_taint_events_update f3 d) i = remote_exists d i"
  "remote_exists (t_lease_update f4 d) i = remote_exists d i"
  "remote_exists (seq_refs_update g d) i = remote_exists d i"
  "remote_exists (seq_syncs_update g d) i = remote_exists d i"
  "remote_exists (seq_remotes_update g d) i = remote_exists d i"
  "remote_exists (seq_observations_update g d) i = remote_exists d i"
  "remote_exists (seq_taint_events_update g d) i = remote_exists d i"
  by (simp_all add: remote_exists_def)

lemma ref_exists_simps [simp]:
  "ref_exists (t_remotes_update f d) i = ref_exists d i"
  "ref_exists (t_syncs_update f' d) i = ref_exists d i"
  "ref_exists (t_observations_update f'' d) i = ref_exists d i"
  "ref_exists (t_taint_events_update f3 d) i = ref_exists d i"
  "ref_exists (t_lease_update f4 d) i = ref_exists d i"
  "ref_exists (seq_refs_update g d) i = ref_exists d i"
  "ref_exists (seq_syncs_update g d) i = ref_exists d i"
  "ref_exists (seq_remotes_update g d) i = ref_exists d i"
  "ref_exists (seq_observations_update g d) i = ref_exists d i"
  "ref_exists (seq_taint_events_update g d) i = ref_exists d i"
  by (simp_all add: ref_exists_def)

lemma upsert_set_sel [simp]:
  "Rref_ID (upsert_set arg r) = Rref_ID r" "Rref_RemoteID (upsert_set arg r) = Rref_RemoteID r"
  "Rref_TagName (upsert_set arg r) = Rref_TagName r"
  "Rref_FirstOid (upsert_set arg r) = Rref_FirstOid r" "Rref_FirstSeenNs (upsert_set arg r) = Rref_FirstSeenNs r"
  by (simp_all add: upsert_set_def)

text \<open>Updates that leave ids and unique keys alone.\<close>

lemma db_ok_update_remotes:
  assumes "db_ok d" and "\<And>r. Rrem_ID (f r) = Rrem_ID r"
    and "\<And>r. Rrem_NormalizedUrl (f r) = Rrem_NormalizedUrl r"
  shows "db_ok (d\<lparr>t_remotes := update_where P f (t_remotes d)\<rparr>)"
  using assms by (simp add: db_ok_defs ids_ok_update_where map_update_where)

lemma db_ok_update_refs:
  assumes "db_ok d" and "\<And>r. Rref_ID (f r) = Rref_ID r"
    and "\<And>r. Rref_RemoteID (f r) = Rref_RemoteID r" and "\<And>r. Rref_TagName (f r) = Rref_TagName r"
  shows "db_ok (d\<lparr>t_refs := update_where P f (t_refs d)\<rparr>)"
  using assms
  by (auto simp: db_ok_defs ids_ok_update_where map_update_where set_update_where ref_exists_def
      list_ex_update_where)

lemma db_ok_UpsertRef:
  assumes ok: "db_ok d" and run: "sqlc_UpsertRef arg d = Inr (row, d')"
  shows "db_ok d'"
proof (cases "find (\<lambda>r. Rref_RemoteID r = Pref_RemoteID arg \<and> Rref_TagName r = Pref_TagName arg) (t_refs d)")
  case None
  let ?key = "\<lambda>r. (Rref_RemoteID r, Rref_TagName r)"
  from None run obtain r where d': "d' = d\<lparr>t_refs := t_refs d @ [r], seq_refs := seq_refs d + 1\<rparr>"
    and r: "Rref_ID r = seq_refs d + 1" "?key r = (Pref_RemoteID arg, Pref_TagName arg)"
    and ex: "remote_exists d (Pref_RemoteID arg)"
    by (auto simp: sqlc_UpsertRef_def Let_def split: if_splits)
  from None r(2) have "?key r \<notin> ?key ` set (t_refs d)" by (auto simp: find_None_iff)
  moreover from ok r(1) have "ids_ok Rref_ID (t_refs d @ [r]) (seq_refs d + 1)"
    by (intro ids_ok_snoc) (simp_all add: db_ok_defs)
  ultimately show ?thesis using ok ex r(2) by (auto simp: d' db_ok_defs ref_exists_def)
next
  case (Some old)
  with run have d': "d' = (d\<lparr>t_refs := update_where
      (\<lambda>r. Rref_RemoteID r = Pref_RemoteID arg \<and> Rref_TagName r = Pref_TagName arg) (upsert_set arg) (t_refs d)\<rparr>)
      \<lparr>seq_refs := seq_refs d + 1\<rparr>"
    by (auto simp: sqlc_UpsertRef_def Let_def)
  have "db_ok (e\<lparr>seq_refs := seq_refs e + 1\<rparr>)" if "db_ok e" for e
    using that by (auto simp: db_ok_defs ref_exists_def intro: ids_ok_mono)
  from this [OF db_ok_update_refs [OF ok]] show ?thesis unfolding d' by simp
qed

lemma db_ok_InsertSync: "db_ok d \<Longrightarrow> sqlc_InsertSync arg d = Inr (i, d') \<Longrightarrow> db_ok d'"
  by (auto simp: sqlc_InsertSync_def Let_def db_ok_defs intro!: ids_ok_snoc split: if_splits)

lemma db_ok_PruneSyncs: "db_ok d \<Longrightarrow> sqlc_PruneSyncs i i2 lim i3 d = Inr (u, d') \<Longrightarrow> db_ok d'"
  by (auto simp: sqlc_PruneSyncs_def db_ok_defs intro: ids_ok_filter)

lemma db_ok_InsertTaintEvent: "db_ok d \<Longrightarrow> sqlc_InsertTaintEvent arg d = Inr (i, d') \<Longrightarrow> db_ok d'"
  by (auto simp: sqlc_InsertTaintEvent_def Let_def db_ok_defs intro!: ids_ok_snoc intro: ids_ok_mono
      split: if_splits option.splits)

lemma db_ok_append_db:
  assumes ok: "db_ok d" and "remote_exists d (obs_RemoteID ob)" and "ref_exists d (obs_RefID ob)"
    and "\<forall>r \<in> set (t_observations d). \<not> (Robs_RemoteID r = obs_RemoteID ob \<and> Robs_Seq r = obs_Seq ob)"
    and "obs_ID ob = seq_observations d + 1"
  shows "db_ok (append_db d ob sid h n)"
proof -
  let ?row = "observation_row ob sid"
  let ?e = "d\<lparr>t_observations := t_observations d @ [?row], seq_observations := seq_observations d + 1\<rparr>"
  have "ids_ok Robs_ID (t_observations d @ [?row]) (seq_observations d + 1)"
    using ok assms(5) by (intro ids_ok_snoc) (simp_all add: db_ok_defs)
  then have "db_ok ?e" using ok assms(2-4) by (auto simp: db_ok_defs)
  then have "db_ok (?e\<lparr>t_remotes := update_where
      (\<lambda>r. Rrem_ID r = obs_RemoteID ob \<and> Rrem_ChainHeadHash r = h \<and> Rrem_ChainLen r = n)
      (\<lambda>r. r\<lparr>Rrem_ChainHeadHash := obs_RowHash ob, Rrem_ChainLen := wrap64 (n + 1)\<rparr>) (t_remotes ?e)\<rparr>)"
    by (rule db_ok_update_remotes) simp_all
  then show ?thesis by (simp add: append_db_def)
qed

section \<open>Every operation of the transaction keeps the ledger\<close>

definition ledger_ok :: "db \<Rightarrow> bool" where
  "ledger_ok d \<longleftrightarrow> db_ok d \<and> chain_ok d"

abbreviation tx_ledger_ok :: "sqliteTx \<Rightarrow> bool" where
  "tx_ledger_ok t \<equiv> ledger_ok (stx_q t)"

lemma remote_heads_simps [simp]:
  "remote_heads (t_refs_update f1 d) = remote_heads d"
  "remote_heads (t_syncs_update f2 d) = remote_heads d"
  "remote_heads (t_observations_update f3 d) = remote_heads d"
  "remote_heads (t_taint_events_update f4 d) = remote_heads d"
  "remote_heads (t_lease_update f5 d) = remote_heads d"
  "remote_heads (seq_refs_update g d) = remote_heads d"
  "remote_heads (seq_syncs_update g d) = remote_heads d"
  "remote_heads (seq_remotes_update g d) = remote_heads d"
  "remote_heads (seq_observations_update g d) = remote_heads d"
  "remote_heads (seq_taint_events_update g d) = remote_heads d"
  by (simp_all add: remote_heads_def)

text \<open>What the other statements leave alone.\<close>

definition same_chains :: "db \<Rightarrow> db \<Rightarrow> bool" where
  "same_chains d d' \<longleftrightarrow> remote_heads d' = remote_heads d \<and> t_observations d' = t_observations d"

lemma same_chains_ok: "same_chains d d' \<Longrightarrow> chain_ok d' = chain_ok d"
  unfolding same_chains_def by (rule chain_ok_cong) simp_all

lemma same_chains_UpsertRef: "sqlc_UpsertRef arg d = Inr (r, d') \<Longrightarrow> same_chains d d'"
  by (cases "find (\<lambda>r. Rref_RemoteID r = Pref_RemoteID arg \<and> Rref_TagName r = Pref_TagName arg) (t_refs d)")
    (auto simp: sqlc_UpsertRef_def same_chains_def Let_def split: if_splits)

lemma same_chains_InsertSync: "sqlc_InsertSync arg d = Inr (r, d') \<Longrightarrow> same_chains d d'"
  by (auto simp: sqlc_InsertSync_def same_chains_def Let_def split: if_splits)

lemma same_chains_PruneSyncs: "sqlc_PruneSyncs i i2 lim i3 d = Inr (r, d') \<Longrightarrow> same_chains d d'"
  by (auto simp: sqlc_PruneSyncs_def same_chains_def)

lemma same_chains_InsertTaintEvent: "sqlc_InsertTaintEvent arg d = Inr (r, d') \<Longrightarrow> same_chains d d'"
  by (auto simp: sqlc_InsertTaintEvent_def same_chains_def Let_def split: option.splits if_splits)

lemma ledger_AppendObservation:
  "oks tx_ledger_ok (sqliteTx_AppendObservation ob) (\<lambda>_. tx_ledger_ok)"
proof (rule oksI)
  fix w a w'
  assume ok: "tx_ledger_ok (w_db w)" and run: "sqliteTx_AppendObservation ob w = (Inr a, w')"
  obtain sq ob' where a: "a = (sq, ob')" by (cases a)
  from run [unfolded a] refl refl show "tx_ledger_ok (w_db w')"
  proof (rule AppendObservation_Inr)
    fix h n
    let ?d = "stx_q (w_db w)"
    assume head: "(obs_RemoteID ob, h, n) \<in> set (remote_heads ?d)"
      and sq: "sq = wrap64 (n + 1)"
      and ob': "ob' = chained_obs ob h n (seq_observations ?d + 1)"
      and ex: "remote_exists ?d (obs_RemoteID ob)" "ref_exists ?d (obs_RefID ob)"
      and fresh: "\<forall>r \<in> set (t_observations ?d). \<not> (Robs_RemoteID r = obs_RemoteID ob \<and> Robs_Seq r = sq)"
      and w': "w_db w' = (w_db w)\<lparr>stx_q := append_db ?d ob' (effective_sync ob (stx_syncID (w_db w))) h n\<rparr>"
    have "chain_ok (stx_q (w_db w'))"
      using ok head by (simp add: w' ob' ledger_ok_def chain_ok_append_db)
    moreover have "db_ok (stx_q (w_db w'))"
      using ok ex fresh sq by (simp add: w' ob' ledger_ok_def db_ok_append_db)
    ultimately show "tx_ledger_ok (w_db w')" by (simp add: ledger_ok_def)
  qed
qed

lemma ledger_txq:
  assumes "\<And>d a d'. q d = Inr (a, d') \<Longrightarrow> same_chains d d'"
    and "\<And>d a d'. db_ok d \<Longrightarrow> q d = Inr (a, d') \<Longrightarrow> db_ok d'"
  shows "oks tx_ledger_ok (txq q) (\<lambda>_. tx_ledger_ok)"
proof (rule oks_txq)
  fix t a d'
  assume ok: "tx_ledger_ok t" and run: "q (stx_q t) = Inr (a, d')"
  from assms(1) [OF run] have "chain_ok d' = chain_ok (stx_q t)" by (rule same_chains_ok)
  with ok assms(2) [OF _ run] show "tx_ledger_ok (t\<lparr>stx_q := d'\<rparr>)" by (simp add: ledger_ok_def)
qed

lemma ledger_UpsertRefProjection:
  "oks tx_ledger_ok (sqliteTx_UpsertRefProjection ref) (\<lambda>_. tx_ledger_ok)"
  unfolding sqliteTx_UpsertRefProjection_def
  by (rule oks_bind [OF ledger_txq [OF same_chains_UpsertRef db_ok_UpsertRef]]) (simp_all add: oks_ret)

lemma ledger_WriteSync: "oks tx_ledger_ok (sqliteTx_WriteSync s) (\<lambda>_. tx_ledger_ok)"
  unfolding sqliteTx_WriteSync_def
proof (rule oks_bind [OF ledger_txq [OF same_chains_InsertSync db_ok_InsertSync]])
  show "oks tx_ledger_ok (bindT (modifyT (stx_syncID_update (\<lambda>_. i))) (\<lambda>_. ret (i, s\<lparr>syn_ID := i\<rparr>)))
          (\<lambda>_. tx_ledger_ok)" for i
    by (rule oks_bind [OF oks_modifyT [where Q = "\<lambda>_. tx_ledger_ok"]]) (simp_all add: oks_ret)
qed

lemma ledger_PruneSyncs: "oks tx_ledger_ok (sqliteTx_PruneSyncs i keep) (\<lambda>_. tx_ledger_ok)"
  unfolding sqliteTx_PruneSyncs_def
  by (rule ledger_txq [OF same_chains_PruneSyncs db_ok_PruneSyncs])

lemma ledger_AppendTaintEvent: "oks tx_ledger_ok (sqliteTx_AppendTaintEvent e) (\<lambda>_. tx_ledger_ok)"
  unfolding sqliteTx_AppendTaintEvent_def
  by (rule ledger_txq [OF same_chains_InsertTaintEvent db_ok_InsertTaintEvent])

end
