(* ===== verification/Sqlite_Store.thy ===== *)
theory Sqlite_Store
  imports Sqlite_Ledger
begin

text \<open>
  \<open>internal/store/sqlite/store.go\<close>: the operations of the SQLite store outside a
  transaction, each one statement on the single connection (\<open>SetMaxOpenConns(1)\<close>), the lease
  statements of the lock seam, and the store as a value of the interface \<open>Store\<close>.
\<close>

definition noRowsToNotFound :: "err \<Rightarrow> err" where
  "noRowsToNotFound e = (if e = SqlErr SqlNoRows then ErrNotFound else e)"

section \<open>RemoteStore\<close>

definition sqliteStore_CreateRemote :: "Remote \<Rightarrow> (db, RemoteID) io" where
  "sqliteStore_CreateRemote r =
     bindT (mapErrT uniqueToConflict (stmt (sqlc_CreateRemote (createRemoteParams r)))) (\<lambda>row.
     ret (Rrem_ID row))"

definition sqliteStore_GetRemote :: "RemoteID \<Rightarrow> (db, Remote) io" where
  "sqliteStore_GetRemote i =
     bindT (mapErrT noRowsToNotFound (stmt (sqlc_GetRemote i))) (\<lambda>row. ret (remoteFromRow row))"

definition sqliteStore_GetRemoteByURL :: "string \<Rightarrow> (db, Remote) io" where
  "sqliteStore_GetRemoteByURL url =
     bindT (mapErrT noRowsToNotFound (stmt (sqlc_GetRemoteByURL url))) (\<lambda>row. ret (remoteFromRow row))"

text \<open>The loop that keeps the largest id as the next cursor, starting from 0.\<close>

definition maxCursor :: "('r \<Rightarrow> int64) \<Rightarrow> 'r list \<Rightarrow> int64" where
  "maxCursor f rows = foldl (\<lambda>next r. if f r > next then f r else next) 0 rows"

definition sqliteStore_ListRemotes :: "int64 \<Rightarrow> int64 \<Rightarrow> (db, Remote list \<times> int64) io" where
  "sqliteStore_ListRemotes limit cursor =
     (let limit = (if limit \<le> 0 then 100 else limit) in
      bindT (stmt (sqlc_ListRemotes cursor limit)) (\<lambda>rows.
      ret (map remoteFromRow rows, maxCursor Rrem_ID rows)))"

definition sqliteStore_CountAllRemotes :: "(db, int64) io" where
  "sqliteStore_CountAllRemotes = stmt sqlc_CountAllRemotes"

definition updateRemoteParams :: "Remote \<Rightarrow> UpdateRemoteParams" where
  "updateRemoteParams r =
     \<lparr>Urem_Url = rem_URL r, Urem_NormalizedUrl = rem_NormalizedURL r, Urem_Transport = rem_Transport r,
      Urem_SyncIntervalNs = rem_SyncInterval r, Urem_StalenessBudgetNs = rem_StalenessBudget r,
      Urem_TaintAnyTagDeletion = boolToInt (rem_TaintAnyTagDeletion r),
      Urem_HashAlgo = nullStringInterface (hashAlgoPtr (rem_HashAlgo r)), Urem_Status = rem_Status r,
      Urem_LastOkNs = rem_LastOkNS r, Urem_LastErr = rem_LastErr r,
      Urem_ConsecutiveFailures = rem_ConsecutiveFailures r, Urem_ChainHeadHash = rem_ChainHeadHash r,
      Urem_ChainLen = rem_ChainLen r, Urem_RemovedAtNs = nullInt64Interface (rem_RemovedAtNS r),
      Urem_UpdatedAtNs = rem_UpdatedAtNS r, Urem_ID = rem_ID r\<rparr>"

definition sqliteStore_UpdateRemote :: "Remote \<Rightarrow> (db, unit) io" where
  "sqliteStore_UpdateRemote r =
     bindT (mapErrT noRowsToNotFound (stmt (sqlc_UpdateRemote (updateRemoteParams r)))) (\<lambda>_. ret ())"

definition sqliteStore_SoftDeleteRemote :: "RemoteID \<Rightarrow> int64 \<Rightarrow> (db, unit) io" where
  "sqliteStore_SoftDeleteRemote i atNS = stmt (sqlc_SoftDeleteRemote atNS atNS i)"

definition sqliteStore_SelectDueRemotes :: "int64 \<Rightarrow> int64 \<Rightarrow> (db, Remote list) io" where
  "sqliteStore_SelectDueRemotes nowNs limit =
     bindT (stmt (sqlc_SelectDueRemotes nowNs limit)) (\<lambda>rows. ret (map remoteFromRow rows))"

definition sqliteStore_SetRemoteHealth :: "RemoteID \<Rightarrow> RemoteStatus \<Rightarrow> string \<Rightarrow> int64 \<Rightarrow> (db, unit) io" where
  "sqliteStore_SetRemoteHealth i status lastErr lastOkNS =
     bindT NowNS (\<lambda>now. stmt (sqlc_SetRemoteHealth status lastErr lastOkNS now i))"

section \<open>RefStore\<close>

definition sqliteStore_GetRef :: "RemoteID \<Rightarrow> string \<Rightarrow> (db, Ref) io" where
  "sqliteStore_GetRef remoteID tagName =
     bindT (mapErrT noRowsToNotFound (stmt (sqlc_GetRef remoteID tagName))) (\<lambda>row. ret (refFromRow row))"

definition sqliteStore_ListTags :: "RemoteID \<Rightarrow> (db, Ref list) io" where
  "sqliteStore_ListTags remoteID =
     bindT (stmt (sqlc_ListTags remoteID)) (\<lambda>rows. ret (map refFromRow rows))"

definition sqliteStore_SetRefTaint :: "RefID \<Rightarrow> int64 \<Rightarrow> (db, unit) io" where
  "sqliteStore_SetRefTaint refID firstNS = stmt (sqlc_SetRefTaint firstNS refID)"

section \<open>ObservationStore\<close>

definition sqliteStore_GetChainHead :: "RemoteID \<Rightarrow> (db, bytes \<times> int64) io" where
  "sqliteStore_GetChainHead remoteID = mapErrT noRowsToNotFound (stmt (sqlc_GetChainHead remoteID))"

definition sqliteStore_LatestObservationForRef :: "RefID \<Rightarrow> (db, ObservationProof) io" where
  "sqliteStore_LatestObservationForRef refID =
     bindT (mapErrT noRowsToNotFound (stmt (sqlc_LatestObservationForRef refID))) (\<lambda>(rid, sq, h).
     ret \<lparr>prf_RemoteID = rid, prf_Seq = sq, prf_RowHash = h\<rparr>)"

definition sqliteStore_ReplayObservations :: "RemoteID \<Rightarrow> Seq \<Rightarrow> int64 \<Rightarrow> (db, Observation list) io" where
  "sqliteStore_ReplayObservations remoteID fromSeq limit =
     (let limit = (if limit \<le> 0 then 1000 else limit) in
      bindT (stmt (sqlc_ReplayObservations remoteID fromSeq limit)) (\<lambda>rows.
      ret (map observationFromRow rows)))"

section \<open>TaintStore and SyncStore\<close>

definition sqliteStore_AppendTaintEvent :: "TaintEvent \<Rightarrow> (db, int64) io" where
  "sqliteStore_AppendTaintEvent e = stmt (sqlc_InsertTaintEvent (taintParams e))"

definition sqliteStore_ListTaintEvents :: "RemoteID \<Rightarrow> int64 \<Rightarrow> int64 \<Rightarrow> (db, TaintEvent list \<times> int64) io" where
  "sqliteStore_ListTaintEvents remoteID limit cursor =
     (let limit = (if limit \<le> 0 then 100 else limit) in
      bindT (stmt (sqlc_ListTaintEvents remoteID cursor limit)) (\<lambda>rows.
      ret (map taintEventFromRow rows, maxCursor Rte_ID rows)))"

definition sqliteStore_AckTaintEvent :: "int64 \<Rightarrow> string \<Rightarrow> string \<Rightarrow> int64 \<Rightarrow> (db, unit) io" where
  "sqliteStore_AckTaintEvent i acker note atNS = stmt (sqlc_AckTaintEvent atNS acker note i)"

definition sqliteStore_ListSyncs :: "RemoteID \<Rightarrow> int64 \<Rightarrow> int64 \<Rightarrow> (db, Sync list \<times> int64) io" where
  "sqliteStore_ListSyncs remoteID limit cursor =
     (let limit = (if limit \<le> 0 then 100 else limit);
          cursor = (if cursor \<le> 0 then maxInt64 else cursor) in
      bindT (stmt (sqlc_ListSyncs remoteID cursor limit)) (\<lambda>rows.
      let out = map syncFromRow rows in
      ret (out, if int (length rows) = limit \<and> length out > 0 then syn_ID (out ! (length out - 1)) else 0)))"

section \<open>Lock seam\<close>

text \<open>\<open>upsertLeaseSQL\<close> with \<open>RowsAffected\<close>: insert, or take over a lease that expired before \<open>now\<close>.\<close>

definition upsertLeaseSQL :: "RemoteID \<Rightarrow> string \<Rightarrow> int64 \<Rightarrow> int64 \<Rightarrow> int64 \<Rightarrow> (db, int64) query" where
  "upsertLeaseSQL i holder acquired expires now d =
     (let row = \<lparr>Rls_RemoteID = i, Rls_Holder = holder, Rls_AcquiredAtNs = acquired, Rls_ExpiresAtNs = expires\<rparr> in
      case find (\<lambda>l. Rls_RemoteID l = i) (t_lease d) of
        None \<Rightarrow> if \<not> remote_exists d i then Inl SqlForeignKey
                else Inr (1, d\<lparr>t_lease := t_lease d @ [row]\<rparr>)
      | Some l \<Rightarrow>
          if Rls_ExpiresAtNs l < now
          then Inr (1, d\<lparr>t_lease := update_where (\<lambda>l. Rls_RemoteID l = i) (\<lambda>_. row) (t_lease d)\<rparr>)
          else Inr (0, d))"

definition sqliteStore_TryAcquireLease ::
  "RemoteID \<Rightarrow> string \<Rightarrow> int64 \<Rightarrow> int64 \<Rightarrow> (db, bool \<times> bytes) io" where
  "sqliteStore_TryAcquireLease remoteID holder nowNs expiresNS =
     bindT (stmt (sqlc_GetRemoteChainHead remoteID)) (\<lambda>(head, _).
     bindT (stmt (upsertLeaseSQL remoteID holder nowNs expiresNS nowNs)) (\<lambda>rows.
     if rows = 0 then ret (False, []) else ret (True, head)))"

text \<open>
  The transaction of \<open>ReleaseLeaseCAS\<close>. As in \<open>WithTx\<close>, an error inside it rolls back; here the
  source writes out each rollback.
\<close>

definition releaseTx :: "RemoteID \<Rightarrow> string \<Rightarrow> bytes \<Rightarrow> bytes \<Rightarrow> int64 \<Rightarrow> (db, unit) io" where
  "releaseTx remoteID holder witness newHead newLen =
     bindT (stmt (sqlc_GetRemoteChainHead remoteID)) (\<lambda>(currentHead, chainLen).
     bindT (if bytesEqual currentHead witness then
              bindT (stmt (sqlc_AdvanceRemoteChainHead newHead newLen remoteID witness chainLen)) (\<lambda>rows.
              if rows \<noteq> 1 then fail ErrChainCAS else ret ())
            else if bytesEqual currentHead newHead then ret ()
            else fail ErrChainCAS) (\<lambda>_.
     stmt (sqlc_DeleteRemoteLease remoteID holder)))"

definition sqliteStore_ReleaseLeaseCAS :: "RemoteID \<Rightarrow> string \<Rightarrow> bytes \<Rightarrow> bytes \<Rightarrow> int64 \<Rightarrow> (db, unit) io" where
  "sqliteStore_ReleaseLeaseCAS remoteID holder witness newHead newLen w =
     (case stmt (\<lambda>d. Inr ((), d)) w of
        (Inl e, w1) \<Rightarrow> (Inl e, w1)
      | (Inr _, w1) \<Rightarrow>
          (case releaseTx remoteID holder witness newHead newLen w1 of
             (Inl e, w2) \<Rightarrow> (Inl e, w2\<lparr>w_db := w_db w1\<rparr>)
           | (Inr _, w2) \<Rightarrow>
               (case stmt (\<lambda>d. Inr ((), d)) w2 of
                  (Inl e, w3) \<Rightarrow> (Inl e, w3\<lparr>w_db := w_db w1\<rparr>)
                | (Inr _, w3) \<Rightarrow> (Inr (), w3))))"

section \<open>The store as an interface value\<close>

definition sqliteStore :: "(db, sqliteTx, 'r) Store" where
  "sqliteStore =
     \<lparr>st_CreateRemote = sqliteStore_CreateRemote, st_GetRemote = sqliteStore_GetRemote,
      st_GetRemoteByURL = sqliteStore_GetRemoteByURL, st_ListRemotes = sqliteStore_ListRemotes,
      st_CountAllRemotes = sqliteStore_CountAllRemotes, st_UpdateRemote = sqliteStore_UpdateRemote,
      st_SoftDeleteRemote = sqliteStore_SoftDeleteRemote, st_SelectDueRemotes = sqliteStore_SelectDueRemotes,
      st_SetRemoteHealth = sqliteStore_SetRemoteHealth, st_GetRef = sqliteStore_GetRef,
      st_ListTags = sqliteStore_ListTags, st_SetRefTaint = sqliteStore_SetRefTaint,
      st_GetChainHead = sqliteStore_GetChainHead, st_ReplayObservations = sqliteStore_ReplayObservations,
      st_LatestObservationForRef = sqliteStore_LatestObservationForRef,
      st_AppendTaintEvent = sqliteStore_AppendTaintEvent, st_ListTaintEvents = sqliteStore_ListTaintEvents,
      st_AckTaintEvent = sqliteStore_AckTaintEvent, st_ListSyncs = sqliteStore_ListSyncs,
      st_TryAcquireLease = sqliteStore_TryAcquireLease, st_ReleaseLeaseCAS = sqliteStore_ReleaseLeaseCAS,
      st_WithTx = sqliteStore_WithTx\<rparr>"

end
