(* ===== verification/Lock.thy ===== *)
theory Lock
  imports Sqlite_Store
begin

text \<open>
  \<open>internal/lock/dblease.go\<close>: the database-backed lease. \<open>NewDBLease\<close> wraps the lease part of a
  store; the clock gives the acquisition time.
\<close>

definition dbLease_AcquireRemoteLease ::
  "('d, 't, 'r) Store \<Rightarrow> RemoteID \<Rightarrow> string \<Rightarrow> Duration \<Rightarrow> ('d, Lease) io" where
  "dbLease_AcquireRemoteLease s remoteID holder ttl =
     bindT NowNS (\<lambda>now.
     let expires = wrap64 (now + ttl) in
     bindT (st_TryAcquireLease s remoteID holder now expires) (\<lambda>(ok, head).
     if \<not> ok then fail ErrLeaseHeld
     else ret \<lparr>lse_RemoteID = remoteID, lse_Holder = holder, lse_AcquiredAtNS = now,
               lse_ExpiresAtNS = expires, lse_ChainHeadAtLease = head\<rparr>))"

definition dbLease_Release :: "('d, 't, 'r) Store \<Rightarrow> Lease option \<Rightarrow> bytes \<Rightarrow> int64 \<Rightarrow> ('d, unit) io" where
  "dbLease_Release s lease newChainHead newChainLen =
     (case lease of
        None \<Rightarrow> fail (ErrText ''lock: nil lease'')
      | Some lease \<Rightarrow>
          st_ReleaseLeaseCAS s (lse_RemoteID lease) (lse_Holder lease) (lse_ChainHeadAtLease lease)
            newChainHead newChainLen)"

definition NewDBLease :: "('d, 't, 'r) Store \<Rightarrow> 'd Lock" where
  "NewDBLease s = \<lparr>lk_AcquireRemoteLease = dbLease_AcquireRemoteLease s, lk_Release = dbLease_Release s\<rparr>"

text \<open>The lock the server builds over the SQLite store.\<close>

abbreviation leaseStore :: "(db, sqliteTx, unit) Store" where
  "leaseStore \<equiv> sqliteStore"

definition sqliteLock :: "db Lock" where
  "sqliteLock = NewDBLease leaseStore"

end
