(* ===== verification/Sync_Sqlite.thy ===== *)
theory Sync_Sqlite
  imports Sync_Contract Lock
begin

text \<open>
  The SQLite transaction fulfils the two contracts of \<open>Sync_Contract\<close>, so a sync over the
  SQLite store does what the specification \<open>synced\<close> says. This theory holds the
  interpretations and what follows for \<open>SyncRemote\<close> on the real store and lock.
\<close>

section \<open>The view of a SQLite transaction\<close>

definition ref_at :: "db \<Rightarrow> RemoteID \<Rightarrow> string \<Rightarrow> RefRow option" where
  "ref_at d rid tag = find (\<lambda>r. Rref_RemoteID r = rid \<and> Rref_TagName r = tag) (t_refs d)"

definition row_entry :: "ObservationRow \<Rightarrow> entry" where
  "row_entry r = (Robs_RemoteID r, Robs_RefID r, Robs_EventType r, toBytes (Robs_PrevOid r), toBytes (Robs_NewOid r))"

definition db_view :: "db \<Rightarrow> view" where
  "db_view d = \<lparr>v_refs = (\<lambda>rid tag. map_option refFromRow (ref_at d rid tag)),
     v_taints = map taintEventFromRow (t_taint_events d), v_log = map row_entry (t_observations d)\<rparr>"

lemma ref_at_cong: "t_refs d' = t_refs d \<Longrightarrow> ref_at d' = ref_at d"
  by (intro ext) (simp add: ref_at_def)

lemma db_view_cong:
  "t_refs d' = t_refs d \<Longrightarrow> t_taint_events d' = t_taint_events d \<Longrightarrow> t_observations d' = t_observations d \<Longrightarrow>
   db_view d' = db_view d"
  by (simp add: db_view_def ref_at_def)

lemma ref_at_key: "ref_at d rid tag = Some r \<Longrightarrow> Rref_RemoteID r = rid \<and> Rref_TagName r = tag"
  by (auto simp: ref_at_def find_Some_iff)

lemma toBytes_nullBytes [simp]: "toBytes (nullBytes b) = b"
  by (simp add: toBytes_def nullBytes_def)

lemma row_entry_observation_row: "row_entry (observation_row ob sid) = obs_entry ob"
  by (simp add: row_entry_def observation_row_def obs_entry_def)

lemma case_option_id [simp]: "(case x of None \<Rightarrow> None | Some n \<Rightarrow> Some n) = x"
  by (cases x) simp_all

lemmas refFromRow_simp = refFromRow_def [unfolded case_option_toInt64]

lemmas upsertParams_simp = upsertParams_def [unfolded case_option_id]

lemma refFromRow_sel [simp]:
  "ref_ID (refFromRow r) = Rref_ID r" "ref_RemoteID (refFromRow r) = Rref_RemoteID r"
  "ref_TagName (refFromRow r) = Rref_TagName r" "ref_FirstSeenNS (refFromRow r) = Rref_FirstSeenNs r"
  "ref_Tainted (refFromRow r) \<longleftrightarrow> Rref_Tainted r \<noteq> 0" "ref_Deleted (refFromRow r) \<longleftrightarrow> Rref_Deleted r \<noteq> 0"
  "ref_CurrentOID (refFromRow r) = oidFromCol (Rref_CurrentOid r)"
  by (simp_all add: refFromRow_def)

lemma refFromRow_upsert_set:
  assumes "ref_storable ref"
  shows "refFromRow (upsert_set (upsertParams ref) old) =
    ref\<lparr>ref_ID := Rref_ID old, ref_RemoteID := Rref_RemoteID old, ref_TagName := Rref_TagName old,
        ref_FirstOID := ref_FirstOID (refFromRow old), ref_FirstSeenNS := Rref_FirstSeenNs old\<rparr>"
  using assms
  by (cases ref) (simp add: refFromRow_simp upsert_set_def upsertParams_simp ref_storable_def)

lemma find_snoc: "find P (xs @ [x]) = (case find P xs of None \<Rightarrow> if P x then Some x else None | Some y \<Rightarrow> Some y)"
  by (induction xs) auto

text \<open>The upsert on the table is the upsert on the view.\<close>

lemma UpsertRef_view:
  assumes st: "ref_storable ref" and run: "sqlc_UpsertRef (upsertParams ref) d = Inr (row, d')"
  shows "upserted (db_view d) ref (ref\<lparr>ref_ID := Rref_ID row, ref_RemoteID := Rref_RemoteID row\<rparr>) (db_view d')"
proof (cases "ref_at d (ref_RemoteID ref) (ref_TagName ref)")
  case None
  let ?row = "\<lparr>Rref_ID = seq_refs d + 1, Rref_RemoteID = ref_RemoteID ref, Rref_TagName = ref_TagName ref,
      Rref_CurrentOid = nullBytes (oid_Raw (ref_CurrentOID ref)),
      Rref_CurrentPeeledOid = nullBytes (oid_Raw (ref_CurrentPeeledOID ref)),
      Rref_IsAnnotated = boolToInt (ref_IsAnnotatedTag ref),
      Rref_FirstOid = nullBytes (oid_Raw (ref_FirstOID ref)), Rref_FirstSeenNs = ref_FirstSeenNS ref,
      Rref_LastSeenNs = ref_LastSeenNS ref, Rref_LastChangedNs = ref_LastChangedNS ref,
      Rref_Deleted = boolToInt (ref_Deleted ref), Rref_Tainted = boolToInt (ref_Tainted ref),
      Rref_TaintFirstNs = ref_TaintFirstNS ref, Rref_ObservationCount = ref_ObservationCount ref\<rparr>"
  from None run have row: "row = ?row" and d': "d' = d\<lparr>t_refs := t_refs d @ [?row], seq_refs := seq_refs d + 1\<rparr>"
    by (auto simp: sqlc_UpsertRef_def ref_at_def upsertParams_simp Let_def split: if_splits option.splits)
  have conv: "refFromRow ?row = ref\<lparr>ref_ID := seq_refs d + 1\<rparr>"
    using st by (cases ref) (simp add: refFromRow_simp ref_storable_def)
  have "ref_at d' = (ref_at d)(ref_RemoteID ref := (ref_at d (ref_RemoteID ref))(ref_TagName ref := Some ?row))"
    using None by (intro ext) (auto simp: d' ref_at_def find_snoc split: option.splits)
  then have "db_view d' = put_ref (db_view d) (ref_RemoteID ref) (ref_TagName ref) (ref\<lparr>ref_ID := seq_refs d + 1\<rparr>)"
    by (auto simp: db_view_def put_ref_def conv d' fun_eq_iff)
  with None show ?thesis
    by (auto simp: upserted_def merge_ref_def row Let_def db_view_def intro!: exI [of _ "seq_refs d + 1"])
next
  case (Some old)
  let ?P = "\<lambda>r. Rref_RemoteID r = ref_RemoteID ref \<and> Rref_TagName r = ref_TagName ref"
  let ?new = "upsert_set (upsertParams ref) old"
  from Some have old: "Rref_RemoteID old = ref_RemoteID ref" "Rref_TagName old = ref_TagName ref"
    by (auto dest: ref_at_key)
  from Some run have row: "row = ?new"
    and d': "d' = d\<lparr>t_refs := update_where ?P (upsert_set (upsertParams ref)) (t_refs d), seq_refs := seq_refs d + 1\<rparr>"
    by (auto simp: sqlc_UpsertRef_def ref_at_def upsertParams_simp Let_def)
  have "ref_at d' = (ref_at d)(ref_RemoteID ref := (ref_at d (ref_RemoteID ref))(ref_TagName ref := Some ?new))"
  proof (intro ext)
    fix r t
    have "ref_at d' r t = map_option (\<lambda>x. if ?P x then upsert_set (upsertParams ref) x else x) (ref_at d r t)"
      by (simp add: d' ref_at_def find_update_where_other)
    then show "ref_at d' r t =
        ((ref_at d)(ref_RemoteID ref := (ref_at d (ref_RemoteID ref))(ref_TagName ref := Some ?new))) r t"
      using Some old by (cases "ref_at d r t") (auto dest: ref_at_key)
  qed
  moreover have "merge_ref (Some (refFromRow old)) ref i = refFromRow ?new" for i
    unfolding refFromRow_upsert_set [OF st] using old by (cases ref) (simp add: merge_ref_def)
  ultimately have "db_view d' = put_ref (db_view d) (ref_RemoteID ref) (ref_TagName ref)
      (merge_ref (Some (refFromRow old)) ref 0)"
    by (auto simp: db_view_def put_ref_def d' fun_eq_iff)
  with Some old show ?thesis
    by (auto simp: upserted_def row Let_def db_view_def merge_ref_def intro!: exI [of _ 0])
qed

lemma AppendObservation_view:
  "oks (\<lambda>t. db_view (stx_q t) = v) (sqliteTx_AppendObservation ob)
     (\<lambda>(_, ob') t. obs_entry ob' = obs_entry ob \<and> obs_PrevOID ob' = obs_PrevOID ob \<and>
        db_view (stx_q t) = v\<lparr>v_log := v_log v @ [obs_entry ob]\<rparr>)"
proof (rule oksI)
  fix w a w'
  assume v: "db_view (stx_q (w_db w)) = v" and run: "sqliteTx_AppendObservation ob w = (Inr a, w')"
  obtain sq ob' where a: "a = (sq, ob')" by (cases a)
  let ?d = "stx_q (w_db w)" and ?sid = "effective_sync ob (stx_syncID (w_db w))"
  from run [unfolded a] refl refl obtain h n where
    ob': "ob' = chained_obs ob h n (seq_observations ?d + 1)"
    and w': "w_db w' = (w_db w)\<lparr>stx_q := append_db ?d ob' ?sid h n\<rparr>"
    by (rule AppendObservation_Inr)
  have entry: "obs_entry ob' = obs_entry ob" by (simp add: ob' obs_entry_def)
  have "ref_at (append_db ?d ob' ?sid h n) = ref_at ?d"
    by (rule ref_at_cong) (simp add: append_db_def)
  then have "db_view (stx_q (w_db w')) = v\<lparr>v_log := v_log v @ [obs_entry ob]\<rparr>"
    by (simp add: w' v [symmetric] db_view_def) (simp add: append_db_def row_entry_observation_row entry)
  with entry show "(case a of (_, ob') \<Rightarrow> \<lambda>t. obs_entry ob' = obs_entry ob \<and> obs_PrevOID ob' = obs_PrevOID ob \<and>
      db_view (stx_q t) = v\<lparr>v_log := v_log v @ [obs_entry ob]\<rparr>) (w_db w')"
    by (simp add: a ob')
qed

lemma nullBytes_eq_Some: "nullBytes b = Some c \<Longrightarrow> c = b"
  by (simp add: nullBytes_def split: if_splits)

definition taintCol :: "bytes option \<Rightarrow> OID" where
  "taintCol v = (case v of None \<Rightarrow> zeroOID | Some _ \<Rightarrow> OIDFromRaw (toBytes v))"

lemma taintEventFromRow_sel [simp]:
  "te_RemoteID (taintEventFromRow r) = Rte_RemoteID r" "te_RefID (taintEventFromRow r) = Rte_RefID r"
  "te_Reason (taintEventFromRow r) = Rte_Reason r" "te_FromOID (taintEventFromRow r) = taintCol (Rte_FromOid r)"
  "te_ToOID (taintEventFromRow r) = taintCol (Rte_ToOid r)"
  by (simp_all add: taintEventFromRow_def taintCol_def)

lemma taintCol_roundtrip [simp]: "oid_storable o1 \<Longrightarrow> taintCol (nullBytes (oid_Raw o1)) = o1"
  by (auto simp: oid_storable_def taintCol_def nullBytes_def toBytes_def zeroOID_def)

lemma InsertTaintEvent_view:
  assumes run: "sqlc_InsertTaintEvent (taintParams e) d = Inr (i, d')"
    and st: "oid_storable (te_FromOID e)" "oid_storable (te_ToOID e)"
  shows "taint_added (db_view d) e (db_view d')"
proof (cases "find (taint_conflict (taintParams e)) (t_taint_events d)")
  case None
  let ?row = "\<lparr>Rte_ID = seq_taint_events d + 1, Rte_RemoteID = te_RemoteID e, Rte_RefID = te_RefID e,
      Rte_Reason = te_Reason e, Rte_ObservationID = te_ObservationID e,
      Rte_FromOid = nullBytes (oid_Raw (te_FromOID e)), Rte_ToOid = nullBytes (oid_Raw (te_ToOID e)),
      Rte_DetectedAtNs = te_DetectedAtNS e, Rte_AckedAtNs = None, Rte_AckedBy = None, Rte_AckNote = None,
      Rte_Detail = te_Detail e\<rparr>"
  from None run have d': "d' = d\<lparr>t_taint_events := t_taint_events d @ [?row], seq_taint_events := seq_taint_events d + 1\<rparr>"
    by (auto simp: sqlc_InsertTaintEvent_def taintParams_def [unfolded case_option_id] Let_def split: if_splits)
  have "same_taint e (taintEventFromRow ?row)"
    using st by (simp add: same_taint_def)
  then show ?thesis
    by (auto simp: taint_added_def d' db_view_def ref_at_def intro!: exI [of _ "taintEventFromRow ?row"])
next
  case (Some old)
  from Some run have d': "d' = d\<lparr>seq_taint_events := seq_taint_events d + 1\<rparr>"
    by (auto simp: sqlc_InsertTaintEvent_def split: if_splits)
  from Some have old: "old \<in> set (t_taint_events d)" "taint_conflict (taintParams e) old"
    by (auto simp: find_Some_iff)
  from old(2) have "same_taint e (taintEventFromRow old)"
    using st by (auto simp: taint_conflict_def taintParams_def same_taint_def)
  with old(1) show ?thesis
    by (auto simp: taint_added_def d' db_view_def ref_at_def intro!: exI [of _ "taintEventFromRow old"])
qed

lemma sync_rows_view:
  "sqlc_InsertSync arg d = Inr (i, d') \<Longrightarrow> db_view d' = db_view d"
  "sqlc_PruneSyncs j j2 lim j3 d = Inr (u, d') \<Longrightarrow> db_view d' = db_view d"
  by (auto simp: sqlc_InsertSync_def sqlc_PruneSyncs_def Let_def intro!: db_view_cong split: if_splits)

lemma sqliteTx_Tx_sel [simp]:
  "tx_AppendObservation sqliteTx_Tx = sqliteTx_AppendObservation"
  "tx_UpsertRefProjection sqliteTx_Tx = sqliteTx_UpsertRefProjection"
  "tx_WriteSync sqliteTx_Tx = sqliteTx_WriteSync" "tx_PruneSyncs sqliteTx_Tx = sqliteTx_PruneSyncs"
  "tx_AppendTaintEvent sqliteTx_Tx = sqliteTx_AppendTaintEvent"
  by (simp_all add: sqliteTx_Tx_def)

lemma oks_inv_view:
  assumes "oks I m (\<lambda>_. I)" and "oks (\<lambda>t. f t = v) m Q"
  shows "oks (\<lambda>t. I t \<and> f t = v) m (\<lambda>a t. I t \<and> Q a t)"
  by (rule oks_conj) (rule oks_weaken [OF assms(1)] oks_weaken [OF assms(2)], simp_all)+

section \<open>The contracts are fulfilled\<close>

interpretation sqlite: tx_contract sqliteTx_Tx tx_ledger_ok "\<lambda>t. db_view (stx_q t)"
proof
  fix ref :: Ref and v
  assume st: "ref_storable ref"
  have "oks (\<lambda>t. db_view (stx_q t) = v) (sqliteTx_UpsertRefProjection ref)
      (\<lambda>ref' t. upserted v ref ref' (db_view (stx_q t)))"
    unfolding sqliteTx_UpsertRefProjection_def
    by (rule oks_bind [where R = "\<lambda>row t. upserted v ref
        (ref\<lparr>ref_ID := Rref_ID row, ref_RemoteID := Rref_RemoteID row\<rparr>) (db_view (stx_q t))"])
      (use UpsertRef_view [OF st] in \<open>auto intro!: oks_txq oks_ret\<close>)
  from oks_inv_view [OF ledger_UpsertRefProjection this]
  show "oks (\<lambda>t. tx_ledger_ok t \<and> db_view (stx_q t) = v) (tx_UpsertRefProjection sqliteTx_Tx ref)
      (\<lambda>ref' t. tx_ledger_ok t \<and> upserted v ref ref' (db_view (stx_q t)))" by simp
next
  fix v ob
  from oks_inv_view [OF ledger_AppendObservation AppendObservation_view]
  show "oks (\<lambda>t. tx_ledger_ok t \<and> db_view (stx_q t) = v) (tx_AppendObservation sqliteTx_Tx ob)
      (\<lambda>(_, ob') t. tx_ledger_ok t \<and> obs_entry ob' = obs_entry ob \<and> obs_PrevOID ob' = obs_PrevOID ob \<and>
         db_view (stx_q t) = v\<lparr>v_log := v_log v @ [obs_entry ob]\<rparr>)"
    by (simp add: case_prod_unfold)
next
  fix e :: TaintEvent and v
  assume st: "oid_storable (te_FromOID e)" "oid_storable (te_ToOID e)"
  have "oks (\<lambda>t. db_view (stx_q t) = v) (sqliteTx_AppendTaintEvent e) (\<lambda>_ t. taint_added v e (db_view (stx_q t)))"
    unfolding sqliteTx_AppendTaintEvent_def
    by (rule oks_txq) (use InsertTaintEvent_view [OF _ st] in auto)
  from oks_inv_view [OF ledger_AppendTaintEvent this]
  show "oks (\<lambda>t. tx_ledger_ok t \<and> db_view (stx_q t) = v) (tx_AppendTaintEvent sqliteTx_Tx e)
      (\<lambda>_ t. tx_ledger_ok t \<and> taint_added v e (db_view (stx_q t)))" by simp
next
  fix v s
  have "oks (\<lambda>t. db_view (stx_q t) = v) (sqliteTx_WriteSync s) (\<lambda>_ t. db_view (stx_q t) = v)"
    unfolding sqliteTx_WriteSync_def
    by (rule oks_bind [OF oks_txq [where Q = "\<lambda>_ t. db_view (stx_q t) = v"]
          oks_bind [OF oks_modifyT [where Q = "\<lambda>_ t. db_view (stx_q t) = v"] oks_ret]])
      (auto dest: sync_rows_view)
  from oks_inv_view [OF ledger_WriteSync this]
  show "oks (\<lambda>t. tx_ledger_ok t \<and> db_view (stx_q t) = v) (tx_WriteSync sqliteTx_Tx s)
      (\<lambda>_ t. tx_ledger_ok t \<and> db_view (stx_q t) = v)" by simp
next
  fix v i n
  have "oks (\<lambda>t. db_view (stx_q t) = v) (sqliteTx_PruneSyncs i n) (\<lambda>_ t. db_view (stx_q t) = v)"
    unfolding sqliteTx_PruneSyncs_def by (rule oks_txq) (auto dest: sync_rows_view)
  from oks_inv_view [OF ledger_PruneSyncs this]
  show "oks (\<lambda>t. tx_ledger_ok t \<and> db_view (stx_q t) = v) (tx_PruneSyncs sqliteTx_Tx i n)
      (\<lambda>_ t. tx_ledger_ok t \<and> db_view (stx_q t) = v)" by simp
qed

interpretation sqlite_ledger: tx_invariant sqliteTx_Tx tx_ledger_ok "\<lambda>_. True"
  by unfold_locales
    (simp_all add: ledger_UpsertRefProjection ledger_AppendObservation ledger_AppendTaintEvent
      ledger_WriteSync ledger_PruneSyncs)

end
