(* ===== verification/Git_LsRemote.thy ===== *)
theory Git_LsRemote
  imports Seams
begin

text \<open>
  \<open>internal/git\<close>: the hardened argument vector and environment of the git process
  (\<open>runner.go\<close>) and the parser of its output (\<open>lsremote.go\<close>). The git binary itself is the
  parameter \<open>proc\<close>: a function from the reading of the clock, the arguments and the
  environment to the bytes on standard output or an error.

  \<open>bufio.Scanner\<close> with its line splitter is modelled by \<open>scanLines\<close>: lines end at a newline, one
  carriage return before it is dropped, a last line without newline counts, and a line of at
  least the buffer size ends the scan with an error after the lines before it.
\<close>

section \<open>Scanning lines\<close>

definition prefixTags :: string where
  "prefixTags = ''refs/tags/''"

definition peeledSfx :: string where
  "peeledSfx = ''^{}''"

definition maxTokenSize :: nat where
  "maxTokenSize = 4 * 1024 * 1024"

text \<open>The raw lines of the input, without their newlines; nothing after a final newline.\<close>

definition rawLines :: "string \<Rightarrow> string list" where
  "rawLines out = (let ls = SplitByte (CHR 0x0A) out in if last ls = [] then butlast ls else ls)"

definition dropCR :: "string \<Rightarrow> string" where
  "dropCR l = (if l \<noteq> [] \<and> last l = CHR 0x0D then butlast l else l)"

text \<open>The tokens before the first line that is too long, and whether there is such a line.\<close>

definition scanLines :: "string \<Rightarrow> string list \<times> bool" where
  "scanLines out =
     (let ls = rawLines out in
      (map dropCR (takeWhile (\<lambda>l. length l < maxTokenSize) ls), list_ex (\<lambda>l. \<not> length l < maxTokenSize) ls))"

section \<open>lsremote.go\<close>

text \<open>
  The state of the parsing loop: the refs so far and the name of the tag the next peeled line
  may attach to. The source keeps the index of that tag, which is always the last one.
\<close>

type_synonym lsState = "LsRemoteRef list \<times> int64 \<times> string"

definition setPeeled :: "OID \<Rightarrow> LsRemoteRef \<Rightarrow> LsRemoteRef" where
  "setPeeled peeled r = r\<lparr>lsr_PeeledOID := peeled, lsr_IsAnnotatedTag := True\<rparr>"

definition parseLine :: "HashAlgo \<Rightarrow> string \<Rightarrow> lsState \<Rightarrow> err + lsState" where
  "parseLine algo line st =
     (case st of (refs, lastTagIdx, lastTagName) \<Rightarrow>
      if line = [] then Inr st
      else case IndexByte line (CHR 0x09) of
        None \<Rightarrow> Inl (ErrText ''ls-remote: malformed line (no tab)'')
      | Some tab \<Rightarrow>
          let oidHex = take tab line; fullRef = drop (tab + 1) line in
          if HasSuffix fullRef peeledSfx then
            let base = TrimSuffix fullRef peeledSfx in
            if \<not> HasPrefix base prefixTags then Inr st
            else
              let name = drop (length prefixTags) base in
              if lastTagIdx < 0 \<or> lastTagName \<noteq> name
              then Inl (ErrText ''ls-remote: dangling peeled line'')
              else case ParseOID oidHex algo of
                Inl e \<Rightarrow> Inl e
              | Inr peeled \<Rightarrow> Inr (refs[nat lastTagIdx := setPeeled peeled (refs ! nat lastTagIdx)], lastTagIdx, lastTagName)
          else if \<not> HasPrefix fullRef prefixTags then Inr st
          else
            let name = drop (length prefixTags) fullRef in
            case ParseOID oidHex algo of
              Inl e \<Rightarrow> Inl e
            | Inr oid \<Rightarrow>
                let refs = refs @ [\<lparr>lsr_Name = name, lsr_OID = oid, lsr_PeeledOID = zeroOID, lsr_IsAnnotatedTag = False\<rparr>]
                in Inr (refs, int (length refs) - 1, name))"

fun parseLines :: "HashAlgo \<Rightarrow> string list \<Rightarrow> lsState \<Rightarrow> err + lsState" where
  "parseLines algo [] st = Inr st"
| "parseLines algo (l # ls) st = (case parseLine algo l st of Inl e \<Rightarrow> Inl e | Inr st' \<Rightarrow> parseLines algo ls st')"

definition ParseLsRemote :: "string \<Rightarrow> HashAlgo \<Rightarrow> err + LsRemoteRef list" where
  "ParseLsRemote out algo =
     (if \<not> HashAlgo_Valid algo then Inl ErrBadOID
      else case scanLines out of (ls, tooLong) \<Rightarrow>
        (case parseLines algo ls ([], -1, []) of
           Inl e \<Rightarrow> Inl e
         | Inr (refs, _, _) \<Rightarrow> if tooLong then Inl (ErrText ''ls-remote: scan'') else Inr refs))"

fun detectAlgo :: "string list \<Rightarrow> HashAlgo" where
  "detectAlgo [] = []"
| "detectAlgo (l # ls) =
     (case IndexByte l (CHR 0x09) of
        None \<Rightarrow> detectAlgo ls
      | Some tab \<Rightarrow>
          if tab \<le> 0 then detectAlgo ls
          else if tab = HexLen SHA1 then SHA1
          else if tab = HexLen SHA256 then SHA256
          else detectAlgo ls)"

definition detectAlgoFromLsRemote :: "string \<Rightarrow> HashAlgo" where
  "detectAlgoFromLsRemote out = detectAlgo (SplitByte (CHR 0x0A) out)"

section \<open>runner.go\<close>

record execGitRunner =
  gr_gitBin :: string
  gr_timeout :: Duration
  gr_allowProtocol :: string

record GitConfig =
  gc_GitBin :: string
  gc_Timeout :: Duration
  gc_ProtocolAllow :: string

definition NewExecGitRunner :: "GitConfig \<Rightarrow> execGitRunner" where
  "NewExecGitRunner cfg =
     (let cfg = (if gc_GitBin cfg = [] then cfg\<lparr>gc_GitBin := ''git''\<rparr> else cfg) in
      \<lparr>gr_gitBin = gc_GitBin cfg, gr_timeout = gc_Timeout cfg, gr_allowProtocol = gc_ProtocolAllow cfg\<rparr>)"

definition NewRunnerWithProtocols :: "string \<Rightarrow> Duration \<Rightarrow> string \<Rightarrow> execGitRunner" where
  "NewRunnerWithProtocols gitBin timeout allowProtocol =
     (let gitBin = (if gitBin = [] then ''git'' else gitBin) in
      \<lparr>gr_gitBin = gitBin, gr_timeout = timeout, gr_allowProtocol = allowProtocol\<rparr>)"

definition hardenedArgv :: "string \<Rightarrow> string list \<Rightarrow> string list" where
  "hardenedArgv sub args =
     [''--no-replace-objects'', ''-c'', ''core.useReplaceRefs=false'', ''-c'', ''core.hooksPath=/dev/null'',
      ''-c'', ''protocol.file.allow=never'', ''-c'', ''protocol.ext.allow=never'',
      ''-c'', ''transfer.fsckObjects=true'', ''-c'', ''receive.fsckObjects=true'', sub] @ args"

definition hardenedEnvWithProtocol :: "MaterializedAuth option \<Rightarrow> string \<Rightarrow> string list" where
  "hardenedEnvWithProtocol auth allowProtocol =
     (let allowProtocol = (if allowProtocol = [] then ''https:ssh'' else allowProtocol);
          env = [''GIT_TERMINAL_PROMPT=0'', ''GIT_CONFIG_NOSYSTEM=1'', ''GIT_ALLOW_PROTOCOL='' @ allowProtocol,
                 ''GIT_PROTOCOL_FROM_USER=0'', ''GIT_LFS_SKIP_SMUDGE=1'', ''GIT_ASKPASS='',
                 ''GIT_OPTIONAL_LOCKS=0'', ''PATH=/usr/local/bin:/usr/bin:/bin'']
      in case auth of
           None \<Rightarrow> env @ [''GIT_CONFIG_GLOBAL=/dev/null'']
         | Some auth \<Rightarrow>
             (let env = (if ma_GitConfigGlobal auth \<noteq> [] then env @ [''GIT_CONFIG_GLOBAL='' @ ma_GitConfigGlobal auth]
                         else env @ [''GIT_CONFIG_GLOBAL=/dev/null'']);
                  env = (if ma_SSHCommand auth \<noteq> [] then env @ [''GIT_SSH_COMMAND='' @ ma_SSHCommand auth] else env)
              in env @ ma_EnvOverlay auth))"

text \<open>What a git process does: the binary, its arguments and environment, to output or error.\<close>

type_synonym gitProc = "nat \<Rightarrow> string \<Rightarrow> string list \<Rightarrow> string list \<Rightarrow> err + string"

definition runGit :: "gitProc \<Rightarrow> execGitRunner \<Rightarrow> MaterializedAuth option \<Rightarrow> string list \<Rightarrow> ('d, string) io" where
  "runGit proc r auth argv w =
     (proc (w_ticks w) (gr_gitBin r) argv (hardenedEnvWithProtocol auth (gr_allowProtocol r)), w)"

definition lsArgv :: "string \<Rightarrow> string list" where
  "lsArgv rawURL = hardenedArgv ''ls-remote'' [''--tags'', ''--end-of-options'', rawURL]"

definition execGitRunner_LsRemote ::
  "gitProc \<Rightarrow> execGitRunner \<Rightarrow> string \<Rightarrow> MaterializedAuth option \<Rightarrow> ('d, LsRemoteRef list) io" where
  "execGitRunner_LsRemote proc r rawURL auth =
     bindT (runGit proc r auth (lsArgv rawURL)) (\<lambda>out.
     let algo = detectAlgoFromLsRemote out in
     if \<not> HashAlgo_Valid algo then ret []
     else liftE (ParseLsRemote out algo))"

definition execGit :: "gitProc \<Rightarrow> execGitRunner \<Rightarrow> 'd GitRunner" where
  "execGit proc r = \<lparr>git_LsRemote = execGitRunner_LsRemote proc r\<rparr>"

section \<open>What the parser returns\<close>

definition ref_parsed :: "HashAlgo \<Rightarrow> LsRemoteRef \<Rightarrow> bool" where
  "ref_parsed algo r \<longleftrightarrow>
     wf_OID (lsr_OID r) \<and> oid_Algo (lsr_OID r) = algo \<and>
     (if lsr_IsAnnotatedTag r then wf_OID (lsr_PeeledOID r) \<and> oid_Algo (lsr_PeeledOID r) = algo
      else lsr_PeeledOID r = zeroOID)"

text \<open>The invariant of the parsing loop.\<close>

definition ls_inv :: "HashAlgo \<Rightarrow> lsState \<Rightarrow> bool" where
  "ls_inv algo st \<longleftrightarrow>
     (case st of (refs, idx, name) \<Rightarrow>
        list_all (ref_parsed algo) refs \<and>
        (if refs = [] then idx = -1 else idx = int (length refs) - 1 \<and> lsr_Name (last refs) = name))"

lemma parseLine_inv:
  assumes "parseLine algo line st = Inr st'" and inv: "ls_inv algo st"
  shows "ls_inv algo st'"
proof -
  obtain refs idx name where st: "st = (refs, idx, name)" by (cases st)
  from assms(1) consider "st' = st"
    | oidHex peeled where "idx \<ge> 0" "ParseOID oidHex algo = Inr peeled"
        "st' = (refs[nat idx := setPeeled peeled (refs ! nat idx)], idx, name)"
    | oidHex oid n where "ParseOID oidHex algo = Inr oid"
        "st' = (refs @ [\<lparr>lsr_Name = n, lsr_OID = oid, lsr_PeeledOID = zeroOID, lsr_IsAnnotatedTag = False\<rparr>],
                int (length refs), n)"
    by (auto simp: parseLine_def st Let_def split: if_splits option.splits sum.splits)
  then show ?thesis
  proof cases
    case 1
    with inv show ?thesis by simp
  next
    case 2
    with inv st have ne: "refs \<noteq> []" and idx: "nat idx = length refs - 1"
      by (auto simp: ls_inv_def nat_diff_distrib split: if_splits)
    from ne idx have "nat idx < length refs" by simp
    moreover have "ref_parsed algo (setPeeled peeled (refs ! nat idx))"
      using inv st ParseOID_sound [OF 2(2)] \<open>nat idx < length refs\<close>
      by (auto simp: ls_inv_def ref_parsed_def setPeeled_def list_all_length split: if_splits)
    ultimately have "list_all (ref_parsed algo) (refs[nat idx := setPeeled peeled (refs ! nat idx)])"
      using inv st by (auto simp: ls_inv_def list_all_length nth_list_update)
    with 2 inv st ne idx show ?thesis
      by (auto simp: ls_inv_def last_conv_nth setPeeled_def split: if_splits)
  next
    case 3
    with inv st ParseOID_sound [OF 3(1)] show ?thesis
      by (auto simp: ls_inv_def ref_parsed_def)
  qed
qed

lemma parseLines_inv:
  "parseLines algo ls st = Inr st' \<Longrightarrow> ls_inv algo st \<Longrightarrow> ls_inv algo st'"
proof (induction ls arbitrary: st)
  case (Cons l ls)
  then obtain st1 where "parseLine algo l st = Inr st1" "parseLines algo ls st1 = Inr st'"
    by (auto split: sum.splits)
  with Cons show ?case using parseLine_inv by blast
qed simp

lemma ParseLsRemote_parsed:
  assumes "ParseLsRemote out algo = Inr refs" and "r \<in> set refs"
  shows "ref_parsed algo r"
proof -
  from assms(1) obtain ls st where "parseLines algo ls ([], -1, []) = Inr st" "fst st = refs"
    by (auto simp: ParseLsRemote_def split: if_splits prod.splits sum.splits)
  moreover have "ls_inv algo ([], -1, [])" by (simp add: ls_inv_def)
  ultimately have "ls_inv algo st" by (blast intro: parseLines_inv)
  with \<open>fst st = refs\<close> assms(2) show ?thesis by (auto simp: ls_inv_def list_all_iff)
qed

lemma execGitRunner_LsRemote_parsed:
  assumes "execGitRunner_LsRemote proc r url auth w = (Inr refs, w')"
  shows "w' = w \<and> (\<exists>algo. list_all (ref_parsed algo) refs)"
  using assms
  by (auto simp: execGitRunner_LsRemote_def bindT_eq_Inr runGit_def liftE_def list_all_iff Let_def
      dest: ParseLsRemote_parsed split: if_splits)

lemma execGitRunner_LsRemote_world: "snd (execGitRunner_LsRemote proc r url auth w) = w"
  by (auto simp: execGitRunner_LsRemote_def bindT_def runGit_def liftE_def ret_def Let_def split: sum.splits)

section \<open>Printing and parsing\<close>

text \<open>The output format of \<open>git ls-remote\<close>: one line per tag, and one for a peeled tag.\<close>

definition refLines :: "LsRemoteRef \<Rightarrow> string list" where
  "refLines r =
     (Hex (lsr_OID r) @ CHR 0x09 # prefixTags @ lsr_Name r) #
     (if lsr_IsAnnotatedTag r then [Hex (lsr_PeeledOID r) @ CHR 0x09 # prefixTags @ lsr_Name r @ peeledSfx] else [])"

definition printRefs :: "LsRemoteRef list \<Rightarrow> string" where
  "printRefs refs = concat (map (\<lambda>l. l @ [CHR 0x0A]) (concat (map refLines refs)))"

text \<open>Names git allows, as far as the format needs: no line ends, no peeled suffix, not too long.\<close>

definition name_ok :: "string \<Rightarrow> bool" where
  "name_ok n \<longleftrightarrow> CHR 0x0A \<notin> set n \<and> (n = [] \<or> last n \<noteq> CHR 0x0D) \<and> \<not> HasSuffix (prefixTags @ n) peeledSfx \<and>
     length n < 4000000"

lemma hex_no_control [simp]: "CHR 0x09 \<notin> set (Hex o1)" "CHR 0x0A \<notin> set (Hex o1)"
  using EncodeToString_lowerHex by (fastforce simp: Hex_def lowerHex_def Let_def)+

lemma parseLine_tag:
  assumes "wf_OID oid" and "oid_Algo oid = algo" and "name_ok n"
  shows "parseLine algo (Hex oid @ CHR 0x09 # prefixTags @ n) (refs, idx, nm) =
    Inr (refs @ [\<lparr>lsr_Name = n, lsr_OID = oid, lsr_PeeledOID = zeroOID, lsr_IsAnnotatedTag = False\<rparr>],
      int (length refs), n)"
proof -
  have "IndexByte (Hex oid @ CHR 0x09 # prefixTags @ n) (CHR 0x09) = Some (length (Hex oid))"
    by (intro IndexByte_append) simp
  then show ?thesis
    using assms ParseOID_Hex [OF assms(1)] by (simp add: parseLine_def name_ok_def Let_def)
qed

lemma parseLine_peeled:
  assumes "wf_OID oid" and "oid_Algo oid = algo"
  shows "parseLine algo (Hex oid @ CHR 0x09 # prefixTags @ n @ peeledSfx) (refs @ [r], int (length refs), n) =
    Inr (refs @ [setPeeled oid r], int (length refs), n)"
proof -
  have "IndexByte (Hex oid @ CHR 0x09 # prefixTags @ n @ peeledSfx) (CHR 0x09) = Some (length (Hex oid))"
    by (intro IndexByte_append) simp
  moreover have "HasSuffix (prefixTags @ n @ peeledSfx) peeledSfx"
    using HasSuffix_append [of "prefixTags @ n" peeledSfx] by simp
  moreover have "TrimSuffix (prefixTags @ n @ peeledSfx) peeledSfx = prefixTags @ n"
    using TrimSuffix_append [of "prefixTags @ n" peeledSfx] by simp
  ultimately show ?thesis
    using assms ParseOID_Hex [OF assms(1)] by (simp add: parseLine_def Let_def)
qed

lemma parseLines_append:
  "parseLines algo (xs @ ys) st = (case parseLines algo xs st of Inl e \<Rightarrow> Inl e | Inr st' \<Rightarrow> parseLines algo ys st')"
  by (induction xs arbitrary: st) (auto split: sum.splits)

lemma parseLines_refLines:
  assumes "ref_parsed algo r" and "name_ok (lsr_Name r)"
  shows "parseLines algo (refLines r) (refs, idx, nm) = Inr (refs @ [r], int (length refs), lsr_Name r)"
proof (cases "lsr_IsAnnotatedTag r")
  case True
  with assms have "setPeeled (lsr_PeeledOID r)
      \<lparr>lsr_Name = lsr_Name r, lsr_OID = lsr_OID r, lsr_PeeledOID = zeroOID, lsr_IsAnnotatedTag = False\<rparr> = r"
    by (cases r) (simp add: setPeeled_def)
  with True assms show ?thesis
    by (simp add: refLines_def parseLine_tag parseLine_peeled ref_parsed_def)
next
  case False
  with assms show ?thesis by (cases r) (simp add: refLines_def parseLine_tag ref_parsed_def)
qed

lemma parseLines_print:
  assumes "list_all (ref_parsed algo) refs" and "list_all (\<lambda>r. name_ok (lsr_Name r)) refs"
  shows "\<exists>idx' nm'. parseLines algo (concat (map refLines refs)) (refs0, idx, nm) = Inr (refs0 @ refs, idx', nm')"
  using assms
proof (induction refs arbitrary: refs0 idx nm)
  case (Cons r refs)
  then show ?case
    using Cons.IH [of "refs0 @ [r]"] by (simp add: parseLines_append parseLines_refLines)
qed simp

lemma rawLines_print:
  "\<forall>l \<in> set ls. CHR 0x0A \<notin> set l \<Longrightarrow> rawLines (concat (map (\<lambda>l. l @ [CHR 0x0A]) ls)) = ls"
proof -
  assume "\<forall>l \<in> set ls. CHR 0x0A \<notin> set l"
  then have "SplitByte (CHR 0x0A) (concat (map (\<lambda>l. l @ [CHR 0x0A]) ls)) = ls @ [[]]"
    by (induction ls) (simp_all add: SplitByte_append_sep)
  then show ?thesis by (simp add: rawLines_def)
qed

lemma refLines_ok:
  assumes "ref_parsed algo r" and n: "name_ok (lsr_Name r)" and l: "l \<in> set (refLines r)"
  shows "CHR 0x0A \<notin> set l" and "dropCR l = l" and "length l < maxTokenSize"
proof -
  have len: "length (Hex o1) \<le> 64" if "wf_OID o1" for o1
    using that by (auto simp: Hex_def wf_OID_def HashAlgo_Valid_def)
  have "CHR 0x0A \<notin> set (prefixTags @ peeledSfx)" by (simp add: prefixTags_def peeledSfx_def)
  with l n show "CHR 0x0A \<notin> set l"
    by (auto simp: refLines_def name_ok_def split: if_splits)
  from l n show "dropCR l = l"
    by (auto simp: refLines_def dropCR_def name_ok_def prefixTags_def peeledSfx_def split: if_splits)
  from l n assms(1) len [of "lsr_OID r"] len [of "lsr_PeeledOID r"] show "length l < maxTokenSize"
    by (auto simp: refLines_def name_ok_def ref_parsed_def prefixTags_def peeledSfx_def maxTokenSize_def split: if_splits)
qed

lemma ParseLsRemote_print:
  assumes "HashAlgo_Valid algo" and p: "list_all (ref_parsed algo) refs"
    and n: "list_all (\<lambda>r. name_ok (lsr_Name r)) refs"
  shows "ParseLsRemote (printRefs refs) algo = Inr refs"
proof -
  let ?ls = "concat (map refLines refs)"
  have ok: "CHR 0x0A \<notin> set l \<and> dropCR l = l \<and> length l < maxTokenSize" if "l \<in> set ?ls" for l
    using that p n refLines_ok by (auto simp: list_all_iff)
  then have "rawLines (printRefs refs) = ?ls" unfolding printRefs_def by (intro rawLines_print) blast
  moreover have "map dropCR ?ls = ?ls" using ok by (intro map_idI) blast
  moreover have "takeWhile (\<lambda>l. length l < maxTokenSize) ?ls = ?ls" using ok by (simp only: takeWhile_eq_all_conv) blast
  moreover have "\<not> list_ex (\<lambda>l. \<not> length l < maxTokenSize) ?ls" using ok by (auto simp: list_ex_iff)
  ultimately have "scanLines (printRefs refs) = (?ls, False)" by (simp only: scanLines_def Let_def)
  then show ?thesis
    using parseLines_print [OF p n, of "[]" "-1" "[]"] assms(1) by (auto simp: ParseLsRemote_def)
qed

text \<open>The format detection reads the algorithm off the first line.\<close>

lemma detectAlgo_print:
  assumes "ref_parsed algo r" and "HashAlgo_Valid algo"
  shows "detectAlgoFromLsRemote (printRefs (r # refs)) = algo"
proof -
  let ?l = "Hex (lsr_OID r) @ CHR 0x09 # prefixTags @ lsr_Name r"
  have len: "length (Hex (lsr_OID r)) = HexLen algo"
    using assms by (auto simp: ref_parsed_def wf_OID_def Hex_def HexLen_def)
  have tab: "IndexByte (Hex (lsr_OID r) @ CHR 0x09 # xs) (CHR 0x09) = Some (HexLen algo)" for xs
    using len by (subst IndexByte_append) simp_all
  have nl: "CHR 0x0A \<notin> set (Hex (lsr_OID r) @ [CHR 0x09])" by simp
  obtain rest where "printRefs (r # refs) = (Hex (lsr_OID r) @ [CHR 0x09]) @ rest"
    by (simp add: printRefs_def refLines_def)
  then obtain l ls where "SplitByte (CHR 0x0A) (printRefs (r # refs)) = (Hex (lsr_OID r) @ CHR 0x09 # l) # ls"
    using SplitByte_prefix [OF nl, of rest] by auto
  then show ?thesis
    using assms(2) tab by (auto simp: detectAlgoFromLsRemote_def HashAlgo_Valid_def)
qed

lemma execGitRunner_LsRemote_print:
  assumes "HashAlgo_Valid algo" and p: "list_all (ref_parsed algo) refs"
    and n: "list_all (\<lambda>r. name_ok (lsr_Name r)) refs"
    and proc: "\<And>t bin argv env. proc t bin argv env = Inr (printRefs refs)"
  shows "execGitRunner_LsRemote proc r url auth w = (Inr refs, w)"
proof (cases refs)
  case Nil
  then show ?thesis
    by (simp add: execGitRunner_LsRemote_def bindT_def runGit_def proc printRefs_def detectAlgoFromLsRemote_def
        HashAlgo_Valid_def model_defs ret_def)
next
  case (Cons r' rs)
  with p assms(1) have "detectAlgoFromLsRemote (printRefs refs) = algo"
    using detectAlgo_print [of algo r' rs] by simp
  with ParseLsRemote_print [OF assms(1) p n] assms(1) show ?thesis
    by (simp add: execGitRunner_LsRemote_def bindT_def runGit_def proc liftE_def)
qed

section \<open>Properties\<close>

text \<open>C37: what git prints is read back: if git prints refs with well-formed ids of one hash algorithm and
  proper names, peeled lines after their tags, then \<open>LsRemote\<close> returns exactly these refs, and the
  algorithm is detected from the output.\<close>

theorem listing_is_read_back:
  assumes "HashAlgo_Valid algo" and "list_all (ref_parsed algo) refs" and "list_all (\<lambda>r. name_ok (lsr_Name r)) refs"
    and "\<And>t bin argv env. proc t bin argv env = Inr (printRefs refs)"
  shows "execGitRunner_LsRemote proc r url auth w = (Inr refs, w)"
  using assms by (rule execGitRunner_LsRemote_print)

definition demo_tag :: LsRemoteRef where
  "demo_tag = \<lparr>lsr_Name = ''v1'', lsr_OID = \<lparr>oid_Raw = replicate 20 1, oid_Algo = SHA1\<rparr>,
     lsr_PeeledOID = \<lparr>oid_Raw = replicate 20 2, oid_Algo = SHA1\<rparr>, lsr_IsAnnotatedTag = True\<rparr>"

definition demo_outside :: "unit world" where
  "demo_outside = \<lparr>w_db = (), w_fault = (\<lambda>_. False), w_stmts = 0, w_clock = (\<lambda>_. 0), w_ticks = 0\<rparr>"

definition demo_ls_remote :: "(err + LsRemoteRef list) \<times> unit world" where
  "demo_ls_remote = execGitRunner_LsRemote (\<lambda>_ _ _ _. Inr (printRefs [demo_tag]))
     \<lparr>gr_gitBin = ''git'', gr_timeout = 0, gr_allowProtocol = ''https''\<rparr> ''https://h/r'' None demo_outside"

lemma demo_tag_ok: "ref_parsed SHA1 demo_tag" "name_ok (lsr_Name demo_tag)"
  by (simp_all add: ref_parsed_def wf_OID_def HashAlgo_Valid_def demo_tag_def name_ok_def HasSuffix_def
      prefixTags_def peeledSfx_def suffix_to_prefix)

theorem listing_is_read_back_witness: "demo_ls_remote = (Inr [demo_tag], demo_outside)"
  unfolding demo_ls_remote_def by (rule listing_is_read_back [where algo = SHA1]) (simp_all add: HashAlgo_Valid_def demo_tag_ok)

text \<open>C38: whatever bytes git prints, the refs \<open>LsRemote\<close> returns are well-formed: their ids have the length
  of one hash algorithm, and a peeled id is there exactly for the annotated tags.\<close>

theorem listing_is_well_formed:
  assumes "execGitRunner_LsRemote proc r url auth w = (Inr refs, w')"
  shows "\<exists>algo. list_all (ref_parsed algo) refs"
  using execGitRunner_LsRemote_parsed [OF assms] by blast

theorem listing_is_well_formed_witness: "\<exists>algo. list_all (ref_parsed algo) [demo_tag]"
proof -
  have "demo_ls_remote = (Inr [demo_tag], demo_outside)"
    unfolding demo_ls_remote_def
    by (rule execGitRunner_LsRemote_print [where algo = SHA1]) (simp_all add: HashAlgo_Valid_def demo_tag_ok)
  then show ?thesis unfolding demo_ls_remote_def by (rule listing_is_well_formed)
qed

end
