(* ===== verification/Sync_Run.thy ===== *)
theory Sync_Run
  imports Sync_Sqlite Git_LsRemote
begin

text \<open>
  \<open>SyncRemote\<close> over the SQLite store, the database lease and the hardened git runner, end to
  end. Everything around the transaction is \<open>quiet\<close>: it leaves tags, taints, ledgers and chain
  heads alone. So a run either is quiet, or commits exactly one run of \<open>syncTx\<close>.
\<close>

section \<open>Quiet operations\<close>

definition quiet :: "db \<Rightarrow> db \<Rightarrow> bool" where
  "quiet d d' \<longleftrightarrow>
     t_refs d' = t_refs d \<and> t_observations d' = t_observations d \<and> t_taint_events d' = t_taint_events d \<and>
     t_syncs d' = t_syncs d \<and> remote_heads d' = remote_heads d \<and> db_ok d'"

lemma quiet_refl: "db_ok d \<Longrightarrow> quiet d d"
  by (simp add: quiet_def)

lemma quiet_trans: "quiet d d' \<Longrightarrow> quiet d' d'' \<Longrightarrow> quiet d d''"
  by (simp add: quiet_def)

lemma quiet_ledger: "quiet d d' \<Longrightarrow> ledger_ok d \<Longrightarrow> ledger_ok d'"
  using same_chains_ok [of d d'] by (auto simp: quiet_def ledger_ok_def same_chains_def)

lemma quiet_view: "quiet d d' \<Longrightarrow> db_view d' = db_view d"
  unfolding quiet_def by (intro db_view_cong) simp_all

definition quietT :: "(db, 'a) io \<Rightarrow> bool" where
  "quietT m \<longleftrightarrow> (\<forall>w. db_ok (w_db w) \<longrightarrow> quiet (w_db w) (w_db (snd (m w))))"

lemma quietT_snd: "quietT m \<Longrightarrow> db_ok (w_db w) \<Longrightarrow> quiet (w_db w) (w_db (snd (m w)))"
  by (simp add: quietT_def)

lemma quietT_reads: "(\<And>w. w_db (snd (m w)) = w_db w) \<Longrightarrow> quietT m"
  by (simp add: quietT_def quiet_refl)

lemma quietT_bind:
  assumes "quietT m" and "\<And>a. quietT (f a)"
  shows "quietT (bindT m f)"
  unfolding quietT_def
proof (intro allI impI)
  fix w :: "db world"
  assume ok: "db_ok (w_db w)"
  obtain r w1 where m: "m w = (r, w1)" by (cases "m w")
  with quietT_snd [OF assms(1) ok] have q: "quiet (w_db w) (w_db w1)" by simp
  show "quiet (w_db w) (w_db (snd (bindT m f w)))"
  proof (cases r)
    case (Inl e)
    with m q show ?thesis by (simp add: bindT_def)
  next
    case (Inr a)
    have "quiet (w_db w1) (w_db (snd (f a w1)))"
      using quietT_snd [OF assms(2)] q by (simp add: quiet_def)
    with m q Inr show ?thesis by (simp add: bindT_def quiet_trans [OF q])
  qed
qed

lemma quietT_stmt:
  assumes "\<And>d a d'. db_ok d \<Longrightarrow> q d = Inr (a, d') \<Longrightarrow> quiet d d'"
  shows "quietT (stmt q)"
  using assms by (auto simp: quietT_def stmt_def Let_def quiet_refl split: sum.splits prod.splits)

lemma quietT_simps: "quietT (ret a)" "quietT (fail e)" "quietT NowNS" "quietT (liftE r)"
  by (auto simp: quietT_def ret_def fail_def NowNS_def liftE_def quiet_refl)

lemma stmt_reads:
  "(\<And>d a d'. q d = Inr (a, d') \<Longrightarrow> d' = d) \<Longrightarrow> w_db (snd (stmt q w)) = w_db w"
  by (auto simp: stmt_def Let_def split: sum.splits prod.splits)

lemma bindT_reads:
  "w_db (snd (m w)) = w_db w \<Longrightarrow> (\<And>a w1. w_db (snd (f a w1)) = w_db w1) \<Longrightarrow> w_db (snd (bindT m f w)) = w_db w"
  by (auto simp: bindT_def split: prod.splits sum.splits)

lemma mapErrT_snd [simp]: "snd (mapErrT g m w) = snd (m w)"
  by (simp add: mapErrT_def split: prod.splits sum.splits)

lemma ret_snd [simp]: "snd (ret a w) = w"
  by (simp add: ret_def)

lemma GetRemote_reads: "w_db (snd (sqliteStore_GetRemote i w)) = w_db w"
  unfolding sqliteStore_GetRemote_def
  by (rule bindT_reads) (auto intro: stmt_reads simp: sqlc_GetRemote_def read_one_Inr)

lemma ListTags_reads: "w_db (snd (sqliteStore_ListTags i w)) = w_db w"
  unfolding sqliteStore_ListTags_def
  by (rule bindT_reads) (auto intro: stmt_reads simp: sqlc_ListTags_def)

lemma GetChainHead_reads: "w_db (snd (sqliteStore_GetChainHead i w)) = w_db w"
  unfolding sqliteStore_GetChainHead_def
  by (auto intro: stmt_reads simp: sqlc_GetChainHead_def read_one_Inr)

lemma remote_heads_update:
  assumes "\<And>r. r \<in> set (t_remotes d) \<Longrightarrow> P r \<Longrightarrow>
     Rrem_ID (f r) = Rrem_ID r \<and> Rrem_ChainHeadHash (f r) = Rrem_ChainHeadHash r \<and> Rrem_ChainLen (f r) = Rrem_ChainLen r"
  shows "remote_heads (d\<lparr>t_remotes := update_where P f (t_remotes d)\<rparr>) = remote_heads d"
  using assms by (auto simp: remote_heads_def update_where_def)

lemma quiet_SetRemoteHealth: "quietT (sqliteStore_SetRemoteHealth i status e ok)"
  unfolding sqliteStore_SetRemoteHealth_def
proof (intro quietT_bind quietT_simps quietT_stmt)
  fix now d a d'
  assume "db_ok d" and run: "sqlc_SetRemoteHealth status e ok now i d = Inr (a, d')"
  let ?f = "\<lambda>r. r\<lparr>Rrem_Status := status, Rrem_LastErr := e, Rrem_LastOkNs := ok, Rrem_UpdatedAtNs := now\<rparr>"
  from run have d': "d' = d\<lparr>t_remotes := update_where (\<lambda>r. Rrem_ID r = i) ?f (t_remotes d)\<rparr>"
    by (auto simp: sqlc_SetRemoteHealth_def split: if_splits)
  have "db_ok d'" unfolding d' using \<open>db_ok d\<close> by (rule db_ok_update_remotes) simp_all
  moreover have "remote_heads d' = remote_heads d" unfolding d' by (rule remote_heads_update) simp
  ultimately show "quiet d d'" by (simp add: quiet_def) (simp add: d')
qed

lemma db_ok_lease:
  "db_ok d \<Longrightarrow> distinct (map Rls_RemoteID ls) \<Longrightarrow> db_ok (d\<lparr>t_lease := ls\<rparr>)"
  by (simp add: db_ok_defs)

lemma quiet_upsertLease: "db_ok d \<Longrightarrow> upsertLeaseSQL i h a ex now d = Inr (n, d') \<Longrightarrow> quiet d d'"
proof -
  assume ok: "db_ok d" and run: "upsertLeaseSQL i h a ex now d = Inr (n, d')"
  let ?row = "\<lparr>Rls_RemoteID = i, Rls_Holder = h, Rls_AcquiredAtNs = a, Rls_ExpiresAtNs = ex\<rparr>"
  have d: "distinct (map Rls_RemoteID (t_lease d))" using ok by (simp add: db_ok_def)
  have "map Rls_RemoteID (update_where (\<lambda>l. Rls_RemoteID l = i) (\<lambda>_. ?row) (t_lease d)) = map Rls_RemoteID (t_lease d)"
    by (simp add: update_where_def)
  then have upd: "db_ok (d\<lparr>t_lease := update_where (\<lambda>l. Rls_RemoteID l = i) (\<lambda>_. ?row) (t_lease d)\<rparr>)"
    using d by (intro db_ok_lease [OF ok]) simp
  have new: "db_ok (d\<lparr>t_lease := t_lease d @ [?row]\<rparr>)" if "find (\<lambda>l. Rls_RemoteID l = i) (t_lease d) = None"
    using that d by (intro db_ok_lease [OF ok]) (auto simp: find_None_iff)
  show "quiet d d'"
    using run upd new ok by (auto simp: upsertLeaseSQL_def quiet_def Let_def split: option.splits if_splits)
qed

lemma quiet_Acquire: "quietT (dbLease_AcquireRemoteLease leaseStore i h ttl)"
proof -
  have head: "quietT (stmt (sqlc_GetRemoteChainHead i))"
    by (rule quietT_reads) (auto intro: stmt_reads simp: sqlc_GetRemoteChainHead_def read_one_Inr)
  have "quietT (sqliteStore_TryAcquireLease i h now ex)" for now ex
    unfolding sqliteStore_TryAcquireLease_def case_prod_unfold
    by (intro quietT_bind head quietT_stmt quiet_upsertLease) (auto simp: quietT_simps)
  then show ?thesis
    unfolding dbLease_AcquireRemoteLease_def Let_def case_prod_unfold
    by (intro quietT_bind quietT_simps) (auto simp: sqliteStore_def quietT_simps)
qed

text \<open>Releasing with the head and length that are stored changes nothing but the lease.\<close>

lemma remote_heads_unique:
  assumes "db_ok d" and "(i, h, n) \<in> set (remote_heads d)" and "(i, h', n') \<in> set (remote_heads d)"
  shows "h' = h \<and> n' = n"
proof -
  have "distinct (map Rrem_ID (t_remotes d))" using assms(1) by (simp add: db_ok_defs ids_ok_def)
  with assms(2,3) show ?thesis
    by (auto simp: remote_heads_def distinct_map dest: inj_onD)
qed

lemma quiet_releaseTx:
  assumes ok: "db_ok (w_db w)" and head: "(i, h, n) \<in> set (remote_heads (w_db w))"
    and run: "releaseTx i holder witness h n w = (Inr u, w')"
  shows "quiet (w_db w) (w_db w')"
proof -
  let ?d = "w_db w"
  from run obtain ch cl w1 u' w2 where
    s1: "stmt (sqlc_GetRemoteChainHead i) w = (Inr (ch, cl), w1)"
    and s2: "(if bytesEqual ch witness then
        bindT (stmt (sqlc_AdvanceRemoteChainHead h n i witness cl)) (\<lambda>rows. if rows \<noteq> 1 then fail ErrChainCAS else ret ())
      else if bytesEqual ch h then ret () else fail ErrChainCAS) w1 = (Inr u', w2)"
    and s3: "stmt (sqlc_DeleteRemoteLease i holder) w2 = (Inr u, w')"
    unfolding releaseTx_def by (elim bindT_InrE) (auto elim!: bindT_InrE)
  from s1 have w1: "w_db w1 = ?d" and "(i, ch, cl) \<in> set (remote_heads ?d)"
    by (auto simp: stmt_def sqlc_GetRemoteChainHead_def Let_def read_one_Inr split: if_splits sum.splits
        dest: find_remote_heads)
  with remote_heads_unique [OF ok head] have cur: "ch = h" "cl = n" by auto
  have "update_where (\<lambda>r. Rrem_ID r = i \<and> Rrem_ChainHeadHash r = h \<and> Rrem_ChainLen r = n)
      (\<lambda>r. r\<lparr>Rrem_ChainHeadHash := h, Rrem_ChainLen := n\<rparr>) (t_remotes ?d) = t_remotes ?d"
    by (auto simp: update_where_def intro!: map_idI)
  with s2 w1 cur have w2: "w_db w2 = ?d"
    by (auto simp: bindT_eq_Inr stmt_def sqlc_AdvanceRemoteChainHead_def Let_def split: if_splits)
  have "distinct (map Rls_RemoteID (filter P (t_lease ?d)))" for P
    using ok by (simp add: db_ok_def distinct_map_filter)
  from db_ok_lease [OF ok this] show ?thesis
    using s3 by (auto simp: stmt_def sqlc_DeleteRemoteLease_def Let_def w2 quiet_def split: if_splits)
qed

lemma quiet_Release:
  assumes ok: "db_ok (w_db w)" and head: "(lse_RemoteID l, h, n) \<in> set (remote_heads (w_db w))"
  shows "quiet (w_db w) (w_db (snd (dbLease_Release leaseStore (Some l) h n w)))"
proof -
  let ?w1 = "w\<lparr>w_stmts := w_stmts w + 1\<rparr>"
  have "quiet (w_db w) (w_db w2)"
    if "releaseTx (lse_RemoteID l) (lse_Holder l) (lse_ChainHeadAtLease l) h n ?w1 = (Inr u, w2)" for u w2
    using quiet_releaseTx [OF _ _ that] ok head by simp
  then show ?thesis
    using quiet_refl [OF ok]
    by (auto simp: dbLease_Release_def sqliteStore_def sqliteStore_ReleaseLeaseCAS_def stmt_def Let_def
        split: prod.splits sum.splits)
qed

section \<open>A run is quiet or commits one transaction\<close>

definition tags_of :: "db \<Rightarrow> RemoteID \<Rightarrow> Ref list" where
  "tags_of d rid = map refFromRow (sort_key Rref_TagName (filter (\<lambda>r. Rref_RemoteID r = rid) (t_refs d)))"

text \<open>\<open>committed\<close>: the transaction of a sync ran on a state like \<open>d\<close> and left a state like \<open>d'\<close>.\<close>

definition committed ::
  "(('t Tx \<Rightarrow> ('t, SyncID \<times> int64) io) \<Rightarrow> (db, SyncID \<times> int64) io) \<Rightarrow> (db \<Rightarrow> RemoteID \<Rightarrow> Ref list) \<Rightarrow> gitProc \<Rightarrow> execGitRunner \<Rightarrow> (((string \<times> Ref) list) \<Rightarrow> (string \<times> Ref) list) \<Rightarrow> RemoteID \<Rightarrow> db \<Rightarrow> db \<Rightarrow> bool" where
  "committed withTx tags proc g order rid d d' \<longleftrightarrow>
     (\<exists>row lsRefs startNS head (wg :: db world) w2 res w3.
        find (\<lambda>r. Rrem_ID r = rid) (t_remotes d) = Some row \<and>
        execGitRunner_LsRemote proc g (Rrem_Url row) None wg = (Inr lsRefs, wg) \<and>
        quiet d (w_db w2) \<and>
        withTx (syncTx order rid (Rrem_TaintAnyTagDeletion row \<noteq> 0) startNS head lsRefs
          (tags (w_db w2) rid)) w2 = (Inr res, w3) \<and>
        quiet (w_db w3) d')"

text \<open>
  \<open>calm d Q m\<close>: from a state like \<open>d\<close>, \<open>m\<close> stays in states like \<open>d\<close>, does not fail, and its
  result satisfies \<open>Q\<close>.
\<close>

definition calm :: "db \<Rightarrow> ('a \<Rightarrow> bool) \<Rightarrow> (db, 'a) io \<Rightarrow> bool" where
  "calm d Q m \<longleftrightarrow> hoare (\<lambda>w. quiet d (w_db w)) m (\<lambda>a w. quiet d (w_db w) \<and> Q a) (\<lambda>_ _. False)"

lemma calm_ret: "Q a \<Longrightarrow> calm d Q (ret a)"
  by (simp add: calm_def hoare_def ret_def)

lemma calm_NowNS: "calm d (\<lambda>_. True) NowNS"
  by (simp add: calm_def hoare_def NowNS_def)

lemma hoare_pull: "(F \<Longrightarrow> hoare P m Q E) \<Longrightarrow> hoare (\<lambda>w. P w \<and> F) m Q E"
  by (auto simp: hoare_def)

lemma calm_then:
  assumes "calm d R m" and "\<And>a. R a \<Longrightarrow> hoare (\<lambda>w. quiet d (w_db w)) (f a) Q (\<lambda>_ _. False)"
  shows "hoare (\<lambda>w. quiet d (w_db w)) (bindT m f) Q (\<lambda>_ _. False)"
  by (rule hoare_bind [OF assms(1) [unfolded calm_def]]) (use assms(2) in \<open>auto simp: hoare_def\<close>)

lemma calm_bind: "calm d R m \<Longrightarrow> (\<And>a. R a \<Longrightarrow> calm d Q (f a)) \<Longrightarrow> calm d Q (bindT m f)"
  unfolding calm_def [of d Q] by (rule calm_then)

lemma calm_try_gen:
  assumes "\<And>w r w'. quiet d (w_db w) \<Longrightarrow> m w = (r, w') \<Longrightarrow> quiet d (w_db w')"
    and "\<And>w a w'. quiet d (w_db w) \<Longrightarrow> m w = (Inr a, w') \<Longrightarrow> F a"
  shows "calm d (\<lambda>x. \<forall>a. x = Inr a \<longrightarrow> F a) (tryT m)" and "calm d (\<lambda>_. True) (ignoreT m)"
  unfolding calm_def
  by (rule hoareI; use assms in \<open>fastforce simp: tryT_def ignoreT_def split: prod.splits\<close>)+

lemma quietT_quiet: "quietT m \<Longrightarrow> quiet d (w_db w) \<Longrightarrow> m w = (r, w') \<Longrightarrow> quiet d (w_db w')"
  using quietT_snd [of m w] by (auto simp: quiet_def)

lemma calm_try:
  "quietT m \<Longrightarrow> (\<And>w a w'. quiet d (w_db w) \<Longrightarrow> m w = (Inr a, w') \<Longrightarrow> F a) \<Longrightarrow>
   calm d (\<lambda>x. \<forall>a. x = Inr a \<longrightarrow> F a) (tryT m)"
  by (rule calm_try_gen(1)) (rule quietT_quiet)

lemma calm_ignore: "quietT m \<Longrightarrow> calm d (\<lambda>_. True) (ignoreT m)"
  using calm_try_gen(2) [where F = "\<lambda>_. True" and m = m, OF quietT_quiet] by simp

lemma execGit_sel [simp]: "git_LsRemote (execGit proc g) = execGitRunner_LsRemote proc g"
  by (simp add: execGit_def)

text \<open>What every run ends in.\<close>

definition run_post ::
  "(('t Tx \<Rightarrow> ('t, SyncID \<times> int64) io) \<Rightarrow> (db, SyncID \<times> int64) io) \<Rightarrow> (db \<Rightarrow> RemoteID \<Rightarrow> Ref list) \<Rightarrow> gitProc \<Rightarrow> execGitRunner \<Rightarrow> (((string \<times> Ref) list) \<Rightarrow> (string \<times> Ref) list) \<Rightarrow> RemoteID \<Rightarrow> db \<Rightarrow>
   SyncResult option \<times> err option \<Rightarrow> db world \<Rightarrow> bool" where
  "run_post withTx tags proc g order rid d x w \<longleftrightarrow>
     committed withTx tags proc g order rid d (w_db w) \<or> snd x \<noteq> None \<and> quiet d (w_db w)"

section \<open>What a sync relies on\<close>

text \<open>
  The store and the lock under a sync. All but the transaction is quiet, each read tells what the tables hold, a release
  with the head that is stored is quiet too, and the transaction keeps the ledger and has no effect when it fails.
  \<open>tags\<close> says what \<open>ListTags\<close> returns.
\<close>

locale sync_host =
  fixes store :: "(db, 't, SyncID \<times> int64) Store" and lock :: "db Lock" and tags :: "db \<Rightarrow> RemoteID \<Rightarrow> Ref list"
  assumes GetRemote_quiet: "quietT (st_GetRemote store i)"
    and GetRemote_row:
      "st_GetRemote store i w = (Inr r, w') \<Longrightarrow>
       \<exists>row. find (\<lambda>r. Rrem_ID r = i) (t_remotes (w_db w)) = Some row \<and> r = remoteFromRow row"
    and SetRemoteHealth_quiet: "quietT (st_SetRemoteHealth store i status lastErr ok)"
    and ListTags_quiet: "quietT (st_ListTags store i)"
    and ListTags_rows: "st_ListTags store i w = (Inr ps, w') \<Longrightarrow> ps = tags (w_db w) i"
    and tags_refs: "t_refs d' = t_refs d \<Longrightarrow> tags d' i = tags d i"
    and GetChainHead_quiet: "quietT (st_GetChainHead store i)"
    and GetChainHead_row: "st_GetChainHead store i w = (Inr (h, n), w') \<Longrightarrow> (i, h, n) \<in> set (remote_heads (w_db w))"
    and Acquire_quiet: "quietT (lk_AcquireRemoteLease lock i holder ttl)"
    and Acquire_head:
      "lk_AcquireRemoteLease lock i holder ttl w = (Inr l, w') \<Longrightarrow>
       lse_RemoteID l = i \<and> (\<exists>n. (i, lse_ChainHeadAtLease l, n) \<in> set (remote_heads (w_db w)))"
    and Release_head_quiet:
      "db_ok (w_db w) \<Longrightarrow> (lse_RemoteID l, h, n) \<in> set (remote_heads (w_db w)) \<Longrightarrow>
       quiet (w_db w) (w_db (snd (lk_Release lock (Some l) h n w)))"
    and WithTx_error: "st_WithTx store fn w = (Inl e, w') \<Longrightarrow> w_db w' = w_db w"
    and WithTx_ledger: "keeps ledger_ok (st_WithTx store (syncTx order rid taintAny startNS head lsRefs priors))"
begin

lemma Release_quiet:
  assumes "lse_RemoteID l = rid" and "(rid, h, n) \<in> set (remote_heads d)"
    and q: "quiet d (w_db w)" and run: "lk_Release lock (Some l) h n w = (r, w')"
  shows "quiet d (w_db w')"
proof -
  from q assms(1,2) have "(lse_RemoteID l, h, n) \<in> set (remote_heads (w_db w))" "db_ok (w_db w)"
    by (simp_all add: quiet_def)
  with Release_head_quiet [of w l h n] run show ?thesis using quiet_trans [OF q] by simp
qed

lemma calm_Release:
  assumes "lse_RemoteID l = rid" and "(rid, h, n) \<in> set (remote_heads d)"
  shows "calm d (\<lambda>_. True) (tryT (lk_Release lock (Some l) h n))"
    and "calm d (\<lambda>_. True) (ignoreT (lk_Release lock (Some l) h n))"
  using calm_try_gen [where F = "\<lambda>_. True" and m = "lk_Release lock (Some l) h n", OF Release_quiet [OF assms]]
  by simp_all

text \<open>After the commit: read the head, release the lease with it, set the health.\<close>

lemma after_commit:
  assumes "lse_RemoteID l = rid"
  shows "calm d (\<lambda>_. True)
     (bindT (tryT (st_GetChainHead store rid)) (\<lambda>x. case x of
        Inl err \<Rightarrow> ret (None, Some err)
      | Inr (headAfter, newLen) \<Rightarrow>
      bindT (tryT (lk_Release lock (Some l) headAfter newLen)) (\<lambda>x. case x of
        Inl err \<Rightarrow> ret (None, Some err)
      | Inr _ \<Rightarrow>
      bindT NowNS (\<lambda>now.
      bindT (ignoreT (st_SetRemoteHealth store rid RemoteActive [] now)) (\<lambda>_.
      ret (Some (res headAfter), None))))))"
proof (rule calm_bind)
  show "calm d (\<lambda>x. \<forall>a. x = Inr a \<longrightarrow> (rid, a) \<in> set (remote_heads d)) (tryT (st_GetChainHead store rid))"
  proof (rule calm_try)
    show "quietT (st_GetChainHead store rid)" by (rule GetChainHead_quiet)
    show "(rid, a) \<in> set (remote_heads d)"
      if "quiet d (w_db w)" "st_GetChainHead store rid w = (Inr a, w')" for w a w'
      using that GetChainHead_row [of rid w "fst a" "snd a" w'] by (simp add: quiet_def)
  qed
  have health: "calm d (\<lambda>_. True) (bindT NowNS (\<lambda>now.
      bindT (ignoreT (st_SetRemoteHealth store rid RemoteActive [] now)) (\<lambda>_. ret r)))" for r
    by (intro calm_bind [OF calm_NowNS] calm_bind [OF calm_ignore] calm_ret SetRemoteHealth_quiet) simp_all
  fix x :: "err + bytes \<times> int64"
  assume x: "\<forall>a. x = Inr a \<longrightarrow> (rid, a) \<in> set (remote_heads d)"
  show "calm d (\<lambda>_. True) (case x of Inl err \<Rightarrow> ret (None, Some err)
      | Inr (headAfter, newLen) \<Rightarrow>
      bindT (tryT (lk_Release lock (Some l) headAfter newLen)) (\<lambda>x. case x of
        Inl err \<Rightarrow> ret (None, Some err)
      | Inr _ \<Rightarrow>
      bindT NowNS (\<lambda>now.
      bindT (ignoreT (st_SetRemoteHealth store rid RemoteActive [] now)) (\<lambda>_.
      ret (Some (res headAfter), None)))))"
  proof (cases x)
    case (Inr a)
    obtain h n where a: "a = (h, n)" by (cases a)
    with Inr x have "(rid, h, n) \<in> set (remote_heads d)" by simp
    then show ?thesis unfolding Inr a sum.case prod.case
      by (intro calm_bind [OF calm_Release(1) [OF assms]]) (auto split: sum.splits intro: calm_ret health)
  qed (simp add: calm_ret)
qed

text \<open>The transaction step, with its two outcomes.\<close>

lemma commit_step:
  assumes ok: "ledger_ok d"
  shows "hoare (\<lambda>w. quiet d (w_db w)) (tryT (st_WithTx store (syncTx order rid t s h ls ps)))
     (\<lambda>x w. case x of Inl _ \<Rightarrow> quiet d (w_db w)
        | Inr res \<Rightarrow> \<exists>w2. quiet d (w_db w2) \<and> db_ok (w_db w) \<and>
            st_WithTx store (syncTx order rid t s h ls ps) w2 = (Inr res, w)) E"
proof (rule hoare_try, rule hoareI)
  fix w e w'
  assume "quiet d (w_db w)" and "st_WithTx store (syncTx order rid t s h ls ps) w = (Inl e, w')"
  with WithTx_error [of "syncTx order rid t s h ls ps" w e w']
  show "case (Inl e :: err + SyncID \<times> int64) of Inl _ \<Rightarrow> quiet d (w_db w')
    | Inr res \<Rightarrow> \<exists>w2. quiet d (w_db w2) \<and> db_ok (w_db w') \<and>
        st_WithTx store (syncTx order rid t s h ls ps) w2 = (Inr res, w')" by simp
next
  fix w a w'
  assume q: "quiet d (w_db w)" and run: "st_WithTx store (syncTx order rid t s h ls ps) w = (Inr a, w')"
  have "ledger_ok (w_db w)" using ok q by (rule quiet_ledger [rotated])
  from keeps_snd [OF WithTx_ledger this] run have "db_ok (w_db w')"
    by (metis ledger_ok_def snd_conv)
  with q run show "case (Inr a :: err + SyncID \<times> int64) of Inl _ \<Rightarrow> quiet d (w_db w')
    | Inr res \<Rightarrow> \<exists>w2. quiet d (w_db w2) \<and> db_ok (w_db w') \<and>
        st_WithTx store (syncTx order rid t s h ls ps) w2 = (Inr res, w')" by auto
qed

lemma calm_run_post:
  "calm d (\<lambda>x. snd x \<noteq> None) m \<Longrightarrow>
   hoare (\<lambda>w. quiet d (w_db w)) m (run_post (st_WithTx store) tags proc g order rid d) (\<lambda>_ _. False)"
  unfolding calm_def by (erule hoare_weaken) (auto simp: run_post_def)

lemma commit_run_post:
  assumes "find (\<lambda>r. Rrem_ID r = rid) (t_remotes d) = Some row"
    and "execGitRunner_LsRemote proc g (Rrem_Url row) None wg = (Inr lsRefs, (wg :: db world))"
    and m: "\<And>d'. calm d' (\<lambda>_. True) m"
  shows "hoare (\<lambda>w. \<exists>w2. quiet d (w_db w2) \<and> db_ok (w_db w) \<and>
      st_WithTx store (syncTx order rid (Rrem_TaintAnyTagDeletion row \<noteq> 0) s h lsRefs (tags d rid)) w2 = (Inr res, w))
    m (run_post (st_WithTx store) tags proc g order rid d) (\<lambda>_ _. False)"
proof (rule hoareI)
  have calm: "\<exists>x. r = Inr x \<and> quiet (w_db w) (w_db w')" if "db_ok (w_db w)" "m w = (r, w')" for w r w'
    using m [of "w_db w"] quiet_refl [OF that(1)] that(2)
    by (cases r) (auto simp: calm_def dest: hoare_Inr hoare_Inl)
  fix w :: "db world"
  assume pre: "\<exists>w2. quiet d (w_db w2) \<and> db_ok (w_db w) \<and>
      st_WithTx store (syncTx order rid (Rrem_TaintAnyTagDeletion row \<noteq> 0) s h lsRefs (tags d rid)) w2 = (Inr res, w)"
  show False if "m w = (Inl e, w')" for e w'
    using calm [OF _ that] pre by blast
  fix a w'
  assume run: "m w = (Inr a, w')"
  from pre obtain w2 where w2: "quiet d (w_db w2)" "db_ok (w_db w)"
    "st_WithTx store (syncTx order rid (Rrem_TaintAnyTagDeletion row \<noteq> 0) s h lsRefs (tags d rid)) w2 = (Inr res, w)"
    by blast
  have tags: "tags d rid = tags (w_db w2) rid" using w2(1) tags_refs [of "w_db w2" d rid] by (simp add: quiet_def)
  have "quiet (w_db w) (w_db w')" using calm [OF w2(2) run] by blast
  with assms(1,2) w2 show "run_post (st_WithTx store) tags proc g order rid d a w'"
    unfolding run_post_def committed_def tags by blast
qed

text \<open>The three error paths that hold the lease give it back with the head they found.\<close>

lemma error_paths:
  assumes "lse_RemoteID l = rid" and "(rid, h, n) \<in> set (remote_heads d)" and "snd x \<noteq> None"
  shows "calm d (\<lambda>x. snd x \<noteq> None)
      (bindT (ignoreT (st_SetRemoteHealth store rid st e ok)) (\<lambda>_.
       bindT (ignoreT (lk_Release lock (Some l) h n)) (\<lambda>_. ret x)))"
    and "calm d (\<lambda>x. snd x \<noteq> None) (bindT (ignoreT (lk_Release lock (Some l) h n)) (\<lambda>_. ret x))"
    and "calm d (\<lambda>x. snd x \<noteq> None)
      (bindT (ignoreT (lk_Release lock (Some l) h n)) (\<lambda>_.
       bindT NowNS (\<lambda>now.
       bindT (ignoreT (st_SetRemoteHealth store rid st e now)) (\<lambda>_. ret x))))"
  using assms(3)
  by (intro calm_bind [OF calm_Release(2) [OF assms(1,2)]] calm_bind [OF calm_NowNS]
      calm_bind [OF calm_ignore] calm_ret SetRemoteHealth_quiet; simp)+

lemma calm_LsRemote:
  "calm d (\<lambda>x. \<forall>ls. x = Inr ls \<longrightarrow> (\<exists>wg :: db world. execGitRunner_LsRemote proc g url a wg = (Inr ls, wg)))
     (tryT (execGitRunner_LsRemote proc g url a))"
proof (rule calm_try)
  show "quietT (execGitRunner_LsRemote proc g url a)"
    by (rule quietT_reads) (simp add: execGitRunner_LsRemote_world)
  show "\<exists>wg :: db world. execGitRunner_LsRemote proc g url a wg = (Inr ls, wg)"
    if "execGitRunner_LsRemote proc g url a w = (Inr ls, w')" for w w' :: "db world" and ls
    using that execGitRunner_LsRemote_world [of proc g url a w] by auto
qed

lemma calm_ListTags: "calm d (\<lambda>x. \<forall>ps. x = Inr ps \<longrightarrow> ps = tags d rid) (tryT (st_ListTags store rid))"
proof (rule calm_try)
  show "quietT (st_ListTags store rid)" by (rule ListTags_quiet)
  show "ps = tags d rid" if "quiet d (w_db w)" "st_ListTags store rid w = (Inr ps, w')" for w ps w'
    using ListTags_rows [OF that(2)] that(1) tags_refs [of "w_db w" d rid] by (simp add: quiet_def)
qed

text \<open>What is still to be done once the lease is held.\<close>

lemma leased_run:
  assumes ok: "ledger_ok d" and row: "find (\<lambda>r. Rrem_ID r = rid) (t_remotes d) = Some row"
    and l: "lse_RemoteID l = rid" and head: "(rid, lse_ChainHeadAtLease l, Rrem_ChainLen row) \<in> set (remote_heads d)"
  shows "hoare (\<lambda>w. quiet d (w_db w))
     (bindT NowNS (\<lambda>startNS.
     let headBefore = lse_ChainHeadAtLease l in
     bindT (tryT (execGitRunner_LsRemote proc g (Rrem_Url row) None)) (\<lambda>x. case x of
       Inl lsErr \<Rightarrow>
         bindT (ignoreT (st_SetRemoteHealth store rid RemoteDegraded (errText lsErr) startNS)) (\<lambda>_.
         bindT (ignoreT (lk_Release lock (Some l) headBefore (Rrem_ChainLen row))) (\<lambda>_.
         ret (Some (failedResult headBefore), Some lsErr)))
     | Inr lsRefs \<Rightarrow>
     bindT (tryT (st_ListTags store rid)) (\<lambda>x. case x of
       Inl err \<Rightarrow>
         bindT (ignoreT (lk_Release lock (Some l) headBefore (Rrem_ChainLen row))) (\<lambda>_.
         ret (None, Some err))
     | Inr prior \<Rightarrow>
     bindT (tryT (st_WithTx store
       (syncTx order rid (Rrem_TaintAnyTagDeletion row \<noteq> 0) startNS headBefore lsRefs prior))) (\<lambda>x. case x of
       Inl txErr \<Rightarrow>
         bindT (ignoreT (lk_Release lock (Some l) headBefore (Rrem_ChainLen row))) (\<lambda>_.
         bindT NowNS (\<lambda>now.
         bindT (ignoreT (st_SetRemoteHealth store rid RemoteDegraded (errText txErr) now)) (\<lambda>_.
         ret (Some (failedResult headBefore), Some txErr))))
     | Inr (syncID, changed) \<Rightarrow>
     bindT (tryT (st_GetChainHead store rid)) (\<lambda>x. case x of
       Inl err \<Rightarrow> ret (None, Some err)
     | Inr (headAfter, newLen) \<Rightarrow>
     bindT (tryT (lk_Release lock (Some l) headAfter newLen)) (\<lambda>x. case x of
       Inl err \<Rightarrow> ret (None, Some err)
     | Inr _ \<Rightarrow>
     bindT NowNS (\<lambda>now.
     bindT (ignoreT (st_SetRemoteHealth store rid RemoteActive [] now)) (\<lambda>_.
     ret (Some (res lsRefs headBefore syncID changed headAfter), None))))))))))
   (run_post (st_WithTx store) tags proc g order rid d) (\<lambda>_ _. False)"
  (is "hoare ?pre (bindT NowNS ?body) ?post _")
  unfolding Let_def
proof (rule calm_then [OF calm_NowNS], rule calm_then [OF calm_LsRemote], goal_cases ls)
  case (ls startNS x)
  show ?case
  proof (rule hoare_case_sum, goal_cases)
    case (1 e)
    show ?case by (intro calm_run_post error_paths [OF l head]) simp
  next
    case (2 lsRefs)
    with ls(2) obtain wg :: "db world" where wg: "execGitRunner_LsRemote proc g (Rrem_Url row) None wg = (Inr lsRefs, wg)"
      by blast
    show ?case
    proof (rule calm_then [OF calm_ListTags], rule hoare_case_sum, goal_cases)
      case (1 y e)
      show ?case by (intro calm_run_post error_paths [OF l head]) simp
    next
      case (2 y ps)
      then have ps: "ps = tags d rid" by simp
      show ?case unfolding ps
      proof (rule hoare_bind [OF commit_step [OF ok]], rule hoare_case_sum, goal_cases)
        case (1 z e)
        show ?case unfolding 1 sum.case by (intro calm_run_post error_paths [OF l head]) simp
      next
        case (2 z rc)
        show ?case unfolding 2 sum.case
          by (rule hoare_case_prod, rule commit_run_post [OF row wg after_commit [OF l]])
      qed
    qed
  qed
qed

text \<open>Every run of the syncer returns, and is quiet or commits one transaction.\<close>

lemma first_read:
  assumes "db_ok d"
  shows "hoare (\<lambda>w. w_db w = d) (tryT (st_GetRemote store rid))
     (\<lambda>x w. quiet d (w_db w) \<and> (\<forall>r. x = Inr r \<longrightarrow>
        (\<exists>row. find (\<lambda>r. Rrem_ID r = rid) (t_remotes d) = Some row \<and> r = remoteFromRow row))) E"
proof (rule hoare_try, rule hoareI)
  fix w r w'
  assume "w_db w = d" and "st_GetRemote store rid w = (Inr r, w')"
  with GetRemote_row [of rid w r w'] quietT_snd [OF GetRemote_quiet, of w rid] assms
  show "quiet d (w_db w') \<and> (\<forall>r'. (Inr r :: err + Remote) = Inr r' \<longrightarrow>
      (\<exists>row. find (\<lambda>r. Rrem_ID r = rid) (t_remotes d) = Some row \<and> r' = remoteFromRow row))" by simp
next
  fix w e w'
  assume "w_db w = d" and "st_GetRemote store rid w = (Inl e, w')"
  with quietT_snd [OF GetRemote_quiet, of w rid] assms
  show "quiet d (w_db w') \<and> (\<forall>r. (Inl e :: err + Remote) = Inr r \<longrightarrow>
      (\<exists>row. find (\<lambda>r. Rrem_ID r = rid) (t_remotes d) = Some row \<and> r = remoteFromRow row))" by simp
qed

lemma calm_Acquire:
  assumes db: "db_ok d" and row: "find (\<lambda>r. Rrem_ID r = rid) (t_remotes d) = Some row"
  shows "calm d (\<lambda>x. \<forall>l. x = Inr l \<longrightarrow> lse_RemoteID l = rid \<and>
      (rid, lse_ChainHeadAtLease l, Rrem_ChainLen row) \<in> set (remote_heads d))
    (tryT (lk_AcquireRemoteLease lock rid h ttl))"
proof (rule calm_try [OF Acquire_quiet])
  fix w l w'
  assume q: "quiet d (w_db w)" and run: "lk_AcquireRemoteLease lock rid h ttl w = (Inr l, w')"
  have heads: "remote_heads (w_db w) = remote_heads d" using q by (simp add: quiet_def)
  from Acquire_head [OF run] obtain n where l: "lse_RemoteID l = rid" "(rid, lse_ChainHeadAtLease l, n) \<in> set (remote_heads d)"
    by (auto simp: heads)
  from remote_heads_unique [OF db find_remote_heads [OF row] l(2)] l
  show "lse_RemoteID l = rid \<and> (rid, lse_ChainHeadAtLease l, Rrem_ChainLen row) \<in> set (remote_heads d)" by simp
qed

lemma SyncRemote_hoare:
  assumes ok: "ledger_ok d"
  shows "hoare (\<lambda>w. w_db w = d)
     (SyncRemote errText order store (execGit proc g) lock holder rid)
     (run_post (st_WithTx store) tags proc g order rid d) (\<lambda>_ _. False)"
  unfolding SyncRemote_def execGit_sel
proof (rule hoare_bind [OF first_read], goal_cases)
  case 1
  show ?case using ok by (simp add: ledger_ok_def)
next
  case (2 x)
  have db: "db_ok d" using ok by (simp add: ledger_ok_def)
  show ?case
  proof (rule hoare_case_sum, goal_cases)
    case (1 e)
    show ?case by (rule hoare_pre [OF calm_run_post [OF calm_ret]]) simp_all
  next
    case (2 r)
    show ?case
    proof (rule hoare_pull, goal_cases)
      case 1
      then obtain row where row: "find (\<lambda>r. Rrem_ID r = rid) (t_remotes d) = Some row" and r: "r = remoteFromRow row"
        using 2 by blast
      have sel: "rem_URL r = Rrem_Url row" "rem_ChainLen r = Rrem_ChainLen row"
        "rem_TaintAnyTagDeletion r = (Rrem_TaintAnyTagDeletion row \<noteq> 0)"
        by (simp_all add: r remoteFromRow_def)
      show ?case unfolding sel
      proof (rule calm_then [OF calm_Acquire [OF db row]], rule hoare_case_sum, goal_cases)
        case (1 y e)
        show ?case by (rule calm_run_post [OF calm_ret]) simp
      next
        case (2 y l)
        then show ?case by (intro leased_run [OF ok row]) simp_all
      qed
    qed
  qed
qed

text \<open>The transaction of a run, with what is known of its arguments.\<close>

lemma sync_cases:
  assumes ok: "ledger_ok (w_db w)"
    and run: "SyncRemote errText order store (execGit proc g) lock holder rid w = (r, w')"
  obtains x where "r = Inr x" and "snd x \<noteq> None" and "quiet (w_db w) (w_db w')"
  | x row lsRefs algo startNS head wg w2 res w3 where "r = Inr x"
    and "find (\<lambda>r. Rrem_ID r = rid) (t_remotes (w_db w)) = Some row"
    and "execGitRunner_LsRemote proc g (Rrem_Url row) None (wg :: db world) = (Inr lsRefs, wg)"
    and "list_all (ref_parsed algo) lsRefs" and "quiet (w_db w) (w_db w2)"
    and "st_WithTx store (syncTx order rid (Rrem_TaintAnyTagDeletion row \<noteq> 0) startNS head lsRefs
          (tags (w_db w2) rid)) w2 = (Inr res, w3)"
    and "quiet (w_db w3) (w_db w')"
proof (cases r)
  case (Inl e)
  with hoare_Inl [OF SyncRemote_hoare [OF ok], of w errText order proc g holder rid e w'] run show thesis by simp
next
  case (Inr x)
  with hoare_Inr [OF SyncRemote_hoare [OF ok], of w] run
  have "run_post (st_WithTx store) tags proc g order rid (w_db w) x w'" by simp
  then consider "committed (st_WithTx store) tags proc g order rid (w_db w) (w_db w')"
    | "snd x \<noteq> None" "quiet (w_db w) (w_db w')"
    by (auto simp: run_post_def)
  then show thesis
  proof cases
    case 1
    then obtain row lsRefs startNS head and wg :: "db world" and w2 res w3 where
      c: "find (\<lambda>r. Rrem_ID r = rid) (t_remotes (w_db w)) = Some row"
      "execGitRunner_LsRemote proc g (Rrem_Url row) None wg = (Inr lsRefs, wg)" "quiet (w_db w) (w_db w2)"
      "st_WithTx store (syncTx order rid (Rrem_TaintAnyTagDeletion row \<noteq> 0) startNS head lsRefs
          (tags (w_db w2) rid)) w2 = (Inr res, w3)" "quiet (w_db w3) (w_db w')"
      by (auto simp: committed_def)
    from execGitRunner_LsRemote_parsed [OF c(2)] obtain algo where "list_all (ref_parsed algo) lsRefs" by blast
    from that(2) [OF Inr c(1,2) this c(3,4,5)] show thesis .
  qed (use that(1) Inr in blast)
qed

text \<open>The ledger survives every run.\<close>

lemma run_ledger:
  assumes ok: "ledger_ok (w_db w)"
  shows "ledger_ok (w_db (snd (SyncRemote errText order store (execGit proc g) lock holder rid w)))"
proof (cases "SyncRemote errText order store (execGit proc g) lock holder rid w")
  case (Pair r w')
  show ?thesis
  proof (rule sync_cases [OF ok Pair], goal_cases)
    case 1
    then show ?case using ok Pair quiet_ledger by simp
  next
    case (2 x row lsRefs algo startNS head wg w2 res w3)
    from quiet_ledger [OF 2(5) ok] keeps_snd [OF WithTx_ledger, of w2] 2(6) have "ledger_ok (w_db w3)" by (metis snd_conv)
    with quiet_ledger [OF 2(7)] Pair show ?case by simp
  qed
qed

end

section \<open>The SQLite store and lock\<close>

lemma GetRemote_Inr:
  "sqliteStore_GetRemote i w = (Inr r, w') \<Longrightarrow>
   \<exists>row. find (\<lambda>r. Rrem_ID r = i) (t_remotes (w_db w)) = Some row \<and> r = remoteFromRow row"
  by (auto simp: sqliteStore_GetRemote_def bindT_eq_Inr stmt_Inr sqlc_GetRemote_def read_one_Inr)

lemma Acquire_Inr:
  assumes "dbLease_AcquireRemoteLease leaseStore i h ttl w = (Inr l, w')"
  shows "lse_RemoteID l = i \<and> (\<exists>n. (i, lse_ChainHeadAtLease l, n) \<in> set (remote_heads (w_db w)))"
  using assms
  by (auto simp: dbLease_AcquireRemoteLease_def bindT_eq_Inr NowNS_Inr sqliteStore_def sqliteStore_TryAcquireLease_def
      stmt_Inr sqlc_GetRemoteChainHead_def read_one_Inr Let_def
      dest: find_remote_heads split: if_splits)

lemma ListTags_Inr: "sqliteStore_ListTags i w = (Inr ps, w') \<Longrightarrow> ps = tags_of (w_db w) i \<and> w_db w' = w_db w"
  by (auto simp: sqliteStore_ListTags_def bindT_eq_Inr stmt_Inr sqlc_ListTags_def tags_of_def)

lemma GetChainHead_Inr:
  "sqliteStore_GetChainHead i w = (Inr (h, n), w') \<Longrightarrow> (i, h, n) \<in> set (remote_heads (w_db w)) \<and> w_db w' = w_db w"
  by (auto simp: sqliteStore_GetChainHead_def stmt_Inr sqlc_GetChainHead_def read_one_Inr dest: find_remote_heads)

text \<open>The transaction of a sync keeps the ledger, whatever git listed.\<close>

lemma syncTx_keeps_ledger:
  "keeps ledger_ok (sqliteStore_WithTx (syncTx order rid taintAny startNS head lsRefs priors))"
  by (rule WithTx_keeps) (rule sqlite_ledger.inv_syncTx, simp_all)

lemma sqlite_sel [simp]:
  "st_GetRemote sqliteStore = sqliteStore_GetRemote" "st_ListTags sqliteStore = sqliteStore_ListTags"
  "st_SetRemoteHealth sqliteStore = sqliteStore_SetRemoteHealth" "st_WithTx sqliteStore = sqliteStore_WithTx"
  "st_GetChainHead sqliteStore = sqliteStore_GetChainHead"
  "lk_AcquireRemoteLease sqliteLock = dbLease_AcquireRemoteLease leaseStore"
  "lk_Release sqliteLock = dbLease_Release leaseStore"
  by (simp_all add: sqliteStore_def sqliteLock_def NewDBLease_def)

interpretation sqlite_host: sync_host sqliteStore sqliteLock tags_of
proof (unfold_locales, unfold sqlite_sel, goal_cases)
  case (2 i w r w')
  then show ?case by (rule GetRemote_Inr)
next
  case (3 i status e ok)
  show ?case by (rule quiet_SetRemoteHealth)
next
  case (6 d' d i)
  then show ?case by (simp add: tags_of_def)
next
  case (9 i holder ttl)
  show ?case by (rule quiet_Acquire)
next
  case (10 i holder ttl w l w')
  then show ?case by (rule Acquire_Inr)
next
  case (11 w l h n)
  then show ?case by (rule quiet_Release)
next
  case (12 fn w e w')
  then show ?case by (rule WithTx_Inl)
next
  case (13 order rid taintAny startNS head lsRefs priors)
  show ?case by (rule syncTx_keeps_ledger)
qed (auto dest: ListTags_Inr GetChainHead_Inr intro: quietT_reads simp: GetRemote_reads ListTags_reads GetChainHead_reads)

end
