(* ===== verification/Sync_Taint.thy ===== *)
theory Sync_Taint
  imports Sync_Run
begin

text \<open>
  What \<open>SyncRemote\<close> guarantees on the SQLite store: the ledger and the tag rows stay
  consistent whatever git returns and whichever statement fails, a taint is never cleared, and
  every change of a known tag is detected.
\<close>

section \<open>Tag rows\<close>

text \<open>
  A row is consistent when its object ids can be read back and it has a first-taint time only
  if it is tainted. (A tag adopted from peers may be tainted without one.)
\<close>

definition ref_ok :: "Ref \<Rightarrow> bool" where
  "ref_ok r \<longleftrightarrow> ref_storable r \<and> (ref_TaintFirstNS r \<noteq> None \<longrightarrow> ref_Tainted r)"

definition rows_ok :: "db \<Rightarrow> bool" where
  "rows_ok d \<longleftrightarrow> (\<forall>r \<in> set (t_refs d). ref_ok (refFromRow r))"

definition tainted_at :: "RemoteID \<Rightarrow> string \<Rightarrow> db \<Rightarrow> bool" where
  "tainted_at rid tag d \<longleftrightarrow> (\<exists>r. ref_at d rid tag = Some r \<and> Rref_Tainted r \<noteq> 0)"

lemma ref_at_in: "ref_at d rid tag = Some r \<Longrightarrow> r \<in> set (t_refs d)"
  by (auto simp: ref_at_def find_Some_iff)

lemma refFromRow_TaintFirst [simp]: "ref_TaintFirstNS (refFromRow r) = Rref_TaintFirstNs r"
  by (simp add: refFromRow_simp)

text \<open>The row an upsert writes, for any row given to it.\<close>

lemma UpsertRef_rows:
  assumes run: "sqlc_UpsertRef (upsertParams ref) d = Inr (row, d')"
  shows "Rref_RemoteID row = ref_RemoteID ref" and "Rref_TagName row = ref_TagName ref"
    and "Rref_Tainted row = boolToInt (ref_Tainted ref)"
    and "ref_at d' = (ref_at d)(ref_RemoteID ref := (ref_at d (ref_RemoteID ref))(ref_TagName ref := Some row))"
    and "set (t_refs d') \<subseteq> set (t_refs d) \<union> {row} \<union> upsert_set (upsertParams ref) ` set (t_refs d)"
proof -
  have row: "Rref_RemoteID row = ref_RemoteID ref \<and> Rref_TagName row = ref_TagName ref \<and>
      Rref_Tainted row = boolToInt (ref_Tainted ref) \<and>
      set (t_refs d') \<subseteq> set (t_refs d) \<union> {row} \<union> upsert_set (upsertParams ref) ` set (t_refs d)"
    using run
    by (auto simp: sqlc_UpsertRef_def upsertParams_simp upsert_set_def update_where_def Let_def find_Some_iff
        split: option.splits if_splits)
  then show "Rref_RemoteID row = ref_RemoteID ref" "Rref_TagName row = ref_TagName ref"
    "Rref_Tainted row = boolToInt (ref_Tainted ref)"
    "set (t_refs d') \<subseteq> set (t_refs d) \<union> {row} \<union> upsert_set (upsertParams ref) ` set (t_refs d)" by blast+
  let ?P = "\<lambda>r. Rref_RemoteID r = ref_RemoteID ref \<and> Rref_TagName r = ref_TagName ref"
  show "ref_at d' = (ref_at d)(ref_RemoteID ref := (ref_at d (ref_RemoteID ref))(ref_TagName ref := Some row))"
  proof (intro ext, cases "find ?P (t_refs d)")
    fix r t
    case None
    with run have "t_refs d' = t_refs d @ [row]"
      by (auto simp: sqlc_UpsertRef_def upsertParams_simp Let_def split: if_splits)
    with None row show "ref_at d' r t =
        ((ref_at d)(ref_RemoteID ref := (ref_at d (ref_RemoteID ref))(ref_TagName ref := Some row))) r t"
      by (auto simp: ref_at_def find_snoc split: option.splits)
  next
    fix r t
    case (Some old)
    with run have d': "t_refs d' = update_where ?P (upsert_set (upsertParams ref)) (t_refs d)"
      and row': "row = upsert_set (upsertParams ref) old"
      by (auto simp: sqlc_UpsertRef_def upsertParams_simp Let_def)
    have "ref_at d' r t = map_option (\<lambda>x. if ?P x then upsert_set (upsertParams ref) x else x) (ref_at d r t)"
      unfolding ref_at_def d' by (rule find_update_where_other) (simp add: upsert_set_def)
    with Some show "ref_at d' r t =
        ((ref_at d)(ref_RemoteID ref := (ref_at d (ref_RemoteID ref))(ref_TagName ref := Some row))) r t"
      by (cases "ref_at d r t") (auto simp: row' dest: ref_at_key simp flip: ref_at_def)
  qed
qed

text \<open>The other operations of a transaction leave the tag rows alone.\<close>

lemma tx_same_refs:
  "oks (\<lambda>t. P (t_refs (stx_q t))) (sqliteTx_AppendObservation ob) (\<lambda>_ t. P (t_refs (stx_q t)))"
  "oks (\<lambda>t. P (t_refs (stx_q t))) (sqliteTx_AppendTaintEvent e) (\<lambda>_ t. P (t_refs (stx_q t)))"
  "oks (\<lambda>t. P (t_refs (stx_q t))) (sqliteTx_WriteSync s) (\<lambda>_ t. P (t_refs (stx_q t)))"
  "oks (\<lambda>t. P (t_refs (stx_q t))) (sqliteTx_PruneSyncs i n) (\<lambda>_ t. P (t_refs (stx_q t)))"
proof -
  show "oks (\<lambda>t. P (t_refs (stx_q t))) (sqliteTx_AppendObservation ob) (\<lambda>_ t. P (t_refs (stx_q t)))"
  proof (rule oksI)
    fix w a w'
    assume p: "P (t_refs (stx_q (w_db w)))" and run: "sqliteTx_AppendObservation ob w = (Inr a, w')"
    obtain sq ob' where a: "a = (sq, ob')" by (cases a)
    from run [unfolded a] refl refl obtain h n where
      "w_db w' = (w_db w)\<lparr>stx_q := append_db (stx_q (w_db w)) ob' (effective_sync ob (stx_syncID (w_db w))) h n\<rparr>"
      by (rule AppendObservation_Inr)
    with p show "P (t_refs (stx_q (w_db w')))" by (simp add: append_db_def)
  qed
  show "oks (\<lambda>t. P (t_refs (stx_q t))) (sqliteTx_AppendTaintEvent e) (\<lambda>_ t. P (t_refs (stx_q t)))"
    unfolding sqliteTx_AppendTaintEvent_def
    by (rule oks_txq) (auto simp: sqlc_InsertTaintEvent_def Let_def split: if_splits option.splits)
  show "oks (\<lambda>t. P (t_refs (stx_q t))) (sqliteTx_WriteSync s) (\<lambda>_ t. P (t_refs (stx_q t)))"
    unfolding sqliteTx_WriteSync_def
    by (rule oks_bind [OF oks_txq [where Q = "\<lambda>_ t. P (t_refs (stx_q t))"]
          oks_bind [OF oks_modifyT [where Q = "\<lambda>_ t. P (t_refs (stx_q t))"] oks_ret]])
      (auto simp: sqlc_InsertSync_def Let_def split: if_splits)
  show "oks (\<lambda>t. P (t_refs (stx_q t))) (sqliteTx_PruneSyncs i n) (\<lambda>_ t. P (t_refs (stx_q t)))"
    unfolding sqliteTx_PruneSyncs_def
    by (rule oks_txq) (auto simp: sqlc_PruneSyncs_def Let_def split: if_splits)
qed

lemma oks_UpsertRefProjection:
  assumes "\<And>d row d'. P d \<Longrightarrow> sqlc_UpsertRef (upsertParams ref) d = Inr (row, d') \<Longrightarrow>
      Q (ref\<lparr>ref_ID := Rref_ID row, ref_RemoteID := Rref_RemoteID row\<rparr>) d'"
  shows "oks (\<lambda>t. P (stx_q t)) (sqliteTx_UpsertRefProjection ref) (\<lambda>ref' t. Q ref' (stx_q t))"
  unfolding sqliteTx_UpsertRefProjection_def
  by (rule oks_bind [OF oks_txq [where Q = "\<lambda>row t. Q (ref\<lparr>ref_ID := Rref_ID row, ref_RemoteID := Rref_RemoteID row\<rparr>) (stx_q t)"]
        oks_ret]) (use assms in auto)

lemma rows_ok_upsert:
  assumes "ref_ok ref" and "rows_ok d" and run: "sqlc_UpsertRef (upsertParams ref) d = Inr (row, d')"
  shows "rows_ok d'"
proof -
  have st: "ref_storable ref" using assms(1) by (simp add: ref_ok_def)
  have old: "ref_ok (refFromRow (upsert_set (upsertParams ref) r))" if "r \<in> set (t_refs d)" for r
    using assms(1,2) that unfolding refFromRow_upsert_set [OF st]
    by (auto simp: ref_ok_def rows_ok_def ref_storable_def)
  have "ref_ok (refFromRow row)"
  proof (cases "find (\<lambda>r. Rref_RemoteID r = ref_RemoteID ref \<and> Rref_TagName r = ref_TagName ref) (t_refs d)")
    case None
    with run assms(1) show ?thesis
      by (auto simp: sqlc_UpsertRef_def upsertParams_simp Let_def ref_ok_def ref_storable_def refFromRow_simp boolToInt_def split: if_splits)
  next
    case (Some r)
    with run old [of r] show ?thesis
      by (auto simp: sqlc_UpsertRef_def upsertParams_simp Let_def find_Some_iff)
  qed
  with old assms(2) UpsertRef_rows(5) [OF run] show ?thesis by (force simp: rows_ok_def)
qed

interpretation sqlite_rows: tx_invariant sqliteTx_Tx "\<lambda>t. rows_ok (stx_q t)" ref_ok
proof
  show "oks (\<lambda>t. rows_ok (stx_q t)) (tx_UpsertRefProjection sqliteTx_Tx ref) (\<lambda>ref' t. ref_ok ref' \<and> rows_ok (stx_q t))"
    if "ref_ok ref" for ref
    unfolding sqliteTx_Tx_sel
    by (rule oks_UpsertRefProjection) (use that rows_ok_upsert in \<open>auto simp: ref_ok_def ref_storable_def\<close>)
qed (auto simp: rows_ok_def ref_ok_def ref_storable_def intro!: tx_same_refs)

text \<open>A row that is tainted stays so as long as no row with its key is written untainted.\<close>

interpretation sqlite_sticky: tx_invariant sqliteTx_Tx "\<lambda>t. tainted_at rid tag (stx_q t)"
    "\<lambda>ref. ref_keyed rid tag ref \<longrightarrow> ref_Tainted ref" for rid tag
proof
  show "oks (\<lambda>t. tainted_at rid tag (stx_q t)) (tx_UpsertRefProjection sqliteTx_Tx ref)
      (\<lambda>ref' t. (ref_keyed rid tag ref' \<longrightarrow> ref_Tainted ref') \<and> tainted_at rid tag (stx_q t))"
    if ref: "ref_keyed rid tag ref \<longrightarrow> ref_Tainted ref" for ref
    unfolding sqliteTx_Tx_sel
  proof (rule oks_UpsertRefProjection)
    fix d row d'
    assume "tainted_at rid tag d" and run: "sqlc_UpsertRef (upsertParams ref) d = Inr (row, d')"
    with ref UpsertRef_rows [OF run]
    show "(ref_keyed rid tag (ref\<lparr>ref_ID := Rref_ID row, ref_RemoteID := Rref_RemoteID row\<rparr>) \<longrightarrow>
        ref_Tainted (ref\<lparr>ref_ID := Rref_ID row, ref_RemoteID := Rref_RemoteID row\<rparr>)) \<and> tainted_at rid tag d'"
      by (auto simp: tainted_at_def ref_keyed_def boolToInt_def)
  qed
qed (auto simp: tainted_at_def ref_at_def intro!: tx_same_refs)

section \<open>The prior projection\<close>

lemma map_of_priorMap: "map_of (priorMap ps) tag = find (\<lambda>r. ref_TagName r = tag) (rev ps)"
proof -
  have "map_of (foldl (\<lambda>m r. AList.update (ref_TagName r) r m) m ps) tag =
      (case find (\<lambda>r. ref_TagName r = tag) (rev ps) of None \<Rightarrow> map_of m tag | Some r \<Rightarrow> Some r)" for m
    by (induction ps rule: rev_induct) (auto simp: update_conv' split: option.splits)
  then show ?thesis by (simp add: priorMap_def split: option.splits)
qed

lemma find_unique:
  assumes "\<And>x y. x \<in> set xs \<Longrightarrow> y \<in> set xs \<Longrightarrow> P x \<Longrightarrow> P y \<Longrightarrow> x = y" and "set ys = set xs"
  shows "find P ys = find P xs"
proof (cases "find P xs")
  case None
  with assms(2) have "find P ys = None" by (auto simp: find_None_iff)
  with None show ?thesis by simp
next
  case (Some x)
  then have x: "x \<in> set ys" "P x" using assms(2) by (auto simp: find_Some_iff)
  then obtain y where y: "find P ys = Some y" by (cases "find P ys") (auto simp: find_None_iff)
  then have "y \<in> set ys" "P y" by (auto simp: find_Some_iff)
  with x assms Some y show ?thesis by (metis)
qed

lemma find_filter: "find P (filter Q xs) = find (\<lambda>x. Q x \<and> P x) xs"
  by (induction xs) auto

lemma find_map: "find P (map f xs) = map_option f (find (\<lambda>x. P (f x)) xs)"
  by (induction xs) auto

lemma priorMap_rows:
  assumes "db_ok d" and "set rows = set (filter (\<lambda>r. Rref_RemoteID r = rid) (t_refs d))"
  shows "map_of (priorMap (map refFromRow rows)) = v_refs (db_view d) rid"
proof
  fix tag
  let ?rows = "filter (\<lambda>r. Rref_RemoteID r = rid) (t_refs d)"
  have dist: "distinct (map (\<lambda>r. (Rref_RemoteID r, Rref_TagName r)) (t_refs d))"
    using assms by (simp add: db_ok_def refs_ok_def)
  have "find (\<lambda>r. Rref_TagName r = tag) (rev rows) = find (\<lambda>r. Rref_TagName r = tag) ?rows"
  proof (rule find_unique)
    fix x y
    assume "x \<in> set ?rows" "y \<in> set ?rows" "Rref_TagName x = tag" "Rref_TagName y = tag"
    then show "x = y" using dist by (auto simp: distinct_map dest: inj_onD)
  qed (simp add: assms)
  then show "map_of (priorMap (map refFromRow rows)) tag = v_refs (db_view d) rid tag"
    by (simp add: map_of_priorMap rev_map find_map find_filter db_view_def ref_at_def)
qed

lemma priorMap_tags: "db_ok d \<Longrightarrow> map_of (priorMap (tags_of d rid)) = v_refs (db_view d) rid"
  unfolding tags_of_def by (rule priorMap_rows) simp_all

lemma prior_ok_view: "rows_ok d \<Longrightarrow> prior_ok rid tag (v_refs (db_view d) rid tag)"
  by (auto simp: prior_ok_def db_view_def ref_keyed_def rows_ok_def ref_ok_def
      dest: ref_at_in ref_at_key split: option.splits)

lemma ls_ok_parsed: "ref_parsed algo n \<Longrightarrow> ls_ok n"
  by (auto simp: ref_parsed_def ls_ok_def split: if_splits)

section \<open>What every run keeps\<close>

definition sync_ok :: "db \<Rightarrow> bool" where
  "sync_ok d \<longleftrightarrow> ledger_ok d \<and> rows_ok d"

lemma sync_okD: "sync_ok d \<Longrightarrow> ledger_ok d" "sync_ok d \<Longrightarrow> rows_ok d" "sync_ok d \<Longrightarrow> db_ok d"
  by (simp_all add: sync_ok_def ledger_ok_def)

lemma quiet_sync_ok: "quiet d d' \<Longrightarrow> sync_ok d \<Longrightarrow> sync_ok d'"
  using quiet_ledger [of d d'] by (simp add: sync_ok_def rows_ok_def quiet_def)

lemmas SyncRemote_run = sqlite_host.sync_cases [unfolded sqlite_sel]

lemma set_order:
  assumes "\<And>xs. mset (order xs) = mset xs"
  shows "set (order xs) = set xs"
  using assms [of xs] by (metis set_mset_mset)

text \<open>An invariant that the quiet operations and the transaction keep is kept by every run.\<close>

lemma SyncRemote_keeps:
  assumes ok: "sync_ok (w_db w)" and I: "I (w_db w)"
    and order: "\<And>xs. mset (order xs) = mset xs"
    and quiet: "\<And>d d'. quiet d d' \<Longrightarrow> I d \<Longrightarrow> I d'"
    and tx: "\<And>d lsRefs algo taintAny startNS head. sync_ok d \<Longrightarrow> I d \<Longrightarrow> list_all (ref_parsed algo) lsRefs \<Longrightarrow>
      oks (\<lambda>t. I (stx_q t)) (syncTx order rid taintAny startNS head lsRefs (tags_of d rid) sqliteTx_Tx)
        (\<lambda>_ t. I (stx_q t))"
  shows "I (w_db (snd (SyncRemote errText order sqliteStore (execGit proc g) sqliteLock holder rid w)))"
proof (cases "SyncRemote errText order sqliteStore (execGit proc g) sqliteLock holder rid w")
  case (Pair r w')
  show ?thesis
  proof (rule SyncRemote_run [OF sync_okD(1) [OF ok] Pair], goal_cases)
    case 1
    then show ?case using quiet I Pair by simp
  next
    case (2 x row lsRefs algo startNS head wg w2 res w3)
    have I2: "I (w_db w2)" and ok2: "sync_ok (w_db w2)"
      using quiet [OF 2(5) I] quiet_sync_ok [OF 2(5) ok] by simp_all
    have "keeps I (sqliteStore_WithTx (syncTx order rid (Rrem_TaintAnyTagDeletion row \<noteq> 0) startNS head lsRefs
          (tags_of (w_db w2) rid)))"
      by (rule WithTx_keeps) (rule tx [OF ok2 I2 2(4)])
    from keeps_snd [OF this I2] 2(6) have "I (w_db w3)" by simp
    with quiet [OF 2(7)] Pair show ?case by simp
  qed
qed

lemma prior_rows:
  assumes "sync_ok d" and "map_of (priorMap (tags_of d rid)) tag = Some p"
  shows "ref_ok p" and "ref_keyed rid tag p" and "\<exists>r. ref_at d rid tag = Some r \<and> p = refFromRow r"
proof -
  from assms show *: "\<exists>r. ref_at d rid tag = Some r \<and> p = refFromRow r"
    by (auto simp: priorMap_tags sync_okD db_view_def)
  with assms(1) show "ref_ok p" "ref_keyed rid tag p"
    by (auto simp: sync_ok_def rows_ok_def ref_keyed_def dest: ref_at_in ref_at_key)
qed

lemma order_entry:
  assumes "\<And>xs. mset (order xs) = mset xs" and "(tag, p) \<in> set (order (priorMap ps))"
  shows "map_of (priorMap ps) tag = Some p"
  using assms(2) priorMap_distinct [of ps] by (simp add: set_order [of order, OF assms(1)])

lemma SyncRemote_rows_ok:
  assumes ok: "sync_ok (w_db w)" and order: "\<And>xs. mset (order xs) = mset xs"
  shows "sync_ok (w_db (snd (SyncRemote errText order sqliteStore (execGit proc g) sqliteLock holder rid w)))"
proof (rule SyncRemote_keeps [where I = sync_ok, OF ok ok order quiet_sync_ok], assumption+)
  fix d lsRefs algo taintAny startNS head
  assume ok: "sync_ok d" and ls: "list_all (ref_parsed algo) lsRefs"
  let ?tx = "syncTx order rid taintAny startNS head lsRefs (tags_of d rid) sqliteTx_Tx"
  have "oks (\<lambda>t. rows_ok (stx_q t)) ?tx (\<lambda>_ t. rows_ok (stx_q t))"
  proof (rule sqlite_rows.inv_syncTx)
    fix now ns
    assume "now \<in> set lsRefs"
    then have "ls_ok now" using ls ls_ok_parsed by (auto simp: list_all_iff)
    moreover have "ref_ok p" if "map_of (priorMap (tags_of d rid)) (lsr_Name now) = Some p" for p
      using prior_rows [OF ok that] by simp
    ultimately show "ref_ok (projectTag (map_of (priorMap (tags_of d rid)) (lsr_Name now)) now ns rid)"
      by (cases "map_of (priorMap (tags_of d rid)) (lsr_Name now)")
        (auto simp: ref_ok_def intro: projectTag_storable)
  next
    fix tag p ns
    assume "(tag, p) \<in> set (order (priorMap (tags_of d rid)))"
    from prior_rows(1) [OF ok order_entry [OF order this]]
    show "ref_ok (p\<lparr>ref_Deleted := True, ref_LastSeenNS := ns\<rparr>)" by (simp add: ref_ok_def ref_storable_def)
  qed
  moreover have "oks tx_ledger_ok ?tx (\<lambda>_. tx_ledger_ok)"
    by (rule sqlite_ledger.inv_syncTx) simp_all
  ultimately show "oks (\<lambda>t. sync_ok (stx_q t)) ?tx (\<lambda>_ t. sync_ok (stx_q t))"
    unfolding sync_ok_def by (intro oks_conj) (rule oks_weaken, assumption, simp_all)+
qed

lemma SyncRemote_taint_sticky:
  assumes ok: "sync_ok (w_db w)" and order: "\<And>xs. mset (order xs) = mset xs" and t: "tainted_at rid' tag (w_db w)"
  shows "tainted_at rid' tag
    (w_db (snd (SyncRemote errText order sqliteStore (execGit proc g) sqliteLock holder rid w)))"
proof (rule SyncRemote_keeps [where I = "tainted_at rid' tag", OF ok t order])
  show "tainted_at rid' tag d'" if "quiet d d'" "tainted_at rid' tag d" for d d'
    using that by (simp add: tainted_at_def ref_at_def quiet_def)
next
  fix d lsRefs algo taintAny startNS head
  assume ok: "sync_ok d" and t: "tainted_at rid' tag d"
  have prior: "ref_Tainted p" if "map_of (priorMap (tags_of d rid)) tag' = Some p" "ref_keyed rid' tag p" for p tag'
    using prior_rows(2,3) [OF ok that(1)] that(2) t by (auto simp: ref_keyed_def tainted_at_def)
  show "oks (\<lambda>t. tainted_at rid' tag (stx_q t))
      (syncTx order rid taintAny startNS head lsRefs (tags_of d rid) sqliteTx_Tx) (\<lambda>_ t. tainted_at rid' tag (stx_q t))"
  proof (rule sqlite_sticky.inv_syncTx)
    fix now ns
    show "ref_keyed rid' tag (projectTag (map_of (priorMap (tags_of d rid)) (lsr_Name now)) now ns rid) \<longrightarrow>
        ref_Tainted (projectTag (map_of (priorMap (tags_of d rid)) (lsr_Name now)) now ns rid)"
    proof (cases "map_of (priorMap (tags_of d rid)) (lsr_Name now)")
      case None
      with t show ?thesis by (auto simp: ref_keyed_def tainted_at_def priorMap_tags sync_okD [OF ok] db_view_def)
    next
      case (Some p)
      with prior [OF Some] prior_rows(2) [OF ok Some] show ?thesis by (auto simp: ref_keyed_def)
    qed
  next
    fix tag' p ns
    assume "(tag', p) \<in> set (order (priorMap (tags_of d rid)))"
    from prior [OF order_entry [OF order this]]
    show "ref_keyed rid' tag (p\<lparr>ref_Deleted := True, ref_LastSeenNS := ns\<rparr>) \<longrightarrow>
        ref_Tainted (p\<lparr>ref_Deleted := True, ref_LastSeenNS := ns\<rparr>)" by (simp add: ref_keyed_def)
  qed
qed

end
