(* ===== verification/Progress.thy ===== *)
theory Progress
  imports Sync_Remote
begin

text \<open>
  Progress: when no statement fails for an outside reason, a computation returns a value.
  \<open>runs P m Q\<close> is total correctness in fault-free worlds. The locale \<open>tx_progress\<close> says when the
  operations of a transaction succeed; under it the transaction of a sync succeeds.
\<close>

section \<open>Total correctness without faults\<close>

definition runs :: "('d \<Rightarrow> bool) \<Rightarrow> ('d, 'a) io \<Rightarrow> ('a \<Rightarrow> 'd \<Rightarrow> bool) \<Rightarrow> bool" where
  "runs P m Q \<longleftrightarrow>
     (\<forall>w. no_faults w \<longrightarrow> P (w_db w) \<longrightarrow> (\<exists>a w'. m w = (Inr a, w') \<and> no_faults w' \<and> Q a (w_db w')))"

lemma runsI:
  "(\<And>w. no_faults w \<Longrightarrow> P (w_db w) \<Longrightarrow> \<exists>a w'. m w = (Inr a, w') \<and> no_faults w' \<and> Q a (w_db w')) \<Longrightarrow> runs P m Q"
  by (simp add: runs_def)

lemma runsE:
  assumes "runs P m Q" and "no_faults w" and "P (w_db w)"
  obtains a w' where "m w = (Inr a, w')" and "no_faults w'" and "Q a (w_db w')"
  using assms by (auto simp: runs_def)

lemma runs_ret: "(\<And>d. P d \<Longrightarrow> Q a d) \<Longrightarrow> runs P (ret a) Q"
  by (simp add: runs_def ret_def)

lemma runs_bind:
  assumes "runs P m R" and "\<And>a. runs (R a) (f a) Q"
  shows "runs P (bindT m f) Q"
proof (rule runsI)
  fix w :: "'a world"
  assume "no_faults w" and "P (w_db w)"
  with assms(1) obtain a w1 where "m w = (Inr a, w1)" "no_faults w1" "R a (w_db w1)" by (rule runsE)
  moreover from assms(2) this(2,3) obtain b w2 where "f a w1 = (Inr b, w2)" "no_faults w2" "Q b (w_db w2)"
    by (rule runsE)
  ultimately show "\<exists>a w'. bindT m f w = (Inr a, w') \<and> no_faults w' \<and> Q a (w_db w')" by auto
qed

lemma runs_weaken:
  assumes "runs P' m Q'" and "\<And>d. P d \<Longrightarrow> P' d" and "\<And>a d. Q' a d \<Longrightarrow> Q a d"
  shows "runs P m Q"
  using assms unfolding runs_def by metis

lemma runs_NowNS: "(\<And>a d. P d \<Longrightarrow> Q a d) \<Longrightarrow> runs P NowNS Q"
  by (simp add: runs_def NowNS_def no_faults_def)

lemma runs_modifyT: "(\<And>d. P d \<Longrightarrow> Q () (f d)) \<Longrightarrow> runs P (modifyT f) Q"
  by (simp add: runs_def modifyT_def no_faults_def)

lemma runs_getsT: "(\<And>d. P d \<Longrightarrow> Q (f d) d) \<Longrightarrow> runs P (getsT f) Q"
  by (simp add: runs_def getsT_def)

lemma runs_stmt:
  assumes "\<And>d. P d \<Longrightarrow> \<exists>a d'. q d = Inr (a, d') \<and> Q a d'"
  shows "runs P (stmt q) Q"
proof (rule runsI)
  fix w :: "'a world"
  assume "no_faults w" and "P (w_db w)"
  with assms [of "w_db w"] show "\<exists>a w'. stmt q w = (Inr a, w') \<and> no_faults w' \<and> Q a (w_db w')"
    by (auto simp: stmt_def no_faults_def)
qed

lemma runs_if: "(b \<Longrightarrow> runs P m Q) \<Longrightarrow> (\<not> b \<Longrightarrow> runs P n Q) \<Longrightarrow> runs P (if b then m else n) Q"
  by simp

lemma runs_case_prod:
  "(\<And>a b. x = (a, b) \<Longrightarrow> runs P (f a b) Q) \<Longrightarrow> runs P (case x of (a, b) \<Rightarrow> f a b) Q"
  by (cases x) simp

lemma runs_case_option:
  "(x = None \<Longrightarrow> runs P m Q) \<Longrightarrow> (\<And>a. x = Some a \<Longrightarrow> runs P (f a) Q) \<Longrightarrow>
   runs P (case x of None \<Rightarrow> m | Some a \<Rightarrow> f a) Q"
  by (cases x) simp_all

lemma runs_pull: "(c \<Longrightarrow> runs P m Q) \<Longrightarrow> runs (\<lambda>d. c \<and> P d) m Q"
  by (auto simp: runs_def)

lemma runs_mapErr: "runs P m Q \<Longrightarrow> runs P (mapErrT g m) Q"
  unfolding runs_def by (metis mapErrT_Inr)

lemma runs_try: "runs P m (\<lambda>a. Q (Inr a)) \<Longrightarrow> runs P (tryT m) Q"
  unfolding runs_def tryT_def by fastforce

text \<open>A caught call that succeeds: the error branch is not taken.\<close>

lemma runs_try_then:
  assumes "runs P m R" and "\<And>a. runs (R a) (g a) Q"
  shows "runs P (bindT (tryT m) (\<lambda>x. case x of Inl e \<Rightarrow> f e | Inr a \<Rightarrow> g a)) Q"
proof (rule runs_bind [OF runs_try])
  show "runs P m (\<lambda>a d. case Inr a :: err + 'b of Inl _ \<Rightarrow> False | Inr a \<Rightarrow> R a d)" using assms(1) by simp
  show "runs (\<lambda>d. case x of Inl _ \<Rightarrow> False | Inr a \<Rightarrow> R a d) (case x of Inl e \<Rightarrow> f e | Inr a \<Rightarrow> g a) Q" for x
    using assms(2) by (cases x) (simp_all add: runs_def)
qed

text \<open>A discarded result, whatever it is, as long as the computation keeps faults away.\<close>

lemma runs_ignore: "runs P m (\<lambda>_. Q ()) \<Longrightarrow> runs P (ignoreT m) Q"
  unfolding runs_def ignoreT_def by fastforce

lemma runs_for:
  assumes "\<And>ys x zs a. xs = ys @ x # zs \<Longrightarrow> runs (I ys) (body x a) (\<lambda>_. I (ys @ [x]))"
  shows "runs (I []) (forT xs a body) (\<lambda>_. I xs)"
proof -
  have "runs (I ys) (forT zs a body) (\<lambda>_. I xs)" if "xs = ys @ zs" for ys zs a
    using that
  proof (induction zs arbitrary: ys a)
    case Nil
    then show ?case by (simp add: runs_ret)
  next
    case (Cons x zs)
    have "runs (I (ys @ [x])) (forT zs a' body) (\<lambda>_. I xs)" for a'
      using Cons by simp
    with assms [OF Cons.prems] show ?case by (auto intro: runs_bind)
  qed
  from this [of "[]" xs a] show ?thesis by simp
qed

section \<open>Progress of a sync's transaction\<close>

lemma seenObservation_sel [simp]:
  "obs_RemoteID (seenObservation r i sid ev now prev ns) = r" "obs_RefID (seenObservation r i sid ev now prev ns) = i"
  "obs_SyncID (seenObservation r i sid ev now prev ns) = sid" "obs_EventType (seenObservation r i sid ev now prev ns) = ev"
  by (simp_all add: seenObservation_def zeroObservation_def Let_def split: option.splits)

text \<open>
  What a store may ask of the values it is given: names that it accepts (\<open>ok_name\<close>) and ids and
  heads whose bytes it accepts (\<open>ok_bytes\<close>).
\<close>

definition ref_accepted :: "(string \<Rightarrow> bool) \<Rightarrow> (bytes \<Rightarrow> bool) \<Rightarrow> Ref \<Rightarrow> bool" where
  "ref_accepted ok okb r \<longleftrightarrow> ok (ref_TagName r) \<and> okb (oid_Raw (ref_CurrentOID r)) \<and>
     okb (oid_Raw (ref_CurrentPeeledOID r)) \<and> okb (oid_Raw (ref_FirstOID r))"

definition obs_accepted :: "(bytes \<Rightarrow> bool) \<Rightarrow> Observation \<Rightarrow> bool" where
  "obs_accepted okb ob \<longleftrightarrow> okb (oid_Raw (obs_PrevOID ob)) \<and> okb (oid_Raw (obs_NewOID ob)) \<and>
     okb (oid_Raw (obs_PrevPeeledOID ob)) \<and> okb (oid_Raw (obs_NewPeeledOID ob)) \<and> obs_CanonicalMeta ob = []"

definition ls_accepted :: "(string \<Rightarrow> bool) \<Rightarrow> (bytes \<Rightarrow> bool) \<Rightarrow> LsRemoteRef \<Rightarrow> bool" where
  "ls_accepted ok okb n \<longleftrightarrow> ok (lsr_Name n) \<and> okb (oid_Raw (lsr_OID n)) \<and> okb (oid_Raw (lsr_PeeledOID n))"

lemma accepted_any [simp]: "ref_accepted (\<lambda>_. True) (\<lambda>_. True) r" "ls_accepted (\<lambda>_. True) (\<lambda>_. True) n"
  by (simp_all add: ref_accepted_def ls_accepted_def)

lemma ref_accepted_update [simp]:
  "ref_accepted ok okb (r\<lparr>ref_Tainted := b, ref_TaintFirstNS := f\<rparr>) = ref_accepted ok okb r"
  "ref_accepted ok okb (r\<lparr>ref_Deleted := b, ref_LastSeenNS := n\<rparr>) = ref_accepted ok okb r"
  "ref_accepted ok okb (r\<lparr>ref_ID := i, ref_RemoteID := j\<rparr>) = ref_accepted ok okb r"
  by (simp_all add: ref_accepted_def)

lemma ref_accepted_projectTag:
  assumes "ls_accepted ok okb now" and "\<And>p. prev = Some p \<Longrightarrow> ref_accepted ok okb p"
  shows "ref_accepted ok okb (projectTag prev now ns rid)"
  using assms by (auto simp: ref_accepted_def ls_accepted_def projectTag_def Let_def split: option.splits)

lemma zeroOID_Raw [simp]: "oid_Raw zeroOID = []"
  by (simp add: zeroOID_def)

lemma obs_accepted_seen:
  assumes "okb []" and "ls_accepted ok okb now" and "\<And>p. prev = Some p \<Longrightarrow> ref_accepted ok okb p"
  shows "obs_accepted okb (seenObservation r i sid ev now prev ns)"
  using assms
  by (auto simp: obs_accepted_def ls_accepted_def ref_accepted_def seenObservation_def zeroObservation_def Let_def split: option.splits)

text \<open>
  \<open>live k sid\<close>: the sync row \<open>sid\<close> is written and the ledger has room for \<open>k\<close> more rows;
  \<open>known\<close> and \<open>logged\<close> are the ids that foreign keys may refer to.
\<close>

locale tx_progress_fits =
  fixes tx :: "'t Tx" and rid :: RemoteID and ok_name :: "string \<Rightarrow> bool" and ok_bytes :: "bytes \<Rightarrow> bool"
    and opened :: "nat \<Rightarrow> 't \<Rightarrow> bool"
    and written :: "nat \<Rightarrow> SyncID \<Rightarrow> 't \<Rightarrow> bool" and live :: "nat \<Rightarrow> SyncID \<Rightarrow> 't \<Rightarrow> bool"
    and known :: "RefID \<Rightarrow> 't \<Rightarrow> bool" and logged :: "int64 \<Rightarrow> 't \<Rightarrow> bool"
  assumes ok_empty: "ok_bytes []"
    and run_WriteSync:
      "syn_RemoteID s = rid \<Longrightarrow> syn_Trigger s \<in> {TriggerRegister, TriggerScheduled} \<Longrightarrow> syn_Status s = SyncOk \<Longrightarrow>
       ok_bytes (syn_ChainHeadBefore s) \<Longrightarrow> syn_ChainHeadAfter s = [] \<Longrightarrow> syn_Error s = [] \<Longrightarrow>
       runs (opened k) (tx_WriteSync tx s) (\<lambda>(i, _). written k i)"
    and written_live: "written k i t \<Longrightarrow> live k i t"
    and run_PruneSyncs: "runs (written k i) (tx_PruneSyncs tx rid syncRetentionKeep) (\<lambda>_. live k i)"
    and run_UpsertRef:
      "ref_RemoteID ref = rid \<Longrightarrow> ref_accepted ok_name ok_bytes ref \<Longrightarrow> runs (live k i) (tx_UpsertRefProjection tx ref)
         (\<lambda>ref' t. (ref_RemoteID ref' = rid \<and> ref_accepted ok_name ok_bytes ref') \<and> live k i t \<and> known (ref_ID ref') t)"
    and run_UpsertRef_logged:
      "ref_RemoteID ref = rid \<Longrightarrow> ref_accepted ok_name ok_bytes ref \<Longrightarrow> runs (\<lambda>t. live k i t \<and> logged j t) (tx_UpsertRefProjection tx ref)
         (\<lambda>ref' t. live k i t \<and> logged j t \<and> known (ref_ID ref') t)"
    and run_AppendObservation:
      "obs_RemoteID ob = rid \<Longrightarrow> obs_SyncID ob = i \<Longrightarrow>
       obs_EventType ob \<in> {EventTagCreated, EventTagOIDChanged, EventTagDeleted, EventTagRecreated} \<Longrightarrow> obs_accepted ok_bytes ob \<Longrightarrow>
       runs (\<lambda>t. live (Suc k) i t \<and> known (obs_RefID ob) t) (tx_AppendObservation tx ob)
         (\<lambda>(_, ob') t. ok_bytes (oid_Raw (obs_PrevOID ob')) \<and> live k i t \<and> known (obs_RefID ob) t \<and> logged (obs_ID ob') t)"
    and run_AppendTaintEvent:
      "te_RemoteID e = rid \<Longrightarrow> te_ObservationID e = Some j \<Longrightarrow>
       te_Reason e \<in> {TaintTagOIDChanged, TaintTagDeletedRecreated} \<Longrightarrow>
       ok_bytes (oid_Raw (te_FromOID e)) \<Longrightarrow> ok_bytes (oid_Raw (te_ToOID e)) \<Longrightarrow> te_Detail e = [] \<Longrightarrow>
       runs (\<lambda>t. live k i t \<and> logged j t \<and> known (te_RefID e) t) (tx_AppendTaintEvent tx e)
         (\<lambda>_ t. live k i t \<and> known (te_RefID e) t)"
    and live_less: "live (Suc k) i t \<Longrightarrow> live k i t"
begin

lemma run_applyTaint:
  assumes "ref_RemoteID ref = rid" and "reason \<in> {TaintTagOIDChanged, TaintTagDeletedRecreated}"
    and "ref_accepted ok_name ok_bytes ref" and "ok_bytes (oid_Raw f)" and "ok_bytes (oid_Raw t')"
  shows "runs (\<lambda>t. live k i t \<and> logged j t \<and> known (ref_ID ref) t)
     (applyTaint tx rid ref f t' reason j ns) (\<lambda>_. live k i)"
proof -
  have "runs (\<lambda>t. live k i t \<and> logged j t \<and> known (ref_ID ref) t)
      (if ref_TaintFirstNS ref = None
       then tx_UpsertRefProjection tx (ref\<lparr>ref_Tainted := True, ref_TaintFirstNS := Some ns\<rparr>) else ret ref)
      (\<lambda>ref' t. live k i t \<and> logged j t \<and> known (ref_ID ref') t)"
    using assms(1,3) by (intro runs_if runs_weaken [OF run_UpsertRef_logged] runs_ret) auto
  then show ?thesis
    unfolding applyTaint_def
  proof (rule runs_bind)
    fix ref' :: Ref
    let ?e = "taintEvent rid (ref_ID ref') reason j f t' ns"
    have id: "te_RefID ?e = ref_ID ref'" by (simp add: taintEvent_def)
    have run: "runs (\<lambda>t. live k i t \<and> logged j t \<and> known (te_RefID ?e) t) (tx_AppendTaintEvent tx ?e)
        (\<lambda>_ t. live k i t \<and> known (te_RefID ?e) t)"
      using assms(2,4,5) by (intro run_AppendTaintEvent) (simp_all add: taintEvent_def)
    show "runs (\<lambda>t. live k i t \<and> logged j t \<and> known (ref_ID ref') t)
        (bindT (tx_AppendTaintEvent tx ?e) (\<lambda>_. ret ())) (\<lambda>_. live k i)"
      by (rule runs_bind [OF run [unfolded id] runs_ret]) simp
  qed
qed

lemma run_recordChange:
  assumes "ref_RemoteID ref = rid" and "\<And>reason. taint = Some reason \<Longrightarrow> reason \<in> {TaintTagOIDChanged, TaintTagDeletedRecreated}"
    and "obs_RemoteID ob = rid" and "obs_SyncID ob = i" and "obs_RefID ob = ref_ID ref"
    and "obs_EventType ob \<in> {EventTagCreated, EventTagOIDChanged, EventTagDeleted, EventTagRecreated}"
    and "obs_accepted ok_bytes ob" and "ref_accepted ok_name ok_bytes ref" and "ok_bytes (oid_Raw t')" and "\<And>ob'. ok_bytes (oid_Raw (obs_PrevOID ob')) \<Longrightarrow> ok_bytes (oid_Raw (f ob'))"
  shows "runs (\<lambda>t. live (Suc k) i t \<and> known (ref_ID ref) t) (recordChange tx rid ref ob f t' taint ns ch) (\<lambda>_. live k i)"
proof -
  have taints: "runs (\<lambda>t. live k i t \<and> known (ref_ID ref) t \<and> logged j t)
      (bindT (applyTaint tx rid ref f' t' reason j ns) (\<lambda>_. ret c)) (\<lambda>_. live k i)"
    if "taint = Some reason" "ok_bytes (oid_Raw f')" for f' j reason c
    by (intro runs_bind [OF runs_weaken [OF run_applyTaint [OF assms(1) assms(2) [OF that(1)] assms(8) that(2) assms(9)]] runs_ret])
      auto
  from run_AppendObservation [OF assms(3,4,6,7), unfolded assms(5)] show ?thesis
    unfolding recordChange_def Let_def
  proof (rule runs_bind)
    show "runs ((case a of (_, ob') \<Rightarrow> \<lambda>t. ok_bytes (oid_Raw (obs_PrevOID ob')) \<and> live k i t \<and> known (ref_ID ref) t \<and>
          logged (obs_ID ob') t))
        (case a of (_, obs) \<Rightarrow> case taint of None \<Rightarrow> ret (wrap64 (ch + 1))
          | Some reason \<Rightarrow> bindT (applyTaint tx rid ref (f obs) t' reason (obs_ID obs) ns) (\<lambda>_. ret (wrap64 (ch + 1))))
        (\<lambda>_. live k i)" for a :: "Seq \<times> Observation"
      by (cases a; cases taint) (auto intro!: runs_pull runs_ret taints assms(10))
  qed
qed

lemma run_syncSeenTag:
  assumes "\<And>p. map_of prior (lsr_Name now) = Some p \<Longrightarrow> ref_RemoteID p = rid"
    and fits: "ls_accepted ok_name ok_bytes now" "\<And>p. map_of prior (lsr_Name now) = Some p \<Longrightarrow> ref_accepted ok_name ok_bytes p"
  shows "runs (live (Suc k) i) (syncSeenTag tx rid ns i prior now ch) (\<lambda>_. live k i)"
proof -
  let ?prev = "map_of prior (lsr_Name now)"
  let ?d = "ClassifyTag ?prev (Some now)"
  have r: "ref_RemoteID (projectTag ?prev now ns rid) = rid"
    using assms(1) by (auto simp: projectTag_def Let_def split: option.splits)
  have ev: "td_Event ?d \<noteq> [] \<Longrightarrow> td_Event ?d \<in> {EventTagCreated, EventTagOIDChanged, EventTagDeleted, EventTagRecreated}"
    and ta: "td_Taint ?d = Some reason \<Longrightarrow> reason \<in> {TaintTagOIDChanged, TaintTagDeletedRecreated}" for reason
    by (auto simp: ClassifyTag_def emptyDelta_def split: option.splits if_splits)
  show ?thesis
    unfolding syncSeenTag_def Let_def
  proof (rule runs_bind [OF run_UpsertRef [OF r ref_accepted_projectTag [OF fits]]], assumption, rule runs_pull, rule runs_if)
    fix ref :: Ref
    assume ref: "ref_RemoteID ref = rid \<and> ref_accepted ok_name ok_bytes ref"
    show "runs (\<lambda>t. live (Suc k) i t \<and> known (ref_ID ref) t) (ret ch) (\<lambda>_. live k i)"
      by (rule runs_ret) (simp add: live_less)
    assume "td_Event ?d \<noteq> []"
    from ev [OF this] ref show "runs (\<lambda>t. live (Suc k) i t \<and> known (ref_ID ref) t)
        (recordChange tx rid ref (seenObservation rid (ref_ID ref) i (td_Event ?d) now ?prev ns)
          obs_PrevOID (lsr_OID now) (td_Taint ?d) ns ch) (\<lambda>_. live k i)"
      by (intro run_recordChange obs_accepted_seen [OF ok_empty fits]) (use ta obs_accepted_seen [OF ok_empty fits] fits(1) in \<open>auto simp: obs_accepted_def ls_accepted_def\<close>)
  qed
qed

lemma run_syncGoneTag:
  assumes "ref_RemoteID (snd entry) = rid" and "ref_accepted ok_name ok_bytes (snd entry)"
  shows "runs (live (Suc k) i) (syncGoneTag tx rid i taintAny seen entry ch) (\<lambda>_. live k i)"
proof -
  obtain name p where e: "entry = (name, p)" by (cases entry)
  have "runs (live (Suc k) i)
      (bindT (tx_UpsertRefProjection tx (p\<lparr>ref_Deleted := True, ref_LastSeenNS := ns\<rparr>)) (\<lambda>prev.
       recordChange tx rid prev (goneObservation rid prev i (td_Event (ClassifyDeletion (Some p) taintAny)) ns)
         (\<lambda>_. ref_CurrentOID prev) zeroOID (td_Taint (ClassifyDeletion (Some p) taintAny)) ns ch))
      (\<lambda>_. live k i)" for ns
    using assms e
    by (intro runs_bind [OF run_UpsertRef] runs_pull run_recordChange)
      (auto simp: goneObservation_def zeroObservation_def ClassifyDeletion_def obs_accepted_def ref_accepted_def ok_empty split: if_splits)
  then show ?thesis
    unfolding e syncGoneTag_def prod.case Let_def
    by (intro runs_if runs_bind [OF runs_NowNS [where Q = "\<lambda>_. live (Suc k) i"]])
      (auto intro: runs_ret live_less)
qed

lemma run_loop:
  assumes "\<And>x a k. x \<in> set xs \<Longrightarrow> runs (live (Suc k) i) (body x a) (\<lambda>_. live k i)"
  shows "runs (live (length xs + k) i) (forT xs a body) (\<lambda>_. live k i)"
proof -
  have "runs (live (length xs - length ys + k) i) (body x a) (\<lambda>_. live (length xs - length (ys @ [x]) + k) i)"
    if "xs = ys @ x # zs" for ys x zs a
    using that assms [of x "length xs - length (ys @ [x]) + k" a] by simp
  from runs_for [where I = "\<lambda>ys. live (length xs - length ys + k) i" and xs = xs and body = body and a = a, OF this]
  show ?thesis by simp
qed

lemma run_syncTx:
  assumes prior: "\<And>tag p. map_of (priorMap priors) tag = Some p \<Longrightarrow> ref_RemoteID p = rid"
    and fits: "\<And>tag p. map_of (priorMap priors) tag = Some p \<Longrightarrow> ref_accepted ok_name ok_bytes p"
      "\<And>now. now \<in> set lsRefs \<Longrightarrow> ls_accepted ok_name ok_bytes now" "ok_bytes head"
    and order: "\<And>xs. mset (order xs) = mset xs"
  shows "runs (opened (length lsRefs + length (priorMap priors)))
     (syncTx order rid taintAny startNS head lsRefs priors tx) (\<lambda>(i, _). live 0 i)"
proof -
  have len: "length (order (priorMap priors)) = length (priorMap priors)"
    using order [of "priorMap priors"] by (metis size_mset)
  have "distinct (map fst (priorMap priors))"
    unfolding priorMap_def
    by (induction priors rule: rev_induct) (simp_all add: distinct_update)
  then have entry: "map_of (priorMap priors) (fst e) = Some (snd e)" if "e \<in> set (order (priorMap priors))" for e
    using that order [of "priorMap priors"] by (metis map_of_is_SomeI prod.collapse set_mset_mset)
  show ?thesis
    unfolding syncTx_def Let_def
    apply (rule runs_bind [OF runs_NowNS [where Q = "\<lambda>_. opened (length lsRefs + length (priorMap priors))"]], simp)
    apply (rule runs_bind [OF run_WriteSync], simp_all add: fits(3), rule runs_case_prod, simp)
    apply (rule runs_bind [OF run_PruneSyncs])
    apply (rule runs_bind [OF run_loop [OF run_syncSeenTag]], erule prior, erule fits(2), erule fits(1))
    apply (rule runs_bind [OF run_loop [where k = 0 and xs = "order (priorMap priors)",
      OF run_syncGoneTag [OF prior [OF entry] fits(1) [OF entry]], unfolded len add_0_right]], assumption, assumption)
    apply (rule runs_ret, simp)
    done
qed

end

text \<open>A store that accepts every value.\<close>

locale tx_progress =
  fixes tx :: "'t Tx" and rid :: RemoteID and opened :: "nat \<Rightarrow> 't \<Rightarrow> bool"
    and written :: "nat \<Rightarrow> SyncID \<Rightarrow> 't \<Rightarrow> bool" and live :: "nat \<Rightarrow> SyncID \<Rightarrow> 't \<Rightarrow> bool"
    and known :: "RefID \<Rightarrow> 't \<Rightarrow> bool" and logged :: "int64 \<Rightarrow> 't \<Rightarrow> bool"
  assumes run_WriteSync:
      "syn_RemoteID s = rid \<Longrightarrow> syn_Trigger s \<in> {TriggerRegister, TriggerScheduled} \<Longrightarrow> syn_Status s = SyncOk \<Longrightarrow>
       runs (opened k) (tx_WriteSync tx s) (\<lambda>(i, _). written k i)"
    and written_live: "written k i t \<Longrightarrow> live k i t"
    and run_PruneSyncs: "runs (written k i) (tx_PruneSyncs tx rid syncRetentionKeep) (\<lambda>_. live k i)"
    and run_UpsertRef:
      "ref_RemoteID ref = rid \<Longrightarrow> runs (live k i) (tx_UpsertRefProjection tx ref)
         (\<lambda>ref' t. ref_RemoteID ref' = rid \<and> live k i t \<and> known (ref_ID ref') t)"
    and run_UpsertRef_logged:
      "ref_RemoteID ref = rid \<Longrightarrow> runs (\<lambda>t. live k i t \<and> logged j t) (tx_UpsertRefProjection tx ref)
         (\<lambda>ref' t. live k i t \<and> logged j t \<and> known (ref_ID ref') t)"
    and run_AppendObservation:
      "obs_RemoteID ob = rid \<Longrightarrow> obs_SyncID ob = i \<Longrightarrow>
       obs_EventType ob \<in> {EventTagCreated, EventTagOIDChanged, EventTagDeleted, EventTagRecreated} \<Longrightarrow>
       runs (\<lambda>t. live (Suc k) i t \<and> known (obs_RefID ob) t) (tx_AppendObservation tx ob)
         (\<lambda>(_, ob') t. live k i t \<and> known (obs_RefID ob) t \<and> logged (obs_ID ob') t)"
    and run_AppendTaintEvent:
      "te_RemoteID e = rid \<Longrightarrow> te_ObservationID e = Some j \<Longrightarrow>
       te_Reason e \<in> {TaintTagOIDChanged, TaintTagDeletedRecreated} \<Longrightarrow>
       runs (\<lambda>t. live k i t \<and> logged j t \<and> known (te_RefID e) t) (tx_AppendTaintEvent tx e)
         (\<lambda>_ t. live k i t \<and> known (te_RefID e) t)"
    and live_less: "live (Suc k) i t \<Longrightarrow> live k i t"

sublocale tx_progress \<subseteq> any: tx_progress_fits tx rid "\<lambda>_. True" "\<lambda>_. True" opened written live known logged
  by (unfold_locales, simp, simp add: run_WriteSync, simp add: written_live, simp add: run_PruneSyncs, simp add: run_UpsertRef,
      simp add: run_UpsertRef_logged, simp add: run_AppendObservation, simp add: run_AppendTaintEvent, rule live_less)

end
