(* ===== verification/Sync_Live.thy ===== *)
theory Sync_Live
  imports Sync_Taint Progress
begin

text \<open>
  A sync succeeds when it can: with a consistent database, room in the ledger, no lease in the
  way, a listing from git and no failing statement, \<open>SyncRemote\<close> returns a result and no error.
\<close>

section \<open>Progress of the statements\<close>

lemma runs_txq:
  assumes "\<And>t. P t \<Longrightarrow> \<exists>a d'. q (stx_q t) = Inr (a, d') \<and> Q a (t\<lparr>stx_q := d'\<rparr>)"
  shows "runs P (txq q) Q"
  unfolding txq_def by (rule runs_stmt) (use assms in fastforce)

lemma runs_oks:
  assumes "runs P m Q" and "oks P m Q'"
  shows "runs P m (\<lambda>a d. Q a d \<and> Q' a d)"
  using assms unfolding runs_def oks_def by metis

text \<open>Every observation belongs to a sync of its own remote.\<close>

definition syncs_ok :: "db \<Rightarrow> bool" where
  "syncs_ok d \<longleftrightarrow> (\<forall>ob \<in> set (t_observations d). \<exists>s \<in> set (t_syncs d).
     Rsyn_ID s = Robs_SyncID ob \<and> Rsyn_RemoteID s = Robs_RemoteID ob)"

definition room :: "nat \<Rightarrow> db \<Rightarrow> bool" where
  "room k d \<longleftrightarrow> int (length (t_observations d)) + int k < 2 ^ 63"

definition opened_db :: "RemoteID \<Rightarrow> nat \<Rightarrow> db \<Rightarrow> bool" where
  "opened_db rid k d \<longleftrightarrow> ledger_ok d \<and> syncs_ok d \<and> remote_exists d rid \<and> room k d"

definition sync_of :: "RemoteID \<Rightarrow> SyncID \<Rightarrow> db \<Rightarrow> bool" where
  "sync_of rid i d \<longleftrightarrow> i \<noteq> 0 \<and> (\<exists>s \<in> set (t_syncs d). Rsyn_ID s = i \<and> Rsyn_RemoteID s = rid)"

definition live_db :: "RemoteID \<Rightarrow> nat \<Rightarrow> SyncID \<Rightarrow> db \<Rightarrow> bool" where
  "live_db rid k i d \<longleftrightarrow> opened_db rid k d \<and> sync_of rid i d"

definition written_db :: "RemoteID \<Rightarrow> nat \<Rightarrow> SyncID \<Rightarrow> db \<Rightarrow> bool" where
  "written_db rid k i d \<longleftrightarrow> live_db rid k i d \<and> seq_syncs d = i"

lemmas progress_defs = written_db_def live_db_def sync_of_def opened_db_def syncs_ok_def room_def

lemma syncs_ok_mono:
  "t_observations d' = t_observations d \<Longrightarrow> set (t_syncs d) \<subseteq> set (t_syncs d') \<Longrightarrow> syncs_ok d \<Longrightarrow> syncs_ok d'"
  unfolding syncs_ok_def by (metis subsetD)

lemma run_WriteSync:
  assumes "syn_RemoteID s = rid" and "syn_Trigger s \<in> {TriggerRegister, TriggerScheduled}" and "syn_Status s = SyncOk"
  shows "runs (\<lambda>t. opened_db rid k (stx_q t)) (sqliteTx_WriteSync s) (\<lambda>(i, _) t. written_db rid k i (stx_q t))"
proof -
  let ?arg = "\<lparr>Psyn_RemoteID = syn_RemoteID s, Psyn_Trigger = syn_Trigger s, Psyn_StartedNs = syn_StartedNS s,
         Psyn_FinishedNs = syn_FinishedNS s, Psyn_Status = syn_Status s, Psyn_TagsSeen = syn_TagsSeen s,
         Psyn_TagsChanged = syn_TagsChanged s, Psyn_Error = syn_Error s,
         Psyn_ChainHeadBefore = nullBytes (syn_ChainHeadBefore s),
         Psyn_ChainHeadAfter = nullBytes (syn_ChainHeadAfter s)\<rparr>"
  have "\<exists>i d'. sqlc_InsertSync ?arg d = Inr (i, d') \<and> written_db rid k i d'" if o: "opened_db rid k d" for d
  proof -
    from o assms obtain i d' where run: "sqlc_InsertSync ?arg d = Inr (i, d')"
      by (auto simp: sqlc_InsertSync_def opened_db_def sync_check_def model_defs Let_def)
    have "ledger_ok d'"
      using o db_ok_InsertSync [OF _ run] same_chains_ok [OF same_chains_InsertSync [OF run]]
      by (simp add: opened_db_def ledger_ok_def)
    moreover have "0 \<le> seq_syncs d" using o by (simp add: opened_db_def ledger_ok_def db_ok_def ids_ok_def)
    moreover have "seq_syncs d' = i" "i = seq_syncs d + 1" "t_observations d' = t_observations d"
      "remote_exists d' rid \<longleftrightarrow> remote_exists d rid" "set (t_syncs d) \<subseteq> set (t_syncs d')"
      "\<exists>r \<in> set (t_syncs d'). Rsyn_ID r = i \<and> Rsyn_RemoteID r = rid"
      using run assms(1) by (auto simp: sqlc_InsertSync_def Let_def split: if_splits)
    moreover from this have "syncs_ok d'" using o syncs_ok_mono [of d' d] by (simp add: opened_db_def)
    ultimately have "written_db rid k i d'"
      using o by (auto simp: written_db_def live_db_def sync_of_def opened_db_def room_def)
    with run show ?thesis by blast
  qed
  then show ?thesis
    unfolding sqliteTx_WriteSync_def
    by (intro runs_bind [OF runs_txq [where Q = "\<lambda>i t. written_db rid k i (stx_q t)"]]
        runs_bind [OF runs_modifyT [where Q = "\<lambda>_ t. written_db rid k i (stx_q t)" for i]] runs_ret) auto
qed

text \<open>The newest sync of a remote is among those a prune keeps.\<close>

lemma newest_kept:
  assumes s: "s \<in> set (t_syncs d)" "Rsyn_RemoteID s = rid" and max: "\<And>r. r \<in> set (t_syncs d) \<Longrightarrow> Rsyn_ID r \<le> Rsyn_ID s"
    and lim: "0 < lim"
  shows "Rsyn_ID s \<in> set (newest_syncs d rid lim)"
proof -
  let ?xs = "sort_key (\<lambda>r. - Rsyn_ID r) (filter (\<lambda>r. Rsyn_RemoteID r = rid) (t_syncs d))"
  have "s \<in> set ?xs" using s by simp
  then obtain x ys where xs: "?xs = x # ys" by (cases ?xs) auto
  have "sorted (map (\<lambda>r. - Rsyn_ID r) ?xs)" by simp
  with xs \<open>s \<in> set ?xs\<close> have "Rsyn_ID s \<le> Rsyn_ID x" by auto
  moreover have "x \<in> set ?xs" by (simp only: xs list.set_intros)
  then have "Rsyn_ID x \<le> Rsyn_ID s" using max by simp
  ultimately have "Rsyn_ID x = Rsyn_ID s" by simp
  with lim xs show ?thesis by (cases "nat lim") (auto simp: newest_syncs_def limit_rows_def)
qed

lemma run_PruneSyncs:
  assumes "0 < keep"
  shows "runs (\<lambda>t. written_db rid k i (stx_q t)) (sqliteTx_PruneSyncs rid keep) (\<lambda>_ t. live_db rid k i (stx_q t))"
  unfolding sqliteTx_PruneSyncs_def
proof (rule runs_txq)
  fix t
  let ?d = "stx_q t"
  assume w: "written_db rid k i ?d"
  obtain u d' where run: "sqlc_PruneSyncs rid rid keep rid ?d = Inr (u, d')"
    by (simp add: sqlc_PruneSyncs_def)
  from w obtain s where s: "s \<in> set (t_syncs ?d)" "Rsyn_ID s = i" "Rsyn_RemoteID s = rid"
    by (auto simp: progress_defs)
  have "Rsyn_ID r \<le> Rsyn_ID s" if "r \<in> set (t_syncs ?d)" for r
    using that w s by (auto simp: progress_defs ledger_ok_def db_ok_def ids_ok_def)
  from newest_kept [OF s(1,3) this assms] have "s \<in> set (t_syncs d')"
    using run s by (auto simp: sqlc_PruneSyncs_def)
  moreover have "syncs_ok d'"
    using run w by (fastforce simp: sqlc_PruneSyncs_def progress_defs)
  moreover have "ledger_ok d'"
    using w db_ok_PruneSyncs [OF _ run] same_chains_ok [OF same_chains_PruneSyncs [OF run]]
    by (simp add: progress_defs ledger_ok_def)
  ultimately have "live_db rid k i d'"
    using w s run by (auto simp: progress_defs sqlc_PruneSyncs_def)
  with run show "\<exists>a d'. sqlc_PruneSyncs rid rid keep rid ?d = Inr (a, d') \<and> live_db rid k i (stx_q (t\<lparr>stx_q := d'\<rparr>))"
    by auto
qed

text \<open>In a ledger with room, sequence numbers do not wrap and the next one is free.\<close>

lemma walk_seqs:
  assumes "walk h n rs = Some (h', n')" and "0 \<le> n" and "n + int (length rs) < 2 ^ 63"
  shows "n' = n + int (length rs) \<and> (\<forall>r \<in> set rs. Robs_Seq r \<le> n')"
  using assms
proof (induction rs arbitrary: h n)
  case (Cons r rs)
  have w: "wrap64 (n + 1) = n + 1" using Cons.prems by (intro wrap64_id) (simp add: in_int64_def)
  from Cons.prems(1) have seq: "Robs_Seq r = n + 1" and tail: "walk (Robs_RowHash r) (n + 1) rs = Some (h', n')"
    by (auto simp: w split: if_splits)
  from Cons.IH [OF tail] Cons.prems seq show ?case by auto
qed simp

lemma walk_head_length:
  "walk h n rs = Some (h', n') \<Longrightarrow> length h = ChainHashLen \<Longrightarrow> length h' = ChainHashLen"
  by (induction rs arbitrary: h n) (auto simp: RowHash_def ChainHashLen_def split: if_splits)

lemma head_facts:
  assumes ok: "ledger_ok d" and head: "(rid, h, n) \<in> set (remote_heads d)" and room: "room (Suc k) d"
  shows "length h = ChainHashLen" and "wrap64 (n + 1) = n + 1"
    and "\<And>r. r \<in> set (t_observations d) \<Longrightarrow> Robs_RemoteID r = rid \<Longrightarrow> Robs_Seq r \<noteq> n + 1"
proof -
  have walk: "walk genesis 0 (chain_rows d rid) = Some (h, n)"
    using ok head by (auto simp: ledger_ok_def dest: chain_okD)
  from walk_head_length [OF this] show "length h = ChainHashLen" by (simp add: genesis_def)
  have "length (chain_rows d rid) \<le> length (t_observations d)" by (simp add: chain_rows_def)
  then have b: "int (length (chain_rows d rid)) < 2 ^ 63 - 1" using room by (simp add: room_def)
  have "n = 0 + int (length (chain_rows d rid)) \<and> (\<forall>r \<in> set (chain_rows d rid). Robs_Seq r \<le> n)"
    by (rule walk_seqs [OF walk]) (use b in simp_all)
  then have n: "n = int (length (chain_rows d rid))" "\<forall>r \<in> set (chain_rows d rid). Robs_Seq r \<le> n" by auto
  from b n(1) show "wrap64 (n + 1) = n + 1" by (intro wrap64_id) (simp add: in_int64_def)
  show "Robs_Seq r \<noteq> n + 1" if "r \<in> set (t_observations d)" "Robs_RemoteID r = rid" for r
    using n(2) that by (auto simp: chain_rows_def)
qed

lemma count_remote:
  assumes "db_ok d" and "find (\<lambda>r. Rrem_ID r = i) (t_remotes d) = Some r"
  shows "count_where (\<lambda>x. Rrem_ID x = i \<and> Rrem_ChainHeadHash x = Rrem_ChainHeadHash r \<and> Rrem_ChainLen x = Rrem_ChainLen r)
    (t_remotes d) = 1"
proof -
  have dist: "distinct (map Rrem_ID (t_remotes d))" using assms(1) by (simp add: db_ok_defs ids_ok_def)
  from assms(2) have r: "r \<in> set (t_remotes d)" "Rrem_ID r = i" by (auto simp: find_Some_iff)
  let ?P = "\<lambda>x. Rrem_ID x = i \<and> Rrem_ChainHeadHash x = Rrem_ChainHeadHash r \<and> Rrem_ChainLen x = Rrem_ChainLen r"
  have "set (filter ?P (t_remotes d)) = {r}"
    using dist r by (auto simp: distinct_map dest: inj_onD)
  moreover have "distinct (filter ?P (t_remotes d))" using dist by (simp add: distinct_map)
  ultimately have "length (filter ?P (t_remotes d)) = 1" using distinct_card [of "filter ?P (t_remotes d)"] by simp
  then show ?thesis by (simp add: count_where_def)
qed

lemma remote_row:
  assumes "remote_exists d i"
  obtains r where "find (\<lambda>r. Rrem_ID r = i) (t_remotes d) = Some r"
  using assms by (cases "find (\<lambda>r. Rrem_ID r = i) (t_remotes d)") (auto simp: remote_exists_def list_ex_iff find_None_iff)

lemma run_AppendObservation:
  assumes ob: "obs_RemoteID ob = rid" "obs_SyncID ob = i" "event_type_check (obs_EventType ob)"
  shows "runs (\<lambda>t. live_db rid (Suc k) i (stx_q t) \<and> ref_exists (stx_q t) (obs_RefID ob))
     (sqliteTx_AppendObservation ob) (\<lambda>_ _. True)"
proof (rule runsI)
  fix w :: "sqliteTx world"
  let ?d = "stx_q (w_db w)"
  assume nf: "no_faults w" and live: "live_db rid (Suc k) i ?d \<and> ref_exists ?d (obs_RefID ob)"
  have ok: "ledger_ok ?d" "db_ok ?d" "room (Suc k) ?d" "i \<noteq> 0" "remote_exists ?d rid"
    using live by (auto simp: progress_defs ledger_ok_def)
  from ok(5) obtain r where r: "find (\<lambda>r. Rrem_ID r = rid) (t_remotes ?d) = Some r" by (rule remote_row)
  let ?h = "Rrem_ChainHeadHash r" and ?n = "Rrem_ChainLen r"
  note head = head_facts [OF ok(1) find_remote_heads [OF r] ok(3)]
  let ?ob = "chained_obs ob ?h ?n (obs_ID ob)"
  obtain j d2 where ins: "sqlc_InsertObservation (observation_params ?ob i) ?d = Inr (j, d2)"
    using head(3) ob live ok(5) by (auto simp: InsertObservation_Inr head(2))
  then have d2: "t_remotes d2 = t_remotes ?d" by (auto simp: InsertObservation_Inr)
  have rows: "\<exists>d3. sqlc_AdvanceRemoteChainHead nh nl rid ?h ?n d2 = Inr (1, d3)" for nh nl
    using count_remote [OF ok(2) r] by (simp add: sqlc_AdvanceRemoteChainHead_def d2)
  have eff: "effective_sync ob sid = i" for sid using ob ok(4) by (simp add: effective_sync_def)
  have read: "sqlc_GetRemoteChainHead rid ?d = Inr ((?h, ?n), ?d)"
    using r by (simp add: sqlc_GetRemoteChainHead_def read_one_Inr)
  from rows obtain d3 where "sqlc_AdvanceRemoteChainHead (obs_RowHash (chained_obs ob ?h ?n j)) (?n + 1) rid ?h ?n d2 = Inr (1, d3)"
    by blast
  with nf read ins head(1,2) ok(4) ob(1)
  show "\<exists>a w'. sqliteTx_AppendObservation ob w = (Inr a, w') \<and> no_faults w' \<and> True"
    unfolding AppendObservation_steps eff
    by (simp add: bindT_def txq_def stmt_def getsT_def ret_def no_faults_def Let_def)
qed

lemma live_append_row:
  assumes live: "live_db rid (Suc k) i d" and ok: "ledger_ok d'" and obs: "t_observations d' = t_observations d @ [r]"
    and r: "Robs_SyncID r = i" "Robs_RemoteID r = rid" and syncs: "t_syncs d' = t_syncs d"
    and ex: "remote_exists d' rid = remote_exists d rid"
  shows "live_db rid k i d'"
proof -
  have "syncs_ok d'"
    using live r by (auto simp: syncs_ok_def obs syncs live_db_def opened_db_def sync_of_def)
  then show ?thesis using live ok ex by (simp add: live_db_def opened_db_def sync_of_def room_def obs syncs)
qed

lemma live_append_db:
  assumes live: "live_db rid (Suc k) i d" and ok: "ledger_ok (append_db d ob i h n)" and ob: "obs_RemoteID ob = rid"
  shows "live_db rid k i (append_db d ob i h n)"
  by (rule live_append_row [OF live ok, where r = "observation_row ob i"])
    (simp_all add: append_db_def remote_exists_def list_ex_update_where ob)

lemma AppendObservation_post:
  assumes ob: "obs_RemoteID ob = rid" "obs_SyncID ob = i"
  shows "oks (\<lambda>t. live_db rid (Suc k) i (stx_q t) \<and> ref_exists (stx_q t) (obs_RefID ob)) (sqliteTx_AppendObservation ob)
     (\<lambda>(_, ob') t. live_db rid k i (stx_q t) \<and> ref_exists (stx_q t) (obs_RefID ob) \<and> observation_exists (stx_q t) (obs_ID ob'))"
proof (rule oksI)
  fix w :: "sqliteTx world" and a w'
  let ?d = "stx_q (w_db w)"
  assume live: "live_db rid (Suc k) i ?d \<and> ref_exists ?d (obs_RefID ob)"
    and run: "sqliteTx_AppendObservation ob w = (Inr a, w')"
  obtain sq ob' where a: "a = (sq, ob')" by (cases a)
  have eff: "effective_sync ob (stx_syncID (w_db w)) = i"
    using live ob by (simp add: effective_sync_def live_db_def sync_of_def)
  from run [unfolded a] refl eff [symmetric] obtain h n where
    ob': "ob' = chained_obs ob h n (seq_observations ?d + 1)"
    and w': "w_db w' = (w_db w)\<lparr>stx_q := append_db ?d ob' i h n\<rparr>"
    by (rule AppendObservation_Inr)
  have "ledger_ok (append_db ?d ob' i h n)"
    using oksD [OF ledger_AppendObservation _ run] live by (simp add: w' live_db_def opened_db_def)
  with live ob have "live_db rid k i (append_db ?d ob' i h n)" by (intro live_append_db) (simp_all add: ob')
  moreover have "observation_exists (append_db ?d ob' i h n) (obs_ID ob')"
    by (simp add: observation_exists_def append_db_def)
  moreover have "ref_exists (append_db ?d ob' i h n) (obs_RefID ob)"
    using live by (simp add: append_db_def)
  ultimately show "(case a of (_, ob') \<Rightarrow> \<lambda>t. live_db rid k i (stx_q t) \<and> ref_exists (stx_q t) (obs_RefID ob) \<and>
      observation_exists (stx_q t) (obs_ID ob')) (w_db w')" by (simp add: a w')
qed

lemma live_cong:
  assumes "live_db rid k i d" and "ledger_ok d'" and "t_observations d' = t_observations d"
    and "t_syncs d' = t_syncs d" and "t_remotes d' = t_remotes d"
  shows "live_db rid k i d'"
  using assms by (simp add: progress_defs remote_exists_def)

lemma UpsertRef_live:
  assumes live: "live_db rid k i d" and ref: "ref_RemoteID ref = rid"
  obtains row d' where "sqlc_UpsertRef (upsertParams ref) d = Inr (row, d')" and "live_db rid k i d'"
    and "ref_exists d' (Rref_ID row)" and "Rref_RemoteID row = rid"
    and "\<And>j. observation_exists d' j = observation_exists d j"
proof -
  from live have ex: "remote_exists d rid" and ok: "ledger_ok d" by (simp_all add: progress_defs)
  then obtain row d' where run: "sqlc_UpsertRef (upsertParams ref) d = Inr (row, d')"
    using ref by (cases "find (\<lambda>r. Rref_RemoteID r = ref_RemoteID ref \<and> Rref_TagName r = ref_TagName ref) (t_refs d)")
      (simp_all add: sqlc_UpsertRef_def upsertParams_simp Let_def)
  have "ledger_ok d'"
    using ok db_ok_UpsertRef [OF _ run] same_chains_ok [OF same_chains_UpsertRef [OF run]] by (simp add: ledger_ok_def)
  moreover have same: "t_observations d' = t_observations d" "t_syncs d' = t_syncs d" "t_remotes d' = t_remotes d"
    using run by (auto simp: sqlc_UpsertRef_def Let_def split: option.splits if_splits)
  ultimately have "live_db rid k i d'" by (intro live_cong [OF live])
  moreover have "ref_at d' rid (ref_TagName ref) = Some row"
    using UpsertRef_rows(4) [OF run] ref by simp
  then have "ref_exists d' (Rref_ID row)" by (auto simp: ref_exists_def list_ex_iff dest!: ref_at_in)
  ultimately show thesis
    using that [OF run] UpsertRef_rows(1) [OF run] ref same by (simp add: observation_exists_def)
qed

lemma run_UpsertRefProjection:
  assumes ref: "ref_RemoteID ref = rid"
    and Q: "\<And>d d'. (\<And>j. observation_exists d' j = observation_exists d j) \<Longrightarrow> Q d \<Longrightarrow> Q d'"
  shows "runs (\<lambda>t. live_db rid k i (stx_q t) \<and> Q (stx_q t)) (sqliteTx_UpsertRefProjection ref)
     (\<lambda>ref' t. ref_RemoteID ref' = rid \<and> live_db rid k i (stx_q t) \<and> Q (stx_q t) \<and> ref_exists (stx_q t) (ref_ID ref'))"
  unfolding sqliteTx_UpsertRefProjection_def
proof (rule runs_bind [OF runs_txq runs_ret])
  fix t
  assume pre: "live_db rid k i (stx_q t) \<and> Q (stx_q t)"
  then have "live_db rid k i (stx_q t)" by simp
  then obtain row d' where "sqlc_UpsertRef (upsertParams ref) (stx_q t) = Inr (row, d')" "live_db rid k i d'"
    "ref_exists d' (Rref_ID row)" "Rref_RemoteID row = rid" "\<And>j. observation_exists d' j = observation_exists (stx_q t) j"
    using UpsertRef_live [OF _ ref] by metis
  with pre Q [of d' "stx_q t"] show "\<exists>row d'. sqlc_UpsertRef (upsertParams ref) (stx_q t) = Inr (row, d') \<and>
      (Rref_RemoteID row = rid \<and> live_db rid k i (stx_q (t\<lparr>stx_q := d'\<rparr>)) \<and> Q (stx_q (t\<lparr>stx_q := d'\<rparr>)) \<and>
       ref_exists (stx_q (t\<lparr>stx_q := d'\<rparr>)) (Rref_ID row))" by auto
qed simp

lemma run_AppendTaintEvent:
  assumes e: "te_RemoteID e = rid" "te_ObservationID e = Some j" "reason_check (te_Reason e)"
  shows "runs (\<lambda>t. live_db rid k i (stx_q t) \<and> observation_exists (stx_q t) j \<and> ref_exists (stx_q t) (te_RefID e))
     (sqliteTx_AppendTaintEvent e) (\<lambda>_ t. live_db rid k i (stx_q t) \<and> ref_exists (stx_q t) (te_RefID e))"
  unfolding sqliteTx_AppendTaintEvent_def
proof (rule runs_txq)
  fix t
  let ?d = "stx_q t"
  assume pre: "live_db rid k i ?d \<and> observation_exists ?d j \<and> ref_exists ?d (te_RefID e)"
  then have "remote_exists ?d rid" by (simp add: progress_defs)
  with pre e have "\<exists>n d'. sqlc_InsertTaintEvent (taintParams e) ?d = Inr (n, d')"
    unfolding sqlc_InsertTaintEvent_def Let_def
    by (cases "find (taint_conflict (taintParams e)) (t_taint_events ?d)") (simp_all add: taintParams_def)
  then obtain n d' where run: "sqlc_InsertTaintEvent (taintParams e) ?d = Inr (n, d')" by blast
  have "ledger_ok d'"
    using pre db_ok_InsertTaintEvent [OF _ run] same_chains_ok [OF same_chains_InsertTaintEvent [OF run]]
    by (simp add: progress_defs ledger_ok_def)
  moreover have "t_observations d' = t_observations ?d" "t_syncs d' = t_syncs ?d" "t_remotes d' = t_remotes ?d"
    and refs: "t_refs d' = t_refs ?d"
    using run by (auto simp: sqlc_InsertTaintEvent_def Let_def split: option.splits if_splits)
  ultimately have "live_db rid k i d'" using pre live_cong [of rid k i ?d d'] by simp
  with run pre refs show "\<exists>a d'. sqlc_InsertTaintEvent (taintParams e) ?d = Inr (a, d') \<and>
      live_db rid k i (stx_q (t\<lparr>stx_q := d'\<rparr>)) \<and> ref_exists (stx_q (t\<lparr>stx_q := d'\<rparr>)) (te_RefID e)"
    by (simp add: ref_exists_def)
qed

interpretation sqlite_progress: tx_progress sqliteTx_Tx rid "\<lambda>k t. opened_db rid k (stx_q t)"
    "\<lambda>k i t. written_db rid k i (stx_q t)" "\<lambda>k i t. live_db rid k i (stx_q t)"
    "\<lambda>j t. ref_exists (stx_q t) j" "\<lambda>j t. observation_exists (stx_q t) j" for rid
proof (unfold_locales, unfold sqliteTx_Tx_sel, goal_cases)
  case (1 s k)
  then show ?case by (rule run_WriteSync)
next
  case (2 k i t)
  then show ?case by (simp add: written_db_def)
next
  case (3 k i)
  show ?case by (rule run_PruneSyncs) (simp add: syncRetentionKeep_def)
next
  case (4 ref k i)
  from run_UpsertRefProjection [OF this, where Q = "\<lambda>_. True"] show ?case by simp
next
  case (5 ref k i j)
  from run_UpsertRefProjection [OF this, where Q = "\<lambda>d. observation_exists d j"] show ?case
    by (rule runs_weaken) auto
next
  case (6 ob i k)
  then have ev: "event_type_check (obs_EventType ob)" by (auto simp: event_type_check_def model_defs)
  from runs_oks [OF run_AppendObservation [OF 6(1,2) ev] AppendObservation_post [OF 6(1,2)]]
  show ?case by (rule runs_weaken) simp_all
next
  case (7 e j k i)
  then show ?case by (intro run_AppendTaintEvent) (auto simp: reason_check_def model_defs)
next
  case (8 k i t)
  then show ?case by (simp add: progress_defs)
qed

section \<open>The transaction commits\<close>

lemma syncs_ok_fk: "syncs_ok d \<Longrightarrow> sync_fk_ok d"
  unfolding syncs_ok_def sync_fk_ok_def sync_exists_def list_all_iff list_ex_iff by blast

lemma runs_WithTx:
  assumes "runs (\<lambda>t. P (stx_q t)) (fn sqliteTx_Tx) (\<lambda>r t. sync_fk_ok (stx_q t) \<and> Q r (stx_q t))"
  shows "runs P (sqliteStore_WithTx fn) Q"
proof (rule runsI)
  fix w :: "db world"
  assume nf: "no_faults w" and P: "P (w_db w)"
  let ?w1 = "with_db \<lparr>stx_q = w_db w, stx_syncID = 0\<rparr> (w\<lparr>w_stmts := w_stmts w + 1\<rparr>)"
  have "no_faults ?w1" "P (stx_q (w_db ?w1))" using nf P by (simp_all add: no_faults_def)
  with assms obtain r w2 where "fn sqliteTx_Tx ?w1 = (Inr r, w2)" "no_faults w2"
    "sync_fk_ok (stx_q (w_db w2)) \<and> Q r (stx_q (w_db w2))"
    by (rule runsE)
  with nf show "\<exists>a w'. sqliteStore_WithTx fn w = (Inr a, w') \<and> no_faults w' \<and> Q a (w_db w')"
    by (simp add: sqliteStore_WithTx_def stmt_def no_faults_def Let_def)
qed

lemma remote_exists_heads: "remote_exists d i \<longleftrightarrow> i \<in> fst ` set (remote_heads d)"
  by (force simp: remote_exists_def remote_heads_def list_ex_iff image_iff)

lemma quiet_opened: "quiet d d' \<Longrightarrow> opened_db rid k d \<Longrightarrow> opened_db rid k d'"
  using quiet_ledger [of d d'] by (simp add: progress_defs remote_exists_heads quiet_def)

lemma length_priorMap: "length (priorMap ps) \<le> length ps"
proof -
  have "length (AList.update k v m) \<le> Suc (length m)" for k :: string and v :: Ref and m
    by (induction m) auto
  then show ?thesis
    unfolding priorMap_def by (induction ps rule: rev_induct) (auto intro: order_trans)
qed

lemma commit_runs:
  assumes ok: "sync_ok d" and op: "opened_db rid (length lsRefs + length (tags_of d rid)) d"
    and order: "\<And>xs. mset (order xs) = mset xs"
  shows "runs (quiet d) (sqliteStore_WithTx (syncTx order rid taintAny startNS head lsRefs (tags_of d rid)))
     (\<lambda>_. opened_db rid 0)"
proof (rule runs_WithTx)
  have prior: "ref_RemoteID p = rid" if "map_of (priorMap (tags_of d rid)) tag = Some p" for tag p
    using prior_rows(2) [OF ok that] by (simp add: ref_keyed_def)
  have "opened_db rid (length lsRefs + length (priorMap (tags_of d rid))) d'" if "quiet d d'" for d'
    using quiet_opened [OF that op] length_priorMap [of "tags_of d rid"] by (auto simp: opened_db_def room_def)
  with sqlite_progress.any.run_syncTx [where priors = "tags_of d rid" and order = order, OF prior accepted_any TrueI order]
  show "runs (\<lambda>t. quiet d (stx_q t)) (syncTx order rid taintAny startNS head lsRefs (tags_of d rid) sqliteTx_Tx)
      (\<lambda>r t. sync_fk_ok (stx_q t) \<and> opened_db rid 0 (stx_q t))"
    by (rule runs_weaken) (auto simp: live_db_def opened_db_def intro: syncs_ok_fk)
qed

section \<open>The steps around the transaction\<close>

lemma runs_GetChainHead:
  assumes "remote_exists d rid"
  shows "runs (quiet d) (sqliteStore_GetChainHead rid) (\<lambda>x d'. quiet d d' \<and> (rid, x) \<in> set (remote_heads d))"
  unfolding sqliteStore_GetChainHead_def
proof (rule runs_mapErr, rule runs_stmt)
  fix d'
  assume q: "quiet d d'"
  then have "remote_exists d' rid" using assms by (simp add: remote_exists_heads quiet_def)
  then obtain r where r: "find (\<lambda>r. Rrem_ID r = rid) (t_remotes d') = Some r" by (rule remote_row)
  with find_remote_heads [OF r] q
  show "\<exists>a d''. sqlc_GetChainHead rid d' = Inr (a, d'') \<and> quiet d d'' \<and> (rid, a) \<in> set (remote_heads d)"
    by (auto simp: sqlc_GetChainHead_def read_one_Inr quiet_def)
qed

lemma runs_SetRemoteHealth: "runs (\<lambda>_. True) (sqliteStore_SetRemoteHealth rid RemoteActive e ok) (\<lambda>_ _. True)"
  unfolding sqliteStore_SetRemoteHealth_def
  by (intro runs_bind [OF runs_NowNS [where Q = "\<lambda>_ _. True"]] runs_stmt) (auto simp: sqlc_SetRemoteHealth_def model_defs)

lemma runs_releaseTx:
  assumes head: "(rid, h, n) \<in> set (remote_heads d)"
  shows "runs (quiet d) (releaseTx rid holder witness h n) (\<lambda>_ _. True)"
  unfolding releaseTx_def
proof (rule runs_bind)
  show "runs (quiet d) (stmt (sqlc_GetRemoteChainHead rid)) (\<lambda>x d'. x = (h, n) \<and> quiet d d')"
  proof (rule runs_stmt)
    fix d'
    assume q: "quiet d d'"
    then have heads: "remote_heads d' = remote_heads d" "db_ok d'" by (simp_all add: quiet_def)
    with head have "remote_exists d' rid" by (force simp: remote_exists_heads)
    then obtain r where r: "find (\<lambda>r. Rrem_ID r = rid) (t_remotes d') = Some r" by (rule remote_row)
    from remote_heads_unique [OF heads(2) _ find_remote_heads [OF r]] head heads q r
    show "\<exists>a d''. sqlc_GetRemoteChainHead rid d' = Inr (a, d'') \<and> a = (h, n) \<and> quiet d d''"
      by (auto simp: sqlc_GetRemoteChainHead_def read_one_Inr)
  qed
next
  have adv: "runs (quiet d) (stmt (sqlc_AdvanceRemoteChainHead h n rid h n)) (\<lambda>rows _. rows = 1)"
  proof (rule runs_stmt)
    fix d'
    assume q: "quiet d d'"
    then have heads: "remote_heads d' = remote_heads d" "db_ok d'" by (simp_all add: quiet_def)
    with head have "remote_exists d' rid" by (force simp: remote_exists_heads)
    then obtain r where r: "find (\<lambda>r. Rrem_ID r = rid) (t_remotes d') = Some r" by (rule remote_row)
    from remote_heads_unique [OF heads(2) _ find_remote_heads [OF r]] head heads
    have "Rrem_ChainHeadHash r = h" "Rrem_ChainLen r = n" by auto
    with count_remote [OF heads(2) r]
    show "\<exists>a d''. sqlc_AdvanceRemoteChainHead h n rid h n d' = Inr (a, d'') \<and> a = 1"
      by (simp add: sqlc_AdvanceRemoteChainHead_def)
  qed
  show "runs (\<lambda>d'. x = (h, n) \<and> quiet d d') (case x of (currentHead, chainLen) \<Rightarrow>
      bindT (if bytesEqual currentHead witness then
               bindT (stmt (sqlc_AdvanceRemoteChainHead h n rid witness chainLen)) (\<lambda>rows.
               if rows \<noteq> 1 then fail ErrChainCAS else ret ())
             else if bytesEqual currentHead h then ret () else fail ErrChainCAS)
        (\<lambda>_. stmt (sqlc_DeleteRemoteLease rid holder))) (\<lambda>_ _. True)" for x
  proof (rule runs_pull)
    assume x: "x = (h, n)"
    have one: "runs (\<lambda>_. rows = 1) (if rows \<noteq> 1 then fail ErrChainCAS else ret ()) (\<lambda>_ _. True)" for rows :: int64
      by (auto simp: runs_def ret_def)
    have "runs (quiet d) (if bytesEqual h witness then
               bindT (stmt (sqlc_AdvanceRemoteChainHead h n rid witness n)) (\<lambda>rows.
               if rows \<noteq> 1 then fail ErrChainCAS else ret ())
             else if bytesEqual h h then ret () else fail ErrChainCAS) (\<lambda>_ _. True)"
      using runs_bind [OF adv one] runs_ret [of "quiet d" "\<lambda>_ _. True" "()"] by (auto simp: bytesEqual_eq)
    then show "runs (quiet d) (case x of (currentHead, chainLen) \<Rightarrow>
      bindT (if bytesEqual currentHead witness then
               bindT (stmt (sqlc_AdvanceRemoteChainHead h n rid witness chainLen)) (\<lambda>rows.
               if rows \<noteq> 1 then fail ErrChainCAS else ret ())
             else if bytesEqual currentHead h then ret () else fail ErrChainCAS)
        (\<lambda>_. stmt (sqlc_DeleteRemoteLease rid holder))) (\<lambda>_ _. True)"
      unfolding x prod.case by (rule runs_bind) (rule runs_stmt, simp add: sqlc_DeleteRemoteLease_def)
  qed
qed

lemma runs_Release:
  assumes l: "lse_RemoteID l = rid" and head: "(rid, h, n) \<in> set (remote_heads d)"
  shows "runs (quiet d) (dbLease_Release leaseStore (Some l) h n) (\<lambda>_. quiet d)"
proof (rule runsI)
  fix w :: "db world"
  assume nf: "no_faults w" and q: "quiet d (w_db w)"
  let ?w1 = "w\<lparr>w_stmts := w_stmts w + 1\<rparr>"
  have "no_faults ?w1" "quiet d (w_db ?w1)" using nf q by (simp_all add: no_faults_def)
  with runs_releaseTx [OF head] obtain u w2 where
    r: "releaseTx rid (lse_Holder l) (lse_ChainHeadAtLease l) h n ?w1 = (Inr u, w2)" "no_faults w2"
    by (rule runsE)
  then have run: "dbLease_Release leaseStore (Some l) h n w = (Inr (), w2\<lparr>w_stmts := w_stmts w2 + 1\<rparr>)"
    using nf l by (simp add: dbLease_Release_def sqliteStore_def sqliteStore_ReleaseLeaseCAS_def stmt_def no_faults_def Let_def)
  with sqlite_host.Release_quiet [unfolded sqlite_sel, OF l head q run] r(2)
  show "\<exists>a w'. dbLease_Release leaseStore (Some l) h n w = (Inr a, w') \<and> no_faults w' \<and> quiet d (w_db w')"
    by (simp add: no_faults_def)
qed

lemma Acquire_succeeds:
  assumes nf: "no_faults w" and row: "find (\<lambda>r. Rrem_ID r = rid) (t_remotes (w_db w)) = Some row"
    and free: "\<forall>l \<in> set (t_lease (w_db w)). Rls_RemoteID l = rid \<longrightarrow> Rls_ExpiresAtNs l < w_clock w (w_ticks w)"
  obtains l w' where "dbLease_AcquireRemoteLease leaseStore rid h ttl w = (Inr l, w')" and "no_faults w'"
proof -
  have ex: "remote_exists (w_db w) rid" using row by (auto simp: remote_exists_def list_ex_iff find_Some_iff)
  have "\<exists>d'. upsertLeaseSQL rid h a e (w_clock w (w_ticks w)) (w_db w) = Inr (1, d')" for a e
    using ex free by (auto simp: upsertLeaseSQL_def Let_def find_Some_iff split: option.splits)
  then obtain d' where "upsertLeaseSQL rid h (w_clock w (w_ticks w)) (wrap64 (w_clock w (w_ticks w) + ttl))
      (w_clock w (w_ticks w)) (w_db w) = Inr (1, d')" by blast
  then show thesis
    using nf row that
    by (simp add: dbLease_AcquireRemoteLease_def sqliteStore_def sqliteStore_TryAcquireLease_def bindT_def NowNS_def
        stmt_def sqlc_GetRemoteChainHead_def read_one_def select_one_def ret_def no_faults_def Let_def)
qed

section \<open>A sync succeeds\<close>

lemma runs_each: "(\<And>d. P d \<Longrightarrow> runs (\<lambda>d'. d' = d) m Q) \<Longrightarrow> runs P m Q"
  unfolding runs_def by metis

lemma try_step: "m w = (Inr a, w1) \<Longrightarrow> bindT (tryT m) f w = f (Inr a) w1"
  by (simp add: bindT_def tryT_def)

lemma runs_world:
  assumes "runs P m (\<lambda>x _. \<exists>r. x = (Some r, None) \<and> C r)" and "no_faults w" and "P (w_db w)"
  shows "\<exists>r w'. m w = (Inr (Some r, None), w') \<and> C r"
  using assms by (fastforce simp: runs_def)

text \<open>
  When the steps of a sync succeed over a host. \<open>ready\<close> is what the host asks of the database at the start, \<open>held\<close> what it
  asks while a lease is held, \<open>ok_holder\<close> and \<open>ok_ls\<close> what it asks of the holder's name and of a listed tag.
\<close>

locale sync_live = sync_host store lock tags
  for store :: "(db, 't, SyncID \<times> int64) Store" and lock :: "db Lock" and tags :: "db \<Rightarrow> RemoteID \<Rightarrow> Ref list" +
  fixes ready :: "db \<Rightarrow> bool" and held :: "Lease \<Rightarrow> db \<Rightarrow> bool" and ok_holder :: "string \<Rightarrow> bool"
    and ok_ls :: "LsRemoteRef \<Rightarrow> bool"
  assumes live_GetRemote:
      "no_faults w \<Longrightarrow> find (\<lambda>r. Rrem_ID r = rid) (t_remotes (w_db w)) = Some row \<Longrightarrow>
       st_GetRemote store rid w = (Inr (remoteFromRow row), w\<lparr>w_stmts := w_stmts w + 1\<rparr>)"
    and live_Acquire:
      "no_faults w \<Longrightarrow> ready (w_db w) \<Longrightarrow> ok_holder holder \<Longrightarrow>
       find (\<lambda>r. Rrem_ID r = rid) (t_remotes (w_db w)) = Some row \<Longrightarrow>
       \<forall>l \<in> set (t_lease (w_db w)). Rls_RemoteID l = rid \<longrightarrow> Rls_ExpiresAtNs l < w_clock w (w_ticks w) \<Longrightarrow>
       \<exists>l w'. lk_AcquireRemoteLease lock rid holder leaseTTL w = (Inr l, w') \<and> no_faults w' \<and> held l (w_db w')"
    and live_ListTags:
      "runs (\<lambda>d'. quiet d d' \<and> held l d') (st_ListTags store rid) (\<lambda>ps d'. ps = tags d rid \<and> quiet d d' \<and> held l d')"
    and live_WithTx:
      "sync_ok d \<Longrightarrow> ready d \<Longrightarrow> opened_db rid (length lsRefs + length (tags d rid)) d \<Longrightarrow>
       (\<And>xs. mset (order xs) = mset xs) \<Longrightarrow> (\<And>r. r \<in> set lsRefs \<Longrightarrow> ok_ls r) \<Longrightarrow> lse_RemoteID l = rid \<Longrightarrow>
       (rid, lse_ChainHeadAtLease l, n) \<in> set (remote_heads d) \<Longrightarrow>
       runs (\<lambda>d'. quiet d d' \<and> held l d')
         (st_WithTx store (syncTx order rid taintAny startNS (lse_ChainHeadAtLease l) lsRefs (tags d rid)))
         (\<lambda>_ d'. opened_db rid 0 d' \<and> held l d')"
    and live_GetChainHead:
      "remote_exists d rid \<Longrightarrow> runs (\<lambda>d'. quiet d d' \<and> held l d') (st_GetChainHead store rid)
         (\<lambda>x d'. (rid, x) \<in> set (remote_heads d) \<and> quiet d d' \<and> held l d')"
    and live_Release:
      "lse_RemoteID l = rid \<Longrightarrow> (rid, h, n) \<in> set (remote_heads d) \<Longrightarrow>
       runs (\<lambda>d'. quiet d d' \<and> held l d') (lk_Release lock (Some l) h n) (\<lambda>_ _. True)"
    and live_SetRemoteHealth: "runs (\<lambda>_. True) (ignoreT (st_SetRemoteHealth store rid RemoteActive [] ok)) (\<lambda>_ _. True)"
begin

lemma after_commit_runs:
  assumes l: "lse_RemoteID l = rid"
  shows "runs (\<lambda>d. opened_db rid 0 d \<and> held l d)
     (bindT (tryT (st_GetChainHead store rid)) (\<lambda>x. case x of
        Inl err \<Rightarrow> ret (None, Some err)
      | Inr (headAfter, newLen) \<Rightarrow>
      bindT (tryT (lk_Release lock (Some l) headAfter newLen)) (\<lambda>x. case x of
        Inl err \<Rightarrow> ret (None, Some err)
      | Inr _ \<Rightarrow>
      bindT NowNS (\<lambda>now.
      bindT (ignoreT (st_SetRemoteHealth store rid RemoteActive [] now)) (\<lambda>_.
      ret (Some (res headAfter), None))))))
     (\<lambda>x _. \<exists>h. x = (Some (res h), None))"
proof (rule runs_each)
  fix d
  assume op: "opened_db rid 0 d \<and> held l d"
  then have db: "db_ok d" and ex: "remote_exists d rid" by (simp_all add: opened_db_def ledger_ok_def)
  have start: "quiet d d' \<and> held l d'" if "d' = d" for d' using that op quiet_refl [OF db] by simp
  have tail: "runs (\<lambda>_. True) (bindT NowNS (\<lambda>now.
      bindT (ignoreT (st_SetRemoteHealth store rid RemoteActive [] now)) (\<lambda>_. ret (Some (res h), None))))
      (\<lambda>x _. \<exists>h. x = (Some (res h), None))" for h
    by (intro runs_bind [OF runs_NowNS [where Q = "\<lambda>_ _. True"]] runs_bind [OF live_SetRemoteHealth] runs_ret) auto
  show "runs (\<lambda>d'. d' = d) (bindT (tryT (st_GetChainHead store rid)) (\<lambda>x. case x of
        Inl err \<Rightarrow> ret (None, Some err)
      | Inr (headAfter, newLen) \<Rightarrow>
      bindT (tryT (lk_Release lock (Some l) headAfter newLen)) (\<lambda>x. case x of
        Inl err \<Rightarrow> ret (None, Some err)
      | Inr _ \<Rightarrow>
      bindT NowNS (\<lambda>now.
      bindT (ignoreT (st_SetRemoteHealth store rid RemoteActive [] now)) (\<lambda>_.
      ret (Some (res headAfter), None))))))
     (\<lambda>x _. \<exists>h. x = (Some (res h), None))"
    apply (rule runs_weaken [OF _ start], rule runs_try_then [OF live_GetChainHead [OF ex]], rule runs_pull, rule runs_case_prod)
     apply (rule runs_try_then [OF live_Release [OF l] tail], blast+)
    done
qed

theorem run_succeeds:
  assumes ok: "sync_ok (w_db w)" and syncs: "syncs_ok (w_db w)" and ready: "ready (w_db w)" and holder: "ok_holder holder"
    and nf: "no_faults w" and row: "find (\<lambda>r. Rrem_ID r = rid) (t_remotes (w_db w)) = Some row"
    and free: "\<forall>l \<in> set (t_lease (w_db w)). Rls_RemoteID l = rid \<longrightarrow> Rls_ExpiresAtNs l < w_clock w (w_ticks w)"
    and ls: "\<And>wg :: db world. execGitRunner_LsRemote proc g (Rrem_Url row) None wg = (Inr lsRefs, wg)"
    and names: "\<And>r. r \<in> set lsRefs \<Longrightarrow> ok_ls r"
    and room: "room (length lsRefs + length (tags (w_db w) rid)) (w_db w)"
    and order: "\<And>xs. mset (order xs) = mset xs"
  shows "\<exists>res w'. SyncRemote errText order store (execGit proc g) lock holder rid w = (Inr (Some res, None), w')
     \<and> res_Status res = SyncOk \<and> res_TagsSeen res = int (length lsRefs)"
proof -
  let ?d = "w_db w"
  have db: "db_ok ?d" using ok by (rule sync_okD)
  have ex: "remote_exists ?d rid" using row by (auto simp: remote_exists_def list_ex_iff find_Some_iff)
  have op: "opened_db rid (length lsRefs + length (tags ?d rid)) ?d"
    using ok syncs ex room by (simp add: opened_db_def sync_ok_def)
  let ?w1 = "w\<lparr>w_stmts := w_stmts w + 1\<rparr>"
  have get: "st_GetRemote store rid w = (Inr (remoteFromRow row), ?w1)" using nf row by (rule live_GetRemote)
  have "no_faults ?w1" using nf by (simp add: no_faults_def)
  from live_Acquire [of ?w1 holder rid row, OF this _ holder] ready row free obtain l w2 where
    acq: "lk_AcquireRemoteLease lock rid holder leaseTTL ?w1 = (Inr l, w2)" and nf2: "no_faults w2" and held: "held l (w_db w2)"
    by auto
  from Acquire_head [OF acq] obtain n where l: "lse_RemoteID l = rid" "(rid, lse_ChainHeadAtLease l, n) \<in> set (remote_heads ?d)"
    by auto
  have "quiet ?d (w_db w2)" using quietT_quiet [OF Acquire_quiet _ acq] quiet_refl [OF db] by simp
  with held have start: "quiet ?d (w_db w2) \<and> held l (w_db w2)" by simp
  have git: "runs (\<lambda>d'. quiet ?d d' \<and> held l d') (execGitRunner_LsRemote proc g (Rrem_Url row) None)
      (\<lambda>r d. r = lsRefs \<and> quiet ?d d \<and> held l d)"
    using ls by (simp add: runs_def)
  have sel: "rem_URL (remoteFromRow row) = Rrem_Url row" "rem_ChainLen (remoteFromRow row) = Rrem_ChainLen row"
    "rem_TaintAnyTagDeletion (remoteFromRow row) = (Rrem_TaintAnyTagDeletion row \<noteq> 0)"
    by (simp_all add: remoteFromRow_def)
  show ?thesis
    unfolding SyncRemote_def execGit_sel try_step [where m = "st_GetRemote store rid", OF get] sum.case
      try_step [where m = "lk_AcquireRemoteLease lock rid holder leaseTTL", OF acq] sel Let_def
    apply (rule runs_world [where P = "\<lambda>d'. quiet ?d d' \<and> held l d'", OF _ nf2 start])
    apply (rule runs_bind [OF runs_NowNS [where Q = "\<lambda>_ d'. quiet ?d d' \<and> held l d'"]], simp)
    apply (rule runs_try_then [OF git], rule runs_pull)
    apply (rule runs_try_then [OF live_ListTags], rule runs_pull, simp)
    apply (rule runs_try_then [OF live_WithTx [OF ok ready op order names l]], assumption, rule runs_case_prod)
    apply (rule runs_weaken [OF after_commit_runs [OF l(1)]])
     apply auto
    done
qed

end

section \<open>The SQLite store\<close>

interpretation sqlite_live: sync_live sqliteStore sqliteLock tags_of "\<lambda>_. True" "\<lambda>_ _. True" "\<lambda>_. True" "\<lambda>_. True"
proof (unfold_locales, unfold sqlite_sel simp_thms, goal_cases)
  case (1 w rid row)
  then show ?case
    by (simp add: sqliteStore_GetRemote_def bindT_def mapErrT_def stmt_def sqlc_GetRemote_def read_one_def select_one_def
        ret_def no_faults_def Let_def)
next
  case (2 w holder rid row)
  from 2(1,4,5) obtain l w' where "dbLease_AcquireRemoteLease leaseStore rid holder leaseTTL w = (Inr l, w')" "no_faults w'"
    by (rule Acquire_succeeds)
  then show ?case by blast
next
  case (3 d l rid)
  show ?case
    unfolding sqliteStore_ListTags_def
    by (intro runs_bind [OF runs_stmt [where Q = "\<lambda>rows d'. quiet d d' \<and> map refFromRow rows = tags_of d rid"]] runs_ret)
      (auto simp: sqlc_ListTags_def tags_of_def quiet_def)
next
  case (4 d rid lsRefs order l n taintAny startNS)
  then show ?case by (intro commit_runs) simp_all
next
  case (5 d rid l)
  from runs_GetChainHead [OF 5] show ?case by (rule runs_weaken) auto
next
  case (6 l rid h n d)
  from runs_Release [OF 6] show ?case by (rule runs_weaken) auto
next
  case (7 rid ok)
  show ?case by (rule runs_ignore) (rule runs_SetRemoteHealth)
qed

lemma SyncRemote_succeeds:
  assumes "sync_ok (w_db w)" and "syncs_ok (w_db w)" and "no_faults w"
    and "find (\<lambda>r. Rrem_ID r = rid) (t_remotes (w_db w)) = Some row"
    and "\<forall>l \<in> set (t_lease (w_db w)). Rls_RemoteID l = rid \<longrightarrow> Rls_ExpiresAtNs l < w_clock w (w_ticks w)"
    and "\<And>wg :: db world. execGitRunner_LsRemote proc g (Rrem_Url row) None wg = (Inr lsRefs, wg)"
    and "room (length lsRefs + length (tags_of (w_db w) rid)) (w_db w)"
    and "\<And>xs. mset (order xs) = mset xs"
  shows "\<exists>res w'. SyncRemote errText order sqliteStore (execGit proc g) sqliteLock holder rid w = (Inr (Some res, None), w')
     \<and> res_Status res = SyncOk \<and> res_TagsSeen res = int (length lsRefs)"
  using assms by (intro sqlite_live.run_succeeds) simp_all

end
