(* ===== verification/Sync_Detect.thy ===== *)
theory Sync_Detect
  imports Sync_Live
begin

text \<open>
  What a successful sync means for one tag: a changed, recreated or deleted tag is tainted and
  has its event, an unchanged one is left alone, and no event appears without a cause. A
  listing is assumed to name each tag once.
\<close>

section \<open>The specification holds of a successful run\<close>

text \<open>A store whose listing of tags is its view of them, and whose transaction does to the view what the contract says.\<close>

locale sync_refines = sync_host store lock tags
  for store :: "(db, 't, SyncID \<times> int64) Store" and lock and tags +
  assumes tags_prior: "db_ok d \<Longrightarrow> map_of (priorMap (tags d rid)) = v_refs (db_view d) rid"
    and WithTx_synced:
      "distinct (map lsr_Name lsRefs) \<Longrightarrow> \<forall>now \<in> set lsRefs. ls_ok now \<Longrightarrow>
       (\<And>tag. prior_ok rid tag (v_refs v rid tag)) \<Longrightarrow> map_of (priorMap priors) = v_refs v rid \<Longrightarrow>
       (\<And>xs. mset (order xs) = mset xs) \<Longrightarrow>
       oks (\<lambda>d. ledger_ok d \<and> db_view d = v)
         (st_WithTx store (syncTx order rid taintAny startNS head lsRefs priors))
         (\<lambda>_ d. \<exists>ns. synced rid ns taintAny v lsRefs (order (priorMap priors)) (db_view d))"
begin

lemma run_synced:
  assumes ok: "sync_ok (w_db w)" and order: "\<And>xs. mset (order xs) = mset xs"
    and run: "SyncRemote errText order store (execGit proc g) lock holder rid w = (Inr (res, None), w')"
    and row: "find (\<lambda>r. Rrem_ID r = rid) (t_remotes (w_db w)) = Some row"
    and ls: "\<And>wg :: db world. execGitRunner_LsRemote proc g (Rrem_Url row) None wg = (Inr lsRefs, wg)"
    and dist: "distinct (map lsr_Name lsRefs)"
  shows "\<exists>ns. synced rid ns (Rrem_TaintAnyTagDeletion row \<noteq> 0) (db_view (w_db w)) lsRefs
     (order (priorMap (tags (w_db w) rid))) (db_view (w_db w'))"
  using sync_okD(1) [OF ok] run
proof (rule sync_cases)
  fix x
  assume "Inr (res, None) = (Inr x :: err + SyncResult option \<times> err option)" and "snd x \<noteq> None"
  then show ?thesis by auto
next
  fix x row' lsRefs' algo startNS head and wg w2 :: "db world" and r w3
  let ?d2 = "w_db w2" and ?d = "w_db w"
  assume row': "find (\<lambda>r. Rrem_ID r = rid) (t_remotes ?d) = Some row'"
    and ls': "execGitRunner_LsRemote proc g (Rrem_Url row') None (wg :: db world) = (Inr lsRefs', wg)"
    and parsed: "list_all (ref_parsed algo) lsRefs'" and q2: "quiet ?d ?d2"
    and tx: "st_WithTx store (syncTx order rid (Rrem_TaintAnyTagDeletion row' \<noteq> 0) startNS head lsRefs'
          (tags ?d2 rid)) w2 = (Inr r, w3)"
    and q3: "quiet (w_db w3) (w_db w')"
  have "row' = row" using row row' by simp
  moreover from this ls [of wg] ls' have "lsRefs' = lsRefs" by simp
  ultimately have same: "row' = row" "lsRefs' = lsRefs" .
  have ok2: "sync_ok ?d2" using q2 ok by (rule quiet_sync_ok)
  have refs: "tags ?d2 rid = tags ?d rid" by (rule tags_refs) (use q2 in \<open>simp add: quiet_def\<close>)
  have ls_ok: "\<forall>now \<in> set lsRefs. ls_ok now"
    using parsed ls_ok_parsed by (auto simp: same list_all_iff)
  have prior: "prior_ok rid tag (v_refs (db_view ?d2) rid tag)" for tag
    using ok2 by (intro prior_ok_view) (rule sync_okD)
  note spec = WithTx_synced [where v = "db_view ?d2", OF dist ls_ok prior tags_prior [OF sync_okD(3) [OF ok2]] order]
  from oksD [OF spec _ tx [unfolded same]] sync_okD(1) [OF ok2] show ?thesis
    by (simp add: quiet_view [OF q2] quiet_view [OF q3] refs)
qed

end

interpretation sqlite_refines: sync_refines sqliteStore sqliteLock tags_of
proof (unfold_locales, unfold sqlite_sel, goal_cases)
  case (1 d rid)
  then show ?case by (rule priorMap_tags)
next
  case (2 lsRefs rid v priors order taintAny startNS head)
  have "oks (\<lambda>d. ledger_ok d \<and> db_view d = v) (sqliteStore_WithTx (syncTx order rid taintAny startNS head lsRefs priors))
      (\<lambda>_ d. (\<exists>ns. synced rid ns taintAny v lsRefs (order (priorMap priors)) (db_view d)) \<and> sync_fk_ok d)"
    by (rule WithTx_oks, rule oks_weaken [OF sqlite.syncTx_spec [where ?v0.0 = v, OF 2]]) auto
  then show ?case by (rule oks_weaken) auto
qed

lemmas SyncRemote_synced = sqlite_refines.run_synced

section \<open>One tag\<close>

text \<open>\<open>event_for\<close>: the table has the taint event of a change of a row.\<close>

definition event_for :: "db \<Rightarrow> RemoteID \<Rightarrow> RefID \<Rightarrow> TaintReason \<Rightarrow> OID \<Rightarrow> OID \<Rightarrow> bool" where
  "event_for d rid i reason from_oid to_oid \<longleftrightarrow>
     (\<exists>e \<in> set (t_taint_events d). Rte_RemoteID e = rid \<and> Rte_RefID e = i \<and> Rte_Reason e = reason \<and>
        taintCol (Rte_FromOid e) = from_oid \<and> taintCol (Rte_ToOid e) = to_oid)"

definition change_reason :: "RefRow \<Rightarrow> TaintReason" where
  "change_reason old = (if Rref_Deleted old \<noteq> 0 then TaintTagDeletedRecreated else TaintTagOIDChanged)"

definition row_oid :: "RefRow \<Rightarrow> OID" where
  "row_oid r = oidFromCol (Rref_CurrentOid r)"

lemma taint_is_event_for:
  "(\<exists>e \<in> set (v_taints (db_view d)). taint_is rid i reason f t e) \<longleftrightarrow> event_for d rid i reason f t"
  by (auto simp: event_for_def db_view_def taint_is_def)

lemma v_refs_db_view: "v_refs (db_view d) rid tag = map_option refFromRow (ref_at d rid tag)"
  by (simp add: db_view_def)

lemma ClassifyTag_row:
  "td_Taint (ClassifyTag (Some (refFromRow old)) (Some now)) =
     (if lsr_OID now = row_oid old then None else Some (change_reason old))"
  "td_Event (ClassifyTag (Some (refFromRow old)) (Some now)) =
     (if lsr_OID now \<noteq> row_oid old then if Rref_Deleted old \<noteq> 0 then EventTagRecreated else EventTagOIDChanged
      else if Rref_Deleted old \<noteq> 0 then EventTagCreated else [])"
  by (auto simp: ClassifyTag_def OID_Equal_eq row_oid_def change_reason_def emptyDelta_def)

lemma taint_ref_tainted: "ref_ok r \<Longrightarrow> ref_Tainted (taint_ref r ns)"
  by (auto simp: taint_ref_def ref_ok_def)

lemma priorMap_entry:
  assumes "sync_ok d" and order: "\<And>xs. mset (order xs) = mset xs"
  shows "(tag, p) \<in> set (order (priorMap (tags_of d rid))) \<longleftrightarrow> (\<exists>r. ref_at d rid tag = Some r \<and> p = refFromRow r)"
proof -
  have "(tag, p) \<in> set (order (priorMap (tags_of d rid))) \<longleftrightarrow> map_of (priorMap (tags_of d rid)) tag = Some p"
    using priorMap_distinct by (simp add: set_order [of order, OF order])
  then show ?thesis
    unfolding priorMap_tags [OF sync_okD(3) [OF assms(1)]] v_refs_db_view by auto
qed

lemma row_after:
  assumes "v_refs (db_view d) rid tag = Some r"
  obtains row where "ref_at d rid tag = Some row" and "r = refFromRow row"
  using assms by (auto simp: v_refs_db_view)

lemma synced_changed:
  assumes sy: "synced rid ns taintAny (db_view d) lsRefs gone (db_view d')" and ok: "sync_ok d"
    and now: "now \<in> set lsRefs" and old: "ref_at d rid (lsr_Name now) = Some old" and ne: "lsr_OID now \<noteq> row_oid old"
  shows "tainted_at rid (lsr_Name now) d'" and "event_for d' rid (Rref_ID old) (change_reason old) (row_oid old) (lsr_OID now)"
proof -
  let ?p = "refFromRow old"
  have v: "v_refs (db_view d) rid (lsr_Name now) = Some ?p" using old by (simp add: v_refs_db_view)
  have ta: "td_Taint (ClassifyTag (Some ?p) (Some now)) = Some (change_reason old)"
    using ne by (simp add: ClassifyTag_row)
  from sy now have "seen_done rid ns (db_view d) now (db_view d')" by (simp add: synced_def)
  then have row: "v_refs (db_view d') rid (lsr_Name now) = Some ((seen_ref (Some ?p) now ns rid)\<lparr>ref_ID := Rref_ID old\<rparr>)"
    and ev: "\<exists>e \<in> set (v_taints (db_view d')). taint_is rid (Rref_ID old) (change_reason old) (ref_CurrentOID ?p) (lsr_OID now) e"
    unfolding seen_done_def v Let_def using ta by (auto simp: prev_oid_def)
  from ev show "event_for d' rid (Rref_ID old) (change_reason old) (row_oid old) (lsr_OID now)"
    by (simp add: taint_is_event_for row_oid_def)
  have rok: "ref_ok ?p" using ok old by (auto simp: sync_ok_def rows_ok_def dest: ref_at_in)
  then have "ref_Tainted (seen_ref (Some ?p) now ns rid)"
    using ta by (auto simp: seen_ref_def taint_ref_def ref_ok_def Let_def)
  with row show "tainted_at rid (lsr_Name now) d'"
    by (auto simp: v_refs_db_view tainted_at_def simp flip: refFromRow_sel(5))
qed

lemma synced_deleted:
  assumes sy: "synced rid ns taintAny (db_view d) lsRefs (order (priorMap (tags_of d rid))) (db_view d')" and ok: "sync_ok d"
    and order: "\<And>xs. mset (order xs) = mset xs"
    and old: "ref_at d rid tag = Some old" and alive: "Rref_Deleted old = 0" and gone: "tag \<notin> lsr_Name ` set lsRefs"
  shows "\<exists>r. ref_at d' rid tag = Some r \<and> Rref_Deleted r \<noteq> 0 \<and> (taintAny \<longrightarrow> Rref_Tainted r \<noteq> 0)"
    and "taintAny \<Longrightarrow> event_for d' rid (Rref_ID old) TaintTagDeletedRecreated (row_oid old) zeroOID"
proof -
  let ?p = "refFromRow old"
  have "(tag, ?p) \<in> set (order (priorMap (tags_of d rid)))"
    using old by (subst priorMap_entry [OF ok order]) auto
  with sy gone have "gone_done rid taintAny tag ?p (db_view d')" by (auto simp: synced_def)
  with alive obtain n where row: "v_refs (db_view d') rid tag = Some (gone_ref ?p taintAny n)"
    and ev: "taintAny \<longrightarrow> (\<exists>e \<in> set (v_taints (db_view d')).
      taint_is rid (Rref_ID old) TaintTagDeletedRecreated (ref_CurrentOID ?p) zeroOID e)"
    by (auto simp: gone_done_def)
  from ev show "event_for d' rid (Rref_ID old) TaintTagDeletedRecreated (row_oid old) zeroOID" if taintAny
    using that by (simp add: taint_is_event_for row_oid_def)
  have rok: "ref_ok ?p" using ok old by (auto simp: sync_ok_def rows_ok_def dest: ref_at_in)
  then have "ref_Deleted (gone_ref ?p taintAny n)" "taintAny \<longrightarrow> ref_Tainted (gone_ref ?p taintAny n)"
    by (auto simp: gone_ref_def taint_ref_def ref_ok_def Let_def)
  moreover obtain r where r: "ref_at d' rid tag = Some r" "gone_ref ?p taintAny n = refFromRow r"
    using row by (rule row_after)
  ultimately show "\<exists>r. ref_at d' rid tag = Some r \<and> Rref_Deleted r \<noteq> 0 \<and> (taintAny \<longrightarrow> Rref_Tainted r \<noteq> 0)"
    unfolding r(2) by simp
qed

text \<open>The first sighting of a tag pins its object id and taints nothing.\<close>

lemma synced_new:
  assumes sy: "synced rid ns taintAny (db_view d) lsRefs gone (db_view d')"
    and now: "now \<in> set lsRefs" and new: "ref_at d rid (lsr_Name now) = None"
  shows "\<exists>r. ref_at d' rid (lsr_Name now) = Some r \<and> row_oid r = lsr_OID now \<and> oidFromCol (Rref_FirstOid r) = lsr_OID now \<and>
     Rref_Tainted r = 0 \<and> Rref_Deleted r = 0"
proof -
  have v: "v_refs (db_view d) rid (lsr_Name now) = None" using new by (simp add: v_refs_db_view)
  from sy now have "seen_done rid ns (db_view d) now (db_view d')" by (simp add: synced_def)
  then obtain i where "v_refs (db_view d') rid (lsr_Name now) = Some ((seen_ref None now ns rid)\<lparr>ref_ID := i\<rparr>)"
    unfolding seen_done_def v Let_def by auto
  then obtain r where r: "ref_at d' rid (lsr_Name now) = Some r" "refFromRow r = (seen_ref None now ns rid)\<lparr>ref_ID := i\<rparr>"
    by (auto elim!: row_after)
  have "ref_FirstOID (refFromRow r) = oidFromCol (Rref_FirstOid r)" by (simp add: refFromRow_def)
  moreover from r(2) have "ref_CurrentOID (refFromRow r) = lsr_OID now" "ref_FirstOID (refFromRow r) = lsr_OID now"
    "\<not> ref_Tainted (refFromRow r)" "\<not> ref_Deleted (refFromRow r)"
    by (simp_all add: seen_ref_def ClassifyTag_def)
  ultimately show ?thesis using r(1) by (simp add: row_oid_def)
qed

text \<open>An unchanged tag keeps its taint status.\<close>

lemma synced_unchanged:
  assumes sy: "synced rid ns taintAny (db_view d) lsRefs gone (db_view d')"
    and now: "now \<in> set lsRefs" and old: "ref_at d rid (lsr_Name now) = Some old" and same: "lsr_OID now = row_oid old"
  shows "\<exists>r. ref_at d' rid (lsr_Name now) = Some r \<and> Rref_ID r = Rref_ID old \<and> row_oid r = row_oid old \<and>
     (Rref_Tainted r \<noteq> 0 \<longleftrightarrow> Rref_Tainted old \<noteq> 0) \<and> Rref_TaintFirstNs r = Rref_TaintFirstNs old \<and> Rref_Deleted r = 0"
proof -
  let ?p = "refFromRow old"
  have v: "v_refs (db_view d) rid (lsr_Name now) = Some ?p" using old by (simp add: v_refs_db_view)
  have ta: "td_Taint (ClassifyTag (Some ?p) (Some now)) = None" using same by (simp add: ClassifyTag_row)
  from sy now have "seen_done rid ns (db_view d) now (db_view d')" by (simp add: synced_def)
  then have "v_refs (db_view d') rid (lsr_Name now) = Some ((seen_ref (Some ?p) now ns rid)\<lparr>ref_ID := Rref_ID old\<rparr>)"
    unfolding seen_done_def v Let_def by auto
  then obtain r where r: "ref_at d' rid (lsr_Name now) = Some r"
    "refFromRow r = (seen_ref (Some ?p) now ns rid)\<lparr>ref_ID := Rref_ID old\<rparr>"
    by (auto elim!: row_after)
  from r(2) have "ref_ID (refFromRow r) = Rref_ID old" "ref_CurrentOID (refFromRow r) = row_oid old"
    "ref_Tainted (refFromRow r) \<longleftrightarrow> Rref_Tainted old \<noteq> 0" "ref_TaintFirstNS (refFromRow r) = Rref_TaintFirstNs old"
    "\<not> ref_Deleted (refFromRow r)"
    using ta same by (simp_all add: seen_ref_def)
  with r(1) show ?thesis by (simp add: row_oid_def)
qed

text \<open>No event without a cause.\<close>

lemma synced_cause:
  assumes sy: "synced rid ns taintAny (db_view d) lsRefs (order (priorMap (tags_of d rid))) (db_view d')" and ok: "sync_ok d"
    and order: "\<And>xs. mset (order xs) = mset xs"
    and e: "e \<in> taintEventFromRow ` set (t_taint_events d')" "e \<notin> taintEventFromRow ` set (t_taint_events d)"
  shows "\<exists>tag old. ref_at d rid tag = Some old \<and> te_RemoteID e = rid \<and> te_RefID e = Rref_ID old \<and> te_FromOID e = row_oid old \<and>
     ((\<exists>now \<in> set lsRefs. lsr_Name now = tag \<and> lsr_OID now \<noteq> row_oid old \<and> te_ToOID e = lsr_OID now) \<or>
      taintAny \<and> Rref_Deleted old = 0 \<and> tag \<notin> lsr_Name ` set lsRefs)"
proof -
  have "e \<in> set (v_taints (db_view d'))" "e \<notin> set (v_taints (db_view d))" using e by (simp_all add: db_view_def)
  with sy consider now where "now \<in> set lsRefs" "seen_cause rid (db_view d) now e"
    | tag p where "(tag, p) \<in> set (order (priorMap (tags_of d rid)))" "tag \<notin> lsr_Name ` set lsRefs" "gone_cause rid taintAny p e"
    unfolding synced_def by blast
  then show ?thesis
  proof cases
    case 1
    then obtain old where "ref_at d rid (lsr_Name now) = Some old"
      and "\<exists>reason. td_Taint (ClassifyTag (Some (refFromRow old)) (Some now)) = Some reason \<and>
        taint_is rid (Rref_ID old) reason (row_oid old) (lsr_OID now) e"
      by (auto simp: seen_cause_def v_refs_db_view row_oid_def)
    with 1(1) show ?thesis
      by (intro exI [of _ "lsr_Name now"] exI [of _ old]) (auto simp: ClassifyTag_row taint_is_def split: if_splits)
  next
    case 2
    from 2(1) obtain old where "ref_at d rid tag = Some old" "p = refFromRow old"
      by (auto simp: priorMap_entry [OF ok order])
    with 2 show ?thesis
      by (intro exI [of _ tag] exI [of _ old]) (auto simp: gone_cause_def taint_is_def row_oid_def)
  qed
qed

text \<open>A listing that agrees with the projection: nothing is recorded.\<close>

lemma synced_quiescent:
  assumes sy: "synced rid ns taintAny (db_view d) lsRefs (order (priorMap (tags_of d rid))) (db_view d')" and ok: "sync_ok d"
    and order: "\<And>xs. mset (order xs) = mset xs"
    and seen: "\<And>now. now \<in> set lsRefs \<Longrightarrow> \<exists>old. ref_at d rid (lsr_Name now) = Some old \<and> Rref_Deleted old = 0 \<and> lsr_OID now = row_oid old"
    and gone: "\<And>tag old. ref_at d rid tag = Some old \<Longrightarrow> Rref_Deleted old = 0 \<Longrightarrow> tag \<in> lsr_Name ` set lsRefs"
  shows "map row_entry (t_observations d') = map row_entry (t_observations d)"
    and "taintEventFromRow ` set (t_taint_events d') = taintEventFromRow ` set (t_taint_events d)"
proof -
  have 1: "td_Event (ClassifyTag (v_refs (db_view d) rid (lsr_Name now)) (Some now)) = []" if "now \<in> set lsRefs" for now
    using seen [OF that] by (auto simp: v_refs_db_view ClassifyTag_row)
  have 2: "tag \<in> lsr_Name ` set lsRefs \<or> ref_Deleted p" if "(tag, p) \<in> set (order (priorMap (tags_of d rid)))" for tag p
    using that gone [of tag] unfolding priorMap_entry [OF ok order] by auto
  from sy 1 2 have "v_log (db_view d') = v_log (db_view d)" unfolding synced_def by blast
  then show "map row_entry (t_observations d') = map row_entry (t_observations d)" by (simp add: db_view_def)
  have "e \<in> taintEventFromRow ` set (t_taint_events d)" if "e \<in> taintEventFromRow ` set (t_taint_events d')" for e
  proof (rule ccontr)
    assume "e \<notin> taintEventFromRow ` set (t_taint_events d)"
    from synced_cause [OF sy ok order that this] seen gone show False by fastforce
  qed
  moreover have "taintEventFromRow ` set (t_taint_events d) \<subseteq> taintEventFromRow ` set (t_taint_events d')"
    using sy by (auto simp: synced_def db_view_def)
  ultimately show "taintEventFromRow ` set (t_taint_events d') = taintEventFromRow ` set (t_taint_events d)" by blast
qed

end
