(* ===== verification/Sync_History.thy ===== *)
theory Sync_History
  imports Sync_Taint
begin

text \<open>
  The record of the past is append-only: a sync only appends observations and taint events,
  and changes no event that is there. An acknowledgement fills the acknowledgement columns of
  an event that has none. \<open>history d d'\<close> says that \<open>d'\<close> extends the record of \<open>d\<close> in this way.
\<close>

definition event_core :: "TaintEventRow \<Rightarrow> TaintEventRow" where
  "event_core e = e\<lparr>Rte_AckedAtNs := None, Rte_AckedBy := None, Rte_AckNote := None\<rparr>"

definition event_kept :: "TaintEventRow \<Rightarrow> TaintEventRow \<Rightarrow> bool" where
  "event_kept e e' \<longleftrightarrow> event_core e' = event_core e \<and> (Rte_AckedAtNs e \<noteq> None \<longrightarrow> e' = e)"

definition events_kept :: "TaintEventRow list \<Rightarrow> TaintEventRow list \<Rightarrow> bool" where
  "events_kept es es' \<longleftrightarrow> (\<exists>old new. es' = old @ new \<and> list_all2 event_kept es old)"

definition history :: "db \<Rightarrow> db \<Rightarrow> bool" where
  "history d d' \<longleftrightarrow> prefix (t_observations d) (t_observations d') \<and> events_kept (t_taint_events d) (t_taint_events d')"

lemma event_kept_refl: "event_kept e e"
  by (simp add: event_kept_def)

lemma event_kept_trans: "event_kept e e' \<Longrightarrow> event_kept e' e'' \<Longrightarrow> event_kept e e''"
  by (auto simp: event_kept_def)

lemma events_kept_append: "events_kept es (es @ new)"
  unfolding events_kept_def by (rule exI [of _ es], rule exI [of _ new]) (simp add: list.rel_refl event_kept_refl)

lemma events_kept_refl: "events_kept es es"
  using events_kept_append [of es "[]"] by simp

lemma events_kept_trans:
  assumes "events_kept es es'" and "events_kept es' es''"
  shows "events_kept es es''"
proof -
  from assms(1) obtain old new where 1: "es' = old @ new" "list_all2 event_kept es old"
    by (auto simp: events_kept_def)
  from assms(2) obtain old' new' where 2: "es'' = old' @ new'" "list_all2 event_kept (old @ new) old'"
    by (auto simp: events_kept_def 1)
  from 2(2) obtain o1 o2 where 3: "old' = o1 @ o2" "list_all2 event_kept old o1"
    by (auto simp: list_all2_append1)
  have "list_all2 event_kept es o1" by (rule list_all2_trans [OF event_kept_trans 1(2) 3(2)])
  then show ?thesis unfolding events_kept_def 2(1) 3(1) by auto
qed

lemma history_refl: "history d d"
  by (simp add: history_def events_kept_refl)

lemma history_trans: "history d d' \<Longrightarrow> history d' d'' \<Longrightarrow> history d d''"
  by (auto simp: history_def intro: events_kept_trans prefix_order.trans)

lemma history_same:
  "t_observations d'' = t_observations d' \<Longrightarrow> t_taint_events d'' = t_taint_events d' \<Longrightarrow> history d d' \<Longrightarrow> history d d''"
  by (simp add: history_def)

lemma history_append_db: "history d (append_db d ob sid h n)"
  by (simp add: history_def append_db_def events_kept_refl)

lemma history_InsertTaintEvent: "sqlc_InsertTaintEvent arg d = Inr (i, d') \<Longrightarrow> history d d'"
  by (auto simp: sqlc_InsertTaintEvent_def history_def Let_def events_kept_refl events_kept_append
      split: if_splits option.splits)

lemma history_AckTaintEvent: "sqlc_AckTaintEvent now who note i d = Inr (u, d') \<Longrightarrow> history d d'"
proof -
  assume "sqlc_AckTaintEvent now who note i d = Inr (u, d')"
  then have d': "d' = d\<lparr>t_taint_events := update_where (\<lambda>r. Rte_ID r = i \<and> Rte_AckedAtNs r = None)
      (\<lambda>r. r\<lparr>Rte_AckedAtNs := Some now, Rte_AckedBy := Some who, Rte_AckNote := Some note\<rparr>) (t_taint_events d)\<rparr>"
    by (simp add: sqlc_AckTaintEvent_def)
  have "list_all2 event_kept es (update_where (\<lambda>r. Rte_ID r = i \<and> Rte_AckedAtNs r = None)
      (\<lambda>r. r\<lparr>Rte_AckedAtNs := Some now, Rte_AckedBy := Some who, Rte_AckNote := Some note\<rparr>) es)" for es
    by (auto simp: update_where_def list_all2_conv_all_nth event_kept_def event_core_def)
  then show ?thesis unfolding d' history_def events_kept_def by auto
qed

lemma oks_history_txq:
  assumes "\<And>d a d'. q d = Inr (a, d') \<Longrightarrow> history d d'"
  shows "oks (\<lambda>t. history d0 (stx_q t)) (txq q) (\<lambda>_ t. history d0 (stx_q t))"
  by (rule oks_txq) (use assms history_trans in force)

interpretation sqlite_history: tx_invariant sqliteTx_Tx "\<lambda>t. history d0 (stx_q t)" "\<lambda>_. True" for d0
proof
  show "oks (\<lambda>t. history d0 (stx_q t)) (tx_UpsertRefProjection sqliteTx_Tx ref) (\<lambda>ref' t. True \<and> history d0 (stx_q t))" for ref
    unfolding sqliteTx_Tx_sel
    by (rule oks_weaken [OF oks_UpsertRefProjection [where P = "history d0" and Q = "\<lambda>_. history d0"]])
      (auto simp: sqlc_UpsertRef_def Let_def intro: history_same split: option.splits if_splits)
  show "oks (\<lambda>t. history d0 (stx_q t)) (tx_AppendTaintEvent sqliteTx_Tx e) (\<lambda>_ t. history d0 (stx_q t))" for e
    unfolding sqliteTx_Tx_sel sqliteTx_AppendTaintEvent_def
    by (rule oks_history_txq) (rule history_InsertTaintEvent)
  show "oks (\<lambda>t. history d0 (stx_q t)) (tx_PruneSyncs sqliteTx_Tx i n) (\<lambda>_ t. history d0 (stx_q t))" for i n
    unfolding sqliteTx_Tx_sel sqliteTx_PruneSyncs_def
    by (rule oks_history_txq) (auto simp: sqlc_PruneSyncs_def intro: history_same [OF _ _ history_refl])
  show "oks (\<lambda>t. history d0 (stx_q t)) (tx_WriteSync sqliteTx_Tx s) (\<lambda>_ t. history d0 (stx_q t))" for s
    unfolding sqliteTx_Tx_sel sqliteTx_WriteSync_def
    by (rule oks_bind [OF oks_history_txq oks_bind [OF oks_modifyT [where Q = "\<lambda>_ t. history d0 (stx_q t)"] oks_ret]])
      (auto simp: sqlc_InsertSync_def Let_def intro: history_same [OF _ _ history_refl] split: if_splits)
  show "oks (\<lambda>t. history d0 (stx_q t)) (tx_AppendObservation sqliteTx_Tx ob) (\<lambda>_ t. history d0 (stx_q t))" for ob
    unfolding sqliteTx_Tx_sel
  proof (rule oksI)
    fix w a w'
    assume p: "history d0 (stx_q (w_db w))" and run: "sqliteTx_AppendObservation ob w = (Inr a, w')"
    obtain sq ob' where a: "a = (sq, ob')" by (cases a)
    from run [unfolded a] refl refl obtain h n where
      "w_db w' = (w_db w)\<lparr>stx_q := append_db (stx_q (w_db w)) ob' (effective_sync ob (stx_syncID (w_db w))) h n\<rparr>"
      by (rule AppendObservation_Inr)
    with history_trans [OF p history_append_db] show "history d0 (stx_q (w_db w'))" by simp
  qed
qed simp

lemma SyncRemote_history:
  assumes "sync_ok (w_db w)" and order: "\<And>xs. mset (order xs) = mset xs"
  shows "history (w_db w) (w_db (snd (SyncRemote errText order sqliteStore (execGit proc g) sqliteLock holder rid w)))"
proof (rule SyncRemote_keeps [where I = "history (w_db w)", OF assms(1) history_refl order])
  show "history (w_db w) d'" if "quiet d d'" "history (w_db w) d" for d d'
    using that by (auto simp: quiet_def intro: history_same)
qed (rule sqlite_history.inv_syncTx; simp)

end
