(* ===== verification/Api_Server.thy ===== *)
theory Api_Server
  imports Api_Handlers Sync_Detect Sync_History
begin

text \<open>
  The API over the SQLite store: which handlers only read, what the others keep, and what
  \<open>Verify\<close> answers. The server as a whole is a step relation on the world whose steps are the
  handlers and the syncs, one at a time, and changes of the outside (clock, failures).
\<close>

section \<open>Operations that only read\<close>

named_theorems reads_intros \<open>rules for \<open>readsT\<close>\<close>

definition readsT :: "('d, 'a) io \<Rightarrow> bool" where
  "readsT m \<longleftrightarrow> (\<forall>w. w_db (snd (m w)) = w_db w)"

lemma readsT_snd: "readsT m \<Longrightarrow> w_db (snd (m w)) = w_db w"
  by (simp add: readsT_def)

lemma readsT_eq: "readsT m \<Longrightarrow> m w = (r, w') \<Longrightarrow> w_db w' = w_db w"
  by (metis readsT_def snd_conv)

lemma readsT_basic [reads_intros]: "readsT (ret a)" "readsT (fail e)" "readsT NowNS"
  by (simp_all add: readsT_def ret_def fail_def NowNS_def)

lemma readsT_stmt: "(\<And>d a d'. q d = Inr (a, d') \<Longrightarrow> d' = d) \<Longrightarrow> readsT (stmt q)"
  unfolding readsT_def by (blast intro: stmt_reads)

lemma readsT_bind [reads_intros]: "readsT m \<Longrightarrow> (\<And>a. readsT (f a)) \<Longrightarrow> readsT (bindT m f)"
  unfolding readsT_def by (blast intro: bindT_reads)

lemma readsT_try [reads_intros]: "readsT m \<Longrightarrow> readsT (tryT m)"
  by (simp add: readsT_def tryT_def split: prod.splits) (metis snd_conv)

lemma readsT_mapErr [reads_intros]: "readsT m \<Longrightarrow> readsT (mapErrT g m)"
  by (simp add: readsT_def)

lemma readsT_cases [reads_intros]:
  "(b \<Longrightarrow> readsT m) \<Longrightarrow> (\<not> b \<Longrightarrow> readsT n) \<Longrightarrow> readsT (if b then m else n)"
  "(x = None \<Longrightarrow> readsT m) \<Longrightarrow> (\<And>a. x = Some a \<Longrightarrow> readsT (f a)) \<Longrightarrow> readsT (case x of None \<Rightarrow> m | Some a \<Rightarrow> f a)"
  "(\<And>e. y = Inl e \<Longrightarrow> readsT (h e)) \<Longrightarrow> (\<And>a. y = Inr a \<Longrightarrow> readsT (k a)) \<Longrightarrow>
     readsT (case y of Inl e \<Rightarrow> h e | Inr a \<Rightarrow> k a)"
  "(\<And>a b. z = (a, b) \<Longrightarrow> readsT (p a b)) \<Longrightarrow> readsT (case z of (a, b) \<Rightarrow> p a b)"
  by (auto split: option.splits sum.splits prod.splits)

lemma readsT_foundOr [reads_intros]: "readsT m \<Longrightarrow> (\<And>a. readsT (k a)) \<Longrightarrow> readsT (foundOr m nf k)"
  unfolding foundOr_def by (intro reads_intros)

lemma store_reads [reads_intros]:
  "readsT (sqliteStore_GetRemote i)" "readsT (sqliteStore_GetRemoteByURL u)" "readsT (sqliteStore_ListRemotes l c)"
  "readsT (sqliteStore_ListSyncs i l c)" "readsT (sqliteStore_ListTags i)" "readsT (sqliteStore_GetRef i t)"
  "readsT (sqliteStore_ListTaintEvents i l c)" "readsT (sqliteStore_LatestObservationForRef r)"
  "readsT (sqliteStore_GetChainHead i)" "readsT (sqliteStore_ReplayObservations i sq l)"
  "readsT (sqliteStore_SelectDueRemotes now l)"
  unfolding sqliteStore_GetRemote_def sqliteStore_GetRemoteByURL_def sqliteStore_ListRemotes_def
    sqliteStore_ListSyncs_def sqliteStore_ListTags_def sqliteStore_GetRef_def sqliteStore_ListTaintEvents_def
    sqliteStore_LatestObservationForRef_def sqliteStore_GetChainHead_def sqliteStore_ReplayObservations_def
    sqliteStore_SelectDueRemotes_def Let_def
  by (intro reads_intros readsT_stmt; auto simp: sqlc_defs read_one_Inr Let_def split: list.splits)+

lemma store_sel [simp]:
  "st_GetRemote sqliteStore = sqliteStore_GetRemote" "st_GetRemoteByURL sqliteStore = sqliteStore_GetRemoteByURL"
  "st_ListRemotes sqliteStore = sqliteStore_ListRemotes" "st_ListSyncs sqliteStore = sqliteStore_ListSyncs"
  "st_ListTags sqliteStore = sqliteStore_ListTags" "st_GetRef sqliteStore = sqliteStore_GetRef"
  "st_ListTaintEvents sqliteStore = sqliteStore_ListTaintEvents"
  "st_LatestObservationForRef sqliteStore = sqliteStore_LatestObservationForRef"
  "st_CreateRemote sqliteStore = sqliteStore_CreateRemote" "st_UpdateRemote sqliteStore = sqliteStore_UpdateRemote"
  "st_SoftDeleteRemote sqliteStore = sqliteStore_SoftDeleteRemote"
  "st_AckTaintEvent sqliteStore = sqliteStore_AckTaintEvent"
  "st_SelectDueRemotes sqliteStore = sqliteStore_SelectDueRemotes"
  "st_GetChainHead sqliteStore = sqliteStore_GetChainHead"
  "st_ReplayObservations sqliteStore = sqliteStore_ReplayObservations"
  by (simp_all add: sqliteStore_def)

lemma confidenceOf_reads [reads_intros]: "readsT (confidenceOf r)"
  unfolding confidenceOf_def Let_def by (intro reads_intros)

lemma resolveRemote_reads: "readsT (resolveRemote ipLit uni leaseStore name)"
  unfolding resolveRemote_def Let_def store_sel by (intro reads_intros)

lemma handlers_read:
  "readsT (ListRemotes_handler ipLit uni leaseStore url lim cur)"
  "readsT (GetRemote_handler leaseStore i)"
  "readsT (ListSyncs_handler leaseStore i lim cur)"
  "readsT (ListTags_handler leaseStore i p)"
  "readsT (GetTag_handler leaseStore i tag)"
  "readsT (ListTaintEvents_handler leaseStore i lim cur)"
  "readsT (TriggerSync_handler leaseStore hasSyncer i cooldown)"
  "readsT (Verify_handler ipLit uni leaseStore vp)"
  unfolding ListRemotes_handler_def GetRemote_handler_def ListSyncs_handler_def ListTags_handler_def
    GetTag_handler_def ListTaintEvents_handler_def TriggerSync_handler_def Verify_handler_def
    resolveRemote_def verifyTag_def Let_def store_sel
  by (intro reads_intros)+

section \<open>What Verify answers\<close>

text \<open>The verdict that a database holds about a tag, and the commit a request supplies.\<close>

definition verdict :: "db \<Rightarrow> RemoteID \<Rightarrow> string \<Rightarrow> string \<Rightarrow> VerifyStatus" where
  "verdict d rid tag commit =
     (case ref_at d rid tag of None \<Rightarrow> StatusDoesntExist | Some row \<Rightarrow> verifyStatus (refFromRow row) commit)"

definition suppliedCommit :: "VerifyParams \<Rightarrow> string" where
  "suppliedCommit p = (case Vp_Commit p of None \<Rightarrow> [] | Some c \<Rightarrow> ToLower c)"

lemma GetRemote_Some:
  "sqliteStore_GetRemote i w = (Inr r, w') \<Longrightarrow>
   \<exists>row. find (\<lambda>r. Rrem_ID r = i) (t_remotes (w_db w)) = Some row \<and> r = remoteFromRow row"
  by (auto simp: sqliteStore_GetRemote_def bindT_eq_Inr stmt_Inr sqlc_GetRemote_def read_one_Inr)

lemma GetRemoteByURL_Some:
  "sqliteStore_GetRemoteByURL u w = (Inr r, w') \<Longrightarrow>
   \<exists>row \<in> set (t_remotes (w_db w)). Rrem_NormalizedUrl row = u \<and> Rrem_RemovedAtNs row = None \<and> r = remoteFromRow row"
  by (auto simp: sqliteStore_GetRemoteByURL_def bindT_eq_Inr stmt_Inr sqlc_GetRemoteByURL_def read_one_Inr
      find_Some_iff)

lemma GetRef_cases:
  assumes "sqliteStore_GetRef i t w = (r, w')"
  shows "(\<exists>row. ref_at (w_db w) i t = Some row \<and> r = Inr (refFromRow row)) \<or>
         (ref_at (w_db w) i t = None \<and> r = Inl ErrNotFound) \<or> r = Inl (SqlErr SqlIO)"
  using assms
  by (auto simp: sqliteStore_GetRef_def bindT_def mapErrT_def stmt_def sqlc_GetRef_def read_one_def select_one_def
      ref_at_def noRowsToNotFound_def ret_def Let_def split: if_splits option.splits prod.splits)

lemma resolveRemote_Some:
  assumes "resolveRemote ipLit uni leaseStore name w = (Inr (Some r), w')"
  shows "\<exists>row \<in> set (t_remotes (w_db w)). r = remoteFromRow row"
proof -
  have byURL: "\<exists>row \<in> set (t_remotes (w_db w)). r = remoteFromRow row"
    if "bindT (tryT (sqliteStore_GetRemoteByURL u)) (\<lambda>r. ret (case r of Inl _ \<Rightarrow> None | Inr x \<Rightarrow> Some x)) w1 = (Inr (Some r), w')"
      and "w_db w1 = w_db w" for u w1
    using that GetRemoteByURL_Some [of u w1 r]
    by (auto simp: bindT_def tryT_def ret_def split: prod.splits sum.splits)
  show ?thesis
  proof (cases "parseID name")
    case (Inl e)
    with assms byURL [of _ w] show ?thesis by (auto simp: resolveRemote_def Let_def)
  next
    case (Inr i)
    obtain x w1 where x: "sqliteStore_GetRemote i w = (x, w1)" by (cases "sqliteStore_GetRemote i w")
    have d: "w_db w1 = w_db w" using readsT_eq [OF store_reads(1) x] .
    show ?thesis
    proof (cases x)
      case (Inl e)
      with assms Inr x byURL [OF _ d] show ?thesis
        by (auto simp: resolveRemote_def Let_def bindT_def tryT_def ret_def)
    next
      case (Inr r')
      with GetRemote_Some [of i w r' w1] x obtain row where
        "find (\<lambda>r. Rrem_ID r = i) (t_remotes (w_db w)) = Some row" "r' = remoteFromRow row" by auto
      with assms Inr x \<open>parseID name = Inr i\<close> show ?thesis
        by (auto simp: resolveRemote_def Let_def bindT_def tryT_def ret_def find_Some_iff)
    qed
  qed
qed

lemma remoteFromRow_sel [simp]:
  "rem_ID (remoteFromRow row) = Rrem_ID row" "rem_NormalizedURL (remoteFromRow row) = Rrem_NormalizedUrl row"
  "rem_ChainHeadHash (remoteFromRow row) = Rrem_ChainHeadHash row" "rem_ChainLen (remoteFromRow row) = Rrem_ChainLen row"
  "rem_LastOkNS (remoteFromRow row) = Rrem_LastOkNs row" "rem_StalenessBudget (remoteFromRow row) = Rrem_StalenessBudgetNs row"
  "rem_ConsecutiveFailures (remoteFromRow row) = Rrem_ConsecutiveFailures row"
  by (simp_all add: remoteFromRow_def)

lemma confidenceOf_total: "\<exists>c w'. confidenceOf r w = (Inr c, w') \<and> w_db w' = w_db w \<and> (c = ConfStale \<or> c = ConfAuthoritative)"
  by (auto simp: confidenceOf_def bindT_def NowNS_def ret_def Let_def)

lemma verifyTag_answers:
  assumes "verifyTag leaseStore remote tag commit w = (Inr resp, w')"
  shows "Vr_Status resp = verdict (w_db w) (rem_ID remote) tag commit"
    and "Vr_Remote resp = Some (rem_ID remote, rem_NormalizedURL remote)"
proof -
  obtain c w1 where c: "confidenceOf remote w = (Inr c, w1)" "w_db w1 = w_db w"
    using confidenceOf_total [of remote w] by blast
  obtain x w2 where x: "sqliteStore_GetRef (rem_ID remote) tag w1 = (x, w2)"
    by (cases "sqliteStore_GetRef (rem_ID remote) tag w1")
  have "Vr_Status resp = verdict (w_db w) (rem_ID remote) tag commit \<and>
      Vr_Remote resp = Some (rem_ID remote, rem_NormalizedURL remote)"
    using assms c x GetRef_cases [OF x]
    by (auto simp: verifyTag_def foundOr_def bindT_def tryT_def ret_def fail_def verdict_def emptyVerify_def Let_def
        split: prod.splits sum.splits if_splits)
  then show "Vr_Status resp = verdict (w_db w) (rem_ID remote) tag commit"
    "Vr_Remote resp = Some (rem_ID remote, rem_NormalizedURL remote)" by simp_all
qed

text \<open>A request the handler does not reject, and what it then does.\<close>

definition well_formed :: "VerifyParams \<Rightarrow> bool" where
  "well_formed p \<longleftrightarrow> validTagName (Vp_Tag p) \<and> length (Vp_Remote p) \<le> maxRemoteParamLen \<and> Vp_Remote p \<noteq> [] \<and>
     (suppliedCommit p = [] \<or> reOID (suppliedCommit p))"

lemma verdict_tainted: "tainted_at rid tag d \<Longrightarrow> verdict d rid tag commit = StatusTainted"
  by (auto simp: tainted_at_def verdict_def verifyStatus_def)

lemma verdict_ok:
  "verdict d rid tag commit = StatusOK \<Longrightarrow> \<exists>ref. ref_at d rid tag = Some ref \<and> Rref_Tainted ref = 0 \<and>
    (commit = [] \<or> recordedCommit (refFromRow ref) = [] \<or> recordedCommit (refFromRow ref) = commit)"
  by (auto simp: verdict_def verifyStatus_def model_defs split: option.splits if_splits)

lemma ToLower_Nil [simp]: "ToLower s = [] \<longleftrightarrow> s = []" "ToLower [] = []"
  by (simp_all add: ToLower_def)

lemma Verify_handler_steps:
  "Verify_handler ipLit uni s p =
     (if well_formed p then
        bindT (resolveRemote ipLit uni s (Vp_Remote p)) (\<lambda>remote. case remote of
          None \<Rightarrow> ret (Verify200JSONResponse (emptyVerify StatusNotTracked ConfAuthoritative (Vp_Tag p)))
        | Some r \<Rightarrow> bindT (verifyTag s r (Vp_Tag p) (suppliedCommit p)) (\<lambda>resp. ret (Verify200JSONResponse resp)))
      else ret (Verify422JSONResponse
        (if \<not> validTagName (Vp_Tag p) then ''invalid tag name''
         else if length (Vp_Remote p) > maxRemoteParamLen then ''remote exceeds 2048 bytes''
         else if suppliedCommit p \<noteq> [] \<and> \<not> reOID (suppliedCommit p) then ''commit must be 40 or 64 hex chars''
         else ''remote is required'')))"
  by (auto simp: Verify_handler_def well_formed_def suppliedCommit_def Let_def not_less split: option.splits)

lemma Verify_sound:
  assumes "Verify_handler ipLit uni leaseStore p w = (Inr (Verify200JSONResponse resp), w')"
  shows "Vr_Status resp = StatusNotTracked \<and> Vr_Remote resp = None \<or>
    (\<exists>row \<in> set (t_remotes (w_db w)). Vr_Remote resp = Some (Rrem_ID row, Rrem_NormalizedUrl row) \<and>
       Vr_Status resp = verdict (w_db w) (Rrem_ID row) (Vp_Tag p) (suppliedCommit p))"
proof -
  obtain x w1 where x: "resolveRemote ipLit uni leaseStore (Vp_Remote p) w = (x, w1)"
    by (cases "resolveRemote ipLit uni leaseStore (Vp_Remote p) w")
  have d: "w_db w1 = w_db w" using readsT_snd [OF resolveRemote_reads, of ipLit uni "Vp_Remote p" w] x by simp
  from assms have wf: "well_formed p" by (auto simp: Verify_handler_steps ret_def split: if_splits)
  then consider "x = Inr None" "resp = emptyVerify StatusNotTracked ConfAuthoritative (Vp_Tag p)"
    | r where "x = Inr (Some r)" "verifyTag leaseStore r (Vp_Tag p) (suppliedCommit p) w1 = (Inr resp, w')"
    using assms x
    by (cases x) (auto simp: Verify_handler_steps bindT_def ret_def split: option.splits prod.splits sum.splits)
  then show ?thesis
  proof cases
    case 1
    then show ?thesis by (simp add: emptyVerify_def)
  next
    case (2 r)
    with resolveRemote_Some [of ipLit uni "Vp_Remote p" w r w1] x obtain row where
      "row \<in> set (t_remotes (w_db w))" "r = remoteFromRow row" by auto
    with verifyTag_answers [OF 2(2)] d show ?thesis by auto
  qed
qed


text \<open>Without failing statements a request that names a remote by its id is answered.\<close>

lemma GetRemote_runs:
  assumes "no_faults w" and "find (\<lambda>r. Rrem_ID r = i) (t_remotes (w_db w)) = Some row"
  shows "\<exists>w1. sqliteStore_GetRemote i w = (Inr (remoteFromRow row), w1) \<and> w_db w1 = w_db w \<and> no_faults w1"
  using assms
  by (auto simp: sqliteStore_GetRemote_def bindT_def mapErrT_def stmt_def sqlc_GetRemote_def read_one_def
      select_one_def ret_def Let_def no_faults_def)

lemma GetRef_runs:
  assumes "no_faults w"
  shows "\<exists>w1. sqliteStore_GetRef i t w =
    ((case ref_at (w_db w) i t of None \<Rightarrow> Inl ErrNotFound | Some row \<Rightarrow> Inr (refFromRow row)), w1)"
  using assms
  by (auto simp: sqliteStore_GetRef_def bindT_def mapErrT_def stmt_def sqlc_GetRef_def read_one_def select_one_def
      ref_at_def noRowsToNotFound_def ret_def Let_def no_faults_def split: option.splits)

lemma confidenceOf_no_faults: "no_faults w \<Longrightarrow> confidenceOf r w = (c, w1) \<Longrightarrow> no_faults w1"
  by (auto simp: confidenceOf_def bindT_def NowNS_def ret_def Let_def no_faults_def split: if_splits)

lemma verifyTag_runs:
  assumes "no_faults w"
  shows "\<exists>resp w'. verifyTag leaseStore remote tag commit w = (Inr resp, w')"
proof -
  obtain c w1 where c: "confidenceOf remote w = (Inr c, w1)" using confidenceOf_total [of remote w] by blast
  obtain w2 where r: "sqliteStore_GetRef (rem_ID remote) tag w1 = ((case ref_at (w_db w1) (rem_ID remote) tag of
      None \<Rightarrow> Inl ErrNotFound | Some row \<Rightarrow> Inr (refFromRow row)), w2)"
    using GetRef_runs [OF confidenceOf_no_faults [OF assms c]] by blast
  show ?thesis
    by (cases "ref_at (w_db w1) (rem_ID remote) tag")
      (use c r in \<open>auto simp: verifyTag_def foundOr_def bindT_def tryT_def ret_def Let_def split: prod.splits\<close>)
qed

lemma Verify_by_id:
  assumes "no_faults w" and "well_formed p" and "parseID (Vp_Remote p) = Inr i"
    and row: "find (\<lambda>r. Rrem_ID r = i) (t_remotes (w_db w)) = Some row"
  shows "\<exists>resp w'. Verify_handler ipLit uni leaseStore p w = (Inr (Verify200JSONResponse resp), w') \<and>
    Vr_Status resp = verdict (w_db w) i (Vp_Tag p) (suppliedCommit p) \<and>
    Vr_Remote resp = Some (i, Rrem_NormalizedUrl row)"
proof -
  obtain w1 where g: "sqliteStore_GetRemote i w = (Inr (remoteFromRow row), w1)" "w_db w1 = w_db w" "no_faults w1"
    using GetRemote_runs [OF assms(1) row] by blast
  have i: "Rrem_ID row = i" using row by (auto simp: find_Some_iff)
  obtain resp w' where v: "verifyTag leaseStore (remoteFromRow row) (Vp_Tag p) (suppliedCommit p) w1 = (Inr resp, w')"
    using verifyTag_runs [OF g(3)] by blast
  have "Verify_handler ipLit uni leaseStore p w = (Inr (Verify200JSONResponse resp), w')"
    using assms(2,3) g v by (simp add: Verify_handler_steps resolveRemote_def bindT_def tryT_def ret_def)
  then show ?thesis using verifyTag_answers [OF v] g(2) i by auto
qed

section \<open>Operations that change the administration\<close>

text \<open>
  Creating, changing and removing remotes and acknowledging events touch neither tags nor
  observations, and keep a consistent database consistent.
\<close>

definition admin :: "db \<Rightarrow> db \<Rightarrow> bool" where
  "admin d d' \<longleftrightarrow> t_refs d' = t_refs d \<and> history d d' \<and> (sync_ok d \<longrightarrow> sync_ok d')"

lemma admin_refl: "admin d d"
  by (simp add: admin_def history_refl)

lemma admin_trans: "admin d d' \<Longrightarrow> admin d' d'' \<Longrightarrow> admin d d''"
  by (auto simp: admin_def intro: history_trans)

lemma adminI:
  "t_refs d' = t_refs d \<Longrightarrow> t_observations d' = t_observations d \<Longrightarrow> t_taint_events d' = t_taint_events d \<Longrightarrow>
   (sync_ok d \<Longrightarrow> sync_ok d') \<Longrightarrow> admin d d'"
  by (simp add: admin_def history_same [OF _ _ history_refl])

lemma ledger_ok_admin:
  assumes "ledger_ok d" and "db_ok d'" and "t_observations d' = t_observations d"
    and "\<And>i h n. (i, h, n) \<in> set (remote_heads d') \<Longrightarrow> (i, h, n) \<in> set (remote_heads d) \<or> h = genesis \<and> n = 0 \<and> chain_rows d i = []"
  shows "ledger_ok d'"
proof -
  have "chain_rows d' i = chain_rows d i" for i using assms(3) by (simp add: chain_rows_def)
  moreover have "walk genesis 0 (chain_rows d i) = Some (h, n)" if "(i, h, n) \<in> set (remote_heads d')" for i h n
    using assms(4) [OF that] assms(1) chain_okD [of d i h n] by (auto simp: ledger_ok_def)
  ultimately have "chain_ok d'" by (intro chain_okI) simp
  with assms show ?thesis by (simp add: ledger_ok_def)
qed

lemma sync_ok_admin:
  assumes "sync_ok d" and "db_ok d'" and "t_refs d' = t_refs d" and "t_observations d' = t_observations d"
    and "\<And>i h n. (i, h, n) \<in> set (remote_heads d') \<Longrightarrow> (i, h, n) \<in> set (remote_heads d) \<or> h = genesis \<and> n = 0 \<and> chain_rows d i = []"
  shows "sync_ok d'"
  using ledger_ok_admin [of d d'] assms by (simp add: sync_ok_def rows_ok_def)

lemma CreateRemote_rows:
  assumes run: "sqlc_CreateRemote arg d = Inr (row, d')"
  shows "d' = d\<lparr>t_remotes := t_remotes d @ [row], seq_remotes := seq_remotes d + 1\<rparr>"
    and "Rrem_ID row = seq_remotes d + 1" and "Rrem_NormalizedUrl row = Prem_NormalizedUrl arg"
    and "Rrem_ChainHeadHash row = Prem_ChainHeadHash arg" and "Rrem_ChainLen row = Prem_ChainLen arg"
    and "Prem_NormalizedUrl arg \<notin> Rrem_NormalizedUrl ` set (t_remotes d)"
  using run by (auto simp: sqlc_CreateRemote_def Let_def list_ex_iff split: if_splits)

lemma fresh_remote: "db_ok d \<Longrightarrow> \<not> remote_exists d (seq_remotes d + 1)"
  by (fastforce simp: db_ok_defs ids_ok_def remote_exists_def list_ex_iff)

lemma ledger_CreateRemote:
  assumes run: "sqlc_CreateRemote arg d = Inr (row, d')"
    and genesis: "Prem_ChainHeadHash arg = genesis" "Prem_ChainLen arg = 0" and ok: "ledger_ok d"
  shows "ledger_ok d'"
proof (rule ledger_ok_admin [OF ok])
  note new = CreateRemote_rows [OF run]
  have dok: "db_ok d" using ok by (simp add: ledger_ok_def)
  have "ids_ok Rrem_ID (t_remotes d @ [row]) (seq_remotes d + 1)"
    using dok new(2) by (intro ids_ok_snoc) (simp_all add: db_ok_defs)
  then show "db_ok d'"
    using dok new(3,6) by (auto simp: new(1) db_ok_defs remote_exists_def)
  have "chain_rows d (seq_remotes d + 1) = []"
    using dok fresh_remote [OF dok] by (auto simp: chain_rows_def filter_empty_conv db_ok_defs)
  then show "(i, h, n) \<in> set (remote_heads d') \<Longrightarrow>
      (i, h, n) \<in> set (remote_heads d) \<or> h = genesis \<and> n = 0 \<and> chain_rows d i = []" for i h n
    using new(2,4,5) genesis by (auto simp: new(1) remote_heads_def)
  show "t_observations d' = t_observations d" by (simp add: new(1))
qed

lemma admin_CreateRemote:
  assumes run: "sqlc_CreateRemote arg d = Inr (row, d')"
    and genesis: "Prem_ChainHeadHash arg = genesis" "Prem_ChainLen arg = 0"
  shows "admin d d'"
  using ledger_CreateRemote [OF assms]
  by (intro adminI) (simp_all add: CreateRemote_rows(1) [OF run] sync_ok_def rows_ok_def)

lemma admin_update_remotes:
  assumes "\<And>r. r \<in> set (t_remotes d) \<Longrightarrow> P r \<Longrightarrow> Rrem_ID (f r) = Rrem_ID r \<and> Rrem_NormalizedUrl (f r) = Rrem_NormalizedUrl r \<and>
      Rrem_ChainHeadHash (f r) = Rrem_ChainHeadHash r \<and> Rrem_ChainLen (f r) = Rrem_ChainLen r"
  shows "admin d (d\<lparr>t_remotes := update_where P f (t_remotes d)\<rparr>)" (is "admin d ?d'")
proof -
  have keys: "map Rrem_ID (t_remotes ?d') = map Rrem_ID (t_remotes d)"
    "map Rrem_NormalizedUrl (t_remotes ?d') = map Rrem_NormalizedUrl (t_remotes d)"
    using assms by (simp_all add: update_where_def)
  have ex: "remote_exists ?d' i = remote_exists d i" for i
    using arg_cong [OF keys(1), of "\<lambda>l. i \<in> set l"] by (auto simp: remote_exists_def list_ex_iff)
  have heads: "remote_heads ?d' = remote_heads d" by (rule remote_heads_update) (use assms in blast)
  have "ids_ok Rrem_ID (t_remotes ?d') n = ids_ok Rrem_ID (t_remotes d) n" for n
  proof -
    have all: "(\<forall>r \<in> set l. 0 < Rrem_ID r \<and> Rrem_ID r \<le> n) \<longleftrightarrow> list_all (\<lambda>k. 0 < k \<and> k \<le> n) (map Rrem_ID l)" for l
      by (simp add: list_all_iff)
    show ?thesis unfolding ids_ok_def all keys ..
  qed
  then have "db_ok ?d' = db_ok d" using keys(2) ex by (simp add: db_ok_defs)
  then show ?thesis
    using sync_ok_admin [of d ?d'] heads by (intro adminI) (auto dest: sync_okD(3))
qed


named_theorems admin_intros \<open>rules for \<open>adminT\<close>\<close>

definition adminT :: "(db, 'a) io \<Rightarrow> bool" where
  "adminT m \<longleftrightarrow> (\<forall>w. admin (w_db w) (w_db (snd (m w))))"

lemma adminT_snd: "adminT m \<Longrightarrow> admin (w_db w) (w_db (snd (m w)))"
  by (simp add: adminT_def)

lemma adminT_reads: "readsT m \<Longrightarrow> adminT m"
  by (simp add: adminT_def readsT_def admin_refl)

lemma adminT_basic [admin_intros]: "adminT (ret a)" "adminT (fail e)" "adminT NowNS" "adminT (sqliteStore_GetRemote i)"
  by (intro adminT_reads reads_intros)+

lemma adminT_bind [admin_intros]:
  assumes "adminT m" and "\<And>a. adminT (f a)"
  shows "adminT (bindT m f)"
  unfolding adminT_def
proof
  fix w :: "db world"
  obtain r w1 where m: "m w = (r, w1)" by (cases "m w")
  with adminT_snd [OF assms(1), of w] have q: "admin (w_db w) (w_db w1)" by simp
  show "admin (w_db w) (w_db (snd (bindT m f w)))"
    using q admin_trans [OF q adminT_snd [OF assms(2), of w1]] m by (cases r) (simp_all add: bindT_def)
qed

lemma adminT_try [admin_intros]: "adminT m \<Longrightarrow> adminT (tryT m)"
  by (simp add: adminT_def tryT_def split: prod.splits) (metis snd_conv)

lemma adminT_mapErr [admin_intros]: "adminT m \<Longrightarrow> adminT (mapErrT g m)"
  by (simp add: adminT_def)

lemma adminT_stmt: "(\<And>d a d'. q d = Inr (a, d') \<Longrightarrow> admin d d') \<Longrightarrow> adminT (stmt q)"
  by (auto simp: adminT_def stmt_def Let_def admin_refl split: sum.splits prod.splits)

lemma adminT_cases [admin_intros]:
  "(b \<Longrightarrow> adminT m) \<Longrightarrow> (\<not> b \<Longrightarrow> adminT n) \<Longrightarrow> adminT (if b then m else n)"
  "(x = None \<Longrightarrow> adminT m) \<Longrightarrow> (\<And>a. x = Some a \<Longrightarrow> adminT (f a)) \<Longrightarrow> adminT (case x of None \<Rightarrow> m | Some a \<Rightarrow> f a)"
  "(\<And>e. y = Inl e \<Longrightarrow> adminT (h e)) \<Longrightarrow> (\<And>a. y = Inr a \<Longrightarrow> adminT (k a)) \<Longrightarrow>
     adminT (case y of Inl e \<Rightarrow> h e | Inr a \<Rightarrow> k a)"
  by (auto split: option.splits sum.splits)

lemma adminT_foundOr [admin_intros]: "adminT m \<Longrightarrow> (\<And>a. adminT (k a)) \<Longrightarrow> adminT (foundOr m nf k)"
  unfolding foundOr_def by (intro admin_intros)

lemma newRemote_genesis [simp]:
  "rem_ChainHeadHash (newRemote body n now) = genesis" "rem_ChainLen (newRemote body n now) = 0"
  by (simp_all add: newRemote_def Let_def genesis_def ChainHashLen_def)

lemma admin_store_CreateRemote: "adminT (sqliteStore_CreateRemote (newRemote body n now))"
  unfolding sqliteStore_CreateRemote_def
  by (intro admin_intros adminT_stmt admin_CreateRemote, assumption) (simp_all add: createRemoteParams_def)

lemma admin_CreateRemote_handler: "adminT (CreateRemote_handler errText ipLit uni leaseStore req)"
  unfolding CreateRemote_handler_def Let_def store_sel by (intro admin_intros admin_store_CreateRemote)

lemma admin_DeleteRemote_handler: "adminT (DeleteRemote_handler leaseStore i)"
proof -
  have "adminT (sqliteStore_SoftDeleteRemote i now)" for now
    unfolding sqliteStore_SoftDeleteRemote_def sqlc_SoftDeleteRemote_def
    by (rule adminT_stmt) (auto intro!: admin_update_remotes)
  then show ?thesis unfolding DeleteRemote_handler_def store_sel by (intro admin_intros)
qed

lemma admin_AckTaintEvent_handler: "adminT (AckTaintEvent_handler prin leaseStore i ev req)"
proof -
  have "adminT (sqliteStore_AckTaintEvent ev by1 note1 now)" for by1 note1 now
    unfolding sqliteStore_AckTaintEvent_def
    by (rule adminT_stmt, frule history_AckTaintEvent)
      (auto simp: sqlc_AckTaintEvent_def admin_def sync_ok_def ledger_ok_def rows_ok_def db_ok_defs ids_ok_update_where
        same_chains_def remote_exists_def ref_exists_def intro: iffD2 [OF same_chains_ok])
  then show ?thesis unfolding AckTaintEvent_handler_def Let_def store_sel by (intro admin_intros)
qed

text \<open>Changing a remote writes back the row it read, so it must be the row's current value.\<close>

lemma patchRemote_sel [simp]:
  "rem_ID (patchRemote b r) = rem_ID r" "rem_NormalizedURL (patchRemote b r) = rem_NormalizedURL r"
  "rem_ChainHeadHash (patchRemote b r) = rem_ChainHeadHash r" "rem_ChainLen (patchRemote b r) = rem_ChainLen r"
  by (simp_all add: patchRemote_def Let_def split: option.splits)

lemma UpdateRemote_writes:
  assumes "sqlc_UpdateRemote (updateRemoteParams r) d = Inr (x, d')"
  shows "\<exists>f. d' = d\<lparr>t_remotes := update_where (\<lambda>r'. Rrem_ID r' = rem_ID r) f (t_remotes d)\<rparr> \<and>
    (\<forall>r'. Rrem_ID (f r') = Rrem_ID r' \<and> Rrem_NormalizedUrl (f r') = rem_NormalizedURL r \<and>
       Rrem_ChainHeadHash (f r') = rem_ChainHeadHash r \<and> Rrem_ChainLen (f r') = rem_ChainLen r)"
  using assms
  by (intro exI [of _ "update_set (updateRemoteParams r)"])
    (auto simp: sqlc_UpdateRemote_def update_set_def updateRemoteParams_def split: sum.splits if_splits)

lemma admin_UpdateRemote:
  assumes ok: "db_ok d" and row: "find (\<lambda>r. Rrem_ID r = i) (t_remotes d) = Some row"
    and run: "sqlc_UpdateRemote (updateRemoteParams ((patchRemote b (remoteFromRow row))\<lparr>rem_UpdatedAtNS := now\<rparr>)) d = Inr (x, d')"
  shows "admin d d'"
proof -
  have i: "Rrem_ID row = i" and mem: "row \<in> set (t_remotes d)" using row by (auto simp: find_Some_iff)
  have uniq: "r = row" if "r \<in> set (t_remotes d)" "Rrem_ID r = i" for r
    using ok that i mem by (auto simp: db_ok_defs ids_ok_def distinct_map dest: inj_onD)
  obtain f where d': "d' = d\<lparr>t_remotes := update_where (\<lambda>r. Rrem_ID r = i) f (t_remotes d)\<rparr>"
    and f: "\<And>r. Rrem_ID (f r) = Rrem_ID r" "\<And>r. Rrem_NormalizedUrl (f r) = Rrem_NormalizedUrl row"
      "\<And>r. Rrem_ChainHeadHash (f r) = Rrem_ChainHeadHash row" "\<And>r. Rrem_ChainLen (f r) = Rrem_ChainLen row"
    using UpdateRemote_writes [OF run] i by auto
  show ?thesis unfolding d' by (rule admin_update_remotes) (use uniq f in auto)
qed

lemma admin_UpdateRemote_handler:
  assumes "db_ok (w_db w)"
  shows "admin (w_db w) (w_db (snd (UpdateRemote_handler leaseStore i req w)))"
proof -
  obtain x w1 where x: "sqliteStore_GetRemote i w = (x, w1)" by (cases "sqliteStore_GetRemote i w")
  have d: "w_db w1 = w_db w" using readsT_snd [OF store_reads(1), of i w] x by simp
  have upd: "admin (w_db w) (w_db (snd (sqliteStore_UpdateRemote ((patchRemote b r)\<lparr>rem_UpdatedAtNS := now\<rparr>) w2)))"
    if "x = Inr r" and w2: "w_db w2 = w_db w" for r b now w2
  proof -
    from GetRemote_Some [of i w r w1] x that(1) obtain row where
      row: "find (\<lambda>r. Rrem_ID r = i) (t_remotes (w_db w)) = Some row" "r = remoteFromRow row" by auto
    show ?thesis
      using admin_UpdateRemote [OF assms row(1), where b = b and now = now] w2 row(2)
      by (auto simp: sqliteStore_UpdateRemote_def bindT_def mapErrT_def stmt_def ret_def Let_def admin_refl
          split: sum.splits prod.splits)
  qed
  show ?thesis
  proof (cases x)
    case (Inl e)
    then show ?thesis using x d
      by (auto simp: UpdateRemote_handler_def foundOr_def bindT_def tryT_def ret_def fail_def admin_refl)
  next
    case (Inr r)
    show ?thesis
    proof (cases req)
      case None
      then show ?thesis using x d Inr
        by (auto simp: UpdateRemote_handler_def foundOr_def bindT_def tryT_def ret_def admin_refl)
    next
      case (Some b)
      let ?now = "w_clock w1 (w_ticks w1)" and ?w2 = "w1\<lparr>w_ticks := w_ticks w1 + 1\<rparr>"
      have "w_db (snd (UpdateRemote_handler leaseStore i req w)) =
          w_db (snd (sqliteStore_UpdateRemote ((patchRemote b r)\<lparr>rem_UpdatedAtNS := ?now\<rparr>) ?w2))"
        using x Inr Some
        by (auto simp: UpdateRemote_handler_def foundOr_def bindT_def tryT_def ret_def fail_def NowNS_def Let_def
            split: prod.splits sum.splits)
      then show ?thesis using upd [OF Inr, where ?w2.0 = ?w2 and b = b and now = ?now] d by simp
    qed
  qed
qed

section \<open>The server\<close>

inductive server_step :: "db world \<Rightarrow> db world \<Rightarrow> bool" where
  sync: "(\<And>xs. mset (order xs) = mset xs) \<Longrightarrow>
    server_step w (snd (SyncRemote errText order sqliteStore (execGit proc g) sqliteLock holder rid w))"
| create: "server_step w (snd (CreateRemote_handler errText ipLit uni leaseStore creq w))"
| update: "server_step w (snd (UpdateRemote_handler leaseStore i ureq w))"
| delete: "server_step w (snd (DeleteRemote_handler leaseStore i w))"
| ack: "server_step w (snd (AckTaintEvent_handler prin leaseStore i ev areq w))"
| verify: "server_step w (snd (Verify_handler ipLit uni leaseStore vp w))"
| outside: "w_db w' = w_db w \<Longrightarrow> server_step w w'"

text \<open>Either the step is a sync, or it changes the administration only.\<close>

lemma server_step_cases:
  assumes "server_step w w'" and "sync_ok (w_db w)"
  obtains "admin (w_db w) (w_db w')"
  | errText order proc g holder rid where "\<And>xs. mset (order xs) = mset xs"
    and "w' = snd (SyncRemote errText order sqliteStore (execGit proc g) sqliteLock holder rid w)"
  using assms(1)
proof cases
  case (sync order errText proc g holder rid)
  then show thesis by (intro that(2)) simp_all
next
  case (update i ureq)
  then show thesis using that(1) admin_UpdateRemote_handler [OF sync_okD(3) [OF assms(2)]] by simp
next
  case (verify ipLit uni vp)
  then show thesis using that(1) adminT_snd [OF adminT_reads [OF handlers_read(8)]] by simp
next
  case outside
  then show thesis using that(1) admin_refl by simp
qed (use that admin_CreateRemote_handler admin_DeleteRemote_handler admin_AckTaintEvent_handler in
    \<open>auto simp: adminT_def\<close>)

lemma server_step_ok: "server_step w w' \<Longrightarrow> sync_ok (w_db w) \<Longrightarrow> sync_ok (w_db w')"
proof (erule (1) server_step_cases)
  assume "sync_ok (w_db w)" "admin (w_db w) (w_db w')"
  then show ?thesis by (simp add: admin_def)
next
  fix errText order proc g holder rid
  assume "sync_ok (w_db w)" "\<And>xs. mset (order xs) = mset xs"
    "w' = snd (SyncRemote errText order sqliteStore (execGit proc g) sqliteLock holder rid w)"
  then show ?thesis using SyncRemote_rows_ok by simp
qed

lemma server_step_taint: "server_step w w' \<Longrightarrow> sync_ok (w_db w) \<Longrightarrow> tainted_at rid tag (w_db w) \<Longrightarrow> tainted_at rid tag (w_db w')"
proof (erule (1) server_step_cases)
  assume "tainted_at rid tag (w_db w)" "admin (w_db w) (w_db w')"
  then show ?thesis by (simp add: admin_def tainted_at_def ref_at_def)
next
  fix errText order proc g holder rid'
  assume "sync_ok (w_db w)" "\<And>xs. mset (order xs) = mset xs" "tainted_at rid tag (w_db w)"
    "w' = snd (SyncRemote errText order sqliteStore (execGit proc g) sqliteLock holder rid' w)"
  then show ?thesis using SyncRemote_taint_sticky by simp
qed


lemma server_step_history: "server_step w w' \<Longrightarrow> sync_ok (w_db w) \<Longrightarrow> history (w_db w) (w_db w')"
proof (erule (1) server_step_cases)
  assume "admin (w_db w) (w_db w')"
  then show ?thesis by (simp add: admin_def)
next
  fix errText order proc g holder rid'
  assume "sync_ok (w_db w)" "\<And>xs. mset (order xs) = mset xs"
    "w' = snd (SyncRemote errText order sqliteStore (execGit proc g) sqliteLock holder rid' w)"
  then show ?thesis using SyncRemote_history by simp
qed

text \<open>Any number of steps.\<close>

lemma server_steps:
  assumes "server_step\<^sup>*\<^sup>* w w'" and "sync_ok (w_db w)"
  shows "sync_ok (w_db w')" and "history (w_db w) (w_db w')" and "tainted_at rid tag (w_db w) \<Longrightarrow> tainted_at rid tag (w_db w')"
proof -
  from assms have "sync_ok (w_db w') \<and> history (w_db w) (w_db w') \<and> (tainted_at rid tag (w_db w) \<longrightarrow> tainted_at rid tag (w_db w'))"
  proof (induction rule: rtranclp_induct)
    case base
    then show ?case by (simp add: history_refl)
  next
    case (step w1 w2)
    then show ?case
      using server_step_ok [of w1 w2] server_step_history [of w1 w2] server_step_taint [of w1 w2 rid tag]
      by (auto intro: history_trans)
  qed
  then show "sync_ok (w_db w')" "history (w_db w) (w_db w')" "tainted_at rid tag (w_db w) \<Longrightarrow> tainted_at rid tag (w_db w')"
    by simp_all
qed

lemma sync_ok_empty: "sync_ok empty_db"
  by (simp add: sync_ok_def ledger_ok_def rows_ok_def chain_ok_def remote_heads_def) (simp add: empty_db_def)

section \<open>Reading and writing back a remote is not safe against a concurrent sync\<close>

text \<open>
  \<open>UpdateRemote\<close> writes every column of the row, the chain head and length among them. If the row
  was read before an observation was appended, the ledger no longer ends at the stored head.
\<close>

lemma stale_update_breaks:
  assumes ok: "chain_ok d" and row: "find (\<lambda>r. Rrem_ID r = rem_ID r0) (t_remotes d) = Some row"
    and stale: "rem_ChainLen r0 \<noteq> Rrem_ChainLen row"
    and run: "sqliteStore_UpdateRemote r0 w = (Inr (), w')" and d: "w_db w = d"
  shows "\<not> chain_ok (w_db w')"
proof
  assume ok': "chain_ok (w_db w')"
  from run obtain x where run': "sqlc_UpdateRemote (updateRemoteParams r0) d = Inr (x, w_db w')"
    by (auto simp: sqliteStore_UpdateRemote_def bindT_eq_Inr stmt_Inr d)
  from UpdateRemote_writes [OF run'] obtain f where
    w': "w_db w' = d\<lparr>t_remotes := update_where (\<lambda>r'. Rrem_ID r' = rem_ID r0) f (t_remotes d)\<rparr>"
    and f: "\<And>r'. Rrem_ID (f r') = Rrem_ID r' \<and> Rrem_ChainHeadHash (f r') = rem_ChainHeadHash r0 \<and> Rrem_ChainLen (f r') = rem_ChainLen r0"
    by auto
  have mem: "row \<in> set (t_remotes d)" and i: "Rrem_ID row = rem_ID r0" using row by (auto simp: find_Some_iff)
  then have "(rem_ID r0, rem_ChainHeadHash r0, rem_ChainLen r0) \<in> set (remote_heads (w_db w'))"
    using f by (force simp: w' remote_heads_def update_where_def)
  from chain_okD [OF ok' this] have "walk genesis 0 (chain_rows d (rem_ID r0)) = Some (rem_ChainHeadHash r0, rem_ChainLen r0)"
    by (simp add: w' chain_rows_def)
  moreover have "(rem_ID r0, Rrem_ChainHeadHash row, Rrem_ChainLen row) \<in> set (remote_heads d)"
    using mem i by (force simp: remote_heads_def)
  from chain_okD [OF ok this] have "walk genesis 0 (chain_rows d (rem_ID r0)) = Some (Rrem_ChainHeadHash row, Rrem_ChainLen row)" .
  ultimately show False using stale by simp
qed

section \<open>The cooldown of forced syncs\<close>

text \<open>A run of requests: the times at which a sync was started, oldest first.\<close>

fun forcedRuns :: "(RemoteID \<times> int64) list \<Rightarrow> (RemoteID \<rightharpoonup> int64) \<Rightarrow> (RemoteID \<times> int64) list" where
  "forcedRuns [] m = []"
| "forcedRuns ((i, now) # reqs) m =
     (let (ok, m') = allowForcedSync i now m in if ok then (i, now) # forcedRuns reqs m' else forcedRuns reqs m')"

definition startsOf :: "RemoteID \<Rightarrow> (RemoteID \<times> int64) list \<Rightarrow> int64 list" where
  "startsOf i rs = map snd (filter (\<lambda>r. fst r = i) rs)"

definition spaced :: "int64 list \<Rightarrow> bool" where
  "spaced ts \<longleftrightarrow> (\<forall>k. Suc k < length ts \<longrightarrow> ts ! k + minForcedSyncInterval \<le> ts ! Suc k)"

lemma spaced_Cons: "spaced (t # ts) \<longleftrightarrow> (case ts of [] \<Rightarrow> True | u # _ \<Rightarrow> t + minForcedSyncInterval \<le> u) \<and> spaced ts"
proof (cases ts)
  case (Cons u us)
  show ?thesis
  proof
    assume "spaced (t # ts)"
    then show "(case ts of [] \<Rightarrow> True | u # _ \<Rightarrow> t + minForcedSyncInterval \<le> u) \<and> spaced ts"
      unfolding spaced_def Cons by (force dest: spec [of _ 0] spec [of _ "Suc _"])
  next
    assume *: "(case ts of [] \<Rightarrow> True | u # _ \<Rightarrow> t + minForcedSyncInterval \<le> u) \<and> spaced ts"
    show "spaced (t # ts)"
      unfolding spaced_def
    proof (intro allI impI)
      fix k
      assume "Suc k < length (t # ts)"
      with * show "(t # ts) ! k + minForcedSyncInterval \<le> (t # ts) ! Suc k"
        by (cases k) (auto simp: Cons spaced_def)
    qed
  qed
qed (simp add: spaced_def)

lemma forcedRuns_spaced:
  assumes "sorted (map snd reqs)" and "\<And>t. t \<in> snd ` set reqs \<Longrightarrow> 0 \<le> t \<and> t < 2 ^ 62"
    and "\<And>t. m i = Some t \<Longrightarrow> 0 \<le> t \<and> t < 2 ^ 62"
  shows "spaced (startsOf i (forcedRuns reqs m)) \<and>
    (case (m i, startsOf i (forcedRuns reqs m)) of
       (Some t, u # _) \<Rightarrow> t + minForcedSyncInterval \<le> u | _ \<Rightarrow> True)"
  using assms
proof (induction reqs arbitrary: m)
  case Nil
  show ?case by (simp add: spaced_def startsOf_def split: option.splits)
next
  case (Cons r reqs)
  obtain j now where r: "r = (j, now)" by (cases r)
  have now: "0 \<le> now" "now < 2 ^ 62" using Cons.prems(2) [of now] by (simp_all add: r)
  let ?m' = "snd (allowForcedSync j now m)"
  have m': "0 \<le> t \<and> t < 2 ^ 62" if "?m' i = Some t" for t
    using that Cons.prems(3) [of t] now
    by (auto simp: allowForcedSync_def split: option.splits if_splits)
  have IH: "spaced (startsOf i (forcedRuns reqs ?m')) \<and>
    (case (?m' i, startsOf i (forcedRuns reqs ?m')) of
       (Some t, u # _) \<Rightarrow> t + minForcedSyncInterval \<le> u | _ \<Rightarrow> True)"
    using Cons.prems(1,2) m' by (intro Cons.IH) (auto simp: r)
  have wrap: "wrap64 (now - t) = now - t" if "m j = Some t" "j = i" for t
    using that Cons.prems(3) [of t] now by (intro wrap64_id) (auto simp: in_int64_def)
  show ?case
  proof (cases "j = i")
    case False
    then have "?m' i = m i" by (auto simp: allowForcedSync_def split: option.splits if_splits)
    moreover have "startsOf i (forcedRuns (r # reqs) m) = startsOf i (forcedRuns reqs ?m')"
      using False by (cases "allowForcedSync j now m") (simp add: r startsOf_def)
    ultimately show ?thesis using IH by simp
  next
    case True
    show ?thesis
    proof (cases "fst (allowForcedSync j now m)")
      case False
      then have "?m' = m" "startsOf i (forcedRuns (r # reqs) m) = startsOf i (forcedRuns reqs ?m')"
        by (auto simp: r Let_def allowForcedSync_def split: option.splits if_splits)
      with IH show ?thesis by simp
    next
      case allowed: True
      then have m': "?m' i = Some now" and
        starts: "startsOf i (forcedRuns (r # reqs) m) = now # startsOf i (forcedRuns reqs ?m')"
        and gap: "\<And>t. m i = Some t \<Longrightarrow> t + minForcedSyncInterval \<le> now"
        using True wrap by (auto simp: r startsOf_def Let_def allowForcedSync_def split: option.splits if_splits)
      show ?thesis unfolding starts spaced_Cons using IH gap by (simp add: m' split: option.splits list.splits)
    qed
  qed
qed

end
