(* ===== verification/Paging.thy ===== *)
theory Paging
  imports Sync_Run
begin

text \<open>
  Cursor pagination as \<open>ListRemotes\<close>, \<open>ListTaintEvents\<close> and \<open>ListSyncs\<close> do it. A client that follows the
  cursor of each page until a page is empty has seen every row exactly once, in order.
\<close>

text \<open>The rows of all pages from a cursor on, with fuel for the number of pages.\<close>

fun all_pages :: "nat \<Rightarrow> (int64 \<Rightarrow> 'r list \<times> int64) \<Rightarrow> int64 \<Rightarrow> 'r list option" where
  "all_pages 0 page c = None"
| "all_pages (Suc fuel) page c =
     (case page c of (rows, next) \<Rightarrow> if rows = [] then Some [] else map_option ((@) rows) (all_pages fuel page next))"

lemma strict_tail:
  assumes "sorted (map f zs)" and "distinct (map f zs)" and "zs = xs @ ys" and "xs \<noteq> []"
  shows "filter (\<lambda>r. f (last xs) < (f r :: int)) zs = ys"
proof -
  obtain us x where xs: "xs = us @ [x]" using assms(4) by (cases xs rule: rev_cases) auto
  have "f u \<le> f x" if "u \<in> set xs" for u using that assms(1,3) by (auto simp: xs sorted_append)
  moreover have "f x < f y" if "y \<in> set ys" for y
  proof -
    have "f x \<le> f y" using that assms(1,3) by (auto simp: xs sorted_append)
    moreover have "f x \<noteq> f y" using that assms(2,3) by (auto simp: xs)
    ultimately show ?thesis by simp
  qed
  ultimately show ?thesis unfolding assms(3) using xs by (auto simp: filter_empty_conv filter_id_conv leD)
qed

lemma maxCursor_last:
  assumes "sorted (map f rows)" and "rows \<noteq> []" and "\<And>r. r \<in> set rows \<Longrightarrow> 0 < f r"
  shows "maxCursor f rows = f (last rows)"
proof -
  have "foldl (\<lambda>next r. if f r > next then f r else next) m rs = (if rs = [] then m else f (last rs))"
    if "sorted (m # map f rs)" for m rs
    using that
  proof (induction rs arbitrary: m)
    case (Cons r rs)
    then have "sorted (f r # map f rs)" "m \<le> f r" by auto
    with Cons.IH [of "f r"] show ?case by auto
  qed simp
  from this [of 0 rows] assms show ?thesis
    unfolding maxCursor_def by (auto simp: less_le)
qed

text \<open>The general statement, for any sorted table with distinct positive keys.\<close>

lemma all_pages_complete:
  assumes sorted: "sorted (map f zs)" "distinct (map f zs)" "\<And>r. r \<in> set zs \<Longrightarrow> 0 < f r"
    and page: "\<And>c. page c = (map g (take n (filter (\<lambda>r. c < f r) zs)), maxCursor f (take n (filter (\<lambda>r. c < f r) zs)))"
    and n: "0 < n" and fuel: "length (filter (\<lambda>r. c < f r) zs) < fuel"
  shows "all_pages fuel page c = Some (map g (filter (\<lambda>r. c < f r) zs))"
  using fuel
proof (induction fuel arbitrary: c)
  case (Suc fuel)
  let ?L = "filter (\<lambda>r. c < f r) zs"
  let ?b = "take n ?L"
  show ?case
  proof (cases "?L = []")
    case True
    then show ?thesis by (simp add: page)
  next
    case False
    then have b: "?b \<noteq> []" using n by simp
    have L: "sorted (map f ?L)" "distinct (map f ?L)" using sorted by (simp_all add: sorted_filter distinct_map_filter)
    have "sorted (map f ?b)" using L(1) by (simp add: take_map [symmetric] sorted_wrt_take)
    then have next1: "maxCursor f ?b = f (last ?b)"
      using b sorted(3) by (intro maxCursor_last) (auto dest: in_set_takeD)
    have "last ?b \<in> set ?L" using last_in_set [OF b] by (rule in_set_takeD)
    then have "c < f (last ?b)" by simp
    then have "filter (\<lambda>r. f (last ?b) < f r) zs = filter (\<lambda>r. f (last ?b) < f r) ?L"
      unfolding filter_filter by (intro filter_cong [OF refl]) linarith
    also have "\<dots> = drop n ?L" using strict_tail [OF L, of ?b "drop n ?L"] b by simp
    finally have rest: "filter (\<lambda>r. f (last ?b) < f r) zs = drop n ?L" .
    then have "length (filter (\<lambda>r. f (last ?b) < f r) zs) < fuel" using Suc.prems n False by (cases ?L) auto
    from Suc.IH [OF this] have "all_pages fuel page (f (last ?b)) = Some (map g (drop n ?L))" unfolding rest .
    moreover have "map g ?b @ map g (drop n ?L) = map g ?L" by (simp flip: map_append)
    ultimately show ?thesis using b page [of c] by (simp add: next1 del: map_append)
  qed
qed simp

section \<open>The store's lists\<close>

text \<open>A page as the client sees it, without failing statements.\<close>

definition remotesPage :: "db \<Rightarrow> int64 \<Rightarrow> int64 \<Rightarrow> Remote list \<times> int64" where
  "remotesPage d limit cursor =
     (case sqliteStore_ListRemotes limit cursor
         \<lparr>w_db = d, w_fault = (\<lambda>_. False), w_stmts = 0, w_clock = (\<lambda>_. 0), w_ticks = 0\<rparr> of
        (Inr p, _) \<Rightarrow> p | (Inl _, _) \<Rightarrow> ([], 0))"

definition taintPage :: "db \<Rightarrow> RemoteID \<Rightarrow> int64 \<Rightarrow> int64 \<Rightarrow> TaintEvent list \<times> int64" where
  "taintPage d rid limit cursor =
     (case sqliteStore_ListTaintEvents rid limit cursor
         \<lparr>w_db = d, w_fault = (\<lambda>_. False), w_stmts = 0, w_clock = (\<lambda>_. 0), w_ticks = 0\<rparr> of
        (Inr p, _) \<Rightarrow> p | (Inl _, _) \<Rightarrow> ([], 0))"

lemma limit_rows_pos: "0 < n \<Longrightarrow> limit_rows n rs = take (nat n) rs"
  by (simp add: limit_rows_def)

lemma remotesPage_eq:
  "0 < limit \<Longrightarrow> remotesPage d limit c =
     (map remoteFromRow (take (nat limit) (filter (\<lambda>r. c < Rrem_ID r) (sort_key Rrem_ID (t_remotes d)))),
      maxCursor Rrem_ID (take (nat limit) (filter (\<lambda>r. c < Rrem_ID r) (sort_key Rrem_ID (t_remotes d)))))"
  by (simp add: remotesPage_def sqliteStore_ListRemotes_def bindT_def stmt_def sqlc_ListRemotes_def ret_def
      limit_rows_pos filter_sort Let_def)

lemma taintPage_eq:
  "0 < limit \<Longrightarrow> taintPage d rid limit c =
     (map taintEventFromRow (take (nat limit) (filter (\<lambda>r. c < Rte_ID r)
        (sort_key Rte_ID (filter (\<lambda>r. Rte_RemoteID r = rid) (t_taint_events d))))),
      maxCursor Rte_ID (take (nat limit) (filter (\<lambda>r. c < Rte_ID r)
        (sort_key Rte_ID (filter (\<lambda>r. Rte_RemoteID r = rid) (t_taint_events d))))))"
  by (simp add: taintPage_def sqliteStore_ListTaintEvents_def bindT_def stmt_def sqlc_ListTaintEvents_def ret_def
      limit_rows_pos filter_sort Let_def conj_commute)

lemma sorted_ids:
  assumes "ids_ok f rs n"
  shows "sorted (map f (sort_key f rs))" "distinct (map f (sort_key f rs))" "r \<in> set (sort_key f rs) \<Longrightarrow> 0 < f r"
  using assms by (auto simp: ids_ok_def distinct_map)

lemma all_remotes:
  assumes "db_ok d" and "0 < limit" and "length (t_remotes d) < fuel"
  shows "all_pages fuel (remotesPage d limit) 0 = Some (map remoteFromRow (sort_key Rrem_ID (t_remotes d)))"
proof -
  have ids: "ids_ok Rrem_ID (t_remotes d) (seq_remotes d)" using assms(1) by (simp add: db_ok_defs)
  note s = sorted_ids [OF ids]
  have pos: "filter (\<lambda>r. 0 < Rrem_ID r) (sort_key Rrem_ID (t_remotes d)) = sort_key Rrem_ID (t_remotes d)"
    using s(3) by (simp add: filter_id_conv)
  show ?thesis
    using all_pages_complete [OF s remotesPage_eq [OF assms(2)], of 0 fuel] assms(2,3) by (simp add: pos)
qed

lemma all_taint_events:
  assumes "db_ok d" and "0 < limit" and "length (t_taint_events d) < fuel"
  shows "all_pages fuel (taintPage d rid limit) 0 =
    Some (map taintEventFromRow (sort_key Rte_ID (filter (\<lambda>r. Rte_RemoteID r = rid) (t_taint_events d))))"
proof -
  let ?rs = "filter (\<lambda>r. Rte_RemoteID r = rid) (t_taint_events d)"
  have ids: "ids_ok Rte_ID ?rs (seq_taint_events d)" using assms(1) by (intro ids_ok_filter) (simp add: db_ok_defs)
  note s = sorted_ids [OF ids]
  have pos: "filter (\<lambda>r. 0 < Rte_ID r) (sort_key Rte_ID ?rs) = sort_key Rte_ID ?rs"
    using s(3) by (simp add: filter_id_conv)
  have "length ?rs < fuel" using assms(3) length_filter_le [of "\<lambda>r. Rte_RemoteID r = rid" "t_taint_events d"] by linarith
  then show ?thesis
    using all_pages_complete [OF s taintPage_eq [OF assms(2)], of 0 fuel] assms(2) by (simp add: pos)
qed

end
