(* ===== verification/Ledger_Audit.thy ===== *)
theory Ledger_Audit
  imports Api_Server Sync_Live Paging
begin

text \<open>
  \<open>internal/testutil/store.go\<close>: the auditor \<open>AssertChainIntact\<close>, which replays the ledger of a
  remote in batches through the store interface and recomputes every hash with its own copy
  of the encoding. A test failure (\<open>Errorf\<close> and return) is \<open>Broken\<close>, \<open>Fatalf\<close> is an error of the
  computation. The loop over batches gets fuel; one more than the number of full batches is
  enough.
\<close>

section \<open>The auditor's copy of the encoding\<close>

definition replayWriteField :: "bytes \<Rightarrow> bytes \<Rightarrow> bytes" where
  "replayWriteField buf b = (let lp = PutUint64 (int (length b)); buf = buf @ lp in buf @ b)"

definition replayWriteInt :: "bytes \<Rightarrow> int64 \<Rightarrow> bytes" where
  "replayWriteInt buf v = (let x = PutUint64 v in replayWriteField buf x)"

definition replayCanonical :: "Observation \<Rightarrow> bytes" where
  "replayCanonical ob =
     (let buf = [];
          buf = replayWriteInt buf (obs_RemoteID ob);
          buf = replayWriteInt buf (obs_Seq ob);
          buf = replayWriteInt buf (obs_RefID ob);
          buf = replayWriteField buf (bytes_of_string (obs_EventType ob));
          buf = replayWriteField buf (oid_Raw (obs_PrevOID ob));
          buf = replayWriteField buf (oid_Raw (obs_NewOID ob));
          buf = replayWriteField buf (oid_Raw (obs_PrevPeeledOID ob));
          buf = replayWriteField buf (oid_Raw (obs_NewPeeledOID ob));
          buf = replayWriteInt buf (obs_ObservedAtNS ob);
          buf = replayWriteField buf (bytes_of_string (obs_CanonicalMeta ob))
      in buf)"

definition replayRowHash :: "bytes \<Rightarrow> Observation \<Rightarrow> bytes" where
  "replayRowHash prevHash ob = sha256 (prevHash @ replayCanonical ob)"

lemma replayRowHash_RowHash: "replayRowHash p ob = RowHash p ob"
  by (simp add: replayRowHash_def RowHash_def replayCanonical_def CanonicalRow_def replayWriteInt_def writeInt_def
      replayWriteField_def writeField_def Let_def)

section \<open>The auditor\<close>

datatype audit_outcome = Intact | Broken string | OutOfFuel

text \<open>Some byte of \<open>a\<close> differs from the byte of \<open>b\<close> at its position.\<close>

definition byteMismatch :: "bytes \<Rightarrow> bytes \<Rightarrow> bool" where
  "byteMismatch a b = list_ex (\<lambda>j. a ! j \<noteq> b ! j) [0 ..< length a]"

fun auditBatch :: "Observation list \<Rightarrow> bytes \<Rightarrow> int64 \<Rightarrow> int64 \<Rightarrow> string + bytes \<times> int64 \<times> int64" where
  "auditBatch [] prevHash sq cnt = Inr (prevHash, sq, cnt)"
| "auditBatch (ob # batch) prevHash sq cnt =
     (let cnt = wrap64 (cnt + 1) in
      if length (obs_PrevHash ob) \<noteq> 32 then Inl ''prev_hash len''
      else if byteMismatch prevHash (obs_PrevHash ob) then Inl ''prev_hash mismatch''
      else
      let computed = replayRowHash prevHash ob in
      if length (obs_RowHash ob) \<noteq> 32 then Inl ''row_hash len''
      else if computed \<noteq> obs_RowHash ob then Inl ''row_hash mismatch''
      else auditBatch batch (obs_RowHash ob) (obs_Seq ob) cnt)"

definition batchSize :: int64 where
  "batchSize = 500"

fun auditLoop ::
  "nat \<Rightarrow> ('d, 't, 'r) Store \<Rightarrow> RemoteID \<Rightarrow> bytes \<Rightarrow> int64 \<Rightarrow> int64 \<Rightarrow> ('d, string + (bytes \<times> int64) option) io" where
  "auditLoop 0 s rid prevHash sq cnt = ret (Inr None)"
| "auditLoop (Suc fuel) s rid prevHash sq cnt =
     bindT (st_ReplayObservations s rid sq batchSize) (\<lambda>batch.
     if length batch = 0 then ret (Inr (Some (prevHash, cnt)))
     else case auditBatch batch prevHash sq cnt of
       Inl e \<Rightarrow> ret (Inl e)
     | Inr (prevHash', sq', cnt') \<Rightarrow>
         if int (length batch) < batchSize then ret (Inr (Some (prevHash', cnt')))
         else auditLoop fuel s rid prevHash' sq' cnt')"

definition AssertChainIntact :: "nat \<Rightarrow> ('d, 't, 'r) Store \<Rightarrow> RemoteID \<Rightarrow> ('d, audit_outcome) io" where
  "AssertChainIntact fuel s rid =
     bindT (st_GetChainHead s rid) (\<lambda>(head, len).
     if len = 0 then
       (if length head \<noteq> 32 then ret (Broken ''genesis chain_head length'')
        else if list_ex (\<lambda>b. b \<noteq> 0) head then ret (Broken ''genesis chain_head'')
        else ret Intact)
     else
       bindT (auditLoop fuel s rid (replicate 32 0) 0 0) (\<lambda>r. case r of
          Inl e \<Rightarrow> ret (Broken e)
        | Inr None \<Rightarrow> ret OutOfFuel
        | Inr (Some (prevHash, cnt)) \<Rightarrow>
            if cnt \<noteq> len then ret (Broken ''count'')
            else if length head \<noteq> 32 then ret (Broken ''chain_head len'')
            else if byteMismatch prevHash head then ret (Broken ''final hash mismatch'')
            else ret Intact))"

section \<open>What the auditor checks\<close>

text \<open>The hash links alone, without the sequence numbers.\<close>

fun links :: "bytes \<Rightarrow> ObservationRow list \<Rightarrow> bytes option" where
  "links h [] = Some h"
| "links h (r # rs) =
     (if Robs_PrevHash r = h \<and> Robs_RowHash r = RowHash h (observationFromRow r) then links (Robs_RowHash r) rs else None)"

lemma byteMismatch_eq: "length a = length b \<Longrightarrow> byteMismatch a b \<longleftrightarrow> a \<noteq> b"
  unfolding byteMismatch_def list_ex_iff by (auto intro: nth_equalityI)

lemma wrap64_wrap64_add: "wrap64 (wrap64 a + b) = wrap64 (a + b)"
proof (rule in_int64_mod_inj)
  have "(wrap64 a + b) mod 2 ^ 64 = (a + b) mod 2 ^ 64" using wrap64_mod by (rule mod_add_cong) simp
  then show "wrap64 (wrap64 a + b) mod 2 ^ 64 = wrap64 (a + b) mod 2 ^ 64" by (simp only: wrap64_mod)
qed simp_all

lemma observationFromRow_sel [simp]:
  "obs_PrevHash (observationFromRow r) = Robs_PrevHash r" "obs_RowHash (observationFromRow r) = Robs_RowHash r"
  "obs_Seq (observationFromRow r) = Robs_Seq r"
  by (simp_all add: observationFromRow_def)

lemma auditBatch_links:
  assumes "length h = 32" and "in_int64 c"
  shows "case links h rs of
      None \<Rightarrow> \<exists>e. auditBatch (map observationFromRow rs) h sq c = Inl e
    | Some h' \<Rightarrow> auditBatch (map observationFromRow rs) h sq c =
        Inr (h', (if rs = [] then sq else Robs_Seq (last rs)), wrap64 (c + int (length rs)))"
  using assms
proof (induction rs arbitrary: h sq c)
  case (Cons r rs)
  show ?case
  proof (cases "Robs_PrevHash r = h \<and> Robs_RowHash r = RowHash h (observationFromRow r)")
    case True
    have len: "length (Robs_RowHash r) = 32" using True by simp
    have "auditBatch (map observationFromRow (r # rs)) h sq c =
        auditBatch (map observationFromRow rs) (Robs_RowHash r) (Robs_Seq r) (wrap64 (c + 1))"
      using True Cons.prems len by (simp add: byteMismatch_eq replayRowHash_RowHash)
    moreover have "wrap64 (wrap64 (c + 1) + int (length rs)) = wrap64 (c + int (length (r # rs)))"
      by (simp add: wrap64_wrap64_add add.assoc)
    ultimately show ?thesis
      using Cons.IH [OF len, of "wrap64 (c + 1)" "Robs_Seq r"] True by (auto split: option.splits)
  next
    case False
    then show ?thesis using Cons.prems by (auto simp: byteMismatch_eq replayRowHash_RowHash Let_def)
  qed
qed simp

lemma links_length: "links h rs = Some h' \<Longrightarrow> length h = 32 \<Longrightarrow> length h' = 32"
  by (induction rs arbitrary: h) (auto split: if_splits)

lemma links_append: "links h (xs @ ys) = (case links h xs of None \<Rightarrow> None | Some h' \<Rightarrow> links h' ys)"
  by (induction xs arbitrary: h) auto

text \<open>The ledger of a remote in the order of its sequence numbers, from a number on.\<close>

definition ledger_from :: "db \<Rightarrow> RemoteID \<Rightarrow> int64 \<Rightarrow> ObservationRow list" where
  "ledger_from d rid sq = filter (\<lambda>r. Robs_Seq r > sq) (sort_key Robs_Seq (chain_rows d rid))"

lemma length_ledger_from: "length (ledger_from d rid sq) \<le> length (t_observations d)"
  unfolding ledger_from_def chain_rows_def by (rule order_trans [OF length_filter_le]) simp

lemma Replay_query: "sqlc_ReplayObservations rid sq 500 d = Inr (take 500 (ledger_from d rid sq), d)"
  by (simp add: sqlc_ReplayObservations_def limit_rows_def ledger_from_def chain_rows_def filter_sort conj_commute)

lemma ledger_from_tail:
  assumes ok: "db_ok d" and split: "ledger_from d rid sq = xs @ ys" and "xs \<noteq> []"
  shows "ledger_from d rid (Robs_Seq (last xs)) = ys"
proof -
  let ?S = "sort_key Robs_Seq (chain_rows d rid)"
  have "distinct (map Robs_Seq (chain_rows d rid))"
  proof -
    have "inj_on (\<lambda>r. (Robs_RemoteID r, Robs_Seq r)) (set (t_observations d))" "distinct (t_observations d)"
      using ok by (auto simp: db_ok_defs distinct_map)
    then show ?thesis by (auto simp: chain_rows_def distinct_map inj_on_def)
  qed
  then have "distinct (map Robs_Seq ?S)" by (simp add: distinct_map)
  moreover have "sorted (map Robs_Seq ?S)" by simp
  ultimately have "sorted (map Robs_Seq (ledger_from d rid sq))" "distinct (map Robs_Seq (ledger_from d rid sq))"
    unfolding ledger_from_def by (simp_all add: sorted_filter distinct_map_filter)
  from strict_tail [OF this split assms(3)]
  have "filter (\<lambda>r. Robs_Seq (last xs) < Robs_Seq r) (ledger_from d rid sq) = ys" .
  moreover have "sq < Robs_Seq (last xs)"
    using arg_cong [OF split, of set] last_in_set [OF assms(3)] by (auto simp: ledger_from_def)
  ultimately show ?thesis by (auto simp: ledger_from_def intro!: arg_cong [of _ _ "\<lambda>P. filter P ?S"])
qed


lemma Replay_run:
  "sqliteStore_ReplayObservations rid sq batchSize w = (x, w1) \<Longrightarrow>
   w_db w1 = w_db w \<and> (no_faults w \<longrightarrow> no_faults w1) \<and>
   (x = Inr (map observationFromRow (take 500 (ledger_from (w_db w) rid sq))) \<or> \<not> no_faults w \<and> (\<exists>e. x = Inl e))"
  by (auto simp: sqliteStore_ReplayObservations_def batchSize_def bindT_def stmt_def Replay_query ret_def Let_def
      no_faults_def split: if_splits)

text \<open>One round of the loop: the batch is the next part of the ledger.\<close>

lemma auditLoop_round:
  assumes ok: "db_ok (w_db w)" and h: "length h = 32" and c: "in_int64 c"
    and run: "sqliteStore_ReplayObservations rid sq batchSize w = (Inr batch, w1)"
    and links: "links h (take 500 (ledger_from (w_db w) rid sq)) = Some h'"
  defines "batch' \<equiv> take 500 (ledger_from (w_db w) rid sq)"
  shows "auditLoop (Suc fuel) leaseStore rid h sq c w =
      (if length (ledger_from (w_db w) rid sq) < 500 then (Inr (Inr (Some (h', wrap64 (c + int (length batch'))))), w1)
       else auditLoop fuel leaseStore rid h' (Robs_Seq (last batch')) (wrap64 (c + int (length batch'))) w1)"
    and "500 \<le> length (ledger_from (w_db w) rid sq) \<Longrightarrow>
      ledger_from (w_db w) rid (Robs_Seq (last batch')) = drop 500 (ledger_from (w_db w) rid sq)"
proof -
  have batch: "batch = map observationFromRow batch'" using Replay_run [OF run] by (auto simp: batch'_def)
  have "auditBatch batch h sq c = Inr (h', (if batch' = [] then sq else Robs_Seq (last batch')), wrap64 (c + int (length batch')))"
    using auditBatch_links [OF h c, of batch' sq] links by (simp add: batch batch'_def)
  moreover have "length batch = length batch'" by (simp add: batch)
  moreover have "h' = h" if "batch' = []" using links that by (simp add: batch'_def)
  moreover have "wrap64 c = c" using c by simp
  ultimately show "auditLoop (Suc fuel) leaseStore rid h sq c w =
      (if length (ledger_from (w_db w) rid sq) < 500 then (Inr (Inr (Some (h', wrap64 (c + int (length batch'))))), w1)
       else auditLoop fuel leaseStore rid h' (Robs_Seq (last batch')) (wrap64 (c + int (length batch'))) w1)"
    using run by (auto simp: bindT_def ret_def batchSize_def batch'_def)
  show "ledger_from (w_db w) rid (Robs_Seq (last batch')) = drop 500 (ledger_from (w_db w) rid sq)"
    if "500 \<le> length (ledger_from (w_db w) rid sq)"
    using that by (intro ledger_from_tail [OF ok, of rid sq batch']) (auto simp: batch'_def)
qed

text \<open>If the loop comes to an end without complaint, the links hold to the end.\<close>

lemma auditLoop_sound:
  assumes "auditLoop fuel leaseStore rid h sq c w = (Inr (Inr (Some (h', c'))), w')"
    and "db_ok (w_db w)" and "length h = 32" and "in_int64 c"
  shows "links h (ledger_from (w_db w) rid sq) = Some h' \<and> c' = wrap64 (c + int (length (ledger_from (w_db w) rid sq)))"
  using assms
proof (induction fuel arbitrary: h sq c w)
  case (Suc fuel)
  let ?L = "ledger_from (w_db w) rid sq" and ?b = "take 500 (ledger_from (w_db w) rid sq)"
  obtain x w1 where x: "sqliteStore_ReplayObservations rid sq batchSize w = (x, w1)"
    by (cases "sqliteStore_ReplayObservations rid sq batchSize w")
  with Suc.prems(1) obtain batch where b: "x = Inr batch" by (cases x) (auto simp: bindT_def)
  note run = x [unfolded b]
  have d1: "w_db w1 = w_db w" and batch: "batch = map observationFromRow ?b" using Replay_run [OF run] by auto
  show ?case
  proof (cases "links h ?b")
    case None
    then have "?L \<noteq> []" "\<exists>e. auditBatch batch h sq c = Inl e"
      using auditBatch_links [OF Suc.prems(3,4), of ?b sq] by (auto simp: batch)
    with Suc.prems(1) run batch show ?thesis by (auto simp: bindT_def ret_def)
  next
    case (Some h1)
    note round = auditLoop_round [OF Suc.prems(2,3,4) run Some]
    show ?thesis
    proof (cases "length ?L < 500")
      case True
      with Suc.prems(1) Some show ?thesis unfolding round(1) by simp
    next
      case False
      let ?c1 = "wrap64 (c + int (length ?b))"
      have "links h1 (drop 500 ?L) = Some h' \<and> c' = wrap64 (?c1 + int (length (drop 500 ?L)))"
        using Suc.IH [of h1 "Robs_Seq (last ?b)" ?c1 w1] Suc.prems(1,2) False round(2) links_length [OF Some Suc.prems(3)]
        unfolding round(1) by (simp add: d1)
      moreover have "links h ?L = links h1 (drop 500 ?L)"
        using links_append [of h ?b "drop 500 ?L"] Some by simp
      ultimately show ?thesis using False by (simp add: wrap64_wrap64_add)
    qed
  qed
qed (simp add: ret_def)

text \<open>With enough fuel and no failing statement, the loop comes to an end.\<close>

lemma auditLoop_complete:
  assumes "links h (ledger_from (w_db w) rid sq) = Some h'" and "length (ledger_from (w_db w) rid sq) < 500 * fuel"
    and "db_ok (w_db w)" and "length h = 32" and "in_int64 c" and "no_faults w"
  shows "\<exists>w'. auditLoop fuel leaseStore rid h sq c w =
      (Inr (Inr (Some (h', wrap64 (c + int (length (ledger_from (w_db w) rid sq)))))), w')"
  using assms
proof (induction fuel arbitrary: h sq c w)
  case (Suc fuel)
  let ?L = "ledger_from (w_db w) rid sq" and ?b = "take 500 (ledger_from (w_db w) rid sq)"
  obtain x w1 where x: "sqliteStore_ReplayObservations rid sq batchSize w = (x, w1)"
    by (cases "sqliteStore_ReplayObservations rid sq batchSize w")
  with Replay_run [OF x] Suc.prems(6) obtain batch where run: "sqliteStore_ReplayObservations rid sq batchSize w = (Inr batch, w1)"
    and d1: "w_db w1 = w_db w" "no_faults w1" by auto
  from Suc.prems(1) links_append [of h ?b "drop 500 ?L"] obtain h1 where
    h1: "links h ?b = Some h1" and rest: "links h1 (drop 500 ?L) = Some h'" by (auto split: option.splits)
  note round = auditLoop_round [OF Suc.prems(3,4,5) run h1]
  show ?case
  proof (cases "length ?L < 500")
    case True
    then show ?thesis unfolding round(1) using rest by simp
  next
    case False
    let ?c1 = "wrap64 (c + int (length ?b))"
    have "\<exists>w'. auditLoop fuel leaseStore rid h1 (Robs_Seq (last ?b)) ?c1 w1 =
        (Inr (Inr (Some (h', wrap64 (?c1 + int (length (drop 500 ?L)))))), w')"
      using Suc.IH [of h1 w1 "Robs_Seq (last ?b)" ?c1] rest False round(2) links_length [OF h1 Suc.prems(4)] Suc.prems(2,3) d1
      by simp
    then show ?thesis unfolding round(1) using False by (simp add: wrap64_wrap64_add)
  qed
qed simp

section \<open>The verdict of the auditor\<close>

lemma GetChainHead_run:
  "sqliteStore_GetChainHead rid w = (Inr (head, len), w1) \<Longrightarrow>
   w_db w1 = w_db w \<and> (rid, head, len) \<in> set (remote_heads (w_db w))"
  by (auto simp: sqliteStore_GetChainHead_def stmt_Inr sqlc_GetChainHead_def read_one_Inr dest: find_remote_heads)

lemma genesis_zeros: "length h = 32 \<Longrightarrow> \<not> list_ex (\<lambda>b. b \<noteq> 0) h \<Longrightarrow> h = genesis"
  by (auto simp: genesis_def ChainHashLen_def list_ex_iff intro!: replicate_eqI)

lemma genesis_replicate: "replicate 32 0 = genesis"
  by (simp add: genesis_def ChainHashLen_def)

lemma AssertChainIntact_sound:
  assumes run: "AssertChainIntact fuel leaseStore rid w = (Inr Intact, w')" and ok: "db_ok (w_db w)"
    and small: "room 0 (w_db w)"
  shows "\<exists>head len. (rid, head, len) \<in> set (remote_heads (w_db w)) \<and>
    (len = 0 \<and> head = genesis \<or>
     links genesis (ledger_from (w_db w) rid 0) = Some head \<and> len = int (length (ledger_from (w_db w) rid 0)))"
proof -
  from run obtain head len w1 where g: "sqliteStore_GetChainHead rid w = (Inr (head, len), w1)"
    by (auto simp: AssertChainIntact_def bindT_def split: prod.splits sum.splits)
  from GetChainHead_run [OF g] have d1: "w_db w1 = w_db w" and mem: "(rid, head, len) \<in> set (remote_heads (w_db w))" by auto
  have "len = 0 \<and> head = genesis \<or>
     links genesis (ledger_from (w_db w) rid 0) = Some head \<and> len = int (length (ledger_from (w_db w) rid 0))"
  proof (cases "len = 0")
    case True
    with run g have "length head = 32 \<and> \<not> list_ex (\<lambda>b. b \<noteq> 0) head"
      by (auto simp: AssertChainIntact_def bindT_def ret_def split: if_splits)
    with True genesis_zeros show ?thesis by blast
  next
    case False
    with run g obtain h c where
      loop: "auditLoop fuel leaseStore rid genesis 0 0 w1 = (Inr (Inr (Some (h, c))), w')"
      and fin: "c = len" "length head = 32" "\<not> byteMismatch h head"
      by (auto simp: AssertChainIntact_def bindT_def ret_def genesis_replicate
          split: prod.splits sum.splits option.splits if_splits)
    have l: "links genesis (ledger_from (w_db w) rid 0) = Some h" "c = wrap64 (int (length (ledger_from (w_db w) rid 0)))"
      using auditLoop_sound [OF loop] ok by (simp_all add: d1 genesis_def ChainHashLen_def in_int64_def)
    have "h = head" using links_length [OF l(1)] fin(2,3) by (simp add: byteMismatch_eq genesis_def ChainHashLen_def)
    then show ?thesis using l fin(1) small length_ledger_from [of "w_db w" rid 0] by (simp add: room_def in_int64_def)
  qed
  with mem show ?thesis by blast
qed


lemma walk_links: "walk h n rs = Some (h', n') \<Longrightarrow> links h rs = Some h'"
  by (induction rs arbitrary: h n) (auto split: if_splits)

lemma walk_sorted:
  assumes "walk h n rs = Some (h', n')" and "0 \<le> n" and "n + int (length rs) < 2 ^ 63"
  shows "sorted (map Robs_Seq rs) \<and> (\<forall>r \<in> set rs. n < Robs_Seq r)"
  using assms
proof (induction rs arbitrary: h n)
  case (Cons r rs)
  have w: "wrap64 (n + 1) = n + 1" using Cons.prems by (intro wrap64_id) (simp add: in_int64_def)
  from Cons.prems(1) have seq: "Robs_Seq r = n + 1" and tail: "walk (Robs_RowHash r) (n + 1) rs = Some (h', n')"
    by (auto simp: w split: if_splits)
  from Cons.IH [OF tail] Cons.prems seq show ?case by force
qed simp

lemma chain_rows_le: "length (chain_rows d rid) \<le> length (t_observations d)"
  by (simp add: chain_rows_def)

lemma ledger_from_chain:
  assumes "chain_ok d" and "(rid, h, n) \<in> set (remote_heads d)" and "room 0 d"
  shows "ledger_from d rid 0 = chain_rows d rid" and "links genesis (chain_rows d rid) = Some h"
    and "n = int (length (chain_rows d rid))"
proof -
  note walk = chain_okD [OF assms(1,2)]
  have len: "0 + int (length (chain_rows d rid)) < 2 ^ 63" using assms(3) chain_rows_le [of d rid] by (simp add: room_def)
  from walk_sorted [OF walk _ len] have "sorted (map Robs_Seq (chain_rows d rid))" "\<forall>r \<in> set (chain_rows d rid). 0 < Robs_Seq r"
    by auto
  then show "ledger_from d rid 0 = chain_rows d rid"
    by (simp add: ledger_from_def sort_key_id_if_sorted filter_id_conv)
  show "links genesis (chain_rows d rid) = Some h" using walk by (rule walk_links)
  show "n = int (length (chain_rows d rid))" using walk_seqs [OF walk _ len] by simp
qed

lemma AssertChainIntact_complete:
  assumes ok: "ledger_ok (w_db w)" and "no_faults w" and room: "room 0 (w_db w)" and ex: "remote_exists (w_db w) rid"
    and fuel: "length (t_observations (w_db w)) < 500 * fuel"
  shows "\<exists>w'. AssertChainIntact fuel leaseStore rid w = (Inr Intact, w')"
proof -
  obtain row where row: "find (\<lambda>r. Rrem_ID r = rid) (t_remotes (w_db w)) = Some row" using ex by (rule remote_row)
  let ?h = "Rrem_ChainHeadHash row" and ?n = "Rrem_ChainLen row" and ?w1 = "w\<lparr>w_stmts := w_stmts w + 1\<rparr>"
  have g: "sqliteStore_GetChainHead rid w = (Inr (?h, ?n), ?w1)"
    using row assms(2) by (simp add: sqliteStore_GetChainHead_def mapErrT_def stmt_def sqlc_GetChainHead_def read_one_def
        select_one_def no_faults_def Let_def)
  have ok': "db_ok (w_db w)" "chain_ok (w_db w)" using ok by (simp_all add: ledger_ok_def)
  note chain = ledger_from_chain [OF ok'(2) find_remote_heads [OF row] room]
  have len: "length ?h = 32" using links_length [OF chain(2)] by (simp add: genesis_def ChainHashLen_def)
  show ?thesis
  proof (cases "?n = 0")
    case True
    with chain have "?h = genesis" by simp
    then show ?thesis using g True by (auto simp: AssertChainIntact_def bindT_def ret_def genesis_def ChainHashLen_def list_ex_iff)
  next
    case False
    have "length (chain_rows (w_db w) rid) < 500 * fuel"
      using fuel chain_rows_le [of "w_db w" rid] by linarith
    then obtain w' where
      "auditLoop fuel leaseStore rid genesis 0 0 ?w1 = (Inr (Inr (Some (?h, wrap64 (int (length (chain_rows (w_db w) rid)))))), w')"
      using auditLoop_complete [of genesis ?w1 rid 0 ?h fuel 0] chain ok'(1) assms(2)
      by (auto simp: genesis_def ChainHashLen_def in_int64_def no_faults_def)
    moreover have "wrap64 (int (length (chain_rows (w_db w) rid))) = ?n"
      unfolding chain(3) using room chain_rows_le [of "w_db w" rid] by (intro wrap64_id) (simp add: in_int64_def room_def)
    ultimately show ?thesis
      using g False len by (auto simp: AssertChainIntact_def bindT_def ret_def genesis_replicate byteMismatch_eq)
  qed
qed

section \<open>Tamper evidence\<close>

lemma links_chain_head:
  "links h rs = Some h' \<Longrightarrow> chain_head sha256 CanonicalRow h (map observationFromRow (rev rs)) = h'"
proof (induction rs arbitrary: h' rule: rev_induct)
  case (snoc r rs)
  then show ?case by (auto simp: links_append RowHash_def split: option.splits if_splits)
qed simp

lemma equal_heads_equal_ledgers:
  assumes "links genesis rs = Some h" and "links genesis rs' = Some h" and "length rs = length rs'"
    and "list_all obs_fits (map observationFromRow (rev rs))" and "list_all obs_fits (map observationFromRow (rev rs'))"
  shows "case find_collision sha256 CanonicalRow genesis (map observationFromRow (rev rs)) (map observationFromRow (rev rs')) of
      None \<Rightarrow> map obs_key (map observationFromRow (rev rs)) = map obs_key (map observationFromRow (rev rs'))
    | Some (a, b) \<Rightarrow> a \<noteq> b \<and> sha256 a = sha256 b"
  using assms(3-5) links_chain_head [OF assms(1)] links_chain_head [OF assms(2)]
  by (intro row_chain.tamper_evident) (simp_all add: genesis_def)

end
