(* ===== verification/Lock_Props.thy ===== *)
theory Lock_Props
  imports Sync_Live
begin

text \<open>
  What the lease guarantees: while an unexpired lease of a remote is stored, nobody acquires
  another one, the holder itself included; a release compares the chain head and, if the head
  is neither the one at acquisition nor the new one, changes nothing.
\<close>

definition live_lease :: "db \<Rightarrow> RemoteID \<Rightarrow> int64 \<Rightarrow> bool" where
  "live_lease d rid now \<longleftrightarrow> (\<exists>l \<in> set (t_lease d). Rls_RemoteID l = rid \<and> now \<le> Rls_ExpiresAtNs l)"

lemma find_lease:
  assumes "db_ok d" and "l \<in> set (t_lease d)" and "Rls_RemoteID l = rid"
  shows "find (\<lambda>l. Rls_RemoteID l = rid) (t_lease d) = Some l"
proof -
  have "distinct (map Rls_RemoteID (t_lease d))" using assms(1) by (simp add: db_ok_def)
  then have "find (\<lambda>l. Rls_RemoteID l = rid) (t_lease d) \<noteq> None" "\<And>l'. find (\<lambda>l. Rls_RemoteID l = rid) (t_lease d) = Some l' \<Longrightarrow> l' = l"
    using assms(2,3) by (auto simp: find_None_iff find_Some_iff distinct_map dest: inj_onD)
  then show ?thesis by auto
qed

lemma Acquire_live:
  assumes ok: "db_ok (w_db w)" and live: "live_lease (w_db w) rid (w_clock w (w_ticks w))"
    and run: "dbLease_AcquireRemoteLease leaseStore rid holder ttl w = (r, w')"
  shows "w_db w' = w_db w" and "r = Inl ErrLeaseHeld \<or> (\<exists>e. r = Inl (SqlErr e))"
proof -
  from live obtain l where l: "find (\<lambda>l. Rls_RemoteID l = rid) (t_lease (w_db w)) = Some l"
      "w_clock w (w_ticks w) \<le> Rls_ExpiresAtNs l"
    using find_lease [OF ok] by (auto simp: live_lease_def)
  show "w_db w' = w_db w" "r = Inl ErrLeaseHeld \<or> (\<exists>e. r = Inl (SqlErr e))"
    using run l
    by (auto simp: dbLease_AcquireRemoteLease_def sqliteStore_def sqliteStore_TryAcquireLease_def upsertLeaseSQL_def
        bindT_def NowNS_def stmt_def ret_def fail_def Let_def sqlc_GetRemoteChainHead_def read_one_def select_one_def
        split: if_splits option.splits)
qed

lemma upsertLease_stores:
  assumes "upsertLeaseSQL i holder acquired expires now d = Inr (n, d')" and "n \<noteq> 0"
  shows "\<lparr>Rls_RemoteID = i, Rls_Holder = holder, Rls_AcquiredAtNs = acquired, Rls_ExpiresAtNs = expires\<rparr> \<in> set (t_lease d')"
proof (cases "find (\<lambda>l. Rls_RemoteID l = i) (t_lease d)")
  case (Some l)
  then have "l \<in> set (t_lease d)" "Rls_RemoteID l = i" by (auto simp: find_Some_iff)
  with Some assms show ?thesis
    by (auto simp: upsertLeaseSQL_def Let_def set_update_where image_iff split: if_splits intro!: bexI [of _ l])
qed (use assms in \<open>auto simp: upsertLeaseSQL_def Let_def split: if_splits\<close>)

lemma Acquire_stores:
  assumes run: "dbLease_AcquireRemoteLease leaseStore rid holder ttl w = (Inr lease, w')"
  shows "lease = \<lparr>lse_RemoteID = rid, lse_Holder = holder, lse_AcquiredAtNS = w_clock w (w_ticks w),
      lse_ExpiresAtNS = wrap64 (w_clock w (w_ticks w) + ttl), lse_ChainHeadAtLease = lse_ChainHeadAtLease lease\<rparr>"
    and "\<lparr>Rls_RemoteID = rid, Rls_Holder = holder, Rls_AcquiredAtNs = lse_AcquiredAtNS lease,
      Rls_ExpiresAtNs = lse_ExpiresAtNS lease\<rparr> \<in> set (t_lease (w_db w'))"
    and "\<not> live_lease (w_db w) rid (w_clock w (w_ticks w)) \<or> \<not> db_ok (w_db w)"
proof -
  show "\<not> live_lease (w_db w) rid (w_clock w (w_ticks w)) \<or> \<not> db_ok (w_db w)"
    using Acquire_live(2) [OF _ _ run] by auto
  from run obtain head chainLen n d1 where
    lease: "lease = \<lparr>lse_RemoteID = rid, lse_Holder = holder, lse_AcquiredAtNS = w_clock w (w_ticks w),
      lse_ExpiresAtNS = wrap64 (w_clock w (w_ticks w) + ttl), lse_ChainHeadAtLease = head\<rparr>"
    and up: "upsertLeaseSQL rid holder (w_clock w (w_ticks w)) (wrap64 (w_clock w (w_ticks w) + ttl)) (w_clock w (w_ticks w)) (w_db w) =
      Inr (n, w_db w')" "n \<noteq> 0"
    by (auto simp: dbLease_AcquireRemoteLease_def sqliteStore_def sqliteStore_TryAcquireLease_def bindT_eq_Inr NowNS_Inr
        stmt_Inr Let_def sqlc_GetRemoteChainHead_def read_one_Inr split: if_splits)
  show "lease = \<lparr>lse_RemoteID = rid, lse_Holder = holder, lse_AcquiredAtNS = w_clock w (w_ticks w),
      lse_ExpiresAtNS = wrap64 (w_clock w (w_ticks w) + ttl), lse_ChainHeadAtLease = lse_ChainHeadAtLease lease\<rparr>"
    by (simp add: lease)
  show "\<lparr>Rls_RemoteID = rid, Rls_Holder = holder, Rls_AcquiredAtNs = lse_AcquiredAtNS lease,
      Rls_ExpiresAtNs = lse_ExpiresAtNS lease\<rparr> \<in> set (t_lease (w_db w'))"
    using upsertLease_stores [OF up] by (simp add: lease)
qed

text \<open>Two leases of one remote are apart in time, as long as the first is not given back.\<close>

lemma Acquire_exclusive:
  assumes "dbLease_AcquireRemoteLease leaseStore rid h1 ttl w = (Inr l1, w1)"
    and "db_ok (w_db w2)" and "set (t_lease (w_db w1)) \<subseteq> set (t_lease (w_db w2))"
    and run2: "dbLease_AcquireRemoteLease leaseStore rid h2 ttl2 w2 = (Inr l2, w3)"
  shows "lse_ExpiresAtNS l1 < lse_AcquiredAtNS l2"
proof (rule ccontr)
  assume "\<not> lse_ExpiresAtNS l1 < lse_AcquiredAtNS l2"
  moreover have "lse_AcquiredAtNS l2 = w_clock w2 (w_ticks w2)"
    by (subst Acquire_stores(1) [OF run2]) simp
  ultimately have "live_lease (w_db w2) rid (w_clock w2 (w_ticks w2))"
    using Acquire_stores(2) [OF assms(1)] assms(3) unfolding live_lease_def by force
  with Acquire_stores(3) [OF run2] assms(2) show False by blast
qed

text \<open>A release under a head that moved in between fails and leaves everything as it was.\<close>

lemma Release_cas:
  assumes "find (\<lambda>r. Rrem_ID r = lse_RemoteID l) (t_remotes (w_db w)) = Some row"
    and "Rrem_ChainHeadHash row \<noteq> lse_ChainHeadAtLease l" and "Rrem_ChainHeadHash row \<noteq> h"
  shows "\<exists>e w'. dbLease_Release leaseStore (Some l) h n w = (Inl e, w') \<and> w_db w' = w_db w \<and> (no_faults w \<longrightarrow> e = ErrChainCAS)"
  using assms
  by (auto simp: dbLease_Release_def sqliteStore_def sqliteStore_ReleaseLeaseCAS_def releaseTx_def bindT_def stmt_def
      fail_def ret_def Let_def sqlc_GetRemoteChainHead_def read_one_def select_one_def no_faults_def
      split: if_splits prod.splits sum.splits)

end
