(* ===== verification/Scenario.thy ===== *)
theory Scenario
  imports Ledger_Audit Lock_Props
begin

text \<open>
  A small concrete installation: one remote with one recorded tag and its lease free. The
  witnesses of the properties run on it, against listings that git might print.
\<close>

definition demo_remote :: RemoteRow where
  "demo_remote = \<lparr>Rrem_ID = 1, Rrem_Url = ''https://h/r'', Rrem_NormalizedUrl = ''h/r'', Rrem_Transport = ''https'',
     Rrem_SyncIntervalNs = 60, Rrem_StalenessBudgetNs = 600, Rrem_TaintAnyTagDeletion = 1, Rrem_HashAlgo = None,
     Rrem_Status = ''active'', Rrem_LastOkNs = 0, Rrem_LastErr = [], Rrem_ConsecutiveFailures = 0,
     Rrem_ChainHeadHash = genesis, Rrem_ChainLen = 0, Rrem_RemovedAtNs = None, Rrem_CreatedAtNs = 0,
     Rrem_UpdatedAtNs = 0\<rparr>"

definition demo_ref :: RefRow where
  "demo_ref = \<lparr>Rref_ID = 1, Rref_RemoteID = 1, Rref_TagName = ''v1'', Rref_CurrentOid = Some (replicate 20 1),
     Rref_CurrentPeeledOid = Some (replicate 20 1), Rref_IsAnnotated = 0, Rref_FirstOid = Some (replicate 20 1),
     Rref_FirstSeenNs = 5, Rref_LastSeenNs = 5, Rref_LastChangedNs = 5, Rref_Deleted = 0, Rref_Tainted = 0,
     Rref_TaintFirstNs = None, Rref_ObservationCount = 1\<rparr>"

definition demo_db :: db where
  "demo_db = empty_db\<lparr>t_remotes := [demo_remote], t_refs := [demo_ref], seq_remotes := 1, seq_refs := 1\<rparr>"

definition demo_world :: "db \<Rightarrow> db world" where
  "demo_world d = \<lparr>w_db = d, w_fault = (\<lambda>_. False), w_stmts = 0, w_clock = (\<lambda>n. 1000 + int n), w_ticks = 0\<rparr>"

text \<open>A git process that always prints the same text.\<close>

definition demo_git :: "string \<Rightarrow> gitProc" where
  "demo_git out = (\<lambda>_ _ _ _. Inr out)"

definition demo_runner :: execGitRunner where
  "demo_runner = \<lparr>gr_gitBin = ''git'', gr_timeout = 0, gr_allowProtocol = ''https''\<rparr>"

text \<open>The tag \<open>v1\<close> at the object id whose 20 bytes are all \<open>b\<close>.\<close>

definition demo_ls :: "byte \<Rightarrow> LsRemoteRef" where
  "demo_ls b = \<lparr>lsr_Name = ''v1'', lsr_OID = \<lparr>oid_Raw = replicate 20 b, oid_Algo = SHA1\<rparr>,
     lsr_PeeledOID = zeroOID, lsr_IsAnnotatedTag = False\<rparr>"

definition demo_new :: "byte \<Rightarrow> LsRemoteRef" where
  "demo_new b = (demo_ls b)\<lparr>lsr_Name := ''v2''\<rparr>"

definition demo_sync :: "LsRemoteRef list \<Rightarrow> db world \<Rightarrow> (err + SyncResult option \<times> err option) \<times> db world" where
  "demo_sync ls = SyncRemote (\<lambda>_. []) id sqliteStore (execGit (demo_git (printRefs ls)) demo_runner) sqliteLock ''me'' 1"

lemma demo_listing:
  assumes "list_all (\<lambda>r. r \<in> range demo_ls \<union> range demo_new) ls"
  shows "execGitRunner_LsRemote (demo_git (printRefs ls)) demo_runner url auth w = (Inr ls, w)"
proof (rule execGitRunner_LsRemote_print)
  have "ref_parsed SHA1 (demo_ls b)" "name_ok (lsr_Name (demo_ls b))"
    "ref_parsed SHA1 (demo_new b)" "name_ok (lsr_Name (demo_new b))" for b
    by (simp_all add: ref_parsed_def wf_OID_def HashAlgo_Valid_def demo_ls_def demo_new_def name_ok_def HasSuffix_def
        prefixTags_def peeledSfx_def suffix_to_prefix)
  then show "list_all (ref_parsed SHA1) ls" "list_all (\<lambda>r. name_ok (lsr_Name r)) ls"
    using assms by (auto simp: list_all_iff)
qed (simp_all add: demo_git_def HashAlgo_Valid_def)

lemma demo_sel [simp]:
  "w_db (demo_world d) = d" "no_faults (demo_world d)" "w_ticks (demo_world d) = 0" "w_clock (demo_world d) n = 1000 + int n"
  by (simp_all add: demo_world_def no_faults_def)

lemma demo_ok: "sync_ok demo_db" "syncs_ok demo_db"
proof -
  have "db_ok demo_db"
    by (simp add: demo_db_def demo_remote_def demo_ref_def empty_db_def db_ok_defs ids_ok_def remote_exists_def)
  moreover have "chain_ok demo_db"
    by (simp add: chain_ok_def remote_heads_def chain_rows_def demo_db_def demo_remote_def empty_db_def)
  moreover have "rows_ok demo_db"
    by (simp add: rows_ok_def demo_db_def demo_ref_def ref_ok_def ref_storable_def refFromRow_simp oid_storable_def
        oidFromCol_def OIDFromRaw_def AlgoForRawLen_def wf_OID_def HashAlgo_Valid_def toBytes_def)
  ultimately show "sync_ok demo_db" by (simp add: sync_ok_def ledger_ok_def)
  show "syncs_ok demo_db" by (simp add: syncs_ok_def demo_db_def empty_db_def)
qed

lemma demo_find: "find (\<lambda>r. Rrem_ID r = 1) (t_remotes demo_db) = Some demo_remote"
  by (simp add: demo_db_def demo_remote_def)

lemma demo_ref_at: "ref_at demo_db 1 ''v1'' = Some demo_ref"
  by (simp add: ref_at_def demo_db_def demo_ref_def)

lemma demo_row_oid: "row_oid demo_ref = \<lparr>oid_Raw = replicate 20 1, oid_Algo = SHA1\<rparr>"
  by (simp add: row_oid_def demo_ref_def oidFromCol_def OIDFromRaw_def AlgoForRawLen_def toBytes_def)

lemma demo_one_ref: "ref_at demo_db rid tag = Some old \<Longrightarrow> rid = 1 \<and> tag = ''v1'' \<and> old = demo_ref"
  by (simp add: ref_at_def demo_db_def split: if_splits) (simp add: demo_ref_def)

lemma demo_no_new: "ref_at demo_db 1 (lsr_Name (demo_new b)) = None"
  using demo_one_ref [of 1 "lsr_Name (demo_new b)"] by (cases "ref_at demo_db 1 (lsr_Name (demo_new b))") (auto simp: demo_new_def)

lemma demo_same: "ref_at demo_db 1 (lsr_Name (demo_ls 1)) = Some demo_ref" "Rref_Deleted demo_ref = 0"
    "lsr_OID (demo_ls 1) = row_oid demo_ref" "lsr_Name (demo_ls b) = ''v1''"
  unfolding demo_row_oid by (simp_all add: demo_ls_def demo_ref_at) (simp add: demo_ref_def)

lemma demo_no_events: "t_taint_events demo_db = []" "t_observations demo_db = []"
  by (simp_all add: demo_db_def empty_db_def)

lemma demo_no_lease: "t_lease demo_db = []"
  by (simp add: demo_db_def empty_db_def)

lemma demo_room: "n < 100 \<Longrightarrow> room (n + length (tags_of demo_db i)) demo_db"
  by (simp add: room_def tags_of_def demo_db_def empty_db_def)

text \<open>The same installation with the tag already tainted.\<close>

definition demo_tainted :: db where
  "demo_tainted = demo_db\<lparr>t_refs := [demo_ref\<lparr>Rref_Tainted := 1, Rref_TaintFirstNs := Some 7\<rparr>]\<rparr>"

lemma demo_tainted_ok: "sync_ok demo_tainted" "tainted_at 1 ''v1'' demo_tainted"
proof -
  have "db_ok demo_tainted"
    by (simp add: demo_tainted_def demo_db_def demo_remote_def demo_ref_def empty_db_def db_ok_defs ids_ok_def
        remote_exists_def)
  moreover have "chain_ok demo_tainted"
    by (simp add: chain_ok_def remote_heads_def chain_rows_def demo_tainted_def demo_db_def demo_remote_def empty_db_def)
  moreover have "rows_ok demo_tainted"
    by (simp add: rows_ok_def demo_tainted_def demo_ref_def ref_ok_def ref_storable_def refFromRow_simp oid_storable_def
        oidFromCol_def OIDFromRaw_def AlgoForRawLen_def wf_OID_def HashAlgo_Valid_def toBytes_def)
  ultimately show "sync_ok demo_tainted" by (simp add: sync_ok_def ledger_ok_def)
  show "tainted_at 1 ''v1'' demo_tainted"
    by (simp add: tainted_at_def ref_at_def demo_tainted_def demo_ref_def)
qed

text \<open>A sync of the demo installation against any short listing succeeds.\<close>

lemma demo_sync_runs:
  assumes "list_all (\<lambda>r. r \<in> range demo_ls \<union> range demo_new) ls" and "length ls < 100"
  obtains res w' where "demo_sync ls (demo_world demo_db) = (Inr (Some res, None), w')"
proof -
  have "\<exists>res w'. demo_sync ls (demo_world demo_db) = (Inr (Some res, None), w') \<and> res_Status res = SyncOk \<and>
      res_TagsSeen res = int (length ls)"
    unfolding demo_sync_def
  proof (rule SyncRemote_succeeds)
    show "execGitRunner_LsRemote (demo_git (printRefs ls)) demo_runner (Rrem_Url demo_remote) None wg = (Inr ls, wg)"
      for wg :: "db world" by (rule demo_listing [OF assms(1)])
    show "room (length ls + length (tags_of (w_db (demo_world demo_db)) 1)) (w_db (demo_world demo_db))"
      using demo_room [OF assms(2)] by simp
    show "\<forall>l \<in> set (t_lease (w_db (demo_world demo_db))). Rls_RemoteID l = 1 \<longrightarrow>
        Rls_ExpiresAtNs l < w_clock (demo_world demo_db) (w_ticks (demo_world demo_db))"
      by (simp add: demo_db_def empty_db_def)
  qed (simp_all add: demo_ok demo_find)
  then show thesis using that by blast
qed

text \<open>If the tag has moved, a successful sync taints it.\<close>

lemma demo_moved:
  assumes run: "demo_sync [demo_ls 2] (demo_world demo_db) = (Inr (Some res, None), w')"
  shows "tainted_at 1 ''v1'' (w_db w')"
    and "event_for (w_db w') 1 (Rref_ID demo_ref) (change_reason demo_ref) (row_oid demo_ref) (lsr_OID (demo_ls 2))"
proof -
  obtain ns where sy: "synced 1 ns (Rrem_TaintAnyTagDeletion demo_remote \<noteq> 0) (db_view demo_db) [demo_ls 2]
      (id (priorMap (tags_of demo_db 1))) (db_view (w_db w'))"
    using SyncRemote_synced [OF _ _ run [unfolded demo_sync_def] _ demo_listing, of demo_remote]
    by (auto simp: demo_ok demo_find)
  have ne: "lsr_OID (demo_ls 2) \<noteq> row_oid demo_ref" unfolding demo_row_oid by (simp add: demo_ls_def)
  have mem: "demo_ls 2 \<in> set [demo_ls 2]" by simp
  from synced_changed [OF sy demo_ok(1) mem _ ne] demo_same(1)
  show "tainted_at 1 ''v1'' (w_db w')"
    "event_for (w_db w') 1 (Rref_ID demo_ref) (change_reason demo_ref) (row_oid demo_ref) (lsr_OID (demo_ls 2))"
    by (simp_all add: demo_same(4) demo_ref_at)
qed

section \<open>Requests\<close>

definition demo_create :: CreateRemoteRequest where
  "demo_create = \<lparr>Creq_StalenessBudgetNs = None, Creq_SyncIntervalNs = None, Creq_TaintAnyTagDeletion = None,
     Creq_Transport = ''https'', Creq_Url = ''https://h/r''\<rparr>"

definition demo_verify :: VerifyParams where
  "demo_verify = \<lparr>Vp_Remote = ''1'', Vp_Tag = ''v1'', Vp_Commit = None\<rparr>"

text \<open>The database after the first remote was registered.\<close>

lemma demo_created_row:
  "\<exists>row. Rrem_ID row = 1 \<and>
     w_db (snd (CreateRemote_handler (\<lambda>_. []) (\<lambda>_. None) id leaseStore (Some demo_create) (demo_world empty_db))) =
       empty_db\<lparr>t_remotes := [row], seq_remotes := 1\<rparr>"
proof -
  have url: "plainURL ''https'' None ''h'' [] (''/r'' @ replicate 0 (CHR ''/'')) = ''https://h/r''"
    by (simp add: plainURL_def userPart_def portPart_def)
  have "plain_parts None ''h'' [] (''/r'' @ replicate 0 (CHR ''/''))"
    by (simp add: plain_parts_def plain_def pathChar_def isLetter_def)
  from NormalizeURL_plain [OF _ this, of "''https''" "''443''" "\<lambda>_. None" id]
  have "NormalizeURL (\<lambda>_. None) id ''https://h/r'' = Inr ''https://h/r''"
    unfolding url by (simp add: plainURL_def userPart_def portPart_def ToLower_def ToLowerChar_def)
  moreover have "remote_check (Prem_Transport (createRemoteParams (newRemote demo_create u n)))
      (Prem_HashAlgo (createRemoteParams (newRemote demo_create u n)))
      (Prem_Status (createRemoteParams (newRemote demo_create u n)))" for u n
    by (simp add: remote_check_def createRemoteParams_def newRemote_def demo_create_def RemoteActive_def
        nullStringInterface_def hashAlgoPtr_def Let_def)
  ultimately show ?thesis
    by (simp add: CreateRemote_handler_def demo_create_def TransportHTTPS_def TransportSSH_def demo_world_def bindT_def
        NowNS_def tryT_def sqliteStore_CreateRemote_def mapErrT_def stmt_def sqlc_CreateRemote_def empty_db_def ret_def Let_def
        split: prod.splits sum.splits)
qed

lemma demo_created_db:
  defines "d \<equiv> w_db (snd (CreateRemote_handler (\<lambda>_. []) (\<lambda>_. None) id leaseStore (Some demo_create) (demo_world empty_db)))"
  shows "t_remotes d \<noteq> []" "t_observations d = []" "remote_exists d 1"
  using demo_created_row unfolding d_def [symmetric] by (auto simp: empty_db_def remote_exists_def)

lemma demo_verify_ok: "well_formed demo_verify" "parseID (Vp_Remote demo_verify) = Inr 1"
  by (simp_all add: well_formed_def demo_verify_def suppliedCommit_def validTagName_def maxRemoteParamLen_def
      maxTagNameLen_def HasPrefix_def parseID_def isDigit_def wrap64_id in_int64_def)

text \<open>After a sync the remote still answers.\<close>

lemma demo_verified:
  assumes "demo_sync [demo_ls 2] (demo_world demo_db) = (Inr (Some res, None), w')"
  obtains resp w2 url where "Verify_handler (\<lambda>_. None) id leaseStore demo_verify (demo_world (w_db w')) =
      (Inr (Verify200JSONResponse resp), w2)" and "Vr_Remote resp = Some (1, url)"
proof -
  have "sync_ok (w_db w')"
    using SyncRemote_rows_ok [of "demo_world demo_db" id "\<lambda>_. []" "demo_git (printRefs [demo_ls 2])" demo_runner "''me''" 1] assms
    by (simp add: demo_ok demo_sync_def)
  moreover obtain r where "r \<in> set (t_refs (w_db w'))" "Rref_RemoteID r = 1"
    using demo_moved(1) [OF assms] by (auto simp: tainted_at_def ref_at_def find_Some_iff) (metis nth_mem)
  ultimately have "remote_exists (w_db w') 1" using sync_okD(3) [of "w_db w'"]
    by (auto simp: db_ok_defs)
  then obtain row where "find (\<lambda>r. Rrem_ID r = 1) (t_remotes (w_db w')) = Some row" by (rule remote_row)
  with Verify_by_id [of "demo_world (w_db w')" demo_verify 1 row "\<lambda>_. None" id] that show thesis
    by (auto simp: demo_verify_ok)
qed

section \<open>A ledger of one observation\<close>

text \<open>The first observation of \<open>v1\<close>, under the row id \<open>i\<close>, which the hash does not cover.\<close>

definition demo_row0 :: "int64 \<Rightarrow> ObservationRow" where
  "demo_row0 i = \<lparr>Robs_ID = i, Robs_RemoteID = 1, Robs_RefID = 1, Robs_SyncID = 1, Robs_Seq = 1, Robs_EventType = ''tag_created'',
     Robs_PrevOid = None, Robs_NewOid = Some (replicate 20 1), Robs_PrevPeeledOid = None, Robs_NewPeeledOid = None,
     Robs_ObservedAtNs = 5, Robs_PrevHash = genesis, Robs_RowHash = [], Robs_CanonicalMeta = None\<rparr>"

definition demo_row :: "int64 \<Rightarrow> ObservationRow" where
  "demo_row i = (demo_row0 i)\<lparr>Robs_RowHash := RowHash genesis (observationFromRow (demo_row0 i))\<rparr>"

lemma demo_row_hash: "RowHash genesis (observationFromRow (demo_row i)) = Robs_RowHash (demo_row j)"
  by (simp add: demo_row_def demo_row0_def RowHash_def CanonicalRow_def observationFromRow_def)

lemma demo_row_links: "links genesis [demo_row i] = Some (Robs_RowHash (demo_row j))"
  using demo_row_hash [of i i] demo_row_hash [of i j] by (simp add: demo_row_def demo_row0_def)

lemma demo_row_fits: "obs_fits (observationFromRow (demo_row i))"
  by (simp add: obs_fits_def demo_row_def demo_row0_def observationFromRow_def replayOid_def toBytes_def OIDFromRaw_def zeroOID_def
      in_int64_def)

section \<open>Variations\<close>

text \<open>The remote degraded, leased, and with two taint events.\<close>

definition demo_degraded :: db where
  "demo_degraded = demo_db\<lparr>t_remotes := [demo_remote\<lparr>Rrem_Status := RemoteDegraded\<rparr>]\<rparr>"

definition demo_lease :: RemoteLeaseRow where
  "demo_lease = \<lparr>Rls_RemoteID = 1, Rls_Holder = ''a'', Rls_AcquiredAtNs = 1000, Rls_ExpiresAtNs = 1010\<rparr>"

definition demo_event :: "int64 \<Rightarrow> TaintEventRow" where
  "demo_event i = \<lparr>Rte_ID = i, Rte_RemoteID = 1, Rte_RefID = 1, Rte_Reason = TaintTagOIDChanged, Rte_ObservationID = None,
     Rte_FromOid = Some (replicate 20 1), Rte_ToOid = Some (replicate 20 2), Rte_DetectedAtNs = i, Rte_AckedAtNs = None,
     Rte_AckedBy = None, Rte_AckNote = None, Rte_Detail = []\<rparr>"

definition demo_events :: db where
  "demo_events = demo_db\<lparr>t_taint_events := [demo_event 1, demo_event 2], seq_taint_events := 2\<rparr>"

lemmas demo_defs = demo_db_def demo_remote_def demo_ref_def empty_db_def

lemma demo_degraded_ok: "db_ok demo_degraded"
  by (simp add: demo_degraded_def demo_defs db_ok_defs ids_ok_def remote_exists_def)

lemma demo_leased_ok: "db_ok (demo_db\<lparr>t_lease := [demo_lease]\<rparr>)"
  by (simp add: demo_defs db_ok_defs ids_ok_def remote_exists_def)

lemma demo_events_ok: "db_ok demo_events" "length (t_taint_events demo_events) = 2"
  by (simp_all add: demo_events_def demo_event_def demo_defs db_ok_defs ids_ok_def remote_exists_def)

lemma demo_acquire:
  obtains l1 w1 where "dbLease_AcquireRemoteLease leaseStore 1 ''a'' 10 (demo_world demo_db) = (Inr l1, w1)"
    and "w_db w1 = demo_db\<lparr>t_lease := [demo_lease]\<rparr>" and "\<And>n. \<not> w_fault w1 n"
  by (simp add: dbLease_AcquireRemoteLease_def sqliteStore_def sqliteStore_TryAcquireLease_def upsertLeaseSQL_def
      bindT_def NowNS_def stmt_def ret_def Let_def sqlc_GetRemoteChainHead_def read_one_def select_one_def
      demo_world_def demo_lease_def demo_defs wrap64_id in_int64_def remote_exists_def)

lemma demo_reacquire:
  assumes "w_db w = demo_db\<lparr>t_lease := [demo_lease]\<rparr>" and "\<And>n. \<not> w_fault w n" and "\<And>n. w_clock w n = 5000"
  shows "\<exists>l2 w3. dbLease_AcquireRemoteLease leaseStore 1 ''b'' 10 w = (Inr l2, w3)"
  using assms
  by (simp add: dbLease_AcquireRemoteLease_def sqliteStore_def sqliteStore_TryAcquireLease_def upsertLeaseSQL_def
      bindT_def NowNS_def stmt_def ret_def Let_def sqlc_GetRemoteChainHead_def read_one_def select_one_def
      demo_lease_def demo_defs wrap64_id in_int64_def remote_exists_def update_where_def)

lemma demo_update:
  "\<exists>w'. sqliteStore_UpdateRemote ((remoteFromRow demo_remote)\<lparr>rem_ChainLen := n\<rparr>) (demo_world demo_db) = (Inr (), w')"
  by (simp add: sqliteStore_UpdateRemote_def bindT_def mapErrT_def stmt_def ret_def Let_def sqlc_UpdateRemote_def
      updateRemoteParams_def remoteFromRow_def remote_check_def demo_world_def demo_defs read_one_def select_one_def
      toString_def)

end
