(* ===== verification/Scheduler.thy ===== *)
theory Scheduler
  imports Api_Server
begin

text \<open>
  \<open>internal/sync/scheduler.go\<close>: the polling loop and the syncs it starts. The goroutines of the
  scheduler are a step relation: the loop \<open>Start\<close>/\<open>poll\<close>, which hands out the slots of the
  semaphore, and the running syncs, each of which gives its slot back when it returns. A sync
  takes effect at the step in which it ends, and between the steps the server may do anything
  else.
\<close>

record scheduler =
  sch_queue :: "RemoteID list"       \<comment> \<open>due remotes that the loop of \<open>poll\<close> has still to look at\<close>
  sch_inflight :: "RemoteID list"    \<comment> \<open>running syncs: the tokens in \<open>sem\<close>, the count of \<open>wg\<close>\<close>
  sch_cancelled :: bool              \<comment> \<open>\<open>ctx.Err() != nil\<close>\<close>
  sch_returned :: bool               \<comment> \<open>\<open>Start\<close> has returned\<close>

definition NewScheduler :: scheduler where
  "NewScheduler = \<lparr>sch_queue = [], sch_inflight = [], sch_cancelled = False, sch_returned = False\<rparr>"

text \<open>The head of \<open>poll\<close>: the remotes that are due; an error is logged and ends the poll.\<close>

definition poll_select :: "('d, 't, 'r) Store \<Rightarrow> int64 \<Rightarrow> ('d, RemoteID list) io" where
  "poll_select s concurrency =
     bindT NowNS (\<lambda>now.
     bindT (tryT (st_SelectDueRemotes s now (wrap64 (concurrency * 2)))) (\<lambda>r. case r of
        Inl _ \<Rightarrow> ret []
      | Inr remotes \<Rightarrow> ret (map rem_ID remotes)))"

text \<open>One iteration of its loop: stop if cancelled, take a slot if one is free, otherwise skip.\<close>

definition poll_next :: "int64 \<Rightarrow> scheduler \<Rightarrow> scheduler" where
  "poll_next concurrency st =
     (case sch_queue st of
        [] \<Rightarrow> st
      | rid # q \<Rightarrow>
          if sch_cancelled st then st\<lparr>sch_queue := []\<rparr>
          else if int (length (sch_inflight st)) < concurrency
          then st\<lparr>sch_queue := q, sch_inflight := sch_inflight st @ [rid]\<rparr>
          else st\<lparr>sch_queue := q\<rparr>)"

inductive sched_step :: "int64 \<Rightarrow> scheduler \<times> db world \<Rightarrow> scheduler \<times> db world \<Rightarrow> bool" for concurrency where
  tick: "sch_queue st = [] \<Longrightarrow> \<not> sch_returned st \<Longrightarrow> poll_select leaseStore concurrency w = (Inr rids, w') \<Longrightarrow>
    sched_step concurrency (st, w) (st\<lparr>sch_queue := rids\<rparr>, w')"
| next1: "sch_queue st \<noteq> [] \<Longrightarrow> sched_step concurrency (st, w) (poll_next concurrency st, w)"
| finish: "rid \<in> set (sch_inflight st) \<Longrightarrow> (\<And>xs. mset (order xs) = mset xs) \<Longrightarrow>
    sched_step concurrency (st, w)
      (st\<lparr>sch_inflight := remove1 rid (sch_inflight st)\<rparr>,
       snd (SyncRemote errText order sqliteStore (execGit proc g) sqliteLock holder rid w))"
| cancel: "sched_step concurrency (st, w) (st\<lparr>sch_cancelled := True\<rparr>, w)"
| drained: "sch_queue st = [] \<Longrightarrow> sch_cancelled st \<Longrightarrow> sch_inflight st = [] \<Longrightarrow>
    sched_step concurrency (st, w) (st\<lparr>sch_returned := True\<rparr>, w)"
| serve: "server_step w w' \<Longrightarrow> sched_step concurrency (st, w) (st, w')"

inductive_cases sched_stepE: "sched_step concurrency s s'"

definition sched_ok :: "int64 \<Rightarrow> scheduler \<Rightarrow> bool" where
  "sched_ok concurrency st \<longleftrightarrow>
     int (length (sch_inflight st)) \<le> concurrency \<and>
     (sch_returned st \<longrightarrow> sch_inflight st = [] \<and> sch_queue st = [] \<and> sch_cancelled st)"

lemma poll_select_reads: "readsT (poll_select leaseStore concurrency)"
  unfolding poll_select_def store_sel by (intro reads_intros)

lemma poll_select_total: "\<exists>rids w'. poll_select s concurrency w = (Inr rids, w')"
  by (auto simp: poll_select_def bindT_def tryT_def NowNS_def ret_def Let_def split: prod.splits sum.splits)

lemma sched_step_world:
  assumes "sched_step concurrency (st, w) (st', w')"
  shows "server_step w w'"
  using assms
proof cases
  case (tick rids)
  then show ?thesis using readsT_eq [of "poll_select leaseStore concurrency"] poll_select_reads by (auto intro: outside)
next
  case (finish rid order errText proc g holder)
  then show ?thesis by (auto intro: sync)
qed (auto intro: outside)

lemma sched_step_ok:
  assumes "sched_step concurrency (st, w) (st', w')" and "sched_ok concurrency st"
  shows "sched_ok concurrency st'"
  using assms(1)
proof cases
  case next1
  then show ?thesis using assms(2)
    by (auto simp: sched_ok_def poll_next_def split: list.splits)
next
  case (finish rid order errText proc g holder)
  then show ?thesis using assms(2)
    by (auto simp: sched_ok_def length_remove1)
qed (use assms(2) in \<open>auto simp: sched_ok_def\<close>)

lemma sched_steps:
  assumes "(sched_step concurrency)\<^sup>*\<^sup>* s s'" and "sched_ok concurrency (fst s)"
  shows "sched_ok concurrency (fst s') \<and> server_step\<^sup>*\<^sup>* (snd s) (snd s')"
  using assms
proof (induction rule: rtranclp_induct)
  case (step s1 s2)
  obtain st1 w1 st2 w2 where s: "s1 = (st1, w1)" "s2 = (st2, w2)" by (cases s1; cases s2)
  from step.hyps(2) have st: "sched_step concurrency (st1, w1) (st2, w2)" by (simp add: s)
  from step.IH [OF step.prems] have "sched_ok concurrency st1" "server_step\<^sup>*\<^sup>* (snd s) w1" by (simp_all add: s)
  with sched_step_ok [OF st] sched_step_world [OF st] show ?case by (simp add: s)
qed simp

section \<open>Which remotes are due\<close>

lemma poll_select_due:
  assumes "poll_select leaseStore concurrency w = (Inr rids, w')" and "rid \<in> set rids"
  shows "\<exists>row \<in> set (t_remotes (w_db w)). Rrem_ID row = rid \<and> Rrem_Status row = RemoteActive \<and> Rrem_RemovedAtNs row = None \<and>
    Rrem_LastOkNs row + Rrem_SyncIntervalNs row < w_clock w (w_ticks w)"
proof -
  let ?due = "filter (\<lambda>r. Rrem_Status r = ''active'' \<and> Rrem_RemovedAtNs r = None \<and>
      Rrem_LastOkNs r + Rrem_SyncIntervalNs r < w_clock w (w_ticks w)) (t_remotes (w_db w))"
  have "set rids \<subseteq> rem_ID ` remoteFromRow ` set ?due"
  proof -
    have "rids = [] \<or> rids = map rem_ID (map remoteFromRow (limit_rows (wrap64 (concurrency * 2))
        (sort_key (\<lambda>r. Rrem_LastOkNs r + Rrem_SyncIntervalNs r) ?due)))"
      using assms(1) by (auto simp: poll_select_def sqliteStore_SelectDueRemotes_def sqlc_SelectDueRemotes_def
          bindT_def tryT_def NowNS_def stmt_def ret_def Let_def split: if_splits)
    moreover have "set (limit_rows n (sort_key f xs)) \<subseteq> set xs" for n and f :: "RemoteRow \<Rightarrow> int" and xs
      by (auto simp: limit_rows_def dest: in_set_takeD)
    ultimately show ?thesis by (elim disjE) (simp, simp only: set_map image_mono)
  qed
  with assms(2) show ?thesis by (force simp: RemoteActive_def)
qed

text \<open>A remote whose status is \<open>degraded\<close>, as every failed sync leaves it, is never due.\<close>

lemma degraded_not_due:
  assumes "db_ok (w_db w)" and "find (\<lambda>r. Rrem_ID r = rid) (t_remotes (w_db w)) = Some row"
    and "Rrem_Status row = RemoteDegraded" and "poll_select leaseStore concurrency w = (Inr rids, w')"
  shows "rid \<notin> set rids"
proof
  assume "rid \<in> set rids"
  from poll_select_due [OF assms(4) this] obtain row' where
    row': "row' \<in> set (t_remotes (w_db w))" "Rrem_ID row' = rid" "Rrem_Status row' = RemoteActive" by auto
  have "row \<in> set (t_remotes (w_db w))" "Rrem_ID row = rid" using assms(2) by (auto simp: find_Some_iff)
  with row' assms(1) have "row' = row" by (auto simp: db_ok_defs ids_ok_def distinct_map dest: inj_onD)
  with row'(3) assms(3) show False by (simp add: RemoteActive_def RemoteDegraded_def)
qed

end
