(* ===== verification/Go_Format.thy ===== *)
theory Go_Format
  imports Net_Url
begin

text \<open>
  What the program uses of Go's standard library to build text: decimal numbers (\<open>fmt.Sprint\<close>, \<open>%d\<close>),
  \<open>strings.Join\<close> and \<open>strings.ToUpper\<close>, \<open>url.QueryEscape\<close> and \<open>url.Values.Encode\<close>, the whole hours, minutes
  and seconds of a \<open>time.Duration\<close>, and \<open>time.RFC3339\<close>. An escaped query value is read back unchanged.
\<close>

section \<open>Numbers and strings\<close>

function decimal :: "int \<Rightarrow> string" where
  "decimal n = (if n < 10 then [char_of (48 + n)] else decimal (n div 10) @ [char_of (48 + n mod 10)])"
  by pat_completeness auto
termination by (relation "measure nat") auto

declare decimal.simps [simp del]

definition FormatInt :: "int64 \<Rightarrow> string" where
  "FormatInt i = (if i < 0 then ''-'' @ decimal (- i) else decimal i)"

definition padInt :: "nat \<Rightarrow> int \<Rightarrow> string" where
  "padInt w i = (let s = FormatInt i in replicate (w - length s) (CHR ''0'') @ s)"

fun Join :: "string \<Rightarrow> string list \<Rightarrow> string" where
  "Join sep [] = []"
| "Join sep [x] = x"
| "Join sep (x # y # ys) = x @ sep @ Join sep (y # ys)"

text \<open>Numbers are written with digits and read back, so different numbers are written differently.\<close>

definition decimalValue :: "string \<Rightarrow> int" where
  "decimalValue s = foldl (\<lambda>a c. 10 * a + (of_char c - 48)) 0 s"

lemma decimalValue_decimal: "0 \<le> n \<Longrightarrow> decimalValue (decimal n) = n"
proof (induction n rule: decimal.induct)
  case (1 n)
  show ?case
  proof (cases "n < 10")
    case True
    then show ?thesis using 1 by (subst decimal.simps) (simp add: decimalValue_def)
  next
    case False
    then have "decimalValue (decimal (n div 10)) = n div 10" using 1 by simp
    with False show ?thesis by (subst decimal.simps) (simp add: decimalValue_def)
  qed
qed

lemma decimal_digits: "0 \<le> n \<Longrightarrow> list_all isDigit (decimal n) \<and> decimal n \<noteq> []"
proof (induction n rule: decimal.induct)
  case (1 n)
  have digit: "isDigit (char_of (48 + k))" if "0 \<le> k" "k < 10" for k :: int
  proof -
    define m where "m = nat k"
    have k: "48 + k = int (48 + m)" using that(1) by (simp add: m_def)
    have "(of_char (char_of (48 + m) :: char) :: nat) = 48 + m" using that by (simp add: m_def)
    then have "isDigit (char_of (48 + m))" using that(2) by (simp add: isDigit_def m_def)
    then show ?thesis unfolding k char_of_nat .
  qed
  show ?case
    using 1 digit [of n] digit [of "n mod 10"] by (cases "n < 10"; subst (1 2) decimal.simps) simp_all
qed

lemma FormatInt_chars: "CHR ''|'' \<notin> set (FormatInt i)"
proof -
  have "\<not> isDigit (CHR ''|'')" by (simp add: isDigit_def)
  then show ?thesis
    using decimal_digits [of i] decimal_digits [of "- i"] unfolding FormatInt_def list_all_iff by (cases "i < 0") auto
qed

lemma FormatInt_sign: "hd (FormatInt k) = CHR ''-'' \<longleftrightarrow> k < 0"
proof (cases "k < 0")
  case False
  then have "isDigit (hd (decimal k))" using decimal_digits [of k] by (cases "decimal k") simp_all
  then have "hd (decimal k) \<noteq> CHR ''-''" by (auto simp: isDigit_def)
  with False show ?thesis by (simp add: FormatInt_def)
qed (simp add: FormatInt_def)

lemma FormatInt_inj: "FormatInt i = FormatInt j \<longleftrightarrow> i = j"
proof
  assume eq: "FormatInt i = FormatInt j"
  then have sign: "i < 0 \<longleftrightarrow> j < 0" by (metis FormatInt_sign)
  show "i = j"
  proof (cases "i < 0")
    case True
    with eq sign have "decimal (- i) = decimal (- j)" by (simp add: FormatInt_def)
    with True sign show ?thesis by (metis decimalValue_decimal neg_0_le_iff_le neg_equal_iff_equal less_imp_le)
  next
    case False
    with eq sign have "decimal i = decimal j" by (simp add: FormatInt_def)
    with False sign show ?thesis by (metis decimalValue_decimal not_less)
  qed
qed simp

definition ToUpperChar :: "char \<Rightarrow> char" where
  "ToUpperChar c = (let n = of_char c :: nat in if 97 \<le> n \<and> n \<le> 122 then char_of (n - 32) else c)"

definition strings_ToUpper :: "(string \<Rightarrow> string) \<Rightarrow> string \<Rightarrow> string" where
  "strings_ToUpper uni s = (if list_all isASCII s then map ToUpperChar s else uni s)"

section \<open>Query strings\<close>

definition queryChar :: "char \<Rightarrow> bool" where
  "queryChar c \<longleftrightarrow> isLetter c \<or> isDigit c \<or> c \<in> set ''-_.~''"

definition upperhex :: "nat \<Rightarrow> char" where
  "upperhex n = (if n < 10 then char_of (48 + n) else char_of (55 + n))"

fun QueryEscape :: "string \<Rightarrow> string" where
  "QueryEscape [] = []"
| "QueryEscape (c # s) =
     (if queryChar c then c # QueryEscape s
      else if c = CHR '' '' then CHR ''+'' # QueryEscape s
      else CHR ''%'' # upperhex ((of_char c :: nat) div 16) # upperhex ((of_char c :: nat) mod 16) # QueryEscape s)"

definition Encode :: "(string \<times> string) list \<Rightarrow> string" where
  "Encode kvs = Join ''&'' (map (\<lambda>(k, v). QueryEscape k @ ''='' @ QueryEscape v) (sort_key fst kvs))"

text \<open>\<open>url.QueryUnescape\<close>, with which the server reads a value.\<close>

fun QueryUnescape :: "string \<Rightarrow> string option" where
  "QueryUnescape [] = Some []"
| "QueryUnescape (c # s) =
     (if c = CHR ''%'' then
        (case s of
           a # b # r \<Rightarrow>
             (case (fromHexChar a, fromHexChar b) of
                (Some x, Some y) \<Rightarrow> map_option (Cons (char_of (16 * x + y))) (QueryUnescape r)
              | _ \<Rightarrow> None)
         | _ \<Rightarrow> None)
      else if c = CHR ''+'' then map_option (Cons (CHR '' '')) (QueryUnescape s)
      else map_option (Cons c) (QueryUnescape s))"

lemma fromHexChar_upperhex: "n < 16 \<Longrightarrow> fromHexChar (upperhex n) = Some n"
  by (auto simp: fromHexChar_def upperhex_def Let_def)

lemma queryChar_plain: "queryChar c \<Longrightarrow> c \<noteq> CHR ''%'' \<and> c \<noteq> CHR ''+'' \<and> c \<noteq> CHR ''&'' \<and> c \<noteq> CHR ''=''"
  by (auto simp: queryChar_def isLetter_def isDigit_def)

lemma upperhex_plain: "n < 16 \<Longrightarrow> queryChar (upperhex n)"
  by (auto simp: queryChar_def upperhex_def isLetter_def isDigit_def Let_def)

lemma of_char_div: "(of_char c :: nat) div 16 < 16"
  using nat_of_char_less_256 [of c] by linarith

lemma QueryUnescape_Escape: "QueryUnescape (QueryEscape s) = Some s"
proof (induction s)
  case (Cons c s)
  have "16 * ((of_char c :: nat) div 16) + (of_char c :: nat) mod 16 = of_char c" by simp
  then show ?case
    using Cons.IH queryChar_plain [of c] of_char_div [of c] by (auto simp: fromHexChar_upperhex simp del: mult_div_mod_eq)
qed simp

text \<open>An escaped value holds no separator of a query string.\<close>

lemma QueryEscape_plain: "CHR ''&'' \<notin> set (QueryEscape s) \<and> CHR ''='' \<notin> set (QueryEscape s)"
proof (induction s)
  case (Cons c s)
  have "queryChar (upperhex ((of_char c :: nat) div 16))" "queryChar (upperhex ((of_char c :: nat) mod 16))"
    using upperhex_plain of_char_div by auto
  with Cons.IH show ?case using queryChar_plain by (auto dest!: queryChar_plain)
qed simp

text \<open>\<open>url.ParseQuery\<close> of a query string without empty or malformed pairs.\<close>

definition parsePair :: "string \<Rightarrow> (string \<times> string) option" where
  "parsePair s = (case CutByte (CHR ''='') s of (k, v) \<Rightarrow>
     (case (QueryUnescape k, QueryUnescape v) of (Some k', Some v') \<Rightarrow> Some (k', v') | _ \<Rightarrow> None))"

definition ParseQuery :: "string \<Rightarrow> (string \<times> string) option list" where
  "ParseQuery q = map parsePair (SplitByte (CHR ''&'') q)"

lemma parsePair_escape: "parsePair (QueryEscape k @ ''='' @ QueryEscape v) = Some (k, v)"
  using QueryEscape_plain [of k] by (simp add: parsePair_def CutByte_def QueryUnescape_Escape)

lemma SplitByte_Join: "xs \<noteq> [] \<Longrightarrow> \<forall>x \<in> set xs. c \<notin> set x \<Longrightarrow> SplitByte c (Join [c] xs) = xs"
  by (induction "[c]" xs rule: Join.induct) (simp_all add: SplitByte_no_sep SplitByte_append_sep)

lemma ParseQuery_Encode: "kvs \<noteq> [] \<Longrightarrow> ParseQuery (Encode kvs) = map Some (sort_key fst kvs)"
proof -
  assume "kvs \<noteq> []"
  then have "sort_key fst kvs \<noteq> []" by (metis length_0_conv length_sort)
  moreover have "CHR ''&'' \<notin> set (QueryEscape k @ ''='' @ QueryEscape v)" for k v
    using QueryEscape_plain [of k] QueryEscape_plain [of v] by simp
  ultimately have "SplitByte (CHR ''&'') (Encode kvs) =
      map (\<lambda>(k, v). QueryEscape k @ ''='' @ QueryEscape v) (sort_key fst kvs)"
    unfolding Encode_def by (intro SplitByte_Join) auto
  then show "ParseQuery (Encode kvs) = map Some (sort_key fst kvs)"
    by (simp add: ParseQuery_def case_prod_unfold parsePair_escape [simplified])
qed

section \<open>Durations and times\<close>

text \<open>
  \<open>int(d.Hours())\<close>, \<open>int(d.Minutes())\<close>, \<open>int(d.Seconds())\<close> for the unit \<open>D\<close> in nanoseconds. Go adds the whole
  units \<open>q\<close> and the rest \<open>r / D\<close> as \<open>float64\<close>, so the sum is rounded to a multiple of \<open>2\<^sup>e\<^sup>-\<^sup>5\<^sup>2\<close> where
  \<open>2\<^sup>e \<le> q < 2\<^sup>e\<^sup>+\<^sup>1\<close>: it reaches \<open>q + 1\<close> when the distance \<open>1 - r / D\<close> is at most half of that.
\<close>

primrec flog2 :: "nat \<Rightarrow> int \<Rightarrow> nat" where
  "flog2 0 n = 0"
| "flog2 (Suc k) n = (if n < 2 then 0 else Suc (flog2 k (n div 2)))"

definition wholeUnits :: "int \<Rightarrow> int64 \<Rightarrow> int" where
  "wholeUnits D d =
     (let q = \<bar>d\<bar> div D; r = \<bar>d\<bar> mod D in
      sgn d * (if q > 0 \<and> (D - r) * 2 ^ (53 - flog2 63 q) \<le> D then q + 1 else q))"

definition Hours :: "int64 \<Rightarrow> int" where "Hours = wholeUnits 3600000000000"
definition Minutes :: "int64 \<Rightarrow> int" where "Minutes = wholeUnits 60000000000"
definition Seconds :: "int64 \<Rightarrow> int" where "Seconds = wholeUnits 1000000000"

text \<open>Go's remainder has the sign of the dividend.\<close>

definition remGo :: "int \<Rightarrow> int \<Rightarrow> int" where
  "remGo a b = sgn a * (\<bar>a\<bar> mod \<bar>b\<bar>)"

text \<open>The date of a day number counted from 1970-01-01, in the proleptic Gregorian calendar.\<close>

definition civil :: "int \<Rightarrow> int \<times> int \<times> int" where
  "civil days =
     (let z = days + 719468;
          era = z div 146097;
          doe = z mod 146097;
          yoe = (doe - doe div 1460 + doe div 36524 - doe div 146096) div 365;
          doy = doe - (365 * yoe + yoe div 4 - yoe div 100);
          mp = (5 * doy + 2) div 153;
          d = doy - (153 * mp + 2) div 5 + 1;
          m = (if mp < 10 then mp + 3 else mp - 9)
      in (yoe + era * 400 + (if m \<le> 2 then 1 else 0), m, d))"

definition RFC3339 :: "int64 \<Rightarrow> string" where
  "RFC3339 ns =
     (let secs = ns div 1000000000; (y, m, d) = civil (secs div 86400); t = secs mod 86400 in
      padInt 4 y @ ''-'' @ padInt 2 m @ ''-'' @ padInt 2 d @ ''T'' @
      padInt 2 (t div 3600) @ '':'' @ padInt 2 (t div 60 mod 60) @ '':'' @ padInt 2 (t mod 60) @ ''Z'')"

lemma RFC3339_examples:
  "RFC3339 0 = ''1970-01-01T00:00:00Z''"
  "RFC3339 951782400000000000 = ''2000-02-29T00:00:00Z''"
  "RFC3339 1700000000999999999 = ''2023-11-14T22:13:20Z''"
  "RFC3339 (- 1) = ''1969-12-31T23:59:59Z''"
  by code_simp+

lemma wholeUnits_examples:
  "Hours 14745599999999999 = 4095" "Hours 14749199999999999 = 4097" "Minutes 119999999999 = 1"
  by code_simp+

end
