(* ===== verification/Seed_Merge.thy ===== *)
theory Seed_Merge
  imports Api_Types Go_Format "HOL-Library.AList" "HOL-Library.Product_Lexorder"
begin

text \<open>
  \<open>internal/seed/merge.go\<close>: the quorum merge of what the peers of a new instance report. Go maps
  whose iteration order shows are association lists passed through a parameter \<open>order\<close>, the order
  of this iteration; maps whose keys are sorted before use are not. Counters of elements of a
  slice are \<open>int\<close> without wrap-around: they are at most the length of the slice, which is an \<open>int\<close>.
  \<open>hexUni\<close> stands for \<open>strings.TrimSpace(strings.ToLower(s))\<close> on text with non-ASCII characters. The
  texts of errors and of quarantine reasons, which are only logged, are abbreviated.
\<close>

section \<open>What the peers report (\<open>client.go\<close>)\<close>

record wireRemote =
  wr_ID :: int64
  wr_URL :: string
  wr_NormalizedURL :: string
  wr_Transport :: string
  wr_TaintAnyTagDeletion :: bool

record wireTag =
  wt_ID :: int64
  wt_RemoteID :: int64
  wt_TagName :: string
  wt_CurrentOID :: "string option"
  wt_CurrentPeeledOID :: "string option"
  wt_IsAnnotated :: "bool option"
  wt_FirstOID :: "string option"
  wt_FirstSeenNS :: int64
  wt_LastSeenNS :: int64
  wt_Deleted :: bool
  wt_Tainted :: bool
  wt_TaintFirstNS :: "int64 option"

record wireTaintEvent =
  we_ID :: int64
  we_RemoteID :: int64
  we_RefID :: int64
  we_Reason :: string
  we_FromOID :: "string option"
  we_ToOID :: "string option"
  we_DetectedAtNS :: int64

record peerRemoteView =
  pv_peer :: string
  pv_remote :: wireRemote
  pv_tags :: "wireTag list"
  pv_taintEvents :: "wireTaintEvent list"

section \<open>What is adopted\<close>

record mergedEvent =
  me_eventType :: ObservationEventType
  me_taintReason :: "TaintReason option"
  me_fromOID :: OID
  me_toOID :: OID
  me_detectedAtNS :: int64

record mergedTag =
  mt_name :: string
  mt_firstOID :: OID
  mt_isAnnotated :: bool
  mt_genesisPeeledOID :: OID
  mt_firstSeenNS :: int64
  mt_events :: "mergedEvent list"
  mt_currentOID :: OID
  mt_currentPeeledOID :: OID
  mt_lastSeenNS :: int64
  mt_deleted :: bool
  mt_tainted :: bool
  mt_taintFirstNS :: "int64 option"

record mergedRemote =
  mr_url :: string
  mr_normalizedURL :: string
  mr_transport :: Transport
  mr_taintAnyTagDeletion :: bool
  mr_tags :: "mergedTag list"

record quarantineLog =
  ql_remoteURL :: string
  ql_tagName :: string
  ql_reason :: string

record mergeResult =
  res_remotes :: "mergedRemote list"
  res_totalObs :: int64
  res_quarantinedTags :: int64
  res_quarantineLogs :: "quarantineLog list"

record taggedView =
  tv_peer :: string
  tv_tag :: wireTag
  tv_events :: "wireTaintEvent list"

section \<open>Small utilities\<close>

definition strDeref :: "string option \<Rightarrow> string" where
  "strDeref p = (case p of None \<Rightarrow> [] | Some s \<Rightarrow> s)"

definition short :: "string \<Rightarrow> string" where
  "short hex = (if length hex > 12 then take 12 hex else hex)"

text \<open>\<open>strings.TrimSpace\<close> on ASCII text.\<close>

definition isSpace :: "char \<Rightarrow> bool" where
  "isSpace c \<longleftrightarrow> c \<in> set [CHR 0x09, CHR 0x0A, CHR 0x0B, CHR 0x0C, CHR 0x0D, CHR 0x20]"

definition TrimSpace :: "string \<Rightarrow> string" where
  "TrimSpace s = rev (dropWhile isSpace (rev (dropWhile isSpace s)))"

definition normHex :: "(string \<Rightarrow> string) \<Rightarrow> string \<Rightarrow> string" where
  "normHex hexUni s = (if list_all isASCII s then TrimSpace (ToLower s) else hexUni s)"

definition parseHexOID :: "(string \<Rightarrow> string) \<Rightarrow> string \<Rightarrow> err + OID" where
  "parseHexOID hexUni hexStr =
     (let hexStr = normHex hexUni hexStr;
          algo = AlgoForRawLen (length hexStr div 2) in
      if algo = [] then Inl (ErrText ''unsupported width'') else ParseOID hexStr algo)"

fun rawMismatch :: "bytes \<Rightarrow> bytes \<Rightarrow> bool" where
  "rawMismatch (a # as) (b # bs) = (if a \<noteq> b then True else rawMismatch as bs)"
| "rawMismatch _ _ = False"

definition oidEqualLoose :: "OID \<Rightarrow> OID \<Rightarrow> bool" where
  "oidEqualLoose a b =
     (if oid_Algo a = oid_Algo b then OID_Equal a b
      else if length (oid_Raw a) \<noteq> length (oid_Raw b) then False
      else \<not> rawMismatch (oid_Raw a) (oid_Raw b))"

text \<open>\<open>counts[k]++\<close>.\<close>

definition incr :: "string \<Rightarrow> (string \<times> int) list \<Rightarrow> (string \<times> int) list" where
  "incr k m = AList.update k ((case map_of m k of None \<Rightarrow> 0 | Some n \<Rightarrow> n) + 1) m"

definition countBy :: "('a \<Rightarrow> string option) \<Rightarrow> 'a list \<Rightarrow> (string \<times> int) list" where
  "countBy f xs = foldl (\<lambda>m x. case f x of None \<Rightarrow> m | Some k \<Rightarrow> incr k m) [] xs"

definition pickQuorumValue ::
  "((string \<times> int) list \<Rightarrow> (string \<times> int) list) \<Rightarrow> (string \<times> int) list \<Rightarrow> int \<Rightarrow> string \<times> bool" where
  "pickQuorumValue order counts quorum =
     (let (best, bestN) = foldl (\<lambda>(best, bestN) (v, n).
            if n < quorum then (best, bestN)
            else if n > bestN \<or> (n = bestN \<and> v < best) then (v, n) else (best, bestN)) ([], 0) (order counts)
      in (best, bestN \<ge> quorum))"

definition pickMostCommon ::
  "((string \<times> int) list \<Rightarrow> (string \<times> int) list) \<Rightarrow> (string \<times> int) list \<Rightarrow> string \<times> int" where
  "pickMostCommon order counts =
     foldl (\<lambda>(best, bestN) (v, n). if n > bestN \<or> (n = bestN \<and> v < best) then (v, n) else (best, bestN))
       ([], -1) (order counts)"

section \<open>Adoption of single facts\<close>

definition adoptRemoteURL ::
  "((string \<times> int) list \<Rightarrow> (string \<times> int) list) \<Rightarrow> peerRemoteView list \<Rightarrow> string" where
  "adoptRemoteURL order views = fst (pickMostCommon order (countBy (\<lambda>v. Some (wr_URL (pv_remote v))) views))"

definition adoptTransport ::
  "((string \<times> int) list \<Rightarrow> (string \<times> int) list) \<Rightarrow> peerRemoteView list \<Rightarrow> Transport" where
  "adoptTransport order views =
     (let t = fst (pickMostCommon order (countBy (\<lambda>v. Some (wr_Transport (pv_remote v))) views))
      in if t \<noteq> TransportHTTPS \<and> t \<noteq> TransportSSH then TransportHTTPS else t)"

definition adoptTaintPolicy :: "peerRemoteView list \<Rightarrow> bool" where
  "adoptTaintPolicy views =
     (let (trueCount, falseCount) = foldl (\<lambda>(t, f) v.
            if wr_TaintAnyTagDeletion (pv_remote v) then (t + 1, f) else (t, f + 1)) (0 :: int, 0 :: int) views
      in trueCount \<ge> falseCount)"

definition adoptIsAnnotated :: "taggedView list \<Rightarrow> bool" where
  "adoptIsAnnotated cohort =
     (let (trueCount, falseCount) = foldl (\<lambda>(t, f) v.
            if wt_IsAnnotated (tv_tag v) = Some True then (t + 1, f) else (t, f + 1)) (0 :: int, 0 :: int) cohort
      in trueCount > falseCount)"

fun minFirstSeenNS :: "taggedView list \<Rightarrow> int64" where
  "minFirstSeenNS [] = 0"
| "minFirstSeenNS (v # vs) =
     foldl (\<lambda>m v. if wt_FirstSeenNS (tv_tag v) < m then wt_FirstSeenNS (tv_tag v) else m) (wt_FirstSeenNS (tv_tag v)) vs"

text \<open>\<open>cohort[0]\<close> panics on an empty cohort: \<open>None\<close>.\<close>

fun freshestView :: "taggedView list \<Rightarrow> taggedView option" where
  "freshestView [] = None"
| "freshestView (v # vs) =
     Some (foldl (\<lambda>best v. if wt_LastSeenNS (tv_tag v) > wt_LastSeenNS (tv_tag best) then v else best) v vs)"

definition earliestTaintFirstNS :: "taggedView list \<Rightarrow> int64 option" where
  "earliestTaintFirstNS views =
     foldl (\<lambda>earliest v.
       if wt_Tainted (tv_tag v) then
         (case wt_TaintFirstNS (tv_tag v) of
            None \<Rightarrow> earliest
          | Some t \<Rightarrow> (case earliest of None \<Rightarrow> Some t | Some e \<Rightarrow> if t < e then Some t else earliest))
       else earliest) None views"

section \<open>Taint events\<close>

definition describeCounts :: "(string \<times> int) list \<Rightarrow> string" where
  "describeCounts counts =
     (if counts = [] then ''(no peer reported a first_oid)''
      else Join '', '' (sort (map (\<lambda>(v, n). short v @ [CHR 0xC3, CHR 0x97] @ FormatInt n) counts)))"

definition eventKey :: "wireTaintEvent \<Rightarrow> string" where
  "eventKey e = strDeref (we_FromOID e) @ ''|'' @ strDeref (we_ToOID e) @ ''|'' @ FormatInt (we_DetectedAtNS e)"

definition unionTaintEvents :: "taggedView list \<Rightarrow> wireTaintEvent list" where
  "unionTaintEvents views =
     (let (seen, out) = foldl (\<lambda>(seen, out) e.
            if eventKey e \<in> set seen then (seen, out) else (eventKey e # seen, out @ [e]))
            ([], []) (concat (map tv_events views))
      in sort_key (\<lambda>e. (we_DetectedAtNS e, strDeref (we_FromOID e), strDeref (we_ToOID e))) out)"

definition optHexOID :: "(string \<Rightarrow> string) \<Rightarrow> string option \<Rightarrow> err + OID" where
  "optHexOID hexUni p =
     (case p of None \<Rightarrow> Inr zeroOID | Some s \<Rightarrow> if s = [] then Inr zeroOID else parseHexOID hexUni s)"

definition taintEventToMerged :: "(string \<Rightarrow> string) \<Rightarrow> wireTaintEvent \<Rightarrow> err + mergedEvent" where
  "taintEventToMerged hexUni e =
     (case optHexOID hexUni (we_FromOID e) of
        Inl er \<Rightarrow> Inl er
      | Inr fromOID \<Rightarrow>
     (case optHexOID hexUni (we_ToOID e) of
        Inl er \<Rightarrow> Inl er
      | Inr toOID \<Rightarrow>
          let reason = we_Reason e in
          Inr \<lparr>me_eventType =
                 (if IsZero toOID then EventTagDeleted
                  else if IsZero fromOID then EventTagRecreated
                  else if reason = TaintTagDeletedRecreated then EventTagRecreated
                  else EventTagOIDChanged),
               me_taintReason = Some reason, me_fromOID = fromOID, me_toOID = toOID,
               me_detectedAtNS = we_DetectedAtNS e\<rparr>))"

section \<open>Continuity\<close>

text \<open>The event type and the presence of a new object id agree; \<open>None\<close> for no error.\<close>

definition checkEventType :: "mergedEvent \<Rightarrow> err option" where
  "checkEventType e =
     (if me_eventType e = EventTagOIDChanged then
        (if IsZero (me_toOID e) then Some (ErrText ''tag_oid_changed has no to_oid'') else None)
      else if me_eventType e = EventTagDeleted then
        (if \<not> IsZero (me_toOID e) then Some (ErrText ''tag_deleted has a to_oid'') else None)
      else if me_eventType e = EventTagRecreated then
        (if IsZero (me_toOID e) then Some (ErrText ''tag_recreated has no to_oid'') else None)
      else if me_eventType e = EventTagCreated then Some (ErrText ''only the genesis may be created'')
      else Some (ErrText ''unknown event type''))"

fun validateFrom :: "OID \<Rightarrow> bool \<Rightarrow> mergedEvent list \<Rightarrow> err option" where
  "validateFrom prevTo prevWasDeletion [] = None"
| "validateFrom prevTo prevWasDeletion (e # es) =
     (case checkEventType e of
        Some er \<Rightarrow> Some er
      | None \<Rightarrow>
          if IsZero (me_fromOID e) \<and> (me_eventType e \<noteq> EventTagRecreated \<or> \<not> prevWasDeletion)
          then Some (ErrText ''empty from_oid but not a recreation after a deletion'')
          else if \<not> IsZero (me_fromOID e) \<and> \<not> oidEqualLoose (me_fromOID e) prevTo
          then Some (ErrText ''from_oid does not chain from previous'')
          else validateFrom (me_toOID e) (me_eventType e = EventTagDeleted) es)"

definition validateContinuity :: "OID \<Rightarrow> mergedEvent list \<Rightarrow> err option" where
  "validateContinuity firstOID events = validateFrom firstOID False events"

section \<open>Merging one tag\<close>

fun mergeEvents :: "(string \<Rightarrow> string) \<Rightarrow> wireTaintEvent list \<Rightarrow> err + mergedEvent list" where
  "mergeEvents hexUni [] = Inr []"
| "mergeEvents hexUni (u # us) =
     (case taintEventToMerged hexUni u of
        Inl e \<Rightarrow> Inl e
      | Inr ev \<Rightarrow> (case mergeEvents hexUni us of Inl e \<Rightarrow> Inl e | Inr evs \<Rightarrow> Inr (ev # evs)))"

definition earliestDetected :: "wireTaintEvent list \<Rightarrow> int64 option" where
  "earliestDetected us =
     foldl (\<lambda>earliest u. case earliest of
        None \<Rightarrow> Some (we_DetectedAtNS u)
      | Some e \<Rightarrow> if we_DetectedAtNS u < e then Some (we_DetectedAtNS u) else earliest) None us"

definition countTainted :: "taggedView list \<Rightarrow> int" where
  "countTainted views = foldl (\<lambda>n v. if wt_Tainted (tv_tag v) then n + 1 else n) 0 views"

definition okOID :: "(string \<Rightarrow> string) \<Rightarrow> string option \<Rightarrow> OID" where
  "okOID hexUni p = (case optHexOID hexUni p of Inl _ \<Rightarrow> zeroOID | Inr o1 \<Rightarrow> o1)"

definition mergeTag ::
  "((string \<times> int) list \<Rightarrow> (string \<times> int) list) \<Rightarrow> (string \<Rightarrow> string) \<Rightarrow> string \<Rightarrow> string \<Rightarrow>
   taggedView list \<Rightarrow> int \<Rightarrow> quarantineLog + mergedTag" where
  "mergeTag order hexUni remoteURL name views quorum =
     (let quarantine = (\<lambda>why. Inl \<lparr>ql_remoteURL = remoteURL, ql_tagName = name, ql_reason = why\<rparr>);
          firstHexCount = countBy (\<lambda>v. case wt_FirstOID (tv_tag v) of
              None \<Rightarrow> None | Some h \<Rightarrow> if h \<noteq> [] then Some h else None) views;
          (firstHex, ok) = pickQuorumValue order firstHexCount quorum in
      if \<not> ok then quarantine (''no first_oid reached quorum: '' @ describeCounts firstHexCount)
      else
      case parseHexOID hexUni firstHex of
        Inl _ \<Rightarrow> quarantine ''first_oid invalid''
      | Inr firstOID \<Rightarrow>
      let cohort = filter (\<lambda>v. wt_FirstOID (tv_tag v) = Some firstHex) views in
      case freshestView cohort of
        None \<Rightarrow> quarantine ''panic: index out of range''
      | Some fresh \<Rightarrow>
      let currentOID = okOID hexUni (wt_CurrentOID (tv_tag fresh));
          currentPeeledOID = okOID hexUni (wt_CurrentPeeledOID (tv_tag fresh));
          adoptTainted = countTainted views \<ge> quorum;
          union = (if adoptTainted then unionTaintEvents (filter (\<lambda>v. wt_Tainted (tv_tag v)) views) else []) in
      case mergeEvents hexUni union of
        Inl _ \<Rightarrow> quarantine ''taint event invalid''
      | Inr events \<Rightarrow>
      let taintFirstNS = (if \<not> adoptTainted then None
            else case earliestDetected union of None \<Rightarrow> earliestTaintFirstNS views | Some t \<Rightarrow> Some t);
          genesisPeeledOID = (if events = [] \<and> \<not> IsZero currentPeeledOID then currentPeeledOID else zeroOID) in
      case validateContinuity firstOID events of
        Some _ \<Rightarrow> quarantine ''discontinuous event sequence''
      | None \<Rightarrow>
          Inr \<lparr>mt_name = name, mt_firstOID = firstOID, mt_isAnnotated = adoptIsAnnotated cohort,
               mt_genesisPeeledOID = genesisPeeledOID, mt_firstSeenNS = minFirstSeenNS cohort, mt_events = events,
               mt_currentOID = currentOID, mt_currentPeeledOID = currentPeeledOID,
               mt_lastSeenNS = wt_LastSeenNS (tv_tag fresh), mt_deleted = wt_Deleted (tv_tag fresh),
               mt_tainted = adoptTainted, mt_taintFirstNS = taintFirstNS\<rparr>)"

section \<open>Merging everything\<close>

definition addTo :: "string \<Rightarrow> 'a \<Rightarrow> (string \<times> 'a list) list \<Rightarrow> (string \<times> 'a list) list" where
  "addTo k x m = AList.update k ((case map_of m k of None \<Rightarrow> [] | Some xs \<Rightarrow> xs) @ [x]) m"

text \<open>Reading a map of slices: a missing key gives the nil slice.\<close>

definition lookupList :: "(string \<times> 'a list) list \<Rightarrow> string \<Rightarrow> 'a list" where
  "lookupList m k = (case map_of m k of None \<Rightarrow> [] | Some xs \<Rightarrow> xs)"

text \<open>\<open>eventsByRef[t.ID]\<close>: the events of a view with this ref id, in order.\<close>

definition eventsByRef :: "wireTaintEvent list \<Rightarrow> int64 \<Rightarrow> wireTaintEvent list" where
  "eventsByRef es i = filter (\<lambda>e. we_RefID e = i) es"

definition viewTags :: "peerRemoteView \<Rightarrow> (string \<times> taggedView list) list \<Rightarrow> (string \<times> taggedView list) list" where
  "viewTags v m = foldl (\<lambda>m t. addTo (wt_TagName t)
      \<lparr>tv_peer = pv_peer v, tv_tag = t, tv_events = eventsByRef (pv_taintEvents v) (wt_ID t)\<rparr> m) m (pv_tags v)"

definition mergeStep ::
  "((string \<times> int) list \<Rightarrow> (string \<times> int) list) \<Rightarrow> (string \<Rightarrow> string) \<Rightarrow> int \<Rightarrow> string \<Rightarrow> (string \<times> taggedView list) list \<Rightarrow>
   mergedTag list \<times> mergeResult \<Rightarrow> string \<Rightarrow> mergedTag list \<times> mergeResult" where
  "mergeStep order hexUni quorum normURL tagViews st name =
     (case st of (tags, res) \<Rightarrow>
      case mergeTag order hexUni normURL name (lookupList tagViews name) quorum of
        Inl qlog \<Rightarrow> (tags, res\<lparr>res_quarantinedTags := res_quarantinedTags res + 1,
                              res_quarantineLogs := res_quarantineLogs res @ [qlog]\<rparr>)
      | Inr mt \<Rightarrow> (tags @ [mt], res\<lparr>res_totalObs := res_totalObs res + 1 + int (length (mt_events mt))\<rparr>))"

definition mergeRemote ::
  "((string \<times> int) list \<Rightarrow> (string \<times> int) list) \<Rightarrow> (string \<Rightarrow> string) \<Rightarrow> int \<Rightarrow> string \<Rightarrow> peerRemoteView list \<Rightarrow> mergeResult \<Rightarrow> mergeResult" where
  "mergeRemote order hexUni quorum normURL views res =
     (if int (length views) < quorum then res
      else
      let tagViews = foldl (\<lambda>m v. viewTags v m) [] views;
          (tags, res) = foldl (mergeStep order hexUni quorum normURL tagViews) ([], res) (sort (map fst tagViews)) in
      res\<lparr>res_remotes := res_remotes res @
        [\<lparr>mr_url = adoptRemoteURL order views, mr_normalizedURL = normURL, mr_transport = adoptTransport order views,
          mr_taintAnyTagDeletion = adoptTaintPolicy views, mr_tags = tags\<rparr>]\<rparr>)"

definition mergeQuorum ::
  "((string \<times> int) list \<Rightarrow> (string \<times> int) list) \<Rightarrow> (string \<Rightarrow> string) \<Rightarrow> (string \<times> peerRemoteView list) list \<Rightarrow> int \<Rightarrow> mergeResult" where
  "mergeQuorum order hexUni byURL quorum =
     foldl (\<lambda>res normURL. mergeRemote order hexUni quorum normURL (lookupList byURL normURL) res)
       \<lparr>res_remotes = [], res_totalObs = 0, res_quarantinedTags = 0, res_quarantineLogs = []\<rparr>
       (sort (map fst byURL))"

end
