(* ===== verification/Seed_Quorum.thy ===== *)
theory Seed_Quorum
  imports Seed_Merge
begin

text \<open>
  What the quorum merge guarantees: every adopted first object id and every adopted taint is
  reported by at least \<open>quorum\<close> views, the history of an adopted tag is continuous, and the result
  does not depend on the order in which Go iterates over its maps.
\<close>

section \<open>Counting\<close>

lemma length_filter_mono: "(\<And>x. P x \<Longrightarrow> Q x) \<Longrightarrow> length (filter P xs) \<le> length (filter Q xs)"
  by (induction xs) (auto simp: le_SucI)

lemma map_of_incr: "map_of (incr k m) = (map_of m)(k \<mapsto> (case map_of m k of None \<Rightarrow> 0 | Some n \<Rightarrow> n) + 1)"
  by (simp add: incr_def update_conv')

lemma countBy_distinct: "distinct (map fst (countBy f xs))"
  unfolding countBy_def by (induction xs rule: rev_induct) (auto simp: incr_def distinct_update split: option.splits)

lemma map_of_countBy:
  "map_of (countBy f xs) k =
     (let n = length (filter (\<lambda>x. f x = Some k) xs) in if n = 0 then None else Some (int n))"
proof (induction xs rule: rev_induct)
  case (snoc x xs)
  have "countBy f (xs @ [x]) = (case f x of None \<Rightarrow> countBy f xs | Some k \<Rightarrow> incr k (countBy f xs))"
    by (simp add: countBy_def split: option.splits)
  with snoc.IH show ?case by (auto simp: map_of_incr Let_def split: option.splits)
qed (simp add: countBy_def)

lemma countBy_in:
  "(v, n) \<in> set (countBy f xs) \<longleftrightarrow> n = int (length (filter (\<lambda>x. f x = Some v) xs)) \<and> 0 < n"
  by (subst map_of_eq_Some_iff [OF countBy_distinct, symmetric]) (auto simp: map_of_countBy Let_def)

section \<open>Picking a value\<close>

text \<open>The order of the candidates: more votes first, then the smaller text.\<close>

definition beats :: "string \<times> int \<Rightarrow> string \<times> int \<Rightarrow> bool" where
  "beats x y \<longleftrightarrow> snd x > snd y \<or> snd x = snd y \<and> fst x < fst y"

definition pick :: "(string \<times> int \<Rightarrow> bool) \<Rightarrow> string \<times> int \<Rightarrow> (string \<times> int) list \<Rightarrow> string \<times> int" where
  "pick elig s xs = foldl (\<lambda>s x. if elig x \<and> beats x s then x else s) s xs"

lemma beats_total: "\<not> beats x y \<Longrightarrow> \<not> beats y x \<Longrightarrow> x = y"
  by (cases x; cases y) (auto simp: beats_def)

lemma beats_trans: "beats x y \<Longrightarrow> beats y z \<Longrightarrow> beats x z"
  by (auto simp: beats_def)

lemma pick_best:
  "(pick elig s xs = s \<or> pick elig s xs \<in> set xs \<and> elig (pick elig s xs)) \<and>
   \<not> beats s (pick elig s xs) \<and> (\<forall>x \<in> set xs. elig x \<longrightarrow> \<not> beats x (pick elig s xs))"
proof (induction xs arbitrary: s)
  case Nil
  show ?case by (simp add: pick_def beats_def)
next
  case (Cons x xs)
  define s' where "s' = (if elig x \<and> beats x s then x else s)"
  define p where "p = pick elig s' xs"
  have eq: "pick elig s (x # xs) = p" by (simp add: pick_def p_def s'_def)
  from Cons.IH [of s'] have mem: "p = s' \<or> p \<in> set xs \<and> elig p" and top: "\<not> beats s' p"
    and all: "\<forall>y \<in> set xs. elig y \<longrightarrow> \<not> beats y p" by (simp_all add: p_def)
  have s: "\<not> beats s p" using top beats_trans [of x s p] by (auto simp: s'_def split: if_splits)
  have x: "elig x \<longrightarrow> \<not> beats x p"
    using top s beats_total [of x s] beats_trans [of s x p] by (auto simp: s'_def split: if_splits)
  from mem have "p = s \<or> p \<in> set (x # xs) \<and> elig p" by (auto simp: s'_def split: if_splits)
  with s x all show ?case unfolding eq by simp
qed

lemma pick_mset:
  assumes "mset xs = mset ys"
  shows "pick elig s xs = pick elig s ys"
proof -
  have "set xs = set ys" using assms by (rule mset_eq_setD)
  then show ?thesis
    using pick_best [of elig s xs] pick_best [of elig s ys] by (intro beats_total) (metis beats_def)+
qed

lemma pickQuorumValue_pick:
  "pickQuorumValue order counts quorum =
     (let r = pick (\<lambda>x. quorum \<le> snd x) ([], 0) (order counts) in (fst r, quorum \<le> snd r))"
proof -
  have step: "(\<lambda>(best, bestN) (v, n). if n < quorum then (best, bestN)
            else if n > bestN \<or> (n = bestN \<and> v < best) then (v, n) else (best, bestN)) =
      (\<lambda>s x. if quorum \<le> snd x \<and> beats x s then x else s)"
    by (intro ext) (auto simp: beats_def)
  show ?thesis unfolding pickQuorumValue_def pick_def step by (simp add: case_prod_unfold)
qed

lemma pickMostCommon_pick: "pickMostCommon order counts = pick (\<lambda>_. True) ([], -1) (order counts)"
proof -
  have step: "(\<lambda>(best, bestN) (v, n). if n > bestN \<or> (n = bestN \<and> v < best) then (v, n) else (best, bestN)) =
      (\<lambda>s x. if True \<and> beats x s then x else s)"
    by (intro ext) (auto simp: beats_def)
  show ?thesis unfolding pickMostCommon_def pick_def step ..
qed

lemma pick_order:
  assumes "\<And>xs. mset (order xs) = mset xs"
  shows "pickQuorumValue order counts quorum = pickQuorumValue id counts quorum"
    and "pickMostCommon order counts = pickMostCommon id counts"
  unfolding pickQuorumValue_pick pickMostCommon_pick using pick_mset [OF assms] by simp_all

lemma pickQuorumValue_countBy:
  assumes order: "\<And>xs. mset (order xs) = mset xs"
    and ok: "pickQuorumValue order (countBy f xs) quorum = (v, True)" and "0 < quorum"
  shows "quorum \<le> int (length (filter (\<lambda>x. f x = Some v) xs))"
    and "length (filter (\<lambda>x. f x = Some v') xs) \<le> length (filter (\<lambda>x. f x = Some v) xs)"
proof -
  let ?r = "pick (\<lambda>x. quorum \<le> snd x) ([], 0) (countBy f xs)"
  have "pickQuorumValue id (countBy f xs) quorum = (v, True)" using ok pick_order(1) [of order, OF order] by simp
  then have v: "fst ?r = v" "quorum \<le> snd ?r" unfolding pickQuorumValue_pick by (simp_all add: Let_def)
  note best = pick_best [of "\<lambda>x. quorum \<le> snd x" "([], 0)" "countBy f xs"]
  have "?r \<noteq> ([], 0)" using v(2) \<open>0 < quorum\<close> by auto
  with best have "?r \<in> set (countBy f xs)" by blast
  with v(1) have n: "snd ?r = int (length (filter (\<lambda>x. f x = Some v) xs))"
    using countBy_in [of "fst ?r" "snd ?r" f xs] by (metis prod.collapse)
  with v(2) show "quorum \<le> int (length (filter (\<lambda>x. f x = Some v) xs))" by simp
  show "length (filter (\<lambda>x. f x = Some v') xs) \<le> length (filter (\<lambda>x. f x = Some v) xs)"
  proof (rule ccontr)
    assume *: "\<not> length (filter (\<lambda>x. f x = Some v') xs) \<le> length (filter (\<lambda>x. f x = Some v) xs)"
    let ?x = "(v', int (length (filter (\<lambda>x. f x = Some v') xs)))"
    have "0 < length (filter (\<lambda>x. f x = Some v') xs)" using * by linarith
    then have "?x \<in> set (countBy f xs)" using countBy_in [of v' "snd ?x" f xs] by simp
    moreover have "quorum \<le> snd ?x" "beats ?x ?r" using * v(2) n by (auto simp: beats_def)
    ultimately show False using best by blast
  qed
qed

section \<open>Order of iteration\<close>

lemma mergeTag_order:
  assumes "\<And>xs. mset (order xs) = mset xs"
  shows "mergeTag order = mergeTag id"
  unfolding mergeTag_def pick_order(1) [OF assms] ..

lemma mergeQuorum_order:
  assumes "\<And>xs. mset (order xs) = mset xs"
  shows "mergeQuorum order = mergeQuorum id"
proof -
  have "mergeRemote order = mergeRemote id"
    unfolding mergeRemote_def mergeStep_def mergeTag_order [OF assms] adoptRemoteURL_def adoptTransport_def
      pick_order(2) [OF assms] ..
  then show ?thesis unfolding mergeQuorum_def by simp
qed

section \<open>One tag\<close>

lemma mergeTag_Inr:
  assumes "mergeTag order hexUni url name views quorum = Inr mt"
  obtains firstHex fresh where
    "pickQuorumValue order (countBy (\<lambda>v. case wt_FirstOID (tv_tag v) of
        None \<Rightarrow> None | Some h \<Rightarrow> if h \<noteq> [] then Some h else None) views) quorum = (firstHex, True)"
    and "parseHexOID hexUni firstHex = Inr (mt_firstOID mt)"
    and "freshestView (filter (\<lambda>v. wt_FirstOID (tv_tag v) = Some firstHex) views) = Some fresh"
    and "mt_tainted mt \<longleftrightarrow> quorum \<le> countTainted views"
    and "mergeEvents hexUni (if mt_tainted mt then unionTaintEvents (filter (\<lambda>v. wt_Tainted (tv_tag v)) views) else []) =
      Inr (mt_events mt)"
    and "validateContinuity (mt_firstOID mt) (mt_events mt) = None"
    and "mt_name mt = name"
    and "mt_currentOID mt = okOID hexUni (wt_CurrentOID (tv_tag fresh))"
    and "mt_currentPeeledOID mt = okOID hexUni (wt_CurrentPeeledOID (tv_tag fresh))"
    and "mt_genesisPeeledOID mt \<in> {zeroOID, mt_currentPeeledOID mt}"
    and "\<not> mt_tainted mt \<Longrightarrow> mt_taintFirstNS mt = None"
proof -
  obtain firstHex ok where p: "pickQuorumValue order (countBy (\<lambda>v. case wt_FirstOID (tv_tag v) of
      None \<Rightarrow> None | Some h \<Rightarrow> if h \<noteq> [] then Some h else None) views) quorum = (firstHex, ok)"
    by (metis surj_pair)
  note m = assms [unfolded mergeTag_def Let_def p prod.case]
  from m have ok: "ok" by (auto split: if_splits)
  from m ok obtain firstOID where f: "parseHexOID hexUni firstHex = Inr firstOID" by (cases "parseHexOID hexUni firstHex") auto
  from m ok f obtain fresh where
    fr: "freshestView (filter (\<lambda>v. wt_FirstOID (tv_tag v) = Some firstHex) views) = Some fresh"
    by (cases "freshestView (filter (\<lambda>v. wt_FirstOID (tv_tag v) = Some firstHex) views)") auto
  note m = m [unfolded f fr sum.case option.case]
  let ?u = "if quorum \<le> countTainted views then unionTaintEvents (filter (\<lambda>v. wt_Tainted (tv_tag v)) views) else []"
  from m ok obtain evs where ev: "mergeEvents hexUni ?u = Inr evs" by (cases "mergeEvents hexUni ?u") auto
  from m ok ev have c: "validateContinuity firstOID evs = None" by (cases "validateContinuity firstOID evs") auto
  from m ok ev c have mt: "mt_firstOID mt = firstOID" "mt_events mt = evs" "mt_tainted mt \<longleftrightarrow> quorum \<le> countTainted views"
    "mt_name mt = name" "mt_currentOID mt = okOID hexUni (wt_CurrentOID (tv_tag fresh))"
    "mt_currentPeeledOID mt = okOID hexUni (wt_CurrentPeeledOID (tv_tag fresh))"
    "mt_genesisPeeledOID mt \<in> {zeroOID, mt_currentPeeledOID mt}"
    "\<not> mt_tainted mt \<Longrightarrow> mt_taintFirstNS mt = None"
    by auto
  show thesis
    by (rule that [of firstHex fresh]) (use p ok f fr ev c mt in auto)
qed

lemma countTainted_length: "countTainted views = int (length (filter (\<lambda>v. wt_Tainted (tv_tag v)) views))"
proof -
  have "foldl (\<lambda>n v. if wt_Tainted (tv_tag v) then n + 1 else n) k views = k + int (length (filter (\<lambda>v. wt_Tainted (tv_tag v)) views))" for k
    by (induction views arbitrary: k) auto
  then show ?thesis by (simp add: countTainted_def)
qed

lemma firstHex_filter:
  "(case wt_FirstOID (tv_tag v) of None \<Rightarrow> None | Some h \<Rightarrow> if h \<noteq> [] then Some h else None) = Some h' \<Longrightarrow>
   wt_FirstOID (tv_tag v) = Some h'"
  by (auto split: option.splits if_splits)

lemma mergeTag_first:
  assumes order: "\<And>xs. mset (order xs) = mset xs"
    and "mergeTag order hexUni url name views quorum = Inr mt" and "0 < quorum"
  shows "\<exists>hex. parseHexOID hexUni hex = Inr (mt_firstOID mt) \<and>
    quorum \<le> int (length (filter (\<lambda>v. wt_FirstOID (tv_tag v) = Some hex) views))"
  using assms(2)
proof (rule mergeTag_Inr)
  fix firstHex
  assume p: "pickQuorumValue order (countBy (\<lambda>v. case wt_FirstOID (tv_tag v) of
      None \<Rightarrow> None | Some h \<Rightarrow> if h \<noteq> [] then Some h else None) views) quorum = (firstHex, True)"
    and f: "parseHexOID hexUni firstHex = Inr (mt_firstOID mt)"
  note pickQuorumValue_countBy(1) [OF order p \<open>0 < quorum\<close>]
  also have "length (filter (\<lambda>v. (case wt_FirstOID (tv_tag v) of None \<Rightarrow> None | Some h \<Rightarrow> if h \<noteq> [] then Some h else None) =
      Some firstHex) views) \<le> length (filter (\<lambda>v. wt_FirstOID (tv_tag v) = Some firstHex) views)"
    by (rule length_filter_mono) (rule firstHex_filter)
  finally show ?thesis using f by auto
qed

text \<open>The history of an adopted tag: each event starts where the one before it ended.\<close>

lemma rawMismatch_eq: "length a = length b \<Longrightarrow> rawMismatch a b \<longleftrightarrow> a \<noteq> b"
  by (induction a b rule: rawMismatch.induct) auto

lemma oidEqualLoose_raw: "oidEqualLoose a b \<longleftrightarrow> oid_Raw a = oid_Raw b"
  by (cases a; cases b) (auto simp: oidEqualLoose_def rawMismatch_eq)

definition follows :: "OID \<Rightarrow> bool \<Rightarrow> mergedEvent \<Rightarrow> bool" where
  "follows prev del e \<longleftrightarrow> (me_eventType e = EventTagDeleted \<longleftrightarrow> IsZero (me_toOID e)) \<and>
     (if IsZero (me_fromOID e) then me_eventType e = EventTagRecreated \<and> del else oid_Raw (me_fromOID e) = oid_Raw prev)"

definition chained_from :: "OID \<Rightarrow> bool \<Rightarrow> mergedEvent list \<Rightarrow> bool" where
  "chained_from prev del es \<longleftrightarrow> (\<forall>i < length es.
     follows (if i = 0 then prev else me_toOID (es ! (i - 1)))
       (if i = 0 then del else me_eventType (es ! (i - 1)) = EventTagDeleted) (es ! i))"

abbreviation chained :: "OID \<Rightarrow> mergedEvent list \<Rightarrow> bool" where
  "chained first es \<equiv> chained_from first False es"

lemma chained_from_Cons:
  assumes "follows prev del e" and "chained_from (me_toOID e) (me_eventType e = EventTagDeleted) es"
  shows "chained_from prev del (e # es)"
  unfolding chained_from_def
proof (intro allI impI)
  fix i
  assume i: "i < length (e # es)"
  show "follows (if i = 0 then prev else me_toOID ((e # es) ! (i - 1)))
      (if i = 0 then del else me_eventType ((e # es) ! (i - 1)) = EventTagDeleted) ((e # es) ! i)"
  proof (cases i)
    case (Suc j)
    with assms(2) i have "follows (if j = 0 then me_toOID e else me_toOID (es ! (j - 1)))
        (if j = 0 then me_eventType e = EventTagDeleted else me_eventType (es ! (j - 1)) = EventTagDeleted) (es ! j)"
      unfolding chained_from_def by simp
    with Suc show ?thesis by (cases j) simp_all
  qed (use assms(1) in simp)
qed

lemma checkEventType_None: "checkEventType e = None \<Longrightarrow> me_eventType e = EventTagDeleted \<longleftrightarrow> IsZero (me_toOID e)"
  by (auto simp: checkEventType_def model_defs split: if_splits)

lemma validateFrom_chained: "validateFrom prev del es = None \<Longrightarrow> chained_from prev del es"
proof (induction es arbitrary: prev del)
  case (Cons e es)
  from Cons.prems have "follows prev del e"
    and rest: "validateFrom (me_toOID e) (me_eventType e = EventTagDeleted) es = None"
    by (auto simp: follows_def checkEventType_None oidEqualLoose_raw split: option.splits if_splits)
  then show ?case using Cons.IH chained_from_Cons by blast
qed (simp add: chained_from_def)

lemma validateContinuity_chained: "validateContinuity first es = None \<Longrightarrow> chained first es"
  unfolding validateContinuity_def by (rule validateFrom_chained)

lemma list_all2_in_set2: "list_all2 P xs ys \<Longrightarrow> y \<in> set ys \<Longrightarrow> \<exists>x \<in> set xs. P x y"
  by (induction xs ys rule: list_all2_induct) auto

lemma mergeEvents_map:
  "mergeEvents hexUni us = Inr es \<Longrightarrow> list_all2 (\<lambda>u e. taintEventToMerged hexUni u = Inr e) us es"
  by (induction us arbitrary: es) (auto split: sum.splits)

lemma taintEventToMerged_time: "taintEventToMerged hexUni u = Inr e \<Longrightarrow> me_detectedAtNS e = we_DetectedAtNS u"
  by (auto simp: taintEventToMerged_def Let_def split: sum.splits)

lemma union_fold:
  "fst (foldl (\<lambda>(seen, out) e. if eventKey e \<in> set seen then (seen, out) else (eventKey e # seen, out @ [e])) ([], []) es) =
     rev (map eventKey (snd (foldl (\<lambda>(seen, out) e. if eventKey e \<in> set seen then (seen, out)
       else (eventKey e # seen, out @ [e])) ([], []) es)))"
  by (induction es rule: rev_induct) (auto split: prod.splits)

lemma unionTaintEvents_spec:
  shows "sorted (map we_DetectedAtNS (unionTaintEvents views))"
    and "set (unionTaintEvents views) \<subseteq> (\<Union>v \<in> set views. set (tv_events v))"
    and "eventKey ` set (unionTaintEvents views) = eventKey ` (\<Union>v \<in> set views. set (tv_events v))"
    and "distinct (map eventKey (unionTaintEvents views))"
proof -
  let ?es = "concat (map tv_events views)"
  let ?f = "\<lambda>es. foldl (\<lambda>(seen, out) e. if eventKey e \<in> set seen then (seen, out)
       else (eventKey e # seen, out @ [e])) ([], []) es"
  let ?k = "\<lambda>e. (we_DetectedAtNS e, strDeref (we_FromOID e), strDeref (we_ToOID e))"
  have u: "unionTaintEvents views = sort_key ?k (snd (?f ?es))"
    by (simp add: unionTaintEvents_def case_prod_unfold)
  have sub: "set (snd (?f es)) \<subseteq> set es \<and> eventKey ` set (snd (?f es)) = eventKey ` set es \<and>
      distinct (map eventKey (snd (?f es)))" for es
  proof (induction es rule: rev_induct)
    case (snoc e es)
    obtain seen out where f: "?f es = (seen, out)" by (cases "?f es")
    have "set seen = eventKey ` set out" using union_fold [of es] by (simp add: f)
    with snoc.IH show ?case by (auto simp: f insert_absorb)
  qed simp
  show "set (unionTaintEvents views) \<subseteq> (\<Union>v \<in> set views. set (tv_events v))"
    "eventKey ` set (unionTaintEvents views) = eventKey ` (\<Union>v \<in> set views. set (tv_events v))"
    using sub [of ?es] by (simp_all add: u)
  have "mset (map eventKey (unionTaintEvents views)) = mset (map eventKey (snd (?f ?es)))" by (simp add: u)
  then show "distinct (map eventKey (unionTaintEvents views))"
    using sub [of ?es] mset_eq_imp_distinct_iff by blast
  have "sorted (map ?k (unionTaintEvents views))" by (simp add: u)
  then show "sorted (map we_DetectedAtNS (unionTaintEvents views))"
    by (simp add: sorted_map less_eq_prod_def) (erule sorted_wrt_mono_rel [rotated], auto)
qed

lemma mergeTag_events:
  assumes "mergeTag order hexUni url name views quorum = Inr mt"
  shows "chained (mt_firstOID mt) (mt_events mt)" and "sorted (map me_detectedAtNS (mt_events mt))"
    and "e \<in> set (mt_events mt) \<Longrightarrow>
      \<exists>v \<in> set views. wt_Tainted (tv_tag v) \<and> (\<exists>u \<in> set (tv_events v). taintEventToMerged hexUni u = Inr e)"
    and "mt_tainted mt \<longleftrightarrow> quorum \<le> int (length (filter (\<lambda>v. wt_Tainted (tv_tag v)) views))"
    and "\<not> mt_tainted mt \<Longrightarrow> mt_events mt = []"
proof -
  let ?tv = "filter (\<lambda>v. wt_Tainted (tv_tag v)) views"
  from assms obtain firstHex fresh where
    t: "mt_tainted mt \<longleftrightarrow> quorum \<le> countTainted views"
    and ev: "mergeEvents hexUni (if mt_tainted mt then unionTaintEvents ?tv else []) = Inr (mt_events mt)"
    and c: "validateContinuity (mt_firstOID mt) (mt_events mt) = None"
    by (rule mergeTag_Inr)
  from c show "chained (mt_firstOID mt) (mt_events mt)" by (rule validateContinuity_chained)
  from t show "mt_tainted mt \<longleftrightarrow> quorum \<le> int (length ?tv)" by (simp add: countTainted_length)
  from ev show "\<not> mt_tainted mt \<Longrightarrow> mt_events mt = []" by simp
  from ev have all: "list_all2 (\<lambda>u e. taintEventToMerged hexUni u = Inr e)
      (if mt_tainted mt then unionTaintEvents ?tv else []) (mt_events mt)" by (rule mergeEvents_map)
  then have "map me_detectedAtNS (mt_events mt) = map we_DetectedAtNS (if mt_tainted mt then unionTaintEvents ?tv else [])"
    by (auto simp: list_all2_conv_all_nth taintEventToMerged_time intro!: nth_equalityI)
  then show "sorted (map me_detectedAtNS (mt_events mt))" using unionTaintEvents_spec(1) [of ?tv] by (auto split: if_splits)
  show "\<exists>v \<in> set views. wt_Tainted (tv_tag v) \<and> (\<exists>u \<in> set (tv_events v). taintEventToMerged hexUni u = Inr e)"
    if "e \<in> set (mt_events mt)"
  proof -
    from that all obtain u where "u \<in> set (if mt_tainted mt then unionTaintEvents ?tv else [])" and m: "taintEventToMerged hexUni u = Inr e"
      by (meson list_all2_in_set2)
    with unionTaintEvents_spec(2) [of ?tv] have "u \<in> (\<Union>v \<in> set ?tv. set (tv_events v))" by (auto split: if_splits)
    with m show ?thesis by auto
  qed
qed

section \<open>The whole merge\<close>

text \<open>What the views of a remote report about one tag, in the order of the views.\<close>

definition reports :: "peerRemoteView list \<Rightarrow> string \<Rightarrow> taggedView list" where
  "reports views name = concat (map (\<lambda>v. map (\<lambda>t.
      \<lparr>tv_peer = pv_peer v, tv_tag = t, tv_events = eventsByRef (pv_taintEvents v) (wt_ID t)\<rparr>)
      (filter (\<lambda>t. wt_TagName t = name) (pv_tags v))) views)"

lemma lookup_addTo: "lookupList (addTo k x m) name = lookupList m name @ (if k = name then [x] else [])"
  by (auto simp: lookupList_def addTo_def update_conv' split: option.splits)

lemma addTo_keys: "set (map fst (addTo k x m)) = insert k (set (map fst m))" "distinct (map fst m) \<Longrightarrow> distinct (map fst (addTo k x m))"
  by (simp_all add: addTo_def dom_update distinct_update)

lemma lookup_viewTags: "lookupList (viewTags v m) name = lookupList m name @ reports [v] name"
proof -
  have "lookupList (foldl (\<lambda>m t. addTo (wt_TagName t) (f t) m) m ts) name =
      lookupList m name @ map f (filter (\<lambda>t. wt_TagName t = name) ts)" for f :: "wireTag \<Rightarrow> taggedView" and ts
    by (induction ts arbitrary: m) (auto simp: lookup_addTo)
  then show ?thesis by (simp add: viewTags_def reports_def)
qed

lemma lookup_tagViews: "lookupList (foldl (\<lambda>m v. viewTags v m) [] views) name = reports views name"
proof -
  have "lookupList (foldl (\<lambda>m v. viewTags v m) m views) name = lookupList m name @ reports views name" for m
    by (induction views arbitrary: m) (auto simp: lookup_viewTags reports_def)
  from this [of "[]"] show ?thesis by (simp add: lookupList_def)
qed

definition adoptedTags ::
  "((string \<times> int) list \<Rightarrow> (string \<times> int) list) \<Rightarrow> (string \<Rightarrow> string) \<Rightarrow> int \<Rightarrow> string \<Rightarrow> (string \<times> taggedView list) list \<Rightarrow> string list \<Rightarrow> mergedTag list" where
  "adoptedTags order hexUni quorum url tagViews names = concat (map (\<lambda>name.
      case mergeTag order hexUni url name (lookupList tagViews name) quorum of Inl _ \<Rightarrow> [] | Inr mt \<Rightarrow> [mt]) names)"

definition observations :: "mergedTag list \<Rightarrow> int" where
  "observations tags = sum_list (map (\<lambda>mt. 1 + int (length (mt_events mt))) tags)"

lemma mergeStep_fold:
  "foldl (mergeStep order hexUni quorum url tagViews) (tags, res) names = (tags', res') \<Longrightarrow>
     tags' = tags @ adoptedTags order hexUni quorum url tagViews names \<and> res_remotes res' = res_remotes res \<and>
     res_totalObs res' = res_totalObs res + observations (adoptedTags order hexUni quorum url tagViews names)"
proof (induction names arbitrary: tags res)
  case (Cons name names)
  show ?case
  proof (cases "mergeTag order hexUni url name (lookupList tagViews name) quorum")
    case (Inl q)
    then have "mergeStep order hexUni quorum url tagViews (tags, res) name =
        (tags, res\<lparr>res_quarantinedTags := res_quarantinedTags res + 1, res_quarantineLogs := res_quarantineLogs res @ [q]\<rparr>)"
      by (simp add: mergeStep_def)
    with Cons show ?thesis using Inl by (fastforce simp: adoptedTags_def)
  next
    case (Inr mt)
    then have "mergeStep order hexUni quorum url tagViews (tags, res) name =
        (tags @ [mt], res\<lparr>res_totalObs := res_totalObs res + 1 + int (length (mt_events mt))\<rparr>)"
      by (simp add: mergeStep_def)
    with Cons show ?thesis using Inr by (fastforce simp: adoptedTags_def observations_def)
  qed
qed (simp add: adoptedTags_def observations_def)

text \<open>The remote that is adopted from its views, and which remotes are.\<close>

definition adoptedRemote ::
  "((string \<times> int) list \<Rightarrow> (string \<times> int) list) \<Rightarrow> (string \<Rightarrow> string) \<Rightarrow> int \<Rightarrow> string \<Rightarrow> peerRemoteView list \<Rightarrow> mergedRemote" where
  "adoptedRemote order hexUni quorum url views =
     (let tagViews = foldl (\<lambda>m v. viewTags v m) [] views in
      \<lparr>mr_url = adoptRemoteURL order views, mr_normalizedURL = url, mr_transport = adoptTransport order views,
       mr_taintAnyTagDeletion = adoptTaintPolicy views,
       mr_tags = adoptedTags order hexUni quorum url tagViews (sort (map fst tagViews))\<rparr>)"

definition all_observations :: "mergedRemote list \<Rightarrow> int" where
  "all_observations rs = sum_list (map (observations \<circ> mr_tags) rs)"

lemma mergeRemote_adopts:
  "res_remotes (mergeRemote order hexUni quorum url views res) =
     res_remotes res @ (if int (length views) < quorum then [] else [adoptedRemote order hexUni quorum url views])"
  "res_totalObs (mergeRemote order hexUni quorum url views res) =
     res_totalObs res + (if int (length views) < quorum then 0 else observations (mr_tags (adoptedRemote order hexUni quorum url views)))"
proof -
  let ?tv = "foldl (\<lambda>m v. viewTags v m) [] views"
  obtain tags' res' where f: "foldl (mergeStep order hexUni quorum url ?tv) ([], res) (sort (map fst ?tv)) = (tags', res')"
    by (metis surj_pair)
  from mergeStep_fold [OF f] f
  show "res_remotes (mergeRemote order hexUni quorum url views res) =
     res_remotes res @ (if int (length views) < quorum then [] else [adoptedRemote order hexUni quorum url views])"
    "res_totalObs (mergeRemote order hexUni quorum url views res) =
     res_totalObs res + (if int (length views) < quorum then 0 else observations (mr_tags (adoptedRemote order hexUni quorum url views)))"
    by (simp_all add: mergeRemote_def adoptedRemote_def Let_def)
qed

lemma mergeQuorum_remotes:
  "res_remotes (mergeQuorum order hexUni byURL quorum) =
     map (\<lambda>u. adoptedRemote order hexUni quorum u (lookupList byURL u))
       (filter (\<lambda>u. quorum \<le> int (length (lookupList byURL u))) (sort (map fst byURL)))"
  "res_totalObs (mergeQuorum order hexUni byURL quorum) = all_observations (res_remotes (mergeQuorum order hexUni byURL quorum))"
proof -
  have *: "res_remotes (foldl (\<lambda>res u. mergeRemote order hexUni quorum u (lookupList byURL u) res) res us) =
      res_remotes res @ map (\<lambda>u. adoptedRemote order hexUni quorum u (lookupList byURL u))
        (filter (\<lambda>u. quorum \<le> int (length (lookupList byURL u))) us) \<and>
    res_totalObs (foldl (\<lambda>res u. mergeRemote order hexUni quorum u (lookupList byURL u) res) res us) =
      res_totalObs res + all_observations (map (\<lambda>u. adoptedRemote order hexUni quorum u (lookupList byURL u))
        (filter (\<lambda>u. quorum \<le> int (length (lookupList byURL u))) us))" for res us
    by (induction us arbitrary: res) (simp_all add: mergeRemote_adopts all_observations_def)
  show "res_remotes (mergeQuorum order hexUni byURL quorum) =
     map (\<lambda>u. adoptedRemote order hexUni quorum u (lookupList byURL u))
       (filter (\<lambda>u. quorum \<le> int (length (lookupList byURL u))) (sort (map fst byURL)))"
    unfolding mergeQuorum_def by (simp add: *)
  then show "res_totalObs (mergeQuorum order hexUni byURL quorum) = all_observations (res_remotes (mergeQuorum order hexUni byURL quorum))"
    unfolding mergeQuorum_def by (simp add: *)
qed

lemma adopted_tag:
  assumes "mr \<in> set (res_remotes (mergeQuorum order hexUni byURL quorum))" and "mt \<in> set (mr_tags mr)"
  shows "quorum \<le> int (length (lookupList byURL (mr_normalizedURL mr)))"
    and "mergeTag order hexUni (mr_normalizedURL mr) (mt_name mt)
      (reports (lookupList byURL (mr_normalizedURL mr)) (mt_name mt)) quorum = Inr mt"
proof -
  from assms(1) obtain u where q: "quorum \<le> int (length (lookupList byURL u))"
    and mr: "mr = adoptedRemote order hexUni quorum u (lookupList byURL u)"
    by (auto simp: mergeQuorum_remotes)
  have u: "mr_normalizedURL mr = u" by (simp add: mr adoptedRemote_def Let_def)
  from q u show "quorum \<le> int (length (lookupList byURL (mr_normalizedURL mr)))" by simp
  from assms(2) obtain name where m: "mergeTag order hexUni u name (reports (lookupList byURL u) name) quorum = Inr mt"
    by (auto simp: mr adoptedRemote_def adoptedTags_def lookup_tagViews Let_def split: sum.splits)
  moreover from m have "mt_name mt = name" by (rule mergeTag_Inr)
  ultimately show "mergeTag order hexUni (mr_normalizedURL mr) (mt_name mt)
      (reports (lookupList byURL (mr_normalizedURL mr)) (mt_name mt)) quorum = Inr mt" by (simp add: u)
qed

end
