(* ===== verification/Seed.thy ===== *)
theory Seed
  imports Seed_Quorum Sync_Remote
begin

text \<open>
  \<open>internal/seed/seed.go\<close> and \<open>client.go\<close>: an instance that starts with an empty table of remotes
  reads the remotes, tags and taint events of its peers, merges them by quorum, and writes the
  result in one transaction. A peer is the function from requests to responses in \<open>peerAPI\<close>; an
  error stands for a failed request, an expired deadline or a cancelled context. The requests
  run concurrently: \<open>arriveP\<close> and \<open>arriveR\<close> are the orders in which their results come in. \<open>hostLib\<close>
  stands for bracketed hosts, \<open>strings.EqualFold\<close> on non-ASCII text and \<open>net.ParseIP(..).IsLoopback\<close>.
\<close>

section \<open>The client of a peer\<close>

record 'i wirePage =
  wp_Items :: "'i list"
  wp_NextCursor :: "int64 option"

record peerAPI =
  api_remotes :: "int64 \<Rightarrow> err + wireRemote wirePage"
  api_tags :: "int64 \<Rightarrow> int64 \<Rightarrow> err + wireTag wirePage"
  api_taintEvents :: "int64 \<Rightarrow> int64 \<Rightarrow> err + wireTaintEvent wirePage"

definition derefCursor :: "int64 option \<Rightarrow> int64" where
  "derefCursor p = (case p of None \<Rightarrow> 0 | Some c \<Rightarrow> c)"

text \<open>The loop over pages, which the three lists share; the first argument is the pages left.\<close>

fun listPages :: "nat \<Rightarrow> (int64 \<Rightarrow> err + 'i wirePage) \<Rightarrow> int64 \<Rightarrow> err + 'i list" where
  "listPages 0 get cursor = Inr []"
| "listPages (Suc n) get cursor =
     (case get cursor of
        Inl e \<Rightarrow> Inl e
      | Inr list \<Rightarrow>
          if wp_Items list = [] then Inr []
          else
          let next = derefCursor (wp_NextCursor list) in
          if next = 0 \<or> next \<le> cursor then Inr (wp_Items list)
          else case listPages n get next of Inl e \<Rightarrow> Inl e | Inr rest \<Rightarrow> Inr (wp_Items list @ rest))"

definition listRemotes :: "peerAPI \<Rightarrow> int64 \<Rightarrow> err + wireRemote list" where
  "listRemotes api maxPages = listPages (nat maxPages) (api_remotes api) 0"

definition listTags :: "peerAPI \<Rightarrow> int64 \<Rightarrow> int64 \<Rightarrow> err + wireTag list" where
  "listTags api remoteID maxPages = listPages (nat maxPages) (api_tags api remoteID) 0"

definition listTaintEvents :: "peerAPI \<Rightarrow> int64 \<Rightarrow> int64 \<Rightarrow> err + wireTaintEvent list" where
  "listTaintEvents api remoteID maxPages = listPages (nat maxPages) (api_taintEvents api remoteID) 0"

definition isLoopbackHost :: "(string \<Rightarrow> bool) \<Rightarrow> (string \<Rightarrow> bool) \<Rightarrow> string \<Rightarrow> bool" where
  "isLoopbackHost eqFold loopIP host \<longleftrightarrow>
     (if list_all isASCII host then ToLower host = ''localhost'' else eqFold host) \<or> loopIP host"

record hostLib =
  hl_ipLit :: "string \<Rightarrow> string option"
  hl_eqFold :: "string \<Rightarrow> bool"
  hl_loopIP :: "string \<Rightarrow> bool"

definition checkPeerURL :: "hostLib \<Rightarrow> string \<Rightarrow> bool \<Rightarrow> err option" where
  "checkPeerURL lib raw insecure =
     (case url_Parse (hl_ipLit lib) raw of
        None \<Rightarrow> Some (ErrText ''invalid seed peer URL'')
      | Some u \<Rightarrow>
          if url_Host u = [] then Some (ErrText ''invalid seed peer URL'')
          else if url_Scheme u = ''https'' then None
          else if url_Scheme u = ''http'' then
            (if insecure \<or> isLoopbackHost (hl_eqFold lib) (hl_loopIP lib) (Hostname u) then None
             else Some (ErrText ''refusing plaintext seed peer''))
          else Some (ErrText ''seed peer URL must be http or https''))"

text \<open>The result is the trimmed base URL that the requests of the client start with.\<close>

definition TrimRightSlash :: "string \<Rightarrow> string" where
  "TrimRightSlash s = rev (dropWhile (\<lambda>c. c = CHR ''/'') (rev s))"

definition newPeerClient :: "hostLib \<Rightarrow> string \<Rightarrow> bool \<Rightarrow> err + string" where
  "newPeerClient lib baseURL insecure =
     (case checkPeerURL lib baseURL insecure of Some e \<Rightarrow> Inl e | None \<Rightarrow> Inr (TrimRightSlash baseURL))"

section \<open>Configuration\<close>

record SeedConfig =
  cfg_SeedServers :: string
  cfg_SeedQuorum :: int64
  cfg_SeedRemotes :: string
  cfg_SeedInsecure :: bool
  cfg_SeedMaxRemotes :: int64
  cfg_SeedMaxObservations :: int64
  cfg_SeedMaxPages :: int64
  cfg_SyncDefaultInterval :: Duration
  cfg_StalenessBudget :: Duration

fun splitWhen :: "('a \<Rightarrow> bool) \<Rightarrow> 'a list \<Rightarrow> 'a list list" where
  "splitWhen p [] = [[]]"
| "splitWhen p (x # xs) =
     (if p x then [] # splitWhen p xs
      else case splitWhen p xs of [] \<Rightarrow> [[x]] | y # ys \<Rightarrow> (x # y) # ys)"

text \<open>\<open>strings.FieldsFunc\<close>: the maximal runs of characters that do not separate.\<close>

definition FieldsFunc :: "('a \<Rightarrow> bool) \<Rightarrow> 'a list \<Rightarrow> 'a list list" where
  "FieldsFunc p s = filter (\<lambda>f. f \<noteq> []) (splitWhen p s)"

definition isListSep :: "char \<Rightarrow> bool" where
  "isListSep c \<longleftrightarrow> c \<in> set [CHR '','', CHR '' '', CHR 0x09, CHR 0x0A]"

definition seedServerList :: "string \<Rightarrow> string list" where
  "seedServerList raw = (if raw = [] then [] else filter (\<lambda>p. p \<noteq> []) (FieldsFunc isListSep raw))"

definition SeedEnabled :: "SeedConfig \<Rightarrow> bool" where
  "SeedEnabled c \<longleftrightarrow> length (seedServerList (cfg_SeedServers c)) > 0"

definition peerURLs :: "SeedConfig \<Rightarrow> string list" where
  "peerURLs c = foldl (\<lambda>out u. if u = [] \<or> u \<in> set out then out else out @ [u]) [] (FieldsFunc isListSep (cfg_SeedServers c))"

definition parseAllowlist :: "string \<Rightarrow> string list" where
  "parseAllowlist raw =
     (if TrimSpace raw = [] then [] else filter (\<lambda>p. p \<noteq> []) (map TrimSpace (SplitByte (CHR '','') raw)))"

text \<open>The package has its own copy of \<open>matchGlob\<close>.\<close>

definition seedMatchGlob :: "string \<Rightarrow> string \<Rightarrow> bool" where
  "seedMatchGlob pattern name =
     (if pattern = ''*'' \<or> pattern = [] then True
      else
      let parts = SplitByte (CHR ''*'') pattern in
      if length parts = 1 then name = pattern
      else if \<not> HasPrefix name (parts ! 0) then False
      else case globMiddle (butlast (tl parts)) (drop (length (parts ! 0)) name) of
             None \<Rightarrow> False
           | Some name' \<Rightarrow> HasSuffix name' (parts ! (length parts - 1)))"

lemma seedMatchGlob_eq: "seedMatchGlob = matchGlob"
  by (intro ext) (simp add: seedMatchGlob_def matchGlob_def)

definition matchAllowlist :: "string list \<Rightarrow> string \<Rightarrow> bool" where
  "matchAllowlist allow url = (if length allow = 0 then True else list_ex (\<lambda>pat. seedMatchGlob pat url) allow)"

section \<open>Fetching\<close>

definition fetchPeer ::
  "(wireRemote list \<Rightarrow> wireRemote list) \<Rightarrow> SeedConfig \<Rightarrow> peerAPI \<Rightarrow> string \<Rightarrow> string list \<Rightarrow> peerRemoteView list option" where
  "fetchPeer arrive c api peerURL allow =
     (case listRemotes api (cfg_SeedMaxPages c) of
        Inl _ \<Rightarrow> None
      | Inr remotes \<Rightarrow>
          Some (concat (map (\<lambda>r.
            case listTags api (wr_ID r) (cfg_SeedMaxPages c) of
              Inl _ \<Rightarrow> []
            | Inr tags \<Rightarrow>
                (case listTaintEvents api (wr_ID r) (cfg_SeedMaxPages c) of
                   Inl _ \<Rightarrow> []
                 | Inr events \<Rightarrow> [\<lparr>pv_peer = peerURL, pv_remote = r, pv_tags = tags, pv_taintEvents = events\<rparr>]))
            (arrive (filter (\<lambda>r. matchAllowlist allow (wr_NormalizedURL r)) remotes)))))"

definition fetchAll ::
  "hostLib \<Rightarrow> (string list \<Rightarrow> string list) \<Rightarrow> (wireRemote list \<Rightarrow> wireRemote list) \<Rightarrow> SeedConfig \<Rightarrow>
   (string \<Rightarrow> peerAPI) \<Rightarrow> string list \<Rightarrow> (string \<times> peerRemoteView list) list \<times> int" where
  "fetchAll lib arriveP arriveR c net peers =
     foldl (\<lambda>(byURL, peersUsed) peerURL.
       case newPeerClient lib peerURL (cfg_SeedInsecure c) of
         Inl _ \<Rightarrow> (byURL, peersUsed)
       | Inr base \<Rightarrow>
           (case fetchPeer arriveR c (net base) peerURL (parseAllowlist (cfg_SeedRemotes c)) of
              None \<Rightarrow> (byURL, peersUsed)
            | Some views \<Rightarrow>
                (foldl (\<lambda>m v. addTo (wr_NormalizedURL (pv_remote v)) v m) byURL views, peersUsed + 1)))
       ([], 0) (arriveP peers)"

section \<open>Writing\<close>

definition orFirst :: "OID \<Rightarrow> OID \<Rightarrow> OID" where
  "orFirst oid fallback = (if IsZero oid then fallback else oid)"

definition orInt :: "int64 \<Rightarrow> int64 \<Rightarrow> int64" where
  "orInt v fallback = (if v = 0 then fallback else v)"

text \<open>Step (c) of \<open>writeTag\<close> for one event; \<open>obs.ID\<close> is set by \<open>AppendObservation\<close>.\<close>

definition writeEvent :: "'t Tx \<Rightarrow> RemoteID \<Rightarrow> RefID \<Rightarrow> SyncID \<Rightarrow> mergedEvent \<Rightarrow> int64 \<Rightarrow> ('t, int64) io" where
  "writeEvent tx remoteID refID syncID ev obsCount =
     bindT (tx_AppendObservation tx (zeroObservation\<lparr>obs_RemoteID := remoteID, obs_RefID := refID, obs_SyncID := syncID,
        obs_EventType := me_eventType ev, obs_PrevOID := me_fromOID ev, obs_NewOID := me_toOID ev,
        obs_ObservedAtNS := me_detectedAtNS ev\<rparr>)) (\<lambda>(_, obs).
     case me_taintReason ev of
       None \<Rightarrow> ret (wrap64 (obsCount + 1))
     | Some reason \<Rightarrow>
         bindT (tx_AppendTaintEvent tx (taintEvent remoteID refID reason (obs_ID obs) (me_fromOID ev) (me_toOID ev) (me_detectedAtNS ev)))
           (\<lambda>_. ret (wrap64 (obsCount + 1))))"

definition firstRef :: "RemoteID \<Rightarrow> mergedTag \<Rightarrow> Ref" where
  "firstRef remoteID mt =
     \<lparr>ref_ID = 0, ref_RemoteID = remoteID, ref_TagName = mt_name mt, ref_CurrentOID = mt_firstOID mt,
      ref_CurrentPeeledOID = mt_genesisPeeledOID mt, ref_IsAnnotatedTag = mt_isAnnotated mt, ref_FirstOID = mt_firstOID mt,
      ref_FirstSeenNS = mt_firstSeenNS mt, ref_LastSeenNS = mt_firstSeenNS mt, ref_LastChangedNS = mt_firstSeenNS mt,
      ref_Deleted = False, ref_Tainted = False, ref_TaintFirstNS = None, ref_ObservationCount = 0\<rparr>"

definition finalRef :: "Ref \<Rightarrow> mergedTag \<Rightarrow> int64 \<Rightarrow> Ref" where
  "finalRef ref mt obsCount =
     (let ref = ref\<lparr>ref_CurrentOID := orFirst (mt_currentOID mt) (mt_firstOID mt),
            ref_CurrentPeeledOID := mt_currentPeeledOID mt, ref_LastSeenNS := orInt (mt_lastSeenNS mt) (mt_firstSeenNS mt),
            ref_Deleted := mt_deleted mt, ref_Tainted := mt_tainted mt, ref_TaintFirstNS := mt_taintFirstNS mt,
            ref_ObservationCount := obsCount\<rparr>
      in if length (mt_events mt) > 0 then ref\<lparr>ref_LastChangedNS := me_detectedAtNS (last (mt_events mt))\<rparr> else ref)"

definition writeTag :: "'t Tx \<Rightarrow> RemoteID \<Rightarrow> SyncID \<Rightarrow> mergedTag \<Rightarrow> ('t, unit) io" where
  "writeTag tx remoteID syncID mt =
     bindT (tx_UpsertRefProjection tx (firstRef remoteID mt)) (\<lambda>ref.
     bindT (tx_AppendObservation tx (zeroObservation\<lparr>obs_RemoteID := remoteID, obs_RefID := ref_ID ref, obs_SyncID := syncID,
        obs_EventType := EventTagCreated, obs_NewOID := mt_firstOID mt, obs_NewPeeledOID := mt_genesisPeeledOID mt,
        obs_ObservedAtNS := mt_firstSeenNS mt\<rparr>)) (\<lambda>_.
     bindT (forT (mt_events mt) 1 (writeEvent tx remoteID (ref_ID ref) syncID)) (\<lambda>obsCount.
     bindT (tx_UpsertRefProjection tx (finalRef ref mt obsCount)) (\<lambda>_.
     ret ()))))"

definition seedRemote :: "SeedConfig \<Rightarrow> mergedRemote \<Rightarrow> int64 \<Rightarrow> Remote" where
  "seedRemote c mr now =
     \<lparr>rem_ID = 0, rem_URL = mr_url mr, rem_NormalizedURL = mr_normalizedURL mr, rem_Transport = mr_transport mr,
      rem_SyncInterval = cfg_SyncDefaultInterval c, rem_StalenessBudget = cfg_StalenessBudget c,
      rem_TaintAnyTagDeletion = mr_taintAnyTagDeletion mr, rem_HashAlgo = None, rem_Status = RemoteActive,
      rem_LastOkNS = 0, rem_LastErr = [], rem_ConsecutiveFailures = 0, rem_ChainHeadHash = replicate 32 0, rem_ChainLen = 0,
      rem_RemovedAtNS = None, rem_CreatedAtNS = now, rem_UpdatedAtNS = now\<rparr>"

definition writeRemote :: "SeedConfig \<Rightarrow> 't Tx \<Rightarrow> int64 \<Rightarrow> mergedRemote \<Rightarrow> ('t, int64) io" where
  "writeRemote c tx now mr =
     bindT (tx_CreateRemote tx (seedRemote c mr now)) (\<lambda>remoteID.
     bindT (tx_WriteSync tx
        \<lparr>syn_ID = 0, syn_RemoteID = remoteID, syn_Trigger = TriggerRegister, syn_StartedNS = now, syn_FinishedNS = now,
         syn_Status = SyncOk, syn_TagsSeen = int (length (mr_tags mr)), syn_TagsChanged = 0, syn_Error = [],
         syn_ChainHeadBefore = replicate 32 0, syn_ChainHeadAfter = []\<rparr>) (\<lambda>(syncID, _).
     bindT (forT (mr_tags mr) () (\<lambda>mt _. writeTag tx remoteID syncID mt)) (\<lambda>_.
     ret (int (length (mr_tags mr))))))"

definition ErrSeedGuard :: err where
  "ErrSeedGuard = ErrText ''seed: remotes table is non-empty at write time (aborting)''"

text \<open>The closure given to \<open>WithTx\<close>; its result is the two counters.\<close>

definition seedTx :: "SeedConfig \<Rightarrow> mergeResult \<Rightarrow> int64 \<Rightarrow> 't Tx \<Rightarrow> ('t, int64 \<times> int64) io" where
  "seedTx c res now tx =
     bindT (tx_CountAllRemotes tx) (\<lambda>cnt.
     if cnt \<noteq> 0 then fail ErrSeedGuard
     else if int (length (res_remotes res)) > cfg_SeedMaxRemotes c then fail (ErrText ''seed: remotes over ceiling'')
     else if res_totalObs res > cfg_SeedMaxObservations c then fail (ErrText ''seed: observations over ceiling'')
     else forT (res_remotes res) (0, 0) (\<lambda>mr (remotesAdopted, tagsAdopted).
       bindT (writeRemote c tx now mr) (\<lambda>n. ret (wrap64 (remotesAdopted + 1), wrap64 (tagsAdopted + n)))))"

definition seedWrite :: "('d, 't, int64 \<times> int64) Store \<Rightarrow> SeedConfig \<Rightarrow> mergeResult \<Rightarrow> ('d, int64 \<times> int64) io" where
  "seedWrite s c res = bindT NowNS (\<lambda>now. st_WithTx s (seedTx c res now))"

section \<open>Run\<close>

definition Run ::
  "((string \<times> int) list \<Rightarrow> (string \<times> int) list) \<Rightarrow> (string \<Rightarrow> string) \<Rightarrow> hostLib \<Rightarrow>
   (string list \<Rightarrow> string list) \<Rightarrow> (wireRemote list \<Rightarrow> wireRemote list) \<Rightarrow>
   ('d, 't, int64 \<times> int64) Store \<Rightarrow> SeedConfig \<Rightarrow> (string \<Rightarrow> peerAPI) \<Rightarrow> ('d, unit) io" where
  "Run order hexUni lib arriveP arriveR s c net =
     (if \<not> SeedEnabled c then ret ()
      else
      bindT (tryT (st_CountAllRemotes s)) (\<lambda>n. case n of
        Inl _ \<Rightarrow> ret ()
      | Inr n \<Rightarrow>
          if n \<noteq> 0 then ret ()
          else
          let peers = peerURLs c in
          if length peers = 0 then ret ()
          else
          let (byURL, peersUsed) = fetchAll lib arriveP arriveR c net peers in
          if peersUsed = 0 then ret ()
          else
          let res = mergeQuorum order hexUni byURL (cfg_SeedQuorum c) in
          if int (length (res_remotes res)) > cfg_SeedMaxRemotes c then ret ()
          else if res_totalObs res > cfg_SeedMaxObservations c then ret ()
          else if length (res_remotes res) = 0 then ret ()
          else bindT (tryT (seedWrite s c res)) (\<lambda>_. ret ())))"

end
