(* ===== verification/Seed_Contract.thy ===== *)
theory Seed_Contract
  imports Seed Sync_Contract
begin

text \<open>
  What seeding does to a store, proved once for every implementation of the transaction
  interface. \<open>tx_invariant\<close> gains the laws of the two operations that only seeding uses
  (\<open>seed_invariant\<close>); \<open>seed_contract\<close> adds them to \<open>tx_contract\<close>, with the table of remotes as a map
  from normalized URLs to ids. The specification is the relation \<open>remotes_seeded\<close>: the merged
  remotes enter one after the other, each under a fresh id with exactly its merged tags.
\<close>

section \<open>Merged facts can be stored\<close>

definition tag_ok :: "mergedTag \<Rightarrow> bool" where
  "tag_ok mt \<longleftrightarrow>
     wf_OID (mt_firstOID mt) \<and> oid_storable (mt_currentOID mt) \<and> oid_storable (mt_currentPeeledOID mt) \<and>
     oid_storable (mt_genesisPeeledOID mt) \<and> (mt_taintFirstNS mt \<noteq> None \<longrightarrow> mt_tainted mt) \<and>
     (\<forall>e \<in> set (mt_events mt). oid_storable (me_fromOID e) \<and> oid_storable (me_toOID e))"

lemma parseHexOID_wf: "parseHexOID hexUni s = Inr o1 \<Longrightarrow> wf_OID o1"
  by (auto simp: parseHexOID_def Let_def dest: ParseOID_sound split: if_splits)

lemma optHexOID_storable: "optHexOID hexUni p = Inr o1 \<Longrightarrow> oid_storable o1"
  by (auto simp: optHexOID_def dest: parseHexOID_wf split: option.splits if_splits)

lemma okOID_storable [simp]: "oid_storable (okOID hexUni p)"
  by (auto simp: okOID_def dest: optHexOID_storable split: sum.splits)

lemma taintEventToMerged_storable:
  "taintEventToMerged hexUni u = Inr e \<Longrightarrow> oid_storable (me_fromOID e) \<and> oid_storable (me_toOID e)"
  by (auto simp: taintEventToMerged_def Let_def dest: optHexOID_storable split: sum.splits)

lemma mergeTag_ok:
  assumes "mergeTag order hexUni url name views quorum = Inr mt"
  shows "tag_ok mt"
proof -
  have "oid_storable (me_fromOID e) \<and> oid_storable (me_toOID e)" if "e \<in> set (mt_events mt)" for e
    using mergeTag_events(3) [OF assms that] taintEventToMerged_storable by blast
  with assms show ?thesis
    by (rule_tac mergeTag_Inr) (auto simp: tag_ok_def dest: parseHexOID_wf)
qed

lemma orFirst_storable: "tag_ok mt \<Longrightarrow> oid_storable (orFirst (mt_currentOID mt) (mt_firstOID mt))"
  by (simp add: orFirst_def tag_ok_def)

lemma firstRef_storable: "tag_ok mt \<Longrightarrow> ref_storable (firstRef rid mt)"
  by (simp add: tag_ok_def ref_storable_def firstRef_def)

lemma finalRef_sel [simp]:
  "ref_ID (finalRef ref mt n) = ref_ID ref" "ref_RemoteID (finalRef ref mt n) = ref_RemoteID ref"
  "ref_TagName (finalRef ref mt n) = ref_TagName ref" "ref_FirstOID (finalRef ref mt n) = ref_FirstOID ref"
  "ref_FirstSeenNS (finalRef ref mt n) = ref_FirstSeenNS ref" "ref_Tainted (finalRef ref mt n) = mt_tainted mt"
  "ref_TaintFirstNS (finalRef ref mt n) = mt_taintFirstNS mt" "ref_Deleted (finalRef ref mt n) = mt_deleted mt"
  "ref_CurrentOID (finalRef ref mt n) = orFirst (mt_currentOID mt) (mt_firstOID mt)"
  "ref_CurrentPeeledOID (finalRef ref mt n) = mt_currentPeeledOID mt" "ref_ObservationCount (finalRef ref mt n) = n"
  by (simp_all add: finalRef_def Let_def)

lemma firstRef_sel [simp]: "ref_RemoteID (firstRef rid mt) = rid" "ref_TagName (firstRef rid mt) = mt_name mt"
  by (simp_all add: firstRef_def)

lemma merge_finalRef: "merge_ref (Some r) (finalRef r mt n) j = finalRef r mt n"
  by (simp add: merge_ref_def finalRef_def Let_def)

lemma finalRef_storable: "tag_ok mt \<Longrightarrow> ref_storable ref \<Longrightarrow> ref_storable (finalRef ref mt n)"
  using orFirst_storable [of mt] by (simp add: ref_storable_def tag_ok_def)

section \<open>Invariants\<close>

context tx_invariant
begin

lemma inv_writeEvent: "oks inv (writeEvent tx rid refID syncID ev n) (\<lambda>_. inv)"
  unfolding writeEvent_def
  by (rule oks_bind [OF inv_AppendObservation], rule oks_case_prod, rule oks_case_option)
    (auto intro: oks_ret oks_bind [OF inv_AppendTaintEvent oks_ret])

lemma inv_writeTag:
  assumes "ok_ref (firstRef rid mt)" and "\<And>ref n. ok_ref ref \<Longrightarrow> ok_ref (finalRef ref mt n)"
  shows "oks inv (writeTag tx rid syncID mt) (\<lambda>_. inv)"
  unfolding writeTag_def
  by (rule oks_bind [OF inv_UpsertRefProjection [OF assms(1)]], rule oks_pull,
      rule oks_bind [OF inv_AppendObservation], rule oks_bind [OF oks_for [where I = "\<lambda>_ _. inv"]],
      rule inv_writeEvent, rule oks_bind [OF inv_UpsertRefProjection [OF assms(2)]])
    (auto intro: oks_ret)

end

text \<open>Two invariants together are one.\<close>

lemma oks_both: "oks P m Q \<Longrightarrow> oks P' m Q' \<Longrightarrow> oks (\<lambda>t. P t \<and> P' t) m (\<lambda>a t. Q a t \<and> Q' a t)"
  by (auto simp: oks_def)

lemma tx_invariant_conj:
  assumes "tx_invariant tx I ok" and "tx_invariant tx J ok'"
  shows "tx_invariant tx (\<lambda>t. I t \<and> J t) (\<lambda>r. ok r \<and> ok' r)"
proof
  show "oks (\<lambda>t. I t \<and> J t) (tx_UpsertRefProjection tx ref) (\<lambda>ref' t. (ok ref' \<and> ok' ref') \<and> I t \<and> J t)"
    if "ok ref \<and> ok' ref" for ref
    by (rule oks_weaken [OF oks_both [OF assms [THEN tx_invariant.inv_UpsertRefProjection, of ref]]])
      (use that in auto)
qed (rule oks_both [OF assms [THEN tx_invariant.inv_AppendObservation]]
    oks_both [OF assms [THEN tx_invariant.inv_AppendTaintEvent]] oks_both [OF assms [THEN tx_invariant.inv_WriteSync]]
    oks_both [OF assms [THEN tx_invariant.inv_PruneSyncs]] | simp add: assms [THEN tx_invariant.ok_ref_taint])+

locale seed_invariant = tx_invariant +
  assumes inv_CreateRemote:
      "rem_ChainHeadHash r = replicate 32 0 \<Longrightarrow> rem_ChainLen r = 0 \<Longrightarrow> oks inv (tx_CreateRemote tx r) (\<lambda>_. inv)"
    and inv_CountAllRemotes: "oks inv (tx_CountAllRemotes tx) (\<lambda>_. inv)"
begin

lemma inv_writeRemote:
  assumes "\<And>mt rid. mt \<in> set (mr_tags mr) \<Longrightarrow> ok_ref (firstRef rid mt)"
    and "\<And>mt ref n. mt \<in> set (mr_tags mr) \<Longrightarrow> ok_ref ref \<Longrightarrow> ok_ref (finalRef ref mt n)"
  shows "oks inv (writeRemote c tx now mr) (\<lambda>_. inv)"
  unfolding writeRemote_def
  by (rule oks_bind [OF inv_CreateRemote], simp_all add: seedRemote_def, rule oks_bind [OF inv_WriteSync],
      rule oks_case_prod, rule oks_bind [OF oks_for [where I = "\<lambda>_ _. inv"]], rule inv_writeTag)
    (auto intro: oks_ret assms)

lemma inv_seedTx:
  assumes "\<And>mr mt rid. mr \<in> set (res_remotes res) \<Longrightarrow> mt \<in> set (mr_tags mr) \<Longrightarrow> ok_ref (firstRef rid mt)"
    and "\<And>mr mt ref n. mr \<in> set (res_remotes res) \<Longrightarrow> mt \<in> set (mr_tags mr) \<Longrightarrow> ok_ref ref \<Longrightarrow> ok_ref (finalRef ref mt n)"
  shows "oks inv (seedTx c res now tx) (\<lambda>_. inv)"
  unfolding seedTx_def
  by (rule oks_bind [OF inv_CountAllRemotes], intro oks_if oks_fail, rule oks_for [where I = "\<lambda>_ _. inv"],
      rule oks_case_prod, rule oks_bind [OF inv_writeRemote])
    (auto intro: oks_ret assms)

end

section \<open>The specification\<close>

definition event_entry :: "RemoteID \<Rightarrow> RefID \<Rightarrow> mergedEvent \<Rightarrow> entry" where
  "event_entry rid i e = (rid, i, me_eventType e, oid_Raw (me_fromOID e), oid_Raw (me_toOID e))"

definition event_recorded :: "RemoteID \<Rightarrow> RefID \<Rightarrow> mergedEvent \<Rightarrow> TaintEvent \<Rightarrow> bool" where
  "event_recorded rid i e t \<longleftrightarrow>
     te_RemoteID t = rid \<and> te_RefID t = i \<and> Some (te_Reason t) = me_taintReason e \<and>
     te_FromOID t = me_fromOID e \<and> te_ToOID t = me_toOID e"

definition events_added :: "RemoteID \<Rightarrow> RefID \<Rightarrow> mergedEvent list \<Rightarrow> view \<Rightarrow> view \<Rightarrow> bool" where
  "events_added rid i es v v' \<longleftrightarrow>
     v_refs v' = v_refs v \<and> v_log v' = v_log v @ map (event_entry rid i) es \<and> prefix (v_taints v) (v_taints v') \<and>
     (\<forall>e \<in> set es. me_taintReason e \<noteq> None \<longrightarrow> (\<exists>t \<in> set (v_taints v'). event_recorded rid i e t))"

text \<open>The row of an adopted tag, and the view once its row, genesis and events are written.\<close>

definition seeded_ref :: "RemoteID \<Rightarrow> mergedTag \<Rightarrow> RefID \<Rightarrow> Ref" where
  "seeded_ref rid mt i = finalRef ((firstRef rid mt)\<lparr>ref_ID := i\<rparr>) mt (wrap64 (1 + int (length (mt_events mt))))"

definition tag_seeded :: "RemoteID \<Rightarrow> mergedTag \<Rightarrow> view \<Rightarrow> view \<Rightarrow> bool" where
  "tag_seeded rid mt v v' \<longleftrightarrow>
     (\<exists>i. events_added rid i (mt_events mt)
        (put_ref (v\<lparr>v_log := v_log v @ [(rid, i, EventTagCreated, [], oid_Raw (mt_firstOID mt))]\<rparr>) rid (mt_name mt)
          (seeded_ref rid mt i)) v')"

inductive tags_seeded :: "RemoteID \<Rightarrow> mergedTag list \<Rightarrow> view \<Rightarrow> view \<Rightarrow> bool" for rid where
  no_tags: "tags_seeded rid [] v v"
| one_more_tag: "tags_seeded rid mts v v1 \<Longrightarrow> tag_seeded rid mt v1 v2 \<Longrightarrow> tags_seeded rid (mts @ [mt]) v v2"

type_synonym urls = "string \<rightharpoonup> RemoteID"

inductive remotes_seeded :: "mergedRemote list \<Rightarrow> view \<Rightarrow> urls \<Rightarrow> view \<Rightarrow> urls \<Rightarrow> bool" where
  no_remotes: "remotes_seeded [] v u v u"
| one_more_remote: "remotes_seeded mrs v u v1 u1 \<Longrightarrow> u1 (mr_normalizedURL mr) = None \<Longrightarrow> rid \<notin> ran u1 \<Longrightarrow>
    v_refs v1 rid = Map.empty \<Longrightarrow> tags_seeded rid (mr_tags mr) v1 v2 \<Longrightarrow>
    remotes_seeded (mrs @ [mr]) v u v2 (u1(mr_normalizedURL mr \<mapsto> rid))"

lemma seeded_ref_sel [simp]:
  "ref_ID (seeded_ref rid mt i) = i" "ref_RemoteID (seeded_ref rid mt i) = rid" "ref_TagName (seeded_ref rid mt i) = mt_name mt"
  "ref_FirstOID (seeded_ref rid mt i) = mt_firstOID mt" "ref_Tainted (seeded_ref rid mt i) = mt_tainted mt"
  "ref_FirstSeenNS (seeded_ref rid mt i) = mt_firstSeenNS mt" "ref_TaintFirstNS (seeded_ref rid mt i) = mt_taintFirstNS mt"
  "ref_Deleted (seeded_ref rid mt i) = mt_deleted mt"
  by (simp_all add: seeded_ref_def firstRef_def)

lemma tag_seeded_refs:
  "tag_seeded rid mt v v' \<Longrightarrow>
   \<exists>i. v_refs v' = (v_refs v)(rid := (v_refs v rid)(mt_name mt \<mapsto> seeded_ref rid mt i))"
  by (auto simp: tag_seeded_def events_added_def put_ref_def)

lemma tag_seeded_log:
  "tag_seeded rid mt v v' \<Longrightarrow> length (v_log v') = length (v_log v) + 1 + length (mt_events mt)"
  by (auto simp: tag_seeded_def events_added_def)

text \<open>The rows under a remote are the old ones and those of its merged tags, no others.\<close>

lemma tags_seeded_refs:
  assumes "tags_seeded rid mts v v'"
  shows "rid' \<noteq> rid \<Longrightarrow> v_refs v' rid' = v_refs v rid'"
    and "dom (v_refs v' rid) = dom (v_refs v rid) \<union> mt_name ` set mts"
    and "v_refs v' rid tag = Some r \<Longrightarrow> v_refs v rid tag = Some r \<or>
      (\<exists>mt \<in> set mts. \<exists>i. mt_name mt = tag \<and> r = seeded_ref rid mt i)"
    and "int (length (v_log v')) = int (length (v_log v)) + observations mts"
proof -
  have "(\<forall>rid'. rid' \<noteq> rid \<longrightarrow> v_refs v' rid' = v_refs v rid') \<and>
      dom (v_refs v' rid) = dom (v_refs v rid) \<union> mt_name ` set mts \<and>
      (\<forall>tag r. v_refs v' rid tag = Some r \<longrightarrow> v_refs v rid tag = Some r \<or>
        (\<exists>mt \<in> set mts. \<exists>i. mt_name mt = tag \<and> r = seeded_ref rid mt i)) \<and>
      int (length (v_log v')) = int (length (v_log v)) + observations mts"
    using assms
  proof (induction rule: tags_seeded.induct)
    case (one_more_tag mts v v1 mt v2)
    from tag_seeded_refs [OF one_more_tag.hyps(2)] obtain i where
      refs: "v_refs v2 = (v_refs v1)(rid := (v_refs v1 rid)(mt_name mt \<mapsto> seeded_ref rid mt i))" by blast
    then have "dom (v_refs v2 rid) = insert (mt_name mt) (dom (v_refs v1 rid))" by simp
    then have "dom (v_refs v2 rid) = dom (v_refs v rid) \<union> mt_name ` set (mts @ [mt])" using one_more_tag.IH by auto
    moreover have "v_refs v rid tag = Some r \<or> (\<exists>mt \<in> set (mts @ [mt]). \<exists>i. mt_name mt = tag \<and> r = seeded_ref rid mt i)"
      if "v_refs v2 rid tag = Some r" for tag r
      using that refs one_more_tag.IH by (auto split: if_splits)
    moreover have "v_refs v2 rid' = v_refs v rid'" if "rid' \<noteq> rid" for rid'
      using that refs one_more_tag.IH by simp
    moreover have "int (length (v_log v2)) = int (length (v_log v)) + observations (mts @ [mt])"
      using one_more_tag.IH tag_seeded_log [OF one_more_tag.hyps(2)] by (simp add: observations_def)
    ultimately show ?case by blast
  qed (simp add: observations_def)
  then show "rid' \<noteq> rid \<Longrightarrow> v_refs v' rid' = v_refs v rid'"
    "dom (v_refs v' rid) = dom (v_refs v rid) \<union> mt_name ` set mts"
    "v_refs v' rid tag = Some r \<Longrightarrow> v_refs v rid tag = Some r \<or>
      (\<exists>mt \<in> set mts. \<exists>i. mt_name mt = tag \<and> r = seeded_ref rid mt i)"
    "int (length (v_log v')) = int (length (v_log v)) + observations mts" by blast+
qed

lemma tags_seeded_in:
  assumes "tags_seeded rid mts v v'" and "distinct (map mt_name mts)" and "mt \<in> set mts"
  shows "\<exists>i. v_refs v' rid (mt_name mt) = Some (seeded_ref rid mt i)"
  using assms
proof (induction arbitrary: mt rule: tags_seeded.induct)
  case (one_more_tag mts v v1 mt' v2)
  from tag_seeded_refs [OF one_more_tag.hyps(2)] obtain i where
    v2: "v_refs v2 = (v_refs v1)(rid := (v_refs v1 rid)(mt_name mt' \<mapsto> seeded_ref rid mt' i))" by blast
  show ?case
  proof (cases "mt = mt'")
    case False
    with one_more_tag.prems have mem: "mt \<in> set mts" by simp
    moreover have "mt_name mt' \<notin> mt_name ` set mts" using one_more_tag.prems by simp
    then have "mt_name mt \<noteq> mt_name mt'" using mem by (metis image_eqI)
    ultimately show ?thesis using one_more_tag.IH [of mt] one_more_tag.prems v2 by simp
  qed (use v2 in auto)
qed simp

text \<open>Seeding an empty store: its rows are the merged facts, and all of them.\<close>

definition facts :: "mergedRemote list \<Rightarrow> urls \<Rightarrow> RemoteID \<Rightarrow> string \<Rightarrow> Ref \<Rightarrow> bool" where
  "facts mrs u rid tag r \<longleftrightarrow>
     (\<exists>mr \<in> set mrs. \<exists>mt \<in> set (mr_tags mr). \<exists>i.
        u (mr_normalizedURL mr) = Some rid \<and> mt_name mt = tag \<and> r = seeded_ref rid mt i)"

lemma remotes_seeded_refs:
  assumes "remotes_seeded mrs v u v' u'" and "v_refs v = (\<lambda>_. Map.empty)" and "u = Map.empty"
    and "\<forall>mr \<in> set mrs. distinct (map mt_name (mr_tags mr))"
  shows "v_refs v' rid tag = Some r \<Longrightarrow> facts mrs u' rid tag r"
    and "mr \<in> set mrs \<Longrightarrow> mt \<in> set (mr_tags mr) \<Longrightarrow>
      \<exists>rid i. u' (mr_normalizedURL mr) = Some rid \<and> v_refs v' rid (mt_name mt) = Some (seeded_ref rid mt i)"
    and "dom u' = mr_normalizedURL ` set mrs"
    and "int (length (v_log v')) = int (length (v_log v)) + all_observations mrs"
    and "distinct (map mr_normalizedURL mrs)"
proof -
  have "(\<forall>rid tag r. v_refs v' rid tag = Some r \<longrightarrow> facts mrs u' rid tag r) \<and>
      (\<forall>mr \<in> set mrs. \<forall>mt \<in> set (mr_tags mr).
        \<exists>rid i. u' (mr_normalizedURL mr) = Some rid \<and> v_refs v' rid (mt_name mt) = Some (seeded_ref rid mt i)) \<and>
      dom u' = mr_normalizedURL ` set mrs \<and>
      int (length (v_log v')) = int (length (v_log v)) + all_observations mrs \<and> distinct (map mr_normalizedURL mrs)"
    using assms
  proof (induction rule: remotes_seeded.induct)
    case (one_more_remote mrs v u v1 u1 mr rid v2)
    note IH = one_more_remote.IH [OF one_more_remote.prems(1,2)]
    have dist: "mr' \<in> set (mrs @ [mr]) \<Longrightarrow> distinct (map mt_name (mr_tags mr'))" for mr' using one_more_remote.prems(3) by blast
    have IH: "(\<forall>rid tag r. v_refs v1 rid tag = Some r \<longrightarrow> facts mrs u1 rid tag r) \<and>
      (\<forall>mr \<in> set mrs. \<forall>mt \<in> set (mr_tags mr).
        \<exists>rid i. u1 (mr_normalizedURL mr) = Some rid \<and> v_refs v1 rid (mt_name mt) = Some (seeded_ref rid mt i)) \<and>
      dom u1 = mr_normalizedURL ` set mrs \<and>
      int (length (v_log v1)) = int (length (v_log v)) + all_observations mrs \<and> distinct (map mr_normalizedURL mrs)"
      by (rule IH) (simp add: dist)
    note t = tags_seeded_refs [OF one_more_remote.hyps(5)]
    let ?u = "u1(mr_normalizedURL mr \<mapsto> rid)"
    have new: "mr_normalizedURL mr \<notin> mr_normalizedURL ` set mrs" using IH one_more_remote.hyps(2) by (metis domIff)
    have facts: "facts (mrs @ [mr]) ?u rid' tag r" if r: "v_refs v2 rid' tag = Some r" for rid' tag r
    proof (cases "rid' = rid")
      case True
      with r t(3) [of tag r] one_more_remote.hyps(4) show ?thesis by (auto simp: facts_def)
    next
      case False
      with r t(1) have "facts mrs u1 rid' tag r" using IH by simp
      with new show ?thesis unfolding facts_def by (metis fun_upd_other image_eqI in_set_conv_decomp_last append_Cons append_assoc in_set_butlast_appendI butlast_snoc)
    qed
    have all: "\<exists>rid' i. ?u (mr_normalizedURL mr') = Some rid' \<and> v_refs v2 rid' (mt_name mt) = Some (seeded_ref rid' mt i)"
      if mem: "mr' \<in> set (mrs @ [mr])" "mt \<in> set (mr_tags mr')" for mr' mt
    proof (cases "mr' \<in> set mrs")
      case True
      with IH mem obtain rid' i where "u1 (mr_normalizedURL mr') = Some rid'" "v_refs v1 rid' (mt_name mt) = Some (seeded_ref rid' mt i)" by blast
      moreover from this(1) have "rid' \<noteq> rid" using one_more_remote.hyps(3) by (metis ranI)
      moreover have "mr_normalizedURL mr' \<noteq> mr_normalizedURL mr" using True new by (metis image_eqI)
      ultimately show ?thesis using t(1) by (intro exI [of _ rid'] exI [of _ i]) simp
    next
      case False
      then have "mr' = mr" using mem by simp
      with tags_seeded_in [OF one_more_remote.hyps(5), of mt] dist [of mr] mem show ?thesis by auto
    qed
    have "dom ?u = mr_normalizedURL ` set (mrs @ [mr])" using IH by auto
    moreover have "int (length (v_log v2)) = int (length (v_log v)) + all_observations (mrs @ [mr])"
      using IH t(4) by (simp add: all_observations_def)
    moreover have "distinct (map mr_normalizedURL (mrs @ [mr]))" using IH new by simp
    ultimately show ?case using facts all by blast
  qed (simp add: all_observations_def)
  then show "v_refs v' rid tag = Some r \<Longrightarrow> facts mrs u' rid tag r"
    "mr \<in> set mrs \<Longrightarrow> mt \<in> set (mr_tags mr) \<Longrightarrow>
      \<exists>rid i. u' (mr_normalizedURL mr) = Some rid \<and> v_refs v' rid (mt_name mt) = Some (seeded_ref rid mt i)"
    "dom u' = mr_normalizedURL ` set mrs"
    "int (length (v_log v')) = int (length (v_log v)) + all_observations mrs"
    "distinct (map mr_normalizedURL mrs)" by blast+
qed

section \<open>The contract and the refinement\<close>

lemma events_added_snoc:
  assumes "events_added rid i es v v1"
    and "case me_taintReason e of
        None \<Rightarrow> v' = v1\<lparr>v_log := v_log v1 @ [event_entry rid i e]\<rparr>
      | Some reason \<Rightarrow> taint_added (v1\<lparr>v_log := v_log v1 @ [event_entry rid i e]\<rparr>)
          (taintEvent rid i reason k (me_fromOID e) (me_toOID e) ns) v'"
  shows "events_added rid i (es @ [e]) v v'"
  using assms
  by (fastforce simp: events_added_def taint_added_def same_taint_def taintEvent_def event_recorded_def split: option.splits)

text \<open>A condition on the view can be read as a fixed view that satisfies it.\<close>

lemma oks_at:
  assumes "\<And>x. Q x \<Longrightarrow> oks (\<lambda>t. I t \<and> f t = x) m R"
  shows "oks (\<lambda>t. I t \<and> Q (f t)) m R"
  using assms unfolding oks_def by blast

lemma wrap64_Suc: "wrap64 (wrap64 x + 1) = wrap64 (x + 1)"
proof -
  have "wrap64 (wrap64 x + 1) = ((x + 2 ^ 63) mod 2 ^ 64 + 1) mod 2 ^ 64 - 2 ^ 63"
    unfolding wrap64_def by (simp only: diff_add_eq diff_add_cancel add.commute [of "1 :: int" "2 ^ 63"] add.assoc) (simp add: add.commute)
  also have "\<dots> = (x + 2 ^ 63 + 1) mod 2 ^ 64 - 2 ^ 63" by (simp only: mod_add_left_eq)
  also have "\<dots> = wrap64 (x + 1)" by (simp add: wrap64_def algebra_simps)
  finally show ?thesis .
qed

locale seed_contract = tx_contract tx inv view_of for tx :: "'t Tx" and inv and view_of +
  fixes urls_of :: "'t \<Rightarrow> urls"
  assumes frame: "\<And>u. tx_invariant tx (\<lambda>t. urls_of t = u) (\<lambda>_. True)"
    and CreateRemote:
      "rem_ChainHeadHash r = replicate 32 0 \<Longrightarrow> rem_ChainLen r = 0 \<Longrightarrow>
       oks (\<lambda>t. inv t \<and> view_of t = v \<and> urls_of t = u) (tx_CreateRemote tx r)
         (\<lambda>rid t. inv t \<and> view_of t = v \<and> urls_of t = u(rem_NormalizedURL r \<mapsto> rid) \<and>
            u (rem_NormalizedURL r) = None \<and> rid \<notin> ran u \<and> v_refs v rid = Map.empty)"
    and CountAllRemotes:
      "oks (\<lambda>t. inv t \<and> view_of t = v \<and> urls_of t = u) (tx_CountAllRemotes tx)
         (\<lambda>n t. inv t \<and> view_of t = v \<and> urls_of t = u \<and> (n = 0 \<longleftrightarrow> u = Map.empty))"
begin

lemma append_entry:
  "oks (\<lambda>t. inv t \<and> view_of t = v) (tx_AppendObservation tx ob)
     (\<lambda>_ t. inv t \<and> view_of t = v\<lparr>v_log := v_log v @ [obs_entry ob]\<rparr>)"
  by (rule oks_weaken [OF AppendObservation]) auto

lemma writeEvent_adds:
  assumes "oid_storable (me_fromOID e)" and "oid_storable (me_toOID e)"
  shows "oks (\<lambda>t. inv t \<and> events_added rid i es v (view_of t)) (writeEvent tx rid i sid e n)
    (\<lambda>n' t. n' = wrap64 (n + 1) \<and> inv t \<and> events_added rid i (es @ [e]) v (view_of t))"
proof -
  have "oks (\<lambda>t. inv t \<and> view_of t = v1) (writeEvent tx rid i sid e n)
      (\<lambda>n' t. n' = wrap64 (n + 1) \<and> inv t \<and> events_added rid i (es @ [e]) v (view_of t))"
    if v1: "events_added rid i es v v1" for v1
    unfolding writeEvent_def
  proof (rule oks_bind [OF append_entry], rule oks_case_prod, rule oks_case_option, goal_cases)
    case (1 a sq ob)
    then show ?case by (auto intro!: oks_ret events_added_snoc [OF v1] simp: obs_entry_def event_entry_def)
  next
    case (2 a sq ob reason)
    then show ?case
      by (intro oks_bind [OF AppendTaintEvent] oks_ret)
        (auto simp: assms taintEvent_def obs_entry_def event_entry_def split: option.splits
          intro!: events_added_snoc [OF v1])
  qed
  then show ?thesis by (rule oks_at)
qed

lemma writeTag_seeds:
  assumes ok: "tag_ok mt" and new: "v_refs v rid (mt_name mt) = None"
  shows "oks (\<lambda>t. inv t \<and> view_of t = v) (writeTag tx rid sid mt) (\<lambda>_ t. inv t \<and> tag_seeded rid mt v (view_of t))"
proof -
  have first: "oks (\<lambda>t. inv t \<and> view_of t = v) (tx_UpsertRefProjection tx (firstRef rid mt))
      (\<lambda>ref t. \<exists>i. ref = (firstRef rid mt)\<lparr>ref_ID := i\<rparr> \<and> inv t \<and> view_of t = put_ref v rid (mt_name mt) ref)"
    by (rule oks_weaken [OF UpsertRefProjection [OF firstRef_storable [OF ok]]])
      (auto simp: upserted_def merge_ref_def Let_def firstRef_def new)
  let ?ref = "\<lambda>i. (firstRef rid mt)\<lparr>ref_ID := i\<rparr>"
  let ?v = "\<lambda>i. (put_ref v rid (mt_name mt) (?ref i))\<lparr>v_log := v_log v @ [(rid, i, EventTagCreated, [], oid_Raw (mt_firstOID mt))]\<rparr>"
  have events: "oks (\<lambda>t. inv t \<and> view_of t = ?v i) (forT (mt_events mt) 1 (writeEvent tx rid i sid))
      (\<lambda>n t. n = wrap64 (1 + int (length (mt_events mt))) \<and> inv t \<and> events_added rid i (mt_events mt) (?v i) (view_of t))" for i
  proof (rule oks_weaken [OF oks_for [where I = "\<lambda>es n t. n = wrap64 (1 + int (length es)) \<and> inv t \<and> events_added rid i es (?v i) (view_of t)"]], goal_cases)
    case (1 ys e zs n)
    with ok have "oid_storable (me_fromOID e)" "oid_storable (me_toOID e)" by (auto simp: tag_ok_def)
    note w = writeEvent_adds [OF this, of rid i ys "?v i" sid]
    have "wrap64 (wrap64 (1 + int (length ys)) + 1) = wrap64 (1 + int (length (ys @ [e])))"
      unfolding wrap64_Suc by (simp add: algebra_simps)
    then show ?case by (intro oks_pull oks_weaken [OF w]) auto
  qed (auto simp: events_added_def in_int64_def)
  have last: "oks (\<lambda>t. inv t \<and> events_added rid i (mt_events mt) (?v i) (view_of t))
      (tx_UpsertRefProjection tx (finalRef (?ref i) mt (wrap64 (1 + int (length (mt_events mt))))))
      (\<lambda>_ t. inv t \<and> tag_seeded rid mt v (view_of t))" for i
  proof (rule oks_at [where f = view_of])
    fix v1
    assume v1: "events_added rid i (mt_events mt) (?v i) v1"
    have "ref_storable (?ref i)" using firstRef_storable [OF ok] by (simp add: ref_storable_def)
    note st = finalRef_storable [OF ok this]
    have old: "v_refs v1 rid (mt_name mt) = Some (?ref i)" using v1 by (simp add: events_added_def)
    have "tag_seeded rid mt v (put_ref v1 rid (mt_name mt) (seeded_ref rid mt i))"
      using v1 unfolding tag_seeded_def by (intro exI [of _ i]) (auto simp: events_added_def put_ref_def)
    then show "oks (\<lambda>t. inv t \<and> view_of t = v1)
        (tx_UpsertRefProjection tx (finalRef (?ref i) mt (wrap64 (1 + int (length (mt_events mt))))))
        (\<lambda>_ t. inv t \<and> tag_seeded rid mt v (view_of t))"
      by (intro oks_weaken [OF UpsertRefProjection [OF st]])
        (auto simp: upserted_def merge_finalRef Let_def old seeded_ref_def)
  qed
  show ?thesis
    unfolding writeTag_def
  proof (rule oks_bind [OF first], rule oks_ex, rule oks_pull, rule oks_bind [OF append_entry])
    fix ref i
    assume ref: "ref = ?ref i"
    show "oks (\<lambda>t. inv t \<and> view_of t = (put_ref v rid (mt_name mt) ref)\<lparr>v_log := v_log (put_ref v rid (mt_name mt) ref) @
        [obs_entry (zeroObservation\<lparr>obs_RemoteID := rid, obs_RefID := ref_ID ref, obs_SyncID := sid,
          obs_EventType := EventTagCreated, obs_NewOID := mt_firstOID mt, obs_NewPeeledOID := mt_genesisPeeledOID mt,
          obs_ObservedAtNS := mt_firstSeenNS mt\<rparr>)]\<rparr>)
      (bindT (forT (mt_events mt) 1 (writeEvent tx rid (ref_ID ref) sid)) (\<lambda>obsCount.
         bindT (tx_UpsertRefProjection tx (finalRef ref mt obsCount)) (\<lambda>_. ret ())))
      (\<lambda>_ t. inv t \<and> tag_seeded rid mt v (view_of t))"
      by (simp add: ref obs_entry_def zeroObservation_def zeroOID_def)
        (rule oks_bind [OF events], rule oks_pull, simp, rule oks_bind [OF last oks_ret])
  qed
qed

lemma writeTag_urls: "oks (\<lambda>t. urls_of t = u) (writeTag tx rid sid mt) (\<lambda>_ t. urls_of t = u)"
  by (rule tx_invariant.inv_writeTag [OF frame]) simp_all

lemma writeTags_seed:
  assumes ok: "\<And>mt. mt \<in> set mts \<Longrightarrow> tag_ok mt" and dist: "distinct (map mt_name mts)" and fresh: "v_refs v rid = Map.empty"
  shows "oks (\<lambda>t. inv t \<and> view_of t = v \<and> urls_of t = u) (forT mts () (\<lambda>mt _. writeTag tx rid sid mt))
    (\<lambda>_ t. inv t \<and> tags_seeded rid mts v (view_of t) \<and> urls_of t = u)"
proof (rule oks_weaken [OF oks_for [where I = "\<lambda>mts _ t. inv t \<and> tags_seeded rid mts v (view_of t) \<and> urls_of t = u"]], goal_cases)
  case (1 ys mt zs x)
  have "oks (\<lambda>t. inv t \<and> view_of t = v1) (writeTag tx rid sid mt) (\<lambda>_ t. inv t \<and> tags_seeded rid (ys @ [mt]) v (view_of t))"
    if "tags_seeded rid ys v v1" for v1
  proof -
    have "mt_name mt \<notin> dom (v_refs v1 rid)" using tags_seeded_refs(2) [OF that] dist fresh 1 by auto
    then have new: "v_refs v1 rid (mt_name mt) = None" by blast
    have "tag_ok mt" using ok 1 by simp
    with new that show ?thesis by (intro oks_weaken [OF writeTag_seeds]) (auto intro: one_more_tag)
  qed
  from oks_at [where f = view_of, OF this] writeTag_urls [of u rid sid mt] show ?case
    unfolding oks_def by blast
qed (auto intro: no_tags)

lemma writeRemote_seeds:
  assumes ok: "\<And>mt. mt \<in> set (mr_tags mr) \<Longrightarrow> tag_ok mt" and dist: "distinct (map mt_name (mr_tags mr))"
  shows "oks (\<lambda>t. inv t \<and> remotes_seeded mrs v0 u0 (view_of t) (urls_of t)) (writeRemote c tx now mr)
    (\<lambda>_ t. inv t \<and> remotes_seeded (mrs @ [mr]) v0 u0 (view_of t) (urls_of t))"
proof -
  have sync: "oks (\<lambda>t. inv t \<and> view_of t = v \<and> urls_of t = u) (tx_WriteSync tx s)
      (\<lambda>_ t. inv t \<and> view_of t = v \<and> urls_of t = u)" for v u s
    using WriteSync [of v s] tx_invariant.inv_WriteSync [OF frame, of u s] unfolding oks_def by blast
  have "oks (\<lambda>t. inv t \<and> view_of t = v \<and> urls_of t = u) (writeRemote c tx now mr)
      (\<lambda>_ t. inv t \<and> remotes_seeded (mrs @ [mr]) v0 u0 (view_of t) (urls_of t))"
    if vu: "remotes_seeded mrs v0 u0 v u" for v u
    unfolding writeRemote_def
  proof (rule oks_bind [OF CreateRemote [of "seedRemote c mr now" v u]], goal_cases)
    case (3 rid)
    have "oks (\<lambda>t. inv t \<and> view_of t = v \<and> urls_of t = u(mr_normalizedURL mr \<mapsto> rid))
      (bindT (tx_WriteSync tx s) (\<lambda>(sid, _). bindT (forT (mr_tags mr) () (\<lambda>mt _. writeTag tx rid sid mt)) (\<lambda>_. ret n)))
      (\<lambda>_ t. inv t \<and> remotes_seeded (mrs @ [mr]) v0 u0 (view_of t) (urls_of t))"
      if "u (mr_normalizedURL mr) = None" "rid \<notin> ran u" "v_refs v rid = Map.empty" for s and n :: int64
      by (rule oks_bind [OF sync], rule oks_case_prod, rule oks_bind [OF writeTags_seed], rule ok)
        (use dist that vu in \<open>auto intro!: oks_ret intro: one_more_remote\<close>)
    moreover have "rem_NormalizedURL (seedRemote c mr now) = mr_normalizedURL mr" by (simp add: seedRemote_def)
    ultimately show ?case unfolding oks_def by metis
  qed (simp_all add: seedRemote_def)
  then show ?thesis unfolding oks_def by blast
qed

text \<open>A successful seeding started from no remotes and adds the merged ones.\<close>

lemma seedTx_seeds:
  assumes "\<And>mr mt. mr \<in> set (res_remotes res) \<Longrightarrow> mt \<in> set (mr_tags mr) \<Longrightarrow> tag_ok mt"
    and "\<And>mr. mr \<in> set (res_remotes res) \<Longrightarrow> distinct (map mt_name (mr_tags mr))"
  shows "oks (\<lambda>t. inv t \<and> view_of t = v \<and> urls_of t = u) (seedTx c res now tx)
    (\<lambda>_ t. inv t \<and> u = Map.empty \<and> remotes_seeded (res_remotes res) v u (view_of t) (urls_of t) \<and>
       int (length (res_remotes res)) \<le> cfg_SeedMaxRemotes c \<and> res_totalObs res \<le> cfg_SeedMaxObservations c)"
proof -
  have "oks (\<lambda>t. inv t \<and> remotes_seeded [] v u (view_of t) (urls_of t))
      (forT (res_remotes res) a (\<lambda>mr (r, n). bindT (writeRemote c tx now mr) (\<lambda>k. ret (wrap64 (r + 1), wrap64 (n + k)))))
      (\<lambda>_ t. inv t \<and> remotes_seeded (res_remotes res) v u (view_of t) (urls_of t))" for a
  proof (rule oks_for [where I = "\<lambda>mrs _ t. inv t \<and> remotes_seeded mrs v u (view_of t) (urls_of t)"])
    fix ys mr zs a
    assume "res_remotes res = ys @ mr # zs"
    then have "mr \<in> set (res_remotes res)" by simp
    with assms show "oks (\<lambda>t. inv t \<and> remotes_seeded ys v u (view_of t) (urls_of t))
        (case a of (r, n) \<Rightarrow> bindT (writeRemote c tx now mr) (\<lambda>k. ret (wrap64 (r + 1), wrap64 (n + k))))
        (\<lambda>_ t. inv t \<and> remotes_seeded (ys @ [mr]) v u (view_of t) (urls_of t))"
      by (intro oks_case_prod oks_bind [OF writeRemote_seeds] oks_ret) auto
  qed
  then have loop: "oks (\<lambda>t. inv t \<and> view_of t = v \<and> urls_of t = u)
      (forT (res_remotes res) a (\<lambda>mr (r, n). bindT (writeRemote c tx now mr) (\<lambda>k. ret (wrap64 (r + 1), wrap64 (n + k)))))
      (\<lambda>_ t. inv t \<and> remotes_seeded (res_remotes res) v u (view_of t) (urls_of t))" for a
    by (rule oks_weaken) (auto intro: no_remotes)
  show ?thesis
    unfolding seedTx_def
    by (rule oks_bind [OF CountAllRemotes], intro oks_if oks_fail)
      (use loop in \<open>force simp: oks_def\<close>)
qed

end

end
