(* ===== verification/Seed_Store.thy ===== *)
theory Seed_Store
  imports Seed_Contract Api_Server
begin

text \<open>
  Seeding a SQLite store: the contracts of \<open>Seed_Contract\<close> hold of it, so \<open>Run\<close> keeps the database
  consistent and its record append-only, does nothing to a store that has remotes, and otherwise
  commits the merged facts completely or not at all.
\<close>

section \<open>The contracts are fulfilled\<close>

lemma sqliteTx_Tx_seed_sel [simp]:
  "tx_CreateRemote sqliteTx_Tx = sqliteTx_CreateRemote" "tx_CountAllRemotes sqliteTx_Tx = sqliteTx_CountAllRemotes"
  by (simp_all add: sqliteTx_Tx_def)

lemma oks_CountAllRemotes:
  "(\<And>t. P t \<Longrightarrow> Q (int (length (t_remotes (stx_q t)))) t) \<Longrightarrow> oks P sqliteTx_CountAllRemotes Q"
  unfolding sqliteTx_CountAllRemotes_def by (rule oks_txq) (auto simp: sqlc_CountAllRemotes_def)

lemma oks_CreateRemote:
  assumes "\<And>t row d'. P t \<Longrightarrow> sqlc_CreateRemote (createRemoteParams r) (stx_q t) = Inr (row, d') \<Longrightarrow>
      Q (Rrem_ID row) (t\<lparr>stx_q := d'\<rparr>)"
  shows "oks P (sqliteTx_CreateRemote r) Q"
  unfolding sqliteTx_CreateRemote_def
  by (rule oks_bind [OF oks_mapErr [OF oks_txq [where Q = "\<lambda>row. Q (Rrem_ID row)"]]]) (use assms in \<open>auto intro: oks_ret\<close>)

lemma createRemoteParams_sel [simp]:
  "Prem_NormalizedUrl (createRemoteParams r) = rem_NormalizedURL r" "Prem_ChainLen (createRemoteParams r) = rem_ChainLen r"
  "Prem_ChainHeadHash (createRemoteParams r) = rem_ChainHeadHash r"
  by (simp_all add: createRemoteParams_def)

lemma admin_createRemoteParams:
  assumes "sqlc_CreateRemote (createRemoteParams r) d = Inr (row, d')"
    and "rem_ChainHeadHash r = replicate 32 0" and "rem_ChainLen r = 0"
  shows "admin d d'"
  by (rule admin_CreateRemote [OF assms(1)]) (simp_all add: genesis_def ChainHashLen_def assms)

interpretation sqlite_ok: tx_invariant sqliteTx_Tx "\<lambda>t. sync_ok (stx_q t)" ref_ok
  using tx_invariant_conj [OF sqlite_ledger.tx_invariant_axioms sqlite_rows.tx_invariant_axioms] by (simp add: sync_ok_def)

interpretation sqlite_seed_ok: seed_invariant sqliteTx_Tx "\<lambda>t. sync_ok (stx_q t)" ref_ok
proof
  show "oks (\<lambda>t. sync_ok (stx_q t)) (tx_CreateRemote sqliteTx_Tx r) (\<lambda>_ t. sync_ok (stx_q t))"
    if "rem_ChainHeadHash r = replicate 32 0" "rem_ChainLen r = 0" for r
    unfolding sqliteTx_Tx_seed_sel
    by (rule oks_CreateRemote) (use admin_createRemoteParams that in \<open>auto simp: admin_def\<close>)
  show "oks (\<lambda>t. sync_ok (stx_q t)) (tx_CountAllRemotes sqliteTx_Tx) (\<lambda>_ t. sync_ok (stx_q t))"
    by (simp add: oks_CountAllRemotes)
qed

interpretation sqlite_seed_history: seed_invariant sqliteTx_Tx "\<lambda>t. history d0 (stx_q t)" "\<lambda>_. True" for d0
proof
  show "oks (\<lambda>t. history d0 (stx_q t)) (tx_CreateRemote sqliteTx_Tx r) (\<lambda>_ t. history d0 (stx_q t))"
    if "rem_ChainHeadHash r = replicate 32 0" "rem_ChainLen r = 0" for r
    unfolding sqliteTx_Tx_seed_sel
    by (rule oks_CreateRemote) (use admin_createRemoteParams that in \<open>auto simp: admin_def intro: history_trans\<close>)
  show "oks (\<lambda>t. history d0 (stx_q t)) (tx_CountAllRemotes sqliteTx_Tx) (\<lambda>_ t. history d0 (stx_q t))"
    by (simp add: oks_CountAllRemotes)
qed

text \<open>The remotes of a database by normalized URL.\<close>

definition db_urls :: "db \<Rightarrow> urls" where
  "db_urls d = map_of (map (\<lambda>r. (Rrem_NormalizedUrl r, Rrem_ID r)) (t_remotes d))"

lemma db_urls_in: "db_urls d u = Some i \<Longrightarrow> \<exists>row \<in> set (t_remotes d). Rrem_NormalizedUrl row = u \<and> Rrem_ID row = i"
  unfolding db_urls_def by (drule map_of_SomeD) auto

lemma db_urls_None: "db_urls d u = None \<longleftrightarrow> u \<notin> Rrem_NormalizedUrl ` set (t_remotes d)"
  by (simp add: db_urls_def map_of_eq_None_iff image_image)

lemma db_urls_empty: "db_urls d = Map.empty \<longleftrightarrow> t_remotes d = []"
  by (simp add: db_urls_def)

lemma db_urls_same: "t_remotes d' = t_remotes d \<Longrightarrow> db_urls d' = db_urls d"
  by (simp add: db_urls_def)

lemma db_urls_append_db: "db_urls (append_db d ob sid h n) = db_urls d"
proof -
  have "map (\<lambda>r. (Rrem_NormalizedUrl r, Rrem_ID r)) (update_where P (\<lambda>r. r\<lparr>Rrem_ChainHeadHash := a, Rrem_ChainLen := b\<rparr>) rs) =
      map (\<lambda>r. (Rrem_NormalizedUrl r, Rrem_ID r)) rs" for P a b and rs :: "RemoteRow list"
    by (simp add: update_where_def)
  then show ?thesis by (simp add: db_urls_def append_db_def)
qed

interpretation sqlite_urls: tx_invariant sqliteTx_Tx "\<lambda>t. db_urls (stx_q t) = u" "\<lambda>_. True" for u
proof
  show "oks (\<lambda>t. db_urls (stx_q t) = u) (tx_UpsertRefProjection sqliteTx_Tx ref) (\<lambda>ref' t. True \<and> db_urls (stx_q t) = u)" for ref
    unfolding sqliteTx_Tx_sel
    by (rule oks_weaken [OF oks_UpsertRefProjection [where P = "\<lambda>d. db_urls d = u" and Q = "\<lambda>_ d. db_urls d = u"]])
      (auto simp: sqlc_UpsertRef_def Let_def db_urls_def split: option.splits if_splits)
  show "oks (\<lambda>t. db_urls (stx_q t) = u) (tx_AppendTaintEvent sqliteTx_Tx e) (\<lambda>_ t. db_urls (stx_q t) = u)" for e
    unfolding sqliteTx_Tx_sel sqliteTx_AppendTaintEvent_def
    by (rule oks_txq) (auto simp: sqlc_InsertTaintEvent_def Let_def db_urls_def split: if_splits option.splits)
  show "oks (\<lambda>t. db_urls (stx_q t) = u) (tx_PruneSyncs sqliteTx_Tx i n) (\<lambda>_ t. db_urls (stx_q t) = u)" for i n
    unfolding sqliteTx_Tx_sel sqliteTx_PruneSyncs_def
    by (rule oks_txq) (auto simp: sqlc_PruneSyncs_def db_urls_def Let_def split: if_splits)
  show "oks (\<lambda>t. db_urls (stx_q t) = u) (tx_WriteSync sqliteTx_Tx s) (\<lambda>_ t. db_urls (stx_q t) = u)" for s
    unfolding sqliteTx_Tx_sel sqliteTx_WriteSync_def
    by (rule oks_bind [OF oks_txq [where Q = "\<lambda>_ t. db_urls (stx_q t) = u"]
          oks_bind [OF oks_modifyT [where Q = "\<lambda>_ t. db_urls (stx_q t) = u"] oks_ret]])
      (auto simp: sqlc_InsertSync_def Let_def db_urls_def split: if_splits)
  show "oks (\<lambda>t. db_urls (stx_q t) = u) (tx_AppendObservation sqliteTx_Tx ob) (\<lambda>_ t. db_urls (stx_q t) = u)" for ob
    unfolding sqliteTx_Tx_sel
  proof (rule oksI)
    fix w a w'
    assume p: "db_urls (stx_q (w_db w)) = u" and run: "sqliteTx_AppendObservation ob w = (Inr a, w')"
    obtain sq ob' where a: "a = (sq, ob')" by (cases a)
    from run [unfolded a] refl refl obtain h n where
      "w_db w' = (w_db w)\<lparr>stx_q := append_db (stx_q (w_db w)) ob' (effective_sync ob (stx_syncID (w_db w))) h n\<rparr>"
      by (rule AppendObservation_Inr)
    with p show "db_urls (stx_q (w_db w')) = u" by (simp add: db_urls_append_db)
  qed
qed simp

lemma CreateRemote_urls:
  assumes ok: "db_ok d" and run: "sqlc_CreateRemote arg d = Inr (row, d')"
  shows "db_urls d' = (db_urls d)(Prem_NormalizedUrl arg \<mapsto> Rrem_ID row)" and "db_urls d (Prem_NormalizedUrl arg) = None"
    and "Rrem_ID row \<notin> ran (db_urls d)" and "db_view d' = db_view d" and "v_refs (db_view d) (Rrem_ID row) = Map.empty"
proof -
  note d' = CreateRemote_rows(1) [OF run] and row = CreateRemote_rows(2,3) [OF run] and uniq = CreateRemote_rows(6) [OF run]
  show new: "db_urls d (Prem_NormalizedUrl arg) = None" using uniq by (simp add: db_urls_None)
  then show "db_urls d' = (db_urls d)(Prem_NormalizedUrl arg \<mapsto> Rrem_ID row)"
    by (auto simp: d' db_urls_def row map_add_def fun_eq_iff split: option.splits)
  have fresh: "\<not> remote_exists d (Rrem_ID row)"
    using fresh_remote [OF ok] row(1) by simp
  then show "Rrem_ID row \<notin> ran (db_urls d)" by (auto simp: ran_def remote_exists_def list_ex_iff dest!: db_urls_in)
  show "db_view d' = db_view d" by (rule db_view_cong) (simp_all add: d')
  have "ref_at d (Rrem_ID row) tag = None" for tag
    using ok fresh by (auto simp: ref_at_def find_None_iff db_ok_defs)
  then show "v_refs (db_view d) (Rrem_ID row) = Map.empty" by (simp add: db_view_def fun_eq_iff)
qed

interpretation sqlite_seed: seed_contract sqliteTx_Tx tx_ledger_ok "\<lambda>t. db_view (stx_q t)" "\<lambda>t. db_urls (stx_q t)"
proof (intro seed_contract.intro seed_contract_axioms.intro)
  show "tx_contract sqliteTx_Tx tx_ledger_ok (\<lambda>t. db_view (stx_q t))" by (rule sqlite.tx_contract_axioms)
  show "tx_invariant sqliteTx_Tx (\<lambda>t. db_urls (stx_q t) = u) (\<lambda>_. True)" for u
    by (rule sqlite_urls.tx_invariant_axioms)
next
  fix r :: Remote and v u
  assume g: "rem_ChainHeadHash r = replicate 32 0" "rem_ChainLen r = 0"
  have keep: "oks (\<lambda>t. tx_ledger_ok t) (sqliteTx_CreateRemote r) (\<lambda>_ t. tx_ledger_ok t)"
    by (rule oks_CreateRemote)
      (use ledger_CreateRemote [where arg = "createRemoteParams r"] g in \<open>simp add: genesis_def ChainHashLen_def\<close>)
  have new: "oks (\<lambda>t. tx_ledger_ok t \<and> db_view (stx_q t) = v \<and> db_urls (stx_q t) = u) (sqliteTx_CreateRemote r)
      (\<lambda>rid t. db_view (stx_q t) = v \<and> db_urls (stx_q t) = u(rem_NormalizedURL r \<mapsto> rid) \<and>
         u (rem_NormalizedURL r) = None \<and> rid \<notin> ran u \<and> v_refs v rid = Map.empty)"
  proof (rule oks_CreateRemote)
    fix t row d'
    assume t: "tx_ledger_ok t \<and> db_view (stx_q t) = v \<and> db_urls (stx_q t) = u"
      and run: "sqlc_CreateRemote (createRemoteParams r) (stx_q t) = Inr (row, d')"
    from t have "db_ok (stx_q t)" by (simp add: ledger_ok_def)
    from CreateRemote_urls [OF this run] t
    show "db_view (stx_q (t\<lparr>stx_q := d'\<rparr>)) = v \<and> db_urls (stx_q (t\<lparr>stx_q := d'\<rparr>)) = u(rem_NormalizedURL r \<mapsto> Rrem_ID row) \<and>
         u (rem_NormalizedURL r) = None \<and> Rrem_ID row \<notin> ran u \<and> v_refs v (Rrem_ID row) = Map.empty"
      by simp
  qed
  show "oks (\<lambda>t. tx_ledger_ok t \<and> db_view (stx_q t) = v \<and> db_urls (stx_q t) = u) (tx_CreateRemote sqliteTx_Tx r)
      (\<lambda>rid t. tx_ledger_ok t \<and> db_view (stx_q t) = v \<and> db_urls (stx_q t) = u(rem_NormalizedURL r \<mapsto> rid) \<and>
         u (rem_NormalizedURL r) = None \<and> rid \<notin> ran u \<and> v_refs v rid = Map.empty)"
    unfolding sqliteTx_Tx_seed_sel by (rule oks_conj [OF oks_weaken [OF keep] new]) simp_all
next
  fix v u
  show "oks (\<lambda>t. tx_ledger_ok t \<and> db_view (stx_q t) = v \<and> db_urls (stx_q t) = u) (tx_CountAllRemotes sqliteTx_Tx)
      (\<lambda>n t. tx_ledger_ok t \<and> db_view (stx_q t) = v \<and> db_urls (stx_q t) = u \<and> (n = 0 \<longleftrightarrow> u = Map.empty))"
    unfolding sqliteTx_Tx_seed_sel by (rule oks_CountAllRemotes) (use db_urls_empty in auto)
qed

section \<open>The write\<close>

lemma adoptedTags_names:
  "distinct names \<Longrightarrow> distinct (map mt_name (adoptedTags order hexUni quorum url tagViews names)) \<and>
   mt_name ` set (adoptedTags order hexUni quorum url tagViews names) \<subseteq> set names"
proof (induction names)
  case (Cons name names)
  let ?tags = "adoptedTags order hexUni quorum url tagViews"
  show ?case
  proof (cases "mergeTag order hexUni url name (lookupList tagViews name) quorum")
    case (Inl q)
    then have "?tags (name # names) = ?tags names" by (simp add: adoptedTags_def)
    with Cons show ?thesis by auto
  next
    case (Inr mt)
    then have "?tags (name # names) = mt # ?tags names" by (simp add: adoptedTags_def)
    moreover from Inr have "mt_name mt = name" by (rule mergeTag_Inr)
    ultimately show ?thesis using Cons by auto
  qed
qed (simp add: adoptedTags_def)

lemma viewTags_distinct: "distinct (map fst m) \<Longrightarrow> distinct (map fst (viewTags v m))"
proof -
  have "distinct (map fst m) \<Longrightarrow> distinct (map fst (foldl (\<lambda>m t. addTo (wt_TagName t) (f t) m) m ts))" for f :: "wireTag \<Rightarrow> taggedView" and ts
    by (induction ts arbitrary: m) (simp_all add: addTo_keys(2))
  then show "distinct (map fst m) \<Longrightarrow> distinct (map fst (viewTags v m))" by (simp add: viewTags_def)
qed

lemma merged_tags:
  assumes "mr \<in> set (res_remotes (mergeQuorum order hexUni byURL quorum))"
  shows "distinct (map mt_name (mr_tags mr))" and "mt \<in> set (mr_tags mr) \<Longrightarrow> tag_ok mt"
proof -
  have "distinct (map fst m) \<Longrightarrow> distinct (map fst (foldl (\<lambda>m v. viewTags v m) m views))" for m views
    by (induction views arbitrary: m) (simp_all add: viewTags_distinct)
  from this [of "[]"] assms show "distinct (map mt_name (mr_tags mr))"
    by (auto simp: mergeQuorum_remotes adoptedRemote_def Let_def intro!: adoptedTags_names [THEN conjunct1])
  show "mt \<in> set (mr_tags mr) \<Longrightarrow> tag_ok mt" using adopted_tag(2) [OF assms] mergeTag_ok by blast
qed

lemma ref_ok_seed:
  "tag_ok mt \<Longrightarrow> ref_ok (firstRef rid mt)" "tag_ok mt \<Longrightarrow> ref_ok ref \<Longrightarrow> ref_ok (finalRef ref mt n)"
  using firstRef_storable [of mt rid] finalRef_storable [of mt ref n]
  by (auto simp: ref_ok_def tag_ok_def firstRef_def)

text \<open>What a committed seeding did to a database.\<close>

definition seeded :: "SeedConfig \<Rightarrow> mergeResult \<Rightarrow> db \<Rightarrow> db \<Rightarrow> bool" where
  "seeded c res d d' \<longleftrightarrow>
     sync_ok d' \<and> history d d' \<and> t_remotes d = [] \<and> (\<forall>mr \<in> set (res_remotes res). distinct (map mt_name (mr_tags mr))) \<and>
     remotes_seeded (res_remotes res) (db_view d) (db_urls d) (db_view d') (db_urls d') \<and>
     int (length (res_remotes res)) \<le> cfg_SeedMaxRemotes c \<and> res_totalObs res \<le> cfg_SeedMaxObservations c"

lemma seedWrite_seeds:
  assumes res: "res = mergeQuorum order hexUni byURL quorum"
  shows "oks (\<lambda>d. sync_ok d \<and> d = d0) (seedWrite sqliteStore c res) (\<lambda>_. seeded c res d0)"
proof -
  note tags = merged_tags [of _ order hexUni byURL quorum, folded res]
  have ok: "oks (\<lambda>t. sync_ok (stx_q t)) (seedTx c res now sqliteTx_Tx) (\<lambda>_ t. sync_ok (stx_q t))" for now
    by (rule sqlite_seed_ok.inv_seedTx) (use tags ref_ok_seed in blast)+
  have hist: "oks (\<lambda>t. history d0 (stx_q t)) (seedTx c res now sqliteTx_Tx) (\<lambda>_ t. history d0 (stx_q t))" for now
    by (rule sqlite_seed_history.inv_seedTx) simp_all
  note seeds = sqlite_seed.seedTx_seeds [where res = res and v = "db_view d0" and u = "db_urls d0", OF tags(2) tags(1)]
  have "oks (\<lambda>d. sync_ok d \<and> d = d0) (sqliteStore_WithTx (seedTx c res now))
    (\<lambda>_ d. seeded c res d0 d \<and> sync_fk_ok d)" for now
    by (rule WithTx_oks, rule oks_weaken [OF oks_both [OF oks_both [OF ok hist] seeds]])
      (use tags(1) in \<open>auto simp: history_refl sync_ok_def db_urls_empty seeded_def\<close>)
  then have "oks (\<lambda>d. sync_ok d \<and> d = d0) (st_WithTx sqliteStore (seedTx c res now)) (\<lambda>_. seeded c res d0)" for now
    by (auto simp: sqliteStore_def intro: oks_weaken)
  then show ?thesis unfolding seedWrite_def by (rule oks_bind [OF oks_NowNS, rotated])
qed

lemma seedWrite_fails: "seedWrite sqliteStore c res w = (Inl e, w') \<Longrightarrow> w_db w' = w_db w"
  by (auto simp: seedWrite_def bindT_def NowNS_def sqliteStore_def dest: WithTx_Inl)

section \<open>Run\<close>

text \<open>\<open>Run\<close> never fails; it changes nothing, or it commits the merge of what the peers reported.\<close>

lemma Run_cases:
  fixes order hexUni lib arriveP arriveR c net
  defines "byURL \<equiv> fst (fetchAll lib arriveP arriveR c net (peerURLs c))"
  defines "res \<equiv> mergeQuorum order hexUni byURL (cfg_SeedQuorum c)"
  assumes ok: "sync_ok (w_db w)" and run: "Run order hexUni lib arriveP arriveR sqliteStore c net w = (r, w')"
  shows "r = Inr ()" and "w_db w' = w_db w \<or> SeedEnabled c \<and> seeded c res (w_db w) (w_db w')"
proof -
  obtain n w1 where n: "sqliteStore_CountAllRemotes w = (n, w1)" by (cases "sqliteStore_CountAllRemotes w")
  have w1: "w_db w1 = w_db w"
    using n by (auto simp: sqliteStore_CountAllRemotes_def stmt_def sqlc_CountAllRemotes_def Let_def split: if_splits)
  obtain x w2 where x: "seedWrite sqliteStore c res w1 = (x, w2)" by (cases "seedWrite sqliteStore c res w1")
  have w2: "w_db w2 = w_db w \<or> seeded c res (w_db w) (w_db w2)"
  proof (cases x)
    case (Inl e)
    then show ?thesis using seedWrite_fails [of c res w1 e w2] x w1 by simp
  next
    case (Inr a)
    with oksD [OF seedWrite_seeds [OF res_def [THEN meta_eq_to_obj_eq], of "w_db w" c], of w1 a w2] x w1 ok show ?thesis by simp
  qed
  have "r = Inr () \<and> (w_db w' = w_db w \<or> SeedEnabled c \<and> w' = w2)"
    using run n x w1 unfolding Run_def res_def byURL_def
    by (auto simp: bindT_def tryT_def ret_def sqliteStore_def Let_def split: if_splits sum.splits prod.splits)
  with w2 show "r = Inr ()" "w_db w' = w_db w \<or> SeedEnabled c \<and> seeded c res (w_db w) (w_db w')" by auto
qed

section \<open>What a seeded store holds\<close>

lemma no_remotes_no_rows:
  assumes "db_ok d" and "t_remotes d = []"
  shows "t_observations d = []" and "v_refs (db_view d) = (\<lambda>_. Map.empty)"
proof -
  from assms have none: "t_refs d = []" "t_observations d = []"
    by (auto simp: db_ok_defs remote_exists_def intro: ccontr)
  then show "t_observations d = []" "v_refs (db_view d) = (\<lambda>_. Map.empty)"
    by (simp_all add: db_view_def ref_at_def fun_eq_iff)
qed

lemma seeded_rows:
  assumes "db_ok d" and "seeded c res d d'"
  shows "ref_at d' rid tag = Some row \<Longrightarrow> \<exists>mr \<in> set (res_remotes res). \<exists>mt \<in> set (mr_tags mr). \<exists>i.
      db_urls d' (mr_normalizedURL mr) = Some rid \<and> mt_name mt = tag \<and> refFromRow row = seeded_ref rid mt i"
    and "mr \<in> set (res_remotes res) \<Longrightarrow> mt \<in> set (mr_tags mr) \<Longrightarrow>
      \<exists>rid row i. db_urls d' (mr_normalizedURL mr) = Some rid \<and> ref_at d' rid (mt_name mt) = Some row \<and>
        refFromRow row = seeded_ref rid mt i"
    and "dom (db_urls d') = mr_normalizedURL ` set (res_remotes res)" and "distinct (map mr_normalizedURL (res_remotes res))"
    and "int (length (t_observations d')) = all_observations (res_remotes res)"
proof -
  have r: "remotes_seeded (res_remotes res) (db_view d) (db_urls d) (db_view d') (db_urls d')"
    and none: "t_remotes d = []" and dist: "\<forall>mr \<in> set (res_remotes res). distinct (map mt_name (mr_tags mr))"
    using assms(2) by (simp_all add: seeded_def)
  note rows = no_remotes_no_rows [OF assms(1) none]
  note facts = remotes_seeded_refs [OF r rows(2) db_urls_empty [THEN iffD2, OF none] dist]
  show "\<exists>mr \<in> set (res_remotes res). \<exists>mt \<in> set (mr_tags mr). \<exists>i.
      db_urls d' (mr_normalizedURL mr) = Some rid \<and> mt_name mt = tag \<and> refFromRow row = seeded_ref rid mt i"
    if "ref_at d' rid tag = Some row"
    using facts(1) [of rid tag "refFromRow row"] that by (simp add: facts_def db_view_def)
  show "\<exists>rid row i. db_urls d' (mr_normalizedURL mr) = Some rid \<and> ref_at d' rid (mt_name mt) = Some row \<and>
      refFromRow row = seeded_ref rid mt i"
    if "mr \<in> set (res_remotes res)" "mt \<in> set (mr_tags mr)"
    using facts(2) [OF that] by (auto simp: db_view_def)
  show "dom (db_urls d') = mr_normalizedURL ` set (res_remotes res)" "distinct (map mr_normalizedURL (res_remotes res))"
    by (rule facts)+
  show "int (length (t_observations d')) = all_observations (res_remotes res)"
    using facts(4) rows(1) by (simp add: db_view_def)
qed

lemma seeded_remotes:
  assumes "db_ok d" and "seeded c res d d'"
  shows "length (t_remotes d') = length (res_remotes res)"
proof -
  have "distinct (map Rrem_NormalizedUrl (t_remotes d'))"
    using assms(2) by (auto simp: seeded_def db_ok_defs dest: sync_okD(3))
  then have "length (t_remotes d') = card (Rrem_NormalizedUrl ` set (t_remotes d'))"
    by (metis distinct_card length_map set_map)
  also have "Rrem_NormalizedUrl ` set (t_remotes d') = dom (db_urls d')"
    by (simp add: set_eq_iff domIff db_urls_None)
  also have "card (dom (db_urls d')) = length (res_remotes res)"
    unfolding seeded_rows(3) [OF assms] using seeded_rows(4) [OF assms] by (metis distinct_card length_map set_map)
  finally show ?thesis .
qed

text \<open>Every tag of a seeded store rests on a quorum of reports.\<close>

lemma seeded_quorum:
  assumes "db_ok d" and seeded: "seeded c (mergeQuorum order hexUni byURL quorum) d d'"
    and order: "\<And>xs. mset (order xs) = mset xs" and pos: "0 < quorum"
    and row: "ref_at d' rid tag = Some row"
  shows "\<exists>url hex. db_urls d' url = Some rid \<and> quorum \<le> int (length (lookupList byURL url)) \<and>
    parseHexOID hexUni hex = Inr (ref_FirstOID (refFromRow row)) \<and>
    quorum \<le> int (length (filter (\<lambda>v. wt_FirstOID (tv_tag v) = Some hex) (reports (lookupList byURL url) tag))) \<and>
    (ref_Tainted (refFromRow row) \<longleftrightarrow>
       quorum \<le> int (length (filter (\<lambda>v. wt_Tainted (tv_tag v)) (reports (lookupList byURL url) tag))))"
proof -
  from seeded_rows(1) [OF assms(1) seeded row] obtain mr mt i where
    mr: "mr \<in> set (res_remotes (mergeQuorum order hexUni byURL quorum))" and mt: "mt \<in> set (mr_tags mr)"
    and at: "db_urls d' (mr_normalizedURL mr) = Some rid" "mt_name mt = tag" "refFromRow row = seeded_ref rid mt i" by blast
  note q = adopted_tag [OF mr mt]
  obtain hex where "parseHexOID hexUni hex = Inr (mt_firstOID mt)"
    "quorum \<le> int (length (filter (\<lambda>v. wt_FirstOID (tv_tag v) = Some hex) (reports (lookupList byURL (mr_normalizedURL mr)) tag)))"
    using mergeTag_first [OF order q(2) pos] at(2) by blast
  with q(1) mergeTag_events(4) [OF q(2)] at show ?thesis
    by (intro exI [of _ "mr_normalizedURL mr"] exI [of _ hex]) simp
qed

end
