(* ===== verification/Seed_Live.thy ===== *)
theory Seed_Live
  imports Seed_Store
begin

text \<open>
  Seeding succeeds when it can: on an empty store, without failing statements, with a merge
  within the ceilings and with taint reasons the schema knows, \<open>Run\<close> commits the merge. The proof is
  once more done against the transaction interface; \<open>seed_progress\<close> adds to \<open>tx_progress\<close> when a
  remote can be created.
\<close>

section \<open>Progress of the write\<close>

definition event_writable :: "mergedEvent \<Rightarrow> bool" where
  "event_writable e \<longleftrightarrow>
     me_eventType e \<in> {EventTagCreated, EventTagOIDChanged, EventTagDeleted, EventTagRecreated} \<and>
     (\<forall>reason. me_taintReason e = Some reason \<longrightarrow> TaintReason_Valid reason)"

definition remote_writable :: "mergedRemote \<Rightarrow> bool" where
  "remote_writable mr \<longleftrightarrow> mr_transport mr \<in> {TransportHTTPS, TransportSSH} \<and>
     (\<forall>mt \<in> set (mr_tags mr). list_all event_writable (mt_events mt))"

definition tag_rows :: "mergedTag list \<Rightarrow> nat" where
  "tag_rows mts = sum_list (map (\<lambda>mt. Suc (length (mt_events mt))) mts)"

lemma tag_rows_simps [simp]: "tag_rows [] = 0" "tag_rows (mt # mts) = Suc (length (mt_events mt)) + tag_rows mts"
  by (simp_all add: tag_rows_def)

lemma tag_rows_observations: "int (tag_rows mts) = observations mts"
  by (induction mts) (simp_all add: tag_rows_def observations_def)

definition remaining :: "mergedRemote list \<Rightarrow> nat" where
  "remaining mrs = sum_list (map (tag_rows \<circ> mr_tags) mrs)"

lemma remaining_observations: "int (remaining mrs) = all_observations mrs"
  by (induction mrs) (simp_all add: remaining_def all_observations_def tag_rows_observations)

lemma runs_frame: "runs P m Q \<Longrightarrow> oks J m (\<lambda>_. J) \<Longrightarrow> runs (\<lambda>t. P t \<and> J t) m (\<lambda>a t. Q a t \<and> J t)"
  unfolding runs_def oks_def by metis

lemma runs_pinned:
  assumes "\<And>x. Q x \<Longrightarrow> runs (\<lambda>t. I t \<and> f t = x) m R"
  shows "runs (\<lambda>t. I t \<and> Q (f t)) m R"
  using assms unfolding runs_def by blast

text \<open>A loop that uses up a resource: each item has its own cost.\<close>

lemma runs_for_cost:
  assumes "\<And>x a k. x \<in> set xs \<Longrightarrow> runs (L (cost x + k)) (body x a) (\<lambda>_. L k)"
  shows "runs (L (sum_list (map cost xs) + k)) (forT xs a body) (\<lambda>_. L k)"
  using assms
proof (induction xs arbitrary: a)
  case Nil
  show ?case by (simp add: runs_ret)
next
  case (Cons x xs)
  have "runs (L (cost x + (sum_list (map cost xs) + k))) (body x a) (\<lambda>_. L (sum_list (map cost xs) + k))"
    by (rule Cons.prems) simp
  with Cons show ?case by (simp add: add.assoc) (blast intro: runs_bind)
qed

context tx_progress
begin

lemma run_writeEvent:
  assumes "event_writable e"
  shows "runs (\<lambda>t. live (Suc k) i t \<and> known refID t) (writeEvent tx rid refID i e n) (\<lambda>_ t. live k i t \<and> known refID t)"
proof -
  let ?ob = "zeroObservation\<lparr>obs_RemoteID := rid, obs_RefID := refID, obs_SyncID := i, obs_EventType := me_eventType e,
     obs_PrevOID := me_fromOID e, obs_NewOID := me_toOID e, obs_ObservedAtNS := me_detectedAtNS e\<rparr>"
  have ref: "obs_RefID ?ob = refID" by simp
  note ob = run_AppendObservation [of ?ob i k, unfolded ref]
  have te: "runs (\<lambda>t. live k i t \<and> known refID t \<and> logged j t)
      (bindT (tx_AppendTaintEvent tx (taintEvent rid refID reason j (me_fromOID e) (me_toOID e) (me_detectedAtNS e)))
        (\<lambda>_. ret (wrap64 (n + 1)))) (\<lambda>_ t. live k i t \<and> known refID t)"
    if "me_taintReason e = Some reason" for reason j
  proof -
    let ?e = "taintEvent rid refID reason j (me_fromOID e) (me_toOID e) (me_detectedAtNS e)"
    have id: "te_RefID ?e = refID" by (simp add: taintEvent_def)
    have "reason \<in> {TaintTagOIDChanged, TaintTagDeletedRecreated}"
      using assms that by (auto simp: event_writable_def TaintReason_Valid_def)
    then have "runs (\<lambda>t. live k i t \<and> logged j t \<and> known (te_RefID ?e) t) (tx_AppendTaintEvent tx ?e)
        (\<lambda>_ t. live k i t \<and> known (te_RefID ?e) t)"
      by (intro run_AppendTaintEvent) (simp_all add: taintEvent_def)
    note run = this [unfolded id]
    show ?thesis by (rule runs_bind [OF runs_weaken [OF run] runs_ret]) auto
  qed
  show ?thesis
    unfolding writeEvent_def
  proof (rule runs_bind [OF ob])
    show "runs ((case a of (_, ob') \<Rightarrow> \<lambda>t. live k i t \<and> known refID t \<and> logged (obs_ID ob') t))
        (case a of (_, obs) \<Rightarrow> case me_taintReason e of None \<Rightarrow> ret (wrap64 (n + 1))
          | Some reason \<Rightarrow> bindT (tx_AppendTaintEvent tx (taintEvent rid refID reason (obs_ID obs) (me_fromOID e) (me_toOID e) (me_detectedAtNS e)))
              (\<lambda>_. ret (wrap64 (n + 1)))) (\<lambda>_ t. live k i t \<and> known refID t)" for a :: "Seq \<times> Observation"
      by (cases a; cases "me_taintReason e") (auto intro: runs_ret te)
  qed (use assms in \<open>auto simp: event_writable_def\<close>)
qed

lemma run_writeTag:
  assumes "list_all event_writable (mt_events mt)"
  shows "runs (live (Suc (length (mt_events mt)) + k) i) (writeTag tx rid i mt) (\<lambda>_. live k i)"
proof -
  let ?n = "length (mt_events mt)"
  have "runs (\<lambda>t. live (sum_list (map (\<lambda>_. 1) (mt_events mt)) + k) i t \<and> known j t)
      (forT (mt_events mt) a (writeEvent tx rid j i)) (\<lambda>_ t. live k i t \<and> known j t)" for a j
    by (rule runs_for_cost [where L = "\<lambda>k t. live k i t \<and> known j t"]) (use assms run_writeEvent in \<open>auto simp: list_all_iff\<close>)
  then have events: "runs (\<lambda>t. live (?n + k) i t \<and> known j t) (forT (mt_events mt) a (writeEvent tx rid j i))
      (\<lambda>_ t. live k i t \<and> known j t)" for a j
    by (simp add: sum_list_triv)
  have first: "runs (live (Suc (?n + k)) i) (tx_UpsertRefProjection tx (firstRef rid mt))
      (\<lambda>ref t. ref_RemoteID ref = rid \<and> live (Suc (?n + k)) i t \<and> known (ref_ID ref) t)"
    by (rule run_UpsertRef) simp
  let ?ob = "\<lambda>j. zeroObservation\<lparr>obs_RemoteID := rid, obs_RefID := j, obs_SyncID := i, obs_EventType := EventTagCreated,
     obs_NewOID := mt_firstOID mt, obs_NewPeeledOID := mt_genesisPeeledOID mt, obs_ObservedAtNS := mt_firstSeenNS mt\<rparr>"
  have ref: "obs_RefID (?ob j) = j" for j by simp
  have created: "runs (\<lambda>t. live (Suc (?n + k)) i t \<and> known j t) (tx_AppendObservation tx (?ob j))
      (\<lambda>_ t. live (?n + k) i t \<and> known j t)" for j
    by (rule runs_weaken [OF run_AppendObservation [of "?ob j" i "?n + k", unfolded ref]]) auto
  have last: "runs (\<lambda>t. live k i t \<and> known j t) (tx_UpsertRefProjection tx (finalRef ref mt n)) (\<lambda>_. live k i)"
    if "ref_RemoteID ref = rid" for ref n j
    by (rule runs_weaken [OF run_UpsertRef]) (use that in auto)
  show ?thesis
    unfolding writeTag_def add_Suc
    by (rule runs_bind [OF first], rule runs_pull, rule runs_bind [OF created], rule runs_bind [OF events],
        rule runs_bind [OF last]) (auto intro: runs_ret)
qed

end

locale seed_progress =
  fixes tx :: "'t Tx" and opened :: "RemoteID \<Rightarrow> nat \<Rightarrow> 't \<Rightarrow> bool"
    and written live :: "RemoteID \<Rightarrow> nat \<Rightarrow> SyncID \<Rightarrow> 't \<Rightarrow> bool"
    and known :: "RefID \<Rightarrow> 't \<Rightarrow> bool" and logged :: "int64 \<Rightarrow> 't \<Rightarrow> bool"
    and idle :: "nat \<Rightarrow> 't \<Rightarrow> bool" and urls_of :: "'t \<Rightarrow> urls"
  assumes progress: "tx_progress tx rid (opened rid) (written rid) (live rid) known logged"
    and live_idle: "live rid k i t \<Longrightarrow> idle k t"
    and urls: "tx_invariant tx (\<lambda>t. urls_of t = u) (\<lambda>_. True)"
    and run_CreateRemote:
      "rem_Transport r \<in> {TransportHTTPS, TransportSSH} \<Longrightarrow> rem_HashAlgo r = None \<Longrightarrow> rem_Status r = RemoteActive \<Longrightarrow>
       rem_ChainHeadHash r = replicate 32 0 \<Longrightarrow> rem_ChainLen r = 0 \<Longrightarrow> u (rem_NormalizedURL r) = None \<Longrightarrow>
       runs (\<lambda>t. idle k t \<and> urls_of t = u) (tx_CreateRemote tx r)
         (\<lambda>rid t. opened rid k t \<and> urls_of t = u(rem_NormalizedURL r \<mapsto> rid))"
    and run_CountAllRemotes:
      "runs (\<lambda>t. idle k t \<and> urls_of t = Map.empty) (tx_CountAllRemotes tx)
         (\<lambda>n t. n = 0 \<and> idle k t \<and> urls_of t = Map.empty)"
begin

lemma run_writeTags:
  assumes "\<And>mt. mt \<in> set mts \<Longrightarrow> list_all event_writable (mt_events mt)"
  shows "runs (live rid (tag_rows mts + k) i) (forT mts () (\<lambda>mt _. writeTag tx rid i mt)) (\<lambda>_. live rid k i)"
  unfolding tag_rows_def
  by (rule runs_for_cost [where L = "\<lambda>k. live rid k i"]) (rule tx_progress.run_writeTag [OF progress assms])

lemma urls_writeTags: "oks (\<lambda>t. urls_of t = u) (forT mts () (\<lambda>mt _. writeTag tx rid i mt)) (\<lambda>_ t. urls_of t = u)"
  by (rule oks_for [where I = "\<lambda>_ _ t. urls_of t = u"], rule tx_invariant.inv_writeTag [OF urls]) simp_all

lemma run_writeRemote:
  assumes "remote_writable mr" and "u (mr_normalizedURL mr) = None"
  shows "runs (\<lambda>t. idle (tag_rows (mr_tags mr) + k) t \<and> urls_of t = u) (writeRemote c tx now mr)
    (\<lambda>_ t. idle k t \<and> (\<exists>rid. urls_of t = u(mr_normalizedURL mr \<mapsto> rid)))"
proof -
  let ?k = "tag_rows (mr_tags mr) + k" and ?u = "\<lambda>rid. u(mr_normalizedURL mr \<mapsto> rid)"
  let ?r = "seedRemote c mr now"
  have "mr_normalizedURL mr = rem_NormalizedURL ?r" by (simp add: seedRemote_def)
  then have create: "runs (\<lambda>t. idle ?k t \<and> urls_of t = u) (tx_CreateRemote tx ?r) (\<lambda>rid t. opened rid ?k t \<and> urls_of t = ?u rid)"
    using run_CreateRemote [of ?r u ?k] assms by (auto simp: seedRemote_def remote_writable_def)
  have sync: "runs (\<lambda>t. opened rid ?k t \<and> urls_of t = ?u rid) (tx_WriteSync tx s)
      (\<lambda>(i, _) t. live rid ?k i t \<and> urls_of t = ?u rid)"
    if "syn_RemoteID s = rid" "syn_Trigger s = TriggerRegister" "syn_Status s = SyncOk" for s rid
  proof -
    have "runs (opened rid ?k) (tx_WriteSync tx s) (\<lambda>(i, _). written rid ?k i)"
      using that by (intro tx_progress.run_WriteSync [OF progress]) simp_all
    from runs_frame [OF this tx_invariant.inv_WriteSync [OF urls [of "?u rid"]]]
    show ?thesis by (rule runs_weaken) (auto dest: tx_progress.written_live [OF progress])
  qed
  have tags: "runs (\<lambda>t. live rid ?k i t \<and> urls_of t = ?u rid) (forT (mr_tags mr) () (\<lambda>mt _. writeTag tx rid i mt))
      (\<lambda>_ t. idle k t \<and> (\<exists>rid. urls_of t = ?u rid))" for rid i
  proof -
    have "runs (live rid ?k i) (forT (mr_tags mr) () (\<lambda>mt _. writeTag tx rid i mt)) (\<lambda>_. live rid k i)"
      by (rule run_writeTags) (use assms(1) in \<open>auto simp: remote_writable_def\<close>)
    from runs_frame [OF this urls_writeTags [of "?u rid"]]
    show ?thesis by (rule runs_weaken) (auto dest: live_idle)
  qed
  show ?thesis
    unfolding writeRemote_def
    by (rule runs_bind [OF create], rule runs_bind [OF sync], simp_all, rule runs_case_prod, simp,
        rule runs_bind [OF tags]) (auto intro: runs_ret)
qed

lemma run_seedTx:
  assumes "\<And>mr. mr \<in> set (res_remotes res) \<Longrightarrow> remote_writable mr" and "distinct (map mr_normalizedURL (res_remotes res))"
    and "int (length (res_remotes res)) \<le> cfg_SeedMaxRemotes c" and "res_totalObs res \<le> cfg_SeedMaxObservations c"
  shows "runs (\<lambda>t. idle (remaining (res_remotes res)) t \<and> urls_of t = Map.empty) (seedTx c res now tx) (\<lambda>_. idle 0)"
proof -
  let ?body = "\<lambda>mr (r, n). bindT (writeRemote c tx now mr) (\<lambda>k. ret (wrap64 (r + 1), wrap64 (n + k)))"
  have "runs (\<lambda>t. idle (remaining zs) t \<and> dom (urls_of t) = mr_normalizedURL ` set ys) (forT zs a ?body) (\<lambda>_. idle 0)"
    if "res_remotes res = ys @ zs" for ys zs a
    using that
  proof (induction zs arbitrary: ys a)
    case Nil
    show ?case by (auto simp: remaining_def intro: runs_ret)
  next
    case (Cons mr zs)
    have mr: "remote_writable mr" "mr_normalizedURL mr \<notin> mr_normalizedURL ` set ys"
      using assms(1,2) Cons.prems by auto
    have step: "runs (\<lambda>t. idle (remaining (mr # zs)) t \<and> dom (urls_of t) = mr_normalizedURL ` set ys) (?body mr a)
        (\<lambda>_ t. idle (remaining zs) t \<and> dom (urls_of t) = mr_normalizedURL ` set (ys @ [mr]))"
    proof -
      have "runs (\<lambda>t. idle (remaining (mr # zs)) t \<and> urls_of t = u) (writeRemote c tx now mr)
          (\<lambda>_ t. idle (remaining zs) t \<and> dom (urls_of t) = mr_normalizedURL ` set (ys @ [mr]))"
        if u: "dom u = mr_normalizedURL ` set ys" for u
      proof (rule runs_weaken [OF run_writeRemote [OF mr(1), of u "remaining zs" c now]])
        show "u (mr_normalizedURL mr) = None" using u mr(2) by (metis domIff)
        show "idle (remaining zs) t \<and> dom (urls_of t) = mr_normalizedURL ` set (ys @ [mr])"
          if "idle (remaining zs) t \<and> (\<exists>rid. urls_of t = u(mr_normalizedURL mr \<mapsto> rid))" for t
          using that by (elim conjE exE) (simp add: u)
      qed (simp add: remaining_def)
      then have "runs (\<lambda>t. idle (remaining (mr # zs)) t \<and> dom (urls_of t) = mr_normalizedURL ` set ys) (writeRemote c tx now mr)
          (\<lambda>_ t. idle (remaining zs) t \<and> dom (urls_of t) = mr_normalizedURL ` set (ys @ [mr]))"
        by (rule runs_pinned [where f = urls_of])
      then show ?thesis by (cases a) (auto intro: runs_bind runs_ret)
    qed
    show ?case using runs_bind [OF step, of "\<lambda>a'. forT zs a' ?body" "\<lambda>_. idle 0"] Cons.IH [of "ys @ [mr]"] Cons.prems by simp
  qed
  from this [of "[]" "res_remotes res" "(0, 0)"]
  have loop: "runs (\<lambda>t. idle (remaining (res_remotes res)) t \<and> urls_of t = Map.empty) (forT (res_remotes res) (0, 0) ?body) (\<lambda>_. idle 0)"
    by simp
  show ?thesis
    unfolding seedTx_def using assms(3,4) loop
    by (intro runs_bind [OF run_CountAllRemotes] runs_pull) simp
qed

end

section \<open>The SQLite store\<close>

definition idle_db :: "nat \<Rightarrow> db \<Rightarrow> bool" where
  "idle_db k d \<longleftrightarrow> ledger_ok d \<and> syncs_ok d \<and> room k d"

lemma CreateRemote_runs:
  assumes "rem_Transport r \<in> {TransportHTTPS, TransportSSH}" and "rem_HashAlgo r = None" and "rem_Status r = RemoteActive"
    and gen: "rem_ChainHeadHash r = replicate 32 0" "rem_ChainLen r = 0" and new: "db_urls d (rem_NormalizedURL r) = None"
    and idle: "idle_db k d"
  obtains row d' where "sqlc_CreateRemote (createRemoteParams r) d = Inr (row, d')"
    and "opened_db (Rrem_ID row) k d'" and "db_urls d' = (db_urls d)(rem_NormalizedURL r \<mapsto> Rrem_ID row)"
proof -
  have "rem_NormalizedURL r \<notin> Rrem_NormalizedUrl ` set (t_remotes d)" using new by (simp add: db_urls_None)
  then have uniq: "\<not> list_ex (\<lambda>row. Rrem_NormalizedUrl row = Prem_NormalizedUrl (createRemoteParams r)) (t_remotes d)"
    unfolding list_ex_iff by (metis createRemoteParams_sel(1) image_eqI)
  have "remote_check (rem_Transport r) (Prem_HashAlgo (createRemoteParams r)) (rem_Status r)"
    using assms(1-3) by (auto simp: remote_check_def createRemoteParams_def model_defs TransportHTTPS_def TransportSSH_def)
  then have "remote_check (Prem_Transport (createRemoteParams r)) (Prem_HashAlgo (createRemoteParams r)) (Prem_Status (createRemoteParams r))"
    by (simp add: createRemoteParams_def)
  with uniq obtain row d' where run: "sqlc_CreateRemote (createRemoteParams r) d = Inr (row, d')"
    unfolding sqlc_CreateRemote_def Let_def by (simp only: if_False not_not simp_thms)
  have "ledger_ok d'"
    using ledger_CreateRemote [OF run] gen idle by (simp add: idle_db_def genesis_def ChainHashLen_def)
  moreover have "t_observations d' = t_observations d" "t_syncs d' = t_syncs d" "remote_exists d' (Rrem_ID row)"
    by (simp_all add: CreateRemote_rows(1) [OF run] remote_exists_def)
  ultimately have "opened_db (Rrem_ID row) k d'"
    using idle by (simp add: idle_db_def progress_defs)
  with run show thesis
    using that CreateRemote_urls(1) [OF _ run] idle by (simp add: idle_db_def ledger_ok_def)
qed

interpretation sqlite_seed_progress: seed_progress sqliteTx_Tx "\<lambda>rid k t. opened_db rid k (stx_q t)"
    "\<lambda>rid k i t. written_db rid k i (stx_q t)" "\<lambda>rid k i t. live_db rid k i (stx_q t)"
    "\<lambda>j t. ref_exists (stx_q t) j" "\<lambda>j t. observation_exists (stx_q t) j"
    "\<lambda>k t. idle_db k (stx_q t)" "\<lambda>t. db_urls (stx_q t)"
proof (intro seed_progress.intro, goal_cases)
  case (1 rid)
  show ?case by (rule sqlite_progress.tx_progress_axioms)
next
  case (2 rid k i t)
  then show ?case by (simp add: idle_db_def progress_defs)
next
  case (3 u)
  show ?case by (rule sqlite_urls.tx_invariant_axioms)
next
  case (4 r u k)
  show ?case
    unfolding sqliteTx_Tx_seed_sel sqliteTx_CreateRemote_def
  proof (rule runs_bind [OF runs_mapErr [OF runs_txq]])
    fix t
    assume t: "idle_db k (stx_q t) \<and> db_urls (stx_q t) = u"
    then show "\<exists>row d'. sqlc_CreateRemote (createRemoteParams r) (stx_q t) = Inr (row, d') \<and>
        (opened_db (Rrem_ID row) k (stx_q (t\<lparr>stx_q := d'\<rparr>)) \<and>
         db_urls (stx_q (t\<lparr>stx_q := d'\<rparr>)) = u(rem_NormalizedURL r \<mapsto> Rrem_ID row))"
      using CreateRemote_runs [OF 4(1-5), of "stx_q t" k] 4(6) by (metis sqliteTx.select_convs(1) sqliteTx.surjective sqliteTx.update_convs(1))
  qed (rule runs_ret, simp add: fun_upd_def)
next
  case (5 k)
  show ?case
    unfolding sqliteTx_Tx_seed_sel sqliteTx_CountAllRemotes_def
    by (rule runs_txq) (auto simp: sqlc_CountAllRemotes_def db_urls_empty)
qed

section \<open>Run commits\<close>

definition known_reasons :: "peerRemoteView list \<Rightarrow> bool" where
  "known_reasons views \<longleftrightarrow> (\<forall>v \<in> set views. \<forall>e \<in> set (pv_taintEvents v). TaintReason_Valid (we_Reason e))"

lemma eventsByRef_subset: "set (eventsByRef es i) \<subseteq> set es"
  by (auto simp: eventsByRef_def)

lemma reports_events:
  "v \<in> set (reports views tag) \<Longrightarrow> e \<in> set (tv_events v) \<Longrightarrow> \<exists>view \<in> set views. e \<in> set (pv_taintEvents view)"
  using eventsByRef_subset by (fastforce simp: reports_def)

lemma taintEventToMerged_writable:
  "taintEventToMerged hexUni u = Inr e \<Longrightarrow> TaintReason_Valid (we_Reason u) \<Longrightarrow> event_writable e"
  by (auto simp: taintEventToMerged_def event_writable_def Let_def split: sum.splits if_splits)

lemma merged_writable:
  assumes mr: "mr \<in> set (res_remotes (mergeQuorum order hexUni byURL quorum))"
    and known: "known_reasons (lookupList byURL (mr_normalizedURL mr))"
  shows "remote_writable mr"
proof -
  have "event_writable e" if "mt \<in> set (mr_tags mr)" "e \<in> set (mt_events mt)" for mt e
  proof -
    from mergeTag_events(3) [OF adopted_tag(2) [OF mr that(1)] that(2)] obtain v u where
      "v \<in> set (reports (lookupList byURL (mr_normalizedURL mr)) (mt_name mt))" "u \<in> set (tv_events v)"
      "taintEventToMerged hexUni u = Inr e" by blast
    with known show ?thesis
      using reports_events taintEventToMerged_writable unfolding known_reasons_def by blast
  qed
  moreover have "mr_transport mr \<in> {TransportHTTPS, TransportSSH}"
    using mr by (auto simp: mergeQuorum_remotes adoptedRemote_def adoptTransport_def Let_def)
  ultimately show ?thesis by (simp add: remote_writable_def list_all_iff)
qed

lemma merged_urls:
  "distinct (map fst byURL) \<Longrightarrow> distinct (map mr_normalizedURL (res_remotes (mergeQuorum order hexUni byURL quorum)))"
  by (simp add: mergeQuorum_remotes comp_def adoptedRemote_def Let_def)

lemma fetchAll_keys:
  "distinct (map fst (fst (fetchAll lib arriveP arriveR c net peers)))"
  "snd (fetchAll lib arriveP arriveR c net peers) = 0 \<Longrightarrow> fst (fetchAll lib arriveP arriveR c net peers) = []"
proof -
  have views: "distinct (map fst m) \<Longrightarrow> distinct (map fst (foldl (\<lambda>m v. addTo (wr_NormalizedURL (pv_remote v)) v m) m vs))"
    for m :: "(string \<times> peerRemoteView list) list" and vs
    by (induction vs arbitrary: m) (simp_all add: addTo_keys(2))
  let ?f = "\<lambda>(byURL, peersUsed) peerURL. case newPeerClient lib peerURL (cfg_SeedInsecure c) of Inl _ \<Rightarrow> (byURL, peersUsed)
      | Inr base \<Rightarrow> (case fetchPeer arriveR c (net base) peerURL (parseAllowlist (cfg_SeedRemotes c)) of
          None \<Rightarrow> (byURL, peersUsed)
        | Some views \<Rightarrow> (foldl (\<lambda>m v. addTo (wr_NormalizedURL (pv_remote v)) v m) byURL views, peersUsed + 1 :: int))"
  have "distinct (map fst (fst (foldl ?f ([], 0) ps))) \<and> 0 \<le> snd (foldl ?f ([], 0) ps) \<and>
      (snd (foldl ?f ([], 0) ps) = 0 \<longrightarrow> fst (foldl ?f ([], 0) ps) = [])" for ps
    by (induction ps rule: rev_induct) (auto simp: views case_prod_unfold split: option.splits sum.splits)
  from this [of "arriveP peers"]
  show "distinct (map fst (fst (fetchAll lib arriveP arriveR c net peers)))"
    "snd (fetchAll lib arriveP arriveR c net peers) = 0 \<Longrightarrow> fst (fetchAll lib arriveP arriveR c net peers) = []"
    unfolding fetchAll_def by auto
qed

lemma SeedEnabled_peers: "SeedEnabled c \<Longrightarrow> peerURLs c \<noteq> []"
proof -
  have "u \<in> set us \<Longrightarrow> u \<noteq> [] \<Longrightarrow> u \<in> set (foldl (\<lambda>out u. if u = [] \<or> u \<in> set out then out else out @ [u]) out us)" for u us out
  proof (induction us rule: rev_induct)
    case (snoc x us)
    then show ?case by auto
  qed simp
  note mem = this [of _ "FieldsFunc isListSep (cfg_SeedServers c)" "[]"]
  assume "SeedEnabled c"
  then obtain u where "u \<in> set (FieldsFunc isListSep (cfg_SeedServers c))" "u \<noteq> []"
    by (auto simp: SeedEnabled_def seedServerList_def filter_empty_conv split: if_splits)
  from mem [OF this] show "peerURLs c \<noteq> []" unfolding peerURLs_def by (metis empty_iff list.set(1))
qed

lemma seedWrite_runs:
  assumes "\<And>mr. mr \<in> set (res_remotes res) \<Longrightarrow> remote_writable mr" and "distinct (map mr_normalizedURL (res_remotes res))"
    and "int (length (res_remotes res)) \<le> cfg_SeedMaxRemotes c" and "res_totalObs res \<le> cfg_SeedMaxObservations c"
  shows "runs (\<lambda>d. idle_db (remaining (res_remotes res)) d \<and> t_remotes d = []) (seedWrite sqliteStore c res) (\<lambda>_ _. True)"
proof -
  have "runs (\<lambda>d. idle_db (remaining (res_remotes res)) d \<and> t_remotes d = []) (sqliteStore_WithTx (seedTx c res now)) (\<lambda>_ _. True)" for now
    by (rule runs_WithTx, rule runs_weaken [OF sqlite_seed_progress.run_seedTx [OF assms]])
      (auto simp: db_urls_empty idle_db_def intro: syncs_ok_fk)
  then have "runs (\<lambda>d. idle_db (remaining (res_remotes res)) d \<and> t_remotes d = []) (st_WithTx sqliteStore (seedTx c res now)) (\<lambda>_ _. True)" for now
    by (simp add: sqliteStore_def)
  then show ?thesis unfolding seedWrite_def by (rule runs_bind [OF runs_NowNS, rotated])
qed

lemma store_count [simp]: "st_CountAllRemotes sqliteStore = sqliteStore_CountAllRemotes"
  by (simp add: sqliteStore_def)

lemma Run_seeds:
  fixes order hexUni lib arriveP arriveR c net
  defines "byURL \<equiv> fst (fetchAll lib arriveP arriveR c net (peerURLs c))"
  defines "res \<equiv> mergeQuorum order hexUni byURL (cfg_SeedQuorum c)"
  assumes nf: "no_faults w" and ok: "sync_ok (w_db w)" and empty: "t_remotes (w_db w) = []" and "SeedEnabled c"
    and some: "res_remotes res \<noteq> []" and fits: "int (length (res_remotes res)) \<le> cfg_SeedMaxRemotes c"
      "res_totalObs res \<le> cfg_SeedMaxObservations c" "cfg_SeedMaxObservations c < 2 ^ 63"
    and known: "\<And>url. known_reasons (lookupList byURL url)"
  shows "seeded c res (w_db w) (w_db (snd (Run order hexUni lib arriveP arriveR sqliteStore c net w)))"
proof -
  have res: "res = mergeQuorum order hexUni byURL (cfg_SeedQuorum c)" by (simp add: res_def)
  have "snd (fetchAll lib arriveP arriveR c net (peerURLs c)) \<noteq> 0"
    using some fetchAll_keys(2) [of lib arriveP arriveR c net "peerURLs c"] by (auto simp: res byURL_def mergeQuorum_remotes)
  then obtain used where fetch: "fetchAll lib arriveP arriveR c net (peerURLs c) = (byURL, used)" "used \<noteq> 0"
    unfolding byURL_def by (metis prod.collapse)
  let ?w1 = "w\<lparr>w_stmts := w_stmts w + 1\<rparr>"
  have count: "sqliteStore_CountAllRemotes w = (Inr 0, ?w1)"
    using nf empty by (simp add: sqliteStore_CountAllRemotes_def stmt_def sqlc_CountAllRemotes_def no_faults_def)
  have "room (remaining (res_remotes res)) (w_db w)"
    using no_remotes_no_rows(1) [OF sync_okD(3) [OF ok] empty] fits(2,3) remaining_observations [of "res_remotes res"]
    by (simp add: room_def res mergeQuorum_remotes(2))
  moreover have "syncs_ok (w_db w)"
    using no_remotes_no_rows(1) [OF sync_okD(3) [OF ok] empty] by (simp add: syncs_ok_def)
  ultimately have idle: "idle_db (remaining (res_remotes res)) (w_db ?w1) \<and> t_remotes (w_db ?w1) = []"
    using ok empty by (simp add: idle_db_def sync_ok_def)
  have progress: "runs (\<lambda>d. idle_db (remaining (res_remotes res)) d \<and> t_remotes d = []) (seedWrite sqliteStore c res) (\<lambda>_ _. True)"
    by (rule seedWrite_runs [OF _ _ fits(1,2)])
      (use merged_writable known merged_urls fetchAll_keys(1) in \<open>auto simp: res byURL_def\<close>)
  have "no_faults ?w1" using nf by (simp add: no_faults_def)
  from progress this idle obtain n w2 where wr: "seedWrite sqliteStore c res ?w1 = (Inr n, w2)" by (rule runsE)
  have "seeded c res (w_db w) (w_db w2)"
    using oksD [OF seedWrite_seeds [OF res, of "w_db w" c], of ?w1 n w2] wr ok by simp
  moreover have "Run order hexUni lib arriveP arriveR sqliteStore c net w = (Inr (), w2)"
    using count fetch wr some fits SeedEnabled_peers [OF \<open>SeedEnabled c\<close>] \<open>SeedEnabled c\<close>
    unfolding Run_def res by (simp add: bindT_def tryT_def ret_def)
  ultimately show ?thesis by simp
qed

end
