(* ===== verification/Seed_Scenario.thy ===== *)
theory Seed_Scenario
  imports Seed_Live Scenario
begin

text \<open>
  Two limits of seeding, and a small fleet of peers for the witnesses: every peer lists one
  remote with one tainted tag.
\<close>

section \<open>A peer's unknown taint reason aborts the whole seeding\<close>

text \<open>The merge passes the reason of an event on; only the schema's constraint looks at it.\<close>

lemma oks_then_False: "(\<And>a. oks (\<lambda>_. True) (f a) (\<lambda>_ _. False)) \<Longrightarrow> oks (\<lambda>_. True) (bindT m f) (\<lambda>_ _. False)"
  by (rule oks_bind [where R = "\<lambda>_ _. True"]) (simp_all add: oks_def)

lemma oks_False_then: "oks P m (\<lambda>_ _. False) \<Longrightarrow> oks P (bindT m f) (\<lambda>_ _. False)"
  by (erule oks_bind) (simp add: oks_def)

lemma oks_for_False:
  assumes "x \<in> set xs" and "\<And>a. oks (\<lambda>_. True) (body x a) (\<lambda>_ _. False)"
  shows "oks (\<lambda>_. True) (forT xs a body) (\<lambda>_ _. False)"
  using assms(1)
proof (induction xs arbitrary: a)
  case (Cons y ys)
  show ?case
  proof (cases "x = y")
    case True
    have "oks (\<lambda>_. False) (forT ys a' body) (\<lambda>_ _. False)" for a' by (simp add: oks_def)
    with assms(2) True show ?thesis by (auto intro: oks_bind)
  next
    case False
    with Cons have "oks (\<lambda>_. True) (forT ys a' body) (\<lambda>_ _. False)" for a' by simp
    then show ?thesis by (simp add: oks_then_False)
  qed
qed simp

lemma unknown_reason_fails:
  assumes "mr \<in> set (res_remotes res)" and "mt \<in> set (mr_tags mr)" and "e \<in> set (mt_events mt)"
    and reason: "me_taintReason e = Some reason" "\<not> reason_check reason"
  shows "oks (\<lambda>_. True) (seedTx c res now sqliteTx_Tx) (\<lambda>_ _. False)"
proof -
  have "oks (\<lambda>_. True) (sqliteTx_AppendTaintEvent (taintEvent rid i reason j f t ns)) (\<lambda>_ _. False)" for rid i j f t ns
    unfolding sqliteTx_AppendTaintEvent_def
    by (rule oks_txq) (use reason(2) in \<open>simp add: sqlc_InsertTaintEvent_def taintParams_def taintEvent_def\<close>)
  then have event: "oks (\<lambda>_. True) (writeEvent sqliteTx_Tx rid i sid e n) (\<lambda>_ _. False)" for rid i sid n
    unfolding writeEvent_def reason(1) sqliteTx_Tx_sel option.case
    by (intro oks_then_False oks_case_prod oks_False_then)
  have tag: "oks (\<lambda>_. True) (writeTag sqliteTx_Tx rid sid mt) (\<lambda>_ _. False)" for rid sid
    unfolding writeTag_def
    by (intro oks_then_False oks_False_then, rule oks_for_False [OF assms(3)], rule event)
  have remote: "oks (\<lambda>_. True) (writeRemote c sqliteTx_Tx now mr) (\<lambda>_ _. False)"
    unfolding writeRemote_def
    by (rule oks_then_False, rule oks_then_False, rule oks_case_prod, rule oks_False_then,
        rule oks_for_False [OF assms(2)], rule tag)
  show ?thesis
    unfolding seedTx_def
    by (intro oks_then_False oks_if oks_fail, rule oks_for_False [OF assms(1)],
        intro oks_case_prod oks_False_then, rule remote)
qed

section \<open>Peers for the witnesses\<close>

definition seed_remote :: wireRemote where
  "seed_remote = \<lparr>wr_ID = 7, wr_URL = ''https://h/r'', wr_NormalizedURL = ''https://h/r'', wr_Transport = ''https'',
     wr_TaintAnyTagDeletion = True\<rparr>"

definition seed_tag :: wireTag where
  "seed_tag = \<lparr>wt_ID = 3, wt_RemoteID = 7, wt_TagName = ''v1'', wt_CurrentOID = Some (replicate 40 (CHR ''b'')),
     wt_CurrentPeeledOID = None, wt_IsAnnotated = None, wt_FirstOID = Some (replicate 40 (CHR ''a'')), wt_FirstSeenNS = 5,
     wt_LastSeenNS = 9, wt_Deleted = False, wt_Tainted = True, wt_TaintFirstNS = Some 8\<rparr>"

definition seed_event :: "string \<Rightarrow> wireTaintEvent" where
  "seed_event reason = \<lparr>we_ID = 1, we_RemoteID = 7, we_RefID = 3, we_Reason = reason,
     we_FromOID = Some (replicate 40 (CHR ''a'')), we_ToOID = Some (replicate 40 (CHR ''b'')), we_DetectedAtNS = 8\<rparr>"

definition one_page :: "'i list \<Rightarrow> 'i wirePage" where
  "one_page xs = \<lparr>wp_Items = xs, wp_NextCursor = None\<rparr>"

definition seed_peer :: "wireRemote list \<Rightarrow> string \<Rightarrow> peerAPI" where
  "seed_peer rs reason = \<lparr>api_remotes = (\<lambda>_. Inr (one_page rs)), api_tags = (\<lambda>_ _. Inr (one_page [seed_tag])),
     api_taintEvents = (\<lambda>_ _. Inr (one_page [seed_event reason]))\<rparr>"

definition seed_cfg :: "string \<Rightarrow> SeedConfig" where
  "seed_cfg servers = \<lparr>cfg_SeedServers = servers, cfg_SeedQuorum = 2, cfg_SeedRemotes = [], cfg_SeedInsecure = False,
     cfg_SeedMaxRemotes = 10, cfg_SeedMaxObservations = 100, cfg_SeedMaxPages = 5, cfg_SyncDefaultInterval = 60,
     cfg_StalenessBudget = 600\<rparr>"

definition seed_lib :: hostLib where
  "seed_lib = \<lparr>hl_ipLit = (\<lambda>_. None), hl_eqFold = (\<lambda>_. False), hl_loopIP = (\<lambda>_. False)\<rparr>"

text \<open>Two peers that agree, and the store after seeding from them.\<close>

definition demo_cfg :: SeedConfig where
  "demo_cfg = seed_cfg ''https://a https://b''"

definition demo_net :: "string \<Rightarrow> peerAPI" where
  "demo_net = (\<lambda>_. seed_peer [seed_remote] ''tag_oid_changed'')"

definition demo_views :: "(string \<times> peerRemoteView list) list" where
  "demo_views = fst (fetchAll seed_lib id id demo_cfg demo_net (peerURLs demo_cfg))"

definition demo_seeded :: "db world" where
  "demo_seeded = snd (Run id id seed_lib id id sqliteStore demo_cfg demo_net (demo_world empty_db))"

lemma demo_views:
  "demo_views = [(''https://h/r'',
     map (\<lambda>p. \<lparr>pv_peer = p, pv_remote = seed_remote, pv_tags = [seed_tag], pv_taintEvents = [seed_event ''tag_oid_changed'']\<rparr>)
       [''https://a'', ''https://b''])]"
  by code_simp

lemma demo_merge:
  "map mr_normalizedURL (res_remotes (mergeQuorum id id demo_views 2)) = [''https://h/r'']"
  "map (map mt_name \<circ> mr_tags) (res_remotes (mergeQuorum id id demo_views 2)) = [[''v1'']]"
  "res_totalObs (mergeQuorum id id demo_views 2) = 2"
proof -
  have "(\<lambda>res. (map mr_normalizedURL (res_remotes res), map (map mt_name \<circ> mr_tags) (res_remotes res), res_totalObs res))
      (mergeQuorum id id demo_views 2) = ([''https://h/r''], [[''v1'']], 2)"
    by code_simp
  then show "map mr_normalizedURL (res_remotes (mergeQuorum id id demo_views 2)) = [''https://h/r'']"
    "map (map mt_name \<circ> mr_tags) (res_remotes (mergeQuorum id id demo_views 2)) = [[''v1'']]"
    "res_totalObs (mergeQuorum id id demo_views 2) = 2" by simp_all
qed

lemma demo_enabled: "SeedEnabled demo_cfg"
  by code_simp

lemma demo_cfg_sel [simp]:
  "cfg_SeedQuorum demo_cfg = 2" "cfg_SeedMaxRemotes demo_cfg = 10" "cfg_SeedMaxObservations demo_cfg = 100"
  by (simp_all add: demo_cfg_def seed_cfg_def)

lemma demo_known: "known_reasons (lookupList demo_views url)"
  by (simp add: demo_views lookupList_def known_reasons_def seed_event_def TaintReason_Valid_def model_defs)

lemma demo_world_empty: "no_faults (demo_world empty_db)" "sync_ok (w_db (demo_world empty_db))" "t_remotes (w_db (demo_world empty_db)) = []"
  by (simp_all add: demo_world_def no_faults_def sync_ok_empty) (simp add: empty_db_def)

lemma demo_run:
  obtains r where "Run id id seed_lib id id sqliteStore demo_cfg demo_net (demo_world empty_db) = (r, demo_seeded)"
  unfolding demo_seeded_def by (metis prod.collapse)

lemma demo_fetch:
  obtains used where "fetchAll seed_lib id id demo_cfg demo_net (peerURLs demo_cfg) = (demo_views, used)"
  unfolding demo_views_def by (metis prod.collapse)

lemma demo_adopted:
  obtains mr mt where "mr \<in> set (res_remotes (mergeQuorum id id demo_views 2))" and "mt \<in> set (mr_tags mr)"
    and "mr_normalizedURL mr = ''https://h/r''" and "mt_name mt = ''v1''"
  using demo_merge(1,2) by (cases "res_remotes (mergeQuorum id id demo_views 2)") (auto simp: map_eq_Cons_conv)

lemma demo_fits:
  "res_remotes (mergeQuorum id id demo_views 2) \<noteq> []" "length (res_remotes (mergeQuorum id id demo_views 2)) = 1"
  using arg_cong [OF demo_merge(1), of length] by auto

lemma demo_row:
  obtains rid row where "ref_at (w_db demo_seeded) rid ''v1'' = Some row"
proof -
  have "seeded demo_cfg (mergeQuorum id id demo_views 2) (w_db (demo_world empty_db)) (w_db demo_seeded)"
    using Run_seeds [of "demo_world empty_db" demo_cfg id id seed_lib id id demo_net]
      demo_world_empty demo_enabled demo_fits demo_merge(3) demo_known
    by (simp add: demo_seeded_def flip: demo_views_def)
  note seeded_rows(2) [OF sync_okD(3) [OF demo_world_empty(2)] this]
  with demo_adopted that show thesis by metis
qed

text \<open>A single peer that lists its remote twice is counted as two: the merge with quorum 2 adopts
  what it says, although no second peer was asked.\<close>

lemma one_peer_reaches_quorum:
  "snd (fetchAll seed_lib id id (seed_cfg ''https://a'') (\<lambda>_. seed_peer [seed_remote, seed_remote] ''tag_oid_changed'')
      (peerURLs (seed_cfg ''https://a''))) = 1 \<and>
   map (map mt_name \<circ> mr_tags) (res_remotes (mergeQuorum id id
     (fst (fetchAll seed_lib id id (seed_cfg ''https://a'') (\<lambda>_. seed_peer [seed_remote, seed_remote] ''tag_oid_changed'')
        (peerURLs (seed_cfg ''https://a'')))) (cfg_SeedQuorum (seed_cfg ''https://a'')))) = [[''v1'']] \<and>
   cfg_SeedQuorum (seed_cfg ''https://a'') = 2"
  by code_simp

end
