(* ===== verification/Seed_Props.thy ===== *)
theory Seed_Props
  imports Seed_Scenario
begin

text \<open>The properties of seeding from peers.\<close>

text \<open>C39: nothing is adopted without a quorum: after \<open>Run\<close> on a store without remotes, every tag row
  belongs to a remote that at least \<open>SeedQuorum\<close> peer views list; its pinned object id is one that
  at least \<open>SeedQuorum\<close> reports about the tag agree on, and it is tainted exactly if at least
  \<open>SeedQuorum\<close> reports say so.\<close>

theorem seed_needs_quorum:
  assumes "\<And>xs. mset (order xs) = mset xs" and "0 < cfg_SeedQuorum c"
    and "sync_ok (w_db w)" and "t_remotes (w_db w) = []"
    and "Run order hexUni lib arriveP arriveR sqliteStore c net w = (r, w')"
    and "fetchAll lib arriveP arriveR c net (peerURLs c) = (byURL, used)"
    and "ref_at (w_db w') rid tag = Some row"
  shows "\<exists>url hex. db_urls (w_db w') url = Some rid \<and> cfg_SeedQuorum c \<le> int (length (lookupList byURL url)) \<and>
    parseHexOID hexUni hex = Inr (ref_FirstOID (refFromRow row)) \<and>
    cfg_SeedQuorum c \<le> int (length (filter (\<lambda>v. wt_FirstOID (tv_tag v) = Some hex) (reports (lookupList byURL url) tag))) \<and>
    (ref_Tainted (refFromRow row) \<longleftrightarrow>
       cfg_SeedQuorum c \<le> int (length (filter (\<lambda>v. wt_Tainted (tv_tag v)) (reports (lookupList byURL url) tag))))"
proof (rule seeded_quorum [OF sync_okD(3) [OF assms(3)] _ assms(1,2,7)])
  have "w_db w' \<noteq> w_db w"
    using no_remotes_no_rows(2) [OF sync_okD(3) [OF assms(3)] assms(4)] assms(7) by (auto simp: db_view_def fun_eq_iff)
  then show "seeded c (mergeQuorum order hexUni byURL (cfg_SeedQuorum c)) (w_db w) (w_db w')"
    using Run_cases(2) [OF assms(3,5)] assms(6) by simp
qed

theorem seed_needs_quorum_witness:
  "\<exists>rid row url hex. ref_at (w_db demo_seeded) rid ''v1'' = Some row \<and> db_urls (w_db demo_seeded) url = Some rid \<and>
     2 \<le> length (lookupList demo_views url) \<and> parseHexOID id hex = Inr (ref_FirstOID (refFromRow row))"
proof -
  obtain r where run: "Run id id seed_lib id id sqliteStore demo_cfg demo_net (demo_world empty_db) = (r, demo_seeded)"
    by (rule demo_run)
  obtain used where fetch: "fetchAll seed_lib id id demo_cfg demo_net (peerURLs demo_cfg) = (demo_views, used)"
    by (rule demo_fetch)
  obtain rid row where row: "ref_at (w_db demo_seeded) rid ''v1'' = Some row" by (rule demo_row)
  from seed_needs_quorum [OF _ _ demo_world_empty(2,3) run fetch row] row show ?thesis by fastforce
qed



text \<open>Seeding never fails the start-up and never harms a store: \<open>Run\<close> returns without an error,
  keeps the database consistent and its record append-only, leaves a store that has remotes as
  it is, and either changes nothing or adds at most \<open>SeedMaxRemotes\<close> remotes and
  \<open>SeedMaxObservations\<close> observations, whatever the peers answer and whichever statements fail.\<close>

theorem seed_keeps_database:
  assumes "sync_ok (w_db w)" and "Run order hexUni lib arriveP arriveR sqliteStore c net w = (r, w')"
  shows "r = Inr () \<and> sync_ok (w_db w') \<and> history (w_db w) (w_db w') \<and>
    (w_db w' = w_db w \<or> t_remotes (w_db w) = [] \<and> SeedEnabled c \<and>
       int (length (t_remotes (w_db w'))) \<le> cfg_SeedMaxRemotes c \<and>
       int (length (t_observations (w_db w'))) \<le> cfg_SeedMaxObservations c)"
proof -
  let ?res = "mergeQuorum order hexUni (fst (fetchAll lib arriveP arriveR c net (peerURLs c))) (cfg_SeedQuorum c)"
  consider "w_db w' = w_db w" | "SeedEnabled c" "seeded c ?res (w_db w) (w_db w')"
    using Run_cases(2) [OF assms] by blast
  then show ?thesis
  proof cases
    case 1
    then show ?thesis using assms(1) Run_cases(1) [OF assms] by (simp add: history_refl)
  next
    case 2
    note s = sync_okD(3) [OF assms(1)] 2(2)
    show ?thesis
      using 2 seeded_remotes [OF s] seeded_rows(5) [OF s] Run_cases(1) [OF assms]
      by (simp add: seeded_def mergeQuorum_remotes(2))
  qed
qed

theorem seed_keeps_database_witness:
  "sync_ok (w_db demo_seeded) \<and> history empty_db (w_db demo_seeded)"
  using seed_keeps_database [OF demo_world_empty(2) prod.collapse [symmetric], of id id seed_lib id id demo_cfg demo_net]
  by (simp add: demo_seeded_def demo_world_def)

text \<open>The merge does not depend on the order in which Go iterates over the maps that count
  votes: any two orders give the same merge.\<close>

theorem merge_is_deterministic:
  assumes "\<And>xs. mset (order xs) = mset xs" and "\<And>xs. mset (order' xs) = mset xs"
  shows "mergeQuorum order hexUni byURL quorum = mergeQuorum order' hexUni byURL quorum"
  unfolding mergeQuorum_order [OF assms(1)] mergeQuorum_order [OF assms(2)] ..

theorem merge_is_deterministic_witness:
  "mergeQuorum rev id demo_views 2 = mergeQuorum id id demo_views 2"
  by (rule merge_is_deterministic) simp_all

text \<open>An adopted history is continuous: the events of an adopted tag are in the order of their
  times, the first starts at the pinned object id and each other one where its predecessor
  ended (or, recreated after a deletion, at nothing), a deletion is one that ends at nothing, and
  every event is one that a peer reporting the tag as tainted sent.\<close>

theorem merged_history_is_continuous:
  assumes "mr \<in> set (res_remotes (mergeQuorum order hexUni byURL quorum))" and "mt \<in> set (mr_tags mr)"
  shows "chained (mt_firstOID mt) (mt_events mt) \<and> sorted (map me_detectedAtNS (mt_events mt)) \<and>
    (\<forall>e \<in> set (mt_events mt). \<exists>v \<in> set (reports (lookupList byURL (mr_normalizedURL mr)) (mt_name mt)).
       wt_Tainted (tv_tag v) \<and> (\<exists>u \<in> set (tv_events v). taintEventToMerged hexUni u = Inr e))"
  using mergeTag_events(1-3) [OF adopted_tag(2) [OF assms]] by blast

theorem merged_history_is_continuous_witness:
  "\<exists>mr \<in> set (res_remotes (mergeQuorum id id demo_views 2)). \<exists>mt \<in> set (mr_tags mr). chained (mt_firstOID mt) (mt_events mt)"
proof -
  from demo_merge(1,2) obtain mr mt where "mr \<in> set (res_remotes (mergeQuorum id id demo_views 2))" "mt \<in> set (mr_tags mr)"
    by (cases "res_remotes (mergeQuorum id id demo_views 2)") (auto simp: map_eq_Cons_conv)
  then show ?thesis using merged_history_is_continuous [of mr id id demo_views 2 mt] by blast
qed

end
