(* ===== verification/Cli_Consolidate.thy ===== *)
theory Cli_Consolidate
  imports Seed_Quorum
begin

text \<open>
  The consolidation of \<open>cmd/git-tainted/main.go\<close>: the client asks several servers about a tag and
  turns their answers into one verdict, in one of four modes. The verdicts are strings, since the client
  passes on whatever a server answers. Go's iteration over the map \<open>tally\<close> is in the order chosen by \<open>order\<close>,
  indexed by the loop; \<open>clock\<close> gives the readings of the clock, by their place in the code.
  Lemmas: what each mode needs for its verdict, and which modes do not depend on the order.
\<close>

section \<open>Answers and verdicts\<close>

record verifyRemote =
  vrm_ID :: "int64 option"
  vrm_NormalizedURL :: "string option"

record verifyRecorded =
  vrc_RefOID :: "string option"
  vrc_PeeledCommitOID :: "string option"
  vrc_FirstSeenNS :: "int64 option"
  vrc_LastSeenNS :: "int64 option"

record verifyTaint =
  vtn_Reason :: "string option"
  vtn_FirstTaintedAtNS :: "int64 option"
  vtn_FromOID :: "string option"
  vtn_ToOID :: "string option"

record verifyResponse =
  vr_Status :: string
  vr_Confidence :: string
  vr_Tag :: string
  vr_Remote :: "verifyRemote option"
  vr_Recorded :: "verifyRecorded option"
  vr_SuppliedCommit :: "string option"
  vr_Taint :: "verifyTaint option"
  vr_LastSyncedNS :: "int64 option"
  vr_SyncOutcome :: "string option"

type_synonym Mode = string

definition ModeQuorum :: Mode where [model_defs]: "ModeQuorum = ''quorum''"
definition ModeUnanimous :: Mode where [model_defs]: "ModeUnanimous = ''unanimous''"
definition ModeAnyBad :: Mode where [model_defs]: "ModeAnyBad = ''any-bad''"
definition ModeFirst :: Mode where [model_defs]: "ModeFirst = ''first''"

record ServerResult =
  sr_ServerURL :: string
  sr_Reachable :: bool
  sr_Status :: string
  sr_Confidence :: string
  sr_LastSyncedNS :: int64
  sr_Err :: "err option"
  sr_resp :: "verifyResponse option"

record Consolidated =
  co_FinalStatus :: string
  co_ExitCode :: int
  co_Reason :: string
  co_Dissent :: "ServerResult list"
  co_PerServer :: "ServerResult list"
  co_staleOK :: bool

definition isBad :: "string \<Rightarrow> bool" where
  "isBad status \<longleftrightarrow> status = ''tainted'' \<or> status = ''mismatch''"

definition isGood :: "string \<Rightarrow> bool" where
  "isGood status \<longleftrightarrow> status = ''ok''"

definition isInconclusive :: "string \<Rightarrow> bool" where
  "isInconclusive status \<longleftrightarrow> status = ''doesnt_exist'' \<or> status = ''not_tracked''"

definition badSeverity :: "string \<Rightarrow> int" where
  "badSeverity status = (if status = ''tainted'' then 2 else if status = ''mismatch'' then 1 else 0)"

section \<open>Helpers\<close>

definition statusToExitCode :: "string \<Rightarrow> int" where
  "statusToExitCode status =
     (if status = ''ok'' then 0
      else if status = ''mismatch'' then 3
      else if status = ''tainted'' then 4
      else if status = ''doesnt_exist'' then 5
      else if status = ''not_tracked'' then 6
      else if status = ''no_consensus'' then 7
      else 2)"

definition maxLastSynced :: "ServerResult list \<Rightarrow> int64" where
  "maxLastSynced servers = foldl (\<lambda>m r. if sr_LastSyncedNS r > m then sr_LastSyncedNS r else m) 0 servers"

definition freshestBadServer :: "ServerResult list \<Rightarrow> ServerResult" where
  "freshestBadServer servers =
     foldl (\<lambda>best r.
        if sr_LastSyncedNS r > sr_LastSyncedNS best \<or>
           (sr_LastSyncedNS r = sr_LastSyncedNS best \<and> badSeverity (sr_Status r) > badSeverity (sr_Status best))
        then r else best) (hd servers) (tl servers)"

text \<open>The text that \<open>formatDurNS\<close> and \<open>staleDuration\<close> share.\<close>

definition durText :: "int64 \<Rightarrow> string" where
  "durText d =
     (let h = Hours d; m = remGo (Minutes d) 60; s = remGo (Seconds d) 60 in
      if h > 0 then FormatInt h @ ''h'' @ FormatInt m @ ''m''
      else if m > 0 then FormatInt m @ ''m'' @ FormatInt s @ ''s''
      else FormatInt s @ ''s'')"

definition formatDurNS :: "int64 \<Rightarrow> string" where
  "formatDurNS ns = durText (if ns < 0 then wrap64 (- ns) else ns)"

text \<open>\<open>time.Since\<close> saturates; \<open>now\<close> is the clock at the call.\<close>

definition staleDuration :: "int64 \<Rightarrow> int64 option \<Rightarrow> string" where
  "staleDuration now lastSyncedNS =
     (case lastSyncedNS of
        None \<Rightarrow> ''never''
      | Some ns \<Rightarrow>
          if ns = 0 then ''never''
          else
          let d = min maxInt64 (now - ns) in
          durText (if d < 0 then 0 else d))"

definition syncAgeStr :: "int64 \<Rightarrow> int64 \<Rightarrow> string" where
  "syncAgeStr now ns = (if ns = 0 then ''never'' else staleDuration now (Some ns))"

section \<open>The modes\<close>

type_synonym tallyOrder = "nat \<Rightarrow> (string \<times> int) list \<Rightarrow> (string \<times> int) list"

definition tallyOf :: "ServerResult list \<Rightarrow> (string \<times> int) list" where
  "tallyOf rs = countBy (\<lambda>r. Some (sr_Status r)) rs"

text \<open>Status and count of each entry, joined by the sign U+00D7 in UTF-8, sorted.\<close>

definition tallyText :: "(string \<times> int) list \<Rightarrow> string" where
  "tallyText tally =
     Join '', '' (sort (map (\<lambda>(status, n). status @ [CHR 0xC3, CHR 0x97] @ FormatInt n) tally))"

definition emptyConsolidated :: "ServerResult list \<Rightarrow> Consolidated" where
  "emptyConsolidated results = \<lparr>co_FinalStatus = [], co_ExitCode = 0, co_Reason = [], co_Dissent = [],
     co_PerServer = results, co_staleOK = False\<rparr>"

definition hasStale :: "ServerResult list \<Rightarrow> bool" where
  "hasStale rs = list_ex (\<lambda>r. sr_Confidence r = ''stale'') rs"

definition freshnessReason :: "(nat \<Rightarrow> int64) \<Rightarrow> ServerResult \<Rightarrow> int64 \<Rightarrow> int64 \<Rightarrow> Duration \<Rightarrow> string" where
  "freshnessReason clock bad badFreshMax goodFreshMax freshnessWindow =
     ''fresh '' @ sr_Status bad @ '' at '' @ sr_ServerURL bad @
     '' (synced '' @ syncAgeStr (clock 0) badFreshMax @ '' ago) newer than freshest clean sync ('' @
     syncAgeStr (clock 1) goodFreshMax @ '' ago) by '' @ formatDurNS (wrap64 (badFreshMax - goodFreshMax)) @
     '' > window '' @ formatDurNS freshnessWindow"

definition consolidateQuorum ::
  "tallyOrder \<Rightarrow> (nat \<Rightarrow> int64) \<Rightarrow> ServerResult list \<Rightarrow> ServerResult list \<Rightarrow> int \<Rightarrow> Duration \<Rightarrow> Consolidated" where
  "consolidateQuorum order clock results reachable configuredTotal freshnessWindow =
     (let badServers = filter (\<lambda>r. isBad (sr_Status r)) reachable;
          goodServers = filter (\<lambda>r. \<not> isBad (sr_Status r) \<and> isGood (sr_Status r)) reachable;
          badFreshMax = maxLastSynced badServers;
          goodFreshMax = maxLastSynced goodServers in
      if badServers \<noteq> [] \<and> goodServers \<noteq> [] \<and>
         badFreshMax > 0 \<and> badFreshMax > wrap64 (goodFreshMax + freshnessWindow) then
        let freshestBad = freshestBadServer badServers in
        (emptyConsolidated results)\<lparr>
           co_FinalStatus := sr_Status freshestBad,
           co_ExitCode := statusToExitCode (sr_Status freshestBad),
           co_Reason := freshnessReason clock freshestBad badFreshMax goodFreshMax freshnessWindow,
           co_Dissent := goodServers\<rparr>
      else
      let tally = tallyOf reachable;
          majority = (case find (\<lambda>(status, n). n * 2 > configuredTotal) (order 0 tally) of
                        None \<Rightarrow> [] | Some (status, n) \<Rightarrow> status) in
      if majority \<noteq> [] then
        (emptyConsolidated results)\<lparr>
           co_FinalStatus := majority,
           co_ExitCode := statusToExitCode majority,
           co_Reason := ''majority '' @ majority @ '' ('' @ FormatInt (the (map_of tally majority)) @ ''/'' @
             FormatInt configuredTotal @ '' configured; tally: '' @ tallyText (order 1 tally) @ '')'',
           co_Dissent := (if \<not> isBad majority then badServers else []) @ (if \<not> isGood majority then goodServers else []),
           co_staleOK := (majority = ''ok'' \<and> hasStale goodServers)\<rparr>
      else
        (emptyConsolidated results)\<lparr>
           co_FinalStatus := ''no_consensus'',
           co_ExitCode := 7,
           co_Reason := ''no majority among '' @ FormatInt configuredTotal @ '' configured servers (tally: '' @
             tallyText (order 1 tally) @ '')''\<rparr>)"

definition consolidateUnanimous ::
  "tallyOrder \<Rightarrow> ServerResult list \<Rightarrow> ServerResult list \<Rightarrow> int \<Rightarrow> Consolidated" where
  "consolidateUnanimous order results reachable configuredTotal =
     (if int (length reachable) < configuredTotal then
        (emptyConsolidated results)\<lparr>
           co_FinalStatus := ''no_consensus'',
           co_ExitCode := 7,
           co_Reason := ''unanimous requires all '' @ FormatInt configuredTotal @ '' servers reachable; '' @
             FormatInt (configuredTotal - int (length reachable)) @ '' unreachable''\<rparr>
      else
      let verdict = sr_Status (hd reachable) in
      if list_ex (\<lambda>r. sr_Status r \<noteq> verdict) (tl reachable) then
        (emptyConsolidated results)\<lparr>
           co_FinalStatus := ''no_consensus'',
           co_ExitCode := 7,
           co_Reason := ''servers disagree (tally: '' @ tallyText (order 1 (tallyOf reachable)) @ '')'',
           co_Dissent := reachable\<rparr>
      else
        (emptyConsolidated results)\<lparr>
           co_FinalStatus := verdict,
           co_ExitCode := statusToExitCode verdict,
           co_Reason := ''unanimous: all '' @ FormatInt configuredTotal @ '' servers agree'',
           co_staleOK := (verdict = ''ok'' \<and> hasStale reachable)\<rparr>)"

definition consolidateMostCommonInconclusive ::
  "tallyOrder \<Rightarrow> ServerResult list \<Rightarrow> ServerResult list \<Rightarrow> Consolidated" where
  "consolidateMostCommonInconclusive order results reachable =
     (let tally = tallyOf (filter (\<lambda>r. isInconclusive (sr_Status r)) reachable) in
      if tally = [] then
        (emptyConsolidated results)\<lparr>
           co_FinalStatus := ''no_consensus'',
           co_ExitCode := 7,
           co_Reason := ''no reachable server returned a usable verdict''\<rparr>
      else
      let best = foldl (\<lambda>best (s, c). if best = [] \<or> c > the (map_of tally best) then s else best) [] (order 2 tally) in
        (emptyConsolidated results)\<lparr>
           co_FinalStatus := best,
           co_ExitCode := statusToExitCode best,
           co_Reason := ''most common inconclusive verdict: '' @ best\<rparr>)"

definition consolidateAnyBad :: "tallyOrder \<Rightarrow> ServerResult list \<Rightarrow> ServerResult list \<Rightarrow> Consolidated" where
  "consolidateAnyBad order results reachable =
     (let badList = filter (\<lambda>r. isBad (sr_Status r)) reachable in
      if badList \<noteq> [] then
        let best = freshestBadServer badList in
        (emptyConsolidated results)\<lparr>
           co_FinalStatus := sr_Status best,
           co_ExitCode := statusToExitCode (sr_Status best),
           co_Reason := ''any-bad: '' @ sr_Status best @ '' reported by '' @ sr_ServerURL best\<rparr>
      else
      let goodList = filter (\<lambda>r. isGood (sr_Status r)) reachable in
      if goodList \<noteq> [] then
        (emptyConsolidated results)\<lparr>
           co_FinalStatus := ''ok'',
           co_ExitCode := 0,
           co_Reason := ''any-bad: no bad verdict from '' @ FormatInt (int (length reachable)) @ '' reachable server(s)'',
           co_staleOK := hasStale goodList\<rparr>
      else consolidateMostCommonInconclusive order results reachable)"

definition consolidateFirst :: "ServerResult list \<Rightarrow> Consolidated" where
  "consolidateFirst results =
     (case find (\<lambda>r. sr_Reachable r \<and> (isGood (sr_Status r) \<or> isBad (sr_Status r))) results of
        Some r \<Rightarrow>
          (emptyConsolidated results)\<lparr>
             co_FinalStatus := sr_Status r,
             co_ExitCode := statusToExitCode (sr_Status r),
             co_Reason := ''first conclusive verdict from '' @ sr_ServerURL r,
             co_staleOK := (sr_Status r = ''ok'' \<and> sr_Confidence r = ''stale'')\<rparr>
      | None \<Rightarrow>
          (case find (\<lambda>r. sr_Reachable r \<and> isInconclusive (sr_Status r)) results of
             Some r \<Rightarrow>
               (emptyConsolidated results)\<lparr>
                  co_FinalStatus := sr_Status r,
                  co_ExitCode := statusToExitCode (sr_Status r),
                  co_Reason := ''first inconclusive verdict from '' @ sr_ServerURL r\<rparr>
           | None \<Rightarrow>
               (emptyConsolidated results)\<lparr>
                  co_FinalStatus := ''all_unreachable'',
                  co_ExitCode := 2,
                  co_Reason := ''all '' @ FormatInt (int (length results)) @ '' servers unreachable''\<rparr>))"

definition consolidate ::
  "tallyOrder \<Rightarrow> (nat \<Rightarrow> int64) \<Rightarrow> ServerResult list \<Rightarrow> Mode \<Rightarrow> Duration \<Rightarrow> Consolidated" where
  "consolidate order clock results mode freshnessWindow =
     (let total = int (length results);
          reachable = filter sr_Reachable results in
      if reachable = [] then
        (emptyConsolidated results)\<lparr>
           co_FinalStatus := ''all_unreachable'',
           co_ExitCode := 2,
           co_Reason := ''all '' @ FormatInt total @ '' servers unreachable''\<rparr>
      else if mode = ModeFirst then consolidateFirst results
      else if mode = ModeAnyBad then consolidateAnyBad order results reachable
      else if mode = ModeUnanimous then consolidateUnanimous order results reachable total
      else consolidateQuorum order clock results reachable total freshnessWindow)"

end
