(* ===== verification/Go_Flag.thy ===== *)
theory Go_Flag
  imports Go_Format
begin

text \<open>
  \<open>FlagSet.Parse\<close> of Go's package \<open>flag\<close>: the assignments that a command line makes, in order, and the
  arguments left over. A flag is boolean (its value is optional and joined by \<open>=\<close>) or takes a value, of which an
  integer is checked when it is set. Giving an unambiguous list of \<open>--name=value\<close> arguments is parsed back to the same list.
\<close>

datatype flagKind = BoolFlag | ValueFlag | IntFlag

datatype flagError = ErrHelp | FlagError

definition ParseBool :: "string \<Rightarrow> bool option" where
  "ParseBool s =
     (if s \<in> set [''1'', ''t'', ''T'', ''TRUE'', ''true'', ''True''] then Some True
      else if s \<in> set [''0'', ''f'', ''F'', ''FALSE'', ''false'', ''False''] then Some False
      else None)"

text \<open>
  \<open>strconv.ParseInt(s, 0, 64)\<close>, with which \<open>IntVar\<close> and \<open>Int64Var\<close> read a value: a sign, a base prefix, and
  underscores between digits. Syntax and range errors alike are \<open>None\<close>.
\<close>

definition digitValue :: "char \<Rightarrow> nat option" where
  "digitValue c =
     (let n = of_char (ToLowerChar c) :: nat in
      if 48 \<le> n \<and> n \<le> 57 then Some (n - 48) else if 97 \<le> n \<and> n \<le> 122 then Some (n - 87) else None)"

fun digitsValue :: "nat \<Rightarrow> int \<Rightarrow> string \<Rightarrow> int option" where
  "digitsValue base n [] = Some n"
| "digitsValue base n (c # s) =
     (if c = CHR ''_'' then digitsValue base n s
      else case digitValue c of
        None \<Rightarrow> None
      | Some d \<Rightarrow> if d \<ge> base then None else digitsValue base (int base * n + int d) s)"

definition basePrefix :: "string \<Rightarrow> nat \<times> string" where
  "basePrefix s =
     (if s = [] \<or> hd s \<noteq> CHR ''0'' then (10, s)
      else if length s \<ge> 3 \<and> ToLowerChar (s ! 1) = CHR ''b'' then (2, drop 2 s)
      else if length s \<ge> 3 \<and> ToLowerChar (s ! 1) = CHR ''o'' then (8, drop 2 s)
      else if length s \<ge> 3 \<and> ToLowerChar (s ! 1) = CHR ''x'' then (16, drop 2 s)
      else (8, tl s))"

text \<open>\<open>underscoreOK\<close>: an underscore follows a digit or the base prefix, and a digit follows it. The digits are known to be good.\<close>

fun underscoresOK :: "bool \<Rightarrow> string \<Rightarrow> bool" where
  "underscoresOK digit [] \<longleftrightarrow> True"
| "underscoresOK digit (c # s) \<longleftrightarrow> (if c = CHR ''_'' then digit \<and> s \<noteq> [] \<and> underscoresOK False s else underscoresOK True s)"

definition underscoreOK :: "string \<Rightarrow> bool" where
  "underscoreOK s \<longleftrightarrow>
     (if length s \<ge> 2 \<and> hd s = CHR ''0'' \<and> ToLowerChar (s ! 1) \<in> set ''box'' then underscoresOK True (drop 2 s)
      else underscoresOK False s)"

definition ParseInt0 :: "string \<Rightarrow> int option" where
  "ParseInt0 v =
     (if v = [] then None
      else
      let neg = (hd v = CHR ''-'');
          s = (if hd v = CHR ''+'' \<or> neg then tl v else v);
          (base, ds) = basePrefix s in
      if s = [] then None
      else case digitsValue base 0 ds of
        None \<Rightarrow> None
      | Some n \<Rightarrow>
          if CHR ''_'' \<in> set ds \<and> \<not> underscoreOK s then None
          else
          let i = (if neg then - n else n) in
          if in_int64 i then Some i else None)"

text \<open>The first \<open>=\<close> after the first character ends the name.\<close>

definition splitFlag :: "string \<Rightarrow> string \<times> string option" where
  "splitFlag name =
     (case IndexByte (tl name) (CHR ''='') of
        None \<Rightarrow> (name, None)
      | Some i \<Rightarrow> (take (Suc i) name, Some (drop (i + 2) name)))"

datatype flagArg = NotAFlag | EndOfFlags | BadFlag | Flag string "string option"

definition classify :: "string \<Rightarrow> flagArg" where
  "classify s =
     (if length s < 2 \<or> hd s \<noteq> CHR ''-'' then NotAFlag
      else
      let two = (s ! 1 = CHR ''-'') in
      if two \<and> length s = 2 then EndOfFlags
      else
      let name = drop (if two then 2 else 1) s in
      if name = [] \<or> hd name = CHR ''-'' \<or> hd name = CHR ''='' then BadFlag
      else case splitFlag name of (n, v) \<Rightarrow> Flag n v)"

definition setting :: "string \<Rightarrow> string \<Rightarrow> flagError + ((string \<times> string) list \<times> string list) \<Rightarrow>
    flagError + ((string \<times> string) list \<times> string list)" where
  "setting n v rest = (case rest of Inl e \<Rightarrow> Inl e | Inr (sets, args) \<Rightarrow> Inr ((n, v) # sets, args))"

definition accepts :: "flagKind \<Rightarrow> string \<Rightarrow> bool" where
  "accepts kind v \<longleftrightarrow> kind = IntFlag \<longrightarrow> ParseInt0 v \<noteq> None"

fun flagParse :: "(string \<Rightarrow> flagKind option) \<Rightarrow> string list \<Rightarrow> flagError + ((string \<times> string) list \<times> string list)" where
  "flagParse formal [] = Inr ([], [])"
| "flagParse formal (s # args) =
     (case classify s of
        NotAFlag \<Rightarrow> Inr ([], s # args)
      | EndOfFlags \<Rightarrow> Inr ([], args)
      | BadFlag \<Rightarrow> Inl FlagError
      | Flag name value \<Rightarrow>
          (case formal name of
             None \<Rightarrow> Inl (if name = ''help'' \<or> name = ''h'' then ErrHelp else FlagError)
           | Some BoolFlag \<Rightarrow>
               (case value of
                  None \<Rightarrow> setting name ''true'' (flagParse formal args)
                | Some v \<Rightarrow>
                    (case ParseBool v of
                       None \<Rightarrow> Inl FlagError
                     | Some b \<Rightarrow> setting name (if b then ''true'' else ''false'') (flagParse formal args)))
           | Some kind \<Rightarrow>
               (case value of
                  Some v \<Rightarrow> if accepts kind v then setting name v (flagParse formal args) else Inl FlagError
                | None \<Rightarrow>
                    (case args of
                       [] \<Rightarrow> Inl FlagError
                     | v # rest \<Rightarrow> if accepts kind v then setting name v (flagParse formal rest) else Inl FlagError))))"

text \<open>A flag name as a program declares it.\<close>

definition flagName :: "string \<Rightarrow> bool" where
  "flagName n \<longleftrightarrow> n \<noteq> [] \<and> hd n \<noteq> CHR ''-'' \<and> CHR ''='' \<notin> set n"

lemma classify_print: "flagName n \<Longrightarrow> classify (''--'' @ n @ ''='' @ v) = Flag n (Some v)"
  by (cases n) (auto simp: flagName_def classify_def splitFlag_def Let_def IndexByte_append)

lemma flagParse_print:
  assumes "list_all (\<lambda>(n, v). flagName n \<and> formal n = Some ValueFlag) sets"
  shows "flagParse formal (map (\<lambda>(n, v). ''--'' @ n @ ''='' @ v) sets) = Inr (sets, [])"
  using assms
proof (induction sets)
  case (Cons s sets)
  then show ?case using classify_print [of "fst s" "snd s"] by (cases s) (simp add: setting_def accepts_def)
qed simp

end
