(* ===== verification/Cli.thy ===== *)
theory Cli
  imports Cli_Consolidate Go_Flag Seed
begin

text \<open>
  The command \<open>git-tainted\<close> (\<open>cmd/git-tainted/main.go\<close>): flags and environment, the questions to git, the
  request to each server, the verdict and the exit code. The result of a run is the exit code and what was
  written, in order. Outside are the git process, the servers behind HTTP, the clock, and of the library:
  JSON, \<open>time.ParseDuration\<close>, \<open>fmt.Sscanf\<close>, non-ASCII text and the text of an error. A diagnostic is known by its
  leading text.
\<close>

record cliLib =
  cl_host :: hostLib
  cl_lowerUni :: "string \<Rightarrow> string"    \<comment> \<open>\<open>strings.ToLower\<close> of text that is not ASCII\<close>
  cl_upperUni :: "string \<Rightarrow> string"
  cl_trimUni :: "string \<Rightarrow> string"     \<comment> \<open>\<open>strings.TrimSpace\<close> of text that is not ASCII\<close>
  cl_ParseDuration :: "string \<Rightarrow> err + Duration"
  cl_Sscanf :: "string \<Rightarrow> err + int64"  \<comment> \<open>\<open>fmt.Sscanf(s, "%d", &ns)\<close>\<close>
  cl_decodeError :: "string \<Rightarrow> string"  \<comment> \<open>the field \<open>error\<close> of a JSON body, empty when there is none\<close>
  cl_decodeVerify :: "string \<Rightarrow> err + verifyResponse"
  cl_errText :: "err \<Rightarrow> string"

definition cliTrimSpace :: "cliLib \<Rightarrow> string \<Rightarrow> string" where
  "cliTrimSpace lib s = (if list_all isASCII s then TrimSpace s else cl_trimUni lib s)"

section \<open>Environment and servers\<close>

definition envValue :: "string list \<Rightarrow> string \<Rightarrow> string" where
  "envValue environ key =
     (let pre = key @ ''='' in
      case find (\<lambda>e. HasPrefix e pre) environ of None \<Rightarrow> [] | Some e \<Rightarrow> drop (length pre) e)"

definition envBool :: "cliLib \<Rightarrow> string list \<Rightarrow> string \<Rightarrow> bool" where
  "envBool lib environ key \<longleftrightarrow>
     strings_ToLower (cl_lowerUni lib) (cliTrimSpace lib (envValue environ key)) \<in> set [''1'', ''true'', ''yes'', ''on'']"

definition cliIsLoopbackHost :: "hostLib \<Rightarrow> string \<Rightarrow> bool" where
  "cliIsLoopbackHost lib host \<longleftrightarrow>
     (if list_all isASCII host then ToLower host = ''localhost'' else hl_eqFold lib host) \<or> hl_loopIP lib host"

definition checkServerURL :: "hostLib \<Rightarrow> string \<Rightarrow> bool \<Rightarrow> err option" where
  "checkServerURL lib raw insecure =
     (case url_Parse (hl_ipLit lib) raw of
        None \<Rightarrow> Some (ErrText ''invalid server URL'')
      | Some u \<Rightarrow>
          if url_Host u = [] then Some (ErrText ''invalid server URL'')
          else if url_Scheme u = ''https'' then None
          else if url_Scheme u = ''http'' then
            (if insecure \<or> cliIsLoopbackHost lib (Hostname u) then None
             else Some (ErrText ''refusing plaintext server''))
          else Some (ErrText ''server URL must be http or https''))"

definition isServerSep :: "char \<Rightarrow> bool" where
  "isServerSep c \<longleftrightarrow> c = CHR '','' \<or> c = CHR '' ''"

definition resolveServers :: "string list \<Rightarrow> string list \<Rightarrow> string list" where
  "resolveServers flagServers environ =
     (let sv = envValue environ ''GT_SERVERS'';
          sv1 = envValue environ ''GT_SERVER'';
          raw = flagServers @
                (if sv \<noteq> [] then filter (\<lambda>part. part \<noteq> []) (FieldsFunc isServerSep sv) else []) @
                (if sv1 \<noteq> [] then [sv1] else []);
          out = foldl (\<lambda>out s. if s \<notin> set out then out @ [s] else out) [] raw in
      if out = [] then [''http://127.0.0.1:8080''] else out)"

section \<open>Git\<close>

text \<open>A failed process: an exit status with what it wrote to standard error, or a failure to run.\<close>

datatype execError = ExitError string string | ExecFailed string

type_synonym gitCommand = "string \<Rightarrow> string list \<Rightarrow> execError + string"

definition runGitIn :: "cliLib \<Rightarrow> gitCommand \<Rightarrow> string \<Rightarrow> string list \<Rightarrow> err + string" where
  "runGitIn lib git dir args =
     (case git dir args of
        Inl (ExitError msg stderr) \<Rightarrow> Inl (ErrText (msg @ '': '' @ cliTrimSpace lib stderr))
      | Inl (ExecFailed msg) \<Rightarrow> Inl (ErrText msg)
      | Inr out \<Rightarrow> Inr out)"

definition trimmed :: "cliLib \<Rightarrow> err + string \<Rightarrow> err + string" where
  "trimmed lib r = (case r of Inl e \<Rightarrow> Inl e | Inr out \<Rightarrow> Inr (cliTrimSpace lib out))"

definition gitRemoteURL :: "cliLib \<Rightarrow> gitCommand \<Rightarrow> string \<Rightarrow> string \<Rightarrow> err + string" where
  "gitRemoteURL lib git dir remoteName = trimmed lib (runGitIn lib git dir [''remote'', ''get-url'', remoteName])"

definition gitDescribeTag :: "cliLib \<Rightarrow> gitCommand \<Rightarrow> string \<Rightarrow> err + string" where
  "gitDescribeTag lib git dir = trimmed lib (runGitIn lib git dir [''describe'', ''--tags'', ''--exact-match'', ''HEAD''])"

definition gitRevParse :: "cliLib \<Rightarrow> gitCommand \<Rightarrow> string \<Rightarrow> string \<Rightarrow> err + string" where
  "gitRevParse lib git dir ref = trimmed lib (runGitIn lib git dir [''rev-parse'', ref])"

section \<open>Requests\<close>

record httpReply =
  hr_StatusCode :: int
  hr_Body :: string

text \<open>The servers: the answer to a GET under a timeout, or the error of the HTTP client.\<close>

type_synonym httpNet = "Duration \<Rightarrow> string \<Rightarrow> err + httpReply"

definition verifyURL :: "string \<Rightarrow> string \<Rightarrow> string \<Rightarrow> string \<Rightarrow> string" where
  "verifyURL serverURL remoteURL tagName commit =
     TrimRightSlash serverURL @ ''/v1/verify?'' @
     Encode [(''remote'', remoteURL), (''tag'', tagName), (''commit'', commit)]"

definition callVerifyCtx ::
  "cliLib \<Rightarrow> httpNet \<Rightarrow> Duration \<Rightarrow> string \<Rightarrow> string \<Rightarrow> string \<Rightarrow> string \<Rightarrow> err + verifyResponse" where
  "callVerifyCtx lib net timeout serverURL remoteURL tagName commit =
     (let reqURL = verifyURL serverURL remoteURL tagName commit in
      case url_Parse (hl_ipLit (cl_host lib)) reqURL of
        None \<Rightarrow> Inl (ErrText ''building request'')
      | Some _ \<Rightarrow>
          (case net timeout reqURL of
             Inl e \<Rightarrow> Inl (ErrText (''calling server: '' @ cl_errText lib e))
           | Inr httpResp \<Rightarrow>
               if hr_StatusCode httpResp = 422 then
                 (let msg = cl_decodeError lib (hr_Body httpResp) in
                  Inl (ErrText (if msg \<noteq> [] then ''server rejected request (422): '' @ msg else ''server returned 422'')))
               else if hr_StatusCode httpResp \<noteq> 200 then
                 Inl (ErrText (''server returned HTTP '' @ FormatInt (hr_StatusCode httpResp)))
               else
                 (case cl_decodeVerify lib (hr_Body httpResp) of
                    Inl e \<Rightarrow> Inl (ErrText (''parsing response: '' @ cl_errText lib e))
                  | Inr resp \<Rightarrow>
                      if vr_Status resp = [] then Inl (ErrText ''response missing status field'') else Inr resp)))"

definition toResult :: "string \<Rightarrow> err + verifyResponse \<Rightarrow> ServerResult" where
  "toResult srv answer =
     (case answer of
        Inl e \<Rightarrow> \<lparr>sr_ServerURL = srv, sr_Reachable = False, sr_Status = [], sr_Confidence = [], sr_LastSyncedNS = 0,
                  sr_Err = Some e, sr_resp = None\<rparr>
      | Inr resp \<Rightarrow> \<lparr>sr_ServerURL = srv, sr_Reachable = True, sr_Status = vr_Status resp, sr_Confidence = vr_Confidence resp,
                  sr_LastSyncedNS = (case vr_LastSyncedNS resp of None \<Rightarrow> 0 | Some ns \<Rightarrow> ns),
                  sr_Err = None, sr_resp = Some resp\<rparr>)"

text \<open>One goroutine per server, each writing its own element of the result.\<close>

definition fanOut ::
  "cliLib \<Rightarrow> httpNet \<Rightarrow> string list \<Rightarrow> string \<Rightarrow> string \<Rightarrow> string \<Rightarrow> Duration \<Rightarrow> ServerResult list" where
  "fanOut lib net servers remoteURL tagName commit perServerTimeout =
     map (\<lambda>srv. toResult srv (callVerifyCtx lib net perServerTimeout srv remoteURL tagName commit)) servers"

section \<open>Output\<close>

record serverJSONEntry =
  sj_URL :: string
  sj_Reachable :: bool
  sj_Status :: string
  sj_Confidence :: string
  sj_LastSyncedNS :: int64
  sj_Error :: string

record multiJSONOutput =
  mj_Mode :: Mode
  mj_FreshnessWindowNS :: int64
  mj_FinalStatus :: string
  mj_ExitCode :: int
  mj_Reason :: string
  mj_Servers :: "serverJSONEntry list"
  mj_Dissent :: "serverJSONEntry list"

datatype cliOutput =
    Out string                    \<comment> \<open>text on standard output\<close>
  | OutMulti multiJSONOutput      \<comment> \<open>a value encoded as JSON on standard output\<close>
  | OutResponse verifyResponse
  | Diag string                   \<comment> \<open>a diagnostic on standard error\<close>

definition arrow :: string where "arrow = [CHR 0x20, CHR 0xE2, CHR 0x86, CHR 0x92, CHR 0x20]"
definition dash :: string where "dash = [CHR 0x20, CHR 0xE2, CHR 0x80, CHR 0x94, CHR 0x20]"
definition nl :: string where "nl = [CHR 0x0A]"

definition ageOr :: "int64 \<Rightarrow> int64 \<Rightarrow> string" where
  "ageOr now ns = (if ns > 0 then staleDuration now (Some ns) else ''?'')"

definition serverLine :: "cliLib \<Rightarrow> int64 \<Rightarrow> ServerResult \<Rightarrow> string" where
  "serverLine lib now r =
     (if \<not> sr_Reachable r then
        ''  '' @ sr_ServerURL r @ arrow @ ''UNREACHABLE ('' @
        (case sr_Err r of None \<Rightarrow> ''<nil>'' | Some e \<Rightarrow> cl_errText lib e) @ '')'' @ nl
      else
        ''  '' @ sr_ServerURL r @ arrow @ sr_Status r @ '' (confidence='' @ sr_Confidence r @ '', last_sync='' @
        ageOr now (sr_LastSyncedNS r) @ '', seq=?)'' @ nl)"

definition dissentLine :: "int64 \<Rightarrow> ServerResult \<Rightarrow> string" where
  "dissentLine now d = ''  dissent: '' @ sr_ServerURL d @ arrow @ sr_Status d @ '' (last_sync='' @
     ageOr now (sr_LastSyncedNS d) @ '')'' @ nl"

definition emitMultiHuman ::
  "cliLib \<Rightarrow> (nat \<Rightarrow> int64) \<Rightarrow> Consolidated \<Rightarrow> ServerResult list \<Rightarrow> Mode \<Rightarrow> bool \<Rightarrow> int \<times> cliOutput list" where
  "emitMultiHuman lib clock con results mode strict =
     (if co_FinalStatus con = ''ok'' \<and> co_staleOK con \<and> strict then 10 else co_ExitCode con,
      map (\<lambda>(i, r). Out (serverLine lib (clock i) r)) (enumerate 0 results) @
      map (\<lambda>(i, d). Out (dissentLine (clock i) d)) (enumerate (length results) (co_Dissent con)) @
      [Out (mode @ '': '' @ strings_ToUpper (cl_upperUni lib) (co_FinalStatus con) @ dash @ co_Reason con @ nl)])"

definition toServerJSONEntry :: "cliLib \<Rightarrow> ServerResult \<Rightarrow> serverJSONEntry" where
  "toServerJSONEntry lib r =
     \<lparr>sj_URL = sr_ServerURL r, sj_Reachable = sr_Reachable r, sj_Status = sr_Status r, sj_Confidence = sr_Confidence r,
      sj_LastSyncedNS = sr_LastSyncedNS r,
      sj_Error = (case sr_Err r of None \<Rightarrow> [] | Some e \<Rightarrow> cl_errText lib e)\<rparr>"

definition emitMultiJSON :: "cliLib \<Rightarrow> Consolidated \<Rightarrow> Mode \<Rightarrow> Duration \<Rightarrow> int \<times> cliOutput list" where
  "emitMultiJSON lib con mode freshnessWindow =
     (co_ExitCode con,
      [OutMulti \<lparr>mj_Mode = mode, mj_FreshnessWindowNS = freshnessWindow, mj_FinalStatus = co_FinalStatus con,
         mj_ExitCode = co_ExitCode con, mj_Reason = co_Reason con,
         mj_Servers = map (toServerJSONEntry lib) (co_PerServer con),
         mj_Dissent = map (toServerJSONEntry lib) (co_Dissent con)\<rparr>])"

definition exitCode :: "verifyResponse \<Rightarrow> bool \<Rightarrow> int" where
  "exitCode resp strict =
     (if vr_Status resp = ''ok'' then (if strict \<and> vr_Confidence resp = ''stale'' then 10 else 0)
      else if vr_Status resp = ''mismatch'' then 3
      else if vr_Status resp = ''tainted'' then 4
      else if vr_Status resp = ''doesnt_exist'' then 5
      else if vr_Status resp = ''not_tracked'' then 6
      else 2)"

definition cliVerdict ::
  "int64 \<Rightarrow> verifyResponse \<Rightarrow> string \<Rightarrow> string \<Rightarrow> bool \<Rightarrow> bool \<Rightarrow> int \<times> cliOutput list" where
  "cliVerdict now resp remoteURL commit jsonOut strict =
     (if jsonOut then (exitCode resp strict, [OutResponse resp])
      else
      let normalizedURL = (case vr_Remote resp of
            None \<Rightarrow> remoteURL
          | Some r \<Rightarrow> (case vrm_NormalizedURL r of None \<Rightarrow> remoteURL | Some u \<Rightarrow> u)) in
      if vr_Status resp = ''ok'' then
        (if vr_Confidence resp = ''stale'' then
           (if strict then 10 else 0,
            [Out (''ok (stale: last sync '' @ staleDuration now (vr_LastSyncedNS resp) @ '' ago): '' @ vr_Tag resp @
               '' matches '' @ normalizedURL @ '' at '' @ commit @ nl)])
         else
           (0, [Out (''ok: '' @ vr_Tag resp @ '' matches '' @ normalizedURL @ '' at '' @ commit @ nl)]))
      else if vr_Status resp = ''mismatch'' then
        let recorded = (case vr_Recorded resp of
              None \<Rightarrow> ''<unknown>''
            | Some r \<Rightarrow> (case vrc_PeeledCommitOID r of
                  Some o1 \<Rightarrow> o1
                | None \<Rightarrow> (case vrc_RefOID r of Some o1 \<Rightarrow> o1 | None \<Rightarrow> ''<unknown>''))) in
        (3, [Out (''MISMATCH: '' @ vr_Tag resp @ '' on '' @ normalizedURL @ '' records '' @ recorded @ '', you have '' @
               commit @ nl)])
      else if vr_Status resp = ''tainted'' then
        let (reason, when) = (case vr_Taint resp of
              None \<Rightarrow> (''<unknown>'', ''<unknown>'')
            | Some t \<Rightarrow> (case vtn_Reason t of None \<Rightarrow> ''<unknown>'' | Some s \<Rightarrow> s,
                         case vtn_FirstTaintedAtNS t of None \<Rightarrow> ''<unknown>'' | Some ns \<Rightarrow> RFC3339 ns)) in
        (4, [Out (''TAINTED: '' @ vr_Tag resp @ '' on '' @ normalizedURL @ '' was rewritten ('' @ reason @ '' at '' @
               when @ '')'' @ nl)])
      else if vr_Status resp = ''doesnt_exist'' then
        (5, [Out (''not found: '' @ vr_Tag resp @ '' is not a tag on '' @ normalizedURL @ nl)])
      else if vr_Status resp = ''not_tracked'' then
        (6, [Out (''not tracked: '' @ normalizedURL @
               '' is not registered with the server (ask an operator to add it)'' @ nl)])
      else (2, [Diag ''error: unexpected status from server'']))"

section \<open>The run\<close>

record cliFlags =
  fl_server :: "string list"
  fl_mode :: string
  fl_freshnessWindow :: string
  fl_timeout :: string
  fl_remote :: string
  fl_url :: string
  fl_tag :: string
  fl_json :: bool
  fl_strict :: bool
  fl_insecure :: bool
  fl_version :: bool

definition defaultFlags :: cliFlags where
  "defaultFlags = \<lparr>fl_server = [], fl_mode = [], fl_freshnessWindow = [], fl_timeout = ''10s'', fl_remote = ''origin'',
     fl_url = [], fl_tag = [], fl_json = False, fl_strict = False, fl_insecure = False, fl_version = False\<rparr>"

definition cliFormal :: "string \<Rightarrow> flagKind option" where
  "cliFormal name =
     (if name \<in> set [''server'', ''mode'', ''freshness-window'', ''timeout'', ''remote'', ''url'', ''tag''] then Some ValueFlag
      else if name \<in> set [''json'', ''strict'', ''insecure'', ''version'', ''v''] then Some BoolFlag
      else None)"

text \<open>\<open>multiStringFlag.Set\<close> appends; the other flags keep the last value.\<close>

definition setFlag :: "cliFlags \<Rightarrow> string \<times> string \<Rightarrow> cliFlags" where
  "setFlag f nv = (case nv of (name, v) \<Rightarrow>
     if name = ''server'' then f\<lparr>fl_server := fl_server f @ [v]\<rparr>
     else if name = ''mode'' then f\<lparr>fl_mode := v\<rparr>
     else if name = ''freshness-window'' then f\<lparr>fl_freshnessWindow := v\<rparr>
     else if name = ''timeout'' then f\<lparr>fl_timeout := v\<rparr>
     else if name = ''remote'' then f\<lparr>fl_remote := v\<rparr>
     else if name = ''url'' then f\<lparr>fl_url := v\<rparr>
     else if name = ''tag'' then f\<lparr>fl_tag := v\<rparr>
     else if name = ''json'' then f\<lparr>fl_json := (v = ''true'')\<rparr>
     else if name = ''strict'' then f\<lparr>fl_strict := (v = ''true'')\<rparr>
     else if name = ''insecure'' then f\<lparr>fl_insecure := (v = ''true'')\<rparr>
     else if name = ''version'' \<or> name = ''v'' then f\<lparr>fl_version := (v = ''true'')\<rparr>
     else f)"

definition resolveMode :: "cliFlags \<Rightarrow> string list \<Rightarrow> Mode option" where
  "resolveMode f environ =
     (let mode = (if fl_mode f \<noteq> [] then fl_mode f
                  else let mv = envValue environ ''GT_MODE'' in if mv \<noteq> [] then mv else ModeQuorum) in
      if mode \<in> set [ModeQuorum, ModeUnanimous, ModeAnyBad, ModeFirst] then Some mode else None)"

definition resolveWindow :: "cliLib \<Rightarrow> cliFlags \<Rightarrow> string list \<Rightarrow> err + Duration" where
  "resolveWindow lib f environ =
     (if fl_freshnessWindow f \<noteq> [] then cl_ParseDuration lib (fl_freshnessWindow f)
      else let fwns = envValue environ ''GT_FRESHNESS_WINDOW_NS'' in
      if fwns \<noteq> [] then cl_Sscanf lib fwns else Inr 900000000000)"

definition resolveTimeout :: "cliLib \<Rightarrow> cliFlags \<Rightarrow> err + Duration" where
  "resolveTimeout lib f = (if fl_timeout f \<noteq> [] then cl_ParseDuration lib (fl_timeout f) else Inr 10000000000)"

definition checkServers :: "cliLib \<Rightarrow> cliFlags \<Rightarrow> string list \<Rightarrow> string list \<Rightarrow> err option" where
  "checkServers lib f environ servers =
     (let insecure = fl_insecure f \<or> envBool lib environ ''GT_INSECURE'' in
      case find (\<lambda>s. checkServerURL (cl_host lib) s insecure \<noteq> None) servers of
        None \<Rightarrow> None | Some s \<Rightarrow> checkServerURL (cl_host lib) s insecure)"

text \<open>Steps 1 to 3: the remote URL, the tag and the commit to ask about, or the diagnostic.\<close>

definition resolveSubject ::
  "cliLib \<Rightarrow> gitCommand \<Rightarrow> string \<Rightarrow> cliFlags \<Rightarrow> string + string \<times> string \<times> string" where
  "resolveSubject lib git repoDir f =
     (case (if fl_url f = [] then gitRemoteURL lib git repoDir (fl_remote f) else Inr (fl_url f)) of
        Inl _ \<Rightarrow> Inl ''error: cannot resolve remote''
      | Inr remoteURL \<Rightarrow>
          (case ValidateURL (hl_ipLit (cl_host lib)) (cl_lowerUni lib) remoteURL of
             Inl _ \<Rightarrow> Inl ''error: remote URL validation failed''
           | Inr _ \<Rightarrow>
               (case (if fl_tag f = [] then gitDescribeTag lib git repoDir else Inr (fl_tag f)) of
                  Inl _ \<Rightarrow> Inl ''error: HEAD is not at a tag (use --tag to specify one)''
                | Inr tagName \<Rightarrow>
                    if tagName = [] then Inl ''error: could not determine tag name''
                    else
                    (case gitRevParse lib git repoDir ''HEAD^{commit}'' of
                       Inl _ \<Rightarrow> Inl ''error: cannot resolve HEAD^{commit}''
                     | Inr commit \<Rightarrow> Inr (remoteURL, tagName, commit)))))"

text \<open>
  \<open>runWithConfig\<close>. \<open>clock 0\<close> and \<open>clock 1\<close> are the readings of the consolidation (or of the single verdict), the
  later ones those of the output.
\<close>

definition runWithConfig ::
  "cliLib \<Rightarrow> tallyOrder \<Rightarrow> (nat \<Rightarrow> int64) \<Rightarrow> gitCommand \<Rightarrow> httpNet \<Rightarrow> string \<Rightarrow> string list \<Rightarrow> string list \<Rightarrow> string \<Rightarrow>
   int \<times> cliOutput list" where
  "runWithConfig lib order clock git net buildinfo args environ repoDir =
     (case flagParse cliFormal args of
        Inl ErrHelp \<Rightarrow> (0, [Diag ''Usage''])
      | Inl FlagError \<Rightarrow> (2, [Diag ''Usage''])
      | Inr (sets, rest) \<Rightarrow>
          let f = foldl setFlag defaultFlags sets in
          if fl_version f then (0, [Out (''git-tainted '' @ buildinfo @ nl)])
          else if rest \<noteq> [] then (2, [Diag ''error: unexpected argument'', Diag ''Usage''])
          else
          let servers = resolveServers (fl_server f) environ in
          case resolveMode f environ of
            None \<Rightarrow> (2, [Diag ''error: unknown --mode''])
          | Some mode \<Rightarrow>
          (case resolveWindow lib f environ of
            Inl _ \<Rightarrow> (2, [Diag ''error: invalid freshness window''])
          | Inr freshnessWindow \<Rightarrow>
          (case resolveTimeout lib f of
            Inl _ \<Rightarrow> (2, [Diag ''error: invalid --timeout''])
          | Inr perServerTimeout \<Rightarrow>
          (case checkServers lib f environ servers of
            Some _ \<Rightarrow> (2, [Diag ''error: server URL''])
          | None \<Rightarrow>
          (case resolveSubject lib git repoDir f of
            Inl msg \<Rightarrow> (2, [Diag msg])
          | Inr (remoteURL, tagName, commit) \<Rightarrow>
          let results = fanOut lib net servers remoteURL tagName commit perServerTimeout in
          if length servers = 1 then
            (let sr = hd results in
             if \<not> sr_Reachable sr then (2, [Diag ''error: server unreachable''])
             else cliVerdict (clock 0) (the (sr_resp sr)) remoteURL commit (fl_json f) (fl_strict f))
          else
          let con = consolidate order clock results mode freshnessWindow in
          if fl_json f then emitMultiJSON lib con mode freshnessWindow
          else emitMultiHuman lib (\<lambda>n. clock (n + 2)) con results mode (fl_strict f))))))"

definition cliRun ::
  "cliLib \<Rightarrow> tallyOrder \<Rightarrow> (nat \<Rightarrow> int64) \<Rightarrow> gitCommand \<Rightarrow> httpNet \<Rightarrow> string \<Rightarrow> string list \<Rightarrow> string list \<Rightarrow> int \<times> cliOutput list" where
  "cliRun lib order clock git net buildinfo args environ = runWithConfig lib order clock git net buildinfo args environ []"

end
