(* ===== verification/Cli_Votes.thy ===== *)
theory Cli_Votes
  imports Cli
begin

text \<open>
  What the consolidation needs for its verdicts. \<open>votes\<close> counts the servers that answered with a status, out of
  all configured servers. \<open>accepted\<close> is the promise of a mode when it says ok; \<open>consolidate_ok\<close> shows that the code
  keeps it and \<open>accepted_ok\<close> that the code says ok when the promise holds. The quorum is decided by
  \<open>quorum_verdict\<close>, an abstract specification without loops over the tally.
\<close>

lemmas verdict_defs = isBad_def isGood_def isInconclusive_def statusToExitCode_def

definition answers :: "string \<Rightarrow> ServerResult list \<Rightarrow> ServerResult list" where
  "answers status rs = filter (\<lambda>r. sr_Reachable r \<and> sr_Status r = status) rs"

definition votes :: "string \<Rightarrow> ServerResult list \<Rightarrow> nat" where
  "votes status rs = length (answers status rs)"

lemma tallyOf_in: "(s, n) \<in> set (tallyOf (filter sr_Reachable rs)) \<longleftrightarrow> n = int (votes s rs) \<and> 0 < n"
  by (simp add: tallyOf_def countBy_in votes_def answers_def conj_commute)

section \<open>Freshness\<close>

lemma foldl_max_le:
  "foldl (\<lambda>m r. if f r > m then f r else m) k xs \<le> t \<longleftrightarrow> k \<le> t \<and> (\<forall>r \<in> set xs. f r \<le> t)" for t :: "'b :: linorder"
  by (induction xs arbitrary: k) auto

lemma foldl_max_in: "foldl (\<lambda>m r. if f r > m then f r else m) k xs \<in> insert k (f ` set xs)"
  by (induction xs arbitrary: k) auto

lemma maxLastSynced_le: "maxLastSynced rs \<le> t \<longleftrightarrow> 0 \<le> t \<and> (\<forall>r \<in> set rs. sr_LastSyncedNS r \<le> t)"
  unfolding maxLastSynced_def by (rule foldl_max_le)

lemma maxLastSynced_bounds: "0 \<le> maxLastSynced rs" "r \<in> set rs \<Longrightarrow> sr_LastSyncedNS r \<le> maxLastSynced rs"
  using maxLastSynced_le [of rs "maxLastSynced rs"] by simp_all

lemma maxLastSynced_in:
  assumes "rs \<noteq> []"
  shows "\<exists>r \<in> set rs. maxLastSynced rs = max 0 (sr_LastSyncedNS r)"
proof -
  have "maxLastSynced rs \<in> insert 0 (sr_LastSyncedNS ` set rs)" unfolding maxLastSynced_def by (rule foldl_max_in)
  then consider r where "r \<in> set rs" "maxLastSynced rs = sr_LastSyncedNS r" | "maxLastSynced rs = 0" by blast
  then show ?thesis
  proof cases
    case 1
    with maxLastSynced_bounds(1) [of rs] show ?thesis by (auto simp: max_def)
  next
    case 2
    with maxLastSynced_bounds(2) [of "hd rs" rs] assms show ?thesis by (intro bexI [of _ "hd rs"]) (auto simp: max_def)
  qed
qed

lemma freshest_in:
  "foldl (\<lambda>best r. if P r best then r else best) b rs \<in> insert b (set rs)"
  by (induction rs arbitrary: b) auto

lemma freshestBadServer_in: "rs \<noteq> [] \<Longrightarrow> freshestBadServer rs \<in> set rs"
  unfolding freshestBadServer_def using freshest_in by (cases rs) fastforce+

lemma bad_exit: "isBad s \<Longrightarrow> statusToExitCode s = (if s = ''tainted'' then 4 else 3)"
  by (auto simp: verdict_defs)

section \<open>The quorum\<close>

text \<open>The good servers are behind: the newest bad answer is newer than every good one by more than the window.\<close>

definition overruled :: "ServerResult list \<Rightarrow> Duration \<Rightarrow> bool" where
  "overruled rs window \<longleftrightarrow>
     (let bad = filter (\<lambda>r. isBad (sr_Status r)) (filter sr_Reachable rs); good = answers ''ok'' rs in
      bad \<noteq> [] \<and> good \<noteq> [] \<and> maxLastSynced bad > 0 \<and> maxLastSynced bad > wrap64 (maxLastSynced good + window))"

definition quorum_verdict :: "ServerResult list \<Rightarrow> Duration \<Rightarrow> string \<Rightarrow> bool" where
  "quorum_verdict rs window s \<longleftrightarrow>
     (if overruled rs window then
        s = sr_Status (freshestBadServer (filter (\<lambda>r. isBad (sr_Status r)) (filter sr_Reachable rs)))
      else if s \<noteq> [] \<and> length rs < 2 * votes s rs then True
      else s = ''no_consensus'' \<and> (\<forall>s'. s' \<noteq> [] \<longrightarrow> 2 * votes s' rs \<le> length rs))"

lemma votes_disjoint: "s \<noteq> s' \<Longrightarrow> votes s rs + votes s' rs \<le> length rs"
  unfolding votes_def answers_def by (induction rs) auto

lemma majority_unique: "length rs < 2 * votes s rs \<Longrightarrow> length rs < 2 * votes s' rs \<Longrightarrow> s = s'"
  using votes_disjoint [of s s' rs] by fastforce

text \<open>The search over the tally finds the majority, in whatever order the map is iterated.\<close>

definition majorityOf :: "ServerResult list \<Rightarrow> (string \<times> int) list \<Rightarrow> string" where
  "majorityOf rs tally =
     (case find (\<lambda>(status, n). n * 2 > int (length rs)) tally of None \<Rightarrow> [] | Some (status, n) \<Rightarrow> status)"

lemma majorityOf:
  assumes "mset tally = mset (tallyOf (filter sr_Reachable rs))"
  shows "s \<noteq> [] \<Longrightarrow> majorityOf rs tally = s \<longleftrightarrow> length rs < 2 * votes s rs"
proof -
  assume s: "s \<noteq> []"
  have set: "set tally = set (tallyOf (filter sr_Reachable rs))" using assms by (rule mset_eq_setD)
  have found: "length rs < 2 * votes s' rs" if "find (\<lambda>(status, n). n * 2 > int (length rs)) tally = Some (s', n)" for s' n
    using find_some [OF that] set tallyOf_in [of s' n rs] by auto
  show "majorityOf rs tally = s \<longleftrightarrow> length rs < 2 * votes s rs"
  proof
    assume "majorityOf rs tally = s"
    with s found show "length rs < 2 * votes s rs" by (auto simp: majorityOf_def split: option.splits)
  next
    assume m: "length rs < 2 * votes s rs"
    then have "(s, int (votes s rs)) \<in> set tally" using set tallyOf_in by auto
    with m obtain s' n where f: "find (\<lambda>(status, n). n * 2 > int (length rs)) tally = Some (s', n)"
      using find_none [of "\<lambda>(status, n). n * 2 > int (length rs)" tally] by (cases "find (\<lambda>(status, n). n * 2 > int (length rs)) tally") fastforce+
    with majority_unique [OF found [OF f] m] show "majorityOf rs tally = s" by (simp add: majorityOf_def)
  qed
qed

lemma good_filter: "filter (\<lambda>r. \<not> isBad (sr_Status r) \<and> isGood (sr_Status r)) (filter sr_Reachable rs) = answers ''ok'' rs"
  by (auto simp: answers_def verdict_defs intro!: filter_cong)

lemma consolidateQuorum_eq:
  "consolidateQuorum order clock rs (filter sr_Reachable rs) (int (length rs)) window =
     (let bad = filter (\<lambda>r. isBad (sr_Status r)) (filter sr_Reachable rs); good = answers ''ok'' rs;
          tally = tallyOf (filter sr_Reachable rs); m = majorityOf rs (order 0 tally) in
      if overruled rs window then
        (emptyConsolidated rs)\<lparr>
           co_FinalStatus := sr_Status (freshestBadServer bad),
           co_ExitCode := statusToExitCode (sr_Status (freshestBadServer bad)),
           co_Reason := freshnessReason clock (freshestBadServer bad) (maxLastSynced bad) (maxLastSynced good) window,
           co_Dissent := good\<rparr>
      else if m \<noteq> [] then
        (emptyConsolidated rs)\<lparr>
           co_FinalStatus := m,
           co_ExitCode := statusToExitCode m,
           co_Reason := ''majority '' @ m @ '' ('' @ FormatInt (the (map_of tally m)) @ ''/'' @
             FormatInt (int (length rs)) @ '' configured; tally: '' @ tallyText (order 1 tally) @ '')'',
           co_Dissent := (if \<not> isBad m then bad else []) @ (if \<not> isGood m then good else []),
           co_staleOK := (m = ''ok'' \<and> hasStale good)\<rparr>
      else
        (emptyConsolidated rs)\<lparr>
           co_FinalStatus := ''no_consensus'',
           co_ExitCode := 7,
           co_Reason := ''no majority among '' @ FormatInt (int (length rs)) @ '' configured servers (tally: '' @
             tallyText (order 1 tally) @ '')''\<rparr>)"
  unfolding consolidateQuorum_def Let_def good_filter majorityOf_def overruled_def ..

lemma sort_mset: "mset xs = mset ys \<Longrightarrow> sort xs = sort ys" for xs :: "'a :: linorder list"
  by (rule properties_for_sort) simp_all

lemma tallyText_order: "mset t = mset t' \<Longrightarrow> tallyText t = tallyText t'"
  unfolding tallyText_def by (rule arg_cong [of _ _ "Join _"], rule sort_mset) simp

lemma majorityOf_order:
  assumes "mset t = mset (tallyOf (filter sr_Reachable rs))" and "mset t' = mset (tallyOf (filter sr_Reachable rs))"
  shows "majorityOf rs t = majorityOf rs t'"
  using majorityOf [OF assms(1)] majorityOf [OF assms(2)] by metis


text \<open>Every mode but any-bad gives the same result whatever the order of the map.\<close>

lemma consolidate_order:
  assumes "\<And>i xs. mset (order i xs) = mset xs" and "mode \<noteq> ModeAnyBad"
  shows "consolidate order clock rs mode window = consolidate (\<lambda>_. id) clock rs mode window"
proof -
  have t: "tallyText (order i t) = tallyText t" for i t by (rule tallyText_order) (rule assms(1))
  have m: "majorityOf rs (order i (tallyOf (filter sr_Reachable rs))) = majorityOf rs (tallyOf (filter sr_Reachable rs))" for i
    by (rule majorityOf_order) (simp_all add: assms(1))
  show ?thesis
    using assms(2) by (simp add: consolidate_def consolidateQuorum_eq consolidateUnanimous_def Let_def t m)
qed

section \<open>What ok means\<close>

definition accepted :: "Mode \<Rightarrow> Duration \<Rightarrow> ServerResult list \<Rightarrow> bool" where
  "accepted mode window rs \<longleftrightarrow>
     (if mode = ModeFirst then
        (case find (\<lambda>r. sr_Reachable r \<and> (isGood (sr_Status r) \<or> isBad (sr_Status r))) rs of
           None \<Rightarrow> False | Some r \<Rightarrow> sr_Status r = ''ok'')
      else if mode = ModeAnyBad then answers ''ok'' rs \<noteq> [] \<and> (\<forall>r \<in> set rs. sr_Reachable r \<longrightarrow> \<not> isBad (sr_Status r))
      else if mode = ModeUnanimous then rs \<noteq> [] \<and> (\<forall>r \<in> set rs. sr_Reachable r \<and> sr_Status r = ''ok'')
      else length rs < 2 * votes ''ok'' rs \<and> \<not> overruled rs window)"

abbreviation quorum_of :: "tallyOrder \<Rightarrow> (nat \<Rightarrow> int64) \<Rightarrow> ServerResult list \<Rightarrow> Duration \<Rightarrow> Consolidated" where
  "quorum_of order clock rs window \<equiv> consolidateQuorum order clock rs (filter sr_Reachable rs) (int (length rs)) window"

lemma quorum_fields:
  "co_FinalStatus (quorum_of order clock rs window) =
     (if overruled rs window then sr_Status (freshestBadServer (filter (\<lambda>r. isBad (sr_Status r)) (filter sr_Reachable rs)))
      else let m = majorityOf rs (order 0 (tallyOf (filter sr_Reachable rs))) in if m \<noteq> [] then m else ''no_consensus'')"
  "co_ExitCode (quorum_of order clock rs window) = statusToExitCode (co_FinalStatus (quorum_of order clock rs window))"
  unfolding consolidateQuorum_eq Let_def by (simp_all add: statusToExitCode_def)

lemma quorum_of_verdict:
  assumes "\<And>i xs. mset (order i xs) = mset xs"
  shows "quorum_verdict rs window (co_FinalStatus (quorum_of order clock rs window))"
proof -
  define m where "m = majorityOf rs (order 0 (tallyOf (filter sr_Reachable rs)))"
  have m: "s \<noteq> [] \<Longrightarrow> m = s \<longleftrightarrow> length rs < 2 * votes s rs" for s
    unfolding m_def by (rule majorityOf) (rule assms)
  show ?thesis
  proof (cases "overruled rs window")
    case True
    then show ?thesis by (simp add: quorum_verdict_def quorum_fields(1))
  next
    case False
    then have "co_FinalStatus (quorum_of order clock rs window) = (if m \<noteq> [] then m else ''no_consensus'')"
      by (simp add: quorum_fields(1) m_def)
    with False m [of m] m show ?thesis by (auto simp: quorum_verdict_def not_less [symmetric])
  qed
qed

lemma overruled_bad:
  "overruled rs window \<Longrightarrow> isBad (sr_Status (freshestBadServer (filter (\<lambda>r. isBad (sr_Status r)) (filter sr_Reachable rs))))"
  using freshestBadServer_in [of "filter (\<lambda>r. isBad (sr_Status r)) (filter sr_Reachable rs)"]
  unfolding overruled_def Let_def by (auto simp del: filter_filter)

lemma quorum_verdict_ok: "quorum_verdict rs window ''ok'' \<longleftrightarrow> length rs < 2 * votes ''ok'' rs \<and> \<not> overruled rs window"
  using overruled_bad [of rs window] unfolding quorum_verdict_def by (auto simp: isBad_def)

lemma quorum_verdict_unique: "quorum_verdict rs window s \<Longrightarrow> quorum_verdict rs window s' \<Longrightarrow> s = s'"
  unfolding quorum_verdict_def using majority_unique [of rs s s'] by (auto split: if_splits)


section \<open>The most common inconclusive answer\<close>

text \<open>The loop of \<open>consolidateMostCommonInconclusive\<close>, with \<open>f\<close> for the lookup in the tally.\<close>

definition mostCommon :: "(string \<Rightarrow> int) \<Rightarrow> string \<Rightarrow> (string \<times> int) list \<Rightarrow> string" where
  "mostCommon f b t = foldl (\<lambda>best (s, c). if best = [] \<or> c > f best then s else best) b t"

lemma mostCommon_simps [simp]:
  "mostCommon f b [] = b"
  "mostCommon f b (x # t) = mostCommon f (if b = [] \<or> snd x > f b then fst x else b) t"
  by (simp_all add: mostCommon_def case_prod_unfold)

lemma mostCommon_in: "mostCommon f b t \<in> insert b (fst ` set t)"
proof (induction t arbitrary: b)
  case (Cons x t)
  show ?case using Cons.IH [of "if b = [] \<or> snd x > f b then fst x else b"] by (auto split: if_splits)
qed simp

lemma mostCommon_best:
  assumes "\<And>x. x \<in> set t \<Longrightarrow> fst x \<noteq> [] \<and> f (fst x) = snd x"
  shows "(b \<noteq> [] \<longrightarrow> f b \<le> f (mostCommon f b t)) \<and> (\<forall>x \<in> set t. snd x \<le> f (mostCommon f b t)) \<and>
    (b \<noteq> [] \<or> t \<noteq> [] \<longrightarrow> mostCommon f b t \<noteq> [])"
  using assms
proof (induction t arbitrary: b)
  case (Cons x t)
  define b' where "b' = (if b = [] \<or> snd x > f b then fst x else b)"
  have x: "fst x \<noteq> []" "f (fst x) = snd x" using Cons.prems [of x] by auto
  have ih: "(b' \<noteq> [] \<longrightarrow> f b' \<le> f (mostCommon f b' t)) \<and> (\<forall>x \<in> set t. snd x \<le> f (mostCommon f b' t)) \<and>
    (b' \<noteq> [] \<or> t \<noteq> [] \<longrightarrow> mostCommon f b' t \<noteq> [])" using Cons.IH [of b'] Cons.prems by simp
  have "b' \<noteq> []" "snd x \<le> f b'" "b \<noteq> [] \<longrightarrow> f b \<le> f b'" using x by (auto simp: b'_def)
  moreover have "mostCommon f b (x # t) = mostCommon f b' t" by (simp add: b'_def)
  ultimately show ?case using ih by (simp del: mostCommon_simps) (meson order_trans)
qed simp

text \<open>The inconclusive answers and what the loop picks among them.\<close>

definition inconclusive :: "ServerResult list \<Rightarrow> (string \<times> int) list" where
  "inconclusive rs = tallyOf (filter (\<lambda>r. isInconclusive (sr_Status r)) (filter sr_Reachable rs))"

lemma inconclusive_in: "(s, n) \<in> set (inconclusive rs) \<longleftrightarrow> isInconclusive s \<and> n = int (votes s rs) \<and> 0 < n"
proof -
  have "length (filter (\<lambda>r. sr_Status r = s) (filter (\<lambda>r. isInconclusive (sr_Status r)) (filter sr_Reachable rs))) =
      (if isInconclusive s then votes s rs else 0)"
    unfolding votes_def answers_def by (induction rs) auto
  then show ?thesis unfolding inconclusive_def tallyOf_def countBy_in by (auto split: if_splits)
qed

abbreviation inconclusive_of :: "tallyOrder \<Rightarrow> ServerResult list \<Rightarrow> Consolidated" where
  "inconclusive_of order rs \<equiv> consolidateMostCommonInconclusive order rs (filter sr_Reachable rs)"

lemma inconclusive_lookup:
  assumes "x \<in> set (inconclusive rs)"
  shows "the (map_of (inconclusive rs) (fst x)) = snd x"
proof -
  have "distinct (map fst (inconclusive rs))" unfolding inconclusive_def tallyOf_def by (rule countBy_distinct)
  then show ?thesis using assms by (cases x) simp
qed

lemma inconclusive_fields:
  "co_FinalStatus (inconclusive_of order rs) =
     (if inconclusive rs = [] then ''no_consensus''
      else mostCommon (\<lambda>b. the (map_of (inconclusive rs) b)) [] (order 2 (inconclusive rs)))"
  "co_ExitCode (inconclusive_of order rs) = statusToExitCode (co_FinalStatus (inconclusive_of order rs))"
  unfolding consolidateMostCommonInconclusive_def inconclusive_def [symmetric] mostCommon_def [symmetric] Let_def
  by (simp_all add: statusToExitCode_def)

lemma inconclusive_most:
  assumes "\<And>i xs. mset (order i xs) = mset xs" and "inconclusive rs \<noteq> []"
  shows "isInconclusive (co_FinalStatus (inconclusive_of order rs)) \<and>
    (\<forall>s. isInconclusive s \<longrightarrow> votes s rs \<le> votes (co_FinalStatus (inconclusive_of order rs)) rs)"
proof -
  define best where "best = mostCommon (\<lambda>b. the (map_of (inconclusive rs) b)) [] (order 2 (inconclusive rs))"
  have set: "set (order 2 (inconclusive rs)) = set (inconclusive rs)" using assms(1) by (rule mset_eq_setD)
  have ne: "order 2 (inconclusive rs) \<noteq> []" using assms(1) [of 2 "inconclusive rs"] assms(2) by force
  have keys: "fst x \<noteq> [] \<and> the (map_of (inconclusive rs) (fst x)) = snd x" if "x \<in> set (order 2 (inconclusive rs))" for x
    using that inconclusive_in [of "fst x" "snd x" rs] inconclusive_lookup [of x rs] by (auto simp: set isInconclusive_def)
  note top = mostCommon_best [of "order 2 (inconclusive rs)" "\<lambda>b. the (map_of (inconclusive rs) b)" "[]", OF keys, folded best_def]
  have "best \<noteq> []" using top ne by blast
  then obtain x where x: "x \<in> set (inconclusive rs)" "fst x = best"
    using mostCommon_in [of "\<lambda>b. the (map_of (inconclusive rs) b)" "[]" "order 2 (inconclusive rs)", folded best_def, unfolded set]
    by auto
  then have b: "isInconclusive best" "the (map_of (inconclusive rs) best) = int (votes best rs)"
    using inconclusive_in [of best "snd x" rs] inconclusive_lookup [of x rs] by (cases x, auto)+
  have "votes s rs \<le> votes best rs" if "isInconclusive s" for s
  proof (cases "votes s rs = 0")
    case False
    with that have "(s, int (votes s rs)) \<in> set (order 2 (inconclusive rs))" by (simp add: set inconclusive_in)
    with top b(2) show ?thesis by force
  qed simp
  with b(1) show ?thesis using assms(2) by (simp add: inconclusive_fields best_def)
qed


lemma inconclusive_not: "isInconclusive s \<Longrightarrow> s \<noteq> ''ok'' \<and> \<not> isBad s"
  by (auto simp: verdict_defs)

lemma inconclusive_not_ok:
  assumes "\<And>i xs. mset (order i xs) = mset xs"
  shows "co_FinalStatus (inconclusive_of order rs) \<noteq> ''ok'' \<and> \<not> isBad (co_FinalStatus (inconclusive_of order rs))"
proof (cases "inconclusive rs = []")
  case True
  then show ?thesis unfolding inconclusive_fields(1) by (simp add: isBad_def)
next
  case False
  with inconclusive_most [of order rs, OF assms] show ?thesis by (intro inconclusive_not) blast
qed

text \<open>Without a tie between the two inconclusive verdicts the order does not matter in any-bad either.\<close>

lemma inconclusive_order:
  assumes "\<And>i xs. mset (order i xs) = mset xs" and "votes ''doesnt_exist'' rs \<noteq> votes ''not_tracked'' rs"
  shows "inconclusive_of order rs = inconclusive_of (\<lambda>_. id) rs"
proof -
  have "co_FinalStatus (inconclusive_of order rs) = co_FinalStatus (inconclusive_of (\<lambda>_. id) rs)"
  proof (cases "inconclusive rs = []")
    case False
    have unique: "s = s'" if "isInconclusive s" "isInconclusive s'" "votes s rs = votes s' rs" for s s'
      using that assms(2) by (auto simp: isInconclusive_def)
    show ?thesis
      by (rule unique) (use inconclusive_most [of order rs, OF assms(1) False] inconclusive_most [of "\<lambda>_. id" rs] False in
        \<open>auto intro: order_antisym\<close>)
  qed (simp add: inconclusive_fields(1))
  then show ?thesis
    unfolding consolidateMostCommonInconclusive_def inconclusive_def [symmetric] Let_def by (simp split: if_splits)
qed

section \<open>The verdict of every mode\<close>

lemma consolidate_exit:
  "co_ExitCode (consolidate order clock rs mode window) =
     statusToExitCode (co_FinalStatus (consolidate order clock rs mode window))"
proof -
  have first: "co_ExitCode (consolidateFirst rs) = statusToExitCode (co_FinalStatus (consolidateFirst rs))"
    by (simp add: consolidateFirst_def statusToExitCode_def split: option.splits)
  have anybad: "co_ExitCode (consolidateAnyBad order rs (filter sr_Reachable rs)) =
      statusToExitCode (co_FinalStatus (consolidateAnyBad order rs (filter sr_Reachable rs)))"
    unfolding consolidateAnyBad_def Let_def by (simp add: inconclusive_fields(2)) (simp add: statusToExitCode_def)
  have unan: "co_ExitCode (consolidateUnanimous order rs (filter sr_Reachable rs) (int (length rs))) =
      statusToExitCode (co_FinalStatus (consolidateUnanimous order rs (filter sr_Reachable rs) (int (length rs))))"
    unfolding consolidateUnanimous_def Let_def by (simp add: statusToExitCode_def)
  show ?thesis
    unfolding consolidate_def Let_def using first anybad unan quorum_fields(2)
    by (simp add: statusToExitCode_def [of "''all_unreachable''"])
qed

lemma statusToExitCode_0: "statusToExitCode s = 0 \<longleftrightarrow> s = ''ok''"
  by (simp add: statusToExitCode_def)

lemma all_reachable: "length (filter P rs) = length rs \<longleftrightarrow> (\<forall>r \<in> set rs. P r)"
  by (metis filter_id_conv length_filter_less linorder_neq_iff)

lemma unanimous_ok:
  assumes "filter sr_Reachable rs \<noteq> []"
  shows "co_FinalStatus (consolidateUnanimous order rs (filter sr_Reachable rs) (int (length rs))) = ''ok'' \<longleftrightarrow>
    (\<forall>r \<in> set rs. sr_Reachable r \<and> sr_Status r = ''ok'')"
proof (cases "\<forall>r \<in> set rs. sr_Reachable r")
  case True
  then have f: "filter sr_Reachable rs = rs" by (simp add: filter_id_conv)
  with assms obtain r rs' where "rs = r # rs'" by (cases rs) auto
  with True f show ?thesis by (auto simp: consolidateUnanimous_def Let_def list_ex_iff)
next
  case False
  then have "length (filter sr_Reachable rs) < length rs" using all_reachable [of sr_Reachable rs] length_filter_le [of sr_Reachable rs] by linarith
  with False show ?thesis by (auto simp: consolidateUnanimous_def)
qed

lemma anybad_ok:
  assumes "\<And>i xs. mset (order i xs) = mset xs"
  shows "co_FinalStatus (consolidateAnyBad order rs (filter sr_Reachable rs)) = ''ok'' \<longleftrightarrow>
    answers ''ok'' rs \<noteq> [] \<and> (\<forall>r \<in> set rs. sr_Reachable r \<longrightarrow> \<not> isBad (sr_Status r))"
proof -
  let ?bad = "filter (\<lambda>r. isBad (sr_Status r)) (filter sr_Reachable rs)"
  have good: "filter (\<lambda>r. isGood (sr_Status r)) (filter sr_Reachable rs) = answers ''ok'' rs"
    by (simp add: answers_def isGood_def)
  have "?bad \<noteq> [] \<Longrightarrow> isBad (sr_Status (freshestBadServer ?bad))" using freshestBadServer_in [of ?bad] by auto
  then have "?bad \<noteq> [] \<Longrightarrow> sr_Status (freshestBadServer ?bad) \<noteq> ''ok''" by (auto simp: isBad_def)
  moreover have "?bad = [] \<longleftrightarrow> (\<forall>r \<in> set rs. sr_Reachable r \<longrightarrow> \<not> isBad (sr_Status r))" by (auto simp: filter_empty_conv)
  ultimately show ?thesis
    using inconclusive_not_ok [of order rs, OF assms] unfolding consolidateAnyBad_def Let_def good
    by (simp del: filter_filter)
qed

lemma first_ok: "co_FinalStatus (consolidateFirst rs) = ''ok'' \<longleftrightarrow>
    (case find (\<lambda>r. sr_Reachable r \<and> (isGood (sr_Status r) \<or> isBad (sr_Status r))) rs of
       None \<Rightarrow> False | Some r \<Rightarrow> sr_Status r = ''ok'')"
  by (auto simp: consolidateFirst_def isInconclusive_def dest!: find_some split: option.splits)

lemma consolidate_ok_iff:
  assumes "\<And>i xs. mset (order i xs) = mset xs"
  shows "co_FinalStatus (consolidate order clock rs mode window) = ''ok'' \<longleftrightarrow> accepted mode window rs"
proof (cases "filter sr_Reachable rs = []")
  case True
  then have none: "\<forall>r \<in> set rs. \<not> sr_Reachable r" by (simp add: filter_empty_conv)
  then have "answers s rs = []" for s by (simp add: answers_def filter_empty_conv)
  with none have "\<not> accepted mode window rs" by (cases rs) (auto simp: accepted_def votes_def dest!: find_some split: option.splits)
  with True show ?thesis by (simp add: consolidate_def)
next
  case False
  then have "rs \<noteq> []" by auto
  with False show ?thesis
    using quorum_of_verdict [of order rs window clock, OF assms] quorum_verdict_ok [of rs window]
      quorum_verdict_unique [of rs window _ "''ok''"]
    by (auto simp: consolidate_def accepted_def first_ok unanimous_ok anybad_ok [of order rs, OF assms])
qed


text \<open>
  A bad answer that does not overrule the good ones is at most the window newer than the newest good answer. When
  the sum wraps around, the good answers are always overruled, so the wrap errs on the safe side.
\<close>

lemma wrap64_over: "2 ^ 63 \<le> x \<Longrightarrow> x < 2 ^ 64 \<Longrightarrow> wrap64 x < 0"
proof -
  assume "2 ^ 63 \<le> x" "x < 2 ^ 64"
  then have "(x + 2 ^ 63) mod 2 ^ 64 = x + 2 ^ 63 - 2 ^ 64" by (simp add: mod_pos_geq)
  then show "wrap64 x < 0" using \<open>x < 2 ^ 64\<close> by (simp add: wrap64_def)
qed

lemma not_overruled:
  assumes "\<not> overruled rs window" and "0 \<le> window" and "window \<le> maxInt64"
    and "\<forall>r \<in> set rs. sr_LastSyncedNS r \<le> maxInt64"
    and "b \<in> set rs" and "sr_Reachable b" and "isBad (sr_Status b)" and "answers ''ok'' rs \<noteq> []"
  shows "\<exists>g \<in> set (answers ''ok'' rs). sr_LastSyncedNS b \<le> max 0 (sr_LastSyncedNS g) + window"
proof -
  let ?bad = "filter (\<lambda>r. isBad (sr_Status r)) (filter sr_Reachable rs)"
  obtain g where g: "g \<in> set (answers ''ok'' rs)" "maxLastSynced (answers ''ok'' rs) = max 0 (sr_LastSyncedNS g)"
    using maxLastSynced_in [OF assms(8)] by blast
  have b: "b \<in> set ?bad" using assms(5-7) by simp
  then have le: "sr_LastSyncedNS b \<le> maxLastSynced ?bad" by (rule maxLastSynced_bounds)
  have top: "maxLastSynced (answers ''ok'' rs) \<le> maxInt64"
    using assms(4) by (auto simp: maxLastSynced_le answers_def maxInt64_def)
  have "maxLastSynced ?bad \<le> 0 \<or> maxLastSynced ?bad \<le> wrap64 (maxLastSynced (answers ''ok'' rs) + window)"
    using assms(1,8) b list.set(1) [where 'a = ServerResult] unfolding overruled_def Let_def by (metis empty_iff not_less)
  moreover have "wrap64 (maxLastSynced (answers ''ok'' rs) + window) \<le> maxLastSynced (answers ''ok'' rs) + window"
    using wrap64_over [of "maxLastSynced (answers ''ok'' rs) + window"] assms(2,3) top maxLastSynced_bounds(1) [of "answers ''ok'' rs"]
    by (cases "maxLastSynced (answers ''ok'' rs) + window < 2 ^ 63") (auto simp: in_int64_def maxInt64_def)
  ultimately show ?thesis
    using le g assms(2) maxLastSynced_bounds(1) [of "answers ''ok'' rs"] by (intro bexI [OF _ g(1)]) linarith
qed


lemma accepted_answer:
  assumes "accepted mode window rs"
  shows "answers ''ok'' rs \<noteq> []"
proof
  assume none: "answers ''ok'' rs = []"
  then have "\<not> (sr_Reachable r \<and> sr_Status r = ''ok'')" if "r \<in> set rs" for r
    using that by (auto simp: answers_def filter_empty_conv)
  moreover from none have "votes ''ok'' rs = 0" by (simp add: votes_def)
  ultimately show False
    using assms none by (cases rs) (auto simp: accepted_def dest!: find_some split: if_splits option.splits)
qed

end
