(* ===== verification/Cli_Fleet.thy ===== *)
theory Cli_Fleet
  imports Cli_Votes Scenario
begin

text \<open>
  The client and the servers together. \<open>planned\<close> says what a command line, an environment and a repository ask
  for; \<open>run_planned\<close> reduces a run to the answers of the servers. \<open>verifyServe\<close> is the HTTP side of the server
  (\<open>internal/api/oapi/server.gen.go\<close>): the wrapper that binds the query parameters and the writers of the
  responses, around the handler of \<open>Api_Handlers\<close>. The binding of parameters (\<open>oapi-codegen/runtime\<close>) and the JSON
  encoders are parameters.
\<close>

section \<open>Runs of the client\<close>

definition planned ::
  "cliLib \<Rightarrow> gitCommand \<Rightarrow> string list \<Rightarrow> string list \<Rightarrow> string \<Rightarrow> cliFlags \<Rightarrow> Mode \<Rightarrow> Duration \<Rightarrow> Duration \<Rightarrow>
   string \<Rightarrow> string \<Rightarrow> string \<Rightarrow> bool" where
  "planned lib git args environ repoDir f mode window timeout remoteURL tagName commit \<longleftrightarrow>
     (\<exists>sets. flagParse cliFormal args = Inr (sets, []) \<and> f = foldl setFlag defaultFlags sets) \<and> \<not> fl_version f \<and>
     resolveMode f environ = Some mode \<and> resolveWindow lib f environ = Inr window \<and> resolveTimeout lib f = Inr timeout \<and>
     checkServers lib f environ (resolveServers (fl_server f) environ) = None \<and>
     resolveSubject lib git repoDir f = Inr (remoteURL, tagName, commit)"

definition asked ::
  "cliLib \<Rightarrow> httpNet \<Rightarrow> string list \<Rightarrow> cliFlags \<Rightarrow> Duration \<Rightarrow> string \<Rightarrow> string \<Rightarrow> string \<Rightarrow> ServerResult list" where
  "asked lib net environ f timeout remoteURL tagName commit =
     fanOut lib net (resolveServers (fl_server f) environ) remoteURL tagName commit timeout"

lemma length_asked: "length (asked lib net environ f timeout remoteURL tagName commit) = length (resolveServers (fl_server f) environ)"
  by (simp add: asked_def fanOut_def)

lemma run_planned:
  assumes "planned lib git args environ repoDir f mode window timeout remoteURL tagName commit"
  shows "runWithConfig lib order clock git net buildinfo args environ repoDir =
    (let rs = asked lib net environ f timeout remoteURL tagName commit in
     if length rs = 1 then
       if \<not> sr_Reachable (hd rs) then (2, [Diag ''error: server unreachable''])
       else cliVerdict (clock 0) (the (sr_resp (hd rs))) remoteURL commit (fl_json f) (fl_strict f)
     else
     let con = consolidate order clock rs mode window in
     if fl_json f then emitMultiJSON lib con mode window
     else emitMultiHuman lib (\<lambda>n. clock (n + 2)) con rs mode (fl_strict f))"
  using assms by (auto simp: planned_def runWithConfig_def asked_def fanOut_def Let_def)

text \<open>Any other run prints help or the version and exits 0, or exits 2.\<close>

definition informs :: "string list \<Rightarrow> bool" where
  "informs args \<longleftrightarrow> flagParse cliFormal args = Inl ErrHelp \<or>
     (\<exists>sets rest. flagParse cliFormal args = Inr (sets, rest) \<and> fl_version (foldl setFlag defaultFlags sets))"

lemma run_cases:
  obtains "informs args" "fst (runWithConfig lib order clock git net buildinfo args environ repoDir) = 0"
  | "fst (runWithConfig lib order clock git net buildinfo args environ repoDir) = 2"
  | f mode window timeout remoteURL tagName commit where
      "planned lib git args environ repoDir f mode window timeout remoteURL tagName commit"
proof (cases "flagParse cliFormal args")
  case (Inl e)
  then show thesis using that(1,2) by (cases e) (simp_all add: runWithConfig_def informs_def)
next
  case (Inr p)
  then obtain sets rest where p: "flagParse cliFormal args = Inr (sets, rest)" by (cases p) auto
  define f where "f = foldl setFlag defaultFlags sets"
  have run: "fst (runWithConfig lib order clock git net buildinfo args environ repoDir) = 2 \<or>
      (\<exists>mode window timeout remoteURL tagName commit.
         planned lib git args environ repoDir f mode window timeout remoteURL tagName commit)"
    if "\<not> fl_version f" "rest = []"
    using that p f_def
    by (cases "resolveMode f environ"; cases "resolveWindow lib f environ"; cases "resolveTimeout lib f";
        cases "checkServers lib f environ (resolveServers (fl_server f) environ)"; cases "resolveSubject lib git repoDir f")
      (simp_all add: runWithConfig_def planned_def, metis prod_cases3)
  consider "fl_version f" | "\<not> fl_version f" "rest \<noteq> []" | "\<not> fl_version f" "rest = []" by blast
  then show thesis
  proof cases
    case 1
    with p f_def show thesis by (intro that(1)) (simp_all add: runWithConfig_def informs_def)
  next
    case 2
    with p f_def show thesis by (intro that(2)) (simp add: runWithConfig_def)
  next
    case 3
    with run that(2,3) show thesis by blast
  qed
qed

lemma cliVerdict_exit: "fst (cliVerdict now resp remoteURL commit json strict) = exitCode resp strict"
  by (simp add: cliVerdict_def exitCode_def Let_def case_prod_unfold)

lemma exitCode_0: "exitCode resp strict = 0 \<longleftrightarrow> vr_Status resp = ''ok'' \<and> \<not> (strict \<and> vr_Confidence resp = ''stale'')"
  by (simp add: exitCode_def)


text \<open>What exit code 0 means for a run that asks servers.\<close>

definition clean :: "Mode \<Rightarrow> Duration \<Rightarrow> ServerResult list \<Rightarrow> bool" where
  "clean mode window rs \<longleftrightarrow>
     (if length rs = 1 then sr_Reachable (hd rs) \<and> sr_Status (hd rs) = ''ok'' else accepted mode window rs)"

lemma asked_resp:
  assumes "r \<in> set (asked lib net environ f timeout remoteURL tagName commit)" and "sr_Reachable r"
  shows "sr_Status r = vr_Status (the (sr_resp r))"
  using assms by (auto simp: asked_def fanOut_def toResult_def split: sum.splits)

lemma run_exit:
  assumes "planned lib git args environ repoDir f mode window timeout remoteURL tagName commit"
    and "\<And>i xs. mset (order i xs) = mset xs"
  shows "fst (runWithConfig lib order clock git net buildinfo args environ repoDir) \<in> {0, 10} \<longleftrightarrow>
    clean mode window (asked lib net environ f timeout remoteURL tagName commit)"
proof (cases "length (asked lib net environ f timeout remoteURL tagName commit) = 1")
  case True
  then obtain r where r: "asked lib net environ f timeout remoteURL tagName commit = [r]" by (auto simp: length_Suc_conv)
  then have "sr_Reachable r \<Longrightarrow> sr_Status r = vr_Status (the (sr_resp r))"
    using asked_resp [of r lib net environ f timeout remoteURL tagName commit] by simp
  with r show ?thesis
    by (auto simp: run_planned [OF assms(1)] Let_def clean_def cliVerdict_exit exitCode_def)
next
  case False
  let ?rs = "asked lib net environ f timeout remoteURL tagName commit"
  have "statusToExitCode s \<in> {0, 10} \<longleftrightarrow> s = ''ok''" for s by (simp add: statusToExitCode_def)
  then show ?thesis
    using False consolidate_ok_iff [of order clock ?rs mode window, OF assms(2)]
    by (auto simp: run_planned [OF assms(1)] Let_def clean_def emitMultiJSON_def emitMultiHuman_def consolidate_exit)
qed

section \<open>The server behind HTTP\<close>

definition verifyServe ::
  "(string \<Rightarrow> err + VerifyParams) \<Rightarrow> (VerifyResponse \<Rightarrow> string) \<Rightarrow> (string \<Rightarrow> string) \<Rightarrow> (err \<Rightarrow> string) \<Rightarrow>
   (string \<Rightarrow> string option) \<Rightarrow> (string \<Rightarrow> string) \<Rightarrow> ('d, 't, 'r) Store \<Rightarrow> string \<Rightarrow> 'd world \<Rightarrow> httpReply" where
  "verifyServe bind enc encError errText ipLit uni s query w =
     (case bind query of
        Inl e \<Rightarrow> \<lparr>hr_StatusCode = 400, hr_Body = errText e\<rparr>
      | Inr params \<Rightarrow>
          (case fst (Verify_handler ipLit uni s params w) of
             Inl e \<Rightarrow> \<lparr>hr_StatusCode = 500, hr_Body = errText e\<rparr>
           | Inr (Verify200JSONResponse resp) \<Rightarrow> \<lparr>hr_StatusCode = 200, hr_Body = enc resp\<rparr>
           | Inr (Verify422JSONResponse msg) \<Rightarrow> \<lparr>hr_StatusCode = 422, hr_Body = encError msg\<rparr>))"

lemma parseDigits_None: "c \<in> set s \<Longrightarrow> \<not> isDigit c \<Longrightarrow> parseDigits i s = None"
  by (induction s arbitrary: i) (auto simp: isDigit_def Let_def)

lemma ValidateURL_not_id: "ValidateURL ipLit uni raw = Inr x \<Longrightarrow> parseID raw = Inl (ErrText ''not a numeric id'')"
proof -
  assume v: "ValidateURL ipLit uni raw = Inr x"
  then consider "HasPrefix raw ''https://''" | "HasPrefix raw ''ssh://''" | "isSCPLike raw"
    by (auto simp: ValidateURL_def split: if_splits)
  then have "\<exists>c \<in> set raw. \<not> isDigit c"
  proof cases
    case 1
    then show ?thesis by (intro bexI [of _ "CHR ''h''"]) (auto simp: HasPrefix_def prefix_def isDigit_def)
  next
    case 2
    then show ?thesis by (intro bexI [of _ "CHR ''s''"]) (auto simp: HasPrefix_def prefix_def isDigit_def)
  next
    case 3
    then have "IndexByte raw (CHR ''@'') \<noteq> None" by (rule isSCPLike_at)
    moreover have "IndexByte xs c \<noteq> None \<Longrightarrow> c \<in> set xs" for c and xs :: string
      by (induction xs) (auto split: if_splits)
    ultimately show ?thesis by (intro bexI [of _ "CHR ''@''"]) (auto simp: isDigit_def)
  qed
  then show ?thesis using parseDigits_None by (auto simp: parseID_def)
qed

text \<open>A well-formed question by URL is answered from the row of that URL.\<close>

lemma Verify_by_url:
  assumes "no_faults w" and "well_formed p" and "ValidateURL ipLit uni (Vp_Remote p) = Inr (raw, norm, t)" and "norm \<noteq> []"
    and row: "find (\<lambda>r. Rrem_NormalizedUrl r = norm \<and> Rrem_RemovedAtNs r = None) (t_remotes (w_db w)) = Some row"
  shows "\<exists>resp w'. Verify_handler ipLit uni leaseStore p w = (Inr (Verify200JSONResponse resp), w') \<and>
    Vr_Status resp = verdict (w_db w) (Rrem_ID row) (Vp_Tag p) (suppliedCommit p)"
proof -
  obtain w1 where g: "sqliteStore_GetRemoteByURL norm w = (Inr (remoteFromRow row), w1)" "w_db w1 = w_db w" "no_faults w1"
    using assms(1) row
    by (auto simp: sqliteStore_GetRemoteByURL_def bindT_def mapErrT_def stmt_def sqlc_GetRemoteByURL_def read_one_def
        select_one_def ret_def Let_def no_faults_def)
  obtain resp w' where v: "verifyTag leaseStore (remoteFromRow row) (Vp_Tag p) (suppliedCommit p) w1 = (Inr resp, w')"
    using verifyTag_runs [OF g(3)] by blast
  have "Verify_handler ipLit uni leaseStore p w = (Inr (Verify200JSONResponse resp), w')"
    using assms(2-4) g v ValidateURL_not_id [OF assms(3)]
    by (simp add: Verify_handler_steps resolveRemote_def NormalizeURL_def bindT_def tryT_def ret_def)
  then show ?thesis using verifyTag_answers [OF v] g(2) by auto
qed


section \<open>A fleet of servers\<close>

text \<open>
  \<open>serves\<close>: the request for this tag reaches the server \<open>srv\<close>, which answers it from the world \<open>w\<close>. \<open>knows_tainted\<close>:
  its database has the remote under the normal form of the URL, with the tag tainted.
\<close>

definition question :: "string \<Rightarrow> string \<Rightarrow> string \<Rightarrow> string" where
  "question remoteURL tagName commit = Encode [(''remote'', remoteURL), (''tag'', tagName), (''commit'', commit)]"

definition question_params :: "string \<Rightarrow> string \<Rightarrow> string \<Rightarrow> VerifyParams" where
  "question_params remoteURL tagName commit = \<lparr>Vp_Remote = remoteURL, Vp_Tag = tagName, Vp_Commit = Some commit\<rparr>"

definition serves ::
  "cliLib \<Rightarrow> httpNet \<Rightarrow> (string \<Rightarrow> err + VerifyParams) \<Rightarrow> (VerifyResponse \<Rightarrow> string) \<Rightarrow> Duration \<Rightarrow> string \<Rightarrow> string \<Rightarrow> string \<Rightarrow>
   string \<Rightarrow> db world \<Rightarrow> bool" where
  "serves lib net bind enc timeout remoteURL tagName commit srv w \<longleftrightarrow>
     url_Parse (hl_ipLit (cl_host lib)) (verifyURL srv remoteURL tagName commit) \<noteq> None \<and>
     (\<exists>encError errText. net timeout (verifyURL srv remoteURL tagName commit) =
        Inr (verifyServe bind enc encError errText (hl_ipLit (cl_host lib)) (cl_lowerUni lib) leaseStore
               (question remoteURL tagName commit) w))"

definition knows_tainted :: "cliLib \<Rightarrow> string \<Rightarrow> string \<Rightarrow> db world \<Rightarrow> bool" where
  "knows_tainted lib remoteURL tagName w \<longleftrightarrow> no_faults w \<and>
     (\<exists>raw norm t row. ValidateURL (hl_ipLit (cl_host lib)) (cl_lowerUni lib) remoteURL = Inr (raw, norm, t) \<and> norm \<noteq> [] \<and>
        find (\<lambda>r. Rrem_NormalizedUrl r = norm \<and> Rrem_RemovedAtNs r = None) (t_remotes (w_db w)) = Some row \<and>
        tainted_at (Rrem_ID row) tagName (w_db w))"

lemma tainted_answer:
  assumes "serves lib net bind enc timeout remoteURL tagName commit srv w" and "knows_tainted lib remoteURL tagName w"
    and "bind (question remoteURL tagName commit) = Inr (question_params remoteURL tagName commit)"
    and "well_formed (question_params remoteURL tagName commit)"
    and "\<And>r. \<exists>r'. cl_decodeVerify lib (enc r) = Inr r' \<and> vr_Status r' = Vr_Status r"
  shows "sr_Reachable (toResult srv (callVerifyCtx lib net timeout srv remoteURL tagName commit)) \<and>
    sr_Status (toResult srv (callVerifyCtx lib net timeout srv remoteURL tagName commit)) = ''tainted''"
proof -
  let ?p = "question_params remoteURL tagName commit"
  obtain raw norm t row where n: "no_faults w" "norm \<noteq> []"
      "ValidateURL (hl_ipLit (cl_host lib)) (cl_lowerUni lib) (Vp_Remote ?p) = Inr (raw, norm, t)"
      "find (\<lambda>r. Rrem_NormalizedUrl r = norm \<and> Rrem_RemovedAtNs r = None) (t_remotes (w_db w)) = Some row"
      "tainted_at (Rrem_ID row) (Vp_Tag ?p) (w_db w)"
    using assms(2) by (auto simp: knows_tainted_def question_params_def)
  obtain resp w' where v: "Verify_handler (hl_ipLit (cl_host lib)) (cl_lowerUni lib) leaseStore ?p w =
      (Inr (Verify200JSONResponse resp), w')" and st: "Vr_Status resp = StatusTainted"
    using Verify_by_url [OF n(1) assms(4) n(3,2,4)] verdict_tainted [OF n(5)] by auto
  obtain r' where r': "cl_decodeVerify lib (enc resp) = Inr r'" "vr_Status r' = Vr_Status resp" using assms(5) by blast
  have "callVerifyCtx lib net timeout srv remoteURL tagName commit = Inr r'"
    using assms(1,3) v r' st
    by (auto simp: serves_def callVerifyCtx_def verifyServe_def Let_def StatusTainted_def)
  then show ?thesis using r' st by (simp add: toResult_def StatusTainted_def)
qed

lemma votes_fanOut:
  assumes "\<And>srv. srv \<in> T \<Longrightarrow> sr_Reachable (toResult srv (callVerifyCtx lib net timeout srv remoteURL tagName commit)) \<and>
    sr_Status (toResult srv (callVerifyCtx lib net timeout srv remoteURL tagName commit)) = s"
  shows "length (filter (\<lambda>srv. srv \<in> T) servers) \<le> votes s (fanOut lib net servers remoteURL tagName commit timeout)"
  unfolding votes_def answers_def fanOut_def using assms by (induction servers) auto

text \<open>The modes under which \<open>n\<close> tainted answers out of \<open>k\<close> are enough.\<close>

definition enough :: "Mode \<Rightarrow> nat \<Rightarrow> nat \<Rightarrow> bool" where
  "enough mode n k \<longleftrightarrow> 0 < n \<and> (mode \<in> {ModeAnyBad, ModeUnanimous} \<or> k < 2 * n)"

lemma enough_not_clean:
  assumes "enough mode n (length rs)" and "n \<le> votes ''tainted'' rs" and "mode \<noteq> ModeFirst"
  shows "\<not> clean mode window rs"
proof
  assume c: "clean mode window rs"
  have pos: "0 < votes ''tainted'' rs" using assms by (simp add: enough_def)
  then obtain b where b: "b \<in> set rs" "sr_Reachable b" "sr_Status b = ''tainted''"
    by (auto simp: votes_def answers_def filter_empty_conv)
  show False
  proof (cases "length rs = 1")
    case True
    then obtain r where "rs = [r]" by (auto simp: length_Suc_conv)
    with c b show False by (auto simp: clean_def)
  next
    case False
    with c have a: "accepted mode window rs" by (simp add: clean_def)
    have "2 * votes ''ok'' rs < length rs" if "length rs < 2 * n"
      using votes_disjoint [of "''ok''" "''tainted''" rs] assms(2) that by fastforce
    with a b assms(1,3) show False
      by (auto simp: accepted_def enough_def isBad_def split: if_splits)
  qed
qed

end
