(* ===== verification/Cli_Props.thy ===== *)
theory Cli_Props
  imports Cli_Fleet
begin

text \<open>
  The properties of the client, alone and against servers that run the handler of \<open>Api_Handlers\<close>, and a small
  fleet of three servers on which they are exercised: two hold the tag \<open>v1\<close> tainted, the third does not answer.
\<close>

section \<open>A fleet\<close>

definition bindVerify :: "string \<Rightarrow> err + VerifyParams" where
  "bindVerify query =
     (let q = List.map_filter id (ParseQuery query) in
      case (map_of q ''remote'', map_of q ''tag'') of
        (Some remote, Some tag) \<Rightarrow> Inr \<lparr>Vp_Remote = remote, Vp_Tag = tag, Vp_Commit = map_of q ''commit''\<rparr>
      | _ \<Rightarrow> Inl (ErrText ''required parameter missing''))"

lemma bindVerify_question: "bindVerify (question remoteURL tagName commit) = Inr (question_params remoteURL tagName commit)"
proof -
  have order: "''commit'' < ''remote''" "''remote'' < ''tag''" "''commit'' < ''tag''" by (code_simp, code_simp, code_simp)
  have "ParseQuery (question remoteURL tagName commit) =
      map Some [(''commit'', commit), (''remote'', remoteURL), (''tag'', tagName)]"
    unfolding question_def using order by (subst ParseQuery_Encode) (simp_all add: less_le_not_le)
  then show ?thesis by (simp add: bindVerify_def question_params_def List.map_filter_simps)
qed

definition demo_lib :: cliLib where
  "demo_lib = \<lparr>cl_host = \<lparr>hl_ipLit = (\<lambda>_. None), hl_eqFold = (\<lambda>_. False), hl_loopIP = (\<lambda>_. False)\<rparr>,
     cl_lowerUni = id, cl_upperUni = id, cl_trimUni = id, cl_ParseDuration = (\<lambda>_. Inr 10000000000),
     cl_Sscanf = (\<lambda>_. Inl ErrNotFound), cl_decodeError = id,
     cl_decodeVerify = (\<lambda>body. Inr \<lparr>vr_Status = body, vr_Confidence = ''authoritative'', vr_Tag = ''v1'', vr_Remote = None,
        vr_Recorded = None, vr_SuppliedCommit = None, vr_Taint = None, vr_LastSyncedNS = Some 5, vr_SyncOutcome = None\<rparr>),
     cl_errText = (\<lambda>_. ''error'')\<rparr>"

definition demo_commit :: string where "demo_commit = replicate 40 (CHR ''a'')"

definition demo_gitc :: gitCommand where
  "demo_gitc = (\<lambda>_ args. if args = [''rev-parse'', ''HEAD^{commit}''] then Inr (demo_commit @ nl) else Inl (ExecFailed ''git''))"

definition demo_args :: "string \<Rightarrow> string list" where
  "demo_args mode = [''--server=https://a'', ''--server=https://b'', ''--server=https://c'', ''--mode'', mode,
     ''--url=https://h/r'', ''--tag=v1'']"

definition demo_flags :: "string \<Rightarrow> cliFlags" where
  "demo_flags mode = defaultFlags\<lparr>fl_server := [''https://a'', ''https://b'', ''https://c''], fl_mode := mode,
     fl_url := ''https://h/r'', fl_tag := ''v1''\<rparr>"

definition demo_answers :: "(string \<Rightarrow> err + httpReply) \<Rightarrow> httpNet" where
  "demo_answers answer = (\<lambda>_ url. answer (take 9 url))"

lemma demo_steps:
  "list_all (\<lambda>mode. foldl setFlag defaultFlags [(''server'', ''https://a''), (''server'', ''https://b''),
      (''server'', ''https://c''), (''mode'', mode), (''url'', ''https://h/r''), (''tag'', ''v1'')] = demo_flags mode \<and>
     flagParse cliFormal (demo_args mode) = Inr ([(''server'', ''https://a''), (''server'', ''https://b''),
      (''server'', ''https://c''), (''mode'', mode), (''url'', ''https://h/r''), (''tag'', ''v1'')], []) \<and>
     \<not> fl_version (demo_flags mode) \<and> resolveMode (demo_flags mode) [] = Some mode \<and>
     resolveWindow demo_lib (demo_flags mode) [] = Inr 900000000000 \<and>
     resolveTimeout demo_lib (demo_flags mode) = Inr 10000000000 \<and>
     checkServers demo_lib (demo_flags mode) [] (resolveServers (fl_server (demo_flags mode)) []) = None \<and>
     resolveSubject demo_lib demo_gitc [] (demo_flags mode) = Inr (''https://h/r'', ''v1'', demo_commit))
   [ModeQuorum, ModeUnanimous, ModeAnyBad, ModeFirst]"
  by code_simp

lemma demo_planned:
  assumes "mode \<in> set [ModeQuorum, ModeUnanimous, ModeAnyBad, ModeFirst]"
  shows "planned demo_lib demo_gitc (demo_args mode) [] [] (demo_flags mode) mode 900000000000 10000000000
    ''https://h/r'' ''v1'' demo_commit"
  using demo_steps assms unfolding list_all_iff planned_def by metis


lemma demo_asked:
  "asked demo_lib net [] (demo_flags mode) 10000000000 ''https://h/r'' ''v1'' demo_commit =
     map (\<lambda>srv. toResult srv (callVerifyCtx demo_lib net 10000000000 srv ''https://h/r'' ''v1'' demo_commit))
       [''https://a'', ''https://b'', ''https://c'']"
proof -
  have "resolveServers [''https://a'', ''https://b'', ''https://c''] [] = [''https://a'', ''https://b'', ''https://c'']" by code_simp
  then show ?thesis by (simp add: asked_def fanOut_def demo_flags_def defaultFlags_def)
qed

section \<open>Exit codes\<close>


definition demo_two_ok :: httpNet where
  "demo_two_ok = demo_answers (\<lambda>srv. if srv = ''https://c'' then Inl ErrNotFound else Inr \<lparr>hr_StatusCode = 200, hr_Body = ''ok''\<rparr>)"

lemma demo_two_clean:
  "clean ModeQuorum 900000000000 (asked demo_lib demo_two_ok [] (demo_flags ModeQuorum) 10000000000 ''https://h/r'' ''v1'' demo_commit)"
  unfolding demo_asked by code_simp


text \<open>C19: what exit code 0 or 10 is backed by when several servers are configured: some reachable server said ok;
  in quorum mode more than half of all configured servers did, and every bad answer is at most the freshness window
  newer than some good one; in unanimous mode all servers did; in any-bad mode no reachable server reported a bad
  verdict. The sum of timestamp and window may wrap around without harm.\<close>

theorem success_is_backed:
  assumes "planned lib git args environ repoDir f mode window timeout remoteURL tagName commit"
    and "\<And>i xs. mset (order i xs) = mset xs"
    and "rs = asked lib net environ f timeout remoteURL tagName commit" and "length rs \<noteq> 1"
    and "fst (runWithConfig lib order clock git net buildinfo args environ repoDir) \<in> {0, 10}"
    and "0 \<le> window" and "window \<le> maxInt64" and "\<forall>r \<in> set rs. sr_LastSyncedNS r \<le> maxInt64"
  shows "0 < votes ''ok'' rs \<and>
    (mode = ModeQuorum \<longrightarrow> length rs < 2 * votes ''ok'' rs \<and>
       (\<forall>b \<in> set rs. sr_Reachable b \<and> isBad (sr_Status b) \<longrightarrow>
          (\<exists>g \<in> set (answers ''ok'' rs). sr_LastSyncedNS b \<le> max 0 (sr_LastSyncedNS g) + window))) \<and>
    (mode = ModeUnanimous \<longrightarrow> (\<forall>r \<in> set rs. sr_Reachable r \<and> sr_Status r = ''ok'')) \<and>
    (mode = ModeAnyBad \<longrightarrow> (\<forall>r \<in> set rs. sr_Reachable r \<longrightarrow> \<not> isBad (sr_Status r)))"
proof -
  have acc: "accepted mode window rs"
    using run_exit [of lib git args environ repoDir f mode window timeout remoteURL tagName commit order clock net buildinfo, OF assms(1,2)]
      assms(3-5) by (simp add: clean_def)
  have ok: "answers ''ok'' rs \<noteq> []" using accepted_answer [OF acc] .
  have modes: "mode = ModeQuorum \<Longrightarrow> length rs < 2 * votes ''ok'' rs \<and> \<not> overruled rs window"
    "mode = ModeUnanimous \<Longrightarrow> \<forall>r \<in> set rs. sr_Reachable r \<and> sr_Status r = ''ok''"
    "mode = ModeAnyBad \<Longrightarrow> \<forall>r \<in> set rs. sr_Reachable r \<longrightarrow> \<not> isBad (sr_Status r)"
    using acc by (auto simp: accepted_def model_defs)
  show ?thesis
    using ok modes not_overruled [of rs window, OF _ assms(6-8) _ _ _ ok] by (auto simp: votes_def)
qed

theorem success_is_backed_witness:
  "3 < 2 * votes ''ok'' (asked demo_lib demo_two_ok [] (demo_flags ModeQuorum) 10000000000 ''https://h/r'' ''v1'' demo_commit)"
proof -
  let ?rs = "asked demo_lib demo_two_ok [] (demo_flags ModeQuorum) 10000000000 ''https://h/r'' ''v1'' demo_commit"
  have "\<forall>r \<in> set ?rs. sr_LastSyncedNS r \<le> maxInt64" unfolding demo_asked by code_simp
  moreover have "fst (runWithConfig demo_lib (\<lambda>_. id) (\<lambda>_. 9) demo_gitc demo_two_ok [] (demo_args ModeQuorum) [] []) \<in> {0, 10}"
    using run_exit [OF demo_planned, of ModeQuorum "\<lambda>_. id" "\<lambda>_. 9" demo_two_ok "[]"] demo_two_clean by simp
  moreover have "length ?rs = 3" by (simp add: demo_asked)
  ultimately show ?thesis
    using success_is_backed [OF demo_planned [of ModeQuorum], of "\<lambda>_. id" ?rs demo_two_ok "\<lambda>_. 9" "[]"]
    by (simp add: maxInt64_def)
qed

text \<open>C18: a tampered tag is refused, from the database of the servers to the exit code. Suppose the servers in \<open>T\<close>
  are reachable, run \<open>Verify\<close>, and hold the tag tainted under the URL the client asks about. If they are more than
  half of the configured servers, or at least one in the modes unanimous and any-bad, then the client exits with
  neither 0 nor 10, whatever the other servers answer.\<close>

theorem tampered_tag_is_refused:
  assumes "planned lib git args environ repoDir f mode window timeout remoteURL tagName commit" and "mode \<noteq> ModeFirst"
    and "\<And>i xs. mset (order i xs) = mset xs"
    and "servers = resolveServers (fl_server f) environ"
    and "\<And>srv. srv \<in> T \<Longrightarrow> \<exists>w. serves lib net bind enc timeout remoteURL tagName commit srv w \<and>
      knows_tainted lib remoteURL tagName w"
    and "bind (question remoteURL tagName commit) = Inr (question_params remoteURL tagName commit)"
    and "\<And>r. \<exists>r'. cl_decodeVerify lib (enc r) = Inr r' \<and> vr_Status r' = Vr_Status r"
    and "well_formed (question_params remoteURL tagName commit)"
    and "enough mode (length (filter (\<lambda>srv. srv \<in> T) servers)) (length servers)"
  shows "fst (runWithConfig lib order clock git net buildinfo args environ repoDir) \<notin> {0, 10}"
proof -
  let ?rs = "asked lib net environ f timeout remoteURL tagName commit"
  have "length (filter (\<lambda>srv. srv \<in> T) servers) \<le> votes ''tainted'' ?rs"
    unfolding asked_def assms(4) [symmetric]
    by (rule votes_fanOut) (use assms(5) tainted_answer [of lib net bind enc timeout remoteURL tagName commit, OF _ _ assms(6,8,7)] in blast)
  moreover have "length servers = length ?rs" by (simp add: length_asked assms(4))
  ultimately have "\<not> clean mode window ?rs" using enough_not_clean assms(2,9) by metis
  then show ?thesis
    using run_exit [of lib git args environ repoDir f mode window timeout remoteURL tagName commit order clock net buildinfo, OF assms(1,3)]
    by blast
qed

definition demo_fleet_db :: db where
  "demo_fleet_db = demo_tainted\<lparr>t_remotes := [demo_remote\<lparr>Rrem_NormalizedUrl := ''https://h/r''\<rparr>]\<rparr>"

definition demo_fleet :: httpNet where
  "demo_fleet = demo_answers (\<lambda>srv. if srv = ''https://c'' then Inl ErrNotFound
     else Inr (verifyServe bindVerify Vr_Status id (\<lambda>_. []) (\<lambda>_. None) id leaseStore
       (question ''https://h/r'' ''v1'' demo_commit) (demo_world demo_fleet_db)))"

lemma demo_serves:
  assumes "srv \<in> {''https://a'', ''https://b''}"
  shows "serves demo_lib demo_fleet bindVerify Vr_Status 10000000000 ''https://h/r'' ''v1'' demo_commit srv (demo_world demo_fleet_db)"
proof -
  have "list_all (\<lambda>srv. url_Parse (\<lambda>_. None) (verifyURL srv ''https://h/r'' ''v1'' demo_commit) \<noteq> None \<and>
      take 9 (verifyURL srv ''https://h/r'' ''v1'' demo_commit) \<noteq> ''https://c'') [''https://a'', ''https://b'']"
    by code_simp
  with assms have "url_Parse (\<lambda>_. None) (verifyURL srv ''https://h/r'' ''v1'' demo_commit) \<noteq> None"
    "take 9 (verifyURL srv ''https://h/r'' ''v1'' demo_commit) \<noteq> ''https://c''" by auto
  then show ?thesis unfolding serves_def demo_fleet_def demo_answers_def by (auto simp: demo_lib_def)
qed

lemma demo_knows: "knows_tainted demo_lib ''https://h/r'' ''v1'' (demo_world demo_fleet_db)"
proof -
  have "ValidateURL (\<lambda>_. None) id ''https://h/r'' = Inr (''https://h/r'', ''https://h/r'', ''https'')" by code_simp
  moreover have "tainted_at 1 ''v1'' demo_fleet_db"
    using demo_tainted_ok(2) by (simp add: tainted_at_def ref_at_def demo_fleet_db_def)
  ultimately show ?thesis
    by (simp add: knows_tainted_def demo_lib_def demo_fleet_db_def) (simp add: demo_remote_def)
qed

theorem tampered_tag_is_refused_witness:
  "fst (runWithConfig demo_lib (\<lambda>_. id) (\<lambda>_. 9) demo_gitc demo_fleet [] (demo_args ModeQuorum) [] []) \<notin> {0, 10}"
proof (rule tampered_tag_is_refused [OF demo_planned, of ModeQuorum _ _ "{''https://a'', ''https://b''}"])
  show "\<exists>w. serves demo_lib demo_fleet bindVerify Vr_Status 10000000000 ''https://h/r'' ''v1'' demo_commit srv w \<and>
      knows_tainted demo_lib ''https://h/r'' ''v1'' w" if "srv \<in> {''https://a'', ''https://b''}" for srv
    using demo_serves [OF that] demo_knows by blast
  show "bindVerify (question ''https://h/r'' ''v1'' demo_commit) = Inr (question_params ''https://h/r'' ''v1'' demo_commit)"
    by (rule bindVerify_question)
  show "\<exists>r'. cl_decodeVerify demo_lib (Vr_Status r) = Inr r' \<and> vr_Status r' = Vr_Status r" for r
    by (simp add: demo_lib_def)
  show "well_formed (question_params ''https://h/r'' ''v1'' demo_commit)" by code_simp
  show "enough ModeQuorum (length (filter (\<lambda>srv. srv \<in> {''https://a'', ''https://b''}) (resolveServers (fl_server (demo_flags ModeQuorum)) [])))
      (length (resolveServers (fl_server (demo_flags ModeQuorum)) []))" by code_simp
qed (simp_all add: model_defs)


text \<open>C21: the verdict does not depend on the order in which Go iterates over the tally, in any mode, except in any-bad
  when as many servers answer \<open>doesnt_exist\<close> as \<open>not_tracked\<close>: reason, dissent and exit code are the same.\<close>

theorem consolidation_is_deterministic:
  assumes "\<And>i xs. mset (order i xs) = mset xs"
    and "mode \<noteq> ModeAnyBad \<or> votes ''doesnt_exist'' rs \<noteq> votes ''not_tracked'' rs"
  shows "consolidate order clock rs mode window = consolidate (\<lambda>_. id) clock rs mode window"
proof (cases "mode = ModeAnyBad")
  case True
  with assms show ?thesis
    using inconclusive_order [of order rs, OF assms(1)] by (simp add: consolidate_def consolidateAnyBad_def Let_def)
qed (use consolidate_order [of order mode, OF assms(1)] in simp)

definition demo_server :: "string \<Rightarrow> ServerResult" where
  "demo_server status = \<lparr>sr_ServerURL = ''https://a'', sr_Reachable = True, sr_Status = status, sr_Confidence = ''stale'',
     sr_LastSyncedNS = 5, sr_Err = None, sr_resp = None\<rparr>"

theorem consolidation_is_deterministic_witness:
  "consolidate (\<lambda>_. rev) (\<lambda>_. 9) (map demo_server [''ok'', ''tainted'', ''ok'']) ModeQuorum 0 =
   consolidate (\<lambda>_. id) (\<lambda>_. 9) (map demo_server [''ok'', ''tainted'', ''ok'']) ModeQuorum 0"
  by (rule consolidation_is_deterministic) (simp_all add: model_defs)

text \<open>In a tie the exit code is whatever the iteration order makes it.\<close>

lemma inconclusive_tie:
  "co_ExitCode (consolidate (\<lambda>_. id) (\<lambda>_. 9) (map demo_server [''doesnt_exist'', ''not_tracked'']) ModeAnyBad 0) = 5"
  "co_ExitCode (consolidate (\<lambda>_. rev) (\<lambda>_. 9) (map demo_server [''doesnt_exist'', ''not_tracked'']) ModeAnyBad 0) = 6"
  by code_simp+

text \<open>With several servers, \<open>--json\<close> ignores \<open>--strict\<close>: the exit code is that of the consolidated status and
  never 10, also for an ok that is stale.\<close>

theorem json_ignores_strict:
  assumes "planned lib git args environ repoDir f mode window timeout remoteURL tagName commit" and "fl_json f"
    and "length (resolveServers (fl_server f) environ) \<noteq> 1"
  shows "fst (runWithConfig lib order clock git net buildinfo args environ repoDir) =
    statusToExitCode (co_FinalStatus (consolidate order clock (asked lib net environ f timeout remoteURL tagName commit) mode window)) \<and>
    fst (runWithConfig lib order clock git net buildinfo args environ repoDir) \<noteq> 10"
  using assms(2,3)
  by (simp add: run_planned [OF assms(1)] Let_def length_asked emitMultiJSON_def consolidate_exit statusToExitCode_def)

definition demo_json_args :: "string list" where
  "demo_json_args = demo_args ModeQuorum @ [''--json'', ''--strict'']"

definition demo_json_flags :: cliFlags where
  "demo_json_flags = (demo_flags ModeQuorum)\<lparr>fl_json := True, fl_strict := True\<rparr>"

definition demo_stale_lib :: cliLib where
  "demo_stale_lib = demo_lib\<lparr>cl_decodeVerify := (\<lambda>body. Inr \<lparr>vr_Status = ''ok'', vr_Confidence = ''stale'', vr_Tag = ''v1'',
     vr_Remote = None, vr_Recorded = None, vr_SuppliedCommit = None, vr_Taint = None, vr_LastSyncedNS = Some 5,
     vr_SyncOutcome = None\<rparr>)\<rparr>"

lemma demo_json_planned:
  "planned demo_stale_lib demo_gitc demo_json_args [] [] demo_json_flags ModeQuorum 900000000000 10000000000
    ''https://h/r'' ''v1'' demo_commit"
proof -
  have "(case flagParse cliFormal demo_json_args of Inl _ \<Rightarrow> False
      | Inr (sets, rest) \<Rightarrow> rest = [] \<and> foldl setFlag defaultFlags sets = demo_json_flags) \<and>
     \<not> fl_version demo_json_flags \<and> resolveMode demo_json_flags [] = Some ModeQuorum \<and>
     resolveWindow demo_stale_lib demo_json_flags [] = Inr 900000000000 \<and>
     resolveTimeout demo_stale_lib demo_json_flags = Inr 10000000000 \<and>
     checkServers demo_stale_lib demo_json_flags [] (resolveServers (fl_server demo_json_flags) []) = None \<and>
     resolveSubject demo_stale_lib demo_gitc [] demo_json_flags = Inr (''https://h/r'', ''v1'', demo_commit)"
    by code_simp
  then show ?thesis unfolding planned_def by (auto split: sum.splits)
qed

theorem json_ignores_strict_witness:
  "fl_strict demo_json_flags \<and>
   fst (runWithConfig demo_stale_lib (\<lambda>_. id) (\<lambda>_. 9) demo_gitc demo_two_ok [] demo_json_args [] []) = 0"
proof -
  have "length (resolveServers (fl_server demo_json_flags) []) \<noteq> 1" "fl_json demo_json_flags" "fl_strict demo_json_flags"
    by (code_simp, code_simp, code_simp)
  moreover have "statusToExitCode (co_FinalStatus (consolidate (\<lambda>_. id) (\<lambda>_. 9)
      (asked demo_stale_lib demo_two_ok [] demo_json_flags 10000000000 ''https://h/r'' ''v1'' demo_commit) ModeQuorum 900000000000)) = 0"
    by code_simp
  ultimately show ?thesis
    using json_ignores_strict [OF demo_json_planned, of "\<lambda>_. id" "\<lambda>_. 9" demo_two_ok "[]"] by simp
qed

end
