(* ===== verification/Cache.thy ===== *)
theory Cache
  imports Seams Go_Format
begin

text \<open>
  \<open>internal/store/cache/cache.go\<close>: the read cache in front of the store. The decorated store acts on a pair of the
  inner store's state and the cache. Every cached value is stored under a key that holds the generation of its
  remote; a write advances the generation after the inner write succeeded, so that older keys are not asked for
  again. The Otter caches are maps that may drop any entry at any time (size, TTL): \<open>ca_evicts\<close> decides, for each
  lookup, whether the entry is gone. Values are copied in and out, as the source clones them.
\<close>

section \<open>State\<close>

record cache =
  ca_gens :: "RemoteID \<Rightarrow> 64 word"     \<comment> \<open>0 for a remote without a cell\<close>
  ca_setGen :: "64 word"
  ca_refRemote :: "RefID \<rightharpoonup> RemoteID"
  ca_urlID :: "string \<rightharpoonup> RemoteID"
  ca_remoteByID :: "string \<rightharpoonup> Remote"
  ca_ref :: "string \<rightharpoonup> Ref"
  ca_lobs :: "string \<rightharpoonup> ObservationProof"
  ca_tags :: "string \<rightharpoonup> Ref list"
  ca_evicts :: "nat \<Rightarrow> bool"
  ca_lookups :: nat

definition emptyCache :: "(nat \<Rightarrow> bool) \<Rightarrow> cache" where
  "emptyCache evicts = \<lparr>ca_gens = (\<lambda>_. 0), ca_setGen = 0, ca_refRemote = Map.empty, ca_urlID = Map.empty,
     ca_remoteByID = Map.empty, ca_ref = Map.empty, ca_lobs = Map.empty, ca_tags = Map.empty, ca_evicts = evicts,
     ca_lookups = 0\<rparr>"

text \<open>A computation of the inner store, and one on the cache alone.\<close>

definition inner :: "('d, 'a) io \<Rightarrow> ('d \<times> 'x, 'a) io" where
  "inner m w = (case m (with_db (fst (w_db w)) w) of (r, w') \<Rightarrow> (r, with_db (w_db w', snd (w_db w)) w'))"

definition onCache :: "(cache \<Rightarrow> 'a \<times> cache) \<Rightarrow> ('d \<times> cache, 'a) io" where
  "onCache f w = (case f (snd (w_db w)) of (a, c) \<Rightarrow> (Inr a, with_db (fst (w_db w), c) w))"

section \<open>Generations and keys\<close>

definition genOf :: "RemoteID \<Rightarrow> cache \<Rightarrow> 64 word" where
  "genOf i c = ca_gens c i"

definition bump :: "RemoteID \<Rightarrow> cache \<Rightarrow> cache" where
  "bump i c = c\<lparr>ca_gens := (ca_gens c)(i := ca_gens c i + 1)\<rparr>"

definition bumpSet :: "cache \<Rightarrow> cache" where
  "bumpSet c = c\<lparr>ca_setGen := ca_setGen c + 1\<rparr>"

definition rememberRef :: "RefID \<Rightarrow> RemoteID \<Rightarrow> cache \<Rightarrow> cache" where
  "rememberRef refID remoteID c =
     (case ca_refRemote c refID of Some _ \<Rightarrow> c | None \<Rightarrow> c\<lparr>ca_refRemote := (ca_refRemote c)(refID \<mapsto> remoteID)\<rparr>)"

definition remoteOfRef :: "RefID \<Rightarrow> cache \<Rightarrow> RemoteID option" where
  "remoteOfRef refID c = ca_refRemote c refID"

definition key2 :: "string \<Rightarrow> int64 \<Rightarrow> int64 \<Rightarrow> string" where
  "key2 pre a b = pre @ ''|'' @ FormatInt a @ ''|'' @ FormatInt b"

definition keyRemote :: "RemoteID \<Rightarrow> 64 word \<Rightarrow> string" where
  "keyRemote remoteID gen = key2 ''remote'' remoteID (sint gen)"

definition keyTags :: "RemoteID \<Rightarrow> 64 word \<Rightarrow> string" where
  "keyTags remoteID gen = key2 ''tags'' remoteID (sint gen)"

definition keyLobs :: "RefID \<Rightarrow> 64 word \<Rightarrow> string" where
  "keyLobs refID remoteGen = key2 ''lobs'' refID (sint remoteGen)"

definition keyURL :: "64 word \<Rightarrow> string \<Rightarrow> string" where
  "keyURL setGen normURL = ''byurl|'' @ FormatInt (sint setGen) @ ''|'' @ normURL"

definition keyRef :: "RemoteID \<Rightarrow> 64 word \<Rightarrow> string \<Rightarrow> string" where
  "keyRef remoteID gen tag = ''ref|'' @ FormatInt remoteID @ ''|'' @ FormatInt (sint gen) @ ''|'' @ tag"

text \<open>\<open>GetIfPresent\<close>: an entry that was evicted or has expired is dropped by the lookup that misses it.\<close>

definition getIfPresent ::
  "(cache \<Rightarrow> string \<rightharpoonup> 'v) \<Rightarrow> ((string \<rightharpoonup> 'v) \<Rightarrow> cache \<Rightarrow> cache) \<Rightarrow> string \<Rightarrow> cache \<Rightarrow> 'v option \<times> cache" where
  "getIfPresent get put k c =
     (let c' = c\<lparr>ca_lookups := Suc (ca_lookups c)\<rparr> in
      if ca_evicts c (ca_lookups c) then (None, put ((get c)(k := None)) c') else (get c k, c'))"

definition getRemoteEntry :: "string \<Rightarrow> cache \<Rightarrow> Remote option \<times> cache" where
  "getRemoteEntry = getIfPresent ca_remoteByID (\<lambda>m. ca_remoteByID_update (\<lambda>_. m))"

definition getURLEntry :: "string \<Rightarrow> cache \<Rightarrow> RemoteID option \<times> cache" where
  "getURLEntry = getIfPresent ca_urlID (\<lambda>m. ca_urlID_update (\<lambda>_. m))"

definition getRefEntry :: "string \<Rightarrow> cache \<Rightarrow> Ref option \<times> cache" where
  "getRefEntry = getIfPresent ca_ref (\<lambda>m. ca_ref_update (\<lambda>_. m))"

definition getTagsEntry :: "string \<Rightarrow> cache \<Rightarrow> Ref list option \<times> cache" where
  "getTagsEntry = getIfPresent ca_tags (\<lambda>m. ca_tags_update (\<lambda>_. m))"

definition getLobsEntry :: "string \<Rightarrow> cache \<Rightarrow> ObservationProof option \<times> cache" where
  "getLobsEntry = getIfPresent ca_lobs (\<lambda>m. ca_lobs_update (\<lambda>_. m))"

section \<open>Cached reads\<close>

definition step :: "(cache \<Rightarrow> cache) \<Rightarrow> ('d \<times> cache, unit) io" where
  "step f = onCache (\<lambda>c. ((), f c))"

definition cache_GetRemote :: "('d, 't, 'r) Store \<Rightarrow> RemoteID \<Rightarrow> ('d \<times> cache, Remote) io" where
  "cache_GetRemote s i =
     bindT (onCache (\<lambda>c. (genOf i c, c))) (\<lambda>gen.
     let k = keyRemote i gen in
     bindT (onCache (getRemoteEntry k)) (\<lambda>v. case v of
       Some r \<Rightarrow> ret r
     | None \<Rightarrow>
         bindT (inner (st_GetRemote s i)) (\<lambda>r.
         bindT (step (\<lambda>c. c\<lparr>ca_remoteByID := (ca_remoteByID c)(k \<mapsto> r)\<rparr>)) (\<lambda>_.
         ret r))))"

definition fillURL :: "string \<Rightarrow> Remote \<Rightarrow> cache \<Rightarrow> cache" where
  "fillURL uk r c =
     (let c = c\<lparr>ca_urlID := (ca_urlID c)(uk \<mapsto> rem_ID r)\<rparr>;
          g = genOf (rem_ID r) c;
          rk = keyRemote (rem_ID r) g;
          c = c\<lparr>ca_remoteByID := (ca_remoteByID c)(rk \<mapsto> r)\<rparr> in
      if genOf (rem_ID r) c \<noteq> g then c\<lparr>ca_remoteByID := (ca_remoteByID c)(rk := None)\<rparr> else c)"

definition cache_GetRemoteByURL :: "('d, 't, 'r) Store \<Rightarrow> string \<Rightarrow> ('d \<times> cache, Remote) io" where
  "cache_GetRemoteByURL s normalizedURL =
     bindT (onCache (\<lambda>c. (ca_setGen c, c))) (\<lambda>sg.
     let uk = keyURL sg normalizedURL in
     bindT (onCache (getURLEntry uk)) (\<lambda>v. case v of
       Some i \<Rightarrow> cache_GetRemote s i
     | None \<Rightarrow>
         bindT (inner (st_GetRemoteByURL s normalizedURL)) (\<lambda>r.
         bindT (step (fillURL uk r)) (\<lambda>_.
         ret r))))"

definition cache_GetRef :: "('d, 't, 'r) Store \<Rightarrow> RemoteID \<Rightarrow> string \<Rightarrow> ('d \<times> cache, Ref) io" where
  "cache_GetRef s remoteID tagName =
     bindT (onCache (\<lambda>c. (genOf remoteID c, c))) (\<lambda>gen.
     let k = keyRef remoteID gen tagName in
     bindT (onCache (getRefEntry k)) (\<lambda>v. case v of
       Some r \<Rightarrow> ret r
     | None \<Rightarrow>
         bindT (inner (st_GetRef s remoteID tagName)) (\<lambda>r.
         bindT (step (\<lambda>c.
           let c = rememberRef (ref_ID r) (ref_RemoteID r) c in c\<lparr>ca_ref := (ca_ref c)(k \<mapsto> r)\<rparr>)) (\<lambda>_.
         ret r))))"

definition cache_ListTags :: "('d, 't, 'r) Store \<Rightarrow> RemoteID \<Rightarrow> ('d \<times> cache, Ref list) io" where
  "cache_ListTags s remoteID =
     bindT (onCache (\<lambda>c. (genOf remoteID c, c))) (\<lambda>gen.
     let k = keyTags remoteID gen in
     bindT (onCache (getTagsEntry k)) (\<lambda>v. case v of
       Some refs \<Rightarrow> ret refs
     | None \<Rightarrow>
         bindT (inner (st_ListTags s remoteID)) (\<lambda>refs.
         bindT (step (\<lambda>c.
           let c = foldl (\<lambda>c r. rememberRef (ref_ID r) (ref_RemoteID r) c) c refs in
           c\<lparr>ca_tags := (ca_tags c)(k \<mapsto> refs)\<rparr>)) (\<lambda>_.
         ret refs))))"

definition cache_LatestObservationForRef :: "('d, 't, 'r) Store \<Rightarrow> RefID \<Rightarrow> ('d \<times> cache, ObservationProof) io" where
  "cache_LatestObservationForRef s refID =
     bindT (onCache (\<lambda>c. (remoteOfRef refID c, c))) (\<lambda>known. case known of
       None \<Rightarrow>
         bindT (inner (st_LatestObservationForRef s refID)) (\<lambda>p.
         bindT (step (rememberRef refID (prf_RemoteID p))) (\<lambda>_.
         ret p))
     | Some rid \<Rightarrow>
         bindT (onCache (\<lambda>c. (genOf rid c, c))) (\<lambda>gen.
         let k = keyLobs refID gen in
         bindT (onCache (getLobsEntry k)) (\<lambda>v. case v of
           Some p \<Rightarrow> ret p
         | None \<Rightarrow>
             bindT (inner (st_LatestObservationForRef s refID)) (\<lambda>p.
             bindT (step (\<lambda>c. c\<lparr>ca_lobs := (ca_lobs c)(k \<mapsto> p)\<rparr>)) (\<lambda>_.
             ret p)))))"

section \<open>Invalidating writes\<close>

definition cache_CreateRemote :: "('d, 't, 'r) Store \<Rightarrow> Remote \<Rightarrow> ('d \<times> cache, RemoteID) io" where
  "cache_CreateRemote s r = bindT (inner (st_CreateRemote s r)) (\<lambda>i. bindT (step bumpSet) (\<lambda>_. ret i))"

definition cache_UpdateRemote :: "('d, 't, 'r) Store \<Rightarrow> Remote \<Rightarrow> ('d \<times> cache, unit) io" where
  "cache_UpdateRemote s r = bindT (inner (st_UpdateRemote s r)) (\<lambda>_. step (bump (rem_ID r)))"

definition cache_SoftDeleteRemote :: "('d, 't, 'r) Store \<Rightarrow> RemoteID \<Rightarrow> int64 \<Rightarrow> ('d \<times> cache, unit) io" where
  "cache_SoftDeleteRemote s i atNS =
     bindT (inner (st_SoftDeleteRemote s i atNS)) (\<lambda>_. bindT (step (bump i)) (\<lambda>_. step bumpSet))"

definition cache_SetRemoteHealth ::
  "('d, 't, 'r) Store \<Rightarrow> RemoteID \<Rightarrow> RemoteStatus \<Rightarrow> string \<Rightarrow> int64 \<Rightarrow> ('d \<times> cache, unit) io" where
  "cache_SetRemoteHealth s i status lastErr lastOkNS =
     bindT (inner (st_SetRemoteHealth s i status lastErr lastOkNS)) (\<lambda>_. step (bump i))"

definition cache_SetRefTaint :: "('d, 't, 'r) Store \<Rightarrow> RefID \<Rightarrow> int64 \<Rightarrow> ('d \<times> cache, unit) io" where
  "cache_SetRefTaint s refID firstNS =
     bindT (inner (st_SetRefTaint s refID firstNS)) (\<lambda>_.
     step (\<lambda>c. case remoteOfRef refID c of Some rid \<Rightarrow> bump rid c | None \<Rightarrow> c))"

section \<open>Transactions\<close>

text \<open>
  The capturing transaction acts on the inner transaction, the cache and what it recorded. The cache and the
  record are variables of the program: a rollback does not undo them.
\<close>

record capture =
  cp_touched :: "RemoteID list"
  cp_createdRemote :: bool

type_synonym 't captured = "'t \<times> cache \<times> capture"

definition mark :: "RemoteID \<Rightarrow> capture \<Rightarrow> capture" where
  "mark i cp = (if i \<in> set (cp_touched cp) then cp else cp\<lparr>cp_touched := i # cp_touched cp\<rparr>)"

definition marking :: "(cache \<times> capture \<Rightarrow> cache \<times> capture) \<Rightarrow> ('t captured, unit) io" where
  "marking f w = (Inr (), with_db (fst (w_db w), f (snd (w_db w))) w)"

definition flush :: "capture \<Rightarrow> cache \<Rightarrow> cache" where
  "flush cp c =
     (let c = foldl (\<lambda>c i. bump i c) c (cp_touched cp) in if cp_createdRemote cp then bumpSet c else c)"

definition captureTx :: "'t Tx \<Rightarrow> 't captured Tx" where
  "captureTx tx =
     \<lparr>tx_AppendObservation = (\<lambda>ob.
        bindT (marking (apsnd (mark (obs_RemoteID ob)))) (\<lambda>_. inner (tx_AppendObservation tx ob))),
      tx_UpsertRefProjection = (\<lambda>ref.
        bindT (marking (apsnd (mark (ref_RemoteID ref)))) (\<lambda>_.
        bindT (marking (apfst (if ref_ID ref \<noteq> 0 then rememberRef (ref_ID ref) (ref_RemoteID ref) else id))) (\<lambda>_.
        inner (tx_UpsertRefProjection tx ref)))),
      tx_WriteSync = (\<lambda>s.
        bindT (marking (apsnd (mark (syn_RemoteID s)))) (\<lambda>_. inner (tx_WriteSync tx s))),
      tx_AdvanceChainHead = (\<lambda>remoteID newHead newLen.
        bindT (marking (apsnd (mark remoteID))) (\<lambda>_. inner (tx_AdvanceChainHead tx remoteID newHead newLen))),
      tx_AppendTaintEvent = (\<lambda>e.
        bindT (marking (apsnd (mark (te_RemoteID e)))) (\<lambda>_. inner (tx_AppendTaintEvent tx e))),
      tx_CreateRemote = (\<lambda>r.
        bindT (inner (tx_CreateRemote tx r)) (\<lambda>i.
        bindT (marking (apsnd (cp_createdRemote_update (\<lambda>_. True)))) (\<lambda>_. ret i))),
      tx_CountAllRemotes = inner (tx_CountAllRemotes tx),
      tx_PruneSyncs = (\<lambda>remoteID keep. inner (tx_PruneSyncs tx remoteID keep))\<rparr>"

text \<open>
  \<open>WithTx\<close> of the inner store with a closure that also assigns variables of its caller: the second component of
  the state, which survives a rollback.
\<close>

type_synonym ('d, 't, 'r) withVars = "('t Tx \<Rightarrow> ('t captured, 'r) io) \<Rightarrow> ('d \<times> cache \<times> capture, 'r) io"

definition cache_WithTx ::
  "('d, 't, 'r) withVars \<Rightarrow> ('t captured Tx \<Rightarrow> ('t captured, 'r) io) \<Rightarrow> ('d \<times> cache, 'r) io" where
  "cache_WithTx withTx fn w =
     (let capt = \<lparr>cp_touched = [], cp_createdRemote = False\<rparr> in
      case withTx (\<lambda>tx. fn (captureTx tx)) (with_db (fst (w_db w), snd (w_db w), capt) w) of
        (Inl e, w') \<Rightarrow> (Inl e, with_db (fst (w_db w'), fst (snd (w_db w'))) w')
      | (Inr a, w') \<Rightarrow>
          (Inr a, with_db (fst (w_db w'), flush (snd (snd (w_db w'))) (fst (snd (w_db w')))) w'))"

section \<open>The decorated store\<close>

definition cachingStore :: "('d, 't, 'r) Store \<Rightarrow> ('d, 't, 'r) withVars \<Rightarrow> ('d \<times> cache, 't captured, 'r) Store" where
  "cachingStore s withTx =
     \<lparr>st_CreateRemote = cache_CreateRemote s, st_GetRemote = cache_GetRemote s,
      st_GetRemoteByURL = cache_GetRemoteByURL s, st_ListRemotes = (\<lambda>limit cursor. inner (st_ListRemotes s limit cursor)),
      st_CountAllRemotes = inner (st_CountAllRemotes s), st_UpdateRemote = cache_UpdateRemote s,
      st_SoftDeleteRemote = cache_SoftDeleteRemote s,
      st_SelectDueRemotes = (\<lambda>now limit. inner (st_SelectDueRemotes s now limit)),
      st_SetRemoteHealth = cache_SetRemoteHealth s, st_GetRef = cache_GetRef s, st_ListTags = cache_ListTags s,
      st_SetRefTaint = cache_SetRefTaint s, st_GetChainHead = (\<lambda>i. inner (st_GetChainHead s i)),
      st_ReplayObservations = (\<lambda>i from limit. inner (st_ReplayObservations s i from limit)),
      st_LatestObservationForRef = cache_LatestObservationForRef s,
      st_AppendTaintEvent = (\<lambda>e. inner (st_AppendTaintEvent s e)),
      st_ListTaintEvents = (\<lambda>i limit cursor. inner (st_ListTaintEvents s i limit cursor)),
      st_AckTaintEvent = (\<lambda>i acker note atNS. inner (st_AckTaintEvent s i acker note atNS)),
      st_ListSyncs = (\<lambda>i limit cursor. inner (st_ListSyncs s i limit cursor)),
      st_TryAcquireLease = (\<lambda>i holder now expires. inner (st_TryAcquireLease s i holder now expires)),
      st_ReleaseLeaseCAS = (\<lambda>i holder wit head len. inner (st_ReleaseLeaseCAS s i holder wit head len)),
      st_WithTx = cache_WithTx withTx\<rparr>"

text \<open>\<open>Wrap\<close> with \<open>Enabled\<close> set and the caches empty; a disabled cache is the inner store itself.\<close>

record cacheConfig =
  cc_Enabled :: bool
  cc_MaxEntries :: int64
  cc_TTL :: Duration

datatype ('d, 't, 'r) wrapped = Bare "('d, 't, 'r) Store" | Cached "('d \<times> cache, 't captured, 'r) Store"

definition Wrap :: "('d, 't, 'r) Store \<Rightarrow> ('d, 't, 'r) withVars \<Rightarrow> cacheConfig \<Rightarrow> ('d, 't, 'r) wrapped" where
  "Wrap s withTx cfg = (if \<not> cc_Enabled cfg then Bare s else Cached (cachingStore s withTx))"

section \<open>Keys\<close>

text \<open>Different questions have different keys, whatever a tag or a URL contains.\<close>

lemma split_bar: "CHR ''|'' \<notin> set a \<Longrightarrow> CHR ''|'' \<notin> set b \<Longrightarrow> a @ CHR ''|'' # x = b @ CHR ''|'' # y \<longleftrightarrow> a = b \<and> x = y"
  by (metis SplitByte_append_sep append_same_eq list.inject same_append_eq)

lemma sint_inj: "sint g = sint g' \<longleftrightarrow> g = g'" for g g' :: "64 word"
  using word_eq_iff_signed [where 'a = int, of g g'] by simp

lemma key_inj [simp]:
  "keyRemote i g = keyRemote i' g' \<longleftrightarrow> i = i' \<and> g = g'"
  "keyTags i g = keyTags i' g' \<longleftrightarrow> i = i' \<and> g = g'"
  "keyLobs r g = keyLobs r' g' \<longleftrightarrow> r = r' \<and> g = g'"
  "keyURL g u = keyURL g' u' \<longleftrightarrow> g = g' \<and> u = u'"
  "keyRef i g t = keyRef i' g' t' \<longleftrightarrow> i = i' \<and> g = g' \<and> t = t'"
  by (auto simp: keyRemote_def keyTags_def keyLobs_def key2_def keyURL_def keyRef_def split_bar FormatInt_chars FormatInt_inj sint_inj)

end
