(* ===== verification/Cache_Coherence.thy ===== *)
theory Cache_Coherence
  imports Cache
begin

text \<open>
  When the cache may stand in for the store. \<open>cache_ok\<close> says that every entry under a live generation is what the
  database holds, that no entry has a generation that is still to come, and bounds the generations by the number of
  writes so far, so that they do not wrap around. The locale \<open>cacheable\<close> is what the cache needs from the store it
  decorates: reads change nothing and return what the views say. From it follows that the reads through the cache
  return the same and keep \<open>cache_ok\<close>. A write that changes only the remotes whose generation it advances keeps it too.
\<close>

section \<open>Views and coherence\<close>

record 'd views =
  vw_remote :: "'d \<Rightarrow> RemoteID \<Rightarrow> Remote option"
  vw_url :: "'d \<Rightarrow> string \<Rightarrow> RemoteID option"
  vw_ref :: "'d \<Rightarrow> RemoteID \<Rightarrow> string \<Rightarrow> Ref option"
  vw_tags :: "'d \<Rightarrow> RemoteID \<Rightarrow> Ref list"

definition coherent :: "'d views \<Rightarrow> 'd \<Rightarrow> cache \<Rightarrow> bool" where
  "coherent v d c \<longleftrightarrow>
     (\<forall>i r. ca_remoteByID c (keyRemote i (ca_gens c i)) = Some r \<longrightarrow> vw_remote v d i = Some r) \<and>
     (\<forall>i t r. ca_ref c (keyRef i (ca_gens c i) t) = Some r \<longrightarrow> vw_ref v d i t = Some r) \<and>
     (\<forall>i rs. ca_tags c (keyTags i (ca_gens c i)) = Some rs \<longrightarrow> vw_tags v d i = rs) \<and>
     (\<forall>u i. ca_urlID c (keyURL (ca_setGen c) u) = Some i \<longrightarrow> vw_url v d u = Some i)"

definition unborn :: "cache \<Rightarrow> bool" where
  "unborn c \<longleftrightarrow>
     (\<forall>i g. ca_gens c i < g \<longrightarrow> ca_remoteByID c (keyRemote i g) = None \<and> ca_tags c (keyTags i g) = None \<and>
        (\<forall>t. ca_ref c (keyRef i g t) = None)) \<and>
     (\<forall>g u. ca_setGen c < g \<longrightarrow> ca_urlID c (keyURL g u) = None)"

definition bounded :: "nat \<Rightarrow> cache \<Rightarrow> bool" where
  "bounded n c \<longleftrightarrow> (\<forall>i. unat (ca_gens c i) \<le> n) \<and> unat (ca_setGen c) \<le> n"

definition cache_ok :: "'d views \<Rightarrow> nat \<Rightarrow> 'd \<times> cache \<Rightarrow> bool" where
  "cache_ok v n s \<longleftrightarrow> coherent v (fst s) (snd s) \<and> unborn (snd s) \<and> bounded n (snd s)"

lemma cache_ok_empty: "cache_ok v 0 (d, emptyCache evicts)"
  by (simp add: cache_ok_def coherent_def unborn_def bounded_def emptyCache_def)

text \<open>Dropping entries, and entries that no live key reaches, do no harm.\<close>

definition within :: "cache \<Rightarrow> cache \<Rightarrow> bool" where
  "within c' c \<longleftrightarrow> ca_gens c' = ca_gens c \<and> ca_setGen c' = ca_setGen c \<and>
     ca_remoteByID c' \<subseteq>\<^sub>m ca_remoteByID c \<and> ca_ref c' \<subseteq>\<^sub>m ca_ref c \<and> ca_tags c' \<subseteq>\<^sub>m ca_tags c \<and> ca_urlID c' \<subseteq>\<^sub>m ca_urlID c"

lemma map_le_Some: "m \<subseteq>\<^sub>m m' \<Longrightarrow> m k = Some x \<Longrightarrow> m' k = Some x"
  by (metis domI map_le_def)

lemma map_le_None: "m \<subseteq>\<^sub>m m' \<Longrightarrow> m' k = None \<Longrightarrow> m k = None"
  by (metis map_le_Some not_None_eq)

lemma within_ok:
  assumes "within c' c" and "cache_ok v n (d, c)"
  shows "cache_ok v n (d, c')"
proof -
  have le: "ca_remoteByID c' k = Some r \<Longrightarrow> ca_remoteByID c k = Some r" "ca_ref c' k = Some f \<Longrightarrow> ca_ref c k = Some f"
    "ca_tags c' k = Some fs \<Longrightarrow> ca_tags c k = Some fs" "ca_urlID c' k = Some i \<Longrightarrow> ca_urlID c k = Some i" for k r f fs i
    using assms(1) map_le_Some by (auto simp: within_def)
  have none: "ca_remoteByID c k = None \<Longrightarrow> ca_remoteByID c' k = None" "ca_ref c k = None \<Longrightarrow> ca_ref c' k = None"
    "ca_tags c k = None \<Longrightarrow> ca_tags c' k = None" "ca_urlID c k = None \<Longrightarrow> ca_urlID c' k = None" for k
    using assms(1) map_le_None by (auto simp: within_def)
  have "ca_gens c' = ca_gens c" "ca_setGen c' = ca_setGen c" using assms(1) by (simp_all add: within_def)
  with assms(2) le none show ?thesis
    unfolding cache_ok_def coherent_def unborn_def bounded_def by simp
qed

lemma within_refl [simp]: "within c c"
  by (simp add: within_def)

lemma within_rememberRef [simp]: "within (rememberRef r i c) c"
  by (simp add: rememberRef_def within_def split: option.splits)

lemma within_trans: "within a b \<Longrightarrow> within b c \<Longrightarrow> within a c"
  unfolding within_def using map_le_trans by metis

lemma within_remember_all: "within (foldl (\<lambda>c r. rememberRef (ref_ID r) (ref_RemoteID r) c) c refs) c"
  by (induction refs arbitrary: c) (simp_all, metis within_trans within_rememberRef)

lemma map_le_drop [simp]: "m(k := None) \<subseteq>\<^sub>m m"
  by (auto simp: map_le_def)

lemma entry_within:
  "getRemoteEntry k c = (x, c') \<Longrightarrow> within c' c \<and> (\<forall>r. x = Some r \<longrightarrow> ca_remoteByID c k = Some r)"
  "getURLEntry k c = (y, c') \<Longrightarrow> within c' c \<and> (\<forall>i. y = Some i \<longrightarrow> ca_urlID c k = Some i)"
  "getRefEntry k c = (z, c') \<Longrightarrow> within c' c \<and> (\<forall>r. z = Some r \<longrightarrow> ca_ref c k = Some r)"
  "getTagsEntry k c = (u, c') \<Longrightarrow> within c' c \<and> (\<forall>rs. u = Some rs \<longrightarrow> ca_tags c k = Some rs)"
  "getLobsEntry k c = (p, c') \<Longrightarrow> within c' c"
  by (auto simp: getRemoteEntry_def getURLEntry_def getRefEntry_def getTagsEntry_def getLobsEntry_def getIfPresent_def
      within_def Let_def split: if_splits)

section \<open>Writing\<close>

text \<open>A change of the database that shows only at the remotes in \<open>X\<close>, and at remotes that were not there.\<close>

definition agrees :: "'d views \<Rightarrow> RemoteID set \<Rightarrow> 'd \<Rightarrow> 'd \<Rightarrow> bool" where
  "agrees v X d d' \<longleftrightarrow>
     (\<forall>i r. i \<notin> X \<longrightarrow> vw_remote v d i = Some r \<longrightarrow> vw_remote v d' i = Some r) \<and>
     (\<forall>i. i \<notin> X \<longrightarrow> vw_ref v d' i = vw_ref v d i \<and> vw_tags v d' i = vw_tags v d i)"

lemma agrees_refl [simp]: "agrees v X d d"
  by (simp add: agrees_def)

lemma agrees_trans: "agrees v X d1 d2 \<Longrightarrow> agrees v X d2 d3 \<Longrightarrow> agrees v X d1 d3"
  by (simp add: agrees_def)

lemma agrees_mono: "agrees v X d d' \<Longrightarrow> X \<subseteq> Y \<Longrightarrow> agrees v Y d d'"
  unfolding agrees_def by blast

text \<open>The cache after the generations of the remotes in \<open>X\<close>, and of the set if \<open>b\<close>, were advanced.\<close>

definition advanced :: "RemoteID set \<Rightarrow> bool \<Rightarrow> cache \<Rightarrow> cache \<Rightarrow> bool" where
  "advanced X b c c' \<longleftrightarrow>
     ca_remoteByID c' = ca_remoteByID c \<and> ca_ref c' = ca_ref c \<and> ca_tags c' = ca_tags c \<and> ca_urlID c' = ca_urlID c \<and>
     (\<forall>i. ca_gens c' i = (if i \<in> X then ca_gens c i + 1 else ca_gens c i)) \<and>
     ca_setGen c' = (if b then ca_setGen c + 1 else ca_setGen c)"

lemma gen_Suc:
  assumes "unat (g :: 64 word) \<le> n" and "Suc n < 2 ^ 64"
  shows "g < g + 1" and "unat (g + 1) \<le> Suc n" and "g + 1 < h \<Longrightarrow> g < h"
proof -
  have "unat (g + 1) = unat g + 1"
    using assms by (simp add: unat_word_ariths)
  then show "g < g + 1" "unat (g + 1) \<le> Suc n" "g + 1 < h \<Longrightarrow> g < h" using assms by (auto simp: word_less_nat_alt)
qed

lemma advanced_ok:
  assumes ok: "cache_ok v n (d, c)" and "Suc n < 2 ^ 64" and adv: "advanced X b c c'"
    and "agrees v X d d'" and "b \<or> vw_url v d' = vw_url v d"
  shows "cache_ok v (Suc n) (d', c')"
proof -
  have bd: "unat (ca_gens c i) \<le> n" "unat (ca_setGen c) \<le> n" for i using ok by (simp_all add: cache_ok_def bounded_def)
  note gens = gen_Suc [OF bd(1) assms(2)] and setg = gen_Suc [OF bd(2) assms(2)]
  have none: "ca_gens c i < g \<Longrightarrow> ca_remoteByID c (keyRemote i g) = None \<and> ca_tags c (keyTags i g) = None \<and>
      (\<forall>t. ca_ref c (keyRef i g t) = None)" "ca_setGen c < g \<Longrightarrow> ca_urlID c (keyURL g u) = None" for i g u
    using ok by (auto simp: cache_ok_def unborn_def)
  have later: "ca_gens c' i < g \<Longrightarrow> ca_gens c i < g" "ca_setGen c' < g \<Longrightarrow> ca_setGen c < g" for i g
    using adv gens(3) [of i g] setg(3) [of g] by (auto simp: advanced_def split: if_splits)
  have "coherent v d' c'"
    using ok adv assms(4,5) none(1) [OF gens(1)] none(2) [OF setg(1)]
    unfolding coherent_def cache_ok_def advanced_def agrees_def by (auto split: if_splits)
  moreover have "unborn c'"
    using none later adv unfolding unborn_def advanced_def by simp
  moreover have "bounded (Suc n) c'"
    using gens(2) setg(2) bd adv by (auto simp: bounded_def advanced_def le_SucI)
  ultimately show ?thesis by (simp add: cache_ok_def)
qed

lemma cache_ok_mono: "cache_ok v n s \<Longrightarrow> n \<le> m \<Longrightarrow> cache_ok v m s"
  unfolding cache_ok_def bounded_def by (meson order_trans)

lemma same_ok: "cache_ok v n (d, c) \<Longrightarrow> agrees v {} d d' \<Longrightarrow> vw_url v d' = vw_url v d \<Longrightarrow> cache_ok v n (d', c)"
  unfolding cache_ok_def coherent_def agrees_def by auto

lemma advanced_bump: "advanced {i} False c (bump i c)" "advanced {} True c (bumpSet c)" "advanced {i} True c (bumpSet (bump i c))"
  by (simp_all add: advanced_def bump_def bumpSet_def)

lemma foldl_bump:
  assumes "distinct is"
  shows "advanced (set is) False c (foldl (\<lambda>c i. bump i c) c is)"
  using assms
proof (induction "is" rule: rev_induct)
  case (snoc i "is")
  then show ?case by (auto simp: advanced_def bump_def)
qed (simp add: advanced_def)

lemma advanced_flush: "distinct (cp_touched cp) \<Longrightarrow> advanced (set (cp_touched cp)) (cp_createdRemote cp) c (flush cp c)"
  using foldl_bump [of "cp_touched cp" c] by (auto simp: flush_def Let_def advanced_def bumpSet_def)


section \<open>Reading\<close>

text \<open>Rules for the steps of a cached operation, on the pair of database and cache.\<close>

lemma hoare_onCache:
  "(\<And>d c a c'. P (d, c) \<Longrightarrow> f c = (a, c') \<Longrightarrow> Q a (d, c')) \<Longrightarrow> hoare (dbP P) (onCache f) (\<lambda>a. dbP (Q a)) E"
  by (auto simp: hoare_def dbP_def onCache_def with_db_def split: prod.splits) (metis prod.collapse)

lemma hoare_step: "(\<And>d c. P (d, c) \<Longrightarrow> Q () (d, f c)) \<Longrightarrow> hoare (dbP P) (step f) (\<lambda>a. dbP (Q a)) E"
  unfolding step_def by (rule hoare_onCache) auto

lemma hoare_inner:
  assumes "\<And>w x w' c. P (w_db w, c) \<Longrightarrow> m w = (x, w') \<Longrightarrow>
      (case x of Inr a \<Rightarrow> Q a (w_db w', c) | Inl e \<Rightarrow> E (w_db w', c))"
  shows "hoare (dbP P) (inner m) (\<lambda>a. dbP (Q a)) (\<lambda>_. dbP E)"
  unfolding hoare_def
proof (intro allI impI, goal_cases)
  case (1 w)
  then have P: "P (w_db (with_db (fst (w_db w)) w), snd (w_db w))" by (simp add: dbP_def with_db_def)
  obtain x w' where m: "m (with_db (fst (w_db w)) w) = (x, w')" by (metis surj_pair)
  show ?case
    using assms [OF P m] m by (cases x) (simp_all add: inner_def dbP_def with_db_def)
qed

text \<open>An inner write, followed by the advance of the generations of what it changed.\<close>

definition writes :: "('d \<Rightarrow> bool) \<Rightarrow> 'd views \<Rightarrow> RemoteID set \<Rightarrow> bool \<Rightarrow> ('d, 'a) io \<Rightarrow> bool" where
  "writes I v X b m \<longleftrightarrow> (\<forall>w x w'. I (w_db w) \<longrightarrow> m w = (x, w') \<longrightarrow> I (w_db w') \<and>
     (case x of Inl _ \<Rightarrow> w_db w' = w_db w
      | Inr _ \<Rightarrow> agrees v X (w_db w) (w_db w') \<and> (b \<or> vw_url v (w_db w') = vw_url v (w_db w))))"

lemma write_ok:
  assumes "writes I v X b m" and "\<And>a c. advanced X b c (f a c)" and "Suc n < 2 ^ 64"
  shows "hoare (dbP (\<lambda>p. I (fst p) \<and> cache_ok v n p)) (bindT (inner m) (\<lambda>a. bindT (step (f a)) (\<lambda>_. ret (g a))))
    (\<lambda>_. dbP (\<lambda>p. I (fst p) \<and> cache_ok v (Suc n) p)) (\<lambda>_. dbP (\<lambda>p. I (fst p) \<and> cache_ok v (Suc n) p))"
proof (rule hoare_bind)
  let ?Q = "\<lambda>p. I (fst p) \<and> (\<forall>c'. advanced X b (snd p) c' \<longrightarrow> cache_ok v (Suc n) (fst p, c'))"
  show "hoare (dbP (\<lambda>p. I (fst p) \<and> cache_ok v n p)) (inner m) (\<lambda>_. dbP ?Q) (\<lambda>_. dbP (\<lambda>p. I (fst p) \<and> cache_ok v (Suc n) p))"
  proof (rule hoare_inner)
    fix w x w' c
    assume P: "I (fst (w_db w, c)) \<and> cache_ok v n (w_db w, c)" and run: "m w = (x, w')"
    with assms(1) have "I (w_db w')" "case x of Inl _ \<Rightarrow> w_db w' = w_db w
        | Inr _ \<Rightarrow> agrees v X (w_db w) (w_db w') \<and> (b \<or> vw_url v (w_db w') = vw_url v (w_db w))"
      by (auto simp: writes_def)
    with P assms(3) show "case x of Inl e \<Rightarrow> I (fst (w_db w', c)) \<and> cache_ok v (Suc n) (w_db w', c) | Inr a \<Rightarrow> ?Q (w_db w', c)"
      by (cases x) (auto intro: cache_ok_mono advanced_ok)
  qed
  show "hoare (dbP ?Q) (bindT (step (f a)) (\<lambda>_. ret (g a))) (\<lambda>_. dbP (\<lambda>p. I (fst p) \<and> cache_ok v (Suc n) p))
      (\<lambda>_. dbP (\<lambda>p. I (fst p) \<and> cache_ok v (Suc n) p))" for a
    by (rule hoare_bind [OF hoare_step [where Q = "\<lambda>_ p. I (fst p) \<and> cache_ok v (Suc n) p"]])
      (use assms(2) in \<open>auto intro: hoare_ret\<close>)
qed

locale cacheable =
  fixes s :: "('d, 't, 'r) Store" and v :: "'d views" and inv :: "'d \<Rightarrow> bool"
  assumes GetRemote: "inv (w_db w) \<Longrightarrow> st_GetRemote s i w = (x, w') \<Longrightarrow>
      w_db w' = w_db w \<and> (\<forall>r. x = Inr r \<longrightarrow> vw_remote v (w_db w) i = Some r)"
    and GetRemoteByURL: "inv (w_db w) \<Longrightarrow> st_GetRemoteByURL s u w = (x, w') \<Longrightarrow>
      w_db w' = w_db w \<and> (\<forall>r. x = Inr r \<longrightarrow> vw_url v (w_db w) u = Some (rem_ID r) \<and> vw_remote v (w_db w) (rem_ID r) = Some r)"
    and GetRef: "inv (w_db w) \<Longrightarrow> st_GetRef s i t w = (y, w') \<Longrightarrow>
      w_db w' = w_db w \<and> (\<forall>r. y = Inr r \<longrightarrow> vw_ref v (w_db w) i t = Some r)"
    and ListTags: "inv (w_db w) \<Longrightarrow> st_ListTags s i w = (z, w') \<Longrightarrow>
      w_db w' = w_db w \<and> (\<forall>rs. z = Inr rs \<longrightarrow> vw_tags v (w_db w) i = rs)"
    and url_ids: "vw_remote v d i = Some r \<Longrightarrow> rem_ID r = i"
    and LatestObservation: "inv (w_db w) \<Longrightarrow> st_LatestObservationForRef s f w = (p, w') \<Longrightarrow> w_db w' = w_db w"
begin

text \<open>The database is \<open>d0\<close> and the cache is coherent with it.\<close>

abbreviation cached_at :: "nat \<Rightarrow> 'd \<Rightarrow> 'd \<times> cache \<Rightarrow> bool" where
  "cached_at n d0 \<equiv> (\<lambda>p. inv d0 \<and> fst p = d0 \<and> cache_ok v n p)"

text \<open>Every cached read looks up an entry under the live generation, or asks the store and fills the entry.\<close>

lemma read_through:
  assumes look: "\<And>c x c'. cached_at n d0 (d0, c) \<Longrightarrow> look (gen c) c = (x, c') \<Longrightarrow>
      cached_at n d0 (d0, c') \<and> gen c' = gen c \<and> (\<forall>a. x = Some a \<longrightarrow> S a)"
    and hit: "\<And>a. S a \<Longrightarrow> hoare (dbP (cached_at n d0)) (use a) (\<lambda>r. dbP (\<lambda>p. cached_at n d0 p \<and> R r)) (\<lambda>_. dbP (cached_at n d0))"
    and read: "\<And>w x w'. w_db w = d0 \<Longrightarrow> inv d0 \<Longrightarrow> m w = (x, w') \<Longrightarrow> w_db w' = d0 \<and> (\<forall>r. x = Inr r \<longrightarrow> R r)"
    and fill: "\<And>c r. cached_at n d0 (d0, c) \<Longrightarrow> R r \<Longrightarrow> cached_at n d0 (d0, fill (gen c) r c)"
  shows "hoare (dbP (cached_at n d0))
     (bindT (onCache (\<lambda>c. (gen c, c))) (\<lambda>g.
      bindT (onCache (look g)) (\<lambda>x. case x of
        Some a \<Rightarrow> use a
      | None \<Rightarrow> bindT (inner m) (\<lambda>r. bindT (step (fill g r)) (\<lambda>_. ret r)))))
     (\<lambda>r. dbP (\<lambda>p. cached_at n d0 p \<and> R r)) (\<lambda>_. dbP (cached_at n d0))"
proof (rule hoare_bind)
  show "hoare (dbP (cached_at n d0)) (onCache (\<lambda>c. (gen c, c)))
      (\<lambda>g. dbP (\<lambda>p. cached_at n d0 p \<and> g = gen (snd p))) (\<lambda>_. dbP (cached_at n d0))"
    by (rule hoare_onCache) auto
next
  fix g
  let ?P = "\<lambda>p. cached_at n d0 p \<and> g = gen (snd p)"
  have miss: "hoare (dbP ?P) (bindT (inner m) (\<lambda>r. bindT (step (fill g r)) (\<lambda>_. ret r)))
      (\<lambda>r. dbP (\<lambda>p. cached_at n d0 p \<and> R r)) (\<lambda>_. dbP (cached_at n d0))"
  proof (rule hoare_bind)
    show "hoare (dbP ?P) (inner m) (\<lambda>r. dbP (\<lambda>p. ?P p \<and> R r)) (\<lambda>_. dbP (cached_at n d0))"
    proof (rule hoare_inner)
      fix w x w' c
      assume P: "?P (w_db w, c)" and "m w = (x, w')"
      then have "w_db w' = d0 \<and> (\<forall>r. x = Inr r \<longrightarrow> R r)" by (intro read) auto
      with P show "case x of Inl e \<Rightarrow> cached_at n d0 (w_db w', c) | Inr r \<Rightarrow> ?P (w_db w', c) \<and> R r" by (cases x) auto
    qed
    show "hoare (dbP (\<lambda>p. ?P p \<and> R r)) (bindT (step (fill g r)) (\<lambda>_. ret r))
        (\<lambda>r. dbP (\<lambda>p. cached_at n d0 p \<and> R r)) (\<lambda>_. dbP (cached_at n d0))" for r
      by (rule hoare_bind [OF hoare_step [where Q = "\<lambda>_ p. cached_at n d0 p \<and> R r"]]) (use fill in \<open>auto intro: hoare_ret\<close>)
  qed
  show "hoare (dbP ?P) (bindT (onCache (look g)) (\<lambda>x. case x of Some a \<Rightarrow> use a
      | None \<Rightarrow> bindT (inner m) (\<lambda>r. bindT (step (fill g r)) (\<lambda>_. ret r))))
      (\<lambda>r. dbP (\<lambda>p. cached_at n d0 p \<and> R r)) (\<lambda>_. dbP (cached_at n d0))"
  proof (rule hoare_bind)
    show "hoare (dbP ?P) (onCache (look g)) (\<lambda>x. dbP (\<lambda>p. ?P p \<and> (\<forall>a. x = Some a \<longrightarrow> S a))) (\<lambda>_. dbP (cached_at n d0))"
    proof (rule hoare_onCache)
      fix d c x c'
      assume P: "?P (d, c)" and l: "look g c = (x, c')"
      then have "cached_at n d0 (d0, c') \<and> gen c' = gen c \<and> (\<forall>a. x = Some a \<longrightarrow> S a)" by (intro look) auto
      with P show "?P (d, c') \<and> (\<forall>a. x = Some a \<longrightarrow> S a)" by simp
    qed
    show "hoare (dbP (\<lambda>p. ?P p \<and> (\<forall>a. x = Some a \<longrightarrow> S a))) (case x of Some a \<Rightarrow> use a
        | None \<Rightarrow> bindT (inner m) (\<lambda>r. bindT (step (fill g r)) (\<lambda>_. ret r)))
        (\<lambda>r. dbP (\<lambda>p. cached_at n d0 p \<and> R r)) (\<lambda>_. dbP (cached_at n d0))" for x
    proof (cases x)
      case None
      then show ?thesis using miss by simp
    next
      case (Some a)
      show ?thesis
      proof (cases "S a")
        case True
        with Some hit [OF True] show ?thesis by (auto intro: hoare_pre simp: dbP_def)
      next
        case False
        with Some show ?thesis by (simp add: hoare_def dbP_def)
      qed
    qed
  qed
qed


lemma look_ok:
  assumes "cached_at n d0 (d0, c)" and "within c' c"
  shows "cached_at n d0 (d0, c') \<and> ca_gens c' = ca_gens c \<and> ca_setGen c' = ca_setGen c"
  using assms within_ok [of c' c] by (auto simp: within_def)

lemma read_GetRemote:
  "hoare (dbP (cached_at n d0)) (cache_GetRemote s i)
     (\<lambda>r. dbP (\<lambda>p. cached_at n d0 p \<and> vw_remote v d0 i = Some r)) (\<lambda>_. dbP (cached_at n d0))"
  unfolding cache_GetRemote_def Let_def genOf_def
proof (rule read_through [where S = "\<lambda>r. vw_remote v d0 i = Some r" and look = "\<lambda>g. getRemoteEntry (keyRemote i g)"])
  show "cached_at n d0 (d0, c') \<and> ca_gens c' i = ca_gens c i \<and> (\<forall>a. x = Some a \<longrightarrow> vw_remote v d0 i = Some a)"
    if "cached_at n d0 (d0, c)" "getRemoteEntry (keyRemote i (ca_gens c i)) c = (x, c')" for c x c'
    using that look_ok [of d0 c n c'] entry_within(1) [OF that(2)] by (auto simp: cache_ok_def coherent_def)
  show "hoare (dbP (cached_at n d0)) (ret a) (\<lambda>r. dbP (\<lambda>p. cached_at n d0 p \<and> vw_remote v d0 i = Some r)) (\<lambda>_. dbP (cached_at n d0))"
    if "vw_remote v d0 i = Some a" for a
    using that by (simp add: hoare_def ret_def dbP_def)
  show "w_db w' = d0 \<and> (\<forall>r. x = Inr r \<longrightarrow> vw_remote v d0 i = Some r)"
    if "w_db w = d0" "inv d0" "st_GetRemote s i w = (x, w')" for w x w'
    using that GetRemote [of w i x w'] by simp
  show "cached_at n d0 (d0, c\<lparr>ca_remoteByID := (ca_remoteByID c)(keyRemote i (ca_gens c i) \<mapsto> r)\<rparr>)"
    if "cached_at n d0 (d0, c)" "vw_remote v d0 i = Some r" for c r
    using that by (auto simp: cache_ok_def coherent_def unborn_def bounded_def)
qed

lemma read_GetRef:
  "hoare (dbP (cached_at n d0)) (cache_GetRef s i t)
     (\<lambda>r. dbP (\<lambda>p. cached_at n d0 p \<and> vw_ref v d0 i t = Some r)) (\<lambda>_. dbP (cached_at n d0))"
  unfolding cache_GetRef_def Let_def genOf_def
proof (rule read_through [where S = "\<lambda>r. vw_ref v d0 i t = Some r" and look = "\<lambda>g. getRefEntry (keyRef i g t)"])
  show "cached_at n d0 (d0, c') \<and> ca_gens c' i = ca_gens c i \<and> (\<forall>a. x = Some a \<longrightarrow> vw_ref v d0 i t = Some a)"
    if "cached_at n d0 (d0, c)" "getRefEntry (keyRef i (ca_gens c i) t) c = (x, c')" for c x c'
    using that look_ok [of d0 c n c'] entry_within(3) [OF that(2)] by (auto simp: cache_ok_def coherent_def)
  show "hoare (dbP (cached_at n d0)) (ret a) (\<lambda>r. dbP (\<lambda>p. cached_at n d0 p \<and> vw_ref v d0 i t = Some r)) (\<lambda>_. dbP (cached_at n d0))"
    if "vw_ref v d0 i t = Some a" for a
    using that by (simp add: hoare_def ret_def dbP_def)
  show "w_db w' = d0 \<and> (\<forall>r. x = Inr r \<longrightarrow> vw_ref v d0 i t = Some r)"
    if "w_db w = d0" "inv d0" "st_GetRef s i t w = (x, w')" for w x w'
    using that GetRef [of w i t x w'] by simp
  show "cached_at n d0 (d0, (rememberRef (ref_ID r) (ref_RemoteID r) c)\<lparr>ca_ref :=
      (ca_ref (rememberRef (ref_ID r) (ref_RemoteID r) c))(keyRef i (ca_gens c i) t \<mapsto> r)\<rparr>)"
    if "cached_at n d0 (d0, c)" "vw_ref v d0 i t = Some r" for c r
    using that look_ok [of d0 c n "rememberRef (ref_ID r) (ref_RemoteID r) c"]
    by (auto simp: cache_ok_def coherent_def unborn_def bounded_def)
qed

lemma read_ListTags:
  "hoare (dbP (cached_at n d0)) (cache_ListTags s i)
     (\<lambda>rs. dbP (\<lambda>p. cached_at n d0 p \<and> vw_tags v d0 i = rs)) (\<lambda>_. dbP (cached_at n d0))"
  unfolding cache_ListTags_def Let_def genOf_def
proof (rule read_through [where S = "\<lambda>rs. vw_tags v d0 i = rs" and look = "\<lambda>g. getTagsEntry (keyTags i g)"])
  show "cached_at n d0 (d0, c') \<and> ca_gens c' i = ca_gens c i \<and> (\<forall>a. x = Some a \<longrightarrow> vw_tags v d0 i = a)"
    if "cached_at n d0 (d0, c)" "getTagsEntry (keyTags i (ca_gens c i)) c = (x, c')" for c x c'
    using that look_ok [of d0 c n c'] entry_within(4) [OF that(2)] by (auto simp: cache_ok_def coherent_def)
  show "hoare (dbP (cached_at n d0)) (ret a) (\<lambda>r. dbP (\<lambda>p. cached_at n d0 p \<and> vw_tags v d0 i = r)) (\<lambda>_. dbP (cached_at n d0))"
    if "vw_tags v d0 i = a" for a
    using that by (simp add: hoare_def ret_def dbP_def)
  show "w_db w' = d0 \<and> (\<forall>r. x = Inr r \<longrightarrow> vw_tags v d0 i = r)"
    if "w_db w = d0" "inv d0" "st_ListTags s i w = (x, w')" for w x w'
    using that ListTags [of w i x w'] by simp
  show "cached_at n d0 (d0, (foldl (\<lambda>c r. rememberRef (ref_ID r) (ref_RemoteID r) c) c r)\<lparr>ca_tags :=
      (ca_tags (foldl (\<lambda>c r. rememberRef (ref_ID r) (ref_RemoteID r) c) c r))(keyTags i (ca_gens c i) \<mapsto> r)\<rparr>)"
    if "cached_at n d0 (d0, c)" "vw_tags v d0 i = r" for c r
    using that look_ok [of d0 c n "foldl (\<lambda>c r. rememberRef (ref_ID r) (ref_RemoteID r) c) c r"] within_remember_all [of c r]
    by (auto simp: cache_ok_def coherent_def unborn_def bounded_def)
qed

text \<open>The answer for a URL is the remote that the database holds under it.\<close>

abbreviation url_remote :: "'d \<Rightarrow> string \<Rightarrow> Remote \<Rightarrow> bool" where
  "url_remote d u r \<equiv> (\<exists>i. vw_url v d u = Some i \<and> vw_remote v d i = Some r)"

lemma read_GetRemoteByURL:
  "hoare (dbP (cached_at n d0)) (cache_GetRemoteByURL s u)
     (\<lambda>r. dbP (\<lambda>p. cached_at n d0 p \<and> url_remote d0 u r)) (\<lambda>_. dbP (cached_at n d0))"
  unfolding cache_GetRemoteByURL_def fillURL_def Let_def
proof (rule read_through [where S = "\<lambda>i. vw_url v d0 u = Some i" and look = "\<lambda>g. getURLEntry (keyURL g u)"])
  show "cached_at n d0 (d0, c') \<and> ca_setGen c' = ca_setGen c \<and> (\<forall>a. x = Some a \<longrightarrow> vw_url v d0 u = Some a)"
    if "cached_at n d0 (d0, c)" "getURLEntry (keyURL (ca_setGen c) u) c = (x, c')" for c x c'
    using that look_ok [of d0 c n c'] entry_within(2) [OF that(2)] by (auto simp: cache_ok_def coherent_def)
  show "hoare (dbP (cached_at n d0)) (cache_GetRemote s i) (\<lambda>r. dbP (\<lambda>p. cached_at n d0 p \<and> url_remote d0 u r))
      (\<lambda>_. dbP (cached_at n d0))" if "vw_url v d0 u = Some i" for i
    by (rule hoare_weaken [OF read_GetRemote [of d0 n i]]) (use that in \<open>auto simp: dbP_def\<close>)
  show "w_db w' = d0 \<and> (\<forall>r. x = Inr r \<longrightarrow> url_remote d0 u r)"
    if "w_db w = d0" "inv d0" "st_GetRemoteByURL s u w = (x, w')" for w x w'
    using that GetRemoteByURL [of w u x w'] by auto
next
  fix c :: cache and r :: Remote
  let ?c = "c\<lparr>ca_urlID := (ca_urlID c)(keyURL (ca_setGen c) u \<mapsto> rem_ID r)\<rparr>"
  let ?c' = "?c\<lparr>ca_remoteByID := (ca_remoteByID ?c)(keyRemote (rem_ID r) (genOf (rem_ID r) ?c) \<mapsto> r)\<rparr>"
  assume ok: "cached_at n d0 (d0, c)" and r: "url_remote d0 u r"
  have "vw_url v d0 u = Some (rem_ID r)" "vw_remote v d0 (rem_ID r) = Some r" using r url_ids by auto
  then have "cached_at n d0 (d0, ?c')"
    using ok by (auto simp: cache_ok_def coherent_def unborn_def bounded_def genOf_def)
  then show "cached_at n d0 (d0, if genOf (rem_ID r) ?c' \<noteq> genOf (rem_ID r) ?c
      then ?c'\<lparr>ca_remoteByID := (ca_remoteByID ?c')(keyRemote (rem_ID r) (genOf (rem_ID r) ?c) := None)\<rparr> else ?c')"
    by (simp add: genOf_def)
qed

text \<open>The proof of a ref is kept in a cache of its own; asking for it touches nothing else.\<close>

lemma keeps_onCache:
  assumes "\<And>a c c'. h c = (a, c') \<Longrightarrow> within c' c"
  shows "keeps (cached_at n d0) (onCache h)"
  unfolding keeps_def by (rule hoare_onCache) (use within_ok [OF assms] in auto)

lemma keeps_step: "(\<And>c. within (g c) c) \<Longrightarrow> keeps (cached_at n d0) (step g)"
  unfolding step_def by (rule keeps_onCache) auto

lemma keeps_asking: "keeps (cached_at n d0) (inner (st_LatestObservationForRef s f))"
  unfolding keeps_def by (rule hoare_inner) (use LatestObservation in \<open>auto split: sum.splits\<close>)

lemma read_LatestObservation: "keeps (cached_at n d0) (cache_LatestObservationForRef s f)"
  unfolding cache_LatestObservationForRef_def Let_def
  by (intro hoare_intros keeps_onCache keeps_step keeps_asking within_rememberRef)
    (auto dest: entry_within simp: within_def)

end

end
