(* ===== verification/Cache_Sqlite.thy ===== *)
theory Cache_Sqlite
  imports Cache_Coherence Seed_Store Api_Server
begin

text \<open>
  The cache in front of the SQLite store. The locale of \<open>Cache_Coherence\<close> is interpreted on it, every statement that
  writes is shown to change only remotes whose generation the decorator advances, and the capturing transaction is
  an instance of the locales of the sync and of seeding, so that the whole transactions of both are covered.
  \<open>cache_step\<close> is the decorated store as a relation.
\<close>

section \<open>The views of a database\<close>

definition db_views :: "db views" where
  "db_views =
     \<lparr>vw_remote = (\<lambda>d i. map_option remoteFromRow (find (\<lambda>r. Rrem_ID r = i) (t_remotes d))),
      vw_url = (\<lambda>d u. map_option Rrem_ID (find (\<lambda>r. Rrem_NormalizedUrl r = u \<and> Rrem_RemovedAtNs r = None) (t_remotes d))),
      vw_ref = (\<lambda>d i t. map_option refFromRow (ref_at d i t)),
      vw_tags = tags_of\<rparr>"

definition remote_ids :: "db \<Rightarrow> bool" where
  "remote_ids d \<longleftrightarrow> ids_ok Rrem_ID (t_remotes d) (seq_remotes d)"

lemma remoteFromRow_ID [simp]: "rem_ID (remoteFromRow row) = Rrem_ID row"
  by (simp add: remoteFromRow_def)

lemma find_key: "distinct (map f rs) \<Longrightarrow> r \<in> set rs \<Longrightarrow> find (\<lambda>x. f x = f r) rs = Some r"
  by (induction rs) force+

lemma find_append: "find P xs = Some x \<Longrightarrow> find P (xs @ ys) = Some x"
  by (induction xs) (auto split: if_splits)

lemma find_id:
  "remote_ids d \<Longrightarrow> row \<in> set (t_remotes d) \<Longrightarrow> find (\<lambda>r. Rrem_ID r = Rrem_ID row) (t_remotes d) = Some row"
  unfolding remote_ids_def ids_ok_def by (intro find_key) auto

lemma read_stmt:
  assumes "bindT (mapErrT g (stmt (read_one P t f))) (\<lambda>row. ret (h row)) w = (x, w')"
  shows "w_db w' = w_db w \<and> (\<forall>r. x = Inr r \<longrightarrow> (\<exists>row. find P (t (w_db w)) = Some row \<and> r = h (f row)))"
  using assms
  by (auto simp: bindT_def mapErrT_def stmt_def read_one_def select_one_def ret_def Let_def split: prod.splits sum.splits if_splits option.splits)

interpretation sqlite_cache: cacheable sqliteStore db_views remote_ids
proof
  fix w w' :: "db world" and i u f and x :: "err + Remote" and y :: "err + Ref" and z :: "err + Ref list" and p :: "err + ObservationProof" and t
  assume ids: "remote_ids (w_db w)"
  show "st_GetRemote sqliteStore i w = (x, w') \<Longrightarrow>
      w_db w' = w_db w \<and> (\<forall>r. x = Inr r \<longrightarrow> vw_remote db_views (w_db w) i = Some r)"
    unfolding sqliteStore_def by (auto simp: sqliteStore_GetRemote_def sqlc_GetRemote_def db_views_def dest!: read_stmt)
  show "w_db w' = w_db w \<and> (\<forall>r. x = Inr r \<longrightarrow> vw_url db_views (w_db w) u = Some (rem_ID r) \<and>
      vw_remote db_views (w_db w) (rem_ID r) = Some r)" if run: "st_GetRemoteByURL sqliteStore u w = (x, w')"
  proof -
    from run have "w_db w' = w_db w" "\<forall>r. x = Inr r \<longrightarrow> (\<exists>row. find (\<lambda>r. Rrem_NormalizedUrl r = u \<and> Rrem_RemovedAtNs r = None)
        (t_remotes (w_db w)) = Some row \<and> r = remoteFromRow row)"
      unfolding sqliteStore_def by (auto simp: sqliteStore_GetRemoteByURL_def sqlc_GetRemoteByURL_def dest!: read_stmt)
    then show ?thesis using find_id [OF ids, OF find_some [THEN conjunct1]] by (auto simp: db_views_def)
  qed
  show "st_GetRef sqliteStore i t w = (y, w') \<Longrightarrow>
      w_db w' = w_db w \<and> (\<forall>r. y = Inr r \<longrightarrow> vw_ref db_views (w_db w) i t = Some r)"
    unfolding sqliteStore_def by (auto simp: sqliteStore_GetRef_def sqlc_GetRef_def db_views_def ref_at_def dest!: read_stmt)
  show "st_ListTags sqliteStore i w = (z, w') \<Longrightarrow>
      w_db w' = w_db w \<and> (\<forall>rs. z = Inr rs \<longrightarrow> vw_tags db_views (w_db w) i = rs)"
    unfolding sqliteStore_def
    by (auto simp: sqliteStore_ListTags_def sqlc_ListTags_def db_views_def tags_of_def bindT_def stmt_def ret_def Let_def
        split: if_splits prod.splits sum.splits)
  show "st_LatestObservationForRef sqliteStore f w = (p, w') \<Longrightarrow> w_db w' = w_db w"
    unfolding sqliteStore_def
    by (auto simp: sqliteStore_LatestObservationForRef_def sqlc_LatestObservationForRef_def bindT_def mapErrT_def stmt_def ret_def
        Let_def split: if_splits prod.splits sum.splits option.splits list.splits)
next
  show "vw_remote db_views d i = Some r \<Longrightarrow> rem_ID r = i" for d i r
    by (auto simp: db_views_def dest: find_some)
qed


section \<open>What the statements change\<close>

lemma agrees_db:
  assumes "\<And>i row. i \<notin> X \<Longrightarrow> find (\<lambda>r. Rrem_ID r = i) (t_remotes d) = Some row \<Longrightarrow> find (\<lambda>r. Rrem_ID r = i) (t_remotes d') = Some row"
    and "\<And>i. i \<notin> X \<Longrightarrow> filter (\<lambda>r. Rref_RemoteID r = i) (t_refs d') = filter (\<lambda>r. Rref_RemoteID r = i) (t_refs d)"
  shows "agrees db_views X d d'"
proof -
  have at: "ref_at e i t = find (\<lambda>r. Rref_TagName r = t) (filter (\<lambda>r. Rref_RemoteID r = i) (t_refs e))" for e i t
  proof -
    have "find (\<lambda>r. Rref_RemoteID r = i \<and> Rref_TagName r = t) rs = find (\<lambda>r. Rref_TagName r = t) (filter (\<lambda>r. Rref_RemoteID r = i) rs)"
      for rs by (induction rs) auto
    then show ?thesis by (simp add: ref_at_def)
  qed
  show ?thesis
    using assms by (auto simp: agrees_def db_views_def at tags_of_def fun_eq_iff)
qed

lemma agrees_remote_update:
  assumes "\<And>r. Rrem_ID (f r) = Rrem_ID r" and "\<And>r. P r \<Longrightarrow> Rrem_ID r \<in> X"
    and "t_remotes d' = update_where P f (t_remotes d)" and "t_refs d' = t_refs d"
  shows "agrees db_views X d d'"
proof (rule agrees_db)
  fix i row
  assume "i \<notin> X" and "find (\<lambda>r. Rrem_ID r = i) (t_remotes d) = Some row"
  then show "find (\<lambda>r. Rrem_ID r = i) (t_remotes d') = Some row"
    using assms(1-3) find_some [of "\<lambda>r. Rrem_ID r = i" "t_remotes d" row] by (auto simp: find_update_where_other)
qed (simp add: assms(4))

lemma url_update:
  assumes "\<And>r. Rrem_ID (f r) = Rrem_ID r" and "\<And>r. r \<in> set (t_remotes d) \<Longrightarrow> P r \<Longrightarrow> Rrem_NormalizedUrl (f r) = Rrem_NormalizedUrl r \<and> Rrem_RemovedAtNs (f r) = Rrem_RemovedAtNs r"
    and "t_remotes d' = update_where P f (t_remotes d)"
  shows "vw_url db_views d' = vw_url db_views d"
proof -
  have "map_option Rrem_ID (find (\<lambda>r. Rrem_NormalizedUrl r = u \<and> Rrem_RemovedAtNs r = None) (update_where P f rs)) =
      map_option Rrem_ID (find (\<lambda>r. Rrem_NormalizedUrl r = u \<and> Rrem_RemovedAtNs r = None) rs)"
    if "set rs \<subseteq> set (t_remotes d)" for rs u
    using that by (induction rs) (auto simp: update_where_def assms(1,2))
  then show ?thesis by (simp add: db_views_def assms(3) fun_eq_iff)
qed

lemma writes_stmt:
  assumes "\<And>d a d'. I d \<Longrightarrow> q d = Inr (a, d') \<Longrightarrow> I d' \<and> agrees v X d d' \<and> (b \<or> vw_url v d' = vw_url v d)"
  shows "writes I v X b (stmt q)"
  using assms by (auto simp: writes_def stmt_def Let_def split: if_splits sum.splits prod.splits)

lemma writes_bind_ret:
  assumes "writes I v X b m"
  shows "writes I v X b (bindT m (\<lambda>a. ret (g a)))" and "writes I v X b (mapErrT h m)"
proof -
  show "writes I v X b (bindT m (\<lambda>a. ret (g a)))"
    unfolding writes_def
  proof (intro allI impI)
    fix w x w'
    assume "I (w_db w)" and "bindT m (\<lambda>a. ret (g a)) w = (x, w')"
    moreover obtain y where "m w = (y, w')" "case y of Inl e \<Rightarrow> x = Inl e | Inr a \<Rightarrow> x = Inr (g a)"
      using calculation(2) by (cases "m w"; cases "fst (m w)") (auto simp: bindT_def ret_def)
    ultimately show "I (w_db w') \<and> (case x of Inl _ \<Rightarrow> w_db w' = w_db w
        | Inr _ \<Rightarrow> agrees v X (w_db w) (w_db w') \<and> (b \<or> vw_url v (w_db w') = vw_url v (w_db w)))"
      using assms unfolding writes_def by (cases y) fastforce+
  qed
  show "writes I v X b (mapErrT h m)"
    using assms unfolding writes_def mapErrT_def by (fastforce split: prod.splits sum.splits)
qed

lemma writes_NowNS:
  fixes m :: "int \<Rightarrow> ('d, 'a) io"
  assumes "\<And>now. writes I v X b (m now)"
  shows "writes I v X b (bindT NowNS m)"
  unfolding writes_def
proof (intro allI impI)
  fix w w' :: "'d world" and x :: "err + 'a"
  let ?w = "w\<lparr>w_ticks := Suc (w_ticks w)\<rparr>"
  assume "I (w_db w)" and "bindT NowNS m w = (x, w')"
  then have "m (w_clock w (w_ticks w)) ?w = (x, w')" "I (w_db ?w)" by (simp_all add: bindT_def NowNS_def)
  with assms [of "w_clock w (w_ticks w)", unfolded writes_def, rule_format, of ?w x w']
  show "I (w_db w') \<and> (case x of Inl _ \<Rightarrow> w_db w' = w_db w
      | Inr _ \<Rightarrow> agrees v X (w_db w) (w_db w') \<and> (b \<or> vw_url v (w_db w') = vw_url v (w_db w)))"
    by (cases x) auto
qed

text \<open>The writes of the store outside a transaction.\<close>

lemma created_rows:
  assumes "remote_ids d" and run: "sqlc_CreateRemote arg d = Inr (row, d')"
  shows "remote_ids d'" and "agrees db_views {} d d'"
proof -
  note new = CreateRemote_rows [OF run]
  show "remote_ids d'" using assms(1) new(1,2) unfolding remote_ids_def by (simp add: ids_ok_snoc)
  show "agrees db_views {} d d'"
  proof (rule agrees_db)
    show "find (\<lambda>r. Rrem_ID r = i) (t_remotes d') = Some x" if "find (\<lambda>r. Rrem_ID r = i) (t_remotes d) = Some x" for i x
      using that new(1) by (simp add: find_append)
  qed (simp add: new(1))
qed

lemma writes_CreateRemote: "writes remote_ids db_views {} True (sqliteStore_CreateRemote r)"
  unfolding sqliteStore_CreateRemote_def
  by (intro writes_bind_ret writes_stmt) (auto dest: created_rows)

lemma writes_SetRemoteHealth: "writes remote_ids db_views {i} False (sqliteStore_SetRemoteHealth i status e ns)"
  unfolding sqliteStore_SetRemoteHealth_def
proof (intro writes_NowNS writes_stmt)
  fix now d a d'
  assume ok: "remote_ids d" and run: "sqlc_SetRemoteHealth status e ns now i d = Inr (a, d')"
  let ?f = "\<lambda>r. r\<lparr>Rrem_Status := status, Rrem_LastErr := e, Rrem_LastOkNs := ns, Rrem_UpdatedAtNs := now\<rparr>"
  have d': "d' = d\<lparr>t_remotes := update_where (\<lambda>r. Rrem_ID r = i) ?f (t_remotes d)\<rparr>"
    using run by (auto simp: sqlc_SetRemoteHealth_def split: if_splits)
  have "agrees db_views {i} d d'" by (rule agrees_remote_update [where f = ?f and P = "\<lambda>r. Rrem_ID r = i"]) (simp_all add: d')
  moreover have "vw_url db_views d' = vw_url db_views d"
    by (rule url_update [where f = ?f and P = "\<lambda>r. Rrem_ID r = i"]) (simp_all add: d')
  ultimately show "remote_ids d' \<and> agrees db_views {i} d d' \<and> (False \<or> vw_url db_views d' = vw_url db_views d)"
    using ok by (simp add: d' remote_ids_def ids_ok_update_where)
qed

lemma writes_SoftDeleteRemote: "writes remote_ids db_views {i} True (sqliteStore_SoftDeleteRemote i ns)"
  unfolding sqliteStore_SoftDeleteRemote_def
proof (intro writes_stmt)
  fix d a d'
  assume ok: "remote_ids d" and run: "sqlc_SoftDeleteRemote ns ns i d = Inr (a, d')"
  let ?f = "\<lambda>r. r\<lparr>Rrem_RemovedAtNs := Some ns, Rrem_UpdatedAtNs := ns\<rparr>"
  have d': "d' = d\<lparr>t_remotes := update_where (\<lambda>r. Rrem_ID r = i) ?f (t_remotes d)\<rparr>"
    using run by (simp add: sqlc_SoftDeleteRemote_def)
  have "agrees db_views {i} d d'" by (rule agrees_remote_update [where f = ?f and P = "\<lambda>r. Rrem_ID r = i"]) (simp_all add: d')
  then show "remote_ids d' \<and> agrees db_views {i} d d' \<and> (True \<or> vw_url db_views d' = vw_url db_views d)"
    using ok by (simp add: d' remote_ids_def ids_ok_update_where)
qed

text \<open>\<open>UpdateRemote\<close> may change the URL and the removal of a remote; the decorator covers it only if it does not.\<close>

definition keeps_url :: "db \<Rightarrow> Remote \<Rightarrow> bool" where
  "keeps_url d r \<longleftrightarrow> (\<forall>row \<in> set (t_remotes d). Rrem_ID row = rem_ID r \<longrightarrow>
     Rrem_NormalizedUrl row = rem_NormalizedURL r \<and> Rrem_RemovedAtNs row = rem_RemovedAtNS r)"

lemma writes_UpdateRemote: "writes (\<lambda>d. remote_ids d \<and> keeps_url d r) db_views {rem_ID r} False (sqliteStore_UpdateRemote r)"
  unfolding sqliteStore_UpdateRemote_def
proof (intro writes_bind_ret writes_stmt)
  fix d a d'
  assume ok: "remote_ids d \<and> keeps_url d r" and run: "sqlc_UpdateRemote (updateRemoteParams r) d = Inr (a, d')"
  let ?f = "update_set (updateRemoteParams r)"
  have sel: "Rrem_ID (?f x) = Rrem_ID x" "Rrem_NormalizedUrl (?f x) = rem_NormalizedURL r" "Rrem_RemovedAtNs (?f x) = rem_RemovedAtNS r" for x
    by (simp_all add: update_set_def updateRemoteParams_def)
  have d': "d' = d\<lparr>t_remotes := update_where (\<lambda>x. Rrem_ID x = rem_ID r) ?f (t_remotes d)\<rparr>"
    using run by (auto simp: sqlc_UpdateRemote_def updateRemoteParams_def split: sum.splits if_splits)
  have "agrees db_views {rem_ID r} d d'"
    by (rule agrees_remote_update [where f = ?f and P = "\<lambda>x. Rrem_ID x = rem_ID r"]) (simp_all add: d' sel)
  moreover have "vw_url db_views d' = vw_url db_views d"
    by (rule url_update [where f = ?f and P = "\<lambda>x. Rrem_ID x = rem_ID r"]) (use ok in \<open>auto simp: d' sel keeps_url_def\<close>)
  moreover have "keeps_url d' r" by (auto simp: d' keeps_url_def set_update_where sel)
  ultimately show "(remote_ids d' \<and> keeps_url d' r) \<and> agrees db_views {rem_ID r} d d' \<and> (False \<or> vw_url db_views d' = vw_url db_views d)"
    using ok by (simp add: d' remote_ids_def ids_ok_update_where sel)
qed

end
