(* ===== verification/Cache_Tx.thy ===== *)
theory Cache_Tx
  imports Cache_Sqlite
begin

text \<open>
  Transactions through the cache. The closure of a transaction acts on the SQLite transaction and, through the
  capturing decorator, on variables of the process that a rollback does not restore. The capturing transaction is an
  instance of the invariant locales of the sync and of seeding: whatever they change in the database belongs to a
  remote that was recorded, so that the generations advanced after the commit cover it.
\<close>

section \<open>\<open>WithTx\<close> with the variables of its caller\<close>

definition sqliteStore_WithVars :: "(db, sqliteTx, 'r) withVars" where
  "sqliteStore_WithVars fn w =
     (case stmt (\<lambda>d. Inr ((), d)) (with_db (fst (w_db w)) w) of
        (Inl e, w1) \<Rightarrow> (Inl e, with_db (w_db w1, snd (w_db w)) w1)
      | (Inr _, w1) \<Rightarrow>
          (case fn sqliteTx_Tx (with_db (\<lparr>stx_q = w_db w1, stx_syncID = 0\<rparr>, snd (w_db w)) w1) of
             (Inl fnErr, w2) \<Rightarrow> (Inl fnErr, with_db (w_db w1, snd (w_db w2)) w2)
           | (Inr r, w2) \<Rightarrow>
               (let d' = stx_q (fst (w_db w2)) in
                case stmt (\<lambda>_. if sync_fk_ok d' then Inr ((), d') else Inl SqlForeignKey)
                       (with_db (w_db w1) w2) of
                  (Inl e, w3) \<Rightarrow> (Inl e, with_db (w_db w3, snd (w_db w2)) w3)
                | (Inr _, w3) \<Rightarrow> (Inr r, with_db (w_db w3, snd (w_db w2)) w3))))"

text \<open>For a closure that leaves the variables alone it is the \<open>WithTx\<close> of the store.\<close>

lemma WithVars_inner: "sqliteStore_WithVars (\<lambda>tx. inner (fn tx)) = inner (sqliteStore_WithTx fn)"
  by (rule ext) (simp add: sqliteStore_WithVars_def sqliteStore_WithTx_def inner_def with_db_def Let_def split: prod.splits sum.splits)

lemma WithVars_cases:
  assumes run: "sqliteStore_WithVars fn w = (x, w')"
    and keep: "keeps (\<lambda>s. within (fst (snd s)) c0) (fn sqliteTx_Tx)" and "within (fst (snd (w_db w))) c0"
    and ok: "oks P (fn sqliteTx_Tx) (\<lambda>_. Q)" and "P (\<lparr>stx_q = fst (w_db w), stx_syncID = 0\<rparr>, snd (w_db w))"
  shows "case x of Inl _ \<Rightarrow> fst (w_db w') = fst (w_db w) \<and> within (fst (snd (w_db w'))) c0
    | Inr _ \<Rightarrow> \<exists>n. Q (\<lparr>stx_q = fst (w_db w'), stx_syncID = n\<rparr>, snd (w_db w'))"
proof -
  obtain y w1 where start: "stmt (\<lambda>d. Inr ((), d)) (with_db (fst (w_db w)) w) = (y, w1)" by (metis surj_pair)
  then have d1: "w_db w1 = fst (w_db w)" by (auto simp: stmt_def Let_def split: if_splits)
  let ?w1 = "with_db (\<lparr>stx_q = w_db w1, stx_syncID = 0\<rparr>, snd (w_db w)) w1"
  obtain z w2 where body: "fn sqliteTx_Tx ?w1 = (z, w2)" by (metis surj_pair)
  have c2: "within (fst (snd (w_db w2))) c0" using keeps_snd [OF keep, of ?w1] assms(3) body by simp
  have Q: "Q (w_db w2)" if "z = Inr r" for r using oksD [OF ok, of ?w1 r w2] assms(5) body d1 that by simp
  show ?thesis
    using run start body d1 c2 Q assms(3)
    by (cases "w_db w2"; cases "fst (w_db w2)"; cases y; cases z)
      (auto simp: sqliteStore_WithVars_def stmt_def Let_def with_db_def split: if_splits)
qed

section \<open>Recording\<close>

lemma oks_inner: "oks P m Q \<Longrightarrow> oks (\<lambda>s. P (fst s) \<and> R (snd s)) (inner m) (\<lambda>a s. Q a (fst s) \<and> R (snd s))"
  by (auto simp: oks_def inner_def split: prod.splits sum.splits) (metis w_db_with_db)+

lemma oks_marking: "(\<And>t x. P (t, x) \<Longrightarrow> Q () (t, f x)) \<Longrightarrow> oks P (marking f) Q"
  by (auto simp: oks_def marking_def)

lemma keeps_inner: "(\<And>t t' x. I (t, x) = I (t', x)) \<Longrightarrow> keeps I (inner m)"
  by (rule keepsI) (metis (no_types, lifting) inner_def case_prod_beta prod.collapse snd_conv w_db_with_db)

text \<open>A transaction that has changed only remotes in \<open>X\<close>, and not which remote has which URL unless \<open>b\<close>.\<close>

definition reached :: "db \<Rightarrow> RemoteID set \<Rightarrow> bool \<Rightarrow> sqliteTx \<Rightarrow> bool" where
  "reached d0 X b t \<longleftrightarrow> remote_ids (stx_q t) \<and> agrees db_views X d0 (stx_q t) \<and>
     (b \<or> vw_url db_views (stx_q t) = vw_url db_views d0)"

definition recorded :: "db \<Rightarrow> cache \<Rightarrow> sqliteTx captured \<Rightarrow> bool" where
  "recorded d0 c0 s \<longleftrightarrow> (case s of (t, c, cp) \<Rightarrow>
     reached d0 (set (cp_touched cp)) (cp_createdRemote cp) t \<and> distinct (cp_touched cp) \<and> within c c0)"

lemma reached_step:
  assumes "reached d0 X b t" and "remote_ids d'" and "agrees db_views X (stx_q t) d'"
    and "b \<or> vw_url db_views d' = vw_url db_views (stx_q t)"
  shows "reached d0 X b (t\<lparr>stx_q := d'\<rparr>)"
  using assms unfolding reached_def by (auto intro: agrees_trans)

lemma set_mark [simp]: "set (cp_touched (mark i cp)) = insert i (set (cp_touched cp))" "distinct (cp_touched (mark i cp)) = distinct (cp_touched cp)"
  "cp_createdRemote (mark i cp) = cp_createdRemote cp"
  by (auto simp: mark_def)

definition marked :: "db \<Rightarrow> cache \<Rightarrow> RemoteID set \<Rightarrow> sqliteTx captured \<Rightarrow> bool" where
  "marked d0 c0 M s \<longleftrightarrow> recorded d0 c0 s \<and> M \<subseteq> set (cp_touched (snd (snd s)))"

lemma marked_mark: "oks (recorded d0 c0) (marking (apsnd (mark i))) (\<lambda>_. marked d0 c0 {i})"
  by (rule oks_marking) (auto simp: marked_def recorded_def reached_def intro: agrees_mono)

lemma marked_remember:
  "oks (marked d0 c0 M) (marking (apfst (if b then rememberRef r i else id))) (\<lambda>_. marked d0 c0 M)"
  by (rule oks_marking) (auto simp: marked_def recorded_def intro: within_trans [OF within_rememberRef])

lemma marked_inner:
  assumes "\<And>X b. M \<subseteq> X \<Longrightarrow> oks (reached d0 X b) m (\<lambda>_. reached d0 X b)"
  shows "oks (marked d0 c0 M) (inner m) (\<lambda>_. recorded d0 c0)"
proof -
  let ?R = "\<lambda>X b x. X = set (cp_touched (snd x)) \<and> b = cp_createdRemote (snd x) \<and> distinct (cp_touched (snd x)) \<and> within (fst x) c0"
  have "oks (\<lambda>s. reached d0 X b (fst s) \<and> ?R X b (snd s)) (inner m) (\<lambda>_. recorded d0 c0)" if "M \<subseteq> X" for X b
    by (rule oks_weaken [OF oks_inner [OF assms [OF that, of b], where R = "?R X b"]]) (auto simp: recorded_def)
  then have "oks (\<lambda>s. \<exists>X b. M \<subseteq> X \<and> reached d0 X b (fst s) \<and> ?R X b (snd s)) (inner m) (\<lambda>_. recorded d0 c0)"
    by (intro oks_ex oks_pull)
  then show ?thesis by (rule oks_weaken) (auto simp: recorded_def marked_def)
qed

lemma recorded_op:
  assumes "\<And>X b. i \<in> X \<Longrightarrow> oks (reached d0 X b) m (\<lambda>_. reached d0 X b)"
  shows "oks (recorded d0 c0) (bindT (marking (apsnd (mark i))) (\<lambda>_. inner m)) (\<lambda>_. recorded d0 c0)"
  by (rule oks_bind [OF marked_mark marked_inner]) (use assms in simp)

lemma recorded_inner:
  "(\<And>X b. oks (reached d0 X b) m (\<lambda>_. reached d0 X b)) \<Longrightarrow> oks (recorded d0 c0) (inner m) (\<lambda>_. recorded d0 c0)"
  by (rule oks_weaken [OF marked_inner [where M = "{}"]]) (auto simp: marked_def)

text \<open>What each operation of the transaction changes.\<close>

lemma same_views:
  assumes "t_remotes d' = t_remotes d" and "t_refs d' = t_refs d"
  shows "remote_ids d \<Longrightarrow> seq_remotes d' = seq_remotes d \<Longrightarrow> remote_ids d'" and "agrees db_views X d d'"
    and "vw_url db_views d' = vw_url db_views d"
proof -
  show "agrees db_views X d d'" by (rule agrees_db) (simp_all add: assms)
qed (simp_all add: assms remote_ids_def db_views_def)

lemma reached_same:
  "reached d0 X b t \<Longrightarrow> t_remotes d' = t_remotes (stx_q t) \<Longrightarrow> t_refs d' = t_refs (stx_q t) \<Longrightarrow>
   seq_remotes d' = seq_remotes (stx_q t) \<Longrightarrow> reached d0 X b (t\<lparr>stx_q := d'\<rparr>)"
  using same_views [of d' "stx_q t"] by (intro reached_step) (auto simp: reached_def)

lemma reached_sync: "reached d0 X b (t\<lparr>stx_syncID := n\<rparr>) = reached d0 X b t"
  by (simp add: reached_def)

lemma reached_WriteSync: "oks (reached d0 X b) (sqliteTx_WriteSync s) (\<lambda>_. reached d0 X b)"
  unfolding sqliteTx_WriteSync_def
  by (rule oks_bind [OF oks_txq [where Q = "\<lambda>_. reached d0 X b"] oks_bind [OF oks_modifyT [where Q = "\<lambda>_. reached d0 X b"] oks_ret]])
    (auto simp: sqlc_InsertSync_def Let_def reached_sync intro: reached_same split: if_splits)

lemma reached_PruneSyncs: "oks (reached d0 X b) (sqliteTx_PruneSyncs i n) (\<lambda>_. reached d0 X b)"
  unfolding sqliteTx_PruneSyncs_def
  by (rule oks_txq) (auto simp: sqlc_PruneSyncs_def Let_def intro: reached_same split: if_splits)

lemma reached_AppendTaintEvent: "oks (reached d0 X b) (sqliteTx_AppendTaintEvent e) (\<lambda>_. reached d0 X b)"
  unfolding sqliteTx_AppendTaintEvent_def
  by (rule oks_txq) (auto simp: sqlc_InsertTaintEvent_def Let_def intro: reached_same split: if_splits option.splits)

lemma reached_UpsertRefProjection:
  assumes "ref_RemoteID ref \<in> X"
  shows "oks (reached d0 X b) (sqliteTx_UpsertRefProjection ref) (\<lambda>_. reached d0 X b)"
proof -
  have step: "reached d0 X b (t\<lparr>stx_q := d'\<rparr>)"
    if t: "reached d0 X b t" and run: "sqlc_UpsertRef (upsertParams ref) (stx_q t) = Inr (row, d')" for t row d'
  proof (rule reached_step [OF t])
    let ?P = "\<lambda>r. Rref_RemoteID r = ref_RemoteID ref \<and> Rref_TagName r = ref_TagName ref"
    have d': "t_remotes d' = t_remotes (stx_q t)" "seq_remotes d' = seq_remotes (stx_q t)"
      "t_refs d' = update_where ?P (upsert_set (upsertParams ref)) (t_refs (stx_q t)) \<or>
       (\<exists>row. Rref_RemoteID row = ref_RemoteID ref \<and> t_refs d' = t_refs (stx_q t) @ [row])"
      using run by (auto simp: sqlc_UpsertRef_def Let_def upsertParams_simp split: option.splits if_splits)
    have keep: "filter (\<lambda>r. Rref_RemoteID r = i) (update_where ?P (upsert_set (upsertParams ref)) rs) = filter (\<lambda>r. Rref_RemoteID r = i) rs"
      if "i \<notin> X" for i rs
      using assms that by (induction rs) (auto simp: update_where_def upsert_set_def)
    show "remote_ids d'" using t d' by (simp add: reached_def remote_ids_def)
    show "agrees db_views X (stx_q t) d'"
      by (rule agrees_db) (use assms d' keep in auto)
    show "b \<or> vw_url db_views d' = vw_url db_views (stx_q t)" using d'(1) by (simp add: db_views_def)
  qed
  show ?thesis
    unfolding sqliteTx_UpsertRefProjection_def
    by (rule oks_bind [OF oks_txq [where Q = "\<lambda>_. reached d0 X b"] oks_ret]) (use step in auto)
qed

lemma reached_AppendObservation:
  assumes "obs_RemoteID ob \<in> X"
  shows "oks (reached d0 X b) (sqliteTx_AppendObservation ob) (\<lambda>_. reached d0 X b)"
proof (rule oksI)
  fix w a w'
  assume t: "reached d0 X b (w_db w)" and run: "sqliteTx_AppendObservation ob w = (Inr a, w')"
  obtain sq ob' where a: "a = (sq, ob')" by (cases a)
  let ?d = "stx_q (w_db w)"
  from run [unfolded a] refl refl obtain h n where ob': "obs_RemoteID ob' = obs_RemoteID ob"
    and w': "w_db w' = (w_db w)\<lparr>stx_q := append_db ?d ob' (effective_sync ob (stx_syncID (w_db w))) h n\<rparr>"
    by (rule AppendObservation_Inr) (simp add: chained_obs_def Let_def)
  let ?d' = "append_db ?d ob' (effective_sync ob (stx_syncID (w_db w))) h n"
  let ?P = "\<lambda>r. Rrem_ID r = obs_RemoteID ob' \<and> Rrem_ChainHeadHash r = h \<and> Rrem_ChainLen r = n"
  let ?f = "\<lambda>r. r\<lparr>Rrem_ChainHeadHash := obs_RowHash ob', Rrem_ChainLen := wrap64 (n + 1)\<rparr>"
  have d': "t_remotes ?d' = update_where ?P ?f (t_remotes ?d)" "t_refs ?d' = t_refs ?d" "seq_remotes ?d' = seq_remotes ?d"
    by (simp_all add: append_db_def)
  show "reached d0 X b (w_db w')" unfolding w'
  proof (rule reached_step [OF t])
    show "remote_ids ?d'" using t by (simp add: reached_def remote_ids_def d' ids_ok_update_where)
    show "agrees db_views X ?d ?d'"
      by (rule agrees_remote_update [where P = ?P and f = ?f]) (use assms ob' d' in auto)
    show "b \<or> vw_url db_views ?d' = vw_url db_views ?d"
      using url_update [where P = ?P and f = ?f, OF _ _ d'(1)] by simp
  qed
qed

lemma reached_CreateRemote: "oks (reached d0 X b) (sqliteTx_CreateRemote r) (\<lambda>_. reached d0 X True)"
proof (rule oks_CreateRemote)
  fix t row d'
  assume t: "reached d0 X b t" and run: "sqlc_CreateRemote (createRemoteParams r) (stx_q t) = Inr (row, d')"
  note new = created_rows [OF _ run]
  show "reached d0 X True (t\<lparr>stx_q := d'\<rparr>)"
    by (rule reached_step) (use t new in \<open>auto simp: reached_def intro: agrees_mono\<close>)
qed

lemma recorded_CreateRemote: "oks (recorded d0 c0) (tx_CreateRemote (captureTx sqliteTx_Tx) r) (\<lambda>_. recorded d0 c0)"
proof -
  let ?R = "\<lambda>X x. X = set (cp_touched (snd x)) \<and> distinct (cp_touched (snd x)) \<and> within (fst x) c0"
  have "oks (\<lambda>s. reached d0 X b (fst s) \<and> ?R X (snd s)) (tx_CreateRemote (captureTx sqliteTx_Tx) r) (\<lambda>_. recorded d0 c0)" for X b
    unfolding captureTx_def sqliteTx_Tx_seed_sel Tx.simps
    by (rule oks_bind [OF oks_inner [OF reached_CreateRemote, where R = "?R X"]
          oks_bind [OF oks_marking [where Q = "\<lambda>_. recorded d0 c0"] oks_ret]]) (auto simp: recorded_def)
  then have "oks (\<lambda>s. \<exists>X b. reached d0 X b (fst s) \<and> ?R X (snd s)) (tx_CreateRemote (captureTx sqliteTx_Tx) r) (\<lambda>_. recorded d0 c0)"
    by (intro oks_ex)
  then show ?thesis by (rule oks_weaken) (auto simp: recorded_def)
qed

interpretation sqlite_recorded: tx_invariant "captureTx sqliteTx_Tx" "recorded d0 c0" "\<lambda>_. True" for d0 c0
proof
  show "oks (recorded d0 c0) (tx_AppendObservation (captureTx sqliteTx_Tx) ob) (\<lambda>_. recorded d0 c0)" for ob
    unfolding captureTx_def Tx.simps sqliteTx_Tx_sel by (intro recorded_op reached_AppendObservation)
  show "oks (recorded d0 c0) (tx_AppendTaintEvent (captureTx sqliteTx_Tx) e) (\<lambda>_. recorded d0 c0)" for e
    unfolding captureTx_def Tx.simps sqliteTx_Tx_sel by (intro recorded_op reached_AppendTaintEvent)
  show "oks (recorded d0 c0) (tx_WriteSync (captureTx sqliteTx_Tx) s) (\<lambda>_. recorded d0 c0)" for s
    unfolding captureTx_def Tx.simps sqliteTx_Tx_sel by (intro recorded_op reached_WriteSync)
  show "oks (recorded d0 c0) (tx_PruneSyncs (captureTx sqliteTx_Tx) i n) (\<lambda>_. recorded d0 c0)" for i n
    unfolding captureTx_def Tx.simps sqliteTx_Tx_sel by (intro recorded_inner reached_PruneSyncs)
  show "oks (recorded d0 c0) (tx_UpsertRefProjection (captureTx sqliteTx_Tx) ref) (\<lambda>_ s. True \<and> recorded d0 c0 s)" for ref
    unfolding captureTx_def Tx.simps sqliteTx_Tx_sel simp_thms
    by (rule oks_bind [OF marked_mark oks_bind [OF marked_remember marked_inner]]) (auto intro: reached_UpsertRefProjection)
qed simp

interpretation sqlite_seed_recorded: seed_invariant "captureTx sqliteTx_Tx" "recorded d0 c0" "\<lambda>_. True" for d0 c0
proof
  show "oks (recorded d0 c0) (tx_CreateRemote (captureTx sqliteTx_Tx) r) (\<lambda>_. recorded d0 c0)" for r
    by (rule recorded_CreateRemote)
  show "oks (recorded d0 c0) (tx_CountAllRemotes (captureTx sqliteTx_Tx)) (\<lambda>_. recorded d0 c0)"
    unfolding captureTx_def Tx.simps sqliteTx_Tx_seed_sel by (intro recorded_inner oks_CountAllRemotes)
qed

text \<open>A failed transaction leaves nothing in the process but index entries.\<close>

locale tx_variables =
  fixes tx :: "'t Tx" and I :: "'t \<Rightarrow> bool"
  assumes ops: "keeps I (tx_UpsertRefProjection tx ref)" "keeps I (tx_AppendObservation tx ob)"
    "keeps I (tx_AppendTaintEvent tx e)" "keeps I (tx_WriteSync tx s)" "keeps I (tx_PruneSyncs tx i n)"
    "keeps I (tx_CreateRemote tx r)" "keeps I (tx_CountAllRemotes tx)"
begin

lemma keeps_syncTx: "keeps I (syncTx order rid taintAny startNS headBefore lsRefs priors tx)"
  unfolding syncTx_def syncSeenTag_def syncGoneTag_def recordChange_def applyTaint_def Let_def
  by (intro hoare_intros ops)

lemma keeps_seedTx: "keeps I (seedTx c res now tx)"
  unfolding seedTx_def writeRemote_def writeTag_def writeEvent_def Let_def by (intro hoare_intros ops)

end

lemma keeps_within:
  "keeps (\<lambda>s. within (fst (snd s)) c0) (inner m)" "keeps (\<lambda>s. within (fst (snd s)) c0) (marking (apsnd f))"
  "keeps (\<lambda>s. within (fst (snd s)) c0) (marking (apfst (if b then rememberRef r i else id)))"
  by (rule keeps_inner; simp) (rule keepsI; auto simp: marking_def intro: within_trans [OF within_rememberRef])+

interpretation capture_variables: tx_variables "captureTx tx" "\<lambda>s. within (fst (snd s)) c0" for tx :: "'t Tx" and c0
  by unfold_locales (unfold captureTx_def Tx.simps, (intro hoare_intros keeps_within)+)

section \<open>Commit and rollback\<close>

lemma cache_WithTx_ok:
  assumes ids: "remote_ids (fst (w_db w))" and ok: "cache_ok db_views n (w_db w)" and "Suc n < 2 ^ 64"
    and body: "\<And>d0 c0. oks (recorded d0 c0) (fn (captureTx sqliteTx_Tx)) (\<lambda>_. recorded d0 c0)"
    and vars: "\<And>c0. keeps (\<lambda>s. within (fst (snd s)) c0) (fn (captureTx sqliteTx_Tx))"
    and run: "cache_WithTx sqliteStore_WithVars fn w = (x, w')"
  shows "remote_ids (fst (w_db w'))" and "cache_ok db_views (Suc n) (w_db w')"
proof -
  obtain d c where dc: "w_db w = (d, c)" by (cases "w_db w")
  let ?v = "with_db (d, c, \<lparr>cp_touched = [], cp_createdRemote = False\<rparr>) w"
  obtain y v where tx: "sqliteStore_WithVars (\<lambda>tx. fn (captureTx tx)) ?v = (y, v)" by (metis surj_pair)
  obtain d' c' cp where v: "w_db v = (d', c', cp)" by (cases "w_db v")
  have start: "recorded d c (\<lparr>stx_q = d, stx_syncID = 0\<rparr>, c, \<lparr>cp_touched = [], cp_createdRemote = False\<rparr>)"
    using ids by (simp add: recorded_def reached_def dc)
  have "remote_ids (fst (w_db w')) \<and> cache_ok db_views (Suc n) (w_db w')"
  proof (cases y)
    case (Inl e)
    with WithVars_cases [OF tx vars [of c] _ body [of d c]] start v have same: "d' = d" "within c' c" by simp_all
    have "cache_ok db_views (Suc n) (d, c')" using within_ok [OF same(2), of db_views n d] ok dc cache_ok_mono [of db_views n "(d, c')" "Suc n"] by simp
    with same show ?thesis using Inl run tx v ids by (auto simp: cache_WithTx_def dc)
  next
    case (Inr a)
    with WithVars_cases [OF tx vars [of c] _ body [of d c]] start v obtain m where
      "recorded d c (\<lparr>stx_q = d', stx_syncID = m\<rparr>, c', cp)" by auto
    then have "remote_ids d'" "agrees db_views (set (cp_touched cp)) d d'" "distinct (cp_touched cp)" "within c' c"
      "cp_createdRemote cp \<or> vw_url db_views d' = vw_url db_views d" by (auto simp: recorded_def reached_def)
    moreover from this have "cache_ok db_views (Suc n) (d', flush cp c')"
      using ok assms(3) dc by (intro advanced_ok [OF within_ok _ advanced_flush]) simp_all
    moreover have "w_db w' = (d', flush cp c')" using Inr run tx v by (auto simp: cache_WithTx_def dc)
    ultimately show ?thesis by simp
  qed
  then show "remote_ids (fst (w_db w'))" "cache_ok db_views (Suc n) (w_db w')" by simp_all
qed

end
