(* ===== verification/Cache_Props.thy ===== *)
theory Cache_Props
  imports Cache_Tx Scenario
begin

text \<open>
  The decorated SQLite store as a step relation, and what its clients may rely on: as long as no generation counter
  has run through all its values, every cached read answers like the store itself.
\<close>

abbreviation bareStore :: "(db, sqliteTx, int64 \<times> int64) Store" where
  "bareStore \<equiv> sqliteStore"

definition cachedStore :: "(db \<times> cache, sqliteTx captured, int64 \<times> int64) Store" where
  "cachedStore = cachingStore bareStore sqliteStore_WithVars"

lemma cachedStore_sel [simp]:
  "st_GetRemote cachedStore = cache_GetRemote bareStore" "st_GetRemoteByURL cachedStore = cache_GetRemoteByURL bareStore"
  "st_GetRef cachedStore = cache_GetRef bareStore" "st_ListTags cachedStore = cache_ListTags bareStore"
  "st_CreateRemote cachedStore = cache_CreateRemote bareStore" "st_UpdateRemote cachedStore = cache_UpdateRemote bareStore"
  "st_SoftDeleteRemote cachedStore = cache_SoftDeleteRemote bareStore"
  "st_SetRemoteHealth cachedStore = cache_SetRemoteHealth bareStore"
  "st_LatestObservationForRef cachedStore = cache_LatestObservationForRef bareStore"
  "st_AppendTaintEvent cachedStore e = inner (sqliteStore_AppendTaintEvent e)"
  "st_AckTaintEvent cachedStore i acker note ns = inner (sqliteStore_AckTaintEvent i acker note ns)"
  "st_TryAcquireLease cachedStore i holder now expires = inner (sqliteStore_TryAcquireLease i holder now expires)"
  "st_ReleaseLeaseCAS cachedStore i holder wit head len = inner (sqliteStore_ReleaseLeaseCAS i holder wit head len)"
  "st_WithTx cachedStore = cache_WithTx sqliteStore_WithVars"
  by (simp_all add: cachedStore_def cachingStore_def) (simp_all add: sqliteStore_def)

text \<open>
  The release of a lease passes through the decorator. It changes no cached value when it names the head and the
  length that the database holds already, as the release at the end of a successful sync does.
\<close>

definition keeps_head :: "db \<Rightarrow> RemoteID \<Rightarrow> bytes \<Rightarrow> int64 \<Rightarrow> bool" where
  "keeps_head d i head len \<longleftrightarrow> (\<forall>row \<in> set (t_remotes d). Rrem_ID row = i \<longrightarrow>
     Rrem_ChainHeadHash row = head \<and> Rrem_ChainLen row = len)"

inductive cache_step :: "db \<times> cache \<Rightarrow> db \<times> cache \<Rightarrow> bool" where
  GetRemote: "st_GetRemote cachedStore i w = (x, w') \<Longrightarrow> cache_step (w_db w) (w_db w')"
| GetRemoteByURL: "st_GetRemoteByURL cachedStore u w = (x, w') \<Longrightarrow> cache_step (w_db w) (w_db w')"
| GetRef: "st_GetRef cachedStore i t w = (y, w') \<Longrightarrow> cache_step (w_db w) (w_db w')"
| ListTags: "st_ListTags cachedStore i w = (z, w') \<Longrightarrow> cache_step (w_db w) (w_db w')"
| LatestObservationForRef: "st_LatestObservationForRef cachedStore f w = (q, w') \<Longrightarrow> cache_step (w_db w) (w_db w')"
| CreateRemote: "st_CreateRemote cachedStore r w = (a, w') \<Longrightarrow> cache_step (w_db w) (w_db w')"
| UpdateRemote: "st_UpdateRemote cachedStore r w = (b, w') \<Longrightarrow> keeps_url (fst (w_db w)) r \<Longrightarrow> cache_step (w_db w) (w_db w')"
| SoftDeleteRemote: "st_SoftDeleteRemote cachedStore i ns w = (b, w') \<Longrightarrow> cache_step (w_db w) (w_db w')"
| SetRemoteHealth: "st_SetRemoteHealth cachedStore i status e ns w = (b, w') \<Longrightarrow> cache_step (w_db w) (w_db w')"
| AppendTaintEvent: "st_AppendTaintEvent cachedStore ev w = (a, w') \<Longrightarrow> cache_step (w_db w) (w_db w')"
| AckTaintEvent: "st_AckTaintEvent cachedStore n acker note ns w = (b, w') \<Longrightarrow> cache_step (w_db w) (w_db w')"
| TryAcquireLease: "st_TryAcquireLease cachedStore i holder now expires w = (l, w') \<Longrightarrow> cache_step (w_db w) (w_db w')"
| ReleaseLeaseCAS: "st_ReleaseLeaseCAS cachedStore i holder wit head len w = (b, w') \<Longrightarrow>
    keeps_head (fst (w_db w)) i head len \<Longrightarrow> cache_step (w_db w) (w_db w')"
| syncTx: "st_WithTx cachedStore (syncTx order i taintAny startNS headBefore lsRefs priors) w = (p, w') \<Longrightarrow>
    cache_step (w_db w) (w_db w')"
| seedTx: "st_WithTx cachedStore (seedTx c res now) w = (p, w') \<Longrightarrow> cache_step (w_db w) (w_db w')"

text \<open>Each step keeps the cache coherent and advances each generation at most once.\<close>

definition coherent_at :: "nat \<Rightarrow> db \<times> cache \<Rightarrow> bool" where
  "coherent_at n p \<longleftrightarrow> remote_ids (fst p) \<and> cache_ok db_views n p"

lemma coherent_at_mono: "coherent_at n p \<Longrightarrow> n \<le> m \<Longrightarrow> coherent_at m p"
  by (auto simp: coherent_at_def intro: cache_ok_mono)

lemma read_step:
  assumes "\<And>d0. hoare (dbP (\<lambda>p. remote_ids d0 \<and> fst p = d0 \<and> cache_ok db_views n p)) m
      (\<lambda>r. dbP (\<lambda>p. (remote_ids d0 \<and> fst p = d0 \<and> cache_ok db_views n p) \<and> V d0 r))
      (\<lambda>_. dbP (\<lambda>p. remote_ids d0 \<and> fst p = d0 \<and> cache_ok db_views n p))"
    and "coherent_at n (w_db w)" and "m w = (x, w')"
  shows "coherent_at n (w_db w')" and "\<And>r. x = Inr r \<Longrightarrow> V (fst (w_db w)) r"
proof -
  have at: "dbP (\<lambda>p. remote_ids (fst (w_db w)) \<and> fst p = fst (w_db w) \<and> cache_ok db_views n p) w"
    using assms(2) by (simp add: dbP_def coherent_at_def)
  show "coherent_at n (w_db w')"
    using hoare_Inr [OF assms(1) at] hoare_Inl [OF assms(1) at] assms(3) by (cases x) (auto simp: dbP_def coherent_at_def)
  show "V (fst (w_db w)) r" if "x = Inr r" for r
    using hoare_Inr [OF assms(1) at, of r w'] assms(3) that by (simp add: dbP_def)
qed

lemmas cached_reads =
  read_step [OF sqlite_cache.read_GetRemote [where i = i], of _ w] read_step [OF sqlite_cache.read_GetRemoteByURL [where u = u], of _ w]
  read_step [OF sqlite_cache.read_GetRef [where i = i and t = t], of _ w] read_step [OF sqlite_cache.read_ListTags [where i = i], of _ w]
  for i u t and w :: "(db \<times> cache) world"

lemma write_step:
  assumes "writes (\<lambda>d. remote_ids d \<and> J d) db_views X b m" and "\<And>a c. advanced X b c (f a c)" and "Suc n < 2 ^ 64"
    and "coherent_at n (w_db w)" and "J (fst (w_db w))"
    and run: "bindT (inner m) (\<lambda>a. bindT (step (f a)) (\<lambda>_. ret (g a))) w = (x, w')"
  shows "coherent_at (Suc n) (w_db w')"
proof -
  have at: "dbP (\<lambda>p. (remote_ids (fst p) \<and> J (fst p)) \<and> cache_ok db_views n p) w"
    using assms(4,5) by (simp add: dbP_def coherent_at_def)
  note ok = write_ok [OF assms(1-3), where g = g]
  show ?thesis using hoare_Inr [OF ok at] hoare_Inl [OF ok at] run by (cases x) (auto simp: dbP_def coherent_at_def)
qed

text \<open>Operations that pass through and change nothing that is cached.\<close>

lemma pass_step:
  assumes "keeps (\<lambda>d. remote_ids d \<and> t_remotes d = t_remotes d0 \<and> t_refs d = t_refs d0) m"
    and "coherent_at n (w_db w)" and "fst (w_db w) = d0" and "inner m w = (x, w')"
  shows "coherent_at n (w_db w')"
proof -
  let ?v = "with_db (fst (w_db w)) w"
  obtain y v where m: "m ?v = (y, v)" by (metis surj_pair)
  with assms(4) have w': "w_db w' = (w_db v, snd (w_db w))" by (auto simp: inner_def)
  have "remote_ids (w_db v) \<and> t_remotes (w_db v) = t_remotes d0 \<and> t_refs (w_db v) = t_refs d0"
    using keeps_snd [OF assms(1), of ?v] assms(2,3) m by (simp add: coherent_at_def)
  with same_views [of "w_db v" d0] assms(2,3) show ?thesis
    by (cases "w_db w") (auto simp: coherent_at_def w' intro: same_ok)
qed

lemma pass_taint:
  "keeps (\<lambda>d. remote_ids d \<and> t_remotes d = R \<and> t_refs d = F) (sqliteStore_AppendTaintEvent e)"
  "keeps (\<lambda>d. remote_ids d \<and> t_remotes d = R \<and> t_refs d = F) (sqliteStore_AckTaintEvent i acker note ns)"
  "keeps (\<lambda>d. remote_ids d \<and> t_remotes d = R \<and> t_refs d = F) (sqliteStore_TryAcquireLease i holder now expires)"
  unfolding sqliteStore_AppendTaintEvent_def sqliteStore_AckTaintEvent_def sqliteStore_TryAcquireLease_def
  by (intro hoare_intros keeps_stmt; auto simp: sqlc_InsertTaintEvent_def sqlc_AckTaintEvent_def sqlc_GetRemoteChainHead_def
      read_one_def select_one_def upsertLeaseSQL_def remote_ids_def Let_def split: if_splits option.splits)+

lemma update_where_same: "(\<And>x. x \<in> set xs \<Longrightarrow> P x \<Longrightarrow> f x = x) \<Longrightarrow> update_where P f xs = xs"
  by (induction xs) (auto simp: update_where_def)

lemma pass_release:
  assumes "keeps_head d i head len"
  shows "keeps (\<lambda>e. remote_ids e \<and> t_remotes e = t_remotes d \<and> t_refs e = t_refs d) (sqliteStore_ReleaseLeaseCAS i holder wit head len)"
proof -
  let ?I = "\<lambda>e. remote_ids e \<and> t_remotes e = t_remotes d \<and> t_refs e = t_refs d"
  have advance: "update_where (\<lambda>r. Rrem_ID r = i \<and> Rrem_ChainHeadHash r = wit \<and> Rrem_ChainLen r = n)
      (\<lambda>r. r\<lparr>Rrem_ChainHeadHash := head, Rrem_ChainLen := len\<rparr>) (t_remotes d) = t_remotes d" for n
    using assms by (intro update_where_same) (auto simp: keeps_head_def)
  have "keeps ?I (releaseTx i holder wit head len)"
    unfolding releaseTx_def
    by (intro hoare_intros keeps_stmt)
      (auto simp: sqlc_GetRemoteChainHead_def read_one_def select_one_def sqlc_AdvanceRemoteChainHead_def sqlc_DeleteRemoteLease_def
        Let_def advance remote_ids_def split: option.splits)
  note tx = keeps_snd [OF this]
  show ?thesis
  proof (rule keepsI)
    fix w :: "db world"
    assume "?I (w_db w)"
    moreover obtain x v where "stmt (\<lambda>d. Inr ((), d)) w = (x, v)" by (metis surj_pair)
    ultimately show "?I (w_db (snd (sqliteStore_ReleaseLeaseCAS i holder wit head len w)))"
      using tx [of v] by (auto simp: sqliteStore_ReleaseLeaseCAS_def stmt_def Let_def split: prod.splits sum.splits if_splits)
  qed
qed

lemma write_unit:
  assumes "writes (\<lambda>d. remote_ids d \<and> J d) db_views X b m" and "\<And>c. advanced X b c (f c)" and "Suc n < 2 ^ 64"
    and "coherent_at n (w_db w)" and "J (fst (w_db w))" and run: "bindT (inner m) (\<lambda>_. step f) w = (x, w')"
  shows "coherent_at (Suc n) (w_db w')"
proof -
  have "bindT (inner m) (\<lambda>_. step f) = bindT (inner m) (\<lambda>_. bindT (step f) (\<lambda>_. ret ()))"
    by (rule ext) (auto simp: bindT_def ret_def split: prod.splits sum.splits)
  with run show ?thesis by (intro write_step [OF assms(1-5), where g = "\<lambda>_. ()"]) simp
qed

lemma bumps_once: "bindT (step (bump i)) (\<lambda>_. step bumpSet) = step (\<lambda>c. bumpSet (bump i c))"
  by (rule ext) (simp add: bindT_def step_def onCache_def with_db_def)

lemma bare_writes:
  "st_CreateRemote bareStore = sqliteStore_CreateRemote" "st_UpdateRemote bareStore = sqliteStore_UpdateRemote"
  "st_SoftDeleteRemote bareStore = sqliteStore_SoftDeleteRemote" "st_SetRemoteHealth bareStore = sqliteStore_SetRemoteHealth"
  by (simp_all add: sqliteStore_def)

lemma coherent_writes:
  assumes n: "Suc n < 2 ^ 64" and ok: "coherent_at n (w_db w)"
  shows "cache_CreateRemote bareStore r w = (a, w') \<Longrightarrow> coherent_at (Suc n) (w_db w')"
    and "cache_SoftDeleteRemote bareStore i ns w = (b, w') \<Longrightarrow> coherent_at (Suc n) (w_db w')"
    and "cache_SetRemoteHealth bareStore i status e ns w = (b, w') \<Longrightarrow> coherent_at (Suc n) (w_db w')"
    and "cache_UpdateRemote bareStore r w = (b, w') \<Longrightarrow> keeps_url (fst (w_db w)) r \<Longrightarrow> coherent_at (Suc n) (w_db w')"
proof -
  note step = write_unit [OF _ _ n ok, where J = "\<lambda>_. True", simplified]
  show "coherent_at (Suc n) (w_db w')" if "cache_CreateRemote bareStore r w = (a, w')"
    using write_step [OF _ _ n ok, where J = "\<lambda>_. True", simplified, OF writes_CreateRemote advanced_bump(2)] that
    unfolding cache_CreateRemote_def bare_writes .
  show "coherent_at (Suc n) (w_db w')" if "cache_SoftDeleteRemote bareStore i ns w = (b, w')"
    using step [OF writes_SoftDeleteRemote advanced_bump(3)] that unfolding cache_SoftDeleteRemote_def bare_writes bumps_once .
  show "coherent_at (Suc n) (w_db w')" if "cache_SetRemoteHealth bareStore i status e ns w = (b, w')"
    using step [OF writes_SetRemoteHealth advanced_bump(1)] that unfolding cache_SetRemoteHealth_def bare_writes .
  show "coherent_at (Suc n) (w_db w')" if "cache_UpdateRemote bareStore r w = (b, w')" "keeps_url (fst (w_db w)) r"
    using write_unit [OF writes_UpdateRemote advanced_bump(1) n ok that(2)] that(1) unfolding cache_UpdateRemote_def bare_writes .
qed

lemma coherent_txs:
  assumes n: "Suc n < 2 ^ 64" and ok: "coherent_at n (w_db w)"
  shows "cache_WithTx sqliteStore_WithVars (syncTx order i taintAny startNS headBefore lsRefs priors) w = (p, w') \<Longrightarrow>
      coherent_at (Suc n) (w_db w')"
    and "cache_WithTx sqliteStore_WithVars (seedTx c res now) w = (q, w') \<Longrightarrow> coherent_at (Suc n) (w_db w')"
proof -
  have at: "remote_ids (fst (w_db w))" "cache_ok db_views n (w_db w)" using ok by (simp_all add: coherent_at_def)
  note tx = cache_WithTx_ok [OF at n]
  show "coherent_at (Suc n) (w_db w')"
    if "cache_WithTx sqliteStore_WithVars (syncTx order i taintAny startNS headBefore lsRefs priors) w = (p, w')"
    unfolding coherent_at_def
    using tx [OF sqlite_recorded.inv_syncTx capture_variables.keeps_syncTx that] by simp
  show "coherent_at (Suc n) (w_db w')" if "cache_WithTx sqliteStore_WithVars (seedTx c res now) w = (q, w')"
    unfolding coherent_at_def
    using tx [OF sqlite_seed_recorded.inv_seedTx capture_variables.keeps_seedTx that] by simp
qed

lemma coherent_passes:
  assumes ok: "coherent_at n (w_db w)"
  shows "inner (sqliteStore_AppendTaintEvent ev) w = (a, w') \<Longrightarrow> coherent_at n (w_db w')"
    and "inner (sqliteStore_AckTaintEvent m acker note ns) w = (b, w') \<Longrightarrow> coherent_at n (w_db w')"
    and "inner (sqliteStore_TryAcquireLease i holder now expires) w = (l, w') \<Longrightarrow> coherent_at n (w_db w')"
    and "inner (sqliteStore_ReleaseLeaseCAS i holder wit head len) w = (b, w') \<Longrightarrow> keeps_head (fst (w_db w)) i head len \<Longrightarrow>
      coherent_at n (w_db w')"
  using pass_step [OF pass_taint(1) ok refl] pass_step [OF pass_taint(2) ok refl] pass_step [OF pass_taint(3) ok refl]
    pass_step [OF pass_release ok refl] by simp_all

lemma coherent_reads:
  assumes ok: "coherent_at n (w_db w)"
  shows "cache_GetRemote bareStore i w = (x, w') \<Longrightarrow> coherent_at n (w_db w')"
    and "cache_GetRemoteByURL bareStore u w = (x, w') \<Longrightarrow> coherent_at n (w_db w')"
    and "cache_GetRef bareStore i t w = (y, w') \<Longrightarrow> coherent_at n (w_db w')"
    and "cache_ListTags bareStore i w = (z, w') \<Longrightarrow> coherent_at n (w_db w')"
    and "cache_LatestObservationForRef bareStore f w = (q, w') \<Longrightarrow> coherent_at n (w_db w')"
proof -
  show "coherent_at n (w_db w')" if "cache_LatestObservationForRef bareStore f w = (q, w')"
  proof -
    have "keeps (\<lambda>p. remote_ids (fst (w_db w)) \<and> fst p = fst (w_db w) \<and> cache_ok db_views n p) (cache_LatestObservationForRef bareStore f)"
      by (rule sqlite_cache.read_LatestObservation)
    from keeps_snd [OF this, of w] that ok show ?thesis by (simp add: coherent_at_def)
  qed
qed (rule cached_reads [OF ok]; assumption)+

lemma cache_step_coherent:
  assumes "cache_step p q" and ok: "coherent_at n p" and n: "Suc n < 2 ^ 64"
  shows "coherent_at (Suc n) q"
proof -
  have later: "coherent_at n q \<Longrightarrow> coherent_at (Suc n) q" by (erule coherent_at_mono) simp
  from assms(1) show ?thesis
  proof cases
    case (GetRemote i w x w')
    with ok have at: "coherent_at n (w_db w)" by simp
    show ?thesis using coherent_reads(1) [OF at] GetRemote later by simp
  next
    case (GetRemoteByURL u w x w')
    with ok have at: "coherent_at n (w_db w)" by simp
    show ?thesis using coherent_reads(2) [OF at] GetRemoteByURL later by simp
  next
    case (GetRef i t w y w')
    with ok have at: "coherent_at n (w_db w)" by simp
    show ?thesis using coherent_reads(3) [OF at] GetRef later by simp
  next
    case (ListTags i w z w')
    with ok have at: "coherent_at n (w_db w)" by simp
    show ?thesis using coherent_reads(4) [OF at] ListTags later by simp
  next
    case (LatestObservationForRef f w x w')
    with ok have at: "coherent_at n (w_db w)" by simp
    show ?thesis using coherent_reads(5) [OF at] LatestObservationForRef later by simp
  next
    case (CreateRemote r w a w')
    with ok have at: "coherent_at n (w_db w)" by simp
    show ?thesis using coherent_writes(1) [OF n at] CreateRemote by simp
  next
    case (UpdateRemote r w b w')
    with ok have at: "coherent_at n (w_db w)" by simp
    show ?thesis using coherent_writes(4) [OF n at] UpdateRemote by simp
  next
    case (SoftDeleteRemote i ns w b w')
    with ok have at: "coherent_at n (w_db w)" by simp
    show ?thesis using coherent_writes(2) [OF n at] SoftDeleteRemote by simp
  next
    case (SetRemoteHealth i status e ns w b w')
    with ok have at: "coherent_at n (w_db w)" by simp
    show ?thesis using coherent_writes(3) [OF n at] SetRemoteHealth by simp
  next
    case (AppendTaintEvent ev w a w')
    with ok have at: "coherent_at n (w_db w)" by simp
    show ?thesis using coherent_passes(1) [OF at] AppendTaintEvent later by simp
  next
    case (AckTaintEvent m acker memo ns w b w')
    with ok have at: "coherent_at n (w_db w)" by simp
    show ?thesis using coherent_passes(2) [OF at] AckTaintEvent later by simp
  next
    case (TryAcquireLease i holder now expires w l w')
    with ok have at: "coherent_at n (w_db w)" by simp
    show ?thesis using coherent_passes(3) [OF at] TryAcquireLease later by simp
  next
    case (ReleaseLeaseCAS i holder wit head len w b w')
    with ok have at: "coherent_at n (w_db w)" by simp
    show ?thesis using coherent_passes(4) [OF at] ReleaseLeaseCAS later by simp
  next
    case (syncTx order i taintAny startNS headBefore lsRefs priors w b w')
    with ok have at: "coherent_at n (w_db w)" by simp
    show ?thesis using coherent_txs(1) [OF n at] syncTx by simp
  next
    case (seedTx c res now w b w')
    with ok have at: "coherent_at n (w_db w)" by simp
    show ?thesis using coherent_txs(2) [OF n at] seedTx by simp
  qed
qed

lemma cache_steps_coherent:
  assumes "(cache_step ^^ n) (d, emptyCache evicts) p" and "remote_ids d" and "n < 2 ^ 64"
  shows "coherent_at n p"
  using assms(1,3)
proof (induction n arbitrary: p)
  case 0
  then show ?case using assms(2) cache_ok_empty [of db_views d evicts] by (auto simp: coherent_at_def)
qed (auto intro: cache_step_coherent)

section \<open>Transparency\<close>

text \<open>Only the store reports an error, and only when it is asked.\<close>

lemma with_db_with_db [simp]: "with_db d (with_db e w) = with_db d w"
  by (simp add: with_db_def)

lemma cache_errors:
  "cache_GetRemote s i w = (Inl e, w') \<Longrightarrow> fst (st_GetRemote s i (with_db (fst (w_db w)) w)) = Inl e"
  "cache_GetRef s i t w = (Inl e, w') \<Longrightarrow> fst (st_GetRef s i t (with_db (fst (w_db w)) w)) = Inl e"
  "cache_ListTags s i w = (Inl e, w') \<Longrightarrow> fst (st_ListTags s i (with_db (fst (w_db w)) w)) = Inl e"
  unfolding cache_GetRemote_def cache_GetRef_def cache_ListTags_def
  by (auto simp: bindT_def onCache_def step_def inner_def ret_def Let_def split: prod.splits sum.splits option.splits)

lemma cache_url_errors:
  assumes "cache_GetRemoteByURL s u w = (Inl e, w')"
  shows "fst (st_GetRemoteByURL s u (with_db (fst (w_db w)) w)) = Inl e \<or>
    (\<exists>i. ca_urlID (snd (w_db w)) (keyURL (ca_setGen (snd (w_db w))) u) = Some i \<and> fst (st_GetRemote s i (with_db (fst (w_db w)) w)) = Inl e)"
proof -
  obtain x c where look: "getURLEntry (keyURL (ca_setGen (snd (w_db w))) u) (snd (w_db w)) = (x, c)" by (metis surj_pair)
  show ?thesis
  proof (cases x)
    case None
    with assms look show ?thesis
      unfolding cache_GetRemoteByURL_def
      by (auto simp: bindT_def onCache_def step_def inner_def ret_def Let_def split: prod.splits sum.splits)
  next
    case (Some i)
    with assms look have "cache_GetRemote s i (with_db (fst (w_db w), c) w) = (Inl e, w')"
      unfolding cache_GetRemoteByURL_def by (simp add: bindT_def onCache_def Let_def)
    with cache_errors(1) [OF this] entry_within(2) [OF look] Some show ?thesis by auto
  qed
qed

lemma bare_reads:
  assumes "no_faults v"
  shows "vw_remote db_views (w_db v) i = Some r \<Longrightarrow> fst (st_GetRemote bareStore i v) = Inr r"
    and "vw_ref db_views (w_db v) i t = Some f \<Longrightarrow> fst (st_GetRef bareStore i t v) = Inr f"
    and "fst (st_ListTags bareStore i v) = Inr (vw_tags db_views (w_db v) i)"
    and "vw_url db_views (w_db v) u = Some j \<Longrightarrow> remote_ids (w_db v) \<Longrightarrow>
      \<exists>r. vw_remote db_views (w_db v) j = Some r \<and> fst (st_GetRemoteByURL bareStore u v) = Inr r"
  using assms find_id [of "w_db v", OF _ find_some [THEN conjunct1]]
  by (auto simp: db_views_def no_faults_def sqliteStore_def sqliteStore_GetRemote_def sqlc_GetRemote_def sqliteStore_GetRef_def sqlc_GetRef_def
      sqliteStore_ListTags_def sqlc_ListTags_def sqliteStore_GetRemoteByURL_def sqlc_GetRemoteByURL_def ref_at_def tags_of_def
      bindT_def mapErrT_def stmt_def read_one_def select_one_def ret_def Let_def)

lemma reads_agree:
  assumes ok: "coherent_at n (w_db w)" and nf: "no_faults w"
  shows "fst (st_GetRemote cachedStore i w) = fst (st_GetRemote bareStore i (with_db (fst (w_db w)) w))"
    and "fst (st_GetRemoteByURL cachedStore u w) = fst (st_GetRemoteByURL bareStore u (with_db (fst (w_db w)) w))"
    and "fst (st_GetRef cachedStore i t w) = fst (st_GetRef bareStore i t (with_db (fst (w_db w)) w))"
    and "fst (st_ListTags cachedStore i w) = fst (st_ListTags bareStore i (with_db (fst (w_db w)) w))"
proof -
  let ?v = "with_db (fst (w_db w)) w"
  have v: "no_faults ?v" using nf by (simp add: no_faults_def)
  note bare = bare_reads [OF v, unfolded w_db_with_db]
  show "fst (st_GetRemote cachedStore i w) = fst (st_GetRemote bareStore i ?v)"
  proof (cases "cache_GetRemote bareStore i w")
    case (Pair x w')
    with cached_reads(2) [OF ok Pair] bare(1) cache_errors(1) [of bareStore i w] show ?thesis by (cases x) auto
  qed
  show "fst (st_GetRef cachedStore i t w) = fst (st_GetRef bareStore i t ?v)"
  proof (cases "cache_GetRef bareStore i t w")
    case (Pair x w')
    with cached_reads(6) [OF ok Pair] bare(2) cache_errors(2) [of bareStore i t w] show ?thesis by (cases x) auto
  qed
  show "fst (st_ListTags cachedStore i w) = fst (st_ListTags bareStore i ?v)"
  proof (cases "cache_ListTags bareStore i w")
    case (Pair x w')
    with cached_reads(8) [OF ok Pair] bare(3) [of i] cache_errors(3) [of bareStore i w] show ?thesis by (cases x) auto
  qed
  show "fst (st_GetRemoteByURL cachedStore u w) = fst (st_GetRemoteByURL bareStore u ?v)"
  proof (cases "cache_GetRemoteByURL bareStore u w")
    case (Pair x w')
    show ?thesis
    proof (cases x)
      case (Inl e)
      have "fst (st_GetRemote bareStore j ?v) \<noteq> Inl e"
        if "ca_urlID (snd (w_db w)) (keyURL (ca_setGen (snd (w_db w))) u) = Some j" for j
      proof -
        have "vw_url db_views (fst (w_db w)) u = Some j" "remote_ids (fst (w_db w))"
          using ok that by (auto simp: coherent_at_def cache_ok_def coherent_def)
        with bare(1,4) show ?thesis by fastforce
      qed
      with cache_url_errors [of bareStore u w e w'] Inl Pair show ?thesis by auto
    next
      case (Inr r)
      with cached_reads(4) [OF ok Pair] bare(4) [of u] ok Pair show ?thesis by (auto simp: coherent_at_def)
    qed
  qed
qed


definition demo_cached :: "db \<times> cache" where
  "demo_cached = (demo_db, emptyCache (\<lambda>_. False))"

definition demo_filled :: "db \<times> cache" where
  "demo_filled = w_db (snd (st_GetRemoteByURL cachedStore ''h/r'' (with_db demo_cached (demo_world demo_db))))"

definition demo_updated :: "db \<times> cache" where
  "demo_updated = w_db (snd (st_SetRemoteHealth cachedStore 1 RemoteDegraded ''down'' 0 (with_db demo_filled (demo_world demo_db))))"

lemma demo_cache_steps: "(cache_step ^^ 2) demo_cached demo_updated"
proof -
  have "cache_step demo_cached demo_filled"
    using cache_step.GetRemoteByURL [of "''h/r''" "with_db demo_cached (demo_world demo_db)"]
    by (cases "st_GetRemoteByURL cachedStore ''h/r'' (with_db demo_cached (demo_world demo_db))") (simp add: demo_filled_def)
  moreover have "cache_step demo_filled demo_updated"
    using cache_step.SetRemoteHealth [of 1 RemoteDegraded "''down''" 0 "with_db demo_filled (demo_world demo_db)"]
    by (cases "st_SetRemoteHealth cachedStore 1 RemoteDegraded ''down'' 0 (with_db demo_filled (demo_world demo_db))")
      (simp add: demo_updated_def)
  ultimately show ?thesis by (auto simp: numeral_2_eq_2)
qed


section \<open>A read that overlaps a write\<close>

text \<open>
  \<open>GetRemoteByURL\<close> reads the generation of the remote only after it has fetched it. If a health update of that
  remote commits, and advances the generation, between the fetch and the filling of the cache, the remote as it was
  before the update is stored under the new generation, and as long as the entry is not evicted \<open>GetRemote\<close> returns
  it although the database holds the new status.
\<close>

theorem url_read_can_go_stale:
  assumes fetch: "st_GetRemoteByURL bareStore u (with_db (fst (w_db w)) w) = (Inr r, v)"
    and update: "st_SetRemoteHealth cachedStore (rem_ID r) status e ns w = (Inr (), w1)"
    and c: "c = fillURL (keyURL (ca_setGen (snd (w_db w))) u) r (snd (w_db w1))"
    and "\<not> ca_evicts c (ca_lookups c)"
  shows "fst (st_GetRemote cachedStore (rem_ID r) (with_db (fst (w_db w1), c) w1)) = Inr r \<and>
    (\<exists>row \<in> set (t_remotes (fst (w_db w1))). Rrem_ID row = rem_ID r \<and> Rrem_Status row = status)"
proof
  have hit: "ca_remoteByID c (keyRemote (rem_ID r) (ca_gens c (rem_ID r))) = Some r" by (simp add: c fillURL_def genOf_def Let_def)
  show "fst (st_GetRemote cachedStore (rem_ID r) (with_db (fst (w_db w1), c) w1)) = Inr r"
    using hit assms(4)
    by (simp add: cache_GetRemote_def genOf_def bindT_def onCache_def getRemoteEntry_def getIfPresent_def ret_def Let_def)
  from fetch obtain row where row: "row \<in> set (t_remotes (fst (w_db w)))" "r = remoteFromRow row"
    by (auto simp: sqliteStore_def sqliteStore_GetRemoteByURL_def sqlc_GetRemoteByURL_def dest!: read_stmt find_some)
  let ?f = "\<lambda>x. x\<lparr>Rrem_Status := status, Rrem_LastErr := e, Rrem_LastOkNs := ns, Rrem_UpdatedAtNs := w_clock w (w_ticks w)\<rparr>"
  have "t_remotes (fst (w_db w1)) = update_where (\<lambda>x. Rrem_ID x = rem_ID r) ?f (t_remotes (fst (w_db w)))"
    using update
    by (auto simp: cache_SetRemoteHealth_def bare_writes sqliteStore_SetRemoteHealth_def sqlc_SetRemoteHealth_def bindT_def inner_def step_def
        onCache_def NowNS_def stmt_def Let_def with_db_def split: prod.splits sum.splits if_splits)
  with row have "?f row \<in> set (t_remotes (fst (w_db w1)))" by (auto simp: set_update_where)
  with row(2) show "\<exists>row \<in> set (t_remotes (fst (w_db w1))). Rrem_ID row = rem_ID r \<and> Rrem_Status row = status"
    by (intro bexI [of _ "?f row"]) simp_all
qed

theorem url_read_can_go_stale_witness:
  "\<exists>r w1 c. fst (st_GetRemoteByURL bareStore ''h/r'' (demo_world demo_db)) = Inr r \<and>
     st_SetRemoteHealth cachedStore 1 RemoteDegraded ''down'' 0 (with_db demo_cached (demo_world demo_db)) = (Inr (), w1) \<and>
     c = fillURL (keyURL 0 ''h/r'') r (snd (w_db w1)) \<and> rem_Status r = RemoteActive \<and>
     fst (st_GetRemote cachedStore 1 (with_db (fst (w_db w1), c) w1)) = Inr r \<and>
     (\<exists>row \<in> set (t_remotes (fst (w_db w1))). Rrem_ID row = 1 \<and> Rrem_Status row = RemoteDegraded)"
proof -
  let ?w = "with_db demo_cached (demo_world demo_db)"
  obtain x v where fetch: "st_GetRemoteByURL bareStore ''h/r'' (demo_world demo_db) = (x, v)" by (metis surj_pair)
  obtain y w1 where update: "st_SetRemoteHealth cachedStore 1 RemoteDegraded ''down'' 0 ?w = (y, w1)" by (metis surj_pair)
  have "case fst (st_GetRemoteByURL bareStore ''h/r'' (demo_world demo_db)) of Inl _ \<Rightarrow> False
      | Inr r \<Rightarrow> rem_ID r = 1 \<and> rem_Status r = RemoteActive" by code_simp
  with fetch obtain r where r: "x = Inr r" "rem_ID r = 1" "rem_Status r = RemoteActive" by (cases x) auto
  have "fst (st_SetRemoteHealth cachedStore 1 RemoteDegraded ''down'' 0 ?w) = Inr ()" by code_simp
  with update have y: "y = Inr ()" by simp
  let ?c = "fillURL (keyURL 0 ''h/r'') r (snd (w_db w1))"
  have "ca_evicts (snd (w_db (snd (st_SetRemoteHealth cachedStore 1 RemoteDegraded ''down'' 0 ?w)))) =
      ca_evicts (snd demo_cached)"
    by (simp add: cache_SetRemoteHealth_def bindT_def inner_def step_def onCache_def bump_def split: prod.splits sum.splits)
  then have "\<not> ca_evicts ?c (ca_lookups ?c)" using update by (simp add: fillURL_def Let_def demo_cached_def emptyCache_def genOf_def)
  moreover have "with_db (fst (w_db ?w)) ?w = demo_world demo_db" by (simp add: with_db_def demo_world_def demo_cached_def)
  then have "st_GetRemoteByURL bareStore ''h/r'' (with_db (fst (w_db ?w)) ?w) = (Inr r, v)" using fetch r(1) by (simp only:)
  ultimately have "fst (st_GetRemote cachedStore 1 (with_db (fst (w_db w1), ?c) w1)) = Inr r \<and>
      (\<exists>row \<in> set (t_remotes (fst (w_db w1))). Rrem_ID row = 1 \<and> Rrem_Status row = RemoteDegraded)"
    using url_read_can_go_stale [of "''h/r''" ?w r v RemoteDegraded "''down''" 0 w1 ?c] update y r(2)
    by (simp add: demo_cached_def emptyCache_def)
  with fetch update r y show ?thesis by (intro exI [of _ r] exI [of _ w1] exI [of _ ?c]) simp
qed

end
