(* ===== verification/Http.thy ===== *)
theory Http
  imports Go_Format
begin

text \<open>
  What the server uses of \<open>net/http\<close>: requests with their headers, responses, \<open>http.Error\<close>, and the matching of
  requests by a \<open>ServeMux\<close> whose patterns have a method, no host and no trailing slash. \<open>r.URL.EscapedPath()\<close> is the
  field \<open>rq_Path\<close>; \<open>Header.Get\<close> of an absent header is empty. Two patterns of one method never match the same path in
  the tables below, so that the order of a table does not matter.
\<close>

section \<open>Requests and responses\<close>

record httpRequest =
  rq_Method :: string
  rq_Path :: string
  rq_RawQuery :: string
  rq_Authorization :: string
  rq_XAPIKey :: string
  rq_Body :: string
  rq_BodyLimit :: "nat option"

record httpResponse =
  rs_Status :: int
  rs_Header :: "(string \<times> string) list"
  rs_Body :: string

text \<open>
  What a reader of the body gets under \<open>http.MaxBytesReader\<close>: the bytes before the limit, and whether it then fails
  with a \<open>MaxBytesError\<close> instead of ending.
\<close>

definition readBody :: "httpRequest \<Rightarrow> string \<times> bool" where
  "readBody r = (case rq_BodyLimit r of None \<Rightarrow> (rq_Body r, False) | Some n \<Rightarrow> (take n (rq_Body r), length (rq_Body r) > n))"

text \<open>\<open>r.URL.Query()\<close> drops empty pairs, pairs with a semicolon and pairs with a bad escape.\<close>

definition queryValues :: "httpRequest \<Rightarrow> (string \<times> string) list" where
  "queryValues r =
     List.map_filter (\<lambda>s. if s = [] \<or> CHR '';'' \<in> set s then None else parsePair s) (SplitByte (CHR ''&'') (rq_RawQuery r))"

definition http_Error :: "string \<Rightarrow> int \<Rightarrow> httpResponse" where
  "http_Error msg code =
     \<lparr>rs_Status = code, rs_Header = [(''Content-Type'', ''text/plain; charset=utf-8''), (''X-Content-Type-Options'', ''nosniff'')],
      rs_Body = msg @ [CHR 0x0A]\<rparr>"

section \<open>Paths\<close>

text \<open>\<open>path.Clean\<close> of a rooted path, on its segments in reverse.\<close>

fun cleanSegs :: "string list \<Rightarrow> string list \<Rightarrow> string list" where
  "cleanSegs out [] = rev out"
| "cleanSegs out (s # ss) =
     (if s = [] \<or> s = ''.'' then cleanSegs out ss
      else if s = ''..'' then cleanSegs (drop 1 out) ss
      else cleanSegs (s # out) ss)"

definition cleanPath :: "string \<Rightarrow> string" where
  "cleanPath p =
     (if p = [] then ''/''
      else
      let p = (if hd p \<noteq> CHR ''/'' then CHR ''/'' # p else p);
          np = CHR ''/'' # Join ''/'' (cleanSegs [] (SplitByte (CHR ''/'') p)) in
      if last p = CHR ''/'' \<and> np \<noteq> ''/'' then np @ ''/'' else np)"

definition pathUnescape :: "string \<Rightarrow> string" where
  "pathUnescape s = (case unescape encodePath s of None \<Rightarrow> s | Some u \<Rightarrow> u)"

definition firstSegment :: "string \<Rightarrow> string \<times> string" where
  "firstSegment path =
     (if path = ''/'' then (''/'', [])
      else let p = tl path in
      (pathUnescape (takeWhile (\<lambda>c. c \<noteq> CHR ''/'') p), dropWhile (\<lambda>c. c \<noteq> CHR ''/'') p))"

section \<open>Patterns\<close>

datatype patternSeg = Lit string | Wild string

record route =
  ro_Method :: string
  ro_Segments :: "patternSeg list"
  ro_Operation :: string

text \<open>The pattern \<open>METHOD /seg/{name}\<close> of an operation.\<close>

definition parseSegment :: "string \<Rightarrow> patternSeg" where
  "parseSegment s = (if HasPrefix s ''{'' \<and> HasSuffix s ''}'' then Wild (butlast (tl s)) else Lit s)"

definition parsePattern :: "string \<times> string \<Rightarrow> route" where
  "parsePattern p =
     (case p of (operation, pattern) \<Rightarrow>
      let (method, path) = CutByte (CHR '' '') pattern in
      \<lparr>ro_Method = method, ro_Segments = map parseSegment (SplitByte (CHR ''/'') (tl path)), ro_Operation = operation\<rparr>)"

fun matchPath :: "patternSeg list \<Rightarrow> string \<Rightarrow> (string \<times> string) list option" where
  "matchPath [] path = (if path = [] then Some [] else None)"
| "matchPath (s # ss) path =
     (if path = [] then None
      else
      let (seg, rest) = firstSegment path in
      case s of
        Lit l \<Rightarrow> if seg = l then matchPath ss rest else None
      | Wild n \<Rightarrow> if seg = ''/'' then None else map_option (\<lambda>m. (n, seg) # m) (matchPath ss rest))"

definition matchRoute :: "route list \<Rightarrow> string \<Rightarrow> string \<Rightarrow> (string \<times> (string \<times> string) list) option" where
  "matchRoute routes method path =
     (case find (\<lambda>r. ro_Method r = method \<and> matchPath (ro_Segments r) path \<noteq> None) routes of
        None \<Rightarrow> None
      | Some r \<Rightarrow> map_option (\<lambda>m. (ro_Operation r, m)) (matchPath (ro_Segments r) path))"

text \<open>A HEAD request falls back to the patterns for GET.\<close>

definition matchMethod :: "route list \<Rightarrow> string \<Rightarrow> string \<Rightarrow> (string \<times> (string \<times> string) list) option" where
  "matchMethod routes method path =
     (case matchRoute routes method path of
        Some x \<Rightarrow> Some x
      | None \<Rightarrow> if method = ''HEAD'' then matchRoute routes ''GET'' path else None)"

text \<open>
  \<open>findHandler\<close>: the operation with its path values, a redirect to the cleaned path (with the operation whose pattern
  matched, if any), or no pattern: 405 if the path is known under another method, otherwise 404.
\<close>

datatype muxResult =
    Matched string "(string \<times> string) list"
  | Redirect "string option"
  | MethodNotAllowed
  | NotFound

definition findHandler :: "route list \<Rightarrow> httpRequest \<Rightarrow> muxResult" where
  "findHandler routes r =
     (let path = (if rq_Method r = ''CONNECT'' then rq_Path r else cleanPath (rq_Path r));
          m = matchMethod routes (rq_Method r) path in
      if path \<noteq> rq_Path r then Redirect (map_option fst m)
      else case m of
        Some (operation, values) \<Rightarrow> Matched operation values
      | None \<Rightarrow> if list_ex (\<lambda>ro. matchPath (ro_Segments ro) path \<noteq> None) routes then MethodNotAllowed else NotFound)"

text \<open>The answer without a handler; \<open>HEAD\<close> goes with \<open>GET\<close>.\<close>

definition allowedMethods :: "route list \<Rightarrow> httpRequest \<Rightarrow> string list" where
  "allowedMethods routes r =
     (let ms = map ro_Method (filter (\<lambda>ro. matchPath (ro_Segments ro) (rq_Path r) \<noteq> None) routes) in
      sort (remdups (ms @ (if ''GET'' \<in> set ms then [''HEAD''] else []))))"

definition http_NotFound :: httpResponse where
  "http_NotFound = http_Error ''404 page not found'' 404"

definition http_MethodNotAllowed :: "route list \<Rightarrow> httpRequest \<Rightarrow> httpResponse" where
  "http_MethodNotAllowed routes r =
     (let e = http_Error ''Method Not Allowed'' 405 in
      e\<lparr>rs_Header := (''Allow'', Join '', '' (allowedMethods routes r)) # rs_Header e\<rparr>)"

text \<open>The pattern that \<open>mux.Handler\<close> reports; empty when none matches.\<close>

definition matchedOp :: "muxResult \<Rightarrow> string option" where
  "matchedOp x = (case x of Matched operation _ \<Rightarrow> Some operation | Redirect operation \<Rightarrow> operation | MethodNotAllowed \<Rightarrow> None | NotFound \<Rightarrow> None)"

definition pathValue :: "string \<Rightarrow> (string \<times> string) list \<Rightarrow> string" where
  "pathValue name values = (case map_of values name of None \<Rightarrow> [] | Some v \<Rightarrow> v)"

section \<open>Tables\<close>

lemma matchRoute_Some:
  "matchRoute routes method path = Some (operation, values) \<Longrightarrow>
   \<exists>r \<in> set routes. ro_Method r = method \<and> ro_Operation r = operation \<and> matchPath (ro_Segments r) path = Some values"
  unfolding matchRoute_def by (auto dest: find_some split: option.splits)

text \<open>A table that has a pattern which matches finds one.\<close>

lemma matchRoute_found:
  assumes "r \<in> set routes" and "ro_Method r = method" and "matchPath (ro_Segments r) path \<noteq> None"
  shows "matchRoute routes method path \<noteq> None"
proof
  assume "matchRoute routes method path = None"
  then have "find (\<lambda>r. ro_Method r = method \<and> matchPath (ro_Segments r) path \<noteq> None) routes = None"
    by (auto simp: matchRoute_def dest: find_some split: option.splits)
  with assms show False by (auto simp: find_None_iff)
qed

end
