(* ===== verification/Config.thy ===== *)
theory Config
  imports Seed
begin

text \<open>
  \<open>internal/config/config.go\<close>: the environment variables of the server, with their defaults, parsing and validation.
  The seeding fields are those of \<open>Seed\<close>; \<open>Config\<close> extends them. Every failure is the error \<open>ErrConfig\<close>, whose text
  names the variable. \<open>time.Duration\<close> and \<open>int\<close> are 64-bit integers.
\<close>

record Config = SeedConfig +
  cfg_DBDriver :: string
  cfg_SQLitePath :: string
  cfg_MySQLDSN :: string
  cfg_ListenAddr :: string
  cfg_SyncConcurrency :: int64
  cfg_SchedulerTick :: Duration
  cfg_GitBin :: string
  cfg_GitTimeout :: Duration
  cfg_ProtocolAllowlist :: string
  cfg_HostAllowlist :: string
  cfg_LogLevel :: string
  cfg_MetricsAddr :: string
  cfg_PprofEnabled :: bool
  cfg_CacheEnabled :: bool
  cfg_CacheMaxEntries :: int64
  cfg_CacheTTL :: Duration
  cfg_AuthMode :: string
  cfg_APIKeys :: string
  cfg_APIKeysSHA256 :: string
  cfg_BasicAuth :: string
  cfg_JWKSURL :: string
  cfg_JWTIssuer :: string
  cfg_JWTAudience :: string
  cfg_JWTAlgs :: string
  cfg_SeedConcurrency :: int64
  cfg_SeedTimeout :: Duration

definition AuthModeNone :: string where [model_defs]: "AuthModeNone = ''none''"
definition AuthModeAPIKey :: string where [model_defs]: "AuthModeAPIKey = ''apikey''"
definition AuthModeBasic :: string where [model_defs]: "AuthModeBasic = ''basic''"
definition AuthModeJWKS :: string where [model_defs]: "AuthModeJWKS = ''jwks''"

definition ErrConfig :: err where
  "ErrConfig = ErrText ''config: invalid configuration''"

section \<open>Parsing\<close>

text \<open>\<open>strconv.ParseInt(v, 10, 64)\<close>: syntax and range errors alike are \<open>None\<close>.\<close>

definition ParseInt :: "string \<Rightarrow> int64 option" where
  "ParseInt v =
     (let neg = HasPrefix v ''-'';
          digits = (if v \<noteq> [] \<and> hd v \<in> set ''+-'' then tl v else v);
          n = decimalValue digits in
      if digits = [] \<or> \<not> list_all isDigit digits then None
      else if neg then (if n \<le> 2 ^ 63 then Some (- n) else None)
      else (if n < 2 ^ 63 then Some n else None))"

type_synonym lookup = "string \<Rightarrow> string option"

definition cfgStr :: "lookup \<Rightarrow> string \<Rightarrow> string \<Rightarrow> string" where
  "cfgStr get key def = (case get key of Some v \<Rightarrow> v | None \<Rightarrow> def)"

definition cfgBoolean :: "lookup \<Rightarrow> string \<Rightarrow> bool \<Rightarrow> bool" where
  "cfgBoolean get key def = (case get key of None \<Rightarrow> def | Some v \<Rightarrow> v \<in> set [''true'', ''1'', ''yes''])"

definition cfgI64 :: "lookup \<Rightarrow> string \<Rightarrow> int64 \<Rightarrow> err + int64" where
  "cfgI64 get key def =
     (case get key of
        None \<Rightarrow> Inr def
      | Some v \<Rightarrow> (case ParseInt v of None \<Rightarrow> Inl ErrConfig | Some n \<Rightarrow> Inr n))"

definition thenE :: "err + 'a \<Rightarrow> ('a \<Rightarrow> err + 'b) \<Rightarrow> err + 'b" where
  "thenE x f = (case x of Inl e \<Rightarrow> Inl e | Inr a \<Rightarrow> f a)"

lemma thenE_simps [simp]: "thenE (Inl e) f = Inl e" "thenE (Inr a) f = f a"
  by (simp_all add: thenE_def)

section \<open>Validation\<close>

definition validate :: "Config \<Rightarrow> err option" where
  "validate c =
     (if cfg_DBDriver c = ''sqlite'' \<and> cfg_SQLitePath c = [] then Some ErrConfig
      else if cfg_DBDriver c = ''mysql'' \<and> cfg_MySQLDSN c = [] then Some ErrConfig
      else if cfg_DBDriver c \<noteq> ''sqlite'' \<and> cfg_DBDriver c \<noteq> ''mysql'' then Some ErrConfig
      else if cfg_SyncConcurrency c \<le> 0 then Some ErrConfig
      else if cfg_SyncDefaultInterval c \<le> 0 then Some ErrConfig
      else if cfg_SchedulerTick c \<le> 0 then Some ErrConfig
      else if cfg_GitTimeout c \<le> 0 then Some ErrConfig
      else if cfg_StalenessBudget c \<le> 0 then Some ErrConfig
      else if cfg_CacheMaxEntries c \<le> 0 then Some ErrConfig
      else if cfg_CacheTTL c < 0 then Some ErrConfig
      else if cfg_AuthMode c \<notin> set [AuthModeNone, AuthModeAPIKey, AuthModeBasic, AuthModeJWKS] then Some ErrConfig
      else
      let servers = seedServerList (cfg_SeedServers c) in
      if length servers > 0 \<and> cfg_SeedQuorum c < 1 then Some ErrConfig
      else if length servers > 0 \<and> cfg_SeedQuorum c > int (length servers) then Some ErrConfig
      else if cfg_SeedConcurrency c < 1 then Some ErrConfig
      else if cfg_SeedMaxRemotes c < 1 then Some ErrConfig
      else if cfg_SeedMaxObservations c < 1 then Some ErrConfig
      else if cfg_SeedMaxPages c < 1 then Some ErrConfig
      else None)"

section \<open>Loading\<close>

definition Load :: "lookup \<Rightarrow> err + Config" where
  "Load get =
     (let c = \<lparr>cfg_SeedServers = cfgStr get ''GT_SEED_SERVERS'' [], cfg_SeedQuorum = 0,
            cfg_SeedRemotes = cfgStr get ''GT_SEED_REMOTES'' [], cfg_SeedInsecure = cfgBoolean get ''GT_SEED_INSECURE'' False,
            cfg_SeedMaxRemotes = 0, cfg_SeedMaxObservations = 0, cfg_SeedMaxPages = 0, cfg_SyncDefaultInterval = 0,
            cfg_StalenessBudget = 0,
            cfg_DBDriver = cfgStr get ''GT_DB_DRIVER'' ''sqlite'', cfg_SQLitePath = cfgStr get ''GT_SQLITE_PATH'' [],
            cfg_MySQLDSN = cfgStr get ''GT_MYSQL_DSN'' [], cfg_ListenAddr = cfgStr get ''GT_LISTEN_ADDR'' ''127.0.0.1:8080'',
            cfg_SyncConcurrency = 0, cfg_SchedulerTick = 0, cfg_GitBin = cfgStr get ''GT_GIT_BIN'' ''git'',
            cfg_GitTimeout = 0, cfg_ProtocolAllowlist = cfgStr get ''GT_PROTOCOL_ALLOWLIST'' ''https:ssh'',
            cfg_HostAllowlist = cfgStr get ''GT_HOST_ALLOWLIST'' [], cfg_LogLevel = cfgStr get ''GT_LOG_LEVEL'' ''info'',
            cfg_MetricsAddr = cfgStr get ''GT_METRICS_ADDR'' [], cfg_PprofEnabled = cfgBoolean get ''GT_PPROF_ENABLED'' False,
            cfg_CacheEnabled = cfgBoolean get ''GT_CACHE_ENABLED'' True, cfg_CacheMaxEntries = 0, cfg_CacheTTL = 0,
            cfg_AuthMode = cfgStr get ''GT_AUTH_MODE'' AuthModeNone, cfg_APIKeys = cfgStr get ''GT_API_KEYS'' [],
            cfg_APIKeysSHA256 = cfgStr get ''GT_API_KEYS_SHA256'' [], cfg_BasicAuth = cfgStr get ''GT_BASIC_AUTH'' [],
            cfg_JWKSURL = cfgStr get ''GT_JWKS_URL'' [], cfg_JWTIssuer = cfgStr get ''GT_JWT_ISSUER'' [],
            cfg_JWTAudience = cfgStr get ''GT_JWT_AUDIENCE'' [], cfg_JWTAlgs = cfgStr get ''GT_JWT_ALGS'' ''RS256,ES256'',
            cfg_SeedConcurrency = 0, cfg_SeedTimeout = 0\<rparr> in
      thenE (cfgI64 get ''GT_SYNC_CONCURRENCY'' 4) (\<lambda>n. let c = c\<lparr>cfg_SyncConcurrency := n\<rparr> in
      thenE (cfgI64 get ''GT_SYNC_DEFAULT_INTERVAL_NS'' 300000000000) (\<lambda>n. let c = c\<lparr>cfg_SyncDefaultInterval := n\<rparr> in
      thenE (cfgI64 get ''GT_SCHEDULER_TICK_NS'' 5000000000) (\<lambda>n. let c = c\<lparr>cfg_SchedulerTick := n\<rparr> in
      thenE (cfgI64 get ''GT_STALENESS_BUDGET_NS'' 3600000000000) (\<lambda>n. let c = c\<lparr>cfg_StalenessBudget := n\<rparr> in
      thenE (cfgI64 get ''GT_GIT_TIMEOUT_NS'' 60000000000) (\<lambda>n. let c = c\<lparr>cfg_GitTimeout := n\<rparr> in
      thenE (cfgI64 get ''GT_CACHE_MAX_ENTRIES'' 100000) (\<lambda>n. let c = c\<lparr>cfg_CacheMaxEntries := n\<rparr> in
      thenE (cfgI64 get ''GT_CACHE_TTL_NS'' 60000000000) (\<lambda>n. let c = c\<lparr>cfg_CacheTTL := n\<rparr> in
      thenE (cfgI64 get ''GT_SEED_QUORUM'' 1) (\<lambda>n. let c = c\<lparr>cfg_SeedQuorum := n\<rparr> in
      thenE (cfgI64 get ''GT_SEED_CONCURRENCY'' 8) (\<lambda>n. let c = c\<lparr>cfg_SeedConcurrency := n\<rparr> in
      thenE (cfgI64 get ''GT_SEED_TIMEOUT_NS'' 30000000000) (\<lambda>n. let c = c\<lparr>cfg_SeedTimeout := n\<rparr> in
      thenE (cfgI64 get ''GT_SEED_MAX_REMOTES'' 5000) (\<lambda>n. let c = c\<lparr>cfg_SeedMaxRemotes := n\<rparr> in
      thenE (cfgI64 get ''GT_SEED_MAX_OBSERVATIONS'' 200000) (\<lambda>n. let c = c\<lparr>cfg_SeedMaxObservations := n\<rparr> in
      thenE (cfgI64 get ''GT_SEED_MAX_PAGES'' 10000) (\<lambda>n. let c = c\<lparr>cfg_SeedMaxPages := n\<rparr> in
      case validate c of Some e \<Rightarrow> Inl e | None \<Rightarrow> Inr c))))))))))))))"

section \<open>Printing\<close>

text \<open>The environment that describes a configuration.\<close>

definition printBool :: "bool \<Rightarrow> string" where
  "printBool b = (if b then ''true'' else ''false'')"

definition environOf :: "Config \<Rightarrow> (string \<times> string) list" where
  "environOf c =
     [(''GT_DB_DRIVER'', cfg_DBDriver c), (''GT_SQLITE_PATH'', cfg_SQLitePath c), (''GT_MYSQL_DSN'', cfg_MySQLDSN c),
      (''GT_LISTEN_ADDR'', cfg_ListenAddr c), (''GT_SYNC_CONCURRENCY'', FormatInt (cfg_SyncConcurrency c)),
      (''GT_SYNC_DEFAULT_INTERVAL_NS'', FormatInt (cfg_SyncDefaultInterval c)),
      (''GT_SCHEDULER_TICK_NS'', FormatInt (cfg_SchedulerTick c)), (''GT_STALENESS_BUDGET_NS'', FormatInt (cfg_StalenessBudget c)),
      (''GT_GIT_BIN'', cfg_GitBin c), (''GT_GIT_TIMEOUT_NS'', FormatInt (cfg_GitTimeout c)),
      (''GT_PROTOCOL_ALLOWLIST'', cfg_ProtocolAllowlist c), (''GT_HOST_ALLOWLIST'', cfg_HostAllowlist c),
      (''GT_LOG_LEVEL'', cfg_LogLevel c), (''GT_METRICS_ADDR'', cfg_MetricsAddr c),
      (''GT_PPROF_ENABLED'', printBool (cfg_PprofEnabled c)), (''GT_CACHE_ENABLED'', printBool (cfg_CacheEnabled c)),
      (''GT_CACHE_MAX_ENTRIES'', FormatInt (cfg_CacheMaxEntries c)), (''GT_CACHE_TTL_NS'', FormatInt (cfg_CacheTTL c)),
      (''GT_AUTH_MODE'', cfg_AuthMode c), (''GT_API_KEYS'', cfg_APIKeys c), (''GT_API_KEYS_SHA256'', cfg_APIKeysSHA256 c),
      (''GT_BASIC_AUTH'', cfg_BasicAuth c), (''GT_JWKS_URL'', cfg_JWKSURL c), (''GT_JWT_ISSUER'', cfg_JWTIssuer c),
      (''GT_JWT_AUDIENCE'', cfg_JWTAudience c), (''GT_JWT_ALGS'', cfg_JWTAlgs c), (''GT_SEED_SERVERS'', cfg_SeedServers c),
      (''GT_SEED_QUORUM'', FormatInt (cfg_SeedQuorum c)), (''GT_SEED_REMOTES'', cfg_SeedRemotes c),
      (''GT_SEED_CONCURRENCY'', FormatInt (cfg_SeedConcurrency c)), (''GT_SEED_TIMEOUT_NS'', FormatInt (cfg_SeedTimeout c)),
      (''GT_SEED_INSECURE'', printBool (cfg_SeedInsecure c)), (''GT_SEED_MAX_REMOTES'', FormatInt (cfg_SeedMaxRemotes c)),
      (''GT_SEED_MAX_OBSERVATIONS'', FormatInt (cfg_SeedMaxObservations c)),
      (''GT_SEED_MAX_PAGES'', FormatInt (cfg_SeedMaxPages c))]"

definition config_fits :: "Config \<Rightarrow> bool" where
  "config_fits c \<longleftrightarrow> list_all in_int64
     [cfg_SyncConcurrency c, cfg_SyncDefaultInterval c, cfg_SchedulerTick c, cfg_StalenessBudget c, cfg_GitTimeout c,
      cfg_CacheMaxEntries c, cfg_CacheTTL c, cfg_SeedQuorum c, cfg_SeedConcurrency c, cfg_SeedTimeout c, cfg_SeedMaxRemotes c,
      cfg_SeedMaxObservations c, cfg_SeedMaxPages c]"

lemma printBool_read: "printBool b \<in> set [''true'', ''1'', ''yes''] \<longleftrightarrow> b"
  by (simp add: printBool_def)

lemma ParseInt_FormatInt:
  assumes "in_int64 n"
  shows "ParseInt (FormatInt n) = Some n"
proof (cases "n < 0")
  case True
  then show ?thesis
    using assms decimal_digits [of "- n"] decimalValue_decimal [of "- n"]
    by (auto simp: ParseInt_def FormatInt_def HasPrefix_def in_int64_def Let_def)
next
  case False
  then have digits: "list_all isDigit (decimal n)" "decimal n \<noteq> []" using decimal_digits [of n] by simp_all
  then have "isDigit (hd (decimal n))" by (cases "decimal n") simp_all
  then have "hd (decimal n) \<noteq> CHR ''-''" "hd (decimal n) \<noteq> CHR ''+''" by (auto simp: isDigit_def)
  moreover from this digits(2) have "\<not> HasPrefix (decimal n) ''-''" by (cases "decimal n") (auto simp: HasPrefix_def)
  ultimately show ?thesis
    using False assms digits decimalValue_decimal [of n] by (auto simp: ParseInt_def FormatInt_def in_int64_def Let_def)
qed

text \<open>What each reader returns for a printed value.\<close>

lemma read_printed:
  "get k = Some v \<Longrightarrow> cfgStr get k d = v"
  "get k = Some (printBool b) \<Longrightarrow> cfgBoolean get k e = b"
  "get k = Some (FormatInt n) \<Longrightarrow> in_int64 n \<Longrightarrow> cfgI64 get k m = Inr n"
  using printBool_read [of b] by (simp_all add: cfgStr_def cfgBoolean_def cfgI64_def ParseInt_FormatInt)

lemma environOf_keys: "distinct (map fst (environOf c))"
  by (simp add: environOf_def)

lemma Load_environOf:
  assumes "config_fits c" and "validate c = None"
  shows "Load (map_of (environOf c)) = Inr c"
proof -
  define get where "get = map_of (environOf c)"
  have get: "list_all (\<lambda>(k, v). get k = Some v) (environOf c)"
    using environOf_keys [of c] unfolding get_def by (auto simp: list_all_iff)
  note get = get [unfolded environOf_def list.pred_inject prod.case]
  have fits: "in_int64 (cfg_SyncConcurrency c)" "in_int64 (cfg_SyncDefaultInterval c)" "in_int64 (cfg_SchedulerTick c)"
    "in_int64 (cfg_StalenessBudget c)" "in_int64 (cfg_GitTimeout c)" "in_int64 (cfg_CacheMaxEntries c)" "in_int64 (cfg_CacheTTL c)"
    "in_int64 (cfg_SeedQuorum c)" "in_int64 (cfg_SeedConcurrency c)" "in_int64 (cfg_SeedTimeout c)" "in_int64 (cfg_SeedMaxRemotes c)"
    "in_int64 (cfg_SeedMaxObservations c)" "in_int64 (cfg_SeedMaxPages c)"
    using assms(1) by (simp_all add: config_fits_def)
  show ?thesis
    unfolding get_def [symmetric]
    using get fits assms(2) by (cases c) (simp add: Load_def read_printed)
qed

section \<open>What Load returns\<close>

lemma thenE_Inr: "thenE x f = Inr b \<longleftrightarrow> (\<exists>a. x = Inr a \<and> f a = Inr b)"
  by (cases x) auto

lemma thenE_Inl: "thenE x f = Inl e \<longleftrightarrow> x = Inl e \<or> (\<exists>a. x = Inr a \<and> f a = Inl e)"
  by (cases x) auto

lemma Load_valid: "Load get = Inr c \<Longrightarrow> validate c = None"
  by (auto simp: Load_def thenE_Inr Let_def split: option.splits)

lemma cfgI64_Inl: "cfgI64 get k d = Inl e \<Longrightarrow> e = ErrConfig"
  by (auto simp: cfgI64_def split: option.splits)

lemma validate_error: "validate c = Some e \<Longrightarrow> e = ErrConfig"
  by (auto simp: validate_def Let_def split: if_splits)

lemma Load_error: "Load get = Inl e \<Longrightarrow> e = ErrConfig"
  by (auto simp: Load_def thenE_Inl Let_def dest: cfgI64_Inl validate_error split: option.splits)

lemma validate_None:
  "validate c = None \<Longrightarrow> 0 < cfg_SyncConcurrency c \<and> 0 < cfg_SyncDefaultInterval c \<and> 0 < cfg_SchedulerTick c \<and>
     0 < cfg_GitTimeout c \<and> 0 < cfg_StalenessBudget c \<and> 0 < cfg_CacheMaxEntries c \<and> 0 \<le> cfg_CacheTTL c"
  "validate c = None \<Longrightarrow> cfg_AuthMode c \<in> set [AuthModeNone, AuthModeAPIKey, AuthModeBasic, AuthModeJWKS]"
  "validate c = None \<Longrightarrow> seedServerList (cfg_SeedServers c) = [] \<or>
     1 \<le> cfg_SeedQuorum c \<and> cfg_SeedQuorum c \<le> int (length (seedServerList (cfg_SeedServers c)))"
  unfolding validate_def Let_def by (auto simp: not_le not_less split: if_splits)

text \<open>The configuration. A valid configuration is read back from the environment that describes it; every
  configuration that is read at all has positive intervals and limits, a known authentication mode and, if peers are
  listed, a quorum between one and their number; every failure is \<open>ErrConfig\<close>.\<close>

theorem configuration_is_read_back:
  "(config_fits c \<and> validate c = None \<longrightarrow> Load (map_of (environOf c)) = Inr c) \<and>
   (Load get = Inr c' \<longrightarrow> 0 < cfg_SyncConcurrency c' \<and> 0 < cfg_SyncDefaultInterval c' \<and> 0 < cfg_SchedulerTick c' \<and>
      0 < cfg_GitTimeout c' \<and> 0 < cfg_StalenessBudget c' \<and> 0 < cfg_CacheMaxEntries c' \<and> 0 \<le> cfg_CacheTTL c' \<and>
      cfg_AuthMode c' \<in> set [AuthModeNone, AuthModeAPIKey, AuthModeBasic, AuthModeJWKS] \<and>
      (seedServerList (cfg_SeedServers c') = [] \<or>
         1 \<le> cfg_SeedQuorum c' \<and> cfg_SeedQuorum c' \<le> int (length (seedServerList (cfg_SeedServers c'))))) \<and>
   (Load get = Inl e \<longrightarrow> e = ErrConfig)"
proof (intro conjI impI)
  show "Load (map_of (environOf c)) = Inr c" if "config_fits c \<and> validate c = None" using that Load_environOf by simp
qed (use validate_None [OF Load_valid] Load_error in blast)+

definition demo_environ :: "(string \<times> string) list" where
  "demo_environ = [(''GT_SQLITE_PATH'', ''/var/lib/gt.db''), (''GT_SYNC_CONCURRENCY'', ''+2''), (''GT_SEED_SERVERS'', ''https://a, https://b''),
     (''GT_SEED_QUORUM'', ''2'')]"

theorem configuration_is_read_back_witness:
  "\<exists>c. Load (map_of demo_environ) = Inr c \<and> cfg_SyncConcurrency c = 2 \<and> cfg_SeedQuorum c \<le> 2 \<and> 0 < cfg_SchedulerTick c \<and>
     Load (map_of (environOf c)) = Inr c \<and> Load (map_of ((''GT_CACHE_TTL_NS'', ''-1'') # demo_environ)) = Inl ErrConfig"
proof -
  have "(case Load (map_of demo_environ) of Inl _ \<Rightarrow> False
      | Inr c \<Rightarrow> cfg_SyncConcurrency c = 2 \<and> config_fits c \<and> validate c = None \<and> length (seedServerList (cfg_SeedServers c)) = 2)"
    by code_simp
  then obtain c where c: "Load (map_of demo_environ) = Inr c" "cfg_SyncConcurrency c = 2" "config_fits c" "validate c = None"
    "length (seedServerList (cfg_SeedServers c)) = 2" by (cases "Load (map_of demo_environ)") auto
  have "(case Load (map_of ((''GT_CACHE_TTL_NS'', ''-1'') # demo_environ)) of Inl _ \<Rightarrow> True | Inr _ \<Rightarrow> False)" by code_simp
  then obtain e where "Load (map_of ((''GT_CACHE_TTL_NS'', ''-1'') # demo_environ)) = Inl e"
    by (cases "Load (map_of ((''GT_CACHE_TTL_NS'', ''-1'') # demo_environ))") auto
  then show ?thesis
    using configuration_is_read_back [of c "map_of demo_environ" c] c
      configuration_is_read_back [where get = "map_of ((''GT_CACHE_TTL_NS'', ''-1'') # demo_environ)" and e = e] by auto
qed

end
