(* ===== verification/Auth.thy ===== *)
theory Auth
  imports Http Config Sha256 Api_Handlers
begin

text \<open>
  \<open>internal/auth\<close> less its key sets (\<open>Auth_Jwks\<close>) and its middleware (\<open>Auth_Gate\<close>): the failures, API keys,
  HTTP Basic credentials and the lists of the configuration. \<open>bcrypt\<close> is not part of the repository: its two
  functions are the fields of a parameter. The rest of the file is byte-exact: \<open>strings.TrimSpace\<close> with the Unicode
  spaces in UTF-8, base64, SHA-256. The texts of configuration errors are abbreviated.
\<close>

section \<open>Library functions\<close>

text \<open>The encodings of the runes of \<open>unicode.IsSpace\<close>.\<close>

definition spaceRunes :: "string list" where
  "spaceRunes =
     [[CHR 0x09], [CHR 0x0A], [CHR 0x0B], [CHR 0x0C], [CHR 0x0D], [CHR 0x20], [CHR 0xC2, CHR 0x85],
      [CHR 0xC2, CHR 0xA0], [CHR 0xE1, CHR 0x9A, CHR 0x80], [CHR 0xE2, CHR 0x80, CHR 0x80],
      [CHR 0xE2, CHR 0x80, CHR 0x81], [CHR 0xE2, CHR 0x80, CHR 0x82], [CHR 0xE2, CHR 0x80, CHR 0x83],
      [CHR 0xE2, CHR 0x80, CHR 0x84], [CHR 0xE2, CHR 0x80, CHR 0x85], [CHR 0xE2, CHR 0x80, CHR 0x86],
      [CHR 0xE2, CHR 0x80, CHR 0x87], [CHR 0xE2, CHR 0x80, CHR 0x88], [CHR 0xE2, CHR 0x80, CHR 0x89],
      [CHR 0xE2, CHR 0x80, CHR 0x8A], [CHR 0xE2, CHR 0x80, CHR 0xA8], [CHR 0xE2, CHR 0x80, CHR 0xA9],
      [CHR 0xE2, CHR 0x80, CHR 0xAF], [CHR 0xE2, CHR 0x81, CHR 0x9F], [CHR 0xE3, CHR 0x80, CHR 0x80]]"

text \<open>Remove prefixes from a list while there is one; \<open>length s\<close> rounds are enough.\<close>

fun trimPrefixes :: "'a list list \<Rightarrow> nat \<Rightarrow> 'a list \<Rightarrow> 'a list" where
  "trimPrefixes ps 0 s = s"
| "trimPrefixes ps (Suc n) s =
     (case find (\<lambda>p. HasPrefix s p) ps of None \<Rightarrow> s | Some p \<Rightarrow> trimPrefixes ps n (drop (length p) s))"

definition strings_TrimSpace :: "string \<Rightarrow> string" where
  "strings_TrimSpace s =
     (let l = trimPrefixes spaceRunes (length s) s in
      rev (trimPrefixes (map rev spaceRunes) (length l) (rev l)))"

text \<open>
  \<open>strings.EqualFold\<close> against ASCII text without \<open>k\<close> and \<open>s\<close>: no other rune folds to one of its letters.
\<close>

definition EqualFold :: "string \<Rightarrow> string \<Rightarrow> bool" where
  "EqualFold s t \<longleftrightarrow> ToLower s = ToLower t"

text \<open>\<open>base64.StdEncoding.DecodeString\<close>: padded, line breaks ignored, the unused bits of the last digit not checked.\<close>

definition base64Digit :: "char \<Rightarrow> nat option" where
  "base64Digit c =
     (let n = of_char c :: nat in
      if 65 \<le> n \<and> n \<le> 90 then Some (n - 65)
      else if 97 \<le> n \<and> n \<le> 122 then Some (n - 71)
      else if 48 \<le> n \<and> n \<le> 57 then Some (n + 4)
      else if c = CHR ''+'' then Some 62 else if c = CHR ''/'' then Some 63 else None)"

fun decodeQuanta :: "string \<Rightarrow> string option" where
  "decodeQuanta [] = Some []"
| "decodeQuanta (a # b # c # d # rest) =
     (case (base64Digit a, base64Digit b) of
        (Some x, Some y) \<Rightarrow>
          if c = CHR ''='' then (if d = CHR ''='' \<and> rest = [] then Some [char_of (4 * x + y div 16)] else None)
          else (case base64Digit c of
            None \<Rightarrow> None
          | Some z \<Rightarrow>
              if d = CHR ''='' then
                (if rest = [] then Some [char_of (4 * x + y div 16), char_of (16 * (y mod 16) + z div 4)] else None)
              else (case base64Digit d of
                None \<Rightarrow> None
              | Some u \<Rightarrow> map_option
                  (\<lambda>t. char_of (4 * x + y div 16) # char_of (16 * (y mod 16) + z div 4) # char_of (64 * (z mod 4) + u) # t)
                  (decodeQuanta rest)))
      | _ \<Rightarrow> None)"
| "decodeQuanta _ = None"

definition base64_DecodeString :: "string \<Rightarrow> string option" where
  "base64_DecodeString s = decodeQuanta (filter (\<lambda>c. c \<noteq> CHR 0x0A \<and> c \<noteq> CHR 0x0D) s)"

text \<open>\<open>(*http.Request).BasicAuth\<close>.\<close>

definition BasicAuth :: "httpRequest \<Rightarrow> (string \<times> string) option" where
  "BasicAuth r =
     (let auth = rq_Authorization r in
      if auth = [] then None
      else if length auth < 6 \<or> \<not> EqualFold (take 6 auth) ''Basic '' then None
      else case base64_DecodeString (drop 6 auth) of
        None \<Rightarrow> None
      | Some cs \<Rightarrow> if CHR '':'' \<in> set cs then Some (CutByte (CHR '':'') cs) else None)"

section \<open>Failures\<close>

definition errMissingCredential :: err where
  "errMissingCredential = ErrText ''auth: missing credential''"

definition errBadCredential :: err where
  "errBadCredential = ErrText ''auth: invalid credential''"

definition errIdPUnavailable :: err where
  "errIdPUnavailable = ErrText ''auth: identity provider unavailable''"

definition realm :: string where
  "realm = ''git-tainted''"

section \<open>API keys\<close>

record apiKeyAuth =
  ak_digests :: "bytes list"

definition addDigest :: "bytes list \<Rightarrow> bytes \<Rightarrow> bytes list" where
  "addDigest ds d = (if d \<in> set ds then ds else ds @ [d])"

definition addRawKey :: "bytes list \<Rightarrow> string \<Rightarrow> bytes list" where
  "addRawKey ds k =
     (let k = strings_TrimSpace k in if k = [] then ds else addDigest ds (sha256 (bytes_of_string k)))"

fun addHexDigests :: "bytes list \<Rightarrow> string list \<Rightarrow> err + bytes list" where
  "addHexDigests ds [] = Inr ds"
| "addHexDigests ds (h # hs) =
     (let h = strings_TrimSpace h in
      if h = [] then addHexDigests ds hs
      else case DecodeString h of
        None \<Rightarrow> Inl (ErrText ''auth: GT_API_KEYS_SHA256'')
      | Some raw \<Rightarrow> if length raw \<noteq> 32 then Inl (ErrText ''auth: GT_API_KEYS_SHA256'') else addHexDigests (addDigest ds raw) hs)"

definition newAPIKeyAuth :: "string list \<Rightarrow> string list \<Rightarrow> err + apiKeyAuth" where
  "newAPIKeyAuth rawKeys hexDigests =
     thenE (addHexDigests (foldl addRawKey [] rawKeys) hexDigests) (\<lambda>ds.
     if length ds = 0 then Inl (ErrText ''auth: apikey mode requires at least one key'')
     else Inr \<lparr>ak_digests = ds\<rparr>)"

definition bearerToken :: "string \<Rightarrow> string option" where
  "bearerToken header =
     (let prefix = ''bearer '' in
      if length header < length prefix \<or> \<not> EqualFold (take (length prefix) header) prefix then None
      else let tok = strings_TrimSpace (drop (length prefix) header) in
      if tok = [] then None else Some tok)"

definition presentedAPIKey :: "httpRequest \<Rightarrow> string" where
  "presentedAPIKey r =
     (let h = rq_Authorization r in
      if h \<noteq> [] then (case bearerToken h of Some rest \<Rightarrow> rest | None \<Rightarrow> [])
      else strings_TrimSpace (rq_XAPIKey r))"

text \<open>The whole list is scanned; \<open>subtle.ConstantTimeCompare\<close> compares bytes.\<close>

definition apiKeyAuth_Authenticate :: "apiKeyAuth \<Rightarrow> httpRequest \<Rightarrow> err + string" where
  "apiKeyAuth_Authenticate a r =
     (let key = presentedAPIKey r in
      if key = [] then Inl errMissingCredential
      else
      let got = sha256 (bytes_of_string key);
          matched = foldl (\<lambda>m d. if got = d then True else m) False (ak_digests a) in
      if \<not> matched then Inl errBadCredential
      else Inr (''apikey:'' @ EncodeToString (take 4 got)))"

section \<open>HTTP Basic\<close>

text \<open>\<open>bcrypt.Cost\<close> accepts a well-formed hash; \<open>bcrypt.CompareHashAndPassword\<close> accepts the password of a hash.\<close>

record bcryptLib =
  bc_Cost :: "string \<Rightarrow> bool"
  bc_CompareHashAndPassword :: "string \<Rightarrow> string \<Rightarrow> bool"

record basicAuth =
  ba_users :: "(string \<times> string) list"

fun addUsers :: "bcryptLib \<Rightarrow> (string \<times> string) list \<Rightarrow> string list \<Rightarrow> err + (string \<times> string) list" where
  "addUsers bc users [] = Inr users"
| "addUsers bc users (e # es) =
     (let e = strings_TrimSpace e in
      if e = [] then addUsers bc users es
      else
      let (user, hash) = CutByte (CHR '':'') e in
      if CHR '':'' \<notin> set e \<or> user = [] \<or> hash = [] then Inl (ErrText ''auth: GT_BASIC_AUTH entry must be user:bcrypt-hash'')
      else if \<not> bc_Cost bc hash then Inl (ErrText ''auth: GT_BASIC_AUTH hash is not a valid bcrypt hash'')
      else addUsers bc (AList.update user hash users) es)"

definition newBasicAuth :: "bcryptLib \<Rightarrow> string list \<Rightarrow> err + basicAuth" where
  "newBasicAuth bc entries =
     thenE (addUsers bc [] entries) (\<lambda>users.
     if length users = 0 then Inl (ErrText ''auth: basic mode requires at least one user'')
     else Inr \<lparr>ba_users = users\<rparr>)"

text \<open>
  The comparison with \<open>dummyBcryptHash\<close> for an unknown user only takes time: its result is dropped.
\<close>

definition basicAuth_Authenticate :: "bcryptLib \<Rightarrow> basicAuth \<Rightarrow> httpRequest \<Rightarrow> err + string" where
  "basicAuth_Authenticate bc a r =
     (case BasicAuth r of
        None \<Rightarrow> Inl errMissingCredential
      | Some (user, pass) \<Rightarrow>
          (case map_of (ba_users a) user of
             None \<Rightarrow> Inl errBadCredential
           | Some hash \<Rightarrow>
               if \<not> bc_CompareHashAndPassword bc hash pass then Inl errBadCredential
               else Inr (''basic:'' @ user)))"

section \<open>Lists of the configuration\<close>

definition modeOf :: "Config option \<Rightarrow> string" where
  "modeOf cfg = (case cfg of None \<Rightarrow> AuthModeNone | Some c \<Rightarrow> if cfg_AuthMode c = [] then AuthModeNone else cfg_AuthMode c)"

definition splitList :: "string \<Rightarrow> string list" where
  "splitList s =
     (if strings_TrimSpace s = [] then []
      else filter (\<lambda>p. p \<noteq> []) (map strings_TrimSpace (SplitByte (CHR '','') s)))"

section \<open>Who is accepted\<close>

lemma set_addDigest [simp]: "set (addDigest ds d) = insert d (set ds)"
  by (auto simp: addDigest_def)

lemma set_addRawKeys:
  "set (foldl addRawKey ds ks) = set ds \<union> {sha256 (bytes_of_string (strings_TrimSpace k)) | k. k \<in> set ks \<and> strings_TrimSpace k \<noteq> []}"
  by (induction ks arbitrary: ds) (auto simp: addRawKey_def Let_def)

lemma set_addHexDigests:
  "addHexDigests ds hs = Inr ds' \<Longrightarrow>
   set ds' = set ds \<union> {raw. \<exists>h \<in> set hs. strings_TrimSpace h \<noteq> [] \<and> DecodeString (strings_TrimSpace h) = Some raw}"
proof (induction hs arbitrary: ds)
  case (Cons h hs)
  then show ?case by (auto simp: Let_def split: if_splits option.splits)
qed simp

lemma foldl_matched: "foldl (\<lambda>m d. if got = d then True else m) b ds \<longleftrightarrow> b \<or> got \<in> set ds"
  by (induction ds arbitrary: b) auto

text \<open>The digests that a list of keys and a list of hexadecimal digests stand for.\<close>

definition acceptedDigests :: "string list \<Rightarrow> string list \<Rightarrow> bytes set" where
  "acceptedDigests rawKeys hexDigests =
     {sha256 (bytes_of_string (strings_TrimSpace k)) | k. k \<in> set rawKeys \<and> strings_TrimSpace k \<noteq> []} \<union>
     {raw. \<exists>h \<in> set hexDigests. strings_TrimSpace h \<noteq> [] \<and> DecodeString (strings_TrimSpace h) = Some raw}"

lemma newAPIKeyAuth_digests:
  "newAPIKeyAuth rawKeys hexDigests = Inr a \<Longrightarrow> set (ak_digests a) = acceptedDigests rawKeys hexDigests \<and> ak_digests a \<noteq> []"
  by (auto simp: newAPIKeyAuth_def thenE_Inr acceptedDigests_def set_addRawKeys dest!: set_addHexDigests split: if_splits)

lemma apiKeyAuth_accepts:
  "apiKeyAuth_Authenticate a r = Inr p \<longleftrightarrow>
     presentedAPIKey r \<noteq> [] \<and> sha256 (bytes_of_string (presentedAPIKey r)) \<in> set (ak_digests a) \<and>
     p = ''apikey:'' @ EncodeToString (take 4 (sha256 (bytes_of_string (presentedAPIKey r))))"
  by (auto simp: apiKeyAuth_Authenticate_def Let_def foldl_matched)

text \<open>Every hash in the map is one that \<open>bcrypt.Cost\<close> accepted, listed with its user.\<close>

lemma addUsers_listed:
  assumes "addUsers bc users es = Inr users'" and "map_of users' u = Some h"
  shows "map_of users u = Some h \<or>
    (bc_Cost bc h \<and> u \<noteq> [] \<and> (\<exists>e \<in> set es. CHR '':'' \<in> set (strings_TrimSpace e) \<and> CutByte (CHR '':'') (strings_TrimSpace e) = (u, h)))"
  using assms
proof (induction es arbitrary: users)
  case (Cons e es)
  obtain u' h' where cut: "CutByte (CHR '':'') (strings_TrimSpace e) = (u', h')" by fastforce
  show ?case
  proof (cases "strings_TrimSpace e = []")
    case True
    with Cons.prems have "addUsers bc users es = Inr users'" by (simp add: Let_def)
    from Cons.IH [OF this Cons.prems(2)] show ?thesis by auto
  next
    case False
    with Cons.prems(1) cut have run: "addUsers bc (AList.update u' h' users) es = Inr users'" and ok: "bc_Cost bc h'" "u' \<noteq> []"
      "CHR '':'' \<in> set (strings_TrimSpace e)" by (auto simp: Let_def split: if_splits)
    from Cons.IH [OF run Cons.prems(2)] show ?thesis using cut ok by (auto simp: update_conv split: if_splits)
  qed
qed simp

lemma basicAuth_accepts:
  "basicAuth_Authenticate bc a r = Inr p \<longleftrightarrow>
     (\<exists>user pass hash. BasicAuth r = Some (user, pass) \<and> map_of (ba_users a) user = Some hash \<and>
        bc_CompareHashAndPassword bc hash pass \<and> p = ''basic:'' @ user)"
  by (auto simp: basicAuth_Authenticate_def split: option.splits)

end
