(* ===== verification/Auth_Jwks.thy ===== *)
theory Auth_Jwks
  imports Auth
begin

text \<open>
  \<open>internal/auth/jwks.go\<close> and the selection of an authenticator in \<open>internal/auth/config.go\<close>. The JOSE library and its
  key cache are not part of the repository: the functions the code calls are the fields of \<open>jwxLib\<close>, over a state of
  the cache and the network that only \<open>NewCache\<close>, \<open>Register\<close> and \<open>Refresh\<close> change. A set returned without an error is not
  nil. Times are nanoseconds; \<open>now\<close> is the reading of \<open>time.Now()\<close> during a request.
\<close>

record ('set, 'key, 'alg, 'net) jwxLib =
  jx_NewCache :: "'net \<Rightarrow> err option \<times> 'net"
  jx_Register :: "string \<Rightarrow> Duration \<Rightarrow> bool \<Rightarrow> 'net \<Rightarrow> err option \<times> 'net"
  jx_Lookup :: "string \<Rightarrow> 'net \<Rightarrow> err + 'set"
  jx_Refresh :: "string \<Rightarrow> 'net \<Rightarrow> (err + 'set) \<times> 'net"
  jx_Ready :: "string \<Rightarrow> 'net \<Rightarrow> bool"
  jx_NewSet :: 'set
  jx_Len :: "'set \<Rightarrow> nat"
  jx_Key :: "'set \<Rightarrow> nat \<Rightarrow> 'key option"
  jx_LookupKeyID :: "'set \<Rightarrow> string \<Rightarrow> 'key option"
  jx_AddKey :: "'set \<Rightarrow> 'key \<Rightarrow> 'set option"
  jx_KeyAlgorithm :: "'key \<Rightarrow> string option"
  jx_LookupSignatureAlgorithm :: "string \<Rightarrow> 'alg option"
  jx_RS256 :: 'alg
  jx_ES256 :: 'alg
  jx_AlgString :: "'alg \<Rightarrow> string"
  jx_IsSymmetric :: "'alg \<Rightarrow> bool"
  jx_JwsParse :: "string \<Rightarrow> ('alg option \<times> string option) list option"
  jx_JwtParse :: "'set \<Rightarrow> string \<Rightarrow> string \<Rightarrow> Duration \<Rightarrow> int \<Rightarrow> string \<Rightarrow> string option option"

definition jwtSkew :: Duration where "jwtSkew = 60 * 10 ^ 9"
definition jwksMinRefreshInterval :: Duration where "jwksMinRefreshInterval = 15 * 60 * 10 ^ 9"
definition onDemandMinInterval :: Duration where "onDemandMinInterval = 60 * 10 ^ 9"

section \<open>State\<close>

text \<open>\<open>lastOnDemand\<close> is \<open>None\<close> for the zero time.\<close>

record 'alg jwksAuth =
  ja_url :: string
  ja_issuer :: string
  ja_audience :: string
  ja_algs :: "'alg list"
  ja_algNames :: "string list"
  ja_onDemandEvery :: Duration

record 'net authState =
  as_lastOnDemand :: "int option"
  as_net :: 'net

text \<open>The methods of \<open>cacheKeySet\<close>.\<close>

definition cacheKeySet_lookup :: "('set, 'key, 'alg, 'net) jwxLib \<Rightarrow> string \<Rightarrow> 'net authState \<Rightarrow> err + 'set" where
  "cacheKeySet_lookup jx url s = jx_Lookup jx url (as_net s)"

definition cacheKeySet_refresh ::
  "('set, 'key, 'alg, 'net) jwxLib \<Rightarrow> string \<Rightarrow> 'net authState \<Rightarrow> (err + 'set) \<times> 'net authState" where
  "cacheKeySet_refresh jx url s = (let (x, net) = jx_Refresh jx url (as_net s) in (x, s\<lparr>as_net := net\<rparr>))"

definition cacheKeySet_ready :: "('set, 'key, 'alg, 'net) jwxLib \<Rightarrow> string \<Rightarrow> 'net authState \<Rightarrow> bool" where
  "cacheKeySet_ready jx url s = jx_Ready jx url (as_net s)"

section \<open>Construction\<close>

definition newJWKSAuthWithKeySet ::
  "('set, 'key, 'alg, 'net) jwxLib \<Rightarrow> string \<Rightarrow> string \<Rightarrow> string \<Rightarrow> 'alg list \<Rightarrow> 'alg jwksAuth" where
  "newJWKSAuthWithKeySet jx url issuer audience algs =
     \<lparr>ja_url = url, ja_issuer = issuer, ja_audience = audience, ja_algs = algs, ja_algNames = map (jx_AlgString jx) algs,
      ja_onDemandEvery = onDemandMinInterval\<rparr>"

definition newJWKSAuth ::
  "('set, 'key, 'alg, 'net) jwxLib \<Rightarrow> string \<Rightarrow> string \<Rightarrow> string \<Rightarrow> 'alg list \<Rightarrow> 'net \<Rightarrow> (err + 'alg jwksAuth) \<times> 'net" where
  "newJWKSAuth jx url issuer audience algs net =
     (case jx_NewCache jx net of
        (Some e, net) \<Rightarrow> (Inl e, net)
      | (None, net) \<Rightarrow>
          (case jx_Register jx url jwksMinRefreshInterval False net of
             (Some e, net) \<Rightarrow> (Inl e, net)
           | (None, net) \<Rightarrow> (Inr (newJWKSAuthWithKeySet jx url issuer audience algs), net)))"

fun addAlgs :: "('set, 'key, 'alg, 'net) jwxLib \<Rightarrow> string list \<Rightarrow> 'alg list \<Rightarrow> string list \<Rightarrow> err + 'alg list" where
  "addAlgs jx seen out [] = Inr out"
| "addAlgs jx seen out (raw # raws) =
     (let name = strings_TrimSpace raw in
      if name = [] then addAlgs jx seen out raws
      else if EqualFold name ''none'' then Inl (ErrText ''auth: GT_JWT_ALGS may not include none'')
      else case jx_LookupSignatureAlgorithm jx name of
        None \<Rightarrow> Inl (ErrText ''auth: GT_JWT_ALGS contains an unknown algorithm'')
      | Some alg \<Rightarrow>
          if jx_IsSymmetric jx alg then Inl (ErrText ''auth: GT_JWT_ALGS may not include symmetric algorithm'')
          else if jx_AlgString jx alg \<notin> set seen then addAlgs jx (jx_AlgString jx alg # seen) (out @ [alg]) raws
          else addAlgs jx seen out raws)"

definition parseAlgs :: "('set, 'key, 'alg, 'net) jwxLib \<Rightarrow> string \<Rightarrow> err + 'alg list" where
  "parseAlgs jx spec =
     (let spec = strings_TrimSpace spec in
      if spec = [] then Inr [jx_RS256 jx, jx_ES256 jx]
      else
      thenE (addAlgs jx [] [] (SplitByte (CHR '','') spec)) (\<lambda>out.
      if length out = 0 then Inl (ErrText ''auth: GT_JWT_ALGS resolved to an empty allowlist'') else Inr out))"

section \<open>Authentication\<close>

definition bearerOnly :: "httpRequest \<Rightarrow> string" where
  "bearerOnly r =
     (let h = rq_Authorization r in
      if h = [] then []
      else case bearerToken h of None \<Rightarrow> [] | Some tok \<Rightarrow> strings_TrimSpace tok)"

definition assertAllowedAlg :: "('set, 'key, 'alg, 'net) jwxLib \<Rightarrow> 'alg jwksAuth \<Rightarrow> string \<Rightarrow> err + string" where
  "assertAllowedAlg jx a token =
     (case jx_JwsParse jx token of
        None \<Rightarrow> Inl errBadCredential
      | Some sigs \<Rightarrow>
          if length sigs \<noteq> 1 then Inl errBadCredential
          else
          let (alg, kid) = sigs ! 0 in
          case alg of
            None \<Rightarrow> Inl errBadCredential
          | Some alg \<Rightarrow>
              if jx_IsSymmetric jx alg \<or> jx_AlgString jx alg = ''none'' \<or> jx_AlgString jx alg = [] then Inl errBadCredential
              else if jx_AlgString jx alg \<notin> set (ja_algNames a) then Inl errBadCredential
              else Inr (case kid of Some kidHdr \<Rightarrow> kidHdr | None \<Rightarrow> []))"

definition hasKey :: "('set, 'key, 'alg, 'net) jwxLib \<Rightarrow> 'set \<Rightarrow> string \<Rightarrow> bool" where
  "hasKey jx ks kid = (if kid = [] then False else jx_LookupKeyID jx ks kid \<noteq> None)"

text \<open>\<open>now.Sub(last)\<close> saturates at the limits of \<open>time.Duration\<close>.\<close>

definition timeSub :: "int \<Rightarrow> int \<Rightarrow> Duration" where
  "timeSub t u = (if t - u > maxInt64 then maxInt64 else if t - u < - maxInt64 - 1 then - maxInt64 - 1 else t - u)"

definition allowOnDemand :: "'alg jwksAuth \<Rightarrow> int \<Rightarrow> 'net authState \<Rightarrow> bool \<times> 'net authState" where
  "allowOnDemand a now s =
     (case as_lastOnDemand s of
        Some t \<Rightarrow> if timeSub now t < ja_onDemandEvery a then (False, s) else (True, s\<lparr>as_lastOnDemand := Some now\<rparr>)
      | None \<Rightarrow> (True, s\<lparr>as_lastOnDemand := Some now\<rparr>))"

definition resolveSet ::
  "('set, 'key, 'alg, 'net) jwxLib \<Rightarrow> 'alg jwksAuth \<Rightarrow> int \<Rightarrow> string \<Rightarrow> 'net authState \<Rightarrow> (err + 'set) \<times> 'net authState" where
  "resolveSet jx a now kid s =
     (let cached = cacheKeySet_lookup jx (ja_url a) s in
      if (case cached of Inr ks \<Rightarrow> kid = [] \<or> hasKey jx ks kid | Inl _ \<Rightarrow> False) then (cached, s)
      else
      let (allowed, s) = allowOnDemand a now s;
          (fresh, s) = (if allowed then (let (x, s) = cacheKeySet_refresh jx (ja_url a) s in (Some x, s)) else (None, s)) in
      case fresh of
        Some (Inr ks) \<Rightarrow> (Inr ks, s)
      | _ \<Rightarrow>
          (case cached of
             Inr ks \<Rightarrow> (Inr ks, s)
           | Inl _ \<Rightarrow> if \<not> cacheKeySet_ready jx (ja_url a) s then (Inl errIdPUnavailable, s) else (Inl errIdPUnavailable, s)))"

text \<open>The loop over the indices of a set; \<open>n\<close> keys are left, the next has index \<open>i\<close>.\<close>

fun addAllowed ::
  "('set, 'key, 'alg, 'net) jwxLib \<Rightarrow> 'alg jwksAuth \<Rightarrow> 'set \<Rightarrow> nat \<Rightarrow> nat \<Rightarrow> 'set \<Rightarrow> 'set option" where
  "addAllowed jx a ks i 0 out = Some out"
| "addAllowed jx a ks i (Suc n) out =
     (case jx_Key jx ks i of
        None \<Rightarrow> addAllowed jx a ks (Suc i) n out
      | Some key \<Rightarrow>
          (case jx_KeyAlgorithm jx key of
             None \<Rightarrow> addAllowed jx a ks (Suc i) n out
           | Some ka \<Rightarrow>
               if ka \<notin> set (ja_algNames a) then addAllowed jx a ks (Suc i) n out
               else case jx_AddKey jx out key of None \<Rightarrow> None | Some out \<Rightarrow> addAllowed jx a ks (Suc i) n out))"

definition allowlistedKeys :: "('set, 'key, 'alg, 'net) jwxLib \<Rightarrow> 'alg jwksAuth \<Rightarrow> 'set \<Rightarrow> err + 'set" where
  "allowlistedKeys jx a ks =
     (case addAllowed jx a ks 0 (jx_Len jx ks) (jx_NewSet jx) of
        None \<Rightarrow> Inl errBadCredential
      | Some out \<Rightarrow> if jx_Len jx out = 0 then Inl errIdPUnavailable else Inr out)"

definition jwksAuth_Authenticate ::
  "('set, 'key, 'alg, 'net) jwxLib \<Rightarrow> 'alg jwksAuth \<Rightarrow> int \<Rightarrow> httpRequest \<Rightarrow> 'net authState \<Rightarrow> (err + string) \<times> 'net authState" where
  "jwksAuth_Authenticate jx a now r s =
     (let raw = bearerOnly r in
      if raw = [] then (Inl errMissingCredential, s)
      else case assertAllowedAlg jx a raw of
        Inl e \<Rightarrow> (Inl e, s)
      | Inr kid \<Rightarrow>
          (case resolveSet jx a now kid s of
             (Inl e, s) \<Rightarrow> (Inl e, s)
           | (Inr ks, s) \<Rightarrow>
               (case allowlistedKeys jx a ks of
                  Inl e \<Rightarrow> (Inl e, s)
                | Inr verifyKeys \<Rightarrow>
                    (case jx_JwtParse jx verifyKeys (ja_issuer a) (ja_audience a) jwtSkew now raw of
                       None \<Rightarrow> (Inl errBadCredential, s)
                     | Some sub \<Rightarrow> (Inr (''jwt:'' @ (case sub of Some x \<Rightarrow> x | None \<Rightarrow> [])), s)))))"

section \<open>The authenticators\<close>

datatype 'alg Authenticator = noneAuth | APIKeyAuth apiKeyAuth | HTTPBasicAuth basicAuth | JWKSAuth "'alg jwksAuth"

definition Authenticate ::
  "bcryptLib \<Rightarrow> ('set, 'key, 'alg, 'net) jwxLib \<Rightarrow> 'alg Authenticator \<Rightarrow> int \<Rightarrow> httpRequest \<Rightarrow> 'net authState \<Rightarrow>
   (err + string) \<times> 'net authState" where
  "Authenticate bc jx authn now r s =
     (case authn of
        noneAuth \<Rightarrow> (Inr AnonymousPrincipal, s)
      | APIKeyAuth a \<Rightarrow> (apiKeyAuth_Authenticate a r, s)
      | HTTPBasicAuth a \<Rightarrow> (basicAuth_Authenticate bc a r, s)
      | JWKSAuth a \<Rightarrow> jwksAuth_Authenticate jx a now r s)"

definition Challenge :: "'alg Authenticator \<Rightarrow> string" where
  "Challenge authn =
     (case authn of
        noneAuth \<Rightarrow> []
      | APIKeyAuth _ \<Rightarrow> ''Bearer''
      | HTTPBasicAuth _ \<Rightarrow> ''Basic realm='' @ [CHR 0x22] @ realm @ [CHR 0x22]
      | JWKSAuth _ \<Rightarrow> ''Bearer'')"

definition FromConfig ::
  "bcryptLib \<Rightarrow> ('set, 'key, 'alg, 'net) jwxLib \<Rightarrow> Config \<Rightarrow> 'net \<Rightarrow> (err + 'alg Authenticator) \<times> 'net" where
  "FromConfig bc jx cfg net =
     (let mode = modeOf (Some cfg) in
      if mode = AuthModeNone then (Inr noneAuth, net)
      else if mode = AuthModeAPIKey then
        (map_sum id APIKeyAuth (newAPIKeyAuth (splitList (cfg_APIKeys cfg)) (splitList (cfg_APIKeysSHA256 cfg))), net)
      else if mode = AuthModeBasic then (map_sum id HTTPBasicAuth (newBasicAuth bc (splitList (cfg_BasicAuth cfg))), net)
      else if mode = AuthModeJWKS then
        (if strings_TrimSpace (cfg_JWKSURL cfg) = [] then (Inl (ErrText ''auth: jwks mode requires GT_JWKS_URL''), net)
         else if strings_TrimSpace (cfg_JWTIssuer cfg) = [] then (Inl (ErrText ''auth: jwks mode requires GT_JWT_ISSUER''), net)
         else if strings_TrimSpace (cfg_JWTAudience cfg) = [] then (Inl (ErrText ''auth: jwks mode requires GT_JWT_AUDIENCE''), net)
         else case parseAlgs jx (cfg_JWTAlgs cfg) of
           Inl e \<Rightarrow> (Inl e, net)
         | Inr algs \<Rightarrow>
             (case newJWKSAuth jx (cfg_JWKSURL cfg) (cfg_JWTIssuer cfg) (cfg_JWTAudience cfg) algs net of
                (x, net) \<Rightarrow> (map_sum id JWKSAuth x, net)))
      else (Inl (ErrText ''auth: unsupported GT_AUTH_MODE''), net))"

section \<open>What a token needs\<close>

text \<open>The keys that \<open>allowlistedKeys\<close> adds, in order.\<close>

inductive added :: "('set, 'key, 'alg, 'net) jwxLib \<Rightarrow> 'set \<Rightarrow> 'key list \<Rightarrow> 'set \<Rightarrow> bool" for jx where
  added_Nil: "added jx out [] out"
| added_Cons: "jx_AddKey jx out key = Some out1 \<Longrightarrow> added jx out1 keys out2 \<Longrightarrow> added jx out (key # keys) out2"

lemma addAllowed_added:
  assumes "addAllowed jx a ks i n out = Some out'"
  shows "\<exists>keys. added jx out keys out' \<and>
    (\<forall>key \<in> set keys. (\<exists>j < i + n. jx_Key jx ks j = Some key) \<and> (\<exists>ka \<in> set (ja_algNames a). jx_KeyAlgorithm jx key = Some ka))"
  using assms
proof (induction n arbitrary: i out)
  case (Suc n)
  show ?case
  proof (cases "\<exists>key ka. jx_Key jx ks i = Some key \<and> jx_KeyAlgorithm jx key = Some ka \<and> ka \<in> set (ja_algNames a)")
    case True
    then obtain key ka where key: "jx_Key jx ks i = Some key" "jx_KeyAlgorithm jx key = Some ka" "ka \<in> set (ja_algNames a)"
      by blast
    with Suc.prems obtain out1 where out1: "jx_AddKey jx out key = Some out1" "addAllowed jx a ks (Suc i) n out1 = Some out'"
      by (auto split: option.splits)
    from Suc.IH [OF out1(2)] obtain keys where
      keys: "added jx out1 keys out'"
      "\<forall>key \<in> set keys. (\<exists>j < Suc i + n. jx_Key jx ks j = Some key) \<and> (\<exists>ka \<in> set (ja_algNames a). jx_KeyAlgorithm jx key = Some ka)"
      by blast
    moreover have "\<exists>j < i + Suc n. jx_Key jx ks j = Some key" using key(1) by (intro exI [of _ i]) simp
    ultimately show ?thesis
      using key out1 by (intro exI [of _ "key # keys"]) (auto intro: added_Cons)
  next
    case False
    with Suc.prems have "addAllowed jx a ks (Suc i) n out = Some out'" by (auto split: option.splits if_splits)
    from Suc.IH [OF this] show ?thesis by simp
  qed
qed (auto intro: added_Nil)

text \<open>The algorithms of a list that was read are asymmetric, or the default.\<close>

lemma addAlgs_asymmetric:
  "addAlgs jx seen out raws = Inr algs \<Longrightarrow> (\<forall>alg \<in> set out. \<not> jx_IsSymmetric jx alg) \<Longrightarrow> (\<forall>alg \<in> set algs. \<not> jx_IsSymmetric jx alg)"
proof (induction raws arbitrary: seen out)
  case (Cons raw raws)
  show ?case
    using Cons.prems Cons.IH [of seen out] Cons.IH [of _ "out @ [_]"]
    by (simp add: Let_def split: if_splits option.splits)
qed simp

lemma parseAlgs_asymmetric:
  "parseAlgs jx spec = Inr algs \<Longrightarrow>
   algs \<noteq> [] \<and> (algs = [jx_RS256 jx, jx_ES256 jx] \<or> (\<forall>alg \<in> set algs. \<not> jx_IsSymmetric jx alg))"
  by (auto simp: parseAlgs_def Let_def thenE_Inr dest: addAlgs_asymmetric split: if_splits)

lemma assertAllowedAlg_Inr:
  "assertAllowedAlg jx a token = Inr kid \<Longrightarrow>
   \<exists>alg kidHdr. jx_JwsParse jx token = Some [(Some alg, kidHdr)] \<and> \<not> jx_IsSymmetric jx alg \<and>
     jx_AlgString jx alg \<noteq> ''none'' \<and> jx_AlgString jx alg \<noteq> [] \<and> jx_AlgString jx alg \<in> set (ja_algNames a)"
  by (auto simp: assertAllowedAlg_def Let_def length_Suc_conv split: option.splits if_splits prod.splits)

lemma jwksAuth_accepts:
  assumes "jwksAuth_Authenticate jx a now r s = (Inr p, s')"
  shows "\<exists>token alg kidHdr keys verifyKeys sub. bearerOnly r = token \<and> token \<noteq> [] \<and>
    jx_JwsParse jx token = Some [(Some alg, kidHdr)] \<and> \<not> jx_IsSymmetric jx alg \<and> jx_AlgString jx alg \<noteq> ''none'' \<and>
    jx_AlgString jx alg \<in> set (ja_algNames a) \<and> added jx (jx_NewSet jx) keys verifyKeys \<and>
    (\<forall>key \<in> set keys. \<exists>ka \<in> set (ja_algNames a). jx_KeyAlgorithm jx key = Some ka) \<and>
    jx_JwtParse jx verifyKeys (ja_issuer a) (ja_audience a) jwtSkew now token = Some sub \<and>
    p = ''jwt:'' @ (case sub of Some x \<Rightarrow> x | None \<Rightarrow> [])"
proof -
  from assms obtain kid ks s1 verifyKeys sub where
    run: "bearerOnly r \<noteq> []" "assertAllowedAlg jx a (bearerOnly r) = Inr kid" "resolveSet jx a now kid s = (Inr ks, s1)"
      "allowlistedKeys jx a ks = Inr verifyKeys"
      "jx_JwtParse jx verifyKeys (ja_issuer a) (ja_audience a) jwtSkew now (bearerOnly r) = Some sub"
      "p = ''jwt:'' @ (case sub of Some x \<Rightarrow> x | None \<Rightarrow> [])"
    by (auto simp: jwksAuth_Authenticate_def Let_def split: if_splits sum.splits prod.splits option.splits)
  from run(4) have "addAllowed jx a ks 0 (jx_Len jx ks) (jx_NewSet jx) = Some verifyKeys"
    by (auto simp: allowlistedKeys_def split: option.splits if_splits)
  from addAllowed_added [OF this] obtain keys where
    "added jx (jx_NewSet jx) keys verifyKeys"
    "\<forall>key \<in> set keys. \<exists>ka \<in> set (ja_algNames a). jx_KeyAlgorithm jx key = Some ka" by blast
  with assertAllowedAlg_Inr [OF run(2)] run show ?thesis by blast
qed

section \<open>How often the keys are fetched\<close>

lemma timeSub_ge: "0 < d \<Longrightarrow> d \<le> maxInt64 \<Longrightarrow> \<not> timeSub t u < d \<Longrightarrow> u + d \<le> t"
  by (auto simp: timeSub_def split: if_splits)

lemma resolveSet_net:
  assumes "resolveSet jx a now kid s = (x, s')" and "ja_onDemandEvery a = onDemandMinInterval"
  shows "s' = s \<or> as_lastOnDemand s' = Some now \<and> (\<forall>t. as_lastOnDemand s = Some t \<longrightarrow> t + onDemandMinInterval \<le> now)"
proof -
  have every: "0 < onDemandMinInterval" "onDemandMinInterval \<le> maxInt64" by (simp_all add: onDemandMinInterval_def maxInt64_def)
  obtain allowed s1 where al: "allowOnDemand a now s = (allowed, s1)" by fastforce
  show ?thesis
  proof (cases allowed)
    case True
    with al assms(2) have s1: "s1 = s\<lparr>as_lastOnDemand := Some now\<rparr>"
      "\<forall>t. as_lastOnDemand s = Some t \<longrightarrow> t + onDemandMinInterval \<le> now"
      using timeSub_ge [OF every] by (auto simp: allowOnDemand_def split: option.splits if_splits)
    with assms(1) al show ?thesis
      by (auto simp: resolveSet_def cacheKeySet_refresh_def Let_def split: if_splits sum.splits prod.splits option.splits)
  next
    case False
    with al have "s1 = s" by (auto simp: allowOnDemand_def split: option.splits if_splits)
    with assms(1) al False show ?thesis
      by (auto simp: resolveSet_def Let_def split: if_splits sum.splits prod.splits option.splits)
  qed
qed

lemma jwksAuth_net:
  assumes "jwksAuth_Authenticate jx a now r s = (x, s')" and "ja_onDemandEvery a = onDemandMinInterval"
  shows "s' = s \<or> as_lastOnDemand s' = Some now \<and> (\<forall>t. as_lastOnDemand s = Some t \<longrightarrow> t + onDemandMinInterval \<le> now)"
  using assms(1) resolveSet_net [OF _ assms(2)]
  by (fastforce simp: jwksAuth_Authenticate_def Let_def split: if_splits sum.splits prod.splits option.splits)

text \<open>The times of the requests that fetched, in a run of requests.\<close>

fun fetchTimes :: "('set, 'key, 'alg, 'net) jwxLib \<Rightarrow> 'alg jwksAuth \<Rightarrow> (int \<times> httpRequest) list \<Rightarrow> 'net authState \<Rightarrow> int list" where
  "fetchTimes jx a [] s = []"
| "fetchTimes jx a ((now, r) # reqs) s =
     (let s' = snd (jwksAuth_Authenticate jx a now r s) in
      (if s' \<noteq> s then [now] else []) @ fetchTimes jx a reqs s')"

lemma fetchTimes_spaced:
  assumes "ja_onDemandEvery a = onDemandMinInterval"
  shows "sorted_wrt (\<lambda>t u. t + onDemandMinInterval \<le> u) (fetchTimes jx a reqs s) \<and>
    (\<forall>t u. as_lastOnDemand s = Some t \<longrightarrow> u \<in> set (fetchTimes jx a reqs s) \<longrightarrow> t + onDemandMinInterval \<le> u)"
proof (induction reqs arbitrary: s)
  case (Cons q reqs)
  obtain now r where q: "q = (now, r)" by (cases q)
  let ?s' = "snd (jwksAuth_Authenticate jx a now r s)"
  have pos: "0 < onDemandMinInterval" by (simp add: onDemandMinInterval_def)
  have net: "?s' = s \<or> as_lastOnDemand ?s' = Some now \<and> (\<forall>t. as_lastOnDemand s = Some t \<longrightarrow> t + onDemandMinInterval \<le> now)"
    using jwksAuth_net [OF _ assms, of jx now r s] by (metis surjective_pairing)
  show ?case
  proof (cases "?s' = s")
    case True
    then show ?thesis using Cons.IH [of s] by (simp add: q)
  next
    case False
    with net have now: "as_lastOnDemand ?s' = Some now" "\<forall>t. as_lastOnDemand s = Some t \<longrightarrow> t + onDemandMinInterval \<le> now" by auto
    with Cons.IH [of ?s'] False pos show ?thesis by (fastforce simp: q Let_def)
  qed
qed simp

end
