(* ===== verification/Auth_Gate.thy ===== *)
theory Auth_Gate
  imports Auth_Jwks
begin

text \<open>
  \<open>internal/auth/middleware.go\<close>: the table of control routes and the middleware that asks the authenticator before it
  calls the next handler. A handler takes the principal in the context of the request, the request and its state. The
  contract of an authenticator is a locale; the lemmas on the middleware are proved in it.
\<close>

type_synonym 'w handler = "string option \<Rightarrow> httpRequest \<Rightarrow> 'w \<Rightarrow> httpResponse \<times> 'w"

section \<open>Routes\<close>

definition ControlOperations :: "string list" where
  "ControlOperations = [''createRemote'', ''updateRemote'', ''deleteRemote'', ''triggerSync'', ''ackTaintEvent'']"

definition controlRoutes :: "(string \<times> string) list" where
  "controlRoutes =
     [(''createRemote'', ''POST /v1/remotes''), (''updateRemote'', ''PATCH /v1/remotes/{remoteId}''),
      (''deleteRemote'', ''DELETE /v1/remotes/{remoteId}''), (''triggerSync'', ''POST /v1/remotes/{remoteId}/sync''),
      (''ackTaintEvent'', ''POST /v1/remotes/{remoteId}/taint-events/{eventId}/ack'')]"

text \<open>\<open>Inl\<close> is a panic at startup.\<close>

definition newControlMux :: "err + route list" where
  "newControlMux =
     (if length controlRoutes \<noteq> length ControlOperations then Inl (ErrText ''auth: controlRoutes and ControlOperations have diverged'')
      else if list_ex (\<lambda>(op, _). op \<notin> set ControlOperations) controlRoutes
      then Inl (ErrText ''auth: controlRoutes contains a non-control operation'')
      else Inr (map parsePattern controlRoutes))"

section \<open>Enforcement\<close>

definition writeUnauthorized :: "string \<Rightarrow> httpResponse" where
  "writeUnauthorized challenge =
     \<lparr>rs_Status = 401,
      rs_Header = (if challenge \<noteq> [] then [(''WWW-Authenticate'', challenge)] else []) @ [(''Content-Type'', ''application/json'')],
      rs_Body = ''{'' @ [CHR 0x22] @ ''error'' @ [CHR 0x22] @ '':'' @ [CHR 0x22] @ ''unauthorized'' @ [CHR 0x22] @ ''}''\<rparr>"

definition Middleware ::
  "(int \<Rightarrow> httpRequest \<Rightarrow> 's \<Rightarrow> (err + string) \<times> 's) \<Rightarrow> string \<Rightarrow>
   err + ('w handler \<Rightarrow> int \<Rightarrow> httpRequest \<Rightarrow> 's \<times> 'w \<Rightarrow> httpResponse \<times> 's \<times> 'w)" where
  "Middleware authenticate challenge =
     (case newControlMux of
        Inl e \<Rightarrow> Inl e
      | Inr mux \<Rightarrow> Inr (\<lambda>next now r (s, w).
          if matchedOp (findHandler mux r) \<noteq> None then
            (case authenticate now r s of
               (Inl e, s) \<Rightarrow> (writeUnauthorized challenge, s, w)
             | (Inr prin, s) \<Rightarrow> (case next (Some prin) r w of (resp, w) \<Rightarrow> (resp, s, w)))
          else (case next None r w of (resp, w) \<Rightarrow> (resp, s, w))))"

section \<open>The table\<close>

definition controlTable :: "route list" where
  "controlTable = map parsePattern controlRoutes"

lemma newControlMux_eq: "newControlMux = Inr controlTable"
  by (simp add: newControlMux_def controlTable_def) (simp add: controlRoutes_def ControlOperations_def)

definition gated :: "httpRequest \<Rightarrow> bool" where
  "gated r \<longleftrightarrow> matchedOp (findHandler controlTable r) \<noteq> None"

lemma controlTable_eq:
  "controlTable =
     [\<lparr>ro_Method = ''POST'', ro_Segments = [Lit ''v1'', Lit ''remotes''], ro_Operation = ''createRemote''\<rparr>,
      \<lparr>ro_Method = ''PATCH'', ro_Segments = [Lit ''v1'', Lit ''remotes'', Wild ''remoteId''], ro_Operation = ''updateRemote''\<rparr>,
      \<lparr>ro_Method = ''DELETE'', ro_Segments = [Lit ''v1'', Lit ''remotes'', Wild ''remoteId''], ro_Operation = ''deleteRemote''\<rparr>,
      \<lparr>ro_Method = ''POST'', ro_Segments = [Lit ''v1'', Lit ''remotes'', Wild ''remoteId'', Lit ''sync''], ro_Operation = ''triggerSync''\<rparr>,
      \<lparr>ro_Method = ''POST'', ro_Segments = [Lit ''v1'', Lit ''remotes'', Wild ''remoteId'', Lit ''taint-events'', Wild ''eventId'', Lit ''ack''],
       ro_Operation = ''ackTaintEvent''\<rparr>]"
  by code_simp

text \<open>The table is consistent, so there is a middleware.\<close>

definition gate ::
  "(int \<Rightarrow> httpRequest \<Rightarrow> 's \<Rightarrow> (err + string) \<times> 's) \<Rightarrow> string \<Rightarrow> 'w handler \<Rightarrow> int \<Rightarrow> httpRequest \<Rightarrow> 's \<times> 'w \<Rightarrow>
   httpResponse \<times> 's \<times> 'w" where
  "gate authenticate challenge = projr (Middleware authenticate challenge)"

lemma Middleware_gate: "Middleware authenticate challenge = Inr (gate authenticate challenge)"
  by (simp add: gate_def Middleware_def newControlMux_eq)

section \<open>The contract of an authenticator\<close>

text \<open>On success the principal is not empty.\<close>

locale authenticator =
  fixes authenticate :: "int \<Rightarrow> httpRequest \<Rightarrow> 's \<Rightarrow> (err + string) \<times> 's" and challenge :: string
  assumes principal: "authenticate now r s = (Inr p, s') \<Longrightarrow> p \<noteq> []"
begin

lemma gate_eq:
  "gate authenticate challenge next now r (s, w) =
     (if gated r then
        (case authenticate now r s of
           (Inl e, s) \<Rightarrow> (writeUnauthorized challenge, s, w)
         | (Inr prin, s) \<Rightarrow> (case next (Some prin) r w of (resp, w) \<Rightarrow> (resp, s, w)))
      else (case next None r w of (resp, w) \<Rightarrow> (resp, s, w)))"
  by (simp add: gate_def Middleware_def newControlMux_eq gated_def)

text \<open>Every failure gives the same response and the next handler does not run.\<close>

lemma denied:
  "gated r \<Longrightarrow> authenticate now r s = (Inl e, s') \<Longrightarrow> gate authenticate challenge next now r (s, w) = (writeUnauthorized challenge, s', w)"
  by (simp add: gate_eq)

text \<open>Otherwise it runs once, on a control route with the principal.\<close>

lemma admitted:
  assumes "gate authenticate challenge next now r (s, w) = (resp, s', w')"
  shows "(gated r \<and> (\<exists>e. authenticate now r s = (Inl e, s')) \<and> resp = writeUnauthorized challenge \<and> w' = w) \<or>
    (gated r \<and> (\<exists>p. authenticate now r s = (Inr p, s') \<and> p \<noteq> [] \<and> next (Some p) r w = (resp, w'))) \<or>
    (\<not> gated r \<and> s' = s \<and> next None r w = (resp, w'))"
  using assms principal by (fastforce simp: gate_eq split: if_splits prod.splits sum.splits)

end

text \<open>The authenticators of the program keep it.\<close>

lemma Authenticate_principal:
  assumes "Authenticate bc jx authn now r s = (Inr p, s')"
  shows "p \<noteq> []"
proof (cases authn)
  case (JWKSAuth a)
  with assms have "jwksAuth_Authenticate jx a now r s = (Inr p, s')" by (simp add: Authenticate_def)
  from jwksAuth_accepts [OF this] show ?thesis by auto
qed (use assms in \<open>auto simp: Authenticate_def AnonymousPrincipal_def apiKeyAuth_accepts basicAuth_accepts\<close>)

interpretation authn: authenticator "Authenticate bc jx authn" "Challenge authn" for bc jx authn
  by unfold_locales (rule Authenticate_principal)

end
