(* ===== verification/Api_Http.thy ===== *)
theory Api_Http
  imports Auth_Gate Api_Server
begin

text \<open>
  The HTTP layer of the API: \<open>internal/api/oapi/server.gen.go\<close> (binding of parameters, decoding of bodies, encoding of
  responses, routes) around the handlers of \<open>Api_Handlers\<close>, and \<open>internal/api/server.go\<close>, which puts the
  authentication middleware and the limit on bodies around it. Parameters of the model are the binder
  (\<open>oapi-codegen/runtime\<close>), the JSON codec of the response and request types, and the page of a redirect. The lists of
  middlewares of the generated code are empty.
\<close>

section \<open>Libraries and state\<close>

datatype bindError = RequiredParameterError | BindError string

record bindLib =
  bl_QueryString :: "bool \<Rightarrow> string \<Rightarrow> (string \<times> string) list \<Rightarrow> bindError + string option"
  bl_QueryInteger :: "bool \<Rightarrow> string \<Rightarrow> (string \<times> string) list \<Rightarrow> bindError + int64 option"
  bl_PathInteger :: "string \<Rightarrow> string \<Rightarrow> string + int64"
  bl_PathString :: "string \<Rightarrow> string \<Rightarrow> string + string"

text \<open>
  A decoder reads the bytes before the limit and is told whether the reader then fails; its error says whether it is a
  \<open>MaxBytesError\<close> and has a text.
\<close>

type_synonym 'a bodyDecoder = "string \<times> bool \<Rightarrow> (bool \<times> string) + 'a"

record jsonLib =
  jl_CreateRemoteRequest :: "CreateRemoteRequest bodyDecoder"
  jl_UpdateRemoteRequest :: "UpdateRemoteRequest bodyDecoder"
  jl_AckRequest :: "AckRequest bodyDecoder"
  jl_Remote :: "OapiRemote \<Rightarrow> err + string"
  jl_RemoteList :: "OapiRemote OapiList \<Rightarrow> err + string"
  jl_SyncAuditList :: "OapiSyncEntry OapiList \<Rightarrow> err + string"
  jl_Tag :: "OapiTag \<Rightarrow> err + string"
  jl_TagList :: "OapiTag OapiList \<Rightarrow> err + string"
  jl_TaintEventList :: "OapiTaintEvent OapiList \<Rightarrow> err + string"
  jl_VerifyResponse :: "VerifyResponse \<Rightarrow> err + string"
  jl_Error :: "string \<Rightarrow> err + string"

record ('d, 't, 'r) StrictServerImpl =
  si_store :: "('d, 't, 'r) Store"
  si_hasSyncer :: bool
  si_errText :: "err \<Rightarrow> string"
  si_ipLit :: "string \<Rightarrow> string option"
  si_uni :: "string \<Rightarrow> string"
  si_bind :: bindLib
  si_json :: jsonLib
  si_redirect :: "httpRequest \<Rightarrow> httpResponse"

text \<open>What requests change: the database, the cooldown map, and the background syncs started.\<close>

record 'd serverState =
  ss_world :: "'d world"
  ss_lastForcedNS :: "RemoteID \<rightharpoonup> int64"
  ss_started :: "RemoteID list"

type_synonym 'd serve = "'d serverState \<Rightarrow> httpResponse \<times> 'd serverState"

section \<open>Responses\<close>

text \<open>The body is encoded before the status is written, so that an error of the encoder can still be reported.\<close>

definition jsonResponse :: "int \<Rightarrow> err + string \<Rightarrow> err + httpResponse" where
  "jsonResponse status body =
     map_sum id (\<lambda>b. \<lparr>rs_Status = status, rs_Header = [(''Content-Type'', ''application/json'')], rs_Body = b\<rparr>) body"

definition emptyResponse :: "int \<Rightarrow> err + httpResponse" where
  "emptyResponse status = Inr \<lparr>rs_Status = status, rs_Header = [], rs_Body = []\<rparr>"

definition VisitGetHealthzResponse :: "string \<Rightarrow> err + httpResponse" where
  "VisitGetHealthzResponse txt = Inr \<lparr>rs_Status = 200, rs_Header = [(''Content-Type'', ''text/plain'')], rs_Body = txt\<rparr>"

definition VisitListRemotesResponse :: "jsonLib \<Rightarrow> ListRemotesResponse \<Rightarrow> err + httpResponse" where
  "VisitListRemotesResponse js resp = (case resp of ListRemotes200JSONResponse l \<Rightarrow> jsonResponse 200 (jl_RemoteList js l))"

definition VisitCreateRemoteResponse :: "jsonLib \<Rightarrow> CreateRemoteResponse \<Rightarrow> err + httpResponse" where
  "VisitCreateRemoteResponse js resp =
     (case resp of
        CreateRemote201JSONResponse r \<Rightarrow> jsonResponse 201 (jl_Remote js r)
      | CreateRemote409JSONResponse m \<Rightarrow> jsonResponse 409 (jl_Error js m)
      | CreateRemote422JSONResponse m \<Rightarrow> jsonResponse 422 (jl_Error js m))"

definition VisitDeleteRemoteResponse :: "jsonLib \<Rightarrow> DeleteRemoteResponse \<Rightarrow> err + httpResponse" where
  "VisitDeleteRemoteResponse js resp =
     (case resp of
        DeleteRemote204Response \<Rightarrow> emptyResponse 204
      | DeleteRemote404JSONResponse m \<Rightarrow> jsonResponse 404 (jl_Error js m))"

definition VisitGetRemoteResponse :: "jsonLib \<Rightarrow> GetRemoteResponse \<Rightarrow> err + httpResponse" where
  "VisitGetRemoteResponse js resp =
     (case resp of
        GetRemote200JSONResponse r \<Rightarrow> jsonResponse 200 (jl_Remote js r)
      | GetRemote404JSONResponse m \<Rightarrow> jsonResponse 404 (jl_Error js m))"

definition VisitUpdateRemoteResponse :: "jsonLib \<Rightarrow> UpdateRemoteResponse \<Rightarrow> err + httpResponse" where
  "VisitUpdateRemoteResponse js resp =
     (case resp of
        UpdateRemote200JSONResponse r \<Rightarrow> jsonResponse 200 (jl_Remote js r)
      | UpdateRemote404JSONResponse m \<Rightarrow> jsonResponse 404 (jl_Error js m))"

definition VisitTriggerSyncResponse :: "jsonLib \<Rightarrow> TriggerSyncResponse \<Rightarrow> err + httpResponse" where
  "VisitTriggerSyncResponse js resp =
     (case resp of
        TriggerSync202Response \<Rightarrow> emptyResponse 202
      | TriggerSync404JSONResponse m \<Rightarrow> jsonResponse 404 (jl_Error js m)
      | TriggerSync429JSONResponse m \<Rightarrow> jsonResponse 429 (jl_Error js m))"

definition VisitListSyncsResponse :: "jsonLib \<Rightarrow> ListSyncsResponse \<Rightarrow> err + httpResponse" where
  "VisitListSyncsResponse js resp =
     (case resp of
        ListSyncs200JSONResponse l \<Rightarrow> jsonResponse 200 (jl_SyncAuditList js l)
      | ListSyncs404JSONResponse m \<Rightarrow> jsonResponse 404 (jl_Error js m))"

definition VisitListTagsResponse :: "jsonLib \<Rightarrow> ListTagsResponse \<Rightarrow> err + httpResponse" where
  "VisitListTagsResponse js resp =
     (case resp of
        ListTags200JSONResponse l \<Rightarrow> jsonResponse 200 (jl_TagList js l)
      | ListTags404JSONResponse m \<Rightarrow> jsonResponse 404 (jl_Error js m)
      | ListTags422JSONResponse m \<Rightarrow> jsonResponse 422 (jl_Error js m))"

definition VisitGetTagResponse :: "jsonLib \<Rightarrow> GetTagResponse \<Rightarrow> err + httpResponse" where
  "VisitGetTagResponse js resp =
     (case resp of
        GetTag200JSONResponse t \<Rightarrow> jsonResponse 200 (jl_Tag js t)
      | GetTag404JSONResponse m \<Rightarrow> jsonResponse 404 (jl_Error js m))"

definition VisitListTaintEventsResponse :: "jsonLib \<Rightarrow> ListTaintEventsResponse \<Rightarrow> err + httpResponse" where
  "VisitListTaintEventsResponse js resp =
     (case resp of
        ListTaintEvents200JSONResponse l \<Rightarrow> jsonResponse 200 (jl_TaintEventList js l)
      | ListTaintEvents404JSONResponse m \<Rightarrow> jsonResponse 404 (jl_Error js m))"

definition VisitAckTaintEventResponse :: "jsonLib \<Rightarrow> AckTaintEventResponse \<Rightarrow> err + httpResponse" where
  "VisitAckTaintEventResponse js resp =
     (case resp of
        AckTaintEvent204Response \<Rightarrow> emptyResponse 204
      | AckTaintEvent404JSONResponse m \<Rightarrow> jsonResponse 404 (jl_Error js m)
      | AckTaintEvent409JSONResponse m \<Rightarrow> jsonResponse 409 (jl_Error js m)
      | AckTaintEvent422JSONResponse m \<Rightarrow> jsonResponse 422 (jl_Error js m))"

definition VisitVerifyResponse :: "jsonLib \<Rightarrow> VerifyResponseObject \<Rightarrow> err + httpResponse" where
  "VisitVerifyResponse js resp =
     (case resp of
        Verify200JSONResponse v \<Rightarrow> jsonResponse 200 (jl_VerifyResponse js v)
      | Verify422JSONResponse m \<Rightarrow> jsonResponse 422 (jl_Error js m))"

section \<open>Strict handlers\<close>

text \<open>The error handlers of \<open>NewServer\<close>.\<close>

definition responseErrorHandler :: "('d, 't, 'r) StrictServerImpl \<Rightarrow> err \<Rightarrow> httpResponse" where
  "responseErrorHandler si e = http_Error (si_errText si e) 500"

definition requestErrorHandler :: "bool \<times> string \<Rightarrow> httpResponse" where
  "requestErrorHandler e =
     (case e of (isMaxBytesError, txt) \<Rightarrow>
      if isMaxBytesError \<or> Contains txt ''request body too large'' then http_Error ''request body too large'' 413
      else http_Error txt 400)"

text \<open>The shape shared by the strict handlers: run, then write the response or the error.\<close>

definition strictRun ::
  "('d, 't, 'r) StrictServerImpl \<Rightarrow> ('a \<Rightarrow> err + httpResponse) \<Rightarrow> ('d, 'a) io \<Rightarrow> 'd serve" where
  "strictRun si visit m st =
     (case m (ss_world st) of (x, w) \<Rightarrow>
      (case x of
         Inl e \<Rightarrow> responseErrorHandler si e
       | Inr response \<Rightarrow> (case visit response of Inl e \<Rightarrow> responseErrorHandler si e | Inr resp \<Rightarrow> resp),
       st\<lparr>ss_world := w\<rparr>))"

definition decodeBody :: "'a bodyDecoder \<Rightarrow> httpRequest \<Rightarrow> ('a \<Rightarrow> 'd serve) \<Rightarrow> 'd serve" where
  "decodeBody decode r k st =
     (case decode (readBody r) of
        Inl (isMax, txt) \<Rightarrow> (requestErrorHandler (isMax, ''can't decode JSON body: '' @ txt), st)
      | Inr body \<Rightarrow> k body st)"

definition GetHealthz_handler :: "('d, string) io" where
  "GetHealthz_handler = ret ''ok''"

definition strict_GetHealthz :: "('d, 't, 'r) StrictServerImpl \<Rightarrow> 'd serve" where
  "strict_GetHealthz si = strictRun si VisitGetHealthzResponse GetHealthz_handler"

definition strict_ListRemotes :: "('d, 't, 'r) StrictServerImpl \<Rightarrow> string option \<Rightarrow> int64 option \<Rightarrow> int64 option \<Rightarrow> 'd serve" where
  "strict_ListRemotes si url lim cur =
     strictRun si (VisitListRemotesResponse (si_json si)) (ListRemotes_handler (si_ipLit si) (si_uni si) (si_store si) url lim cur)"

definition strict_CreateRemote :: "('d, 't, 'r) StrictServerImpl \<Rightarrow> httpRequest \<Rightarrow> 'd serve" where
  "strict_CreateRemote si r =
     decodeBody (jl_CreateRemoteRequest (si_json si)) r (\<lambda>body.
     strictRun si (VisitCreateRemoteResponse (si_json si))
       (CreateRemote_handler (si_errText si) (si_ipLit si) (si_uni si) (si_store si) (Some body)))"

definition strict_DeleteRemote :: "('d, 't, 'r) StrictServerImpl \<Rightarrow> int64 \<Rightarrow> 'd serve" where
  "strict_DeleteRemote si remoteId =
     strictRun si (VisitDeleteRemoteResponse (si_json si)) (DeleteRemote_handler (si_store si) remoteId)"

definition strict_GetRemote :: "('d, 't, 'r) StrictServerImpl \<Rightarrow> int64 \<Rightarrow> 'd serve" where
  "strict_GetRemote si remoteId =
     strictRun si (VisitGetRemoteResponse (si_json si)) (GetRemote_handler (si_store si) remoteId)"

definition strict_UpdateRemote :: "('d, 't, 'r) StrictServerImpl \<Rightarrow> httpRequest \<Rightarrow> int64 \<Rightarrow> 'd serve" where
  "strict_UpdateRemote si r remoteId =
     decodeBody (jl_UpdateRemoteRequest (si_json si)) r (\<lambda>body.
     strictRun si (VisitUpdateRemoteResponse (si_json si)) (UpdateRemote_handler (si_store si) remoteId (Some body)))"

text \<open>The handler updates the cooldown map and may start a sync in the background.\<close>

definition strict_TriggerSync :: "('d, 't, 'r) StrictServerImpl \<Rightarrow> int64 \<Rightarrow> 'd serve" where
  "strict_TriggerSync si remoteId st =
     (case TriggerSync_handler (si_store si) (si_hasSyncer si) remoteId (ss_lastForcedNS st) (ss_world st) of
        (Inl e, w) \<Rightarrow> (responseErrorHandler si e, st\<lparr>ss_world := w\<rparr>)
      | (Inr (response, lastForcedNS, started), w) \<Rightarrow>
          ((case VisitTriggerSyncResponse (si_json si) response of Inl e \<Rightarrow> responseErrorHandler si e | Inr resp \<Rightarrow> resp),
           \<lparr>ss_world = w, ss_lastForcedNS = lastForcedNS,
            ss_started = ss_started st @ (case started of None \<Rightarrow> [] | Some i \<Rightarrow> [i])\<rparr>))"

definition strict_ListSyncs :: "('d, 't, 'r) StrictServerImpl \<Rightarrow> int64 \<Rightarrow> int64 option \<Rightarrow> int64 option \<Rightarrow> 'd serve" where
  "strict_ListSyncs si remoteId lim cur =
     strictRun si (VisitListSyncsResponse (si_json si)) (ListSyncs_handler (si_store si) remoteId lim cur)"

definition strict_ListTags :: "('d, 't, 'r) StrictServerImpl \<Rightarrow> int64 \<Rightarrow> ListTagsParams \<Rightarrow> 'd serve" where
  "strict_ListTags si remoteId params =
     strictRun si (VisitListTagsResponse (si_json si)) (ListTags_handler (si_store si) remoteId params)"

definition strict_GetTag :: "('d, 't, 'r) StrictServerImpl \<Rightarrow> int64 \<Rightarrow> string \<Rightarrow> 'd serve" where
  "strict_GetTag si remoteId tagName =
     strictRun si (VisitGetTagResponse (si_json si)) (GetTag_handler (si_store si) remoteId tagName)"

definition strict_ListTaintEvents :: "('d, 't, 'r) StrictServerImpl \<Rightarrow> int64 \<Rightarrow> int64 option \<Rightarrow> int64 option \<Rightarrow> 'd serve" where
  "strict_ListTaintEvents si remoteId lim cur =
     strictRun si (VisitListTaintEventsResponse (si_json si)) (ListTaintEvents_handler (si_store si) remoteId lim cur)"

definition strict_AckTaintEvent ::
  "('d, 't, 'r) StrictServerImpl \<Rightarrow> string option \<Rightarrow> httpRequest \<Rightarrow> int64 \<Rightarrow> int64 \<Rightarrow> 'd serve" where
  "strict_AckTaintEvent si prin r remoteId eventId =
     decodeBody (jl_AckRequest (si_json si)) r (\<lambda>body.
     strictRun si (VisitAckTaintEventResponse (si_json si))
       (AckTaintEvent_handler prin (si_store si) remoteId eventId (Some body)))"

definition strict_Verify :: "('d, 't, 'r) StrictServerImpl \<Rightarrow> VerifyParams \<Rightarrow> 'd serve" where
  "strict_Verify si params =
     strictRun si (VisitVerifyResponse (si_json si)) (Verify_handler (si_ipLit si) (si_uni si) (si_store si) params)"

end
