(* ===== verification/Api_Routes.thy ===== *)
theory Api_Routes
  imports Api_Http
begin

text \<open>
  The binding of parameters and the routes of \<open>internal/api/oapi/server.gen.go\<close>, and \<open>NewServer\<close>: the limit on bodies,
  around the authentication middleware, around the routed handlers.
\<close>

section \<open>Parameters\<close>

definition RequiredParamError :: "string \<Rightarrow> string" where
  "RequiredParamError paramName = ''Query argument '' @ paramName @ '' is required, but not found''"

definition InvalidParamFormatError :: "string \<Rightarrow> string \<Rightarrow> string" where
  "InvalidParamFormatError paramName e = ''Invalid format for parameter '' @ paramName @ '': '' @ e"

text \<open>The default \<open>ErrorHandlerFunc\<close> of \<open>HandlerWithOptions\<close>.\<close>

definition paramError :: "string \<Rightarrow> httpResponse" where
  "paramError msg = http_Error msg 400"

definition queryParam ::
  "(string \<Rightarrow> (string \<times> string) list \<Rightarrow> bindError + 'a) \<Rightarrow> string \<Rightarrow> httpRequest \<Rightarrow> ('a \<Rightarrow> 'd serve) \<Rightarrow> 'd serve" where
  "queryParam bind name r k st =
     (case bind name (queryValues r) of
        Inl RequiredParameterError \<Rightarrow> (paramError (RequiredParamError name), st)
      | Inl (BindError e) \<Rightarrow> (paramError (InvalidParamFormatError name e), st)
      | Inr v \<Rightarrow> k v st)"

definition pathParam ::
  "(string \<Rightarrow> string \<Rightarrow> string + 'a) \<Rightarrow> string \<Rightarrow> (string \<times> string) list \<Rightarrow> ('a \<Rightarrow> 'd serve) \<Rightarrow> 'd serve" where
  "pathParam bind name vals k st =
     (case bind name (pathValue name vals) of
        Inl e \<Rightarrow> (paramError (InvalidParamFormatError name e), st)
      | Inr v \<Rightarrow> k v st)"

section \<open>Operations\<close>

definition siw_GetHealthz :: "('d, 't, 'r) StrictServerImpl \<Rightarrow> 'd serve" where
  "siw_GetHealthz si = strict_GetHealthz si"

definition siw_ListRemotes :: "('d, 't, 'r) StrictServerImpl \<Rightarrow> httpRequest \<Rightarrow> 'd serve" where
  "siw_ListRemotes si r =
     queryParam (bl_QueryString (si_bind si) False) ''url'' r (\<lambda>url.
     queryParam (bl_QueryInteger (si_bind si) False) ''limit'' r (\<lambda>lim.
     queryParam (bl_QueryInteger (si_bind si) False) ''cursor'' r (\<lambda>cur.
     strict_ListRemotes si url lim cur)))"

definition siw_CreateRemote :: "('d, 't, 'r) StrictServerImpl \<Rightarrow> httpRequest \<Rightarrow> 'd serve" where
  "siw_CreateRemote si r = strict_CreateRemote si r"

definition siw_DeleteRemote :: "('d, 't, 'r) StrictServerImpl \<Rightarrow> (string \<times> string) list \<Rightarrow> 'd serve" where
  "siw_DeleteRemote si vals = pathParam (bl_PathInteger (si_bind si)) ''remoteId'' vals (\<lambda>remoteId. strict_DeleteRemote si remoteId)"

definition siw_GetRemote :: "('d, 't, 'r) StrictServerImpl \<Rightarrow> (string \<times> string) list \<Rightarrow> 'd serve" where
  "siw_GetRemote si vals = pathParam (bl_PathInteger (si_bind si)) ''remoteId'' vals (\<lambda>remoteId. strict_GetRemote si remoteId)"

definition siw_UpdateRemote :: "('d, 't, 'r) StrictServerImpl \<Rightarrow> httpRequest \<Rightarrow> (string \<times> string) list \<Rightarrow> 'd serve" where
  "siw_UpdateRemote si r vals =
     pathParam (bl_PathInteger (si_bind si)) ''remoteId'' vals (\<lambda>remoteId. strict_UpdateRemote si r remoteId)"

definition siw_TriggerSync :: "('d, 't, 'r) StrictServerImpl \<Rightarrow> (string \<times> string) list \<Rightarrow> 'd serve" where
  "siw_TriggerSync si vals = pathParam (bl_PathInteger (si_bind si)) ''remoteId'' vals (\<lambda>remoteId. strict_TriggerSync si remoteId)"

definition siw_ListSyncs :: "('d, 't, 'r) StrictServerImpl \<Rightarrow> httpRequest \<Rightarrow> (string \<times> string) list \<Rightarrow> 'd serve" where
  "siw_ListSyncs si r vals =
     pathParam (bl_PathInteger (si_bind si)) ''remoteId'' vals (\<lambda>remoteId.
     queryParam (bl_QueryInteger (si_bind si) False) ''limit'' r (\<lambda>lim.
     queryParam (bl_QueryInteger (si_bind si) False) ''cursor'' r (\<lambda>cur.
     strict_ListSyncs si remoteId lim cur)))"

definition siw_ListTags :: "('d, 't, 'r) StrictServerImpl \<Rightarrow> httpRequest \<Rightarrow> (string \<times> string) list \<Rightarrow> 'd serve" where
  "siw_ListTags si r vals =
     pathParam (bl_PathInteger (si_bind si)) ''remoteId'' vals (\<lambda>remoteId.
     queryParam (bl_QueryString (si_bind si) False) ''q'' r (\<lambda>q.
     queryParam (bl_QueryString (si_bind si) False) ''tainted'' r (\<lambda>tainted.
     queryParam (bl_QueryInteger (si_bind si) False) ''limit'' r (\<lambda>lim.
     queryParam (bl_QueryInteger (si_bind si) False) ''cursor'' r (\<lambda>cur.
     strict_ListTags si remoteId \<lparr>Ltp_Q = q, Ltp_Tainted = tainted, Ltp_Limit = lim, Ltp_Cursor = cur\<rparr>)))))"

definition siw_GetTag :: "('d, 't, 'r) StrictServerImpl \<Rightarrow> (string \<times> string) list \<Rightarrow> 'd serve" where
  "siw_GetTag si vals =
     pathParam (bl_PathInteger (si_bind si)) ''remoteId'' vals (\<lambda>remoteId.
     pathParam (bl_PathString (si_bind si)) ''tagName'' vals (\<lambda>tagName.
     strict_GetTag si remoteId tagName))"

definition siw_ListTaintEvents :: "('d, 't, 'r) StrictServerImpl \<Rightarrow> httpRequest \<Rightarrow> (string \<times> string) list \<Rightarrow> 'd serve" where
  "siw_ListTaintEvents si r vals =
     pathParam (bl_PathInteger (si_bind si)) ''remoteId'' vals (\<lambda>remoteId.
     queryParam (bl_QueryInteger (si_bind si) False) ''limit'' r (\<lambda>lim.
     queryParam (bl_QueryInteger (si_bind si) False) ''cursor'' r (\<lambda>cur.
     strict_ListTaintEvents si remoteId lim cur)))"

definition siw_AckTaintEvent ::
  "('d, 't, 'r) StrictServerImpl \<Rightarrow> string option \<Rightarrow> httpRequest \<Rightarrow> (string \<times> string) list \<Rightarrow> 'd serve" where
  "siw_AckTaintEvent si prin r vals =
     pathParam (bl_PathInteger (si_bind si)) ''remoteId'' vals (\<lambda>remoteId.
     pathParam (bl_PathInteger (si_bind si)) ''eventId'' vals (\<lambda>eventId.
     strict_AckTaintEvent si prin r remoteId eventId))"

text \<open>A required parameter that the binder leaves unset keeps its zero value.\<close>

definition siw_Verify :: "('d, 't, 'r) StrictServerImpl \<Rightarrow> httpRequest \<Rightarrow> 'd serve" where
  "siw_Verify si r =
     queryParam (bl_QueryString (si_bind si) True) ''remote'' r (\<lambda>remote.
     queryParam (bl_QueryString (si_bind si) True) ''tag'' r (\<lambda>tag.
     queryParam (bl_QueryString (si_bind si) False) ''commit'' r (\<lambda>commit.
     strict_Verify si \<lparr>Vp_Remote = strDeref remote, Vp_Tag = strDeref tag, Vp_Commit = commit\<rparr>)))"

section \<open>Routes\<close>

definition apiRoutes :: "(string \<times> string) list" where
  "apiRoutes =
     [(''GetHealthz'', ''GET /healthz''),
      (''ListRemotes'', ''GET /v1/remotes''),
      (''CreateRemote'', ''POST /v1/remotes''),
      (''DeleteRemote'', ''DELETE /v1/remotes/{remoteId}''),
      (''GetRemote'', ''GET /v1/remotes/{remoteId}''),
      (''UpdateRemote'', ''PATCH /v1/remotes/{remoteId}''),
      (''TriggerSync'', ''POST /v1/remotes/{remoteId}/sync''),
      (''ListSyncs'', ''GET /v1/remotes/{remoteId}/syncs''),
      (''ListTags'', ''GET /v1/remotes/{remoteId}/tags''),
      (''GetTag'', ''GET /v1/remotes/{remoteId}/tags/{tagName}''),
      (''ListTaintEvents'', ''GET /v1/remotes/{remoteId}/taint-events''),
      (''AckTaintEvent'', ''POST /v1/remotes/{remoteId}/taint-events/{eventId}/ack''),
      (''Verify'', ''GET /v1/verify'')]"

text \<open>The method of the wrapper that a route is registered with.\<close>

definition serveOperation ::
  "('d, 't, 'r) StrictServerImpl \<Rightarrow> string option \<Rightarrow> httpRequest \<Rightarrow> (string \<times> string) list \<Rightarrow> string \<Rightarrow> 'd serve" where
  "serveOperation si prin r vals operation =
     (if operation = ''GetHealthz'' then siw_GetHealthz si
      else if operation = ''ListRemotes'' then siw_ListRemotes si r
      else if operation = ''CreateRemote'' then siw_CreateRemote si r
      else if operation = ''DeleteRemote'' then siw_DeleteRemote si vals
      else if operation = ''GetRemote'' then siw_GetRemote si vals
      else if operation = ''UpdateRemote'' then siw_UpdateRemote si r vals
      else if operation = ''TriggerSync'' then siw_TriggerSync si vals
      else if operation = ''ListSyncs'' then siw_ListSyncs si r vals
      else if operation = ''ListTags'' then siw_ListTags si r vals
      else if operation = ''GetTag'' then siw_GetTag si vals
      else if operation = ''ListTaintEvents'' then siw_ListTaintEvents si r vals
      else if operation = ''AckTaintEvent'' then siw_AckTaintEvent si prin r vals
      else siw_Verify si r)"

definition oapi_Handler :: "('d, 't, 'r) StrictServerImpl \<Rightarrow> 'd serverState handler" where
  "oapi_Handler si prin r st =
     (let table = map parsePattern apiRoutes in
      case findHandler table r of
        Matched operation vals \<Rightarrow> serveOperation si prin r vals operation st
      | Redirect _ \<Rightarrow> (si_redirect si r, st)
      | MethodNotAllowed \<Rightarrow> (http_MethodNotAllowed table r, st)
      | NotFound \<Rightarrow> (http_NotFound, st))"

section \<open>The server\<close>

definition maxRequestBodyBytes :: nat where
  "maxRequestBodyBytes = 1048576"

definition limitBody :: "(httpRequest \<Rightarrow> 's \<Rightarrow> httpResponse \<times> 's) \<Rightarrow> httpRequest \<Rightarrow> 's \<Rightarrow> httpResponse \<times> 's" where
  "limitBody next r = next (r\<lparr>rq_BodyLimit := Some maxRequestBodyBytes\<rparr>)"

definition NewServer ::
  "('d, 't, 'r) StrictServerImpl \<Rightarrow> bcryptLib \<Rightarrow> ('set, 'key, 'alg, 'net) jwxLib \<Rightarrow> 'alg Authenticator \<Rightarrow>
   err + (int \<Rightarrow> httpRequest \<Rightarrow> 'net authState \<times> 'd serverState \<Rightarrow> httpResponse \<times> 'net authState \<times> 'd serverState)" where
  "NewServer si bc jx authn =
     (case Middleware (Authenticate bc jx authn) (Challenge authn) of
        Inl e \<Rightarrow> Inl e
      | Inr middleware \<Rightarrow> Inr (\<lambda>now. limitBody (middleware (oapi_Handler si) now)))"

section \<open>What a request can change\<close>

definition same_state :: "'d serverState \<Rightarrow> 'd serverState \<Rightarrow> bool" where
  "same_state st st' \<longleftrightarrow> w_db (ss_world st') = w_db (ss_world st) \<and> ss_lastForcedNS st' = ss_lastForcedNS st \<and>
     ss_started st' = ss_started st"

lemma same_state_refl [simp]: "same_state st st"
  by (simp add: same_state_def)

text \<open>A predicate on the states before and after, preserved by the combinators of the layer.\<close>

named_theorems serve_intros \<open>rules for \<open>serve_keeps\<close>\<close>

definition serve_keeps :: "('d serverState \<Rightarrow> 'd serverState \<Rightarrow> bool) \<Rightarrow> 'd serve \<Rightarrow> bool" where
  "serve_keeps R f \<longleftrightarrow> (\<forall>st. R st (snd (f st)))"

lemma keepsD: "serve_keeps R f \<Longrightarrow> f st = (resp, st') \<Longrightarrow> R st st'"
  by (metis serve_keeps_def snd_conv)

lemma keeps_queryParam [serve_intros]: "(\<And>st. R st st) \<Longrightarrow> (\<And>v. serve_keeps R (k v)) \<Longrightarrow> serve_keeps R (queryParam bind name r k)"
  by (auto simp: serve_keeps_def queryParam_def split: sum.splits bindError.splits)

lemma keeps_pathParam [serve_intros]: "(\<And>st. R st st) \<Longrightarrow> (\<And>v. serve_keeps R (k v)) \<Longrightarrow> serve_keeps R (pathParam bind name vals k)"
  by (auto simp: serve_keeps_def pathParam_def split: sum.splits)

lemma keeps_decodeBody [serve_intros]: "(\<And>st. R st st) \<Longrightarrow> (\<And>v. serve_keeps R (k v)) \<Longrightarrow> serve_keeps R (decodeBody decode r k)"
  by (auto simp: serve_keeps_def decodeBody_def split: sum.splits)

lemma keeps_strictRun: "(\<And>st. R st (st\<lparr>ss_world := snd (m (ss_world st))\<rparr>)) \<Longrightarrow> serve_keeps R (strictRun si visit m)"
  by (simp add: serve_keeps_def strictRun_def split: prod.splits) (metis snd_conv)

lemma keeps_reads: "readsT m \<Longrightarrow> serve_keeps same_state (strictRun si visit m)"
  by (rule keeps_strictRun) (simp add: same_state_def readsT_snd)

text \<open>The reading operations, over the SQLite store.\<close>

lemmas siw_read_defs = siw_GetHealthz_def siw_ListRemotes_def siw_GetRemote_def siw_ListSyncs_def siw_ListTags_def
  siw_GetTag_def siw_ListTaintEvents_def siw_Verify_def
  strict_GetHealthz_def GetHealthz_handler_def strict_ListRemotes_def strict_GetRemote_def strict_ListSyncs_def strict_ListTags_def
  strict_GetTag_def strict_ListTaintEvents_def strict_Verify_def

lemma reading_operations:
  assumes "si_store si = leaseStore"
  shows "serve_keeps same_state (siw_GetHealthz si)" "serve_keeps same_state (siw_ListRemotes si r)" "serve_keeps same_state (siw_GetRemote si vals)"
    "serve_keeps same_state (siw_ListSyncs si r vals)" "serve_keeps same_state (siw_ListTags si r vals)" "serve_keeps same_state (siw_GetTag si vals)"
    "serve_keeps same_state (siw_ListTaintEvents si r vals)" "serve_keeps same_state (siw_Verify si r)"
  unfolding siw_read_defs assms
  by (intro serve_intros keeps_reads handlers_read readsT_basic same_state_refl)+

text \<open>The others change the administration only, and \<open>TriggerSync\<close> not even that.\<close>

definition admin_state :: "db serverState \<Rightarrow> db serverState \<Rightarrow> bool" where
  "admin_state st st' \<longleftrightarrow> (sync_ok (w_db (ss_world st)) \<longrightarrow> admin (w_db (ss_world st)) (w_db (ss_world st')))"

lemma admin_state_refl: "admin_state st st"
  by (simp add: admin_state_def admin_refl)

lemma same_admin: "serve_keeps same_state f \<Longrightarrow> serve_keeps admin_state f"
  by (simp add: serve_keeps_def same_state_def admin_state_def admin_refl)

lemma keeps_admin: "adminT m \<Longrightarrow> serve_keeps admin_state (strictRun si visit m)"
  by (rule keeps_strictRun) (simp add: admin_state_def adminT_snd)

lemma keeps_TriggerSync:
  assumes "si_store si = leaseStore"
  shows "serve_keeps admin_state (strict_TriggerSync si i)"
proof -
  have "w_db (ss_world (snd (strict_TriggerSync si i st))) = w_db (ss_world st)" for st
    using readsT_snd [OF handlers_read(7), of "si_hasSyncer si" i "ss_lastForcedNS st" "ss_world st"] assms
    by (auto simp: strict_TriggerSync_def split: prod.splits sum.splits)
  then show ?thesis by (simp add: serve_keeps_def admin_state_def admin_refl)
qed

lemma writing_operations:
  assumes "si_store si = leaseStore"
  shows "serve_keeps admin_state (siw_CreateRemote si r)" "serve_keeps admin_state (siw_DeleteRemote si vals)"
    "serve_keeps admin_state (siw_UpdateRemote si r vals)" "serve_keeps admin_state (siw_TriggerSync si vals)"
    "serve_keeps admin_state (siw_AckTaintEvent si prin r vals)"
proof -
  have upd: "serve_keeps admin_state (strictRun si visit (UpdateRemote_handler leaseStore i req))" for visit i req
    by (rule keeps_strictRun) (simp add: admin_state_def admin_UpdateRemote_handler sync_okD(3))
  show "serve_keeps admin_state (siw_CreateRemote si r)" "serve_keeps admin_state (siw_DeleteRemote si vals)"
    "serve_keeps admin_state (siw_UpdateRemote si r vals)" "serve_keeps admin_state (siw_TriggerSync si vals)"
    "serve_keeps admin_state (siw_AckTaintEvent si prin r vals)"
    unfolding siw_CreateRemote_def siw_DeleteRemote_def siw_UpdateRemote_def siw_TriggerSync_def siw_AckTaintEvent_def
      strict_CreateRemote_def strict_DeleteRemote_def strict_UpdateRemote_def strict_AckTaintEvent_def assms
    by (intro serve_intros admin_state_refl upd keeps_TriggerSync [OF assms]
        keeps_admin [OF admin_CreateRemote_handler] keeps_admin [OF admin_DeleteRemote_handler]
        keeps_admin [OF admin_AckTaintEvent_handler])+
qed

section \<open>The control routes are the routes of the writing operations\<close>

definition controlOps :: "string list" where
  "controlOps = [''CreateRemote'', ''UpdateRemote'', ''DeleteRemote'', ''TriggerSync'', ''AckTaintEvent'']"

lemma serveOperation_reads:
  assumes "si_store si = leaseStore" and "operation \<notin> set controlOps"
  shows "serve_keeps same_state (serveOperation si prin r vals operation)"
  using assms(2) by (auto simp: serveOperation_def controlOps_def reading_operations [OF assms(1)])

lemma serveOperation_admin:
  assumes "si_store si = leaseStore"
  shows "serve_keeps admin_state (serveOperation si prin r vals operation)"
  by (simp add: serveOperation_def reading_operations [OF assms, THEN same_admin] writing_operations [OF assms])

text \<open>A route of such an operation is, but for its name, in the table of the middleware.\<close>

lemma control_table:
  "ro \<in> set (map parsePattern apiRoutes) \<Longrightarrow> ro_Operation ro \<in> set controlOps \<Longrightarrow>
   \<exists>c \<in> set controlTable. ro_Method c = ro_Method ro \<and> ro_Segments c = ro_Segments ro"
proof -
  have "list_all (\<lambda>ro. ro_Operation ro \<in> set controlOps \<longrightarrow>
      list_ex (\<lambda>c. ro_Method c = ro_Method ro \<and> ro_Segments c = ro_Segments ro) controlTable) (map parsePattern apiRoutes)"
    by code_simp
  then show "ro \<in> set (map parsePattern apiRoutes) \<Longrightarrow> ro_Operation ro \<in> set controlOps \<Longrightarrow> ?thesis"
    by (auto simp: list_all_iff list_ex_iff)
qed

lemma control_gated:
  assumes "findHandler (map parsePattern apiRoutes) r = Matched operation vals" and "operation \<in> set controlOps"
  shows "gated r"
proof -
  let ?path = "if rq_Method r = ''CONNECT'' then rq_Path r else cleanPath (rq_Path r)"
  from assms(1) have path: "?path = rq_Path r" and m: "matchMethod (map parsePattern apiRoutes) (rq_Method r) ?path = Some (operation, vals)"
    by (auto simp: findHandler_def Let_def split: if_splits option.splits)
  then consider "matchRoute (map parsePattern apiRoutes) (rq_Method r) (rq_Path r) = Some (operation, vals)"
    | "matchRoute (map parsePattern apiRoutes) ''GET'' (rq_Path r) = Some (operation, vals)"
    by (auto simp: matchMethod_def split: option.splits if_splits)
  then obtain ro where ro: "ro \<in> set (map parsePattern apiRoutes)" "ro_Operation ro = operation"
      "matchPath (ro_Segments ro) (rq_Path r) \<noteq> None" "ro_Method ro = rq_Method r \<or> ro_Method ro = ''GET''"
    by cases (auto dest!: matchRoute_Some)
  with control_table assms(2) obtain c where c: "c \<in> set controlTable" "ro_Method c = ro_Method ro" "ro_Segments c = ro_Segments ro"
    by metis
  then have "ro_Method ro \<noteq> ''GET''" by (auto simp: controlTable_eq)
  with c ro have "matchRoute controlTable (rq_Method r) (rq_Path r) \<noteq> None"
    by (intro matchRoute_found [of c]) auto
  then have "matchMethod controlTable (rq_Method r) ?path \<noteq> None" using path by (auto simp: matchMethod_def split: option.splits)
  then show ?thesis using path by (auto simp: gated_def findHandler_def matchedOp_def Let_def split: option.splits)
qed

section \<open>The whole server\<close>

lemma findHandler_limit [simp]: "findHandler table (r\<lparr>rq_BodyLimit := l\<rparr>) = findHandler table r"
  by (simp add: findHandler_def)

lemma gated_limit [simp]: "gated (r\<lparr>rq_BodyLimit := l\<rparr>) = gated r"
  by (simp add: gated_def)

lemma credentials_limit:
  "presentedAPIKey (r\<lparr>rq_BodyLimit := l\<rparr>) = presentedAPIKey r" "BasicAuth (r\<lparr>rq_BodyLimit := l\<rparr>) = BasicAuth r"
  "bearerOnly (r\<lparr>rq_BodyLimit := l\<rparr>) = bearerOnly r"
  by (simp_all add: presentedAPIKey_def BasicAuth_def bearerOnly_def Let_def)

lemma Authenticate_limit [simp]: "Authenticate bc jx authn now (r\<lparr>rq_BodyLimit := l\<rparr>) s = Authenticate bc jx authn now r s"
  by (cases authn) (simp_all add: Authenticate_def apiKeyAuth_Authenticate_def basicAuth_Authenticate_def
      jwksAuth_Authenticate_def credentials_limit)

lemma NewServer_gate:
  "NewServer si bc jx authn =
     Inr (\<lambda>now. limitBody (gate (Authenticate bc jx authn) (Challenge authn) (oapi_Handler si) now))"
  by (simp add: NewServer_def Middleware_gate)

lemma oapi_Handler_reads:
  assumes "si_store si = leaseStore" and "oapi_Handler si prin r st = (resp, st')" and "\<not> gated r"
  shows "same_state st st'"
  using assms(2)
proof (cases "findHandler (map parsePattern apiRoutes) r")
  case (Matched operation vals)
  with control_gated assms(3) have "operation \<notin> set controlOps" by blast
  from keepsD [OF serveOperation_reads [OF assms(1) this]] Matched assms(2) show ?thesis by (simp add: oapi_Handler_def)
qed (auto simp: oapi_Handler_def)

lemma oapi_Handler_admin:
  assumes "si_store si = leaseStore" and "oapi_Handler si prin r st = (resp, st')"
  shows "admin_state st st'"
  using assms(2) keepsD [OF serveOperation_admin [OF assms(1)]]
  by (auto simp: oapi_Handler_def admin_state_refl Let_def split: muxResult.splits)

end
