(* ===== verification/Auth_Props.thy ===== *)
theory Auth_Props
  imports Api_Routes Scenario
begin

text \<open>
  The properties of authentication and of the routed server: who can change the state through HTTP, and which
  credentials are accepted under a configuration.
\<close>

section \<open>A small server\<close>

text \<open>For the examples: a codec and a binder that suffice for the requests below, and toy credential libraries.\<close>

definition auth_bc :: bcryptLib where
  "auth_bc = \<lparr>bc_Cost = (\<lambda>h. h \<noteq> []), bc_CompareHashAndPassword = (\<lambda>h p. h = p)\<rparr>"

text \<open>
  A token of the toy library is \<open>alg.kid.sub\<close>; a key is its id with its algorithm; the network serves one key after the
  first fetch.
\<close>

definition auth_jx :: "((string \<times> string) list, string \<times> string, string, nat) jwxLib" where
  "auth_jx =
     \<lparr>jx_NewCache = (\<lambda>n. (None, n)), jx_Register = (\<lambda>_ _ _ n. (None, n)),
      jx_Lookup = (\<lambda>_ n. if n = 0 then Inl (ErrText ''not ready'') else Inr [(''k1'', ''ES256''), (''k2'', ''HS256'')]),
      jx_Refresh = (\<lambda>_ n. (Inr [(''k1'', ''ES256''), (''k2'', ''HS256'')], Suc n)), jx_Ready = (\<lambda>_ n. n \<noteq> 0),
      jx_NewSet = [], jx_Len = length, jx_Key = (\<lambda>ks i. if i < length ks then Some (ks ! i) else None),
      jx_LookupKeyID = (\<lambda>ks kid. find (\<lambda>k. fst k = kid) ks), jx_AddKey = (\<lambda>ks k. Some (ks @ [k])),
      jx_KeyAlgorithm = (\<lambda>k. Some (snd k)),
      jx_LookupSignatureAlgorithm = (\<lambda>a. if a \<in> set [''RS256'', ''ES256'', ''HS256''] then Some a else None),
      jx_RS256 = ''RS256'', jx_ES256 = ''ES256'', jx_AlgString = id, jx_IsSymmetric = (\<lambda>a. a = ''HS256''),
      jx_JwsParse = (\<lambda>t. case SplitByte (CHR ''.'') t of [a, k, _] \<Rightarrow> Some [(Some a, Some k)] | _ \<Rightarrow> None),
      jx_JwtParse = (\<lambda>ks iss aud _ _ t. case SplitByte (CHR ''.'') t of
          [a, k, u] \<Rightarrow> if (k, a) \<in> set ks then Some (Some u) else None | _ \<Rightarrow> None)\<rparr>"

definition auth_json :: jsonLib where
  "auth_json =
     \<lparr>jl_CreateRemoteRequest = (\<lambda>_. Inr demo_create), jl_UpdateRemoteRequest = (\<lambda>_. Inl (False, [])), jl_AckRequest = (\<lambda>_. Inl (False, [])),
      jl_Remote = (\<lambda>_. Inr ''{}''), jl_RemoteList = (\<lambda>_. Inr ''{}''), jl_SyncAuditList = (\<lambda>_. Inr ''{}''), jl_Tag = (\<lambda>_. Inr ''{}''),
      jl_TagList = (\<lambda>_. Inr ''{}''), jl_TaintEventList = (\<lambda>_. Inr ''{}''), jl_VerifyResponse = (\<lambda>_. Inr ''{}''), jl_Error = (\<lambda>_. Inr ''{}'')\<rparr>"

definition auth_bind :: bindLib where
  "auth_bind =
     \<lparr>bl_QueryString = (\<lambda>_ name q. Inr (map_of q name)), bl_QueryInteger = (\<lambda>_ _ _. Inr None),
      bl_PathInteger = (\<lambda>_ v. case parseID v of Inl _ \<Rightarrow> Inl ''not an integer'' | Inr n \<Rightarrow> Inr n), bl_PathString = (\<lambda>_ v. Inr v)\<rparr>"

definition auth_si :: "(db, sqliteTx, unit) StrictServerImpl" where
  "auth_si =
     \<lparr>si_store = leaseStore, si_hasSyncer = True, si_errText = (\<lambda>_. ''error''), si_ipLit = (\<lambda>_. None), si_uni = id, si_bind = auth_bind,
      si_json = auth_json, si_redirect = (\<lambda>_. http_Error ''redirect'' 307)\<rparr>"

definition auth_users :: "string Authenticator" where
  "auth_users = HTTPBasicAuth \<lparr>ba_users = [(''ci'', ''pw'')]\<rparr>"

definition auth_state :: "nat authState" where
  "auth_state = \<lparr>as_lastOnDemand = None, as_net = 0\<rparr>"

definition auth_start :: "db serverState" where
  "auth_start = \<lparr>ss_world = demo_world demo_db, ss_lastForcedNS = (\<lambda>_. None), ss_started = []\<rparr>"

definition auth_request :: "string \<Rightarrow> string \<Rightarrow> string \<Rightarrow> httpRequest" where
  "auth_request method path credentials =
     \<lparr>rq_Method = method, rq_Path = path, rq_RawQuery = [], rq_Authorization = credentials, rq_XAPIKey = [], rq_Body = [],
      rq_BodyLimit = None\<rparr>"

definition auth_serve :: "httpRequest \<Rightarrow> httpResponse \<times> nat authState \<times> db serverState" where
  "auth_serve r = projr (NewServer auth_si auth_bc auth_jx auth_users) 0 r (auth_state, auth_start)"

section \<open>Changes need credentials\<close>

text \<open>A request to remove the remote 1, with and without the password.\<close>

lemma auth_removes:
  fixes r :: httpRequest
  defines "r \<equiv> auth_request ''DELETE'' ''/v1/remotes/1'' ''Basic Y2k6cHc=''"
  shows "Authenticate auth_bc auth_jx auth_users 0 r auth_state = (Inr ''basic:ci'', auth_state)"
    and "auth_serve r = (\<lparr>rs_Status = 204, rs_Header = [], rs_Body = []\<rparr>, auth_state,
      auth_start\<lparr>ss_world := snd (DeleteRemote_handler leaseStore 1 (demo_world demo_db))\<rparr>)"
proof -
  have route: "findHandler (map parsePattern apiRoutes) r = Matched ''DeleteRemote'' [(''remoteId'', ''1'')]" and gated: "gated r"
    unfolding r_def by code_simp+
  have "basicAuth_Authenticate auth_bc \<lparr>ba_users = [(''ci'', ''pw'')]\<rparr> r = Inr ''basic:ci''" unfolding r_def by code_simp
  then show ok: "Authenticate auth_bc auth_jx auth_users 0 r auth_state = (Inr ''basic:ci'', auth_state)"
    by (simp add: Authenticate_def auth_users_def)
  have del: "fst (DeleteRemote_handler leaseStore 1 (demo_world demo_db)) = Inr DeleteRemote204Response" by code_simp
  have one: "parseID ''1'' = Inr 1" by code_simp
  have "oapi_Handler auth_si (Some ''basic:ci'') (r\<lparr>rq_BodyLimit := Some maxRequestBodyBytes\<rparr>) auth_start =
      (\<lparr>rs_Status = 204, rs_Header = [], rs_Body = []\<rparr>, auth_start\<lparr>ss_world := snd (DeleteRemote_handler leaseStore 1 (demo_world demo_db))\<rparr>)"
    using del one route
    by (cases "DeleteRemote_handler leaseStore 1 (demo_world demo_db)")
      (simp add: oapi_Handler_def serveOperation_def siw_DeleteRemote_def pathParam_def pathValue_def auth_bind_def auth_si_def
        strict_DeleteRemote_def strictRun_def VisitDeleteRemoteResponse_def emptyResponse_def auth_start_def)
  then show "auth_serve r = (\<lparr>rs_Status = 204, rs_Header = [], rs_Body = []\<rparr>, auth_state,
      auth_start\<lparr>ss_world := snd (DeleteRemote_handler leaseStore 1 (demo_world demo_db))\<rparr>)"
    using ok gated by (simp add: auth_serve_def NewServer_gate limitBody_def authn.gate_eq)
qed

lemma auth_changed: "\<not> same_state auth_start (auth_start\<lparr>ss_world := snd (DeleteRemote_handler leaseStore 1 (demo_world demo_db))\<rparr>)"
proof -
  have "map Rrem_RemovedAtNs (t_remotes (w_db (snd (DeleteRemote_handler leaseStore 1 (demo_world demo_db))))) \<noteq>
      map Rrem_RemovedAtNs (t_remotes demo_db)" by code_simp
  then show ?thesis by (auto simp: same_state_def auth_start_def demo_world_def)
qed

lemma auth_server: "NewServer auth_si auth_bc auth_jx auth_users = Inr (projr (NewServer auth_si auth_bc auth_jx auth_users))"
  by (simp add: NewServer_gate)

lemma server_admits:
  assumes "si_store si = leaseStore" and "NewServer si bc jx authn = Inr server"
    and "server now r (s, st) = (resp, s', st')"
  shows "(\<not> same_state st st' \<longrightarrow> gated r \<and> (\<exists>p. Authenticate bc jx authn now r s = (Inr p, s') \<and> p \<noteq> [])) \<and>
    (\<forall>e. gated r \<and> fst (Authenticate bc jx authn now r s) = Inl e \<longrightarrow>
       resp = writeUnauthorized (Challenge authn) \<and> st' = st)"
proof -
  let ?r = "r\<lparr>rq_BodyLimit := Some maxRequestBodyBytes\<rparr>"
  have run: "gate (Authenticate bc jx authn) (Challenge authn) (oapi_Handler si) now ?r (s, st) = (resp, s', st')"
    using assms(2,3) by (auto simp: NewServer_gate limitBody_def)
  from authn.admitted [OF run] oapi_Handler_reads [OF assms(1), of None ?r st resp st'] show ?thesis
    by (auto simp: same_state_refl)
qed

text \<open>C27: every request that changes the database, the cooldown map or the syncs started is one to a control route
  whose credentials the configured authenticator accepted; a refused request leaves all three as they were and gets the
  same 401 response whatever the cause.\<close>

theorem changes_need_credentials:
  assumes "si_store si = leaseStore" and "NewServer si bc jx authn = Inr server"
    and "server now r (s, st) = (resp, s', st')"
  shows "(\<not> same_state st st' \<longrightarrow> gated r \<and> (\<exists>p. Authenticate bc jx authn now r s = (Inr p, s') \<and> p \<noteq> [])) \<and>
    (\<forall>e. gated r \<and> fst (Authenticate bc jx authn now r s) = Inl e \<longrightarrow>
       resp = writeUnauthorized (Challenge authn) \<and> st' = st)"
  using assms by (rule server_admits)

theorem changes_need_credentials_witness:
  "(\<exists>st. snd (snd (auth_serve (auth_request ''DELETE'' ''/v1/remotes/1'' ''Basic Y2k6cHc=''))) = st \<and> \<not> same_state auth_start st \<and>
      gated (auth_request ''DELETE'' ''/v1/remotes/1'' ''Basic Y2k6cHc='')) \<and>
   (case auth_serve (auth_request ''DELETE'' ''/v1/remotes/1'' ''Basic eHg='') of
      (resp, _, st) \<Rightarrow> resp = writeUnauthorized (Challenge auth_users) \<and> st = auth_start)"
proof -
  let ?bad = "auth_request ''DELETE'' ''/v1/remotes/1'' ''Basic eHg=''"
  have si: "si_store auth_si = leaseStore" by (simp add: auth_si_def)
  obtain resp s' st where bad: "auth_serve ?bad = (resp, s', st)" by (cases "auth_serve ?bad")
  have "gated ?bad" "basicAuth_Authenticate auth_bc \<lparr>ba_users = [(''ci'', ''pw'')]\<rparr> ?bad = Inl errMissingCredential" by code_simp+
  then show ?thesis
    using changes_need_credentials [OF si auth_server, of 0 ?bad auth_state auth_start resp s' st] bad
      changes_need_credentials [OF si auth_server auth_removes(2) [unfolded auth_serve_def]] auth_removes(2) auth_changed
    by (auto simp: auth_serve_def Authenticate_def auth_users_def)
qed

text \<open>C28: no request, authenticated or not, breaks the database: its invariant is kept, the ledger and the taint events
  only grow, and a tainted tag stays tainted.\<close>

theorem requests_keep_database:
  assumes "si_store si = leaseStore" and "NewServer si bc jx authn = Inr server"
    and "server now r (s, st) = (resp, s', st')" and "sync_ok (w_db (ss_world st))"
  shows "sync_ok (w_db (ss_world st')) \<and> history (w_db (ss_world st)) (w_db (ss_world st')) \<and>
    (tainted_at rid tag (w_db (ss_world st)) \<longrightarrow> tainted_at rid tag (w_db (ss_world st')))"
proof -
  let ?r = "r\<lparr>rq_BodyLimit := Some maxRequestBodyBytes\<rparr>"
  have run: "gate (Authenticate bc jx authn) (Challenge authn) (oapi_Handler si) now ?r (s, st) = (resp, s', st')"
    using assms(2,3) by (auto simp: NewServer_gate limitBody_def)
  from authn.admitted [OF run] oapi_Handler_admin [OF assms(1), of _ ?r st resp st'] have "admin_state st st'"
    by (auto simp: admin_state_refl)
  with assms(4) show ?thesis by (simp add: admin_state_def admin_def tainted_at_def ref_at_def)
qed

theorem requests_keep_database_witness:
  "case auth_serve (auth_request ''DELETE'' ''/v1/remotes/1'' ''Basic Y2k6cHc='') of
     (_, _, st) \<Rightarrow> sync_ok (w_db (ss_world st)) \<and> history demo_db (w_db (ss_world st)) \<and> \<not> same_state auth_start st"
proof -
  have si: "si_store auth_si = leaseStore" by (simp add: auth_si_def)
  have ok: "sync_ok (w_db (ss_world auth_start))" by (simp add: auth_start_def demo_world_def demo_ok(1))
  have db: "w_db (ss_world auth_start) = demo_db" by (simp add: auth_start_def demo_world_def)
  show ?thesis
    using requests_keep_database [OF si auth_server auth_removes(2) [unfolded auth_serve_def] ok] auth_removes(2) auth_changed db by simp
qed

section \<open>Which credentials\<close>

text \<open>C29: under a configuration with API keys, a request is accepted exactly if it presents a key whose SHA-256 digest is
  that of a listed key or a listed digest; with HTTP Basic users, only if \<open>bcrypt\<close> accepts its password for a hash that is
  listed for its user.\<close>

theorem only_configured_credentials:
  assumes "FromConfig bc jx cfg net = (Inr authn, net')"
  shows "(cfg_AuthMode cfg = AuthModeAPIKey \<longrightarrow>
      ((\<exists>p s'. Authenticate bc jx authn now r s = (Inr p, s')) \<longleftrightarrow> presentedAPIKey r \<noteq> [] \<and>
       sha256 (bytes_of_string (presentedAPIKey r)) \<in> acceptedDigests (splitList (cfg_APIKeys cfg)) (splitList (cfg_APIKeysSHA256 cfg)))) \<and>
    (cfg_AuthMode cfg = AuthModeBasic \<longrightarrow> Authenticate bc jx authn now r s = (Inr p, s') \<longrightarrow>
      (\<exists>user pass hash entry. BasicAuth r = Some (user, pass) \<and> bc_CompareHashAndPassword bc hash pass \<and> bc_Cost bc hash \<and>
         entry \<in> set (splitList (cfg_BasicAuth cfg)) \<and> CutByte (CHR '':'') (strings_TrimSpace entry) = (user, hash) \<and>
         p = ''basic:'' @ user))"
proof (intro conjI impI)
  assume "cfg_AuthMode cfg = AuthModeAPIKey"
  with assms obtain a where "newAPIKeyAuth (splitList (cfg_APIKeys cfg)) (splitList (cfg_APIKeysSHA256 cfg)) = Inr a" "authn = APIKeyAuth a"
    by (cases "newAPIKeyAuth (splitList (cfg_APIKeys cfg)) (splitList (cfg_APIKeysSHA256 cfg))")
      (auto simp: FromConfig_def modeOf_def model_defs Let_def)
  with newAPIKeyAuth_digests show "(\<exists>p s'. Authenticate bc jx authn now r s = (Inr p, s')) \<longleftrightarrow> presentedAPIKey r \<noteq> [] \<and>
      sha256 (bytes_of_string (presentedAPIKey r)) \<in> acceptedDigests (splitList (cfg_APIKeys cfg)) (splitList (cfg_APIKeysSHA256 cfg))"
    by (auto simp: Authenticate_def apiKeyAuth_accepts)
next
  assume mode: "cfg_AuthMode cfg = AuthModeBasic" and ok: "Authenticate bc jx authn now r s = (Inr p, s')"
  with assms obtain a where "newBasicAuth bc (splitList (cfg_BasicAuth cfg)) = Inr a" "authn = HTTPBasicAuth a"
    by (cases "newBasicAuth bc (splitList (cfg_BasicAuth cfg))") (auto simp: FromConfig_def modeOf_def model_defs Let_def)
  then have "addUsers bc [] (splitList (cfg_BasicAuth cfg)) = Inr (ba_users a)" and "basicAuth_Authenticate bc a r = Inr p"
    using ok by (auto simp: newBasicAuth_def thenE_Inr Authenticate_def split: if_splits)
  with addUsers_listed [of bc "[]"] show "\<exists>user pass hash entry. BasicAuth r = Some (user, pass) \<and>
      bc_CompareHashAndPassword bc hash pass \<and> bc_Cost bc hash \<and> entry \<in> set (splitList (cfg_BasicAuth cfg)) \<and>
      CutByte (CHR '':'') (strings_TrimSpace entry) = (user, hash) \<and> p = ''basic:'' @ user"
    by (fastforce simp: basicAuth_accepts)
qed

text \<open>Configurations as they are read from the environment.\<close>

definition auth_config :: "(string \<times> string) list \<Rightarrow> Config" where
  "auth_config environ = projr (Load (map_of ((''GT_SQLITE_PATH'', ''gt.db'') # environ)))"

definition auth_keys :: Config where
  "auth_keys = auth_config [(''GT_AUTH_MODE'', ''apikey''), (''GT_API_KEYS'', '' abc ,'')]"

definition auth_basic :: Config where
  "auth_basic = auth_config [(''GT_AUTH_MODE'', ''basic''), (''GT_BASIC_AUTH'', ''dev:x, ci:pw'')]"

theorem only_configured_credentials_witness:
  "(\<exists>authn p s'. FromConfig auth_bc auth_jx auth_keys 0 = (Inr authn, 0) \<and>
      Authenticate auth_bc auth_jx authn 0 (auth_request ''POST'' ''/v1/remotes'' ''bearer abc'') auth_state = (Inr p, s')) \<and>
   (\<exists>authn user pass hash. FromConfig auth_bc auth_jx auth_basic 0 = (Inr authn, 0) \<and>
      BasicAuth (auth_request ''POST'' ''/v1/remotes'' ''Basic Y2k6cHc='') = Some (user, pass) \<and> bc_CompareHashAndPassword auth_bc hash pass)"
proof -
  let ?key = "auth_request ''POST'' ''/v1/remotes'' ''bearer abc''" and ?user = "auth_request ''POST'' ''/v1/remotes'' ''Basic Y2k6cHc=''"
  have mode: "cfg_AuthMode auth_keys = AuthModeAPIKey" "cfg_AuthMode auth_basic = AuthModeBasic" by code_simp+
  have lists: "splitList (cfg_APIKeys auth_keys) = [''abc'']" "splitList (cfg_APIKeysSHA256 auth_keys) = []"
    "splitList (cfg_BasicAuth auth_basic) = [''dev:x'', ''ci:pw'']" by code_simp+
  have key: "presentedAPIKey ?key = ''abc''" "strings_TrimSpace ''abc'' = ''abc''" by code_simp+
  define ak :: "string Authenticator" where "ak = APIKeyAuth \<lparr>ak_digests = [sha256 (bytes_of_string ''abc'')]\<rparr>"
  define ba :: "string Authenticator" where "ba = HTTPBasicAuth \<lparr>ba_users = [(''dev'', ''x''), (''ci'', ''pw'')]\<rparr>"
  have ak: "FromConfig auth_bc auth_jx auth_keys 0 = (Inr ak, 0)"
    using mode(1) key(2) by (simp add: FromConfig_def modeOf_def model_defs newAPIKeyAuth_def lists addRawKey_def addDigest_def ak_def)
  have "newBasicAuth auth_bc [''dev:x'', ''ci:pw''] = Inr \<lparr>ba_users = [(''dev'', ''x''), (''ci'', ''pw'')]\<rparr>" by code_simp
  then have ba: "FromConfig auth_bc auth_jx auth_basic 0 = (Inr ba, 0)"
    using mode(2) by (simp add: FromConfig_def modeOf_def model_defs lists ba_def)
  have "basicAuth_Authenticate auth_bc \<lparr>ba_users = [(''dev'', ''x''), (''ci'', ''pw'')]\<rparr> ?user = Inr ''basic:ci''" by code_simp
  then have user: "Authenticate auth_bc auth_jx ba 0 ?user auth_state = (Inr ''basic:ci'', auth_state)" by (simp add: Authenticate_def ba_def)
  have "\<exists>p s'. Authenticate auth_bc auth_jx ak 0 ?key auth_state = (Inr p, s')"
    using only_configured_credentials [OF ak, of 0 ?key auth_state] mode(1) key lists by (auto simp: acceptedDigests_def)
  then show ?thesis
    using only_configured_credentials [OF ba, of 0 ?user auth_state] mode(2) user ak ba by blast
qed

text \<open>C30: under a configuration with a key set, a token is accepted only if it has exactly one signature, whose
  algorithm is asymmetric, not \<open>none\<close> and listed, and if the JWT library accepts it for the configured issuer and audience
  with a set of keys all of which declare a listed algorithm; and no listed algorithm is symmetric, unless the list is the
  default one.\<close>

theorem tokens_need_listed_algorithm:
  assumes "FromConfig bc jx cfg net = (Inr authn, net')" and "cfg_AuthMode cfg = AuthModeJWKS"
    and "Authenticate bc jx authn now r s = (Inr p, s')"
  shows "\<exists>algs token alg kid keys verifyKeys sub. parseAlgs jx (cfg_JWTAlgs cfg) = Inr algs \<and>
    (algs = [jx_RS256 jx, jx_ES256 jx] \<or> (\<forall>a \<in> set algs. \<not> jx_IsSymmetric jx a)) \<and>
    token = bearerOnly r \<and> jx_JwsParse jx token = Some [(Some alg, kid)] \<and> \<not> jx_IsSymmetric jx alg \<and>
    jx_AlgString jx alg \<noteq> ''none'' \<and> jx_AlgString jx alg \<in> jx_AlgString jx ` set algs \<and>
    added jx (jx_NewSet jx) keys verifyKeys \<and>
    (\<forall>key \<in> set keys. \<exists>a \<in> set algs. jx_KeyAlgorithm jx key = Some (jx_AlgString jx a)) \<and>
    jx_JwtParse jx verifyKeys (cfg_JWTIssuer cfg) (cfg_JWTAudience cfg) jwtSkew now token = Some sub \<and>
    p = ''jwt:'' @ strDeref sub"
proof -
  from assms(1,2) obtain algs where algs: "parseAlgs jx (cfg_JWTAlgs cfg) = Inr algs"
    by (cases "parseAlgs jx (cfg_JWTAlgs cfg)") (auto simp: FromConfig_def modeOf_def model_defs Let_def split: if_splits)
  then have a: "authn = JWKSAuth (newJWKSAuthWithKeySet jx (cfg_JWKSURL cfg) (cfg_JWTIssuer cfg) (cfg_JWTAudience cfg) algs)"
    using assms(1,2) by (auto simp: FromConfig_def modeOf_def model_defs newJWKSAuth_def Let_def split: if_splits prod.splits option.splits)
  have "jwksAuth_Authenticate jx (newJWKSAuthWithKeySet jx (cfg_JWKSURL cfg) (cfg_JWTIssuer cfg) (cfg_JWTAudience cfg) algs) now r s = (Inr p, s')"
    using assms(3) by (simp add: a Authenticate_def)
  from jwksAuth_accepts [OF this] parseAlgs_asymmetric [OF algs] algs show ?thesis
    by (fastforce simp: newJWKSAuthWithKeySet_def strDeref_def)
qed

definition auth_tokens :: Config where
  "auth_tokens = auth_config [(''GT_AUTH_MODE'', ''jwks''), (''GT_JWKS_URL'', ''https://idp/keys''), (''GT_JWT_ISSUER'', ''idp''),
     (''GT_JWT_AUDIENCE'', ''gt''), (''GT_JWT_ALGS'', ''ES256'')]"

theorem tokens_need_listed_algorithm_witness:
  "\<exists>authn alg kid. FromConfig auth_bc auth_jx auth_tokens 0 = (Inr authn, 0) \<and> parseAlgs auth_jx (cfg_JWTAlgs auth_tokens) = Inr [''ES256''] \<and>
     Authenticate auth_bc auth_jx authn 0 (auth_request ''POST'' ''/v1/remotes'' ''Bearer ES256.k1.ci'') auth_state =
       (Inr ''jwt:ci'', \<lparr>as_lastOnDemand = Some 0, as_net = 1\<rparr>) \<and>
     jx_JwsParse auth_jx ''ES256.k1.ci'' = Some [(Some alg, kid)] \<and> jx_AlgString auth_jx alg = ''ES256''"
proof -
  let ?r = "auth_request ''POST'' ''/v1/remotes'' ''Bearer ES256.k1.ci''"
  define a where "a = newJWKSAuthWithKeySet auth_jx ''https://idp/keys'' ''idp'' ''gt'' [''ES256'']"
  have mode: "cfg_AuthMode auth_tokens = AuthModeJWKS" and algs: "parseAlgs auth_jx (cfg_JWTAlgs auth_tokens) = Inr [''ES256'']"
    and fields: "cfg_JWKSURL auth_tokens = ''https://idp/keys''" "cfg_JWTIssuer auth_tokens = ''idp''" "cfg_JWTAudience auth_tokens = ''gt''"
    by code_simp+
  have trim: "strings_TrimSpace ''https://idp/keys'' \<noteq> []" "strings_TrimSpace ''idp'' \<noteq> []" "strings_TrimSpace ''gt'' \<noteq> []" by code_simp+
  have "newJWKSAuth auth_jx ''https://idp/keys'' ''idp'' ''gt'' [''ES256''] 0 = (Inr a, 0)"
    by (simp add: newJWKSAuth_def auth_jx_def a_def)
  then have from_config: "FromConfig auth_bc auth_jx auth_tokens 0 = (Inr (JWKSAuth a), 0)"
    using mode algs fields trim by (simp add: FromConfig_def modeOf_def model_defs)
  have "jwksAuth_Authenticate auth_jx a 0 ?r auth_state = (Inr ''jwt:ci'', \<lparr>as_lastOnDemand = Some 0, as_net = 1\<rparr>)"
    unfolding a_def by code_simp
  then have run: "Authenticate auth_bc auth_jx (JWKSAuth a) 0 ?r auth_state = (Inr ''jwt:ci'', \<lparr>as_lastOnDemand = Some 0, as_net = 1\<rparr>)"
    by (simp add: Authenticate_def)
  obtain algs' alg kid where parsed: "parseAlgs auth_jx (cfg_JWTAlgs auth_tokens) = Inr algs'"
      and alg: "jx_JwsParse auth_jx (bearerOnly ?r) = Some [(Some alg, kid)]" "jx_AlgString auth_jx alg \<in> jx_AlgString auth_jx ` set algs'"
    using tokens_need_listed_algorithm [OF from_config mode run] by blast
  have "algs' = [''ES256'']" using parsed algs by simp
  moreover have "bearerOnly ?r = ''ES256.k1.ci''" by code_simp
  ultimately have "jx_JwsParse auth_jx ''ES256.k1.ci'' = Some [(Some alg, kid)]" "jx_AlgString auth_jx alg = ''ES256''"
    using alg by (simp_all add: auth_jx_def)
  with from_config run algs show ?thesis by blast
qed

text \<open>The keys are fetched on demand at most once a minute, however many tokens name an unknown key.\<close>

theorem key_fetches_are_spaced:
  assumes "FromConfig bc jx cfg net = (Inr (JWKSAuth a), net')"
  shows "sorted_wrt (\<lambda>t u. t + onDemandMinInterval \<le> u) (fetchTimes jx a reqs s)"
proof -
  have "ja_onDemandEvery a = onDemandMinInterval"
    using assms by (auto simp: FromConfig_def newJWKSAuth_def newJWKSAuthWithKeySet_def newAPIKeyAuth_def newBasicAuth_def
        Let_def thenE_def map_sum_def split: if_splits sum.splits prod.splits option.splits)
  then show ?thesis using fetchTimes_spaced [of a jx reqs s] by blast
qed

end
