(* ===== verification/Ctl_Client.thy ===== *)
theory Ctl_Client
  imports Auth Go_Flag Seed
begin

text \<open>
  The HTTP client of the operator's command \<open>git-tainted-ctl\<close> (\<open>cmd/git-tainted-ctl/client.go\<close>): exit codes,
  credentials, requests, the guard on the server URL and the wire types. Outside are the network (a state
  transformer, so that a server can be put behind it), JSON, \<open>time.ParseDuration\<close>, non-ASCII text, \<open>strconv.Quote\<close>
  and the text of an error. The field \<open>httpClient\<close> is set only by tests.
\<close>

section \<open>Exit codes\<close>

definition exitOK :: int where "exitOK = 0"
definition exitUsage :: int where "exitUsage = 2"
definition exitNotFound :: int where "exitNotFound = 3"
definition exitUnauth :: int where "exitUnauth = 4"
definition exitConflict :: int where "exitConflict = 5"
definition exitServerError :: int where "exitServerError = 6"

lemmas exit_defs = exitOK_def exitUsage_def exitNotFound_def exitUnauth_def exitConflict_def exitServerError_def

definition httpStatusToExitCode :: "int \<Rightarrow> int" where
  "httpStatusToExitCode status =
     (if status = 200 \<or> status = 201 \<or> status = 202 \<or> status = 204 then exitOK
      else if status = 404 then exitNotFound
      else if status = 401 \<or> status = 403 then exitUnauth
      else if status = 409 then exitConflict
      else if status \<ge> 500 then exitServerError
      else exitUsage)"

section \<open>Wire types\<close>

record ctlRemote =
  cwr_ID :: int64
  cwr_URL :: string
  cwr_NormalizedURL :: string
  cwr_Transport :: string
  cwr_SyncIntervalNS :: int64
  cwr_StalenessBudgetNS :: int64
  cwr_TaintAnyTagDeletion :: bool
  cwr_HashAlgo :: "string option"
  cwr_Status :: string
  cwr_LastOKNS :: int64
  cwr_LastErr :: string
  cwr_ConsecutiveFailures :: int64
  cwr_ChainLen :: int64
  cwr_RemovedAtNS :: "int64 option"
  cwr_CreatedAtNS :: int64
  cwr_UpdatedAtNS :: int64

text \<open>The list types differ in their items only.\<close>

record 'i ctlList =
  cwl_Items :: "'i list"
  cwl_NextCursor :: "int64 option"

record ctlTag =
  cwt_ID :: int64
  cwt_RemoteID :: int64
  cwt_TagName :: string
  cwt_CurrentOID :: "string option"
  cwt_CurrentPeeledOID :: "string option"
  cwt_IsAnnotated :: bool
  cwt_FirstOID :: "string option"
  cwt_FirstSeenNS :: int64
  cwt_LastSeenNS :: int64
  cwt_LastChangedNS :: int64
  cwt_Deleted :: bool
  cwt_Tainted :: bool
  cwt_TaintFirstNS :: "int64 option"
  cwt_ObservationCount :: int64

record ctlTaintEvent =
  cwe_ID :: int64
  cwe_RemoteID :: int64
  cwe_RefID :: int64
  cwe_Reason :: string
  cwe_ObservationID :: "int64 option"
  cwe_FromOID :: "string option"
  cwe_ToOID :: "string option"
  cwe_DetectedAtNS :: int64
  cwe_AckedAtNS :: "int64 option"
  cwe_AckedBy :: "string option"
  cwe_AckNote :: "string option"
  cwe_Detail :: string

record ctlSyncEntry =
  cws_ID :: int64
  cws_RemoteID :: int64
  cws_Trigger :: string
  cws_StartedNS :: int64
  cws_FinishedNS :: int64
  cws_Status :: string
  cws_TagsSeen :: int64
  cws_TagsChanged :: int64
  cws_Error :: string
  cws_ChainHeadBefore :: "string option"
  cws_ChainHeadAfter :: "string option"

record ctlCreateRemoteReq =
  cwc_URL :: string
  cwc_Transport :: string
  cwc_SyncIntervalNS :: "int64 option"
  cwc_TaintAnyTagDeletion :: "bool option"

record ctlUpdateRemoteReq =
  cwu_SyncIntervalNS :: "int64 option"
  cwu_StalenessBudgetNS :: "int64 option"
  cwu_Status :: "string option"

record ctlAckReq =
  cwa_AckedBy :: string
  cwa_AckNote :: string

section \<open>Libraries\<close>

text \<open>JSON of the wire types: \<open>Marshal\<close> of the requests, \<open>Unmarshal\<close> and the indenting encoder of the answers.\<close>

record ctlJson =
  cj_CreateRemoteReq :: "ctlCreateRemoteReq \<Rightarrow> err + string"
  cj_UpdateRemoteReq :: "ctlUpdateRemoteReq \<Rightarrow> err + string"
  cj_AckReq :: "ctlAckReq \<Rightarrow> err + string"
  cj_decodeError :: "string \<Rightarrow> err + string"
  cj_decodeRemote :: "string \<Rightarrow> err + ctlRemote"
  cj_decodeRemotes :: "string \<Rightarrow> err + ctlRemote ctlList"
  cj_decodeTags :: "string \<Rightarrow> err + ctlTag ctlList"
  cj_decodeTaintEvents :: "string \<Rightarrow> err + ctlTaintEvent ctlList"
  cj_decodeSyncs :: "string \<Rightarrow> err + ctlSyncEntry ctlList"
  cj_Remote :: "ctlRemote \<Rightarrow> err + string"
  cj_Remotes :: "ctlRemote ctlList \<Rightarrow> err + string"
  cj_Tags :: "ctlTag ctlList \<Rightarrow> err + string"
  cj_TaintEvents :: "ctlTaintEvent ctlList \<Rightarrow> err + string"
  cj_Syncs :: "ctlSyncEntry ctlList \<Rightarrow> err + string"

record ctlLib =
  ct_host :: hostLib
  ct_lowerUni :: "string \<Rightarrow> string"     \<comment> \<open>\<open>strings.ToLower\<close> of text that is not ASCII\<close>
  ct_runesUni :: "string \<Rightarrow> nat"        \<comment> \<open>\<open>utf8.RuneCountInString\<close> of text that is not ASCII\<close>
  ct_ParseDuration :: "string \<Rightarrow> err + Duration"
  ct_Quote :: "string \<Rightarrow> string"        \<comment> \<open>\<open>%q\<close>\<close>
  ct_errText :: "err \<Rightarrow> string"
  ct_json :: ctlJson

section \<open>Environment and server URL\<close>

definition ctl_envValue :: "string list \<Rightarrow> string \<Rightarrow> string" where
  "ctl_envValue environ key =
     (let pre = key @ ''='' in
      case find (\<lambda>e. HasPrefix e pre) environ of None \<Rightarrow> [] | Some e \<Rightarrow> drop (length pre) e)"

definition ctl_envBool :: "ctlLib \<Rightarrow> string list \<Rightarrow> string \<Rightarrow> bool" where
  "ctl_envBool lib environ key \<longleftrightarrow>
     strings_ToLower (ct_lowerUni lib) (strings_TrimSpace (ctl_envValue environ key)) \<in> set [''1'', ''true'', ''yes'', ''on'']"

definition ctl_isLoopbackHost :: "hostLib \<Rightarrow> string \<Rightarrow> bool" where
  "ctl_isLoopbackHost lib host \<longleftrightarrow>
     (if list_all isASCII host then ToLower host = ''localhost'' else hl_eqFold lib host) \<or> hl_loopIP lib host"

definition ctl_checkServerURL :: "ctlLib \<Rightarrow> string \<Rightarrow> bool \<Rightarrow> err option" where
  "ctl_checkServerURL lib raw insecure =
     (case url_Parse (hl_ipLit (ct_host lib)) raw of
        None \<Rightarrow> Some (ErrText (''invalid server URL '' @ ct_Quote lib raw))
      | Some u \<Rightarrow>
          if url_Host u = [] then Some (ErrText (''invalid server URL '' @ ct_Quote lib raw))
          else if url_Scheme u = ''https'' then None
          else if url_Scheme u = ''http'' then
            (if insecure \<or> ctl_isLoopbackHost (ct_host lib) (Hostname u) then None
             else Some (ErrText (''refusing plaintext server '' @ ct_Quote lib raw @ '' over the network '' @
               [CHR 0xE2, CHR 0x80, CHR 0x94] @ '' use https:// or pass --insecure'')))
          else Some (ErrText (''server URL '' @ ct_Quote lib raw @ '' must be http or https'')))"

section \<open>Credentials\<close>

datatype authMode = authNone | authAPIKey | authToken | authBasic

record authCreds =
  ac_mode :: authMode
  ac_value :: string

definition resolveAuth :: "string \<Rightarrow> string \<Rightarrow> string \<Rightarrow> string list \<Rightarrow> authCreds" where
  "resolveAuth apiKeyFlag tokenFlag basicFlag environ =
     (if apiKeyFlag \<noteq> [] then \<lparr>ac_mode = authAPIKey, ac_value = apiKeyFlag\<rparr>
      else if tokenFlag \<noteq> [] then \<lparr>ac_mode = authToken, ac_value = tokenFlag\<rparr>
      else if basicFlag \<noteq> [] then \<lparr>ac_mode = authBasic, ac_value = basicFlag\<rparr>
      else
      let v = ctl_envValue environ ''GT_API_KEY'' in if v \<noteq> [] then \<lparr>ac_mode = authAPIKey, ac_value = v\<rparr>
      else
      let v = ctl_envValue environ ''GT_TOKEN'' in if v \<noteq> [] then \<lparr>ac_mode = authToken, ac_value = v\<rparr>
      else
      let v = ctl_envValue environ ''GT_BASIC_AUTH'' in if v \<noteq> [] then \<lparr>ac_mode = authBasic, ac_value = v\<rparr>
      else \<lparr>ac_mode = authNone, ac_value = []\<rparr>)"

text \<open>\<open>base64.StdEncoding.EncodeToString\<close>.\<close>

definition base64Char :: "nat \<Rightarrow> char" where
  "base64Char n =
     (if n < 26 then char_of (65 + n) else if n < 52 then char_of (71 + n) else if n < 62 then char_of (n - 4)
      else if n = 62 then CHR ''+'' else CHR ''/'')"

fun base64_EncodeToString :: "string \<Rightarrow> string" where
  "base64_EncodeToString [] = []"
| "base64_EncodeToString [a] =
     (let x = of_char a in [base64Char (x div 4), base64Char (16 * (x mod 4)), CHR ''='', CHR ''=''])"
| "base64_EncodeToString [a, b] =
     (let x = of_char a; y = of_char b in
      [base64Char (x div 4), base64Char (16 * (x mod 4) + y div 16), base64Char (4 * (y mod 16)), CHR ''=''])"
| "base64_EncodeToString (a # b # c # s) =
     (let x = of_char a; y = of_char b; z = of_char c in
      base64Char (x div 4) # base64Char (16 * (x mod 4) + y div 16) # base64Char (4 * (y mod 16) + z div 64) #
      base64Char (z mod 64) # base64_EncodeToString s)"

text \<open>A request of the client; an absent header is empty.\<close>

record ctlRequest =
  cr_Method :: string
  cr_URL :: string
  cr_Authorization :: string
  cr_XAPIKey :: string
  cr_ContentType :: string
  cr_Accept :: string
  cr_Body :: string

definition applyAuth :: "authCreds \<Rightarrow> ctlRequest \<Rightarrow> ctlRequest" where
  "applyAuth a req =
     (case ac_mode a of
        authAPIKey \<Rightarrow> req\<lparr>cr_Authorization := ''Bearer '' @ ac_value a, cr_XAPIKey := ac_value a\<rparr>
      | authToken \<Rightarrow> req\<lparr>cr_Authorization := ''Bearer '' @ ac_value a\<rparr>
      | authBasic \<Rightarrow> req\<lparr>cr_Authorization := ''Basic '' @ base64_EncodeToString (ac_value a)\<rparr>
      | authNone \<Rightarrow> req)"

section \<open>Requests\<close>

text \<open>A status, and the body or the error with which reading it ends.\<close>

record ctlReply =
  cy_Status :: int
  cy_Body :: "err + string"

type_synonym 's ctlNet = "Duration \<Rightarrow> ctlRequest \<Rightarrow> 's \<Rightarrow> (err + ctlReply) \<times> 's"

record ctlClient =
  cc_server :: string
  cc_auth :: authCreds
  cc_timeout :: Duration

text \<open>\<open>client.do\<close>; the body is given as the result of \<open>json.Marshal\<close>, and \<open>None\<close> is no body.\<close>

definition ctl_do ::
  "ctlLib \<Rightarrow> 's ctlNet \<Rightarrow> ctlClient \<Rightarrow> string \<Rightarrow> string \<Rightarrow> (err + string) option \<Rightarrow> 's \<Rightarrow> (err + ctlReply) \<times> 's" where
  "ctl_do lib net c method path body s =
     (let rawURL = TrimRightSlash (cc_server c) @ path in
      case body of
        Some (Inl e) \<Rightarrow> (Inl (ErrText (''marshalling request: '' @ ct_errText lib e)), s)
      | _ \<Rightarrow>
          if url_Parse (hl_ipLit (ct_host lib)) rawURL = None then (Inl (ErrText ''building request''), s)
          else
          let req = applyAuth (cc_auth c)
                \<lparr>cr_Method = method, cr_URL = rawURL, cr_Authorization = [], cr_XAPIKey = [],
                 cr_ContentType = (if body = None then [] else ''application/json''), cr_Accept = ''application/json'',
                 cr_Body = (case body of Some (Inr b) \<Rightarrow> b | _ \<Rightarrow> [])\<rparr> in
          (case net (cc_timeout c) req s of
             (Inl e, s) \<Rightarrow> (Inl (ErrText (''calling server: '' @ ct_errText lib e)), s)
           | (Inr resp, s) \<Rightarrow> (Inr resp, s)))"

text \<open>
  \<open>client.doJSON\<close>: the exit code, the body and the decoded value, which is \<open>None\<close> unless the status is 2xx. Without
  a value to fill, \<open>decode\<close> accepts everything.
\<close>

definition doJSON ::
  "ctlLib \<Rightarrow> 's ctlNet \<Rightarrow> ctlClient \<Rightarrow> string \<Rightarrow> string \<Rightarrow> (err + string) option \<Rightarrow> (string \<Rightarrow> err + 'a) \<Rightarrow> 's \<Rightarrow>
   (err + int \<times> string \<times> 'a option) \<times> 's" where
  "doJSON lib net c method path reqBody decode s =
     (case ctl_do lib net c method path reqBody s of
        (Inl e, s) \<Rightarrow> (Inl e, s)
      | (Inr resp, s) \<Rightarrow>
          ((case cy_Body resp of
              Inl e \<Rightarrow> Inl (ErrText (''reading response: '' @ ct_errText lib e))
            | Inr rawBody \<Rightarrow>
                let code = httpStatusToExitCode (cy_Status resp) in
                if cy_Status resp div 100 = 2 then
                  (case decode rawBody of
                     Inl e \<Rightarrow> Inl (ErrText (''parsing response: '' @ ct_errText lib e))
                   | Inr v \<Rightarrow> Inr (code, rawBody, Some v))
                else Inr (code, rawBody, None)), s))"

definition apiError :: "ctlLib \<Rightarrow> string \<Rightarrow> string" where
  "apiError lib rawBody =
     (case cj_decodeError (ct_json lib) rawBody of
        Inr e \<Rightarrow> if e \<noteq> [] then e else if rawBody \<noteq> [] then rawBody else ''unknown error''
      | Inl _ \<Rightarrow> if rawBody \<noteq> [] then rawBody else ''unknown error'')"

section \<open>The server reads the credentials back\<close>

lemma base64Digit_Char: "n < 64 \<Longrightarrow> base64Digit (base64Char n) = Some n"
  by (auto simp: base64Char_def base64Digit_def Let_def)

lemma base64Char_plain: "n < 64 \<Longrightarrow> base64Char n \<noteq> CHR ''='' \<and> base64Char n \<noteq> CHR 0x0A \<and> base64Char n \<noteq> CHR 0x0D"
  using base64Digit_Char [of n] by (auto simp: base64Digit_def Let_def)

lemma pack_bits:
  fixes k m b :: nat
  assumes "m < b"
  shows "(b * k + m) div b = k" "(b * k + m) mod b = m"
  using assms by simp_all

lemma base64_bits:
  fixes x y z :: nat
  assumes "x < 256" "y < 256" "z < 256"
  shows "x div 4 < 64" "16 * (x mod 4) < 64" "16 * (x mod 4) + y div 16 < 64" "4 * (y mod 16) < 64"
    "4 * (y mod 16) + z div 64 < 64" "z mod 64 < 64" "y div 16 < 16" "z div 64 < 4"
  using assms by linarith+

text \<open>The bytes of a quantum from its digits.\<close>

lemma base64_bytes:
  fixes a b c :: char
  defines "x \<equiv> of_char a :: nat" and "y \<equiv> of_char b :: nat" and "z \<equiv> of_char c :: nat"
  shows "char_of (4 * (x div 4) + (16 * (x mod 4)) div 16) = a"
    "char_of (4 * (x div 4) + (16 * (x mod 4) + y div 16) div 16) = a"
    "char_of (16 * ((16 * (x mod 4) + y div 16) mod 16) + (4 * (y mod 16)) div 4) = b"
    "char_of (16 * ((16 * (x mod 4) + y div 16) mod 16) + (4 * (y mod 16) + z div 64) div 4) = b"
    "char_of (64 * ((4 * (y mod 16) + z div 64) mod 4) + z mod 64) = c"
proof -
  have small: "y div 16 < 16" "z div 64 < 4"
    using base64_bits(7,8) nat_of_char_less_256 unfolding y_def z_def by blast+
  note packed = pack_bits [OF small(1), of "x mod 4"] pack_bits [OF small(2), of "y mod 16"]
  have bytes: "char_of x = a" "char_of y = b" "char_of z = c" by (simp_all add: x_def y_def z_def)
  show "char_of (4 * (x div 4) + (16 * (x mod 4)) div 16) = a"
    "char_of (4 * (x div 4) + (16 * (x mod 4) + y div 16) div 16) = a"
    unfolding packed by (simp_all add: bytes)
  show "char_of (16 * ((16 * (x mod 4) + y div 16) mod 16) + (4 * (y mod 16)) div 4) = b"
    "char_of (16 * ((16 * (x mod 4) + y div 16) mod 16) + (4 * (y mod 16) + z div 64) div 4) = b"
    unfolding packed by (simp_all add: bytes)
  show "char_of (64 * ((4 * (y mod 16) + z div 64) mod 4) + z mod 64) = c"
    unfolding packed by (simp add: bytes)
qed

lemmas quantum_simps = base64Digit_Char base64Char_plain option.case prod.case if_True if_False simp_thms option.map

lemma base64_decode: "decodeQuanta (base64_EncodeToString s) = Some s"
proof (induction s rule: base64_EncodeToString.induct)
  case (2 a)
  have byte: "(of_char a :: nat) < 256" by (rule nat_of_char_less_256)
  from base64_bits(1,2) [OF byte byte byte] show ?case
    unfolding base64_EncodeToString.simps Let_def decodeQuanta.simps by (simp only: quantum_simps base64_bytes)
next
  case (3 a b)
  have byte: "(of_char a :: nat) < 256" "(of_char b :: nat) < 256" by (rule nat_of_char_less_256)+
  from base64_bits(1,3,4) [OF byte byte(2)] show ?case
    unfolding base64_EncodeToString.simps Let_def decodeQuanta.simps by (simp only: quantum_simps base64_bytes)
next
  case (4 a b c s)
  have byte: "(of_char a :: nat) < 256" "(of_char b :: nat) < 256" "(of_char c :: nat) < 256" by (rule nat_of_char_less_256)+
  from base64_bits(1,3,5,6) [OF byte] 4 show ?case
    unfolding base64_EncodeToString.simps Let_def decodeQuanta.simps by (simp only: quantum_simps base64_bytes)
qed simp

lemma base64_no_breaks: "filter (\<lambda>c. c \<noteq> CHR 0x0A \<and> c \<noteq> CHR 0x0D) (base64_EncodeToString s) = base64_EncodeToString s"
proof (induction s rule: base64_EncodeToString.induct)
  case (2 a)
  note b = base64_bits [of "of_char a" 0 0]
  show ?case using b by (simp add: Let_def base64Char_plain)
next
  case (3 a b)
  note b = base64_bits [of "of_char a" "of_char b" 0]
  show ?case using b by (simp add: Let_def base64Char_plain)
next
  case (4 a b c s)
  note b = base64_bits [of "of_char a" "of_char b" "of_char c"]
  show ?case using b 4 by (simp add: Let_def base64Char_plain)
qed simp

lemma base64_roundtrip: "base64_DecodeString (base64_EncodeToString s) = Some s"
  by (simp add: base64_DecodeString_def base64_no_breaks base64_decode)

end
