(* ===== verification/Ctl.thy ===== *)
theory Ctl
  imports Ctl_Client
begin

text \<open>
  The commands of \<open>git-tainted-ctl\<close> (\<open>cmd/git-tainted-ctl/commands.go\<close>, \<open>main.go\<close>). A command gives the exit code and
  what was written, and passes on the state of the network. The usage texts are known by their first line;
  the text that \<open>strconv.ParseInt\<close> adds to a diagnostic is left out.
\<close>

datatype ctlOutput = CtlOut string | CtlErr string

type_synonym ctlResult = "int \<times> ctlOutput list"

definition nl1 :: string where "nl1 = [CHR 0x0A]"

section \<open>Arguments\<close>

fun separateLoop :: "string list \<Rightarrow> string list \<Rightarrow> string list \<Rightarrow> string list" where
  "separateLoop flags positionals [] = flags @ positionals"
| "separateLoop flags positionals (a # args) =
     (if HasPrefix a ''-'' then
        (if CHR ''='' \<notin> set a \<and> args \<noteq> [] \<and> \<not> HasPrefix (hd args) ''-''
         then separateLoop (flags @ [a, hd args]) positionals (tl args)
         else separateLoop (flags @ [a]) positionals args)
      else separateLoop flags (positionals @ [a]) args)"

definition separateFlags :: "string list \<Rightarrow> string list" where
  "separateFlags args = separateLoop [] [] args"

text \<open>The last value that a flag was set to.\<close>

definition flagValue :: "(string \<times> string) list \<Rightarrow> string \<Rightarrow> string \<Rightarrow> string" where
  "flagValue sets name dflt = (case map_of (rev sets) name of None \<Rightarrow> dflt | Some v \<Rightarrow> v)"

definition flagBool :: "(string \<times> string) list \<Rightarrow> string \<Rightarrow> bool \<Rightarrow> bool" where
  "flagBool sets name dflt = (case map_of (rev sets) name of None \<Rightarrow> dflt | Some v \<Rightarrow> v = ''true'')"

definition flagInt :: "(string \<times> string) list \<Rightarrow> string \<Rightarrow> int64" where
  "flagInt sets name =
     (case map_of (rev sets) name of None \<Rightarrow> 0 | Some v \<Rightarrow> (case ParseInt0 v of None \<Rightarrow> 0 | Some n \<Rightarrow> n))"

text \<open>The start of every command: parse, or show the usage of the flag set.\<close>

definition withFlags ::
  "string \<Rightarrow> (string \<times> flagKind) list \<Rightarrow> string list \<Rightarrow>
   ((string \<times> string) list \<Rightarrow> string list \<Rightarrow> 's \<Rightarrow> ctlResult \<times> 's) \<Rightarrow> 's \<Rightarrow> ctlResult \<times> 's" where
  "withFlags name formal args k s =
     (case flagParse (map_of formal) args of
        Inl ErrHelp \<Rightarrow> ((exitOK, [CtlErr (''Usage of '' @ name)]), s)
      | Inl FlagError \<Rightarrow> ((exitUsage, [CtlErr (''Usage of '' @ name)]), s)
      | Inr (sets, rest) \<Rightarrow> k sets rest s)"

definition usageError :: "string \<Rightarrow> 's \<Rightarrow> ctlResult \<times> 's" where
  "usageError msg s = ((exitUsage, [CtlErr (''error: '' @ msg @ nl1)]), s)"

text \<open>Exactly one positional argument, a decimal number.\<close>

definition withID ::
  "ctlLib \<Rightarrow> string \<Rightarrow> string list \<Rightarrow> (int64 \<Rightarrow> 's \<Rightarrow> ctlResult \<times> 's) \<Rightarrow> 's \<Rightarrow> ctlResult \<times> 's" where
  "withID lib command rest k =
     (if length rest \<noteq> 1 then usageError (command @ '' requires exactly one argument: <id>'')
      else case ParseInt (hd rest) of
        None \<Rightarrow> usageError (''invalid id '' @ ct_Quote lib (hd rest))
      | Some i \<Rightarrow> k i)"

text \<open>
  The end of every command: an error of the client, a status that is not a success, or the decoded value. A success is
  2xx, so that there is a value then.
\<close>

definition answered ::
  "ctlLib \<Rightarrow> string \<Rightarrow> (err + int \<times> string \<times> 'a option) \<times> 's \<Rightarrow> ('a \<Rightarrow> ctlResult) \<Rightarrow> ctlResult \<times> 's" where
  "answered lib pre r k =
     (case r of (x, s) \<Rightarrow>
      (case x of
         Inl e \<Rightarrow> (exitUsage, [CtlErr (''error: '' @ ct_errText lib e @ nl1)])
       | Inr (code, rawBody, out) \<Rightarrow>
           if code \<noteq> exitOK then (code, [CtlErr (''error: '' @ pre @ apiError lib rawBody @ nl1)])
           else (case out of None \<Rightarrow> (code, []) | Some v \<Rightarrow> k v), s))"

section \<open>Output\<close>

definition ctl_writeJSON :: "ctlLib \<Rightarrow> err + string \<Rightarrow> ctlResult" where
  "ctl_writeJSON lib encoded =
     (case encoded of
        Inl e \<Rightarrow> (exitUsage, [CtlErr (''error: encoding JSON: '' @ ct_errText lib e @ nl1)])
      | Inr txt \<Rightarrow> (exitOK, [CtlOut txt]))"

text \<open>\<open>%-ws\<close> pads with spaces to \<open>w\<close> runes.\<close>

definition padRight :: "ctlLib \<Rightarrow> nat \<Rightarrow> string \<Rightarrow> string" where
  "padRight lib w s =
     (let runes = (if list_all isASCII s then length s else ct_runesUni lib s) in s @ replicate (w - runes) (CHR '' ''))"

text \<open>A line of a table: columns of given widths, two spaces apart, then the last column.\<close>

definition tableRow :: "ctlLib \<Rightarrow> (nat \<times> string) list \<Rightarrow> string \<Rightarrow> ctlOutput" where
  "tableRow lib cols lastCol = CtlOut (concat (map (\<lambda>(w, s). padRight lib w s @ ''  '') cols) @ lastCol @ nl1)"

definition printRemoteTable :: "ctlLib \<Rightarrow> ctlRemote list \<Rightarrow> ctlOutput list" where
  "printRemoteTable lib remotes =
     tableRow lib [(6, ''ID''), (8, ''STATUS''), (10, ''TRANSPORT'')] ''URL'' #
     map (\<lambda>r. tableRow lib [(6, FormatInt (cwr_ID r)), (8, cwr_Status r), (10, cwr_Transport r)] (cwr_NormalizedURL r)) remotes"

definition printSyncTable :: "ctlLib \<Rightarrow> ctlSyncEntry list \<Rightarrow> ctlOutput list" where
  "printSyncTable lib syncs =
     tableRow lib [(6, ''ID''), (8, ''STATUS''), (9, ''TRIGGER''), (4, ''SEEN''), (4, ''CHGD'')] ''STARTED'' #
     map (\<lambda>e. tableRow lib
            [(6, FormatInt (cws_ID e)), (8, cws_Status e), (9, cws_Trigger e), (4, FormatInt (cws_TagsSeen e)),
             (4, FormatInt (cws_TagsChanged e))] (RFC3339 (cws_StartedNS e))) syncs"

definition boolStr :: "bool \<Rightarrow> string" where
  "boolStr b = (if b then ''yes'' else ''no'')"

definition printTagTable :: "ctlLib \<Rightarrow> ctlTag list \<Rightarrow> ctlOutput list" where
  "printTagTable lib tags =
     tableRow lib [(6, ''ID''), (8, ''TAINTED''), (8, ''DELETED'')] ''TAG'' #
     map (\<lambda>t. tableRow lib [(6, FormatInt (cwt_ID t)), (8, boolStr (cwt_Tainted t)), (8, boolStr (cwt_Deleted t))]
            (cwt_TagName t)) tags"

definition printTaintTable :: "ctlLib \<Rightarrow> ctlTaintEvent list \<Rightarrow> ctlOutput list" where
  "printTaintTable lib events =
     tableRow lib [(6, ''ID''), (6, ''REF''), (24, ''REASON''), (26, ''DETECTED'')] ''ACKED_BY'' #
     map (\<lambda>e. tableRow lib
            [(6, FormatInt (cwe_ID e)), (6, FormatInt (cwe_RefID e)), (24, cwe_Reason e), (26, RFC3339 (cwe_DetectedAtNS e))]
            (case cwe_AckedBy e of None \<Rightarrow> ''-'' | Some b \<Rightarrow> b)) events"

text \<open>The output of a list: JSON, or the table and the next cursor.\<close>

definition showList ::
  "ctlLib \<Rightarrow> bool \<Rightarrow> ('i ctlList \<Rightarrow> err + string) \<Rightarrow> ('i list \<Rightarrow> ctlOutput list) \<Rightarrow> 'i ctlList \<Rightarrow> ctlResult" where
  "showList lib jsonFlag encode table out =
     (if jsonFlag then ctl_writeJSON lib (encode out)
      else (exitOK, table (cwl_Items out) @
        (case cwl_NextCursor out of
           None \<Rightarrow> [] | Some c \<Rightarrow> [CtlOut (''(next cursor: '' @ FormatInt c @ '')'' @ nl1)])))"

definition showRemote :: "ctlLib \<Rightarrow> bool \<Rightarrow> ctlRemote \<Rightarrow> ctlResult" where
  "showRemote lib jsonFlag out =
     (if jsonFlag then ctl_writeJSON lib (cj_Remote (ct_json lib) out) else (exitOK, printRemoteTable lib [out]))"

definition isURLSafe :: "char \<Rightarrow> bool" where
  "isURLSafe b \<longleftrightarrow> isLetter b \<or> isDigit b \<or> b \<in> set ''-_.~'' \<or> b \<in> set '':/@''"

fun urlQueryEscape :: "string \<Rightarrow> string" where
  "urlQueryEscape [] = []"
| "urlQueryEscape (b # s) =
     (if isURLSafe b then b # urlQueryEscape s
      else CHR ''%'' # upperhex ((of_char b :: nat) div 16) # upperhex ((of_char b :: nat) mod 16) # urlQueryEscape s)"

section \<open>remote\<close>

definition transportOf :: "string \<Rightarrow> string" where
  "transportOf rawURL =
     (if HasPrefix rawURL ''ssh://'' \<or> (\<not> Contains rawURL ''://'' \<and> CHR ''@'' \<in> set rawURL) then ''ssh'' else ''https'')"

text \<open>The flag \<open>--interval\<close>: absent, a duration, or a diagnostic.\<close>

definition intervalFlag :: "ctlLib \<Rightarrow> string \<Rightarrow> string + int64 option" where
  "intervalFlag lib intervalStr =
     (if intervalStr = [] then Inr None
      else case ct_ParseDuration lib intervalStr of
        Inl e \<Rightarrow> Inl (''invalid --interval '' @ ct_Quote lib intervalStr @ '': '' @ ct_errText lib e)
      | Inr d \<Rightarrow> Inr (Some d))"

definition runRemoteAdd :: "ctlLib \<Rightarrow> 's ctlNet \<Rightarrow> ctlClient \<Rightarrow> string list \<Rightarrow> 's \<Rightarrow> ctlResult \<times> 's" where
  "runRemoteAdd lib net cl args =
     withFlags ''remote add'' [(''interval'', ValueFlag), (''disabled'', BoolFlag)] (separateFlags args) (\<lambda>sets rest.
     if length rest \<noteq> 1 then usageError ''remote add requires exactly one argument: <url>''
     else
     let rawURL = hd rest in
     case intervalFlag lib (flagValue sets ''interval'' []) of
       Inl msg \<Rightarrow> usageError msg
     | Inr interval \<Rightarrow> \<lambda>s.
         let req = \<lparr>cwc_URL = rawURL, cwc_Transport = transportOf rawURL, cwc_SyncIntervalNS = interval,
                    cwc_TaintAnyTagDeletion = (if flagBool sets ''disabled'' False then Some False else None)\<rparr> in
         answered lib ''server returned error: ''
           (doJSON lib net cl ''POST'' ''/v1/remotes'' (Some (cj_CreateRemoteReq (ct_json lib) req)) (cj_decodeRemote (ct_json lib)) s)
           (\<lambda>out. (exitOK, [CtlOut (''created remote id='' @ FormatInt (cwr_ID out) @ '' url='' @ cwr_NormalizedURL out @ nl1)])))"

definition listPath :: "int64 \<Rightarrow> int64 \<Rightarrow> string" where
  "listPath lim cursor =
     ''/v1/remotes'' @ (if lim > 0 then ''?limit='' @ FormatInt lim else []) @
     (if cursor > 0 then (if lim > 0 then ''&'' else ''?'') @ ''cursor='' @ FormatInt cursor else [])"

definition runRemoteList :: "ctlLib \<Rightarrow> 's ctlNet \<Rightarrow> ctlClient \<Rightarrow> bool \<Rightarrow> string list \<Rightarrow> 's \<Rightarrow> ctlResult \<times> 's" where
  "runRemoteList lib net cl globalJSON args =
     withFlags ''remote list'' [(''json'', BoolFlag), (''limit'', IntFlag), (''cursor'', IntFlag)] args (\<lambda>sets rest s.
     answered lib []
       (doJSON lib net cl ''GET'' (listPath (flagInt sets ''limit'') (flagInt sets ''cursor'')) None (cj_decodeRemotes (ct_json lib)) s)
       (showList lib (flagBool sets ''json'' globalJSON) (cj_Remotes (ct_json lib)) (printRemoteTable lib)))"

definition remotePath :: "int64 \<Rightarrow> string" where
  "remotePath i = ''/v1/remotes/'' @ FormatInt i"

definition runRemoteGet :: "ctlLib \<Rightarrow> 's ctlNet \<Rightarrow> ctlClient \<Rightarrow> bool \<Rightarrow> string list \<Rightarrow> 's \<Rightarrow> ctlResult \<times> 's" where
  "runRemoteGet lib net cl globalJSON args =
     withFlags ''remote get'' [(''json'', BoolFlag)] (separateFlags args) (\<lambda>sets rest.
     if length rest \<noteq> 1 then usageError ''remote get requires exactly one argument: <id|url>''
     else
     let arg = hd rest; jsonFlag = flagBool sets ''json'' globalJSON in
     case ParseInt arg of
       Some i \<Rightarrow> \<lambda>s.
         answered lib [] (doJSON lib net cl ''GET'' (remotePath i) None (cj_decodeRemote (ct_json lib)) s) (showRemote lib jsonFlag)
     | None \<Rightarrow> \<lambda>s.
         answered lib []
           (doJSON lib net cl ''GET'' (''/v1/remotes?url='' @ urlQueryEscape arg) None (cj_decodeRemotes (ct_json lib)) s)
           (\<lambda>list. case cwl_Items list of
               [] \<Rightarrow> (exitNotFound, [CtlErr (''error: no remote found for url '' @ ct_Quote lib arg @ nl1)])
             | out # _ \<Rightarrow> showRemote lib jsonFlag out))"

text \<open>The flag \<open>--enabled\<close>.\<close>

definition enabledFlag :: "ctlLib \<Rightarrow> string \<Rightarrow> string + string option" where
  "enabledFlag lib enabledStr =
     (if enabledStr = [] then Inr None
      else
      let e = strings_ToLower (ct_lowerUni lib) enabledStr in
      if e \<in> set [''true'', ''1'', ''yes''] then Inr (Some ''active'')
      else if e \<in> set [''false'', ''0'', ''no''] then Inr (Some ''paused'')
      else Inl ''--enabled must be true or false'')"

definition runRemoteUpdate :: "ctlLib \<Rightarrow> 's ctlNet \<Rightarrow> ctlClient \<Rightarrow> string list \<Rightarrow> 's \<Rightarrow> ctlResult \<times> 's" where
  "runRemoteUpdate lib net cl args =
     withFlags ''remote update'' [(''interval'', ValueFlag), (''enabled'', ValueFlag)] (separateFlags args) (\<lambda>sets rest.
     withID lib ''remote update'' rest (\<lambda>i.
     case intervalFlag lib (flagValue sets ''interval'' []) of
       Inl msg \<Rightarrow> usageError msg
     | Inr interval \<Rightarrow>
         (case enabledFlag lib (flagValue sets ''enabled'' []) of
            Inl msg \<Rightarrow> usageError msg
          | Inr status \<Rightarrow>
              if interval = None \<and> status = None
              then usageError ''remote update requires at least one of --interval or --enabled''
              else (\<lambda>s.
                let req = \<lparr>cwu_SyncIntervalNS = interval, cwu_StalenessBudgetNS = None, cwu_Status = status\<rparr> in
                answered lib []
                  (doJSON lib net cl ''PATCH'' (remotePath i) (Some (cj_UpdateRemoteReq (ct_json lib) req))
                     (cj_decodeRemote (ct_json lib)) s)
                  (\<lambda>out. (exitOK, [CtlOut (''updated remote id='' @ FormatInt (cwr_ID out) @ '' status='' @ cwr_Status out @ nl1)]))))))"

definition runRemoteRm :: "ctlLib \<Rightarrow> 's ctlNet \<Rightarrow> ctlClient \<Rightarrow> string list \<Rightarrow> 's \<Rightarrow> ctlResult \<times> 's" where
  "runRemoteRm lib net cl args =
     withFlags ''remote rm'' [] (separateFlags args) (\<lambda>sets rest.
     withID lib ''remote rm'' rest (\<lambda>i s.
     answered lib [] (doJSON lib net cl ''DELETE'' (remotePath i) None (\<lambda>_. Inr ()) s)
       (\<lambda>_. (exitOK, [CtlOut (''deleted remote id='' @ FormatInt i @ nl1)]))))"

definition runRemote :: "ctlLib \<Rightarrow> 's ctlNet \<Rightarrow> ctlClient \<Rightarrow> bool \<Rightarrow> string list \<Rightarrow> 's \<Rightarrow> ctlResult \<times> 's" where
  "runRemote lib net cl globalJSON args =
     (case args of
        [] \<Rightarrow> (\<lambda>s. ((exitUsage, [CtlErr ''Usage: git-tainted-ctl remote <subcommand> [flags]'']), s))
      | sub # rest \<Rightarrow>
          if sub = ''add'' then runRemoteAdd lib net cl rest
          else if sub = ''list'' then runRemoteList lib net cl globalJSON rest
          else if sub = ''get'' then runRemoteGet lib net cl globalJSON rest
          else if sub = ''update'' then runRemoteUpdate lib net cl rest
          else if sub = ''rm'' then runRemoteRm lib net cl rest
          else (\<lambda>s. ((exitUsage, [CtlErr (''error: unknown remote subcommand '' @ ct_Quote lib sub @ nl1 @ nl1),
                                   CtlErr ''Usage: git-tainted-ctl remote <subcommand> [flags]'']), s)))"

section \<open>sync, syncs, tags\<close>

definition runSync :: "ctlLib \<Rightarrow> 's ctlNet \<Rightarrow> ctlClient \<Rightarrow> string list \<Rightarrow> 's \<Rightarrow> ctlResult \<times> 's" where
  "runSync lib net cl args =
     withFlags ''sync'' [] args (\<lambda>sets rest.
     withID lib ''sync'' rest (\<lambda>i s.
     answered lib [] (doJSON lib net cl ''POST'' (remotePath i @ ''/sync'') None (\<lambda>_. Inr ()) s)
       (\<lambda>_. (exitOK, [CtlOut (''sync queued for remote id='' @ FormatInt i @ '' (202 Accepted)'' @ nl1)]))))"

definition runSyncs :: "ctlLib \<Rightarrow> 's ctlNet \<Rightarrow> ctlClient \<Rightarrow> bool \<Rightarrow> string list \<Rightarrow> 's \<Rightarrow> ctlResult \<times> 's" where
  "runSyncs lib net cl globalJSON args =
     withFlags ''syncs'' [(''json'', BoolFlag), (''limit'', IntFlag)] (separateFlags args) (\<lambda>sets rest.
     withID lib ''syncs'' rest (\<lambda>i s.
     let lim = flagInt sets ''limit'';
         path = remotePath i @ ''/syncs'' @ (if lim > 0 then ''?limit='' @ FormatInt lim else []) in
     answered lib [] (doJSON lib net cl ''GET'' path None (cj_decodeSyncs (ct_json lib)) s)
       (showList lib (flagBool sets ''json'' globalJSON) (cj_Syncs (ct_json lib)) (printSyncTable lib))))"

definition runTags :: "ctlLib \<Rightarrow> 's ctlNet \<Rightarrow> ctlClient \<Rightarrow> bool \<Rightarrow> string list \<Rightarrow> 's \<Rightarrow> ctlResult \<times> 's" where
  "runTags lib net cl globalJSON args =
     withFlags ''tags'' [(''json'', BoolFlag)] (separateFlags args) (\<lambda>sets rest.
     withID lib ''tags'' rest (\<lambda>i s.
     answered lib [] (doJSON lib net cl ''GET'' (remotePath i @ ''/tags'') None (cj_decodeTags (ct_json lib)) s)
       (showList lib (flagBool sets ''json'' globalJSON) (cj_Tags (ct_json lib)) (printTagTable lib))))"

section \<open>taint\<close>

definition runTaintList :: "ctlLib \<Rightarrow> 's ctlNet \<Rightarrow> ctlClient \<Rightarrow> bool \<Rightarrow> string list \<Rightarrow> 's \<Rightarrow> ctlResult \<times> 's" where
  "runTaintList lib net cl globalJSON args =
     withFlags ''taint list'' [(''json'', BoolFlag)] (separateFlags args) (\<lambda>sets rest.
     withID lib ''taint list'' rest (\<lambda>i s.
     answered lib [] (doJSON lib net cl ''GET'' (remotePath i @ ''/taint-events'') None (cj_decodeTaintEvents (ct_json lib)) s)
       (showList lib (flagBool sets ''json'' globalJSON) (cj_TaintEvents (ct_json lib)) (printTaintTable lib))))"

definition runTaintAck :: "ctlLib \<Rightarrow> 's ctlNet \<Rightarrow> ctlClient \<Rightarrow> string list \<Rightarrow> 's \<Rightarrow> ctlResult \<times> 's" where
  "runTaintAck lib net cl args =
     withFlags ''taint ack'' [(''note'', ValueFlag), (''by'', ValueFlag)] (separateFlags args) (\<lambda>sets rest.
     let note1 = flagValue sets ''note'' []; by1 = flagValue sets ''by'' [] in
     if length rest \<noteq> 2 then usageError ''taint ack requires two arguments: <remoteId> <eventId>''
     else case ParseInt (rest ! 0) of
       None \<Rightarrow> usageError (''invalid remoteId '' @ ct_Quote lib (rest ! 0))
     | Some remoteID \<Rightarrow>
     (case ParseInt (rest ! 1) of
       None \<Rightarrow> usageError (''invalid eventId '' @ ct_Quote lib (rest ! 1))
     | Some eventID \<Rightarrow>
     if by1 = [] then usageError ''--by is required for taint ack''
     else (\<lambda>s.
       answered lib []
         (doJSON lib net cl ''POST'' (remotePath remoteID @ ''/taint-events/'' @ FormatInt eventID @ ''/ack'')
            (Some (cj_AckReq (ct_json lib) \<lparr>cwa_AckedBy = by1, cwa_AckNote = note1\<rparr>)) (\<lambda>_. Inr ()) s)
         (\<lambda>_. (exitOK, [CtlOut (''taint event '' @ FormatInt eventID @ '' acknowledged by '' @ ct_Quote lib by1 @ nl1)])))))"

definition runTaint :: "ctlLib \<Rightarrow> 's ctlNet \<Rightarrow> ctlClient \<Rightarrow> bool \<Rightarrow> string list \<Rightarrow> 's \<Rightarrow> ctlResult \<times> 's" where
  "runTaint lib net cl globalJSON args =
     (case args of
        [] \<Rightarrow> usageError ''taint requires a subcommand: list|ack''
      | sub # rest \<Rightarrow>
          if sub = ''list'' then runTaintList lib net cl globalJSON rest
          else if sub = ''ack'' then runTaintAck lib net cl rest
          else usageError (''unknown taint subcommand '' @ ct_Quote lib sub))"

section \<open>The run\<close>

definition ctlFormal :: "(string \<times> flagKind) list" where
  "ctlFormal = [(''server'', ValueFlag), (''api-key'', ValueFlag), (''token'', ValueFlag), (''basic'', ValueFlag),
     (''timeout'', ValueFlag), (''insecure'', BoolFlag), (''json'', BoolFlag), (''version'', BoolFlag), (''v'', BoolFlag)]"

text \<open>\<open>-version\<close> and \<open>-v\<close> set the same variable.\<close>

definition versionFlag :: "(string \<times> string) list \<Rightarrow> bool" where
  "versionFlag sets = flagBool (map (\<lambda>(n, v). (if n = ''v'' then ''version'' else n, v)) sets) ''version'' False"

definition ctlServer :: "(string \<times> string) list \<Rightarrow> string list \<Rightarrow> string" where
  "ctlServer sets environ =
     (let server = flagValue sets ''server'' [];
          server = (if server = [] then ctl_envValue environ ''GT_CTL_SERVER'' else server) in
      if server = [] then ''http://127.0.0.1:8080'' else server)"

definition ctlTimeout :: "ctlLib \<Rightarrow> (string \<times> string) list \<Rightarrow> err + Duration" where
  "ctlTimeout lib sets =
     (let timeoutFlag = flagValue sets ''timeout'' ''10s'' in
      if timeoutFlag \<noteq> [] then ct_ParseDuration lib timeoutFlag else Inr 10000000000)"

definition ctl_run ::
  "ctlLib \<Rightarrow> 's ctlNet \<Rightarrow> string \<Rightarrow> string list \<Rightarrow> string list \<Rightarrow> 's \<Rightarrow> ctlResult \<times> 's" where
  "ctl_run lib net buildinfo args environ s =
     (case flagParse (map_of ctlFormal) args of
        Inl ErrHelp \<Rightarrow> ((0, [CtlErr ''Usage: git-tainted-ctl [global-flags] <command> [flags] [args]'']), s)
      | Inl FlagError \<Rightarrow> ((2, [CtlErr ''Usage: git-tainted-ctl [global-flags] <command> [flags] [args]'']), s)
      | Inr (sets, sub) \<Rightarrow>
          if versionFlag sets then ((0, [CtlOut (''git-tainted-ctl '' @ buildinfo @ nl1)]), s)
          else
          let server = ctlServer sets environ;
              insecure = flagBool sets ''insecure'' False \<or> ctl_envBool lib environ ''GT_CTL_INSECURE'';
              creds = resolveAuth (flagValue sets ''api-key'' []) (flagValue sets ''token'' []) (flagValue sets ''basic'' []) environ;
              jsonFlag = flagBool sets ''json'' False in
          case ctlTimeout lib sets of
            Inl e \<Rightarrow>
              ((2, [CtlErr (''error: invalid --timeout '' @ ct_Quote lib (flagValue sets ''timeout'' ''10s'') @ '': '' @ ct_errText lib e @ nl1)]), s)
          | Inr timeout \<Rightarrow>
          (case ctl_checkServerURL lib server insecure of
            Some e \<Rightarrow> ((2, [CtlErr (''error: '' @ ct_errText lib e @ nl1)]), s)
          | None \<Rightarrow>
          (case sub of
            [] \<Rightarrow> ((2, [CtlErr ''Usage: git-tainted-ctl [global-flags] <command> [flags] [args]'']), s)
          | command # rest \<Rightarrow>
              let cl = \<lparr>cc_server = server, cc_auth = creds, cc_timeout = timeout\<rparr> in
              if command = ''remote'' then runRemote lib net cl jsonFlag rest s
              else if command = ''sync'' then runSync lib net cl rest s
              else if command = ''syncs'' then runSyncs lib net cl jsonFlag rest s
              else if command = ''tags'' then runTags lib net cl jsonFlag rest s
              else if command = ''taint'' then runTaint lib net cl jsonFlag rest s
              else ((2, [CtlErr (''error: unknown command '' @ ct_Quote lib command @ nl1 @ nl1),
                         CtlErr ''Usage: git-tainted-ctl [global-flags] <command> [flags] [args]'']), s))))"

end
