(* ===== verification/Ctl_Server.thy ===== *)
theory Ctl_Server
  imports Ctl Api_Routes
begin

text \<open>
  \<open>git-tainted-ctl\<close> in front of a server. A run makes at most one request; which one it can be is computed by going
  through the commands. The network is a locale: a request reaches the handler of the server unchanged, or it is lost;
  its instance \<open>serverAt\<close> delivers every request and answer.
\<close>

section \<open>One request\<close>

text \<open>The request of \<open>client.do\<close>.\<close>

definition requestOf :: "ctlClient \<Rightarrow> string \<Rightarrow> string \<Rightarrow> (err + string) option \<Rightarrow> ctlRequest" where
  "requestOf c method path body =
     applyAuth (cc_auth c)
       \<lparr>cr_Method = method, cr_URL = TrimRightSlash (cc_server c) @ path, cr_Authorization = [], cr_XAPIKey = [],
        cr_ContentType = (if body = None then [] else ''application/json''), cr_Accept = ''application/json'',
        cr_Body = (case body of Some (Inr b) \<Rightarrow> b | _ \<Rightarrow> [])\<rparr>"

lemma requestOf_sel [simp]:
  "cr_Method (requestOf c method path body) = method"
  "cr_URL (requestOf c method path body) = TrimRightSlash (cc_server c) @ path"
  by (simp_all add: requestOf_def applyAuth_def split: authMode.splits)

text \<open>A step leaves the state of the network alone or makes one request that satisfies \<open>P\<close>.\<close>

definition asks :: "'s ctlNet \<Rightarrow> (ctlRequest \<Rightarrow> bool) \<Rightarrow> ('s \<Rightarrow> ctlResult \<times> 's) \<Rightarrow> bool" where
  "asks net P m \<longleftrightarrow> (\<forall>s. snd (m s) = s \<or> (\<exists>t req. P req \<and> snd (m s) = snd (net t req s)))"

named_theorems asks_intros \<open>rules for \<open>asks\<close>\<close>

lemma asks_mono: "asks net P m \<Longrightarrow> (\<And>req. P req \<Longrightarrow> Q req) \<Longrightarrow> asks net Q m"
  by (fastforce simp: asks_def)

lemma asks_const: "asks net P (\<lambda>s. (r, s))"
  by (simp add: asks_def)

lemma asks_usageError [asks_intros]: "asks net P (usageError msg)"
  by (simp add: asks_def usageError_def)

lemma asks_withFlags [asks_intros]: "(\<And>sets rest. asks net P (k sets rest)) \<Longrightarrow> asks net P (withFlags name formal args k)"
  by (auto simp: asks_def withFlags_def split: sum.splits flagError.splits)

lemma asks_withID [asks_intros]: "(\<And>i. asks net P (k i)) \<Longrightarrow> asks net P (withID lib command rest k)"
  by (auto simp: withID_def asks_usageError split: option.splits)

lemma doJSON_state:
  "snd (doJSON lib net c method path body decode s) = s \<or>
   (url_Parse (hl_ipLit (ct_host lib)) (TrimRightSlash (cc_server c) @ path) \<noteq> None \<and>
    snd (doJSON lib net c method path body decode s) = snd (net (cc_timeout c) (requestOf c method path body) s))"
  by (auto simp: doJSON_def ctl_do_def requestOf_def Let_def split: sum.splits prod.splits option.splits)

definition sends :: "ctlLib \<Rightarrow> ctlClient \<Rightarrow> string \<Rightarrow> string \<Rightarrow> ctlRequest \<Rightarrow> bool" where
  "sends lib c method path req \<longleftrightarrow>
     (\<exists>body. req = requestOf c method path body) \<and> url_Parse (hl_ipLit (ct_host lib)) (cr_URL req) \<noteq> None"

lemma asks_answered:
  fixes net :: "'s ctlNet" and decode :: "string \<Rightarrow> err + 'b"
  shows "(\<And>req. sends lib c meth path req \<Longrightarrow> P req) \<Longrightarrow>
   asks net P (\<lambda>s. answered lib pre (doJSON lib net c meth path body decode s) k)"
proof -
  assume P: "\<And>req. sends lib c meth path req \<Longrightarrow> P req"
  have state: "snd (answered lib pre r k) = snd r" for r :: "(err + int \<times> string \<times> 'b option) \<times> 's"
    by (simp add: answered_def split: prod.splits)
  show ?thesis
    unfolding asks_def state
  proof
    fix s
    let ?s' = "snd (doJSON lib net c meth path body decode s)"
    from doJSON_state [of lib net c meth path body decode s]
    show "?s' = s \<or> (\<exists>t req. P req \<and> ?s' = snd (net t req s))"
    proof
      assume "url_Parse (hl_ipLit (ct_host lib)) (TrimRightSlash (cc_server c) @ path) \<noteq> None \<and>
        ?s' = snd (net (cc_timeout c) (requestOf c meth path body) s)"
      moreover from this have "P (requestOf c meth path body)" by (intro P) (auto simp: sends_def)
      ultimately show ?thesis by blast
    qed simp
  qed
qed

text \<open>What the commands send. Every path starts with a slash.\<close>

definition readsFrom :: "ctlLib \<Rightarrow> ctlClient \<Rightarrow> ctlRequest \<Rightarrow> bool" where
  "readsFrom lib c req \<longleftrightarrow> (\<exists>path. HasPrefix path ''/'' \<and> sends lib c ''GET'' path req)"

definition talksTo :: "ctlLib \<Rightarrow> ctlClient \<Rightarrow> ctlRequest \<Rightarrow> bool" where
  "talksTo lib c req \<longleftrightarrow> (\<exists>method path. HasPrefix path ''/'' \<and> sends lib c method path req)"

lemma readsFrom_talksTo: "readsFrom lib c req \<Longrightarrow> talksTo lib c req"
  by (auto simp: readsFrom_def talksTo_def)

lemma rooted_paths [simp]:
  "HasPrefix (CHR ''/'' # p) ''/''" "HasPrefix (remotePath i @ p) ''/''" "HasPrefix (remotePath i) ''/''"
  "HasPrefix (listPath l c) ''/''"
  by (simp_all add: remotePath_def listPath_def HasPrefix_def)

lemma asks_reads [asks_intros]:
  "HasPrefix path ''/'' \<Longrightarrow> asks net (readsFrom lib c) (\<lambda>s. answered lib pre (doJSON lib net c ''GET'' path body decode s) k)"
  by (rule asks_answered) (auto simp: readsFrom_def)

lemma asks_talks [asks_intros]:
  "HasPrefix path ''/'' \<Longrightarrow> asks net (talksTo lib c) (\<lambda>s. answered lib pre (doJSON lib net c method path body decode s) k)"
  by (rule asks_answered) (auto simp: talksTo_def)

lemma reading_commands:
  "asks net (readsFrom lib cl) (runRemoteList lib net cl json args)" "asks net (readsFrom lib cl) (runRemoteGet lib net cl json args)"
  "asks net (readsFrom lib cl) (runSyncs lib net cl json args)" "asks net (readsFrom lib cl) (runTags lib net cl json args)"
  "asks net (readsFrom lib cl) (runTaintList lib net cl json args)"
  unfolding runRemoteList_def runRemoteGet_def runSyncs_def runTags_def runTaintList_def Let_def
  by (auto intro!: asks_intros split: option.splits)

lemma writing_commands:
  "asks net (talksTo lib cl) (runRemoteAdd lib net cl args)" "asks net (talksTo lib cl) (runRemoteUpdate lib net cl args)"
  "asks net (talksTo lib cl) (runRemoteRm lib net cl args)" "asks net (talksTo lib cl) (runSync lib net cl args)"
  "asks net (talksTo lib cl) (runTaintAck lib net cl args)"
  unfolding runRemoteAdd_def runRemoteUpdate_def runRemoteRm_def runSync_def runTaintAck_def Let_def
  by (auto intro!: asks_intros split: option.splits sum.splits)

lemma asks_talksTo: "asks net (readsFrom lib cl) m \<Longrightarrow> asks net (talksTo lib cl) m"
  by (erule asks_mono) (rule readsFrom_talksTo)

text \<open>The commands that ask for a change.\<close>

definition controlCommand :: "string list \<Rightarrow> bool" where
  "controlCommand sub =
     (case sub of
        [] \<Rightarrow> False
      | command # rest \<Rightarrow>
          command = ''sync'' \<or>
          (rest \<noteq> [] \<and>
           ((command = ''remote'' \<and> hd rest \<in> set [''add'', ''update'', ''rm'']) \<or> (command = ''taint'' \<and> hd rest = ''ack''))))"

lemma asks_runRemote:
  "rest = [] \<or> hd rest \<notin> set [''add'', ''update'', ''rm''] \<Longrightarrow> asks net (readsFrom lib cl) (runRemote lib net cl json rest)"
  "asks net (talksTo lib cl) (runRemote lib net cl json rest)"
  by (cases rest; simp add: runRemote_def asks_const reading_commands reading_commands [THEN asks_talksTo] writing_commands)+

lemma asks_runTaint:
  "rest = [] \<or> hd rest \<noteq> ''ack'' \<Longrightarrow> asks net (readsFrom lib cl) (runTaint lib net cl json rest)"
  "asks net (talksTo lib cl) (runTaint lib net cl json rest)"
  by (cases rest; simp add: runTaint_def asks_usageError reading_commands reading_commands [THEN asks_talksTo] writing_commands)+

section \<open>The run\<close>

definition insecureOf :: "ctlLib \<Rightarrow> (string \<times> string) list \<Rightarrow> string list \<Rightarrow> bool" where
  "insecureOf lib sets environ \<longleftrightarrow> flagBool sets ''insecure'' False \<or> ctl_envBool lib environ ''GT_CTL_INSECURE''"

definition clientOf :: "(string \<times> string) list \<Rightarrow> string list \<Rightarrow> Duration \<Rightarrow> ctlClient" where
  "clientOf sets environ timeout =
     \<lparr>cc_server = ctlServer sets environ,
      cc_auth = resolveAuth (flagValue sets ''api-key'' []) (flagValue sets ''token'' []) (flagValue sets ''basic'' []) environ,
      cc_timeout = timeout\<rparr>"

text \<open>The command after the global flags.\<close>

definition runCommand :: "ctlLib \<Rightarrow> 's ctlNet \<Rightarrow> ctlClient \<Rightarrow> bool \<Rightarrow> string list \<Rightarrow> 's \<Rightarrow> ctlResult \<times> 's" where
  "runCommand lib net cl jsonFlag sub =
     (case sub of
        [] \<Rightarrow> (\<lambda>s. ((2, [CtlErr ''Usage: git-tainted-ctl [global-flags] <command> [flags] [args]'']), s))
      | command # rest \<Rightarrow>
          if command = ''remote'' then runRemote lib net cl jsonFlag rest
          else if command = ''sync'' then runSync lib net cl rest
          else if command = ''syncs'' then runSyncs lib net cl jsonFlag rest
          else if command = ''tags'' then runTags lib net cl jsonFlag rest
          else if command = ''taint'' then runTaint lib net cl jsonFlag rest
          else (\<lambda>s. ((2, [CtlErr (''error: unknown command '' @ ct_Quote lib command @ nl1 @ nl1),
                         CtlErr ''Usage: git-tainted-ctl [global-flags] <command> [flags] [args]'']), s)))"

lemma ctl_run_eq:
  assumes "flagParse (map_of ctlFormal) args = Inr (sets, sub)" and "\<not> versionFlag sets"
    and "ctlTimeout lib sets = Inr timeout" and "ctl_checkServerURL lib (ctlServer sets environ) (insecureOf lib sets environ) = None"
  shows "ctl_run lib net buildinfo args environ = runCommand lib net (clientOf sets environ timeout) (flagBool sets ''json'' False) sub"
  using assms by (auto simp: fun_eq_iff ctl_run_def runCommand_def clientOf_def insecureOf_def Let_def split: list.splits)

lemma asks_if: "(c \<Longrightarrow> asks net P m) \<Longrightarrow> (\<not> c \<Longrightarrow> asks net P m') \<Longrightarrow> asks net P (if c then m else m')"
  by simp

lemma runCommand_asks:
  "asks net (talksTo lib cl) (runCommand lib net cl json sub)"
  "\<not> controlCommand sub \<Longrightarrow> asks net (readsFrom lib cl) (runCommand lib net cl json sub)"
proof -
  show "asks net (talksTo lib cl) (runCommand lib net cl json sub)"
    unfolding runCommand_def
    by (cases sub; simp only: list.case; intro asks_if asks_const asks_runRemote(2) asks_runTaint(2) writing_commands
        reading_commands [THEN asks_talksTo])
  assume reads: "\<not> controlCommand sub"
  show "asks net (readsFrom lib cl) (runCommand lib net cl json sub)"
  proof (cases sub)
    case (Cons command rest)
    have sub: "command \<noteq> ''sync''" "command = ''remote'' \<Longrightarrow> rest = [] \<or> hd rest \<notin> set [''add'', ''update'', ''rm'']"
      "command = ''taint'' \<Longrightarrow> rest = [] \<or> hd rest \<noteq> ''ack''"
      using reads Cons unfolding controlCommand_def by auto
    show ?thesis
      unfolding runCommand_def Cons list.case if_not_P [OF sub(1)]
      by (intro asks_if asks_const asks_runRemote(1) asks_runTaint(1) reading_commands sub(2,3))
  qed (simp add: runCommand_def asks_const)
qed

text \<open>A run without a request, or with one that the guard on the server URL let pass.\<close>

lemma ctl_run_request:
  assumes "ctl_run lib net buildinfo args environ s = (res, s')" and "s' \<noteq> s"
  obtains sets sub timeout t req where "flagParse (map_of ctlFormal) args = Inr (sets, sub)"
    and "ctl_checkServerURL lib (ctlServer sets environ) (insecureOf lib sets environ) = None"
    and "talksTo lib (clientOf sets environ timeout) req"
    and "\<not> controlCommand sub \<Longrightarrow> readsFrom lib (clientOf sets environ timeout) req"
    and "s' = snd (net t req s)"
proof -
  let ?run = "ctl_run lib net buildinfo args environ s"
  from assms have moved: "snd ?run \<noteq> s" by simp
  then obtain sets sub where p: "flagParse (map_of ctlFormal) args = Inr (sets, sub)"
    by (cases "flagParse (map_of ctlFormal) args") (auto simp: ctl_run_def split: flagError.splits)
  have v: "\<not> versionFlag sets" using moved p by (auto simp: ctl_run_def)
  obtain timeout where t: "ctlTimeout lib sets = Inr timeout"
    using moved p v by (cases "ctlTimeout lib sets") (simp_all add: ctl_run_def)
  have "ctl_checkServerURL lib (ctlServer sets environ) (insecureOf lib sets environ) = None"
    using moved p v t
    by (cases "ctl_checkServerURL lib (ctlServer sets environ) (insecureOf lib sets environ)") (simp_all add: ctl_run_def insecureOf_def)
  note run = p v t this
  from assms(1) run have s': "snd (runCommand lib net (clientOf sets environ timeout) (flagBool sets ''json'' False) sub s) = s'"
    by (simp add: ctl_run_eq)
  show thesis
  proof (cases "controlCommand sub")
    case True
    from runCommand_asks(1) s' assms(2) obtain t req where "talksTo lib (clientOf sets environ timeout) req" "s' = snd (net t req s)"
      unfolding asks_def by metis
    with that run True show thesis by blast
  next
    case False
    from runCommand_asks(2) [OF False] s' assms(2) obtain t req where
      "readsFrom lib (clientOf sets environ timeout) req" "s' = snd (net t req s)"
      unfolding asks_def by metis
    with that run readsFrom_talksTo show thesis by blast
  qed
qed

section \<open>The host of a request\<close>

lemma getScheme_split:
  assumes "getScheme raw = Some (sch, rest)" and "sch \<noteq> []"
  shows "raw = sch @ '':'' @ rest" and "getScheme (sch @ '':'' @ r) = Some (sch, r)"
proof -
  from assms obtain c s where raw: "raw = c # s" and c: "schemeChar 0 c"
    by (cases raw) (auto simp: getScheme_def Let_def split: if_splits list.splits)
  define t where "t = takeWhile (schemeChar 1) s"
  have "\<not> schemeChar 1 (CHR '':'')" by (simp add: schemeChar_def isLetter_def isDigit_def)
  moreover have all: "\<forall>x \<in> set t. schemeChar 1 x" unfolding t_def by (auto dest: set_takeWhileD)
  ultimately have tw: "takeWhile (schemeChar 1) (t @ CHR '':'' # r) = t" for r by (simp add: takeWhile_append2)
  from assms raw c have sch: "sch = c # t" and "drop (length t) s = CHR '':'' # rest"
    by (auto simp: getScheme_def Let_def t_def split: if_splits list.splits)
  then show "raw = sch @ '':'' @ rest" using raw takeWhile_dropWhile_id [of "schemeChar 1" s]
    by (simp add: t_def dropWhile_eq_drop)
  show "getScheme (sch @ '':'' @ r) = Some (sch, r)" using c tw by (simp add: getScheme_def sch)
qed

definition authorityOf :: "string \<Rightarrow> string" where
  "authorityOf x = takeWhile (\<lambda>c. c \<noteq> CHR ''/'' \<and> c \<noteq> CHR ''?'') x"

lemma fst_CutByte: "fst (CutByte c s) = takeWhile (\<lambda>x. x \<noteq> c) s"
proof (cases "c \<in> set s")
  case True
  then obtain u v where s: "s = u @ c # v" "c \<notin> set u" by (meson split_list_first)
  then have "takeWhile (\<lambda>x. x \<noteq> c) s = u" by (auto simp: takeWhile_append)
  with s show ?thesis by (simp add: CutByte_def)
next
  case False
  then have "takeWhile (\<lambda>x. x \<noteq> c) s = s" by (induction s) auto
  then show ?thesis using CutByte_absent [OF False] by (metis fst_conv)
qed

lemma takeWhile_takeWhile: "takeWhile P (takeWhile Q s) = takeWhile (\<lambda>x. P x \<and> Q x) s"
  by (induction s) auto

lemma parse_authority:
  assumes "getScheme a = Some (sch, ''//'' @ x)" and "sch \<noteq> []" and "parseNoFragment ipLit a = Some u"
  shows "url_Scheme u = ToLower sch" and "\<exists>user. parseAuthority ipLit (authorityOf x) = Some (user, url_Host u)"
proof -
  have "a \<noteq> ''*''" using getScheme_split(1) [OF assms(1,2)] by (cases sch) auto
  with assms show "url_Scheme u = ToLower sch" "\<exists>user. parseAuthority ipLit (authorityOf x) = Some (user, url_Host u)"
  by (auto simp: parseNoFragment_def Let_def fst_CutByte HasPrefix_def takeWhile_takeWhile authorityOf_def ToLower_def
      split: if_splits option.splits prod.splits)
qed

lemma authority_of_parse:
  assumes "parseNoFragment ipLit a = Some u" and "url_Scheme u \<noteq> []" and "url_Host u \<noteq> []"
  obtains sch x where "getScheme a = Some (sch, ''//'' @ x)" and "sch \<noteq> []" and "authorityOf x \<noteq> []"
proof -
  from assms obtain sch rest where g: "getScheme a = Some (sch, rest)" and sch: "sch \<noteq> []"
    and slashes: "HasPrefix (fst (CutByte (CHR ''?'') rest)) ''//''"
    by (fastforce simp: parseNoFragment_def Let_def ToLower_def split: if_splits option.splits)
  from slashes obtain x where rest: "rest = ''//'' @ x"
    by (cases rest rule: remdups_adj.cases) (auto simp: fst_CutByte HasPrefix_def split: if_splits)
  have "authorityOf x \<noteq> []"
  proof
    assume "authorityOf x = []"
    with parse_authority(2) [OF g [unfolded rest] sch assms(1)] assms(3) show False
      by (simp add: parseAuthority_def LastIndexByte_def parseHost_def)
  qed
  with that g rest sch show thesis by blast
qed

lemma takeWhile_replicate_same: "takeWhile (\<lambda>x. x = c) xs = replicate (length (takeWhile (\<lambda>x. x = c) xs)) c"
  by (induction xs) auto

lemma TrimRightSlash_split: "\<exists>n. s = TrimRightSlash s @ replicate n (CHR ''/'')"
proof -
  define n where "n = length (takeWhile (\<lambda>c. c = CHR ''/'') (rev s))"
  have "rev s = replicate n (CHR ''/'') @ rev (TrimRightSlash s)"
    using takeWhile_dropWhile_id [of "\<lambda>c. c = CHR ''/''" "rev s"]
    unfolding n_def takeWhile_replicate_same [of _ "rev s", symmetric] by (simp add: TrimRightSlash_def)
  then have "rev (rev s) = TrimRightSlash s @ replicate n (CHR ''/'')" by (simp only: rev_append rev_rev_ident rev_replicate)
  then show ?thesis by auto
qed

lemma takeWhile_at_slash:
  assumes "\<not> P (CHR ''/'')" and "HasPrefix p ''/''"
  shows "takeWhile P (TrimRightSlash x @ p) = takeWhile P x"
proof -
  obtain n where x: "x = TrimRightSlash x @ replicate n (CHR ''/'')" using TrimRightSlash_split by blast
  have "takeWhile P (y @ z) = takeWhile P y" if "z = [] \<or> hd z = CHR ''/''" for y z
    using that assms(1) by (cases z; induction y) auto
  moreover have "hd p = CHR ''/''" using assms(2) by (cases p) (auto simp: HasPrefix_def)
  ultimately show ?thesis by (metis x hd_replicate replicate_0)
qed

lemma TrimRightSlash_append: "TrimRightSlash y \<noteq> [] \<Longrightarrow> TrimRightSlash (x @ y) = x @ TrimRightSlash y"
  by (auto simp: TrimRightSlash_def dropWhile_append dropWhile_eq_Nil_conv)

text \<open>Adding a path to the server URL, less its final slashes, changes neither scheme nor host.\<close>

lemma request_host:
  assumes "url_Parse ipLit server = Some u" and "url_Scheme u \<noteq> []" and "url_Host u \<noteq> []"
    and "HasPrefix p ''/''" and "url_Parse ipLit (TrimRightSlash server @ p) = Some u'"
  shows "url_Scheme u' = url_Scheme u" and "url_Host u' = url_Host u"
proof -
  let ?cut = "takeWhile (\<lambda>c. c \<noteq> CHR ''#'')"
  have frag: "url_Parse ipLit raw = Some v \<Longrightarrow> parseNoFragment ipLit (?cut raw) = Some v" for raw v
    by (simp add: url_Parse_def fst_CutByte [symmetric] split: prod.splits option.splits if_splits)
  note parses = frag [OF assms(1)] frag [OF assms(5)]
  obtain sch x where g: "getScheme (?cut server) = Some (sch, ''//'' @ x)" and sch: "sch \<noteq> []" and auth: "authorityOf x \<noteq> []"
    using authority_of_parse [OF parses(1) assms(2,3)] by blast
  define y where "y = x @ dropWhile (\<lambda>c. c \<noteq> CHR ''#'') server"
  have cut: "?cut server = sch @ '':'' @ ''//'' @ x" using getScheme_split(1) [OF g sch] by simp
  then have server: "server = sch @ '':'' @ ''//'' @ y"
    using takeWhile_dropWhile_id [of "\<lambda>c. c \<noteq> CHR ''#''" server] by (simp add: y_def)
  have plain: "CHR ''#'' \<notin> set sch"
  proof
    assume "CHR ''#'' \<in> set sch"
    with cut have "CHR ''#'' \<in> set (?cut server)" by simp
    then show False by (auto dest: set_takeWhileD)
  qed
  have cut_all: "?cut (sch @ '':'' @ ''//'' @ z) = sch @ '':'' @ ''//'' @ ?cut z" for z
    using plain by (subst takeWhile_append2) auto
  have x: "x = ?cut y" using cut cut_all [of y] server by simp
  have stop: "authorityOf (?cut z) = takeWhile (\<lambda>c. c \<noteq> CHR ''/'' \<and> c \<noteq> CHR ''?'' \<and> c \<noteq> CHR ''#'') z" for z
    by (simp add: authorityOf_def takeWhile_takeWhile conj_assoc)
  have "y \<noteq> [] \<and> hd y \<noteq> CHR ''/''" using auth by (cases y) (auto simp: x authorityOf_def split: if_splits)
  then have "TrimRightSlash y \<noteq> []"
    by (auto simp: TrimRightSlash_def dropWhile_eq_Nil_conv dest: hd_in_set)
  then have "TrimRightSlash server = sch @ '':'' @ ''//'' @ TrimRightSlash y"
    using TrimRightSlash_append [of y "sch @ '':'' @ ''//''"] server by simp
  then have cut': "?cut (TrimRightSlash server @ p) = sch @ '':'' @ ''//'' @ ?cut (TrimRightSlash y @ p)"
    using cut_all [of "TrimRightSlash y @ p"] by simp
  have "authorityOf (?cut (TrimRightSlash y @ p)) = authorityOf x"
    unfolding x stop by (rule takeWhile_at_slash [OF _ assms(4)]) simp
  moreover have g': "getScheme (?cut (TrimRightSlash server @ p)) = Some (sch, ''//'' @ ?cut (TrimRightSlash y @ p))"
    unfolding cut' using getScheme_split(2) [OF g sch] by simp
  ultimately show "url_Scheme u' = url_Scheme u" and "url_Host u' = url_Host u"
    using parse_authority [OF g sch parses(1)] parse_authority [OF g' sch parses(2)] by auto
qed

section \<open>The network\<close>

text \<open>
  How \<open>net/http\<close> carries a request to a server with the base URL \<open>base\<close>, which has no path, query or user information:
  the rest of the URL is path and query, header values are trimmed, and a header value with a control character is
  refused before anything is sent. The paths of the client are clean, so that there is no redirect to follow.
\<close>

definition headerSpace :: "char \<Rightarrow> bool" where
  "headerSpace c \<longleftrightarrow> c = CHR 0x20 \<or> c = CHR 0x09 \<or> c = CHR 0x0A \<or> c = CHR 0x0D"

definition headerTrim :: "string \<Rightarrow> string" where
  "headerTrim v = rev (dropWhile headerSpace (rev (dropWhile headerSpace v)))"

definition validHeader :: "string \<Rightarrow> bool" where
  "validHeader v \<longleftrightarrow> list_all (\<lambda>c. c = CHR 0x09 \<or> ((of_char c :: nat) \<ge> 32 \<and> c \<noteq> CHR 127)) v"

definition deliver :: "string \<Rightarrow> ctlRequest \<Rightarrow> httpRequest option" where
  "deliver base req =
     (if HasPrefix (cr_URL req) base \<and> validHeader (cr_Authorization req) \<and> validHeader (cr_XAPIKey req) then
        (let (path, query) = CutByte (CHR ''?'') (drop (length base) (cr_URL req)) in
         Some \<lparr>rq_Method = cr_Method req, rq_Path = path, rq_RawQuery = query,
               rq_Authorization = headerTrim (cr_Authorization req), rq_XAPIKey = headerTrim (cr_XAPIKey req),
               rq_Body = cr_Body req, rq_BodyLimit = None\<rparr>)
      else None)"

text \<open>A request may be lost, or its answer, or the end of the body; an answer is one of the server.\<close>

locale ctl_network =
  fixes net :: "'s ctlNet" and server :: "httpRequest \<Rightarrow> 's \<Rightarrow> httpResponse \<times> 's" and base :: string
  assumes delivers: "snd (net t req s) = s \<or> (\<exists>r. deliver base req = Some r \<and> snd (net t req s) = snd (server r s))"
    and answers: "net t req s = (Inr reply, s') \<Longrightarrow>
      \<exists>r resp. deliver base req = Some r \<and> server r s = (resp, s') \<and> cy_Status reply = rs_Status resp \<and>
        (cy_Body reply = Inr (rs_Body resp) \<or> (\<exists>e. cy_Body reply = Inl e))"
begin

lemma asks_server:
  assumes "asks net P m" and "m s = (res, s')" and "s' \<noteq> s"
  shows "\<exists>req r. P req \<and> deliver base req = Some r \<and> s' = snd (server r s)"
proof -
  from assms obtain t req where "P req" "s' = snd (net t req s)" unfolding asks_def by (metis snd_conv)
  with delivers [of t req s] assms(3) show ?thesis by auto
qed

text \<open>Success is reported only after the server has answered the request with success.\<close>

lemma success_answered:
  assumes "answered lib pre (doJSON lib net c method path body decode s) k = ((code, out), s')" and "code = exitOK"
  shows "\<exists>r resp. deliver base (requestOf c method path body) = Some r \<and> server r s = (resp, s') \<and>
    rs_Status resp \<in> {200, 201, 202, 204}"
proof -
  from assms obtain v where d: "doJSON lib net c method path body decode s = (Inr (exitOK, v), s')"
    by (auto simp: answered_def exit_defs split: prod.splits sum.splits if_splits)
  then obtain reply where n: "net (cc_timeout c) (requestOf c method path body) s = (Inr reply, s')"
    and "httpStatusToExitCode (cy_Status reply) = exitOK"
    by (auto simp: doJSON_def ctl_do_def requestOf_def Let_def split: prod.splits sum.splits option.splits if_splits)
  then have "cy_Status reply \<in> {200, 201, 202, 204}"
    by (auto simp: httpStatusToExitCode_def exit_defs split: if_splits)
  with answers [OF n] show ?thesis by auto
qed

end

text \<open>The network that loses nothing.\<close>

definition serverAt :: "string \<Rightarrow> (httpRequest \<Rightarrow> 's \<Rightarrow> httpResponse \<times> 's) \<Rightarrow> 's ctlNet" where
  "serverAt base server t req s =
     (case deliver base req of
        None \<Rightarrow> (Inl (ErrText ''connection refused''), s)
      | Some r \<Rightarrow> (case server r s of (resp, s') \<Rightarrow> (Inr \<lparr>cy_Status = rs_Status resp, cy_Body = Inr (rs_Body resp)\<rparr>, s')))"

interpretation at: ctl_network "serverAt base server" server base for base server
  by unfold_locales (auto simp: serverAt_def split: option.splits prod.splits)

end
