(* ===== verification/Ctl_Route.thy ===== *)
theory Ctl_Route
  imports Ctl_Server
begin

text \<open>
  What the server makes of the requests of \<open>git-tainted-ctl\<close>: paths made of plain segments are clean and are matched
  segment by segment, escaped query values are read back, and the credentials are those the operator gave.
\<close>

section \<open>Paths of plain segments\<close>

definition plainSegment :: "string \<Rightarrow> bool" where
  "plainSegment s \<longleftrightarrow> s \<noteq> [] \<and> s \<noteq> ''.'' \<and> s \<noteq> ''..'' \<and> CHR ''/'' \<notin> set s \<and> CHR ''%'' \<notin> set s"

definition pathOf :: "string list \<Rightarrow> string" where
  "pathOf segs = concat (map (\<lambda>s. CHR ''/'' # s) segs)"

lemma pathOf_simps [simp]: "pathOf [] = []" "pathOf (s # segs) = CHR ''/'' # s @ pathOf segs"
  by (simp_all add: pathOf_def)

lemma SplitByte_pathOf: "list_all plainSegment segs \<Longrightarrow> s \<noteq> [] \<Longrightarrow> CHR ''/'' \<notin> set s \<Longrightarrow> SplitByte (CHR ''/'') (s @ pathOf segs) = s # segs"
  by (induction segs arbitrary: s) (auto simp: plainSegment_def SplitByte_no_sep SplitByte_append_sep)

lemma cleanSegs_plain: "list_all plainSegment segs \<Longrightarrow> cleanSegs out segs = rev out @ segs"
  by (induction segs arbitrary: out) (auto simp: plainSegment_def)

lemma pathOf_Join: "segs \<noteq> [] \<Longrightarrow> pathOf segs = CHR ''/'' # Join ''/'' segs"
  by (induction "''/''" segs rule: Join.induct) auto

lemma last_pathOf: "list_all plainSegment segs \<Longrightarrow> segs \<noteq> [] \<Longrightarrow> last (pathOf segs) \<noteq> CHR ''/''"
proof (induction segs)
  case (Cons s segs)
  then show ?case by (cases "segs = []") (auto simp: plainSegment_def last_append dest: last_in_set)
qed simp

lemma cleanPath_pathOf:
  assumes "list_all plainSegment segs" and "segs \<noteq> []"
  shows "cleanPath (pathOf segs) = pathOf segs"
proof -
  obtain s ss where segs: "segs = s # ss" using assms(2) by (cases segs) auto
  have "SplitByte (CHR ''/'') (pathOf segs) = [] # segs"
    using assms(1) SplitByte_append_sep [of "CHR ''/''" "[]" "s @ pathOf ss"] SplitByte_pathOf [of ss s]
    by (auto simp: segs plainSegment_def)
  then have "cleanSegs [] (SplitByte (CHR ''/'') (pathOf segs)) = segs" using cleanSegs_plain [OF assms(1), of "[]"] by simp
  moreover have "pathOf segs \<noteq> []" "hd (pathOf segs) = CHR ''/''" by (simp_all add: segs)
  ultimately show ?thesis
    using last_pathOf [OF assms] pathOf_Join [OF assms(2), symmetric] unfolding cleanPath_def Let_def by (simp del: pathOf_simps)
qed

lemma pathUnescape_plain: "plainSegment s \<Longrightarrow> pathUnescape s = s"
proof -
  assume "plainSegment s"
  then have "unescape encodePath s = Some s" by (intro unescape_id) (auto simp: plainSegment_def list_all_iff)
  then show ?thesis by (simp add: pathUnescape_def)
qed

lemma firstSegment_pathOf: "plainSegment s \<Longrightarrow> firstSegment (CHR ''/'' # s @ pathOf segs) = (s, pathOf segs)"
proof -
  assume s: "plainSegment s"
  then have "takeWhile (\<lambda>c. c \<noteq> CHR ''/'') (s @ pathOf segs) = s \<and> dropWhile (\<lambda>c. c \<noteq> CHR ''/'') (s @ pathOf segs) = pathOf segs"
    by (intro takeWhile_slash) (cases segs; simp add: plainSegment_def)+
  then show ?thesis using s by (simp add: firstSegment_def pathUnescape_plain Let_def plainSegment_def)
qed

fun matchSegs :: "patternSeg list \<Rightarrow> string list \<Rightarrow> (string \<times> string) list option" where
  "matchSegs [] [] = Some []"
| "matchSegs (Lit l # ps) (s # segs) = (if s = l then matchSegs ps segs else None)"
| "matchSegs (Wild n # ps) (s # segs) = map_option ((#) (n, s)) (matchSegs ps segs)"
| "matchSegs _ _ = None"

lemma matchPath_pathOf: "list_all plainSegment segs \<Longrightarrow> matchPath ps (pathOf segs) = matchSegs ps segs"
proof (induction ps segs rule: matchSegs.induct)
  case (3 n ps s segs)
  moreover from this have "s \<noteq> ''/''" by (auto simp: plainSegment_def)
  ultimately show ?case by (simp add: firstSegment_pathOf Let_def)
qed (simp_all add: firstSegment_pathOf Let_def)

definition matchTable :: "route list \<Rightarrow> string \<Rightarrow> string list \<Rightarrow> (string \<times> (string \<times> string) list) option" where
  "matchTable routes method segs =
     (case find (\<lambda>r. ro_Method r = method \<and> matchSegs (ro_Segments r) segs \<noteq> None) routes of
        None \<Rightarrow> None
      | Some r \<Rightarrow> map_option (\<lambda>m. (ro_Operation r, m)) (matchSegs (ro_Segments r) segs))"

lemma findHandler_pathOf:
  assumes "list_all plainSegment segs" and "segs \<noteq> []" and "rq_Path r = pathOf segs"
    and "matchTable routes (rq_Method r) segs = Some (operation, vals)"
  shows "findHandler routes r = Matched operation vals"
proof -
  have "matchRoute routes (rq_Method r) (pathOf segs) = Some (operation, vals)"
    using assms(4) unfolding matchRoute_def matchTable_def matchPath_pathOf [OF assms(1)] .
  then show ?thesis using assms(3) cleanPath_pathOf [OF assms(1,2)] by (simp add: findHandler_def matchMethod_def Let_def)
qed

lemma digits_segment: "0 \<le> i \<Longrightarrow> plainSegment (FormatInt i)"
  using decimal_digits [of i] by (auto simp: plainSegment_def FormatInt_def list_all_iff isDigit_def)

section \<open>Routes\<close>

lemma apiTable_eq:
  "map parsePattern apiRoutes =
     [\<lparr>ro_Method = ''GET'', ro_Segments = [Lit ''healthz''], ro_Operation = ''GetHealthz''\<rparr>,
      \<lparr>ro_Method = ''GET'', ro_Segments = [Lit ''v1'', Lit ''remotes''], ro_Operation = ''ListRemotes''\<rparr>,
      \<lparr>ro_Method = ''POST'', ro_Segments = [Lit ''v1'', Lit ''remotes''], ro_Operation = ''CreateRemote''\<rparr>,
      \<lparr>ro_Method = ''DELETE'', ro_Segments = [Lit ''v1'', Lit ''remotes'', Wild ''remoteId''], ro_Operation = ''DeleteRemote''\<rparr>,
      \<lparr>ro_Method = ''GET'', ro_Segments = [Lit ''v1'', Lit ''remotes'', Wild ''remoteId''], ro_Operation = ''GetRemote''\<rparr>,
      \<lparr>ro_Method = ''PATCH'', ro_Segments = [Lit ''v1'', Lit ''remotes'', Wild ''remoteId''], ro_Operation = ''UpdateRemote''\<rparr>,
      \<lparr>ro_Method = ''POST'', ro_Segments = [Lit ''v1'', Lit ''remotes'', Wild ''remoteId'', Lit ''sync''], ro_Operation = ''TriggerSync''\<rparr>,
      \<lparr>ro_Method = ''GET'', ro_Segments = [Lit ''v1'', Lit ''remotes'', Wild ''remoteId'', Lit ''syncs''], ro_Operation = ''ListSyncs''\<rparr>,
      \<lparr>ro_Method = ''GET'', ro_Segments = [Lit ''v1'', Lit ''remotes'', Wild ''remoteId'', Lit ''tags''], ro_Operation = ''ListTags''\<rparr>,
      \<lparr>ro_Method = ''GET'', ro_Segments = [Lit ''v1'', Lit ''remotes'', Wild ''remoteId'', Lit ''tags'', Wild ''tagName''], ro_Operation = ''GetTag''\<rparr>,
      \<lparr>ro_Method = ''GET'', ro_Segments = [Lit ''v1'', Lit ''remotes'', Wild ''remoteId'', Lit ''taint-events''], ro_Operation = ''ListTaintEvents''\<rparr>,
      \<lparr>ro_Method = ''POST'', ro_Segments = [Lit ''v1'', Lit ''remotes'', Wild ''remoteId'', Lit ''taint-events'', Wild ''eventId'', Lit ''ack''],
       ro_Operation = ''AckTaintEvent''\<rparr>,
      \<lparr>ro_Method = ''GET'', ro_Segments = [Lit ''v1'', Lit ''verify''], ro_Operation = ''Verify''\<rparr>]"
  by code_simp

lemma rm_routes:
  fixes r :: httpRequest
  assumes "rq_Method r = ''DELETE''" and "rq_Path r = remotePath i" and "0 \<le> i"
  shows "findHandler (map parsePattern apiRoutes) r = Matched ''DeleteRemote'' [(''remoteId'', FormatInt i)]" and "gated r"
proof -
  let ?segs = "[''v1'', ''remotes'', FormatInt i]"
  have segs: "list_all plainSegment ?segs" using digits_segment [OF assms(3)] by (simp add: plainSegment_def)
  have path: "rq_Path r = pathOf ?segs" by (simp add: assms(2) remotePath_def)
  show "findHandler (map parsePattern apiRoutes) r = Matched ''DeleteRemote'' [(''remoteId'', FormatInt i)]"
    by (rule findHandler_pathOf [OF segs _ path]) (simp_all add: assms(1) matchTable_def apiTable_eq)
  have "findHandler controlTable r = Matched ''deleteRemote'' [(''remoteId'', FormatInt i)]"
    by (rule findHandler_pathOf [OF segs _ path]) (simp_all add: assms(1) matchTable_def controlTable_eq)
  then show "gated r" by (simp add: gated_def matchedOp_def)
qed

text \<open>No GET request is gated.\<close>

lemma get_not_gated: "rq_Method r = ''GET'' \<Longrightarrow> \<not> gated r"
  by (auto simp: gated_def findHandler_def matchMethod_def matchRoute_def matchedOp_def controlTable_eq Let_def split: option.splits)

section \<open>Query values\<close>

lemma isURLSafe_plain: "isURLSafe c \<Longrightarrow> c \<noteq> CHR ''%'' \<and> c \<noteq> CHR ''+'' \<and> c \<notin> set ''&=?#;''"
  by (auto simp: isURLSafe_def isLetter_def isDigit_def)

lemma upperhex_safe: "n < 16 \<Longrightarrow> isURLSafe (upperhex n)"
  using upperhex_plain [of n] by (auto simp: queryChar_def isURLSafe_def)

lemma urlQueryEscape_chars: "c \<in> set (urlQueryEscape s) \<Longrightarrow> c = CHR ''%'' \<or> isURLSafe c"
proof (induction s)
  case (Cons b s)
  then show ?case using upperhex_safe of_char_div [of b] by (auto split: if_splits)
qed simp

lemma QueryUnescape_urlQueryEscape: "QueryUnescape (urlQueryEscape s) = Some s"
proof (induction s)
  case (Cons c s)
  have "16 * ((of_char c :: nat) div 16) + (of_char c :: nat) mod 16 = of_char c" by simp
  then show ?case
    using Cons.IH isURLSafe_plain [of c] of_char_div [of c] by (auto simp: fromHexChar_upperhex simp del: mult_div_mod_eq)
qed simp

lemma queryValues_url:
  assumes "rq_RawQuery r = ''url='' @ urlQueryEscape arg"
  shows "queryValues r = [(''url'', arg)]"
proof -
  have plain: "c \<notin> set (urlQueryEscape arg)" if "c \<in> set ''&=;''" for c
    using that urlQueryEscape_chars [of c arg] isURLSafe_plain [of c] by auto
  then have "SplitByte (CHR ''&'') (rq_RawQuery r) = [''url='' @ urlQueryEscape arg]"
    by (simp add: assms SplitByte_no_sep)
  moreover have "parsePair (''url='' @ urlQueryEscape arg) = Some (''url'', arg)"
    using IndexByte_append [of "CHR ''=''" "''url''" "urlQueryEscape arg"]
    by (simp add: parsePair_def CutByte_def QueryUnescape_urlQueryEscape)
  ultimately show ?thesis using plain by (simp add: queryValues_def List.map_filter_def)
qed

end
