(* ===== verification/Ctl_Props.thy ===== *)
theory Ctl_Props
  imports Ctl_Route Auth_Props
begin

text \<open>
  The properties of \<open>git-tainted-ctl\<close>: what it sends where, how the server reads it, and a command from the arguments
  of the operator to the database of the server and back to the exit code.
\<close>

section \<open>Credentials on the wire\<close>

lemma trimPrefixes_suffix: "\<exists>u. s = u @ trimPrefixes ps n s"
proof (induction ps n s rule: trimPrefixes.induct)
  case (2 ps n s)
  show ?case
  proof (cases "find (\<lambda>p. HasPrefix s p) ps")
    case (Some p)
    with 2 obtain u where "drop (length p) s = u @ trimPrefixes ps n (drop (length p) s)" by blast
    then have "s = (take (length p) s @ u) @ trimPrefixes ps n (drop (length p) s)" by (metis append.assoc append_take_drop_id)
    with Some show ?thesis by (metis option.simps(5) trimPrefixes.simps(2))
  qed simp
qed simp

lemma trimPrefixes_same:
  assumes "trimPrefixes ps (length s) s = s" and "s \<noteq> []" and "p \<in> set ps" and "\<forall>p \<in> set ps. p \<noteq> []"
  shows "\<not> HasPrefix s p"
proof
  assume "HasPrefix s p"
  then obtain q where q: "find (\<lambda>p. HasPrefix s p) ps = Some q" using assms(3) by (cases "find (\<lambda>p. HasPrefix s p) ps") (auto simp: find_None_iff)
  then have "q \<noteq> []" using assms(4) by (auto dest: find_some)
  obtain n where n: "length s = Suc n" using assms(2) by (cases s) auto
  with q assms(1) have "s = trimPrefixes ps n (drop (length q) s)" by simp
  moreover obtain u where "drop (length q) s = u @ trimPrefixes ps n (drop (length q) s)" using trimPrefixes_suffix by blast
  ultimately have "length s \<le> length (drop (length q) s)" by (metis length_append le_add2)
  with \<open>q \<noteq> []\<close> n show False by (cases q) auto
qed

lemma trimmed_end:
  assumes "strings_TrimSpace v = v" and "v \<noteq> []"
  shows "\<not> headerSpace (last v)"
proof -
  let ?l = "trimPrefixes spaceRunes (length v) v"
  obtain u where u: "v = u @ ?l" using trimPrefixes_suffix by blast
  obtain u' where u': "rev ?l = u' @ trimPrefixes (map rev spaceRunes) (length ?l) (rev ?l)" using trimPrefixes_suffix by blast
  from assms(1) have v: "rev (trimPrefixes (map rev spaceRunes) (length ?l) (rev ?l)) = v" by (simp add: strings_TrimSpace_def Let_def)
  have "length v \<le> length ?l" using u' arg_cong [OF v, of length] by (metis length_append length_rev le_add2)
  then have "?l = v" using u by (metis append_Nil append_eq_append_conv le_add2 length_append le_antisym)
  with v have "trimPrefixes (map rev spaceRunes) (length (rev v)) (rev v) = rev v" by (metis length_rev rev_rev_ident)
  from trimPrefixes_same [OF this, of "[last v]"] assms(2) have "[last v] \<notin> set (map rev spaceRunes)"
    by (auto simp: spaceRunes_def HasPrefix_def) (metis append_butlast_last_id rev.simps(2) rev_append rev_rev_ident append_Cons append_Nil prefix_def)+
  then show ?thesis by (auto simp: headerSpace_def spaceRunes_def)
qed

lemma headerTrim_same: "v \<noteq> [] \<Longrightarrow> \<not> headerSpace (hd v) \<Longrightarrow> \<not> headerSpace (last v) \<Longrightarrow> headerTrim v = v"
proof -
  assume v: "v \<noteq> []" "\<not> headerSpace (hd v)" "\<not> headerSpace (last v)"
  then have "dropWhile headerSpace v = v" by (cases v) auto
  moreover have "dropWhile headerSpace (rev v) = rev v" using v by (cases "rev v") (auto simp: hd_rev [symmetric])
  ultimately show ?thesis by (simp add: headerTrim_def)
qed

lemma base64_chars: "c \<in> set (base64_EncodeToString s) \<Longrightarrow> c = CHR ''='' \<or> (\<exists>n < 64. c = base64Char n)"
proof (induction s rule: base64_EncodeToString.induct)
  case (2 a)
  have byte: "(of_char a :: nat) < 256" by (rule nat_of_char_less_256)
  have "c \<in> {CHR ''='', base64Char (of_char a div 4), base64Char (16 * (of_char a mod 4))}" using 2 by (auto simp: Let_def)
  with base64_bits(1,2) [OF byte byte byte] show ?case by blast
next
  case (3 a b)
  have byte: "(of_char a :: nat) < 256" "(of_char b :: nat) < 256" by (rule nat_of_char_less_256)+
  have "c \<in> {CHR ''='', base64Char (of_char a div 4), base64Char (16 * (of_char a mod 4) + of_char b div 16), base64Char (4 * (of_char b mod 16))}"
    using 3 by (auto simp: Let_def)
  with base64_bits(1,3,4) [OF byte byte(2)] show ?case by blast
next
  case (4 a b d s)
  have byte: "(of_char a :: nat) < 256" "(of_char b :: nat) < 256" "(of_char d :: nat) < 256" by (rule nat_of_char_less_256)+
  have "c \<in> {base64Char (of_char a div 4), base64Char (16 * (of_char a mod 4) + of_char b div 16),
      base64Char (4 * (of_char b mod 16) + of_char d div 64), base64Char (of_char d mod 64)} \<or> c \<in> set (base64_EncodeToString s)"
    using 4(2) by (auto simp: Let_def)
  with base64_bits(1,3,5,6) [OF byte] 4(1) [OF refl refl refl] show ?case by blast
qed simp

lemma base64_no_space: "c \<in> set (base64_EncodeToString s) \<Longrightarrow> \<not> headerSpace c"
proof -
  assume "c \<in> set (base64_EncodeToString s)"
  then consider "c = CHR ''=''" | n where "n < 64" "c = base64Char n" using base64_chars by blast
  then show ?thesis
  proof cases
    case (2 n)
    then have "base64Digit c = Some n" by (simp add: base64Digit_Char)
    then show ?thesis by (auto simp: headerSpace_def base64Digit_def)
  qed (simp add: headerSpace_def)
qed

lemma base64_not_empty: "s \<noteq> [] \<Longrightarrow> base64_EncodeToString s \<noteq> []"
  by (cases s rule: base64_EncodeToString.cases) (simp_all add: Let_def)

lemma bearer_read_back:
  assumes "v \<noteq> []" and "strings_TrimSpace v = v" and "rq_Authorization r = headerTrim (''Bearer '' @ v)"
  shows "presentedAPIKey r = v" and "bearerOnly r = v"
proof -
  have "headerTrim (''Bearer '' @ v) = ''Bearer '' @ v"
    using trimmed_end [OF assms(2,1)] assms(1) by (intro headerTrim_same) (simp_all add: headerSpace_def)
  moreover have "EqualFold ''Bearer '' ''bearer ''" by code_simp
  ultimately have "bearerToken (rq_Authorization r) = Some v" and "rq_Authorization r \<noteq> []"
    using assms by (simp_all add: bearerToken_def)
  then show "presentedAPIKey r = v" "bearerOnly r = v" using assms(2) by (simp_all add: presentedAPIKey_def bearerOnly_def)
qed

lemma basic_read_back:
  assumes "CHR '':'' \<in> set v" and "rq_Authorization r = headerTrim (''Basic '' @ base64_EncodeToString v)"
  shows "BasicAuth r = Some (CutByte (CHR '':'') v)"
proof -
  have ne: "base64_EncodeToString v \<noteq> []" using assms(1) by (intro base64_not_empty) auto
  then have "\<not> headerSpace (last (base64_EncodeToString v))" using base64_no_space last_in_set by blast
  then have "headerTrim (''Basic '' @ base64_EncodeToString v) = ''Basic '' @ base64_EncodeToString v"
    using ne by (intro headerTrim_same) (simp_all add: headerSpace_def)
  moreover have "EqualFold ''Basic '' ''Basic ''" by code_simp
  ultimately show ?thesis using assms by (simp add: BasicAuth_def base64_roundtrip)
qed

lemma deliver_sel:
  assumes "deliver base req = Some r"
  shows "rq_Method r = cr_Method req" "rq_Authorization r = headerTrim (cr_Authorization req)" "rq_XAPIKey r = headerTrim (cr_XAPIKey req)"
  using assms by (auto simp: deliver_def Let_def split: if_splits prod.splits)

lemma requestOf_credentials:
  "cr_Authorization (requestOf c method path body) =
     (case ac_mode (cc_auth c) of
        authNone \<Rightarrow> [] | authBasic \<Rightarrow> ''Basic '' @ base64_EncodeToString (ac_value (cc_auth c)) | _ \<Rightarrow> ''Bearer '' @ ac_value (cc_auth c))"
  "cr_XAPIKey (requestOf c method path body) = (if ac_mode (cc_auth c) = authAPIKey then ac_value (cc_auth c) else [])"
  by (simp_all add: requestOf_def applyAuth_def split: authMode.splits)

text \<open>C33: the server reads the credentials of a request of the client as the operator gave them: an API key or a
  token without surrounding blanks, user and password of Basic authentication split at the first colon; without
  credentials it finds none.\<close>

theorem credentials_are_read_back:
  assumes "deliver base (requestOf c method path body) = Some r"
  defines "v \<equiv> ac_value (cc_auth c)"
  shows "(ac_mode (cc_auth c) = authAPIKey \<and> v \<noteq> [] \<and> strings_TrimSpace v = v \<longrightarrow> presentedAPIKey r = v) \<and>
    (ac_mode (cc_auth c) = authToken \<and> v \<noteq> [] \<and> strings_TrimSpace v = v \<longrightarrow> bearerOnly r = v) \<and>
    (ac_mode (cc_auth c) = authBasic \<and> CHR '':'' \<in> set v \<longrightarrow> BasicAuth r = Some (CutByte (CHR '':'') v)) \<and>
    (ac_mode (cc_auth c) = authNone \<longrightarrow> presentedAPIKey r = [] \<and> bearerOnly r = [] \<and> BasicAuth r = None)"
proof -
  note sel = deliver_sel [OF assms(1), unfolded requestOf_credentials, folded v_def]
  have "strings_TrimSpace [] = []" by code_simp
  then show ?thesis
    using sel bearer_read_back [of v r] basic_read_back [of v r]
    by (auto simp: presentedAPIKey_def bearerOnly_def BasicAuth_def headerTrim_def)
qed

definition ctl_demo_client :: "authMode \<Rightarrow> string \<Rightarrow> ctlClient" where
  "ctl_demo_client mode v = \<lparr>cc_server = ''http://h/'', cc_auth = \<lparr>ac_mode = mode, ac_value = v\<rparr>, cc_timeout = 1\<rparr>"

theorem credentials_are_read_back_witness:
  "(\<exists>r. deliver ''http://h'' (requestOf (ctl_demo_client authAPIKey ''s3cret'') ''GET'' ''/v1/remotes'' None) = Some r \<and>
      presentedAPIKey r = ''s3cret'') \<and>
   (\<exists>r. deliver ''http://h'' (requestOf (ctl_demo_client authBasic ''u:p:q'') ''GET'' ''/v1/remotes'' None) = Some r \<and>
      BasicAuth r = Some (''u'', ''p:q''))"
proof
  have "deliver ''http://h'' (requestOf (ctl_demo_client authAPIKey ''s3cret'') ''GET'' ''/v1/remotes'' None) \<noteq> None"
    by code_simp
  then obtain r where r: "deliver ''http://h'' (requestOf (ctl_demo_client authAPIKey ''s3cret'') ''GET'' ''/v1/remotes'' None) = Some r"
    by blast
  have "strings_TrimSpace ''s3cret'' = ''s3cret''" by code_simp
  with r show "\<exists>r. deliver ''http://h'' (requestOf (ctl_demo_client authAPIKey ''s3cret'') ''GET'' ''/v1/remotes'' None) = Some r \<and>
      presentedAPIKey r = ''s3cret''"
    using credentials_are_read_back [OF r] by (auto simp: ctl_demo_client_def)
  have "deliver ''http://h'' (requestOf (ctl_demo_client authBasic ''u:p:q'') ''GET'' ''/v1/remotes'' None) \<noteq> None"
    by code_simp
  then obtain r where r: "deliver ''http://h'' (requestOf (ctl_demo_client authBasic ''u:p:q'') ''GET'' ''/v1/remotes'' None) = Some r"
    by blast
  have "CutByte (CHR '':'') ''u:p:q'' = (''u'', ''p:q'')" by code_simp
  with r show "\<exists>r. deliver ''http://h'' (requestOf (ctl_demo_client authBasic ''u:p:q'') ''GET'' ''/v1/remotes'' None) = Some r \<and>
      BasicAuth r = Some (''u'', ''p:q'')"
    using credentials_are_read_back [OF r] by (auto simp: ctl_demo_client_def)
qed

section \<open>Where requests go\<close>


text \<open>For the examples: a toy codec, and durations that are always one second.\<close>

definition ctl_demo_remote :: ctlRemote where
  "ctl_demo_remote =
     \<lparr>cwr_ID = 1, cwr_URL = [], cwr_NormalizedURL = [], cwr_Transport = [], cwr_SyncIntervalNS = 0, cwr_StalenessBudgetNS = 0,
      cwr_TaintAnyTagDeletion = True, cwr_HashAlgo = None, cwr_Status = [], cwr_LastOKNS = 0, cwr_LastErr = [],
      cwr_ConsecutiveFailures = 0, cwr_ChainLen = 0, cwr_RemovedAtNS = None, cwr_CreatedAtNS = 0, cwr_UpdatedAtNS = 0\<rparr>"

definition ctl_demo_json :: ctlJson where
  "ctl_demo_json =
     \<lparr>cj_CreateRemoteReq = (\<lambda>_. Inr ''{}''), cj_UpdateRemoteReq = (\<lambda>_. Inr ''{}''), cj_AckReq = (\<lambda>_. Inr ''{}''), cj_decodeError = Inr,
      cj_decodeRemote = (\<lambda>_. Inr ctl_demo_remote), cj_decodeRemotes = (\<lambda>_. Inr \<lparr>cwl_Items = [ctl_demo_remote], cwl_NextCursor = None\<rparr>),
      cj_decodeTags = (\<lambda>_. Inr \<lparr>cwl_Items = [], cwl_NextCursor = None\<rparr>),
      cj_decodeTaintEvents = (\<lambda>_. Inr \<lparr>cwl_Items = [], cwl_NextCursor = None\<rparr>),
      cj_decodeSyncs = (\<lambda>_. Inr \<lparr>cwl_Items = [], cwl_NextCursor = None\<rparr>),
      cj_Remote = (\<lambda>_. Inr ''{}''), cj_Remotes = (\<lambda>_. Inr ''{}''), cj_Tags = (\<lambda>_. Inr ''{}''), cj_TaintEvents = (\<lambda>_. Inr ''{}''),
      cj_Syncs = (\<lambda>_. Inr ''{}'')\<rparr>"

definition ctl_demo :: ctlLib where
  "ctl_demo =
     \<lparr>ct_host = \<lparr>hl_ipLit = (\<lambda>_. None), hl_eqFold = (\<lambda>_. False), hl_loopIP = (\<lambda>h. h = ''127.0.0.1'')\<rparr>, ct_lowerUni = id, ct_runesUni = length,
      ct_ParseDuration = (\<lambda>_. Inr 1000000000), ct_Quote = id, ct_errText = (\<lambda>_. ''error''), ct_json = ctl_demo_json\<rparr>"

text \<open>A network that records the URLs.\<close>

definition ctl_log :: "string list ctlNet" where
  "ctl_log t req urls = (Inr \<lparr>cy_Status = 200, cy_Body = Inr ''{}''\<rparr>, urls @ [cr_URL req])"


section \<open>Reading commands\<close>

text \<open>A command that only reads (\<open>remote list\<close>, \<open>remote get\<close>, \<open>syncs\<close>, \<open>tags\<close>, \<open>taint list\<close>), whatever its
  arguments, changes neither the database nor the cooldown map nor the syncs started of the server behind the network, nor
  the state of its authenticator.\<close>

theorem reading_commands_change_nothing:
  assumes "ctl_network net (server now) base" and "si_store si = leaseStore" and "NewServer si bc jx authn = Inr server"
    and "\<not> (\<exists>sets sub. flagParse (map_of ctlFormal) args = Inr (sets, sub) \<and> controlCommand sub)"
    and "ctl_run lib net buildinfo args environ (a, st) = (res, a', st')"
  shows "a' = a \<and> same_state st st'"
proof (rule ccontr)
  assume changed: "\<not> (a' = a \<and> same_state st st')"
  then have "(a', st') \<noteq> (a, st)" by auto
  from ctl_run_request [OF assms(5) this] assms(4) obtain cl req t where
    reads: "readsFrom lib cl req" and state: "(a', st') = snd (net t req (a, st))" by metis
  from ctl_network.delivers [OF assms(1), of t req "(a, st)"] state \<open>(a', st') \<noteq> (a, st)\<close> obtain r where
    r: "deliver base req = Some r" "(a', st') = snd (server now r (a, st))" by auto
  have "rq_Method r = ''GET''" using reads deliver_sel(1) [OF r(1)] by (auto simp: readsFrom_def sends_def)
  then have "\<not> gated r" by (rule get_not_gated)
  obtain resp where run: "server now r (a, st) = (resp, a', st')" using r(2) by (metis prod.collapse)
  let ?r = "r\<lparr>rq_BodyLimit := Some maxRequestBodyBytes\<rparr>"
  have "gate (Authenticate bc jx authn) (Challenge authn) (oapi_Handler si) now ?r (a, st) = (resp, a', st')"
    using assms(3) run by (auto simp: NewServer_gate limitBody_def)
  from authn.admitted [OF this] \<open>\<not> gated r\<close> oapi_Handler_reads [OF assms(2), of None ?r st resp st'] changed show False by auto
qed

text \<open>The server of the examples behind a network that loses nothing.\<close>

definition ctl_server :: "int \<Rightarrow> httpRequest \<Rightarrow> nat authState \<times> db serverState \<Rightarrow> httpResponse \<times> nat authState \<times> db serverState" where
  "ctl_server = projr (NewServer auth_si auth_bc auth_jx auth_users)"

theorem reading_commands_change_nothing_witness:
  "(case ctl_run ctl_demo (serverAt ''http://127.0.0.1:8080'' (ctl_server 0)) [] [''remote'', ''get'', ''--json'', ''https://h/o/r''] [] (auth_state, auth_start) of
     (res, a', st') \<Rightarrow> a' = auth_state \<and> same_state auth_start st') \<and>
   \<not> (\<exists>sets sub. flagParse (map_of ctlFormal) [''remote'', ''get'', ''--json'', ''https://h/o/r''] = Inr (sets, sub) \<and> controlCommand sub)"
proof -
  have "flagParse (map_of ctlFormal) [''remote'', ''get'', ''--json'', ''https://h/o/r''] = Inr ([], [''remote'', ''get'', ''--json'', ''https://h/o/r''])"
    by code_simp
  then have reads: "\<not> (\<exists>sets sub. flagParse (map_of ctlFormal) [''remote'', ''get'', ''--json'', ''https://h/o/r''] = Inr (sets, sub) \<and> controlCommand sub)"
    by (auto simp: controlCommand_def)
  obtain res a' st' where run: "ctl_run ctl_demo (serverAt ''http://127.0.0.1:8080'' (ctl_server 0)) []
      [''remote'', ''get'', ''--json'', ''https://h/o/r''] [] (auth_state, auth_start) = (res, a', st')" by (metis prod.collapse)
  have "si_store auth_si = leaseStore" by (simp add: auth_si_def)
  from reading_commands_change_nothing [OF at.ctl_network_axioms this auth_server [folded ctl_server_def] reads run] run reads
  show ?thesis by simp
qed

section \<open>Flags between positional arguments\<close>

text \<open>Arguments as an operator writes them: \<open>--name=value\<close>, \<open>--name value\<close>, or a positional argument.\<close>

datatype ctlArg = Joined string string | Apart string string | Positional string

fun writeArg :: "ctlArg \<Rightarrow> string list" where
  "writeArg (Joined n v) = [''--'' @ n @ ''='' @ v]"
| "writeArg (Apart n v) = [''--'' @ n, v]"
| "writeArg (Positional p) = [p]"

fun argFlags :: "ctlArg list \<Rightarrow> (string \<times> string) list" where
  "argFlags [] = []"
| "argFlags (Joined n v # args) = (n, v) # argFlags args"
| "argFlags (Apart n v # args) = (n, v) # argFlags args"
| "argFlags (Positional p # args) = argFlags args"

fun argPositionals :: "ctlArg list \<Rightarrow> string list" where
  "argPositionals [] = []"
| "argPositionals (Positional p # args) = p # argPositionals args"
| "argPositionals (_ # args) = argPositionals args"

text \<open>The flags are declared, of a kind that takes the value; what stands alone does not look like a flag.\<close>

fun goodArg :: "(string \<Rightarrow> flagKind option) \<Rightarrow> ctlArg \<Rightarrow> bool" where
  "goodArg formal (Joined n v) \<longleftrightarrow> flagName n \<and>
     (case formal n of None \<Rightarrow> False | Some BoolFlag \<Rightarrow> v = ''true'' \<or> v = ''false'' | Some kind \<Rightarrow> accepts kind v)"
| "goodArg formal (Apart n v) \<longleftrightarrow> flagName n \<and> \<not> HasPrefix v ''-'' \<and>
     (case formal n of None \<Rightarrow> False | Some BoolFlag \<Rightarrow> False | Some kind \<Rightarrow> accepts kind v)"
| "goodArg formal (Positional p) \<longleftrightarrow> \<not> HasPrefix p ''-''"

definition isPositional :: "ctlArg \<Rightarrow> bool" where
  "isPositional a = (case a of Positional _ \<Rightarrow> True | _ \<Rightarrow> False)"

definition flagTexts :: "ctlArg list \<Rightarrow> string list" where
  "flagTexts args = concat (map writeArg (filter (\<lambda>a. \<not> isPositional a) args))"

lemma separateLoop_args:
  "list_all (goodArg formal) args \<Longrightarrow>
   separateLoop flags positionals (concat (map writeArg args)) = flags @ flagTexts args @ positionals @ argPositionals args"
proof (induction args arbitrary: flags positionals)
  case (Cons a args)
  then show ?case
    by (cases a) (auto simp: flagTexts_def isPositional_def HasPrefix_def flagName_def)
qed (simp add: flagTexts_def)

lemma classify_bare: "flagName n \<Longrightarrow> classify (''--'' @ n) = Flag n None"
  by (cases n) (auto simp: flagName_def classify_def splitFlag_def Let_def IndexByte_None [THEN iffD2])

lemma classify_positional: "\<not> HasPrefix p ''-'' \<Longrightarrow> classify p = NotAFlag"
  by (cases p) (auto simp: classify_def HasPrefix_def)

lemma flagParse_args:
  assumes "list_all (goodArg formal) args" and "rest = [] \<or> classify (hd rest) = NotAFlag"
  shows "flagParse formal (flagTexts args @ rest) = Inr (argFlags args, rest)"
  using assms(1)
proof (induction args)
  case Nil
  then show ?case using assms(2) by (cases rest) (simp_all add: flagTexts_def)
next
  case (Cons a args)
  have IH: "flagParse formal (flagTexts args @ rest) = Inr (argFlags args, rest)" using Cons by simp
  have split: "flagTexts (x # args) = (if isPositional x then [] else writeArg x) @ flagTexts args" for x by (simp add: flagTexts_def)
  have bool: "ParseBool ''true'' = Some True" "ParseBool ''false'' = Some False" by code_simp+
  show ?case
  proof (cases a)
    case (Joined n v)
    with Cons.prems obtain kind where n: "flagName n" "formal n = Some kind" by (auto split: option.splits)
    have texts: "flagTexts (a # args) @ rest = (''--'' @ n @ ''='' @ v) # flagTexts args @ rest" by (simp add: split Joined isPositional_def)
    have cls: "classify (''--'' @ n @ ''='' @ v) = Flag n (Some v)" by (rule classify_print [OF n(1)])
    have "if kind = BoolFlag then v = ''true'' \<or> v = ''false'' else accepts kind v" using Cons.prems Joined n by (cases kind) simp_all
    with bool show ?thesis
      unfolding texts flagParse.simps(2) cls by (cases kind) (auto simp: n IH setting_def Joined)
  next
    case (Apart n v)
    with Cons.prems obtain kind where n: "flagName n" "formal n = Some kind" by (auto split: option.splits)
    have texts: "flagTexts (a # args) @ rest = (''--'' @ n) # v # flagTexts args @ rest" by (simp add: split Apart isPositional_def)
    have cls: "classify (''--'' @ n) = Flag n None" by (rule classify_bare [OF n(1)])
    have "kind \<noteq> BoolFlag" and ok: "accepts kind v" using Cons.prems Apart n by (cases kind; simp)+
    then show ?thesis unfolding texts flagParse.simps(2) cls by (cases kind) (simp_all add: n IH setting_def Apart)
  qed (use IH in \<open>simp add: split isPositional_def\<close>)
qed

text \<open>Flags that take a value, and boolean flags with an explicit value, may stand anywhere between the positional
  arguments of a command: after \<open>separateFlags\<close> they are parsed in their order, and the positional arguments are left over
  in theirs.\<close>

theorem flags_may_stand_anywhere:
  assumes "list_all (goodArg formal) args"
  shows "flagParse formal (separateFlags (concat (map writeArg args))) = Inr (argFlags args, argPositionals args)"
proof -
  have "argPositionals args = [] \<or> classify (hd (argPositionals args)) = NotAFlag"
    using assms by (induction args rule: argPositionals.induct) (auto simp: classify_positional)
  from flagParse_args [OF assms this] show ?thesis
    unfolding separateFlags_def separateLoop_args [OF assms] by simp
qed

theorem flags_may_stand_anywhere_witness:
  "flagParse (map_of [(''note'', ValueFlag), (''by'', ValueFlag)]) (separateFlags [''3'', ''--note'', ''seen'', ''17'', ''--by=ops'']) =
     Inr ([(''note'', ''seen''), (''by'', ''ops'')], [''3'', ''17''])"
  using flags_may_stand_anywhere [of "map_of [(''note'', ValueFlag), (''by'', ValueFlag)]"
      "[Positional ''3'', Apart ''note'' ''seen'', Positional ''17'', Joined ''by'' ''ops'']"]
  by (simp add: HasPrefix_def flagName_def accepts_def)

text \<open>
  A boolean flag without a value takes the next positional argument with it; if flags follow, the parser stops there
  and they count as positional arguments.
\<close>

lemma bare_flag_takes_argument:
  "flagParse (map_of [(''interval'', ValueFlag), (''disabled'', BoolFlag)])
     (separateFlags [''--disabled'', ''https://h/o/r'', ''--interval'', ''5m'']) =
   Inr ([(''disabled'', ''true'')], [''https://h/o/r'', ''--interval'', ''5m''])"
  by code_simp

end
