(* ===== verification/Ctl_EndToEnd.thy ===== *)
theory Ctl_EndToEnd
  imports Ctl_Props
begin

text \<open>
  One command from end to end: \<open>git-tainted-ctl --server BASE --api-key KEY remote rm ID\<close> against the routed server in API
  key mode. The client parses its arguments, passes its guard, sends the request; the server routes it, authenticates
  it, runs the handler; the client turns the answer into its exit code.
\<close>

section \<open>Plain server URLs\<close>

definition plainServer :: "ctlLib \<Rightarrow> string \<Rightarrow> string \<Rightarrow> string \<Rightarrow> bool" where
  "plainServer lib sch h port \<longleftrightarrow>
     plain_parts None h port [] \<and> (sch = ''https'' \<or> sch = ''http'' \<and> hl_loopIP (ct_host lib) h)"

definition baseURL :: "string \<Rightarrow> string \<Rightarrow> string \<Rightarrow> string" where
  "baseURL sch h port = plainURL sch None h port []"

lemma TrimRightSlash_none: "CHR ''/'' \<notin> set s \<Longrightarrow> TrimRightSlash s = s"
proof -
  assume none: "CHR ''/'' \<notin> set s"
  obtain n where s: "s = TrimRightSlash s @ replicate n (CHR ''/'')" using TrimRightSlash_split by blast
  have "n = 0"
  proof (rule ccontr)
    assume "n \<noteq> 0"
    then have "CHR ''/'' \<in> set (TrimRightSlash s @ replicate n (CHR ''/''))" by simp
    with s none show False by simp
  qed
  with s show ?thesis by simp
qed

lemma TrimRightSlash_base:
  assumes "plain_parts None h port []"
  shows "TrimRightSlash (baseURL sch h port) = baseURL sch h port"
proof -
  have "CHR ''/'' \<notin> set (h @ portPart port)" "h @ portPart port \<noteq> []"
    using plain_authority_notin(2) [OF assms] assms by (simp_all add: userPart_def plain_parts_def)
  then show ?thesis
    using TrimRightSlash_append [of "h @ portPart port" "sch @ ''://''"] TrimRightSlash_none [of "h @ portPart port"]
    by (simp add: baseURL_def plainURL_def userPart_def)
qed

lemma base_with_path:
  assumes "plainServer lib sch h port" and "list_all pathChar path" and "path = [] \<or> prefix ''/'' path"
  shows "url_Parse ipLit (baseURL sch h port @ path) =
    Some \<lparr>url_Scheme = sch, url_User = None, url_Host = h @ portPart port, url_Path = path\<rparr>"
proof -
  have "list_all isLetter sch" "sch \<noteq> []" "ToLower sch = sch"
    using assms(1) by (auto simp: plainServer_def isLetter_def ToLower_def ToLowerChar_def)
  moreover have "plain_parts None h port path" using assms by (simp add: plainServer_def plain_parts_def)
  ultimately show ?thesis
    using url_Parse_plain [of sch None h port path ipLit] by (simp add: baseURL_def plainURL_def)
qed

lemma base_passes_guard:
  assumes "plainServer lib sch h port"
  shows "ctl_checkServerURL lib (baseURL sch h port) insecure = None"
proof -
  have "list_all plain h" "list_all isDigit port" "h \<noteq> []" using assms by (simp_all add: plainServer_def plain_parts_def)
  then have "Hostname \<lparr>url_Scheme = sch, url_User = None, url_Host = h @ portPart port, url_Path = []\<rparr> = h"
    by (simp add: Hostname_def splitHostPort_plain)
  then show ?thesis
    using assms base_with_path [OF assms, of "[]"] \<open>h \<noteq> []\<close>
    by (auto simp: ctl_checkServerURL_def ctl_isLoopbackHost_def plainServer_def)
qed

section \<open>The client\<close>

definition rmArgs :: "string \<Rightarrow> string \<Rightarrow> int64 \<Rightarrow> string list" where
  "rmArgs base key i = [''--server'', base, ''--api-key'', key, ''remote'', ''rm'', FormatInt i]"

lemma rmArgs_parsed: "flagParse (map_of ctlFormal) (rmArgs base key i) = Inr ([(''server'', base), (''api-key'', key)], [''remote'', ''rm'', FormatInt i])"
proof -
  have "classify ''--server'' = Flag ''server'' None" "classify ''--api-key'' = Flag ''api-key'' None" "classify ''remote'' = NotAFlag"
    by code_simp+
  then show ?thesis by (simp add: rmArgs_def ctlFormal_def setting_def accepts_def)
qed

lemma digits_positional: "0 \<le> i \<Longrightarrow> \<not> HasPrefix (FormatInt i) ''-''"
proof -
  assume "0 \<le> i"
  then have "hd (FormatInt i) \<noteq> CHR ''-''" by (simp add: FormatInt_sign)
  then show ?thesis by (cases "FormatInt i") (auto simp: HasPrefix_def)
qed

lemma runRemoteRm_digits:
  assumes "0 \<le> i" and "in_int64 i"
  shows "runRemoteRm lib net cl [FormatInt i] s =
    answered lib [] (doJSON lib net cl ''DELETE'' (remotePath i) None (\<lambda>_. Inr ()) s)
      (\<lambda>_. (exitOK, [CtlOut (''deleted remote id='' @ FormatInt i @ nl1)]))"
proof -
  note pos = digits_positional [OF assms(1)]
  have "separateFlags [FormatInt i] = [FormatInt i]" using pos by (simp add: separateFlags_def)
  moreover have "flagParse (map_of []) [FormatInt i] = Inr ([], [FormatInt i])" using classify_positional [OF pos] by simp
  ultimately show ?thesis by (simp add: runRemoteRm_def withFlags_def withID_def ParseInt_FormatInt [OF assms(2)])
qed

lemma remotePath_chars: "0 \<le> i \<Longrightarrow> list_all pathChar (remotePath i) \<and> CHR ''?'' \<notin> set (remotePath i)"
proof -
  assume "0 \<le> i"
  then have digits: "\<forall>c \<in> set (FormatInt i). isDigit c" using decimal_digits [of i] by (simp add: FormatInt_def list_all_iff)
  have "list_all pathChar ''/v1/remotes/''" by code_simp
  then have "list_all pathChar (remotePath i)"
    unfolding remotePath_def using digits by (auto simp: list_all_iff pathChar_def plain_def)
  moreover have "\<not> pathChar (CHR ''?'')" by (simp add: pathChar_def plain_def isLetter_def isDigit_def)
  ultimately show ?thesis by (auto simp: list_all_iff)
qed

section \<open>The server\<close>

text \<open>The response to the request of the client, and the state after it.\<close>

definition rmResponse :: "('d, 't, 'r) StrictServerImpl \<Rightarrow> err + DeleteRemoteResponse \<Rightarrow> httpResponse" where
  "rmResponse si x =
     (case x of
        Inl e \<Rightarrow> responseErrorHandler si e
      | Inr response \<Rightarrow>
          (case VisitDeleteRemoteResponse (si_json si) response of Inl e \<Rightarrow> responseErrorHandler si e | Inr resp \<Rightarrow> resp))"

lemma server_removes:
  fixes r :: httpRequest and st :: "'d serverState" and si :: "('d, 't, 'r) StrictServerImpl"
  assumes "NewServer si bc jx (APIKeyAuth a) = Inr server" and "apiKeyAuth_Authenticate a r = Inr p"
    and "rq_Method r = ''DELETE''" and "rq_Path r = remotePath i" and "0 \<le> i"
    and "bl_PathInteger (si_bind si) ''remoteId'' (FormatInt i) = Inr i"
    and "DeleteRemote_handler (si_store si) i (ss_world st) = (x, w)"
  shows "server now r (s, st) = (rmResponse si x, s, st\<lparr>ss_world := w\<rparr>)"
proof -
  let ?r = "r\<lparr>rq_BodyLimit := Some maxRequestBodyBytes\<rparr>"
  have auth: "Authenticate bc jx (APIKeyAuth a) now ?r s = (Inr p, s)" using assms(2) by (simp add: Authenticate_limit) (simp add: Authenticate_def)
  have "oapi_Handler si (Some p) ?r st = (rmResponse si x, st\<lparr>ss_world := w\<rparr>)"
    using rm_routes(1) [OF assms(3-5)] assms(6,7)
    by (simp add: oapi_Handler_def serveOperation_def siw_DeleteRemote_def pathParam_def pathValue_def strict_DeleteRemote_def
        strictRun_def rmResponse_def)
  then show ?thesis
    using assms(1) auth rm_routes(2) [OF assms(3-5)] by (auto simp: NewServer_gate limitBody_def authn.gate_eq)
qed

section \<open>Both\<close>

lemma ctl_do_answered:
  assumes "url_Parse (hl_ipLit (ct_host lib)) (TrimRightSlash (cc_server c) @ path) \<noteq> None"
    and "net (cc_timeout c) (requestOf c method path None) s = (Inr reply, s')"
  shows "ctl_do lib net c method path None s = (Inr reply, s')"
  using assms by (simp add: ctl_do_def requestOf_def Let_def)

lemma rm_delivered:
  fixes base :: string and path :: string
  assumes "validHeader k" and "CHR ''?'' \<notin> set path" and "TrimRightSlash (cc_server c) = base"
    and "cc_auth c = \<lparr>ac_mode = authAPIKey, ac_value = k\<rparr>"
  obtains r where "deliver base (requestOf c ''DELETE'' path None) = Some r" and "rq_Method r = ''DELETE''" and "rq_Path r = path"
proof -
  have "validHeader ''Bearer ''" by code_simp
  then have "validHeader (''Bearer '' @ k)" using assms(1) by (simp add: validHeader_def)
  then have "\<exists>r. deliver base (requestOf c ''DELETE'' path None) = Some r \<and> rq_Method r = ''DELETE'' \<and> rq_Path r = path"
    using assms by (simp add: deliver_def requestOf_credentials CutByte_absent HasPrefix_def)
  with that show thesis by blast
qed

lemma key_accepted:
  assumes "newAPIKeyAuth keys digests = Inr a" and "k \<in> set keys" and "presentedAPIKey r = k" and "k \<noteq> []" and "strings_TrimSpace k = k"
  obtains p where "apiKeyAuth_Authenticate a r = Inr p"
proof -
  have "sha256 (bytes_of_string k) \<in> set (ak_digests a)"
    using newAPIKeyAuth_digests [OF assms(1)] assms(2,4,5) unfolding acceptedDigests_def by (simp (no_asm_simp)) (metis assms(4,5))
  with that assms(3,4) show thesis by (auto simp: apiKeyAuth_accepts)
qed

text \<open>The exit code that goes with the outcome of the handler.\<close>

definition rmExit :: "('d, 't, 'r) StrictServerImpl \<Rightarrow> err + DeleteRemoteResponse \<Rightarrow> int" where
  "rmExit si x =
     (case x of
        Inr DeleteRemote204Response \<Rightarrow> exitOK
      | Inr (DeleteRemote404JSONResponse m) \<Rightarrow> (case jl_Error (si_json si) m of Inl _ \<Rightarrow> exitServerError | Inr _ \<Rightarrow> exitNotFound)
      | Inl _ \<Rightarrow> exitServerError)"

lemma rm_status: "httpStatusToExitCode (rs_Status (rmResponse si x)) = rmExit si x \<and>
    (rs_Status (rmResponse si x) div 100 = 2 \<longleftrightarrow> rmExit si x = exitOK)"
  by (auto simp: rmResponse_def rmExit_def responseErrorHandler_def http_Error_def VisitDeleteRemoteResponse_def emptyResponse_def
      jsonResponse_def httpStatusToExitCode_def exit_defs split: sum.splits DeleteRemoteResponse.splits)

text \<open>C31: \<open>remote rm\<close> with a configured API key runs the handler of the server exactly once, on the world of the server; the
  exit code is 0 when the remote was removed, 3 when there is none, and 6 when the store failed.\<close>

theorem remove_command_removes:
  fixes st :: "'d serverState" and si :: "('d, 't, 'r) StrictServerImpl"
  assumes "NewServer si bc jx (APIKeyAuth a) = Inr server" and "newAPIKeyAuth keys digests = Inr a"
    and "k \<in> set keys" and "k \<noteq> []" and "strings_TrimSpace k = k" and "validHeader k"
    and "0 \<le> i" and "in_int64 i" and "bl_PathInteger (si_bind si) ''remoteId'' (FormatInt i) = Inr i"
    and "plainServer lib sch h port" and "ct_ParseDuration lib ''10s'' = Inr d"
    and "DeleteRemote_handler (si_store si) i (ss_world st) = (x, w)"
  shows "\<exists>out. ctl_run lib (serverAt (baseURL sch h port) (server now)) buildinfo (rmArgs (baseURL sch h port) k i) environ (s, st) =
    ((rmExit si x, out), s, st\<lparr>ss_world := w\<rparr>)"
proof -
  let ?base = "baseURL sch h port" and ?sets = "[(''server'', baseURL sch h port), (''api-key'', k)]"
  let ?net = "serverAt ?base (server now)" and ?cl = "clientOf ?sets environ d"
  have base: "?base \<noteq> []" "TrimRightSlash ?base = ?base"
    using assms(10) TrimRightSlash_base by (auto simp: plainServer_def baseURL_def plainURL_def)
  have cl: "cc_server ?cl = ?base" "cc_auth ?cl = \<lparr>ac_mode = authAPIKey, ac_value = k\<rparr>"
    using base(1) assms(4) by (simp_all add: clientOf_def ctlServer_def flagValue_def resolveAuth_def)
  have "ctl_run lib ?net buildinfo (rmArgs ?base k i) environ = runCommand lib ?net ?cl (flagBool ?sets ''json'' False) [''remote'', ''rm'', FormatInt i]"
  proof (rule ctl_run_eq [OF rmArgs_parsed])
    show "\<not> versionFlag ?sets" by (simp add: versionFlag_def flagBool_def)
    show "ctlTimeout lib ?sets = Inr d" using assms(11) by (simp add: ctlTimeout_def flagValue_def)
    show "ctl_checkServerURL lib (ctlServer ?sets environ) (insecureOf lib ?sets environ) = None"
      using base_passes_guard [OF assms(10)] base(1) by (simp add: ctlServer_def flagValue_def)
  qed
  then have run: "ctl_run lib ?net buildinfo (rmArgs ?base k i) environ (s, st) =
      answered lib [] (doJSON lib ?net ?cl ''DELETE'' (remotePath i) None (\<lambda>_. Inr ()) (s, st))
        (\<lambda>_. (exitOK, [CtlOut (''deleted remote id='' @ FormatInt i @ nl1)]))"
    by (simp add: runCommand_def runRemote_def runRemoteRm_digits [OF assms(7,8)])
  note path = remotePath_chars [OF assms(7)]
  obtain r where r: "deliver ?base (requestOf ?cl ''DELETE'' (remotePath i) None) = Some r" "rq_Method r = ''DELETE''" "rq_Path r = remotePath i"
    by (rule rm_delivered [OF assms(6), where c = ?cl and path = "remotePath i" and base = ?base])
      (use path base cl in simp_all)
  have "presentedAPIKey r = k"
    using deliver_sel(2) [OF r(1)] cl by (intro bearer_read_back [OF assms(4,5)]) (simp add: requestOf_credentials)
  with key_accepted [OF assms(2,3) _ assms(4,5)] obtain p where "apiKeyAuth_Authenticate a r = Inr p" by blast
  from server_removes [OF assms(1) this r(2,3) assms(7,9,12)]
  have served: "serverAt ?base (server now) t (requestOf ?cl ''DELETE'' (remotePath i) None) (s, st) =
      (Inr \<lparr>cy_Status = rs_Status (rmResponse si x), cy_Body = Inr (rs_Body (rmResponse si x))\<rparr>, s, st\<lparr>ss_world := w\<rparr>)" for t
    by (simp add: serverAt_def r(1))
  have "url_Parse (hl_ipLit (ct_host lib)) (?base @ remotePath i) \<noteq> None"
    using base_with_path [OF assms(10) conjunct1 [OF path]] by (simp add: remotePath_def)
  then have "doJSON lib ?net ?cl ''DELETE'' (remotePath i) None (\<lambda>_. Inr ()) (s, st) =
      (Inr (rmExit si x, rs_Body (rmResponse si x), if rmExit si x = exitOK then Some () else None), s, st\<lparr>ss_world := w\<rparr>)"
    using rm_status [of si x] served cl(1) base(2) by (simp add: doJSON_def ctl_do_answered)
  then show ?thesis unfolding run answered_def by simp
qed

definition ctl_keys :: apiKeyAuth where
  "ctl_keys = \<lparr>ak_digests = [sha256 (bytes_of_string ''s3cret'')]\<rparr>"

definition ctl_key_server :: "int \<Rightarrow> httpRequest \<Rightarrow> nat authState \<times> db serverState \<Rightarrow> httpResponse \<times> nat authState \<times> db serverState" where
  "ctl_key_server = projr (NewServer auth_si auth_bc auth_jx (APIKeyAuth ctl_keys))"

theorem remove_command_removes_witness:
  "\<exists>out w. ctl_run ctl_demo (serverAt ''http://127.0.0.1:8080'' (ctl_key_server 0)) []
      [''--server'', ''http://127.0.0.1:8080'', ''--api-key'', ''s3cret'', ''remote'', ''rm'', ''1''] [] (auth_state, auth_start) =
    ((0, out), auth_state, auth_start\<lparr>ss_world := w\<rparr>) \<and> DeleteRemote_handler leaseStore 1 (demo_world demo_db) = (Inr DeleteRemote204Response, w)"
proof -
  let ?del = "DeleteRemote_handler leaseStore 1 (demo_world demo_db)"
  have "fst ?del = Inr DeleteRemote204Response" by code_simp
  then obtain w where w: "?del = (Inr DeleteRemote204Response, w)" by (metis prod.collapse)
  have si: "si_store auth_si = leaseStore" "si_bind auth_si = auth_bind" by (simp_all add: auth_si_def)
  have trim: "strings_TrimSpace ''s3cret'' = ''s3cret''" and valid: "validHeader ''s3cret''" by code_simp+
  have server: "NewServer auth_si auth_bc auth_jx (APIKeyAuth ctl_keys) = Inr ctl_key_server"
    by (simp add: ctl_key_server_def NewServer_gate)
  have keys: "newAPIKeyAuth [''s3cret''] [] = Inr ctl_keys"
    using trim by (simp add: newAPIKeyAuth_def addRawKey_def addDigest_def ctl_keys_def thenE_def)
  have one: "FormatInt 1 = ''1''" and bind: "parseID ''1'' = Inr 1" by code_simp+
  have base: "baseURL ''http'' ''127.0.0.1'' ''8080'' = ''http://127.0.0.1:8080''"
    and plain: "plainServer ctl_demo ''http'' ''127.0.0.1'' ''8080''" by code_simp+
  have "\<exists>out. ctl_run ctl_demo (serverAt (baseURL ''http'' ''127.0.0.1'' ''8080'') (ctl_key_server 0)) []
      (rmArgs (baseURL ''http'' ''127.0.0.1'' ''8080'') ''s3cret'' 1) [] (auth_state, auth_start) =
      ((rmExit auth_si (Inr DeleteRemote204Response), out), auth_state, auth_start\<lparr>ss_world := w\<rparr>)"
    by (rule remove_command_removes [OF server keys _ _ trim valid _ _ _ plain])
      (simp_all add: w si one bind in_int64_def auth_bind_def auth_start_def ctl_demo_def)
  then show ?thesis using w by (simp add: rmArgs_def base one rmExit_def exitOK_def)
qed

end
