(* ===== verification/Mysql_Queries.thy ===== *)
theory Mysql_Queries
  imports Sqlite_Queries
begin

text \<open>
  The SQL statements of \<open>internal/store/mysql/mysqlc\<close> and the schema of \<open>db/migrations-mysql\<close>, one definition per
  generated method. The tables have the columns of the SQLite schema, so the rows and the parameter structs are those of
  \<open>Sqlite_Schema\<close> and \<open>Sqlite_Queries\<close>; an INT column holds an int32, which the callers reduce their values to.

  What the database server decides is a value of type \<open>mysqlServer\<close>:

  \<^item> \<open>my_weight\<close>: the sort key of a string under the collation of the character columns. Two strings are equal for SQL
    when their keys are, in a comparison, a UNIQUE key or a CHECK, and \<open>ORDER BY\<close> follows the keys. The schema names no
    collation, so it is the server's default, which ignores case and accents;
  \<^item> \<open>my_varchar n\<close> and \<open>my_TEXT\<close>: the strings a column \<open>VARCHAR(n)\<close> or \<open>TEXT\<close> accepts (valid in the character set, not
    too long). In strict mode, the default, a statement with another value fails;
  \<^item> \<open>my_auto\<close>: the next \<open>AUTO_INCREMENT\<close> value after the largest that was given out. It may skip values, since the ids of
    statements that failed or were rolled back are lost;
  \<^item> \<open>my_dupID\<close>: the id reported for an \<open>INSERT ... ON DUPLICATE KEY UPDATE\<close> that found the row with the given id.

  A value is checked against its column first, then CHECK, UNIQUE and FOREIGN KEY; a refused value is reported as
  \<open>SqlCheck\<close>, since no caller tells these errors apart. A foreign key is checked by the statement, not at the commit. A
  negative LIMIT is an error. Transactions are modelled one after another: each runs on the database the last one left.
\<close>

named_theorems mysqlc_defs \<open>the definitions of the MySQL statements\<close>

record mysqlServer =
  my_weight :: "string \<Rightarrow> string"
  my_varchar :: "nat \<Rightarrow> string \<Rightarrow> bool"
  my_TEXT :: "string \<Rightarrow> bool"
  my_auto :: "int64 \<Rightarrow> int64"
  my_dupID :: "int64 \<Rightarrow> int64"

section \<open>Columns and constraints\<close>

definition same_text :: "mysqlServer \<Rightarrow> string \<Rightarrow> string \<Rightarrow> bool" where
  "same_text srv a b \<longleftrightarrow> my_weight srv a = my_weight srv b"

definition in_values :: "mysqlServer \<Rightarrow> string \<Rightarrow> string list \<Rightarrow> bool" where
  "in_values srv x ys \<longleftrightarrow> list_ex (same_text srv x) ys"

definition null_or :: "('a \<Rightarrow> bool) \<Rightarrow> 'a option \<Rightarrow> bool" where
  "null_or P v \<longleftrightarrow> (case v of None \<Rightarrow> True | Some x \<Rightarrow> P x)"

definition varbinary32 :: "bytes \<Rightarrow> bool" where
  "varbinary32 b \<longleftrightarrow> length b \<le> 32"

text \<open>\<open>remotes\<close>: column types and the three CHECKs.\<close>

definition my_remote_row_ok :: "mysqlServer \<Rightarrow> RemoteRow \<Rightarrow> bool" where
  "my_remote_row_ok srv r \<longleftrightarrow>
     my_TEXT srv (Rrem_Url r) \<and> my_varchar srv 768 (Rrem_NormalizedUrl r) \<and> my_varchar srv 16 (Rrem_Transport r) \<and>
     null_or (my_varchar srv 16) (Rrem_HashAlgo r) \<and> my_varchar srv 16 (Rrem_Status r) \<and> my_TEXT srv (Rrem_LastErr r) \<and>
     varbinary32 (Rrem_ChainHeadHash r) \<and>
     in_values srv (Rrem_Transport r) [''https'', ''ssh''] \<and>
     null_or (\<lambda>a. in_values srv a [''sha1'', ''sha256'']) (Rrem_HashAlgo r) \<and>
     in_values srv (Rrem_Status r) [''active'', ''degraded'', ''paused'']"

text \<open>\<open>refs\<close>.\<close>

definition my_ref_row_ok :: "mysqlServer \<Rightarrow> RefRow \<Rightarrow> bool" where
  "my_ref_row_ok srv r \<longleftrightarrow>
     my_varchar srv 512 (Rref_TagName r) \<and> null_or varbinary32 (Rref_CurrentOid r) \<and>
     null_or varbinary32 (Rref_CurrentPeeledOid r) \<and> null_or varbinary32 (Rref_FirstOid r)"

text \<open>\<open>syncs\<close>.\<close>

definition my_sync_row_ok :: "mysqlServer \<Rightarrow> SyncRow \<Rightarrow> bool" where
  "my_sync_row_ok srv r \<longleftrightarrow>
     my_varchar srv 16 (Rsyn_Trigger r) \<and> my_varchar srv 16 (Rsyn_Status r) \<and> my_TEXT srv (Rsyn_Error r) \<and>
     null_or varbinary32 (Rsyn_ChainHeadBefore r) \<and> null_or varbinary32 (Rsyn_ChainHeadAfter r) \<and>
     in_values srv (Rsyn_Trigger r) [''register'', ''scheduled'', ''manual''] \<and>
     in_values srv (Rsyn_Status r) [''ok'', ''partial'', ''failed'']"

text \<open>\<open>observations\<close>.\<close>

definition my_observation_row_ok :: "mysqlServer \<Rightarrow> ObservationRow \<Rightarrow> bool" where
  "my_observation_row_ok srv r \<longleftrightarrow>
     my_varchar srv 32 (Robs_EventType r) \<and> null_or varbinary32 (Robs_PrevOid r) \<and> null_or varbinary32 (Robs_NewOid r) \<and>
     null_or varbinary32 (Robs_PrevPeeledOid r) \<and> null_or varbinary32 (Robs_NewPeeledOid r) \<and>
     varbinary32 (Robs_PrevHash r) \<and> varbinary32 (Robs_RowHash r) \<and> null_or (my_TEXT srv) (Robs_CanonicalMeta r) \<and>
     in_values srv (Robs_EventType r) [''tag_created'', ''tag_oid_changed'', ''tag_deleted'', ''tag_recreated'']"

text \<open>\<open>taint_events\<close>.\<close>

definition my_taint_row_ok :: "mysqlServer \<Rightarrow> TaintEventRow \<Rightarrow> bool" where
  "my_taint_row_ok srv r \<longleftrightarrow>
     my_varchar srv 32 (Rte_Reason r) \<and> null_or varbinary32 (Rte_FromOid r) \<and> null_or varbinary32 (Rte_ToOid r) \<and>
     null_or (my_TEXT srv) (Rte_AckedBy r) \<and> null_or (my_TEXT srv) (Rte_AckNote r) \<and> my_TEXT srv (Rte_Detail r) \<and>
     in_values srv (Rte_Reason r) [''tag_oid_changed'', ''tag_deleted_recreated'']"

section \<open>What the statements are built from\<close>

definition my_limit :: "int64 \<Rightarrow> 'r list \<Rightarrow> ('d, 'r list) query" where
  "my_limit n rs d = (if n < 0 then Inl SqlCheck else Inr (take (nat n) rs, d))"

text \<open>An UPDATE of one table: it fails when a row it would write breaks a column or a CHECK, and reports the number of
  rows that matched (\<open>clientFoundRows=true\<close>).\<close>

definition my_update :: "('r \<Rightarrow> bool) \<Rightarrow> ('r \<Rightarrow> bool) \<Rightarrow> ('r \<Rightarrow> 'r) \<Rightarrow> 'r list \<Rightarrow> sql_error + (int64 \<times> 'r list)" where
  "my_update ok P f rs =
     (if list_ex (\<lambda>r. P r \<and> \<not> ok (f r)) rs then Inl SqlCheck else Inr (count_where P rs, update_where P f rs))"

definition my_set_remotes :: "mysqlServer \<Rightarrow> (RemoteRow \<Rightarrow> bool) \<Rightarrow> (RemoteRow \<Rightarrow> RemoteRow) \<Rightarrow> (db, int64) query" where
  "my_set_remotes srv P f d =
     (case my_update (my_remote_row_ok srv) P f (t_remotes d) of
        Inl e \<Rightarrow> Inl e | Inr (n, rs) \<Rightarrow> Inr (n, d\<lparr>t_remotes := rs\<rparr>))"

definition no_result :: "('d, 'a) query \<Rightarrow> ('d, unit) query" where
  "no_result q d = (case q d of Inl e \<Rightarrow> Inl e | Inr (_, d') \<Rightarrow> Inr ((), d'))"

section \<open>remotes.sql.go\<close>

definition mysqlc_AdvanceChainHead :: "mysqlServer \<Rightarrow> bytes \<Rightarrow> int64 \<Rightarrow> int64 \<Rightarrow> (db, unit) query" where [mysqlc_defs]:
  "mysqlc_AdvanceChainHead srv head n i =
     no_result (my_set_remotes srv (\<lambda>r. Rrem_ID r = i) (\<lambda>r. r\<lparr>Rrem_ChainHeadHash := head, Rrem_ChainLen := n\<rparr>))"

definition mysqlc_AdvanceRemoteChainHead ::
  "mysqlServer \<Rightarrow> bytes \<Rightarrow> int64 \<Rightarrow> int64 \<Rightarrow> bytes \<Rightarrow> int64 \<Rightarrow> (db, int64) query" where [mysqlc_defs]:
  "mysqlc_AdvanceRemoteChainHead srv head n i head2 n2 =
     my_set_remotes srv (\<lambda>r. Rrem_ID r = i \<and> Rrem_ChainHeadHash r = head2 \<and> Rrem_ChainLen r = n2)
       (\<lambda>r. r\<lparr>Rrem_ChainHeadHash := head, Rrem_ChainLen := n\<rparr>)"

definition mysqlc_CountAllRemotes :: "(db, int64) query" where [mysqlc_defs]:
  "mysqlc_CountAllRemotes d = Inr (int (length (t_remotes d)), d)"

definition mysqlc_CreateRemote :: "mysqlServer \<Rightarrow> CreateRemoteParams \<Rightarrow> (db, int64) query" where [mysqlc_defs]:
  "mysqlc_CreateRemote srv arg d =
     (let row = \<lparr>Rrem_ID = my_auto srv (seq_remotes d), Rrem_Url = Prem_Url arg,
            Rrem_NormalizedUrl = Prem_NormalizedUrl arg, Rrem_Transport = Prem_Transport arg,
            Rrem_SyncIntervalNs = Prem_SyncIntervalNs arg,
            Rrem_StalenessBudgetNs = Prem_StalenessBudgetNs arg,
            Rrem_TaintAnyTagDeletion = Prem_TaintAnyTagDeletion arg,
            Rrem_HashAlgo = Prem_HashAlgo arg, Rrem_Status = Prem_Status arg,
            Rrem_LastOkNs = Prem_LastOkNs arg, Rrem_LastErr = Prem_LastErr arg,
            Rrem_ConsecutiveFailures = Prem_ConsecutiveFailures arg,
            Rrem_ChainHeadHash = Prem_ChainHeadHash arg, Rrem_ChainLen = Prem_ChainLen arg,
            Rrem_RemovedAtNs = Prem_RemovedAtNs arg, Rrem_CreatedAtNs = Prem_CreatedAtNs arg,
            Rrem_UpdatedAtNs = Prem_UpdatedAtNs arg\<rparr> in
      if \<not> my_remote_row_ok srv row then Inl SqlCheck
      else if list_ex (\<lambda>r. same_text srv (Rrem_NormalizedUrl r) (Prem_NormalizedUrl arg)) (t_remotes d) then Inl SqlUnique
      else Inr (Rrem_ID row, d\<lparr>t_remotes := t_remotes d @ [row], seq_remotes := Rrem_ID row\<rparr>))"

definition mysqlc_GetChainHead :: "int64 \<Rightarrow> (db, bytes \<times> int64) query" where [mysqlc_defs]:
  "mysqlc_GetChainHead i =
     read_one (\<lambda>r. Rrem_ID r = i) t_remotes (\<lambda>r. (Rrem_ChainHeadHash r, Rrem_ChainLen r))"

definition mysqlc_GetRemote :: "int64 \<Rightarrow> (db, RemoteRow) query" where [mysqlc_defs]:
  "mysqlc_GetRemote i = read_one (\<lambda>r. Rrem_ID r = i) t_remotes (\<lambda>r. r)"

definition mysqlc_GetRemoteByURL :: "mysqlServer \<Rightarrow> string \<Rightarrow> (db, RemoteRow) query" where [mysqlc_defs]:
  "mysqlc_GetRemoteByURL srv url =
     read_one (\<lambda>r. same_text srv (Rrem_NormalizedUrl r) url \<and> Rrem_RemovedAtNs r = None) t_remotes (\<lambda>r. r)"

definition mysqlc_GetRemoteChainHead :: "int64 \<Rightarrow> (db, bytes \<times> int64) query" where [mysqlc_defs]:
  "mysqlc_GetRemoteChainHead i =
     read_one (\<lambda>r. Rrem_ID r = i) t_remotes (\<lambda>r. (Rrem_ChainHeadHash r, Rrem_ChainLen r))"

definition mysqlc_ListRemotes :: "int64 \<Rightarrow> int64 \<Rightarrow> (db, RemoteRow list) query" where [mysqlc_defs]:
  "mysqlc_ListRemotes i lim d = my_limit lim (sort_key Rrem_ID (filter (\<lambda>r. Rrem_ID r > i) (t_remotes d))) d"

text \<open>A BIGINT sum out of range is an error.\<close>

definition mysqlc_SelectDueRemotes :: "mysqlServer \<Rightarrow> int64 \<Rightarrow> int64 \<Rightarrow> (db, RemoteRow list) query" where [mysqlc_defs]:
  "mysqlc_SelectDueRemotes srv now lim d =
     (let due = (\<lambda>r. Rrem_LastOkNs r + Rrem_SyncIntervalNs r);
          live = filter (\<lambda>r. same_text srv (Rrem_Status r) ''active'' \<and> Rrem_RemovedAtNs r = None) (t_remotes d) in
      if list_ex (\<lambda>r. \<not> in_int64 (due r)) live then Inl SqlCheck
      else my_limit lim (sort_key due (filter (\<lambda>r. due r < now) live)) d)"

definition mysqlc_SetRemoteHealth ::
  "mysqlServer \<Rightarrow> string \<Rightarrow> string \<Rightarrow> int64 \<Rightarrow> int64 \<Rightarrow> int64 \<Rightarrow> (db, unit) query" where [mysqlc_defs]:
  "mysqlc_SetRemoteHealth srv status lastErr lastOk updated i =
     no_result (my_set_remotes srv (\<lambda>r. Rrem_ID r = i)
       (\<lambda>r. r\<lparr>Rrem_Status := status, Rrem_LastErr := lastErr, Rrem_LastOkNs := lastOk, Rrem_UpdatedAtNs := updated\<rparr>))"

definition mysqlc_SoftDeleteRemote :: "int64 option \<Rightarrow> int64 \<Rightarrow> int64 \<Rightarrow> (db, unit) query" where [mysqlc_defs]:
  "mysqlc_SoftDeleteRemote removed updated i d =
     Inr ((), d\<lparr>t_remotes := update_where (\<lambda>r. Rrem_ID r = i)
            (\<lambda>r. r\<lparr>Rrem_RemovedAtNs := removed, Rrem_UpdatedAtNs := updated\<rparr>) (t_remotes d)\<rparr>)"

definition mysqlc_UpdateRemote :: "mysqlServer \<Rightarrow> UpdateRemoteParams \<Rightarrow> (db, int64) query" where [mysqlc_defs]:
  "mysqlc_UpdateRemote srv arg d =
     (if remote_exists d (Urem_ID arg) \<and>
         list_ex (\<lambda>r. same_text srv (Rrem_NormalizedUrl r) (Urem_NormalizedUrl arg) \<and> Rrem_ID r \<noteq> Urem_ID arg) (t_remotes d)
      then Inl SqlUnique
      else my_set_remotes srv (\<lambda>r. Rrem_ID r = Urem_ID arg) (update_set arg) d)"

section \<open>refs.sql.go\<close>

definition mysqlc_CountRefs :: "int64 \<Rightarrow> (db, int64) query" where [mysqlc_defs]:
  "mysqlc_CountRefs i d = Inr (count_where (\<lambda>r. Rref_RemoteID r = i) (t_refs d), d)"

definition tag_key :: "mysqlServer \<Rightarrow> int64 \<Rightarrow> string \<Rightarrow> RefRow \<Rightarrow> bool" where
  "tag_key srv i tag r \<longleftrightarrow> Rref_RemoteID r = i \<and> same_text srv (Rref_TagName r) tag"

definition mysqlc_GetRef :: "mysqlServer \<Rightarrow> int64 \<Rightarrow> string \<Rightarrow> (db, RefRow) query" where [mysqlc_defs]:
  "mysqlc_GetRef srv i tag = read_one (tag_key srv i tag) t_refs (\<lambda>r. r)"

definition mysqlc_GetRefIDByName :: "mysqlServer \<Rightarrow> int64 \<Rightarrow> string \<Rightarrow> (db, int64 \<times> int64) query" where [mysqlc_defs]:
  "mysqlc_GetRefIDByName srv i tag = read_one (tag_key srv i tag) t_refs (\<lambda>r. (Rref_ID r, Rref_RemoteID r))"

definition mysqlc_ListTags :: "mysqlServer \<Rightarrow> int64 \<Rightarrow> (db, RefRow list) query" where [mysqlc_defs]:
  "mysqlc_ListTags srv i d =
     Inr (sort_key (\<lambda>r. my_weight srv (Rref_TagName r)) (filter (\<lambda>r. Rref_RemoteID r = i) (t_refs d)), d)"

definition mysqlc_SetRefTaint :: "int64 option \<Rightarrow> int64 \<Rightarrow> (db, unit) query" where [mysqlc_defs]:
  "mysqlc_SetRefTaint firstNs i d =
     Inr ((), d\<lparr>t_refs := update_where (\<lambda>r. Rref_ID r = i)
            (\<lambda>r. r\<lparr>Rref_Tainted := 1, Rref_TaintFirstNs := firstNs\<rparr>) (t_refs d)\<rparr>)"

text \<open>The row of the VALUES list; on a duplicate key the nine assignments of \<open>upsert_set\<close>, the same as SQLite's.\<close>

definition mysqlc_UpsertRef :: "mysqlServer \<Rightarrow> UpsertRefParams \<Rightarrow> (db, unit) query" where [mysqlc_defs]:
  "mysqlc_UpsertRef srv arg d =
     (let P = tag_key srv (Pref_RemoteID arg) (Pref_TagName arg);
          i = my_auto srv (seq_refs d);
          row = \<lparr>Rref_ID = i, Rref_RemoteID = Pref_RemoteID arg,
             Rref_TagName = Pref_TagName arg, Rref_CurrentOid = Pref_CurrentOid arg,
             Rref_CurrentPeeledOid = Pref_CurrentPeeledOid arg,
             Rref_IsAnnotated = Pref_IsAnnotated arg, Rref_FirstOid = Pref_FirstOid arg,
             Rref_FirstSeenNs = Pref_FirstSeenNs arg, Rref_LastSeenNs = Pref_LastSeenNs arg,
             Rref_LastChangedNs = Pref_LastChangedNs arg, Rref_Deleted = Pref_Deleted arg,
             Rref_Tainted = Pref_Tainted arg, Rref_TaintFirstNs = Pref_TaintFirstNs arg,
             Rref_ObservationCount = Pref_ObservationCount arg\<rparr> in
      if \<not> my_ref_row_ok srv row then Inl SqlCheck
      else case find P (t_refs d) of
        Some old \<Rightarrow> Inr ((), d\<lparr>t_refs := update_where P (upsert_set arg) (t_refs d), seq_refs := i\<rparr>)
      | None \<Rightarrow>
          if \<not> remote_exists d (Pref_RemoteID arg) then Inl SqlForeignKey
          else Inr ((), d\<lparr>t_refs := t_refs d @ [row], seq_refs := i\<rparr>))"

section \<open>observations.sql.go\<close>

definition mysqlc_GetRemoteChainHeadObs :: "int64 \<Rightarrow> (db, bytes \<times> int64) query" where [mysqlc_defs]:
  "mysqlc_GetRemoteChainHeadObs i =
     read_one (\<lambda>r. Rrem_ID r = i) t_remotes (\<lambda>r. (Rrem_ChainHeadHash r, Rrem_ChainLen r))"

definition mysqlc_InsertObservation :: "mysqlServer \<Rightarrow> InsertObservationParams \<Rightarrow> (db, int64) query" where [mysqlc_defs]:
  "mysqlc_InsertObservation srv arg d =
     (let row = \<lparr>Robs_ID = my_auto srv (seq_observations d), Robs_RemoteID = Pobs_RemoteID arg,
            Robs_RefID = Pobs_RefID arg, Robs_SyncID = Pobs_SyncID arg, Robs_Seq = Pobs_Seq arg,
            Robs_EventType = Pobs_EventType arg, Robs_PrevOid = Pobs_PrevOid arg,
            Robs_NewOid = Pobs_NewOid arg, Robs_PrevPeeledOid = Pobs_PrevPeeledOid arg,
            Robs_NewPeeledOid = Pobs_NewPeeledOid arg, Robs_ObservedAtNs = Pobs_ObservedAtNs arg,
            Robs_PrevHash = Pobs_PrevHash arg, Robs_RowHash = Pobs_RowHash arg,
            Robs_CanonicalMeta = Pobs_CanonicalMeta arg\<rparr> in
      if \<not> my_observation_row_ok srv row then Inl SqlCheck
      else if list_ex (\<lambda>r. Robs_RemoteID r = Pobs_RemoteID arg \<and> Robs_Seq r = Pobs_Seq arg) (t_observations d)
      then Inl SqlUnique
      else if \<not> remote_exists d (Pobs_RemoteID arg) \<or> \<not> ref_exists d (Pobs_RefID arg) \<or> \<not> sync_exists d (Pobs_SyncID arg)
      then Inl SqlForeignKey
      else Inr (Robs_ID row, d\<lparr>t_observations := t_observations d @ [row], seq_observations := Robs_ID row\<rparr>))"

definition mysqlc_LatestObservationForRef :: "int64 \<Rightarrow> (db, int64 \<times> int64 \<times> bytes) query" where [mysqlc_defs]:
  "mysqlc_LatestObservationForRef i d =
     (case sort_key (\<lambda>r. - Robs_Seq r) (filter (\<lambda>r. Robs_RefID r = i) (t_observations d)) of
        [] \<Rightarrow> Inl SqlNoRows
      | r # _ \<Rightarrow> Inr ((Robs_RemoteID r, Robs_Seq r, Robs_RowHash r), d))"

definition mysqlc_ReplayObservations :: "int64 \<Rightarrow> int64 \<Rightarrow> int64 \<Rightarrow> (db, ObservationRow list) query" where [mysqlc_defs]:
  "mysqlc_ReplayObservations i fromSeq lim d =
     my_limit lim (sort_key Robs_Seq
       (filter (\<lambda>r. Robs_RemoteID r = i \<and> Robs_Seq r > fromSeq) (t_observations d))) d"

section \<open>syncs.sql.go\<close>

definition mysqlc_InsertSync :: "mysqlServer \<Rightarrow> InsertSyncParams \<Rightarrow> (db, int64) query" where [mysqlc_defs]:
  "mysqlc_InsertSync srv arg d =
     (let row = \<lparr>Rsyn_ID = my_auto srv (seq_syncs d), Rsyn_RemoteID = Psyn_RemoteID arg,
            Rsyn_Trigger = Psyn_Trigger arg, Rsyn_StartedNs = Psyn_StartedNs arg,
            Rsyn_FinishedNs = Psyn_FinishedNs arg, Rsyn_Status = Psyn_Status arg,
            Rsyn_TagsSeen = Psyn_TagsSeen arg, Rsyn_TagsChanged = Psyn_TagsChanged arg,
            Rsyn_Error = Psyn_Error arg, Rsyn_ChainHeadBefore = Psyn_ChainHeadBefore arg,
            Rsyn_ChainHeadAfter = Psyn_ChainHeadAfter arg\<rparr> in
      if \<not> my_sync_row_ok srv row then Inl SqlCheck
      else if \<not> remote_exists d (Psyn_RemoteID arg) then Inl SqlForeignKey
      else Inr (Rsyn_ID row, d\<lparr>t_syncs := t_syncs d @ [row], seq_syncs := Rsyn_ID row\<rparr>))"

definition mysqlc_ListSyncs :: "int64 \<Rightarrow> int64 \<Rightarrow> int64 \<Rightarrow> (db, SyncRow list) query" where [mysqlc_defs]:
  "mysqlc_ListSyncs i before lim d =
     my_limit lim (sort_key (\<lambda>r. - Rsyn_ID r)
       (filter (\<lambda>r. Rsyn_RemoteID r = i \<and> Rsyn_ID r < before) (t_syncs d))) d"

text \<open>A sync row that an observation refers to cannot be deleted.\<close>

definition mysqlc_PruneSyncs :: "int64 \<Rightarrow> int64 \<Rightarrow> int64 \<Rightarrow> int64 \<Rightarrow> (db, unit) query" where [mysqlc_defs]:
  "mysqlc_PruneSyncs i i2 lim i3 d =
     (let pruned = (\<lambda>s. Rsyn_RemoteID s = i \<and>
            Rsyn_ID s \<notin> set (take (nat lim) (map Rsyn_ID (sort_key (\<lambda>r. - Rsyn_ID r)
               (filter (\<lambda>r. Rsyn_RemoteID r = i2) (t_syncs d))))) \<and>
            Rsyn_ID s \<notin> set (map Robs_SyncID (filter (\<lambda>ob. Robs_RemoteID ob = i3) (t_observations d)))) in
      if lim < 0 then Inl SqlCheck
      else if list_ex (\<lambda>s. pruned s \<and> Rsyn_ID s \<in> set (map Robs_SyncID (t_observations d))) (t_syncs d)
      then Inl SqlForeignKey
      else Inr ((), d\<lparr>t_syncs := filter (\<lambda>s. \<not> pruned s) (t_syncs d)\<rparr>))"

section \<open>taint.sql.go\<close>

definition mysqlc_AckTaintEvent ::
  "mysqlServer \<Rightarrow> int64 option \<Rightarrow> string option \<Rightarrow> string option \<Rightarrow> int64 \<Rightarrow> (db, unit) query" where [mysqlc_defs]:
  "mysqlc_AckTaintEvent srv at_ns acker remark i d =
     (case my_update (my_taint_row_ok srv) (\<lambda>r. Rte_ID r = i \<and> Rte_AckedAtNs r = None)
             (\<lambda>r. r\<lparr>Rte_AckedAtNs := at_ns, Rte_AckedBy := acker, Rte_AckNote := remark\<rparr>) (t_taint_events d) of
        Inl e \<Rightarrow> Inl e | Inr (_, rs) \<Rightarrow> Inr ((), d\<lparr>t_taint_events := rs\<rparr>))"

text \<open>The null-safe comparison \<open><=>\<close> of the oids is equality of options.\<close>

definition mysqlc_GetTaintEventID ::
  "mysqlServer \<Rightarrow> int64 \<Rightarrow> int64 \<Rightarrow> string \<Rightarrow> bytes option \<Rightarrow> bytes option \<Rightarrow> (db, int64) query" where [mysqlc_defs]:
  "mysqlc_GetTaintEventID srv remote ref reason from_oid to_oid =
     read_one (\<lambda>r. Rte_RemoteID r = remote \<and> Rte_RefID r = ref \<and> same_text srv (Rte_Reason r) reason \<and>
                   Rte_FromOid r = from_oid \<and> Rte_ToOid r = to_oid) t_taint_events Rte_ID"

text \<open>As in SQLite, two NULLs are distinct for a UNIQUE key.\<close>

definition my_taint_conflict :: "mysqlServer \<Rightarrow> InsertTaintEventParams \<Rightarrow> TaintEventRow \<Rightarrow> bool" where
  "my_taint_conflict srv arg r \<longleftrightarrow>
     Rte_RemoteID r = Pte_RemoteID arg \<and> Rte_RefID r = Pte_RefID arg \<and> same_text srv (Rte_Reason r) (Pte_Reason arg) \<and>
     Pte_FromOid arg \<noteq> None \<and> Rte_FromOid r = Pte_FromOid arg \<and>
     Pte_ToOid arg \<noteq> None \<and> Rte_ToOid r = Pte_ToOid arg"

text \<open>On a duplicate key \<open>detected_at_ns\<close> is assigned to itself: the row stays as it was.\<close>

definition mysqlc_InsertTaintEvent :: "mysqlServer \<Rightarrow> InsertTaintEventParams \<Rightarrow> (db, int64) query" where [mysqlc_defs]:
  "mysqlc_InsertTaintEvent srv arg d =
     (let i = my_auto srv (seq_taint_events d);
          row = \<lparr>Rte_ID = i, Rte_RemoteID = Pte_RemoteID arg,
             Rte_RefID = Pte_RefID arg, Rte_Reason = Pte_Reason arg,
             Rte_ObservationID = Pte_ObservationID arg, Rte_FromOid = Pte_FromOid arg,
             Rte_ToOid = Pte_ToOid arg, Rte_DetectedAtNs = Pte_DetectedAtNs arg,
             Rte_AckedAtNs = None, Rte_AckedBy = None, Rte_AckNote = None,
             Rte_Detail = Pte_Detail arg\<rparr> in
      if \<not> my_taint_row_ok srv row then Inl SqlCheck
      else case find (my_taint_conflict srv arg) (t_taint_events d) of
        Some old \<Rightarrow> Inr (my_dupID srv (Rte_ID old), d\<lparr>seq_taint_events := i\<rparr>)
      | None \<Rightarrow>
          if \<not> remote_exists d (Pte_RemoteID arg) \<or> \<not> ref_exists d (Pte_RefID arg) \<or>
             \<not> null_or (observation_exists d) (Pte_ObservationID arg)
          then Inl SqlForeignKey
          else Inr (i, d\<lparr>t_taint_events := t_taint_events d @ [row], seq_taint_events := i\<rparr>))"

definition mysqlc_ListTaintEvents :: "int64 \<Rightarrow> int64 \<Rightarrow> int64 \<Rightarrow> (db, TaintEventRow list) query" where [mysqlc_defs]:
  "mysqlc_ListTaintEvents i after lim d =
     my_limit lim (sort_key Rte_ID
       (filter (\<lambda>r. Rte_RemoteID r = i \<and> Rte_ID r > after) (t_taint_events d))) d"

section \<open>lease.sql.go\<close>

definition mysqlc_DeleteRemoteLease :: "mysqlServer \<Rightarrow> int64 \<Rightarrow> string \<Rightarrow> (db, unit) query" where [mysqlc_defs]:
  "mysqlc_DeleteRemoteLease srv i holder d =
     Inr ((), d\<lparr>t_lease := filter (\<lambda>l. \<not> (Rls_RemoteID l = i \<and> same_text srv (Rls_Holder l) holder)) (t_lease d)\<rparr>)"

definition mysqlc_GetRemoteLease :: "int64 \<Rightarrow> (db, RemoteLeaseRow) query" where [mysqlc_defs]:
  "mysqlc_GetRemoteLease i = read_one (\<lambda>l. Rls_RemoteID l = i) t_lease (\<lambda>l. l)"

end
