(* ===== verification/Mysql_Store.thy ===== *)
theory Mysql_Store
  imports Mysql_Queries Sqlite_Store
begin

text \<open>
  \<open>internal/store/mysql\<close>: the conversions of \<open>convert.go\<close>, the write transaction of \<open>tx.go\<close>, the store of \<open>store.go\<close>
  and its lease statements, over the statements of \<open>Mysql_Queries\<close>. A \<open>sql.NullString\<close> or \<open>sql.NullInt64\<close> is an option:
  \<open>None\<close> when it is not valid. The helpers \<open>hashAlgoPtr\<close> and \<open>bytesEqual\<close> are the same functions as in the SQLite package.
\<close>

section \<open>convert.go\<close>

definition wrap32 :: "int \<Rightarrow> int" where
  "wrap32 x = (x + 2 ^ 31) mod 2 ^ 32 - 2 ^ 31"

definition nullStringFromBytes :: "bytes \<Rightarrow> bytes option" where
  "nullStringFromBytes b = (if length b = 0 then None else Some b)"

definition bytesFromNullString :: "bytes option \<Rightarrow> bytes" where
  "bytesFromNullString ns = (case ns of None \<Rightarrow> [] | Some s \<Rightarrow> s)"

definition nullStringFromStr :: "string \<Rightarrow> string option" where
  "nullStringFromStr s = (if s = [] then None else Some s)"

definition nullStringFromStrPtr :: "string option \<Rightarrow> string option" where
  "nullStringFromStrPtr p = (case p of None \<Rightarrow> None | Some s \<Rightarrow> Some s)"

definition nullInt64 :: "int64 \<Rightarrow> int64 option" where
  "nullInt64 v = Some v"

definition nullInt64FromPtr :: "int64 option \<Rightarrow> int64 option" where
  "nullInt64FromPtr p = (case p of None \<Rightarrow> None | Some v \<Rightarrow> Some v)"

definition boolToInt32 :: "bool \<Rightarrow> int" where
  "boolToInt32 b = (if b then 1 else 0)"

definition oidFromNullString :: "bytes option \<Rightarrow> OID" where
  "oidFromNullString v = (let raw = bytesFromNullString v in if length raw > 0 then OIDFromRaw raw else zeroOID)"

definition remoteFromMySQLRow :: "RemoteRow \<Rightarrow> Remote" where
  "remoteFromMySQLRow r =
     \<lparr>rem_ID = Rrem_ID r, rem_URL = Rrem_Url r, rem_NormalizedURL = Rrem_NormalizedUrl r,
      rem_Transport = Rrem_Transport r, rem_SyncInterval = Rrem_SyncIntervalNs r,
      rem_StalenessBudget = Rrem_StalenessBudgetNs r,
      rem_TaintAnyTagDeletion = (Rrem_TaintAnyTagDeletion r \<noteq> 0),
      rem_HashAlgo = (case Rrem_HashAlgo r of None \<Rightarrow> None | Some algo \<Rightarrow> Some algo),
      rem_Status = Rrem_Status r, rem_LastOkNS = Rrem_LastOkNs r, rem_LastErr = Rrem_LastErr r,
      rem_ConsecutiveFailures = Rrem_ConsecutiveFailures r,
      rem_ChainHeadHash = Rrem_ChainHeadHash r, rem_ChainLen = Rrem_ChainLen r,
      rem_RemovedAtNS = (case Rrem_RemovedAtNs r of None \<Rightarrow> None | Some v \<Rightarrow> Some v),
      rem_CreatedAtNS = Rrem_CreatedAtNs r, rem_UpdatedAtNS = Rrem_UpdatedAtNs r\<rparr>"

definition refFromMySQLRow :: "RefRow \<Rightarrow> Ref" where
  "refFromMySQLRow r =
     \<lparr>ref_ID = Rref_ID r, ref_RemoteID = Rref_RemoteID r, ref_TagName = Rref_TagName r,
      ref_CurrentOID = oidFromNullString (Rref_CurrentOid r),
      ref_CurrentPeeledOID = oidFromNullString (Rref_CurrentPeeledOid r),
      ref_IsAnnotatedTag = (Rref_IsAnnotated r \<noteq> 0),
      ref_FirstOID = oidFromNullString (Rref_FirstOid r),
      ref_FirstSeenNS = Rref_FirstSeenNs r, ref_LastSeenNS = Rref_LastSeenNs r,
      ref_LastChangedNS = Rref_LastChangedNs r, ref_Deleted = (Rref_Deleted r \<noteq> 0),
      ref_Tainted = (Rref_Tainted r \<noteq> 0),
      ref_TaintFirstNS = (case Rref_TaintFirstNs r of None \<Rightarrow> None | Some v \<Rightarrow> Some v),
      ref_ObservationCount = Rref_ObservationCount r\<rparr>"

definition taintEventFromMySQLRow :: "TaintEventRow \<Rightarrow> TaintEvent" where
  "taintEventFromMySQLRow r =
     \<lparr>te_ID = Rte_ID r, te_RemoteID = Rte_RemoteID r, te_RefID = Rte_RefID r, te_Reason = Rte_Reason r,
      te_ObservationID = (case Rte_ObservationID r of None \<Rightarrow> None | Some v \<Rightarrow> Some v),
      te_FromOID = oidFromNullString (Rte_FromOid r), te_ToOID = oidFromNullString (Rte_ToOid r),
      te_DetectedAtNS = Rte_DetectedAtNs r,
      te_AckedAtNS = (case Rte_AckedAtNs r of None \<Rightarrow> None | Some v \<Rightarrow> Some v),
      te_AckedBy = (case Rte_AckedBy r of None \<Rightarrow> [] | Some s \<Rightarrow> s),
      te_AckNote = (case Rte_AckNote r of None \<Rightarrow> [] | Some s \<Rightarrow> s),
      te_Detail = Rte_Detail r\<rparr>"

definition syncFromMySQLRow :: "SyncRow \<Rightarrow> Sync" where
  "syncFromMySQLRow r =
     \<lparr>syn_ID = Rsyn_ID r, syn_RemoteID = Rsyn_RemoteID r, syn_Trigger = Rsyn_Trigger r,
      syn_StartedNS = Rsyn_StartedNs r, syn_FinishedNS = Rsyn_FinishedNs r, syn_Status = Rsyn_Status r,
      syn_TagsSeen = Rsyn_TagsSeen r, syn_TagsChanged = Rsyn_TagsChanged r, syn_Error = Rsyn_Error r,
      syn_ChainHeadBefore =
        (let b = bytesFromNullString (Rsyn_ChainHeadBefore r) in if length b > 0 then b else []),
      syn_ChainHeadAfter =
        (let b = bytesFromNullString (Rsyn_ChainHeadAfter r) in if length b > 0 then b else [])\<rparr>"

text \<open>The loop body of \<open>ReplayObservations\<close> in \<open>store.go\<close>.\<close>

definition observationFromMySQLRow :: "ObservationRow \<Rightarrow> Observation" where
  "observationFromMySQLRow r =
     \<lparr>obs_ID = Robs_ID r, obs_RemoteID = Robs_RemoteID r, obs_RefID = Robs_RefID r,
      obs_SyncID = Robs_SyncID r, obs_Seq = Robs_Seq r, obs_EventType = Robs_EventType r,
      obs_PrevOID = oidFromNullString (Robs_PrevOid r), obs_NewOID = oidFromNullString (Robs_NewOid r),
      obs_PrevPeeledOID = oidFromNullString (Robs_PrevPeeledOid r),
      obs_NewPeeledOID = oidFromNullString (Robs_NewPeeledOid r),
      obs_ObservedAtNS = Robs_ObservedAtNs r, obs_PrevHash = Robs_PrevHash r, obs_RowHash = Robs_RowHash r,
      obs_CanonicalMeta = (case Robs_CanonicalMeta r of None \<Rightarrow> [] | Some s \<Rightarrow> s)\<rparr>"

text \<open>\<open>isMySQLUniqueConflict\<close>: error number 1062, which the server gives for a duplicate key.\<close>

definition isMySQLUniqueConflict :: "err \<Rightarrow> bool" where
  "isMySQLUniqueConflict e \<longleftrightarrow> e = SqlErr SqlUnique"

section \<open>tx.go\<close>

record mysqlTx =
  mtx_q :: db
  mtx_syncID :: SyncID

definition mtxq :: "(db, 'a) query \<Rightarrow> (mysqlTx, 'a) io" where [io_defs]:
  "mtxq q = stmt (\<lambda>t. case q (mtx_q t) of Inl e \<Rightarrow> Inl e | Inr (a, d) \<Rightarrow> Inr (a, t\<lparr>mtx_q := d\<rparr>))"

definition mysqlTx_AppendObservation :: "mysqlServer \<Rightarrow> Observation \<Rightarrow> (mysqlTx, Seq \<times> Observation) io" where
  "mysqlTx_AppendObservation srv ob =
     bindT (getsT mtx_syncID) (\<lambda>t_syncID.
     if t_syncID = 0 \<and> obs_SyncID ob = 0
     then fail (ErrText ''store: AppendObservation called without a prior WriteSync'')
     else
     let effectiveSyncID = (if obs_SyncID ob \<noteq> 0 then obs_SyncID ob else t_syncID) in
     bindT (mtxq (mysqlc_GetRemoteChainHead (obs_RemoteID ob))) (\<lambda>(prevHash, chainLen).
     if length prevHash \<noteq> ChainHashLen then fail (ErrText ''chain_head malformed'')
     else
     let sq = wrap64 (chainLen + 1);
         ob = ob\<lparr>obs_Seq := sq, obs_PrevHash := prevHash\<rparr>;
         ob = ob\<lparr>obs_RowHash := RowHash prevHash ob\<rparr> in
     bindT (mtxq (mysqlc_InsertObservation srv
        \<lparr>Pobs_RemoteID = obs_RemoteID ob, Pobs_RefID = obs_RefID ob, Pobs_SyncID = effectiveSyncID,
         Pobs_Seq = sq, Pobs_EventType = obs_EventType ob,
         Pobs_PrevOid = nullStringFromBytes (oid_Raw (obs_PrevOID ob)),
         Pobs_NewOid = nullStringFromBytes (oid_Raw (obs_NewOID ob)),
         Pobs_PrevPeeledOid = nullStringFromBytes (oid_Raw (obs_PrevPeeledOID ob)),
         Pobs_NewPeeledOid = nullStringFromBytes (oid_Raw (obs_NewPeeledOID ob)),
         Pobs_ObservedAtNs = obs_ObservedAtNS ob, Pobs_PrevHash = obs_PrevHash ob,
         Pobs_RowHash = obs_RowHash ob, Pobs_CanonicalMeta = nullStringFromStr (obs_CanonicalMeta ob)\<rparr>)) (\<lambda>i.
     let ob = ob\<lparr>obs_ID := i\<rparr>; newLen = wrap64 (chainLen + 1) in
     bindT (mtxq (mysqlc_AdvanceRemoteChainHead srv (obs_RowHash ob) newLen (obs_RemoteID ob) prevHash chainLen)) (\<lambda>rows.
     if rows \<noteq> 1 then fail ErrChainCAS else ret (sq, ob)))))"

definition mysqlUpsertParams :: "Ref \<Rightarrow> UpsertRefParams" where
  "mysqlUpsertParams ref =
     \<lparr>Pref_RemoteID = ref_RemoteID ref, Pref_TagName = ref_TagName ref,
      Pref_CurrentOid = nullStringFromBytes (oid_Raw (ref_CurrentOID ref)),
      Pref_CurrentPeeledOid = nullStringFromBytes (oid_Raw (ref_CurrentPeeledOID ref)),
      Pref_IsAnnotated = boolToInt32 (ref_IsAnnotatedTag ref),
      Pref_FirstOid = nullStringFromBytes (oid_Raw (ref_FirstOID ref)), Pref_FirstSeenNs = ref_FirstSeenNS ref,
      Pref_LastSeenNs = ref_LastSeenNS ref, Pref_LastChangedNs = ref_LastChangedNS ref,
      Pref_Deleted = boolToInt32 (ref_Deleted ref), Pref_Tainted = boolToInt32 (ref_Tainted ref),
      Pref_TaintFirstNs = nullInt64FromPtr (ref_TaintFirstNS ref),
      Pref_ObservationCount = ref_ObservationCount ref\<rparr>"

definition mysqlTx_UpsertRefProjection :: "mysqlServer \<Rightarrow> Ref \<Rightarrow> (mysqlTx, Ref) io" where
  "mysqlTx_UpsertRefProjection srv ref =
     bindT (mtxq (mysqlc_UpsertRef srv (mysqlUpsertParams ref))) (\<lambda>_.
     bindT (mtxq (mysqlc_GetRefIDByName srv (ref_RemoteID ref) (ref_TagName ref))) (\<lambda>(i, rid).
     ret (ref\<lparr>ref_ID := i, ref_RemoteID := rid\<rparr>)))"

definition mysqlTx_WriteSync :: "mysqlServer \<Rightarrow> Sync \<Rightarrow> (mysqlTx, SyncID \<times> Sync) io" where
  "mysqlTx_WriteSync srv s =
     bindT (mtxq (mysqlc_InsertSync srv
        \<lparr>Psyn_RemoteID = syn_RemoteID s, Psyn_Trigger = syn_Trigger s, Psyn_StartedNs = syn_StartedNS s,
         Psyn_FinishedNs = syn_FinishedNS s, Psyn_Status = syn_Status s,
         Psyn_TagsSeen = wrap32 (syn_TagsSeen s), Psyn_TagsChanged = wrap32 (syn_TagsChanged s),
         Psyn_Error = syn_Error s,
         Psyn_ChainHeadBefore = nullStringFromBytes (syn_ChainHeadBefore s),
         Psyn_ChainHeadAfter = nullStringFromBytes (syn_ChainHeadAfter s)\<rparr>)) (\<lambda>i.
     bindT (modifyT (\<lambda>t. t\<lparr>mtx_syncID := i\<rparr>)) (\<lambda>_.
     ret (i, s\<lparr>syn_ID := i\<rparr>)))"

definition mysqlTx_PruneSyncs :: "RemoteID \<Rightarrow> int64 \<Rightarrow> (mysqlTx, unit) io" where
  "mysqlTx_PruneSyncs remoteID keep = mtxq (mysqlc_PruneSyncs remoteID remoteID (wrap32 keep) remoteID)"

definition mysqlTx_AdvanceChainHead :: "mysqlServer \<Rightarrow> RemoteID \<Rightarrow> bytes \<Rightarrow> int64 \<Rightarrow> (mysqlTx, unit) io" where
  "mysqlTx_AdvanceChainHead srv remoteID newHead newLen =
     mtxq (mysqlc_AdvanceChainHead srv newHead newLen remoteID)"

definition mysqlCreateParams :: "Remote \<Rightarrow> CreateRemoteParams" where
  "mysqlCreateParams r =
     \<lparr>Prem_Url = rem_URL r, Prem_NormalizedUrl = rem_NormalizedURL r, Prem_Transport = rem_Transport r,
      Prem_SyncIntervalNs = rem_SyncInterval r, Prem_StalenessBudgetNs = rem_StalenessBudget r,
      Prem_TaintAnyTagDeletion = boolToInt32 (rem_TaintAnyTagDeletion r),
      Prem_HashAlgo = nullStringFromStrPtr (hashAlgoPtr (rem_HashAlgo r)), Prem_Status = rem_Status r,
      Prem_LastOkNs = rem_LastOkNS r, Prem_LastErr = rem_LastErr r,
      Prem_ConsecutiveFailures = wrap32 (rem_ConsecutiveFailures r), Prem_ChainHeadHash = rem_ChainHeadHash r,
      Prem_ChainLen = rem_ChainLen r, Prem_RemovedAtNs = nullInt64FromPtr (rem_RemovedAtNS r),
      Prem_CreatedAtNs = rem_CreatedAtNS r, Prem_UpdatedAtNs = rem_UpdatedAtNS r\<rparr>"

definition mysqlUniqueToConflict :: "err \<Rightarrow> err" where
  "mysqlUniqueToConflict e = (if isMySQLUniqueConflict e then ErrConflict else e)"

definition mysqlTx_CreateRemote :: "mysqlServer \<Rightarrow> Remote \<Rightarrow> (mysqlTx, RemoteID) io" where
  "mysqlTx_CreateRemote srv r = mapErrT mysqlUniqueToConflict (mtxq (mysqlc_CreateRemote srv (mysqlCreateParams r)))"

definition mysqlTx_CountAllRemotes :: "(mysqlTx, int64) io" where
  "mysqlTx_CountAllRemotes = mtxq mysqlc_CountAllRemotes"

definition mysqlTaintParams :: "TaintEvent \<Rightarrow> InsertTaintEventParams" where
  "mysqlTaintParams e =
     \<lparr>Pte_RemoteID = te_RemoteID e, Pte_RefID = te_RefID e, Pte_Reason = te_Reason e,
      Pte_ObservationID = nullInt64FromPtr (te_ObservationID e),
      Pte_FromOid = nullStringFromBytes (oid_Raw (te_FromOID e)), Pte_ToOid = nullStringFromBytes (oid_Raw (te_ToOID e)),
      Pte_DetectedAtNs = te_DetectedAtNS e, Pte_Detail = te_Detail e\<rparr>"

text \<open>\<open>insertTaintEventMySQL\<close>: \<open>exec\<close> runs a statement on the connection of its argument \<open>q\<close>. An id of 0 says that the
  row was there before; its id is then read back.\<close>

definition insertTaintEventMySQL ::
  "mysqlServer \<Rightarrow> ((db, int64) query \<Rightarrow> ('d, int64) io) \<Rightarrow> TaintEvent \<Rightarrow> ('d, int64) io" where
  "insertTaintEventMySQL srv exec e =
     bindT (exec (mysqlc_InsertTaintEvent srv (mysqlTaintParams e))) (\<lambda>i.
     if i \<noteq> 0 then ret i
     else exec (mysqlc_GetTaintEventID srv (te_RemoteID e) (te_RefID e) (te_Reason e)
                  (nullStringFromBytes (oid_Raw (te_FromOID e))) (nullStringFromBytes (oid_Raw (te_ToOID e)))))"

definition mysqlTx_AppendTaintEvent :: "mysqlServer \<Rightarrow> TaintEvent \<Rightarrow> (mysqlTx, int64) io" where
  "mysqlTx_AppendTaintEvent srv e = insertTaintEventMySQL srv mtxq e"

definition mysqlTx_Tx :: "mysqlServer \<Rightarrow> mysqlTx Tx" where
  "mysqlTx_Tx srv =
     \<lparr>tx_AppendObservation = mysqlTx_AppendObservation srv,
      tx_UpsertRefProjection = mysqlTx_UpsertRefProjection srv,
      tx_WriteSync = mysqlTx_WriteSync srv, tx_AdvanceChainHead = mysqlTx_AdvanceChainHead srv,
      tx_AppendTaintEvent = mysqlTx_AppendTaintEvent srv, tx_CreateRemote = mysqlTx_CreateRemote srv,
      tx_CountAllRemotes = mysqlTx_CountAllRemotes, tx_PruneSyncs = mysqlTx_PruneSyncs\<rparr>"

text \<open>\<open>BeginTx\<close> and \<open>Commit\<close> may fail; a rollback restores the database of the beginning.\<close>

definition mysqlStore_WithTx :: "mysqlServer \<Rightarrow> (mysqlTx Tx \<Rightarrow> (mysqlTx, 'r) io) \<Rightarrow> (db, 'r) io" where
  "mysqlStore_WithTx srv fn w =
     (case stmt (\<lambda>d. Inr ((), d)) w of
        (Inl e, w1) \<Rightarrow> (Inl e, w1)
      | (Inr _, w1) \<Rightarrow>
          (case fn (mysqlTx_Tx srv) (with_db \<lparr>mtx_q = w_db w1, mtx_syncID = 0\<rparr> w1) of
             (Inl fnErr, w2) \<Rightarrow> (Inl fnErr, with_db (w_db w1) w2)
           | (Inr r, w2) \<Rightarrow>
               (case stmt (\<lambda>_. Inr ((), mtx_q (w_db w2))) (with_db (w_db w1) w2) of
                  (Inl e, w3) \<Rightarrow> (Inl e, w3)
                | (Inr _, w3) \<Rightarrow> (Inr r, w3))))"

section \<open>store.go\<close>

text \<open>\<open>validateMySQLDSN\<close>: the driver's parser of a data source name is a parameter.\<close>

record mysqlConfig =
  cfg_MultiStatements :: bool
  cfg_ClientFoundRows :: bool
  cfg_ParseTime :: bool

definition validateMySQLDSN :: "(string \<Rightarrow> mysqlConfig option) \<Rightarrow> string \<Rightarrow> err option" where
  "validateMySQLDSN parseDSN dsn =
     (case parseDSN dsn of
        None \<Rightarrow> Some (ErrText ''mysql.Open: parse DSN'')
      | Some cfg \<Rightarrow>
          if \<not> cfg_MultiStatements cfg then Some (ErrText ''mysql.Open: DSN must set multiStatements=true'')
          else if \<not> cfg_ClientFoundRows cfg then Some (ErrText ''mysql.Open: DSN must set clientFoundRows=true'')
          else if cfg_ParseTime cfg then Some (ErrText ''mysql.Open: DSN must set parseTime=false'')
          else None)"

definition mysqlStore_CreateRemote :: "mysqlServer \<Rightarrow> Remote \<Rightarrow> (db, RemoteID) io" where
  "mysqlStore_CreateRemote srv r =
     mapErrT mysqlUniqueToConflict (stmt (mysqlc_CreateRemote srv (mysqlCreateParams r)))"

definition mysqlStore_GetRemote :: "RemoteID \<Rightarrow> (db, Remote) io" where
  "mysqlStore_GetRemote i =
     bindT (mapErrT noRowsToNotFound (stmt (mysqlc_GetRemote i))) (\<lambda>row. ret (remoteFromMySQLRow row))"

definition mysqlStore_GetRemoteByURL :: "mysqlServer \<Rightarrow> string \<Rightarrow> (db, Remote) io" where
  "mysqlStore_GetRemoteByURL srv url =
     bindT (mapErrT noRowsToNotFound (stmt (mysqlc_GetRemoteByURL srv url))) (\<lambda>row. ret (remoteFromMySQLRow row))"

definition mysqlStore_ListRemotes :: "int64 \<Rightarrow> int64 \<Rightarrow> (db, Remote list \<times> int64) io" where
  "mysqlStore_ListRemotes limit cursor =
     (let limit = (if limit \<le> 0 then 100 else limit) in
      bindT (stmt (mysqlc_ListRemotes cursor (wrap32 limit))) (\<lambda>rows.
      ret (map remoteFromMySQLRow rows, maxCursor Rrem_ID rows)))"

definition mysqlStore_CountAllRemotes :: "(db, int64) io" where
  "mysqlStore_CountAllRemotes = stmt mysqlc_CountAllRemotes"

definition mysqlUpdateParams :: "Remote \<Rightarrow> UpdateRemoteParams" where
  "mysqlUpdateParams r =
     \<lparr>Urem_Url = rem_URL r, Urem_NormalizedUrl = rem_NormalizedURL r, Urem_Transport = rem_Transport r,
      Urem_SyncIntervalNs = rem_SyncInterval r, Urem_StalenessBudgetNs = rem_StalenessBudget r,
      Urem_TaintAnyTagDeletion = boolToInt32 (rem_TaintAnyTagDeletion r),
      Urem_HashAlgo = nullStringFromStrPtr (hashAlgoPtr (rem_HashAlgo r)), Urem_Status = rem_Status r,
      Urem_LastOkNs = rem_LastOkNS r, Urem_LastErr = rem_LastErr r,
      Urem_ConsecutiveFailures = wrap32 (rem_ConsecutiveFailures r), Urem_ChainHeadHash = rem_ChainHeadHash r,
      Urem_ChainLen = rem_ChainLen r, Urem_RemovedAtNs = nullInt64FromPtr (rem_RemovedAtNS r),
      Urem_UpdatedAtNs = rem_UpdatedAtNS r, Urem_ID = rem_ID r\<rparr>"

definition mysqlStore_UpdateRemote :: "mysqlServer \<Rightarrow> Remote \<Rightarrow> (db, unit) io" where
  "mysqlStore_UpdateRemote srv r =
     bindT (stmt (mysqlc_UpdateRemote srv (mysqlUpdateParams r))) (\<lambda>n.
     if n = 0 then fail ErrNotFound else ret ())"

definition mysqlStore_SoftDeleteRemote :: "RemoteID \<Rightarrow> int64 \<Rightarrow> (db, unit) io" where
  "mysqlStore_SoftDeleteRemote i atNS = stmt (mysqlc_SoftDeleteRemote (nullInt64 atNS) atNS i)"

definition mysqlStore_SelectDueRemotes :: "mysqlServer \<Rightarrow> int64 \<Rightarrow> int64 \<Rightarrow> (db, Remote list) io" where
  "mysqlStore_SelectDueRemotes srv nowNs limit =
     bindT (stmt (mysqlc_SelectDueRemotes srv nowNs (wrap32 limit))) (\<lambda>rows. ret (map remoteFromMySQLRow rows))"

definition mysqlStore_SetRemoteHealth ::
  "mysqlServer \<Rightarrow> RemoteID \<Rightarrow> RemoteStatus \<Rightarrow> string \<Rightarrow> int64 \<Rightarrow> (db, unit) io" where
  "mysqlStore_SetRemoteHealth srv i status lastErr lastOkNS =
     bindT NowNS (\<lambda>now. stmt (mysqlc_SetRemoteHealth srv status lastErr lastOkNS now i))"

definition mysqlStore_GetRef :: "mysqlServer \<Rightarrow> RemoteID \<Rightarrow> string \<Rightarrow> (db, Ref) io" where
  "mysqlStore_GetRef srv remoteID tagName =
     bindT (mapErrT noRowsToNotFound (stmt (mysqlc_GetRef srv remoteID tagName))) (\<lambda>row. ret (refFromMySQLRow row))"

definition mysqlStore_ListTags :: "mysqlServer \<Rightarrow> RemoteID \<Rightarrow> (db, Ref list) io" where
  "mysqlStore_ListTags srv remoteID =
     bindT (stmt (mysqlc_ListTags srv remoteID)) (\<lambda>rows. ret (map refFromMySQLRow rows))"

definition mysqlStore_SetRefTaint :: "RefID \<Rightarrow> int64 \<Rightarrow> (db, unit) io" where
  "mysqlStore_SetRefTaint refID firstNS = stmt (mysqlc_SetRefTaint (nullInt64 firstNS) refID)"

definition mysqlStore_GetChainHead :: "RemoteID \<Rightarrow> (db, bytes \<times> int64) io" where
  "mysqlStore_GetChainHead remoteID = mapErrT noRowsToNotFound (stmt (mysqlc_GetChainHead remoteID))"

definition mysqlStore_LatestObservationForRef :: "RefID \<Rightarrow> (db, ObservationProof) io" where
  "mysqlStore_LatestObservationForRef refID =
     bindT (mapErrT noRowsToNotFound (stmt (mysqlc_LatestObservationForRef refID))) (\<lambda>(rid, sq, h).
     ret \<lparr>prf_RemoteID = rid, prf_Seq = sq, prf_RowHash = h\<rparr>)"

definition mysqlStore_ReplayObservations :: "RemoteID \<Rightarrow> Seq \<Rightarrow> int64 \<Rightarrow> (db, Observation list) io" where
  "mysqlStore_ReplayObservations remoteID fromSeq limit =
     (let limit = (if limit \<le> 0 then 1000 else limit) in
      bindT (stmt (mysqlc_ReplayObservations remoteID fromSeq (wrap32 limit))) (\<lambda>rows.
      ret (map observationFromMySQLRow rows)))"

definition mysqlStore_AppendTaintEvent :: "mysqlServer \<Rightarrow> TaintEvent \<Rightarrow> (db, int64) io" where
  "mysqlStore_AppendTaintEvent srv e = insertTaintEventMySQL srv stmt e"

definition mysqlStore_ListTaintEvents :: "RemoteID \<Rightarrow> int64 \<Rightarrow> int64 \<Rightarrow> (db, TaintEvent list \<times> int64) io" where
  "mysqlStore_ListTaintEvents remoteID limit cursor =
     (let limit = (if limit \<le> 0 then 100 else limit) in
      bindT (stmt (mysqlc_ListTaintEvents remoteID cursor (wrap32 limit))) (\<lambda>rows.
      ret (map taintEventFromMySQLRow rows, maxCursor Rte_ID rows)))"

definition mysqlStore_AckTaintEvent :: "mysqlServer \<Rightarrow> int64 \<Rightarrow> string \<Rightarrow> string \<Rightarrow> int64 \<Rightarrow> (db, unit) io" where
  "mysqlStore_AckTaintEvent srv i acker remark atNS =
     stmt (mysqlc_AckTaintEvent srv (nullInt64 atNS) (nullStringFromStr acker) (nullStringFromStr remark) i)"

definition mysqlStore_ListSyncs :: "RemoteID \<Rightarrow> int64 \<Rightarrow> int64 \<Rightarrow> (db, Sync list \<times> int64) io" where
  "mysqlStore_ListSyncs remoteID limit cursor =
     (let limit = (if limit \<le> 0 then 100 else limit);
          cursor = (if cursor \<le> 0 then maxInt64 else cursor) in
      bindT (stmt (mysqlc_ListSyncs remoteID cursor (wrap32 limit))) (\<lambda>rows.
      let out = map syncFromMySQLRow rows in
      ret (out, if int (length rows) = limit \<and> length out > 0 then syn_ID (out ! (length out - 1)) else 0)))"

section \<open>The lock seam\<close>

text \<open>\<open>upsertLeaseMySQLSQL\<close>: the assignments of \<open>ON DUPLICATE KEY UPDATE\<close> take place from left to right, each reading the
  row as the ones before it left it. The holder and the acquisition time are decided by the old expiry, because the expiry
  is assigned last.\<close>

definition setHolder :: "int64 \<Rightarrow> RemoteLeaseRow \<Rightarrow> RemoteLeaseRow \<Rightarrow> RemoteLeaseRow" where
  "setHolder now new l = l\<lparr>Rls_Holder := (if Rls_ExpiresAtNs l < now then Rls_Holder new else Rls_Holder l)\<rparr>"

definition setAcquired :: "int64 \<Rightarrow> RemoteLeaseRow \<Rightarrow> RemoteLeaseRow \<Rightarrow> RemoteLeaseRow" where
  "setAcquired now new l =
     l\<lparr>Rls_AcquiredAtNs := (if Rls_ExpiresAtNs l < now then Rls_AcquiredAtNs new else Rls_AcquiredAtNs l)\<rparr>"

definition setExpires :: "int64 \<Rightarrow> RemoteLeaseRow \<Rightarrow> RemoteLeaseRow \<Rightarrow> RemoteLeaseRow" where
  "setExpires now new l =
     l\<lparr>Rls_ExpiresAtNs := (if Rls_ExpiresAtNs l < now then Rls_ExpiresAtNs new else Rls_ExpiresAtNs l)\<rparr>"

definition upsertLeaseMySQLSQL ::
  "mysqlServer \<Rightarrow> RemoteID \<Rightarrow> string \<Rightarrow> int64 \<Rightarrow> int64 \<Rightarrow> int64 \<Rightarrow> int64 \<Rightarrow> int64 \<Rightarrow> (db, unit) query" where
  "upsertLeaseMySQLSQL srv i holder acquired expires now1 now2 now3 d =
     (let new = \<lparr>Rls_RemoteID = i, Rls_Holder = holder, Rls_AcquiredAtNs = acquired, Rls_ExpiresAtNs = expires\<rparr> in
      if \<not> my_varchar srv 255 holder then Inl SqlCheck
      else if list_ex (\<lambda>l. Rls_RemoteID l = i) (t_lease d)
      then Inr ((), d\<lparr>t_lease := update_where (\<lambda>l. Rls_RemoteID l = i)
             (\<lambda>l. setExpires now3 new (setAcquired now2 new (setHolder now1 new l))) (t_lease d)\<rparr>)
      else if \<not> remote_exists d i then Inl SqlForeignKey
      else Inr ((), d\<lparr>t_lease := t_lease d @ [new]\<rparr>))"

definition mysqlStore_TryAcquireLease ::
  "mysqlServer \<Rightarrow> RemoteID \<Rightarrow> string \<Rightarrow> int64 \<Rightarrow> int64 \<Rightarrow> (db, bool \<times> bytes) io" where
  "mysqlStore_TryAcquireLease srv remoteID holder nowNs expiresNS =
     bindT (stmt (mysqlc_GetRemoteChainHead remoteID)) (\<lambda>(head, _).
     bindT (stmt (upsertLeaseMySQLSQL srv remoteID holder nowNs expiresNS nowNs nowNs nowNs)) (\<lambda>_.
     bindT (stmt (mysqlc_GetRemoteLease remoteID)) (\<lambda>l.
     if Rls_Holder l \<noteq> holder \<or> Rls_ExpiresAtNs l \<noteq> expiresNS then ret (False, []) else ret (True, head))))"

definition noRowsToLeaseLost :: "err \<Rightarrow> err" where
  "noRowsToLeaseLost e = (if e = SqlErr SqlNoRows then ErrLeaseLost else e)"

text \<open>The transaction of \<open>ReleaseLeaseCAS\<close>; each error in it is followed by a rollback.\<close>

definition mysqlReleaseTx :: "mysqlServer \<Rightarrow> RemoteID \<Rightarrow> string \<Rightarrow> bytes \<Rightarrow> bytes \<Rightarrow> int64 \<Rightarrow> (db, unit) io" where
  "mysqlReleaseTx srv remoteID holder witness newHead newLen =
     bindT (mapErrT noRowsToLeaseLost (stmt (mysqlc_GetRemoteLease remoteID))) (\<lambda>l.
     if Rls_Holder l \<noteq> holder then fail ErrLeaseLost
     else
     bindT (stmt (mysqlc_GetRemoteChainHead remoteID)) (\<lambda>(currentHead, chainLen).
     bindT (if bytesEqual currentHead witness then
              bindT (stmt (mysqlc_AdvanceRemoteChainHead srv newHead newLen remoteID witness chainLen)) (\<lambda>rows.
              if rows \<noteq> 1 then fail ErrChainCAS else ret ())
            else if bytesEqual currentHead newHead then ret ()
            else fail ErrChainCAS) (\<lambda>_.
     stmt (mysqlc_DeleteRemoteLease srv remoteID holder))))"

definition mysqlStore_ReleaseLeaseCAS ::
  "mysqlServer \<Rightarrow> RemoteID \<Rightarrow> string \<Rightarrow> bytes \<Rightarrow> bytes \<Rightarrow> int64 \<Rightarrow> (db, unit) io" where
  "mysqlStore_ReleaseLeaseCAS srv remoteID holder witness newHead newLen w =
     (case stmt (\<lambda>d. Inr ((), d)) w of
        (Inl e, w1) \<Rightarrow> (Inl e, w1)
      | (Inr _, w1) \<Rightarrow>
          (case mysqlReleaseTx srv remoteID holder witness newHead newLen w1 of
             (Inl e, w2) \<Rightarrow> (Inl e, w2\<lparr>w_db := w_db w1\<rparr>)
           | (Inr _, w2) \<Rightarrow>
               (case stmt (\<lambda>d. Inr ((), d)) w2 of
                  (Inl e, w3) \<Rightarrow> (Inl e, w3\<lparr>w_db := w_db w1\<rparr>)
                | (Inr _, w3) \<Rightarrow> (Inr (), w3))))"

section \<open>The store as an interface value\<close>

definition mysqlStore :: "mysqlServer \<Rightarrow> (db, mysqlTx, 'r) Store" where
  "mysqlStore srv =
     \<lparr>st_CreateRemote = mysqlStore_CreateRemote srv, st_GetRemote = mysqlStore_GetRemote,
      st_GetRemoteByURL = mysqlStore_GetRemoteByURL srv, st_ListRemotes = mysqlStore_ListRemotes,
      st_CountAllRemotes = mysqlStore_CountAllRemotes, st_UpdateRemote = mysqlStore_UpdateRemote srv,
      st_SoftDeleteRemote = mysqlStore_SoftDeleteRemote, st_SelectDueRemotes = mysqlStore_SelectDueRemotes srv,
      st_SetRemoteHealth = mysqlStore_SetRemoteHealth srv, st_GetRef = mysqlStore_GetRef srv,
      st_ListTags = mysqlStore_ListTags srv, st_SetRefTaint = mysqlStore_SetRefTaint,
      st_GetChainHead = mysqlStore_GetChainHead, st_ReplayObservations = mysqlStore_ReplayObservations,
      st_LatestObservationForRef = mysqlStore_LatestObservationForRef,
      st_AppendTaintEvent = mysqlStore_AppendTaintEvent srv, st_ListTaintEvents = mysqlStore_ListTaintEvents,
      st_AckTaintEvent = mysqlStore_AckTaintEvent srv, st_ListSyncs = mysqlStore_ListSyncs,
      st_TryAcquireLease = mysqlStore_TryAcquireLease srv, st_ReleaseLeaseCAS = mysqlStore_ReleaseLeaseCAS srv,
      st_WithTx = mysqlStore_WithTx srv\<rparr>"

end
