(* ===== verification/Mysql_Ledger.thy ===== *)
theory Mysql_Ledger
  imports Mysql_Store Sync_Taint
begin

text \<open>
  The MySQL transaction keeps the schema's keys and every remote's hash chain, whatever the collation of the server: the
  UNIQUE keys of a coarser collation are stricter, never weaker. The store and its lease are a host for the sync in the
  sense of \<open>sync_host\<close>, so what is proved there of \<open>SyncRemote\<close> holds over MySQL as well.
\<close>

section \<open>Conversions\<close>

lemma nullStringFromBytes_eq [simp]: "nullStringFromBytes b = nullBytes b"
  by (simp add: nullStringFromBytes_def nullBytes_def)

lemma nullInt64FromPtr_eq [simp]: "nullInt64FromPtr p = p"
  by (simp add: nullInt64FromPtr_def split: option.splits)

lemma nullStringFromStrPtr_eq [simp]: "nullStringFromStrPtr p = p"
  by (simp add: nullStringFromStrPtr_def split: option.splits)

lemma boolToInt32_eq [simp]: "boolToInt32 b = boolToInt b"
  by (simp add: boolToInt32_def boolToInt_def)

lemma oidFromNullString_eq [simp]: "oidFromNullString v = oidFromCol v"
  by (simp add: oidFromNullString_def bytesFromNullString_def oidFromCol_def toBytes_def split: option.splits)

lemma mysqlUpsertParams_eq [simp]: "mysqlUpsertParams ref = upsertParams ref"
  by (simp add: mysqlUpsertParams_def upsertParams_simp)

lemma mysqlTaintParams_eq [simp]: "mysqlTaintParams e = taintParams e"
  by (simp add: mysqlTaintParams_def taintParams_def)

text \<open>The two packages read a remote, a tag and an observation in the same way.\<close>

lemma remoteFromMySQLRow_eq [simp]: "remoteFromMySQLRow r = remoteFromRow r"
  by (simp add: remoteFromMySQLRow_def remoteFromRow_def)

lemma refFromMySQLRow_eq [simp]: "refFromMySQLRow r = refFromRow r"
  by (simp add: refFromMySQLRow_def refFromRow_def)

lemma observationFromMySQLRow_eq [simp]: "observationFromMySQLRow r = observationFromRow r"
  by (simp add: observationFromMySQLRow_def observationFromRow_def replayOid_oidFromCol toInt64_def toString_def
      split: option.splits)

lemma syncFromMySQLRow_eq [simp]: "syncFromMySQLRow r = syncFromRow r"
  by (simp add: syncFromMySQLRow_def syncFromRow_def bytesFromNullString_def toBytes_def Let_def split: option.splits)

section \<open>Statements\<close>

lemma ids_ok_next: "ids_ok f rs n \<Longrightarrow> f r = m \<Longrightarrow> n < m \<Longrightarrow> ids_ok f (rs @ [r]) m"
  by (fastforce simp: ids_ok_def)

lemma my_set_remotes_Inr:
  "my_set_remotes srv P f d = Inr (n, d') \<longleftrightarrow>
     (\<forall>r \<in> set (t_remotes d). P r \<longrightarrow> my_remote_row_ok srv (f r)) \<and> n = count_where P (t_remotes d) \<and>
     d' = d\<lparr>t_remotes := update_where P f (t_remotes d)\<rparr>"
  by (auto simp: my_set_remotes_def my_update_def list_ex_iff)

lemma no_result_Inr: "no_result q d = Inr (u, d') \<longleftrightarrow> (\<exists>a. q d = Inr (a, d'))"
  by (auto simp: no_result_def split: sum.splits)

lemma my_limit_Inr: "my_limit n rs d = Inr (rs', d') \<longleftrightarrow> 0 \<le> n \<and> rs' = take (nat n) rs \<and> d' = d"
  by (auto simp: my_limit_def)

text \<open>What each write of a transaction does to the tables, when it succeeds.\<close>

lemma my_AdvanceRemoteChainHead_Inr:
  assumes "mysqlc_AdvanceRemoteChainHead srv head n i head2 n2 d = Inr (rows, d')"
  shows "sqlc_AdvanceRemoteChainHead head n i head2 n2 d = Inr (rows, d')"
  using assms by (simp add: mysqlc_AdvanceRemoteChainHead_def my_set_remotes_Inr sqlc_AdvanceRemoteChainHead_def Let_def)

lemma same_chains_mysql:
  "mysqlc_UpsertRef srv arg d = Inr (u, d') \<Longrightarrow> same_chains d d'"
  "mysqlc_InsertSync srv sarg d = Inr (i, d') \<Longrightarrow> same_chains d d'"
  "mysqlc_PruneSyncs j j2 lim j3 d = Inr (u, d') \<Longrightarrow> same_chains d d'"
  "mysqlc_InsertTaintEvent srv targ d = Inr (i, d') \<Longrightarrow> same_chains d d'"
  by (auto simp: mysqlc_defs same_chains_def Let_def split: if_splits option.splits)

lemma same_text_refl [simp]: "same_text srv a a"
  by (simp add: same_text_def)

lemma my_read_back: "mysqlc_GetRefIDByName srv i tag d = Inr (a, d') \<Longrightarrow> d' = d"
  "mysqlc_GetTaintEventID srv i j reason f t d = Inr (b, d') \<Longrightarrow> d' = d"
  by (auto simp: mysqlc_defs read_one_Inr)

section \<open>AppendObservation\<close>

lemma mtxq_Inr:
  "mtxq q w = (Inr a, w') \<longleftrightarrow>
     \<not> w_fault w (w_stmts w) \<and>
     (\<exists>d. q (mtx_q (w_db w)) = Inr (a, d) \<and>
          w' = w\<lparr>w_stmts := w_stmts w + 1, w_db := (w_db w)\<lparr>mtx_q := d\<rparr>\<rparr>)"
  by (auto simp: mtxq_def stmt_def Let_def split: if_splits sum.splits)

lemma oks_mtxq:
  assumes "\<And>t a d'. P t \<Longrightarrow> q (mtx_q t) = Inr (a, d') \<Longrightarrow> Q a (t\<lparr>mtx_q := d'\<rparr>)"
  shows "oks P (mtxq q) Q"
  by (rule oksI) (use assms in \<open>auto simp: mtxq_Inr\<close>)

lemma my_InsertObservation_Inr:
  assumes "mysqlc_InsertObservation srv (observation_params ob sid) d = Inr (i, d')"
  shows "i = my_auto srv (seq_observations d)"
    and "remote_exists d (obs_RemoteID ob)" and "ref_exists d (obs_RefID ob)" and "sync_exists d sid"
    and "\<forall>r \<in> set (t_observations d). \<not> (Robs_RemoteID r = obs_RemoteID ob \<and> Robs_Seq r = obs_Seq ob)"
    and "d' = d\<lparr>t_observations := t_observations d @ [observation_row (ob\<lparr>obs_ID := i\<rparr>) sid], seq_observations := i\<rparr>"
  using assms
  by (auto simp: mysqlc_InsertObservation_def observation_params_def observation_row_def Let_def list_ex_iff split: if_splits)

text \<open>The operation as its three statements on the numbered observation.\<close>

lemma my_AppendObservation_steps:
  "mysqlTx_AppendObservation srv ob =
     bindT (getsT mtx_syncID) (\<lambda>sid.
     if effective_sync ob sid = 0
     then fail (ErrText ''store: AppendObservation called without a prior WriteSync'')
     else
     bindT (mtxq (mysqlc_GetRemoteChainHead (obs_RemoteID ob))) (\<lambda>(h, n).
     if length h \<noteq> ChainHashLen then fail (ErrText ''chain_head malformed'')
     else
     bindT (mtxq (mysqlc_InsertObservation srv
       (observation_params (chained_obs ob h n (obs_ID ob)) (effective_sync ob sid)))) (\<lambda>i.
     bindT (mtxq (mysqlc_AdvanceRemoteChainHead srv (obs_RowHash (chained_obs ob h n i)) (wrap64 (n + 1))
              (obs_RemoteID ob) h n)) (\<lambda>rows.
     if rows \<noteq> 1 then fail ErrChainCAS else ret (wrap64 (n + 1), chained_obs ob h n i)))))"
proof -
  have cond: "effective_sync ob sid = 0 \<longleftrightarrow> sid = 0 \<and> obs_SyncID ob = 0" for sid
    by (simp add: effective_sync_def)
  have meta: "nullStringFromStr m = (if m \<noteq> [] then Some m else None)" for m
    by (simp add: nullStringFromStr_def)
  show ?thesis
    unfolding cond
    unfolding mysqlTx_AppendObservation_def observation_params_def chained_obs_def effective_sync_def Let_def meta
    by (simp add: case_prod_unfold split del: if_split cong: if_cong)
qed

text \<open>The row is appended and the head moved as in SQLite, with the id that the server chose.\<close>

lemma my_AppendObservation_Inr:
  assumes run: "mysqlTx_AppendObservation srv ob w = (Inr (sq, ob'), w')"
    and d: "d = mtx_q (w_db w)" and sid: "sid = effective_sync ob (mtx_syncID (w_db w))"
    and i: "i = my_auto srv (seq_observations d)"
  obtains h n where "(obs_RemoteID ob, h, n) \<in> set (remote_heads d)" and "sq = wrap64 (n + 1)"
    and "ob' = chained_obs ob h n i"
    and "remote_exists d (obs_RemoteID ob)" and "ref_exists d (obs_RefID ob)" and "sync_exists d sid"
    and "\<forall>r \<in> set (t_observations d). \<not> (Robs_RemoteID r = obs_RemoteID ob \<and> Robs_Seq r = sq)"
    and "w_db w' = (w_db w)\<lparr>mtx_q := append_db (d\<lparr>seq_observations := i - 1\<rparr>) ob' sid h n\<rparr>"
proof -
  from run [unfolded my_AppendObservation_steps]
  obtain h n w1 where
    s1: "mtxq (mysqlc_GetRemoteChainHead (obs_RemoteID ob)) w = (Inr (h, n), w1)"
    and r1: "bindT (mtxq (mysqlc_InsertObservation srv (observation_params (chained_obs ob h n (obs_ID ob)) sid)))
       (\<lambda>i. bindT (mtxq (mysqlc_AdvanceRemoteChainHead srv (obs_RowHash (chained_obs ob h n i)) (wrap64 (n + 1))
              (obs_RemoteID ob) h n)) (\<lambda>rows.
     if rows \<noteq> 1 then fail ErrChainCAS else ret (wrap64 (n + 1), chained_obs ob h n i))) w1 = (Inr (sq, ob'), w')"
    unfolding sid by (elim bindT_InrE) (simp split: if_splits prod.splits, elim bindT_InrE, force split: if_splits)
  from r1 obtain j w2 where
    s2: "mtxq (mysqlc_InsertObservation srv (observation_params (chained_obs ob h n (obs_ID ob)) sid)) w1 = (Inr j, w2)"
    and s3: "mtxq (mysqlc_AdvanceRemoteChainHead srv (obs_RowHash (chained_obs ob h n j)) (wrap64 (n + 1))
              (obs_RemoteID ob) h n) w2 = (Inr 1, w')"
    and res: "sq = wrap64 (n + 1)" "ob' = chained_obs ob h n j"
    by (elim bindT_InrE) (auto split: if_splits)
  from s1 d have d1: "w_db w1 = w_db w" and head: "(obs_RemoteID ob, h, n) \<in> set (remote_heads d)"
    by (auto simp: mtxq_Inr mysqlc_GetRemoteChainHead_def read_one_Inr dest: find_remote_heads)
  from s2 d1 d obtain d2 where ins: "mysqlc_InsertObservation srv
      (observation_params (chained_obs ob h n (obs_ID ob)) sid) d = Inr (j, d2)"
    and d2: "w_db w2 = (w_db w)\<lparr>mtx_q := d2\<rparr>"
    by (auto simp: mtxq_Inr)
  note ins = my_InsertObservation_Inr [OF ins, folded i]
  from s3 d2 obtain d3 where adv: "mysqlc_AdvanceRemoteChainHead srv (obs_RowHash (chained_obs ob h n j)) (wrap64 (n + 1))
              (obs_RemoteID ob) h n d2 = Inr (1, d3)" and w': "w_db w' = (w_db w)\<lparr>mtx_q := d3\<rparr>"
    by (auto simp: mtxq_Inr)
  have "w_db w' = (w_db w)\<lparr>mtx_q := append_db (d\<lparr>seq_observations := i - 1\<rparr>) ob' sid h n\<rparr>"
    using my_AdvanceRemoteChainHead_Inr [OF adv] ins(1,6)
    by (auto simp: w' sqlc_AdvanceRemoteChainHead_def append_db_def res chained_obs_def Let_def)
  with ins head res show thesis by (intro that [of h n]) (simp_all add: chained_obs_def Let_def)
qed

section \<open>Transactions are atomic\<close>

lemma my_WithTx_Inl: "mysqlStore_WithTx srv fn w = (Inl e, w') \<Longrightarrow> w_db w' = w_db w"
  by (auto simp: mysqlStore_WithTx_def stmt_def Let_def split: prod.splits sum.splits if_splits)

lemma my_WithTx_Inr:
  assumes "mysqlStore_WithTx srv fn w = (Inr r, w')"
  obtains w1 w2 where "w_db w1 = \<lparr>mtx_q = w_db w, mtx_syncID = 0\<rparr>"
    and "fn (mysqlTx_Tx srv) w1 = (Inr r, w2)" and "w_db w' = mtx_q (w_db w2)"
proof -
  let ?w1 = "with_db \<lparr>mtx_q = w_db w, mtx_syncID = 0\<rparr> (w\<lparr>w_stmts := w_stmts w + 1\<rparr>)"
  from assms obtain w2 where "fn (mysqlTx_Tx srv) ?w1 = (Inr r, w2)" "w_db w' = mtx_q (w_db w2)"
    by (auto simp: mysqlStore_WithTx_def stmt_def Let_def split: prod.splits sum.splits if_splits)
  then show thesis by (intro that [of ?w1 w2]) simp_all
qed

lemma my_WithTx_oks:
  assumes "oks (\<lambda>t. P (mtx_q t)) (fn (mysqlTx_Tx srv)) (\<lambda>r t. Q r (mtx_q t))"
  shows "oks P (mysqlStore_WithTx srv fn) Q"
proof (rule oksI)
  fix w r w'
  assume P: "P (w_db w)" and run: "mysqlStore_WithTx srv fn w = (Inr r, w')"
  from run obtain w1 w2 where "w_db w1 = \<lparr>mtx_q = w_db w, mtx_syncID = 0\<rparr>"
    "fn (mysqlTx_Tx srv) w1 = (Inr r, w2)" "w_db w' = mtx_q (w_db w2)"
    by (rule my_WithTx_Inr)
  with P oksD [OF assms, of w1 r w2] show "Q r (w_db w')" by simp
qed

lemma keeps_oks:
  assumes "oks I m (\<lambda>_. I)" and "\<And>w e w'. m w = (Inl e, w') \<Longrightarrow> w_db w' = w_db w"
  shows "keeps I m"
proof (rule keepsI)
  fix w :: "'a world"
  assume I: "I (w_db w)"
  obtain r w' where m: "m w = (r, w')" by (cases "m w")
  have "I (w_db w')"
  proof (cases r)
    case (Inl e)
    with m assms(2) I show ?thesis by metis
  next
    case (Inr a)
    with m oksD [OF assms(1) I] show ?thesis by simp
  qed
  with m show "I (w_db (snd (m w)))" by simp
qed

section \<open>Quiet operations\<close>

lemma quiet_my_SetRemoteHealth: "quietT (mysqlStore_SetRemoteHealth srv i status e ok)"
  unfolding mysqlStore_SetRemoteHealth_def
proof (intro quietT_bind quietT_simps quietT_stmt)
  fix now d a d'
  assume "db_ok d" and run: "mysqlc_SetRemoteHealth srv status e ok now i d = Inr (a, d')"
  let ?f = "\<lambda>r. r\<lparr>Rrem_Status := status, Rrem_LastErr := e, Rrem_LastOkNs := ok, Rrem_UpdatedAtNs := now\<rparr>"
  from run have d': "d' = d\<lparr>t_remotes := update_where (\<lambda>r. Rrem_ID r = i) ?f (t_remotes d)\<rparr>"
    by (auto simp: mysqlc_SetRemoteHealth_def no_result_Inr my_set_remotes_Inr)
  have "db_ok d'" unfolding d' using \<open>db_ok d\<close> by (rule db_ok_update_remotes) simp_all
  moreover have "remote_heads d' = remote_heads d" unfolding d' by (rule remote_heads_update) simp
  ultimately show "quiet d d'" by (simp add: quiet_def) (simp add: d')
qed

lemma quiet_my_upsertLease:
  assumes ok: "db_ok d" and run: "upsertLeaseMySQLSQL srv i h a ex n1 n2 n3 d = Inr (u, d')"
  shows "quiet d d'"
proof -
  have dist: "distinct (map Rls_RemoteID (t_lease d))" using ok by (simp add: db_ok_def)
  have ids: "map Rls_RemoteID (update_where P (\<lambda>l. setExpires n3 r (setAcquired n2 r (setHolder n1 r l))) ls) =
      map Rls_RemoteID ls" for P r ls
    by (simp add: update_where_def setExpires_def setAcquired_def setHolder_def)
  from run have d': "d' = d\<lparr>t_lease := t_lease d'\<rparr>"
    by (auto simp: upsertLeaseMySQLSQL_def Let_def split: if_splits)
  from run dist have "distinct (map Rls_RemoteID (t_lease d'))"
    by (auto simp: upsertLeaseMySQLSQL_def Let_def ids list_ex_iff split: if_splits)
  with db_ok_lease [OF ok] have "quiet d (d\<lparr>t_lease := t_lease d'\<rparr>)" by (simp add: quiet_def)
  then show ?thesis by (simp add: d' [symmetric])
qed

lemma my_reads:
  "w_db (snd (mysqlStore_GetRemote i w)) = w_db w" "w_db (snd (mysqlStore_ListTags srv i w)) = w_db w"
  "w_db (snd (mysqlStore_GetChainHead i w)) = w_db w"
  unfolding mysqlStore_GetRemote_def mysqlStore_ListTags_def mysqlStore_GetChainHead_def
  by (rule bindT_reads, auto intro: stmt_reads simp: mysqlc_defs read_one_Inr)+

definition mysqlLock :: "mysqlServer \<Rightarrow> db Lock" where
  "mysqlLock srv = NewDBLease (mysqlStore srv :: (db, mysqlTx, unit) Store)"

definition mysql_tags :: "mysqlServer \<Rightarrow> db \<Rightarrow> RemoteID \<Rightarrow> Ref list" where
  "mysql_tags srv d rid =
     map refFromRow (sort_key (\<lambda>r. my_weight srv (Rref_TagName r)) (filter (\<lambda>r. Rref_RemoteID r = rid) (t_refs d)))"

lemma mysql_tags_prior: "db_ok d \<Longrightarrow> map_of (priorMap (mysql_tags srv d rid)) = v_refs (db_view d) rid"
  unfolding mysql_tags_def by (rule priorMap_rows) simp_all

lemma mysql_sel [simp]:
  "st_GetRemote (mysqlStore srv) = mysqlStore_GetRemote" "st_ListTags (mysqlStore srv) = mysqlStore_ListTags srv"
  "st_SetRemoteHealth (mysqlStore srv) = mysqlStore_SetRemoteHealth srv" "st_WithTx (mysqlStore srv) = mysqlStore_WithTx srv"
  "st_GetChainHead (mysqlStore srv) = mysqlStore_GetChainHead"
  "st_TryAcquireLease (mysqlStore srv) = mysqlStore_TryAcquireLease srv"
  "st_ReleaseLeaseCAS (mysqlStore srv) = mysqlStore_ReleaseLeaseCAS srv"
  "lk_AcquireRemoteLease (mysqlLock srv) = dbLease_AcquireRemoteLease (mysqlStore srv :: (db, mysqlTx, unit) Store)"
  "lk_Release (mysqlLock srv) = dbLease_Release (mysqlStore srv :: (db, mysqlTx, unit) Store)"
  by (simp_all add: mysqlStore_def mysqlLock_def NewDBLease_def)

lemma quiet_read: "(\<And>d a d'. q d = Inr (a, d') \<Longrightarrow> d' = d) \<Longrightarrow> quietT (stmt q)"
  by (rule quietT_reads) (rule stmt_reads)

lemma quiet_my_Acquire: "quietT (dbLease_AcquireRemoteLease (mysqlStore srv :: (db, mysqlTx, 'r) Store) i h ttl)"
proof -
  have reads: "quietT (stmt (mysqlc_GetRemoteChainHead i))" "quietT (stmt (mysqlc_GetRemoteLease i))"
    by (rule quiet_read, auto simp: mysqlc_defs read_one_Inr)+
  have "quietT (mysqlStore_TryAcquireLease srv i h now ex)" for now ex
    unfolding mysqlStore_TryAcquireLease_def case_prod_unfold
    by (intro quietT_bind reads quietT_stmt quiet_my_upsertLease) (auto simp: quietT_simps)
  then show ?thesis
    unfolding dbLease_AcquireRemoteLease_def Let_def case_prod_unfold
    by (intro quietT_bind quietT_simps) (auto simp: quietT_simps)
qed

lemma my_Acquire_Inr:
  assumes "dbLease_AcquireRemoteLease (mysqlStore srv :: (db, mysqlTx, 'r) Store) i h ttl w = (Inr l, w')"
  shows "lse_RemoteID l = i \<and> (\<exists>n. (i, lse_ChainHeadAtLease l, n) \<in> set (remote_heads (w_db w)))"
  using assms
  by (auto simp: dbLease_AcquireRemoteLease_def bindT_eq_Inr NowNS_Inr mysqlStore_TryAcquireLease_def
      stmt_Inr mysqlc_GetRemoteChainHead_def read_one_Inr Let_def dest: find_remote_heads split: if_splits)

text \<open>Releasing with the head and length that are stored changes nothing but the lease.\<close>

lemma quiet_my_releaseTx:
  assumes ok: "db_ok (w_db w)" and head: "(i, h, n) \<in> set (remote_heads (w_db w))"
    and run: "mysqlReleaseTx srv i holder witness h n w = (Inr u, w')"
  shows "quiet (w_db w) (w_db w')"
proof -
  let ?d = "w_db w"
  from run obtain l w0 ch cl w1 u' w2 where
    s0: "stmt (mysqlc_GetRemoteLease i) w = (Inr l, w0)"
    and s1: "stmt (mysqlc_GetRemoteChainHead i) w0 = (Inr (ch, cl), w1)"
    and s2: "(if bytesEqual ch witness then
        bindT (stmt (mysqlc_AdvanceRemoteChainHead srv h n i witness cl)) (\<lambda>rows. if rows \<noteq> 1 then fail ErrChainCAS else ret ())
      else if bytesEqual ch h then ret () else fail ErrChainCAS) w1 = (Inr u', w2)"
    and s3: "stmt (mysqlc_DeleteRemoteLease srv i holder) w2 = (Inr u, w')"
    unfolding mysqlReleaseTx_def by (elim bindT_InrE) (auto elim!: bindT_InrE split: if_splits)
  from s0 have w0: "w_db w0 = ?d" by (auto simp: stmt_Inr mysqlc_GetRemoteLease_def read_one_Inr)
  from s1 w0 have w1: "w_db w1 = ?d" and "(i, ch, cl) \<in> set (remote_heads ?d)"
    by (auto simp: stmt_Inr mysqlc_GetRemoteChainHead_def read_one_Inr dest: find_remote_heads)
  with remote_heads_unique [OF ok head] have cur: "ch = h" "cl = n" by auto
  have "update_where (\<lambda>r. Rrem_ID r = i \<and> Rrem_ChainHeadHash r = h \<and> Rrem_ChainLen r = n)
      (\<lambda>r. r\<lparr>Rrem_ChainHeadHash := h, Rrem_ChainLen := n\<rparr>) (t_remotes ?d) = t_remotes ?d"
    by (auto simp: update_where_def intro!: map_idI)
  with s2 w1 cur have w2: "w_db w2 = ?d"
    by (auto simp: bindT_eq_Inr stmt_Inr mysqlc_AdvanceRemoteChainHead_def my_set_remotes_Inr split: if_splits)
  have "distinct (map Rls_RemoteID (filter P (t_lease ?d)))" for P
    using ok by (simp add: db_ok_def distinct_map_filter)
  from db_ok_lease [OF ok this] show ?thesis
    using s3 by (auto simp: stmt_Inr mysqlc_DeleteRemoteLease_def w2 quiet_def)
qed

lemma quiet_my_Release:
  assumes ok: "db_ok (w_db w)" and head: "(lse_RemoteID l, h, n) \<in> set (remote_heads (w_db w))"
  shows "quiet (w_db w) (w_db (snd (dbLease_Release (mysqlStore srv :: (db, mysqlTx, 'r) Store) (Some l) h n w)))"
proof -
  let ?w1 = "w\<lparr>w_stmts := w_stmts w + 1\<rparr>"
  have "quiet (w_db w) (w_db w2)"
    if "mysqlReleaseTx srv (lse_RemoteID l) (lse_Holder l) (lse_ChainHeadAtLease l) h n ?w1 = (Inr u, w2)" for u w2
    using quiet_my_releaseTx [OF _ _ that] ok head by simp
  then show ?thesis
    using quiet_refl [OF ok]
    by (auto simp: dbLease_Release_def mysqlStore_ReleaseLeaseCAS_def stmt_def Let_def split: prod.splits sum.splits)
qed

lemma my_GetRemote_Inr:
  "mysqlStore_GetRemote i w = (Inr r, w') \<Longrightarrow>
   \<exists>row. find (\<lambda>r. Rrem_ID r = i) (t_remotes (w_db w)) = Some row \<and> r = remoteFromRow row"
  by (auto simp: mysqlStore_GetRemote_def bindT_eq_Inr stmt_Inr mysqlc_GetRemote_def read_one_Inr)

lemma my_ListTags_Inr: "mysqlStore_ListTags srv i w = (Inr ps, w') \<Longrightarrow> ps = mysql_tags srv (w_db w) i"
  by (auto simp: mysqlStore_ListTags_def bindT_eq_Inr stmt_Inr mysqlc_ListTags_def mysql_tags_def)

lemma my_GetChainHead_Inr:
  "mysqlStore_GetChainHead i w = (Inr (h, n), w') \<Longrightarrow> (i, h, n) \<in> set (remote_heads (w_db w))"
  by (auto simp: mysqlStore_GetChainHead_def stmt_Inr mysqlc_GetChainHead_def read_one_Inr dest: find_remote_heads)

lemma mysqlTx_Tx_sel [simp]:
  "tx_AppendObservation (mysqlTx_Tx srv) = mysqlTx_AppendObservation srv"
  "tx_UpsertRefProjection (mysqlTx_Tx srv) = mysqlTx_UpsertRefProjection srv"
  "tx_WriteSync (mysqlTx_Tx srv) = mysqlTx_WriteSync srv" "tx_PruneSyncs (mysqlTx_Tx srv) = mysqlTx_PruneSyncs"
  "tx_AppendTaintEvent (mysqlTx_Tx srv) = mysqlTx_AppendTaintEvent srv"
  by (simp_all add: mysqlTx_Tx_def)

lemma ledger_mtxq:
  assumes "\<And>d a d'. q d = Inr (a, d') \<Longrightarrow> same_chains d d'"
    and "\<And>d a d'. db_ok d \<Longrightarrow> q d = Inr (a, d') \<Longrightarrow> db_ok d'"
  shows "oks (\<lambda>t. ledger_ok (mtx_q t)) (mtxq q) (\<lambda>_ t. ledger_ok (mtx_q t))"
proof (rule oks_mtxq)
  fix t a d'
  assume ok: "ledger_ok (mtx_q t)" and run: "q (mtx_q t) = Inr (a, d')"
  from assms(1) [OF run] have "chain_ok d' = chain_ok (mtx_q t)" by (rule same_chains_ok)
  with ok assms(2) [OF _ run] show "ledger_ok (mtx_q (t\<lparr>mtx_q := d'\<rparr>))" by (simp add: ledger_ok_def)
qed

lemma keeps_mtxq_read: "(\<And>d a d'. q d = Inr (a, d') \<Longrightarrow> d' = d) \<Longrightarrow> oks P (mtxq q) (\<lambda>_. P)"
  by (rule oks_mtxq) fastforce

section \<open>What the server promises\<close>

text \<open>
  The law of the server: an \<open>AUTO_INCREMENT\<close> value is larger than the ones before it.
\<close>

locale mysql_server =
  fixes srv :: mysqlServer
  assumes auto_grows: "n < my_auto srv n"
begin

lemma db_ok_my_InsertSync: "db_ok d \<Longrightarrow> mysqlc_InsertSync srv arg d = Inr (i, d') \<Longrightarrow> db_ok d'"
  using auto_grows by (auto simp: mysqlc_InsertSync_def Let_def db_ok_defs intro!: ids_ok_next split: if_splits)

lemma db_ok_my_PruneSyncs: "db_ok d \<Longrightarrow> mysqlc_PruneSyncs i i2 lim i3 d = Inr (u, d') \<Longrightarrow> db_ok d'"
  by (auto simp: mysqlc_PruneSyncs_def Let_def db_ok_defs intro: ids_ok_filter split: if_splits)

lemma db_ok_my_InsertTaintEvent: "db_ok d \<Longrightarrow> mysqlc_InsertTaintEvent srv arg d = Inr (i, d') \<Longrightarrow> db_ok d'"
  using auto_grows [of "seq_taint_events d"]
  by (auto simp: mysqlc_InsertTaintEvent_def Let_def db_ok_defs intro!: ids_ok_next intro: ids_ok_mono
      split: if_splits option.splits)

lemma db_ok_my_UpsertRef:
  assumes ok: "db_ok d" and run: "mysqlc_UpsertRef srv arg d = Inr (u, d')"
  shows "db_ok d'"
proof (cases "find (tag_key srv (Pref_RemoteID arg) (Pref_TagName arg)) (t_refs d)")
  case None
  let ?key = "\<lambda>r. (Rref_RemoteID r, Rref_TagName r)" and ?i = "my_auto srv (seq_refs d)"
  from None run obtain r where d': "d' = d\<lparr>t_refs := t_refs d @ [r], seq_refs := ?i\<rparr>"
    and r: "Rref_ID r = ?i" "?key r = (Pref_RemoteID arg, Pref_TagName arg)"
    and ex: "remote_exists d (Pref_RemoteID arg)"
    by (auto simp: mysqlc_UpsertRef_def Let_def split: if_splits)
  from None r(2) have "?key r \<notin> ?key ` set (t_refs d)" by (auto simp: find_None_iff tag_key_def)
  moreover from ok r(1) have "ids_ok Rref_ID (t_refs d @ [r]) ?i"
    by (intro ids_ok_next [OF _ _ auto_grows]) (simp_all add: db_ok_defs)
  ultimately show ?thesis using ok ex r(2) by (auto simp: d' db_ok_defs ref_exists_def)
next
  case (Some old)
  with run have d': "d' = (d\<lparr>t_refs := update_where (tag_key srv (Pref_RemoteID arg) (Pref_TagName arg))
      (upsert_set arg) (t_refs d)\<rparr>)\<lparr>seq_refs := my_auto srv (seq_refs d)\<rparr>"
    by (auto simp: mysqlc_UpsertRef_def Let_def split: if_splits)
  have "db_ok (e\<lparr>seq_refs := my_auto srv (seq_refs e)\<rparr>)" if "db_ok e" for e
    using that auto_grows [of "seq_refs e"] by (auto simp: db_ok_defs ref_exists_def intro: ids_ok_mono)
  from this [OF db_ok_update_refs [OF ok]] show ?thesis unfolding d' by simp
qed

lemma my_ledger_AppendObservation:
  "oks (\<lambda>t. ledger_ok (mtx_q t)) (mysqlTx_AppendObservation srv ob) (\<lambda>_ t. ledger_ok (mtx_q t))"
proof (rule oksI)
  fix w w' :: "mysqlTx world" and a
  let ?d = "mtx_q (w_db w)"
  let ?i = "my_auto srv (seq_observations ?d)"
  let ?e = "?d\<lparr>seq_observations := ?i - 1\<rparr>"
  assume ok: "ledger_ok ?d" and run: "mysqlTx_AppendObservation srv ob w = (Inr a, w')"
  obtain sq ob' where a: "a = (sq, ob')" by (cases a)
  from run [unfolded a] refl refl refl obtain h n where
    head: "(obs_RemoteID ob, h, n) \<in> set (remote_heads ?d)" and sq: "sq = wrap64 (n + 1)"
    and ob': "ob' = chained_obs ob h n ?i"
    and ex: "remote_exists ?d (obs_RemoteID ob)" "ref_exists ?d (obs_RefID ob)"
    and fresh: "\<forall>r \<in> set (t_observations ?d). \<not> (Robs_RemoteID r = obs_RemoteID ob \<and> Robs_Seq r = sq)"
    and w': "w_db w' = (w_db w)\<lparr>mtx_q := append_db ?e ob' (effective_sync ob (mtx_syncID (w_db w))) h n\<rparr>"
    by (rule my_AppendObservation_Inr)
  have "ids_ok Robs_ID (t_observations ?d) (?i - 1)"
    using ok auto_grows [of "seq_observations ?d"] by (auto simp: ledger_ok_def db_ok_defs intro: ids_ok_mono)
  with ok have db: "db_ok ?e" by (auto simp: ledger_ok_def db_ok_defs)
  have chain: "chain_ok ?e" using ok chain_ok_cong [of ?e ?d] by (simp add: ledger_ok_def)
  show "ledger_ok (mtx_q (w_db w'))"
    using chain_ok_append_db [OF chain] db_ok_append_db [OF db] head ex fresh sq
    by (simp add: w' ob' ledger_ok_def)
qed

lemma my_ledger_UpsertRefProjection:
  "oks (\<lambda>t. ledger_ok (mtx_q t)) (mysqlTx_UpsertRefProjection srv ref) (\<lambda>_ t. ledger_ok (mtx_q t))"
  unfolding mysqlTx_UpsertRefProjection_def case_prod_unfold
  by (intro oks_bind [OF ledger_mtxq [OF same_chains_mysql(1) db_ok_my_UpsertRef]]
      oks_bind [OF keeps_mtxq_read [OF my_read_back(1)]] oks_ret)

lemma my_ledger_WriteSync:
  "oks (\<lambda>t. ledger_ok (mtx_q t)) (mysqlTx_WriteSync srv s) (\<lambda>_ t. ledger_ok (mtx_q t))"
  unfolding mysqlTx_WriteSync_def
  by (rule oks_bind [OF ledger_mtxq [OF same_chains_mysql(2) db_ok_my_InsertSync]
        oks_bind [OF oks_modifyT [where Q = "\<lambda>_ t. ledger_ok (mtx_q t)"] oks_ret]]) simp_all

lemma my_ledger_PruneSyncs:
  "oks (\<lambda>t. ledger_ok (mtx_q t)) (mysqlTx_PruneSyncs i keep) (\<lambda>_ t. ledger_ok (mtx_q t))"
  unfolding mysqlTx_PruneSyncs_def by (rule ledger_mtxq [OF same_chains_mysql(3) db_ok_my_PruneSyncs])

lemma my_ledger_AppendTaintEvent:
  "oks (\<lambda>t. ledger_ok (mtx_q t)) (mysqlTx_AppendTaintEvent srv e) (\<lambda>_ t. ledger_ok (mtx_q t))"
  unfolding mysqlTx_AppendTaintEvent_def insertTaintEventMySQL_def
  by (intro oks_bind [OF ledger_mtxq [OF same_chains_mysql(4) db_ok_my_InsertTaintEvent]] oks_if oks_ret
      keeps_mtxq_read [OF my_read_back(2)])

end

text \<open>The contracts hold over every server with this law.\<close>

sublocale mysql_server \<subseteq> my_ledger: tx_invariant "mysqlTx_Tx srv" "\<lambda>t. ledger_ok (mtx_q t)" "\<lambda>_. True"
  by unfold_locales
    (simp_all add: my_ledger_UpsertRefProjection my_ledger_AppendObservation my_ledger_AppendTaintEvent
      my_ledger_WriteSync my_ledger_PruneSyncs)

sublocale mysql_server \<subseteq> host: sync_host "mysqlStore srv" "mysqlLock srv" "mysql_tags srv"
proof (unfold_locales, unfold mysql_sel, goal_cases)
  case (2 i w r w')
  then show ?case by (rule my_GetRemote_Inr)
next
  case (3 i status lastErr ok)
  show ?case by (rule quiet_my_SetRemoteHealth)
next
  case (5 i w ps w')
  then show ?case by (rule my_ListTags_Inr)
next
  case (6 d' d i)
  then show ?case by (simp add: mysql_tags_def)
next
  case (8 i w h n w')
  then show ?case by (rule my_GetChainHead_Inr)
next
  case (9 i holder ttl)
  show ?case by (rule quiet_my_Acquire)
next
  case (10 i holder ttl w l w')
  then show ?case by (rule my_Acquire_Inr)
next
  case (11 w l h n)
  then show ?case by (rule quiet_my_Release)
next
  case (12 fn w e w')
  then show ?case by (rule my_WithTx_Inl)
next
  case (13 order rid taintAny startNS head lsRefs priors)
  show ?case by (rule keeps_oks [OF my_WithTx_oks my_WithTx_Inl]) (rule my_ledger.inv_syncTx, simp_all)
qed (simp_all add: quietT_reads my_reads)

end
