(* ===== verification/Mysql_Refine.thy ===== *)
theory Mysql_Refine
  imports Mysql_Ledger Sync_Detect
begin

text \<open>
  A server whose collation tells different strings apart (a binary collation) makes the MySQL transaction fulfil the
  contract of \<open>tx_contract\<close>: each statement that succeeds there is the statement of SQLite on the same tables, with the
  id that the server chose. So a sync over MySQL refines the same specification.
\<close>

section \<open>The statements of an exact collation\<close>

locale mysql_exact = mysql_server +
  assumes exact: "my_weight srv a = my_weight srv b \<Longrightarrow> a = b"
begin

lemma same_text_eq [simp]: "same_text srv a b \<longleftrightarrow> a = b"
  using exact by (auto simp: same_text_def)

lemma tag_key_eq [simp]: "tag_key srv i tag = (\<lambda>r. Rref_RemoteID r = i \<and> Rref_TagName r = tag)"
  by (simp add: tag_key_def fun_eq_iff)

lemma in_values_eq [simp]: "in_values srv x ys \<longleftrightarrow> x \<in> set ys"
  by (auto simp: in_values_def list_ex_iff)

text \<open>The upsert and the read-back are SQLite's upsert, which returns the row.\<close>

lemma UpsertRef_as_sqlite:
  assumes up: "mysqlc_UpsertRef srv arg d = Inr (u, d')"
    and readback: "mysqlc_GetRefIDByName srv (Pref_RemoteID arg) (Pref_TagName arg) d' = Inr ((i, rid), d'')"
  shows "\<exists>row. sqlc_UpsertRef arg (d\<lparr>seq_refs := my_auto srv (seq_refs d) - 1\<rparr>) = Inr (row, d') \<and>
    Rref_ID row = i \<and> Rref_RemoteID row = rid"
proof -
  let ?P = "\<lambda>r. Rref_RemoteID r = Pref_RemoteID arg \<and> Rref_TagName r = Pref_TagName arg"
  from readback obtain r where r: "find ?P (t_refs d') = Some r" "i = Rref_ID r" "rid = Rref_RemoteID r"
    by (auto simp: mysqlc_GetRefIDByName_def read_one_Inr)
  show ?thesis
  proof (cases "find ?P (t_refs d)")
    case None
    with up r show ?thesis
      by (auto simp: mysqlc_UpsertRef_def sqlc_UpsertRef_def Let_def find_snoc split: if_splits)
  next
    case (Some old)
    with up have d': "d' = d\<lparr>t_refs := update_where ?P (upsert_set arg) (t_refs d), seq_refs := my_auto srv (seq_refs d)\<rparr>"
      by (auto simp: mysqlc_UpsertRef_def Let_def split: if_splits)
    have "find ?P (update_where ?P (upsert_set arg) (t_refs d)) = Some (upsert_set arg old)"
      using Some by (subst find_update_where_other) (auto simp: find_Some_iff)
    with r d' Some show ?thesis by (auto simp: sqlc_UpsertRef_def Let_def)
  qed
qed

lemma InsertTaintEvent_as_sqlite:
  assumes "mysqlc_InsertTaintEvent srv arg d = Inr (i, d')"
  shows "\<exists>j. sqlc_InsertTaintEvent arg (d\<lparr>seq_taint_events := my_auto srv (seq_taint_events d) - 1\<rparr>) = Inr (j, d')"
proof -
  have conf: "my_taint_conflict srv arg = taint_conflict arg"
    by (simp add: my_taint_conflict_def taint_conflict_def fun_eq_iff)
  from assms have reason: "reason_check (Pte_Reason arg)"
    by (auto simp: mysqlc_InsertTaintEvent_def my_taint_row_ok_def reason_check_def Let_def split: if_splits)
  with assms show ?thesis
    by (auto simp: mysqlc_InsertTaintEvent_def sqlc_InsertTaintEvent_def conf null_or_def observation_exists_def Let_def
        split: if_splits option.splits)
qed

lemma db_view_seq [simp]:
  "db_view (d\<lparr>seq_refs := n\<rparr>) = db_view d" "db_view (d\<lparr>seq_taint_events := n\<rparr>) = db_view d"
  "db_view (d\<lparr>seq_observations := n\<rparr>) = db_view d"
  by (rule db_view_cong, simp_all)+

section \<open>The contract\<close>

lemma my_UpsertRef_view:
  assumes st: "ref_storable ref"
  shows "oks (\<lambda>t. db_view (mtx_q t) = v) (mysqlTx_UpsertRefProjection srv ref)
    (\<lambda>ref' t. upserted v ref ref' (db_view (mtx_q t)))"
proof (rule oksI)
  fix w w' :: "mysqlTx world" and ref'
  let ?d = "mtx_q (w_db w)"
  assume v: "db_view ?d = v" and run: "mysqlTx_UpsertRefProjection srv ref w = (Inr ref', w')"
  from run obtain u d' i rid d'' where up: "mysqlc_UpsertRef srv (upsertParams ref) ?d = Inr (u, d')"
    and readback: "mysqlc_GetRefIDByName srv (ref_RemoteID ref) (ref_TagName ref) d' = Inr ((i, rid), d'')"
    and res: "ref' = ref\<lparr>ref_ID := i, ref_RemoteID := rid\<rparr>" "mtx_q (w_db w') = d''"
    by (auto simp: mysqlTx_UpsertRefProjection_def bindT_eq_Inr mtxq_Inr)
  have "d'' = d'" using readback by (auto dest: my_read_back)
  from UpsertRef_as_sqlite [OF up] readback obtain row where
    row: "sqlc_UpsertRef (upsertParams ref) (?d\<lparr>seq_refs := my_auto srv (seq_refs ?d) - 1\<rparr>) = Inr (row, d')"
      "Rref_ID row = i" "Rref_RemoteID row = rid"
    by (auto simp: upsertParams_def)
  from UpsertRef_view [OF st row(1)] row(2,3) v res \<open>d'' = d'\<close>
  show "upserted v ref ref' (db_view (mtx_q (w_db w')))" by simp
qed

lemma my_AppendObservation_view:
  "oks (\<lambda>t. db_view (mtx_q t) = v) (mysqlTx_AppendObservation srv ob)
     (\<lambda>a t. obs_entry (snd a) = obs_entry ob \<and> obs_PrevOID (snd a) = obs_PrevOID ob \<and>
        db_view (mtx_q t) = v\<lparr>v_log := v_log v @ [obs_entry ob]\<rparr>)"
proof (rule oksI)
  fix w w' :: "mysqlTx world" and a
  let ?d = "mtx_q (w_db w)" and ?sid = "effective_sync ob (mtx_syncID (w_db w))"
  let ?e = "?d\<lparr>seq_observations := my_auto srv (seq_observations ?d) - 1\<rparr>"
  assume v: "db_view ?d = v" and run: "mysqlTx_AppendObservation srv ob w = (Inr a, w')"
  obtain sq ob' where a: "a = (sq, ob')" by (cases a)
  from run [unfolded a] refl refl refl obtain h n where
    ob': "ob' = chained_obs ob h n (my_auto srv (seq_observations ?d))"
    and w': "w_db w' = (w_db w)\<lparr>mtx_q := append_db ?e ob' ?sid h n\<rparr>"
    by (rule my_AppendObservation_Inr)
  have entry: "obs_entry ob' = obs_entry ob" by (simp add: ob' obs_entry_def)
  have "ref_at (append_db ?e ob' ?sid h n) = ref_at ?d"
    by (rule ref_at_cong) (simp add: append_db_def)
  then have "db_view (mtx_q (w_db w')) = v\<lparr>v_log := v_log v @ [obs_entry ob]\<rparr>"
    by (simp add: w' v [symmetric] db_view_def) (simp add: append_db_def row_entry_observation_row entry)
  with entry show "obs_entry (snd a) = obs_entry ob \<and> obs_PrevOID (snd a) = obs_PrevOID ob \<and>
      db_view (mtx_q (w_db w')) = v\<lparr>v_log := v_log v @ [obs_entry ob]\<rparr>"
    by (simp add: a ob')
qed

lemma my_AppendTaintEvent_view:
  assumes "oid_storable (te_FromOID e)" and "oid_storable (te_ToOID e)"
  shows "oks (\<lambda>t. db_view (mtx_q t) = v) (mysqlTx_AppendTaintEvent srv e) (\<lambda>_ t. taint_added v e (db_view (mtx_q t)))"
  unfolding mysqlTx_AppendTaintEvent_def insertTaintEventMySQL_def
proof (rule oks_bind [where R = "\<lambda>_ t. taint_added v e (db_view (mtx_q t))", OF oks_mtxq])
  fix t i d'
  assume v: "db_view (mtx_q t) = v" and run: "mysqlc_InsertTaintEvent srv (mysqlTaintParams e) (mtx_q t) = Inr (i, d')"
  from InsertTaintEvent_as_sqlite [OF run] InsertTaintEvent_view [OF _ assms] v
  show "taint_added v e (db_view (mtx_q (t\<lparr>mtx_q := d'\<rparr>)))" by fastforce
next
  show "oks (\<lambda>t. taint_added v e (db_view (mtx_q t))) (if i \<noteq> 0 then ret i
      else mtxq (mysqlc_GetTaintEventID srv (te_RemoteID e) (te_RefID e) (te_Reason e)
         (nullStringFromBytes (oid_Raw (te_FromOID e))) (nullStringFromBytes (oid_Raw (te_ToOID e)))))
      (\<lambda>_ t. taint_added v e (db_view (mtx_q t)))" for i
    by (intro oks_if oks_ret keeps_mtxq_read [OF my_read_back(2)])
qed

lemma my_sync_rows_view:
  "mysqlc_InsertSync srv arg d = Inr (i, d') \<Longrightarrow> db_view d' = db_view d"
  "mysqlc_PruneSyncs j j2 lim j3 d = Inr (u, d') \<Longrightarrow> db_view d' = db_view d"
  by (auto simp: mysqlc_InsertSync_def mysqlc_PruneSyncs_def Let_def intro!: db_view_cong split: if_splits)

lemma my_WriteSync_view:
  "oks (\<lambda>t. db_view (mtx_q t) = v) (mysqlTx_WriteSync srv s) (\<lambda>_ t. db_view (mtx_q t) = v)"
  unfolding mysqlTx_WriteSync_def
  by (rule oks_bind [OF oks_mtxq [where Q = "\<lambda>_ t. db_view (mtx_q t) = v"]
        oks_bind [OF oks_modifyT [where Q = "\<lambda>_ t. db_view (mtx_q t) = v"] oks_ret]])
    (auto dest: my_sync_rows_view)

lemma my_PruneSyncs_view:
  "oks (\<lambda>t. db_view (mtx_q t) = v) (mysqlTx_PruneSyncs i n) (\<lambda>_ t. db_view (mtx_q t) = v)"
  unfolding mysqlTx_PruneSyncs_def by (rule oks_mtxq) (auto dest: my_sync_rows_view)

end

sublocale mysql_exact \<subseteq> my_contract: tx_contract "mysqlTx_Tx srv" "\<lambda>t. ledger_ok (mtx_q t)" "\<lambda>t. db_view (mtx_q t)"
proof (unfold_locales, unfold mysqlTx_Tx_sel, goal_cases)
  case (1 ref v)
  then show ?case by (intro oks_inv_view [OF my_ledger_UpsertRefProjection my_UpsertRef_view])
next
  case (2 v ob)
  from oks_inv_view [OF my_ledger_AppendObservation my_AppendObservation_view]
  show ?case by (simp add: case_prod_unfold)
next
  case (3 e v)
  then show ?case by (intro oks_inv_view [OF my_ledger_AppendTaintEvent my_AppendTaintEvent_view])
next
  case (4 v s)
  show ?case by (rule oks_inv_view [OF my_ledger_WriteSync my_WriteSync_view])
next
  case (5 v i n)
  show ?case by (rule oks_inv_view [OF my_ledger_PruneSyncs my_PruneSyncs_view])
qed

sublocale mysql_exact \<subseteq> refines: sync_refines "mysqlStore srv" "mysqlLock srv" "mysql_tags srv"
proof (unfold_locales, unfold mysql_sel, goal_cases)
  case (1 d rid)
  then show ?case by (rule mysql_tags_prior)
next
  case (2 lsRefs rid v priors order taintAny startNS head)
  show ?case
    by (rule my_WithTx_oks, rule oks_weaken [OF my_contract.syncTx_spec [where ?v0.0 = v, OF 2]]) auto
qed

end
