(* ===== verification/Mysql_Live.thy ===== *)
theory Mysql_Live
  imports Mysql_Ledger Sync_Live
begin

text \<open>
  A sync over MySQL succeeds when it can: the statements of a transaction succeed on tables whose values the columns
  accept, with ids of 32 bytes at most and tag names that the column accepts, and the lease that was taken can be given back.
\<close>

section \<open>What the columns accept\<close>

definition ascii :: "string \<Rightarrow> bool" where
  "ascii s \<longleftrightarrow> list_all (\<lambda>c. of_char c < (128 :: nat)) s"

text \<open>
  The server accepts ASCII text that is not too long. \<open>VARCHAR(n)\<close> holds \<open>n\<close> characters, \<open>TEXT\<close> 65535 bytes.
\<close>

locale mysql_live = mysql_server +
  assumes varchar_ascii: "ascii s \<Longrightarrow> length s \<le> n \<Longrightarrow> my_varchar srv n s"
    and text_ascii: "ascii s \<Longrightarrow> length s \<le> 65535 \<Longrightarrow> my_TEXT srv s"

text \<open>The rows of \<open>remotes\<close> and \<open>refs\<close> hold values that their columns accept.\<close>

definition remotes_fit :: "mysqlServer \<Rightarrow> db \<Rightarrow> bool" where
  "remotes_fit srv d \<longleftrightarrow> list_all (my_remote_row_ok srv) (t_remotes d)"

definition my_ready :: "mysqlServer \<Rightarrow> db \<Rightarrow> bool" where
  "my_ready srv d \<longleftrightarrow> remotes_fit srv d \<and> list_all (my_ref_row_ok srv) (t_refs d)"

definition my_opened :: "mysqlServer \<Rightarrow> RemoteID \<Rightarrow> nat \<Rightarrow> db \<Rightarrow> bool" where
  "my_opened srv rid k d \<longleftrightarrow> opened_db rid k d \<and> remotes_fit srv d"

definition my_written :: "mysqlServer \<Rightarrow> RemoteID \<Rightarrow> nat \<Rightarrow> SyncID \<Rightarrow> db \<Rightarrow> bool" where
  "my_written srv rid k i d \<longleftrightarrow> written_db rid k i d \<and> remotes_fit srv d"

definition my_live :: "mysqlServer \<Rightarrow> RemoteID \<Rightarrow> nat \<Rightarrow> SyncID \<Rightarrow> db \<Rightarrow> bool" where
  "my_live srv rid k i d \<longleftrightarrow> live_db rid k i d \<and> remotes_fit srv d"

lemmas my_progress_defs = my_opened_def my_written_def my_live_def

lemma remotes_fit_cong: "t_remotes d' = t_remotes d \<Longrightarrow> remotes_fit srv d' = remotes_fit srv d"
  by (simp add: remotes_fit_def)

lemma ascii_words [simp]:
  "ascii ''register''" "ascii ''scheduled''" "ascii ''ok''" "ascii ''active''" "ascii []"
  "ascii ''tag_created''" "ascii ''tag_oid_changed''" "ascii ''tag_deleted''" "ascii ''tag_recreated''"
  "ascii ''tag_deleted_recreated''"
  by code_simp+

lemma in_values_member: "x \<in> set ys \<Longrightarrow> in_values srv x ys"
  unfolding in_values_def list_ex_iff by (metis same_text_refl)

lemma varbinary32_null [simp]: "varbinary32 b \<Longrightarrow> null_or varbinary32 (nullBytes b)"
  by (simp add: null_or_def nullBytes_def)

lemma varbinary32_32 [simp]: "length b = 32 \<Longrightarrow> varbinary32 b"
  by (simp add: varbinary32_def)

lemma varbinary32_Nil [simp]: "varbinary32 []"
  by (simp add: varbinary32_def)

lemma runs_mtxq:
  assumes "\<And>t. P t \<Longrightarrow> \<exists>a d'. q (mtx_q t) = Inr (a, d') \<and> Q a (t\<lparr>mtx_q := d'\<rparr>)"
  shows "runs P (mtxq q) Q"
  unfolding mtxq_def by (rule runs_stmt) (use assms in fastforce)

section \<open>Progress of the statements\<close>

context mysql_live
begin

lemma my_ledger_ok:
  assumes "ledger_ok d" and "same_chains d d'" and "db_ok d \<Longrightarrow> db_ok d'"
  shows "ledger_ok d'"
  using assms same_chains_ok [OF assms(2)] by (simp add: ledger_ok_def)

lemma my_run_WriteSync:
  assumes "syn_RemoteID s = rid" and "syn_Trigger s \<in> {TriggerRegister, TriggerScheduled}" and "syn_Status s = SyncOk"
    and "varbinary32 (syn_ChainHeadBefore s)" and "syn_ChainHeadAfter s = []" and "syn_Error s = []"
  shows "runs (\<lambda>t. my_opened srv rid k (mtx_q t)) (mysqlTx_WriteSync srv s) (\<lambda>(i, _) t. my_written srv rid k i (mtx_q t))"
proof -
  let ?arg = "\<lparr>Psyn_RemoteID = syn_RemoteID s, Psyn_Trigger = syn_Trigger s, Psyn_StartedNs = syn_StartedNS s,
         Psyn_FinishedNs = syn_FinishedNS s, Psyn_Status = syn_Status s,
         Psyn_TagsSeen = wrap32 (syn_TagsSeen s), Psyn_TagsChanged = wrap32 (syn_TagsChanged s),
         Psyn_Error = syn_Error s,
         Psyn_ChainHeadBefore = nullStringFromBytes (syn_ChainHeadBefore s),
         Psyn_ChainHeadAfter = nullStringFromBytes (syn_ChainHeadAfter s)\<rparr>"
  have "\<exists>i d'. mysqlc_InsertSync srv ?arg d = Inr (i, d') \<and> my_written srv rid k i d'" if o: "my_opened srv rid k d" for d
  proof -
    have fit: "my_sync_row_ok srv \<lparr>Rsyn_ID = my_auto srv (seq_syncs d), Rsyn_RemoteID = Psyn_RemoteID ?arg,
            Rsyn_Trigger = Psyn_Trigger ?arg, Rsyn_StartedNs = Psyn_StartedNs ?arg,
            Rsyn_FinishedNs = Psyn_FinishedNs ?arg, Rsyn_Status = Psyn_Status ?arg,
            Rsyn_TagsSeen = Psyn_TagsSeen ?arg, Rsyn_TagsChanged = Psyn_TagsChanged ?arg,
            Rsyn_Error = Psyn_Error ?arg, Rsyn_ChainHeadBefore = Psyn_ChainHeadBefore ?arg,
            Rsyn_ChainHeadAfter = Psyn_ChainHeadAfter ?arg\<rparr>"
      using assms(2-6) by (auto simp: my_sync_row_ok_def model_defs intro!: varchar_ascii text_ascii in_values_member)
    from o have ex: "remote_exists d rid" by (simp add: my_opened_def opened_db_def)
    with fit assms(1) obtain i d' where run: "mysqlc_InsertSync srv ?arg d = Inr (i, d')"
      by (simp add: mysqlc_InsertSync_def Let_def)
    have "ledger_ok d'"
      using o my_ledger_ok [OF _ same_chains_mysql(2) [OF run] db_ok_my_InsertSync [OF _ run]]
      by (simp add: my_opened_def opened_db_def)
    moreover have "0 \<le> seq_syncs d" using o by (simp add: my_opened_def opened_db_def ledger_ok_def db_ok_def ids_ok_def)
    moreover have "seq_syncs d' = i" "seq_syncs d < i" "t_observations d' = t_observations d" "t_remotes d' = t_remotes d"
      "set (t_syncs d) \<subseteq> set (t_syncs d')" "\<exists>r \<in> set (t_syncs d'). Rsyn_ID r = i \<and> Rsyn_RemoteID r = rid"
      using run assms(1) auto_grows by (auto simp: mysqlc_InsertSync_def Let_def split: if_splits)
    moreover from this have "syncs_ok d'" using o syncs_ok_mono [of d' d] by (simp add: my_opened_def opened_db_def)
    ultimately have "my_written srv rid k i d'"
      using o by (auto simp: my_progress_defs written_db_def live_db_def sync_of_def opened_db_def room_def
          remotes_fit_def remote_exists_def)
    with run show ?thesis by blast
  qed
  then show ?thesis
    unfolding mysqlTx_WriteSync_def
    by (intro runs_bind [OF runs_mtxq [where Q = "\<lambda>i t. my_written srv rid k i (mtx_q t)"]]
        runs_bind [OF runs_modifyT [where Q = "\<lambda>_ t. my_written srv rid k i (mtx_q t)" for i]] runs_ret) auto
qed

lemma my_run_PruneSyncs:
  "runs (\<lambda>t. my_written srv rid k i (mtx_q t)) (mysqlTx_PruneSyncs rid syncRetentionKeep) (\<lambda>_ t. my_live srv rid k i (mtx_q t))"
  unfolding mysqlTx_PruneSyncs_def
proof (rule runs_mtxq)
  fix t
  let ?d = "mtx_q t"
  have keep: "wrap32 syncRetentionKeep = 5" by (simp add: wrap32_def syncRetentionKeep_def)
  assume my: "my_written srv rid k i ?d"
  then have w: "written_db rid k i ?d" by (simp add: my_written_def)
  then have ids: "distinct (map Rsyn_ID (t_syncs ?d))"
    by (simp add: progress_defs ledger_ok_def db_ok_def ids_ok_def)
  from w obtain s where s: "s \<in> set (t_syncs ?d)" "Rsyn_ID s = i" "Rsyn_RemoteID s = rid"
    by (auto simp: progress_defs)
  have own: "Robs_RemoteID ob = rid"
    if "x \<in> set (t_syncs ?d)" "Rsyn_RemoteID x = rid" "ob \<in> set (t_observations ?d)" "Robs_SyncID ob = Rsyn_ID x" for x ob
  proof -
    from w that(3) obtain y where y: "y \<in> set (t_syncs ?d)" "Rsyn_ID y = Robs_SyncID ob" "Rsyn_RemoteID y = Robs_RemoteID ob"
      by (auto simp: progress_defs)
    with ids that(1,4) have "y = x" by (auto simp: distinct_map dest: inj_onD)
    with y that(2) show ?thesis by simp
  qed
  then obtain d' where run: "mysqlc_PruneSyncs rid rid 5 rid ?d = Inr ((), d')"
    by (fastforce simp: mysqlc_PruneSyncs_def list_ex_iff Let_def)
  have "Rsyn_ID r \<le> Rsyn_ID s" if "r \<in> set (t_syncs ?d)" for r
    using that w s by (auto simp: progress_defs ledger_ok_def db_ok_def ids_ok_def)
  from newest_kept [OF s(1,3) this, of 5] have "s \<in> set (t_syncs d')"
    using run s by (auto simp: mysqlc_PruneSyncs_def newest_syncs_def limit_rows_def Let_def split: if_splits)
  moreover have "syncs_ok d'"
    using run w by (fastforce simp: mysqlc_PruneSyncs_def progress_defs Let_def split: if_splits)
  moreover have "ledger_ok d'"
    using w my_ledger_ok [OF _ same_chains_mysql(3) [OF run] db_ok_my_PruneSyncs [OF _ run]] by (simp add: progress_defs)
  ultimately have "my_live srv rid k i d'"
    using w my s run by (auto simp: progress_defs my_progress_defs remotes_fit_def mysqlc_PruneSyncs_def Let_def split: if_splits)
  with run show "\<exists>a d'. mysqlc_PruneSyncs rid rid (wrap32 syncRetentionKeep) rid ?d = Inr (a, d') \<and>
      my_live srv rid k i (mtx_q (t\<lparr>mtx_q := d'\<rparr>))"
    unfolding keep by auto
qed

lemma my_UpsertRef_live:
  assumes live: "my_live srv rid k i d" and ref: "ref_RemoteID ref = rid"
    and fits: "ref_accepted (my_varchar srv 512) varbinary32 ref"
  obtains d' row where "mysqlc_UpsertRef srv (upsertParams ref) d = Inr ((), d')" and "my_live srv rid k i d'"
    and "find (tag_key srv rid (ref_TagName ref)) (t_refs d') = Some row" and "Rref_RemoteID row = rid"
    and "t_observations d' = t_observations d"
proof -
  from live have ex: "remote_exists d rid" and ok: "ledger_ok d" by (simp_all add: my_live_def progress_defs)
  let ?P = "tag_key srv rid (ref_TagName ref)" and ?arg = "upsertParams ref"
  have fit: "my_ref_row_ok srv \<lparr>Rref_ID = my_auto srv (seq_refs d), Rref_RemoteID = Pref_RemoteID ?arg,
             Rref_TagName = Pref_TagName ?arg, Rref_CurrentOid = Pref_CurrentOid ?arg,
             Rref_CurrentPeeledOid = Pref_CurrentPeeledOid ?arg,
             Rref_IsAnnotated = Pref_IsAnnotated ?arg, Rref_FirstOid = Pref_FirstOid ?arg,
             Rref_FirstSeenNs = Pref_FirstSeenNs ?arg, Rref_LastSeenNs = Pref_LastSeenNs ?arg,
             Rref_LastChangedNs = Pref_LastChangedNs ?arg, Rref_Deleted = Pref_Deleted ?arg,
             Rref_Tainted = Pref_Tainted ?arg, Rref_TaintFirstNs = Pref_TaintFirstNs ?arg,
             Rref_ObservationCount = Pref_ObservationCount ?arg\<rparr>"
    using fits by (simp add: my_ref_row_ok_def upsertParams_simp ref_accepted_def)
  have "\<exists>d' row. mysqlc_UpsertRef srv ?arg d = Inr ((), d') \<and> find ?P (t_refs d') = Some row"
  proof (cases "find ?P (t_refs d)")
    case None
    with fit ex ref show ?thesis
      by (simp add: mysqlc_UpsertRef_def upsertParams_simp Let_def find_snoc tag_key_def)
  next
    case (Some old)
    have "find ?P (update_where ?P (upsert_set ?arg) (t_refs d)) =
        map_option (\<lambda>r. if ?P r then upsert_set ?arg r else r) (find ?P (t_refs d))"
      by (rule find_update_where_other) (simp add: tag_key_def upsert_set_def)
    with Some fit ref show ?thesis
      by (simp add: mysqlc_UpsertRef_def upsertParams_simp Let_def)
  qed
  then obtain d' row where run: "mysqlc_UpsertRef srv ?arg d = Inr ((), d')" and row: "find ?P (t_refs d') = Some row"
    by blast
  have same: "t_observations d' = t_observations d" "t_syncs d' = t_syncs d" "t_remotes d' = t_remotes d"
    using run by (auto simp: mysqlc_UpsertRef_def Let_def split: option.splits if_splits)
  have "ledger_ok d'" using my_ledger_ok [OF ok same_chains_mysql(1) [OF run] db_ok_my_UpsertRef [OF _ run]] .
  with same live have "my_live srv rid k i d'"
    using live_cong [of rid k i d d'] by (simp add: my_live_def remotes_fit_def)
  moreover from row have "Rref_RemoteID row = rid" by (auto simp: find_Some_iff tag_key_def)
  ultimately show thesis using that run row same(1) by blast
qed

lemma my_run_UpsertRef:
  assumes ref: "ref_RemoteID ref = rid" and fits: "ref_accepted (my_varchar srv 512) varbinary32 ref"
    and Q: "\<And>d d'. t_observations d' = t_observations d \<Longrightarrow> Q d \<Longrightarrow> Q d'"
  shows "runs (\<lambda>t. my_live srv rid k i (mtx_q t) \<and> Q (mtx_q t)) (mysqlTx_UpsertRefProjection srv ref)
     (\<lambda>ref' t. (ref_RemoteID ref' = rid \<and> ref_accepted (my_varchar srv 512) varbinary32 ref') \<and>
        (my_live srv rid k i (mtx_q t) \<and> Q (mtx_q t)) \<and> ref_exists (mtx_q t) (ref_ID ref'))"
proof -
  let ?found = "\<lambda>row t. find (tag_key srv rid (ref_TagName ref)) (t_refs (mtx_q t)) = Some row \<and> Rref_RemoteID row = rid"
  let ?I = "\<lambda>t. my_live srv rid k i (mtx_q t) \<and> Q (mtx_q t)"
  have up: "runs ?I (mtxq (mysqlc_UpsertRef srv (mysqlUpsertParams ref))) (\<lambda>_ t. ?I t \<and> (\<exists>row. ?found row t))"
  proof (rule runs_mtxq)
    fix t
    assume pre: "?I t"
    then have "my_live srv rid k i (mtx_q t)" by simp
    from my_UpsertRef_live [OF this ref fits] obtain d' row where
      "mysqlc_UpsertRef srv (upsertParams ref) (mtx_q t) = Inr ((), d')" "my_live srv rid k i d'"
      "find (tag_key srv rid (ref_TagName ref)) (t_refs d') = Some row" "Rref_RemoteID row = rid"
      "t_observations d' = t_observations (mtx_q t)" by metis
    with pre Q [of d' "mtx_q t"] show "\<exists>a d'. mysqlc_UpsertRef srv (mysqlUpsertParams ref) (mtx_q t) = Inr (a, d') \<and>
        ?I (t\<lparr>mtx_q := d'\<rparr>) \<and> (\<exists>row. ?found row (t\<lparr>mtx_q := d'\<rparr>))" by auto
  qed
  have readback: "runs (\<lambda>t. ?I t \<and> (\<exists>row. ?found row t))
      (mtxq (mysqlc_GetRefIDByName srv (ref_RemoteID ref) (ref_TagName ref)))
      (\<lambda>(j, r) t. r = rid \<and> ?I t \<and> ref_exists (mtx_q t) j)"
  proof (rule runs_mtxq)
    fix t
    assume pre: "?I t \<and> (\<exists>row. ?found row t)"
    then obtain row where row: "?found row t" by blast
    then have "ref_exists (mtx_q t) (Rref_ID row)" by (auto simp: ref_exists_def list_ex_iff find_Some_iff)
    with pre row show "\<exists>a d'. mysqlc_GetRefIDByName srv (ref_RemoteID ref) (ref_TagName ref) (mtx_q t) = Inr (a, d') \<and>
        (case a of (j, r) \<Rightarrow> \<lambda>t. r = rid \<and> ?I t \<and> ref_exists (mtx_q t) j) (t\<lparr>mtx_q := d'\<rparr>)"
      by (auto simp: mysqlc_GetRefIDByName_def read_one_Inr ref)
  qed
  show ?thesis
    unfolding mysqlTx_UpsertRefProjection_def
    by (rule runs_bind [OF up], rule runs_bind [OF readback], rule runs_case_prod, rule runs_ret) (use fits in auto)
qed

lemma my_run_AppendTaintEvent:
  assumes e: "te_RemoteID e = rid" "te_ObservationID e = Some j" "te_Reason e \<in> {TaintTagOIDChanged, TaintTagDeletedRecreated}"
    and fits: "varbinary32 (oid_Raw (te_FromOID e))" "varbinary32 (oid_Raw (te_ToOID e))" "te_Detail e = []"
  shows "runs (\<lambda>t. my_live srv rid k i (mtx_q t) \<and> observation_exists (mtx_q t) j \<and> ref_exists (mtx_q t) (te_RefID e))
     (mysqlTx_AppendTaintEvent srv e) (\<lambda>_ t. my_live srv rid k i (mtx_q t) \<and> ref_exists (mtx_q t) (te_RefID e))"
proof -
  let ?I = "\<lambda>t. my_live srv rid k i (mtx_q t) \<and> ref_exists (mtx_q t) (te_RefID e)"
  let ?arg = "taintParams e"
  let ?there = "\<lambda>t. \<exists>r \<in> set (t_taint_events (mtx_q t)). my_taint_conflict srv ?arg r"
  have insert: "runs (\<lambda>t. my_live srv rid k i (mtx_q t) \<and> observation_exists (mtx_q t) j \<and> ref_exists (mtx_q t) (te_RefID e))
      (mtxq (mysqlc_InsertTaintEvent srv (mysqlTaintParams e))) (\<lambda>n t. ?I t \<and> (n \<noteq> 0 \<or> ?there t))"
  proof (rule runs_mtxq)
    fix t
    let ?d = "mtx_q t"
    assume pre: "my_live srv rid k i ?d \<and> observation_exists ?d j \<and> ref_exists ?d (te_RefID e)"
    then have ex: "remote_exists ?d rid" and ok: "ledger_ok ?d" by (simp_all add: my_live_def progress_defs)
    have "0 \<le> seq_taint_events ?d" using ok by (simp add: ledger_ok_def db_ok_def ids_ok_def)
    then have nz: "my_auto srv (seq_taint_events ?d) \<noteq> 0" using auto_grows [of "seq_taint_events ?d"] by simp
    have fit: "my_taint_row_ok srv \<lparr>Rte_ID = my_auto srv (seq_taint_events ?d), Rte_RemoteID = Pte_RemoteID ?arg,
             Rte_RefID = Pte_RefID ?arg, Rte_Reason = Pte_Reason ?arg,
             Rte_ObservationID = Pte_ObservationID ?arg, Rte_FromOid = Pte_FromOid ?arg,
             Rte_ToOid = Pte_ToOid ?arg, Rte_DetectedAtNs = Pte_DetectedAtNs ?arg,
             Rte_AckedAtNs = None, Rte_AckedBy = None, Rte_AckNote = None, Rte_Detail = Pte_Detail ?arg\<rparr>"
      using e(3) fits
      by (auto simp: my_taint_row_ok_def taintParams_def null_or_def [of _ None] model_defs intro!: varchar_ascii text_ascii in_values_member)
    obtain n d' where run: "mysqlc_InsertTaintEvent srv ?arg ?d = Inr (n, d')"
      and n: "n \<noteq> 0 \<or> (\<exists>r \<in> set (t_taint_events d'). my_taint_conflict srv ?arg r)"
    proof (cases "find (my_taint_conflict srv ?arg) (t_taint_events ?d)")
      case None
      with fit nz pre ex e show ?thesis
        by (intro that) (auto simp: mysqlc_InsertTaintEvent_def Let_def null_or_def taintParams_def)
    next
      case (Some old)
      then have "old \<in> set (t_taint_events ?d)" "my_taint_conflict srv ?arg old" by (auto simp: find_Some_iff)
      with Some fit show ?thesis by (intro that) (auto simp: mysqlc_InsertTaintEvent_def Let_def)
    qed
    have "ledger_ok d'" using my_ledger_ok [OF ok same_chains_mysql(4) [OF run] db_ok_my_InsertTaintEvent [OF _ run]] .
    moreover have "t_observations d' = t_observations ?d" "t_syncs d' = t_syncs ?d" "t_remotes d' = t_remotes ?d"
      and refs: "t_refs d' = t_refs ?d"
      using run by (auto simp: mysqlc_InsertTaintEvent_def Let_def split: option.splits if_splits)
    ultimately have "my_live srv rid k i d'" using pre live_cong [of rid k i ?d d'] by (simp add: my_live_def remotes_fit_def)
    with run pre refs n show "\<exists>a d'. mysqlc_InsertTaintEvent srv (mysqlTaintParams e) ?d = Inr (a, d') \<and>
        ?I (t\<lparr>mtx_q := d'\<rparr>) \<and> (a \<noteq> 0 \<or> ?there (t\<lparr>mtx_q := d'\<rparr>))"
      by (auto simp: ref_exists_def)
  qed
  have readback: "runs (\<lambda>t. ?I t \<and> (0 \<noteq> (0::int64) \<or> ?there t)) (mtxq (mysqlc_GetTaintEventID srv (te_RemoteID e) (te_RefID e) (te_Reason e)
      (nullStringFromBytes (oid_Raw (te_FromOID e))) (nullStringFromBytes (oid_Raw (te_ToOID e))))) (\<lambda>_. ?I)"
  proof (rule runs_mtxq)
    fix t
    assume pre: "?I t \<and> (0 \<noteq> (0::int64) \<or> ?there t)"
    then obtain r where r: "r \<in> set (t_taint_events (mtx_q t))" "my_taint_conflict srv ?arg r" by auto
    let ?P = "\<lambda>r. Rte_RemoteID r = te_RemoteID e \<and> Rte_RefID r = te_RefID e \<and> same_text srv (Rte_Reason r) (te_Reason e) \<and>
      Rte_FromOid r = nullBytes (oid_Raw (te_FromOID e)) \<and> Rte_ToOid r = nullBytes (oid_Raw (te_ToOID e))"
    from r have "?P r" by (auto simp: my_taint_conflict_def taintParams_def)
    with r(1) obtain x where "find ?P (t_taint_events (mtx_q t)) = Some x"
      by (cases "find ?P (t_taint_events (mtx_q t))") (auto simp: find_None_iff)
    with pre show "\<exists>a d'. mysqlc_GetTaintEventID srv (te_RemoteID e) (te_RefID e) (te_Reason e)
        (nullStringFromBytes (oid_Raw (te_FromOID e))) (nullStringFromBytes (oid_Raw (te_ToOID e))) (mtx_q t) = Inr (a, d') \<and>
        ?I (t\<lparr>mtx_q := d'\<rparr>)"
      by (auto simp: mysqlc_GetTaintEventID_def read_one_Inr)
  qed
  show ?thesis
    unfolding mysqlTx_AppendTaintEvent_def insertTaintEventMySQL_def
  proof (rule runs_bind [OF insert])
    fix n :: int64
    show "runs (\<lambda>t. ?I t \<and> (n \<noteq> 0 \<or> ?there t)) (if n \<noteq> 0 then ret n
        else mtxq (mysqlc_GetTaintEventID srv (te_RemoteID e) (te_RefID e) (te_Reason e)
          (nullStringFromBytes (oid_Raw (te_FromOID e))) (nullStringFromBytes (oid_Raw (te_ToOID e))))) (\<lambda>_. ?I)"
      by (cases "n = 0") (use readback in \<open>auto intro: runs_ret\<close>)
  qed
qed

lemma my_head_update:
  assumes "remotes_fit srv d" and "length h = 32"
  shows "mysqlc_AdvanceRemoteChainHead srv h n i h2 n2 d = sqlc_AdvanceRemoteChainHead h n i h2 n2 d"
    and "remotes_fit srv (d\<lparr>t_remotes := update_where P (\<lambda>r. r\<lparr>Rrem_ChainHeadHash := h, Rrem_ChainLen := n\<rparr>) (t_remotes d)\<rparr>)"
proof -
  have fit: "my_remote_row_ok srv (r\<lparr>Rrem_ChainHeadHash := h, Rrem_ChainLen := n\<rparr>)" if "r \<in> set (t_remotes d)" for r
    using assms that by (auto simp: remotes_fit_def list_all_iff my_remote_row_ok_def)
  then show "mysqlc_AdvanceRemoteChainHead srv h n i h2 n2 d = sqlc_AdvanceRemoteChainHead h n i h2 n2 d"
    by (auto simp: mysqlc_AdvanceRemoteChainHead_def my_set_remotes_def my_update_def list_ex_iff
        sqlc_AdvanceRemoteChainHead_def Let_def)
  from fit assms(1) show "remotes_fit srv (d\<lparr>t_remotes := update_where P (\<lambda>r. r\<lparr>Rrem_ChainHeadHash := h, Rrem_ChainLen := n\<rparr>) (t_remotes d)\<rparr>)"
    by (auto simp: remotes_fit_def list_all_iff update_where_def)
qed

lemma my_run_AppendObservation:
  assumes ob: "obs_RemoteID ob = rid" "obs_SyncID ob = i"
    and ev: "obs_EventType ob \<in> {EventTagCreated, EventTagOIDChanged, EventTagDeleted, EventTagRecreated}"
    and fits: "obs_accepted varbinary32 ob"
  shows "runs (\<lambda>t. my_live srv rid (Suc k) i (mtx_q t) \<and> ref_exists (mtx_q t) (obs_RefID ob))
     (mysqlTx_AppendObservation srv ob) (\<lambda>_ _. True)"
proof (rule runsI)
  fix w :: "mysqlTx world"
  let ?d = "mtx_q (w_db w)"
  assume nf: "no_faults w" and my: "my_live srv rid (Suc k) i ?d \<and> ref_exists ?d (obs_RefID ob)"
  have live: "live_db rid (Suc k) i ?d" and fit: "remotes_fit srv ?d" using my by (simp_all add: my_live_def)
  have ok: "ledger_ok ?d" "db_ok ?d" "room (Suc k) ?d" "i \<noteq> 0" "remote_exists ?d rid" "sync_exists ?d i"
    using live by (auto simp: progress_defs ledger_ok_def sync_exists_def list_ex_iff)
  from ok(5) obtain r where r: "find (\<lambda>r. Rrem_ID r = rid) (t_remotes ?d) = Some r" by (rule remote_row)
  let ?h = "Rrem_ChainHeadHash r" and ?n = "Rrem_ChainLen r"
  note head = head_facts [OF ok(1) find_remote_heads [OF r] ok(3)]
  let ?arg = "observation_params (chained_obs ob ?h ?n (obs_ID ob)) i"
  have row: "my_observation_row_ok srv \<lparr>Robs_ID = my_auto srv (seq_observations ?d), Robs_RemoteID = Pobs_RemoteID ?arg,
            Robs_RefID = Pobs_RefID ?arg, Robs_SyncID = Pobs_SyncID ?arg, Robs_Seq = Pobs_Seq ?arg,
            Robs_EventType = Pobs_EventType ?arg, Robs_PrevOid = Pobs_PrevOid ?arg,
            Robs_NewOid = Pobs_NewOid ?arg, Robs_PrevPeeledOid = Pobs_PrevPeeledOid ?arg,
            Robs_NewPeeledOid = Pobs_NewPeeledOid ?arg, Robs_ObservedAtNs = Pobs_ObservedAtNs ?arg,
            Robs_PrevHash = Pobs_PrevHash ?arg, Robs_RowHash = Pobs_RowHash ?arg,
            Robs_CanonicalMeta = Pobs_CanonicalMeta ?arg\<rparr>"
    using ev fits head(1)
    by (auto simp: my_observation_row_ok_def observation_params_def obs_accepted_def chained_obs_def ChainHashLen_def null_or_def [of _ None]
        model_defs Let_def intro!: varchar_ascii in_values_member)
  have sel: "Pobs_RemoteID ?arg = rid" "Pobs_RefID ?arg = obs_RefID ob" "Pobs_SyncID ?arg = i" "Pobs_Seq ?arg = wrap64 (?n + 1)"
    using ob by (simp_all add: observation_params_def chained_obs_def Let_def)
  obtain j d2 where ins: "mysqlc_InsertObservation srv ?arg ?d = Inr (j, d2)" and d2: "t_remotes d2 = t_remotes ?d"
    using row head(3) my ok(5,6) by (auto simp: mysqlc_InsertObservation_def Let_def sel head(2) list_ex_iff)
  have "length (obs_RowHash (chained_obs ob ?h ?n j)) = 32" by (simp add: chained_obs_def Let_def)
  from my_head_update(1) [OF _ this, of d2] fit d2 obtain d3 where
    adv: "mysqlc_AdvanceRemoteChainHead srv (obs_RowHash (chained_obs ob ?h ?n j)) (?n + 1) rid ?h ?n d2 = Inr (1, d3)"
    using count_remote [OF ok(2) r] by (simp add: sqlc_AdvanceRemoteChainHead_def d2 remotes_fit_def)
  have eff: "effective_sync ob sid = i" for sid using ob ok(4) by (simp add: effective_sync_def)
  have read: "mysqlc_GetRemoteChainHead rid ?d = Inr ((?h, ?n), ?d)"
    using r by (simp add: mysqlc_GetRemoteChainHead_def read_one_Inr)
  from nf read ins adv head(1,2) ok(4) ob(1)
  show "\<exists>a w'. mysqlTx_AppendObservation srv ob w = (Inr a, w') \<and> no_faults w' \<and> True"
    unfolding my_AppendObservation_steps eff
    by (simp add: bindT_def mtxq_def stmt_def getsT_def ret_def no_faults_def Let_def)
qed

lemma my_AppendObservation_post:
  assumes ob: "obs_RemoteID ob = rid" "obs_SyncID ob = i"
  shows "oks (\<lambda>t. my_live srv rid (Suc k) i (mtx_q t) \<and> ref_exists (mtx_q t) (obs_RefID ob)) (mysqlTx_AppendObservation srv ob)
     (\<lambda>(_, ob') t. obs_PrevOID ob' = obs_PrevOID ob \<and> my_live srv rid k i (mtx_q t) \<and>
        ref_exists (mtx_q t) (obs_RefID ob) \<and> observation_exists (mtx_q t) (obs_ID ob'))"
proof (rule oksI)
  fix w :: "mysqlTx world" and a w'
  let ?d = "mtx_q (w_db w)"
  let ?e = "?d\<lparr>seq_observations := my_auto srv (seq_observations ?d) - 1\<rparr>"
  assume my: "my_live srv rid (Suc k) i ?d \<and> ref_exists ?d (obs_RefID ob)"
    and run: "mysqlTx_AppendObservation srv ob w = (Inr a, w')"
  then have live: "live_db rid (Suc k) i ?d" and fit: "remotes_fit srv ?d" by (simp_all add: my_live_def)
  obtain sq ob' where a: "a = (sq, ob')" by (cases a)
  have eff: "effective_sync ob (mtx_syncID (w_db w)) = i"
    using live ob by (simp add: effective_sync_def live_db_def sync_of_def)
  from run [unfolded a] refl eff [symmetric] refl obtain h n where
    ob': "ob' = chained_obs ob h n (my_auto srv (seq_observations ?d))"
    and w': "w_db w' = (w_db w)\<lparr>mtx_q := append_db ?e ob' i h n\<rparr>"
    by (rule my_AppendObservation_Inr)
  have ok: "ledger_ok (append_db ?e ob' i h n)"
    using oksD [OF my_ledger_AppendObservation _ run] live by (simp add: w' live_db_def opened_db_def)
  have "live_db rid k i (append_db ?e ob' i h n)"
    by (rule live_append_row [OF live ok, where r = "observation_row ob' i"])
      (simp_all add: append_db_def remote_exists_def list_ex_update_where observation_row_def ob' ob)
  moreover have "length (obs_RowHash ob') = 32" by (simp add: ob' chained_obs_def Let_def)
  from my_head_update(2) [OF fit this] have "remotes_fit srv (append_db ?e ob' i h n)"
    by (simp add: append_db_def remotes_fit_def)
  moreover have "observation_exists (append_db ?e ob' i h n) (obs_ID ob')"
    by (simp add: observation_exists_def append_db_def observation_row_def)
  moreover have "ref_exists (append_db ?e ob' i h n) (obs_RefID ob)"
    using my by (simp add: append_db_def ref_exists_def)
  ultimately show "(case a of (_, ob') \<Rightarrow> \<lambda>t. obs_PrevOID ob' = obs_PrevOID ob \<and> my_live srv rid k i (mtx_q t) \<and>
      ref_exists (mtx_q t) (obs_RefID ob) \<and> observation_exists (mtx_q t) (obs_ID ob')) (w_db w')"
    by (simp add: a w' my_live_def ob')
qed

end

sublocale mysql_live \<subseteq> my_progress: tx_progress_fits "mysqlTx_Tx srv" rid "my_varchar srv 512" varbinary32
    "\<lambda>k t. my_opened srv rid k (mtx_q t)" "\<lambda>k i t. my_written srv rid k i (mtx_q t)" "\<lambda>k i t. my_live srv rid k i (mtx_q t)"
    "\<lambda>j t. ref_exists (mtx_q t) j" "\<lambda>j t. observation_exists (mtx_q t) j" for rid
proof (unfold_locales, unfold mysqlTx_Tx_sel, goal_cases)
  case (2 s k)
  then show ?case by (rule my_run_WriteSync)
next
  case (3 k i t)
  then show ?case by (simp add: my_progress_defs written_db_def)
next
  case (4 k i)
  show ?case by (rule my_run_PruneSyncs)
next
  case (5 ref k i)
  from my_run_UpsertRef [OF this, where Q = "\<lambda>_. True"] show ?case by simp
next
  case (6 ref k i j)
  from my_run_UpsertRef [OF this, where Q = "\<lambda>d. observation_exists d j"] show ?case
    by (rule runs_weaken) (auto simp: observation_exists_def)
next
  case (7 ob i k)
  from runs_oks [OF my_run_AppendObservation [OF 7] my_AppendObservation_post [OF 7(1,2)]]
  show ?case by (rule runs_weaken) (use 7(4) in \<open>auto simp: obs_accepted_def\<close>)
next
  case (8 e j k i)
  then show ?case by (rule my_run_AppendTaintEvent)
next
  case (9 k i t)
  then show ?case by (simp add: my_live_def progress_defs)
qed simp

section \<open>The store and its lease\<close>

text \<open>While a lease is held: its row is there, and the remotes still fit.\<close>

definition my_held :: "mysqlServer \<Rightarrow> Lease \<Rightarrow> db \<Rightarrow> bool" where
  "my_held srv l d \<longleftrightarrow> remotes_fit srv d \<and>
     (\<exists>row. find (\<lambda>x. Rls_RemoteID x = lse_RemoteID l) (t_lease d) = Some row \<and> Rls_Holder row = lse_Holder l)"

lemma my_upsertLease_wins:
  assumes ex: "remote_exists d i" and fit: "my_varchar srv 255 holder"
    and free: "\<forall>l \<in> set (t_lease d). Rls_RemoteID l = i \<longrightarrow> Rls_ExpiresAtNs l < now"
  obtains d' row where "upsertLeaseMySQLSQL srv i holder acquired expires now now now d = Inr ((), d')"
    and "d' = d\<lparr>t_lease := t_lease d'\<rparr>" and "find (\<lambda>x. Rls_RemoteID x = i) (t_lease d') = Some row"
    and "Rls_Holder row = holder" and "Rls_ExpiresAtNs row = expires"
proof -
  let ?new = "\<lparr>Rls_RemoteID = i, Rls_Holder = holder, Rls_AcquiredAtNs = acquired, Rls_ExpiresAtNs = expires\<rparr>"
  let ?set = "\<lambda>l. setExpires now ?new (setAcquired now ?new (setHolder now ?new l))"
  let ?P = "\<lambda>x. Rls_RemoteID x = i"
  show thesis
  proof (cases "find ?P (t_lease d)")
    case None
    then have "\<not> list_ex ?P (t_lease d)" by (simp add: find_None_iff list_ex_iff)
    with None ex fit show ?thesis
      by (intro that [of "d\<lparr>t_lease := t_lease d @ [?new]\<rparr>" ?new]) (simp_all add: upsertLeaseMySQLSQL_def find_snoc Let_def)
  next
    case (Some old)
    then have old: "old \<in> set (t_lease d)" "Rls_RemoteID old = i" by (auto simp: find_Some_iff)
    then have "list_ex ?P (t_lease d)" by (auto simp: list_ex_iff)
    moreover have "find ?P (update_where ?P ?set (t_lease d)) = map_option (\<lambda>r. if ?P r then ?set r else r) (find ?P (t_lease d))"
      by (rule find_update_where_other) (simp add: setExpires_def setAcquired_def setHolder_def)
    moreover have "Rls_ExpiresAtNs old < now" using free old by simp
    ultimately show ?thesis
      using Some fit old
      by (intro that [of "d\<lparr>t_lease := update_where ?P ?set (t_lease d)\<rparr>" "?set old"])
        (simp_all add: upsertLeaseMySQLSQL_def setExpires_def setAcquired_def setHolder_def Let_def)
  qed
qed

lemma my_Acquire_succeeds:
  assumes nf: "no_faults w" and fit: "remotes_fit srv (w_db w)" "my_varchar srv 255 holder"
    and row: "find (\<lambda>r. Rrem_ID r = rid) (t_remotes (w_db w)) = Some row"
    and free: "\<forall>l \<in> set (t_lease (w_db w)). Rls_RemoteID l = rid \<longrightarrow> Rls_ExpiresAtNs l < w_clock w (w_ticks w)"
  shows "\<exists>l w'. dbLease_AcquireRemoteLease (mysqlStore srv :: (db, mysqlTx, 'r) Store) rid holder ttl w = (Inr l, w') \<and>
    no_faults w' \<and> my_held srv l (w_db w')"
proof -
  let ?now = "w_clock w (w_ticks w)"
  let ?ex = "wrap64 (?now + ttl)"
  have "remote_exists (w_db w) rid" using row by (auto simp: remote_exists_def list_ex_iff find_Some_iff)
  from my_upsertLease_wins [OF this fit(2) free] obtain d' lr where
    up: "upsertLeaseMySQLSQL srv rid holder ?now ?ex ?now ?now ?now (w_db w) = Inr ((), d')"
    and d': "d' = w_db w\<lparr>t_lease := t_lease d'\<rparr>" "find (\<lambda>x. Rls_RemoteID x = rid) (t_lease d') = Some lr"
      "Rls_Holder lr = holder" "Rls_ExpiresAtNs lr = ?ex" .
  have "t_remotes d' = t_remotes (w_db w)" by (subst d'(1)) simp
  then have "remotes_fit srv d'" using fit(1) by (simp add: remotes_fit_def)
  with up d'(2-4) nf row show ?thesis
    by (simp add: dbLease_AcquireRemoteLease_def mysqlStore_TryAcquireLease_def bindT_def NowNS_def stmt_def my_held_def
        mysqlc_defs read_one_def select_one_def ret_def no_faults_def Let_def)
qed

lemma my_lease_frame:
  "tx_invariant (mysqlTx_Tx srv) (\<lambda>t. t_lease (mtx_q t) = ls) (\<lambda>_. True)"
proof (unfold_locales, unfold mysqlTx_Tx_sel, goal_cases)
  case (1 ref)
  show ?case
    unfolding mysqlTx_UpsertRefProjection_def case_prod_unfold
    by (intro oks_bind [OF oks_mtxq [where Q = "\<lambda>_ t. t_lease (mtx_q t) = ls"]]
        oks_bind [OF keeps_mtxq_read [OF my_read_back(1)]])
      (auto simp: mysqlc_UpsertRef_def Let_def intro: oks_ret split: if_splits option.splits)
next
  case (2 ob)
  show ?case
  proof (rule oksI)
    fix w w' :: "mysqlTx world" and a
    assume l: "t_lease (mtx_q (w_db w)) = ls" and run: "mysqlTx_AppendObservation srv ob w = (Inr a, w')"
    obtain sq ob' where a: "a = (sq, ob')" by (cases a)
    from run [unfolded a] refl refl refl obtain h n where
      "w_db w' = (w_db w)\<lparr>mtx_q := append_db
         (mtx_q (w_db w)\<lparr>seq_observations := my_auto srv (seq_observations (mtx_q (w_db w))) - 1\<rparr>) ob'
         (effective_sync ob (mtx_syncID (w_db w))) h n\<rparr>"
      by (rule my_AppendObservation_Inr)
    then show "t_lease (mtx_q (w_db w')) = ls" using l by (simp add: append_db_def)
  qed
next
  case (3 e)
  show ?case
    unfolding mysqlTx_AppendTaintEvent_def insertTaintEventMySQL_def
    by (intro oks_bind [OF oks_mtxq [where Q = "\<lambda>_ t. t_lease (mtx_q t) = ls"]] oks_if oks_ret
        keeps_mtxq_read [OF my_read_back(2)])
      (auto simp: mysqlc_InsertTaintEvent_def Let_def split: if_splits option.splits)
next
  case (4 s)
  show ?case
    unfolding mysqlTx_WriteSync_def
    by (rule oks_bind [OF oks_mtxq [where Q = "\<lambda>_ t. t_lease (mtx_q t) = ls"]
          oks_bind [OF oks_modifyT [where Q = "\<lambda>_ t. t_lease (mtx_q t) = ls"] oks_ret]])
      (auto simp: mysqlc_InsertSync_def Let_def split: if_splits)
next
  case (5 i n)
  show ?case
    unfolding mysqlTx_PruneSyncs_def
    by (rule oks_mtxq) (auto simp: mysqlc_PruneSyncs_def Let_def split: if_splits)
qed simp

lemma my_runs_WithTx:
  assumes "runs (\<lambda>t. P (mtx_q t)) (fn (mysqlTx_Tx srv)) (\<lambda>r t. Q r (mtx_q t))"
  shows "runs P (mysqlStore_WithTx srv fn) Q"
proof (rule runsI)
  fix w :: "db world"
  assume nf: "no_faults w" and P: "P (w_db w)"
  let ?w1 = "with_db \<lparr>mtx_q = w_db w, mtx_syncID = 0\<rparr> (w\<lparr>w_stmts := w_stmts w + 1\<rparr>)"
  have "no_faults ?w1" "P (mtx_q (w_db ?w1))" using nf P by (simp_all add: no_faults_def)
  with assms obtain r w2 where "fn (mysqlTx_Tx srv) ?w1 = (Inr r, w2)" "no_faults w2" "Q r (mtx_q (w_db w2))"
    by (rule runsE)
  with nf show "\<exists>a w'. mysqlStore_WithTx srv fn w = (Inr a, w') \<and> no_faults w' \<and> Q a (w_db w')"
    by (simp add: mysqlStore_WithTx_def stmt_def no_faults_def Let_def)
qed

lemma ref_fits_row: "my_ref_row_ok srv r \<Longrightarrow> ref_accepted (my_varchar srv 512) varbinary32 (refFromRow r)"
  by (auto simp: my_ref_row_ok_def ref_accepted_def refFromRow_def oidFromCol_def toBytes_def OIDFromRaw_def null_or_def
      varbinary32_def Let_def split: option.splits)

lemma my_prior:
  assumes ok: "sync_ok d" and ready: "my_ready srv d" and p: "map_of (priorMap (mysql_tags srv d rid)) tag = Some p"
  shows "ref_RemoteID p = rid" and "ref_accepted (my_varchar srv 512) varbinary32 p"
proof -
  from p obtain r where r: "ref_at d rid tag = Some r" "p = refFromRow r"
    by (auto simp: mysql_tags_prior [OF sync_okD(3) [OF ok]] db_view_def)
  then show "ref_RemoteID p = rid" by (auto simp: refFromRow_def dest: ref_at_key)
  show "ref_accepted (my_varchar srv 512) varbinary32 p"
    using ready ref_at_in [OF r(1)] unfolding r(2) by (intro ref_fits_row) (simp add: my_ready_def list_all_iff)
qed

context mysql_live
begin

lemma my_commit_runs:
  assumes ok: "sync_ok d" and ready: "my_ready srv d" and op: "opened_db rid (length lsRefs + length (mysql_tags srv d rid)) d"
    and order: "\<And>xs. mset (order xs) = mset xs"
    and ls: "\<And>r. r \<in> set lsRefs \<Longrightarrow> ls_accepted (my_varchar srv 512) varbinary32 r"
    and head: "(rid, head, n) \<in> set (remote_heads d)"
  shows "runs (\<lambda>d'. quiet d d' \<and> my_held srv l d')
     (mysqlStore_WithTx srv (syncTx order rid taintAny startNS head lsRefs (mysql_tags srv d rid)))
     (\<lambda>_ d'. opened_db rid 0 d' \<and> my_held srv l d')"
proof (rule runs_each, elim conjE)
  fix d'
  assume q: "quiet d d'" and held: "my_held srv l d'"
  let ?tx = "syncTx order rid taintAny startNS head lsRefs (mysql_tags srv d rid)"
  have "walk genesis 0 (chain_rows d rid) = Some (head, n)"
    using ok head by (auto simp: sync_ok_def ledger_ok_def dest: chain_okD)
  from walk_head_length [OF this] have h: "varbinary32 head" by (simp add: genesis_def ChainHashLen_def)
  have o: "my_opened srv rid (length lsRefs + length (priorMap (mysql_tags srv d rid))) d'"
    using quiet_opened [OF q op] length_priorMap [of "mysql_tags srv d rid"] held
    by (auto simp: my_opened_def opened_db_def room_def my_held_def)
  have "oks (\<lambda>t. t_lease (mtx_q t) = t_lease d') (?tx (mysqlTx_Tx srv)) (\<lambda>_ t. t_lease (mtx_q t) = t_lease d')"
    by (rule tx_invariant.inv_syncTx [OF my_lease_frame]) simp_all
  then have lease: "oks (\<lambda>t. mtx_q t = d') (?tx (mysqlTx_Tx srv)) (\<lambda>_ t. t_lease (mtx_q t) = t_lease d')"
    by (rule oks_weaken) simp_all
  from my_progress.run_syncTx [where priors = "mysql_tags srv d rid" and order = order, OF my_prior(1) [OF ok ready]
      my_prior(2) [OF ok ready] ls h order]
  have run: "runs (\<lambda>t. mtx_q t = d') (?tx (mysqlTx_Tx srv)) (\<lambda>(i, _) t. my_live srv rid 0 i (mtx_q t))"
    by (rule runs_weaken) (use o in auto)
  show "runs (\<lambda>x. x = d') (mysqlStore_WithTx srv ?tx) (\<lambda>_ d'. opened_db rid 0 d' \<and> my_held srv l d')"
    by (rule my_runs_WithTx, rule runs_weaken [OF runs_oks [OF run lease]])
      (use held in \<open>auto simp: my_live_def my_held_def live_db_def\<close>)
qed

lemma my_runs_GetChainHead:
  assumes "remote_exists d rid"
  shows "runs (\<lambda>d'. quiet d d' \<and> P d') (mysqlStore_GetChainHead rid) (\<lambda>x d'. (rid, x) \<in> set (remote_heads d) \<and> quiet d d' \<and> P d')"
  unfolding mysqlStore_GetChainHead_def
proof (rule runs_mapErr, rule runs_stmt)
  fix d'
  assume q: "quiet d d' \<and> P d'"
  then have "remote_exists d' rid" using assms by (simp add: remote_exists_heads quiet_def)
  then obtain r where r: "find (\<lambda>r. Rrem_ID r = rid) (t_remotes d') = Some r" by (rule remote_row)
  with find_remote_heads [OF r] q
  show "\<exists>a d''. mysqlc_GetChainHead rid d' = Inr (a, d'') \<and> (rid, a) \<in> set (remote_heads d) \<and> quiet d d'' \<and> P d''"
    by (auto simp: mysqlc_GetChainHead_def read_one_Inr quiet_def)
qed

lemma my_runs_Release:
  assumes l: "lse_RemoteID l = rid" and head: "(rid, h, n) \<in> set (remote_heads d)"
  shows "runs (\<lambda>d'. quiet d d' \<and> my_held srv l d') (dbLease_Release (mysqlStore srv :: (db, mysqlTx, 'r) Store) (Some l) h n) (\<lambda>_ _. True)"
proof (rule runsI)
  fix w :: "db world"
  let ?d = "w_db w"
  assume nf: "no_faults w" and pre: "quiet d ?d \<and> my_held srv l ?d"
  then have heads: "remote_heads ?d = remote_heads d" "db_ok ?d" by (simp_all add: quiet_def)
  with head have "remote_exists ?d rid" by (force simp: remote_exists_heads)
  then obtain r where r: "find (\<lambda>r. Rrem_ID r = rid) (t_remotes ?d) = Some r" by (rule remote_row)
  from remote_heads_unique [OF heads(2) _ find_remote_heads [OF r]] head heads
  have hn: "Rrem_ChainHeadHash r = h" "Rrem_ChainLen r = n" by auto
  from pre l obtain lr where lr: "find (\<lambda>x. Rls_RemoteID x = rid) (t_lease ?d) = Some lr" "Rls_Holder lr = lse_Holder l"
    and fit: "remotes_fit srv ?d"
    by (auto simp: my_held_def)
  have "r \<in> set (t_remotes ?d)" using r by (auto simp: find_Some_iff)
  have same: "x\<lparr>Rrem_ChainHeadHash := h, Rrem_ChainLen := n\<rparr> = x" if "Rrem_ChainHeadHash x = h" "Rrem_ChainLen x = n" for x :: RemoteRow
    using that by (cases x) simp
  have "\<exists>d'. mysqlc_AdvanceRemoteChainHead srv h n rid h n ?d = Inr (1, d')"
    using count_remote [OF heads(2) r] fit
    by (auto simp: mysqlc_AdvanceRemoteChainHead_def my_set_remotes_def my_update_def list_ex_iff hn same remotes_fit_def list_all_iff)
  then obtain d' where "mysqlc_AdvanceRemoteChainHead srv h n rid h n ?d = Inr (1, d')" by blast
  with nf l r hn lr
  show "\<exists>a w'. dbLease_Release (mysqlStore srv :: (db, mysqlTx, 'r) Store) (Some l) h n w = (Inr a, w') \<and> no_faults w' \<and> True"
    by (auto simp: dbLease_Release_def mysqlStore_ReleaseLeaseCAS_def mysqlReleaseTx_def mysqlc_GetRemoteLease_def
        mysqlc_GetRemoteChainHead_def mysqlc_DeleteRemoteLease_def read_one_def select_one_def bindT_def mapErrT_def stmt_def
        no_faults_def ret_def bytesEqual_eq Let_def)
qed

end

sublocale mysql_live \<subseteq> live: sync_live "mysqlStore srv" "mysqlLock srv" "mysql_tags srv" "my_ready srv" "my_held srv"
    "my_varchar srv 255" "ls_accepted (my_varchar srv 512) varbinary32"
proof (unfold_locales, unfold mysql_sel, goal_cases)
  case (1 w rid row)
  then show ?case
    by (simp add: mysqlStore_GetRemote_def bindT_def mapErrT_def stmt_def mysqlc_GetRemote_def read_one_def select_one_def
        ret_def no_faults_def Let_def)
next
  case (2 w holder rid row)
  then show ?case by (intro my_Acquire_succeeds) (simp_all add: my_ready_def)
next
  case (3 d l rid)
  show ?case
    unfolding mysqlStore_ListTags_def
    by (intro runs_bind [OF runs_stmt [where Q = "\<lambda>rows d'. (quiet d d' \<and> my_held srv l d') \<and> map refFromRow rows = mysql_tags srv d rid"]] runs_ret)
      (auto simp: mysqlc_ListTags_def mysql_tags_def quiet_def refFromMySQLRow_eq [abs_def])
next
  case (4 d rid lsRefs order l n taintAny startNS)
  then show ?case by (intro my_commit_runs) simp_all
next
  case (5 d rid l)
  then show ?case by (rule my_runs_GetChainHead)
next
  case (6 l rid h n d)
  then show ?case by (rule my_runs_Release)
next
  case (7 rid ok)
  show ?case
    by (rule runsI)
      (auto simp: ignoreT_def mysqlStore_SetRemoteHealth_def bindT_def NowNS_def stmt_def no_faults_def Let_def split: sum.splits prod.splits)
qed

end
