(* ===== verification/Mysql_Props.thy ===== *)
theory Mysql_Props
  imports Mysql_Refine Mysql_Live Scenario
begin

text \<open>
  What the MySQL store promises, and what it does not. Over any server a sync keeps the ledger; over a server with an
  exact collation it detects every moved tag, as over SQLite. Over a server whose collation identifies two tag names, which
  the default one does for names that differ in case, the second tag overwrites the row of the first and clears its taint.
\<close>

section \<open>Tags that the collation identifies\<close>

text \<open>\<open>untainted\<close>: no row with the key of the tag is tainted.\<close>

definition untainted :: "mysqlServer \<Rightarrow> RemoteID \<Rightarrow> string \<Rightarrow> db \<Rightarrow> bool" where
  "untainted srv rid tag d \<longleftrightarrow> list_all (\<lambda>r. tag_key srv rid tag r \<longrightarrow> Rref_Tainted r = 0) (t_refs d)"

lemma untainted_refs: "t_refs d' = t_refs d \<Longrightarrow> untainted srv rid tag d' = untainted srv rid tag d"
  by (simp add: untainted_def)

lemma untainted_not_tainted: "untainted srv rid tag' d \<Longrightarrow> same_text srv tag tag' \<Longrightarrow> \<not> tainted_at rid tag d"
  by (auto simp: untainted_def tainted_at_def tag_key_def list_all_iff dest: ref_at_in ref_at_key)

lemma UpsertRef_untaints:
  assumes "mysqlc_UpsertRef srv arg d = Inr (u, d')" and "Pref_Tainted arg = 0"
  shows "untainted srv (Pref_RemoteID arg) (Pref_TagName arg) d'"
  using assms
  by (auto simp: mysqlc_UpsertRef_def untainted_def list_all_iff update_where_def upsert_set_def find_None_iff Let_def
      split: if_splits option.splits)

lemma my_AppendObservation_refs:
  "oks (\<lambda>t. untainted srv rid tag (mtx_q t)) (mysqlTx_AppendObservation srv ob) (\<lambda>_ t. untainted srv rid tag (mtx_q t))"
proof (rule oksI)
  fix w w' :: "mysqlTx world" and a
  assume un: "untainted srv rid tag (mtx_q (w_db w))" and run: "mysqlTx_AppendObservation srv ob w = (Inr a, w')"
  obtain sq ob' where a: "a = (sq, ob')" by (cases a)
  from run [unfolded a] refl refl refl obtain h n where
    "w_db w' = (w_db w)\<lparr>mtx_q := append_db
       (mtx_q (w_db w)\<lparr>seq_observations := my_auto srv (seq_observations (mtx_q (w_db w))) - 1\<rparr>) ob'
       (effective_sync ob (mtx_syncID (w_db w))) h n\<rparr>"
    by (rule my_AppendObservation_Inr)
  then show "untainted srv rid tag (mtx_q (w_db w'))" using un by (simp add: untainted_def append_db_def)
qed

text \<open>A tag that is new under its own name is written untainted, over whatever row the collation finds.\<close>

lemma syncSeenTag_untaints:
  assumes "map_of prior (lsr_Name now) = None"
  shows "oks (\<lambda>_. True) (syncSeenTag (mysqlTx_Tx srv) rid ns sid prior now changed)
     (\<lambda>_ t. untainted srv rid (lsr_Name now) (mtx_q t))"
proof -
  let ?ref = "projectTag None now ns rid"
  have up: "oks (\<lambda>_. True) (mysqlTx_UpsertRefProjection srv ?ref) (\<lambda>_ t. untainted srv rid (lsr_Name now) (mtx_q t))"
    unfolding mysqlTx_UpsertRefProjection_def case_prod_unfold
  proof (rule oks_bind [OF oks_mtxq])
    fix t :: mysqlTx and u d'
    assume "mysqlc_UpsertRef srv (mysqlUpsertParams ?ref) (mtx_q t) = Inr (u, d')"
    from UpsertRef_untaints [OF this]
    show "untainted srv rid (lsr_Name now) (mtx_q (t\<lparr>mtx_q := d'\<rparr>))"
      by (simp add: upsertParams_def boolToInt_def)
  qed (intro oks_bind [OF keeps_mtxq_read [OF my_read_back(1)]] oks_ret)
  have "td_Taint (ClassifyTag None (Some now)) = None" by (simp add: ClassifyTag_def)
  then show ?thesis
    unfolding syncSeenTag_def assms Let_def mysqlTx_Tx_sel
    by (intro oks_bind [OF up] oks_if oks_ret)
      (auto simp: recordChange_def Let_def case_prod_unfold intro!: oks_bind [OF my_AppendObservation_refs] oks_ret)
qed

lemma oks_for_last:
  assumes "\<And>a. oks (\<lambda>_. True) (body x a) Q"
  shows "oks (\<lambda>_. True) (forT (xs @ [x]) a body) Q"
proof (induction xs arbitrary: a)
  case Nil
  show ?case by (simp, rule oks_bind [OF assms]) (simp add: oks_ret)
next
  case (Cons y ys)
  show ?case by (simp, rule oks_bind [of _ _ "\<lambda>_ _. True"]) (auto intro: Cons oksI)
qed

lemma skip_seen:
  assumes "\<And>e. e \<in> set es \<Longrightarrow> seen (fst e)"
  shows "oks P (forT es a (syncGoneTag tx rid sid taintAny seen)) (\<lambda>_. P)"
proof (rule oks_for [where I = "\<lambda>_ _. P"])
  fix ys e zs c
  assume "es = ys @ e # zs"
  with assms [of e] have "seen (fst e)" by simp
  then show "oks P (syncGoneTag tx rid sid taintAny seen e c) (\<lambda>_. P)"
    by (cases e) (simp add: syncGoneTag_def oks_ret)
qed

lemma syncTx_untaints:
  assumes new: "map_of (priorMap priors) (lsr_Name now) = None" and order: "\<And>xs. mset (order xs) = mset xs"
    and seen: "\<And>e. e \<in> set (priorMap priors) \<Longrightarrow> fst e \<in> lsr_Name ` set (ls @ [now])"
  shows "oks (\<lambda>_. True) (syncTx order rid taintAny startNS head (ls @ [now]) priors (mysqlTx_Tx srv))
     (\<lambda>_ t. untainted srv rid (lsr_Name now) (mtx_q t))"
proof -
  have any: "oks (\<lambda>_. True) m (\<lambda>_ _. True)" for m :: "(mysqlTx, 'x) io" by (rule oksI) simp
  have gone: "oks P (forT (order (priorMap priors)) c (syncGoneTag tx rid sid taintAny
      (\<lambda>name. name \<in> set (map lsr_Name (ls @ [now]))))) (\<lambda>_. P)" for P c and tx :: "mysqlTx Tx" and sid
    by (rule skip_seen) (use seen set_order [of order, OF order] in fastforce)
  have last: "oks (\<lambda>_. True) (forT (ls @ [now]) c (syncSeenTag (mysqlTx_Tx srv) rid ns sid (priorMap priors)))
      (\<lambda>_ t. untainted srv rid (lsr_Name now) (mtx_q t))" for c ns sid
    by (rule oks_for_last) (rule syncSeenTag_untaints [OF new])
  show ?thesis
    unfolding syncTx_def Let_def case_prod_unfold
    by (rule oks_bind [OF any oks_bind [OF any oks_bind [OF any oks_bind [OF last oks_bind [OF gone oks_ret]]]]])
qed

context mysql_server
begin

lemma sync_keeps_ledger:
  "ledger_ok (w_db w) \<Longrightarrow>
   ledger_ok (w_db (snd (SyncRemote errText order (mysqlStore srv) (execGit proc g) (mysqlLock srv) holder rid w)))"
  by (rule host.run_ledger)

lemma sync_untaints:
  assumes ok: "ledger_ok (w_db w)" and order: "\<And>xs. mset (order xs) = mset xs"
    and run: "SyncRemote errText order (mysqlStore srv) (execGit proc g) (mysqlLock srv) holder rid w = (Inr (res, None), w')"
    and row: "find (\<lambda>r. Rrem_ID r = rid) (t_remotes (w_db w)) = Some row"
    and ls: "\<And>wg :: db world. execGitRunner_LsRemote proc g (Rrem_Url row) None wg = (Inr (ls @ [new]), wg)"
    and new: "ref_at (w_db w) rid (lsr_Name new) = None"
    and listed: "\<And>t old. ref_at (w_db w) rid t = Some old \<Longrightarrow> t \<in> lsr_Name ` set (ls @ [new])"
    and same: "same_text srv tag (lsr_Name new)"
  shows "\<not> tainted_at rid tag (w_db w')"
  using ok run
proof (rule host.sync_cases)
  fix x
  assume "Inr (res, None) = (Inr x :: err + SyncResult option \<times> err option)" and "snd x \<noteq> None"
  then show ?thesis by auto
next
  fix x row' lsRefs' algo startNS head and wg w2 :: "db world" and r w3
  let ?d2 = "w_db w2" and ?d = "w_db w"
  assume row': "find (\<lambda>r. Rrem_ID r = rid) (t_remotes ?d) = Some row'"
    and ls': "execGitRunner_LsRemote proc g (Rrem_Url row') None (wg :: db world) = (Inr lsRefs', wg)"
    and q2: "quiet ?d ?d2"
    and tx: "st_WithTx (mysqlStore srv) (syncTx order rid (Rrem_TaintAnyTagDeletion row' \<noteq> 0) startNS head lsRefs'
          (mysql_tags srv ?d2 rid)) w2 = (Inr r, w3)"
    and q3: "quiet (w_db w3) (w_db w')"
  have "row' = row" using row row' by simp
  moreover from this ls [of wg] ls' have "lsRefs' = ls @ [new]" by simp
  ultimately have tx: "mysqlStore_WithTx srv (syncTx order rid (Rrem_TaintAnyTagDeletion row \<noteq> 0) startNS head (ls @ [new])
      (mysql_tags srv ?d rid)) w2 = (Inr r, w3)"
    using tx q2 by (simp add: quiet_def mysql_tags_def)
  have prior: "map_of (priorMap (mysql_tags srv ?d rid)) t = map_option refFromRow (ref_at ?d rid t)" for t
    using mysql_tags_prior [of ?d srv rid] ok by (simp add: ledger_ok_def db_view_def)
  have "fst e \<in> lsr_Name ` set (ls @ [new])" if "e \<in> set (priorMap (mysql_tags srv ?d rid))" for e
    using listed prior [of "fst e"] weak_map_of_SomeI [of "fst e" "snd e"] that by fastforce
  note un = syncTx_untaints [where priors = "mysql_tags srv ?d rid", OF _ order this]
  have "oks (\<lambda>_. True) (mysqlStore_WithTx srv (syncTx order rid (Rrem_TaintAnyTagDeletion row \<noteq> 0) startNS head (ls @ [new])
      (mysql_tags srv ?d rid))) (\<lambda>_. untainted srv rid (lsr_Name new))"
    by (rule my_WithTx_oks) (rule un, simp add: prior new)
  from oksD [OF this _ tx] have "untainted srv rid (lsr_Name new) (w_db w3)" by simp
  then have "untainted srv rid (lsr_Name new) (w_db w')" using q3 untainted_refs [of "w_db w'" "w_db w3"] by (simp add: quiet_def)
  then show ?thesis using same by (rule untainted_not_tainted)
qed

end

context mysql_exact
begin

lemma sync_synced:
  assumes "sync_ok (w_db w)" and "\<And>xs. mset (order xs) = mset xs"
    and "SyncRemote errText order (mysqlStore srv) (execGit proc g) (mysqlLock srv) holder rid w = (Inr (res, None), w')"
    and "find (\<lambda>r. Rrem_ID r = rid) (t_remotes (w_db w)) = Some row"
    and "\<And>wg :: db world. execGitRunner_LsRemote proc g (Rrem_Url row) None wg = (Inr lsRefs, wg)"
    and "distinct (map lsr_Name lsRefs)"
  shows "\<exists>ns. synced rid ns (Rrem_TaintAnyTagDeletion row \<noteq> 0) (db_view (w_db w)) lsRefs
     (order (priorMap (mysql_tags srv (w_db w) rid))) (db_view (w_db w'))"
  using assms by (rule refines.run_synced)

end

context mysql_live
begin

lemma sync_runs:
  assumes "sync_ok (w_db w)" and "syncs_ok (w_db w)" and "my_ready srv (w_db w)" and "my_varchar srv 255 holder"
    and "no_faults w" and "find (\<lambda>r. Rrem_ID r = rid) (t_remotes (w_db w)) = Some row"
    and "\<forall>l \<in> set (t_lease (w_db w)). Rls_RemoteID l = rid \<longrightarrow> Rls_ExpiresAtNs l < w_clock w (w_ticks w)"
    and "\<And>wg :: db world. execGitRunner_LsRemote proc g (Rrem_Url row) None wg = (Inr lsRefs, wg)"
    and "\<And>r. r \<in> set lsRefs \<Longrightarrow> ls_accepted (my_varchar srv 512) varbinary32 r"
    and "room (length lsRefs + length (mysql_tags srv (w_db w) rid)) (w_db w)"
    and "\<And>xs. mset (order xs) = mset xs"
  shows "\<exists>res w'. SyncRemote errText order (mysqlStore srv) (execGit proc g) (mysqlLock srv) holder rid w =
      (Inr (Some res, None), w') \<and> res_Status res = SyncOk \<and> res_TagsSeen res = int (length lsRefs)"
  using assms by (rule live.run_succeeds)

end

section \<open>Two servers\<close>

text \<open>A server with a case-insensitive collation, and one with a binary collation.\<close>

definition mysqlCI :: mysqlServer where
  "mysqlCI = \<lparr>my_weight = ToLower, my_varchar = (\<lambda>n s. length s \<le> n), my_TEXT = (\<lambda>s. length s \<le> 65535),
     my_auto = (\<lambda>n. n + 1), my_dupID = (\<lambda>_. 0)\<rparr>"

definition mysqlBin :: mysqlServer where
  "mysqlBin = mysqlCI\<lparr>my_weight := \<lambda>s. s\<rparr>"

lemma mysql_servers_sel [simp]:
  "my_weight mysqlCI = ToLower" "my_varchar mysqlCI = (\<lambda>n s. length s \<le> n)" "my_auto mysqlCI n = n + 1"
  "my_weight mysqlBin = (\<lambda>s. s)" "my_varchar mysqlBin = (\<lambda>n s. length s \<le> n)" "my_auto mysqlBin n = n + 1"
  by (simp_all add: mysqlCI_def mysqlBin_def)

interpretation ci: mysql_live mysqlCI
  by unfold_locales (simp_all add: mysqlCI_def)

interpretation bin: mysql_live mysqlBin
  by unfold_locales (simp_all add: mysqlBin_def mysqlCI_def)

interpretation bin: mysql_exact mysqlBin
  by unfold_locales (simp_all add: mysqlBin_def mysqlCI_def)

definition demo_my_sync ::
  "mysqlServer \<Rightarrow> LsRemoteRef list \<Rightarrow> db world \<Rightarrow> (err + SyncResult option \<times> err option) \<times> db world" where
  "demo_my_sync srv ls = SyncRemote (\<lambda>_. []) id (mysqlStore srv) (execGit (demo_git (printRefs ls)) demo_runner)
     (mysqlLock srv) ''me'' 1"

lemma demo_ready: "srv \<in> {mysqlCI, mysqlBin} \<Longrightarrow> my_ready srv demo_db"
  by (auto simp: my_ready_def remotes_fit_def my_remote_row_ok_def my_ref_row_ok_def demo_db_def demo_remote_def
      demo_ref_def empty_db_def null_or_def varbinary32_def in_values_def mysqlCI_def mysqlBin_def genesis_def ChainHashLen_def same_text_def)

lemma demo_ls_accepted:
  assumes "srv \<in> {mysqlCI, mysqlBin}"
  shows "ls_accepted (my_varchar srv 512) varbinary32 (demo_ls b)"
    "ls_accepted (my_varchar srv 512) varbinary32 ((demo_ls b)\<lparr>lsr_Name := ''V1''\<rparr>)"
  using assms by (auto simp: ls_accepted_def demo_ls_def varbinary32_def mysqlCI_def mysqlBin_def)

lemma demo_my_listing:
  assumes "list_all (\<lambda>r. r \<in> range demo_ls \<union> range (\<lambda>b. (demo_ls b)\<lparr>lsr_Name := ''V1''\<rparr>)) ls"
  shows "execGitRunner_LsRemote (demo_git (printRefs ls)) demo_runner url auth w = (Inr ls, w)"
proof (rule execGitRunner_LsRemote_print)
  have "ref_parsed SHA1 (demo_ls b)" "name_ok (lsr_Name (demo_ls b))"
    "ref_parsed SHA1 ((demo_ls b)\<lparr>lsr_Name := ''V1''\<rparr>)" "name_ok ''V1''" for b
    by (simp_all add: ref_parsed_def wf_OID_def HashAlgo_Valid_def demo_ls_def name_ok_def HasSuffix_def
        prefixTags_def peeledSfx_def suffix_to_prefix)
  then show "list_all (ref_parsed SHA1) ls" "list_all (\<lambda>r. name_ok (lsr_Name r)) ls"
    using assms by (auto simp: list_all_iff)
qed (simp_all add: demo_git_def HashAlgo_Valid_def)

lemma demo_my_room: "room (1 + length (mysql_tags srv demo_db 1)) demo_db"
  by (simp add: room_def mysql_tags_def demo_db_def empty_db_def)

section \<open>What holds over MySQL\<close>

text \<open>C23: a sync over MySQL keeps the ledger, whatever the collation, whatever git prints and whichever statements fail:
  the keys stay unique and the hash chain of every remote stays intact, as long as the server gives out growing ids.\<close>

theorem mysql_sync_keeps_ledger:
  assumes "\<And>n. n < my_auto srv n" and "ledger_ok (w_db w)"
  shows "ledger_ok (w_db (snd (SyncRemote errText order (mysqlStore srv) (execGit proc g) (mysqlLock srv) holder rid w)))"
proof -
  have "mysql_server srv" using assms(1) by (rule mysql_server.intro)
  then show ?thesis using assms(2) by (rule mysql_server.sync_keeps_ledger)
qed

theorem mysql_sync_keeps_ledger_witness:
  "ledger_ok (w_db (snd (demo_my_sync mysqlCI [demo_ls 2] (demo_world demo_db))))"
  unfolding demo_my_sync_def
  by (rule mysql_sync_keeps_ledger) (use demo_ok in \<open>simp_all add: mysqlCI_def sync_ok_def\<close>)

text \<open>C25: a sync over MySQL succeeds when it can: with a consistent database whose values fit their columns, room for its
  observations, no unexpired lease in the way, a listing from git whose names and ids fit, and no failing statement,
  \<open>SyncRemote\<close> returns a result with status \<open>ok\<close> that counts the listed tags. Of the server it is assumed that ids grow and
  that ASCII text within the declared lengths is accepted.\<close>

theorem mysql_sync_succeeds:
  assumes "\<And>n. n < my_auto srv n" and "\<And>s n. ascii s \<Longrightarrow> length s \<le> n \<Longrightarrow> my_varchar srv n s"
    and "\<And>s. ascii s \<Longrightarrow> length s \<le> 65535 \<Longrightarrow> my_TEXT srv s"
    and "sync_ok (w_db w)" and "syncs_ok (w_db w)" and "my_ready srv (w_db w)" and "my_varchar srv 255 holder"
    and "no_faults w" and "find (\<lambda>r. Rrem_ID r = rid) (t_remotes (w_db w)) = Some row"
    and "\<forall>l \<in> set (t_lease (w_db w)). Rls_RemoteID l = rid \<longrightarrow> Rls_ExpiresAtNs l < w_clock w (w_ticks w)"
    and "\<And>wg :: db world. execGitRunner_LsRemote proc g (Rrem_Url row) None wg = (Inr lsRefs, wg)"
    and "\<And>r. r \<in> set lsRefs \<Longrightarrow> ls_accepted (my_varchar srv 512) varbinary32 r"
    and "room (length lsRefs + length (mysql_tags srv (w_db w) rid)) (w_db w)"
    and "\<And>xs. mset (order xs) = mset xs"
  shows "\<exists>res w'. SyncRemote errText order (mysqlStore srv) (execGit proc g) (mysqlLock srv) holder rid w =
      (Inr (Some res, None), w') \<and> res_Status res = SyncOk \<and> res_TagsSeen res = int (length lsRefs)"
proof -
  have "mysql_live srv" using assms(1-3) by unfold_locales
  then show ?thesis using assms(4-) by (rule mysql_live.sync_runs)
qed

text \<open>The lease of a sync that died is taken over.\<close>

definition demo_stale :: db where
  "demo_stale = demo_db\<lparr>t_lease :=
     [\<lparr>Rls_RemoteID = 1, Rls_Holder = ''dead'', Rls_AcquiredAtNs = 5, Rls_ExpiresAtNs = 10\<rparr>]\<rparr>"

lemma demo_stale_ok: "sync_ok demo_stale" "syncs_ok demo_stale"
    "srv \<in> {mysqlCI, mysqlBin} \<Longrightarrow> my_ready srv demo_stale"
proof -
  have "db_ok demo_stale" unfolding demo_stale_def
    by (rule db_ok_lease) (use demo_ok in \<open>simp_all add: sync_okD\<close>)
  moreover have "chain_ok demo_stale = chain_ok demo_db" by (rule chain_ok_cong) (simp_all add: demo_stale_def)
  moreover have "rows_ok demo_stale = rows_ok demo_db" by (simp add: rows_ok_def demo_stale_def)
  ultimately show "sync_ok demo_stale" using demo_ok(1) by (simp add: sync_ok_def ledger_ok_def)
  show "syncs_ok demo_stale" using demo_ok(2) by (simp add: syncs_ok_def demo_stale_def)
  show "srv \<in> {mysqlCI, mysqlBin} \<Longrightarrow> my_ready srv demo_stale"
    using demo_ready [of srv] by (simp add: my_ready_def remotes_fit_def demo_stale_def)
qed

theorem mysql_sync_succeeds_witness:
  "\<exists>res w'. demo_my_sync mysqlCI [demo_ls 2] (demo_world demo_stale) = (Inr (Some res, None), w') \<and>
     res_Status res = SyncOk \<and> res_TagsSeen res = 1"
proof -
  have "\<exists>res w'. demo_my_sync mysqlCI [demo_ls 2] (demo_world demo_stale) = (Inr (Some res, None), w') \<and>
     res_Status res = SyncOk \<and> res_TagsSeen res = int (length [demo_ls 2])"
    unfolding demo_my_sync_def
  proof (rule mysql_sync_succeeds)
    show "execGitRunner_LsRemote (demo_git (printRefs [demo_ls 2])) demo_runner (Rrem_Url demo_remote) None wg =
        (Inr [demo_ls 2], wg)" for wg :: "db world"
      by (rule demo_my_listing) auto
    show "room (length [demo_ls 2] + length (mysql_tags mysqlCI (w_db (demo_world demo_stale)) 1)) (w_db (demo_world demo_stale))"
      using demo_my_room [of mysqlCI] by (simp add: room_def mysql_tags_def demo_stale_def)
    show "ls_accepted (my_varchar mysqlCI 512) varbinary32 r" if "r \<in> set [demo_ls 2]" for r
      using that demo_ls_accepted(1) [of mysqlCI] by simp
    show "find (\<lambda>r. Rrem_ID r = 1) (t_remotes (w_db (demo_world demo_stale))) = Some demo_remote"
      using demo_find by (simp add: demo_stale_def)
  qed (simp_all add: demo_stale_ok, simp_all add: mysqlCI_def demo_stale_def)
  then show ?thesis by simp
qed

text \<open>C24: over a server whose collation tells different strings apart, a successful sync detects a moved tag as over
  SQLite: when git lists a recorded tag at another object id, the tag is tainted afterwards and the taint event with both
  ids is on record.\<close>

theorem mysql_moved_tag_is_tainted:
  assumes "\<And>n. n < my_auto srv n" and "\<And>a b. my_weight srv a = my_weight srv b \<Longrightarrow> a = b"
    and "sync_ok (w_db w)" and "\<And>xs. mset (order xs) = mset xs"
    and "SyncRemote errText order (mysqlStore srv) (execGit proc g) (mysqlLock srv) holder rid w = (Inr (res, None), w')"
    and "find (\<lambda>r. Rrem_ID r = rid) (t_remotes (w_db w)) = Some row"
    and "\<And>wg :: db world. execGitRunner_LsRemote proc g (Rrem_Url row) None wg = (Inr lsRefs, wg)"
    and "distinct (map lsr_Name lsRefs)"
    and "now \<in> set lsRefs" and "ref_at (w_db w) rid (lsr_Name now) = Some old" and "lsr_OID now \<noteq> row_oid old"
  shows "tainted_at rid (lsr_Name now) (w_db w') \<and>
    event_for (w_db w') rid (Rref_ID old) (change_reason old) (row_oid old) (lsr_OID now)"
proof -
  have "mysql_exact srv" using assms(1,2) by unfold_locales
  from mysql_exact.sync_synced [OF this assms(3-8)] synced_changed assms(3,9-) show ?thesis by blast
qed

theorem mysql_moved_tag_is_tainted_witness:
  "\<exists>res w'. demo_my_sync mysqlBin [demo_ls 2] (demo_world demo_db) = (Inr (Some res, None), w') \<and>
     tainted_at 1 ''v1'' (w_db w')"
proof -
  have ls: "execGitRunner_LsRemote (demo_git (printRefs [demo_ls 2])) demo_runner (Rrem_Url demo_remote) None wg =
      (Inr [demo_ls 2], wg)" for wg :: "db world"
    by (rule demo_my_listing) auto
  have "\<exists>res w'. demo_my_sync mysqlBin [demo_ls 2] (demo_world demo_db) = (Inr (Some res, None), w') \<and>
      res_Status res = SyncOk \<and> res_TagsSeen res = int (length [demo_ls 2])"
    unfolding demo_my_sync_def
    by (rule bin.sync_runs [OF _ _ _ _ _ _ _ ls])
      (use demo_ok demo_find demo_ready [of mysqlBin] demo_ls_accepted(1) [of mysqlBin] demo_my_room [of mysqlBin]
        demo_no_lease in simp_all)
  then obtain res w' where run: "demo_my_sync mysqlBin [demo_ls 2] (demo_world demo_db) = (Inr (Some res, None), w')" by blast
  have "tainted_at 1 (lsr_Name (demo_ls 2)) (w_db w') \<and>
      event_for (w_db w') 1 (Rref_ID demo_ref) (change_reason demo_ref) (row_oid demo_ref) (lsr_OID (demo_ls 2))"
    by (rule mysql_moved_tag_is_tainted [OF _ _ _ _ run [unfolded demo_my_sync_def] _ ls])
      (simp_all add: demo_ok demo_find demo_ref_at demo_row_oid, simp_all add: demo_ls_def demo_ref_at)
  with run show ?thesis by (auto simp: demo_ls_def)
qed

text \<open>While an unexpired lease of a remote is stored, nobody takes it over: a lease is granted only to a caller who asks for
  the very lease that is there, the same holder and the same expiry. (SQLite refuses that caller too.)\<close>

theorem mysql_leases_are_exclusive:
  assumes "db_ok (w_db w)" and "live_lease (w_db w) rid now"
    and "mysqlStore_TryAcquireLease srv rid holder now expires w = (Inr (True, head), w')"
  shows "\<exists>l \<in> set (t_lease (w_db w)). Rls_RemoteID l = rid \<and> Rls_Holder l = holder \<and> Rls_ExpiresAtNs l = expires"
proof -
  let ?P = "\<lambda>l. Rls_RemoteID l = rid" and ?ls = "t_lease (w_db w)"
  from assms(2) obtain l where l: "l \<in> set ?ls" "?P l" "now \<le> Rls_ExpiresAtNs l" by (auto simp: live_lease_def)
  have find: "find ?P ?ls = Some l" using find_lease [OF assms(1) l(1,2)] .
  have keep: "find ?P (update_where ?P (\<lambda>l. setExpires now r (setAcquired now r (setHolder now r l))) ?ls) = Some l" for r
    using l(3) find
    by (subst find_update_where_other) (simp_all add: setExpires_def setAcquired_def setHolder_def)
  have "list_ex ?P ?ls" using l by (auto simp: list_ex_iff)
  then have "Rls_Holder l = holder \<and> Rls_ExpiresAtNs l = expires"
    using assms(3) keep
    by (auto simp: mysqlStore_TryAcquireLease_def bindT_eq_Inr stmt_Inr upsertLeaseMySQLSQL_def mysqlc_defs read_one_Inr Let_def
        split: if_splits)
  with l show ?thesis by blast
qed

theorem mysql_leases_are_exclusive_witness:
  "\<exists>w'. mysqlStore_TryAcquireLease mysqlCI 1 ''me'' 8 20 (demo_world demo_stale) = (Inr (False, []), w')"
proof -
  have ok: "db_ok (w_db (demo_world demo_stale))" using demo_stale_ok(1) by (simp add: sync_okD)
  have live: "live_lease (w_db (demo_world demo_stale)) 1 8" by (simp add: live_lease_def demo_stale_def)
  obtain b head w' where run: "mysqlStore_TryAcquireLease mysqlCI 1 ''me'' 8 20 (demo_world demo_stale) = (Inr (b, head), w')"
    by (auto simp: mysqlStore_TryAcquireLease_def bindT_def stmt_def upsertLeaseMySQLSQL_def mysqlc_defs read_one_def select_one_def
        demo_world_def demo_stale_def demo_db_def demo_remote_def update_where_def setExpires_def setAcquired_def setHolder_def
        ret_def Let_def)
  have "b = False"
    using mysql_leases_are_exclusive [OF ok live, of mysqlCI "''me''" 20 head w'] run by (cases b) (auto simp: demo_stale_def)
  moreover have "head = []" using run \<open>b = False\<close>
    by (auto simp: mysqlStore_TryAcquireLease_def bindT_eq_Inr split: if_splits)
  ultimately show ?thesis using run by blast
qed

section \<open>What does not\<close>


definition demo_upper :: db where
  "demo_upper = demo_db\<lparr>t_refs := [demo_ref\<lparr>Rref_TagName := ''V1'', Rref_Tainted := 1, Rref_TaintFirstNs := Some 7\<rparr>]\<rparr>"

lemma demo_upper_ok: "sync_ok demo_upper" "syncs_ok demo_upper" "my_ready mysqlCI demo_upper" "tainted_at 1 ''V1'' demo_upper"
    "t_lease demo_upper = []" "find (\<lambda>r. Rrem_ID r = 1) (t_remotes demo_upper) = Some demo_remote"
    "room (2 + length (mysql_tags srv demo_upper 1)) demo_upper" "ref_at demo_upper 1 ''v1'' = None"
proof -
  have "db_ok demo_upper"
    by (simp add: demo_upper_def demo_db_def demo_remote_def demo_ref_def empty_db_def db_ok_defs ids_ok_def remote_exists_def)
  moreover have "chain_ok demo_upper"
    by (simp add: chain_ok_def remote_heads_def chain_rows_def demo_upper_def demo_db_def demo_remote_def empty_db_def)
  moreover have "rows_ok demo_upper"
    by (simp add: rows_ok_def demo_upper_def demo_ref_def ref_ok_def ref_storable_def refFromRow_simp oid_storable_def
        oidFromCol_def OIDFromRaw_def AlgoForRawLen_def wf_OID_def HashAlgo_Valid_def toBytes_def)
  ultimately show "sync_ok demo_upper" by (simp add: sync_ok_def ledger_ok_def)
  show "my_ready mysqlCI demo_upper"
    using demo_ready [of mysqlCI]
    by (simp add: my_ready_def remotes_fit_def demo_upper_def my_ref_row_ok_def demo_ref_def null_or_def varbinary32_def)
  show "syncs_ok demo_upper" "tainted_at 1 ''V1'' demo_upper" "t_lease demo_upper = []" "ref_at demo_upper 1 ''v1'' = None"
    "find (\<lambda>r. Rrem_ID r = 1) (t_remotes demo_upper) = Some demo_remote"
    using demo_ok(2) demo_find demo_no_lease by (simp_all add: syncs_ok_def tainted_at_def ref_at_def demo_upper_def demo_ref_def)
  show "room (2 + length (mysql_tags srv demo_upper 1)) demo_upper"
    by (simp add: room_def mysql_tags_def demo_upper_def demo_db_def empty_db_def)
qed


end
