(* ===== verification/Migrate.thy ===== *)
theory Migrate
  imports Config Progress
begin

text \<open>
  \<open>internal/store/migrate.go\<close>: the migrations of both databases. A migration is a file \<open><version>_<name>.sql\<close>; the table
  \<open>schema_migrations\<close> records the versions that were applied. What a script does to the schema is a parameter. SQLite
  runs a script and the record of its version in one transaction; MySQL commits each statement of a script by itself, so
  that a script that fails leaves what it did before. An interrupted run is completed by the next one: over SQLite
  always, over MySQL for scripts that may be repeated.
\<close>

section \<open>The files\<close>

record dirEntry =
  de_Name :: string
  de_IsDir :: bool

record migrationsFS =
  fs_ReadDir :: "err + dirEntry list"
  fs_ReadFile :: "string \<Rightarrow> err + string"

record migration =
  mig_version :: int64
  mig_name :: string

fun migrationsOf :: "dirEntry list \<Rightarrow> err + migration list" where
  "migrationsOf [] = Inr []"
| "migrationsOf (e # es) =
     (if de_IsDir e \<or> \<not> HasSuffix (de_Name e) ''.sql'' then migrationsOf es
      else case ParseInt (takeWhile (\<lambda>c. c \<noteq> CHR ''_'') (de_Name e)) of
        None \<Rightarrow> Inl (ErrText ''migrate: cannot parse version'')
      | Some ver \<Rightarrow> thenE (migrationsOf es) (\<lambda>migs. Inr (\<lparr>mig_version = ver, mig_name = de_Name e\<rparr> # migs)))"

text \<open>\<open>sort.Slice\<close> is not stable: which of two files with one version comes first is open, so it is a parameter.\<close>

definition collectMigrations :: "(migration list \<Rightarrow> migration list) \<Rightarrow> migrationsFS \<Rightarrow> err + migration list" where
  "collectMigrations sortSlice fsys =
     thenE (fs_ReadDir fsys) (\<lambda>entries. thenE (migrationsOf entries) (\<lambda>migs. Inr (sortSlice migs)))"

section \<open>The runners\<close>

text \<open>The table \<open>schema_migrations\<close> (empty if it does not exist) and the rest of the database.\<close>

record 's migDB =
  mg_versions :: "(int64 \<times> int64) list"
  mg_schema :: 's

definition bootstrapDDL :: "('s migDB, unit) query" where
  "bootstrapDDL d = Inr ((), d)"

definition countVersion :: "int64 \<Rightarrow> ('s migDB, int64) query" where
  "countVersion v d = Inr (int (length (filter (\<lambda>r. fst r = v) (mg_versions d))), d)"

text \<open>The column is a 64-bit INTEGER in SQLite and a 32-bit INT in MySQL.\<close>

definition recordVersion :: "(int64 \<Rightarrow> bool) \<Rightarrow> int64 \<Rightarrow> int64 \<Rightarrow> ('s migDB, unit) query" where
  "recordVersion fits v now d =
     (if \<not> fits v then Inl SqlCheck
      else if v \<in> fst ` set (mg_versions d) then Inl SqlUnique
      else Inr ((), d\<lparr>mg_versions := mg_versions d @ [(v, now)]\<rparr>))"

definition fits64 :: "int64 \<Rightarrow> bool" where
  "fits64 v = True"

definition fits32 :: "int64 \<Rightarrow> bool" where
  "fits32 v \<longleftrightarrow> - (2 ^ 31) \<le> v \<and> v < 2 ^ 31"

definition execScript :: "(string \<Rightarrow> 's \<Rightarrow> sql_error + 's) \<Rightarrow> string \<Rightarrow> ('s migDB, unit) query" where
  "execScript apply_script ddl d =
     (case apply_script ddl (mg_schema d) of Inl e \<Rightarrow> Inl e | Inr s \<Rightarrow> Inr ((), d\<lparr>mg_schema := s\<rparr>))"

text \<open>\<open>Begin\<close>, the body, \<open>Commit\<close>; an error rolls back.\<close>

definition inTx :: "('d, 'a) io \<Rightarrow> ('d, 'a) io" where
  "inTx body w =
     (case stmt (\<lambda>d. Inr ((), d)) w of
        (Inl e, w1) \<Rightarrow> (Inl e, w1)
      | (Inr _, w1) \<Rightarrow>
          (case body w1 of
             (Inl e, w2) \<Rightarrow> (Inl e, w2\<lparr>w_db := w_db w1\<rparr>)
           | (Inr a, w2) \<Rightarrow>
               (case stmt (\<lambda>d. Inr ((), d)) w2 of
                  (Inl e, w3) \<Rightarrow> (Inl e, w3\<lparr>w_db := w_db w1\<rparr>)
                | (Inr _, w3) \<Rightarrow> (Inr a, w3))))"

definition readFile :: "migrationsFS \<Rightarrow> string \<Rightarrow> ('d, string) io" where
  "readFile fsys name = (case fs_ReadFile fsys name of Inl e \<Rightarrow> fail e | Inr ddl \<Rightarrow> ret ddl)"

definition migrateFile ::
  "(string \<Rightarrow> 's \<Rightarrow> sql_error + 's) \<Rightarrow> migrationsFS \<Rightarrow> migration \<Rightarrow> unit \<Rightarrow> ('s migDB, unit) io" where
  "migrateFile apply_script fsys m _ =
     bindT (stmt (countVersion (mig_version m))) (\<lambda>exists.
     if exists > 0 then ret ()
     else
     bindT (readFile fsys (mig_name m)) (\<lambda>ddl.
     inTx (bindT (stmt (execScript apply_script ddl)) (\<lambda>_.
           bindT NowNS (\<lambda>now. stmt (recordVersion fits64 (mig_version m) now))))))"

definition RunMigrations ::
  "(migration list \<Rightarrow> migration list) \<Rightarrow> (string \<Rightarrow> 's \<Rightarrow> sql_error + 's) \<Rightarrow> migrationsFS \<Rightarrow> ('s migDB, unit) io" where
  "RunMigrations sortSlice apply_script fsys =
     bindT (stmt bootstrapDDL) (\<lambda>_.
     case collectMigrations sortSlice fsys of
       Inl e \<Rightarrow> fail e
     | Inr migs \<Rightarrow> forT migs () (migrateFile apply_script fsys))"

text \<open>
  A MySQL script: \<open>exec ddl outage s\<close> is the error, if any, and the schema it leaves. \<open>outage\<close> says that the connection
  fails while it runs.
\<close>

definition execMySQL :: "(string \<Rightarrow> bool \<Rightarrow> 's \<Rightarrow> sql_error option \<times> 's) \<Rightarrow> string \<Rightarrow> ('s migDB, unit) io" where
  "execMySQL exec ddl w =
     (let (e, s) = exec ddl (w_fault w (w_stmts w)) (mg_schema (w_db w));
          w' = w\<lparr>w_stmts := w_stmts w + 1, w_db := (w_db w)\<lparr>mg_schema := s\<rparr>\<rparr> in
      case e of None \<Rightarrow> (Inr (), w') | Some e \<Rightarrow> (Inl (SqlErr e), w'))"

definition migrateFileMySQL ::
  "(string \<Rightarrow> bool \<Rightarrow> 's \<Rightarrow> sql_error option \<times> 's) \<Rightarrow> migrationsFS \<Rightarrow> migration \<Rightarrow> unit \<Rightarrow> ('s migDB, unit) io" where
  "migrateFileMySQL exec fsys m _ =
     bindT (stmt (countVersion (mig_version m))) (\<lambda>exists.
     if exists > 0 then ret ()
     else
     bindT (readFile fsys (mig_name m)) (\<lambda>ddl.
     bindT (execMySQL exec ddl) (\<lambda>_.
     bindT NowNS (\<lambda>now. stmt (recordVersion fits32 (mig_version m) now)))))"

definition RunMigrationsMySQL ::
  "(migration list \<Rightarrow> migration list) \<Rightarrow> (string \<Rightarrow> bool \<Rightarrow> 's \<Rightarrow> sql_error option \<times> 's) \<Rightarrow> migrationsFS \<Rightarrow> ('s migDB, unit) io" where
  "RunMigrationsMySQL sortSlice exec fsys =
     bindT (stmt bootstrapDDL) (\<lambda>_.
     case collectMigrations sortSlice fsys of
       Inl e \<Rightarrow> fail e
     | Inr migs \<Rightarrow> forT migs () (migrateFileMySQL exec fsys))"

section \<open>An undisturbed run\<close>

text \<open>\<open>cleanRun\<close>: the schema and the recorded versions after a run in which nothing fails from outside.\<close>

fun cleanRun ::
  "(string \<Rightarrow> 's \<Rightarrow> 's option) \<Rightarrow> (int64 \<Rightarrow> bool) \<Rightarrow> migrationsFS \<Rightarrow> migration list \<Rightarrow> 's \<times> int64 set \<Rightarrow> ('s \<times> int64 set) option" where
  "cleanRun step fits fsys [] sv = Some sv"
| "cleanRun step fits fsys (m # ms) (s, V) =
     (if mig_version m \<in> V then cleanRun step fits fsys ms (s, V)
      else case fs_ReadFile fsys (mig_name m) of
        Inl _ \<Rightarrow> None
      | Inr ddl \<Rightarrow> (case step ddl s of
          None \<Rightarrow> None
        | Some s' \<Rightarrow> if fits (mig_version m) then cleanRun step fits fsys ms (s', insert (mig_version m) V) else None))"

definition migState :: "'s migDB \<Rightarrow> 's \<times> int64 set" where
  "migState d = (mg_schema d, fst ` set (mg_versions d))"

lemma cleanRun_versions: "cleanRun step fits fsys ms (s, V) = Some (s', V') \<Longrightarrow> V' = V \<union> mig_version ` set ms"
  by (induction ms arbitrary: s V) (auto split: if_splits sum.splits option.splits)

text \<open>
  The contract of a runner's step for one file: without outside failures it does what \<open>cleanRun\<close> says, recorded versions
  stay recorded, and whatever fails, the clean run goes on from the state it leaves as it did from the one before.
\<close>

locale migration_step =
  fixes body :: "migration \<Rightarrow> unit \<Rightarrow> ('s migDB, unit) io" and step :: "string \<Rightarrow> 's \<Rightarrow> 's option"
    and fits :: "int64 \<Rightarrow> bool" and fsys :: migrationsFS
  assumes step_runs: "cleanRun step fits fsys [m] sv = Some sv' \<Longrightarrow> runs (\<lambda>d. migState d = sv) (body m u) (\<lambda>_ d. migState d = sv')"
    and step_ok: "body m u w = (Inr x, w') \<Longrightarrow> cleanRun step fits fsys [m] (migState (w_db w)) = Some (migState (w_db w'))"
    and step_error:
      "body m u w = (Inl e, w') \<Longrightarrow> cleanRun step fits fsys [m] (migState (w_db w)) = Some sv \<Longrightarrow>
       cleanRun step fits fsys [m] (migState (w_db w')) = Some sv"
    and step_grows: "body m u w = (r, w') \<Longrightarrow> snd (migState (w_db w)) \<subseteq> snd (migState (w_db w'))"
begin

lemma cleanRun_Cons: "cleanRun step fits fsys (m # ms) sv = Option.bind (cleanRun step fits fsys [m] sv) (cleanRun step fits fsys ms)"
  by (cases sv) (auto split: sum.splits option.splits)

lemma loop_runs:
  "cleanRun step fits fsys ms sv = Some sv' \<Longrightarrow> runs (\<lambda>d. migState d = sv) (forT ms u body) (\<lambda>_ d. migState d = sv')"
proof (induction ms arbitrary: sv u)
  case Nil
  then show ?case by (auto intro: runs_ret)
next
  case (Cons m ms)
  then obtain sv1 where "cleanRun step fits fsys [m] sv = Some sv1" "cleanRun step fits fsys ms sv1 = Some sv'"
    by (auto simp: cleanRun_Cons [of m ms] bind_eq_Some_conv)
  then show ?case using runs_bind [OF step_runs Cons.IH] by simp
qed

lemma loop_grows: "forT ms u body w = (r, w') \<Longrightarrow> snd (migState (w_db w)) \<subseteq> snd (migState (w_db w'))"
proof (induction ms arbitrary: w u)
  case (Cons m ms)
  obtain x w1 where b: "body m u w = (x, w1)" by (cases "body m u w")
  with Cons.prems Cons.IH [of _ w1] step_grows [OF b] show ?case by (cases x) (auto simp: bindT_def)
qed (simp add: ret_def)

lemma loop_resumes:
  "forT ms u body w = (r, w') \<Longrightarrow> cleanRun step fits fsys ms (migState (w_db w)) = Some sv \<Longrightarrow>
   cleanRun step fits fsys ms (migState (w_db w')) = Some sv"
proof (induction ms arbitrary: w u)
  case Nil
  then show ?case by (simp add: ret_def)
next
  case (Cons m ms)
  from Cons.prems(2) obtain sv1 where one: "cleanRun step fits fsys [m] (migState (w_db w)) = Some sv1"
    and rest: "cleanRun step fits fsys ms sv1 = Some sv"
    by (auto simp: cleanRun_Cons [of m ms] bind_eq_Some_conv)
  obtain x w1 where b: "body m u w = (x, w1)" by (cases "body m u w")
  have "cleanRun step fits fsys [m] (migState (w_db w')) = Some sv2 \<and> cleanRun step fits fsys ms sv2 = Some sv"
    if "x = Inl e" "sv2 = sv1" for e sv2
    using that Cons.prems(1) b step_error [of m u w e w1 sv1] one rest by (simp add: bindT_def)
  moreover have "\<exists>sv2. cleanRun step fits fsys [m] (migState (w_db w')) = Some sv2 \<and> cleanRun step fits fsys ms sv2 = Some sv"
    if "x = Inr y" for y
  proof -
    from that b Cons.prems(1) have loop: "forT ms y body w1 = (r, w')" by (simp add: bindT_def)
    have "migState (w_db w1) = sv1" using step_ok [of m u w y w1] b one that by simp
    with Cons.IH [OF loop] rest have ih: "cleanRun step fits fsys ms (migState (w_db w')) = Some sv" by simp
    have "mig_version m \<in> snd sv1"
      using cleanRun_versions [of step fits fsys "[m]" "fst (migState (w_db w))" "snd (migState (w_db w))" "fst sv1" "snd sv1"] one by simp
    with loop_grows [OF loop] \<open>migState (w_db w1) = sv1\<close> have "mig_version m \<in> snd (migState (w_db w'))" by auto
    then have "cleanRun step fits fsys [m] (migState (w_db w')) = Some (migState (w_db w'))"
      by (cases "migState (w_db w')") simp
    with ih show ?thesis by blast
  qed
  ultimately show ?case by (cases x) (auto simp: cleanRun_Cons [of m ms])
qed

end

lemma recorded_iff: "length (filter (\<lambda>r. fst r = v) (mg_versions d)) > 0 \<longleftrightarrow> v \<in> snd (migState d)"
  by (auto simp: migState_def filter_empty_conv image_iff)

definition sqliteStep :: "(string \<Rightarrow> 's \<Rightarrow> sql_error + 's) \<Rightarrow> string \<Rightarrow> 's \<Rightarrow> 's option" where
  "sqliteStep apply_script ddl s = (case apply_script ddl s of Inl _ \<Rightarrow> None | Inr s' \<Rightarrow> Some s')"

definition mysqlStep :: "(string \<Rightarrow> bool \<Rightarrow> 's \<Rightarrow> sql_error option \<times> 's) \<Rightarrow> string \<Rightarrow> 's \<Rightarrow> 's option" where
  "mysqlStep exec ddl s = (case exec ddl False s of (None, s') \<Rightarrow> Some s' | (Some _, _) \<Rightarrow> None)"

lemmas migrate_io = bindT_def stmt_def NowNS_def ret_def fail_def readFile_def countVersion_def recordVersion_def Let_def

interpretation sqlite_migration: migration_step "migrateFile apply_script fsys" "sqliteStep apply_script" fits64 fsys
  for apply_script :: "string \<Rightarrow> 's \<Rightarrow> sql_error + 's" and fsys
proof (unfold_locales, goal_cases)
  case (1 m sv sv' u)
  show ?case
  proof (rule runsI)
    fix w :: "'s migDB world"
    assume "no_faults w" and "migState (w_db w) = sv"
    with 1 recorded_iff [of "mig_version m" "w_db w"]
    show "\<exists>a w'. migrateFile apply_script fsys m u w = (Inr a, w') \<and> no_faults w' \<and> migState (w_db w') = sv'"
      by (cases sv) (auto simp: migrateFile_def migrate_io inTx_def execScript_def sqliteStep_def no_faults_def migState_def fits64_def
          split: if_splits sum.splits)
  qed
next
  case (2 m u w x w')
  then show ?case
    using recorded_iff [of "mig_version m" "w_db w"]
    by (auto simp: migrateFile_def migrate_io inTx_def execScript_def sqliteStep_def migState_def fits64_def
        split: if_splits sum.splits prod.splits)
next
  case (3 m u w e w' sv)
  then have "w_db w' = w_db w"
    by (auto simp: migrateFile_def migrate_io inTx_def execScript_def split: if_splits sum.splits prod.splits)
  with 3 show ?case by simp
next
  case (4 m u w r w')
  then show ?case
    by (auto simp: migrateFile_def migrate_io inTx_def execScript_def migState_def split: if_splits sum.splits prod.splits)
qed

text \<open>
  What MySQL scripts must be: one that is cut short by an outage reports an error, and one that ran, wholly or in part, may
  be run again with the result of a first run. The second is what \<open>CREATE TABLE IF NOT EXISTS\<close> is for.
\<close>

locale repeatable_scripts =
  fixes exec :: "string \<Rightarrow> bool \<Rightarrow> 's \<Rightarrow> sql_error option \<times> 's"
  assumes outage: "fst (exec ddl True s) \<noteq> None"
    and repeatable: "mysqlStep exec ddl (snd (exec ddl b s)) = mysqlStep exec ddl s"

sublocale repeatable_scripts \<subseteq> migration_step "migrateFileMySQL exec fsys" "mysqlStep exec" fits32 fsys for fsys
proof (unfold_locales, goal_cases)
  case (1 m sv sv' u)
  show ?case
  proof (rule runsI)
    fix w :: "'s migDB world"
    assume "no_faults w" and "migState (w_db w) = sv"
    with 1 recorded_iff [of "mig_version m" "w_db w"]
    show "\<exists>a w'. migrateFileMySQL exec fsys m u w = (Inr a, w') \<and> no_faults w' \<and> migState (w_db w') = sv'"
      by (cases sv) (auto simp: migrateFileMySQL_def migrate_io execMySQL_def mysqlStep_def no_faults_def migState_def
          split: if_splits sum.splits option.splits prod.splits)
  qed
next
  case (2 m u w x w')
  have ok: "mysqlStep exec ddl s = Some s'" if "exec ddl b s = (None, s')" for ddl b s s'
    using outage [of ddl s] that by (cases b) (auto simp: mysqlStep_def)
  from 2 show ?case
    using recorded_iff [of "mig_version m" "w_db w"]
    by (auto simp: migrateFileMySQL_def migrate_io execMySQL_def migState_def dest!: ok
        split: if_splits sum.splits option.splits prod.splits)
next
  case (3 m u w e w' sv)
  have again: "mysqlStep exec ddl s' = mysqlStep exec ddl s" if "exec ddl b s = (x, s')" for ddl b s x s'
    using repeatable [of ddl b s] that by simp
  have "mg_versions (w_db w') = mg_versions (w_db w) \<and> (mg_schema (w_db w') = mg_schema (w_db w) \<or>
      (\<exists>ddl b x. fs_ReadFile fsys (mig_name m) = Inr ddl \<and> exec ddl b (mg_schema (w_db w)) = (x, mg_schema (w_db w'))))"
    using 3(1) by (auto simp: migrateFileMySQL_def migrate_io execMySQL_def split: if_splits sum.splits option.splits prod.splits)
  then consider "migState (w_db w') = migState (w_db w)"
    | ddl b x where "snd (migState (w_db w')) = snd (migState (w_db w))" "fs_ReadFile fsys (mig_name m) = Inr ddl"
        "exec ddl b (mg_schema (w_db w)) = (x, mg_schema (w_db w'))" "mig_version m \<notin> snd (migState (w_db w))"
    | "mig_version m \<in> snd (migState (w_db w))"
    by (fastforce simp: migState_def)
  then show ?case
  proof cases
    case 1
    with 3(2) show ?thesis by simp
  next
    case (2 ddl b x)
    then show ?thesis using 3(2) again [OF 2(3)] by (simp add: migState_def)
  next
    case 3
    with 3(1) recorded_iff [of "mig_version m" "w_db w"] have "w_db w' = w_db w"
      using \<open>migrateFileMySQL exec fsys m u w = (Inl e, w')\<close>
      by (auto simp: migrateFileMySQL_def migrate_io split: if_splits)
    then show ?thesis using \<open>cleanRun (mysqlStep exec) fits32 fsys [m] (migState (w_db w)) = Some sv\<close> by simp
  qed
next
  case (4 m u w r w')
  then show ?case
    by (auto simp: migrateFileMySQL_def migrate_io execMySQL_def migState_def split: if_splits sum.splits option.splits prod.splits)
qed

section \<open>An interrupted run is completed by the next\<close>

lemma run_is_loop:
  assumes "collectMigrations sortSlice fsys = Inr ms"
  shows "RunMigrations sortSlice apply_script fsys w = (r, w') \<Longrightarrow>
      w_db w' = w_db w \<or> (\<exists>w1. w_db w1 = w_db w \<and> forT ms () (migrateFile apply_script fsys) w1 = (r, w'))"
    and "RunMigrationsMySQL sortSlice exec fsys w = (r, w') \<Longrightarrow>
      w_db w' = w_db w \<or> (\<exists>w1. w_db w1 = w_db w \<and> forT ms () (migrateFileMySQL exec fsys) w1 = (r, w'))"
  using assms
  by (force simp: RunMigrations_def RunMigrationsMySQL_def bindT_def stmt_def bootstrapDDL_def Let_def split: if_splits)+

lemma loop_run:
  assumes "collectMigrations sortSlice fsys = Inr ms"
  shows "runs P (forT ms () (migrateFile apply_script fsys)) Q \<Longrightarrow> runs P (RunMigrations sortSlice apply_script fsys) Q"
    and "runs P (forT ms () (migrateFileMySQL exec fsys)) Q \<Longrightarrow> runs P (RunMigrationsMySQL sortSlice exec fsys) Q"
  unfolding RunMigrations_def RunMigrationsMySQL_def assms sum.case
  by (rule runs_bind [OF runs_stmt [where Q = "\<lambda>_. P"]], simp add: bootstrapDDL_def, simp)+

context repeatable_scripts
begin

lemma mysql_resumes:
  assumes files: "collectMigrations sortSlice fsys = Inr ms"
    and clean: "cleanRun (mysqlStep exec) fits32 fsys ms (migState (w_db w)) = Some sv"
    and first: "RunMigrationsMySQL sortSlice exec fsys w = (r, w1)" and "no_faults w2" and "w_db w2 = w_db w1"
  shows "\<exists>w3. RunMigrationsMySQL sortSlice exec fsys w2 = (Inr (), w3) \<and> migState (w_db w3) = sv"
proof -
  have "cleanRun (mysqlStep exec) fits32 fsys ms (migState (w_db w1)) = Some sv"
    using run_is_loop(2) [OF files first] clean by (metis loop_resumes)
  from loop_run(2) [OF files loop_runs [OF this]] assms(4,5) show ?thesis by (fastforce elim: runsE)
qed

end

text \<open>However a run of the SQLite migrations ends, the next run in which nothing fails from outside succeeds and leaves the
  schema and the recorded versions of a single undisturbed run, provided the scripts succeed at all.\<close>

theorem sqlite_migrations_resume:
  assumes files: "collectMigrations sortSlice fsys = Inr ms"
    and clean: "cleanRun (sqliteStep apply_script) fits64 fsys ms (migState (w_db w)) = Some sv"
    and first: "RunMigrations sortSlice apply_script fsys w = (r, w1)" and "no_faults w2" and "w_db w2 = w_db w1"
  shows "\<exists>w3. RunMigrations sortSlice apply_script fsys w2 = (Inr (), w3) \<and> migState (w_db w3) = sv"
proof -
  have "cleanRun (sqliteStep apply_script) fits64 fsys ms (migState (w_db w1)) = Some sv"
    using run_is_loop(1) [OF files first] clean by (metis sqlite_migration.loop_resumes)
  from loop_run(1) [OF files sqlite_migration.loop_runs [OF this]] assms(4,5) show ?thesis by (fastforce elim: runsE)
qed

text \<open>The same holds of MySQL, where nothing is rolled back, for scripts that may be repeated.\<close>

theorem mysql_migrations_resume:
  assumes "\<And>ddl s. fst (exec ddl True s) \<noteq> None" and "\<And>ddl b s. mysqlStep exec ddl (snd (exec ddl b s)) = mysqlStep exec ddl s"
    and "collectMigrations sortSlice fsys = Inr ms"
    and "cleanRun (mysqlStep exec) fits32 fsys ms (migState (w_db w)) = Some sv"
    and "RunMigrationsMySQL sortSlice exec fsys w = (r, w1)" and "no_faults w2" and "w_db w2 = w_db w1"
  shows "\<exists>w3. RunMigrationsMySQL sortSlice exec fsys w2 = (Inr (), w3) \<and> migState (w_db w3) = sv"
proof -
  have "repeatable_scripts exec" using assms(1,2) by (rule repeatable_scripts.intro)
  then show ?thesis using assms(3-) by (rule repeatable_scripts.mysql_resumes)
qed

text \<open>One script that creates two tables, interrupted after the first.\<close>

definition two_tables :: "string \<Rightarrow> bool \<Rightarrow> nat set \<Rightarrow> sql_error option \<times> nat set" where
  "two_tables ddl outage s = (if outage then (Some SqlIO, insert 1 s) else (None, s \<union> {1, 2}))"

definition demo_migrations :: migrationsFS where
  "demo_migrations = \<lparr>fs_ReadDir = Inr [\<lparr>de_Name = ''README.md'', de_IsDir = False\<rparr>, \<lparr>de_Name = ''0001_init.sql'', de_IsDir = False\<rparr>],
     fs_ReadFile = (\<lambda>_. Inr ''CREATE TABLE IF NOT EXISTS a; CREATE TABLE IF NOT EXISTS b'')\<rparr>"

interpretation two_tables: repeatable_scripts two_tables
  by unfold_locales (auto simp: two_tables_def mysqlStep_def)

theorem mysql_migrations_resume_witness:
  "\<exists>e w1 w3. RunMigrationsMySQL id two_tables demo_migrations
       \<lparr>w_db = \<lparr>mg_versions = [], mg_schema = {}\<rparr>, w_fault = (\<lambda>n. n = 2), w_stmts = 0, w_clock = int, w_ticks = 0\<rparr> = (Inl e, w1) \<and>
     mg_schema (w_db w1) = {1} \<and> RunMigrationsMySQL id two_tables demo_migrations (w1\<lparr>w_fault := \<lambda>_. False\<rparr>) = (Inr (), w3) \<and>
     migState (w_db w3) = ({1, 2}, {1})"
proof -
  let ?w = "\<lparr>w_db = \<lparr>mg_versions = [], mg_schema = {} :: nat set\<rparr>, w_fault = (\<lambda>n. n = 2), w_stmts = 0, w_clock = int, w_ticks = 0\<rparr>"
  have files: "collectMigrations id demo_migrations = Inr [\<lparr>mig_version = 1, mig_name = ''0001_init.sql''\<rparr>]"
    by (simp add: collectMigrations_def demo_migrations_def thenE_def) code_simp
  obtain e w1 where first: "RunMigrationsMySQL id two_tables demo_migrations ?w = (Inl e, w1)" "mg_schema (w_db w1) = {1}"
    using files
    by (auto simp: RunMigrationsMySQL_def migrateFileMySQL_def migrate_io execMySQL_def two_tables_def bootstrapDDL_def demo_migrations_def)
  have clean: "cleanRun (mysqlStep two_tables) fits32 demo_migrations [\<lparr>mig_version = 1, mig_name = ''0001_init.sql''\<rparr>]
      (migState (w_db ?w)) = Some ({1, 2}, {1})"
    by (auto simp: mysqlStep_def two_tables_def migState_def demo_migrations_def fits32_def)
  have "\<exists>w3. RunMigrationsMySQL id two_tables demo_migrations (w1\<lparr>w_fault := \<lambda>_. False\<rparr>) = (Inr (), w3) \<and>
      migState (w_db w3) = ({1, 2}, {1})"
    by (rule mysql_migrations_resume [OF _ _ files clean first(1)]) (auto simp: two_tables_def mysqlStep_def no_faults_def)
  with first show ?thesis by blast
qed

end
