(* ===== verification/Daemon.thy ===== *)
theory Daemon
  imports Auth_Props Go_Flag
begin

text \<open>
  \<open>cmd/git-taintedd\<close> around the server: the flags, the version, the probes of \<open>internal/api/ops.go\<close> and the multiplexer that
  puts them beside the API. The listeners, the metrics, the goroutines and the shutdown are outside.
\<close>

section \<open>The version\<close>

record buildInfo =
  bi_MainVersion :: string
  bi_Settings :: "(string \<times> string) list"

text \<open>A later setting replaces an earlier one.\<close>

definition lastSetting :: "string \<Rightarrow> (string \<times> string) list \<Rightarrow> string option" where
  "lastSetting key settings = map_of (rev settings) key"

definition vcsVersion :: "(string \<times> string) list \<Rightarrow> string" where
  "vcsVersion settings =
     (let rev = (case lastSetting ''vcs.revision'' settings of None \<Rightarrow> [] | Some v \<Rightarrow> v);
          dirty = (if (''vcs.modified'', ''true'') \<in> set settings then ''-dirty'' else []) in
      if rev \<noteq> [] then ''dev+'' @ take 12 rev @ dirty else ''dev'')"

text \<open>\<open>buildinfo.String\<close>; \<open>Version\<close> is set by the linker, \<open>debug.ReadBuildInfo\<close> may have nothing to report.\<close>

definition buildinfo_String :: "string \<Rightarrow> buildInfo option \<Rightarrow> string" where
  "buildinfo_String Version info =
     (let v = strings_TrimSpace Version in
      if v \<noteq> [] \<and> v \<noteq> ''dev'' then v
      else case info of
        None \<Rightarrow> ''dev''
      | Some bi \<Rightarrow>
          if bi_MainVersion bi \<noteq> [] \<and> bi_MainVersion bi \<noteq> ''(devel)'' then bi_MainVersion bi
          else vcsVersion (bi_Settings bi))"

section \<open>The flags\<close>

text \<open>What is printed: the usage text, the version line, and the diagnostic of a bad flag. A parse error prints the usage
  as well, through \<open>fs.Usage\<close>.\<close>

datatype daemonOutput = PrintUsage | PrintVersion string | PrintFlagError

definition daemonFormal :: "string \<Rightarrow> flagKind option" where
  "daemonFormal n = (if n = ''version'' \<or> n = ''v'' then Some BoolFlag else None)"

definition handleFlags :: "string \<Rightarrow> buildInfo option \<Rightarrow> string list \<Rightarrow> int \<times> bool \<times> daemonOutput list" where
  "handleFlags Version info args =
     (case flagParse daemonFormal args of
        Inl ErrHelp \<Rightarrow> (0, True, [PrintUsage])
      | Inl FlagError \<Rightarrow> (2, True, [PrintUsage, PrintFlagError])
      | Inr (sets, _) \<Rightarrow>
          if sets \<noteq> [] \<and> snd (last sets) = ''true''
          then (0, True, [PrintVersion (''git-taintedd '' @ buildinfo_String Version info)])
          else (0, False, []))"

section \<open>The probes\<close>

text \<open>\<open>Ping\<close> of both stores: it may fail and changes nothing.\<close>

definition store_Ping :: "('d, unit) io" where
  "store_Ping = stmt (\<lambda>d. Inr ((), d))"

definition plainText :: "int \<Rightarrow> string \<Rightarrow> httpResponse" where
  "plainText status body = \<lparr>rs_Status = status, rs_Header = [(''Content-Type'', ''text/plain; charset=utf-8'')], rs_Body = body\<rparr>"

definition readyz :: "(err \<Rightarrow> string) \<Rightarrow> ('d, unit) io option \<Rightarrow> 'd serve" where
  "readyz errText ping st =
     (case ping of
        None \<Rightarrow> (plainText 200 ''ready'', st)
      | Some p \<Rightarrow>
          (case p (ss_world st) of
             (Inl e, w) \<Rightarrow> (plainText 503 (''not ready: '' @ errText e), st\<lparr>ss_world := w\<rparr>)
           | (Inr _, w) \<Rightarrow> (plainText 200 ''ready'', st\<lparr>ss_world := w\<rparr>)))"

text \<open>A pattern with a trailing slash matches every path below it.\<close>

fun matchTree :: "string list \<Rightarrow> string \<Rightarrow> bool" where
  "matchTree [] path \<longleftrightarrow> path \<noteq> []"
| "matchTree (s # ss) path \<longleftrightarrow> path \<noteq> [] \<and> (case firstSegment path of (seg, rest) \<Rightarrow> seg = s \<and> matchTree ss rest)"

definition opsRoutes :: "(string \<times> string) list" where
  "opsRoutes = [(''healthz'', ''GET /healthz''), (''readyz'', ''GET /readyz'')]"

text \<open>\<open>OpsHandler\<close>; what \<open>net/http/pprof\<close> answers is a parameter. The path is clean when the outer multiplexer got it.\<close>

definition OpsHandler ::
  "(err \<Rightarrow> string) \<Rightarrow> (httpRequest \<Rightarrow> httpResponse) \<Rightarrow> (httpRequest \<Rightarrow> httpResponse) \<Rightarrow> ('d, unit) io option \<Rightarrow> bool \<Rightarrow>
   httpRequest \<Rightarrow> 'd serve" where
  "OpsHandler errText pprof redirect ping pprofEnabled r st =
     (let table = map parsePattern opsRoutes in
      if pprofEnabled \<and> matchTree [''debug'', ''pprof''] (rq_Path r) then (pprof r, st)
      else case findHandler table r of
        Matched operation _ \<Rightarrow> if operation = ''healthz'' then (plainText 200 ''ok'', st) else readyz errText ping st
      | Redirect _ \<Rightarrow> (redirect r, st)
      | MethodNotAllowed \<Rightarrow> (http_MethodNotAllowed table r, st)
      | NotFound \<Rightarrow> (http_NotFound, st))"

section \<open>The multiplexer\<close>

text \<open>
  The patterns of \<open>run\<close> have no method: \<open>/healthz\<close>, \<open>/readyz\<close>, with profiling \<open>/debug/pprof/\<close>, and \<open>/\<close> for the rest. A path
  that is not clean, and \<open>/debug/pprof\<close> itself, are redirected.
\<close>

definition opsPath :: "bool \<Rightarrow> string \<Rightarrow> bool" where
  "opsPath pprofEnabled path \<longleftrightarrow>
     matchPath [Lit ''healthz''] path \<noteq> None \<or> matchPath [Lit ''readyz''] path \<noteq> None \<or>
     pprofEnabled \<and> matchTree [''debug'', ''pprof''] path"

definition daemonMux ::
  "(httpRequest \<Rightarrow> httpResponse) \<Rightarrow> bool \<Rightarrow> (httpRequest \<Rightarrow> 'w \<Rightarrow> httpResponse \<times> 'w) \<Rightarrow> (httpRequest \<Rightarrow> 'w \<Rightarrow> httpResponse \<times> 'w) \<Rightarrow>
   httpRequest \<Rightarrow> 'w \<Rightarrow> httpResponse \<times> 'w" where
  "daemonMux redirect pprofEnabled apiHandler opsHandler r w =
     (let path = (if rq_Method r = ''CONNECT'' then rq_Path r else cleanPath (rq_Path r)) in
      if path \<noteq> rq_Path r \<or> pprofEnabled \<and> matchPath [Lit ''debug'', Lit ''pprof''] path \<noteq> None then (redirect r, w)
      else if opsPath pprofEnabled path then opsHandler r w
      else apiHandler r w)"

text \<open>The handler that the listener serves.\<close>

definition daemonHandler ::
  "('d, 't, 'r) StrictServerImpl \<Rightarrow> (httpRequest \<Rightarrow> httpResponse) \<Rightarrow> bool \<Rightarrow>
   (int \<Rightarrow> httpRequest \<Rightarrow> 'net authState \<times> 'd serverState \<Rightarrow> httpResponse \<times> 'net authState \<times> 'd serverState) \<Rightarrow>
   int \<Rightarrow> httpRequest \<Rightarrow> 'net authState \<times> 'd serverState \<Rightarrow> httpResponse \<times> 'net authState \<times> 'd serverState" where
  "daemonHandler si pprof pprofEnabled server now =
     daemonMux (si_redirect si) pprofEnabled (server now)
       (\<lambda>r (s, st). let (resp, st') = OpsHandler (si_errText si) pprof (si_redirect si) (Some store_Ping) pprofEnabled r st in (resp, s, st'))"

section \<open>What the daemon adds\<close>

lemma Ping_db: "w_db (snd (store_Ping w)) = w_db w"
  by (simp add: store_Ping_def stmt_def Let_def)

lemma Ops_reads: "same_state st (snd (OpsHandler errText pprof redirect (Some store_Ping) pprofEnabled r st))"
  using Ping_db [of "ss_world st"]
  by (auto simp: OpsHandler_def readyz_def same_state_def Let_def split: muxResult.splits prod.splits sum.splits)

text \<open>The whole daemon changes state only for accepted credentials on a control route: neither the probes nor the profiling
  pages nor a redirect does.\<close>

theorem daemon_changes_need_credentials:
  assumes "si_store si = leaseStore" and "NewServer si bc jx authn = Inr server"
    and "daemonHandler si pprof pprofEnabled server now r (s, st) = (resp, s', st')" and "\<not> same_state st st'"
  shows "gated r \<and> (\<exists>p. Authenticate bc jx authn now r s = (Inr p, s') \<and> p \<noteq> [])"
proof -
  have "server now r (s, st) = (resp, s', st')"
    using assms(3,4) Ops_reads [of st "si_errText si" pprof "si_redirect si" pprofEnabled r]
    by (auto simp: daemonHandler_def daemonMux_def same_state_refl Let_def split: if_splits prod.splits)
  from server_admits [OF assms(1,2) this] assms(4) show ?thesis by blast
qed

text \<open>Readiness is the answer of the database.\<close>

theorem ready_iff_ping:
  assumes "rq_Method r = ''GET''" and "rq_Path r = ''/readyz''"
  shows "rs_Status (fst (daemonHandler si pprof pprofEnabled server now r (s, st))) =
    (if w_fault (ss_world st) (w_stmts (ss_world st)) then 503 else 200)"
proof -
  have path: "cleanPath ''/readyz'' = ''/readyz''" "matchPath [Lit ''debug'', Lit ''pprof''] ''/readyz'' = None"
    "matchPath [Lit ''readyz''] ''/readyz'' = Some []" "\<not> matchTree [''debug'', ''pprof''] ''/readyz''"
    by code_simp+
  have "findHandler (map parsePattern opsRoutes) r = Matched ''readyz'' []"
  proof -
    have "findHandler (map parsePattern opsRoutes) (auth_request ''GET'' ''/readyz'' []) = Matched ''readyz'' []" by code_simp
    then show ?thesis using assms by (simp add: findHandler_def auth_request_def)
  qed
  with path assms show ?thesis
    by (simp add: daemonHandler_def daemonMux_def opsPath_def OpsHandler_def readyz_def store_Ping_def stmt_def plainText_def Let_def)
qed

end
