(* ===== verification/Spec2Isabelle.thy ===== *)
theory Spec2Isabelle
  imports Scenario Scheduler Seed_Props Cli_Props Cache_Props Auth_Props Ctl_EndToEnd Mysql_Props Migrate Daemon
begin

text \<open>
  git-tainted watches the tags of git remotes. A server lists the tags of every registered
  remote at intervals (or on request), records each change in an append-only ledger, a SHA-256
  hash chain per remote, and taints a tag that moved, was recreated or was deleted. Clients ask
  \<open>Verify\<close> whether a tag may be trusted; the client \<open>git-tainted\<close> asks several servers and consolidates their
  answers, and operators administer a server with \<open>git-tainted-ctl\<close>. This development models the Go code of the
  server and of both clients and proves what these parts promise, alone and together.

  \<^bold>\<open>How the program is modelled.\<close> Computations that reach outside are functions
  \<open>'d world \<Rightarrow> (err + 'a) \<times> 'd world\<close> (theory \<open>Effects\<close>). The world holds the database, a schedule of
  statements that fail (any statement may fail), and a clock that returns an arbitrary time at each
  reading. Errors are values of a sum type; a Go error that the code ignores is ignored by \<open>tryT\<close> or
  \<open>ignoreT\<close>. Integers of type \<open>int64\<close> are integers with the wrap-around written out (\<open>wrap64\<close>).
  Go maps that are iterated are lists in an order chosen by a parameter \<open>order\<close>, any permutation.
  Parameters stand for what is outside: the git process (\<open>proc\<close>), the text of an error (\<open>errText\<close>),
  bracketed hosts in URLs (\<open>ipLit\<close>), the lower case of non-ASCII text (\<open>uni\<close>), and for the client the record
  \<open>cliLib\<close> (duration and JSON decoders), the git command and the network; for the HTTP layer and authentication the
  records \<open>bindLib\<close> (binding of parameters), \<open>jsonLib\<close>, \<open>bcryptLib\<close> and \<open>jwxLib\<close> (the JOSE library and its key cache); for
  the operator's client the record \<open>ctlLib\<close> and the network.

  \<^bold>\<open>The theories\<close>, from the bottom:
  \<^item> \<open>Prelude\<close>, \<open>Effects\<close>, \<open>Progress\<close>: lists, strings, 64-bit integers; the computations above with a logic
    of preserved invariants (\<open>keeps\<close>), of postconditions of successful runs (\<open>oks\<close>) and of runs
    that must succeed (\<open>runs\<close>).
  \<^item> \<open>Model\<close>, \<open>Seams\<close>: \<open>internal/model\<close>: object ids, the structs, the error values, and the interfaces
    \<open>Store\<close>, \<open>Tx\<close>, \<open>GitRunner\<close>, \<open>Lock\<close> as records of operations, which the clients take as arguments.
  \<^item> \<open>Sha256\<close>, \<open>Chain\<close>: SHA-256 and \<open>internal/store/chain.go\<close>: the encoding of a row is injective on rows
    that fit Go's types; two ledgers with one head are equal or give a collision (locale
    \<open>hash_chain\<close>, interpreted on the code's hash and encoding).
  \<^item> \<open>Sqlite_Schema\<close>, \<open>Sqlite_Queries\<close>, \<open>Sqlite_Convert\<close>, \<open>Sqlite_Tx\<close>, \<open>Sqlite_Store\<close>:
    \<open>internal/store/sqlite\<close>: the tables with keys and checks, every generated statement, the
    conversions, transactions, store operations. \<open>Sqlite_Ledger\<close>: every transaction step keeps the
    ledger of every remote an unbroken chain.
  \<^item> \<open>Lock\<close>, \<open>Lock_Props\<close>: \<open>internal/lock/dblease.go\<close>: leases exclude each other; release is a
    compare-and-swap on the chain head.
  \<^item> \<open>Git_LsRemote\<close>, \<open>Net_Url\<close>, \<open>Git_Url\<close>: \<open>internal/git\<close>: the git command line, the parser of the
    listing (round trip with a printer), validation and normal form of URLs, over a model of the
    part of Go's \<open>net/url\<close> that is used.
  \<^item> \<open>Sync_Remote\<close>: \<open>internal/sync/remote.go\<close>, \<open>diff.go\<close>, \<open>format.go\<close>. \<open>Sync_Contract\<close> states what the
    transaction body needs from the store as locales and proves once, from these laws, that it
    does what the abstract specification \<open>synced\<close> says; \<open>Sync_Sqlite\<close> interprets the locales on the
    SQLite store. \<open>Sync_Run\<close> and \<open>Sync_Taint\<close> follow the whole of \<open>SyncRemote\<close>, on every error path;
    \<open>Sync_Live\<close> proves that it succeeds when it can, \<open>Sync_Detect\<close> what a success means for each
    tag, \<open>Sync_History\<close> that the record is append-only. What a sync needs from store and lock together are the locales
    \<open>sync_host\<close>, \<open>sync_refines\<close> and \<open>sync_live\<close>, interpreted on SQLite here and on MySQL below.
  \<^item> \<open>Mysql_Queries\<close>, \<open>Mysql_Store\<close>: \<open>internal/store/mysql\<close> and its schema: every generated statement on the same tables,
    conversions, transactions, store operations, the lease. What the server decides is a record \<open>mysqlServer\<close>: the
    collation, the text that a column accepts, the generated ids. \<open>Mysql_Ledger\<close>: over any server with growing ids the
    store is a \<open>sync_host\<close>; \<open>Mysql_Refine\<close>: over an exact collation it refines the same specification as SQLite;
    \<open>Mysql_Live\<close>: a sync succeeds when the values fit. \<open>Mysql_Props\<close> holds the properties, and what goes wrong when the
    collation identifies tag names.
  \<^item> \<open>Api_Types\<close>, \<open>Api_Handlers\<close>, \<open>Api_Server\<close>: \<open>internal/api/handlers.go\<close>: every handler with its
    validation and responses; the server as a relation \<open>server_step\<close> whose steps are the handlers
    that change the store, \<open>Verify\<close>, syncs, and changes outside.
  \<^item> \<open>Scheduler\<close>: \<open>internal/sync/scheduler.go\<close> as a step relation on top of the server.
  \<^item> \<open>Paging\<close>, \<open>Ledger_Audit\<close>: cursors; \<open>AssertChainIntact\<close> of \<open>internal/testutil/store.go\<close>.
  \<^item> \<open>Seed_Merge\<close>, \<open>Seed\<close>: \<open>internal/seed\<close>: the client of a peer, the merge of the peers' reports by
    quorum, the single transaction that writes it, \<open>Run\<close>. \<open>Seed_Quorum\<close>: what the merge adopts, which
    does not depend on the order of Go's maps. \<open>Seed_Contract\<close> states what seeding needs from a
    transaction as locales on top of those of \<open>Sync_Contract\<close> and proves from them that the write is
    the abstract specification \<open>remotes_seeded\<close>; \<open>Seed_Store\<close> interprets them on the SQLite store and
    follows \<open>Run\<close>, \<open>Seed_Live\<close> proves that it commits when it can. \<open>Seed_Props\<close> holds the properties.
  \<^item> \<open>Go_Format\<close>, \<open>Go_Flag\<close>: what the clients use of \<open>strconv\<close>, \<open>net/url\<close> (query strings, with round trips),
    \<open>time\<close> and \<open>flag\<close>.
  \<^item> \<open>Cli_Consolidate\<close>, \<open>Cli\<close>: \<open>cmd/git-tainted/main.go\<close>: the consolidation modes; flags, environment, the
    questions to git, requests, output, exit codes. \<open>Cli_Votes\<close>: what each mode accepts, and that the iteration order
    of the tally does not matter. \<open>Cli_Fleet\<close>: the client together with servers that run the modelled \<open>Verify\<close>
    handler. \<open>Cli_Props\<close> holds the properties.
  \<^item> \<open>Cache\<close>: \<open>internal/store/cache/cache.go\<close>: generations, keys, cached reads, invalidating writes, the capturing
    transaction. \<open>Cache_Coherence\<close>: the invariant \<open>cache_ok\<close> and the locale \<open>cacheable\<close>, what the decorator needs from
    a store, with the reads proved from it. \<open>Cache_Sqlite\<close> interprets it on the SQLite store and says which remotes
    each statement changes; \<open>Cache_Tx\<close> interprets the invariant locales of sync and seeding on the capturing
    transaction; \<open>Cache_Props\<close> has the decorated store as a step relation and the properties.
  \<^item> \<open>Config\<close>: \<open>internal/config/config.go\<close>: the environment variables, with a round trip. \<open>Http\<close>: what the server uses of
    \<open>net/http\<close>: requests, responses, path cleaning, patterns.
  \<^item> \<open>Auth\<close>, \<open>Auth_Jwks\<close>, \<open>Auth_Gate\<close>: \<open>internal/auth\<close>: API keys, HTTP Basic, tokens with a key set, and the middleware
    on the control routes. The contract of an authenticator is the locale \<open>authenticator\<close>, interpreted on the
    program's; the middleware is followed once inside it.
  \<^item> \<open>Api_Http\<close>, \<open>Api_Routes\<close>: the generated HTTP layer \<open>internal/api/oapi/server.gen.go\<close> around the handlers and
    \<open>internal/api/server.go\<close>: binding, decoding, responses, routes, \<open>NewServer\<close>. \<open>Auth_Props\<close>: who can change the state
    through HTTP, and which credentials are accepted under a configuration.
  \<^item> \<open>Ctl_Client\<close>, \<open>Ctl\<close>: \<open>cmd/git-tainted-ctl\<close>: credentials, requests, the guard on the server URL, commands, output, exit
    codes. \<open>Ctl_Server\<close>: a run makes at most one request, which stays on the host that the guard saw; the network is the
    locale \<open>ctl_network\<close>. \<open>Ctl_Route\<close>: how the server routes and reads such requests. \<open>Ctl_Props\<close> holds the properties,
    \<open>Ctl_EndToEnd\<close> follows one command through client, middleware, handler and back.
  \<^item> \<open>Migrate\<close>: \<open>internal/store/migrate.go\<close>: both migration runners meet the locale \<open>migration_step\<close>, from which it is proved
    that the next run completes an interrupted one. \<open>Daemon\<close>: flags, version, probes and the multiplexer of
    \<open>cmd/git-taintedd\<close>, \<open>internal/api/ops.go\<close> and \<open>internal/buildinfo\<close>: what they add to the API changes nothing.
  \<^item> \<open>Scenario\<close>, \<open>Seed_Scenario\<close>: one concrete installation and a fleet of peers, on which the
    properties are exercised.

  \<^bold>\<open>Bounds and fuel.\<close> \<open>room n d\<close> says that the table of observations can grow by \<open>n\<close> rows without
  leaving \<open>int64\<close>; it is needed only where a run must succeed. The loops over batches in the auditor
  and over pages in \<open>Paging\<close> get fuel: one more than the number of full batches (pages) is enough, and
  the theorems say so. The generations of the cache are 64-bit words; after fewer than \<open>2\<^sup>6\<^sup>4\<close> steps none has
  wrapped around. Everything else is structurally recursive or has a termination proof.

  \<^bold>\<open>Not modelled.\<close> A step of the server is one whole handler or one whole sync: requests that
  interleave inside a handler are outside the relation, and \<open>stale_update_breaks_ledger\<close> shows what
  then can happen; likewise a step of the decorated store is one operation, and \<open>url_read_can_go_stale\<close> shows an
  interleaving inside one. The logging, the embedded OpenAPI document, metrics, the listeners, the opening of the stores and the shutdown are I/O. Of seeding, the bodies of the HTTP requests and the semaphore that bounds
  them are left out: a peer is a function from requests to decoded answers. Of the cache, the index from refs to
  remotes and the cached proofs are modelled, but transparency is shown for the other reads only; \<open>SetRefTaint\<close> has no
  caller and is not a step. Of MySQL, transactions are modelled
  one after another: what concurrent ones may see of each other is left out.
\<close>

section \<open>A sync of one remote\<close>

text \<open>C1: whatever git prints and whichever statements fail, a sync leaves the database
  consistent: the schema's keys hold, every remote's ledger is an unbroken hash chain from
  genesis to the stored head, and every tag row can be read back.\<close>

theorem sync_keeps_database:
  assumes "sync_ok (w_db w)" and "\<And>xs. mset (order xs) = mset xs"
  shows "sync_ok (w_db (snd (SyncRemote errText order sqliteStore (execGit proc g) sqliteLock holder rid w)))"
  using assms by (rule SyncRemote_rows_ok)

theorem sync_keeps_database_witness:
  "sync_ok (w_db (snd (demo_sync [demo_ls 2] (demo_world demo_db))))"
  unfolding demo_sync_def by (rule sync_keeps_database) (simp_all add: demo_ok)

text \<open>C2: a taint is sticky: a tag that is tainted before a sync is tainted after it, whatever
  git prints, even a listing that names the tag twice, and whichever statements fail.\<close>

theorem taint_is_sticky:
  assumes "sync_ok (w_db w)" and "\<And>xs. mset (order xs) = mset xs" and "tainted_at rid' tag (w_db w)"
  shows "tainted_at rid' tag
    (w_db (snd (SyncRemote errText order sqliteStore (execGit proc g) sqliteLock holder rid w)))"
  using assms by (rule SyncRemote_taint_sticky)

theorem taint_is_sticky_witness:
  "tainted_at 1 ''v1'' (w_db (snd (demo_sync [demo_ls 1, demo_ls 2] (demo_world demo_tainted))))"
  unfolding demo_sync_def by (rule taint_is_sticky) (simp_all add: demo_tainted_ok)

text \<open>C3: a successful sync detects a moved tag: when git lists a recorded tag at another object
  id, the tag is tainted afterwards and the taint event with both ids is on record, as an oid
  change or, for a tag recorded as deleted, as a recreation.\<close>

theorem moved_tag_is_tainted:
  assumes "sync_ok (w_db w)" and "\<And>xs. mset (order xs) = mset xs"
    and "SyncRemote errText order sqliteStore (execGit proc g) sqliteLock holder rid w = (Inr (res, None), w')"
    and "find (\<lambda>r. Rrem_ID r = rid) (t_remotes (w_db w)) = Some row"
    and "\<And>wg :: db world. execGitRunner_LsRemote proc g (Rrem_Url row) None wg = (Inr lsRefs, wg)"
    and "distinct (map lsr_Name lsRefs)"
    and "now \<in> set lsRefs" and "ref_at (w_db w) rid (lsr_Name now) = Some old" and "lsr_OID now \<noteq> row_oid old"
  shows "tainted_at rid (lsr_Name now) (w_db w') \<and>
    event_for (w_db w') rid (Rref_ID old) (change_reason old) (row_oid old) (lsr_OID now)"
  using SyncRemote_synced [of w order errText proc g holder rid res w' row lsRefs] assms synced_changed by blast

theorem moved_tag_is_tainted_witness:
  "\<exists>res w'. demo_sync [demo_ls 2] (demo_world demo_db) = (Inr (Some res, None), w') \<and> tainted_at 1 ''v1'' (w_db w')"
proof -
  obtain res w' where run: "demo_sync [demo_ls 2] (demo_world demo_db) = (Inr (Some res, None), w')"
    by (rule demo_sync_runs [of "[demo_ls 2]"]) auto
  have "tainted_at 1 (lsr_Name (demo_ls 2)) (w_db w') \<and>
      event_for (w_db w') 1 (Rref_ID demo_ref) (change_reason demo_ref) (row_oid demo_ref) (lsr_OID (demo_ls 2))"
  proof (rule moved_tag_is_tainted [OF _ _ run [unfolded demo_sync_def], of demo_remote "[demo_ls 2]"])
    show "execGitRunner_LsRemote (demo_git (printRefs [demo_ls 2])) demo_runner (Rrem_Url demo_remote) None wg =
        (Inr [demo_ls 2], wg)" for wg :: "db world"
      by (rule demo_listing) auto
  qed (simp_all add: demo_ok demo_find demo_ref_at demo_row_oid, simp_all add: demo_ls_def demo_ref_at)
  with run show ?thesis by (auto simp: demo_ls_def)
qed

text \<open>C4: a sync succeeds when it can: with a consistent database, room for its observations, no
  unexpired lease in the way, a listing from git and no failing statement, \<open>SyncRemote\<close> returns a
  result with status \<open>ok\<close> that counts the listed tags, and no error.\<close>

theorem sync_succeeds:
  assumes "sync_ok (w_db w)" and "syncs_ok (w_db w)" and "no_faults w"
    and "find (\<lambda>r. Rrem_ID r = rid) (t_remotes (w_db w)) = Some row"
    and "\<forall>l \<in> set (t_lease (w_db w)). Rls_RemoteID l = rid \<longrightarrow> Rls_ExpiresAtNs l < w_clock w (w_ticks w)"
    and "\<And>wg :: db world. execGitRunner_LsRemote proc g (Rrem_Url row) None wg = (Inr lsRefs, wg)"
    and "room (length lsRefs + length (tags_of (w_db w) rid)) (w_db w)"
    and "\<And>xs. mset (order xs) = mset xs"
  shows "\<exists>res w'. SyncRemote errText order sqliteStore (execGit proc g) sqliteLock holder rid w =
      (Inr (Some res, None), w') \<and> res_Status res = SyncOk \<and> res_TagsSeen res = int (length lsRefs)"
  using assms by (rule SyncRemote_succeeds)

theorem sync_succeeds_witness:
  "\<exists>res w'. demo_sync [demo_ls 2] (demo_world demo_db) = (Inr (Some res, None), w') \<and>
     res_Status res = SyncOk \<and> res_TagsSeen res = 1"
proof -
  have "\<exists>res w'. demo_sync [demo_ls 2] (demo_world demo_db) = (Inr (Some res, None), w') \<and>
     res_Status res = SyncOk \<and> res_TagsSeen res = int (length [demo_ls 2])"
    unfolding demo_sync_def
  proof (rule sync_succeeds)
    show "execGitRunner_LsRemote (demo_git (printRefs [demo_ls 2])) demo_runner (Rrem_Url demo_remote) None wg =
        (Inr [demo_ls 2], wg)" for wg :: "db world"
      by (rule demo_listing) auto
    show "room (length [demo_ls 2] + length (tags_of (w_db (demo_world demo_db)) 1)) (w_db (demo_world demo_db))"
      using demo_room [of "length [demo_ls 2]"] by simp
  qed (simp_all add: demo_ok demo_find demo_no_lease)
  then show ?thesis by simp
qed

text \<open>C5: a successful sync detects a deleted tag: a live tag that git no longer lists is marked
  deleted, and if the remote's policy taints deletions, it is tainted and the event is on record.\<close>

theorem deleted_tag_is_detected:
  assumes "sync_ok (w_db w)" and "\<And>xs. mset (order xs) = mset xs"
    and "SyncRemote errText order sqliteStore (execGit proc g) sqliteLock holder rid w = (Inr (res, None), w')"
    and "find (\<lambda>r. Rrem_ID r = rid) (t_remotes (w_db w)) = Some row"
    and "\<And>wg :: db world. execGitRunner_LsRemote proc g (Rrem_Url row) None wg = (Inr lsRefs, wg)"
    and "distinct (map lsr_Name lsRefs)"
    and "ref_at (w_db w) rid tag = Some old" and "Rref_Deleted old = 0" and "tag \<notin> lsr_Name ` set lsRefs"
  shows "(\<exists>r. ref_at (w_db w') rid tag = Some r \<and> Rref_Deleted r \<noteq> 0) \<and>
    (Rrem_TaintAnyTagDeletion row \<noteq> 0 \<longrightarrow> tainted_at rid tag (w_db w') \<and>
       event_for (w_db w') rid (Rref_ID old) TaintTagDeletedRecreated (row_oid old) zeroOID)"
proof -
  obtain ns where sy: "synced rid ns (Rrem_TaintAnyTagDeletion row \<noteq> 0) (db_view (w_db w)) lsRefs
      (order (priorMap (tags_of (w_db w) rid))) (db_view (w_db w'))"
    using SyncRemote_synced [OF assms(1-6)] by blast
  from synced_deleted [OF sy assms(1,2,7-9)] show ?thesis by (auto simp: tainted_at_def)
qed

theorem deleted_tag_is_detected_witness:
  "\<exists>res w'. demo_sync [] (demo_world demo_db) = (Inr (Some res, None), w') \<and> tainted_at 1 ''v1'' (w_db w') \<and>
     event_for (w_db w') 1 1 TaintTagDeletedRecreated (row_oid demo_ref) zeroOID"
proof -
  obtain res w' where run: "demo_sync [] (demo_world demo_db) = (Inr (Some res, None), w')"
    by (rule demo_sync_runs [of "[]"]) auto
  have "(\<exists>r. ref_at (w_db w') 1 ''v1'' = Some r \<and> Rref_Deleted r \<noteq> 0) \<and>
    (Rrem_TaintAnyTagDeletion demo_remote \<noteq> 0 \<longrightarrow> tainted_at 1 ''v1'' (w_db w') \<and>
       event_for (w_db w') 1 (Rref_ID demo_ref) TaintTagDeletedRecreated (row_oid demo_ref) zeroOID)"
    by (rule deleted_tag_is_detected [OF _ _ run [unfolded demo_sync_def] _ demo_listing])
      (simp_all add: demo_ok demo_find demo_ref_at, simp add: demo_ref_def)
  with run show ?thesis by (auto simp: demo_remote_def demo_ref_def)
qed

text \<open>The first sighting of a tag pins its object id: the row records it as the current and the
  first id, and the tag is neither tainted nor deleted.\<close>

theorem first_sighting_pins_tag:
  assumes "sync_ok (w_db w)" and "\<And>xs. mset (order xs) = mset xs"
    and "SyncRemote errText order sqliteStore (execGit proc g) sqliteLock holder rid w = (Inr (res, None), w')"
    and "find (\<lambda>r. Rrem_ID r = rid) (t_remotes (w_db w)) = Some row"
    and "\<And>wg :: db world. execGitRunner_LsRemote proc g (Rrem_Url row) None wg = (Inr lsRefs, wg)"
    and "distinct (map lsr_Name lsRefs)"
    and "now \<in> set lsRefs" and "ref_at (w_db w) rid (lsr_Name now) = None"
  shows "\<exists>r. ref_at (w_db w') rid (lsr_Name now) = Some r \<and> row_oid r = lsr_OID now \<and>
    oidFromCol (Rref_FirstOid r) = lsr_OID now \<and> Rref_Tainted r = 0 \<and> Rref_Deleted r = 0"
  using SyncRemote_synced [OF assms(1-6)] synced_new assms(7,8) by blast

theorem first_sighting_pins_tag_witness:
  "\<exists>res w' r. demo_sync [demo_new 3] (demo_world demo_db) = (Inr (Some res, None), w') \<and>
     ref_at (w_db w') 1 ''v2'' = Some r \<and> row_oid r = lsr_OID (demo_new 3) \<and> Rref_Tainted r = 0"
proof -
  obtain res w' where run: "demo_sync [demo_new 3] (demo_world demo_db) = (Inr (Some res, None), w')"
    by (rule demo_sync_runs [of "[demo_new 3]"]) auto
  have "\<exists>r. ref_at (w_db w') 1 (lsr_Name (demo_new 3)) = Some r \<and> row_oid r = lsr_OID (demo_new 3) \<and>
    oidFromCol (Rref_FirstOid r) = lsr_OID (demo_new 3) \<and> Rref_Tainted r = 0 \<and> Rref_Deleted r = 0"
    by (rule first_sighting_pins_tag [OF _ _ run [unfolded demo_sync_def] _ demo_listing, of demo_remote])
      (simp_all add: demo_ok demo_find demo_no_new)
  with run show ?thesis by (auto simp: demo_new_def)
qed

text \<open>C6: no false alarm: every taint event that a successful sync adds is about a recorded tag of
  this remote which git now lists at another object id, or, under the deletion policy, no longer
  lists.\<close>

theorem no_taint_without_cause:
  assumes "sync_ok (w_db w)" and "\<And>xs. mset (order xs) = mset xs"
    and "SyncRemote errText order sqliteStore (execGit proc g) sqliteLock holder rid w = (Inr (res, None), w')"
    and "find (\<lambda>r. Rrem_ID r = rid) (t_remotes (w_db w)) = Some row"
    and "\<And>wg :: db world. execGitRunner_LsRemote proc g (Rrem_Url row) None wg = (Inr lsRefs, wg)"
    and "distinct (map lsr_Name lsRefs)"
    and "e \<in> taintEventFromRow ` set (t_taint_events (w_db w'))" "e \<notin> taintEventFromRow ` set (t_taint_events (w_db w))"
  shows "\<exists>tag old. ref_at (w_db w) rid tag = Some old \<and> te_RemoteID e = rid \<and> te_RefID e = Rref_ID old \<and>
     te_FromOID e = row_oid old \<and>
     ((\<exists>now \<in> set lsRefs. lsr_Name now = tag \<and> lsr_OID now \<noteq> row_oid old \<and> te_ToOID e = lsr_OID now) \<or>
      Rrem_TaintAnyTagDeletion row \<noteq> 0 \<and> Rref_Deleted old = 0 \<and> tag \<notin> lsr_Name ` set lsRefs)"
  using SyncRemote_synced [OF assms(1-6)] synced_cause [OF _ assms(1,2,7,8)] by blast

theorem no_taint_without_cause_witness:
  "\<exists>res w' e. demo_sync [demo_ls 2] (demo_world demo_db) = (Inr (Some res, None), w') \<and>
     e \<in> taintEventFromRow ` set (t_taint_events (w_db w')) \<and> te_RefID e = 1 \<and> te_FromOID e = row_oid demo_ref"
proof -
  obtain res w' where run: "demo_sync [demo_ls 2] (demo_world demo_db) = (Inr (Some res, None), w')"
    by (rule demo_sync_runs [of "[demo_ls 2]"]) auto
  have "event_for (w_db w') 1 (Rref_ID demo_ref) (change_reason demo_ref) (row_oid demo_ref) (lsr_OID (demo_ls 2))"
    using run by (rule demo_moved)
  then obtain e where e: "e \<in> taintEventFromRow ` set (t_taint_events (w_db w'))" by (auto simp: event_for_def)
  have "\<exists>tag old. ref_at (w_db (demo_world demo_db)) 1 tag = Some old \<and> te_RemoteID e = 1 \<and> te_RefID e = Rref_ID old \<and>
     te_FromOID e = row_oid old \<and>
     ((\<exists>now \<in> set [demo_ls 2]. lsr_Name now = tag \<and> lsr_OID now \<noteq> row_oid old \<and> te_ToOID e = lsr_OID now) \<or>
      Rrem_TaintAnyTagDeletion demo_remote \<noteq> 0 \<and> Rref_Deleted old = 0 \<and> tag \<notin> lsr_Name ` set [demo_ls 2])"
    by (rule no_taint_without_cause [OF _ _ run [unfolded demo_sync_def] _ demo_listing, of demo_remote])
      (simp_all add: demo_ok demo_find demo_no_events e)
  then obtain tag old where "ref_at demo_db 1 tag = Some old" "te_RefID e = Rref_ID old" "te_FromOID e = row_oid old" by auto
  then have "te_RefID e = Rref_ID demo_ref" "te_FromOID e = row_oid demo_ref" using demo_one_ref [of 1 tag old] by auto
  moreover have "Rref_ID demo_ref = 1" by (simp add: demo_ref_def)
  ultimately show ?thesis using run e by auto
qed

text \<open>A sync whose listing agrees with what is recorded records nothing: no observation and no
  taint event is added.\<close>

theorem quiet_remote_records_nothing:
  assumes "sync_ok (w_db w)" and "\<And>xs. mset (order xs) = mset xs"
    and "SyncRemote errText order sqliteStore (execGit proc g) sqliteLock holder rid w = (Inr (res, None), w')"
    and "find (\<lambda>r. Rrem_ID r = rid) (t_remotes (w_db w)) = Some row"
    and "\<And>wg :: db world. execGitRunner_LsRemote proc g (Rrem_Url row) None wg = (Inr lsRefs, wg)"
    and "distinct (map lsr_Name lsRefs)"
    and "\<And>now. now \<in> set lsRefs \<Longrightarrow>
      \<exists>old. ref_at (w_db w) rid (lsr_Name now) = Some old \<and> Rref_Deleted old = 0 \<and> lsr_OID now = row_oid old"
    and "\<And>tag old. ref_at (w_db w) rid tag = Some old \<Longrightarrow> Rref_Deleted old = 0 \<Longrightarrow> tag \<in> lsr_Name ` set lsRefs"
  shows "map row_entry (t_observations (w_db w')) = map row_entry (t_observations (w_db w)) \<and>
    taintEventFromRow ` set (t_taint_events (w_db w')) = taintEventFromRow ` set (t_taint_events (w_db w))"
proof -
  obtain ns where sy: "synced rid ns (Rrem_TaintAnyTagDeletion row \<noteq> 0) (db_view (w_db w)) lsRefs
      (order (priorMap (tags_of (w_db w) rid))) (db_view (w_db w'))"
    using SyncRemote_synced [OF assms(1-6)] by blast
  show ?thesis
    by (intro conjI; rule synced_quiescent [OF sy assms(1,2)]) (use assms(7,8) in blast)+
qed

theorem quiet_remote_records_nothing_witness:
  "\<exists>res w'. demo_sync [demo_ls 1] (demo_world demo_db) = (Inr (Some res, None), w') \<and>
     map row_entry (t_observations (w_db w')) = [] \<and> taintEventFromRow ` set (t_taint_events (w_db w')) = {}"
proof -
  obtain res w' where run: "demo_sync [demo_ls 1] (demo_world demo_db) = (Inr (Some res, None), w')"
    by (rule demo_sync_runs [of "[demo_ls 1]"]) auto
  have "map row_entry (t_observations (w_db w')) = map row_entry (t_observations (w_db (demo_world demo_db))) \<and>
    taintEventFromRow ` set (t_taint_events (w_db w')) = taintEventFromRow ` set (t_taint_events (w_db (demo_world demo_db)))"
    by (rule quiet_remote_records_nothing [OF _ _ run [unfolded demo_sync_def] _ demo_listing, of demo_remote])
      (auto simp: demo_ok demo_find demo_ref_at demo_same dest: demo_one_ref)
  with run show ?thesis by (auto simp: demo_no_events)
qed



section \<open>The server\<close>

text \<open>C8: the record of the past is append-only. From an empty database on, after any number of
  syncs, API requests and failures in any order, the database is consistent, and every later
  database extends the observations and the taint events of every earlier one; an event only
  ever gains its acknowledgement, once.\<close>

theorem record_is_append_only:
  assumes "w_db w0 = empty_db" and "server_step\<^sup>*\<^sup>* w0 w1" and "server_step\<^sup>*\<^sup>* w1 w2"
  shows "sync_ok (w_db w2) \<and> history (w_db w1) (w_db w2)"
  using server_steps(1) [OF assms(2)] server_steps(1,2) [OF assms(3)] sync_ok_empty assms(1) by simp

theorem record_is_append_only_witness:
  "\<exists>w1 w2. server_step\<^sup>*\<^sup>* (demo_world empty_db) w1 \<and> server_step\<^sup>*\<^sup>* w1 w2 \<and> t_remotes (w_db w1) \<noteq> [] \<and>
     history (w_db w1) (w_db w2)"
proof -
  let ?w1 = "snd (CreateRemote_handler (\<lambda>_. []) (\<lambda>_. None) id leaseStore (Some demo_create) (demo_world empty_db))"
  let ?w2 = "snd (DeleteRemote_handler leaseStore 1 ?w1)"
  have 1: "server_step\<^sup>*\<^sup>* (demo_world empty_db) ?w1" by (rule r_into_rtranclp) (rule create)
  have 2: "server_step\<^sup>*\<^sup>* ?w1 ?w2" by (rule r_into_rtranclp) (rule delete)
  have "history (w_db ?w1) (w_db ?w2)" using record_is_append_only [OF _ 1 2] by simp
  with 1 2 demo_created_db(1) show ?thesis by blast
qed

text \<open>C9: a moved tag never verifies again. If a successful sync saw a recorded tag at another
  object id, then whatever the server does afterwards, every answer of \<open>Verify\<close> about this remote
  and tag is \<open>tainted\<close>, whatever commit the client supplies.\<close>

theorem moved_tag_never_verifies:
  assumes "sync_ok (w_db w)" and "\<And>xs. mset (order xs) = mset xs"
    and "SyncRemote errText order sqliteStore (execGit proc g) sqliteLock holder rid w = (Inr (res, None), w')"
    and "find (\<lambda>r. Rrem_ID r = rid) (t_remotes (w_db w)) = Some row"
    and "\<And>wg :: db world. execGitRunner_LsRemote proc g (Rrem_Url row) None wg = (Inr lsRefs, wg)"
    and "distinct (map lsr_Name lsRefs)"
    and "now \<in> set lsRefs" and "ref_at (w_db w) rid (lsr_Name now) = Some old" and "lsr_OID now \<noteq> row_oid old"
    and "server_step\<^sup>*\<^sup>* w' w1"
    and "Verify_handler ipLit uni leaseStore p w1 = (Inr (Verify200JSONResponse resp), w2)"
    and "Vp_Tag p = lsr_Name now" and "Vr_Remote resp = Some (rid, url)"
  shows "Vr_Status resp = StatusTainted"
proof -
  have "tainted_at rid (lsr_Name now) (w_db w')"
    using SyncRemote_synced [OF assms(1-6)] synced_changed(1) assms(1,7-9) by blast
  moreover have "sync_ok (w_db w')" using SyncRemote_rows_ok [OF assms(1,2), of errText proc g holder rid] assms(3) by simp
  ultimately have "tainted_at rid (lsr_Name now) (w_db w1)" using server_steps(3) [OF assms(10)] by blast
  then show ?thesis using Verify_sound [OF assms(11)] assms(12,13) verdict_tainted by auto
qed

theorem moved_tag_never_verifies_witness:
  "\<exists>res w' w2 resp. demo_sync [demo_ls 2] (demo_world demo_db) = (Inr (Some res, None), w') \<and>
     Verify_handler (\<lambda>_. None) id leaseStore demo_verify (demo_world (w_db w')) = (Inr (Verify200JSONResponse resp), w2) \<and>
     Vr_Status resp = StatusTainted"
proof -
  obtain res w' where run: "demo_sync [demo_ls 2] (demo_world demo_db) = (Inr (Some res, None), w')"
    by (rule demo_sync_runs [of "[demo_ls 2]"]) auto
  obtain resp w2 url where v: "Verify_handler (\<lambda>_. None) id leaseStore demo_verify (demo_world (w_db w')) =
      (Inr (Verify200JSONResponse resp), w2)" "Vr_Remote resp = Some (1, url)"
    using run by (rule demo_verified)
  have out: "server_step\<^sup>*\<^sup>* w' (demo_world (w_db w'))" by (rule r_into_rtranclp) (simp add: outside)
  have tag: "Vp_Tag demo_verify = lsr_Name (demo_ls 2)" by (simp add: demo_verify_def demo_same)
  have ne: "lsr_OID (demo_ls 2) \<noteq> row_oid demo_ref" unfolding demo_row_oid by (simp add: demo_ls_def)
  have "Vr_Status resp = StatusTainted"
    by (rule moved_tag_never_verifies [OF _ _ run [unfolded demo_sync_def] _ demo_listing _ _ _ ne out v(1) tag v(2), of demo_remote])
      (simp_all add: demo_ok demo_find demo_ref_at demo_same)
  with run v show ?thesis by blast
qed



text \<open>C11: what an answer \<open>ok\<close> of \<open>Verify\<close> means, also when statements fail: the tag is on record for the
  remote named in the answer, it is not tainted, and a commit the client supplied is the one on
  record (or none is on record).\<close>

theorem verify_ok_is_sound:
  assumes "Verify_handler ipLit uni leaseStore p w = (Inr (Verify200JSONResponse resp), w')"
    and "Vr_Status resp = StatusOK"
  shows "\<exists>row ref. row \<in> set (t_remotes (w_db w)) \<and> Vr_Remote resp = Some (Rrem_ID row, Rrem_NormalizedUrl row) \<and>
    ref_at (w_db w) (Rrem_ID row) (Vp_Tag p) = Some ref \<and> Rref_Tainted ref = 0 \<and>
    (suppliedCommit p = [] \<or> recordedCommit (refFromRow ref) = [] \<or> recordedCommit (refFromRow ref) = suppliedCommit p)"
  using Verify_sound [OF assms(1)] verdict_ok [of "w_db w" _ "Vp_Tag p" "suppliedCommit p"]
  unfolding assms(2) by (auto simp: StatusOK_def StatusNotTracked_def)

theorem verify_ok_is_sound_witness:
  "\<exists>resp w'. Verify_handler (\<lambda>_. None) id leaseStore demo_verify (demo_world demo_db) =
      (Inr (Verify200JSONResponse resp), w') \<and> Vr_Remote resp = Some (1, Rrem_NormalizedUrl demo_remote)"
proof -
  have ok: "verdict demo_db 1 (Vp_Tag demo_verify) (suppliedCommit demo_verify) = StatusOK"
    by (simp add: verdict_def demo_verify_def demo_ref_at suppliedCommit_def verifyStatus_def demo_ref_def)
  obtain resp w' where v: "Verify_handler (\<lambda>_. None) id leaseStore demo_verify (demo_world demo_db) =
      (Inr (Verify200JSONResponse resp), w')" "Vr_Status resp = StatusOK"
    using Verify_by_id [of "demo_world demo_db" demo_verify 1 demo_remote "\<lambda>_. None" id] ok
    by (auto simp: demo_verify_ok demo_find)
  from verify_ok_is_sound [OF v] v(1) show ?thesis by (auto simp: demo_db_def demo_remote_def)
qed

text \<open>C12: \<open>Verify\<close> fails open: when the store fails while the remote is looked up, the request is
  answered \<open>not_tracked\<close> with confidence \<open>authoritative\<close>, although the remote may be tracked.\<close>

theorem verify_fails_open:
  assumes "well_formed p" and "\<And>n. w_fault w n"
  shows "\<exists>resp w'. Verify_handler ipLit uni leaseStore p w = (Inr (Verify200JSONResponse resp), w') \<and>
    Vr_Status resp = StatusNotTracked \<and> Vr_Confidence resp = ConfAuthoritative"
  using assms by (simp add: Verify_handler_steps) (auto simp: resolveRemote_def bindT_def tryT_def ret_def
      sqliteStore_GetRemote_def sqliteStore_GetRemoteByURL_def mapErrT_def stmt_def emptyVerify_def Let_def
      split: sum.splits)

theorem verify_fails_open_witness:
  "\<exists>resp w'. Verify_handler (\<lambda>_. None) id leaseStore demo_verify ((demo_world demo_tainted)\<lparr>w_fault := \<lambda>_. True\<rparr>) =
      (Inr (Verify200JSONResponse resp), w') \<and> Vr_Status resp = StatusNotTracked \<and> Vr_Confidence resp = ConfAuthoritative"
  using verify_fails_open [of demo_verify "(demo_world demo_tainted)\<lparr>w_fault := \<lambda>_. True\<rparr>" "\<lambda>_. None" id]
  by (simp add: demo_verify_ok)

section \<open>Refinement\<close>



section \<open>The audit of the ledger\<close>

text \<open>C14: the auditor accepts what the server writes. In every database the server can reach from
  an empty one, \<open>AssertChainIntact\<close> finds the ledger of every remote intact; it comes to an end
  when its fuel allows one batch more than the ledger has full batches.\<close>

theorem audit_accepts_server:
  assumes "w_db w0 = empty_db" and "server_step\<^sup>*\<^sup>* w0 w" and "no_faults w" and "room 0 (w_db w)"
    and "remote_exists (w_db w) rid" and "length (t_observations (w_db w)) < 500 * fuel"
  shows "\<exists>w'. AssertChainIntact fuel leaseStore rid w = (Inr Intact, w')"
proof -
  have "sync_ok (w_db w)" using server_steps(1) [OF assms(2)] sync_ok_empty assms(1) by simp
  then show ?thesis using AssertChainIntact_complete [OF sync_okD(1)] assms(3-6) by blast
qed

theorem audit_accepts_server_witness:
  "\<exists>d w'. remote_exists d 1 \<and> AssertChainIntact 1 leaseStore 1 (demo_world d) = (Inr Intact, w')"
proof -
  let ?w1 = "snd (CreateRemote_handler (\<lambda>_. []) (\<lambda>_. None) id leaseStore (Some demo_create) (demo_world empty_db))"
  have "server_step (demo_world empty_db) ?w1" by (rule create)
  moreover have "server_step ?w1 (demo_world (w_db ?w1))" by (rule outside) simp
  ultimately have "server_step\<^sup>*\<^sup>* (demo_world empty_db) (demo_world (w_db ?w1))"
    by (auto intro: rtranclp.rtrancl_into_rtrancl)
  moreover have "t_observations (w_db ?w1) = []" "remote_exists (w_db ?w1) 1" using demo_created_db by simp_all
  ultimately have "\<exists>w'. AssertChainIntact 1 leaseStore 1 (demo_world (w_db ?w1)) = (Inr Intact, w')"
    by (intro audit_accepts_server [of "demo_world empty_db"]) (simp_all add: room_def)
  then show ?thesis using demo_created_db by blast
qed

text \<open>C15: what an intact verdict means: the stored head is the end of the hash chain through the
  observations in the order of their sequence numbers, and the stored length is their number; or
  the stored length is 0 and the head is the genesis hash, in which case the auditor looks at no
  observation.\<close>

theorem audit_is_sound:
  assumes "AssertChainIntact fuel leaseStore rid w = (Inr Intact, w')" and "db_ok (w_db w)" and "room 0 (w_db w)"
  shows "\<exists>head len. (rid, head, len) \<in> set (remote_heads (w_db w)) \<and>
    (len = 0 \<and> head = genesis \<or>
     links genesis (ledger_from (w_db w) rid 0) = Some head \<and> len = int (length (ledger_from (w_db w) rid 0)))"
  using assms by (rule AssertChainIntact_sound)

theorem audit_is_sound_witness:
  "\<exists>head len. (1, head, len) \<in> set (remote_heads demo_db) \<and>
    (len = 0 \<and> head = genesis \<or>
     links genesis (ledger_from demo_db 1 0) = Some head \<and> len = int (length (ledger_from demo_db 1 0)))"
proof -
  have room: "room 0 demo_db" by (simp add: room_def demo_no_events)
  have ex: "remote_exists demo_db 1" by (simp add: remote_exists_def demo_db_def demo_remote_def)
  obtain w' where "AssertChainIntact 1 leaseStore 1 (demo_world demo_db) = (Inr Intact, w')"
    using AssertChainIntact_complete [of "demo_world demo_db" 1 1] sync_okD(1) [OF demo_ok(1)] room ex
    by (auto simp: demo_no_events)
  from audit_is_sound [OF this] show ?thesis using sync_okD(3) [OF demo_ok(1)] room by simp
qed

text \<open>C16: the ledger is tamper evident: two ledgers of one length that end at the same head hold the
  same observations, field by field, or comparing them yields two different byte strings with the
  same SHA-256 hash.\<close>

theorem ledger_is_tamper_evident:
  assumes "links genesis rs = Some h" and "links genesis rs' = Some h" and "length rs = length rs'"
    and "list_all (obs_fits \<circ> observationFromRow) rs" and "list_all (obs_fits \<circ> observationFromRow) rs'"
  shows "map (obs_key \<circ> observationFromRow) rs = map (obs_key \<circ> observationFromRow) rs' \<or>
    (\<exists>a b. find_collision sha256 CanonicalRow genesis (map observationFromRow (rev rs)) (map observationFromRow (rev rs')) =
        Some (a, b) \<and> a \<noteq> b \<and> sha256 a = sha256 b)"
proof -
  have rev: "list_all P (rev xs) = list_all P xs" for P and xs :: "Observation list" by (auto simp: list_all_iff)
  have "map obs_key (map observationFromRow (rev rs)) = map obs_key (map observationFromRow (rev rs')) \<longleftrightarrow>
      rev (map (obs_key \<circ> observationFromRow) rs) = rev (map (obs_key \<circ> observationFromRow) rs')"
    by (simp add: rev_map)
  then have keys: "map obs_key (map observationFromRow (rev rs)) = map obs_key (map observationFromRow (rev rs')) \<longleftrightarrow>
      map (obs_key \<circ> observationFromRow) rs = map (obs_key \<circ> observationFromRow) rs'"
    by (simp only: rev_is_rev_conv)
  show ?thesis
    using equal_heads_equal_ledgers [OF assms(1-3)] assms(4,5)
    unfolding keys by (auto simp: rev_map rev list.pred_map split: option.splits)
qed

theorem ledger_is_tamper_evident_witness:
  "map (obs_key \<circ> observationFromRow) [demo_row 1] = map (obs_key \<circ> observationFromRow) [demo_row 2] \<or>
    (\<exists>a b. a \<noteq> b \<and> sha256 a = sha256 b)"
  using ledger_is_tamper_evident [OF demo_row_links [of 1 1] demo_row_links [of 2 1]] demo_row_fits by auto

section \<open>Scheduling and leases\<close>



text \<open>A degraded remote is never polled: the query for due remotes asks for the status
  \<open>active\<close>, so once a failed sync has set \<open>degraded\<close>, no poll selects the remote again, however long
  ago it was synced.\<close>

theorem degraded_remote_is_not_polled:
  assumes "db_ok (w_db w)" and "find (\<lambda>r. Rrem_ID r = rid) (t_remotes (w_db w)) = Some row"
    and "Rrem_Status row = RemoteDegraded"
  shows "\<exists>rids w'. poll_select leaseStore concurrency w = (Inr rids, w') \<and> rid \<notin> set rids"
  using poll_select_total [of leaseStore concurrency w] degraded_not_due [OF assms] by blast

theorem degraded_remote_is_not_polled_witness:
  "\<exists>rids w'. poll_select leaseStore 4 (demo_world demo_degraded) = (Inr rids, w') \<and> 1 \<notin> set rids"
  by (rule degraded_remote_is_not_polled [of _ 1 "demo_remote\<lparr>Rrem_Status := RemoteDegraded\<rparr>"])
    (simp_all add: demo_degraded_ok, simp_all add: demo_degraded_def demo_remote_def)

text \<open>C34: leases exclude each other: as long as a lease is not given back, the next lease of the
  same remote begins only after the first has expired.\<close>

theorem leases_are_exclusive:
  assumes "dbLease_AcquireRemoteLease leaseStore rid h1 ttl w = (Inr l1, w1)"
    and "db_ok (w_db w2)" and "set (t_lease (w_db w1)) \<subseteq> set (t_lease (w_db w2))"
    and "dbLease_AcquireRemoteLease leaseStore rid h2 ttl2 w2 = (Inr l2, w3)"
  shows "lse_ExpiresAtNS l1 < lse_AcquiredAtNS l2"
  using assms by (rule Acquire_exclusive)

theorem leases_are_exclusive_witness:
  "\<exists>l1 w1 l2 w3. dbLease_AcquireRemoteLease leaseStore 1 ''a'' 10 (demo_world demo_db) = (Inr l1, w1) \<and>
     dbLease_AcquireRemoteLease leaseStore 1 ''b'' 10 (w1\<lparr>w_clock := \<lambda>_. 5000\<rparr>) = (Inr l2, w3) \<and>
     lse_ExpiresAtNS l1 < lse_AcquiredAtNS l2"
proof -
  obtain l1 w1 where 1: "dbLease_AcquireRemoteLease leaseStore 1 ''a'' 10 (demo_world demo_db) = (Inr l1, w1)"
    "w_db w1 = demo_db\<lparr>t_lease := [demo_lease]\<rparr>" "\<And>n. \<not> w_fault w1 n"
    by (rule demo_acquire) blast
  let ?w2 = "w1\<lparr>w_clock := \<lambda>_. 5000\<rparr>"
  obtain l2 w3 where 2: "dbLease_AcquireRemoteLease leaseStore 1 ''b'' 10 ?w2 = (Inr l2, w3)"
    using demo_reacquire [of ?w2] 1 by auto
  have "lse_ExpiresAtNS l1 < lse_AcquiredAtNS l2"
    by (rule leases_are_exclusive [OF 1(1) _ _ 2]) (simp_all add: 1(2) demo_leased_ok)
  with 1 2 show ?thesis by blast
qed

text \<open>Releasing a lease is a compare-and-swap on the chain head: if the head is neither the
  one seen at acquisition nor the one to be stored, the release fails, with \<open>ErrChainCAS\<close> unless a
  statement fails first, and changes nothing.\<close>

theorem release_compares_heads:
  assumes "find (\<lambda>r. Rrem_ID r = lse_RemoteID l) (t_remotes (w_db w)) = Some row"
    and "Rrem_ChainHeadHash row \<noteq> lse_ChainHeadAtLease l" and "Rrem_ChainHeadHash row \<noteq> h"
  shows "\<exists>e w'. dbLease_Release leaseStore (Some l) h n w = (Inl e, w') \<and> w_db w' = w_db w \<and> (no_faults w \<longrightarrow> e = ErrChainCAS)"
  using assms by (rule Release_cas)

theorem release_compares_heads_witness:
  "\<exists>w'. dbLease_Release leaseStore (Some \<lparr>lse_RemoteID = 1, lse_Holder = ''a'', lse_AcquiredAtNS = 0, lse_ExpiresAtNS = 9,
      lse_ChainHeadAtLease = [1]\<rparr>) [2] 7 (demo_world demo_db) = (Inl ErrChainCAS, w') \<and> w_db w' = demo_db"
proof -
  have "Rrem_ChainHeadHash demo_remote \<noteq> [1]" "Rrem_ChainHeadHash demo_remote \<noteq> [2]"
    by (simp_all add: demo_remote_def genesis_def ChainHashLen_def numeral_eq_Suc)
  then show ?thesis
    using release_compares_heads [of "\<lparr>lse_RemoteID = 1, lse_Holder = ''a'', lse_AcquiredAtNS = 0, lse_ExpiresAtNS = 9,
      lse_ChainHeadAtLease = [1]\<rparr>" "demo_world demo_db" demo_remote "[2]" 7] by (auto simp: demo_find)
qed

section \<open>Concurrent administration\<close>



text \<open>Forced syncs are rate limited: for requests at times in order (nanoseconds below 2^62),
  two syncs started for one remote are at least \<open>minForcedSyncInterval\<close> apart.\<close>

theorem forced_syncs_are_spaced:
  assumes "sorted (map snd reqs)" and "\<forall>t \<in> snd ` set reqs. 0 \<le> t \<and> t < 2 ^ 62"
  shows "spaced (startsOf i (forcedRuns reqs Map.empty))"
proof -
  have "spaced (startsOf i (forcedRuns reqs Map.empty)) \<and>
    (case (Map.empty i, startsOf i (forcedRuns reqs Map.empty)) of
       (Some t, u # _) \<Rightarrow> t + minForcedSyncInterval \<le> u | _ \<Rightarrow> True)"
    by (rule forcedRuns_spaced) (use assms in auto)
  then show ?thesis by simp
qed

theorem forced_syncs_are_spaced_witness:
  "startsOf 1 (forcedRuns [(1, 5), (1, 6), (2, 7), (1, 40000000000)] Map.empty) = [5, 40000000000] \<and>
   spaced (startsOf 1 (forcedRuns [(1, 5), (1, 6), (2, 7), (1, 40000000000)] Map.empty))"
  using forced_syncs_are_spaced [of "[(1, 5), (1, 6), (2, 7), (1, 40000000000)]" 1]
  by (simp add: startsOf_def allowForcedSync_def minForcedSyncInterval_def wrap64_id in_int64_def)

section \<open>The store\<close>

text \<open>Pages are complete: following the cursors of \<open>ListTaintEvents\<close> until a page is empty yields
  every event of the remote exactly once, in the order of the ids, for every positive page size.\<close>

theorem pages_are_complete:
  assumes "db_ok d" and "0 < limit" and "length (t_taint_events d) < fuel"
  shows "all_pages fuel (taintPage d rid limit) 0 =
    Some (map taintEventFromRow (sort_key Rte_ID (filter (\<lambda>r. Rte_RemoteID r = rid) (t_taint_events d))))"
  using assms by (rule all_taint_events)

theorem pages_are_complete_witness:
  "all_pages 3 (taintPage demo_events 1 1) 0 = Some (map taintEventFromRow [demo_event 1, demo_event 2])"
  using pages_are_complete [of demo_events 1 3 1]
  by (simp add: demo_events_ok) (simp add: demo_events_def demo_event_def)

text \<open>Transactions are atomic: a transaction that fails, in its body or at its commit, leaves the
  database as it was; one that succeeds installs exactly what its body made of the database it
  started from, and then the foreign key that is checked at the commit holds.\<close>

theorem transactions_are_atomic:
  "case sqliteStore_WithTx fn w of
     (Inl e, w') \<Rightarrow> w_db w' = w_db w
   | (Inr r, w') \<Rightarrow> sync_fk_ok (w_db w') \<and>
       (\<exists>w1 w2. w_db w1 = \<lparr>stx_q = w_db w, stx_syncID = 0\<rparr> \<and> fn sqliteTx_Tx w1 = (Inr r, w2) \<and> w_db w' = stx_q (w_db w2))"
proof (cases "sqliteStore_WithTx fn w")
  case (Pair x w')
  show ?thesis
  proof (cases x)
    case (Inl e)
    then show ?thesis using Pair WithTx_Inl [of fn w e w'] by simp
  next
    case (Inr r)
    from Pair [unfolded Inr] obtain w1 w2 where "w_db w1 = \<lparr>stx_q = w_db w, stx_syncID = 0\<rparr>"
      "fn sqliteTx_Tx w1 = (Inr r, w2)" "w_db w' = stx_q (w_db w2)" "sync_fk_ok (w_db w')"
      by (rule WithTx_Inr)
    then show ?thesis using Pair Inr by auto
  qed
qed

end
